(* ===== verification/Prelude.thy ===== *)
theory Prelude
  imports Complex_Main "HOL-Library.Char_ord" "HOL-Library.List_Lexorder"
begin

text \<open>
  Shared foundations of the development: the JavaScript values and string operations the
  modelled TypeScript uses, results with an error side, and the list facts several components
  rely on. Strings are lists of code units; a code unit is a \<open>char\<close> here, so the model covers
  the code units 0 to 255.
\<close>

named_theorems js_defs "definitions of the JavaScript operations of the prelude"

subsection \<open>Values\<close>

text \<open>
  A JavaScript value of type \<open>unknown\<close>. \<open>JNum\<close> is a finite number. An object lists its own
  enumerable properties in order, an array its elements. \<open>JDate\<close> is a valid \<open>Date\<close>, given by
  its ISO string. \<open>JOther\<close> is any other value, given by what \<open>String(value)\<close> returns.
\<close>

datatype jsval =
    JUndef
  | JNull
  | JBool bool
  | JNum rat
  | JStr string
  | JArr "jsval list"
  | JObj "(string \<times> jsval) list"
  | JDate string
  | JOther string

text \<open>Property access \<open>v.key\<close> on a value that is known to be an object: a missing property is
  \<open>undefined\<close>. An array has no string-named property of the names the code reads.\<close>

fun js_get :: "jsval \<Rightarrow> string \<Rightarrow> jsval" where
  "js_get (JObj ps) k = (case map_of ps k of Some v \<Rightarrow> v | None \<Rightarrow> JUndef)"
| "js_get _ k = JUndef"

fun js_is_string :: "jsval \<Rightarrow> bool" where
  "js_is_string (JStr s) = True"
| "js_is_string _ = False"

fun js_string_of :: "jsval \<Rightarrow> string" where
  "js_string_of (JStr s) = s"
| "js_string_of _ = []"

fun js_is_number :: "jsval \<Rightarrow> bool" where
  "js_is_number (JNum n) = True"
| "js_is_number _ = False"

fun js_number_of :: "jsval \<Rightarrow> rat" where
  "js_number_of (JNum n) = n"
| "js_number_of _ = 0"

fun js_is_bool :: "jsval \<Rightarrow> bool" where
  "js_is_bool (JBool b) = True"
| "js_is_bool _ = False"

fun js_bool_of :: "jsval \<Rightarrow> bool" where
  "js_bool_of (JBool b) = b"
| "js_bool_of _ = False"

lemma js_is_string_iff: "js_is_string v \<longleftrightarrow> (\<exists>s. v = JStr s)"
  by (cases v) auto

lemma js_is_number_iff: "js_is_number v \<longleftrightarrow> (\<exists>n. v = JNum n)"
  by (cases v) auto

lemma js_is_bool_iff: "js_is_bool v \<longleftrightarrow> (\<exists>b. v = JBool b)"
  by (cases v) auto

lemmas js_typeof_iffs = js_is_string_iff js_is_number_iff js_is_bool_iff

subsection \<open>Results with an error side\<close>

definition bindE :: "'e + 'a \<Rightarrow> ('a \<Rightarrow> 'e + 'b) \<Rightarrow> 'e + 'b" where
  "bindE r f = (case r of Inl e \<Rightarrow> Inl e | Inr x \<Rightarrow> f x)"

definition guardE :: "bool \<Rightarrow> 'e \<Rightarrow> 'e + unit" where
  "guardE b e = (if b then Inr () else Inl e)"

lemma bindE_simps [simp]: "bindE (Inl e) f = Inl e" "bindE (Inr x) f = f x"
  by (simp_all add: bindE_def)

lemma bindE_Inr_iff [simp]: "bindE r f = Inr y \<longleftrightarrow> (\<exists>x. r = Inr x \<and> f x = Inr y)"
  by (cases r) auto

lemma Inr_bindE_iff [simp]: "Inr y = bindE r f \<longleftrightarrow> (\<exists>x. r = Inr x \<and> f x = Inr y)"
  by (cases r) auto

lemma guardE_Inr_iff [simp]: "guardE b e = Inr u \<longleftrightarrow> b"
  by (simp add: guardE_def)

lemma guardE_Inl_iff [simp]: "guardE b e = Inl e' \<longleftrightarrow> \<not> b \<and> e' = e"
  by (auto simp: guardE_def)

lemma bindE_guardE_True [simp]: "b \<Longrightarrow> bindE (guardE b e) f = f ()"
  by (simp add: guardE_def)

lemma bindE_guardE_False: "\<not> b \<Longrightarrow> bindE (guardE b e) f = Inl e"
  by (simp add: guardE_def)

lemma map_sum_eq_Inr: "map_sum id f r = Inr y \<longleftrightarrow> (\<exists>x. r = Inr x \<and> y = f x)"
  by (cases r) auto

lemma map_sum_eq_Inl: "map_sum id f r = Inl e \<longleftrightarrow> r = Inl e"
  by (cases r) auto

subsection \<open>Strings\<close>

text \<open>The white space that \<open>trim\<close> removes, among the code units 0 to 255.\<close>

definition js_is_space :: "char \<Rightarrow> bool" where
  "js_is_space c \<longleftrightarrow> of_char c \<in> {9, 10, 11, 12, 13, 32, 160 :: nat}"

definition js_trimStart :: "string \<Rightarrow> string" where
  "js_trimStart s = dropWhile js_is_space s"

definition js_trimEnd :: "string \<Rightarrow> string" where
  "js_trimEnd s = rev (dropWhile js_is_space (rev s))"

definition js_trim :: "string \<Rightarrow> string" where
  "js_trim s = js_trimEnd (js_trimStart s)"

text \<open>\<open>s.split(c)\<close> for a separator of one code unit, and \<open>parts.join(sep)\<close>.\<close>

fun js_split :: "char \<Rightarrow> string \<Rightarrow> string list" where
  "js_split c [] = [[]]"
| "js_split c (x # xs) =
     (if x = c then [] # js_split c xs
      else (case js_split c xs of [] \<Rightarrow> [[x]] | p # ps \<Rightarrow> (x # p) # ps))"

fun js_join :: "string \<Rightarrow> string list \<Rightarrow> string" where
  "js_join sep [] = []"
| "js_join sep [p] = p"
| "js_join sep (p # q # ps) = p @ sep @ js_join sep (q # ps)"

definition js_is_digit :: "char \<Rightarrow> bool" where
  "js_is_digit c \<longleftrightarrow> (48 :: nat) \<le> of_char c \<and> of_char c \<le> (57 :: nat)"

definition js_is_lower :: "char \<Rightarrow> bool" where
  "js_is_lower c \<longleftrightarrow> (97 :: nat) \<le> of_char c \<and> of_char c \<le> (122 :: nat)"

definition js_is_upper :: "char \<Rightarrow> bool" where
  "js_is_upper c \<longleftrightarrow> (65 :: nat) \<le> of_char c \<and> of_char c \<le> (90 :: nat)"

definition js_is_alpha :: "char \<Rightarrow> bool" where
  "js_is_alpha c \<longleftrightarrow> js_is_lower c \<or> js_is_upper c"

definition js_is_alnum :: "char \<Rightarrow> bool" where
  "js_is_alnum c \<longleftrightarrow> js_is_alpha c \<or> js_is_digit c"

text \<open>\<open>toLowerCase\<close> on the code units 0 to 255: ASCII letters, and the upper-case letters of the
  Latin-1 block (all of 192 to 222 but the multiplication sign 215).\<close>

definition js_lower_char :: "char \<Rightarrow> char" where
  "js_lower_char c =
     (if js_is_upper c \<or> ((192 :: nat) \<le> of_char c \<and> of_char c \<le> (222 :: nat)
                          \<and> of_char c \<noteq> (215 :: nat))
      then char_of (of_char c + (32 :: nat)) else c)"

definition js_toLowerCase :: "string \<Rightarrow> string" where
  "js_toLowerCase s = map js_lower_char s"

fun js_startsWith :: "string \<Rightarrow> string \<Rightarrow> bool" where
  "js_startsWith s [] = True"
| "js_startsWith [] (p # ps) = False"
| "js_startsWith (x # xs) (p # ps) = (x = p \<and> js_startsWith xs ps)"

definition js_endsWith :: "string \<Rightarrow> string \<Rightarrow> bool" where
  "js_endsWith s p = js_startsWith (rev s) (rev p)"

text \<open>\<open>s.includes(p)\<close> on strings.\<close>

fun js_includes :: "string \<Rightarrow> string \<Rightarrow> bool" where
  "js_includes [] p = (p = [])"
| "js_includes (x # xs) p = (js_startsWith (x # xs) p \<or> js_includes xs p)"

text \<open>Decimal digits of a natural number, as \<open>String(n)\<close> prints an integer below \<open>10 ^ 21\<close>.\<close>

definition digit_char :: "nat \<Rightarrow> char" where
  "digit_char n = char_of (48 + n)"

fun nat_to_string :: "nat \<Rightarrow> string" where
  "nat_to_string n =
     (if n < 10 then [digit_char n] else nat_to_string (n div 10) @ [digit_char (n mod 10)])"

declare nat_to_string.simps [simp del]

definition int_to_string :: "int \<Rightarrow> string" where
  "int_to_string i = (if i < 0 then CHR ''-'' # nat_to_string (nat (- i)) else nat_to_string (nat i))"

text \<open>The class \<open>\w\<close> of regular expressions.\<close>

definition word_char :: "char \<Rightarrow> bool" where
  "word_char c \<longleftrightarrow> js_is_alnum c \<or> c = CHR ''_''"

text \<open>The number a run of decimal digits denotes.\<close>

definition digits_value :: "string \<Rightarrow> nat" where
  "digits_value s = foldl (\<lambda>n c. 10 * n + (of_char c - 48)) 0 s"

text \<open>Truthiness. Of the values of \<open>JOther\<close>, NaN and the bigint zero are falsy.\<close>

fun js_truthy :: "jsval \<Rightarrow> bool" where
  "js_truthy JUndef = False"
| "js_truthy JNull = False"
| "js_truthy (JBool b) = b"
| "js_truthy (JNum n) = (n \<noteq> 0)"
| "js_truthy (JStr s) = (s \<noteq> [])"
| "js_truthy (JOther s) = (s \<noteq> ''NaN'' \<and> s \<noteq> ''0'')"
| "js_truthy _ = True"

lemmas [js_defs] = js_is_space_def js_trimStart_def js_trimEnd_def js_trim_def js_is_digit_def
  js_is_lower_def js_is_upper_def js_is_alpha_def js_is_alnum_def

subsection \<open>Facts about strings and lists\<close>

lemma js_split_not_Nil [simp]: "js_split c s \<noteq> []"
  by (induction s) (auto split: list.splits)

lemma js_join_Cons: "ps \<noteq> [] \<Longrightarrow> js_join sep (p # ps) = p @ sep @ js_join sep ps"
  by (cases ps) auto

lemma js_join_split [simp]: "js_join [c] (js_split c s) = s"
proof (induction s)
  case Nil
  show ?case by simp
next
  case (Cons x xs)
  obtain p ps where sp: "js_split c xs = p # ps"
    by (cases "js_split c xs") auto
  with Cons.IH show ?case
    by (cases ps) (auto simp: js_join_Cons)
qed

lemma js_split_no_sep: "c \<notin> set s \<Longrightarrow> js_split c s = [s]"
  by (induction s) auto

lemma js_split_append:
  "c \<notin> set p \<Longrightarrow> js_split c (p @ c # s) = p # js_split c s"
  by (induction p) auto

lemma js_split_join:
  "ps \<noteq> [] \<Longrightarrow> \<forall>p \<in> set ps. c \<notin> set p \<Longrightarrow> js_split c (js_join [c] ps) = ps"
proof (induction ps)
  case (Cons p ps)
  then show ?case
    by (cases ps) (auto simp: js_split_no_sep js_split_append)
qed simp

lemma js_split_sep_free: "p \<in> set (js_split c s) \<Longrightarrow> c \<notin> set p"
proof (induction s arbitrary: p)
  case (Cons x xs)
  obtain q qs where sp: "js_split c xs = q # qs"
    by (cases "js_split c xs") auto
  with Cons show ?case by (auto split: if_splits)
qed simp

lemma js_split_chars: "p \<in> set (js_split c s) \<Longrightarrow> set p \<subseteq> set s"
proof (induction s arbitrary: p)
  case (Cons x xs)
  obtain q qs where sp: "js_split c xs = q # qs"
    by (cases "js_split c xs") auto
  with Cons show ?case by (fastforce split: if_splits)
qed simp

lemma js_startsWith_append [simp]: "js_startsWith (p @ s) p"
  by (induction p) auto

lemma js_startsWith_iff: "js_startsWith s p \<longleftrightarrow> (\<exists>r. s = p @ r)"
  by (induction s p rule: js_startsWith.induct) auto

lemma js_endsWith_iff: "js_endsWith s p \<longleftrightarrow> (\<exists>r. s = r @ p)"
proof -
  have "(\<exists>r. rev s = rev p @ r) \<longleftrightarrow> (\<exists>r. s = r @ p)"
    by (metis rev_append rev_rev_ident)
  then show ?thesis by (simp add: js_endsWith_def js_startsWith_iff)
qed

lemma js_includes_append: "js_startsWith s p \<Longrightarrow> js_includes s p"
  by (cases s) (auto simp: js_startsWith_iff)

lemma js_includes_iff: "js_includes s p \<longleftrightarrow> (\<exists>u r. s = u @ p @ r)"
proof (induction s)
  case (Cons x xs)
  have "(\<exists>u r. x # xs = u @ p @ r) \<longleftrightarrow> (\<exists>r. x # xs = p @ r) \<or> (\<exists>u r. xs = u @ p @ r)"
    (is "?l \<longleftrightarrow> ?a \<or> ?b")
  proof
    assume ?l
    then obtain u r where "x # xs = u @ p @ r" by blast
    then show "?a \<or> ?b" by (cases u) auto
  next
    assume "?a \<or> ?b"
    then show ?l by (metis append_Cons append_Nil)
  qed
  with Cons show ?case by (simp add: js_startsWith_iff)
qed auto

lemma dropWhile_idem [simp]: "dropWhile P (dropWhile P xs) = dropWhile P xs"
  by (induction xs) auto

lemma js_trim_ends: "js_trim s = t \<Longrightarrow> t = [] \<or> (\<not> js_is_space (hd t) \<and> \<not> js_is_space (last t))"
proof -
  assume "js_trim s = t"
  let ?a = "dropWhile js_is_space s"
  let ?b = "dropWhile js_is_space (rev ?a)"
  have t: "t = rev ?b" using \<open>js_trim s = t\<close> by (simp add: js_trim_def js_trimEnd_def js_trimStart_def)
  show ?thesis
  proof (cases "t = []")
    case False
    then have b: "?b \<noteq> []" using t by simp
    then have l: "\<not> js_is_space (last t)" using t hd_dropWhile [OF b] by (simp add: last_rev)
    obtain u where "rev ?a = u @ ?b" by (metis takeWhile_dropWhile_id)
    then have "?a = t @ rev u" using t by (metis rev_append rev_rev_ident)
    moreover from this False have "?a \<noteq> []" by auto
    ultimately have "\<not> js_is_space (hd t)" using False hd_dropWhile [of js_is_space s] by simp
    with l show ?thesis by simp
  qed simp
qed

lemma js_trim_id: "s = [] \<or> (\<not> js_is_space (hd s) \<and> \<not> js_is_space (last s)) \<Longrightarrow> js_trim s = s"
proof (cases "s = []")
  case False
  assume "s = [] \<or> (\<not> js_is_space (hd s) \<and> \<not> js_is_space (last s))"
  with False have h: "\<not> js_is_space (hd s)" and l: "\<not> js_is_space (hd (rev s))"
    by (simp_all add: hd_rev)
  from False h have "dropWhile js_is_space s = s" by (cases s) auto
  moreover from False l have "dropWhile js_is_space (rev s) = rev s" by (cases "rev s") auto
  ultimately show ?thesis by (simp add: js_trim_def js_trimEnd_def js_trimStart_def)
qed (simp add: js_trim_def js_trimEnd_def js_trimStart_def)

lemma js_trim_idem [simp]: "js_trim (js_trim s) = js_trim s"
  by (rule js_trim_id) (use js_trim_ends in blast)

lemma nat_to_string_not_Nil [simp]: "nat_to_string n \<noteq> []"
  by (subst nat_to_string.simps) simp

lemma digit_char_is_digit: "n < 10 \<Longrightarrow> js_is_digit (digit_char n)"
  unfolding js_is_digit_def digit_char_def of_char_of by simp

lemma nat_to_string_digits: "\<forall>c \<in> set (nat_to_string n). js_is_digit c"
proof (induction n rule: nat_to_string.induct)
  case (1 n)
  show ?case
  proof (cases "n < 10")
    case True
    then show ?thesis by (subst nat_to_string.simps) (simp add: digit_char_is_digit)
  next
    case False
    with 1 show ?thesis
      by (subst nat_to_string.simps) (auto simp: digit_char_is_digit)
  qed
qed

lemma digits_value_snoc: "digits_value (s @ [c]) = 10 * digits_value s + (of_char c - 48)"
  by (simp add: digits_value_def)

lemma digits_value_nat_to_string: "digits_value (nat_to_string n) = n"
proof (induction n rule: nat_to_string.induct)
  case (1 n)
  have d: "(of_char (digit_char m) :: nat) - 48 = m" if "m < 10" for m
    unfolding digit_char_def of_char_of using that by simp
  show ?case
  proof (cases "n < 10")
    case True
    then show ?thesis by (subst nat_to_string.simps) (simp add: digits_value_def d)
  next
    case False
    with 1 have "digits_value (nat_to_string (n div 10)) = n div 10" by simp
    with False show ?thesis
      by (subst nat_to_string.simps) (simp add: digits_value_snoc d)
  qed
qed

lemma js_trim_length: "length (js_trim s) \<le> length s"
proof -
  have "length (dropWhile P t) \<le> length t" for P and t :: string by (rule length_dropWhile_le)
  then show ?thesis
    unfolding js_trim_def js_trimEnd_def js_trimStart_def by (metis length_rev order_trans)
qed

end
