(* ===== verification/Release.thy ===== *)
theory Release
  imports Prelude
begin

text \<open>
  The update contract shared by the updater and its clients (packages/shared/src/update.ts):
  release channels, the release manifest, the phases of an update and the persisted update
  status.
\<close>

datatype releaseChannel = Stable | Beta | Nightly

definition releaseChannels :: "releaseChannel list" where
  "releaseChannels = [Stable, Beta, Nightly]"

fun channelName :: "releaseChannel \<Rightarrow> string" where
  "channelName Stable = ''stable''"
| "channelName Beta = ''beta''"
| "channelName Nightly = ''nightly''"

record releaseImage =
  repository :: string
  tag :: string
  digest :: string

record releaseCompose =
  composeUrl :: string
  composeSha256 :: string

record releaseImages =
  apiImage :: releaseImage
  adminImage :: releaseImage
  workerImage :: releaseImage
  updaterImage :: releaseImage

record releaseMigrations =
  migRequired :: bool
  migFrom :: rat
  migTo :: rat
  requiresBackup :: bool
  reversible :: bool

text \<open>The fields \<open>schemaVersion\<close> and \<open>product\<close> have the literal types 1 and \<open>'druvia'\<close>, so the
  record leaves them out; \<open>manifestJson\<close> below writes them.\<close>

record releaseManifest =
  version :: string
  channel :: releaseChannel
  createdAt :: string
  minUpdaterVersion :: string
  releaseNotesUrl :: string
  compose :: releaseCompose
  images :: releaseImages
  migrations :: releaseMigrations

datatype updatePhase =
    Idle | Checking | Available | Downloading | ReadyToApply | Applying
  | Restarting | Verifying | Finalizing | Succeeded | Failed | RolledBack

definition mutatingUpdatePhases :: "updatePhase list" where
  "mutatingUpdatePhases = [Checking, Downloading, Applying, Restarting, Verifying, Finalizing]"

definition isMutatingPhase :: "updatePhase \<Rightarrow> bool" where
  "isMutatingPhase p \<longleftrightarrow> p \<in> set mutatingUpdatePhases"

lemma isMutatingPhase_simps [simp]:
  "\<not> isMutatingPhase Idle" "isMutatingPhase Checking" "\<not> isMutatingPhase Available"
  "isMutatingPhase Downloading" "\<not> isMutatingPhase ReadyToApply" "isMutatingPhase Applying"
  "isMutatingPhase Restarting" "isMutatingPhase Verifying" "isMutatingPhase Finalizing"
  "\<not> isMutatingPhase Succeeded" "\<not> isMutatingPhase Failed" "\<not> isMutatingPhase RolledBack"
  by (simp_all add: isMutatingPhase_def mutatingUpdatePhases_def)

datatype applyStage = PreparingBackup | BackupReady | FilesSwitched | RollingBack

record appliedBackup =
  backupOperation :: string
  targetVersion :: string

record updateError =
  errCode :: string
  errMessage :: string

text \<open>The persisted status. An optional or nullable field is an \<open>option\<close>: the code never tells
  a missing field from \<open>null\<close>.\<close>

record updateStatus =
  enabled :: bool
  phase :: updatePhase
  currentVersion :: string
  availableVersion :: "string option"
  statusChannel :: releaseChannel
  statusNotesUrl :: "string option"
  migration :: "releaseMigrations option"
  operationId :: "string option"
  applyStage :: "applyStage option"
  rollbackBackupOperationId :: "string option"
  lastAppliedBackup :: "appliedBackup option"
  startedAt :: "string option"
  finishedAt :: "string option"
  message :: "string option"
  error :: "updateError option"

text \<open>state.ts, \<open>createDefaultUpdateStatus\<close>.\<close>

definition createDefaultUpdateStatus :: "string \<Rightarrow> releaseChannel \<Rightarrow> updateStatus" where
  "createDefaultUpdateStatus cv ch =
     \<lparr>enabled = True, phase = Idle, currentVersion = cv, availableVersion = None,
      statusChannel = ch, statusNotesUrl = None, migration = None, operationId = None,
      applyStage = None, rollbackBackupOperationId = None, lastAppliedBackup = None,
      startedAt = None, finishedAt = None, message = None, error = None\<rparr>"

text \<open>The JSON value \<open>writeJsonFile\<close> stores for a manifest.\<close>

definition imageJson :: "releaseImage \<Rightarrow> jsval" where
  "imageJson i = JObj [(''repository'', JStr (repository i)), (''tag'', JStr (tag i)),
                       (''digest'', JStr (digest i))]"

definition manifestJson :: "releaseManifest \<Rightarrow> jsval" where
  "manifestJson m = JObj
     [(''schemaVersion'', JNum 1), (''product'', JStr ''druvia''),
      (''version'', JStr (version m)), (''channel'', JStr (channelName (channel m))),
      (''createdAt'', JStr (createdAt m)), (''minUpdaterVersion'', JStr (minUpdaterVersion m)),
      (''releaseNotesUrl'', JStr (releaseNotesUrl m)),
      (''compose'', JObj [(''url'', JStr (composeUrl (compose m))),
                          (''sha256'', JStr (composeSha256 (compose m)))]),
      (''images'', JObj [(''api'', imageJson (apiImage (images m))),
                         (''admin'', imageJson (adminImage (images m))),
                         (''worker'', imageJson (workerImage (images m))),
                         (''updater'', imageJson (updaterImage (images m)))]),
      (''migrations'', JObj [(''required'', JBool (migRequired (migrations m))),
                             (''from'', JNum (migFrom (migrations m))),
                             (''to'', JNum (migTo (migrations m))),
                             (''requiresBackup'', JBool (requiresBackup (migrations m))),
                             (''reversible'', JBool (reversible (migrations m)))])]"

end
