(* ===== verification/Semver.thy ===== *)
theory Semver
  imports Prelude "HOL-Library.Extended_Nat" "HOL-Library.Product_Lexorder"
begin

text \<open>
  Version numbers of the updater (apps/updater/src/manifest.ts, \<open>parseSemver\<close>,
  \<open>comparePrerelease\<close>, \<open>compareSemver\<close>), and the total order they are shown to implement.
\<close>

subsection \<open>Errors and numbers\<close>

text \<open>\<open>UpdateManifestError\<close> carries a code; its message is \<open>code: message\<close>.\<close>

record manifestError =
  meCode :: string
  meMessage :: string

definition UpdateManifestError :: "string \<Rightarrow> string \<Rightarrow> manifestError" where
  "UpdateManifestError c m = \<lparr>meCode = c, meMessage = c @ '': '' @ m\<rparr>"

text \<open>
  \<open>Number(s)\<close> of a string of decimal digits: the double nearest to the integer, ties to even,
  or infinity from \<open>2 ^ 1024\<close> on. Below \<open>2 ^ 53\<close> it is exact.
\<close>

fun double_shift :: "nat \<Rightarrow> nat" where
  "double_shift n = (if n < 2 ^ 53 then 0 else Suc (double_shift (n div 2)))"

declare double_shift.simps [simp del]

definition round_double :: "nat \<Rightarrow> nat" where
  "round_double n =
     (let k = double_shift n; q = n div 2 ^ k; r = n mod 2 ^ k
      in if 2 * r > 2 ^ k \<or> (2 * r = 2 ^ k \<and> odd q) then (q + 1) * 2 ^ k else q * 2 ^ k)"

definition double_limit :: nat where
  "double_limit = 2 ^ 1024"

definition js_Number_digits :: "string \<Rightarrow> enat" where
  "js_Number_digits s =
     (let d = round_double (digits_value s) in if d < double_limit then enat d else \<infinity>)"

lemma round_double_exact: "n < 2 ^ 53 \<Longrightarrow> round_double n = n"
  by (simp add: round_double_def double_shift.simps)

lemma below_double_limit: "n < 2 ^ 53 \<Longrightarrow> n < double_limit"
proof -
  assume "n < 2 ^ 53"
  also have "(2 :: nat) ^ 53 < 2 ^ 1024" by (rule power_strict_increasing) simp_all
  finally show ?thesis by (simp only: double_limit_def)
qed

lemma js_Number_exact: "digits_value s < 2 ^ 53 \<Longrightarrow> js_Number_digits s = enat (digits_value s)"
  by (simp only: js_Number_digits_def Let_def round_double_exact below_double_limit if_True)

text \<open>For evaluation: the exact range is tested on integers, not on unary numbers.\<close>

lemma double_limit_int: "d < double_limit \<longleftrightarrow> int d < (2 :: int) ^ 1024"
  unfolding double_limit_def by (metis of_nat_less_numeral_power_cancel_iff)

lemma js_Number_digits_code [code]:
  "js_Number_digits s =
     (let v = digits_value s in
      if int v < 9007199254740992 then enat v
      else let d = round_double v in if int d < 2 ^ 1024 then enat d else \<infinity>)"
proof (cases "digits_value s < 2 ^ 53")
  case True
  then have "int (digits_value s) < 9007199254740992" by simp
  with True show ?thesis by (simp only: js_Number_exact Let_def if_True)
next
  case False
  then have "\<not> int (digits_value s) < 9007199254740992" by simp
  then show ?thesis by (simp only: js_Number_digits_def Let_def if_False double_limit_int)
qed

subsection \<open>Parsing\<close>

record semver =
  major :: enat
  minor :: enat
  patch :: enat
  prerelease :: "string list"

text \<open>The characters of a prerelease part, \<open>[0-9A-Za-z-]\<close>.\<close>

definition is_prerelease_char :: "char \<Rightarrow> bool" where
  "is_prerelease_char c \<longleftrightarrow> js_is_alnum c \<or> c = CHR ''-''"

definition take_digits :: "string \<Rightarrow> string \<times> string" where
  "take_digits s = (takeWhile js_is_digit s, dropWhile js_is_digit s)"

text \<open>
  \<open>SEMVER_PATTERN\<close>, \<open>/^v?(\d+)\.(\d+)\.(\d+)(?:-(P(?:\.P)*))?$/\<close> with \<open>P\<close> a non-empty run of
  \<open>[0-9A-Za-z-]\<close>: the three digit runs are maximal, since a digit is neither a dot nor a hyphen.
  The result is the capture groups 1 to 4.
\<close>

definition strip_v :: "string \<Rightarrow> string" where
  "strip_v s = (case s of c # r \<Rightarrow> if c = CHR ''v'' then r else s | [] \<Rightarrow> [])"

definition semver_match :: "string \<Rightarrow> (string \<times> string \<times> string \<times> string option) option" where
  "semver_match s =
     (let (d1, r1) = take_digits (strip_v s)
      in if d1 = [] then None
         else (case r1 of [] \<Rightarrow> None | c1 # r1' \<Rightarrow>
           if c1 \<noteq> CHR ''.'' then None
           else (let (d2, r2) = take_digits r1'
             in if d2 = [] then None
                else (case r2 of [] \<Rightarrow> None | c2 # r2' \<Rightarrow>
                  if c2 \<noteq> CHR ''.'' then None
                  else (let (d3, r3) = take_digits r2'
                    in if d3 = [] then None
                       else (case r3 of
                           [] \<Rightarrow> Some (d1, d2, d3, None)
                         | c3 # pre \<Rightarrow>
                             if c3 = CHR ''-''
                                \<and> list_all (\<lambda>p. p \<noteq> [] \<and> list_all is_prerelease_char p)
                                          (js_split (CHR ''.'') pre)
                             then Some (d1, d2, d3, Some pre) else None))))))"

definition parseSemver :: "string \<Rightarrow> manifestError + semver" where
  "parseSemver v =
     (case semver_match v of
        None \<Rightarrow> Inl (UpdateManifestError ''INVALID_SEMVER'' (''Invalid semver: '' @ v))
      | Some (d1, d2, d3, pre) \<Rightarrow>
          Inr \<lparr>major = js_Number_digits d1, minor = js_Number_digits d2,
               patch = js_Number_digits d3,
               prerelease = (case pre of Some p \<Rightarrow> js_split (CHR ''.'') p | None \<Rightarrow> [])\<rparr>)"

subsection \<open>Comparison\<close>

text \<open>\<open>/^\d+$/\<close>.\<close>

definition is_numeric_id :: "string \<Rightarrow> bool" where
  "is_numeric_id s \<longleftrightarrow> s \<noteq> [] \<and> list_all js_is_digit s"

text \<open>The loop of \<open>comparePrerelease\<close>: the index walks both lists; an exhausted list gives
  \<open>undefined\<close>. Strings compare by code units.\<close>

fun comparePrerelease_loop :: "string list \<Rightarrow> string list \<Rightarrow> int" where
  "comparePrerelease_loop [] [] = 0"
| "comparePrerelease_loop [] (r # rs) = -1"
| "comparePrerelease_loop (l # ls) [] = 1"
| "comparePrerelease_loop (l # ls) (r # rs) =
     (if l = r then comparePrerelease_loop ls rs
      else if is_numeric_id l \<and> is_numeric_id r then
        (if js_Number_digits l > js_Number_digits r then 1
         else if js_Number_digits l < js_Number_digits r then -1
         else comparePrerelease_loop ls rs)
      else if is_numeric_id l then -1
      else if is_numeric_id r then 1
      else if l > r then 1 else -1)"

definition comparePrerelease :: "string list \<Rightarrow> string list \<Rightarrow> int" where
  "comparePrerelease l r =
     (if length l = 0 \<and> length r = 0 then 0
      else if length l = 0 then 1
      else if length r = 0 then -1
      else comparePrerelease_loop l r)"

definition compareParsed :: "semver \<Rightarrow> semver \<Rightarrow> int" where
  "compareParsed a b =
     (if major a > major b then 1 else if major a < major b then -1
      else if minor a > minor b then 1 else if minor a < minor b then -1
      else if patch a > patch b then 1 else if patch a < patch b then -1
      else comparePrerelease (prerelease a) (prerelease b))"

definition compareSemver :: "string \<Rightarrow> string \<Rightarrow> manifestError + int" where
  "compareSemver l r =
     bindE (parseSemver l) (\<lambda>a. bindE (parseSemver r) (\<lambda>b. Inr (compareParsed a b)))"

subsection \<open>The order the comparison implements\<close>

text \<open>
  The specification: a prerelease identifier is a number or a string, numbers before strings; a
  version is its three numbers, then whether it is a release (releases last), then its
  identifiers in the lexicographic order.
\<close>

datatype ident = NumId enat | AlphaId string

instantiation ident :: linorder
begin

fun less_eq_ident :: "ident \<Rightarrow> ident \<Rightarrow> bool" where
  "less_eq_ident (NumId m) (NumId n) = (m \<le> n)"
| "less_eq_ident (NumId m) (AlphaId t) = True"
| "less_eq_ident (AlphaId s) (NumId n) = False"
| "less_eq_ident (AlphaId s) (AlphaId t) = (s \<le> t)"

definition less_ident :: "ident \<Rightarrow> ident \<Rightarrow> bool" where
  "less_ident a b \<longleftrightarrow> a \<le> b \<and> \<not> b \<le> (a :: ident)"

instance
proof
  fix a b c :: ident
  show "a < b \<longleftrightarrow> a \<le> b \<and> \<not> b \<le> a" by (rule less_ident_def)
  show "a \<le> a" by (cases a) auto
  show "a \<le> b \<Longrightarrow> b \<le> c \<Longrightarrow> a \<le> c" by (cases a; cases b; cases c) auto
  show "a \<le> b \<Longrightarrow> b \<le> a \<Longrightarrow> a = b" by (cases a; cases b) auto
  show "a \<le> b \<or> b \<le> a" by (cases a; cases b) auto
qed

end

lemma less_ident_simps [simp]:
  "NumId m < NumId n \<longleftrightarrow> m < n" "NumId m < AlphaId t"
  "\<not> AlphaId s < NumId n" "AlphaId s < AlphaId t \<longleftrightarrow> s < t"
  by (auto simp: less_ident_def)

definition ident_of :: "string \<Rightarrow> ident" where
  "ident_of s = (if is_numeric_id s then NumId (js_Number_digits s) else AlphaId s)"

type_synonym semver_key = "enat \<times> enat \<times> enat \<times> bool \<times> ident list"

definition key_of :: "semver \<Rightarrow> semver_key" where
  "key_of v = (major v, minor v, patch v, prerelease v = [], map ident_of (prerelease v))"

definition order_sign :: "'a::linorder \<Rightarrow> 'a \<Rightarrow> int" where
  "order_sign x y = (if x > y then 1 else if x < y then -1 else 0)"

lemma order_sign_prod:
  "order_sign (x, y) (x', y') = (if x > x' then 1 else if x < x' then -1 else order_sign y y')"
  by (auto simp: order_sign_def less_prod_def')

lemma order_sign_Cons:
  "order_sign (x # xs) (y # ys) = (if x > y then 1 else if x < y then -1 else order_sign xs ys)"
  by (auto simp: order_sign_def)

lemma order_sign_swap: "order_sign y x = - order_sign x y"
  by (auto simp: order_sign_def)

lemma order_sign_trans: "order_sign x y \<le> 0 \<Longrightarrow> order_sign y z \<le> 0 \<Longrightarrow> order_sign x z \<le> 0"
  by (auto simp: order_sign_def split: if_splits)

lemma comparePrerelease_loop_key:
  "comparePrerelease_loop l r = order_sign (map ident_of l) (map ident_of r)"
  by (induction l r rule: comparePrerelease_loop.induct)
     (auto simp: order_sign_Cons ident_of_def, auto simp: order_sign_def)

lemma compareParsed_key: "compareParsed a b = order_sign (key_of a) (key_of b)"
proof -
  have pre: "comparePrerelease l r =
    order_sign (l = [], map ident_of l) (r = [], map ident_of r)" for l r
    by (auto simp: comparePrerelease_def order_sign_prod comparePrerelease_loop_key)
       (auto simp: order_sign_def)
  show ?thesis by (simp add: compareParsed_def key_of_def order_sign_prod pre)
qed

subsection \<open>An interface: version orders\<close>

text \<open>
  What the manifest check relies on: a comparison that may fail to parse its arguments and that,
  where it succeeds, has the sign laws of a total preorder.
\<close>

locale version_order =
  fixes cmp :: "'v \<Rightarrow> 'v \<Rightarrow> 'e + int"
  assumes cmp_swap: "cmp a b = Inr s \<Longrightarrow> cmp b a = Inr (- s)"
    and cmp_trans: "cmp a b = Inr s \<Longrightarrow> cmp b c = Inr t \<Longrightarrow> s \<le> 0 \<Longrightarrow> t \<le> 0 \<Longrightarrow>
      \<exists>u. cmp a c = Inr u \<and> u \<le> 0"
    and cmp_strict: "cmp a b = Inr s \<Longrightarrow> cmp b c = Inr t \<Longrightarrow> s < 0 \<Longrightarrow> t \<le> 0 \<Longrightarrow>
      \<exists>u. cmp a c = Inr u \<and> u < 0"
begin

definition newer :: "'v \<Rightarrow> 'v \<Rightarrow> bool" where
  "newer a b \<longleftrightarrow> (\<exists>s. cmp a b = Inr s \<and> s > 0)"

lemma newer_irrefl: "\<not> newer a a"
proof
  assume "newer a a"
  then obtain s where s: "cmp a a = Inr s" "s > 0" by (auto simp: newer_def)
  from cmp_swap [OF s(1)] s show False by simp
qed

lemma newer_trans: "newer a b \<Longrightarrow> newer b c \<Longrightarrow> newer a c"
proof -
  assume "newer a b" "newer b c"
  then obtain s t where "cmp a b = Inr s" "s > 0" "cmp b c = Inr t" "t > 0"
    by (auto simp: newer_def)
  then have "cmp c b = Inr (- t)" "cmp b a = Inr (- s)" "- t < 0" "- s \<le> 0"
    using cmp_swap by auto
  from cmp_strict [OF this] obtain u where u: "cmp c a = Inr u" "u < 0" by auto
  from cmp_swap [OF u(1)] u(2) show ?thesis by (auto simp: newer_def)
qed

lemma newer_asym: "newer a b \<Longrightarrow> \<not> newer b a"
  using newer_trans newer_irrefl by blast

text \<open>A chain of steps, each to a newer version, ends newer than it began.\<close>

lemma newer_chain: "vs \<noteq> [] \<Longrightarrow> successively (\<lambda>a b. newer b a) (v # vs) \<Longrightarrow> newer (last vs) v"
proof (induction vs arbitrary: v)
  case (Cons w ws)
  then have wv: "newer w v" by simp
  show ?case
  proof (cases "ws = []")
    case False
    with Cons have "newer (last ws) w" by (cases ws) auto
    with wv False show ?thesis by (auto intro: newer_trans)
  qed (use wv in simp)
qed simp

end

lemma compareSemver_Inr_iff:
  "compareSemver l r = Inr s \<longleftrightarrow>
     (\<exists>a b. parseSemver l = Inr a \<and> parseSemver r = Inr b \<and> s = order_sign (key_of a) (key_of b))"
  by (auto simp: compareSemver_def compareParsed_key)

interpretation semver: version_order compareSemver
proof unfold_locales
  fix a b c s t
  assume ab: "compareSemver a b = Inr s"
  then show "compareSemver b a = Inr (- s)"
    unfolding compareSemver_Inr_iff by (metis order_sign_swap)
  assume bc: "compareSemver b c = Inr t"
  from ab bc obtain x y z where p: "parseSemver a = Inr x" "parseSemver b = Inr y"
    "parseSemver c = Inr z" and s: "s = order_sign (key_of x) (key_of y)"
    and t: "t = order_sign (key_of y) (key_of z)"
    by (auto simp: compareSemver_Inr_iff)
  from p have ac: "compareSemver a c = Inr (order_sign (key_of x) (key_of z))"
    by (auto simp: compareSemver_Inr_iff)
  show "s \<le> 0 \<Longrightarrow> t \<le> 0 \<Longrightarrow> \<exists>u. compareSemver a c = Inr u \<and> u \<le> 0"
    using order_sign_trans s t ac by blast
  show "s < 0 \<Longrightarrow> t \<le> 0 \<Longrightarrow> \<exists>u. compareSemver a c = Inr u \<and> u < 0"
    using s t ac by (auto simp: order_sign_def split: if_splits)
qed

subsection \<open>Printing a version and reading it back\<close>

lemma js_Number_nat_to_string: "n < 2 ^ 53 \<Longrightarrow> js_Number_digits (nat_to_string n) = enat n"
  by (simp only: js_Number_exact digits_value_nat_to_string)

lemma take_digits_append:
  "\<forall>c \<in> set d. js_is_digit c \<Longrightarrow> r = [] \<or> \<not> js_is_digit (hd r) \<Longrightarrow> take_digits (d @ r) = (d, r)"
  by (cases r) (auto simp: take_digits_def takeWhile_append dropWhile_append)

definition valid_prerelease :: "string list \<Rightarrow> bool" where
  "valid_prerelease ps \<longleftrightarrow> list_all (\<lambda>p. p \<noteq> [] \<and> list_all is_prerelease_char p) ps"

definition show_semver :: "nat \<Rightarrow> nat \<Rightarrow> nat \<Rightarrow> string list \<Rightarrow> string" where
  "show_semver a b c ps =
     nat_to_string a @ ''.'' @ nat_to_string b @ ''.'' @ nat_to_string c
     @ (if ps = [] then [] else ''-'' @ js_join ''.'' ps)"

lemma dot_hyphen_not_digit: "\<not> js_is_digit (CHR ''.'')" "\<not> js_is_digit (CHR ''-'')"
  by (simp_all add: js_is_digit_def)

lemma valid_prerelease_no_dot: "valid_prerelease ps \<Longrightarrow> p \<in> set ps \<Longrightarrow> CHR ''.'' \<notin> set p"
  by (auto simp: valid_prerelease_def list_all_iff is_prerelease_char_def js_is_alnum_def
      js_is_alpha_def js_is_lower_def js_is_upper_def js_is_digit_def dest!: bspec)

text \<open>
  Reading back a printed version: for numbers below \<open>2 ^ 53\<close> and well-formed prerelease
  identifiers, \<open>parseSemver\<close> accepts the printed text and returns exactly those numbers and
  identifiers.
\<close>

theorem parse_show_semver:
  assumes "a < 2 ^ 53" "b < 2 ^ 53" "c < 2 ^ 53" and ps: "valid_prerelease ps"
  shows "parseSemver (show_semver a b c ps) =
    Inr \<lparr>major = enat a, minor = enat b, patch = enat c, prerelease = ps\<rparr>"
proof -
  define pre where "pre = (if ps = [] then [] else ''-'' @ js_join ''.'' ps)"
  have pre_digit: "pre = [] \<or> \<not> js_is_digit (hd pre)"
    by (simp add: pre_def dot_hyphen_not_digit)
  have sp: "js_split (CHR ''.'') (js_join ''.'' ps) = ps" if "ps \<noteq> []"
    using js_split_join [OF that] valid_prerelease_no_dot [OF ps] by blast
  have v: "hd (nat_to_string a) \<noteq> CHR ''v''"
    using nat_to_string_digits [of a] nat_to_string_not_Nil [of a]
    by (cases "nat_to_string a") (auto simp: js_is_digit_def)
  define rest where "rest = ''.'' @ nat_to_string b @ ''.'' @ nat_to_string c @ pre"
  have s0: "strip_v (nat_to_string a @ rest) = nat_to_string a @ rest"
    using v by (cases "nat_to_string a") (auto simp: strip_v_def)
  have d: "take_digits (nat_to_string n @ r) = (nat_to_string n, r)"
    if "r = [] \<or> \<not> js_is_digit (hd r)" for n r
    using take_digits_append nat_to_string_digits that by blast
  have "semver_match (nat_to_string a @ rest) =
      Some (nat_to_string a, nat_to_string b, nat_to_string c,
            if ps = [] then None else Some (js_join ''.'' ps))"
    unfolding semver_match_def s0 using ps
    by (cases "ps = []")
       (simp_all add: rest_def d d [of "[]" c, simplified] dot_hyphen_not_digit pre_digit pre_def sp valid_prerelease_def)
  moreover have "show_semver a b c ps = nat_to_string a @ rest"
    by (simp add: show_semver_def rest_def pre_def)
  ultimately show ?thesis
    using assms by (simp add: parseSemver_def js_Number_nat_to_string sp)
qed

lemma nat_to_string_small: "n < 10 \<Longrightarrow> nat_to_string n = [digit_char n]"
  by (subst nat_to_string.simps) simp

lemma parse_show_semver_witness:
  "parseSemver (show_semver 1 2 3 [''rc'', ''1'']) =
     Inr \<lparr>major = enat 1, minor = enat 2, patch = enat 3, prerelease = [''rc'', ''1'']\<rparr>"
  by (rule parse_show_semver)
     (simp_all add: valid_prerelease_def is_prerelease_char_def js_defs)

text \<open>
  C17. \<open>compareSemver\<close> parses both arguments, left first, and then is exactly the sign of the
  linear order on version keys: numbers, then releases after prereleases, then prerelease
  identifiers lexicographically with numbers before strings.
\<close>

theorem compareSemver_refines_order:
  "compareSemver l r =
     bindE (parseSemver l) (\<lambda>a. bindE (parseSemver r) (\<lambda>b.
       Inr (order_sign (key_of a) (key_of b))))"
  by (simp add: compareSemver_def compareParsed_key)

end
