(* ===== verification/Manifest.thy ===== *)
theory Manifest
  imports Release Semver
begin

text \<open>
  Validation of release manifests (apps/updater/src/manifest.ts): allowed hosts, image
  references, digests and the whole manifest, guard by guard in the order of the code.
\<close>

text \<open>
  What the code takes from the JavaScript runtime: the host name \<open>new URL(url).hostname\<close> (None
  when the constructor throws), whether \<open>Date.parse\<close> accepts a string, and the lower-case hex
  SHA-256 digest.
\<close>

record jsRuntime =
  urlHostname :: "string \<Rightarrow> string option"
  dateParses :: "string \<Rightarrow> bool"
  sha256Hex :: "string \<Rightarrow> string"

record validateOptions =
  optCurrentVersion :: string
  optChannel :: releaseChannel
  optUpdaterVersion :: string
  optAllowedHosts :: "string list"

definition js_isRecord :: "jsval \<Rightarrow> bool" where
  "js_isRecord v = (case v of JObj ps \<Rightarrow> True | JArr vs \<Rightarrow> True | JDate d \<Rightarrow> True | _ \<Rightarrow> False)"

definition releaseChannel_of :: "jsval \<Rightarrow> releaseChannel option" where
  "releaseChannel_of v =
     (case v of JStr s \<Rightarrow> find (\<lambda>c. channelName c = s) releaseChannels | _ \<Rightarrow> None)"

definition is_lower_hex :: "char \<Rightarrow> bool" where
  "is_lower_hex c \<longleftrightarrow>
     js_is_digit c \<or> ((97 :: nat) \<le> of_char c \<and> of_char c \<le> (102 :: nat))"

text \<open>\<open>HEX_SHA256_PATTERN\<close> and \<open>SHA256_PATTERN\<close>.\<close>

definition hex_sha256_test :: "string \<Rightarrow> bool" where
  "hex_sha256_test s \<longleftrightarrow> length s = 64 \<and> list_all is_lower_hex s"

definition sha256_test :: "string \<Rightarrow> bool" where
  "sha256_test s \<longleftrightarrow> js_startsWith s ''sha256:'' \<and> hex_sha256_test (drop 7 s)"

definition validateAllowedReleaseUrl ::
  "jsRuntime \<Rightarrow> string \<Rightarrow> string list \<Rightarrow> manifestError + string" where
  "validateAllowedReleaseUrl rt url allowedHosts =
     (case urlHostname rt url of
        None \<Rightarrow> Inl (UpdateManifestError ''INVALID_RELEASE_URL'' (''Invalid release URL: '' @ url))
      | Some hostname \<Rightarrow>
          (let normalizedHosts =
             set (filter (\<lambda>h. h \<noteq> []) (map (\<lambda>h. js_toLowerCase (js_trim h)) allowedHosts))
           in if js_toLowerCase hostname \<notin> normalizedHosts
              then Inl (UpdateManifestError ''DISALLOWED_RELEASE_HOST''
                     (''Release host is not allowed: '' @ hostname))
              else Inr hostname))"

definition verifySha256 :: "jsRuntime \<Rightarrow> string \<Rightarrow> string \<Rightarrow> bool" where
  "verifySha256 rt payload expected =
     (if \<not> hex_sha256_test expected then False else sha256Hex rt payload = expected)"

definition buildImageRef :: "releaseImage \<Rightarrow> string" where
  "buildImageRef i = repository i @ ''@'' @ digest i"

definition validateImage :: "string \<Rightarrow> jsval \<Rightarrow> manifestError + releaseImage" where
  "validateImage name v =
     bindE (guardE (js_isRecord v)
       (UpdateManifestError ''INVALID_IMAGE'' (''Invalid '' @ name @ '' image''))) (\<lambda>_.
     bindE (guardE (js_is_string (js_get v ''repository'')
                    \<and> js_string_of (js_get v ''repository'') \<noteq> [])
       (UpdateManifestError ''INVALID_IMAGE_REPOSITORY''
         (''Invalid '' @ name @ '' image repository''))) (\<lambda>_.
     bindE (guardE (js_is_string (js_get v ''tag'') \<and> js_string_of (js_get v ''tag'') \<noteq> [])
       (UpdateManifestError ''INVALID_IMAGE_TAG'' (''Invalid '' @ name @ '' image tag''))) (\<lambda>_.
     bindE (guardE (js_is_string (js_get v ''digest'')
                    \<and> sha256_test (js_string_of (js_get v ''digest'')))
       (UpdateManifestError ''INVALID_IMAGE_DIGEST''
         (''Invalid '' @ name @ '' image digest''))) (\<lambda>_.
     Inr \<lparr>repository = js_string_of (js_get v ''repository''),
          tag = js_string_of (js_get v ''tag''),
          digest = js_string_of (js_get v ''digest'')\<rparr>))))"

definition validateImages :: "jsval \<Rightarrow> manifestError + releaseImages" where
  "validateImages v =
     bindE (validateImage ''api'' (js_get v ''api'')) (\<lambda>a.
     bindE (validateImage ''admin'' (js_get v ''admin'')) (\<lambda>d.
     bindE (validateImage ''worker'' (js_get v ''worker'')) (\<lambda>w.
     bindE (validateImage ''updater'' (js_get v ''updater'')) (\<lambda>u.
     Inr \<lparr>apiImage = a, adminImage = d, workerImage = w, updaterImage = u\<rparr>))))"

definition validateMigrations :: "jsval \<Rightarrow> manifestError + releaseMigrations" where
  "validateMigrations v =
     bindE (guardE (js_isRecord v)
       (UpdateManifestError ''INVALID_MIGRATIONS'' ''Manifest migrations block is invalid'')) (\<lambda>_.
     bindE (guardE (js_is_bool (js_get v ''required'') \<and> js_is_number (js_get v ''from'')
                    \<and> js_is_number (js_get v ''to'') \<and> js_is_bool (js_get v ''requiresBackup'')
                    \<and> js_is_bool (js_get v ''reversible'')
                    \<and> \<not> js_number_of (js_get v ''from'') > js_number_of (js_get v ''to''))
       (UpdateManifestError ''INVALID_MIGRATIONS'' ''Manifest migrations block is invalid'')) (\<lambda>_.
     Inr \<lparr>migRequired = js_bool_of (js_get v ''required''),
          migFrom = js_number_of (js_get v ''from''), migTo = js_number_of (js_get v ''to''),
          requiresBackup = js_bool_of (js_get v ''requiresBackup''),
          reversible = js_bool_of (js_get v ''reversible'')\<rparr>))"

definition validateReleaseManifest ::
  "jsRuntime \<Rightarrow> jsval \<Rightarrow> validateOptions \<Rightarrow> manifestError + releaseManifest" where
  "validateReleaseManifest rt input opts =
     bindE (guardE (js_isRecord input)
       (UpdateManifestError ''INVALID_MANIFEST'' ''Manifest must be an object'')) (\<lambda>_.
     bindE (guardE (js_get input ''schemaVersion'' = JNum 1)
       (UpdateManifestError ''INVALID_SCHEMA_VERSION''
         ''Unsupported manifest schema version'')) (\<lambda>_.
     bindE (guardE (js_get input ''product'' = JStr ''druvia'')
       (UpdateManifestError ''INVALID_PRODUCT'' ''Manifest product must be druvia'')) (\<lambda>_.
     bindE (guardE (js_is_string (js_get input ''version''))
       (UpdateManifestError ''INVALID_VERSION'' ''Manifest version is required'')) (\<lambda>_.
     bindE (compareSemver (js_string_of (js_get input ''version'')) (optCurrentVersion opts)) (\<lambda>c.
     bindE (guardE (\<not> c \<le> 0)
       (UpdateManifestError ''NO_UPDATE_AVAILABLE''
         ''Manifest version is not newer than the current version'')) (\<lambda>_.
     bindE (guardE (releaseChannel_of (js_get input ''channel'') \<noteq> None)
       (UpdateManifestError ''INVALID_CHANNEL'' ''Manifest channel is invalid'')) (\<lambda>_.
     bindE (guardE (releaseChannel_of (js_get input ''channel'') = Some (optChannel opts))
       (UpdateManifestError ''CHANNEL_MISMATCH''
         ''Manifest channel does not match the configured channel'')) (\<lambda>_.
     bindE (guardE (js_is_string (js_get input ''minUpdaterVersion''))
       (UpdateManifestError ''INVALID_MIN_UPDATER_VERSION''
         ''minUpdaterVersion is required'')) (\<lambda>_.
     bindE (compareSemver (js_string_of (js_get input ''minUpdaterVersion''))
                          (optUpdaterVersion opts)) (\<lambda>u.
     bindE (guardE (\<not> u > 0)
       (UpdateManifestError ''UPDATER_TOO_OLD''
         ''Current updater is older than the manifest requirement'')) (\<lambda>_.
     bindE (guardE (js_is_string (js_get input ''createdAt'')
                    \<and> dateParses rt (js_string_of (js_get input ''createdAt'')))
       (UpdateManifestError ''INVALID_CREATED_AT''
         ''Manifest createdAt must be an ISO date string'')) (\<lambda>_.
     bindE (guardE (js_is_string (js_get input ''releaseNotesUrl''))
       (UpdateManifestError ''INVALID_RELEASE_NOTES_URL'' ''releaseNotesUrl is required'')) (\<lambda>_.
     bindE (validateAllowedReleaseUrl rt (js_string_of (js_get input ''releaseNotesUrl''))
                                      (optAllowedHosts opts)) (\<lambda>_.
     bindE (guardE (js_isRecord (js_get input ''compose'')
                    \<and> js_is_string (js_get (js_get input ''compose'') ''url'')
                    \<and> js_is_string (js_get (js_get input ''compose'') ''sha256''))
       (UpdateManifestError ''INVALID_COMPOSE'' ''Manifest compose block is invalid'')) (\<lambda>_.
     bindE (validateAllowedReleaseUrl rt (js_string_of (js_get (js_get input ''compose'') ''url''))
                                      (optAllowedHosts opts)) (\<lambda>_.
     bindE (guardE (hex_sha256_test (js_string_of (js_get (js_get input ''compose'') ''sha256'')))
       (UpdateManifestError ''INVALID_COMPOSE_SHA256''
         ''Compose sha256 must be lowercase hex'')) (\<lambda>_.
     bindE (guardE (js_isRecord (js_get input ''images''))
       (UpdateManifestError ''INVALID_IMAGES'' ''Manifest images block is invalid'')) (\<lambda>_.
     bindE (validateImages (js_get input ''images'')) (\<lambda>imgs.
     bindE (validateMigrations (js_get input ''migrations'')) (\<lambda>migs.
     Inr \<lparr>version = js_string_of (js_get input ''version''),
          channel = the (releaseChannel_of (js_get input ''channel'')),
          createdAt = js_string_of (js_get input ''createdAt''),
          minUpdaterVersion = js_string_of (js_get input ''minUpdaterVersion''),
          releaseNotesUrl = js_string_of (js_get input ''releaseNotesUrl''),
          compose = \<lparr>composeUrl = js_string_of (js_get (js_get input ''compose'') ''url''),
                     composeSha256 = js_string_of (js_get (js_get input ''compose'') ''sha256'')\<rparr>,
          images = imgs, migrations = migs\<rparr>))))))))))))))))))))"

subsection \<open>What an accepted manifest guarantees\<close>

definition hostAllowed :: "jsRuntime \<Rightarrow> validateOptions \<Rightarrow> string \<Rightarrow> bool" where
  "hostAllowed rt opts url \<longleftrightarrow>
     (\<exists>h. urlHostname rt url = Some h
          \<and> js_toLowerCase h \<in> (\<lambda>a. js_toLowerCase (js_trim a)) ` set (optAllowedHosts opts)
          \<and> h \<noteq> [])"

definition imagePinned :: "releaseImage \<Rightarrow> bool" where
  "imagePinned i \<longleftrightarrow> repository i \<noteq> [] \<and> tag i \<noteq> [] \<and> sha256_test (digest i)"

definition manifestAdmissible :: "jsRuntime \<Rightarrow> validateOptions \<Rightarrow> releaseManifest \<Rightarrow> bool" where
  "manifestAdmissible rt opts m \<longleftrightarrow>
     semver.newer (version m) (optCurrentVersion opts)
     \<and> channel m = optChannel opts
     \<and> (\<exists>u. compareSemver (minUpdaterVersion m) (optUpdaterVersion opts) = Inr u \<and> u \<le> 0)
     \<and> dateParses rt (createdAt m)
     \<and> hostAllowed rt opts (releaseNotesUrl m)
     \<and> hostAllowed rt opts (composeUrl (compose m))
     \<and> hex_sha256_test (composeSha256 (compose m))
     \<and> imagePinned (apiImage (images m)) \<and> imagePinned (adminImage (images m))
     \<and> imagePinned (workerImage (images m)) \<and> imagePinned (updaterImage (images m))
     \<and> migFrom (migrations m) \<le> migTo (migrations m)"

lemma validateAllowedReleaseUrl_ok:
  "(\<exists>h. validateAllowedReleaseUrl rt url (optAllowedHosts opts) = Inr h) \<longleftrightarrow> hostAllowed rt opts url"
  by (auto simp: validateAllowedReleaseUrl_def hostAllowed_def js_toLowerCase_def
      split: option.splits)

lemma validateAllowedReleaseUrl_Inr:
  "validateAllowedReleaseUrl rt url (optAllowedHosts opts) = Inr h \<Longrightarrow> hostAllowed rt opts url"
  using validateAllowedReleaseUrl_ok by blast

lemma validateImage_Inr: "validateImage name v = Inr i \<Longrightarrow> imagePinned i"
  by (auto simp: validateImage_def imagePinned_def)

lemma validateImage_json: "imagePinned i \<Longrightarrow> validateImage name (imageJson i) = Inr i"
  by (cases i) (simp add: validateImage_def imagePinned_def imageJson_def js_isRecord_def)

lemma validateImages_Inr:
  "validateImages v = Inr is \<Longrightarrow> imagePinned (apiImage is) \<and> imagePinned (adminImage is)
     \<and> imagePinned (workerImage is) \<and> imagePinned (updaterImage is)"
  by (auto simp: validateImages_def dest: validateImage_Inr)

lemma validateMigrations_Inr: "validateMigrations v = Inr g \<Longrightarrow> migFrom g \<le> migTo g"
  by (auto simp: validateMigrations_def)

lemma releaseChannel_of_name: "releaseChannel_of (JStr (channelName c)) = Some c"
  by (cases c) (simp_all add: releaseChannel_of_def releaseChannels_def)

lemma newer_iff: "semver.newer a b \<longleftrightarrow> (\<exists>s. compareSemver a b = Inr s \<and> s > 0)"
  by (rule semver.newer_def)

subsection \<open>A concrete release\<close>

definition demoImage :: releaseImage where
  "demoImage = \<lparr>repository = ''r'', tag = ''t'', digest = ''sha256:'' @ replicate 64 CHR ''a''\<rparr>"

definition demoManifest :: releaseManifest where
  "demoManifest = \<lparr>version = ''1.1.0'', channel = Stable, createdAt = ''now'',
     minUpdaterVersion = ''0.1.0'', releaseNotesUrl = ''u'',
     compose = \<lparr>composeUrl = ''u'', composeSha256 = replicate 64 CHR ''b''\<rparr>,
     images = \<lparr>apiImage = demoImage, adminImage = demoImage, workerImage = demoImage,
               updaterImage = demoImage\<rparr>,
     migrations = \<lparr>migRequired = False, migFrom = 1, migTo = 1, requiresBackup = False,
                   reversible = True\<rparr>\<rparr>"

definition demoRuntime :: jsRuntime where
  "demoRuntime = \<lparr>urlHostname = (\<lambda>u. Some ''github.com''), dateParses = (\<lambda>d. True),
     sha256Hex = (\<lambda>t. if t = ''new compose'' then replicate 64 CHR ''b'' else ''c'')\<rparr>"

definition demoOptions :: validateOptions where
  "demoOptions = \<lparr>optCurrentVersion = ''1.0.0'', optChannel = Stable, optUpdaterVersion = ''0.2.0'',
     optAllowedHosts = [''github.com'']\<rparr>"

lemma demo_validates:
  "validateReleaseManifest demoRuntime (manifestJson demoManifest) demoOptions = Inr demoManifest"
  by code_simp

lemma validateReleaseManifest_admissible:
  assumes "validateReleaseManifest rt input opts = Inr m"
  shows "manifestAdmissible rt opts m"
  using assms unfolding validateReleaseManifest_def manifestAdmissible_def newer_iff
  by (auto dest!: validateImages_Inr validateMigrations_Inr validateAllowedReleaseUrl_Inr
      simp: not_le not_less)

text \<open>
  C16. An accepted manifest is safe to act on: it is strictly newer than the running version, on
  the configured channel, usable by this updater, all its URLs are on allowed hosts, its compose
  file and its four images are pinned by SHA-256, and its migration range is not reversed.
\<close>

theorem validateReleaseManifest_sound:
  assumes "validateReleaseManifest rt input opts = Inr m"
  shows "manifestAdmissible rt opts m"
  by (rule validateReleaseManifest_admissible [OF assms])

lemma validateReleaseManifest_sound_witness: "manifestAdmissible demoRuntime demoOptions demoManifest"
  by (rule validateReleaseManifest_sound [OF demo_validates])

lemma validateReleaseManifest_complete:
  assumes "manifestAdmissible rt opts m"
  shows "validateReleaseManifest rt (manifestJson m) opts = Inr m"
proof -
  from assms obtain h1 h2 where
    "validateAllowedReleaseUrl rt (releaseNotesUrl m) (optAllowedHosts opts) = Inr h1"
    "validateAllowedReleaseUrl rt (composeUrl (compose m)) (optAllowedHosts opts) = Inr h2"
    unfolding manifestAdmissible_def by (meson validateAllowedReleaseUrl_ok)
  moreover have "validateImages (js_get (manifestJson m) ''images'') = Inr (images m)"
    using assms by (simp add: manifestJson_def validateImages_def validateImage_json
        manifestAdmissible_def)
  moreover have "validateMigrations (js_get (manifestJson m) ''migrations'') = Inr (migrations m)"
    using assms by (simp add: manifestJson_def validateMigrations_def js_isRecord_def
        manifestAdmissible_def not_less)
  ultimately show ?thesis
    using assms unfolding validateReleaseManifest_def manifestAdmissible_def newer_iff
    by (cases m) (auto simp: manifestJson_def js_isRecord_def releaseChannel_of_name)
qed

text \<open>
  The manifest the updater stages is the one it later admits: writing an accepted manifest
  as JSON and validating that JSON under the same options returns the same manifest.
\<close>

theorem validateReleaseManifest_roundtrip:
  assumes "validateReleaseManifest rt input opts = Inr m"
  shows "validateReleaseManifest rt (manifestJson m) opts = Inr m"
  using assms validateReleaseManifest_complete validateReleaseManifest_admissible [OF assms] by blast

lemma validateReleaseManifest_roundtrip_witness:
  "validateReleaseManifest demoRuntime (manifestJson demoManifest) demoOptions = Inr demoManifest
   \<and> validateReleaseManifest demoRuntime (manifestJson demoManifest) demoOptions = Inr demoManifest"
  using demo_validates validateReleaseManifest_roundtrip [OF demo_validates] by blast

end
