(* ===== verification/Compose.thy ===== *)
theory Compose
  imports Prelude
begin

text \<open>
  Command lines and SQL texts of the updater (apps/updater/src/compose.ts,
  apps/updater/src/postgres-backup.ts): the docker compose invocations, the psql calls that gate
  a file rollback, and the finalizer container.
\<close>

datatype composeAction = Migrate | Up | Restart | RollbackWorker | RollbackUp | SelfUpdate

record composeOptions =
  projectDirectory :: string
  baseEnvFile :: string
  releaseEnvFile :: string
  composeFile :: string
  profiles :: "string list"
  managedServices :: "string list"

record rollbackDatabase =
  dbUser :: string
  dbName :: string

datatype gateAction = EnableGate | DisableGate

subsection \<open>Compose commands\<close>

definition parseCsvEnv :: "string option \<Rightarrow> string list" where
  "parseCsvEnv v = (case v of None \<Rightarrow> [] | Some s \<Rightarrow>
     if s = [] then []
     else filter (\<lambda>i. i \<noteq> []) (map js_trim (js_split (CHR '','') s)))"

definition buildComposeBaseArgs :: "composeOptions \<Rightarrow> string list" where
  "buildComposeBaseArgs opts =
     [''compose'', ''--project-directory'', projectDirectory opts,
      ''--env-file'', baseEnvFile opts, ''--env-file'', releaseEnvFile opts,
      ''-f'', composeFile opts]
     @ concat (map (\<lambda>p. [''--profile'', p]) (profiles opts))"

definition composeServices :: "composeOptions \<Rightarrow> string list" where
  "composeServices opts =
     (if length (managedServices opts) > 0 then managedServices opts
      else [''api'', ''admin'', ''deno'', ''hasura''])"

fun buildComposeArgs :: "composeAction \<Rightarrow> composeOptions \<Rightarrow> string list" where
  "buildComposeArgs Migrate opts = buildComposeBaseArgs opts
     @ [''run'', ''--rm'', ''--no-deps'', ''api'', ''node'', ''apps/api/dist/cli/migrate.js'', ''up'']"
| "buildComposeArgs Up opts = buildComposeBaseArgs opts
     @ [''up'', ''-d'', ''--no-deps'', ''--remove-orphans''] @ composeServices opts"
| "buildComposeArgs RollbackWorker opts = buildComposeBaseArgs opts
     @ [''up'', ''-d'', ''--no-deps'', ''deno'']"
| "buildComposeArgs RollbackUp opts = buildComposeBaseArgs opts
     @ [''up'', ''-d'', ''--no-deps'', ''--remove-orphans''] @ composeServices opts"
| "buildComposeArgs Restart opts = buildComposeBaseArgs opts
     @ [''restart'', ''api'', ''admin'', ''deno'']"
| "buildComposeArgs SelfUpdate opts = buildComposeBaseArgs opts @ [''up'', ''-d'', ''updater'']"

definition buildRollbackStopArgs :: "string list" where
  "buildRollbackStopArgs =
     [''stop'', ''--time'', ''10'', ''druvia-api'', ''druvia-admin'', ''druvia-deno'']"

definition buildDockerImagePullArgs :: "string \<Rightarrow> string list" where
  "buildDockerImagePullArgs ref = [''image'', ''pull'', ref]"

subsection \<open>SQL of the rollback gate\<close>

text \<open>A template literal of several lines.\<close>

definition sqlLines :: "string list \<Rightarrow> string" where
  "sqlLines ls = js_join [CHR 0x0A] ls"

text \<open>\<open>assertRollbackGateSchemaName\<close>: \<open>/^[A-Za-z_][A-Za-z0-9_]*$/\<close>. The builders below take a name
  that passed the test; they are called through \<open>withGateSchema\<close>, which throws otherwise.\<close>

definition gateSchemaName_ok :: "string \<Rightarrow> bool" where
  "gateSchemaName_ok s \<longleftrightarrow>
     (case s of [] \<Rightarrow> False
      | c # cs \<Rightarrow> (js_is_alpha c \<or> c = CHR ''_'')
                  \<and> list_all (\<lambda>d. js_is_alnum d \<or> d = CHR ''_'') cs)"

definition assertRollbackGateSchemaName :: "string \<Rightarrow> string + unit" where
  "assertRollbackGateSchemaName s =
     guardE (gateSchemaName_ok s) ''Invalid rollback gate schema name''"

definition quoteIdent :: "string \<Rightarrow> string" where
  "quoteIdent s = ''\"'' @ s @ ''\"''"

definition namedRollbackHolderExistsSql :: "string \<Rightarrow> string" where
  "namedRollbackHolderExistsSql s =
     sqlLines [
       ''EXISTS ('',
       ''    SELECT 1 FROM pg_stat_activity AS activity'',
       ''    JOIN pg_locks AS held ON held.pid = activity.pid'',
       ''    WHERE activity.application_name = 'druvia-holder:'' @ s @ [CHR 0x27],
       ''      AND held.locktype = 'advisory' AND held.mode = 'ExclusiveLock' AND held.granted'',
       ''      AND held.classid = ((hashtextextended('data-access-mutation:global', 0) >> 32) & 4294967295)::oid'',
       ''      AND held.objid = (hashtextextended('data-access-mutation:global', 0) & 4294967295)::oid'',
       ''  )'']"

definition gateSqlEnable :: "string \<Rightarrow> string" where
  "gateSqlEnable s =
     (let quoted = quoteIdent s in
     sqlLines [
       ''DO $rollback_gate$'',
       ''     BEGIN'',
       ''       IF to_regclass('' @ [CHR 0x27] @ s @ ''.druvia_data_access_runtime_gates') IS NOT NULL THEN'',
       ''         INSERT INTO '' @ quoted @ ''.druvia_data_access_runtime_gates (gate_name, active, updated_at)'',
       ''         VALUES ('file_rollback', TRUE, NOW())'',
       ''         ON CONFLICT (gate_name) DO UPDATE'',
       ''         SET active = TRUE, updated_at = EXCLUDED.updated_at;'',
       ''       END IF;'',
       ''     END'',
       ''     $rollback_gate$;''])"

definition gateSqlDisable :: "string \<Rightarrow> bool \<Rightarrow> string" where
  "gateSqlDisable s requireHolder =
     (let quoted = quoteIdent s in
     sqlLines [
       ''DO $rollback_gate$'',
       ''     BEGIN'',
       ''       '' @ (if requireHolder then sqlLines [
         ''IF NOT '' @ (namedRollbackHolderExistsSql s) @ '' THEN'',
         ''         RAISE EXCEPTION 'file rollback lock holder is not ready';'',
         ''       END IF;''] else []),
       ''       IF to_regclass('' @ [CHR 0x27] @ s @ ''.druvia_data_access_runtime_gates') IS NOT NULL THEN'',
       ''         UPDATE '' @ quoted @ ''.druvia_data_access_runtime_gates'',
       ''         SET active = FALSE, updated_at = NOW()'',
       ''         WHERE gate_name = 'file_rollback';'',
       ''       END IF;'',
       ''     END'',
       ''     $rollback_gate$;''])"

definition buildProjectionRollbackGateSql :: "gateAction \<Rightarrow> string \<Rightarrow> bool \<Rightarrow> string + string" where
  "buildProjectionRollbackGateSql action s requireHolder =
     bindE (assertRollbackGateSchemaName s) (\<lambda>_.
     Inr (case action of EnableGate \<Rightarrow> gateSqlEnable s | DisableGate \<Rightarrow> gateSqlDisable s requireHolder))"

definition checkSql :: "string \<Rightarrow> string" where
  "checkSql s =
     (let quoted = quoteIdent s in
     sqlLines [
       ''DO $rollback$'',
       ''     DECLARE active_v2 boolean := false;'',
       ''     DECLARE rollback_gate_active boolean := false;'',
       ''     BEGIN'',
       ''       PERFORM pg_advisory_xact_lock(hashtextextended('data-access-mutation:global', 0));'',
       ''       IF to_regclass('' @ [CHR 0x27] @ s @ ''.druvia_data_access_runtime_gates') IS NOT NULL THEN'',
       ''         EXECUTE $query$SELECT EXISTS ('',
       ''           SELECT 1 FROM '' @ quoted @ ''.druvia_data_access_runtime_gates'',
       ''           WHERE gate_name = 'file_rollback' AND active'',
       ''         )$query$ INTO rollback_gate_active;'',
       ''         IF NOT rollback_gate_active THEN'',
       ''           RAISE EXCEPTION 'file rollback gate is not active';'',
       ''         END IF;'',
       ''       END IF;'',
       ''       IF to_regclass('' @ [CHR 0x27] @ s @ ''.druvia_data_access_managed_policies') IS NOT NULL THEN'',
       ''         EXECUTE $query$SELECT EXISTS ('',
       ''           SELECT 1 FROM '' @ quoted @ ''.druvia_data_access_managed_policies AS managed_policy'',
       ''           WHERE policy_version = 2'',
       ''              OR to_jsonb(managed_policy)->>'dependency_snapshot' IS NOT NULL'',
       ''              OR to_jsonb(managed_policy)->>'dependency_digest' IS NOT NULL'',
       ''         )$query$ INTO active_v2;'',
       ''       END IF;'',
       ''       IF NOT active_v2'',
       ''          AND to_regclass('' @ [CHR 0x27] @ s @ ''.druvia_data_access_projection_operations') IS NOT NULL THEN'',
       ''         EXECUTE $query$SELECT EXISTS ('',
       ''           SELECT 1 FROM '' @ quoted @ ''.druvia_data_access_projection_operations'',
       ''         )$query$ INTO active_v2;'',
       ''       END IF;'',
       ''       IF active_v2 THEN'',
       ''         RAISE EXCEPTION 'active Data Access v2 projection state prevents file-only rollback';'',
       ''       END IF;'',
       ''     END'',
       ''     $rollback$;''])"

definition buildProjectionRollbackCheckSql :: "string \<Rightarrow> string + string" where
  "buildProjectionRollbackCheckSql s =
     bindE (assertRollbackGateSchemaName s) (\<lambda>_. Inr (checkSql s))"

definition lockHolderSql :: "string \<Rightarrow> string" where
  "lockHolderSql s =
     (let quoted = quoteIdent s in
     sqlLines [
       ''SELECT set_config('application_name', 'druvia-holder:'' @ s @ [CHR 0x27] @ '', false);'',
       ''SELECT pg_advisory_lock(hashtextextended('data-access-mutation:global', 0));'',
       ''DO $rollback_lock$'',
       ''BEGIN'',
       ''  IF to_regclass('' @ [CHR 0x27] @ s @ ''.druvia_data_access_runtime_gates') IS NOT NULL THEN'',
       ''    IF NOT EXISTS ('',
       ''      SELECT 1 FROM '' @ quoted @ ''.druvia_data_access_runtime_gates'',
       ''      WHERE gate_name = 'file_rollback' AND active'',
       ''    ) THEN'',
       ''      RAISE EXCEPTION 'file rollback gate is not active';'',
       ''    END IF;'',
       ''    LOOP'',
       ''      EXIT WHEN NOT EXISTS ('',
       ''        SELECT 1 FROM '' @ quoted @ ''.druvia_data_access_runtime_gates'',
       ''        WHERE gate_name = 'file_rollback' AND active'',
       ''      );'',
       ''      PERFORM pg_sleep(0.1);'',
       ''    END LOOP;'',
       ''  ELSE'',
       ''    LOOP'',
       ''      PERFORM pg_sleep(0.1);'',
       ''    END LOOP;'',
       ''  END IF;'',
       ''END'',
       ''$rollback_lock$;'',
       ''SELECT pg_advisory_unlock(hashtextextended('data-access-mutation:global', 0));''])"

definition buildProjectionRollbackLockHolderSql :: "string \<Rightarrow> string + string" where
  "buildProjectionRollbackLockHolderSql s =
     bindE (assertRollbackGateSchemaName s) (\<lambda>_. Inr (lockHolderSql s))"

definition lockReadySql :: "string \<Rightarrow> string" where
  "lockReadySql s =
     (let quoted = quoteIdent s in
     sqlLines [
       ''DO $rollback_lock_ready$'',
       ''DECLARE lock_acquired boolean := false;'',
       ''BEGIN'',
       ''  IF NOT '' @ (namedRollbackHolderExistsSql s) @ '' THEN'',
       ''    RAISE EXCEPTION 'file rollback lock holder is not ready';'',
       ''  END IF;'',
       ''  IF to_regclass('' @ [CHR 0x27] @ s @ ''.druvia_data_access_runtime_gates') IS NOT NULL THEN'',
       ''    IF NOT EXISTS ('',
       ''      SELECT 1 FROM '' @ quoted @ ''.druvia_data_access_runtime_gates'',
       ''      WHERE gate_name = 'file_rollback' AND active'',
       ''    ) THEN'',
       ''      RAISE EXCEPTION 'file rollback gate is not active';'',
       ''    END IF;'',
       ''  END IF;'',
       ''  SELECT pg_try_advisory_lock_shared('',
       ''    hashtextextended('data-access-mutation:global', 0)'',
       ''  ) INTO lock_acquired;'',
       ''  IF lock_acquired THEN'',
       ''    PERFORM pg_advisory_unlock_shared('',
       ''      hashtextextended('data-access-mutation:global', 0)'',
       ''    );'',
       ''    RAISE EXCEPTION 'file rollback lock holder is not ready';'',
       ''  END IF;'',
       ''END'',
       ''$rollback_lock_ready$;''])"

definition buildProjectionRollbackLockReadySql :: "string \<Rightarrow> string + string" where
  "buildProjectionRollbackLockReadySql s =
     bindE (assertRollbackGateSchemaName s) (\<lambda>_. Inr (lockReadySql s))"

definition lockReleaseWaitSql :: "string \<Rightarrow> bool \<Rightarrow> bool \<Rightarrow> string" where
  "lockReleaseWaitSql s requireHolder allowActiveGate =
     sqlLines [
       ''SET lock_timeout = '10s';'',
       ''DO $rollback_lock_release$'',
       ''DECLARE holder_pid integer;'',
       ''BEGIN'',
       ''  '' @ (if allowActiveGate then [] else sqlLines [
         ''IF to_regclass('' @ [CHR 0x27] @ s @ ''.druvia_data_access_runtime_gates') IS NOT NULL THEN'',
         ''    IF EXISTS ('',
         ''      SELECT 1 FROM \"'' @ s @ ''\".druvia_data_access_runtime_gates'',
         ''      WHERE gate_name = 'file_rollback' AND active'',
         ''    ) THEN'',
         ''      RAISE EXCEPTION 'file rollback gate is still active';'',
         ''    END IF;'',
         ''  END IF;'']),
       ''  SELECT activity.pid INTO holder_pid FROM pg_stat_activity AS activity'',
       ''    JOIN pg_locks AS held ON held.pid = activity.pid'',
       ''    WHERE activity.application_name = 'druvia-holder:'' @ s @ [CHR 0x27],
       ''      AND held.locktype = 'advisory' AND held.mode = 'ExclusiveLock' AND held.granted'',
       ''      AND held.classid = ((hashtextextended('data-access-mutation:global', 0) >> 32) & 4294967295)::oid'',
       ''      AND held.objid = (hashtextextended('data-access-mutation:global', 0) & 4294967295)::oid;'',
       ''  '' @ (if requireHolder then sqlLines [
         ''IF holder_pid IS NULL'',
         ''    AND to_regclass('' @ [CHR 0x27] @ s @ ''.druvia_data_access_runtime_gates') IS NULL THEN'',
         ''      RAISE EXCEPTION 'file rollback lock holder is not ready';'',
         ''    END IF;''] else []),
       ''  IF holder_pid IS NOT NULL AND NOT pg_terminate_backend(holder_pid, 5000) THEN'',
       ''    RAISE EXCEPTION 'file rollback lock holder could not be stopped';'',
       ''  END IF;'',
       ''  PERFORM pg_advisory_lock_shared(hashtextextended('data-access-mutation:global', 0));'',
       ''  PERFORM pg_advisory_unlock_shared(hashtextextended('data-access-mutation:global', 0));'',
       ''  IF '' @ (namedRollbackHolderExistsSql s) @ '' THEN'',
       ''    RAISE EXCEPTION 'file rollback lock holder has not exited';'',
       ''  END IF;'',
       ''END'',
       ''$rollback_lock_release$;'']"

definition buildProjectionRollbackLockReleaseWaitSql ::
  "string \<Rightarrow> bool \<Rightarrow> bool \<Rightarrow> string + string" where
  "buildProjectionRollbackLockReleaseWaitSql s requireHolder allowActiveGate =
     bindE (assertRollbackGateSchemaName s) (\<lambda>_.
     Inr (lockReleaseWaitSql s requireHolder allowActiveGate))"

subsection \<open>Commands of the rollback gate\<close>

definition buildProjectionRollbackDatabaseArgs ::
  "rollbackDatabase \<Rightarrow> string \<Rightarrow> bool \<Rightarrow> string list" where
  "buildProjectionRollbackDatabaseArgs db sql detached =
     [''exec''] @ (if detached then [''-d''] else [])
     @ [''druvia-postgres'', ''psql'', ''-X'', ''-U'', dbUser db, ''-d'', dbName db,
        ''-v'', ''ON_ERROR_STOP=1'', ''-c'', sql]"

definition buildProjectionRollbackCheckArgs :: "rollbackDatabase \<Rightarrow> string + string list" where
  "buildProjectionRollbackCheckArgs db =
     bindE (buildProjectionRollbackCheckSql ''public'') (\<lambda>sql.
     Inr (buildProjectionRollbackDatabaseArgs db sql False))"

definition buildProjectionRollbackGateArgs ::
  "rollbackDatabase \<Rightarrow> gateAction \<Rightarrow> bool \<Rightarrow> string + string list" where
  "buildProjectionRollbackGateArgs db action requireHolder =
     bindE (buildProjectionRollbackGateSql action ''public'' requireHolder) (\<lambda>sql.
     Inr (buildProjectionRollbackDatabaseArgs db sql False))"

definition buildProjectionRollbackLockHolderArgs :: "rollbackDatabase \<Rightarrow> string + string list" where
  "buildProjectionRollbackLockHolderArgs db =
     bindE (buildProjectionRollbackLockHolderSql ''public'') (\<lambda>sql.
     Inr (buildProjectionRollbackDatabaseArgs db sql True))"

definition buildProjectionRollbackLockReadyArgs :: "rollbackDatabase \<Rightarrow> string + string list" where
  "buildProjectionRollbackLockReadyArgs db =
     bindE (buildProjectionRollbackLockReadySql ''public'') (\<lambda>sql.
     Inr (buildProjectionRollbackDatabaseArgs db sql False))"

definition buildProjectionRollbackLockReleaseWaitArgs ::
  "rollbackDatabase \<Rightarrow> bool \<Rightarrow> string + string list" where
  "buildProjectionRollbackLockReleaseWaitArgs db requireHolder =
     bindE (buildProjectionRollbackLockReleaseWaitSql ''public'' requireHolder False) (\<lambda>sql.
     Inr (buildProjectionRollbackDatabaseArgs db sql False))"

definition buildProjectionRollbackStaleHolderReleaseArgs ::
  "rollbackDatabase \<Rightarrow> string + string list" where
  "buildProjectionRollbackStaleHolderReleaseArgs db =
     bindE (buildProjectionRollbackLockReleaseWaitSql ''public'' False True) (\<lambda>sql.
     Inr (buildProjectionRollbackDatabaseArgs db sql False))"

record finalizerOptions =
  fzCompose :: composeOptions
  fzDelaySeconds :: nat
  fzImage :: string
  fzName :: string
  fzTargetVersion :: string
  fzContainerName :: string

definition buildUpdaterFinalizerRunArgs :: "finalizerOptions \<Rightarrow> string list" where
  "buildUpdaterFinalizerRunArgs opts =
     [''run'', ''-d'', ''--rm'', ''--name'', fzName opts,
      ''--label'', ''com.druvia.role=updater-finalizer'',
      ''--volumes-from'', fzContainerName opts @ '':rw'',
      ''-w'', projectDirectory (fzCompose opts),
      ''--env'', ''DRUVIA_FINALIZER_STATE_PATH=/state/update-state.json'',
      ''--env'', ''DRUVIA_FINALIZER_TARGET_VERSION='' @ fzTargetVersion opts,
      ''--env'', ''DRUVIA_FINALIZER_UPDATER_CONTAINER_NAME='' @ fzContainerName opts,
      ''--env'', ''DRUVIA_FINALIZER_DELAY_SECONDS='' @ nat_to_string (fzDelaySeconds opts),
      fzImage opts, ''node'', ''/app/apps/updater/dist/finalizer.js'', ''--'', ''docker'']
     @ buildComposeArgs SelfUpdate (fzCompose opts)"

subsection \<open>The database dump command (postgres-backup.ts)\<close>

record databaseConfig =
  host :: string
  port :: nat
  user :: string
  password :: string
  database :: string

record commandSpec =
  command :: string
  args :: "string list"
  commandEnv :: "string \<rightharpoonup> string"

text \<open>\<open>process.env\<close> is the parameter \<open>processEnv\<close>.\<close>

definition buildPgDumpCommand :: "(string \<rightharpoonup> string) \<Rightarrow> databaseConfig \<Rightarrow> string \<Rightarrow> commandSpec" where
  "buildPgDumpCommand processEnv db outputPath =
     \<lparr>command = ''pg_dump'',
      args = [''-h'', host db, ''-p'', nat_to_string (port db), ''-U'', user db,
              ''-d'', database db, ''-F'', ''c'', ''--no-owner'', ''--no-acl'', ''-f'', outputPath],
      commandEnv = processEnv(''PGPASSWORD'' \<mapsto> password db)\<rparr>"

subsection \<open>The SQL texts are closed under the choice of schema\<close>

text \<open>The characters of a SQL text that are not word characters: quotes, dollar signs,
  parentheses, semicolons, white space and operators, in order.\<close>

definition sqlSkeleton :: "string \<Rightarrow> string" where
  "sqlSkeleton q = filter (\<lambda>c. \<not> word_char c) q"

lemma sqlSkeleton_append: "sqlSkeleton (p @ q) = sqlSkeleton p @ sqlSkeleton q"
  by (simp add: sqlSkeleton_def)

lemma sqlSkeleton_join: "sqlSkeleton (js_join sep ls) = js_join (sqlSkeleton sep) (map sqlSkeleton ls)"
  by (induction sep ls rule: js_join.induct) (simp_all add: sqlSkeleton_append, simp add: sqlSkeleton_def)

lemma sqlSkeleton_schema: "gateSchemaName_ok s \<Longrightarrow> sqlSkeleton s = []"
  by (auto simp: gateSchemaName_ok_def sqlSkeleton_def word_char_def list_all_iff js_is_alnum_def
      filter_empty_conv split: list.splits)

lemma sqlSkeleton_if: "sqlSkeleton (if b then p else q) = (if b then sqlSkeleton p else sqlSkeleton q)"
  by simp

lemmas sqlSkeleton_rules = sqlSkeleton_append sqlSkeleton_join sqlSkeleton_schema sqlSkeleton_if
  sqlLines_def quoteIdent_def Let_def list.map

lemma sqlSkeleton_named:
  "gateSchemaName_ok s \<Longrightarrow> gateSchemaName_ok t \<Longrightarrow>
   sqlSkeleton (namedRollbackHolderExistsSql s) = sqlSkeleton (namedRollbackHolderExistsSql t)"
  by (simp only: namedRollbackHolderExistsSql_def sqlSkeleton_rules)

lemma sqlSkeleton_texts:
  assumes "gateSchemaName_ok s" "gateSchemaName_ok t"
  shows "sqlSkeleton (gateSqlEnable s) = sqlSkeleton (gateSqlEnable t)"
    and "sqlSkeleton (gateSqlDisable s h) = sqlSkeleton (gateSqlDisable t h)"
    and "sqlSkeleton (checkSql s) = sqlSkeleton (checkSql t)"
    and "sqlSkeleton (lockHolderSql s) = sqlSkeleton (lockHolderSql t)"
    and "sqlSkeleton (lockReadySql s) = sqlSkeleton (lockReadySql t)"
    and "sqlSkeleton (lockReleaseWaitSql s h g) = sqlSkeleton (lockReleaseWaitSql t h g)"
  by (simp_all only: gateSqlEnable_def gateSqlDisable_def checkSql_def lockHolderSql_def
      lockReadySql_def lockReleaseWaitSql_def sqlSkeleton_rules assms
      sqlSkeleton_named [OF assms])

lemma public_schema_ok: "gateSchemaName_ok ''public''"
  by (simp add: gateSchemaName_ok_def js_defs)

lemma gateArgs_Inr:
  "\<exists>a. buildProjectionRollbackGateArgs db act h = Inr a"
  "\<exists>a. buildProjectionRollbackCheckArgs db = Inr a"
  "\<exists>a. buildProjectionRollbackLockHolderArgs db = Inr a"
  "\<exists>a. buildProjectionRollbackLockReadyArgs db = Inr a"
  "\<exists>a. buildProjectionRollbackLockReleaseWaitArgs db h = Inr a"
  "\<exists>a. buildProjectionRollbackStaleHolderReleaseArgs db = Inr a"
  by (simp_all add: buildProjectionRollbackGateArgs_def buildProjectionRollbackCheckArgs_def
      buildProjectionRollbackLockHolderArgs_def buildProjectionRollbackLockReadyArgs_def
      buildProjectionRollbackLockReleaseWaitArgs_def buildProjectionRollbackStaleHolderReleaseArgs_def
      buildProjectionRollbackGateSql_def buildProjectionRollbackCheckSql_def
      buildProjectionRollbackLockHolderSql_def buildProjectionRollbackLockReadySql_def
      buildProjectionRollbackLockReleaseWaitSql_def assertRollbackGateSchemaName_def
      public_schema_ok)

text \<open>A builder of SQL is closed under the choice of schema: it accepts exactly the valid schema
  names, and the text it returns has the skeleton of the text for \<open>public\<close>.\<close>

definition schemaClosed :: "(string \<Rightarrow> string + string) \<Rightarrow> string \<Rightarrow> bool" where
  "schemaClosed build s \<longleftrightarrow>
     (if gateSchemaName_ok s
      then map_sum id sqlSkeleton (build s) = map_sum id sqlSkeleton (build ''public'')
           \<and> (\<exists>q. build s = Inr q)
      else build s = Inl ''Invalid rollback gate schema name'')"

text \<open>
  No schema name can change the shape of the rollback SQL. Each of the five builders throws
  on a name outside \<open>[A-Za-z_][A-Za-z0-9_]*\<close>, and for every other name returns a text with the
  same non-word characters, in the same order, as the text for the schema \<open>public\<close>: the name
  never opens or closes a quote, a dollar quote, a comment or a statement.
\<close>

theorem rollback_sql_shape:
  "schemaClosed (\<lambda>s. buildProjectionRollbackGateSql act s h) s
   \<and> schemaClosed buildProjectionRollbackCheckSql s
   \<and> schemaClosed buildProjectionRollbackLockHolderSql s
   \<and> schemaClosed buildProjectionRollbackLockReadySql s
   \<and> schemaClosed (\<lambda>s. buildProjectionRollbackLockReleaseWaitSql s h g) s"
  by (cases act)
     (auto simp: schemaClosed_def buildProjectionRollbackGateSql_def
      buildProjectionRollbackCheckSql_def
      buildProjectionRollbackLockHolderSql_def buildProjectionRollbackLockReadySql_def
      buildProjectionRollbackLockReleaseWaitSql_def assertRollbackGateSchemaName_def
      public_schema_ok bindE_guardE_False intro: sqlSkeleton_texts)

text \<open>
  Reading a comma-separated list: \<open>parseCsvEnv\<close> recovers exactly the items that were joined,
  whenever each is non-empty, trimmed and free of commas; and every item it ever returns is so.
\<close>

definition csvItem :: "string \<Rightarrow> bool" where
  "csvItem i \<longleftrightarrow> i \<noteq> [] \<and> js_trim i = i \<and> CHR '','' \<notin> set i"

lemma js_trim_subset: "set (js_trim s) \<subseteq> set s"
  by (auto simp: js_trim_def js_trimEnd_def js_trimStart_def dest!: set_dropWhileD)

lemma parseCsvEnv_items: "i \<in> set (parseCsvEnv v) \<Longrightarrow> csvItem i"
  using js_split_sep_free js_trim_subset
  by (fastforce simp: parseCsvEnv_def csvItem_def split: option.splits if_splits)

lemma parseCsvEnv_join:
  assumes "\<forall>i \<in> set is. csvItem i"
  shows "parseCsvEnv (Some (js_join '','' is)) = is"
proof (cases "is = []")
  case False
  then have "js_split (CHR '','') (js_join '','' is) = is"
    using assms by (intro js_split_join) (auto simp: csvItem_def)
  moreover have "js_join '','' is \<noteq> []"
    using False assms by (cases "is"; cases "tl is") (auto simp: csvItem_def)
  moreover have "map js_trim is = is"
    using assms by (intro map_idI) (simp add: csvItem_def)
  ultimately show ?thesis
    using assms by (auto simp: parseCsvEnv_def csvItem_def filter_id_conv)
qed (simp add: parseCsvEnv_def)

end
