(* ===== verification/Updater_Config.thy ===== *)
theory Updater_Config
  imports Release Compose
begin

text \<open>
  Configuration of the updater (apps/updater/src/config.ts): the environment variables it reads,
  their defaults, and the file paths derived from them with Node's \<open>path.join\<close>.
\<close>

subsection \<open>Paths (node:path)\<close>

text \<open>\<open>normalizeString\<close> of Node's posix paths: empty and \<open>.\<close> segments vanish, \<open>..\<close> removes the
  segment before it. The stack holds the segments kept so far, last first.\<close>

fun norm_segments :: "bool \<Rightarrow> string list \<Rightarrow> string list \<Rightarrow> string list" where
  "norm_segments absolute stack [] = rev stack"
| "norm_segments absolute stack (seg # segs) =
     (if seg = [] \<or> seg = ''.'' then norm_segments absolute stack segs
      else if seg = ''..'' then
        (case stack of
           [] \<Rightarrow> norm_segments absolute (if absolute then [] else [''..'']) segs
         | t # ts \<Rightarrow> if t = ''..'' then norm_segments absolute (''..'' # stack) segs
                    else norm_segments absolute ts segs)
      else norm_segments absolute (seg # stack) segs)"

definition path_normalize :: "string \<Rightarrow> string" where
  "path_normalize p =
     (if p = [] then ''.''
      else let absolute = (hd p = CHR ''/''); trailing = (last p = CHR ''/'');
               body = js_join ''/'' (norm_segments absolute [] (js_split (CHR ''/'') p))
           in if body = [] then (if absolute then ''/'' else if trailing then ''./'' else ''.'')
              else (if absolute then ''/'' else []) @ body @ (if trailing then ''/'' else []))"

definition path_join :: "string list \<Rightarrow> string" where
  "path_join ps = path_normalize (js_join ''/'' (filter (\<lambda>p. p \<noteq> []) ps))"

definition path_dirname :: "string \<Rightarrow> string" where
  "path_dirname p =
     (case p of
        [] \<Rightarrow> ''.''
      | c # cs \<Rightarrow>
          (case dropWhile (\<lambda>d. d \<noteq> CHR ''/'') (dropWhile (\<lambda>d. d = CHR ''/'') (rev cs)) of
             [] \<Rightarrow> (if c = CHR ''/'' then ''/'' else ''.'')
           | _ # r \<Rightarrow> (if r = [] \<and> c = CHR ''/'' then ''//'' else c # rev r)))"

subsection \<open>Configuration\<close>

record updaterConfig =
  updaterSecret :: string
  cfgCurrentVersion :: string
  currentUpdaterVersion :: string
  cfgChannel :: releaseChannel
  releaseManifestUrl :: string
  allowedHosts :: "string list"
  deployDir :: string
  stateDir :: string
  statePath :: string
  stagedManifestPath :: string
  nextComposePath :: string
  stagedComposePath :: string
  nextReleaseEnvPath :: string
  stagedReleaseEnvPath :: string
  cfgCompose :: composeOptions
  cfgDatabase :: databaseConfig
  healthCheckUrls :: "string list"
  healthCheckTimeoutMs :: nat
  healthCheckIntervalMs :: nat
  updaterContainerName :: string
  updaterFinalizerDelaySeconds :: nat

definition DEFAULT_ALLOWED_HOSTS :: "string list" where
  "DEFAULT_ALLOWED_HOSTS =
     [''api.github.com'', ''github.com'', ''raw.githubusercontent.com'',
      ''objects.githubusercontent.com'']"

definition DEFAULT_HEALTH_CHECK_URLS :: "string list" where
  "DEFAULT_HEALTH_CHECK_URLS =
     [''http://api:3001/health'', ''http://admin:3000'', ''http://deno:7133/health'',
      ''http://hasura:8080/healthz'']"

definition CURRENT_UPDATER_VERSION :: string where
  "CURRENT_UPDATER_VERSION = ''0.2.0''"

text \<open>\<open>env.X || d\<close>: an unset or empty variable takes the default.\<close>

definition env_or :: "(string \<rightharpoonup> string) \<Rightarrow> string \<Rightarrow> string \<Rightarrow> string" where
  "env_or env key d = (case env key of Some v \<Rightarrow> if v = [] then d else v | None \<Rightarrow> d)"

definition requiredEnv :: "(string \<rightharpoonup> string) \<Rightarrow> string \<Rightarrow> string + string" where
  "requiredEnv env key =
     (case env key of
        None \<Rightarrow> Inl (''Missing required updater env: '' @ key)
      | Some v \<Rightarrow> if v = [] then Inl (''Missing required updater env: '' @ key) else Inr v)"

text \<open>\<open>Number(value)\<close> is the parameter \<open>num\<close>: None for NaN and the infinities. The value is
  accepted when it is a positive integer.\<close>

definition positiveInteger ::
  "(string \<Rightarrow> rat option) \<Rightarrow> string \<Rightarrow> string option \<Rightarrow> nat \<Rightarrow> string + nat" where
  "positiveInteger num msg v fallback =
     (case v of None \<Rightarrow> Inr fallback | Some s \<Rightarrow>
        if s = [] then Inr fallback
        else (case num s of
                None \<Rightarrow> Inl (msg @ s)
              | Some x \<Rightarrow> if x \<noteq> of_int \<lfloor>x\<rfloor> \<or> x \<le> 0 then Inl (msg @ s) else Inr (nat \<lfloor>x\<rfloor>)))"

definition parsePort :: "(string \<Rightarrow> rat option) \<Rightarrow> string option \<Rightarrow> nat \<Rightarrow> string + nat" where
  "parsePort num v fallback = positiveInteger num ''Invalid port: '' v fallback"

definition parsePositiveInteger ::
  "(string \<Rightarrow> rat option) \<Rightarrow> string option \<Rightarrow> nat \<Rightarrow> string + nat" where
  "parsePositiveInteger num v fallback = positiveInteger num ''Invalid positive integer: '' v fallback"

definition parseChannel :: "string option \<Rightarrow> string + releaseChannel" where
  "parseChannel v =
     (let ch = (case v of Some s \<Rightarrow> if s = [] then ''stable'' else s | None \<Rightarrow> ''stable'')
      in case find (\<lambda>c. channelName c = ch) releaseChannels of
           None \<Rightarrow> Inl (''Invalid update channel: '' @ ch)
         | Some c \<Rightarrow> Inr c)"

definition parseUpdaterConfig ::
  "(string \<Rightarrow> rat option) \<Rightarrow> (string \<rightharpoonup> string) \<Rightarrow> string + updaterConfig" where
  "parseUpdaterConfig num env =
     bindE (requiredEnv env ''DRUVIA_UPDATER_SECRET'') (\<lambda>secret.
     bindE (requiredEnv env ''DRUVIA_CURRENT_VERSION'') (\<lambda>cv.
     bindE (requiredEnv env ''DRUVIA_RELEASE_MANIFEST_URL'') (\<lambda>manifestUrl.
     (let deploy = env_or env ''DRUVIA_DEPLOY_DIR'' ''/deploy'';
          state = env_or env ''DRUVIA_STATE_DIR'' ''/state'';
          baseEnv = env_or env ''DRUVIA_BASE_ENV_FILE'' (path_join [deploy, ''.env.prod'']);
          releaseEnv = env_or env ''DRUVIA_RELEASE_ENV_FILE'' (path_join [deploy, ''.env.release'']);
          composeF = env_or env ''DRUVIA_COMPOSE_FILE''
                       (path_join [deploy, ''docker-compose.release.yml'']);
          hosts = parseCsvEnv (env ''DRUVIA_RELEASE_ALLOWED_HOSTS'');
          services = parseCsvEnv (env ''DRUVIA_MANAGED_SERVICES'')
      in
      bindE (parseChannel (env ''DRUVIA_UPDATE_CHANNEL'')) (\<lambda>ch.
      bindE (parsePort num (env ''DB_PORT'') 5432) (\<lambda>dbPort.
      bindE (parsePositiveInteger num (env ''DRUVIA_HEALTH_CHECK_TIMEOUT_MS'') 180000) (\<lambda>timeout.
      bindE (parsePositiveInteger num (env ''DRUVIA_HEALTH_CHECK_INTERVAL_MS'') 2000) (\<lambda>interval.
      bindE (parsePositiveInteger num (env ''DRUVIA_UPDATER_FINALIZER_DELAY_SECONDS'') 2) (\<lambda>delay.
      Inr \<lparr>updaterSecret = secret, cfgCurrentVersion = cv,
           currentUpdaterVersion = CURRENT_UPDATER_VERSION, cfgChannel = ch,
           releaseManifestUrl = manifestUrl,
           allowedHosts = (if length hosts > 0 then hosts else DEFAULT_ALLOWED_HOSTS),
           deployDir = deploy, stateDir = state,
           statePath = path_join [state, ''update-state.json''],
           stagedManifestPath = path_join [state, ''staged-manifest.json''],
           nextComposePath = path_join [deploy, ''docker-compose.release.yml.next''],
           stagedComposePath = path_join [deploy, ''docker-compose.release.yml.staged''],
           nextReleaseEnvPath = path_join [deploy, ''.env.release.next''],
           stagedReleaseEnvPath = path_join [deploy, ''.env.release.staged''],
           cfgCompose = \<lparr>projectDirectory = deploy, baseEnvFile = baseEnv,
                         releaseEnvFile = releaseEnv, composeFile = composeF,
                         profiles = parseCsvEnv (env ''DRUVIA_COMPOSE_PROFILES''),
                         managedServices =
                           (if length services > 0 then services
                            else [''api'', ''admin'', ''deno'', ''hasura''])\<rparr>,
           cfgDatabase = \<lparr>host = env_or env ''DB_HOST'' ''postgres'', port = dbPort,
                          user = env_or env ''DB_USER'' ''postgres'',
                          password = env_or env ''POSTGRES_PASSWORD'' [],
                          database = env_or env ''DB_NAME'' ''druvia''\<rparr>,
           healthCheckUrls =
             (if length (parseCsvEnv (env ''DRUVIA_HEALTH_CHECK_URLS'')) > 0
              then parseCsvEnv (env ''DRUVIA_HEALTH_CHECK_URLS'') else DEFAULT_HEALTH_CHECK_URLS),
           healthCheckTimeoutMs = timeout, healthCheckIntervalMs = interval,
           updaterContainerName = env_or env ''DRUVIA_UPDATER_CONTAINER_NAME'' ''druvia-updater'',
           updaterFinalizerDelaySeconds = delay\<rparr>)))))))))"

subsection \<open>What every parsed configuration satisfies\<close>

definition configUsable :: "updaterConfig \<Rightarrow> bool" where
  "configUsable c \<longleftrightarrow>
     updaterSecret c \<noteq> [] \<and> cfgCurrentVersion c \<noteq> [] \<and> releaseManifestUrl c \<noteq> []
     \<and> allowedHosts c \<noteq> [] \<and> healthCheckUrls c \<noteq> [] \<and> managedServices (cfgCompose c) \<noteq> []
     \<and> (\<forall>h \<in> set (allowedHosts c). h \<noteq> [])
     \<and> 0 < healthCheckTimeoutMs c \<and> 0 < healthCheckIntervalMs c
     \<and> 0 < updaterFinalizerDelaySeconds c \<and> 0 < port (cfgDatabase c)
     \<and> currentUpdaterVersion c = CURRENT_UPDATER_VERSION"

lemma positiveInteger_Inr: "positiveInteger num msg v fallback = Inr n \<Longrightarrow> 0 < fallback \<Longrightarrow> 0 < n"
proof -
  assume r: "positiveInteger num msg v fallback = Inr n" and f: "0 < fallback"
  have "0 < nat \<lfloor>x\<rfloor>" if "x = of_int \<lfloor>x\<rfloor>" "\<not> x \<le> 0" for x :: rat
    using that by (metis not_le of_int_le_0_iff zero_less_nat_eq)
  with r f show ?thesis
    by (auto simp: positiveInteger_def simp del: zero_less_nat_eq split: option.splits if_splits)
qed

lemma requiredEnv_Inr: "requiredEnv env key = Inr v \<Longrightarrow> v \<noteq> []"
  by (auto simp: requiredEnv_def split: option.splits if_splits)

lemma parseCsvEnv_nonempty: "\<forall>h \<in> set (parseCsvEnv v). h \<noteq> []"
  using parseCsvEnv_items csvItem_def by blast

text \<open>
  A configuration the updater starts with is usable: the secret, the version and the
  manifest URL are non-empty, the host allow-list, the health-check list and the managed
  services are never empty (an empty variable falls back to the defaults), no allowed host is
  the empty string, and every interval, timeout, delay and port is positive.
\<close>

theorem parseUpdaterConfig_usable:
  assumes "parseUpdaterConfig num env = Inr c"
  shows "configUsable c"
proof -
  have pos: "0 < n" if "parsePort num v fb = Inr n \<or> parsePositiveInteger num v fb = Inr n"
    and "0 < fb" for n v fb
    using that positiveInteger_Inr unfolding parsePort_def parsePositiveInteger_def by blast
  show ?thesis
    using assms unfolding parseUpdaterConfig_def Let_def bindE_Inr_iff sum.inject
    apply (elim exE conjE)
    apply (hypsubst)
    apply (simp only: configUsable_def updaterConfig.simps composeOptions.simps databaseConfig.simps)
    apply (thin_tac "c = _")
    apply (drule requiredEnv_Inr)+
    apply (drule pos [OF disjI1], simp)
    apply (drule pos [OF disjI2], simp)+
    apply (simp add: DEFAULT_ALLOWED_HOSTS_def DEFAULT_HEALTH_CHECK_URLS_def parseCsvEnv_nonempty)
    done
qed

definition exampleEnv :: "string \<rightharpoonup> string" where
  "exampleEnv = [''DRUVIA_UPDATER_SECRET'' \<mapsto> ''secret'', ''DRUVIA_CURRENT_VERSION'' \<mapsto> ''1.0.0'',
                 ''DRUVIA_RELEASE_MANIFEST_URL'' \<mapsto> ''https://github.com/druvia/manifest.json'']"

lemma exampleEnv_parses: "\<exists>c. parseUpdaterConfig (\<lambda>_. None) exampleEnv = Inr c"
  by (simp add: parseUpdaterConfig_def exampleEnv_def requiredEnv_def parseChannel_def
      releaseChannels_def parsePort_def parsePositiveInteger_def positiveInteger_def Let_def)

lemma parseUpdaterConfig_usable_witness:
  "\<exists>c. parseUpdaterConfig (\<lambda>_. None) exampleEnv = Inr c \<and> configUsable c"
  using exampleEnv_parses parseUpdaterConfig_usable by blast

end
