(* ===== verification/Updater_World.thy ===== *)
theory Updater_World
  imports Manifest Updater_Config
begin

text \<open>
  The world the updater acts on and the operations that touch it (apps/updater/src/command.ts,
  state.ts, and the file helpers of update-service.ts). An operation maps a world to an outcome
  and a new world. Everything the updater cannot control is an oracle of the environment that
  answers from the trace of all effects so far: results of commands, responses, input/output
  failures, the passing of time, watchdog ticks, and whether the process dies at this point.
\<close>

subsection \<open>Errors\<close>

text \<open>The error classes of the updater. \<open>FsError\<close> is an \<open>Error\<close> with a \<open>code\<close> property.\<close>

datatype exn =
    PlainError string
  | FsError string string
  | CommandError string "string list" "int option" string string
  | ManifestError manifestError
  | InProgressError "string option"
  | PreconditionError string string
  | RollbackRecoveryRequired string

fun exnMessage :: "exn \<Rightarrow> string" where
  "exnMessage (PlainError m) = m"
| "exnMessage (FsError code m) = m"
| "exnMessage (CommandError cmd as exitCode out err) =
     cmd @ '' '' @ js_join '' '' as @ '' failed''
     @ (case exitCode of None \<Rightarrow> [] | Some c \<Rightarrow> '' with exit code '' @ int_to_string c)
     @ '': '' @ (if err = [] then out else err)"
| "exnMessage (ManifestError e) = meMessage e"
| "exnMessage (InProgressError i) = ''Update operation is already in progress''"
| "exnMessage (PreconditionError code m) = m"
| "exnMessage (RollbackRecoveryRequired m) = m"

definition normalizeError :: "exn \<Rightarrow> updateError" where
  "normalizeError e =
     (case e of
        ManifestError me \<Rightarrow> \<lparr>errCode = meCode me, errMessage = meMessage me\<rparr>
      | RollbackRecoveryRequired m \<Rightarrow>
          \<lparr>errCode = ''UPDATE_ROLLBACK_RECOVERY_REQUIRED'', errMessage = m\<rparr>
      | _ \<Rightarrow> \<lparr>errCode = ''UPDATE_OPERATION_FAILED'', errMessage = exnMessage e\<rparr>)"

subsection \<open>World and environment\<close>

datatype event =
    EvRun string "string list"
  | EvFetch string
  | EvReadState
  | EvWriteState updateStatus
  | EvSyncState
  | EvReadFile string
  | EvWriteFile string
  | EvCopyFile string string
  | EvRename string string
  | EvMkdir string
  | EvAccess string
  | EvSync string
  | EvSleep nat

text \<open>The state file holds the JSON of a status; \<open>CorruptState m\<close> is a file \<open>JSON.parse\<close> rejects
  with message \<open>m\<close>.\<close>

datatype savedState = NoState | CorruptState string | SavedState updateStatus

text \<open>
  \<open>files\<close> maps paths to contents. \<open>activeOperationId\<close> is the field of \<open>UpdateService\<close>, lost when
  the process dies; \<open>holderFailure\<close> and \<open>aborted\<close> are the variables the watchdog of
  \<open>completeProjectionRollback\<close> shares with it. \<open>trace\<close> lists the effects, latest first.
\<close>

record world =
  files :: "string \<rightharpoonup> string"
  stateFile :: savedState
  activeOperationId :: "string option"
  holderFailure :: "exn option"
  aborted :: bool
  clock :: nat
  trace :: "event list"

record fetchResponse =
  respOk :: bool
  respStatus :: nat
  respText :: string

record environment =
  runtime :: jsRuntime
  jsonParse :: "string \<Rightarrow> jsval option"
  jsonStringify :: "jsval \<Rightarrow> string"
  parseEnv :: "string \<Rightarrow> string \<rightharpoonup> string"
  processEnv :: "string \<rightharpoonup> string"
  isoTime :: "nat \<Rightarrow> string"
  operationIdFactory :: "event list \<Rightarrow> string"
  commandResult :: "event list \<Rightarrow> string \<Rightarrow> string list \<Rightarrow> exn + string"
  dumpContent :: "event list \<Rightarrow> string"
  fetchResult :: "event list \<Rightarrow> string \<Rightarrow> exn + fetchResponse"
  ioFailure :: "event list \<Rightarrow> event \<Rightarrow> exn option"
  dies :: "event list \<Rightarrow> bool"
  tornContent :: "event list \<Rightarrow> string option"
  elapsed :: "event list \<Rightarrow> nat"
  watchdogTicks :: "event list \<Rightarrow> nat"

subsection \<open>Operations\<close>

text \<open>\<open>Killed\<close>: the process died here. \<open>Diverged\<close>: a loop used up its fuel; the development shows
  that this never happens.\<close>

datatype 'a outcome = Done 'a | Raised exn | Killed | Diverged

type_synonym 'a op = "world \<Rightarrow> 'a outcome \<times> world"

definition ret :: "'a \<Rightarrow> 'a op" where
  "ret x w = (Done x, w)"

definition raise :: "exn \<Rightarrow> 'a op" where
  "raise e w = (Raised e, w)"

definition bind :: "'a op \<Rightarrow> ('a \<Rightarrow> 'b op) \<Rightarrow> 'b op" where
  "bind m f w = (case m w of (r, w') \<Rightarrow>
     (case r of Done x \<Rightarrow> f x w' | Raised e \<Rightarrow> (Raised e, w') | Killed \<Rightarrow> (Killed, w')
        | Diverged \<Rightarrow> (Diverged, w')))"

definition andThen :: "unit op \<Rightarrow> 'b op \<Rightarrow> 'b op" where
  "andThen m n = bind m (\<lambda>_. n)"

definition tryCatch :: "'a op \<Rightarrow> (exn \<Rightarrow> 'a op) \<Rightarrow> 'a op" where
  "tryCatch m h w = (case m w of (r, w') \<Rightarrow>
     (case r of Raised e \<Rightarrow> h e w' | _ \<Rightarrow> (r, w')))"

definition tryFinally :: "'a op \<Rightarrow> unit op \<Rightarrow> 'a op" where
  "tryFinally m f w = (case m w of (r, w') \<Rightarrow>
     (case r of
        Done x \<Rightarrow> andThen f (ret x) w'
      | Raised e \<Rightarrow> andThen f (raise e) w'
      | _ \<Rightarrow> (r, w')))"

definition liftE :: "('e \<Rightarrow> exn) \<Rightarrow> 'e + 'a \<Rightarrow> 'a op" where
  "liftE k r = (case r of Inl e \<Rightarrow> raise (k e) | Inr x \<Rightarrow> ret x)"

definition getWorld :: "(world \<Rightarrow> 'a) \<Rightarrow> 'a op" where
  "getWorld f w = (Done (f w), w)"

definition putWorld :: "(world \<Rightarrow> world) \<Rightarrow> unit op" where
  "putWorld f w = (Done (), f w)"

fun forEach :: "('a \<Rightarrow> unit op) \<Rightarrow> 'a list \<Rightarrow> unit op" where
  "forEach f [] = ret ()"
| "forEach f (x # xs) = andThen (f x) (forEach f xs)"

text \<open>One effect: the process may die before it; otherwise it is traced and time passes.\<close>

definition effect :: "environment \<Rightarrow> event \<Rightarrow> 'a op \<Rightarrow> 'a op" where
  "effect env ev act w =
     (if dies env (trace w) then (Killed, w)
      else act (w\<lparr>trace := ev # trace w, clock := clock w + elapsed env (trace w)\<rparr>))"

text \<open>An effect whose only failure is an input/output error of the operating system.\<close>

definition ioEffect :: "environment \<Rightarrow> event \<Rightarrow> 'a op \<Rightarrow> 'a op" where
  "ioEffect env ev act = bind (getWorld trace) (\<lambda>tr.
     effect env ev (case ioFailure env tr ev of Some e \<Rightarrow> raise e | None \<Rightarrow> act))"

subsection \<open>Commands, requests, time\<close>

definition runCommand :: "environment \<Rightarrow> string \<Rightarrow> string list \<Rightarrow> string op" where
  "runCommand env cmd as = bind (getWorld trace) (\<lambda>tr.
     effect env (EvRun cmd as) (liftE id (commandResult env tr cmd as)))"

definition runDocker :: "environment \<Rightarrow> string list \<Rightarrow> unit op" where
  "runDocker env as = bind (runCommand env ''docker'' as) (\<lambda>_. ret ())"

text \<open>A command started with an abort signal fails at once when the signal is set.\<close>

definition runDockerSignal :: "environment \<Rightarrow> string list \<Rightarrow> unit op" where
  "runDockerSignal env as = bind (getWorld aborted) (\<lambda>a.
     if a then raise (PlainError ''The operation was aborted'') else runDocker env as)"

definition fetchUrl :: "environment \<Rightarrow> string \<Rightarrow> fetchResponse op" where
  "fetchUrl env url = bind (getWorld trace) (\<lambda>tr.
     effect env (EvFetch url) (liftE id (fetchResult env tr url)))"

definition sleepMs :: "environment \<Rightarrow> nat \<Rightarrow> unit op" where
  "sleepMs env ms = effect env (EvSleep ms) (putWorld (\<lambda>w. w\<lparr>clock := clock w + ms\<rparr>))"

definition nowIso :: "environment \<Rightarrow> string op" where
  "nowIso env = getWorld (\<lambda>w. isoTime env (clock w))"

subsection \<open>Files\<close>

definition enoent :: "string \<Rightarrow> exn" where
  "enoent path = FsError ''ENOENT'' (''ENOENT: no such file or directory '' @ path)"

definition isEnoent :: "exn \<Rightarrow> bool" where
  "isEnoent e = (case e of FsError code m \<Rightarrow> code = ''ENOENT'' | _ \<Rightarrow> False)"

definition setFile :: "string \<Rightarrow> string \<Rightarrow> world \<Rightarrow> world" where
  "setFile path content w = w\<lparr>files := (files w)(path \<mapsto> content)\<rparr>"

text \<open>A write that is cut short, by an error or by the death of the process, may leave any
  content behind.\<close>

definition tear :: "environment \<Rightarrow> event list \<Rightarrow> string \<Rightarrow> world \<Rightarrow> world" where
  "tear env tr path w = (case tornContent env tr of None \<Rightarrow> w | Some t \<Rightarrow> setFile path t w)"

definition writing :: "environment \<Rightarrow> event \<Rightarrow> string \<Rightarrow> (world \<Rightarrow> exn + string) \<Rightarrow> unit op" where
  "writing env ev path content w =
     (let tr = trace w in
      case ioEffect env ev (\<lambda>w'. (case content w' of
             Inl e \<Rightarrow> (Raised e, w')
           | Inr c \<Rightarrow> (Done (), setFile path c w'))) w of
        (Done u, w') \<Rightarrow> (Done u, w')
      | (r, w') \<Rightarrow> (r, (case content w of Inl e \<Rightarrow> w' | Inr c \<Rightarrow> tear env tr path w')))"

definition readFile :: "environment \<Rightarrow> string \<Rightarrow> string op" where
  "readFile env path = ioEffect env (EvReadFile path) (bind (getWorld files) (\<lambda>fs.
     case fs path of None \<Rightarrow> raise (enoent path) | Some c \<Rightarrow> ret c))"

definition writeFile :: "environment \<Rightarrow> string \<Rightarrow> string \<Rightarrow> unit op" where
  "writeFile env path content = writing env (EvWriteFile path) path (\<lambda>w. Inr content)"

definition copyFile :: "environment \<Rightarrow> string \<Rightarrow> string \<Rightarrow> unit op" where
  "copyFile env src dst = writing env (EvCopyFile src dst) dst (\<lambda>w.
     case files w src of None \<Rightarrow> Inl (enoent src) | Some c \<Rightarrow> Inr c)"

definition renameFile :: "environment \<Rightarrow> string \<Rightarrow> string \<Rightarrow> unit op" where
  "renameFile env src dst = ioEffect env (EvRename src dst) (bind (getWorld files) (\<lambda>fs.
     case fs src of None \<Rightarrow> raise (enoent src)
     | Some c \<Rightarrow> putWorld (\<lambda>w. w\<lparr>files := ((files w)(src := None))(dst \<mapsto> c)\<rparr>)))"

definition mkdirP :: "environment \<Rightarrow> string \<Rightarrow> unit op" where
  "mkdirP env path = ioEffect env (EvMkdir path) (ret ())"

definition accessFile :: "environment \<Rightarrow> string \<Rightarrow> unit op" where
  "accessFile env path = ioEffect env (EvAccess path) (bind (getWorld files) (\<lambda>fs.
     case fs path of None \<Rightarrow> raise (enoent path) | Some c \<Rightarrow> ret ()))"

definition syncPath :: "environment \<Rightarrow> string \<Rightarrow> unit op" where
  "syncPath env path = ioEffect env (EvSync path) (ret ())"

definition syncFile :: "environment \<Rightarrow> string \<Rightarrow> unit op" where
  "syncFile env path = ioEffect env (EvSync path) (bind (getWorld files) (\<lambda>fs.
     case fs path of None \<Rightarrow> raise (enoent path) | Some c \<Rightarrow> ret ()))"

definition syncReleaseFiles :: "environment \<Rightarrow> string list \<Rightarrow> string list \<Rightarrow> unit op" where
  "syncReleaseFiles env paths extraDirectories =
     andThen (forEach (syncFile env) paths)
       (forEach (syncPath env) (rev (remdups (rev (map path_dirname paths @ extraDirectories)))))"

definition ensureParent :: "environment \<Rightarrow> string \<Rightarrow> unit op" where
  "ensureParent env path = mkdirP env (path_dirname path)"

definition writeJsonFile :: "environment \<Rightarrow> string \<Rightarrow> jsval \<Rightarrow> unit op" where
  "writeJsonFile env path v =
     andThen (ensureParent env path)
       (writeFile env path (jsonStringify env v @ [CHR 0x0A]))"

definition readJsonFile :: "environment \<Rightarrow> string \<Rightarrow> jsval op" where
  "readJsonFile env path = bind (readFile env path) (\<lambda>content.
     case jsonParse env content of
       None \<Rightarrow> raise (PlainError ''Unexpected token in JSON'') | Some v \<Rightarrow> ret v)"

definition atomicWrite :: "environment \<Rightarrow> string \<Rightarrow> string \<Rightarrow> string \<Rightarrow> unit op" where
  "atomicWrite env path tempPath content =
     andThen (ensureParent env tempPath)
       (andThen (writeFile env tempPath content) (renameFile env tempPath path))"

definition sha256File :: "environment \<Rightarrow> string \<Rightarrow> string op" where
  "sha256File env path = bind (readFile env path) (\<lambda>c. ret (sha256Hex (runtime env) c))"

subsection \<open>The state file (state.ts)\<close>

definition readUpdateState :: "environment \<Rightarrow> updateStatus \<Rightarrow> updateStatus op" where
  "readUpdateState env fallback = ioEffect env EvReadState (bind (getWorld stateFile) (\<lambda>sf.
     case sf of
       NoState \<Rightarrow> ret fallback
     | CorruptState m \<Rightarrow> raise (PlainError m)
     | SavedState s \<Rightarrow> ret s))"

text \<open>The new state is written and synced under a temporary name and renamed into place, which is
  atomic; the directory is synced afterwards, and that can still fail.\<close>

definition writeUpdateState :: "environment \<Rightarrow> updateStatus \<Rightarrow> unit op" where
  "writeUpdateState env s =
     andThen (ioEffect env (EvWriteState s) (putWorld (\<lambda>w. w\<lparr>stateFile := SavedState s\<rparr>)))
       (ioEffect env EvSyncState (ret ()))"

end
