(* ===== verification/Env_File.thy ===== *)
theory Env_File
  imports Prelude
begin

text \<open>
  The release environment file (apps/updater/src/update-service.ts, \<open>mergeEnvContent\<close>): replacing
  the values of some variables in a file of \<open>KEY=value\<close> lines.
\<close>

text \<open>\<open>split(/\r?\n/)\<close>: a carriage return before a line feed belongs to the separator.\<close>

definition drop_cr :: "string \<Rightarrow> string" where
  "drop_cr l = (if l \<noteq> [] \<and> last l = CHR 0x0D then butlast l else l)"

definition splitLines :: "string \<Rightarrow> string list" where
  "splitLines s =
     (let ps = js_split (CHR 0x0A) s in map drop_cr (butlast ps) @ [last ps])"

text \<open>\<open>line.match(/^([A-Za-z_][A-Za-z0-9_]*)=/)\<close>, group 1.\<close>

definition is_env_char :: "char \<Rightarrow> bool" where
  "is_env_char c \<longleftrightarrow> js_is_alnum c \<or> c = CHR ''_''"

definition envKey :: "string \<Rightarrow> string option" where
  "envKey line =
     (let k = takeWhile is_env_char line; r = dropWhile is_env_char line
      in if k \<noteq> [] \<and> \<not> js_is_digit (hd k) \<and> r \<noteq> [] \<and> hd r = CHR ''='' then Some k else None)"

text \<open>\<open>remaining\<close> is the \<open>Map\<close> of the updates not yet placed, in insertion order.\<close>

fun mergeLines :: "string list \<Rightarrow> (string \<times> string) list \<Rightarrow> string list \<times> (string \<times> string) list" where
  "mergeLines [] remaining = ([], remaining)"
| "mergeLines (line # ls) remaining =
     (case envKey line of
        None \<Rightarrow> (let (ms, rem') = mergeLines ls remaining in (line # ms, rem'))
      | Some key \<Rightarrow>
          (case map_of remaining key of
             None \<Rightarrow> (let (ms, rem') = mergeLines ls remaining in (line # ms, rem'))
           | Some value \<Rightarrow>
               (let (ms, rem') = mergeLines ls (filter (\<lambda>kv. fst kv \<noteq> key) remaining)
                in ((key @ ''='' @ value) # ms, rem'))))"

definition mergeEnvContent :: "string \<Rightarrow> (string \<times> string) list \<Rightarrow> string" where
  "mergeEnvContent content updates =
     (let trimmed = js_trimEnd content;
          lines = (if length trimmed > 0 then splitLines trimmed else []);
          (merged, remaining) = mergeLines lines updates;
          all = merged @ map (\<lambda>(k, v). k @ ''='' @ v) remaining
      in js_join [CHR 0x0A] all @ [CHR 0x0A])"

subsection \<open>What the merged file says\<close>

text \<open>The value of the first line that sets a variable, and the lines of a file.\<close>

fun envFirst :: "string list \<Rightarrow> string \<Rightarrow> string option" where
  "envFirst [] k = None"
| "envFirst (l # ls) k = (if envKey l = Some k then Some (drop (Suc (length k)) l) else envFirst ls k)"

definition envFileLines :: "string \<Rightarrow> string list" where
  "envFileLines content =
     (let trimmed = js_trimEnd content
      in if length trimmed > 0 then splitLines trimmed else [])"

definition envAssignment :: "string \<times> string \<Rightarrow> bool" where
  "envAssignment kv \<longleftrightarrow>
     fst kv \<noteq> [] \<and> \<not> js_is_digit (hd (fst kv)) \<and> list_all is_env_char (fst kv)
     \<and> snd kv \<noteq> [] \<and> list_all (\<lambda>c. \<not> js_is_space c) (snd kv)"

lemma equals_not_env_char: "\<not> is_env_char (CHR ''='')"
  by (simp add: is_env_char_def js_is_alnum_def js_is_alpha_def js_is_lower_def js_is_upper_def
      js_is_digit_def)

lemma envKey_assignment: "envAssignment (k, v) \<Longrightarrow> envKey (k @ CHR ''='' # v) = Some k"
  by (simp add: envKey_def envAssignment_def list_all_iff takeWhile_append dropWhile_append
      equals_not_env_char)

lemma map_of_filter_neq:
  "map_of (filter (\<lambda>kv. fst kv \<noteq> key) xs) k = (if k = key then None else map_of xs k)"
  by (induction xs) auto

lemma envFirst_append:
  "envFirst (xs @ ys) k = (case envFirst xs k of Some v \<Rightarrow> Some v | None \<Rightarrow> envFirst ys k)"
  by (induction xs) auto

lemma envFirst_assignments:
  "\<forall>kv \<in> set us. envAssignment kv \<Longrightarrow>
   envFirst (map (\<lambda>(k, v). k @ ''='' @ v) us) k = map_of us k"
proof (induction us)
  case (Cons kv us)
  obtain k' v' where kv: "kv = (k', v')" by (cases kv)
  with Cons have "envKey (k' @ CHR ''='' # v') = Some k'" by (simp add: envKey_assignment)
  with Cons kv show ?case by simp
qed simp

lemma mergeLines_lookup:
  assumes "\<forall>kv \<in> set us. envAssignment kv"
    and "mergeLines ls us = (ms, rem)"
  shows "(case envFirst ms k of Some v \<Rightarrow> Some v | None \<Rightarrow> map_of rem k) =
           (case map_of us k of Some v \<Rightarrow> Some v | None \<Rightarrow> envFirst ls k)"
    and "set rem \<subseteq> set us"
  using assms
proof (induction ls us arbitrary: ms rem rule: mergeLines.induct)
  case (1 us)
  {
    case 1
    then show ?case by (simp split: option.splits)
  next
    case 2
    then show ?case by simp
  }
next
  case (2 line ls us)
  note IHs = "2.IH"
  obtain ms0 rem0 where r0: "mergeLines ls us = (ms0, rem0)" by (cases "mergeLines ls us")
  {
    case 1
    show ?case
    proof (cases "envKey line")
      case None
      with 1 r0 have ms: "ms = line # ms0" "rem = rem0" by auto
      have "envFirst (line # xs) k = envFirst xs k" for xs using None by simp
      with IHs(1) [OF None 1(1) r0] show ?thesis by (simp only: ms)
    next
      case (Some key)
      note ek = this
      show ?thesis
      proof (cases "map_of us key")
        case None
        with 1 r0 ek have "ms = line # ms0" "rem = rem0" by auto
        with ek None IHs(3) [OF ek None _ r0] 1 show ?thesis
          by (auto split: option.splits if_splits)
      next
        case (Some va)
        let ?us' = "filter (\<lambda>kv. fst kv \<noteq> key) us"
        obtain ms1 rem1 where r1: "mergeLines ls ?us' = (ms1, rem1)"
          by (cases "mergeLines ls ?us'")
        with 1 ek Some have ms: "ms = (key @ ''='' @ va) # ms1" "rem = rem1" by auto
        from Some have "(key, va) \<in> set us" by (rule map_of_SomeD)
        with 1 have "envKey (key @ CHR ''='' # va) = Some key"
          by (intro envKey_assignment) blast
        with ms Some ek IHs(5) [OF ek Some _ r1] 1 show ?thesis
          by (auto simp: map_of_filter_neq split: option.splits if_splits)
      qed
    qed
  next
    case 2
    show ?case
    proof (cases "envKey line")
      case None
      with 2 r0 IHs(2) [OF None _ r0] show ?thesis by auto
    next
      case (Some key)
      note ek = this
      show ?thesis
      proof (cases "map_of us key")
        case None
        with 2 r0 ek IHs(4) [OF ek None _ r0] show ?thesis by auto
      next
        case (Some va)
        let ?us' = "filter (\<lambda>kv. fst kv \<noteq> key) us"
        obtain ms1 rem1 where r1: "mergeLines ls ?us' = (ms1, rem1)"
          by (cases "mergeLines ls ?us'")
        with 2 ek Some IHs(6) [OF ek Some _ r1] show ?thesis by auto
      qed
    qed
  }
qed

lemma splitLines_no_lf: "l \<in> set (splitLines s) \<Longrightarrow> CHR 0x0A \<notin> set l"
proof -
  have pieces: "CHR 0x0A \<notin> set p" if "p \<in> set (js_split (CHR 0x0A) s)" for p
    using that by (rule js_split_sep_free)
  have cr: "CHR 0x0A \<notin> set (drop_cr p)" if "CHR 0x0A \<notin> set p" for p
    using that by (auto simp: drop_cr_def dest: in_set_butlastD)
  assume "l \<in> set (splitLines s)"
  then show ?thesis
    using pieces cr by (auto simp: splitLines_def Let_def dest: in_set_butlastD)
qed

lemma space_lf: "js_is_space (CHR 0x0A)"
  by (simp add: js_is_space_def)

lemma assignment_no_lf: "envAssignment (k, v) \<Longrightarrow> CHR 0x0A \<notin> set (k @ ''='' @ v)"
  by (auto simp: envAssignment_def list_all_iff is_env_char_def js_is_alnum_def js_is_alpha_def
      js_is_lower_def js_is_upper_def js_is_digit_def space_lf dest!: bspec)

lemma mergeLines_no_lf:
  "mergeLines ls us = (ms, rem) \<Longrightarrow> \<forall>kv \<in> set us. envAssignment kv \<Longrightarrow>
   \<forall>l \<in> set ls. CHR 0x0A \<notin> set l \<Longrightarrow> \<forall>l \<in> set ms. CHR 0x0A \<notin> set l"
proof (induction ls us arbitrary: ms rem rule: mergeLines.induct)
  case (2 line ls us)
  show ?case
  proof (cases "\<exists>key v. envKey line = Some key \<and> map_of us key = Some v")
    case True
    then obtain key v where kv: "envKey line = Some key" "map_of us key = Some v" by blast
    then have "envAssignment (key, v)" using 2(5) by (blast dest: map_of_SomeD)
    then have a: "CHR 0x0A \<notin> set (key @ ''='' @ v)" by (rule assignment_no_lf)
    obtain ms1 rem1 where r1: "mergeLines ls (filter (\<lambda>kv. fst kv \<noteq> key) us) = (ms1, rem1)"
      by (cases "mergeLines ls (filter (\<lambda>kv. fst kv \<noteq> key) us)")
    with "2.IH"(3) [OF kv r1] 2(5,6) have "\<forall>l \<in> set ms1. CHR 0x0A \<notin> set l" by simp
    with a kv r1 2(4) show ?thesis by auto
  next
    case False
    obtain ms1 rem1 where r1: "mergeLines ls us = (ms1, rem1)" by (cases "mergeLines ls us")
    with "2.IH"(1) [OF _ r1] "2.IH"(2) [OF _ _ r1] 2(5,6) False
    have "\<forall>l \<in> set ms1. CHR 0x0A \<notin> set l" by (cases "envKey line") auto
    with False r1 2(4,6) show ?thesis by (cases "envKey line") auto
  qed
qed simp

text \<open>
  Merging release variables into an environment file. The result is a sequence of
  newline-terminated lines in which every updated variable has its new value and every other
  variable has the value it had before.
\<close>

theorem mergeEnvContent_lookup:
  assumes "\<forall>kv \<in> set updates. envAssignment kv"
  shows "\<exists>lines. mergeEnvContent content updates = js_join [CHR 0x0A] lines @ [CHR 0x0A]
     \<and> (\<forall>l \<in> set lines. CHR 0x0A \<notin> set l)
     \<and> (\<forall>k. envFirst lines k =
          (case map_of updates k of Some v \<Rightarrow> Some v | None \<Rightarrow> envFirst (envFileLines content) k))"
proof -
  obtain ms rem where m: "mergeLines (envFileLines content) updates = (ms, rem)"
    by (cases "mergeLines (envFileLines content) updates")
  let ?lines = "ms @ map (\<lambda>(k, v). k @ ''='' @ v) rem"
  have rem: "\<forall>kv \<in> set rem. envAssignment kv" using mergeLines_lookup(2) [OF assms m] assms by blast
  have "mergeEnvContent content updates = js_join [CHR 0x0A] ?lines @ [CHR 0x0A]"
    using m by (simp add: mergeEnvContent_def envFileLines_def Let_def)
  moreover have "\<forall>l \<in> set ?lines. CHR 0x0A \<notin> set l"
    using mergeLines_no_lf [OF m assms] splitLines_no_lf rem assignment_no_lf
    by (fastforce simp: envFileLines_def Let_def)
  moreover have "envFirst ?lines k =
      (case map_of updates k of Some v \<Rightarrow> Some v | None \<Rightarrow> envFirst (envFileLines content) k)" for k
    unfolding envFirst_append envFirst_assignments [OF rem] by (rule mergeLines_lookup(1) [OF assms m])
  ultimately show ?thesis by blast
qed

lemma mergeEnvContent_lookup_witness:
  "envAssignment (''A'', ''2'')
   \<and> (\<exists>lines. mergeEnvContent ''A=1'' [(''A'', ''2'')] = js_join [CHR 0x0A] lines @ [CHR 0x0A]
       \<and> envFirst lines ''A'' = Some ''2'')"
proof -
  have h: "\<forall>kv \<in> set [(''A'', ''2'')]. envAssignment kv"
    by (simp add: envAssignment_def is_env_char_def js_defs)
  from mergeEnvContent_lookup [OF h, of "''A=1''"] h show ?thesis by fastforce
qed

end
