(* ===== verification/Update_Service.thy ===== *)
theory Update_Service
  imports Updater_World Env_File
begin

text \<open>
  The update service (apps/updater/src/update-service.ts): status and reconciliation, recovery
  after a restart, and the operations check, download, apply, rollback and restart, each as the
  code has it. \<open>env\<close> is the environment, \<open>cfg\<close> the configuration.

  The code starts the body of an operation in the background and answers at once; here
  \<open>beginOperation\<close> is what happens before the answer and \<open>runBackground\<close> what happens after it.
\<close>

subsection \<open>Status\<close>

definition truthy :: "string option \<Rightarrow> bool" where
  "truthy v = (case v of None \<Rightarrow> False | Some s \<Rightarrow> s \<noteq> [])"

definition sanitizeDockerNameSegment :: "string \<Rightarrow> string" where
  "sanitizeDockerNameSegment s =
     take 120 (map (\<lambda>c. if js_is_alnum c \<or> c \<in> {CHR ''_'', CHR ''.'', CHR ''-''}
                         then c else CHR ''-'') s)"

text \<open>\<open>/\bNo such (?:object|container):\s/.test(stderr)\<close>; the first argument says whether the
  character before the rest of the text is a word character.\<close>

definition no_such_here :: "string \<Rightarrow> string \<Rightarrow> bool" where
  "no_such_here s p =
     (js_startsWith s p \<and> (case drop (length p) s of [] \<Rightarrow> False | c # _ \<Rightarrow> js_is_space c))"

fun noSuchDockerTest :: "bool \<Rightarrow> string \<Rightarrow> bool" where
  "noSuchDockerTest afterWord [] = False"
| "noSuchDockerTest afterWord (c # cs) =
     ((\<not> afterWord \<and> (no_such_here (c # cs) ''No such object:''
                       \<or> no_such_here (c # cs) ''No such container:''))
      \<or> noSuchDockerTest (word_char c) cs)"

definition isMissingDockerContainer :: "exn \<Rightarrow> string \<Rightarrow> bool" where
  "isMissingDockerContainer e name =
     (case e of CommandError cmd as exitCode out err \<Rightarrow>
        cmd = ''docker''
        \<and> (js_endsWith (js_trim err) (''No such container: '' @ name)
            \<or> js_endsWith (js_trim err) (''No such object: '' @ name))
      | _ \<Rightarrow> False)"

definition defaultStatus :: "updaterConfig \<Rightarrow> updateStatus" where
  "defaultStatus cfg = createDefaultUpdateStatus (cfgCurrentVersion cfg) (cfgChannel cfg)"

definition finalizerName :: "string \<Rightarrow> string" where
  "finalizerName opId = ''druvia-updater-finalizer-'' @ sanitizeDockerNameSegment opId"

text \<open>\<open>reconcileFinalizing\<close>: a finalizing status whose finalizer container is gone or stopped is
  closed as succeeded.\<close>

definition finalizerStopped :: "environment \<Rightarrow> string \<Rightarrow> bool op" where
  "finalizerStopped env name =
     tryCatch
       (bind (runCommand env ''docker'' [''inspect'', ''--format'', ''{{.State.Running}}'', name])
         (\<lambda>stdout. ret (js_trim stdout = ''false'')))
       (\<lambda>e. ret (case e of CommandError cmd as exitCode out err \<Rightarrow>
                        cmd = ''docker'' \<and> noSuchDockerTest False err
                    | _ \<Rightarrow> False))"

definition reconcileFinalizing :: "environment \<Rightarrow> updateStatus \<Rightarrow> updateStatus op" where
  "reconcileFinalizing env current =
     bind (finalizerStopped env (finalizerName (the (operationId current)))) (\<lambda>stopped.
     if \<not> stopped then ret current
     else bind (readUpdateState env current) (\<lambda>latest.
       if phase latest \<noteq> Finalizing \<or> operationId latest \<noteq> operationId current then ret latest
       else bind (nowIso env) (\<lambda>now.
         (let finished = latest\<lparr>phase := Succeeded, operationId := None, finishedAt := Some now,
                message := Some (''Updated to '' @ currentVersion latest
                  @ ''; updater finalizer failed after interruption and can be retried manually''),
                error := None\<rparr>
          in andThen (writeUpdateState env finished) (ret finished)))))"

text \<open>Concurrent callers share one reconciliation; the model has one caller at a time.\<close>

definition getStatus :: "environment \<Rightarrow> updaterConfig \<Rightarrow> updateStatus op" where
  "getStatus env cfg =
     bind (readUpdateState env (defaultStatus cfg)) (\<lambda>current.
     bind (getWorld activeOperationId) (\<lambda>active.
     if phase current \<noteq> Finalizing \<or> \<not> truthy (operationId current) \<or> truthy active
     then ret current
     else reconcileFinalizing env current))"

definition writeState ::
  "environment \<Rightarrow> updaterConfig \<Rightarrow> (updateStatus \<Rightarrow> updateStatus) \<Rightarrow> unit op" where
  "writeState env cfg upd =
     bind (getStatus env cfg) (\<lambda>current. writeUpdateState env (upd current))"

subsection \<open>Docker steps of a rollback\<close>

definition rollbackContainerNames :: "string list" where
  "rollbackContainerNames = [''druvia-api'', ''druvia-admin'', ''druvia-deno'']"

definition rollbackDb :: "updaterConfig \<Rightarrow> rollbackDatabase" where
  "rollbackDb cfg = \<lparr>dbUser = user (cfgDatabase cfg), dbName = database (cfgDatabase cfg)\<rparr>"

text \<open>The loop of \<open>stopRollbackServices\<close>: every container is stopped on its own; the first error
  that is not a missing container is kept and thrown at the end.\<close>

fun stopEach :: "environment \<Rightarrow> string list \<Rightarrow> exn option \<Rightarrow> exn option op" where
  "stopEach env [] failure = ret failure"
| "stopEach env (name # names) failure =
     bind (tryCatch (andThen (runDocker env [''stop'', ''--time'', ''10'', name]) (ret failure))
       (\<lambda>e. ret (if \<not> isMissingDockerContainer e name
                  then (case failure of None \<Rightarrow> Some e | Some f \<Rightarrow> Some f) else failure)))
       (\<lambda>failure'. stopEach env names failure')"

definition stopRollbackServices :: "environment \<Rightarrow> unit op" where
  "stopRollbackServices env =
     tryCatch (runDocker env buildRollbackStopArgs) (\<lambda>e.
       if \<not> list_ex (\<lambda>name. isMissingDockerContainer e name) rollbackContainerNames then raise e
       else bind (stopEach env rollbackContainerNames None) (\<lambda>failure.
         case failure of Some f \<Rightarrow> raise f | None \<Rightarrow> ret ()))"

definition runGateCommand :: "environment \<Rightarrow> string + string list \<Rightarrow> unit op" where
  "runGateCommand env as = bind (liftE PlainError as) (\<lambda>a. runDocker env a)"

definition assertProjectionRollbackSafe :: "environment \<Rightarrow> updaterConfig \<Rightarrow> unit op" where
  "assertProjectionRollbackSafe env cfg =
     runGateCommand env (buildProjectionRollbackCheckArgs (rollbackDb cfg))"

definition enableProjectionRollbackGate :: "environment \<Rightarrow> updaterConfig \<Rightarrow> unit op" where
  "enableProjectionRollbackGate env cfg =
     runGateCommand env (buildProjectionRollbackGateArgs (rollbackDb cfg) EnableGate False)"

definition disableProjectionRollbackGate :: "environment \<Rightarrow> updaterConfig \<Rightarrow> bool \<Rightarrow> unit op" where
  "disableProjectionRollbackGate env cfg requireHolder =
     andThen
       (runGateCommand env (buildProjectionRollbackGateArgs (rollbackDb cfg) DisableGate requireHolder))
       (runGateCommand env (buildProjectionRollbackLockReleaseWaitArgs (rollbackDb cfg) requireHolder))"

definition startProjectionRollbackLockHolder :: "environment \<Rightarrow> updaterConfig \<Rightarrow> unit op" where
  "startProjectionRollbackLockHolder env cfg =
     runGateCommand env (buildProjectionRollbackLockHolderArgs (rollbackDb cfg))"

definition checkRollbackLockReady :: "environment \<Rightarrow> updaterConfig \<Rightarrow> unit op" where
  "checkRollbackLockReady env cfg =
     runGateCommand env (buildProjectionRollbackLockReadyArgs (rollbackDb cfg))"

text \<open>\<open>waitForProjectionRollbackLock\<close>: \<open>attempts\<close> counts down from 40.\<close>

fun waitLockLoop :: "environment \<Rightarrow> updaterConfig \<Rightarrow> nat \<Rightarrow> exn \<Rightarrow> unit op" where
  "waitLockLoop env cfg 0 lastError = raise lastError"
| "waitLockLoop env cfg (Suc attempts) lastError =
     bind (tryCatch (andThen (checkRollbackLockReady env cfg) (ret None))
             (\<lambda>e. andThen (sleepMs env 100) (ret (Some e))))
       (\<lambda>failed. case failed of None \<Rightarrow> ret () | Some e \<Rightarrow> waitLockLoop env cfg attempts e)"

definition waitForProjectionRollbackLock :: "environment \<Rightarrow> updaterConfig \<Rightarrow> unit op" where
  "waitForProjectionRollbackLock env cfg =
     waitLockLoop env cfg 40 (PlainError ''file rollback lock holder is not ready'')"

definition prepareProjectionRollback :: "environment \<Rightarrow> updaterConfig \<Rightarrow> unit op" where
  "prepareProjectionRollback env cfg =
     andThen (stopRollbackServices env)
     (andThen (enableProjectionRollbackGate env cfg)
     (andThen (runGateCommand env (buildProjectionRollbackStaleHolderReleaseArgs (rollbackDb cfg)))
     (andThen (assertProjectionRollbackSafe env cfg)
     (andThen (startProjectionRollbackLockHolder env cfg)
              (waitForProjectionRollbackLock env cfg)))))"

subsection \<open>Health checks\<close>

text \<open>One pass over the URLs; \<open>afterCheck\<close> is the probe of a rollback, if there is one, and then
  requests carry its abort signal.\<close>

definition fetchSignal :: "environment \<Rightarrow> bool \<Rightarrow> string \<Rightarrow> fetchResponse op" where
  "fetchSignal env withSignal url = bind (getWorld aborted) (\<lambda>a.
     if withSignal \<and> a then raise (PlainError ''This operation was aborted'') else fetchUrl env url)"

definition optCheck :: "unit op option \<Rightarrow> unit op" where
  "optCheck c = (case c of None \<Rightarrow> ret () | Some m \<Rightarrow> m)"

definition healthPass :: "environment \<Rightarrow> updaterConfig \<Rightarrow> unit op option \<Rightarrow> unit op" where
  "healthPass env cfg afterCheck =
     andThen (forEach (\<lambda>url.
       bind (fetchSignal env (afterCheck \<noteq> None) url) (\<lambda>response.
         if \<not> respOk response
         then raise (PlainError (''Health check failed for '' @ url @ '': HTTP ''
                                 @ nat_to_string (respStatus response)))
         else optCheck afterCheck)) (healthCheckUrls cfg))
     (optCheck afterCheck)"

text \<open>The loop reads the clock before each pass and again before it sleeps.\<close>

fun pollLoop ::
  "environment \<Rightarrow> updaterConfig \<Rightarrow> unit op option \<Rightarrow> nat \<Rightarrow> nat \<Rightarrow> exn option \<Rightarrow> unit op" where
  "pollLoop env cfg afterCheck deadline 0 lastError = (\<lambda>w. (Diverged, w))"
| "pollLoop env cfg afterCheck deadline (Suc fuel) lastError =
     (let giveUp = (\<lambda>le. raise (case le of Some e \<Rightarrow> e
                                  | None \<Rightarrow> PlainError ''Health checks timed out''))
      in bind (getWorld clock) (\<lambda>t.
         if \<not> t \<le> deadline then giveUp lastError
         else bind (tryCatch (andThen (healthPass env cfg afterCheck) (ret None))
                      (\<lambda>e. andThen (optCheck afterCheck) (ret (Some e))))
           (\<lambda>failed. case failed of
              None \<Rightarrow> ret ()
            | Some e \<Rightarrow> bind (getWorld clock) (\<lambda>t'.
                if t' + healthCheckIntervalMs cfg > deadline then giveUp (Some e)
                else andThen (sleepMs env (healthCheckIntervalMs cfg))
                       (pollLoop env cfg afterCheck deadline fuel (Some e))))))"

definition pollFuel :: "updaterConfig \<Rightarrow> nat" where
  "pollFuel cfg = healthCheckTimeoutMs cfg + 2"

definition pollHealthChecks :: "environment \<Rightarrow> updaterConfig \<Rightarrow> unit op option \<Rightarrow> unit op" where
  "pollHealthChecks env cfg afterCheck =
     bind (getWorld clock) (\<lambda>t.
       pollLoop env cfg afterCheck (t + healthCheckTimeoutMs cfg) (pollFuel cfg) None)"

subsection \<open>Backups\<close>

definition backupEnvPath :: "string \<Rightarrow> string" where
  "backupEnvPath backupDir = path_join [backupDir, ''.env.release'']"

definition backupComposePath :: "string \<Rightarrow> string" where
  "backupComposePath backupDir = path_join [backupDir, ''docker-compose.release.yml'']"

definition dumpPath :: "string \<Rightarrow> string" where
  "dumpPath backupDir = path_join [backupDir, ''postgres.dump'']"

definition backupDirOf :: "updaterConfig \<Rightarrow> string \<Rightarrow> string" where
  "backupDirOf cfg opId = path_join [stateDir cfg, ''backups'', opId]"

text \<open>\<open>resolveBackupDir\<close> tests the identity against \<open>/^[A-Za-z0-9_-]+$/\<close>.\<close>

definition backupId_ok :: "string \<Rightarrow> bool" where
  "backupId_ok i \<longleftrightarrow> i \<noteq> [] \<and> list_all (\<lambda>c. js_is_alnum c \<or> c = CHR ''_'' \<or> c = CHR ''-'') i"

definition resolveBackupDir :: "updaterConfig \<Rightarrow> string \<Rightarrow> string op" where
  "resolveBackupDir cfg opId =
     (if \<not> backupId_ok opId
      then raise (PreconditionError ''UPDATE_BACKUP_NOT_AVAILABLE'' ''Invalid rollback backup identity'')
      else ret (backupDirOf cfg opId))"

text \<open>A successful \<open>pg_dump\<close> leaves its output in the file named by \<open>-f\<close>; no other command of
  the updater writes a file the model follows.\<close>

definition createDatabaseBackup :: "environment \<Rightarrow> updaterConfig \<Rightarrow> string \<Rightarrow> unit op" where
  "createDatabaseBackup env cfg backupDir =
     (let spec = buildPgDumpCommand (processEnv env) (cfgDatabase cfg) (dumpPath backupDir) in
      bind (getWorld trace) (\<lambda>tr.
      bind (runCommand env (command spec) (args spec)) (\<lambda>_.
      andThen (putWorld (setFile (dumpPath backupDir) (dumpContent env tr)))
      (bind (sha256File env (dumpPath backupDir)) (\<lambda>sha256.
       writeFile env (dumpPath backupDir @ ''.sha256'') (sha256 @ [CHR 0x0A]))))))"

definition restoreBackup :: "environment \<Rightarrow> updaterConfig \<Rightarrow> string \<Rightarrow> unit op" where
  "restoreBackup env cfg backupDir =
     andThen (copyFile env (backupEnvPath backupDir) (releaseEnvFile (cfgCompose cfg)))
     (andThen (copyFile env (backupComposePath backupDir) (composeFile (cfgCompose cfg)))
              (syncReleaseFiles env [releaseEnvFile (cfgCompose cfg), composeFile (cfgCompose cfg)] []))"

definition assertRollbackBackupComplete :: "environment \<Rightarrow> string \<Rightarrow> unit op" where
  "assertRollbackBackupComplete env backupDir =
     andThen (accessFile env (backupEnvPath backupDir)) (accessFile env (backupComposePath backupDir))"

subsection \<open>Completing a rollback under the lock\<close>

text \<open>
  \<open>probe\<close> checks that the lock holder is alive. The watchdog runs the same probe every 250 ms;
  when it fails it remembers the failure, aborts running commands and stops the services. Its
  ticks fall between the steps of the main flow, as many as the environment says.
\<close>

definition probe :: "environment \<Rightarrow> updaterConfig \<Rightarrow> unit op" where
  "probe env cfg =
     (let check = bind (getWorld holderFailure) (\<lambda>hf. case hf of Some e \<Rightarrow> raise e | None \<Rightarrow> ret ())
      in andThen check (andThen (checkRollbackLockReady env cfg) check))"

definition watchdogTick :: "environment \<Rightarrow> updaterConfig \<Rightarrow> unit op" where
  "watchdogTick env cfg =
     tryCatch (probe env cfg) (\<lambda>e.
       andThen (putWorld (\<lambda>w. w\<lparr>holderFailure := Some e, aborted := True\<rparr>))
         (tryCatch (stopRollbackServices env)
           (\<lambda>stopError. putWorld (\<lambda>w. w\<lparr>holderFailure := Some stopError\<rparr>))))"

fun repeatOp :: "nat \<Rightarrow> unit op \<Rightarrow> unit op" where
  "repeatOp 0 m = ret ()"
| "repeatOp (Suc n) m = andThen m (repeatOp n m)"

definition runWatchdog :: "environment \<Rightarrow> updaterConfig \<Rightarrow> unit op" where
  "runWatchdog env cfg =
     bind (getWorld trace) (\<lambda>tr. repeatOp (watchdogTicks env tr) (watchdogTick env cfg))"

definition watched :: "environment \<Rightarrow> updaterConfig \<Rightarrow> unit op \<Rightarrow> unit op" where
  "watched env cfg m = andThen (runWatchdog env cfg) m"

definition completeRollbackSteps :: "environment \<Rightarrow> updaterConfig \<Rightarrow> string \<Rightarrow> unit op" where
  "completeRollbackSteps env cfg backupDir =
     (let p = probe env cfg; step = watched env cfg in
      andThen (step p)
      (andThen (step (restoreBackup env cfg backupDir))
      (andThen (step p)
      (andThen (step (runDockerSignal env (buildComposeArgs RollbackWorker (cfgCompose cfg))))
      (andThen (step p)
      (andThen (step (runDockerSignal env (buildComposeArgs RollbackUp (cfgCompose cfg))))
      (andThen (step p)
      (andThen (step (writeState env cfg (\<lambda>s. s\<lparr>phase := Verifying,
                  message := Some ''Verifying services after rollback''\<rparr>)))
      (andThen (step (pollHealthChecks env cfg (Some p)))
      (andThen (step p)
      (andThen (bind (getWorld holderFailure) (\<lambda>hf. case hf of Some e \<Rightarrow> raise e | None \<Rightarrow> ret ()))
               (disableProjectionRollbackGate env cfg True)))))))))))) "

definition completeProjectionRollback :: "environment \<Rightarrow> updaterConfig \<Rightarrow> string \<Rightarrow> unit op" where
  "completeProjectionRollback env cfg backupDir =
     andThen (putWorld (\<lambda>w. w\<lparr>holderFailure := None, aborted := False\<rparr>))
       (tryCatch (completeRollbackSteps env cfg backupDir) (\<lambda>e.
          andThen (tryFinally (enableProjectionRollbackGate env cfg) (stopRollbackServices env))
            (raise e)))"

end
