(* ===== verification/Update_Operations.thy ===== *)
theory Update_Operations
  imports Update_Service
begin

text \<open>
  The operations of the update service (apps/updater/src/update-service.ts): starting an
  operation, check, download, apply, rollback, restart, and the recovery of an operation that a
  restart interrupted.
\<close>

subsection \<open>Starting an operation\<close>

definition inProgressId :: "updateStatus \<Rightarrow> exn" where
  "inProgressId s = InProgressError (operationId s)"

definition recoveryLocked :: "updateStatus \<Rightarrow> bool" where
  "recoveryLocked s \<longleftrightarrow>
     (case error s of None \<Rightarrow> False | Some e \<Rightarrow> errCode e = ''UPDATE_ROLLBACK_RECOVERY_REQUIRED'')"

text \<open>
  \<open>validate\<close> is \<open>validateCurrent\<close>; \<open>select\<close> is the last argument of \<open>startOperation\<close>: the backup
  a rollback will use, with what its closure keeps for the body.
\<close>

definition beginOperation ::
  "environment \<Rightarrow> updaterConfig \<Rightarrow> updatePhase \<Rightarrow> (updateStatus \<Rightarrow> unit op) \<Rightarrow> bool
   \<Rightarrow> (updateStatus \<Rightarrow> (string option \<times> 'c) op) \<Rightarrow> (string \<times> updateStatus \<times> 'c) op" where
  "beginOperation env cfg ph validate allowRollbackRecovery select =
     bind (getWorld activeOperationId) (\<lambda>active.
     if truthy active then raise (InProgressError active)
     else bind (getWorld trace) (\<lambda>tr.
       (let opId = operationIdFactory env tr in
        andThen (putWorld (\<lambda>w. w\<lparr>activeOperationId := Some opId\<rparr>))
        (tryCatch
          (bind (getStatus env cfg) (\<lambda>current.
           if isMutatingPhase (phase current) then raise (inProgressId current)
           else if \<not> allowRollbackRecovery \<and> recoveryLocked current
           then raise (PreconditionError ''UPDATE_ROLLBACK_RECOVERY_REQUIRED''
                  ''Rollback recovery must complete before another update operation'')
           else andThen (validate current)
             (bind (select current) (\<lambda>(selected, ctx).
              bind (nowIso env) (\<lambda>now.
              (let status = current\<lparr>phase := ph, operationId := Some opId,
                     applyStage := (if ph = Applying
                                    then Some (if allowRollbackRecovery then RollingBack
                                               else PreparingBackup)
                                    else None),
                     rollbackBackupOperationId := selected, startedAt := Some now,
                     finishedAt := None, message := None, error := None\<rparr>
               in andThen (writeUpdateState env status) (ret (opId, status, ctx))))))))
          (\<lambda>e. andThen (putWorld (\<lambda>w. w\<lparr>activeOperationId := None\<rparr>)) (raise e))))))"

definition handleOperationFailure :: "environment \<Rightarrow> updaterConfig \<Rightarrow> exn \<Rightarrow> unit op" where
  "handleOperationFailure env cfg e =
     bind (nowIso env) (\<lambda>now.
     writeState env cfg (\<lambda>s. s\<lparr>phase := Failed, finishedAt := Some now,
       message := Some (errMessage (normalizeError e)), error := Some (normalizeError e)\<rparr>))"

definition runBackground :: "environment \<Rightarrow> updaterConfig \<Rightarrow> unit op \<Rightarrow> unit op" where
  "runBackground env cfg body =
     tryFinally (tryCatch body (handleOperationFailure env cfg))
       (putWorld (\<lambda>w. w\<lparr>activeOperationId := None\<rparr>))"

definition startOperation ::
  "environment \<Rightarrow> updaterConfig \<Rightarrow> updatePhase \<Rightarrow> (string \<Rightarrow> 'c \<Rightarrow> unit op)
   \<Rightarrow> (updateStatus \<Rightarrow> unit op) \<Rightarrow> bool \<Rightarrow> (updateStatus \<Rightarrow> (string option \<times> 'c) op)
   \<Rightarrow> (string \<times> updateStatus) op" where
  "startOperation env cfg ph body validate allowRollbackRecovery select =
     bind (beginOperation env cfg ph validate allowRollbackRecovery select) (\<lambda>(opId, status, ctx).
     andThen (runBackground env cfg (body opId ctx)) (ret (opId, status)))"

definition noValidation :: "updateStatus \<Rightarrow> unit op" where
  "noValidation s = ret ()"

definition noSelection :: "updateStatus \<Rightarrow> (string option \<times> unit) op" where
  "noSelection s = ret (None, ())"

subsection \<open>Check and download\<close>

definition fetchReleaseManifest :: "environment \<Rightarrow> updaterConfig \<Rightarrow> releaseManifest op" where
  "fetchReleaseManifest env cfg =
     bind (fetchUrl env (releaseManifestUrl cfg)) (\<lambda>response.
     if \<not> respOk response
     then raise (PlainError (''Release manifest request failed with HTTP ''
                             @ nat_to_string (respStatus response)))
     else (case jsonParse env (respText response) of
        None \<Rightarrow> raise (PlainError ''Unexpected token in JSON'')
      | Some payload \<Rightarrow> bind (getStatus env cfg) (\<lambda>currentStatus.
          liftE ManifestError (validateReleaseManifest (runtime env) payload
            \<lparr>optCurrentVersion = currentVersion currentStatus, optChannel = cfgChannel cfg,
             optUpdaterVersion = currentUpdaterVersion cfg,
             optAllowedHosts = allowedHosts cfg\<rparr>))))"

definition downloadText :: "environment \<Rightarrow> string \<Rightarrow> string op" where
  "downloadText env url = bind (fetchUrl env url) (\<lambda>response.
     if \<not> respOk response
     then raise (PlainError (''Release asset request failed with HTTP ''
                             @ nat_to_string (respStatus response)))
     else ret (respText response))"

definition checkBody :: "environment \<Rightarrow> updaterConfig \<Rightarrow> unit op" where
  "checkBody env cfg =
     tryCatch
       (bind (fetchReleaseManifest env cfg) (\<lambda>manifest.
        bind (nowIso env) (\<lambda>now.
        writeState env cfg (\<lambda>s. s\<lparr>phase := Available, availableVersion := Some (version manifest),
          statusNotesUrl := Some (releaseNotesUrl manifest),
          migration := Some (migrations manifest), operationId := None, finishedAt := Some now,
          message := Some (''Version '' @ version manifest @ '' is available'')\<rparr>))))
       (\<lambda>e. case e of
          ManifestError me \<Rightarrow>
            if meCode me = ''NO_UPDATE_AVAILABLE''
            then bind (nowIso env) (\<lambda>now.
              writeState env cfg (\<lambda>s. s\<lparr>phase := Idle, availableVersion := None,
                statusNotesUrl := None, migration := None, operationId := None,
                finishedAt := Some now, message := Some ''Current version is up to date''\<rparr>))
            else raise e
        | _ \<Rightarrow> raise e)"

definition checkForUpdates :: "environment \<Rightarrow> updaterConfig \<Rightarrow> (string \<times> updateStatus) op" where
  "checkForUpdates env cfg =
     startOperation env cfg Checking (\<lambda>opId ctx. checkBody env cfg) noValidation False noSelection"

text \<open>The variables of the staged environment file.\<close>

definition imageVariables :: "releaseManifest \<Rightarrow> (string \<times> string) list" where
  "imageVariables m =
     [(''DRUVIA_API_IMAGE'', buildImageRef (apiImage (images m))),
      (''DRUVIA_ADMIN_IMAGE'', buildImageRef (adminImage (images m))),
      (''DRUVIA_WORKER_IMAGE'', buildImageRef (workerImage (images m))),
      (''DRUVIA_UPDATER_IMAGE'', buildImageRef (updaterImage (images m)))]"

definition downloadBody :: "environment \<Rightarrow> updaterConfig \<Rightarrow> unit op" where
  "downloadBody env cfg =
     bind (fetchReleaseManifest env cfg) (\<lambda>manifest.
     andThen (writeJsonFile env (stagedManifestPath cfg) (manifestJson manifest))
     (andThen (forEach (\<lambda>image. runDocker env (buildDockerImagePullArgs (buildImageRef image)))
        [apiImage (images manifest), adminImage (images manifest), workerImage (images manifest),
         updaterImage (images manifest)])
     (bind (downloadText env (composeUrl (compose manifest))) (\<lambda>composeContent.
     if \<not> verifySha256 (runtime env) composeContent (composeSha256 (compose manifest))
     then raise (PlainError ''Downloaded release compose checksum does not match manifest'')
     else
     andThen (atomicWrite env (stagedComposePath cfg) (nextComposePath cfg) composeContent)
     (bind (tryCatch (readFile env (releaseEnvFile (cfgCompose cfg)))
              (\<lambda>e. if isEnoent e then ret [] else raise e)) (\<lambda>currentEnv.
     (let stagedEnv = mergeEnvContent currentEnv
            ((''DRUVIA_VERSION'', version manifest) # imageVariables manifest) in
     andThen (atomicWrite env (stagedReleaseEnvPath cfg) (nextReleaseEnvPath cfg) stagedEnv)
     (andThen (syncReleaseFiles env
        [stagedManifestPath cfg, stagedComposePath cfg, stagedReleaseEnvPath cfg] [])
     (bind (nowIso env) (\<lambda>now.
      writeState env cfg (\<lambda>s. s\<lparr>phase := ReadyToApply, availableVersion := Some (version manifest),
        statusNotesUrl := Some (releaseNotesUrl manifest), migration := Some (migrations manifest),
        operationId := None, finishedAt := Some now,
        message := Some (''Version '' @ version manifest @ '' is ready to apply'')\<rparr>)))))))))))"

definition downloadUpdate :: "environment \<Rightarrow> updaterConfig \<Rightarrow> (string \<times> updateStatus) op" where
  "downloadUpdate env cfg =
     startOperation env cfg Downloading (\<lambda>opId ctx. downloadBody env cfg) noValidation False
       noSelection"

subsection \<open>Apply\<close>

text \<open>The admission test at the start of \<open>applyUpdate\<close>: the staged manifest is validated again,
  and the staged files are the ones it pins.\<close>

definition stagedInvalid :: "string \<Rightarrow> exn" where
  "stagedInvalid m = PreconditionError ''UPDATE_STAGED_ASSETS_INVALID'' m"

definition admitStaged :: "environment \<Rightarrow> updaterConfig \<Rightarrow> releaseManifest op" where
  "admitStaged env cfg =
     bind (getStatus env cfg) (\<lambda>current.
     bind (readJsonFile env (stagedManifestPath cfg)) (\<lambda>json.
     bind (liftE ManifestError (validateReleaseManifest (runtime env) json
            \<lparr>optCurrentVersion = currentVersion current, optChannel = cfgChannel cfg,
             optUpdaterVersion = currentUpdaterVersion cfg, optAllowedHosts = allowedHosts cfg\<rparr>))
       (\<lambda>manifest.
     if Some (version manifest) \<noteq> availableVersion current
        \<or> Some (migrations manifest) \<noteq> migration current
     then raise (stagedInvalid ''Staged release does not match the admitted manifest'')
     else bind (readFile env (stagedComposePath cfg)) (\<lambda>composeText.
     if \<not> verifySha256 (runtime env) composeText (composeSha256 (compose manifest))
     then raise (stagedInvalid ''Staged release does not match the admitted manifest'')
     else bind (readFile env (stagedReleaseEnvPath cfg)) (\<lambda>envText.
     (let stagedEnv = parseEnv env envText in
     if stagedEnv ''DRUVIA_VERSION'' \<noteq> Some (version manifest)
        \<or> list_ex (\<lambda>(key, image). stagedEnv key \<noteq> Some image) (imageVariables manifest)
     then raise (stagedInvalid ''Staged release env does not match the manifest'')
     else ret manifest))))))"

definition createBackup ::
  "environment \<Rightarrow> updaterConfig \<Rightarrow> releaseManifest \<Rightarrow> string \<Rightarrow> unit op" where
  "createBackup env cfg manifest backupDir =
     andThen (mkdirP env backupDir)
     (andThen (copyFile env (releaseEnvFile (cfgCompose cfg)) (backupEnvPath backupDir))
     (andThen (copyFile env (composeFile (cfgCompose cfg)) (backupComposePath backupDir))
     (andThen (if requiresBackup (migrations manifest)
               then createDatabaseBackup env cfg backupDir else ret ())
       (syncReleaseFiles env
         ([backupEnvPath backupDir, backupComposePath backupDir]
          @ (if requiresBackup (migrations manifest)
             then [dumpPath backupDir, path_join [backupDir, ''postgres.dump.sha256'']] else []))
         [path_dirname backupDir, stateDir cfg]))))"

text \<open>What runs between the switch to \<open>files_switched\<close> and the end of the \<open>try\<close> block.\<close>

definition installRelease :: "environment \<Rightarrow> updaterConfig \<Rightarrow> releaseManifest \<Rightarrow> unit op" where
  "installRelease env cfg manifest =
     andThen (renameFile env (stagedComposePath cfg) (composeFile (cfgCompose cfg)))
     (andThen (renameFile env (stagedReleaseEnvPath cfg) (releaseEnvFile (cfgCompose cfg)))
     (andThen (syncReleaseFiles env [composeFile (cfgCompose cfg), releaseEnvFile (cfgCompose cfg)] [])
     (andThen (if migRequired (migrations manifest)
               then runDocker env (buildComposeArgs Migrate (cfgCompose cfg)) else ret ())
     (andThen (runDocker env (buildComposeArgs Up (cfgCompose cfg)))
     (andThen (writeState env cfg (\<lambda>s. s\<lparr>phase := Verifying,
                 message := Some ''Verifying services after update''\<rparr>))
       (pollHealthChecks env cfg None))))))"

definition buildAutomaticRollbackMessage :: "string \<Rightarrow> releaseManifest \<Rightarrow> string" where
  "buildAutomaticRollbackMessage backupDir manifest =
     (if migRequired (migrations manifest) \<and> \<not> reversible (migrations manifest)
      then ''Rolled back release files using backup '' @ backupDir
           @ ''; database migration may need manual restore from backup''
      else ''Rolled back release files using backup '' @ backupDir)"

definition automaticRollback ::
  "environment \<Rightarrow> updaterConfig \<Rightarrow> releaseManifest \<Rightarrow> string \<Rightarrow> exn \<Rightarrow> unit op" where
  "automaticRollback env cfg manifest backupDir e =
     andThen
       (tryCatch
         (andThen (prepareProjectionRollback env cfg) (completeProjectionRollback env cfg backupDir))
         (\<lambda>rollbackError. raise (RollbackRecoveryRequired (exnMessage rollbackError))))
     (bind (nowIso env) (\<lambda>now.
      writeState env cfg (\<lambda>s. s\<lparr>phase := RolledBack, availableVersion := None,
        finishedAt := Some now, message := Some (buildAutomaticRollbackMessage backupDir manifest),
        error := Some (normalizeError e), operationId := None, applyStage := None\<rparr>)))"

definition scheduleFinalizer ::
  "environment \<Rightarrow> updaterConfig \<Rightarrow> releaseManifest \<Rightarrow> string \<Rightarrow> unit op" where
  "scheduleFinalizer env cfg manifest opId =
     tryCatch
       (runDocker env (buildUpdaterFinalizerRunArgs
          \<lparr>fzCompose = cfgCompose cfg, fzDelaySeconds = updaterFinalizerDelaySeconds cfg,
           fzImage = buildImageRef (updaterImage (images manifest)), fzName = finalizerName opId,
           fzTargetVersion = version manifest, fzContainerName = updaterContainerName cfg\<rparr>))
       (\<lambda>e. bind (nowIso env) (\<lambda>now.
         writeState env cfg (\<lambda>s. s\<lparr>phase := Succeeded, finishedAt := Some now, operationId := None,
           message := Some (''Updated to '' @ version manifest
             @ ''; updater finalizer failed and can be retried manually'')\<rparr>)))"

text \<open>
  The handler of the \<open>try\<close> block returns from the operation after a rollback; \<open>switched\<close> is the
  block's own result: whether the release stayed installed. A failure of the write of
  \<open>files_switched\<close> itself happens before \<open>releaseFilesSwitched\<close> is set and is thrown on.
\<close>

definition applyBody :: "environment \<Rightarrow> updaterConfig \<Rightarrow> string \<Rightarrow> unit op" where
  "applyBody env cfg opId =
     bind (admitStaged env cfg) (\<lambda>manifest.
     (let backupDir = backupDirOf cfg opId in
     andThen (createBackup env cfg manifest backupDir)
     (andThen (writeState env cfg (\<lambda>s. s\<lparr>applyStage := Some BackupReady\<rparr>))
     (andThen (writeState env cfg (\<lambda>s. s\<lparr>applyStage := Some FilesSwitched\<rparr>))
     (bind (tryCatch (andThen (installRelease env cfg manifest) (ret True))
              (\<lambda>e. andThen (automaticRollback env cfg manifest backupDir e) (ret False)))
       (\<lambda>switched.
     if \<not> switched then ret ()
     else andThen (writeState env cfg (\<lambda>s. s\<lparr>phase := Finalizing,
            currentVersion := version manifest,
            lastAppliedBackup := Some \<lparr>backupOperation = opId, targetVersion = version manifest\<rparr>,
            applyStage := None, availableVersion := None,
            statusNotesUrl := Some (releaseNotesUrl manifest),
            migration := Some (migrations manifest), finishedAt := None,
            message := Some (''Updated to '' @ version manifest
              @ ''; updater finalizer scheduled'')\<rparr>))
       (scheduleFinalizer env cfg manifest opId)))))))"

definition requireReady :: "updateStatus \<Rightarrow> unit op" where
  "requireReady current =
     (if phase current \<noteq> ReadyToApply
      then raise (PreconditionError ''UPDATE_NOT_READY'' ''No downloaded update is ready to apply'')
      else ret ())"

definition applyUpdate :: "environment \<Rightarrow> updaterConfig \<Rightarrow> (string \<times> updateStatus) op" where
  "applyUpdate env cfg =
     startOperation env cfg Applying (\<lambda>opId ctx. applyBody env cfg opId) requireReady False
       noSelection"

subsection \<open>Rollback\<close>

record rollbackContext =
  rbOperationId :: string
  rbVersion :: string
  rbPrevious :: "appliedBackup option"

definition notAvailable :: "string \<Rightarrow> exn" where
  "notAvailable m = PreconditionError ''UPDATE_BACKUP_NOT_AVAILABLE'' m"

definition recoveringFailedApply :: "updateStatus \<Rightarrow> bool" where
  "recoveringFailedApply s \<longleftrightarrow>
     phase s = Failed \<and> (applyStage s = Some FilesSwitched \<or> recoveryLocked s)"

definition selectedBackup :: "updateStatus \<Rightarrow> string option" where
  "selectedBackup s =
     (if recoveringFailedApply s then operationId s
      else (case lastAppliedBackup s of
              Some b \<Rightarrow> if targetVersion b = currentVersion s then Some (backupOperation b) else None
            | None \<Rightarrow> None))"

definition selectRollback ::
  "environment \<Rightarrow> updaterConfig \<Rightarrow> updateStatus \<Rightarrow> (string option \<times> rollbackContext) op" where
  "selectRollback env cfg current =
     (case selectedBackup current of
        None \<Rightarrow> raise (notAvailable ''No matching apply backup is available for rollback'')
      | Some selected \<Rightarrow>
          if selected = []
          then raise (notAvailable ''No matching apply backup is available for rollback'')
          else bind (resolveBackupDir cfg selected) (\<lambda>backupDir.
            bind (tryCatch
                (andThen (assertRollbackBackupComplete env backupDir)
                  (bind (readFile env (backupEnvPath backupDir)) (\<lambda>t.
                   ret (case parseEnv env t ''DRUVIA_VERSION'' of Some v \<Rightarrow> v | None \<Rightarrow> []))))
                (\<lambda>e. raise (notAvailable ''Rollback backup files are missing or invalid'')))
            (\<lambda>restoredVersion.
             if restoredVersion = []
             then raise (notAvailable ''Rollback backup has no DRUVIA_VERSION'')
             else ret (Some selected,
               \<lparr>rbOperationId = selected, rbVersion = restoredVersion,
                rbPrevious = lastAppliedBackup current\<rparr>))))"

definition rollbackBody :: "environment \<Rightarrow> updaterConfig \<Rightarrow> rollbackContext \<Rightarrow> unit op" where
  "rollbackBody env cfg ctx =
     bind (resolveBackupDir cfg (rbOperationId ctx)) (\<lambda>backupDir.
     tryCatch
       (andThen (prepareProjectionRollback env cfg)
       (andThen (completeProjectionRollback env cfg backupDir)
       (bind (nowIso env) (\<lambda>now.
        writeState env cfg (\<lambda>s. s\<lparr>phase := RolledBack, currentVersion := rbVersion ctx,
          availableVersion := None, operationId := None, rollbackBackupOperationId := None,
          lastAppliedBackup :=
            (case rbPrevious ctx of
               Some b \<Rightarrow> if backupOperation b = rbOperationId ctx then None else Some b
             | None \<Rightarrow> None),
          applyStage := None, finishedAt := Some now,
          message := Some (''Rolled back using backup '' @ backupDir), error := None\<rparr>)))))
       (\<lambda>e. andThen (writeState env cfg (\<lambda>s. s\<lparr>operationId := Some (rbOperationId ctx),
              rollbackBackupOperationId := None\<rparr>))
          (raise (RollbackRecoveryRequired (exnMessage e)))))"

definition rollbackUpdate :: "environment \<Rightarrow> updaterConfig \<Rightarrow> (string \<times> updateStatus) op" where
  "rollbackUpdate env cfg =
     startOperation env cfg Applying (\<lambda>opId ctx. rollbackBody env cfg ctx) noValidation True
       (selectRollback env cfg)"

subsection \<open>Restart\<close>

definition restartBody :: "environment \<Rightarrow> updaterConfig \<Rightarrow> unit op" where
  "restartBody env cfg =
     andThen (runDocker env (buildComposeArgs Restart (cfgCompose cfg)))
     (bind (nowIso env) (\<lambda>now.
      writeState env cfg (\<lambda>s. s\<lparr>phase := Succeeded, finishedAt := Some now,
        message := Some ''Services restarted'', operationId := None\<rparr>)))"

definition restartServices :: "environment \<Rightarrow> updaterConfig \<Rightarrow> (string \<times> updateStatus) op" where
  "restartServices env cfg =
     startOperation env cfg Restarting (\<lambda>opId ctx. restartBody env cfg) noValidation False
       noSelection"

subsection \<open>Recovery after a restart\<close>

text \<open>The loop over the two release files: True as soon as one differs from its backup.\<close>

fun filesDiffer :: "environment \<Rightarrow> updateStatus \<Rightarrow> (string \<times> string) list \<Rightarrow> bool op" where
  "filesDiffer env current [] = ret False"
| "filesDiffer env current ((active, backup) # rest) =
     bind (readFile env active) (\<lambda>activeContent.
     bind (tryCatch (bind (readFile env backup) (\<lambda>b. ret (activeContent \<noteq> b)))
             (\<lambda>e. ret (applyStage current \<noteq> Some PreparingBackup \<or> \<not> isEnoent e)))
       (\<lambda>differs. if differs then ret True else filesDiffer env current rest))"

definition releaseFilesDiverged :: "environment \<Rightarrow> updaterConfig \<Rightarrow> updateStatus \<Rightarrow> bool op" where
  "releaseFilesDiverged env cfg current =
     (if \<not> truthy (operationId current) then ret True
      else (let backupDir = backupDirOf cfg (the (operationId current)) in
        tryCatch
          (bind (readFile env (releaseEnvFile (cfgCompose cfg))) (\<lambda>activeEnv.
           if parseEnv env activeEnv ''DRUVIA_VERSION'' \<noteq> Some (currentVersion current)
           then ret True
           else filesDiffer env current
             [(releaseEnvFile (cfgCompose cfg), backupEnvPath backupDir),
              (composeFile (cfgCompose cfg), backupComposePath backupDir)]))
          (\<lambda>e. ret True)))"

definition needsRollback :: "environment \<Rightarrow> updaterConfig \<Rightarrow> updateStatus \<Rightarrow> bool op" where
  "needsRollback env cfg current =
     (if phase current = Applying \<or> phase current = Verifying
      then if applyStage current \<noteq> Some PreparingBackup \<and> applyStage current \<noteq> Some BackupReady
           then ret True
           else releaseFilesDiverged env cfg current
      else ret False)"

definition recoverInterruptedOperation :: "environment \<Rightarrow> updaterConfig \<Rightarrow> unit op" where
  "recoverInterruptedOperation env cfg =
     bind (getStatus env cfg) (\<lambda>current.
     if \<not> isMutatingPhase (phase current) \<or> phase current = Finalizing then ret ()
     else bind (needsRollback env cfg current) (\<lambda>needed.
       andThen (if needed then stopRollbackServices env else ret ())
       (bind (nowIso env) (\<lambda>now.
        (let msg = (if needed then ''Updater restarted during deployment; inspect and retry rollback''
                    else ''Updater restarted during an operation; retry the command'')
         in writeState env cfg (\<lambda>s. s\<lparr>phase := Failed,
              operationId := (if needed
                then (case rollbackBackupOperationId current of Some i \<Rightarrow> Some i
                      | None \<Rightarrow> operationId current)
                else operationId current),
              rollbackBackupOperationId := None, applyStage := None, finishedAt := Some now,
              message := Some msg,
              error := Some \<lparr>errCode = (if needed then ''UPDATE_ROLLBACK_RECOVERY_REQUIRED''
                                         else ''UPDATE_OPERATION_FAILED''),
                             errMessage = msg\<rparr>\<rparr>))))))"

text \<open>The process restarts: what was in memory is gone.\<close>

definition restartProcess :: "world \<Rightarrow> world" where
  "restartProcess w = w\<lparr>activeOperationId := None, holderFailure := None, aborted := False\<rparr>"

end
