(* ===== verification/Updater_Logic.thy ===== *)
theory Updater_Logic
  imports Update_Operations
begin

text \<open>
  A program logic for the operations of the updater: Hoare triples with one postcondition for a
  result, one for an error and one for a death at any point in between, and an interface for
  what an operation leaves alone.
\<close>

named_theorems quiet_defs "operations that unfold when their effects are traced"

subsection \<open>Triples\<close>

definition hoare ::
  "(world \<Rightarrow> bool) \<Rightarrow> 'a op \<Rightarrow> ('a \<Rightarrow> world \<Rightarrow> bool) \<Rightarrow> (exn \<Rightarrow> world \<Rightarrow> bool) \<Rightarrow> (world \<Rightarrow> bool) \<Rightarrow> bool"
  where
  "hoare P m Q R K \<longleftrightarrow> (\<forall>w. P w \<longrightarrow>
     (case m w of (r, w') \<Rightarrow>
        (case r of Done x \<Rightarrow> Q x w' | Raised e \<Rightarrow> R e w' | Killed \<Rightarrow> K w' | Diverged \<Rightarrow> K w')))"

lemma hoareD:
  assumes "hoare P m Q R K" "P w" "m w = (r, w')"
  shows "case r of Done x \<Rightarrow> Q x w' | Raised e \<Rightarrow> R e w' | Killed \<Rightarrow> K w' | Diverged \<Rightarrow> K w'"
  using assms by (auto simp: hoare_def)

lemma hoareI:
  assumes "\<And>w r w'. P w \<Longrightarrow> m w = (r, w') \<Longrightarrow>
    (case r of Done x \<Rightarrow> Q x w' | Raised e \<Rightarrow> R e w' | Killed \<Rightarrow> K w' | Diverged \<Rightarrow> K w')"
  shows "hoare P m Q R K"
  unfolding hoare_def using assms by (auto split: prod.splits)

lemma hoare_conseq:
  assumes "hoare P' m Q' R' K'" "\<And>w. P w \<Longrightarrow> P' w" "\<And>x w. Q' x w \<Longrightarrow> Q x w"
    "\<And>e w. R' e w \<Longrightarrow> R e w" "\<And>w. K' w \<Longrightarrow> K w"
  shows "hoare P m Q R K"
proof (rule hoareI)
  fix w r w'
  assume "P w" and m: "m w = (r, w')"
  then have "P' w" using assms(2) by blast
  from hoareD [OF assms(1) this m] assms(3-5)
  show "case r of Done x \<Rightarrow> Q x w' | Raised e \<Rightarrow> R e w' | Killed \<Rightarrow> K w' | Diverged \<Rightarrow> K w'"
    by (cases r) auto
qed

lemma hoare_pre: "hoare P' m Q R K \<Longrightarrow> (\<And>w. P w \<Longrightarrow> P' w) \<Longrightarrow> hoare P m Q R K"
  by (rule hoare_conseq)

lemma hoare_post: "hoare P m Q' R K \<Longrightarrow> (\<And>x w. Q' x w \<Longrightarrow> Q x w) \<Longrightarrow> hoare P m Q R K"
  by (rule hoare_conseq)

lemma hoare_assume: "(\<And>w0. P w0 \<Longrightarrow> hoare (\<lambda>w. w = w0) m Q R K) \<Longrightarrow> hoare P m Q R K"
  by (auto simp: hoare_def)

lemma hoare_ret: "(\<And>w. P w \<Longrightarrow> Q x w) \<Longrightarrow> hoare P (ret x) Q R K"
  by (simp add: hoare_def ret_def)

lemma hoare_raise: "(\<And>w. P w \<Longrightarrow> R e w) \<Longrightarrow> hoare P (raise e) Q R K"
  by (simp add: hoare_def raise_def)

lemma hoare_getWorld: "(\<And>w. P w \<Longrightarrow> Q (f w) w) \<Longrightarrow> hoare P (getWorld f) Q R K"
  by (simp add: hoare_def getWorld_def)

lemma hoare_putWorld: "(\<And>w. P w \<Longrightarrow> Q () (f w)) \<Longrightarrow> hoare P (putWorld f) Q R K"
  by (simp add: hoare_def putWorld_def)

lemma hoare_bind:
  assumes "hoare P m Q R K" "\<And>x. hoare (Q x) (f x) Q' R K"
  shows "hoare P (bind m f) Q' R K"
proof (rule hoareI)
  fix w r w'
  assume "P w" and b: "bind m f w = (r, w')"
  obtain r1 w1 where m: "m w = (r1, w1)" by (cases "m w")
  have "case r1 of Done x \<Rightarrow> Q x w1 | Raised e \<Rightarrow> R e w1 | Killed \<Rightarrow> K w1 | Diverged \<Rightarrow> K w1"
    by (rule hoareD [OF assms(1) \<open>P w\<close> m])
  with b m show "case r of Done x \<Rightarrow> Q' x w' | Raised e \<Rightarrow> R e w' | Killed \<Rightarrow> K w' | Diverged \<Rightarrow> K w'"
    by (cases r1) (auto simp: bind_def dest: hoareD [OF assms(2)])
qed

lemma hoare_andThen:
  "hoare P m (\<lambda>_. Q) R K \<Longrightarrow> hoare Q n Q' R K \<Longrightarrow> hoare P (andThen m n) Q' R K"
  unfolding andThen_def by (rule hoare_bind)

lemma hoare_tryCatch:
  assumes "hoare P m Q R' K" "\<And>e. hoare (R' e) (h e) Q R K"
  shows "hoare P (tryCatch m h) Q R K"
proof (rule hoareI)
  fix w r w'
  assume "P w" and b: "tryCatch m h w = (r, w')"
  obtain r1 w1 where m: "m w = (r1, w1)" by (cases "m w")
  have "case r1 of Done x \<Rightarrow> Q x w1 | Raised e \<Rightarrow> R' e w1 | Killed \<Rightarrow> K w1 | Diverged \<Rightarrow> K w1"
    by (rule hoareD [OF assms(1) \<open>P w\<close> m])
  with b m show "case r of Done x \<Rightarrow> Q x w' | Raised e \<Rightarrow> R e w' | Killed \<Rightarrow> K w' | Diverged \<Rightarrow> K w'"
    by (cases r1) (auto simp: tryCatch_def dest: hoareD [OF assms(2)])
qed

lemma hoare_tryFinally:
  assumes "hoare P m Q' R' K" "\<And>x. hoare (Q' x) f (\<lambda>_. Q x) R K" "\<And>e. hoare (R' e) f (\<lambda>_. R e) R K"
  shows "hoare P (tryFinally m f) Q R K"
proof (rule hoareI)
  fix w r w'
  assume "P w" and b: "tryFinally m f w = (r, w')"
  obtain r1 w1 where m: "m w = (r1, w1)" by (cases "m w")
  have d: "case r1 of Done x \<Rightarrow> Q' x w1 | Raised e \<Rightarrow> R' e w1 | Killed \<Rightarrow> K w1 | Diverged \<Rightarrow> K w1"
    by (rule hoareD [OF assms(1) \<open>P w\<close> m])
  have fin: "hoare (Q' x) (andThen f (ret x)) Q R K" for x
    by (rule hoare_andThen [OF assms(2)]) (auto intro: hoare_ret)
  have exc: "hoare (R' e) (andThen f (raise e)) Q R K" for e
    by (rule hoare_andThen [OF assms(3)]) (auto intro: hoare_raise)
  from d b m show "case r of Done x \<Rightarrow> Q x w' | Raised e \<Rightarrow> R e w' | Killed \<Rightarrow> K w' | Diverged \<Rightarrow> K w'"
    by (cases r1) (auto simp: tryFinally_def dest: hoareD [OF fin] hoareD [OF exc])
qed

lemma hoare_if:
  "(b \<Longrightarrow> hoare P m Q R K) \<Longrightarrow> (\<not> b \<Longrightarrow> hoare P n Q R K) \<Longrightarrow> hoare P (if b then m else n) Q R K"
  by simp

lemma hoare_False: "hoare (\<lambda>w. False) m Q R K"
  by (simp add: hoare_def)

lemma hoare_conj_pure: "(b \<Longrightarrow> hoare P m Q R K) \<Longrightarrow> hoare (\<lambda>w. b \<and> P w) m Q R K"
  by (auto simp: hoare_def)

subsection \<open>What an operation leaves alone\<close>

text \<open>
  An observer reads part of a world that tracing, the clock and the watchdog do not touch. An
  operation is quiet for it when the observation is the same in every outcome.
\<close>

locale observer =
  fixes obs :: "world \<Rightarrow> 'o"
  assumes obs_effect: "obs (w\<lparr>trace := t, clock := c\<rparr>) = obs w"
    and obs_watch: "obs (w\<lparr>holderFailure := h, aborted := a\<rparr>) = obs w"
begin

definition quiet :: "'a op \<Rightarrow> bool" where
  "quiet m \<longleftrightarrow> (\<forall>w. obs (snd (m w)) = obs w)"

lemma quietD: "quiet m \<Longrightarrow> m w = (r, w') \<Longrightarrow> obs w' = obs w"
  by (metis quiet_def snd_conv)

lemma obs_clock: "obs (w\<lparr>clock := c\<rparr>) = obs w"
  using obs_effect [where w = w and t = "trace w" and c = c] by simp

lemma obs_failure: "obs (w\<lparr>holderFailure := h\<rparr>) = obs w"
  using obs_watch [where w = w and h = h and a = "aborted w"] by simp

lemma quiet_ret [intro!, simp]: "quiet (ret x)"
  by (simp add: quiet_def ret_def)

lemma quiet_raise [intro!, simp]: "quiet (raise e)"
  by (simp add: quiet_def raise_def)

lemma quiet_getWorld [intro!, simp]: "quiet (getWorld f)"
  by (simp add: quiet_def getWorld_def)

lemma quiet_diverged [intro!, simp]: "quiet (\<lambda>w. (Diverged, w))"
  by (simp add: quiet_def)

lemma quiet_bind [intro!]: "quiet m \<Longrightarrow> (\<And>x. quiet (f x)) \<Longrightarrow> quiet (bind m f)"
  by (auto simp: quiet_def bind_def split: prod.splits outcome.splits) (metis snd_conv)+

lemma quiet_andThen [intro!]: "quiet m \<Longrightarrow> quiet n \<Longrightarrow> quiet (andThen m n)"
  unfolding andThen_def by blast

lemma quiet_tryCatch [intro!]: "quiet m \<Longrightarrow> (\<And>e. quiet (h e)) \<Longrightarrow> quiet (tryCatch m h)"
  by (auto simp: quiet_def tryCatch_def split: prod.splits outcome.splits) (metis snd_conv)+

lemma quiet_tryFinally [intro!]:
  assumes "quiet m" "quiet f"
  shows "quiet (tryFinally m f)"
  unfolding quiet_def
proof
  fix w
  obtain r w1 where m: "m w = (r, w1)" by (cases "m w")
  then have w1: "obs w1 = obs w" using assms(1) quietD by blast
  have fin: "obs (snd (andThen f n w1)) = obs w1" if "quiet n" for n :: "'x op"
    using quiet_andThen [OF assms(2) that] by (simp add: quiet_def)
  from m w1 show "obs (snd (tryFinally m f w)) = obs w"
    by (cases r) (simp_all add: tryFinally_def fin)
qed

lemma quiet_liftE [intro!, simp]: "quiet (liftE k r)"
  by (cases r) (simp_all add: liftE_def)

lemma quiet_if [intro!]: "(b \<Longrightarrow> quiet m) \<Longrightarrow> (\<not> b \<Longrightarrow> quiet n) \<Longrightarrow> quiet (if b then m else n)"
  by simp

lemma quiet_case_option [intro!]:
  "quiet m \<Longrightarrow> (\<And>x. quiet (f x)) \<Longrightarrow> quiet (case v of None \<Rightarrow> m | Some x \<Rightarrow> f x)"
  by (cases v) simp_all

lemma quiet_forEach [intro!]: "(\<And>x. quiet (f x)) \<Longrightarrow> quiet (forEach f xs)"
  by (induction xs) auto

lemma quiet_effect [intro!]: "quiet act \<Longrightarrow> quiet (effect env ev act)"
  by (simp add: quiet_def effect_def obs_effect)

lemma quiet_ioEffect [intro!]: "quiet act \<Longrightarrow> quiet (ioEffect env ev act)"
  unfolding ioEffect_def by blast

lemma quiet_watch [intro!, simp]:
  "quiet (putWorld (\<lambda>w. w\<lparr>holderFailure := h, aborted := a\<rparr>))"
  "quiet (putWorld (\<lambda>w. w\<lparr>holderFailure := h\<rparr>))"
  "quiet (putWorld (\<lambda>w. w\<lparr>clock := f w\<rparr>))"
  by (simp_all add: quiet_def putWorld_def obs_watch obs_failure obs_clock)

lemma quiet_run [intro!, simp]:
  "quiet (runCommand env cmd as)" "quiet (runDocker env as)" "quiet (runDockerSignal env as)"
  "quiet (fetchUrl env url)" "quiet (sleepMs env n)" "quiet (nowIso env)"
  unfolding runDockerSignal_def runDocker_def runCommand_def fetchUrl_def sleepMs_def nowIso_def
  by auto

lemma quiet_reads [intro!, simp]:
  "quiet (readFile env p)" "quiet (accessFile env p)" "quiet (mkdirP env p)"
  "quiet (syncPath env p)" "quiet (syncFile env p)" "quiet (readUpdateState env s)"
  "quiet (readJsonFile env p)" "quiet (sha256File env p)" "quiet (ensureParent env p)"
proof -
  show r: "quiet (readFile env p)" "quiet (accessFile env p)" "quiet (mkdirP env p)"
    "quiet (syncPath env p)" "quiet (syncFile env p)" for p
    unfolding readFile_def accessFile_def mkdirP_def syncPath_def syncFile_def by auto
  show "quiet (readJsonFile env p)" "quiet (sha256File env p)" "quiet (ensureParent env p)"
    unfolding readJsonFile_def sha256File_def ensureParent_def using r by auto
  have "quiet (case sf of NoState \<Rightarrow> ret s | CorruptState m \<Rightarrow> raise (PlainError m)
      | SavedState s \<Rightarrow> ret s)" for sf
    by (cases sf) simp_all
  then show "quiet (readUpdateState env s)" unfolding readUpdateState_def by blast
qed

lemma quiet_syncReleaseFiles [intro!, simp]: "quiet (syncReleaseFiles env ps ds)"
  unfolding syncReleaseFiles_def by auto

lemma quiet_finalizerStopped [intro!, simp]: "quiet (finalizerStopped env n)"
  unfolding finalizerStopped_def by auto

lemma quiet_stopEach [intro!, simp]: "quiet (stopEach env names f)"
  by (induction names arbitrary: f) auto

lemma quiet_stopRollbackServices [intro!, simp]: "quiet (stopRollbackServices env)"
  unfolding stopRollbackServices_def by (intro quiet_tryCatch quiet_if quiet_bind quiet_case_option) auto

lemma quiet_gates [intro!, simp]:
  "quiet (runGateCommand env as)" "quiet (assertProjectionRollbackSafe env cfg)"
  "quiet (enableProjectionRollbackGate env cfg)" "quiet (disableProjectionRollbackGate env cfg h)"
  "quiet (startProjectionRollbackLockHolder env cfg)" "quiet (checkRollbackLockReady env cfg)"
  unfolding assertProjectionRollbackSafe_def enableProjectionRollbackGate_def
    disableProjectionRollbackGate_def startProjectionRollbackLockHolder_def
    checkRollbackLockReady_def runGateCommand_def
  by auto

lemma quiet_waitLockLoop [intro!, simp]: "quiet (waitLockLoop env cfg n e)"
  by (induction n arbitrary: e) (auto intro!: quiet_bind quiet_case_option)

lemma quiet_prepareProjectionRollback [intro!, simp]: "quiet (prepareProjectionRollback env cfg)"
  unfolding prepareProjectionRollback_def waitForProjectionRollbackLock_def by auto

lemma quiet_probe [intro!, simp]: "quiet (probe env cfg)"
  unfolding probe_def Let_def by auto

lemma quiet_watchdogTick [intro!, simp]: "quiet (watchdogTick env cfg)"
  unfolding watchdogTick_def by auto

lemma quiet_repeatOp [intro!]: "quiet m \<Longrightarrow> quiet (repeatOp n m)"
  by (induction n) auto

lemma quiet_runWatchdog [intro!, simp]: "quiet (runWatchdog env cfg)"
  unfolding runWatchdog_def by auto

lemma quiet_watched [intro!]: "quiet m \<Longrightarrow> quiet (watched env cfg m)"
  unfolding watched_def by auto

lemma quiet_healthPass [intro!]:
  "(\<And>m. afterCheck = Some m \<Longrightarrow> quiet m) \<Longrightarrow> quiet (healthPass env cfg afterCheck)"
  unfolding healthPass_def fetchSignal_def optCheck_def
  by (intro quiet_andThen quiet_forEach quiet_bind quiet_if) (auto split: option.splits)

lemma quiet_pollLoop:
  assumes "\<And>m. afterCheck = Some m \<Longrightarrow> quiet m"
  shows "quiet (pollLoop env cfg afterCheck d n e)"
proof (induction n arbitrary: e)
  case (Suc n)
  have "quiet (optCheck afterCheck)" using assms by (auto simp: optCheck_def split: option.splits)
  with Suc assms show ?case
    by (auto simp: Let_def intro!: quiet_bind quiet_case_option quiet_healthPass)
qed auto

lemma quiet_pollHealthChecks [intro!]:
  "(\<And>m. afterCheck = Some m \<Longrightarrow> quiet m) \<Longrightarrow> quiet (pollHealthChecks env cfg afterCheck)"
  unfolding pollHealthChecks_def by (intro quiet_bind quiet_getWorld quiet_pollLoop)

end

interpretation files_obs: observer files
  by unfold_locales simp_all

text \<open>The persisted state with the operation in memory.\<close>

definition stateOf :: "world \<Rightarrow> savedState \<times> string option" where
  "stateOf w = (stateFile w, activeOperationId w)"

interpretation state_obs: observer stateOf
  by unfold_locales (simp_all add: stateOf_def)

subsection \<open>Writers\<close>

lemma files_quiet_writeUpdateState [intro!, simp]: "files_obs.quiet (writeUpdateState env s)"
proof -
  have "files_obs.quiet (putWorld (\<lambda>w. w\<lparr>stateFile := s\<rparr>))" for s
    by (simp add: files_obs.quiet_def putWorld_def)
  then show ?thesis unfolding writeUpdateState_def by blast
qed

lemma files_quiet_getStatus [intro!, simp]: "files_obs.quiet (getStatus env cfg)"
  unfolding getStatus_def reconcileFinalizing_def Let_def
  by (intro files_obs.quiet_bind files_obs.quiet_if files_obs.quiet_andThen) auto

lemma files_quiet_writeState [intro!, simp]: "files_obs.quiet (writeState env cfg upd)"
  unfolding writeState_def by auto

lemma state_quiet_setFile [simp]: "stateOf (setFile p c w) = stateOf w"
  by (simp add: setFile_def stateOf_def)

lemma state_quiet_putFile [intro!, simp]: "state_obs.quiet (putWorld (setFile p c))"
  by (simp add: state_obs.quiet_def putWorld_def)

lemma ioEffect_cases:
  assumes "ioEffect env ev act w = (r, w')"
  obtains (dead) "r = Killed" "w' = w"
  | (failed) e where "r = Raised e"
      "w' = w\<lparr>trace := ev # trace w, clock := clock w + elapsed env (trace w)\<rparr>"
  | (acted) "act (w\<lparr>trace := ev # trace w, clock := clock w + elapsed env (trace w)\<rparr>) = (r, w')"
proof -
  let ?w = "w\<lparr>trace := ev # trace w, clock := clock w + elapsed env (trace w)\<rparr>"
  have e: "ioEffect env ev act w = (if dies env (trace w) then (Killed, w)
      else (case ioFailure env (trace w) ev of Some e \<Rightarrow> (Raised e, ?w) | None \<Rightarrow> act ?w))"
    by (simp add: ioEffect_def bind_def getWorld_def effect_def raise_def split: option.splits)
  show ?thesis
  proof (cases "dies env (trace w)")
    case True
    with e assms show ?thesis by (intro dead) auto
  next
    case False
    with e assms show ?thesis
      by (cases "ioFailure env (trace w) ev") (auto intro: failed acted)
  qed
qed

lemma tear_cases:
  obtains "tear env tr p w = w" | t where "tear env tr p w = setFile p t w"
  by (cases "tornContent env tr") (auto simp: tear_def)

lemma writing_cases:
  assumes "writing env ev p content w = (r, w')"
    and "\<And>t c. content (w\<lparr>trace := t, clock := c\<rparr>) = content w"
  obtains (written) c where "r = Done ()" "content w = Inr c"
      "files w' = (files w)(p \<mapsto> c)" "stateOf w' = stateOf w"
  | (failed) "\<forall>x. r \<noteq> Done x" "\<forall>q. q \<noteq> p \<longrightarrow> files w' q = files w q" "stateOf w' = stateOf w"
proof -
  let ?act = "\<lambda>w'. (case content w' of Inl e \<Rightarrow> (Raised e, w') | Inr c \<Rightarrow> (Done (), setFile p c w'))"
  obtain r1 w1 where io: "ioEffect env ev ?act w = (r1, w1)"
    by (cases "ioEffect env ev ?act w")
  have res: "(r, w') = (case r1 of Done u \<Rightarrow> (r1, w1)
      | _ \<Rightarrow> (r1, case content w of Inl e \<Rightarrow> w1 | Inr c \<Rightarrow> tear env (trace w) p w1))"
    using assms(1) io by (cases r1) (auto simp: writing_def)
  have keep: "files (tear env (trace w) p v) q = files v q" if "q \<noteq> p" for v q
    using that by (cases rule: tear_cases [of env "trace w" p v]) (auto simp: setFile_def)
  have st: "stateOf (tear env (trace w) p v) = stateOf v" for v
    by (cases rule: tear_cases [of env "trace w" p v]) auto
  have stopped: ?thesis
    if "\<forall>x. r1 \<noteq> Done x" "files w1 = files w" "stateOf w1 = stateOf w"
  proof (rule failed)
    show "\<forall>x. r \<noteq> Done x" using that res by (cases r1) auto
    have "w' = w1 \<or> w' = tear env (trace w) p w1"
      using that res by (cases r1) (auto split: sum.splits)
    with that show "\<forall>q. q \<noteq> p \<longrightarrow> files w' q = files w q" "stateOf w' = stateOf w"
      by (auto simp: keep st)
  qed
  from io show ?thesis
  proof (cases rule: ioEffect_cases)
    case dead
    then show ?thesis by (intro stopped) auto
  next
    case (failed e)
    then show ?thesis by (intro stopped) (auto simp: stateOf_def)
  next
    case acted
    show ?thesis
    proof (cases "content w")
      case (Inl e)
      with acted assms(2) show ?thesis by (intro stopped) (auto simp: stateOf_def)
    next
      case (Inr c)
      with acted assms(2) res show ?thesis
        by (intro written [of c]) (auto simp: setFile_def stateOf_def)
    qed
  qed
qed

end
