(* ===== verification/Update_Safety.thy ===== *)
theory Update_Safety
  imports Updater_Logic
begin

text \<open>
  What an update leaves on disk. The triples below follow the release files, their backups and
  the persisted status through \<open>applyUpdate\<close>, through the death of the process at any point of
  it, and through recovery and rollback.
\<close>

subsection \<open>Triples for reading and writing\<close>

text \<open>The files, the state file and the operation in memory.\<close>

definition disk :: "(string \<rightharpoonup> string) \<Rightarrow> savedState \<Rightarrow> string option \<Rightarrow> world \<Rightarrow> bool" where
  "disk F S A w \<longleftrightarrow> files w = F \<and> stateFile w = S \<and> activeOperationId w = A"

lemma disk_stateOf: "disk F S A w \<longleftrightarrow> files w = F \<and> stateOf w = (S, A)"
  by (simp add: disk_def stateOf_def)

abbreviation stays :: "(world \<Rightarrow> bool) \<Rightarrow> 'a op \<Rightarrow> bool" where
  "stays P m \<equiv> hoare P m (\<lambda>_. P) (\<lambda>_. P) P"

lemma hoare_quiet:
  assumes "files_obs.quiet m" "state_obs.quiet m"
  shows "stays (disk F S A) m"
  using assms files_obs.quietD state_obs.quietD
  by (intro hoareI) (fastforce simp: disk_stateOf split: outcome.split)

lemma hoare_quiet_ex:
  assumes "files_obs.quiet m" "state_obs.quiet m"
  shows "stays (\<lambda>w. \<exists>F S A. disk F S A w \<and> \<phi> F S A) m"
  using assms files_obs.quietD state_obs.quietD
  by (intro hoareI) (fastforce simp: disk_stateOf split: outcome.split)

lemma hoare_readUpdateState:
  "hoare (disk F (SavedState s) A) (readUpdateState env d) (\<lambda>r w. r = s \<and> disk F (SavedState s) A w)
     (\<lambda>_. disk F (SavedState s) A) (disk F (SavedState s) A)"
proof (rule hoareI)
  fix w r w'
  assume a: "disk F (SavedState s) A w" and m: "readUpdateState env d w = (r, w')"
  from m show "case r of Done x \<Rightarrow> x = s \<and> disk F (SavedState s) A w'
    | Raised e \<Rightarrow> disk F (SavedState s) A w' | Killed \<Rightarrow> disk F (SavedState s) A w'
    | Diverged \<Rightarrow> disk F (SavedState s) A w'"
    unfolding readUpdateState_def
    by (cases rule: ioEffect_cases)
       (use a in \<open>auto simp: disk_def bind_def getWorld_def ret_def\<close>)
qed

lemma hoare_getStatus:
  assumes "phase s \<noteq> Finalizing \<or> truthy A"
  shows "hoare (disk F (SavedState s) A) (getStatus env cfg) (\<lambda>r w. r = s \<and> disk F (SavedState s) A w)
     (\<lambda>_. disk F (SavedState s) A) (disk F (SavedState s) A)"
  unfolding getStatus_def
proof (rule hoare_bind [OF hoare_readUpdateState])
  fix x
  show "hoare (\<lambda>w. x = s \<and> disk F (SavedState s) A w)
      (bind (getWorld activeOperationId) (\<lambda>active.
         if phase x \<noteq> Finalizing \<or> \<not> truthy (operationId x) \<or> truthy active then ret x
         else reconcileFinalizing env x))
      (\<lambda>r w. r = s \<and> disk F (SavedState s) A w) (\<lambda>_. disk F (SavedState s) A) (disk F (SavedState s) A)"
    using assms
    by (intro hoare_conj_pure
        hoare_bind [where Q = "\<lambda>a w. a = A \<and> disk F (SavedState s) A w"])
       (auto intro!: hoare_getWorld hoare_conj_pure hoare_ret simp: disk_def)
qed

lemma hoare_writeUpdateState:
  "hoare (disk F S A) (writeUpdateState env s) (\<lambda>_. disk F (SavedState s) A)
     (\<lambda>_ w. disk F S A w \<or> disk F (SavedState s) A w) (\<lambda>w. disk F S A w \<or> disk F (SavedState s) A w)"
  unfolding writeUpdateState_def
proof (rule hoare_andThen)
  show "hoare (disk F S A)
     (ioEffect env (EvWriteState s) (putWorld (\<lambda>w. w\<lparr>stateFile := SavedState s\<rparr>)))
     (\<lambda>_. disk F (SavedState s) A) (\<lambda>_ w. disk F S A w \<or> disk F (SavedState s) A w)
     (\<lambda>w. disk F S A w \<or> disk F (SavedState s) A w)"
  proof (rule hoareI)
    fix w r w'
    assume a: "disk F S A w" and
      m: "ioEffect env (EvWriteState s) (putWorld (\<lambda>w. w\<lparr>stateFile := SavedState s\<rparr>)) w = (r, w')"
    from m show "case r of Done x \<Rightarrow> disk F (SavedState s) A w'
      | Raised e \<Rightarrow> disk F S A w' \<or> disk F (SavedState s) A w'
      | Killed \<Rightarrow> disk F S A w' \<or> disk F (SavedState s) A w'
      | Diverged \<Rightarrow> disk F S A w' \<or> disk F (SavedState s) A w'"
      by (cases rule: ioEffect_cases) (use a in \<open>auto simp: disk_def putWorld_def\<close>)
  qed
  show "hoare (disk F (SavedState s) A) (ioEffect env EvSyncState (ret ()))
     (\<lambda>_. disk F (SavedState s) A) (\<lambda>_ w. disk F S A w \<or> disk F (SavedState s) A w)
     (\<lambda>w. disk F S A w \<or> disk F (SavedState s) A w)"
    by (rule hoare_conseq [OF hoare_quiet [of _ F "SavedState s" A]]) auto
qed

lemma hoare_writeState:
  assumes "phase s \<noteq> Finalizing \<or> truthy A"
  shows "hoare (disk F (SavedState s) A) (writeState env cfg upd) (\<lambda>_. disk F (SavedState (upd s)) A)
     (\<lambda>_ w. disk F (SavedState s) A w \<or> disk F (SavedState (upd s)) A w)
     (\<lambda>w. disk F (SavedState s) A w \<or> disk F (SavedState (upd s)) A w)"
  unfolding writeState_def
proof (rule hoare_bind)
  show "hoare (disk F (SavedState s) A) (getStatus env cfg)
     (\<lambda>r w. r = s \<and> disk F (SavedState s) A w)
     (\<lambda>_ w. disk F (SavedState s) A w \<or> disk F (SavedState (upd s)) A w)
     (\<lambda>w. disk F (SavedState s) A w \<or> disk F (SavedState (upd s)) A w)"
    by (rule hoare_conseq [OF hoare_getStatus [OF assms]]) auto
  fix x
  show "hoare (\<lambda>w. x = s \<and> disk F (SavedState s) A w) (writeUpdateState env (upd x))
     (\<lambda>_. disk F (SavedState (upd s)) A)
     (\<lambda>_ w. disk F (SavedState s) A w \<or> disk F (SavedState (upd s)) A w)
     (\<lambda>w. disk F (SavedState s) A w \<or> disk F (SavedState (upd s)) A w)"
    by (rule hoare_conj_pure) (simp add: hoare_writeUpdateState)
qed

text \<open>A file may hold anything after an operation that touches it and fails; others keep their
  contents.\<close>

definition diskExcept ::
  "string set \<Rightarrow> (string \<rightharpoonup> string) \<Rightarrow> savedState \<Rightarrow> string option \<Rightarrow> world \<Rightarrow> bool" where
  "diskExcept T F S A w \<longleftrightarrow> (\<exists>F'. (\<forall>q. q \<notin> T \<longrightarrow> F' q = F q) \<and> disk F' S A w)"

lemma diskExcept_disk: "disk F S A w \<Longrightarrow> diskExcept T F S A w"
  by (auto simp: diskExcept_def)

lemma diskExcept_mono: "diskExcept T F S A w \<Longrightarrow> T \<subseteq> U \<Longrightarrow> diskExcept U F S A w"
  by (auto simp: diskExcept_def)

lemma diskExcept_upd: "diskExcept T (F(p := c)) S A w \<Longrightarrow> p \<in> T \<Longrightarrow> diskExcept T F S A w"
  unfolding diskExcept_def by (metis fun_upd_other)

lemma hoare_quiet_except:
  assumes "files_obs.quiet m" "state_obs.quiet m"
  shows "stays (diskExcept T F S A) m"
  using assms files_obs.quietD state_obs.quietD
  by (intro hoareI) (fastforce simp: disk_stateOf diskExcept_def split: outcome.split)

lemma hoare_writing:
  assumes "\<And>w t c. content (w\<lparr>trace := t, clock := c\<rparr>) = content w"
  shows "hoare (disk F S A) (writing env ev p content)
     (\<lambda>_ w. \<exists>w0 c. disk F S A w0 \<and> content w0 = Inr c \<and> disk (F(p \<mapsto> c)) S A w)
     (\<lambda>_. diskExcept {p} F S A) (diskExcept {p} F S A)"
proof (rule hoareI)
  fix w r w'
  assume a: "disk F S A w" and m: "writing env ev p content w = (r, w')"
  from m assms show "case r of
      Done x \<Rightarrow> \<exists>w0 c. disk F S A w0 \<and> content w0 = Inr c \<and> disk (F(p \<mapsto> c)) S A w'
    | Raised e \<Rightarrow> diskExcept {p} F S A w' | Killed \<Rightarrow> diskExcept {p} F S A w'
    | Diverged \<Rightarrow> diskExcept {p} F S A w'"
  proof (cases rule: writing_cases)
    case (written c)
    with a show ?thesis by (auto simp: disk_stateOf)
  next
    case failed
    with a have "diskExcept {p} F S A w'" by (auto simp: diskExcept_def disk_stateOf)
    with failed(1) show ?thesis by (cases r) auto
  qed
qed

lemma hoare_copyFile:
  "hoare (disk F S A) (copyFile env src dst)
     (\<lambda>_ w. \<exists>c. F src = Some c \<and> disk (F(dst \<mapsto> c)) S A w)
     (\<lambda>_. diskExcept {dst} F S A) (diskExcept {dst} F S A)"
  unfolding copyFile_def
  by (rule hoare_post [OF hoare_writing]) (auto simp: disk_def split: option.splits)

lemma hoare_writeFile:
  "hoare (disk F S A) (writeFile env p c) (\<lambda>_. disk (F(p \<mapsto> c)) S A)
     (\<lambda>_. diskExcept {p} F S A) (diskExcept {p} F S A)"
  unfolding writeFile_def by (rule hoare_post [OF hoare_writing]) auto

lemma hoare_readFile:
  "hoare (disk F S A) (readFile env p) (\<lambda>c w. F p = Some c \<and> disk F S A w)
     (\<lambda>_. disk F S A) (disk F S A)"
proof (rule hoareI)
  fix w r w'
  assume a: "disk F S A w" and m: "readFile env p w = (r, w')"
  from m show "case r of Done c \<Rightarrow> F p = Some c \<and> disk F S A w'
    | Raised e \<Rightarrow> disk F S A w' | Killed \<Rightarrow> disk F S A w' | Diverged \<Rightarrow> disk F S A w'"
    unfolding readFile_def
    by (cases rule: ioEffect_cases)
       (use a in \<open>auto simp: disk_def bind_def getWorld_def ret_def raise_def split: option.splits\<close>)
qed

lemma hoare_accessFile:
  "hoare (disk F S A) (accessFile env p) (\<lambda>_ w. F p \<noteq> None \<and> disk F S A w)
     (\<lambda>_. disk F S A) (disk F S A)"
proof (rule hoareI)
  fix w r w'
  assume a: "disk F S A w" and m: "accessFile env p w = (r, w')"
  from m show "case r of Done c \<Rightarrow> F p \<noteq> None \<and> disk F S A w'
    | Raised e \<Rightarrow> disk F S A w' | Killed \<Rightarrow> disk F S A w' | Diverged \<Rightarrow> disk F S A w'"
    unfolding accessFile_def
    by (cases rule: ioEffect_cases)
       (use a in \<open>auto simp: disk_def bind_def getWorld_def ret_def raise_def split: option.splits\<close>)
qed

text \<open>A rename is atomic.\<close>

lemma hoare_renameFile:
  "hoare (disk F S A) (renameFile env src dst)
     (\<lambda>_ w. \<exists>c. F src = Some c \<and> disk ((F(src := None))(dst \<mapsto> c)) S A w)
     (\<lambda>_. disk F S A) (disk F S A)"
proof (rule hoareI)
  fix w r w'
  assume a: "disk F S A w" and m: "renameFile env src dst w = (r, w')"
  from m show "case r of Done x \<Rightarrow> \<exists>c. F src = Some c \<and> disk ((F(src := None))(dst \<mapsto> c)) S A w'
    | Raised e \<Rightarrow> disk F S A w' | Killed \<Rightarrow> disk F S A w' | Diverged \<Rightarrow> disk F S A w'"
    unfolding renameFile_def
    by (cases rule: ioEffect_cases)
       (use a in \<open>auto simp: disk_def bind_def getWorld_def putWorld_def raise_def split: option.splits\<close>)
qed

lemma hoare_except:
  "(\<And>F'. \<forall>q. q \<notin> T \<longrightarrow> F' q = F q \<Longrightarrow> hoare (disk F' S A) m Q R K) \<Longrightarrow>
   hoare (diskExcept T F S A) m Q R K"
  by (rule hoareI) (auto simp: diskExcept_def dest: hoareD)

lemma hoare_ex: "(\<And>x. hoare (P x) m Q R K) \<Longrightarrow> hoare (\<lambda>w. \<exists>x. P x w) m Q R K"
  by (rule hoareI) (auto dest: hoareD)

text \<open>An operation that only writes the files \<open>T\<close>.\<close>

definition writesOnly :: "string set \<Rightarrow> 'a op \<Rightarrow> bool" where
  "writesOnly T m \<longleftrightarrow> (\<forall>F S A. stays (diskExcept T F S A) m)"

lemma writesOnly_disk:
  assumes "writesOnly T m"
  shows "hoare (disk F S A) m (\<lambda>_. diskExcept T F S A) (\<lambda>_. diskExcept T F S A) (diskExcept T F S A)"
  by (rule hoare_pre [where P' = "diskExcept T F S A"])
     (use assms in \<open>auto simp: writesOnly_def intro: diskExcept_disk\<close>)

lemma writesOnlyI:
  assumes "\<And>F S A. hoare (disk F S A) m (\<lambda>_. diskExcept T F S A)
    (\<lambda>_. diskExcept T F S A) (diskExcept T F S A)"
  shows "writesOnly T m"
  unfolding writesOnly_def
proof (intro allI hoare_except)
  fix F F' :: "string \<rightharpoonup> string" and S A
  assume eq: "\<forall>q. q \<notin> T \<longrightarrow> F' q = F q"
  show "hoare (disk F' S A) m (\<lambda>_. diskExcept T F S A) (\<lambda>_. diskExcept T F S A) (diskExcept T F S A)"
    by (rule hoare_conseq [OF assms [of F' S A]]) (use eq in \<open>auto simp: diskExcept_def\<close>)
qed

lemma writesOnly_quiet: "files_obs.quiet m \<Longrightarrow> state_obs.quiet m \<Longrightarrow> writesOnly T m"
  unfolding writesOnly_def by (blast intro: hoare_quiet_except)

lemma writesOnly_bind: "writesOnly T m \<Longrightarrow> (\<And>x. writesOnly T (f x)) \<Longrightarrow> writesOnly T (bind m f)"
  unfolding writesOnly_def by (blast intro: hoare_bind)

lemma writesOnly_andThen: "writesOnly T m \<Longrightarrow> writesOnly T n \<Longrightarrow> writesOnly T (andThen m n)"
  unfolding writesOnly_def by (blast intro: hoare_andThen)

lemma writesOnly_files:
  assumes T: "p \<in> T"
  shows "writesOnly T (writeFile env p c)" "writesOnly T (copyFile env src p)"
    "writesOnly T (putWorld (setFile p c))"
proof -
  show "writesOnly T (writeFile env p c)"
    by (rule writesOnlyI, rule hoare_conseq [OF hoare_writeFile])
       (use T in \<open>auto intro: diskExcept_upd diskExcept_disk diskExcept_mono\<close>)
  show "writesOnly T (copyFile env src p)"
    by (rule writesOnlyI, rule hoare_conseq [OF hoare_copyFile])
       (use T in \<open>auto intro: diskExcept_upd diskExcept_disk diskExcept_mono\<close>)
  show "writesOnly T (putWorld (setFile p c))"
    by (rule writesOnlyI, rule hoare_putWorld)
       (use T in \<open>auto simp: diskExcept_def disk_def setFile_def\<close>)
qed

subsection \<open>The files of an update\<close>

abbreviation releaseEnv :: "updaterConfig \<Rightarrow> string" where
  "releaseEnv cfg \<equiv> releaseEnvFile (cfgCompose cfg)"

abbreviation releaseCompose :: "updaterConfig \<Rightarrow> string" where
  "releaseCompose cfg \<equiv> composeFile (cfgCompose cfg)"

definition backupFiles :: "updaterConfig \<Rightarrow> string \<Rightarrow> string list" where
  "backupFiles cfg op =
     (let d = backupDirOf cfg op
      in [backupEnvPath d, backupComposePath d, dumpPath d, dumpPath d @ ''.sha256''])"

text \<open>No two of the files an update touches share a path.\<close>

definition pathsOk :: "updaterConfig \<Rightarrow> string \<Rightarrow> bool" where
  "pathsOk cfg op \<longleftrightarrow>
     distinct ([releaseEnv cfg, releaseCompose cfg, stagedComposePath cfg, stagedReleaseEnvPath cfg]
               @ backupFiles cfg op)"

definition releaseSame :: "updaterConfig \<Rightarrow> (string \<rightharpoonup> string) \<Rightarrow> (string \<rightharpoonup> string) \<Rightarrow> bool" where
  "releaseSame cfg F0 F \<longleftrightarrow>
     F (releaseEnv cfg) = F0 (releaseEnv cfg) \<and> F (releaseCompose cfg) = F0 (releaseCompose cfg)"

definition backupHolds ::
  "updaterConfig \<Rightarrow> string \<Rightarrow> (string \<rightharpoonup> string) \<Rightarrow> (string \<rightharpoonup> string) \<Rightarrow> bool" where
  "backupHolds cfg op F0 F \<longleftrightarrow>
     F (backupEnvPath (backupDirOf cfg op)) = F0 (releaseEnv cfg)
     \<and> F (backupComposePath (backupDirOf cfg op)) = F0 (releaseCompose cfg)
     \<and> F0 (releaseEnv cfg) \<noteq> None \<and> F0 (releaseCompose cfg) \<noteq> None"

definition releaseInstalled ::
  "updaterConfig \<Rightarrow> (string \<rightharpoonup> string) \<Rightarrow> (string \<rightharpoonup> string) \<Rightarrow> bool" where
  "releaseInstalled cfg F0 F \<longleftrightarrow>
     F (releaseEnv cfg) = F0 (stagedReleaseEnvPath cfg)
     \<and> F (releaseCompose cfg) = F0 (stagedComposePath cfg)"

text \<open>What \<open>admitStaged\<close> checks of the staged files: an admissible manifest that pins them.\<close>

definition admitted ::
  "environment \<Rightarrow> updaterConfig \<Rightarrow> updateStatus \<Rightarrow> (string \<rightharpoonup> string) \<Rightarrow> releaseManifest \<Rightarrow> bool" where
  "admitted env cfg s F m \<longleftrightarrow>
     manifestAdmissible (runtime env)
       \<lparr>optCurrentVersion = currentVersion s, optChannel = cfgChannel cfg,
        optUpdaterVersion = currentUpdaterVersion cfg, optAllowedHosts = allowedHosts cfg\<rparr> m
     \<and> availableVersion s = Some (version m) \<and> migration s = Some (migrations m)
     \<and> (\<exists>c. F (stagedComposePath cfg) = Some c
            \<and> verifySha256 (runtime env) c (composeSha256 (compose m)))
     \<and> (\<exists>t. F (stagedReleaseEnvPath cfg) = Some t
            \<and> parseEnv env t ''DRUVIA_VERSION'' = Some (version m)
            \<and> (\<forall>(k, image) \<in> set (imageVariables m). parseEnv env t k = Some image))"

lemma hoare_liftE: "(\<And>x. r = Inr x \<Longrightarrow> (\<forall>w. P w \<longrightarrow> Q x w)) \<Longrightarrow> (\<forall>e w. P w \<longrightarrow> R e w) \<Longrightarrow>
    hoare P (liftE k r) Q R K"
  by (cases r) (auto simp: liftE_def hoare_def ret_def raise_def)

lemma hoare_readJsonFile: "stays (disk F S A) (readJsonFile env p)"
  by (rule hoare_quiet) auto

lemma hoare_admitStaged:
  assumes "phase s \<noteq> Finalizing"
  shows "hoare (disk F (SavedState s) A) (admitStaged env cfg)
     (\<lambda>m w. admitted env cfg s F m \<and> disk F (SavedState s) A w)
     (\<lambda>_. disk F (SavedState s) A) (disk F (SavedState s) A)"
  unfolding admitStaged_def
proof (rule hoare_bind [OF hoare_getStatus], use assms in simp, rule hoare_conj_pure,
    rule hoare_bind [OF hoare_readJsonFile])
  let ?P = "disk F (SavedState s) A"
  fix current json
  assume cur: "current = s"
  let ?opts = "\<lparr>optCurrentVersion = currentVersion current, optChannel = cfgChannel cfg,
        optUpdaterVersion = currentUpdaterVersion cfg, optAllowedHosts = allowedHosts cfg\<rparr>"
  let ?ok = "\<lambda>m. validateReleaseManifest (runtime env) json ?opts = Inr m"
  show "hoare ?P
      (bind (liftE ManifestError (validateReleaseManifest (runtime env) json ?opts)) (\<lambda>manifest.
         if Some (version manifest) \<noteq> availableVersion current
            \<or> Some (migrations manifest) \<noteq> migration current
         then raise (stagedInvalid ''Staged release does not match the admitted manifest'')
         else bind (readFile env (stagedComposePath cfg)) (\<lambda>composeText.
           if \<not> verifySha256 (runtime env) composeText (composeSha256 (compose manifest))
           then raise (stagedInvalid ''Staged release does not match the admitted manifest'')
           else bind (readFile env (stagedReleaseEnvPath cfg)) (\<lambda>envText.
             (let stagedEnv = parseEnv env envText in
              if stagedEnv ''DRUVIA_VERSION'' \<noteq> Some (version manifest)
                 \<or> list_ex (\<lambda>(key, image). stagedEnv key \<noteq> Some image) (imageVariables manifest)
              then raise (stagedInvalid ''Staged release env does not match the manifest'')
              else ret manifest)))))
      (\<lambda>m w. admitted env cfg s F m \<and> ?P w) (\<lambda>_. ?P) ?P"
  proof (rule hoare_bind [where Q = "\<lambda>m w. ?ok m \<and> ?P w"], rule hoare_liftE)
    fix m
    show "hoare (\<lambda>w. ?ok m \<and> ?P w)
      (if Some (version m) \<noteq> availableVersion current \<or> Some (migrations m) \<noteq> migration current
       then raise (stagedInvalid ''Staged release does not match the admitted manifest'')
       else bind (readFile env (stagedComposePath cfg)) (\<lambda>composeText.
         if \<not> verifySha256 (runtime env) composeText (composeSha256 (compose m))
         then raise (stagedInvalid ''Staged release does not match the admitted manifest'')
         else bind (readFile env (stagedReleaseEnvPath cfg)) (\<lambda>envText.
           (let stagedEnv = parseEnv env envText in
            if stagedEnv ''DRUVIA_VERSION'' \<noteq> Some (version m)
               \<or> list_ex (\<lambda>(key, image). stagedEnv key \<noteq> Some image) (imageVariables m)
            then raise (stagedInvalid ''Staged release env does not match the manifest'')
            else ret m))))
      (\<lambda>m w. admitted env cfg s F m \<and> ?P w) (\<lambda>_. ?P) ?P"
      using cur validateReleaseManifest_admissible [of "runtime env" json ?opts m]
      by (intro hoare_conj_pure hoare_if hoare_raise hoare_bind [OF hoare_readFile])
         (auto simp: Let_def list_ex_iff admitted_def case_prod_beta
          intro!: hoare_if hoare_raise hoare_conj_pure hoare_ret)
  qed auto
qed

subsection \<open>Assertions over files, status and the operation in memory\<close>

definition holds ::
  "((string \<rightharpoonup> string) \<Rightarrow> updateStatus \<Rightarrow> string option \<Rightarrow> bool) \<Rightarrow> world \<Rightarrow> bool" where
  "holds \<phi> w \<longleftrightarrow> (\<exists>F s A. disk F (SavedState s) A w \<and> \<phi> F s A)"

lemma holdsI: "disk F (SavedState s) A w \<Longrightarrow> \<phi> F s A \<Longrightarrow> holds \<phi> w"
  by (auto simp: holds_def)

lemma holds_mono: "holds \<phi> w \<Longrightarrow> (\<And>F s A. \<phi> F s A \<Longrightarrow> \<psi> F s A) \<Longrightarrow> holds \<psi> w"
  unfolding holds_def by blast

text \<open>A step from \<open>\<phi>\<close> to \<open>\<psi>\<close> that satisfies \<open>I\<close> whenever it is cut short.\<close>

abbreviation step_to where
  "step_to I \<phi> m \<psi> \<equiv> hoare (holds \<phi>) m (\<lambda>_. holds \<psi>) (\<lambda>_. holds I) (holds I)"

definition entails where
  "entails \<phi> I \<longleftrightarrow> (\<forall>F s A. \<phi> F s A \<longrightarrow> I F s A)"

lemma entailsI [intro]: "(\<And>F s A. \<phi> F s A \<Longrightarrow> I F s A) \<Longrightarrow> entails \<phi> I"
  by (simp add: entails_def)

lemma entailsD: "entails \<phi> I \<Longrightarrow> holds \<phi> w \<Longrightarrow> holds I w"
  unfolding entails_def holds_def by blast

lemma step_disk:
  assumes "\<And>F s A. \<phi> F s A \<Longrightarrow>
    hoare (disk F (SavedState s) A) m (\<lambda>_. holds \<psi>) (\<lambda>_. holds I) (holds I)"
  shows "step_to I \<phi> m \<psi>"
proof (rule hoareI)
  fix w r w'
  assume "holds \<phi> w" and m: "m w = (r, w')"
  then obtain F s A where "disk F (SavedState s) A w" "\<phi> F s A" by (auto simp: holds_def)
  from hoareD [OF assms [OF this(2)] this(1) m]
  show "case r of Done x \<Rightarrow> holds \<psi> w' | Raised e \<Rightarrow> holds I w' | Killed \<Rightarrow> holds I w' | Diverged \<Rightarrow> holds I w'" .
qed

lemma step_quiet:
  assumes "files_obs.quiet m" "state_obs.quiet m" "entails \<phi> I"
  shows "step_to I \<phi> m \<phi>"
proof (rule step_disk, rule hoare_conseq [OF hoare_quiet [OF assms(1,2)]])
  fix F s A w
  assume "\<phi> F s A" and "disk F (SavedState s) A w"
  then show "holds \<phi> w" "holds I w" "holds I w"
    using assms(3) unfolding entails_def by (blast intro: holdsI)+
qed auto

lemma step_writeState:
  assumes "\<And>F s A. \<phi> F s A \<Longrightarrow> phase s \<noteq> Finalizing \<or> truthy A"
    "\<And>F s A. \<phi> F s A \<Longrightarrow> \<psi> F (upd s) A" "entails \<phi> I" "entails \<psi> I"
  shows "step_to I \<phi> (writeState env cfg upd) \<psi>"
proof (rule step_disk, rule hoare_conseq [OF hoare_writeState])
  fix F s A
  assume f: "\<phi> F s A"
  show "phase s \<noteq> Finalizing \<or> truthy A" by (rule assms(1) [OF f])
  from f have p: "\<psi> F (upd s) A" by (rule assms(2))
  fix w
  show "disk F (SavedState (upd s)) A w \<Longrightarrow> holds \<psi> w" using p by (blast intro: holdsI)
  show "disk F (SavedState s) A w \<or> disk F (SavedState (upd s)) A w \<Longrightarrow> holds I w"
    using f p assms(3,4) unfolding entails_def by (blast intro: holdsI)
  then show "disk F (SavedState s) A w \<or> disk F (SavedState (upd s)) A w \<Longrightarrow> holds I w" .
qed auto

lemma diskExcept_holds:
  assumes "diskExcept T F (SavedState s) A w" "\<And>F'. \<forall>q. q \<notin> T \<longrightarrow> F' q = F q \<Longrightarrow> I F' s A"
  shows "holds I w"
  using assms unfolding diskExcept_def by (blast intro: holdsI)

lemma step_writesOnly:
  assumes "writesOnly T m" "\<And>F s A F'. \<phi> F s A \<Longrightarrow> \<forall>q. q \<notin> T \<longrightarrow> F' q = F q \<Longrightarrow> \<phi> F' s A"
    "entails \<phi> I"
  shows "step_to I \<phi> m \<phi>"
proof (rule step_disk, rule hoare_conseq [OF writesOnly_disk [OF assms(1)]])
  fix F s A w
  assume f: "\<phi> F s A" and d: "diskExcept T F (SavedState s) A w"
  show "holds \<phi> w" using d by (rule diskExcept_holds) (rule assms(2) [OF f])
  then show "holds I w" by (rule entailsD [OF assms(3)])
  then show "holds I w" .
qed auto

lemma step_copyFile:
  assumes "\<And>F s A c. \<phi> F s A \<Longrightarrow> F src = Some c \<Longrightarrow> \<psi> (F(dst \<mapsto> c)) s A"
    "\<And>F s A F'. \<phi> F s A \<Longrightarrow> \<forall>q. q \<noteq> dst \<longrightarrow> F' q = F q \<Longrightarrow> I F' s A"
  shows "step_to I \<phi> (copyFile env src dst) \<psi>"
proof (rule step_disk, rule hoare_conseq [OF hoare_copyFile])
  fix F s A w
  assume f: "\<phi> F s A"
  show "\<exists>c. F src = Some c \<and> disk (F(dst \<mapsto> c)) (SavedState s) A w \<Longrightarrow> holds \<psi> w"
    using assms(1) [OF f] by (blast intro: holdsI)
  show "diskExcept {dst} F (SavedState s) A w \<Longrightarrow> holds I w"
    by (erule diskExcept_holds) (use assms(2) [OF f] in auto)
  then show "diskExcept {dst} F (SavedState s) A w \<Longrightarrow> holds I w" .
qed auto

lemma step_renameFile:
  assumes "\<And>F s A c. \<phi> F s A \<Longrightarrow> F src = Some c \<Longrightarrow> \<psi> ((F(src := None))(dst \<mapsto> c)) s A"
    "entails \<phi> I"
  shows "step_to I \<phi> (renameFile env src dst) \<psi>"
proof (rule step_disk, rule hoare_conseq [OF hoare_renameFile])
  fix F s A w
  assume f: "\<phi> F s A"
  show "\<exists>c. F src = Some c \<and> disk ((F(src := None))(dst \<mapsto> c)) (SavedState s) A w \<Longrightarrow> holds \<psi> w"
    using assms(1) [OF f] by (blast intro: holdsI)
  show "disk F (SavedState s) A w \<Longrightarrow> holds I w"
    using f assms(2) unfolding entails_def by (blast intro: holdsI)
  then show "disk F (SavedState s) A w \<Longrightarrow> holds I w" .
qed auto

lemma step_conseq:
  assumes "step_to I \<phi> m \<psi>" "entails \<phi>' \<phi>" "entails \<psi> \<psi>'" "entails I I'"
  shows "step_to I' \<phi>' m \<psi>'"
  by (rule hoare_conseq [OF assms(1)]) (auto intro: entailsD assms)

end
