(* ===== verification/Updater_Demo.thy ===== *)
theory Updater_Demo
  imports Update_Operations
begin

text \<open>
  A concrete deployment, on which the properties of the updater are instantiated: a configuration,
  an environment in which every command succeeds and the process dies when \<open>death\<close> says so, a
  status that is ready to apply, and the files of a release with its successor staged.
\<close>

definition demoConfig :: updaterConfig where
  "demoConfig =
     \<lparr>updaterSecret = ''secret'', cfgCurrentVersion = ''1.0.0'', currentUpdaterVersion = ''0.2.0'',
      cfgChannel = Stable, releaseManifestUrl = ''m'', allowedHosts = [''github.com''],
      deployDir = ''/deploy'', stateDir = ''/state'', statePath = ''/state/update-state.json'',
      stagedManifestPath = ''/state/staged-manifest.json'',
      nextComposePath = ''/deploy/compose.next'', stagedComposePath = ''/deploy/compose.staged'',
      nextReleaseEnvPath = ''/deploy/env.next'', stagedReleaseEnvPath = ''/deploy/env.staged'',
      cfgCompose = \<lparr>projectDirectory = ''/deploy'', baseEnvFile = ''/deploy/.env.prod'',
        releaseEnvFile = ''/deploy/env'', composeFile = ''/deploy/compose'', profiles = [],
        managedServices = [''api'']\<rparr>,
      cfgDatabase = \<lparr>host = ''db'', port = 1, user = ''u'', password = [], database = ''d''\<rparr>,
      healthCheckUrls = [''h''], healthCheckTimeoutMs = 3, healthCheckIntervalMs = 1,
      updaterContainerName = ''up'', updaterFinalizerDelaySeconds = 1\<rparr>"

definition demoEnvironment :: "(event list \<Rightarrow> bool) \<Rightarrow> environment" where
  "demoEnvironment death = \<lparr>runtime = demoRuntime,
     jsonParse = (\<lambda>t. if t = ''manifest'' then Some (manifestJson demoManifest) else None),
     jsonStringify = (\<lambda>v. ''manifest''),
     parseEnv = (\<lambda>t. if t = ''new env''
        then map_of ((''DRUVIA_VERSION'', ''1.1.0'') # imageVariables demoManifest)
        else [''DRUVIA_VERSION'' \<mapsto> ''1.0.0'']),
     processEnv = Map.empty, isoTime = (\<lambda>t. ''now''), operationIdFactory = (\<lambda>tr. ''op-1''),
     commandResult = (\<lambda>tr cmd as. Inr []), dumpContent = (\<lambda>tr. ''dump''),
     fetchResult = (\<lambda>tr url. Inr \<lparr>respOk = True, respStatus = 200, respText = []\<rparr>),
     ioFailure = (\<lambda>tr ev. None), dies = death, tornContent = (\<lambda>tr. None),
     elapsed = (\<lambda>tr. 1), watchdogTicks = (\<lambda>tr. 0)\<rparr>"

definition demoStatus :: updateStatus where
  "demoStatus = (createDefaultUpdateStatus ''1.0.0'' Stable)
     \<lparr>phase := ReadyToApply, availableVersion := Some ''1.1.0'',
      migration := Some (migrations demoManifest)\<rparr>"

definition demoWorld :: world where
  "demoWorld = \<lparr>files = [''/deploy/env'' \<mapsto> ''old env'',
       ''/deploy/compose'' \<mapsto> ''old compose'',
       ''/deploy/env.staged'' \<mapsto> ''new env'',
       ''/deploy/compose.staged'' \<mapsto> ''new compose'',
       ''/state/staged-manifest.json'' \<mapsto> ''manifest''],
     stateFile = SavedState demoStatus, activeOperationId = None, holderFailure = None,
     aborted = False, clock = 0, trace = []\<rparr>"

end
