(* ===== verification/Crash_Safety.thy ===== *)
theory Crash_Safety
  imports Update_Safety Updater_Demo
begin

text \<open>
  What is on disk after an operation of the updater, wherever it was cut short: the steps of an
  update and of a rollback as triples, and the properties of \<open>applyUpdate\<close>,
  \<open>recoverInterruptedOperation\<close> and \<open>rollbackUpdate\<close> that follow.
\<close>

subsection \<open>Steps under the lock of a rollback\<close>

lemma step_andThen: "step_to I \<phi> m \<psi> \<Longrightarrow> step_to I \<psi> n \<chi> \<Longrightarrow> step_to I \<phi> (andThen m n) \<chi>"
  by (rule hoare_andThen)

lemma step_watched:
  assumes "step_to I \<phi> m \<psi>" "entails \<phi> I"
  shows "step_to I \<phi> (watched env cfg m) \<psi>"
  unfolding watched_def
  by (rule step_andThen [OF step_quiet assms(1)]) (auto intro: assms(2))

lemma step_watched_quiet:
  assumes "files_obs.quiet m" "state_obs.quiet m" "entails \<phi> I"
  shows "step_to I \<phi> (watched env cfg m) \<phi>"
  by (intro step_watched step_quiet assms)

lemma step_restoreBackup:
  assumes P: "releaseEnv cfg \<noteq> releaseCompose cfg"
      "backupEnvPath d \<notin> {releaseEnv cfg, releaseCompose cfg}"
      "backupComposePath d \<notin> {releaseEnv cfg, releaseCompose cfg}"
    and stable: "\<And>F s A F'. I F s A \<Longrightarrow>
      \<forall>q. q \<notin> {releaseEnv cfg, releaseCompose cfg} \<longrightarrow> F' q = F q \<Longrightarrow> I F' s A"
    and backup: "\<And>F s A. I F s A \<Longrightarrow> F (backupEnvPath d) = e \<and> F (backupComposePath d) = c"
  shows "step_to I I (restoreBackup env cfg d)
     (\<lambda>F s A. I F s A \<and> F (releaseEnv cfg) = e \<and> F (releaseCompose cfg) = c)"
proof -
  let ?E = "\<lambda>F s A. I F s A \<and> F (releaseEnv cfg) = e"
  let ?R = "\<lambda>F s A. I F s A \<and> F (releaseEnv cfg) = e \<and> F (releaseCompose cfg) = c"
  have 1: "step_to I I (copyFile env (backupEnvPath d) (releaseEnv cfg)) ?E"
  proof (rule step_copyFile)
    fix F s A t
    assume I: "I F s A" and f: "F (backupEnvPath d) = Some t"
    have "I (F(releaseEnv cfg \<mapsto> t)) s A" by (rule stable [OF I]) auto
    with backup [OF I] f show "?E (F(releaseEnv cfg \<mapsto> t)) s A" by auto
  next
    fix F s A F'
    assume "I F s A" "\<forall>q. q \<noteq> releaseEnv cfg \<longrightarrow> F' q = F q"
    then show "I F' s A" by - (rule stable [of F], auto)
  qed
  have 2: "step_to I ?E (copyFile env (backupComposePath d) (releaseCompose cfg)) ?R"
  proof (rule step_copyFile)
    fix F s A t
    assume I: "?E F s A" and f: "F (backupComposePath d) = Some t"
    have "I (F(releaseCompose cfg \<mapsto> t)) s A" by (rule stable [of F]) (use I in auto)
    with backup [of F s A] f I P(1)
    show "I (F(releaseCompose cfg \<mapsto> t)) s A \<and> (F(releaseCompose cfg \<mapsto> t)) (releaseEnv cfg) = e
      \<and> (F(releaseCompose cfg \<mapsto> t)) (releaseCompose cfg) = c"
      by auto
  next
    fix F s A F'
    assume "?E F s A" "\<forall>q. q \<noteq> releaseCompose cfg \<longrightarrow> F' q = F q"
    then show "I F' s A" by - (rule stable [of F], auto)
  qed
  have 3: "step_to I ?R (syncReleaseFiles env [releaseEnv cfg, releaseCompose cfg] []) ?R"
    by (rule step_quiet, simp, simp, rule entailsI, simp)
  show ?thesis
    unfolding restoreBackup_def by (rule step_andThen [OF 1 step_andThen [OF 2 3]])
qed

lemma step_completeRollback:
  assumes P: "releaseEnv cfg \<noteq> releaseCompose cfg"
      "backupEnvPath d \<notin> {releaseEnv cfg, releaseCompose cfg}"
      "backupComposePath d \<notin> {releaseEnv cfg, releaseCompose cfg}"
    and stable: "\<And>F s A F'. I F s A \<Longrightarrow>
      \<forall>q. q \<notin> {releaseEnv cfg, releaseCompose cfg} \<longrightarrow> F' q = F q \<Longrightarrow> I F' s A"
    and backup: "\<And>F s A. I F s A \<Longrightarrow> F (backupEnvPath d) = e \<and> F (backupComposePath d) = c"
    and verifying: "\<And>F s A m. I F s A \<Longrightarrow> I F (s\<lparr>phase := Verifying, message := m\<rparr>) A"
    and fin: "\<And>F s A. I F s A \<Longrightarrow> phase s \<noteq> Finalizing \<or> truthy A"
  shows "step_to I I (completeProjectionRollback env cfg d)
     (\<lambda>F s A. I F s A \<and> F (releaseEnv cfg) = e \<and> F (releaseCompose cfg) = c)"
proof -
  let ?R = "\<lambda>F s A. I F s A \<and> F (releaseEnv cfg) = e \<and> F (releaseCompose cfg) = c"
  have I: "entails I I" and R: "entails ?R I" by auto
  have q: "step_to I ?R (watched env cfg m) ?R" if "files_obs.quiet m" "state_obs.quiet m" for m
    by (rule step_watched_quiet [OF that R])
  have probe: "step_to I ?R (watched env cfg (probe env cfg)) ?R" by (rule q) simp_all
  have probeI: "step_to I I (watched env cfg (probe env cfg)) I"
    by (rule step_watched_quiet [OF _ _ I]) simp_all
  have restore: "step_to I I (watched env cfg (restoreBackup env cfg d)) ?R"
    by (rule step_watched [OF step_restoreBackup [OF P stable backup] I])
  have docker: "step_to I ?R (watched env cfg (runDockerSignal env a)) ?R" for a
    by (rule q) simp_all
  have verify: "step_to I ?R (watched env cfg (writeState env cfg
      (\<lambda>s. s\<lparr>phase := Verifying, message := m\<rparr>))) ?R" for m
    by (rule step_watched [OF step_writeState R]) (use fin verifying R in auto)
  have health: "step_to I ?R (watched env cfg (pollHealthChecks env cfg (Some (probe env cfg)))) ?R"
    by (rule q) auto
  have last: "step_to I ?R (andThen (bind (getWorld holderFailure)
      (\<lambda>hf. case hf of Some e \<Rightarrow> raise e | None \<Rightarrow> ret ()))
      (disableProjectionRollbackGate env cfg True)) ?R"
    by (rule step_quiet [OF _ _ R]) auto
  have steps: "step_to I I (completeRollbackSteps env cfg d) ?R"
    unfolding completeRollbackSteps_def Let_def
    by (rule step_andThen [OF probeI], rule step_andThen [OF restore], rule step_andThen [OF probe],
        rule step_andThen [OF docker], rule step_andThen [OF probe], rule step_andThen [OF docker],
        rule step_andThen [OF probe], rule step_andThen [OF verify], rule step_andThen [OF health],
        rule step_andThen [OF probe], rule last)
  show ?thesis
    unfolding completeProjectionRollback_def
  proof (intro step_andThen hoare_tryCatch)
    show "step_to I I (putWorld (\<lambda>w. w\<lparr>holderFailure := None, aborted := False\<rparr>)) I"
      by (rule step_quiet) auto
    show "step_to I I (completeRollbackSteps env cfg d) ?R" by (rule steps)
    fix x
    show "hoare (holds I)
      (andThen (tryFinally (enableProjectionRollbackGate env cfg) (stopRollbackServices env)) (raise x))
      (\<lambda>_. holds ?R) (\<lambda>_. holds I) (holds I)"
      by (rule step_andThen [OF step_quiet]) (auto intro: hoare_raise)
  qed
qed

subsection \<open>How far an update got\<close>

definition sameVersion :: "updateStatus \<Rightarrow> updateStatus \<Rightarrow> bool" where
  "sameVersion st s \<longleftrightarrow> currentVersion s = currentVersion st"

text \<open>The backup is being written; the release files are untouched.\<close>

definition atPreparing ::
  "updaterConfig \<Rightarrow> string \<Rightarrow> updateStatus \<Rightarrow> (string \<rightharpoonup> string) \<Rightarrow> (string \<rightharpoonup> string) \<Rightarrow> updateStatus \<Rightarrow> bool"
  where
  "atPreparing cfg op st F0 F s \<longleftrightarrow>
     phase s \<in> {Applying, Failed} \<and> applyStage s = Some PreparingBackup \<and> operationId s = Some op
     \<and> rollbackBackupOperationId s = None \<and> sameVersion st s \<and> releaseSame cfg F0 F"

definition atReady ::
  "updaterConfig \<Rightarrow> string \<Rightarrow> updateStatus \<Rightarrow> (string \<rightharpoonup> string) \<Rightarrow> (string \<rightharpoonup> string) \<Rightarrow> updateStatus \<Rightarrow> bool"
  where
  "atReady cfg op st F0 F s \<longleftrightarrow>
     phase s \<in> {Applying, Failed} \<and> applyStage s = Some BackupReady \<and> operationId s = Some op
     \<and> rollbackBackupOperationId s = None \<and> sameVersion st s \<and> releaseSame cfg F0 F
     \<and> backupHolds cfg op F0 F"

text \<open>The release files may be anything; the backup is complete and the status says so.\<close>

definition atSwitched ::
  "updaterConfig \<Rightarrow> string \<Rightarrow> updateStatus \<Rightarrow> (string \<rightharpoonup> string) \<Rightarrow> (string \<rightharpoonup> string) \<Rightarrow> updateStatus \<Rightarrow> bool"
  where
  "atSwitched cfg op st F0 F s \<longleftrightarrow>
     phase s \<in> {Applying, Verifying, Failed} \<and> applyStage s = Some FilesSwitched
     \<and> operationId s = Some op \<and> rollbackBackupOperationId s = None \<and> sameVersion st s
     \<and> backupHolds cfg op F0 F"

definition atRolledBack ::
  "updaterConfig \<Rightarrow> updateStatus \<Rightarrow> (string \<rightharpoonup> string) \<Rightarrow> (string \<rightharpoonup> string) \<Rightarrow> updateStatus \<Rightarrow> bool" where
  "atRolledBack cfg st F0 F s \<longleftrightarrow>
     phase s \<in> {RolledBack, Failed} \<and> applyStage s = None \<and> operationId s = None
     \<and> sameVersion st s \<and> releaseSame cfg F0 F"

text \<open>The release that was admitted is installed, and its predecessor can be restored.\<close>

definition atInstalled ::
  "environment \<Rightarrow> updaterConfig \<Rightarrow> string \<Rightarrow> updateStatus \<Rightarrow> (string \<rightharpoonup> string) \<Rightarrow> (string \<rightharpoonup> string)
   \<Rightarrow> updateStatus \<Rightarrow> bool" where
  "atInstalled env cfg op st F0 F s \<longleftrightarrow>
     phase s \<in> {Finalizing, Succeeded, Failed} \<and> applyStage s = None
     \<and> (\<exists>m. admitted env cfg st F0 m \<and> currentVersion s = version m
           \<and> lastAppliedBackup s = Some \<lparr>backupOperation = op, targetVersion = version m\<rparr>)
     \<and> releaseInstalled cfg F0 F \<and> backupHolds cfg op F0 F"

definition applySafe ::
  "environment \<Rightarrow> updaterConfig \<Rightarrow> string \<Rightarrow> updateStatus \<Rightarrow> (string \<rightharpoonup> string) \<Rightarrow> (string \<rightharpoonup> string)
   \<Rightarrow> updateStatus \<Rightarrow> bool" where
  "applySafe env cfg op st F0 F s \<longleftrightarrow>
     atPreparing cfg op st F0 F s \<or> atReady cfg op st F0 F s \<or> atSwitched cfg op st F0 F s
     \<or> atRolledBack cfg st F0 F s \<or> atInstalled env cfg op st F0 F s"

lemmas at_defs = atPreparing_def atReady_def atSwitched_def atRolledBack_def atInstalled_def

lemma applySafe_Failed:
  "applySafe env cfg op st F0 F s \<Longrightarrow>
   applySafe env cfg op st F0 F (s\<lparr>phase := Failed, finishedAt := t, message := m, error := e\<rparr>)"
  by (auto simp: applySafe_def at_defs sameVersion_def)

text \<open>What the operation keeps in memory.\<close>

abbreviation mem where
  "mem op \<phi> \<equiv> (\<lambda>F s A. A = Some op \<and> \<phi> F s)"

subsection \<open>The steps of an update\<close>

lemma pathsOkD:
  assumes "pathsOk cfg op"
  shows "releaseEnv cfg \<noteq> releaseCompose cfg"
    "q \<in> set (backupFiles cfg op) \<Longrightarrow> q \<notin> {releaseEnv cfg, releaseCompose cfg,
        stagedComposePath cfg, stagedReleaseEnvPath cfg}"
    "backupEnvPath (backupDirOf cfg op) \<in> set (backupFiles cfg op)"
    "backupComposePath (backupDirOf cfg op) \<in> set (backupFiles cfg op)"
    "dumpPath (backupDirOf cfg op) \<in> set (backupFiles cfg op)"
    "dumpPath (backupDirOf cfg op) @ ''.sha256'' \<in> set (backupFiles cfg op)"
    "backupEnvPath (backupDirOf cfg op) \<noteq> backupComposePath (backupDirOf cfg op)"
    "stagedComposePath cfg \<noteq> stagedReleaseEnvPath cfg"
    "{releaseEnv cfg, releaseCompose cfg} \<inter> {stagedComposePath cfg, stagedReleaseEnvPath cfg} = {}"
    "{backupEnvPath (backupDirOf cfg op), backupComposePath (backupDirOf cfg op)}
       \<inter> {dumpPath (backupDirOf cfg op), dumpPath (backupDirOf cfg op) @ ''.sha256''} = {}"
  using assms by (auto simp: pathsOk_def backupFiles_def Let_def)

definition agreeOff :: "string set \<Rightarrow> (string \<rightharpoonup> string) \<Rightarrow> (string \<rightharpoonup> string) \<Rightarrow> bool" where
  "agreeOff T F F' \<longleftrightarrow> (\<forall>q. q \<notin> T \<longrightarrow> F' q = F q)"

lemma agreeOff_upd: "agreeOff T F0 F \<Longrightarrow> p \<in> T \<Longrightarrow> \<forall>q. q \<noteq> p \<longrightarrow> F' q = F q \<Longrightarrow> agreeOff T F0 F'"
  by (auto simp: agreeOff_def)

lemma agreeOff_mono: "\<forall>q. q \<notin> S \<longrightarrow> F' q = F q \<Longrightarrow> S \<subseteq> T \<Longrightarrow> agreeOff T F F'"
  by (auto simp: agreeOff_def)

lemma agreeOff_release:
  assumes "pathsOk cfg op" "agreeOff (set (backupFiles cfg op)) F0 F"
  shows "releaseSame cfg F0 F" "F (stagedComposePath cfg) = F0 (stagedComposePath cfg)"
    "F (stagedReleaseEnvPath cfg) = F0 (stagedReleaseEnvPath cfg)"
  using assms pathsOkD(2) [OF assms(1)] by (auto simp: releaseSame_def agreeOff_def)

lemma writesOnly_createDatabaseBackup:
  "writesOnly {dumpPath d, dumpPath d @ ''.sha256''} (createDatabaseBackup env cfg d)"
  unfolding createDatabaseBackup_def Let_def
  by (intro writesOnly_bind writesOnly_andThen writesOnly_files writesOnly_quiet) auto

lemma step_createBackup:
  assumes P: "pathsOk cfg op"
    and stable: "\<And>F s A F'. I F s A \<Longrightarrow> agreeOff (set (backupFiles cfg op)) F F' \<Longrightarrow> I F' s A"
    and start: "entails \<phi> (\<lambda>F s A. F = F0 \<and> I F s A)"
  shows "step_to I \<phi> (createBackup env cfg m (backupDirOf cfg op))
     (\<lambda>F s A. I F s A \<and> agreeOff (set (backupFiles cfg op)) F0 F \<and> backupHolds cfg op F0 F)"
proof -
  let ?d = "backupDirOf cfg op" and ?T = "set (backupFiles cfg op)"
  note P' = pathsOkD [OF P]
  let ?A = "\<lambda>F s A. I F s A \<and> agreeOff ?T F0 F"
  let ?B = "\<lambda>F s A. ?A F s A \<and> F0 (releaseEnv cfg) \<noteq> None \<and> F (backupEnvPath ?d) = F0 (releaseEnv cfg)"
  let ?C = "\<lambda>F s A. I F s A \<and> agreeOff ?T F0 F \<and> backupHolds cfg op F0 F"
  have keep: "I F' s A" if "I F s A" "p \<in> ?T" "\<forall>q. q \<noteq> p \<longrightarrow> F' q = F q" for F F' s A p
    by (rule stable [OF that(1)]) (use that(2,3) in \<open>auto simp: agreeOff_def\<close>)
  have quiet: "step_to I \<psi> n \<psi>"
    if "files_obs.quiet n" "state_obs.quiet n" "entails \<psi> I" for n :: "unit op" and \<psi>
    by (rule step_quiet [OF that])
  have 0: "step_to I \<phi> (mkdirP env ?d) ?A"
    by (rule step_conseq [OF quiet [of "mkdirP env ?d" ?A]])
       (use start in \<open>auto simp: entails_def agreeOff_def\<close>)
  have 1: "step_to I ?A (copyFile env (releaseEnv cfg) (backupEnvPath ?d)) ?B"
  proof (rule step_copyFile)
    fix F s A c
    assume a: "?A F s A" and c: "F (releaseEnv cfg) = Some c"
    have "agreeOff ?T F0 (F(backupEnvPath ?d \<mapsto> c))"
      by (rule agreeOff_upd [of _ _ F "backupEnvPath ?d"]) (use a P'(3) in auto)
    moreover have "I (F(backupEnvPath ?d \<mapsto> c)) s A"
      by (rule keep [of F _ _ "backupEnvPath ?d"]) (use a P'(3) in auto)
    moreover have "F0 (releaseEnv cfg) = Some c"
      using agreeOff_release(1) [OF P, of F0 F] a c by (auto simp: releaseSame_def)
    ultimately show "?B (F(backupEnvPath ?d \<mapsto> c)) s A" by simp
  next
    fix F s A F'
    assume "?A F s A" "\<forall>q. q \<noteq> backupEnvPath ?d \<longrightarrow> F' q = F q"
    then show "I F' s A" using keep [of F s A _ F'] P'(3) by blast
  qed
  have 2: "step_to I ?B (copyFile env (releaseCompose cfg) (backupComposePath ?d)) ?C"
  proof (rule step_copyFile)
    fix F s A c
    assume a: "?B F s A" and c: "F (releaseCompose cfg) = Some c"
    have "agreeOff ?T F0 (F(backupComposePath ?d \<mapsto> c))"
      by (rule agreeOff_upd [of _ _ F "backupComposePath ?d"]) (use a P'(4) in auto)
    moreover have "I (F(backupComposePath ?d \<mapsto> c)) s A"
      by (rule keep [of F _ _ "backupComposePath ?d"]) (use a P'(4) in auto)
    moreover have "F0 (releaseCompose cfg) = Some c"
      using agreeOff_release(1) [OF P, of F0 F] a c by (auto simp: releaseSame_def)
    ultimately show "?C (F(backupComposePath ?d \<mapsto> c)) s A"
      using a P'(7) by (auto simp: backupHolds_def)
  next
    fix F s A F'
    assume "?B F s A" "\<forall>q. q \<noteq> backupComposePath ?d \<longrightarrow> F' q = F q"
    then show "I F' s A" using keep [of F s A _ F'] P'(4) by blast
  qed
  have C: "entails ?C I" by (rule entailsI) simp
  have 3: "step_to I ?C (createDatabaseBackup env cfg ?d) ?C"
  proof (rule step_writesOnly [OF writesOnly_createDatabaseBackup _ C])
    fix F s A F'
    assume c: "?C F s A" and eq: "\<forall>q. q \<notin> {dumpPath ?d, dumpPath ?d @ ''.sha256''} \<longrightarrow> F' q = F q"
    have "{dumpPath ?d, dumpPath ?d @ ''.sha256''} \<subseteq> ?T" using P'(5,6) by simp
    then have off: "agreeOff ?T F F'" by (rule agreeOff_mono [OF eq])
    then have "agreeOff ?T F0 F'" using c unfolding agreeOff_def by simp
    moreover have "F' (backupEnvPath ?d) = F (backupEnvPath ?d)"
      "F' (backupComposePath ?d) = F (backupComposePath ?d)"
      by (rule eq [rule_format], use P'(10) in blast)+
    then have "backupHolds cfg op F0 F'" using c by (simp add: backupHolds_def)
    moreover have "I F' s A" using stable [OF _ off] c by blast
    ultimately show "?C F' s A" by simp
  qed
  have 4: "step_to I ?C (if b then createDatabaseBackup env cfg ?d else ret ()) ?C" for b
    by (rule hoare_if, rule 3, rule quiet [OF _ _ C]) simp_all
  show ?thesis
    unfolding createBackup_def
    by (rule step_andThen [OF 0 step_andThen [OF 1 step_andThen [OF 2 step_andThen [OF 4
          quiet [OF _ _ C]]]]]) simp_all
qed

lemma atSwitched_stable:
  assumes "atSwitched cfg op st F0 F s" "pathsOk cfg op"
    "\<forall>q \<in> set (backupFiles cfg op). F' q = F q"
  shows "atSwitched cfg op st F0 F' s"
  using assms(1) assms(3) pathsOkD(3,4) [OF assms(2)]
  by (auto simp: atSwitched_def backupHolds_def)

lemma atSwitched_rename:
  assumes "atSwitched cfg op st F0 F s" "pathsOk cfg op"
    "src \<notin> set (backupFiles cfg op)" "dst \<notin> set (backupFiles cfg op)"
  shows "atSwitched cfg op st F0 ((F(src := None))(dst \<mapsto> c)) s"
  by (rule atSwitched_stable [OF assms(1,2)]) (use assms(3,4) in auto)

lemma step_installRelease:
  fixes st :: updateStatus and F0 :: "string \<rightharpoonup> string"
  assumes P: "pathsOk cfg op"
  defines "I \<equiv> mem op (atSwitched cfg op st F0)"
  shows "step_to I
     (mem op (\<lambda>F s. atSwitched cfg op st F0 F s \<and> agreeOff (set (backupFiles cfg op)) F0 F))
     (installRelease env cfg m)
     (mem op (\<lambda>F s. atSwitched cfg op st F0 F s \<and> releaseInstalled cfg F0 F))"
proof -
  note P' = pathsOkD [OF P]
  let ?\<phi> = "mem op (\<lambda>F s. atSwitched cfg op st F0 F s \<and> agreeOff (set (backupFiles cfg op)) F0 F)"
  let ?C = "mem op (\<lambda>F s. atSwitched cfg op st F0 F s
     \<and> F (releaseCompose cfg) = F0 (stagedComposePath cfg)
     \<and> F (stagedReleaseEnvPath cfg) = F0 (stagedReleaseEnvPath cfg))"
  let ?D = "mem op (\<lambda>F s. atSwitched cfg op st F0 F s \<and> releaseInstalled cfg F0 F)"
  have notBackup: "p \<notin> set (backupFiles cfg op)"
    if "p \<in> {releaseEnv cfg, releaseCompose cfg, stagedComposePath cfg, stagedReleaseEnvPath cfg}"
    for p
    using that P'(2) by blast
  have 1: "step_to I ?\<phi> (renameFile env (stagedComposePath cfg) (releaseCompose cfg)) ?C"
  proof (rule step_renameFile)
    fix F s A c
    assume a: "?\<phi> F s A" and c: "F (stagedComposePath cfg) = Some c"
    then show "?C ((F(stagedComposePath cfg := None))(releaseCompose cfg \<mapsto> c)) s A"
      using agreeOff_release(2,3) [OF P, of F0 F] P'(8,9)
      by (auto intro!: atSwitched_rename [OF _ P] notBackup)
  qed (auto simp: I_def)
  have 2: "step_to I ?C (renameFile env (stagedReleaseEnvPath cfg) (releaseEnv cfg)) ?D"
  proof (rule step_renameFile)
    fix F s A c
    assume a: "?C F s A" and c: "F (stagedReleaseEnvPath cfg) = Some c"
    from a have "atSwitched cfg op st F0 ((F(stagedReleaseEnvPath cfg := None))(releaseEnv cfg \<mapsto> c)) s"
      by (intro atSwitched_rename [OF _ P] notBackup) auto
    with a c show "?D ((F(stagedReleaseEnvPath cfg := None))(releaseEnv cfg \<mapsto> c)) s A"
      using P'(1,8,9) by (auto simp: releaseInstalled_def)
  qed (auto simp: I_def)
  have D: "entails ?D I" by (auto simp: I_def)
  have q: "step_to I ?D n ?D" if "files_obs.quiet n" "state_obs.quiet n" for n :: "unit op"
    by (rule step_quiet [OF that D])
  have v: "step_to I ?D (writeState env cfg (\<lambda>s. s\<lparr>phase := Verifying, message := t\<rparr>)) ?D" for t
    by (rule step_writeState [OF _ _ D D]) (auto simp: atSwitched_def sameVersion_def)
  show ?thesis
    unfolding installRelease_def
    by (rule step_andThen [OF 1 step_andThen [OF 2 step_andThen [OF q step_andThen [OF q
          step_andThen [OF q step_andThen [OF v q]]]]]]) auto
qed

lemma step_automaticRollback:
  fixes st :: updateStatus and F0 :: "string \<rightharpoonup> string"
  assumes P: "pathsOk cfg op"
  defines "I \<equiv> mem op (\<lambda>F s. atSwitched cfg op st F0 F s \<or> atRolledBack cfg st F0 F s)"
  shows "step_to I (mem op (atSwitched cfg op st F0))
     (automaticRollback env cfg m (backupDirOf cfg op) e) (mem op (atRolledBack cfg st F0))"
proof -
  note P' = pathsOkD [OF P]
  let ?S = "mem op (atSwitched cfg op st F0)" and ?R = "mem op (atRolledBack cfg st F0)"
  let ?SR = "mem op (\<lambda>F s. atSwitched cfg op st F0 F s \<and> releaseSame cfg F0 F)"
  let ?c = "andThen (prepareProjectionRollback env cfg)
              (completeProjectionRollback env cfg (backupDirOf cfg op))"
  have "step_to ?S ?S (completeProjectionRollback env cfg (backupDirOf cfg op))
    (\<lambda>F s A. (A = Some op \<and> atSwitched cfg op st F0 F s)
       \<and> F (releaseEnv cfg) = F0 (releaseEnv cfg) \<and> F (releaseCompose cfg) = F0 (releaseCompose cfg))"
  proof (rule step_completeRollback)
    show "releaseEnv cfg \<noteq> releaseCompose cfg" by (rule P'(1))
    show "backupEnvPath (backupDirOf cfg op) \<notin> {releaseEnv cfg, releaseCompose cfg}"
      "backupComposePath (backupDirOf cfg op) \<notin> {releaseEnv cfg, releaseCompose cfg}"
      using P'(2) [OF P'(3)] P'(2) [OF P'(4)] by auto
    fix F F' s A t
    assume a: "A = Some op \<and> atSwitched cfg op st F0 F s"
    then show "F (backupEnvPath (backupDirOf cfg op)) = F0 (releaseEnv cfg)
        \<and> F (backupComposePath (backupDirOf cfg op)) = F0 (releaseCompose cfg)"
      "A = Some op \<and> atSwitched cfg op st F0 F (s\<lparr>phase := Verifying, message := t\<rparr>)"
      "phase s \<noteq> Finalizing \<or> truthy A"
      by (auto simp: atSwitched_def backupHolds_def sameVersion_def)
    assume eq: "\<forall>q. q \<notin> {releaseEnv cfg, releaseCompose cfg} \<longrightarrow> F' q = F q"
    have "\<forall>q \<in> set (backupFiles cfg op). F' q = F q"
      using P'(2) by (intro ballI eq [rule_format]) blast
    with a show "A = Some op \<and> atSwitched cfg op st F0 F' s"
      using atSwitched_stable [OF _ P] by blast
  qed
  then have "step_to ?S ?S (completeProjectionRollback env cfg (backupDirOf cfg op)) ?SR"
    by (rule step_conseq) (auto simp: releaseSame_def)
  then have c: "step_to ?S ?S ?c ?SR"
    by (intro step_andThen [OF step_quiet]) auto
  have wrap: "step_to I ?S (tryCatch ?c (\<lambda>r. raise (RollbackRecoveryRequired (exnMessage r)))) ?SR"
  proof (rule hoare_tryCatch)
    show "hoare (holds ?S) ?c (\<lambda>_. holds ?SR) (\<lambda>_. holds I) (holds I)"
      by (rule step_conseq [OF c]) (auto simp: I_def)
  qed (rule hoare_raise)
  have close: "step_to I ?SR (writeState env cfg (\<lambda>s. s\<lparr>phase := RolledBack,
      availableVersion := None, finishedAt := Some now,
      message := Some (buildAutomaticRollbackMessage (backupDirOf cfg op) m),
      error := Some (normalizeError e), operationId := None, applyStage := None\<rparr>)) ?R" for now
    by (rule step_writeState) (auto simp: I_def at_defs sameVersion_def)
  show ?thesis
    unfolding automaticRollback_def
  proof (rule step_andThen [OF wrap])
    show "hoare (holds ?SR) (bind (nowIso env) (\<lambda>now. writeState env cfg (\<lambda>s. s\<lparr>phase := RolledBack,
      availableVersion := None, finishedAt := Some now,
      message := Some (buildAutomaticRollbackMessage (backupDirOf cfg op) m),
      error := Some (normalizeError e), operationId := None, applyStage := None\<rparr>)))
      (\<lambda>_. holds ?R) (\<lambda>_. holds I) (holds I)"
      by (rule hoare_bind [where Q = "\<lambda>_. holds ?SR"])
         (auto intro: close simp: nowIso_def intro!: hoare_getWorld)
  qed
qed

lemma hoare_nowIso: "(\<And>now. hoare P (f now) Q R K) \<Longrightarrow> hoare P (bind (nowIso env) f) Q R K"
  by (rule hoare_bind [where Q = "\<lambda>_. P"]) (auto simp: nowIso_def intro: hoare_getWorld)

lemma step_scheduleFinalizer:
  fixes env :: environment and cfg :: updaterConfig and st :: updateStatus and F0 :: "string \<rightharpoonup> string"
  assumes "op \<noteq> []"
  defines "I \<equiv> mem op (atInstalled env cfg op st F0)"
  shows "step_to I I (scheduleFinalizer env cfg m opId) I"
proof -
  have w: "step_to I I (writeState env cfg (\<lambda>s. s\<lparr>phase := Succeeded, finishedAt := t,
      operationId := None, message := x\<rparr>)) I" for t x
    by (rule step_writeState) (use assms in \<open>auto simp: at_defs truthy_def\<close>)
  show ?thesis
    unfolding scheduleFinalizer_def
    by (rule hoare_tryCatch [OF step_quiet hoare_nowIso [OF w]]) auto
qed

lemma step_applyBody:
  fixes env :: environment and cfg :: updaterConfig and st :: updateStatus and F0 :: "string \<rightharpoonup> string"
  assumes P: "pathsOk cfg op" and op: "op \<noteq> []"
    and same: "currentVersion s1 = currentVersion st" "availableVersion s1 = availableVersion st"
      "migration s1 = migration st"
    and s1: "phase s1 = Applying" "applyStage s1 = Some PreparingBackup" "operationId s1 = Some op"
      "rollbackBackupOperationId s1 = None"
  defines "I \<equiv> mem op (applySafe env cfg op st F0)"
  shows "step_to I (mem op (\<lambda>F s. F = F0 \<and> s = s1)) (applyBody env cfg op) I"
proof -
  let ?T = "set (backupFiles cfg op)"
  let ?start = "mem op (\<lambda>F s. F = F0 \<and> s = s1)"
  let ?Prep = "mem op (atPreparing cfg op st F0)"
  let ?Back = "\<lambda>F s A. (A = Some op \<and> atPreparing cfg op st F0 F s)
     \<and> agreeOff ?T F0 F \<and> backupHolds cfg op F0 F"
  let ?Ready = "mem op (\<lambda>F s. atReady cfg op st F0 F s \<and> agreeOff ?T F0 F)"
  let ?Sw = "mem op (\<lambda>F s. atSwitched cfg op st F0 F s \<and> agreeOff ?T F0 F)"
  let ?In = "mem op (\<lambda>F s. atSwitched cfg op st F0 F s \<and> releaseInstalled cfg F0 F)"
  let ?Rb = "mem op (atRolledBack cfg st F0)"
  have start: "entails ?start (\<lambda>F s A. F = F0 \<and> A = Some op \<and> atPreparing cfg op st F0 F s)"
    using s1 same by (auto simp: at_defs sameVersion_def releaseSame_def)
  have backup: "step_to ?Prep ?start (createBackup env cfg m (backupDirOf cfg op)) ?Back" for m
  proof (rule step_createBackup [OF P _ start])
    fix F F' s A
    assume "A = Some op \<and> atPreparing cfg op st F0 F s" "agreeOff ?T F F'"
    then show "A = Some op \<and> atPreparing cfg op st F0 F' s"
      using agreeOff_release(1) [OF P, of F F'] by (auto simp: atPreparing_def releaseSame_def)
  qed
  have backupI: "step_to I ?start (createBackup env cfg m (backupDirOf cfg op)) ?Back" for m
    by (rule step_conseq [OF backup]) (auto simp: I_def applySafe_def)
  have ready: "step_to I ?Back (writeState env cfg (\<lambda>s. s\<lparr>applyStage := Some BackupReady\<rparr>)) ?Ready"
    by (rule step_writeState) (auto simp: I_def applySafe_def atPreparing_def atReady_def sameVersion_def)
  have switch: "step_to I ?Ready (writeState env cfg (\<lambda>s. s\<lparr>applyStage := Some FilesSwitched\<rparr>)) ?Sw"
    by (rule step_writeState) (auto simp: I_def applySafe_def atReady_def atSwitched_def sameVersion_def)
  have install: "hoare (holds ?Sw)
      (tryCatch (andThen (installRelease env cfg m) (ret True))
         (\<lambda>e. andThen (automaticRollback env cfg m (backupDirOf cfg op) e) (ret False)))
      (\<lambda>b. if b then holds ?In else holds ?Rb) (\<lambda>_. holds I) (holds I)" for m
  proof (rule hoare_tryCatch [where R' = "\<lambda>_. holds (mem op (atSwitched cfg op st F0))"])
    have "step_to I ?Sw (installRelease env cfg m) ?In"
      by (rule step_conseq [OF step_installRelease [OF P]]) (auto simp: I_def applySafe_def)
    have "hoare (holds ?Sw) (installRelease env cfg m) (\<lambda>_. holds ?In)
        (\<lambda>_. holds (mem op (atSwitched cfg op st F0))) (holds I)"
      by (rule hoare_conseq [OF step_installRelease [OF P, of st F0 env m]])
         (auto simp: I_def applySafe_def elim: holds_mono)
    then show "hoare (holds ?Sw) (andThen (installRelease env cfg m) (ret True))
        (\<lambda>b. if b then holds ?In else holds ?Rb)
        (\<lambda>_. holds (mem op (atSwitched cfg op st F0))) (holds I)"
      by (rule hoare_andThen) (auto intro: hoare_ret)
    fix e
    have "step_to I (mem op (atSwitched cfg op st F0))
        (automaticRollback env cfg m (backupDirOf cfg op) e) ?Rb"
      by (rule step_conseq [OF step_automaticRollback [OF P]]) (auto simp: I_def applySafe_def)
    then show "hoare (holds (mem op (atSwitched cfg op st F0)))
        (andThen (automaticRollback env cfg m (backupDirOf cfg op) e) (ret False))
        (\<lambda>b. if b then holds ?In else holds ?Rb) (\<lambda>_. holds I) (holds I)"
      by (rule hoare_andThen) (auto intro: hoare_ret)
  qed
  have fin: "step_to I (mem op (atInstalled env cfg op st F0)) (scheduleFinalizer env cfg m op)
      (mem op (atInstalled env cfg op st F0))" for m
    by (rule step_conseq [OF step_scheduleFinalizer [OF op]]) (auto simp: I_def applySafe_def)
  have final: "step_to I ?In (writeState env cfg (\<lambda>s. s\<lparr>phase := Finalizing,
        currentVersion := version m,
        lastAppliedBackup := Some \<lparr>backupOperation = op, targetVersion = version m\<rparr>,
        applyStage := None, availableVersion := None, statusNotesUrl := n,
        migration := mi, finishedAt := None, message := t\<rparr>)) (mem op (atInstalled env cfg op st F0))"
    if "admitted env cfg st F0 m" for m n mi t
    by (rule step_writeState)
       (use that in \<open>auto simp: I_def applySafe_def at_defs sameVersion_def\<close>)
  have admit: "hoare (holds ?start) (admitStaged env cfg)
      (\<lambda>m w. admitted env cfg st F0 m \<and> holds ?start w) (\<lambda>_. holds I) (holds I)"
  proof -
    have st: "admitted env cfg s1 F0 m \<longleftrightarrow> admitted env cfg st F0 m" for m
      using same by (simp add: admitted_def)
    have d: "holds ?start w \<longleftrightarrow> disk F0 (SavedState s1) (Some op) w" for w
      by (auto simp: holds_def)
    have "holds I w" if "disk F0 (SavedState s1) (Some op) w" for w
      using that start by (auto simp: I_def applySafe_def entails_def intro: holdsI)
    then show ?thesis
      unfolding d using s1 by (intro hoare_conseq [OF hoare_admitStaged]) (auto simp: st)
  qed
  have close: "hoare (if b then holds ?In else holds ?Rb)
      (if \<not> b then ret () else andThen (writeState env cfg (\<lambda>s. s\<lparr>phase := Finalizing,
        currentVersion := version m,
        lastAppliedBackup := Some \<lparr>backupOperation = op, targetVersion = version m\<rparr>,
        applyStage := None, availableVersion := None, statusNotesUrl := n,
        migration := mi, finishedAt := None, message := t\<rparr>)) (scheduleFinalizer env cfg m op))
      (\<lambda>_. holds I) (\<lambda>_. holds I) (holds I)"
    if m: "admitted env cfg st F0 m" for b m n mi t
  proof (cases b)
    case True
    have "step_to I (mem op (atInstalled env cfg op st F0)) (scheduleFinalizer env cfg m op) I"
      by (rule step_conseq [OF fin]) (auto simp: I_def applySafe_def)
    then show ?thesis using True by (simp add: step_andThen [OF final [OF m]])
  next
    case False
    have "holds I w" if "holds ?Rb w" for w
      using that by (rule holds_mono) (auto simp: I_def applySafe_def)
    then show ?thesis using False by (simp add: hoare_ret)
  qed
  show ?thesis
    unfolding applyBody_def Let_def
    by (rule hoare_bind [OF admit], rule hoare_conj_pure, rule step_andThen [OF backupI],
        rule step_andThen [OF ready], rule step_andThen [OF switch],
        rule hoare_bind [OF install], rule close)
qed

subsection \<open>Beginning an operation\<close>

text \<open>The status an operation starts with, after the tests at its beginning.\<close>

definition begun ::
  "updatePhase \<Rightarrow> bool \<Rightarrow> string \<Rightarrow> string option \<Rightarrow> updateStatus \<Rightarrow> updateStatus \<Rightarrow> bool" where
  "begun ph allow op sel st s1 \<longleftrightarrow>
     \<not> isMutatingPhase (phase st) \<and> (allow \<or> \<not> recoveryLocked st)
     \<and> (\<exists>t. s1 = st\<lparr>phase := ph, operationId := Some op,
           applyStage := (if ph = Applying then Some (if allow then RollingBack else PreparingBackup)
                          else None),
           rollbackBackupOperationId := sel, startedAt := Some t, finishedAt := None,
           message := None, error := None\<rparr>)"

definition reads where
  "reads F s A m Q \<longleftrightarrow>
     hoare (disk F (SavedState s) A) m (\<lambda>r w. Q r \<and> disk F (SavedState s) A w)
       (\<lambda>_. disk F (SavedState s) A) (disk F (SavedState s) A)"

text \<open>On disk after a failed start: the old status, or the new one when only the last sync failed.\<close>

definition beginStopped ::
  "(string \<rightharpoonup> string) \<Rightarrow> updateStatus \<Rightarrow> updatePhase \<Rightarrow> bool \<Rightarrow> string \<Rightarrow> (string option \<Rightarrow> bool)
   \<Rightarrow> world \<Rightarrow> bool" where
  "beginStopped F st ph allow op S w \<longleftrightarrow>
     (\<exists>A s1. disk F (SavedState s1) A w \<and> (s1 = st \<or> (\<exists>sel. begun ph allow op sel st s1 \<and> S sel)))"

lemma beginStopped_old: "disk F (SavedState st) A w \<Longrightarrow> beginStopped F st ph allow op S w"
  unfolding beginStopped_def by blast

lemma beginStopped_active:
  "beginStopped F st ph allow op S w \<Longrightarrow>
   beginStopped F st ph allow op S (w\<lparr>activeOperationId := A\<rparr>)"
  by (auto simp: beginStopped_def disk_def)

lemma hoare_begin:
  assumes op: "op \<noteq> []" "op = operationIdFactory env tr"
    and validate: "reads F st (Some op) (validate st) (\<lambda>_. V)"
    and select: "V \<Longrightarrow> reads F st (Some op) (select st) (\<lambda>(sel, ctx). S sel \<and> C sel ctx)"
  shows "hoare (\<lambda>w. disk F (SavedState st) A w \<and> trace w = tr)
     (beginOperation env cfg ph validate allow select)
     (\<lambda>(i, s1, ctx) w. i = op \<and> \<not> truthy A \<and> V
        \<and> (\<exists>sel. S sel \<and> C sel ctx \<and> begun ph allow op sel st s1)
        \<and> disk F (SavedState s1) (Some op) w)
     (\<lambda>_. beginStopped F st ph allow op S) (beginStopped F st ph allow op S)"
    (is "hoare ?init _ ?Q ?R ?K")
proof -
  let ?P = "disk F (SavedState st) (Some op)"
  let ?stop = "beginStopped F st ph allow op S"
  have fin: "phase st \<noteq> Finalizing \<or> truthy (Some op)" using op by (simp add: truthy_def split: list.split)
  have old: "hoare P m Q (\<lambda>_. ?stop) ?stop"
    if "hoare P m Q (\<lambda>_. ?P) ?P" for P and m :: "'x op" and Q
    by (rule hoare_conseq [OF that]) (auto intro: beginStopped_old)
  let ?new = "\<lambda>sel t. st\<lparr>phase := ph, operationId := Some op,
     applyStage := (if ph = Applying then Some (if allow then RollingBack else PreparingBackup) else None),
     rollbackBackupOperationId := sel, startedAt := Some t, finishedAt := None,
     message := None, error := None\<rparr>"
  have store: "hoare ?P
      (andThen (writeUpdateState env (?new sel t)) (ret (op, ?new sel t, ctx)))
      (\<lambda>(i, s1, ctx) w. i = op \<and> V \<and> (\<exists>sel. S sel \<and> C sel ctx \<and> begun ph allow op sel st s1)
        \<and> disk F (SavedState s1) (Some op) w) (\<lambda>_. ?stop) ?stop"
    if "\<not> isMutatingPhase (phase st)" "allow \<or> \<not> recoveryLocked st" "S sel \<and> C sel ctx" V
    for sel t ctx
  proof -
    have b: "begun ph allow op sel st (?new sel t)"
      using that(1,2) unfolding begun_def by blast
    have s: "?stop w" if "disk F (SavedState (?new sel t)) B w" for w B
      unfolding beginStopped_def using that b \<open>S sel \<and> C sel ctx\<close> by blast
    show ?thesis
      by (rule hoare_andThen [OF hoare_conseq [OF hoare_writeUpdateState] hoare_ret])
         (use b that s in \<open>auto intro: beginStopped_old\<close>)
  qed
  let ?body = "\<lambda>i. bind (getStatus env cfg) (\<lambda>current.
           if isMutatingPhase (phase current) then raise (inProgressId current)
           else if \<not> allow \<and> recoveryLocked current
           then raise (PreconditionError ''UPDATE_ROLLBACK_RECOVERY_REQUIRED''
                  ''Rollback recovery must complete before another update operation'')
           else andThen (validate current)
             (bind (select current) (\<lambda>(selected, ctx).
              bind (nowIso env) (\<lambda>now.
              (let status = current\<lparr>phase := ph, operationId := Some i,
                     applyStage := (if ph = Applying
                                    then Some (if allow then RollingBack else PreparingBackup)
                                    else None),
                     rollbackBackupOperationId := selected, startedAt := Some now,
                     finishedAt := None, message := None, error := None\<rparr>
               in andThen (writeUpdateState env status) (ret (i, status, ctx)))))))"
  have select': "hoare (\<lambda>w. V \<and> ?P w) (select st)
      (\<lambda>r w. (S (fst r) \<and> C (fst r) (snd r)) \<and> V \<and> ?P w) (\<lambda>_. ?P) ?P"
    by (rule hoare_conj_pure, rule hoare_conseq [OF select [unfolded reads_def]])
       (auto simp: case_prod_beta)
  have body: "hoare ?P (?body op)
      (\<lambda>(i, s1, ctx) w. i = op \<and> V \<and> (\<exists>sel. S sel \<and> C sel ctx \<and> begun ph allow op sel st s1)
        \<and> disk F (SavedState s1) (Some op) w) (\<lambda>_. ?stop) ?stop"
    unfolding Let_def case_prod_beta
    apply (rule hoare_bind [OF old [OF hoare_getStatus [OF fin]]], rule hoare_conj_pure)
    apply (intro hoare_if hoare_raise)
      apply (blast intro: beginStopped_old)
     apply (blast intro: beginStopped_old)
    apply (rule hoare_andThen [OF old], simp, rule validate [unfolded reads_def])
    apply (rule hoare_bind [OF old], simp, rule select')
    apply (intro hoare_conj_pure hoare_nowIso)
    apply hypsubst_thin
    apply (rule store [unfolded case_prod_beta])
       apply auto
    done
  show ?thesis
    unfolding beginOperation_def Let_def
  proof (rule hoare_bind [where Q = "\<lambda>a w. a = A \<and> ?init w"], goal_cases)
    case 1
    show ?case by (rule hoare_getWorld) (auto simp: disk_def)
  next
    case (2 a)
    show ?case
    proof (rule hoare_conj_pure, rule hoare_if, goal_cases)
      case 1
      show ?case by (rule hoare_raise) (auto intro: beginStopped_old)
    next
      case 2
      then have idle: "\<not> truthy A" by simp
      show ?case
      proof (rule hoare_bind [where Q = "\<lambda>t w. t = tr \<and> disk F (SavedState st) A w"], goal_cases)
        case 1
        show ?case by (rule hoare_getWorld) auto
      next
        case (2 t)
        have run: "hoare (disk F (SavedState st) A)
            (andThen (putWorld (\<lambda>w. w\<lparr>activeOperationId := Some op\<rparr>))
              (tryCatch (?body op)
                (\<lambda>e. andThen (putWorld (\<lambda>w. w\<lparr>activeOperationId := None\<rparr>)) (raise e))))
            ?Q (\<lambda>_. ?stop) ?stop"
        proof (rule hoare_andThen [OF hoare_putWorld hoare_tryCatch [OF hoare_post [OF body]]])
          fix e
          show "hoare (?stop) (andThen (putWorld (\<lambda>w. w\<lparr>activeOperationId := None\<rparr>)) (raise e))
            ?Q (\<lambda>_. ?stop) ?stop"
            by (rule hoare_andThen [OF hoare_putWorld hoare_raise]) (auto intro: beginStopped_active)
        qed (use idle in \<open>auto simp: disk_def\<close>)
        show ?case
          by (rule hoare_conj_pure) (use run op(2) in \<open>simp only: Let_def\<close>)
      qed
    qed
  qed
qed

lemma step_background:
  assumes body: "step_to (mem op J) \<phi> body (mem op J)" and op: "op \<noteq> []"
    and failed: "\<And>F s t m e. J F s \<Longrightarrow>
      J F (s\<lparr>phase := Failed, finishedAt := t, message := m, error := e\<rparr>)"
  defines "K \<equiv> (\<lambda>F s (A :: string option). J F s)"
  shows "step_to K \<phi> (runBackground env cfg body) K"
proof -
  let ?J = "mem op J"
  have handle: "step_to ?J ?J (handleOperationFailure env cfg e) ?J" for e
    unfolding handleOperationFailure_def
    by (intro hoare_nowIso step_writeState) (use op failed in \<open>auto simp: truthy_def\<close>)
  have weak: "holds K w" if "holds ?J w" for w using that by (rule holds_mono) (simp add: K_def)
  have clear: "hoare (holds ?J) (putWorld (\<lambda>w. w\<lparr>activeOperationId := None\<rparr>))
      (\<lambda>_. holds K) (\<lambda>_. holds K) (holds K)"
  proof (rule hoare_putWorld)
    fix w
    assume "holds ?J w"
    then obtain F s where "disk F (SavedState s) (Some op) w" "J F s" by (auto simp: holds_def)
    then have "disk F (SavedState s) None (w\<lparr>activeOperationId := None\<rparr>)" by (simp add: disk_def)
    then show "holds K (w\<lparr>activeOperationId := None\<rparr>)" by (rule holdsI) (simp add: K_def \<open>J F s\<close>)
  qed
  have "hoare (holds \<phi>) (tryCatch body (handleOperationFailure env cfg))
      (\<lambda>_. holds ?J) (\<lambda>_. holds ?J) (holds K)"
    by (rule hoare_conseq [OF hoare_tryCatch [OF body handle]]) (auto intro: weak)
  then show ?thesis
    unfolding runBackground_def by (rule hoare_tryFinally) (rule clear)+
qed

subsection \<open>Updates and crashes\<close>

lemma reads_requireReady: "reads F st A (requireReady st) (\<lambda>_. phase st = ReadyToApply)"
  unfolding reads_def requireReady_def
  by (auto intro: hoare_ret hoare_raise)

lemma reads_noSelection: "reads F st A (noSelection st) (\<lambda>(sel, ctx). sel = None \<and> True)"
  unfolding reads_def noSelection_def by (auto intro: hoare_ret)

lemma applySafe_begun:
  "begun Applying False op None st s1 \<Longrightarrow> applySafe env cfg op st F F s1"
  by (auto simp: begun_def applySafe_def atPreparing_def sameVersion_def releaseSame_def)

definition applyPost ::
  "environment \<Rightarrow> updaterConfig \<Rightarrow> string \<Rightarrow> updateStatus \<Rightarrow> (string \<rightharpoonup> string) \<Rightarrow> (string \<rightharpoonup> string)
   \<Rightarrow> updateStatus \<Rightarrow> bool" where
  "applyPost env cfg op st F0 F s \<longleftrightarrow> (s = st \<and> F = F0) \<or> applySafe env cfg op st F0 F s"

lemma hoare_applyUpdate:
  fixes st :: updateStatus and F0 :: "string \<rightharpoonup> string"
  assumes P: "pathsOk cfg op" and op: "op \<noteq> []" "op = operationIdFactory env tr"
  defines "I \<equiv> (\<lambda>F s (A :: string option). applyPost env cfg op st F0 F s)"
  shows "hoare (\<lambda>w. disk F0 (SavedState st) A w \<and> trace w = tr) (applyUpdate env cfg)
     (\<lambda>_. holds I) (\<lambda>_. holds I) (holds I)"
  unfolding applyUpdate_def startOperation_def
proof (rule hoare_bind)
  have stop: "holds I w" if "beginStopped F0 st Applying False op (\<lambda>sel. sel = None) w" for w
    using that unfolding beginStopped_def I_def applyPost_def
    by (auto intro!: holdsI applySafe_begun)
  show "hoare (\<lambda>w. disk F0 (SavedState st) A w \<and> trace w = tr)
     (beginOperation env cfg Applying requireReady False noSelection)
     (\<lambda>(i, s1, ctx) w. i = op \<and> begun Applying False op None st s1
        \<and> disk F0 (SavedState s1) (Some op) w)
     (\<lambda>_. holds I) (holds I)"
    by (rule hoare_conseq [OF hoare_begin [OF op reads_requireReady reads_noSelection]])
       (auto intro: stop)
  fix x :: "string \<times> updateStatus \<times> unit"
  obtain i s1 ctx where x: "x = (i, s1, ctx)" by (cases x) auto
  have body: "step_to (mem op (applySafe env cfg op st F0)) (mem op (\<lambda>F s. F = F0 \<and> s = s1))
      (applyBody env cfg op) (mem op (applySafe env cfg op st F0))"
    if "begun Applying False op None st s1"
    using that by (intro step_applyBody P op) (auto simp: begun_def)
  have run: "hoare (disk F0 (SavedState s1) (Some op)) (runBackground env cfg (applyBody env cfg op))
      (\<lambda>_. holds I) (\<lambda>_. holds I) (holds I)"
    if "begun Applying False op None st s1"
    by (rule hoare_conseq [OF step_background [OF body [OF that] op(1) applySafe_Failed]])
       (auto simp: I_def applyPost_def intro: holdsI elim: holds_mono)
  have "hoare (\<lambda>w. i = op \<and> begun Applying False op None st s1 \<and> disk F0 (SavedState s1) (Some op) w)
      (andThen (runBackground env cfg (applyBody env cfg i)) (ret (i, s1)))
      (\<lambda>_. holds I) (\<lambda>_. holds I) (holds I)"
    by (intro hoare_conj_pure) (auto intro!: hoare_andThen [OF run] hoare_ret)
  then show "hoare ((\<lambda>(i, s1, ctx) w. i = op \<and> begun Applying False op None st s1
        \<and> disk F0 (SavedState s1) (Some op) w) x)
     ((\<lambda>(opId, status, ctx). andThen (runBackground env cfg (applyBody env cfg opId))
         (ret (opId, status))) x)
     (\<lambda>_. holds I) (\<lambda>_. holds I) (holds I)"
    by (simp add: x)
qed

lemma hoare_final:
  assumes "hoare P m (\<lambda>_. Q) (\<lambda>_. Q) Q" "P w"
  shows "Q (snd (m w))"
proof -
  obtain r w' where m: "m w = (r, w')" by (cases "m w")
  from hoareD [OF assms m] m show ?thesis by (cases r) auto
qed

text \<open>
  C1. Crash safety of \<open>applyUpdate\<close>. Whatever the commands, the downloads, the file system and
  the clock do, and wherever the process dies, the update ends in one of six situations: nothing
  happened; the release files are untouched and the status says the backup is being prepared, or
  that it is ready and it is; the status says the files are switched, names the operation and
  its backup holds the original files; the files are back; or the release installed is the one
  whose manifest was admitted and whose digests matched, the status names its version, and the
  backup of its predecessor is complete. The status never names a version whose files are not
  installed.
\<close>

theorem applyUpdate_crash_safe:
  assumes "stateFile w = SavedState st" "op = operationIdFactory env (trace w)" "op \<noteq> []"
    "pathsOk cfg op"
  shows "\<exists>s'. stateFile (snd (applyUpdate env cfg w)) = SavedState s'
     \<and> applyPost env cfg op st (files w) (files (snd (applyUpdate env cfg w))) s'"
proof -
  have "holds (\<lambda>F s A. applyPost env cfg op st (files w) F s) (snd (applyUpdate env cfg w))"
    by (rule hoare_final [OF hoare_applyUpdate [where tr = "trace w" and A = "activeOperationId w"]])
       (use assms in \<open>auto simp: disk_def\<close>)
  then show ?thesis by (auto simp: holds_def disk_def)
qed

lemma demo_paths: "pathsOk demoConfig ''op-1''"
  by code_simp

lemma demo_world:
  "stateFile demoWorld = SavedState demoStatus" "activeOperationId demoWorld = None"
  "operationIdFactory (demoEnvironment d) t = ''op-1''"
  by (simp_all add: demoWorld_def demoEnvironment_def)

lemma applyUpdate_crash_safe_witness:
  "\<exists>s'. stateFile (snd (applyUpdate (demoEnvironment (\<lambda>t. length t = 16)) demoConfig demoWorld))
          = SavedState s'
     \<and> applyPost (demoEnvironment (\<lambda>t. length t = 16)) demoConfig ''op-1'' demoStatus (files demoWorld)
         (files (snd (applyUpdate (demoEnvironment (\<lambda>t. length t = 16)) demoConfig demoWorld))) s'"
  by (rule applyUpdate_crash_safe [OF demo_world(1) _ _ demo_paths]) (simp_all add: demo_world)

subsection \<open>Recovery\<close>

lemma quiet_recovery [intro!, simp]:
  "files_obs.quiet (needsRollback env cfg s)" "state_obs.quiet (needsRollback env cfg s)"
proof -
  have f: "files_obs.quiet (filesDiffer env s ps)" for ps
    by (induction env s ps rule: filesDiffer.induct) auto
  have g: "state_obs.quiet (filesDiffer env s ps)" for ps
    by (induction env s ps rule: filesDiffer.induct) auto
  show "files_obs.quiet (needsRollback env cfg s)"
    unfolding needsRollback_def releaseFilesDiverged_def Let_def using f by auto
  show "state_obs.quiet (needsRollback env cfg s)"
    unfolding needsRollback_def releaseFilesDiverged_def Let_def using g by auto
qed

text \<open>\<open>getStatus\<close> may close a finalizing status first.\<close>

lemma hoare_readUpdateState_holds:
  "hoare (holds \<phi>) (readUpdateState env d) (\<lambda>r. holds (\<lambda>F s A. s = r \<and> \<phi> F s A))
     (\<lambda>_. holds \<phi>) (holds \<phi>)"
proof (rule hoareI)
  fix w r w'
  assume "holds \<phi> w" and m: "readUpdateState env d w = (r, w')"
  then obtain F s A where d: "disk F (SavedState s) A w" "\<phi> F s A" by (auto simp: holds_def)
  from hoareD [OF hoare_readUpdateState d(1) m] d(2)
  show "case r of Done x \<Rightarrow> holds (\<lambda>F s A. s = x \<and> \<phi> F s A) w'
    | Raised e \<Rightarrow> holds \<phi> w' | Killed \<Rightarrow> holds \<phi> w' | Diverged \<Rightarrow> holds \<phi> w'"
    by (cases r) (auto intro: holdsI)
qed

lemma hoare_writeUpdateState_holds:
  assumes "\<And>F s A. \<phi> F s A \<Longrightarrow> \<psi> F s' A"
    "\<And>F s A. \<phi> F s A \<Longrightarrow> I F s A" "\<And>F A. \<psi> F s' A \<Longrightarrow> I F s' A"
  shows "step_to I \<phi> (writeUpdateState env s') (\<lambda>F s A. s = s' \<and> \<psi> F s A)"
proof (rule step_disk, rule hoare_conseq [OF hoare_writeUpdateState])
  fix F s A w
  assume f: "\<phi> F s A"
  show "disk F (SavedState s') A w \<Longrightarrow> holds (\<lambda>F s A. s = s' \<and> \<psi> F s A) w"
    using assms(1) [OF f] by (blast intro: holdsI)
  show "disk F (SavedState s) A w \<or> disk F (SavedState s') A w \<Longrightarrow> holds I w"
    using assms(2) [OF f] assms(3) [OF assms(1) [OF f]] by (blast intro: holdsI)
  then show "disk F (SavedState s) A w \<or> disk F (SavedState s') A w \<Longrightarrow> holds I w" .
qed auto

lemma hoare_getStatus_reconcile:
  assumes close: "\<And>F s A t m. \<phi> F s A \<Longrightarrow> phase s = Finalizing \<Longrightarrow>
    \<phi> F (s\<lparr>phase := Succeeded, operationId := None, finishedAt := t, message := m, error := None\<rparr>) A"
  shows "hoare (holds \<phi>) (getStatus env cfg) (\<lambda>r. holds (\<lambda>F s A. s = r \<and> \<phi> F s A))
     (\<lambda>_. holds \<phi>) (holds \<phi>)"
proof -
  let ?at = "\<lambda>r. holds (\<lambda>F s A. s = r \<and> \<phi> F s A)"
  have weak: "holds \<phi> w" if "?at r w" for r w using that by (rule holds_mono) simp
  have rec: "hoare (?at x) (reconcileFinalizing env x) ?at (\<lambda>_. holds \<phi>) (holds \<phi>)" for x
    unfolding reconcileFinalizing_def Let_def
  proof (rule hoare_bind [OF step_quiet], simp, simp, rule entailsI, simp, rule hoare_if)
    show "hoare (?at x) (ret x) ?at (\<lambda>_. holds \<phi>) (holds \<phi>)" by (rule hoare_ret)
    let ?f = "\<lambda>l t. l\<lparr>phase := Succeeded, operationId := None, finishedAt := t,
      message := Some (''Updated to '' @ currentVersion l
        @ ''; updater finalizer failed after interruption and can be retried manually''),
      error := None\<rparr>"
    have read: "hoare (?at x) (readUpdateState env x) ?at (\<lambda>_. holds \<phi>) (holds \<phi>)"
      by (rule hoare_conseq [OF hoare_readUpdateState_holds [of \<phi>]]) (auto intro: weak)
    have upd: "hoare (?at l) (writeUpdateState env (?f l t)) (\<lambda>_. ?at (?f l t)) (\<lambda>_. holds \<phi>) (holds \<phi>)"
      if "phase l = Finalizing" for l t
      by (rule hoare_writeUpdateState_holds) (use close that in auto)
    show "hoare (?at x) (bind (readUpdateState env x) (\<lambda>latest.
        if phase latest \<noteq> Finalizing \<or> operationId latest \<noteq> operationId x then ret latest
        else bind (nowIso env) (\<lambda>now. andThen (writeUpdateState env (?f latest (Some now)))
          (ret (?f latest (Some now)))))) ?at (\<lambda>_. holds \<phi>) (holds \<phi>)"
      by (rule hoare_bind [OF read], rule hoare_if [OF hoare_ret], assumption,
          rule hoare_nowIso, rule hoare_andThen [OF upd hoare_ret]) auto
  qed
  show ?thesis
    unfolding getStatus_def
    by (rule hoare_bind [OF hoare_readUpdateState_holds],
        rule hoare_bind [where Q = "\<lambda>_. ?at x" for x, OF hoare_getWorld], assumption,
        rule hoare_if [OF hoare_ret rec])
qed

text \<open>
  After recovery no operation is under way, and either nothing was lost, or the release is in
  place, or the next rollback will use the backup that holds the original files.
\<close>

definition selectable :: "updaterConfig \<Rightarrow> string \<Rightarrow> (string \<rightharpoonup> string) \<Rightarrow> (string \<rightharpoonup> string) \<Rightarrow> updateStatus \<Rightarrow> bool"
  where
  "selectable cfg op F0 F s \<longleftrightarrow>
     backupHolds cfg op F0 F \<and> phase s = Failed \<and> selectedBackup s = Some op"

definition recovered ::
  "environment \<Rightarrow> updaterConfig \<Rightarrow> string \<Rightarrow> updateStatus \<Rightarrow> (string \<rightharpoonup> string) \<Rightarrow> (string \<rightharpoonup> string)
   \<Rightarrow> updateStatus \<Rightarrow> bool" where
  "recovered env cfg op st F0 F s \<longleftrightarrow>
     (\<not> isMutatingPhase (phase s) \<or> phase s = Finalizing)
     \<and> (releaseSame cfg F0 F \<or> selectable cfg op F0 F s \<or> atInstalled env cfg op st F0 F s)"

definition crashed ::
  "environment \<Rightarrow> updaterConfig \<Rightarrow> string \<Rightarrow> updateStatus \<Rightarrow> (string \<rightharpoonup> string) \<Rightarrow> (string \<rightharpoonup> string)
   \<Rightarrow> updateStatus \<Rightarrow> bool" where
  "crashed env cfg op st F0 F s \<longleftrightarrow>
     releaseSame cfg F0 F \<or> atSwitched cfg op st F0 F s \<or> selectable cfg op F0 F s
     \<or> atInstalled env cfg op st F0 F s"

lemma crashed_applyPost: "applyPost env cfg op st F0 F s \<Longrightarrow> crashed env cfg op st F0 F s"
  by (auto simp: applyPost_def crashed_def applySafe_def atPreparing_def atReady_def
      atRolledBack_def releaseSame_def)

lemma crashed_recovered: "recovered env cfg op st F0 F s \<Longrightarrow> crashed env cfg op st F0 F s"
  by (auto simp: recovered_def crashed_def)

lemma crashed_close:
  "crashed env cfg op st F0 F s \<Longrightarrow> phase s = Finalizing \<Longrightarrow>
   crashed env cfg op st F0 F
     (s\<lparr>phase := Succeeded, operationId := None, finishedAt := t, message := m, error := None\<rparr>)"
  by (auto simp: crashed_def atSwitched_def selectable_def atInstalled_def)

text \<open>Whether recovery asks for a rollback, when the files may have been switched.\<close>

lemma hoare_needsRollback:
  "hoare (holds \<phi>) (needsRollback env cfg s)
     (\<lambda>b w. (b \<or> \<not> (phase s \<in> {Applying, Verifying} \<and> applyStage s = Some FilesSwitched)) \<and> holds \<phi> w)
     (\<lambda>_. holds \<phi>) (holds \<phi>)"
proof (cases "(phase s = Applying \<or> phase s = Verifying) \<and> applyStage s \<noteq> Some PreparingBackup
    \<and> applyStage s \<noteq> Some BackupReady")
  case True
  then show ?thesis by (auto simp: needsRollback_def intro: hoare_ret)
next
  case False
  show ?thesis by (rule hoare_conseq [OF step_quiet]) (use False in auto)
qed

lemma recover_outcome:
  assumes "crashed env cfg op st F0 F s" "isMutatingPhase (phase s)" "phase s \<noteq> Finalizing"
    and b: "b \<or> \<not> (phase s \<in> {Applying, Verifying} \<and> applyStage s = Some FilesSwitched)"
  shows "recovered env cfg op st F0 F
    (s\<lparr>phase := Failed,
       operationId := (if b then (case rollbackBackupOperationId s of Some i \<Rightarrow> Some i
                                  | None \<Rightarrow> operationId s) else operationId s),
       rollbackBackupOperationId := None, applyStage := None, finishedAt := t, message := m,
       error := Some \<lparr>errCode = (if b then ''UPDATE_ROLLBACK_RECOVERY_REQUIRED''
                                 else ''UPDATE_OPERATION_FAILED''), errMessage = e\<rparr>\<rparr>)"
  using assms
  by (auto simp: crashed_def recovered_def atSwitched_def selectable_def atInstalled_def
      selectedBackup_def recoveringFailedApply_def recoveryLocked_def)

lemma hoare_recover:
  fixes st :: updateStatus and F0 :: "string \<rightharpoonup> string" and env0 :: environment
    and cfg :: updaterConfig and op :: string
  defines "I \<equiv> (\<lambda>F s (A :: string option). crashed env0 cfg op st F0 F s)"
    and "Q \<equiv> (\<lambda>F s (A :: string option). recovered env0 cfg op st F0 F s)"
  shows "step_to I I (recoverInterruptedOperation env cfg) Q"
proof -
  let ?at = "\<lambda>x F s A. s = x \<and> I F s A"
  have get: "hoare (holds I) (getStatus env cfg) (\<lambda>r. holds (?at r)) (\<lambda>_. holds I) (holds I)"
    by (rule hoare_getStatus_reconcile) (simp add: I_def crashed_close)
  have weak: "holds I w" if "holds (?at x) w" for x w using that by (rule holds_mono) simp
  have over: "holds Q w" if "holds (?at x) w" "\<not> isMutatingPhase (phase x) \<or> phase x = Finalizing" for x w
    using that(1) by (rule holds_mono)
      (use that(2) in \<open>auto simp: I_def Q_def crashed_def recovered_def atSwitched_def
         selectable_def selectedBackup_def recoveringFailedApply_def\<close>)
  have need: "hoare (holds (?at x)) (needsRollback env cfg x)
      (\<lambda>b w. (b \<or> \<not> (phase x \<in> {Applying, Verifying} \<and> applyStage x = Some FilesSwitched))
         \<and> holds (?at x) w) (\<lambda>_. holds I) (holds I)" for x
    by (rule hoare_conseq [OF hoare_needsRollback [where \<phi> = "?at x"]]) (blast intro: weak)+
  have stop: "step_to I (?at x) (if b then stopRollbackServices env else ret ()) (?at x)" for b x
    by (rule step_quiet) auto
  have fail: "step_to I (?at x) (writeState env cfg (\<lambda>s. s\<lparr>phase := Failed,
      operationId := (if b then (case rollbackBackupOperationId x of Some i \<Rightarrow> Some i
                                 | None \<Rightarrow> operationId x) else operationId x),
      rollbackBackupOperationId := None, applyStage := None, finishedAt := t, message := m,
      error := Some \<lparr>errCode = (if b then ''UPDATE_ROLLBACK_RECOVERY_REQUIRED''
                                else ''UPDATE_OPERATION_FAILED''), errMessage = e\<rparr>\<rparr>)) Q"
    if "isMutatingPhase (phase x)" "phase x \<noteq> Finalizing"
      "b \<or> \<not> (phase x \<in> {Applying, Verifying} \<and> applyStage x = Some FilesSwitched)" for x b t m e
    by (rule step_writeState)
       (use that recover_outcome [of env0 cfg op st F0] in
        \<open>auto simp: I_def Q_def intro: crashed_recovered\<close>)
  show ?thesis
    unfolding recoverInterruptedOperation_def Let_def
    apply (rule hoare_bind [OF get], rule hoare_if)
     apply (rule hoare_ret, erule over, simp)
    apply (rule hoare_bind [OF need], rule hoare_conj_pure)
    apply (rule step_andThen [OF stop], rule hoare_nowIso, rule fail)
      apply auto
    done
qed


subsection \<open>Rollback\<close>

definition restoredVersion :: "environment \<Rightarrow> updaterConfig \<Rightarrow> (string \<rightharpoonup> string) \<Rightarrow> string \<Rightarrow> bool" where
  "restoredVersion env cfg F0 v \<longleftrightarrow>
     (\<exists>t. F0 (releaseEnv cfg) = Some t \<and> parseEnv env t ''DRUVIA_VERSION'' = Some v)"

lemma reads_selectRollback:
  assumes sel: "selectedBackup st = Some op" and b: "backupHolds cfg op F0 F"
  shows "reads F st A (selectRollback env cfg st)
     (\<lambda>(sel, ctx). sel = Some op
        \<and> (rbOperationId ctx = op \<and> rbPrevious ctx = lastAppliedBackup st
           \<and> restoredVersion env cfg F0 (rbVersion ctx)))"
proof -
  let ?P = "disk F (SavedState st) A" and ?d = "backupDirOf cfg op"
  let ?v = "\<lambda>t. (case parseEnv env t ''DRUVIA_VERSION'' of Some v \<Rightarrow> v | None \<Rightarrow> [])"
  let ?Q = "\<lambda>v w. (v \<noteq> [] \<longrightarrow> restoredVersion env cfg F0 v) \<and> ?P w"
  have "hoare ?P (bind (readFile env (backupEnvPath ?d)) (\<lambda>t. ret (?v t))) ?Q (\<lambda>_. ?P) ?P"
    by (rule hoare_bind [OF hoare_readFile], rule hoare_ret)
       (use b in \<open>auto simp: restoredVersion_def backupHolds_def split: option.splits\<close>)
  moreover have "stays ?P (assertRollbackBackupComplete env ?d)"
    by (rule hoare_quiet) (auto simp: assertRollbackBackupComplete_def)
  ultimately have read: "hoare ?P (tryCatch
      (andThen (assertRollbackBackupComplete env ?d)
        (bind (readFile env (backupEnvPath ?d)) (\<lambda>t. ret (?v t))))
      (\<lambda>e. raise (notAvailable ''Rollback backup files are missing or invalid''))) ?Q (\<lambda>_. ?P) ?P"
    by (rule_tac hoare_tryCatch, erule_tac hoare_andThen) (auto intro: hoare_raise)
  have resolve: "hoare ?P (resolveBackupDir cfg op) (\<lambda>d w. d = ?d \<and> ?P w) (\<lambda>_. ?P) ?P"
    unfolding resolveBackupDir_def by (auto intro: hoare_raise hoare_ret)
  show ?thesis
    unfolding reads_def selectRollback_def sel option.case
    apply (rule hoare_if, rule hoare_raise, assumption)
    apply (rule hoare_bind [OF resolve], rule hoare_conj_pure)
    apply (simp only:)
    apply (rule hoare_bind [OF read], rule hoare_if)
     apply (auto intro: hoare_raise hoare_ret)
    done
qed

text \<open>How far a rollback to the backup \<open>op\<close> got.\<close>

definition rollingBack ::
  "updaterConfig \<Rightarrow> string \<Rightarrow> (string \<rightharpoonup> string) \<Rightarrow> (string \<rightharpoonup> string) \<Rightarrow> updateStatus \<Rightarrow> bool" where
  "rollingBack cfg op F0 F s \<longleftrightarrow>
     backupHolds cfg op F0 F \<and> phase s \<in> {Applying, Verifying, Failed}
     \<and> applyStage s = Some RollingBack"

definition rolledBackTo ::
  "environment \<Rightarrow> updaterConfig \<Rightarrow> string \<Rightarrow> (string \<rightharpoonup> string) \<Rightarrow> (string \<rightharpoonup> string) \<Rightarrow> updateStatus \<Rightarrow> bool"
  where
  "rolledBackTo env cfg op F0 F s \<longleftrightarrow>
     backupHolds cfg op F0 F \<and> releaseSame cfg F0 F \<and> phase s \<in> {RolledBack, Failed}
     \<and> applyStage s = None \<and> restoredVersion env cfg F0 (currentVersion s)"

definition rollbackSafe ::
  "environment \<Rightarrow> updaterConfig \<Rightarrow> string \<Rightarrow> (string \<rightharpoonup> string) \<Rightarrow> (string \<rightharpoonup> string) \<Rightarrow> updateStatus \<Rightarrow> bool"
  where
  "rollbackSafe env cfg op F0 F s \<longleftrightarrow> rollingBack cfg op F0 F s \<or> rolledBackTo env cfg op F0 F s"

lemmas rb_defs = rollbackSafe_def rollingBack_def rolledBackTo_def

lemma backupHolds_stable:
  assumes "backupHolds cfg op F0 F" "pathsOk cfg op"
    "\<forall>q. q \<notin> {releaseEnv cfg, releaseCompose cfg} \<longrightarrow> F' q = F q"
  shows "backupHolds cfg op F0 F'"
  using assms(1) assms(3) pathsOkD(2) [OF assms(2) pathsOkD(3) [OF assms(2)]]
    pathsOkD(2) [OF assms(2) pathsOkD(4) [OF assms(2)]]
  by (simp add: backupHolds_def)

lemma step_rollbackBody:
  fixes env :: environment and cfg :: updaterConfig and op op2 :: string
    and F0 :: "string \<rightharpoonup> string"
  assumes P: "pathsOk cfg op" and op2: "op2 \<noteq> []"
    and ctx: "rbOperationId ctx = op" "restoredVersion env cfg F0 (rbVersion ctx)"
  defines "I \<equiv> mem op2 (rollbackSafe env cfg op F0)"
  shows "step_to I (mem op2 (rollingBack cfg op F0)) (rollbackBody env cfg ctx) I"
proof -
  note P' = pathsOkD [OF P]
  let ?R = "mem op2 (rollingBack cfg op F0)" and ?d = "backupDirOf cfg op"
  let ?RR = "\<lambda>F s A. (A = Some op2 \<and> rollingBack cfg op F0 F s)
     \<and> F (releaseEnv cfg) = F0 (releaseEnv cfg) \<and> F (releaseCompose cfg) = F0 (releaseCompose cfg)"
  have complete: "step_to ?R ?R (completeProjectionRollback env cfg ?d) ?RR"
  proof (rule step_completeRollback)
    show "releaseEnv cfg \<noteq> releaseCompose cfg" by (rule P'(1))
    show "backupEnvPath ?d \<notin> {releaseEnv cfg, releaseCompose cfg}"
      "backupComposePath ?d \<notin> {releaseEnv cfg, releaseCompose cfg}"
      using P'(2) [OF P'(3)] P'(2) [OF P'(4)] by auto
    fix F F' s A t
    assume a: "A = Some op2 \<and> rollingBack cfg op F0 F s"
    then show "F (backupEnvPath ?d) = F0 (releaseEnv cfg)
        \<and> F (backupComposePath ?d) = F0 (releaseCompose cfg)"
      "A = Some op2 \<and> rollingBack cfg op F0 F (s\<lparr>phase := Verifying, message := t\<rparr>)"
      "phase s \<noteq> Finalizing \<or> truthy A"
      by (auto simp: rb_defs backupHolds_def)
    assume eq: "\<forall>q. q \<notin> {releaseEnv cfg, releaseCompose cfg} \<longrightarrow> F' q = F q"
    have "backupHolds cfg op F0 F'"
      by (rule backupHolds_stable [OF _ P eq]) (use a in \<open>simp add: rollingBack_def\<close>)
    with a show "A = Some op2 \<and> rollingBack cfg op F0 F' s" by (simp add: rollingBack_def)
  qed
  have prep: "step_to I ?R (prepareProjectionRollback env cfg) ?R"
    by (rule step_quiet) (auto simp: I_def rollbackSafe_def)
  have complete': "step_to I ?R (completeProjectionRollback env cfg ?d) ?RR"
    by (rule step_conseq [OF complete]) (auto simp: I_def rollbackSafe_def)
  have store: "step_to I ?RR (writeState env cfg (\<lambda>s. s\<lparr>phase := RolledBack,
      currentVersion := rbVersion ctx, availableVersion := None, operationId := None,
      rollbackBackupOperationId := None, lastAppliedBackup := l, applyStage := None,
      finishedAt := t, message := m, error := None\<rparr>)) I" for l t m
    by (rule step_writeState) (use ctx in \<open>auto simp: I_def rb_defs releaseSame_def\<close>)
  have undo: "step_to I I (writeState env cfg (\<lambda>s. s\<lparr>operationId := Some op,
      rollbackBackupOperationId := None\<rparr>)) I"
    by (rule step_writeState) (use op2 in \<open>auto simp: I_def rb_defs truthy_def\<close>)
  have resolve: "hoare (holds ?R) (resolveBackupDir cfg op) (\<lambda>d w. d = ?d \<and> holds ?R w)
      (\<lambda>_. holds I) (holds I)"
    unfolding resolveBackupDir_def
    by (auto intro!: hoare_raise hoare_ret simp: I_def rollbackSafe_def elim: holds_mono)
  show ?thesis
    unfolding rollbackBody_def ctx(1)
    apply (rule hoare_bind [OF resolve], rule hoare_conj_pure)
    apply (simp only:)
    apply (rule hoare_tryCatch)
     apply (rule step_andThen [OF prep step_andThen [OF complete' hoare_nowIso [OF store]]])
    apply (rule step_andThen [OF undo hoare_raise], assumption)
    done
qed

lemma rollbackSafe_Failed:
  "rollbackSafe env cfg op F0 F s \<Longrightarrow>
   rollbackSafe env cfg op F0 F (s\<lparr>phase := Failed, finishedAt := t, message := m, error := e\<rparr>)"
  by (auto simp: rb_defs)

definition rollbackPost ::
  "environment \<Rightarrow> updaterConfig \<Rightarrow> string \<Rightarrow> updateStatus \<Rightarrow> (string \<rightharpoonup> string) \<Rightarrow> (string \<rightharpoonup> string)
   \<Rightarrow> updateStatus \<Rightarrow> bool" where
  "rollbackPost env cfg op st F0 F s \<longleftrightarrow>
     (s = st \<and> backupHolds cfg op F0 F) \<or> rollbackSafe env cfg op F0 F s"

lemma hoare_rollbackUpdate:
  fixes st :: updateStatus and F F0 :: "string \<rightharpoonup> string"
  assumes P: "pathsOk cfg op" and op2: "op2 \<noteq> []" "op2 = operationIdFactory env tr"
    and sel: "selectedBackup st = Some op" and b: "backupHolds cfg op F0 F"
  defines "I \<equiv> (\<lambda>F s (A :: string option). rollbackPost env cfg op st F0 F s)"
  shows "hoare (\<lambda>w. disk F (SavedState st) A w \<and> trace w = tr) (rollbackUpdate env cfg)
     (\<lambda>_. holds I) (\<lambda>_. holds I) (holds I)"
  unfolding rollbackUpdate_def startOperation_def
proof (rule hoare_bind)
  let ?C = "\<lambda>ctx. rbOperationId ctx = op \<and> rbPrevious ctx = lastAppliedBackup st
     \<and> restoredVersion env cfg F0 (rbVersion ctx)"
  have validate: "reads F st (Some op2) (noValidation st) (\<lambda>_. True)"
    unfolding reads_def noValidation_def by (auto intro: hoare_ret)
  have start: "rollingBack cfg op F0 F s1" if "begun Applying True op2 x st s1" for x s1
    using that b by (auto simp: begun_def rollingBack_def)
  have stop: "holds I w" if "beginStopped F st Applying True op2 (\<lambda>x. x = Some op) w" for w
    using that b start unfolding beginStopped_def I_def rollbackPost_def rollbackSafe_def
    by (blast intro: holdsI)
  show "hoare (\<lambda>w. disk F (SavedState st) A w \<and> trace w = tr)
     (beginOperation env cfg Applying noValidation True (selectRollback env cfg))
     (\<lambda>(i, s1, ctx) w. i = op2 \<and> (?C ctx \<and> begun Applying True op2 (Some op) st s1)
        \<and> disk F (SavedState s1) (Some op2) w)
     (\<lambda>_. holds I) (holds I)"
    by (rule hoare_conseq [OF hoare_begin [where S = "\<lambda>x. x = Some op"
          and C = "\<lambda>_. ?C" and validate = noValidation and V = True
          and select = "selectRollback env cfg", OF op2 validate reads_selectRollback [OF sel b]]])
       (auto intro: stop)
  fix x :: "string \<times> updateStatus \<times> rollbackContext"
  obtain i s1 ctx where x: "x = (i, s1, ctx)" by (cases x) auto
  have run: "hoare (disk F (SavedState s1) (Some op2)) (runBackground env cfg (rollbackBody env cfg ctx))
      (\<lambda>_. holds I) (\<lambda>_. holds I) (holds I)"
    if "?C ctx \<and> begun Applying True op2 (Some op) st s1"
  proof (rule hoare_conseq [OF step_background [where J = "rollbackSafe env cfg op F0"]])
    show "op2 \<noteq> []" by (rule op2(1))
    show "step_to (mem op2 (rollbackSafe env cfg op F0)) (mem op2 (rollingBack cfg op F0))
        (rollbackBody env cfg ctx) (mem op2 (rollbackSafe env cfg op F0))"
      by (rule step_rollbackBody [OF P op2(1)]) (use that in auto)
    fix w
    assume "disk F (SavedState s1) (Some op2) w"
    then show "holds (mem op2 (rollingBack cfg op F0)) w"
      using start that by (blast intro: holdsI)
  qed (auto simp: I_def rollbackPost_def rollbackSafe_Failed elim: holds_mono)
  have "hoare (\<lambda>w. i = op2 \<and> (?C ctx \<and> begun Applying True op2 (Some op) st s1)
        \<and> disk F (SavedState s1) (Some op2) w)
      (andThen (runBackground env cfg (rollbackBody env cfg ctx)) (ret (i, s1)))
      (\<lambda>_. holds I) (\<lambda>_. holds I) (holds I)"
    by (intro hoare_conj_pure) (auto intro!: hoare_andThen [OF run] hoare_ret)
  then show "hoare ((\<lambda>(i, s1, ctx) w. i = op2 \<and> (?C ctx \<and> begun Applying True op2 (Some op) st s1)
        \<and> disk F (SavedState s1) (Some op2) w) x)
     ((\<lambda>(opId, status, ctx). andThen (runBackground env cfg (rollbackBody env cfg ctx))
         (ret (opId, status))) x)
     (\<lambda>_. holds I) (\<lambda>_. holds I) (holds I)"
    by (simp add: x)
qed


subsection \<open>A concrete crash and a concrete rollback\<close>

text \<open>The process dies at its first effect; the one that replaces it finds nothing to recover.\<close>

lemma demo_killed:
  "applyUpdate (demoEnvironment (\<lambda>t. True)) demoConfig demoWorld
     = (Killed, demoWorld\<lparr>activeOperationId := Some ''op-1''\<rparr>)"
  by (simp add: applyUpdate_def startOperation_def beginOperation_def bind_def andThen_def
      tryCatch_def getWorld_def putWorld_def getStatus_def readUpdateState_def ioEffect_def
      effect_def demo_world truthy_def Let_def demoEnvironment_def)

lemma demo_recovers:
  "\<exists>w2. recoverInterruptedOperation (demoEnvironment (\<lambda>t. False)) demoConfig
     (restartProcess (snd (applyUpdate (demoEnvironment (\<lambda>t. True)) demoConfig demoWorld)))
     = (Done (), w2)"
  unfolding demo_killed
  by (simp add: recoverInterruptedOperation_def bind_def getStatus_def ret_def
      readUpdateState_def ioEffect_def effect_def getWorld_def restartProcess_def demoEnvironment_def
      demoWorld_def demoStatus_def createDefaultUpdateStatus_def)


text \<open>An update that failed after its backup was complete, with the new files in place.\<close>

definition failedStatus :: updateStatus where
  "failedStatus = demoStatus\<lparr>phase := Failed, operationId := Some ''op-1'',
     applyStage := Some FilesSwitched\<rparr>"

definition failedWorld :: world where
  "failedWorld = demoWorld\<lparr>stateFile := SavedState failedStatus,
     files := [''/deploy/env'' \<mapsto> ''new env'', ''/deploy/compose'' \<mapsto> ''new compose'',
       ''/state/backups/op-1/.env.release'' \<mapsto> ''old env'',
       ''/state/backups/op-1/docker-compose.release.yml'' \<mapsto> ''old compose'']\<rparr>"

lemma demo_backup: "backupHolds demoConfig ''op-1'' (files demoWorld) (files failedWorld)"
  by code_simp


end
