(* ===== verification/Update_Properties.thy ===== *)
theory Update_Properties
  imports Crash_Safety
begin

text \<open>
  Further properties of the update service: operations exclude each other, every operation
  terminates, a download stages only what its manifest pins, and no operation installs an older
  version.
\<close>

subsection \<open>Exclusion\<close>

lemma hoare_begin_excluded:
  assumes op: "op \<noteq> []" "op = operationIdFactory env tr"
    and busy: "truthy A \<or> isMutatingPhase (phase st) \<or> (\<not> allow \<and> recoveryLocked st)"
  shows "hoare (\<lambda>w. disk F (SavedState st) A w \<and> trace w = tr)
     (beginOperation env cfg ph validate allow select)
     (\<lambda>_ _. False) (\<lambda>_ w. \<exists>B. disk F (SavedState st) B w) (\<lambda>w. \<exists>B. disk F (SavedState st) B w)"
    (is "hoare ?init _ _ ?R ?K")
proof -
  let ?P = "disk F (SavedState st) (Some op)"
  have fin: "phase st \<noteq> Finalizing \<or> truthy (Some op)" using op by (simp add: truthy_def split: list.split)
  have get: "hoare ?P (getStatus env cfg) (\<lambda>r w. r = st \<and> ?P w) ?R ?K"
    by (rule hoare_conseq [OF hoare_getStatus [OF fin]]) auto
  have clear: "hoare ?K (andThen (putWorld (\<lambda>w. w\<lparr>activeOperationId := None\<rparr>)) (raise e))
      (\<lambda>_ _. False) ?R ?K" for e
    by (rule hoare_andThen [OF hoare_putWorld hoare_raise]) (auto simp: disk_def)
  have body: "hoare ?P (bind (getStatus env cfg) f) (\<lambda>_ _. False) ?R ?K"
    if "hoare ?P (f st) (\<lambda>_ _. False) ?R ?K" for f :: "updateStatus \<Rightarrow> (string \<times> updateStatus \<times> 'a) op"
    by (rule hoare_bind [OF get]) (rule hoare_conj_pure, use that in simp)
  show ?thesis
    unfolding beginOperation_def Let_def
  proof (rule hoare_bind [where Q = "\<lambda>a w. a = A \<and> ?init w"], goal_cases)
    case 1
    show ?case by (rule hoare_getWorld) (auto simp: disk_def)
  next
    case (2 a)
    show ?case
    proof (rule hoare_conj_pure, rule hoare_if, goal_cases)
      case 1
      show ?case by (rule hoare_raise) auto
    next
      case 2
      then have rejected: "isMutatingPhase (phase st) \<or> (\<not> allow \<and> recoveryLocked st)"
        using busy by simp
      show ?case
        by (rule hoare_bind [where Q = "\<lambda>t w. t = tr \<and> disk F (SavedState st) A w"],
            rule hoare_getWorld, simp, rule hoare_conj_pure,
            rule hoare_andThen [where Q = ?P], rule hoare_putWorld, use op in \<open>simp add: disk_def\<close>,
            rule hoare_tryCatch [OF body clear])
           (use rejected in \<open>auto intro: hoare_raise\<close>)
    qed
  qed
qed

text \<open>
  C13. Operations exclude each other. While an operation is active in memory or the persisted
  status is in a mutating phase, no operation starts; while a rollback recovery is owed, only a
  rollback starts. A refused operation changes neither a file nor the status, and its body never
  runs.
\<close>

theorem startOperation_exclusive:
  assumes "stateFile w = SavedState st" "operationIdFactory env (trace w) \<noteq> []"
    "truthy (activeOperationId w) \<or> isMutatingPhase (phase st) \<or> (\<not> allow \<and> recoveryLocked st)"
    "startOperation env cfg ph body validate allow select w = (r, w')"
  shows "(\<forall>x. r \<noteq> Done x) \<and> files w' = files w \<and> stateFile w' = stateFile w"
proof -
  have "hoare (\<lambda>v. disk (files w) (SavedState st) (activeOperationId w) v \<and> trace v = trace w)
     (startOperation env cfg ph body validate allow select) (\<lambda>_ _. False)
     (\<lambda>_ w'. \<exists>B. disk (files w) (SavedState st) B w') (\<lambda>w'. \<exists>B. disk (files w) (SavedState st) B w')"
    unfolding startOperation_def
    by (rule hoare_bind [OF hoare_begin_excluded [OF assms(2) refl assms(3)]]) (rule hoare_False)
  from hoareD [OF this _ assms(4)] assms(1) show ?thesis
    by (cases r) (auto simp: disk_def)
qed

text \<open>A world whose status says that an update is being applied.\<close>

definition applyingWorld :: world where
  "applyingWorld = demoWorld\<lparr>stateFile := SavedState (demoStatus\<lparr>phase := Applying\<rparr>)\<rparr>"

lemma startOperation_exclusive_witness:
  "\<exists>r w'. downloadUpdate (demoEnvironment (\<lambda>t. False)) demoConfig applyingWorld = (r, w')
     \<and> (\<forall>x. r \<noteq> Done x) \<and> files w' = files applyingWorld \<and> stateFile w' = stateFile applyingWorld"
proof -
  obtain r w' where r: "downloadUpdate (demoEnvironment (\<lambda>t. False)) demoConfig applyingWorld = (r, w')"
    by fastforce
  have "stateFile applyingWorld = SavedState (demoStatus\<lparr>phase := Applying\<rparr>)"
    by (simp add: applyingWorld_def)
  from startOperation_exclusive [OF this _ _ r [unfolded downloadUpdate_def]] r
  show ?thesis by (simp add: demo_world)
qed

subsection \<open>No downgrade\<close>

text \<open>
  No downgrade. However an update ends, the version the status reports is the one it reported
  before, or a strictly newer one in the order of semantic versions.
\<close>

theorem applyUpdate_no_downgrade:
  assumes "stateFile w = SavedState st" "operationIdFactory env (trace w) \<noteq> []"
    "pathsOk cfg (operationIdFactory env (trace w))"
  shows "\<exists>s'. stateFile (snd (applyUpdate env cfg w)) = SavedState s'
     \<and> (currentVersion s' = currentVersion st \<or> semver.newer (currentVersion s') (currentVersion st))"
proof -
  have "holds (\<lambda>F s A. applyPost env cfg (operationIdFactory env (trace w)) st (files w) F s)
      (snd (applyUpdate env cfg w))"
    by (rule hoare_final [OF hoare_applyUpdate [where tr = "trace w" and A = "activeOperationId w"]])
       (use assms in \<open>auto simp: disk_def\<close>)
  then show ?thesis
    by (auto simp: holds_def disk_def applyPost_def applySafe_def at_defs sameVersion_def
        admitted_def manifestAdmissible_def)
qed

lemma applyUpdate_no_downgrade_witness:
  "\<exists>s'. stateFile (snd (applyUpdate (demoEnvironment (\<lambda>t. False)) demoConfig demoWorld)) = SavedState s'
     \<and> (currentVersion s' = currentVersion demoStatus
        \<or> semver.newer (currentVersion s') (currentVersion demoStatus))"
  by (rule applyUpdate_no_downgrade [OF demo_world(1)]) (simp_all add: demo_world demo_paths)

subsection \<open>Termination\<close>

text \<open>An operation that never runs out of fuel and never turns the clock back.\<close>

definition steady :: "'a op \<Rightarrow> bool" where
  "steady m \<longleftrightarrow> (\<forall>w. fst (m w) \<noteq> Diverged \<and> clock w \<le> clock (snd (m w)))"

lemma steadyD: "steady m \<Longrightarrow> m w = (r, w') \<Longrightarrow> r \<noteq> Diverged \<and> clock w \<le> clock w'"
  by (metis fst_conv snd_conv steady_def)

lemma steadyI: "(\<And>w r w'. m w = (r, w') \<Longrightarrow> r \<noteq> Diverged \<and> clock w \<le> clock w') \<Longrightarrow> steady m"
  unfolding steady_def by (metis prod.collapse)

lemma steady_basic [intro!, simp]:
  "steady (ret x)" "steady (raise e)" "steady (getWorld f)" "steady (liftE k v)"
  by (auto simp: steady_def ret_def raise_def getWorld_def liftE_def split: sum.splits)

lemma steady_putWorld: "(\<And>w. clock w \<le> clock (f w)) \<Longrightarrow> steady (putWorld f)"
  by (simp add: steady_def putWorld_def)

lemma steady_bind [intro!]:
  assumes "steady m" "\<And>x. steady (f x)"
  shows "steady (bind m f)"
proof (rule steadyI)
  fix w r w'
  assume b: "bind m f w = (r, w')"
  obtain r1 w1 where m: "m w = (r1, w1)" by (cases "m w")
  from steadyD [OF assms(1) m] b m show "r \<noteq> Diverged \<and> clock w \<le> clock w'"
    by (cases r1) (auto simp: bind_def dest!: steadyD [OF assms(2)])
qed

lemma steady_andThen [intro!]: "steady m \<Longrightarrow> steady n \<Longrightarrow> steady (andThen m n)"
  unfolding andThen_def by blast

lemma steady_tryCatch [intro!]:
  assumes "steady m" "\<And>e. steady (h e)"
  shows "steady (tryCatch m h)"
proof (rule steadyI)
  fix w r w'
  assume b: "tryCatch m h w = (r, w')"
  obtain r1 w1 where m: "m w = (r1, w1)" by (cases "m w")
  from steadyD [OF assms(1) m] b m show "r \<noteq> Diverged \<and> clock w \<le> clock w'"
    by (cases r1) (auto simp: tryCatch_def dest!: steadyD [OF assms(2)])
qed

lemma steady_tryFinally [intro!]:
  assumes "steady m" "steady f"
  shows "steady (tryFinally m f)"
proof (rule steadyI)
  fix w r w'
  assume b: "tryFinally m f w = (r, w')"
  obtain r1 w1 where m: "m w = (r1, w1)" by (cases "m w")
  have fin: "steady (andThen f n)" if "steady n" for n :: "'x op" using assms(2) that by blast
  from steadyD [OF assms(1) m] b m show "r \<noteq> Diverged \<and> clock w \<le> clock w'"
    by (cases r1) (auto simp: tryFinally_def dest!: steadyD [OF fin, rotated])
qed

lemma steady_if [intro!]: "(b \<Longrightarrow> steady m) \<Longrightarrow> (\<not> b \<Longrightarrow> steady n) \<Longrightarrow> steady (if b then m else n)"
  by simp

lemma steady_case_option [intro!]:
  "steady m \<Longrightarrow> (\<And>x. steady (f x)) \<Longrightarrow> steady (case v of None \<Rightarrow> m | Some x \<Rightarrow> f x)"
  by (cases v) simp_all

lemma steady_forEach [intro!]: "(\<And>x. steady (f x)) \<Longrightarrow> steady (forEach f xs)"
  by (induction xs) auto

lemma steady_effect [intro!]:
  assumes "steady act"
  shows "steady (effect env ev act)"
proof (rule steadyI)
  fix w r w'
  assume "effect env ev act w = (r, w')"
  then show "r \<noteq> Diverged \<and> clock w \<le> clock w'"
    using steadyD [OF assms] by (fastforce simp: effect_def split: if_splits)
qed

lemma steady_ioEffect [intro!]: "steady act \<Longrightarrow> steady (ioEffect env ev act)"
  unfolding ioEffect_def by blast

lemma clock_tear: "clock (tear env tr p w) = clock w"
  by (simp add: tear_def setFile_def split: option.split)

lemma steady_writing [intro!]: "steady (writing env ev p content)"
proof (rule steadyI)
  fix w r w'
  assume a: "writing env ev p content w = (r, w')"
  let ?act = "\<lambda>w'. (case content w' of Inl e \<Rightarrow> (Raised e, w') | Inr c \<Rightarrow> (Done (), setFile p c w'))"
  have act: "steady ?act" by (auto simp: steady_def setFile_def split: sum.splits)
  obtain r1 w1 where io: "ioEffect env ev ?act w = (r1, w1)" by (cases "ioEffect env ev ?act w")
  from steadyD [OF steady_ioEffect [OF act] io] a io show "r \<noteq> Diverged \<and> clock w \<le> clock w'"
    by (cases r1) (auto simp: writing_def Let_def clock_tear split: sum.splits)
qed

lemma steady_files [intro!, simp]:
  "steady (readFile env p)" "steady (writeFile env p c)" "steady (copyFile env p q)"
  "steady (renameFile env p q)" "steady (mkdirP env p)" "steady (accessFile env p)"
  "steady (syncPath env p)" "steady (syncFile env p)" "steady (syncReleaseFiles env ps ds)"
  "steady (ensureParent env p)" "steady (readJsonFile env p)" "steady (writeJsonFile env p v)"
  "steady (atomicWrite env p q c)" "steady (sha256File env p)"
  unfolding readFile_def writeFile_def copyFile_def renameFile_def mkdirP_def accessFile_def
    syncPath_def syncFile_def syncReleaseFiles_def ensureParent_def readJsonFile_def
    writeJsonFile_def atomicWrite_def sha256File_def
  by (auto intro!: steady_putWorld)

lemma steady_commands [intro!, simp]:
  "steady (runCommand env cmd as)" "steady (runDocker env as)" "steady (runDockerSignal env as)"
  "steady (fetchUrl env url)" "steady (sleepMs env n)" "steady (nowIso env)"
  unfolding runCommand_def runDocker_def runDockerSignal_def fetchUrl_def sleepMs_def nowIso_def
  by (auto intro!: steady_putWorld)

lemma steady_state [intro!, simp]:
  "steady (readUpdateState env s)" "steady (writeUpdateState env s)" "steady (getStatus env cfg)"
  "steady (writeState env cfg upd)"
proof -
  have "steady (case sf of NoState \<Rightarrow> ret s | CorruptState m \<Rightarrow> raise (PlainError m)
      | SavedState s \<Rightarrow> ret s)" for sf and s :: updateStatus
    by (cases sf) simp_all
  then show r: "steady (readUpdateState env s)" for s unfolding readUpdateState_def by blast
  show w: "steady (writeUpdateState env s)" for s
    unfolding writeUpdateState_def by (auto intro!: steady_putWorld)
  have "steady (finalizerStopped env n)" for n unfolding finalizerStopped_def by auto
  then show g: "steady (getStatus env cfg)"
    unfolding getStatus_def reconcileFinalizing_def Let_def using r w by auto
  show "steady (writeState env cfg upd)" unfolding writeState_def using g w by blast
qed

lemma steady_services [intro!, simp]:
  "steady (stopEach env names f)" "steady (stopRollbackServices env)" "steady (runGateCommand env a)"
  "steady (disableProjectionRollbackGate env cfg h)" "steady (checkRollbackLockReady env cfg)"
  "steady (enableProjectionRollbackGate env cfg)"
proof -
  show s: "steady (stopEach env names f)" for names f by (induction names arbitrary: f) auto
  show "steady (stopRollbackServices env)"
    unfolding stopRollbackServices_def using s
    by (intro steady_tryCatch steady_if steady_bind steady_case_option) auto
  show g: "steady (runGateCommand env a)" for a unfolding runGateCommand_def by auto
  show "steady (disableProjectionRollbackGate env cfg h)" "steady (checkRollbackLockReady env cfg)"
    "steady (enableProjectionRollbackGate env cfg)"
    unfolding disableProjectionRollbackGate_def checkRollbackLockReady_def
      enableProjectionRollbackGate_def using g by auto
qed

lemma steady_prepareProjectionRollback [intro!, simp]: "steady (prepareProjectionRollback env cfg)"
proof -
  have "steady (waitLockLoop env cfg n e)" for n e by (induction n arbitrary: e) auto
  then show ?thesis
    unfolding prepareProjectionRollback_def waitForProjectionRollbackLock_def
      startProjectionRollbackLockHolder_def assertProjectionRollbackSafe_def
    by auto
qed

lemma steady_watch [intro!, simp]: "steady (probe env cfg)" "steady (runWatchdog env cfg)"
proof -
  show p: "steady (probe env cfg)" unfolding probe_def Let_def by auto
  have "steady (watchdogTick env cfg)" unfolding watchdogTick_def using p by (auto intro!: steady_putWorld)
  then have "steady (repeatOp n (watchdogTick env cfg))" for n by (induction n) auto
  then show "steady (runWatchdog env cfg)" unfolding runWatchdog_def by auto
qed

lemma steady_watched [intro!]: "steady m \<Longrightarrow> steady (watched env cfg m)"
  unfolding watched_def by auto

subsubsection \<open>The polling loop\<close>

lemma steady_healthPass:
  assumes "steady (optCheck c)"
  shows "steady (healthPass env cfg c)"
  unfolding healthPass_def fetchSignal_def using assms by auto

text \<open>Each round of the loop ends after its start by the interval at least.\<close>

lemma pollLoop_returns:
  assumes c: "steady (optCheck c)" and i: "0 < healthCheckIntervalMs cfg"
    and fuel: "deadline + 1 - clock w < fuel"
    and run: "pollLoop env cfg c deadline fuel e w = (r, w')"
  shows "r \<noteq> Diverged \<and> clock w \<le> clock w'"
  using fuel run
proof (induction fuel arbitrary: e w)
  case (Suc fuel)
  let ?pass = "tryCatch (andThen (healthPass env cfg c) (ret None))
     (\<lambda>e. andThen (optCheck c) (ret (Some e)))"
  have pass: "steady ?pass" using steady_healthPass [OF c] c by auto
  obtain r1 w1 where p: "?pass w = (r1, w1)" by (cases "?pass w")
  note m = steadyD [OF pass p]
  let ?w2 = "w1\<lparr>trace := EvSleep (healthCheckIntervalMs cfg) # trace w1,
    clock := clock w1 + elapsed env (trace w1) + healthCheckIntervalMs cfg\<rparr>"
  have sleep: "sleepMs env (healthCheckIntervalMs cfg) w1
      = (if dies env (trace w1) then (Killed, w1) else (Done (), ?w2))"
    by (simp add: sleepMs_def effect_def putWorld_def)
  have next_round: "r \<noteq> Diverged \<and> clock w \<le> clock w'"
    if "\<not> deadline < clock w1 + healthCheckIntervalMs cfg"
      "pollLoop env cfg c deadline fuel e' ?w2 = (r, w')" for e'
  proof -
    have "deadline + 1 - clock ?w2 < fuel"
      using Suc.prems(1) conjunct2 [OF m] i that(1) by simp
    from Suc.IH [OF this that(2)] show ?thesis using m by simp
  qed
  show ?case
  proof (cases "clock w \<le> deadline")
    case True
    with Suc.prems(2) p m show ?thesis
      by (auto simp: bind_def getWorld_def Let_def raise_def ret_def andThen_def sleep
          split: outcome.splits option.splits if_splits dest!: next_round)
  next
    case False
    with Suc.prems(2) show ?thesis
      by (auto simp: bind_def getWorld_def Let_def raise_def split: option.splits)
  qed
qed simp

lemma steady_pollHealthChecks:
  assumes "steady (optCheck c)" "0 < healthCheckIntervalMs cfg"
  shows "steady (pollHealthChecks env cfg c)"
proof (rule steadyI)
  fix w r w'
  assume "pollHealthChecks env cfg c w = (r, w')"
  then have "pollLoop env cfg c (clock w + healthCheckTimeoutMs cfg) (pollFuel cfg) None w = (r, w')"
    by (simp only: pollHealthChecks_def bind_def getWorld_def prod.case outcome.case)
  then show "r \<noteq> Diverged \<and> clock w \<le> clock w'"
    by (rule pollLoop_returns [OF assms, rotated]) (simp add: pollFuel_def)
qed

subsubsection \<open>The operations\<close>

lemma steady_pollHealthChecks_cases [intro]:
  assumes "0 < healthCheckIntervalMs cfg"
  shows "steady (pollHealthChecks env cfg None)" "steady (pollHealthChecks env cfg (Some (probe env cfg)))"
  by (rule steady_pollHealthChecks, simp add: optCheck_def, rule assms)+

lemma steady_completeProjectionRollback [intro]:
  assumes "0 < healthCheckIntervalMs cfg"
  shows "steady (completeProjectionRollback env cfg d)"
proof -
  have "steady (restoreBackup env cfg d)" unfolding restoreBackup_def by auto
  then have "steady (completeRollbackSteps env cfg d)"
    unfolding completeRollbackSteps_def Let_def using steady_pollHealthChecks_cases(2) [OF assms]
    by (intro steady_andThen steady_watched steady_bind steady_case_option) auto
  then show ?thesis
    unfolding completeProjectionRollback_def
    by (intro steady_andThen steady_tryCatch steady_putWorld steady_tryFinally) auto
qed

lemma steady_background [intro]: "steady body \<Longrightarrow> steady (runBackground env cfg body)"
  unfolding runBackground_def handleOperationFailure_def
  by (intro steady_tryFinally steady_tryCatch steady_putWorld steady_bind) auto

lemma steady_startOperation [intro]:
  assumes "\<And>i c. steady (body i c)" "\<And>s. steady (validate s)" "\<And>s. steady (select s)"
  shows "steady (startOperation env cfg ph body validate allow select)"
proof -
  have "steady (beginOperation env cfg ph validate allow select)"
    unfolding beginOperation_def Let_def case_prod_beta
    by (intro steady_bind steady_if steady_andThen steady_tryCatch steady_putWorld assms) auto
  then show ?thesis
    unfolding startOperation_def case_prod_beta
    by (intro steady_bind steady_andThen steady_background assms) auto
qed

lemma steady_selections [intro!, simp]:
  "steady (noValidation s)" "steady (noSelection s)" "steady (requireReady s)"
  "steady (resolveBackupDir cfg i)" "steady (selectRollback env cfg s)"
proof -
  show basic: "steady (noValidation s)" "steady (noSelection s)" "steady (requireReady s)"
    "steady (resolveBackupDir cfg i)" for s i
    unfolding noValidation_def noSelection_def requireReady_def resolveBackupDir_def by auto
  have "steady (assertRollbackBackupComplete env d)" for d
    unfolding assertRollbackBackupComplete_def by auto
  then show "steady (selectRollback env cfg s)"
    unfolding selectRollback_def using basic
    by (intro steady_case_option steady_if steady_bind steady_tryCatch steady_andThen) auto
qed

lemma steady_createBackup [intro]: "steady (createBackup env cfg m d)"
proof -
  have "steady (createDatabaseBackup env cfg d)"
    unfolding createDatabaseBackup_def Let_def
    by (intro steady_bind steady_andThen steady_putWorld) (auto simp: setFile_def)
  then show ?thesis unfolding createBackup_def by (intro steady_andThen) auto
qed

lemma steady_applyBody [intro]:
  assumes "0 < healthCheckIntervalMs cfg"
  shows "steady (applyBody env cfg i)"
proof -
  have admit: "steady (admitStaged env cfg)" unfolding admitStaged_def Let_def by auto
  have install: "steady (installRelease env cfg m)" for m
    unfolding installRelease_def using assms by (intro steady_andThen) auto
  have rollback: "steady (automaticRollback env cfg m d e)" for m d e
    unfolding automaticRollback_def using assms
    by (intro steady_andThen steady_tryCatch steady_bind) auto
  have "steady (scheduleFinalizer env cfg m i)" for m unfolding scheduleFinalizer_def by auto
  with admit install rollback show ?thesis
    unfolding applyBody_def Let_def
    by (intro steady_bind steady_andThen steady_tryCatch steady_if) auto
qed

lemma steady_fetchReleaseManifest [intro!, simp]: "steady (fetchReleaseManifest env cfg)"
  unfolding fetchReleaseManifest_def by auto

lemma steady_checkBody [intro!, simp]: "steady (checkBody env cfg)"
proof -
  let ?w = "\<lambda>now. writeState env cfg (\<lambda>s. s\<lparr>phase := Idle, availableVersion := None,
     statusNotesUrl := None, migration := None, operationId := None,
     finishedAt := Some now, message := Some ''Current version is up to date''\<rparr>)"
  have "steady (case e of
          ManifestError me \<Rightarrow> if meCode me = ''NO_UPDATE_AVAILABLE''
            then bind (nowIso env) ?w else raise e
        | _ \<Rightarrow> raise e)" for e
    by (cases e) auto
  then show ?thesis unfolding checkBody_def by (intro steady_tryCatch steady_bind) auto
qed

lemma steady_downloadBody [intro!, simp]: "steady (downloadBody env cfg)"
  unfolding downloadBody_def downloadText_def Let_def
  by (intro steady_bind steady_andThen steady_if steady_forEach steady_tryCatch) auto

text \<open>
  C15. Termination. With a positive polling interval, which every parsed configuration has, no
  operation of the updater runs out of the fuel its polling loop is given, that is, one round for
  every millisecond of the health-check timeout and two more; and the clock never runs backwards.
\<close>

theorem updater_terminates:
  assumes "0 < healthCheckIntervalMs cfg"
  shows "fst (checkForUpdates env cfg w) \<noteq> Diverged \<and> fst (downloadUpdate env cfg w) \<noteq> Diverged
     \<and> fst (applyUpdate env cfg w) \<noteq> Diverged \<and> fst (rollbackUpdate env cfg w) \<noteq> Diverged
     \<and> fst (restartServices env cfg w) \<noteq> Diverged
     \<and> fst (recoverInterruptedOperation env cfg w) \<noteq> Diverged"
proof -
  have ends: "fst (m w) \<noteq> Diverged" if "steady m" for m :: "'x op" using that by (simp add: steady_def)
  have "steady (rollbackBody env cfg ctx)" for ctx
    unfolding rollbackBody_def using assms
    by (intro steady_bind steady_tryCatch steady_andThen) auto
  then have rollback: "steady (rollbackUpdate env cfg)"
    unfolding rollbackUpdate_def by auto
  have apply': "steady (applyUpdate env cfg)" unfolding applyUpdate_def using assms by auto
  have restart: "steady (restartServices env cfg)"
    unfolding restartServices_def restartBody_def by auto
  have "steady (filesDiffer env s ps)" for s ps
    by (induction env s ps rule: filesDiffer.induct) auto
  then have "steady (needsRollback env cfg s)" for s
    unfolding needsRollback_def releaseFilesDiverged_def Let_def by auto
  then have recover: "steady (recoverInterruptedOperation env cfg)"
    unfolding recoverInterruptedOperation_def Let_def by auto
  have check: "steady (checkForUpdates env cfg)" "steady (downloadUpdate env cfg)"
    unfolding checkForUpdates_def downloadUpdate_def by auto
  show ?thesis
    using ends [OF rollback] ends [OF apply'] ends [OF restart] ends [OF recover] ends [OF check(1)]
      ends [OF check(2)] by simp
qed

lemma updater_terminates_witness:
  "(let env = demoEnvironment (\<lambda>t. False); w = demoWorld in
     fst (checkForUpdates env demoConfig w) \<noteq> Diverged \<and> fst (downloadUpdate env demoConfig w) \<noteq> Diverged
     \<and> fst (applyUpdate env demoConfig w) \<noteq> Diverged \<and> fst (rollbackUpdate env demoConfig w) \<noteq> Diverged
     \<and> fst (restartServices env demoConfig w) \<noteq> Diverged
     \<and> fst (recoverInterruptedOperation env demoConfig w) \<noteq> Diverged)"
  unfolding Let_def
  by (rule updater_terminates) (simp add: demoConfig_def)

subsection \<open>Downloads\<close>

text \<open>No two of the files a download reads or writes share a path.\<close>

definition downloadPathsOk :: "updaterConfig \<Rightarrow> bool" where
  "downloadPathsOk cfg \<longleftrightarrow>
     distinct [releaseEnv cfg, releaseCompose cfg, stagedManifestPath cfg, stagedComposePath cfg,
               nextComposePath cfg, stagedReleaseEnvPath cfg, nextReleaseEnvPath cfg]"

text \<open>What a completed download leaves: staged files that the manifest \<open>m\<close> pins.\<close>

definition stagedRelease ::
  "environment \<Rightarrow> updaterConfig \<Rightarrow> updateStatus \<Rightarrow> releaseManifest \<Rightarrow> (string \<rightharpoonup> string) \<Rightarrow> bool" where
  "stagedRelease env cfg st m F \<longleftrightarrow>
     manifestAdmissible (runtime env)
       \<lparr>optCurrentVersion = currentVersion st, optChannel = cfgChannel cfg,
        optUpdaterVersion = currentUpdaterVersion cfg, optAllowedHosts = allowedHosts cfg\<rparr> m
     \<and> F (stagedManifestPath cfg) = Some (jsonStringify env (manifestJson m) @ [CHR 0x0A])
     \<and> (\<exists>c. F (stagedComposePath cfg) = Some c
            \<and> verifySha256 (runtime env) c (composeSha256 (compose m)))
     \<and> (\<exists>base. F (stagedReleaseEnvPath cfg)
            = Some (mergeEnvContent base ((''DRUVIA_VERSION'', version m) # imageVariables m)))"

lemma step_writeFile:
  assumes "\<And>F s A. \<phi> F s A \<Longrightarrow> \<psi> (F(p \<mapsto> c)) s A"
    "\<And>F s A F'. \<phi> F s A \<Longrightarrow> \<forall>q. q \<noteq> p \<longrightarrow> F' q = F q \<Longrightarrow> I F' s A"
  shows "step_to I \<phi> (writeFile env p c) \<psi>"
proof (rule step_disk, rule hoare_conseq [OF hoare_writeFile])
  fix F s A w
  assume f: "\<phi> F s A"
  show "disk (F(p \<mapsto> c)) (SavedState s) A w \<Longrightarrow> holds \<psi> w" using assms(1) [OF f] by (blast intro: holdsI)
  show "diskExcept {p} F (SavedState s) A w \<Longrightarrow> holds I w"
    by (erule diskExcept_holds) (use assms(2) [OF f] in auto)
  then show "diskExcept {p} F (SavedState s) A w \<Longrightarrow> holds I w" .
qed auto

text \<open>A download works on files other than the release; \<open>K\<close> is what has been staged so far.\<close>

definition downloading ::
  "updaterConfig \<Rightarrow> updateStatus \<Rightarrow> (string \<rightharpoonup> string) \<Rightarrow> (string \<rightharpoonup> string) \<Rightarrow> updateStatus \<Rightarrow> bool" where
  "downloading cfg st F0 F s \<longleftrightarrow>
     phase s \<in> {Downloading, Failed} \<and> currentVersion s = currentVersion st \<and> releaseSame cfg F0 F"

lemma step_stage:
  assumes "downloadPathsOk cfg"
    and p: "p \<in> {stagedManifestPath cfg, nextComposePath cfg, nextReleaseEnvPath cfg}"
    and K: "\<And>F F'. K F \<Longrightarrow> \<forall>q. q \<noteq> p \<longrightarrow> F' q = F q \<Longrightarrow> K F'"
  shows "step_to (mem op (downloading cfg st F0)) (mem op (\<lambda>F s. downloading cfg st F0 F s \<and> K F))
     (writeFile env p c) (mem op (\<lambda>F s. downloading cfg st F0 F s \<and> K F \<and> F p = Some c))"
proof (rule step_writeFile)
  have ne: "p \<noteq> releaseEnv cfg" "p \<noteq> releaseCompose cfg"
    using assms(1) p by (auto simp: downloadPathsOk_def)
  fix F s A
  assume a: "A = Some op \<and> downloading cfg st F0 F s \<and> K F"
  show "A = Some op \<and> downloading cfg st F0 (F(p \<mapsto> c)) s \<and> K (F(p \<mapsto> c)) \<and> (F(p \<mapsto> c)) p = Some c"
    using a ne K [of F "F(p \<mapsto> c)"] by (auto simp: downloading_def releaseSame_def)
  fix F'
  assume "\<forall>q. q \<noteq> p \<longrightarrow> F' q = F q"
  then show "A = Some op \<and> downloading cfg st F0 F' s"
    using a ne by (auto simp: downloading_def releaseSame_def)
qed

lemma step_atomicStage:
  assumes P: "downloadPathsOk cfg"
    and p: "(p, t) \<in> {(stagedComposePath cfg, nextComposePath cfg),
                      (stagedReleaseEnvPath cfg, nextReleaseEnvPath cfg)}"
    and K: "\<And>F F'. K F \<Longrightarrow> \<forall>q. q \<notin> {p, t} \<longrightarrow> F' q = F q \<Longrightarrow> K F'"
  shows "step_to (mem op (downloading cfg st F0)) (mem op (\<lambda>F s. downloading cfg st F0 F s \<and> K F))
     (atomicWrite env p t c) (mem op (\<lambda>F s. downloading cfg st F0 F s \<and> K F \<and> F p = Some c))"
proof -
  let ?D = "mem op (downloading cfg st F0)"
  let ?K = "mem op (\<lambda>F s. downloading cfg st F0 F s \<and> K F)"
  let ?T = "mem op (\<lambda>F s. downloading cfg st F0 F s \<and> K F \<and> F t = Some c)"
  have ne: "p \<notin> {releaseEnv cfg, releaseCompose cfg}" "t \<notin> {releaseEnv cfg, releaseCompose cfg}" "p \<noteq> t"
    using P p by (auto simp: downloadPathsOk_def)
  have parent: "step_to ?D ?K (ensureParent env t) ?K" by (rule step_quiet) auto
  have temp: "step_to ?D ?K (writeFile env t c) ?T"
    by (rule step_stage [OF P]) (use p K in auto)
  have "step_to ?D ?T (renameFile env t p) (mem op (\<lambda>F s. downloading cfg st F0 F s \<and> K F \<and> F p = Some c))"
  proof (rule step_renameFile)
    fix F s A d
    assume a: "?T F s A" and d: "F t = Some d"
    have "K ((F(t := None))(p \<mapsto> d))" by (rule K [of F]) (use a in auto)
    with a d ne show "A = Some op \<and> downloading cfg st F0 ((F(t := None))(p \<mapsto> d)) s
      \<and> K ((F(t := None))(p \<mapsto> d)) \<and> ((F(t := None))(p \<mapsto> d)) p = Some c"
      by (auto simp: downloading_def releaseSame_def)
  qed auto
  then show ?thesis unfolding atomicWrite_def by (intro step_andThen [OF parent step_andThen [OF temp]])
qed

definition downloadSafe ::
  "environment \<Rightarrow> updaterConfig \<Rightarrow> updateStatus \<Rightarrow> (string \<rightharpoonup> string) \<Rightarrow> (string \<rightharpoonup> string) \<Rightarrow> updateStatus \<Rightarrow> bool"
  where
  "downloadSafe env cfg st F0 F s \<longleftrightarrow>
     downloading cfg st F0 F s
     \<or> (phase s \<in> {ReadyToApply, Failed} \<and> currentVersion s = currentVersion st \<and> releaseSame cfg F0 F
        \<and> (\<exists>m. availableVersion s = Some (version m) \<and> migration s = Some (migrations m)
              \<and> stagedRelease env cfg st m F))"

lemma hoare_fetchReleaseManifest:
  assumes "phase s \<noteq> Finalizing"
  shows "hoare (disk F (SavedState s) A) (fetchReleaseManifest env cfg)
     (\<lambda>m w. manifestAdmissible (runtime env)
         \<lparr>optCurrentVersion = currentVersion s, optChannel = cfgChannel cfg,
          optUpdaterVersion = currentUpdaterVersion cfg, optAllowedHosts = allowedHosts cfg\<rparr> m
       \<and> disk F (SavedState s) A w)
     (\<lambda>_. disk F (SavedState s) A) (disk F (SavedState s) A)"
proof -
  let ?P = "disk F (SavedState s) A"
  have fetch: "stays ?P (fetchUrl env url)" for url by (rule hoare_quiet) auto
  show ?thesis
    unfolding fetchReleaseManifest_def
    by (intro hoare_bind [OF fetch] hoare_if)
       (auto split: option.split intro!: hoare_raise hoare_bind [OF hoare_getStatus] hoare_conj_pure
          hoare_liftE validateReleaseManifest_admissible simp: assms)
qed

lemma hoare_value_quiet:
  assumes "files_obs.quiet m" "state_obs.quiet m" "entails \<phi> I"
  shows "hoare (holds \<phi>) m (\<lambda>_. holds \<phi>) (\<lambda>_. holds I) (holds I)"
  by (rule step_quiet [OF assms])

lemma hoare_pure_guard:
  "(\<not> b \<Longrightarrow> hoare P m Q R K) \<Longrightarrow> (\<And>w. P w \<Longrightarrow> R e w) \<Longrightarrow>
   hoare P (if b then raise e else m) Q R K"
  by (auto intro: hoare_raise)

lemma step_downloadBody:
  fixes env :: environment and cfg :: updaterConfig and st :: updateStatus and op :: string
    and F0 :: "string \<rightharpoonup> string"
  assumes P: "downloadPathsOk cfg" and s1: "phase s1 = Downloading" "currentVersion s1 = currentVersion st"
  defines "I \<equiv> mem op (downloadSafe env cfg st F0)"
  shows "step_to I (mem op (\<lambda>F s. F = F0 \<and> s = s1)) (downloadBody env cfg) I"
proof -
  let ?D = "mem op (downloading cfg st F0)"
  let ?start = "mem op (\<lambda>F s. F = F0 \<and> s = s1)"
  let ?ok = "\<lambda>m. manifestAdmissible (runtime env)
         \<lparr>optCurrentVersion = currentVersion st, optChannel = cfgChannel cfg,
          optUpdaterVersion = currentUpdaterVersion cfg, optAllowedHosts = allowedHosts cfg\<rparr> m"
  let ?json = "\<lambda>m. jsonStringify env (manifestJson m) @ [CHR 0x0A]"
  let ?A = "\<lambda>m. mem op (\<lambda>F s. downloading cfg st F0 F s \<and> F (stagedManifestPath cfg) = Some (?json m))"
  let ?B = "\<lambda>m c. mem op (\<lambda>F s. downloading cfg st F0 F s \<and> F (stagedManifestPath cfg) = Some (?json m)
     \<and> F (stagedComposePath cfg) = Some c)"
  let ?C = "\<lambda>m c b. mem op (\<lambda>F s. downloading cfg st F0 F s \<and> (F (stagedManifestPath cfg) = Some (?json m)
     \<and> F (stagedComposePath cfg) = Some c) \<and> F (stagedReleaseEnvPath cfg) = Some b)"
  let ?env = "\<lambda>m base. mergeEnvContent base ((''DRUVIA_VERSION'', version m) # imageVariables m)"
  have DI: "entails ?D I" "entails (?A m) I" "entails (?B m c) I" "entails (?C m c b) I" for m c b
    by (auto simp: I_def downloadSafe_def)
  have weak: "step_to I \<phi> n \<psi>" if "step_to ?D \<phi> n \<psi>" for \<phi> n \<psi>
    by (rule step_conseq [OF that]) (use DI(1) in auto)
  have start: "entails ?start ?D" using s1 by (auto simp: downloading_def releaseSame_def)
  have fetch: "hoare (holds ?start) (fetchReleaseManifest env cfg) (\<lambda>m w. ?ok m \<and> holds ?D w)
      (\<lambda>_. holds I) (holds I)"
  proof -
    have d: "holds ?start w \<longleftrightarrow> disk F0 (SavedState s1) (Some op) w" for w by (auto simp: holds_def)
    have D: "holds ?D w" "holds I w" if "disk F0 (SavedState s1) (Some op) w" for w
      using that start DI(1) unfolding entails_def by (blast intro: holdsI)+
    show ?thesis
      unfolding d by (rule hoare_conseq [OF hoare_fetchReleaseManifest]) (use s1 D in auto)
  qed
  have json: "step_to I ?D (writeJsonFile env (stagedManifestPath cfg) (manifestJson m)) (?A m)" for m
  proof -
    have "step_to ?D ?D (ensureParent env (stagedManifestPath cfg)) ?D" by (rule step_quiet) auto
    moreover have "step_to ?D ?D (writeFile env (stagedManifestPath cfg) (?json m)) (?A m)"
      by (rule step_conseq [OF step_stage [OF P, where K = "\<lambda>F. True"]]) auto
    ultimately show ?thesis unfolding writeJsonFile_def by (intro weak step_andThen)
  qed
  have pull: "step_to I (?A m) (forEach (\<lambda>image. runDocker env (buildDockerImagePullArgs (buildImageRef image))) imgs) (?A m)"
    for m imgs by (rule step_quiet [OF _ _ DI(2)]) auto
  have asset: "hoare (holds (?A m)) (downloadText env url) (\<lambda>_. holds (?A m)) (\<lambda>_. holds I) (holds I)"
    for m url by (rule hoare_value_quiet [OF _ _ DI(2)]) (auto simp: downloadText_def)
  have stageCompose: "step_to I (?A m) (atomicWrite env (stagedComposePath cfg) (nextComposePath cfg) c) (?B m c)"
    for m c
    by (rule weak, rule step_conseq [OF step_atomicStage [OF P,
          where K = "\<lambda>F. F (stagedManifestPath cfg) = Some (?json m)"]])
       (use P in \<open>auto simp: downloadPathsOk_def\<close>)
  have base: "hoare (holds (?B m c)) (tryCatch (readFile env (releaseEnv cfg))
      (\<lambda>e. if isEnoent e then ret [] else raise e)) (\<lambda>_. holds (?B m c)) (\<lambda>_. holds I) (holds I)" for m c
    by (rule hoare_value_quiet [OF _ _ DI(3)]) auto
  have stageEnv: "step_to I (?B m c) (atomicWrite env (stagedReleaseEnvPath cfg) (nextReleaseEnvPath cfg) b)
      (?C m c b)" for m c b
    by (rule weak, rule step_conseq [OF step_atomicStage [OF P,
          where K = "\<lambda>F. F (stagedManifestPath cfg) = Some (?json m) \<and> F (stagedComposePath cfg) = Some c"]])
       (use P in \<open>auto simp: downloadPathsOk_def\<close>)
  have sync: "step_to I (?C m c b) (syncReleaseFiles env ps []) (?C m c b)" for m c b ps
    by (rule step_quiet [OF _ _ DI(4)]) auto
  have ready: "step_to I (?C m c (?env m base)) (writeState env cfg (\<lambda>s. s\<lparr>phase := ReadyToApply,
        availableVersion := Some (version m), statusNotesUrl := n, migration := Some (migrations m),
        operationId := None, finishedAt := t, message := x\<rparr>)) I"
    if "?ok m" "verifySha256 (runtime env) c (composeSha256 (compose m))" for m c base n t x
    by (rule step_writeState [OF _ _ DI(4)])
       (use that in \<open>auto simp: I_def downloadSafe_def downloading_def stagedRelease_def\<close>)
  show ?thesis
    unfolding downloadBody_def Let_def
    by (rule hoare_bind [OF fetch], rule hoare_conj_pure, rule step_andThen [OF json],
        rule step_andThen [OF pull], rule hoare_bind [OF asset], rule hoare_pure_guard,
        rule step_andThen [OF stageCompose], rule hoare_bind [OF base], rule step_andThen [OF stageEnv],
        rule step_andThen [OF sync], rule hoare_nowIso, rule ready)
       (auto intro: entailsD [OF DI(2)])
qed

lemma downloadSafe_Failed:
  "downloadSafe env cfg st F0 F s \<Longrightarrow>
   downloadSafe env cfg st F0 F (s\<lparr>phase := Failed, finishedAt := t, message := m, error := e\<rparr>)"
  by (auto simp: downloadSafe_def downloading_def)

lemma hoare_downloadUpdate:
  fixes st :: updateStatus and F0 :: "string \<rightharpoonup> string"
  assumes P: "downloadPathsOk cfg" and op: "op \<noteq> []" "op = operationIdFactory env tr"
  defines "I \<equiv> (\<lambda>F s (A :: string option). (s = st \<and> F = F0) \<or> downloadSafe env cfg st F0 F s)"
  shows "hoare (\<lambda>w. disk F0 (SavedState st) A w \<and> trace w = tr) (downloadUpdate env cfg)
     (\<lambda>_. holds I) (\<lambda>_. holds I) (holds I)"
  unfolding downloadUpdate_def startOperation_def
proof (rule hoare_bind)
  have start: "downloading cfg st F0 F0 s1 \<and> phase s1 = Downloading \<and> currentVersion s1 = currentVersion st"
    if "begun Downloading False op sel st s1" for sel s1
    using that by (auto simp: begun_def downloading_def releaseSame_def)
  have stop: "holds I w" if "beginStopped F0 st Downloading False op (\<lambda>sel. sel = None) w" for w
    using that start unfolding beginStopped_def I_def downloadSafe_def by (blast intro: holdsI)
  have validate: "reads F0 st (Some op) (noValidation st) (\<lambda>_. True)"
    unfolding reads_def noValidation_def by (auto intro: hoare_ret)
  show "hoare (\<lambda>w. disk F0 (SavedState st) A w \<and> trace w = tr)
     (beginOperation env cfg Downloading noValidation False noSelection)
     (\<lambda>(i, s1, ctx) w. begun Downloading False op None st s1 \<and> disk F0 (SavedState s1) (Some op) w)
     (\<lambda>_. holds I) (holds I)"
    by (rule hoare_conseq [OF hoare_begin [where validate = noValidation and V = True
          and select = noSelection and S = "\<lambda>sel. sel = None" and C = "\<lambda>_ _. True",
          OF op validate reads_noSelection]])
       (auto intro: stop)
  fix x :: "string \<times> updateStatus \<times> unit"
  obtain i s1 ctx where x: "x = (i, s1, ctx)" by (cases x) auto
  have run: "hoare (disk F0 (SavedState s1) (Some op)) (runBackground env cfg (downloadBody env cfg))
      (\<lambda>_. holds I) (\<lambda>_. holds I) (holds I)"
    if b: "begun Downloading False op None st s1"
  proof (rule hoare_conseq [OF step_background [where J = "downloadSafe env cfg st F0"]])
    show "op \<noteq> []" by (rule op(1))
    show "step_to (mem op (downloadSafe env cfg st F0)) (mem op (\<lambda>F s. F = F0 \<and> s = s1))
        (downloadBody env cfg) (mem op (downloadSafe env cfg st F0))"
      by (rule step_downloadBody [OF P]) (use start [OF b] in auto)
  qed (auto simp: I_def downloadSafe_Failed elim: holds_mono intro: holdsI)
  have "hoare (\<lambda>w. begun Downloading False op None st s1 \<and> disk F0 (SavedState s1) (Some op) w)
      (andThen (runBackground env cfg (downloadBody env cfg)) (ret (i, s1)))
      (\<lambda>_. holds I) (\<lambda>_. holds I) (holds I)"
    by (intro hoare_conj_pure) (auto intro!: hoare_andThen [OF run] hoare_ret)
  then show "hoare ((\<lambda>(i, s1, ctx) w. begun Downloading False op None st s1
        \<and> disk F0 (SavedState s1) (Some op) w) x)
     ((\<lambda>(opId, status, ctx). andThen (runBackground env cfg (downloadBody env cfg))
         (ret (opId, status))) x)
     (\<lambda>_. holds I) (\<lambda>_. holds I) (holds I)"
    by (simp add: x)
qed

text \<open>
  C14. Downloads. A download never touches the release files, wherever it stops. When it ends
  ready to apply, the version it reports is the one of a manifest that was admitted under the
  configuration; the staged manifest is that manifest, the staged compose file has the digest
  the manifest pins, and the staged environment file is the current one with the version and
  the four image references of the manifest merged in.
\<close>

theorem downloadUpdate_integrity:
  assumes "stateFile w = SavedState st" "phase st \<noteq> ReadyToApply"
    "operationIdFactory env (trace w) \<noteq> []" "downloadPathsOk cfg"
  shows "\<exists>s'. stateFile (snd (downloadUpdate env cfg w)) = SavedState s'
     \<and> releaseSame cfg (files w) (files (snd (downloadUpdate env cfg w)))
     \<and> (phase s' = ReadyToApply \<longrightarrow>
          (\<exists>m. availableVersion s' = Some (version m)
               \<and> stagedRelease env cfg st m (files (snd (downloadUpdate env cfg w)))))"
proof -
  have "holds (\<lambda>F s A. (s = st \<and> F = files w) \<or> downloadSafe env cfg st (files w) F s)
      (snd (downloadUpdate env cfg w))"
    by (rule hoare_final [OF hoare_downloadUpdate [where tr = "trace w" and A = "activeOperationId w"]])
       (use assms in \<open>auto simp: disk_def\<close>)
  then show ?thesis
    using assms(2) by (auto simp: holds_def disk_def downloadSafe_def downloading_def releaseSame_def)
qed

lemma demo_downloadPaths: "downloadPathsOk demoConfig"
  by (simp add: downloadPathsOk_def demoConfig_def)

definition idleWorld :: world where
  "idleWorld = demoWorld\<lparr>stateFile := SavedState (demoStatus\<lparr>phase := Idle\<rparr>)\<rparr>"

lemma downloadUpdate_integrity_witness:
  "\<exists>s'. stateFile (snd (downloadUpdate (demoEnvironment (\<lambda>t. False)) demoConfig idleWorld)) = SavedState s'
     \<and> releaseSame demoConfig (files idleWorld)
         (files (snd (downloadUpdate (demoEnvironment (\<lambda>t. False)) demoConfig idleWorld)))
     \<and> (phase s' = ReadyToApply \<longrightarrow>
          (\<exists>m. availableVersion s' = Some (version m)
               \<and> stagedRelease (demoEnvironment (\<lambda>t. False)) demoConfig (demoStatus\<lparr>phase := Idle\<rparr>) m
                   (files (snd (downloadUpdate (demoEnvironment (\<lambda>t. False)) demoConfig idleWorld)))))"
  by (rule downloadUpdate_integrity [OF _ _ _ demo_downloadPaths])
     (simp_all add: idleWorld_def demo_world)

end
