(* ===== verification/Finalizer.thy ===== *)
theory Finalizer
  imports Update_Safety Updater_Demo
begin

text \<open>
  The finalizer container (apps/updater/src/finalizer.ts) that replaces the updater itself after
  an update: it marks the status, runs the compose command it was given, waits for the new
  updater to become healthy, and closes the status whatever happened.
\<close>

subsection \<open>Input\<close>

record finalizerInput =
  finDelaySeconds :: nat
  finIntervalMs :: nat
  finTimeoutMs :: nat
  finTargetVersion :: string
  finContainerName :: string
  finComposeCommand :: "string list"

text \<open>\<open>main\<close>: the command is what follows \<open>--\<close> on the command line; the two intervals keep the
  defaults of \<open>runUpdaterFinalizer\<close>. \<open>num\<close> is \<open>Number(value)\<close>, None when it is not finite.\<close>

definition parseDelaySeconds :: "(string \<Rightarrow> rat option) \<Rightarrow> string option \<Rightarrow> string + nat" where
  "parseDelaySeconds num v =
     (case v of None \<Rightarrow> Inr 0 | Some s \<Rightarrow>
        if s = [] then Inr 0
        else (case num s of
                None \<Rightarrow> Inl (''Invalid DRUVIA_FINALIZER_DELAY_SECONDS: '' @ s)
              | Some x \<Rightarrow>
                  if x \<noteq> of_int \<lfloor>x\<rfloor> \<or> x < 0
                  then Inl (''Invalid DRUVIA_FINALIZER_DELAY_SECONDS: '' @ s)
                  else Inr (nat \<lfloor>x\<rfloor>)))"

definition finRequiredEnv :: "(string \<rightharpoonup> string) \<Rightarrow> string \<Rightarrow> string + string" where
  "finRequiredEnv env key =
     (case env key of
        None \<Rightarrow> Inl (key @ '' is required'')
      | Some v \<Rightarrow> if v = [] then Inl (key @ '' is required'') else Inr v)"

definition composeCommandOf :: "string list \<Rightarrow> string list" where
  "composeCommandOf argv = (case dropWhile (\<lambda>a. a \<noteq> ''--'') argv of [] \<Rightarrow> [] | _ # rest \<Rightarrow> rest)"

definition finalizerMain ::
  "(string \<Rightarrow> rat option) \<Rightarrow> (string \<rightharpoonup> string) \<Rightarrow> string list \<Rightarrow> string + string \<times> finalizerInput" where
  "finalizerMain num env argv =
     bindE (parseDelaySeconds num (env ''DRUVIA_FINALIZER_DELAY_SECONDS'')) (\<lambda>delay.
     bindE (finRequiredEnv env ''DRUVIA_FINALIZER_STATE_PATH'') (\<lambda>path.
     bindE (finRequiredEnv env ''DRUVIA_FINALIZER_TARGET_VERSION'') (\<lambda>target.
     bindE (finRequiredEnv env ''DRUVIA_FINALIZER_UPDATER_CONTAINER_NAME'') (\<lambda>name.
     Inr (path, \<lparr>finDelaySeconds = delay, finIntervalMs = 2000, finTimeoutMs = 120000,
                 finTargetVersion = target, finContainerName = name,
                 finComposeCommand = composeCommandOf argv\<rparr>)))))"

subsection \<open>Steps\<close>

definition finReadState :: "environment \<Rightarrow> string \<Rightarrow> updateStatus op" where
  "finReadState env target = readUpdateState env (createDefaultUpdateStatus target Stable)"

definition patchState ::
  "environment \<Rightarrow> string \<Rightarrow> (updateStatus \<Rightarrow> updateStatus) \<Rightarrow> unit op" where
  "patchState env target upd =
     bind (finReadState env target) (\<lambda>current. writeUpdateState env (upd current))"

definition inspectArgs :: "string \<Rightarrow> string list" where
  "inspectArgs name =
     [''inspect'', ''--format'',
      ''{{if .State.Health}}{{.State.Health.Status}}{{else}}{{.State.Status}}{{end}}'', name]"

text \<open>One round returns the status seen, None when the updater is healthy. The loop adds the
  interval to \<open>elapsedMs\<close> after each sleep.\<close>

fun healthyLoop :: "environment \<Rightarrow> finalizerInput \<Rightarrow> nat \<Rightarrow> nat \<Rightarrow> string \<Rightarrow> unit op" where
  "healthyLoop env inp 0 elapsedMs lastStatus = (\<lambda>w. (Diverged, w))"
| "healthyLoop env inp (Suc fuel) elapsedMs lastStatus =
     (let giveUp = (\<lambda>s. raise (PlainError (''replacement updater did not become healthy within ''
                      @ nat_to_string (finTimeoutMs inp) @ ''ms: '' @ s)))
      in if \<not> elapsedMs \<le> finTimeoutMs inp then giveUp lastStatus
         else bind (tryCatch
             (bind (runCommand env ''docker'' (inspectArgs (finContainerName inp))) (\<lambda>stdout.
                (let s = (if js_trim stdout = [] then ''unknown'' else js_trim stdout)
                 in ret (if s = ''healthy'' \<or> s = ''running'' then None else Some s))))
             (\<lambda>e. ret (Some (exnMessage e))))
           (\<lambda>seen. case seen of None \<Rightarrow> ret ()
            | Some s \<Rightarrow>
                if elapsedMs \<ge> finTimeoutMs inp then giveUp s
                else andThen (sleepMs env (finIntervalMs inp))
                       (healthyLoop env inp fuel (elapsedMs + finIntervalMs inp) s)))"

definition healthyFuel :: "finalizerInput \<Rightarrow> nat" where
  "healthyFuel inp = finTimeoutMs inp + 1"

definition waitForUpdaterHealthy :: "environment \<Rightarrow> finalizerInput \<Rightarrow> unit op" where
  "waitForUpdaterHealthy env inp = healthyLoop env inp (healthyFuel inp) 0 ''unknown''"

definition finishFinalizer :: "environment \<Rightarrow> finalizerInput \<Rightarrow> string \<Rightarrow> unit op" where
  "finishFinalizer env inp msg =
     bind (nowIso env) (\<lambda>now.
     patchState env (finTargetVersion inp) (\<lambda>s. s\<lparr>phase := Succeeded,
       currentVersion := finTargetVersion inp, availableVersion := None, operationId := None,
       finishedAt := Some now, message := Some msg, error := None\<rparr>))"

definition runUpdaterFinalizer :: "environment \<Rightarrow> finalizerInput \<Rightarrow> unit op" where
  "runUpdaterFinalizer env inp =
     (case finComposeCommand inp of
        [] \<Rightarrow> raise (PlainError ''Finalizer compose command is required'')
      | cmd # as \<Rightarrow>
          if cmd = [] then raise (PlainError ''Finalizer compose command is required'')
          else andThen (patchState env (finTargetVersion inp) (\<lambda>s. s\<lparr>phase := Finalizing,
              currentVersion := finTargetVersion inp, availableVersion := None, finishedAt := None,
              message := Some (''Updated to '' @ finTargetVersion inp @ ''; updater finalizer running''),
              error := None\<rparr>))
            (tryCatch
              (andThen (if finDelaySeconds inp > 0 then sleepMs env (finDelaySeconds inp * 1000)
                        else ret ())
              (andThen (bind (runCommand env cmd as) (\<lambda>_. ret ()))
              (andThen (waitForUpdaterHealthy env inp)
                (finishFinalizer env inp
                  (''Updated to '' @ finTargetVersion inp @ ''; updater finalizer completed'')))))
              (\<lambda>e. andThen (finishFinalizer env inp
                     (''Updated to '' @ finTargetVersion inp @ ''; updater finalizer failed: ''
                      @ exnMessage e))
                   (raise e))))"

subsection \<open>What it leaves\<close>

lemma quiet_healthyLoop [intro!, simp]:
  "files_obs.quiet (healthyLoop env inp n t s)" "state_obs.quiet (healthyLoop env inp n t s)"
proof -
  show "files_obs.quiet (healthyLoop env inp n t s)"
    by (induction n arbitrary: t s)
       (auto simp: Let_def intro!: files_obs.quiet_bind files_obs.quiet_case_option)
  show "state_obs.quiet (healthyLoop env inp n t s)"
    by (induction n arbitrary: t s)
       (auto simp: Let_def intro!: state_obs.quiet_bind state_obs.quiet_case_option)
qed

lemma step_patchState:
  assumes "\<And>F s A. \<phi> F s A \<Longrightarrow> \<psi> F (upd s) A" "entails \<phi> I" "entails \<psi> I"
  shows "step_to I \<phi> (patchState env target upd) \<psi>"
proof (rule step_disk)
  fix F s A
  assume f: "\<phi> F s A"
  have stop: "holds I w" if "disk F (SavedState s) A w" for w
    using that f assms(2) unfolding entails_def by (blast intro: holdsI)
  have old: "holds I w" if "disk F (SavedState (upd s)) A w" for w
    using that assms(1) [OF f] assms(3) unfolding entails_def by (blast intro: holdsI)
  have read: "hoare (disk F (SavedState s) A) (finReadState env target)
      (\<lambda>r w. r = s \<and> disk F (SavedState s) A w) (\<lambda>_. holds I) (holds I)"
    unfolding finReadState_def by (rule hoare_conseq [OF hoare_readUpdateState]) (auto intro: stop)
  have store: "hoare (disk F (SavedState s) A) (writeUpdateState env (upd s))
      (\<lambda>_. holds \<psi>) (\<lambda>_. holds I) (holds I)"
    by (rule hoare_conseq [OF hoare_writeUpdateState])
       (use assms(1) [OF f] stop old in \<open>auto intro: holdsI\<close>)
  show "hoare (disk F (SavedState s) A) (patchState env target upd)
      (\<lambda>_. holds \<psi>) (\<lambda>_. holds I) (holds I)"
    unfolding patchState_def
    by (rule hoare_bind [OF read], rule hoare_conj_pure) (simp add: store)
qed

definition finalizerMarked :: "string \<Rightarrow> updatePhase set \<Rightarrow> updateStatus \<Rightarrow> bool" where
  "finalizerMarked target ps s \<longleftrightarrow> phase s \<in> ps \<and> currentVersion s = target \<and> availableVersion s = None"

lemma hoare_runUpdaterFinalizer:
  fixes st :: updateStatus and F0 :: "string \<rightharpoonup> string" and inp :: finalizerInput
  defines "I \<equiv> (\<lambda>F s (A :: string option). F = F0
     \<and> (s = st \<or> finalizerMarked (finTargetVersion inp) {Finalizing, Succeeded} s))"
    and "D \<equiv> (\<lambda>F s (A :: string option). F = F0
     \<and> finalizerMarked (finTargetVersion inp) {Succeeded} s \<and> operationId s = None)"
  shows "step_to I (\<lambda>F s A. F = F0 \<and> s = st) (runUpdaterFinalizer env inp) D"
proof -
  let ?M = "\<lambda>F s (A :: string option). F = F0
     \<and> finalizerMarked (finTargetVersion inp) {Finalizing, Succeeded} s"
  have M: "entails ?M I" "entails ?M ?M" and D: "entails D I" "entails D ?M"
    by (auto simp: I_def D_def finalizerMarked_def)
  have mark: "step_to I (\<lambda>F s A. F = F0 \<and> s = st) (patchState env t (\<lambda>s. s\<lparr>phase := Finalizing,
      currentVersion := finTargetVersion inp, availableVersion := None, finishedAt := None,
      message := m, error := None\<rparr>)) ?M" for t m
    by (rule step_patchState) (auto simp: I_def finalizerMarked_def)
  have finish: "step_to J ?M (finishFinalizer env inp m) D" if "entails ?M J" for m J
    unfolding finishFinalizer_def
    by (rule hoare_bind [where Q = "\<lambda>_. holds ?M"], simp add: nowIso_def,
        rule hoare_getWorld, assumption, rule step_patchState)
       (use that in \<open>auto simp: D_def finalizerMarked_def entails_def\<close>)
  have q: "step_to ?M ?M n ?M" if "files_obs.quiet n" "state_obs.quiet n" for n :: "unit op"
    by (rule step_quiet [OF that M(2)])
  have body: "hoare (holds ?M) (andThen (if finDelaySeconds inp > 0 then sleepMs env (finDelaySeconds inp * 1000)
        else ret ()) (andThen (bind (runCommand env cmd as) (\<lambda>_. ret ()))
        (andThen (waitForUpdaterHealthy env inp) (finishFinalizer env inp m))))
      (\<lambda>_. holds D) (\<lambda>_. holds ?M) (holds I)" for cmd as m
  proof (rule hoare_conseq [OF hoare_andThen [OF q hoare_andThen [OF q hoare_andThen [OF q finish [OF M(2)]]]]])
    show "\<And>w. holds ?M w \<Longrightarrow> holds I w" by (rule entailsD [OF M(1)])
  qed (auto simp: waitForUpdaterHealthy_def)
  have handle: "step_to I ?M (andThen (finishFinalizer env inp m) (raise e)) D" for m e
    by (rule hoare_andThen [OF finish [OF M(1)] hoare_raise]) (rule entailsD [OF D(1)])
  have start: "holds I w" if "holds (\<lambda>F s A. F = F0 \<and> s = st) w" for w
    using that by (rule holds_mono) (simp add: I_def)
  show ?thesis
    unfolding runUpdaterFinalizer_def
  proof (cases "finComposeCommand inp", goal_cases)
    case 1
    then show ?case by (auto intro: hoare_raise start)
  next
    case (2 cmd as)
    show ?case
      unfolding 2 list.case
      by (rule hoare_if [OF hoare_raise [OF start]], assumption,
          rule hoare_andThen [OF mark hoare_tryCatch [OF body handle]])
  qed
qed

text \<open>
  The finalizer never touches a release file. When it returns, the status is closed as
  succeeded at the target version with no operation pending; when it fails or its container dies,
  the status is either the one it found, or it names the target version and is finalizing or
  succeeded, which \<open>reconcileFinalizing\<close> closes later.
\<close>

theorem finalizer_closes_status:
  assumes "stateFile w = SavedState st" "runUpdaterFinalizer env inp w = (r, w')"
  shows "files w' = files w \<and> (\<exists>s'. stateFile w' = SavedState s'
     \<and> (case r of
          Done x \<Rightarrow> phase s' = Succeeded \<and> currentVersion s' = finTargetVersion inp
                    \<and> operationId s' = None
        | _ \<Rightarrow> s' = st \<or> (currentVersion s' = finTargetVersion inp
                         \<and> phase s' \<in> {Finalizing, Succeeded})))"
proof -
  have "holds (\<lambda>F s A. F = files w \<and> s = st) w"
    by (rule holdsI [of "files w" st "activeOperationId w"]) (use assms(1) in \<open>auto simp: disk_def\<close>)
  from hoareD [OF hoare_runUpdaterFinalizer this assms(2)] show ?thesis
    by (cases r) (auto simp: holds_def disk_def finalizerMarked_def)
qed

definition demoFinalizer :: finalizerInput where
  "demoFinalizer = \<lparr>finDelaySeconds = 0, finIntervalMs = 1, finTimeoutMs = 2,
     finTargetVersion = ''1.1.0'', finContainerName = ''up'', finComposeCommand = [''docker'', ''compose'']\<rparr>"

lemma finalizer_closes_status_witness:
  "\<exists>(r :: unit outcome) w'. runUpdaterFinalizer (demoEnvironment (\<lambda>t. False)) demoFinalizer demoWorld = (r, w')
     \<and> files w' = files demoWorld"
proof -
  obtain r w' where r: "runUpdaterFinalizer (demoEnvironment (\<lambda>t. False)) demoFinalizer demoWorld = (r, w')"
    by fastforce
  have "stateFile demoWorld = SavedState demoStatus" by (simp add: demoWorld_def)
  from finalizer_closes_status [OF this r] r show ?thesis by blast
qed

text \<open>The wait ends: each round advances the counter by the interval.\<close>

lemma sleepMs_not_diverged: "fst (sleepMs env n w) \<noteq> Diverged"
  by (simp add: sleepMs_def effect_def putWorld_def)

lemma runCommand_not_diverged: "fst (runCommand env c as w) \<noteq> Diverged"
  by (auto simp: runCommand_def bind_def getWorld_def effect_def liftE_def ret_def raise_def
      split: sum.splits)

text \<open>
  The wait for the replacement updater ends. With a positive interval the loop makes at most
  one round for each millisecond of the timeout and one more, whatever the container reports.
\<close>

theorem waitForUpdaterHealthy_terminates:
  assumes "0 < finIntervalMs inp"
  shows "fst (waitForUpdaterHealthy env inp w) \<noteq> Diverged"
proof -
  have loop: "fst (healthyLoop env inp fuel t s w) \<noteq> Diverged" if "finTimeoutMs inp < fuel + t" "t \<le> finTimeoutMs inp + finIntervalMs inp \<and> 0 < fuel"
    for fuel t s w
    using that
  proof (induction fuel arbitrary: t s w)
    case (Suc fuel)
    let ?seen = "tryCatch
             (bind (runCommand env ''docker'' (inspectArgs (finContainerName inp))) (\<lambda>stdout.
                (let s = (if js_trim stdout = [] then ''unknown'' else js_trim stdout)
                 in ret (if s = ''healthy'' \<or> s = ''running'' then None else Some s))))
             (\<lambda>e. ret (Some (exnMessage e)))"
    have seen': "fst (?seen w) \<noteq> Diverged" for w
      using runCommand_not_diverged [of env "''docker''" "inspectArgs (finContainerName inp)" w]
      by (auto simp: tryCatch_def bind_def ret_def Let_def split: prod.splits outcome.splits)
    have again: "fst (andThen (sleepMs env (finIntervalMs inp))
        (healthyLoop env inp fuel (t + finIntervalMs inp) s') w1) \<noteq> Diverged"
      if "t < finTimeoutMs inp" for s' w1
      using Suc.IH [of "t + finIntervalMs inp"] that Suc.prems assms
        sleepMs_not_diverged [of env "finIntervalMs inp" w1]
      by (auto simp: andThen_def bind_def split: prod.splits outcome.splits)
    show ?case
      using seen' [of w] again
      by (auto simp: Let_def bind_def raise_def ret_def split: prod.splits outcome.splits option.splits)
  qed simp
  show ?thesis
    unfolding waitForUpdaterHealthy_def healthyFuel_def by (rule loop) simp_all
qed

lemma waitForUpdaterHealthy_terminates_witness:
  "fst (waitForUpdaterHealthy (demoEnvironment (\<lambda>t. False)) demoFinalizer demoWorld) \<noteq> Diverged"
  by (rule waitForUpdaterHealthy_terminates) (simp add: demoFinalizer_def)

end
