(* ===== verification/Updater_Routes.thy ===== *)
theory Updater_Routes
  imports Finalizer
begin

text \<open>
  The HTTP surface of the updater (apps/updater/src/index.ts): the secret check before every
  internal route, the routes, and the answers to a mutation. Which handler a request reaches is
  decided by the router of Fastify, a parameter here (\<open>route\<close>: method and raw URL to a handler).
\<close>

datatype updaterRoute =
    RHealth | RStatus | RCheck | RDownload | RApply | RRollback | RRestart

datatype responseBody =
    HealthBody
  | StatusBody updateStatus
  | AcceptedBody string updateStatus
  | ErrorBody string string
  | BusyBody string "string option"

record httpRequest =
  reqMethod :: string
  reqUrl :: string
  secretHeader :: "string option"

record httpResponse =
  httpStatus :: nat
  httpBody :: responseBody

text \<open>The \<open>onRequest\<close> hook: None lets the request through.\<close>

definition checkSecret :: "string \<Rightarrow> httpRequest \<Rightarrow> httpResponse option" where
  "checkSecret secret req =
     (if \<not> js_startsWith (reqUrl req) ''/internal/'' then None
      else if secretHeader req \<noteq> Some secret
      then Some \<lparr>httpStatus = 401, httpBody = ErrorBody ''UNAUTHORIZED'' ''Invalid updater secret''\<rparr>
      else None)"

text \<open>\<open>sendMutation\<close>: an error that is neither a conflict nor a failed precondition is thrown on,
  to Fastify's error handler.\<close>

definition sendMutation :: "(string \<times> updateStatus) op \<Rightarrow> httpResponse op" where
  "sendMutation action =
     tryCatch (bind action (\<lambda>(i, s). ret \<lparr>httpStatus = 202, httpBody = AcceptedBody i s\<rparr>))
       (\<lambda>e. case e of
          InProgressError i \<Rightarrow>
            ret \<lparr>httpStatus = 409, httpBody = BusyBody (exnMessage e) i\<rparr>
        | PreconditionError code m \<Rightarrow> ret \<lparr>httpStatus = 409, httpBody = ErrorBody code m\<rparr>
        | _ \<Rightarrow> raise e)"

fun handler :: "environment \<Rightarrow> updaterConfig \<Rightarrow> updaterRoute \<Rightarrow> httpResponse op" where
  "handler env cfg RHealth = ret \<lparr>httpStatus = 200, httpBody = HealthBody\<rparr>"
| "handler env cfg RStatus =
     bind (getStatus env cfg) (\<lambda>s. ret \<lparr>httpStatus = 200, httpBody = StatusBody s\<rparr>)"
| "handler env cfg RCheck = sendMutation (checkForUpdates env cfg)"
| "handler env cfg RDownload = sendMutation (downloadUpdate env cfg)"
| "handler env cfg RApply = sendMutation (applyUpdate env cfg)"
| "handler env cfg RRollback = sendMutation (rollbackUpdate env cfg)"
| "handler env cfg RRestart = sendMutation (restartServices env cfg)"

text \<open>The path each handler is registered under.\<close>

fun routePath :: "updaterRoute \<Rightarrow> string \<times> string" where
  "routePath RHealth = (''GET'', ''/health'')"
| "routePath RStatus = (''GET'', ''/internal/update/status'')"
| "routePath RCheck = (''POST'', ''/internal/update/check'')"
| "routePath RDownload = (''POST'', ''/internal/update/download'')"
| "routePath RApply = (''POST'', ''/internal/update/apply'')"
| "routePath RRollback = (''POST'', ''/internal/update/rollback'')"
| "routePath RRestart = (''POST'', ''/internal/restart'')"

text \<open>One request: Fastify finds the handler first, runs the hook, then the handler. An unknown
  route is answered by Fastify's not-found handler, None here.\<close>

definition serve ::
  "(string \<Rightarrow> string \<Rightarrow> updaterRoute option) \<Rightarrow> environment \<Rightarrow> updaterConfig \<Rightarrow> httpRequest
   \<Rightarrow> httpResponse option op" where
  "serve route env cfg req =
     (case checkSecret (updaterSecret cfg) req of
        Some resp \<Rightarrow> ret (Some resp)
      | None \<Rightarrow> (case route (reqMethod req) (reqUrl req) of
          None \<Rightarrow> ret None
        | Some r \<Rightarrow> bind (handler env cfg r) (\<lambda>resp. ret (Some resp))))"

text \<open>What the hook relies on: a URL that reaches a handler starts with the path the handler is
  registered under. A router that decodes the path before it matches does not have this
  property.\<close>

definition routesVerbatim :: "(string \<Rightarrow> string \<Rightarrow> updaterRoute option) \<Rightarrow> bool" where
  "routesVerbatim route \<longleftrightarrow>
     (\<forall>m url r. route m url = Some r \<longrightarrow> m = fst (routePath r) \<and> js_startsWith url (snd (routePath r)))"

lemma internal_routes:
  assumes "routesVerbatim route" "route m url = Some r" "r \<noteq> RHealth"
  shows "js_startsWith url ''/internal/''"
proof -
  have "js_startsWith url (snd (routePath r))" using assms by (simp add: routesVerbatim_def)
  moreover have "\<exists>q. snd (routePath r) = ''/internal/'' @ q" using assms(3) by (cases r) auto
  ultimately show ?thesis unfolding js_startsWith_iff by force
qed


text \<open>A router that compares whole URLs.\<close>

definition plainRouter :: "string \<Rightarrow> string \<Rightarrow> updaterRoute option" where
  "plainRouter m url = find (\<lambda>r. routePath r = (m, url))
     [RHealth, RStatus, RCheck, RDownload, RApply, RRollback, RRestart]"

lemma plainRouter_verbatim: "routesVerbatim plainRouter"
proof -
  have "js_startsWith (snd (routePath r)) (snd (routePath r))" for r by (simp add: js_startsWith_iff)
  then show ?thesis
    unfolding routesVerbatim_def plainRouter_def find_Some_iff
    by (metis fst_conv snd_conv)
qed


text \<open>A router that decodes \<open>%69\<close> before it matches, as Fastify's does, breaks that assumption,
  and the hook with it: the status is served without the secret.\<close>

definition decodingRouter :: "string \<Rightarrow> string \<Rightarrow> updaterRoute option" where
  "decodingRouter m url =
     plainRouter m (if js_startsWith url ''/%69nternal/'' then ''/internal/'' @ drop 12 url else url)"


end
