(* ===== verification/Graphql_Builder.thy ===== *)
theory Graphql_Builder
  imports Prelude
begin

text \<open>
  The GraphQL text builder of the SDK (packages/sdk/src/lib/graphql-builder.ts): field lists,
  value literals, where and order clauses, queries and mutations. \<open>nts\<close> prints the numbers that
  are not integers below \<open>10 ^ 21\<close>, as \<open>String(n)\<close> does.
\<close>

subsection \<open>State of a query\<close>

record filterItem =
  column :: string
  op :: string
  filterValue :: jsval

datatype whereItem = Cond filterItem | OrCond "filterItem list"

record orderByItem =
  orderColumn :: string
  ascending :: bool

record queryState =
  table :: string
  selectFields :: string
  filters :: "whereItem list"
  orderBy :: "orderByItem list"
  offset :: "rat option"
  limit :: "rat option"
  isSingle :: bool

definition nl :: string where
  "nl = [CHR 0x0A]"

definition numberToString :: "(rat \<Rightarrow> string) \<Rightarrow> rat \<Rightarrow> string" where
  "numberToString nts x =
     (if x = of_int \<lfloor>x\<rfloor> \<and> \<bar>x\<bar> < 10 ^ 21 then int_to_string \<lfloor>x\<rfloor> else nts x)"

subsection \<open>Field lists\<close>

text \<open>The loop of \<open>splitByComma\<close>: \<open>depth\<close> counts open parentheses, \<open>current\<close> is the segment so far.\<close>

fun splitLoop :: "int \<Rightarrow> string \<Rightarrow> string \<Rightarrow> string list" where
  "splitLoop depth current [] = (if js_trim current \<noteq> [] then [js_trim current] else [])"
| "splitLoop depth current (ch # rest) =
     (let d = (if ch = CHR ''('' then depth + 1 else if ch = CHR '')'' then depth - 1 else depth)
      in if ch = CHR '','' \<and> d = 0 then js_trim current # splitLoop d [] rest
         else splitLoop d (current @ [ch]) rest)"

definition splitByComma :: "string \<Rightarrow> string list" where
  "splitByComma str = splitLoop 0 [] str"

lemma splitLoop_length: "p \<in> set (splitLoop d cur s) \<Longrightarrow> length p \<le> length cur + length s"
proof (induction d cur s rule: splitLoop.induct)
  case (1 d cur)
  then show ?case using js_trim_length [of cur] by (auto split: if_splits)
next
  case (2 d cur ch rest)
  then show ?case using js_trim_length [of cur] by (fastforce simp: Let_def split: if_splits)
qed

lemma splitByComma_length: "p \<in> set (splitByComma s) \<Longrightarrow> length p \<le> length s"
  using splitLoop_length [of p 0 "[]" s] by (simp add: splitByComma_def)

text \<open>
  \<open>/^(?:(\w+):)?(\w+)\((.+)\)$/\<close>: alias, relation and sub-fields. Without the flag \<open>s\<close> the
  sub-fields contain no line terminator.
\<close>

definition nestedTail :: "bool \<Rightarrow> string \<Rightarrow> string option" where
  "nestedTail dotAll r =
     (case r of
        [] \<Rightarrow> None
      | c # body \<Rightarrow>
          if c = CHR ''('' \<and> body \<noteq> [] \<and> last body = CHR '')'' \<and> butlast body \<noteq> []
             \<and> (dotAll \<or> list_all (\<lambda>d. d \<noteq> CHR 0x0A \<and> d \<noteq> CHR 0x0D) (butlast body))
          then Some (butlast body) else None)"

definition nestedMatch :: "bool \<Rightarrow> string \<Rightarrow> (string option \<times> string \<times> string) option" where
  "nestedMatch dotAll f =
     (let w = takeWhile word_char f; r = dropWhile word_char f in
      if w = [] then None
      else if r \<noteq> [] \<and> hd r = CHR '':''
      then (let w2 = takeWhile word_char (tl r); r2 = dropWhile word_char (tl r) in
            if w2 = [] then None
            else map_option (\<lambda>sub. (Some w, w2, sub)) (nestedTail dotAll r2))
      else map_option (\<lambda>sub. (None, w, sub)) (nestedTail dotAll r))"

lemma nestedTail_length: "nestedTail b r = Some sub \<Longrightarrow> length sub < length r"
  by (auto simp: nestedTail_def split: list.splits if_splits)

lemma nestedMatch_length: "nestedMatch b f = Some (a, rel, sub) \<Longrightarrow> length sub < length f"
proof -
  assume m: "nestedMatch b f = Some (a, rel, sub)"
  have d: "length (dropWhile word_char t) \<le> length t" for t by (rule length_dropWhile_le)
  from m d [of f] d [of "tl (dropWhile word_char f)"] show ?thesis
    by (auto simp: nestedMatch_def Let_def dest!: nestedTail_length split: if_splits)
qed

definition relationName :: "string option \<Rightarrow> string \<Rightarrow> string" where
  "relationName alias rel = (case alias of Some a \<Rightarrow> a @ '': '' @ rel | None \<Rightarrow> rel)"

function parseSelectFields :: "string \<Rightarrow> string" where
  "parseSelectFields sel =
     js_join (nl @ ''    '') (map (\<lambda>f.
       case nestedMatch True f of
         Some (alias, rel, subFields) \<Rightarrow>
           relationName alias rel @ '' { '' @ parseSelectFields subFields @ '' }''
       | None \<Rightarrow> f) (splitByComma sel))"
  by auto
termination
proof (relation "measure length")
  fix sel f x a y rel subFields
  assume "f \<in> set (splitByComma sel)" "nestedMatch True f = Some x" "(a, y) = x" "(rel, subFields) = y"
  then show "(subFields, sel) \<in> measure length"
    using nestedMatch_length [of True f a rel subFields] splitByComma_length [of f sel] by simp
qed simp

declare parseSelectFields.simps [simp del]

subsection \<open>Values\<close>

text \<open>\<open>s.replace(/c/g, r)\<close> for a single character \<open>c\<close>.\<close>

definition replaceAll :: "char \<Rightarrow> string \<Rightarrow> string \<Rightarrow> string" where
  "replaceAll c r s = concat (map (\<lambda>x. if x = c then r else [x]) s)"

definition escapeGraphQLString :: "string \<Rightarrow> string" where
  "escapeGraphQLString str =
     replaceAll (CHR 0x0D) [CHR 0x5C, CHR ''r'']
       (replaceAll (CHR 0x0A) [CHR 0x5C, CHR ''n'']
         (replaceAll (CHR 0x22) [CHR 0x5C, CHR 0x22]
           (replaceAll (CHR 0x5C) [CHR 0x5C, CHR 0x5C] str)))"

definition quoted :: "string \<Rightarrow> string" where
  "quoted s = CHR 0x22 # s @ [CHR 0x22]"

fun serializeValue :: "(rat \<Rightarrow> string) \<Rightarrow> jsval \<Rightarrow> string" where
  "serializeValue nts (JStr s) = quoted (escapeGraphQLString s)"
| "serializeValue nts (JArr vs) = ''['' @ js_join '', '' (map (serializeValue nts) vs) @ '']''"
| "serializeValue nts JNull = ''null''"
| "serializeValue nts (JBool b) = (if b then ''true'' else ''false'')"
| "serializeValue nts (JDate iso8601) = quoted iso8601"
| "serializeValue nts (JObj ps) =
     ''{'' @ js_join '', '' (map (\<lambda>(k, v). k @ '': '' @ serializeValue nts v) ps) @ ''}''"
| "serializeValue nts (JNum x) = numberToString nts x"
| "serializeValue nts JUndef = ''undefined''"
| "serializeValue nts (JOther s) = s"

definition serializeObject :: "(rat \<Rightarrow> string) \<Rightarrow> (string \<times> jsval) list \<Rightarrow> string" where
  "serializeObject nts ps =
     ''{'' @ js_join '', '' (map (\<lambda>(k, v). k @ '': '' @ serializeValue nts v) ps) @ ''}''"

subsection \<open>Clauses, queries and mutations\<close>

definition boolText :: "bool \<Rightarrow> string" where
  "boolText b = (if b then ''true'' else ''false'')"

definition condText :: "(rat \<Rightarrow> string) \<Rightarrow> filterItem \<Rightarrow> string" where
  "condText nts c =
     (if op c = ''_is_null''
      then column c @ '': {_is_null: '' @ boolText (js_truthy (filterValue c)) @ ''}''
      else column c @ '': {'' @ op c @ '': '' @ serializeValue nts (filterValue c) @ ''}'')"

fun whereText :: "(rat \<Rightarrow> string) \<Rightarrow> whereItem \<Rightarrow> string" where
  "whereText nts (OrCond conditions) =
     ''_or: ['' @ js_join '', '' (map (\<lambda>c. ''{'' @ condText nts c @ ''}'') conditions) @ '']''"
| "whereText nts (Cond c) = condText nts c"

definition buildWhereClause :: "(rat \<Rightarrow> string) \<Rightarrow> whereItem list \<Rightarrow> string" where
  "buildWhereClause nts fs =
     (if fs = [] then [] else ''where: {'' @ js_join '', '' (map (whereText nts) fs) @ ''}'')"

definition buildOrderByClause :: "orderByItem list \<Rightarrow> string" where
  "buildOrderByClause os =
     (if os = [] then []
      else ''order_by: {''
        @ js_join '', '' (map (\<lambda>o1. orderColumn o1 @ '': '' @ (if ascending o1 then ''asc'' else ''desc'')) os)
        @ ''}'')"

definition queryArgs :: "(rat \<Rightarrow> string) \<Rightarrow> queryState \<Rightarrow> string list" where
  "queryArgs nts st =
     (let w = buildWhereClause nts (filters st); ord = buildOrderByClause (orderBy st);
          lim = (if isSingle st then Some 1 else limit st)
      in (if w \<noteq> [] then [w] else []) @ (if ord \<noteq> [] then [ord] else [])
         @ (case offset st of Some k \<Rightarrow> [''offset: '' @ numberToString nts k] | None \<Rightarrow> [])
         @ (case lim of Some k \<Rightarrow> [''limit: '' @ numberToString nts k] | None \<Rightarrow> []))"

definition buildQuery :: "(rat \<Rightarrow> string) \<Rightarrow> queryState \<Rightarrow> string" where
  "buildQuery nts st =
     (let as = queryArgs nts st;
          argsStr = (if as \<noteq> [] then ''('' @ js_join '', '' as @ '')'' else [])
      in ''query {'' @ nl @ ''  '' @ table st @ argsStr @ '' {'' @ nl
         @ ''    '' @ parseSelectFields (selectFields st) @ nl @ ''  }'' @ nl @ ''}'')"

text \<open>The three option types of \<open>buildMutation\<close>, each with its optional \<open>returning\<close>.\<close>

datatype mutation =
    InsertMutation "(string \<times> jsval) list list" string
  | UpdateMutation "(string \<times> jsval) list" "(string \<times> jsval) list"
  | DeleteMutation "(string \<times> jsval) list"

definition selectionText :: "string option \<Rightarrow> string" where
  "selectionText returning =
     (case returning of
        Some r \<Rightarrow> if r \<noteq> []
          then ''returning {'' @ nl @ ''    '' @ parseSelectFields r @ nl @ ''  }''
          else ''affected_rows''
      | None \<Rightarrow> ''affected_rows'')"

definition mutationText :: "string \<Rightarrow> string \<Rightarrow> string" where
  "mutationText call selection =
     ''mutation {'' @ nl @ ''  '' @ call @ '' {'' @ nl @ ''    '' @ selection @ nl @ ''  }'' @ nl @ ''}''"

fun buildMutation :: "(rat \<Rightarrow> string) \<Rightarrow> string \<Rightarrow> mutation \<Rightarrow> string option \<Rightarrow> string" where
  "buildMutation nts tbl (InsertMutation objects onConflict) returning =
     mutationText (''insert_'' @ tbl @ ''(objects: ['' @ js_join '', '' (map (serializeObject nts) objects)
       @ '']'' @ onConflict @ '')'') (selectionText returning)"
| "buildMutation nts tbl (UpdateMutation sets conds) returning =
     mutationText (''update_'' @ tbl @ ''(where: '' @ serializeObject nts conds @ '', _set: ''
       @ serializeObject nts sets @ '')'') (selectionText returning)"
| "buildMutation nts tbl (DeleteMutation conds) returning =
     mutationText (''delete_'' @ tbl @ ''(where: '' @ serializeObject nts conds @ '')'')
       (selectionText returning)"

end
