(* ===== verification/Graphql_Syntax.thy ===== *)
theory Graphql_Syntax
  imports Graphql_Builder
begin

text \<open>
  What the texts of \<open>Graphql_Builder\<close> mean to a GraphQL server. \<open>lexString\<close> and the reader
  \<open>gvalue\<close> follow the lexical rules of GraphQL input values; the properties show that the
  server reads back the values and conditions the caller gave, whatever the strings contain, and
  that the select syntax of the SDK is translated as its abstract syntax says.
\<close>

subsection \<open>Reading values\<close>

text \<open>A string literal after its opening quote: the string and the rest of the input. A raw line
  terminator ends the literal in an error. The escape \<open>\u\<close> is not needed by the builder.\<close>

definition unescape :: "char \<Rightarrow> char option" where
  "unescape c =
     (if c = CHR 0x22 then Some (CHR 0x22) else if c = CHR 0x5C then Some (CHR 0x5C)
      else if c = CHR ''/'' then Some (CHR ''/'') else if c = CHR ''b'' then Some (CHR 0x08)
      else if c = CHR ''f'' then Some (CHR 0x0C) else if c = CHR ''n'' then Some (CHR 0x0A)
      else if c = CHR ''r'' then Some (CHR 0x0D) else if c = CHR ''t'' then Some (CHR 0x09)
      else None)"

fun lexString :: "string \<Rightarrow> (string \<times> string) option" where
  "lexString [] = None"
| "lexString (c # s) =
     (if c = CHR 0x22 then Some ([], s)
      else if c = CHR 0x0A \<or> c = CHR 0x0D then None
      else if c = CHR 0x5C
      then (case s of
              [] \<Rightarrow> None
            | e # s2 \<Rightarrow> (case unescape e of
                None \<Rightarrow> None
              | Some d \<Rightarrow> map_option (\<lambda>(a, r). (d # a, r)) (lexString s2)))
      else map_option (\<lambda>(a, r). (c # a, r)) (lexString s))"

definition ignored :: "char \<Rightarrow> bool" where
  "ignored c \<longleftrightarrow> c \<in> {CHR '' '', CHR '','', CHR 0x09, CHR 0x0A, CHR 0x0D}"

definition gnumber :: "string \<Rightarrow> jsval \<times> string" where
  "gnumber s =
     (case s of
        c # r \<Rightarrow> if c = CHR ''-''
                then (JNum (- of_nat (digits_value (takeWhile js_is_digit r))), dropWhile js_is_digit r)
                else (JNum (of_nat (digits_value (takeWhile js_is_digit s))), dropWhile js_is_digit s)
      | [] \<Rightarrow> (JNull, []))"

definition gname :: "string \<Rightarrow> (jsval \<times> string) option" where
  "gname s =
     (let w = takeWhile word_char s; r = dropWhile word_char s in
      if w = ''null'' then Some (JNull, r) else if w = ''true'' then Some (JBool True, r)
      else if w = ''false'' then Some (JBool False, r) else None)"

text \<open>Values, the elements of a list up to its bracket, the fields of an object up to its brace.\<close>

fun gvalue :: "nat \<Rightarrow> string \<Rightarrow> (jsval \<times> string) option"
  and glist :: "nat \<Rightarrow> string \<Rightarrow> (jsval list \<times> string) option"
  and gobject :: "nat \<Rightarrow> string \<Rightarrow> ((string \<times> jsval) list \<times> string) option" where
  "gvalue 0 s = None"
| "gvalue (Suc n) s =
     (case dropWhile ignored s of
        [] \<Rightarrow> None
      | c # r \<Rightarrow>
          if c = CHR 0x22 then map_option (\<lambda>(a, r). (JStr a, r)) (lexString r)
          else if c = CHR ''['' then map_option (\<lambda>(a, r). (JArr a, r)) (glist n r)
          else if c = CHR 0x7B then map_option (\<lambda>(a, r). (JObj a, r)) (gobject n r)
          else if c = CHR ''-'' \<or> js_is_digit c then Some (gnumber (c # r))
          else gname (c # r))"
| "glist 0 s = None"
| "glist (Suc n) s =
     (case dropWhile ignored s of
        [] \<Rightarrow> None
      | c # r \<Rightarrow>
          if c = CHR '']'' then Some ([], r)
          else (case gvalue n s of
                  None \<Rightarrow> None
                | Some (v, t) \<Rightarrow> map_option (\<lambda>(vs, u). (v # vs, u)) (glist n t)))"
| "gobject 0 s = None"
| "gobject (Suc n) s =
     (let s1 = dropWhile ignored s; k = takeWhile word_char s1;
          s2 = dropWhile ignored (dropWhile word_char s1) in
      if s1 \<noteq> [] \<and> hd s1 = CHR 0x7D then Some ([], tl s1)
      else if k = [] \<or> s2 = [] \<or> hd s2 \<noteq> CHR '':'' then None
      else (case gvalue n (tl s2) of
              None \<Rightarrow> None
            | Some (v, t) \<Rightarrow> map_option (\<lambda>(ps, u). ((k, v) # ps, u)) (gobject n t)))"

text \<open>The values a GraphQL literal can carry: no \<open>undefined\<close>, integral numbers that \<open>String(n)\<close>
  prints as digits, and keys that are names.\<close>

definition gname_ok :: "string \<Rightarrow> bool" where
  "gname_ok k \<longleftrightarrow> k \<noteq> [] \<and> list_all word_char k"

fun gql_ok :: "jsval \<Rightarrow> bool" where
  "gql_ok (JStr s) = True"
| "gql_ok JNull = True"
| "gql_ok (JBool b) = True"
| "gql_ok (JNum x) = (x = of_int \<lfloor>x\<rfloor> \<and> \<bar>x\<bar> < 10 ^ 21)"
| "gql_ok (JArr vs) = list_all gql_ok vs"
| "gql_ok (JObj ps) = list_all (\<lambda>(k, v). gname_ok k \<and> gql_ok v) ps"
| "gql_ok _ = False"

definition stops :: "string \<Rightarrow> bool" where
  "stops r \<longleftrightarrow> r = [] \<or> \<not> word_char (hd r)"

subsection \<open>Strings\<close>

definition escapeChar :: "char \<Rightarrow> string" where
  "escapeChar c =
     (if c = CHR 0x5C then [CHR 0x5C, CHR 0x5C] else if c = CHR 0x22 then [CHR 0x5C, CHR 0x22]
      else if c = CHR 0x0A then [CHR 0x5C, CHR ''n''] else if c = CHR 0x0D then [CHR 0x5C, CHR ''r'']
      else [c])"

lemma replaceAll_simps [simp]:
  "replaceAll c r [] = []"
  "replaceAll c r (x # s) = (if x = c then r else [x]) @ replaceAll c r s"
  "replaceAll c r (s @ t) = replaceAll c r s @ replaceAll c r t"
  by (simp_all add: replaceAll_def)

lemma escapeGraphQLString_chars: "escapeGraphQLString s = concat (map escapeChar s)"
  by (induction s) (simp_all add: escapeGraphQLString_def escapeChar_def)

lemma lexString_escape: "lexString (escapeGraphQLString s @ CHR 0x22 # rest) = Some (s, rest)"
  by (induction s) (simp_all add: escapeGraphQLString_chars escapeChar_def unescape_def)

subsection \<open>Numbers and names\<close>

lemma takeWhile_run:
  "list_all P a \<Longrightarrow> r = [] \<or> \<not> P (hd r) \<Longrightarrow> takeWhile P (a @ r) = a \<and> dropWhile P (a @ r) = r"
  by (induction a) (cases r; auto)+

lemma digit_word [simp]: "js_is_digit c \<Longrightarrow> word_char c"
  by (simp add: word_char_def js_is_alnum_def)

lemma digit_not_ignored: "js_is_digit c \<or> word_char c \<Longrightarrow> \<not> ignored c"
  by (auto simp: js_is_digit_def word_char_def js_is_alnum_def js_is_alpha_def js_is_lower_def
      js_is_upper_def ignored_def)

lemma digit_not_mark:
  "word_char c \<Longrightarrow> c \<noteq> CHR 0x22 \<and> c \<noteq> CHR ''['' \<and> c \<noteq> CHR '']'' \<and> c \<noteq> CHR 0x7B \<and> c \<noteq> CHR 0x7D
     \<and> c \<noteq> CHR '':'' \<and> c \<noteq> CHR ''-'' \<and> c \<noteq> CHR '','' \<and> c \<noteq> CHR ''('' \<and> c \<noteq> CHR '')''"
  by (auto simp: js_is_digit_def word_char_def js_is_alnum_def js_is_alpha_def js_is_lower_def
      js_is_upper_def)

lemma not_word [simp]:
  "\<not> word_char (CHR '']'')" "\<not> word_char (CHR 0x7D)" "\<not> word_char (CHR '','')"
  "\<not> word_char (CHR '':'')" "\<not> word_char (CHR ''('')" "\<not> word_char (CHR '')'')" "\<not> word_char (CHR 0x22)"
  "\<not> word_char (CHR ''['')" "\<not> word_char (CHR 0x7B)" "\<not> word_char (CHR ''-'')"
  using digit_not_mark by blast+

lemma not_digit [simp]: "\<not> word_char c \<Longrightarrow> \<not> js_is_digit c"
  by auto

lemma nat_to_string_run:
  "stops r \<Longrightarrow> takeWhile js_is_digit (nat_to_string n @ r) = nat_to_string n
     \<and> dropWhile js_is_digit (nat_to_string n @ r) = r"
  using takeWhile_run [of js_is_digit "nat_to_string n" r] nat_to_string_digits [of n]
    digit_word [of "hd r"]
  by (auto simp: list_all_iff stops_def simp del: digit_word)

lemma nat_to_string_hd: "\<exists>c t. nat_to_string n = c # t \<and> js_is_digit c"
  using nat_to_string_not_Nil [of n] nat_to_string_digits [of n] by (cases "nat_to_string n") auto

lemma gnumber_int: "stops r \<Longrightarrow> gnumber (int_to_string i @ r) = (JNum (of_int i), r)"
proof (cases "i < 0")
  case True
  assume "stops r"
  with True show ?thesis
    by (simp add: int_to_string_def gnumber_def nat_to_string_run digits_value_nat_to_string)
next
  case False
  assume "stops r"
  obtain c t where ct: "nat_to_string (nat i) = c # t" "js_is_digit c"
    using nat_to_string_hd by blast
  have "c \<noteq> CHR ''-''" using ct(2) digit_not_mark [of c] by simp
  moreover have "takeWhile js_is_digit (c # t @ r) = c # t" "dropWhile js_is_digit (c # t @ r) = r"
    using nat_to_string_run [OF \<open>stops r\<close>, of "nat i"] ct by simp_all
  moreover have "digits_value (c # t) = nat i"
    using digits_value_nat_to_string [of "nat i"] ct by simp
  ultimately show ?thesis using False ct by (simp add: int_to_string_def gnumber_def)
qed

lemma int_to_string_hd: "\<exists>c t. int_to_string i = c # t \<and> (c = CHR ''-'' \<or> js_is_digit c)"
  using nat_to_string_hd [of "nat i"] by (auto simp: int_to_string_def)

lemma gname_run:
  "list_all word_char w \<Longrightarrow> stops r \<Longrightarrow>
     gname (w @ r) = (if w = ''null'' then Some (JNull, r) else if w = ''true'' then Some (JBool True, r)
                      else if w = ''false'' then Some (JBool False, r) else None)"
  using takeWhile_run [of word_char w r] by (auto simp: gname_def stops_def Let_def)

subsection \<open>Reading back what was printed\<close>

lemma gvalue_skip: "list_all ignored i \<Longrightarrow> gvalue n (i @ s) = gvalue n s"
  by (cases n) (induction i; simp)+

lemma glist_skip: "list_all ignored i \<Longrightarrow> glist n (i @ s) = glist n s"
proof (induction i)
  case (Cons c i)
  then have "gvalue m (c # i @ s) = gvalue m s" for m using gvalue_skip [of "c # i" m s] by simp
  moreover have "gvalue m (i @ s) = gvalue m s" for m using gvalue_skip [of i m s] Cons.prems by simp
  moreover have "dropWhile ignored (i @ s) = dropWhile ignored s"
    using Cons.prems by (induction i) auto
  ultimately show ?case using Cons.prems
    by (cases n; cases "dropWhile ignored s") (simp_all del: dropWhile_eq_Nil_conv)
qed simp

lemma gobject_skip: "list_all ignored i \<Longrightarrow> gobject n (i @ s) = gobject n s"
  by (cases n) (induction i; simp)+

definition reads :: "(rat \<Rightarrow> string) \<Rightarrow> jsval \<Rightarrow> bool" where
  "reads nts v \<longleftrightarrow>
     (\<exists>k. \<forall>n\<ge>k. \<forall>r. stops r \<longrightarrow> gvalue n (serializeValue nts v @ r) = Some (v, r))"

lemma readsI:
  assumes "\<And>n r. k \<le> n \<Longrightarrow> stops r \<Longrightarrow> gvalue (Suc n) (serializeValue nts v @ r) = Some (v, r)"
  shows "reads nts v"
proof -
  have "gvalue n (serializeValue nts v @ r) = Some (v, r)" if "Suc k \<le> n" "stops r" for n r
    using assms [of "n - 1" r] that by (cases n) simp_all
  then show ?thesis unfolding reads_def by blast
qed

lemma serializeValue_hd:
  assumes "gql_ok v"
  shows "\<exists>c t. serializeValue nts v = c # t \<and> \<not> ignored c \<and> c \<noteq> CHR '']''"
proof (cases v)
  case (JNum x)
  obtain c t where "int_to_string \<lfloor>x\<rfloor> = c # t" "c = CHR ''-'' \<or> js_is_digit c"
    using int_to_string_hd by blast
  moreover from this(2) have "\<not> ignored c \<and> c \<noteq> CHR '']''"
    using digit_not_ignored [of c] by (auto simp: ignored_def)
  ultimately show ?thesis using assms JNum by (simp add: numberToString_def)
qed (use assms in \<open>auto simp: quoted_def ignored_def\<close>)

lemma glist_reads:
  assumes "\<And>v. v \<in> set vs \<Longrightarrow> reads nts v \<and> gql_ok v"
  shows "\<exists>k. \<forall>n\<ge>k. \<forall>r. glist n (concat (map (\<lambda>v. '', '' @ serializeValue nts v) vs) @ CHR '']'' # r)
            = Some (vs, r)"
  using assms
proof (induction vs)
  case Nil
  have "glist n (CHR '']'' # r) = Some ([], r)" if "1 \<le> n" for n r
    using that by (cases n) (simp_all add: ignored_def)
  then show ?case by auto
next
  case (Cons v vs)
  let ?t = "\<lambda>r. concat (map (\<lambda>v. '', '' @ serializeValue nts v) vs) @ CHR '']'' # r"
  obtain k1 where k1: "\<And>n r. k1 \<le> n \<Longrightarrow> glist n (?t r) = Some (vs, r)"
    using Cons.IH Cons.prems by (meson list.set_intros(2))
  obtain k2 where k2: "\<And>n r. k2 \<le> n \<Longrightarrow> stops r \<Longrightarrow> gvalue n (serializeValue nts v @ r) = Some (v, r)"
    using Cons.prems [of v] by (auto simp: reads_def)
  obtain c t where hd: "serializeValue nts v = c # t" "\<not> ignored c" "c \<noteq> CHR '']''"
    using serializeValue_hd [of v nts] Cons.prems [of v] by auto
  have st: "stops (?t r)" for r by (cases vs) (auto simp: stops_def digit_not_mark)
  have "glist n ('', '' @ serializeValue nts v @ ?t r) = Some (v # vs, r)" if n: "Suc (max k1 k2) \<le> n" for n r
  proof -
    obtain m where m: "n = Suc m" "k1 \<le> m" "k2 \<le> m" using n by (cases n) auto
    have "glist n ('', '' @ serializeValue nts v @ ?t r) = glist n (serializeValue nts v @ ?t r)"
      by (rule glist_skip) (simp add: ignored_def)
    also have "\<dots> = Some (v # vs, r)"
      using k1 [OF m(2)] k2 [OF m(3) st [of r]] hd by (simp add: m(1))
    finally show ?thesis .
  qed
  then show ?case by (intro exI [of _ "Suc (max k1 k2)"]) simp
qed

lemma gobject_reads:
  assumes "\<And>k v. (k, v) \<in> set ps \<Longrightarrow> reads nts v \<and> gname_ok k"
  shows "\<exists>b. \<forall>n\<ge>b. \<forall>r.
    gobject n (concat (map (\<lambda>(k, v). '', '' @ k @ '': '' @ serializeValue nts v) ps) @ CHR 0x7D # r)
      = Some (ps, r)"
  using assms
proof (induction ps)
  case Nil
  have "gobject n (CHR 0x7D # r) = Some ([], r)" if "1 \<le> n" for n r
    using that by (cases n) (simp_all add: ignored_def)
  then show ?case by auto
next
  case (Cons p ps)
  obtain k v where p: "p = (k, v)" by fastforce
  let ?t = "\<lambda>r. concat (map (\<lambda>(k, v). '', '' @ k @ '': '' @ serializeValue nts v) ps) @ CHR 0x7D # r"
  obtain k1 where k1: "\<And>n r. k1 \<le> n \<Longrightarrow> gobject n (?t r) = Some (ps, r)"
    using Cons.IH Cons.prems by (meson list.set_intros(2))
  obtain k2 where k2: "\<And>n r. k2 \<le> n \<Longrightarrow> stops r \<Longrightarrow> gvalue n (serializeValue nts v @ r) = Some (v, r)"
    using Cons.prems [of k v] p by (auto simp: reads_def)
  have kw: "list_all word_char k" "k \<noteq> []" using Cons.prems [of k v] p by (auto simp: gname_ok_def)
  then obtain c t where ct: "k = c # t" "word_char c" by (cases k) auto
  have st: "stops (?t r)" for r by (cases ps) (auto simp: stops_def digit_not_mark)
  have run: "takeWhile word_char (k @ CHR '':'' # u) = k \<and> dropWhile word_char (k @ CHR '':'' # u) = CHR '':'' # u"
    for u using takeWhile_run [of word_char k "CHR '':'' # u"] kw by simp
  have step: "gobject (Suc m) (k @ '': '' @ serializeValue nts v @ ?t r) = Some ((k, v) # ps, r)"
    if m: "k1 \<le> m" "k2 \<le> m" for m r
  proof -
    have dw: "dropWhile ignored (k @ u) = k @ u" for u
      using ct digit_not_ignored [of c] by simp
    have "gvalue m (CHR '' '' # serializeValue nts v @ ?t r) = Some (v, ?t r)"
      using gvalue_skip [of "'' ''" m "serializeValue nts v @ ?t r"] k2 [OF m(2) st [of r]]
      by (simp add: ignored_def)
    with k1 [OF m(1), of r] run [of "CHR '' '' # serializeValue nts v @ ?t r"] dw kw ct digit_not_mark [of c]
    show ?thesis by (simp add: Let_def ignored_def)
  qed
  have "gobject n ('', '' @ k @ '': '' @ serializeValue nts v @ ?t r) = Some ((k, v) # ps, r)"
    if n: "Suc (max k1 k2) \<le> n" for n r
  proof -
    obtain m where m: "n = Suc m" "k1 \<le> m" "k2 \<le> m" using n by (cases n) auto
    show ?thesis unfolding m(1) by (subst gobject_skip) (use step [OF m(2,3)] in \<open>simp_all add: ignored_def\<close>)
  qed
  then show ?case using p by (intro exI [of _ "Suc (max k1 k2)"]) simp
qed

lemma js_join_concat: "js_join sep (map f (x # xs)) = f x @ concat (map (\<lambda>v. sep @ f v) xs)"
  by (induction xs arbitrary: x) (simp_all add: js_join_Cons)

lemma glist_join:
  "glist n (js_join '', '' (map f vs) @ r) = glist n (concat (map (\<lambda>v. '', '' @ f v) vs) @ r)"
proof (cases vs)
  case (Cons v vs')
  show ?thesis unfolding Cons js_join_concat
    using glist_skip [of "'', ''" n "f v @ concat (map (\<lambda>v. '', '' @ f v) vs') @ r"] by (simp add: ignored_def)
qed simp

lemma gobject_join:
  "gobject n (js_join '', '' (map f ps) @ r) = gobject n (concat (map (\<lambda>p. '', '' @ f p) ps) @ r)"
proof (cases ps)
  case (Cons p ps')
  show ?thesis unfolding Cons js_join_concat
    using gobject_skip [of "'', ''" n "f p @ concat (map (\<lambda>p. '', '' @ f p) ps') @ r"] by (simp add: ignored_def)
qed simp

lemma reads_JStr: "reads nts (JStr t)"
  by (rule readsI [of 0]) (simp add: quoted_def ignored_def lexString_escape)

lemma reads_JNum: "gql_ok (JNum x) \<Longrightarrow> reads nts (JNum x)"
proof (rule readsI [of 0])
  fix n r
  assume "gql_ok (JNum x)" "stops r"
  moreover obtain c t where ct: "int_to_string \<lfloor>x\<rfloor> = c # t" "c = CHR ''-'' \<or> js_is_digit c"
    using int_to_string_hd by blast
  moreover have "\<not> ignored c" "c \<noteq> CHR 0x22" "c \<noteq> CHR ''[''" "c \<noteq> CHR 0x7B"
    using ct(2) digit_not_ignored [of c] by (auto simp: ignored_def)
  moreover have "gnumber ((c # t) @ r) = (JNum (of_int \<lfloor>x\<rfloor>), r)"
    using gnumber_int [OF \<open>stops r\<close>] ct(1) by metis
  ultimately show "gvalue (Suc n) (serializeValue nts (JNum x) @ r) = Some (JNum x, r)"
    by (simp add: numberToString_def)
qed

lemma reads_name:
  assumes "serializeValue nts v = w" "\<And>r. stops r \<Longrightarrow> gname (w @ r) = Some (v, r)"
    "w \<noteq> []" "\<not> js_is_digit (hd w)" "word_char (hd w)"
  shows "reads nts v"
proof (rule readsI [of 0])
  fix n r
  assume r: "stops r"
  obtain c t where ct: "w = c # t" using assms(3) by (cases w) auto
  have "c \<noteq> CHR 0x22" "c \<noteq> CHR ''[''" "c \<noteq> CHR 0x7B" "c \<noteq> CHR ''-''" "\<not> ignored c"
    using assms(5) ct digit_not_ignored [of c] by auto
  then show "gvalue (Suc n) (serializeValue nts v @ r) = Some (v, r)"
    using assms(1,4) assms(2) [OF r] ct by simp
qed

lemma word_letters [simp]:
  "word_char (CHR ''n'')" "word_char (CHR ''u'')" "word_char (CHR ''l'')" "word_char (CHR ''t'')"
  "word_char (CHR ''r'')" "word_char (CHR ''e'')" "word_char (CHR ''f'')" "word_char (CHR ''a'')"
  "word_char (CHR ''s'')" "\<not> js_is_digit (CHR ''n'')" "\<not> js_is_digit (CHR ''t'')"
  "\<not> js_is_digit (CHR ''f'')"
  by (simp_all add: word_char_def js_is_alnum_def js_is_alpha_def js_is_lower_def js_is_digit_def
      js_is_upper_def)

lemma reads_JArr:
  assumes "\<And>v. v \<in> set vs \<Longrightarrow> reads nts v \<and> gql_ok v"
  shows "reads nts (JArr vs)"
proof -
  obtain k where k: "\<And>n r. k \<le> n \<Longrightarrow>
      glist n (concat (map (\<lambda>v. '', '' @ serializeValue nts v) vs) @ CHR '']'' # r) = Some (vs, r)"
    using glist_reads [OF assms] by blast
  show ?thesis
  proof (rule readsI [of k])
    fix n r
    assume "k \<le> n"
    from k [OF this, of r] show "gvalue (Suc n) (serializeValue nts (JArr vs) @ r) = Some (JArr vs, r)"
      by (simp add: ignored_def glist_join)
  qed
qed

lemma reads_JObj:
  assumes "\<And>k v. (k, v) \<in> set ps \<Longrightarrow> reads nts v \<and> gname_ok k"
  shows "reads nts (JObj ps)"
proof -
  obtain b where b: "\<And>n r. b \<le> n \<Longrightarrow>
      gobject n (concat (map (\<lambda>(k, v). '', '' @ k @ '': '' @ serializeValue nts v) ps) @ CHR 0x7D # r)
        = Some (ps, r)"
    using gobject_reads [OF assms] by blast
  have eq: "(\<lambda>p. '', '' @ (case p of (k, v) \<Rightarrow> k @ '': '' @ serializeValue nts v))
      = (\<lambda>(k, v). '', '' @ k @ '': '' @ serializeValue nts v)" by auto
  show ?thesis
  proof (rule readsI [of b])
    fix n r
    assume "b \<le> n"
    from b [OF this, of r, folded eq]
    show "gvalue (Suc n) (serializeValue nts (JObj ps) @ r) = Some (JObj ps, r)"
      by (simp add: ignored_def gobject_join)
  qed
qed

lemma reads_ok: "gql_ok v \<Longrightarrow> reads nts v"
proof (induction v rule: gql_ok.induct)
  case (3 b)
  show ?case
    by (rule reads_name [where w = "if b then ''true'' else ''false''"])
      (auto simp: gname_run [where w = "''true''", simplified] gname_run [where w = "''false''", simplified])
next
  case 2
  show ?case
    by (rule reads_name [where w = "''null''"]) (auto simp: gname_run [where w = "''null''", simplified])
next
  case (5 vs)
  then show ?case by (intro reads_JArr) (auto simp: list_all_iff)
next
  case (6 ps)
  then show ?case by (intro reads_JObj) (auto simp: list_all_iff)
qed (simp_all add: reads_JStr reads_JNum del: gql_ok.simps(4))

subsection \<open>Conditions\<close>

text \<open>The Hasura condition a filter stands for.\<close>

definition condValue :: "filterItem \<Rightarrow> string \<times> jsval" where
  "condValue c =
     (column c, JObj [(op c, if op c = ''_is_null'' then JBool (js_truthy (filterValue c)) else filterValue c)])"

fun whereField :: "whereItem \<Rightarrow> string \<times> jsval" where
  "whereField (Cond c) = condValue c"
| "whereField (OrCond cs) = (''_or'', JArr (map (\<lambda>c. JObj [condValue c]) cs))"

definition cond_ok :: "filterItem \<Rightarrow> bool" where
  "cond_ok c \<longleftrightarrow> gname_ok (column c) \<and> gname_ok (op c) \<and> (op c = ''_is_null'' \<or> gql_ok (filterValue c))"

fun where_ok :: "whereItem \<Rightarrow> bool" where
  "where_ok (Cond c) = cond_ok c"
| "where_ok (OrCond cs) = list_all cond_ok cs"

lemma condText_value: "condText nts c = (case condValue c of (k, v) \<Rightarrow> k @ '': '' @ serializeValue nts v)"
  by (simp add: condText_def condValue_def boolText_def)

lemma whereText_value: "whereText nts w = (case whereField w of (k, v) \<Rightarrow> k @ '': '' @ serializeValue nts v)"
proof (cases w)
  case (OrCond cs)
  have "(\<lambda>c. ''{'' @ condText nts c @ ''}'') = (\<lambda>c. serializeValue nts (JObj [condValue c]))"
    by (rule ext) (simp add: condText_value split: prod.split)
  then show ?thesis using OrCond by (simp add: comp_def)
qed (simp add: condText_value)

lemma buildWhereClause_value:
  "fs \<noteq> [] \<Longrightarrow> buildWhereClause nts fs = ''where: '' @ serializeValue nts (JObj (map whereField fs))"
proof -
  have "whereText nts = (\<lambda>w. case whereField w of (k, v) \<Rightarrow> k @ '': '' @ serializeValue nts v)"
    by (rule ext) (rule whereText_value)
  then show "fs \<noteq> [] \<Longrightarrow> ?thesis" by (simp add: buildWhereClause_def comp_def)
qed

lemma where_ok_gql: "list_all where_ok fs \<Longrightarrow> gql_ok (JObj (map whereField fs))"
proof -
  have c: "gname_ok (fst (condValue d)) \<and> gql_ok (snd (condValue d))" if "cond_ok d" for d
    using that by (auto simp: cond_ok_def condValue_def)
  have "gname_ok (fst (whereField w)) \<and> gql_ok (snd (whereField w))" if "where_ok w" for w
  proof (cases w)
    case (OrCond cs)
    have "gname_ok ''_or''"
      by (simp add: gname_ok_def word_char_def js_is_alnum_def js_is_alpha_def js_is_lower_def)
    then show ?thesis using that OrCond c by (auto simp: list_all_iff case_prod_beta)
  qed (use that c in auto)
  then show "list_all where_ok fs \<Longrightarrow> ?thesis" by (fastforce simp: list_all_iff split: prod.splits)
qed

subsection \<open>Select lists\<close>

text \<open>The abstract syntax of a select list: columns and nested relations with an optional alias.\<close>

datatype sel = Leaf string | Nest "string option" string "sel list"

fun sdkText :: "sel \<Rightarrow> string" where
  "sdkText (Leaf f) = f"
| "sdkText (Nest a rel subs) =
     (case a of Some al \<Rightarrow> al @ '':'' | None \<Rightarrow> []) @ rel @ ''('' @ js_join '','' (map sdkText subs) @ '')''"

fun gqlText :: "sel \<Rightarrow> string" where
  "gqlText (Leaf f) = f"
| "gqlText (Nest a rel subs) =
     relationName a rel @ '' { '' @ js_join (nl @ ''    '') (map gqlText subs) @ '' }''"

fun sel_ok :: "sel \<Rightarrow> bool" where
  "sel_ok (Leaf f) = gname_ok f"
| "sel_ok (Nest a rel subs) =
     ((case a of Some al \<Rightarrow> gname_ok al | None \<Rightarrow> True) \<and> gname_ok rel \<and> subs \<noteq> [] \<and> list_all sel_ok subs)"

lemma splitLoop_word: "list_all word_char w \<Longrightarrow> splitLoop d cur (w @ s) = splitLoop d (cur @ w) s"
proof (induction w arbitrary: cur)
  case (Cons c w)
  then have "c \<noteq> CHR ''(''" "c \<noteq> CHR '')''" "c \<noteq> CHR '',''" using digit_not_mark [of c] by auto
  with Cons show ?case by (simp add: Let_def)
qed simp

lemma splitLoop_join:
  assumes "\<And>x cur s. x \<in> set xs \<Longrightarrow> splitLoop d cur (f x @ s) = splitLoop d (cur @ f x) s" "d \<noteq> 0"
  shows "splitLoop d cur (js_join '','' (map f xs) @ s) = splitLoop d (cur @ js_join '','' (map f xs)) s"
  using assms(1)
proof (induction xs arbitrary: cur)
  case (Cons x xs)
  show ?case
  proof (cases xs)
    case Nil
    then show ?thesis using Cons.prems by simp
  next
    case (Cons y ys)
    then have "js_join '','' (map f (x # xs)) = f x @ '','' @ js_join '','' (map f xs)" by simp
    then show ?thesis using Cons.IH Cons.prems assms(2) \<open>xs = y # ys\<close>
      by (simp add: Let_def)
  qed
qed simp

lemma splitLoop_sel:
  "sel_ok x \<Longrightarrow> 0 \<le> d \<Longrightarrow> splitLoop d cur (sdkText x @ s) = splitLoop d (cur @ sdkText x) s"
proof (induction x arbitrary: d cur s)
  case (Leaf f)
  then show ?case by (simp add: splitLoop_word gname_ok_def)
next
  case (Nest a rel subs)
  have sub: "splitLoop (d + 1) cur (js_join '','' (map sdkText subs) @ s)
      = splitLoop (d + 1) (cur @ js_join '','' (map sdkText subs)) s" for cur s
    using Nest by (intro splitLoop_join) (auto simp: list_all_iff)
  show ?case using Nest.prems sub
    by (cases a) (simp_all add: gname_ok_def splitLoop_word Let_def)
qed

lemma gname_hd: "gname_ok w \<Longrightarrow> w \<noteq> [] \<and> word_char (hd w) \<and> word_char (last w)"
  by (cases w) (auto simp: gname_ok_def list_all_iff)

lemma sdkText_ends:
  "sel_ok x \<Longrightarrow> sdkText x \<noteq> [] \<and> word_char (hd (sdkText x))
     \<and> (word_char (last (sdkText x)) \<or> last (sdkText x) = CHR '')'')"
proof (cases x)
  case (Leaf f)
  then show "sel_ok x \<Longrightarrow> ?thesis" using gname_hd [of f] by simp
next
  case (Nest a rel subs)
  then show "sel_ok x \<Longrightarrow> ?thesis"
    by (cases a) (auto dest: gname_hd)
qed

lemma word_not_space: "word_char c \<or> c = CHR '')'' \<Longrightarrow> \<not> js_is_space c"
  by (auto simp: js_is_space_def word_char_def js_is_alnum_def js_is_alpha_def js_is_lower_def
      js_is_upper_def js_is_digit_def)

lemma sdkText_trim: "sel_ok x \<Longrightarrow> js_trim (sdkText x) = sdkText x"
  using sdkText_ends [of x] word_not_space by (intro js_trim_id) blast

lemma splitByComma_sdk:
  "list_all sel_ok xs \<Longrightarrow> splitByComma (js_join '','' (map sdkText xs)) = map sdkText xs"
proof -
  have "splitLoop 0 cur (js_join '','' (map sdkText (x # xs))) =
      js_trim (cur @ sdkText x) # map sdkText xs" if "sel_ok x" "list_all sel_ok xs" "cur = []" for x xs cur
    using that
  proof (induction xs arbitrary: x cur)
    case Nil
    then show ?case using splitLoop_sel [of x 0 "[]" "[]"] sdkText_ends [of x] sdkText_trim [of x] by simp
  next
    case (Cons y ys)
    have "splitLoop 0 cur (js_join '','' (map sdkText (x # y # ys)))
        = splitLoop 0 (cur @ sdkText x) (CHR '','' # js_join '','' (map sdkText (y # ys)))"
      using splitLoop_sel [of x 0 cur "CHR '','' # js_join '','' (map sdkText (y # ys))"] Cons.prems by simp
    also have "\<dots> = js_trim (cur @ sdkText x) # splitLoop 0 [] (js_join '','' (map sdkText (y # ys)))"
      by (simp add: Let_def)
    also have "\<dots> = js_trim (cur @ sdkText x) # map sdkText (y # ys)"
      using Cons.IH [of y "[]"] Cons.prems sdkText_trim [of y] by simp
    finally show ?case .
  qed
  then show "list_all sel_ok xs \<Longrightarrow> ?thesis"
    by (cases xs) (simp_all add: splitByComma_def sdkText_trim js_trim_id)
qed

lemma nestedMatch_leaf: "list_all word_char f \<Longrightarrow> nestedMatch b f = None"
  using takeWhile_run [of word_char f "[]"] 
  by (simp add: nestedMatch_def nestedTail_def Let_def del: dropWhile_eq_Nil_conv)

lemma nestedMatch_nest:
  assumes "case a of Some al \<Rightarrow> gname_ok al | None \<Rightarrow> True" "gname_ok rel" "body \<noteq> []"
  shows "nestedMatch True ((case a of Some al \<Rightarrow> al @ '':'' | None \<Rightarrow> []) @ rel @ ''('' @ body @ '')'')
           = Some (a, rel, body)"
proof -
  have tail: "nestedTail True (CHR ''('' # body @ '')'') = Some body"
    using assms(3) by (simp add: nestedTail_def butlast_append)
  have run: "takeWhile word_char (w @ c # r) = w \<and> dropWhile word_char (w @ c # r) = c # r"
    if "gname_ok w" "\<not> word_char c" for w c r
    using takeWhile_run [of word_char w "c # r"] that by (simp add: gname_ok_def)
  show ?thesis
  proof (cases a)
    case None
    then show ?thesis using run [OF assms(2), of "CHR ''(''" "body @ '')''"] tail assms(2)
      by (simp add: nestedMatch_def Let_def gname_ok_def)
  next
    case (Some al)
    then show ?thesis
      using run [of al "CHR '':''" "rel @ ''('' @ body @ '')''"] run [OF assms(2), of "CHR ''(''" "body @ '')''"]
        tail assms by (simp add: nestedMatch_def Let_def gname_ok_def)
  qed
qed

lemma parseSelectFields_sdk:
  "list_all sel_ok xs \<Longrightarrow>
     parseSelectFields (js_join '','' (map sdkText xs)) = js_join (nl @ ''    '') (map gqlText xs)"
proof (induction "size_list size xs" arbitrary: xs rule: less_induct)
  case less
  have "(case nestedMatch True (sdkText x) of
         Some (alias, rel, subFields) \<Rightarrow> relationName alias rel @ '' { '' @ parseSelectFields subFields @ '' }''
       | None \<Rightarrow> sdkText x) = gqlText x" if x: "x \<in> set xs" for x
  proof (cases x)
    case (Leaf f)
    then show ?thesis using less.prems x nestedMatch_leaf [of f] by (auto simp: list_all_iff gname_ok_def)
  next
    case (Nest a rel subs)
    have ok: "sel_ok x" using less.prems x by (simp add: list_all_iff)
    have "size_list size subs < size x" using Nest by simp
    also have "\<dots> \<le> size_list size xs" using x by (simp add: size_list_estimation')
    finally have "parseSelectFields (js_join '','' (map sdkText subs)) = js_join (nl @ ''    '') (map gqlText subs)"
      using less.hyps [of subs] ok Nest by simp
    moreover have "js_join '','' (map sdkText subs) \<noteq> []"
    proof -
      obtain y ys where "subs = y # ys" using ok Nest by (cases subs) auto
      then show ?thesis using ok Nest sdkText_ends [of y] js_join_concat [of "'',''" sdkText y ys] by simp
    qed
    ultimately show ?thesis
      using nestedMatch_nest [of a rel "js_join '','' (map sdkText subs)"] ok Nest by simp
  qed
  then show ?case
    using less.prems by (subst parseSelectFields.simps) (simp add: splitByComma_sdk cong: map_cong)
qed

subsection \<open>Properties\<close>


definition demoValue :: jsval where
  "demoValue = JObj [(''name'', JStr [CHR 0x22, CHR '','', CHR 0x5C, CHR 0x0A]), (''n'', JArr [JNum 3, JNull])]"


text \<open>
  The where clause of a query carries exactly the conditions of its filters: a server that
  reads it after \<open>where:\<close> gets an object with one field per filter, in order, each with the
  filter's operator and value, and an \<open>_or\<close> list for a disjunction.
\<close>

theorem buildWhereClause_meaning:
  assumes "fs \<noteq> []" "list_all where_ok fs"
  shows "\<exists>body k. buildWhereClause nts fs = ''where: '' @ body \<and>
           (\<forall>n\<ge>k. gvalue n body = Some (JObj (map whereField fs), []))"
proof -
  let ?o = "JObj (map whereField fs)"
  obtain k where "\<And>n r. k \<le> n \<Longrightarrow> stops r \<Longrightarrow> gvalue n (serializeValue nts ?o @ r) = Some (?o, r)"
    using reads_ok [OF where_ok_gql [OF assms(2)], of nts] unfolding reads_def by blast
  from this [of _ "[]"] have "gvalue n (serializeValue nts ?o) = Some (?o, [])" if "k \<le> n" for n
    using that by (simp add: stops_def)
  with buildWhereClause_value [OF assms(1), of nts] show ?thesis by blast
qed

definition demoFilters :: "whereItem list" where
  "demoFilters =
     [Cond \<lparr>column = ''id'', op = ''_eq'', filterValue = JStr [CHR 0x22, CHR 0x7D]\<rparr>,
      OrCond [\<lparr>column = ''a'', op = ''_is_null'', filterValue = JNull\<rparr>]]"

theorem buildWhereClause_meaning_witness:
  "demoFilters \<noteq> [] \<and> list_all where_ok demoFilters \<and>
   (\<exists>body k. buildWhereClause (\<lambda>x. []) demoFilters = ''where: '' @ body \<and>
     gvalue k body = Some (JObj (map whereField demoFilters), []))"
proof -
  have ok: "demoFilters \<noteq> []" "list_all where_ok demoFilters"
    by (simp_all add: demoFilters_def cond_ok_def gname_ok_def word_char_def js_is_alnum_def
        js_is_alpha_def js_is_lower_def)
  with buildWhereClause_meaning [OF ok, of "\<lambda>x. []"] show ?thesis by blast
qed

text \<open>
  \<open>parseSelectFields\<close> translates every select list of columns and nested relations, to any
  depth, into the GraphQL selection of the same fields.
\<close>

theorem parseSelectFields_correct:
  assumes "list_all sel_ok xs"
  shows "parseSelectFields (js_join '','' (map sdkText xs)) = js_join (nl @ ''    '') (map gqlText xs)"
  by (rule parseSelectFields_sdk [OF assms])

definition demoSel :: "sel list" where
  "demoSel = [Leaf ''id'', Nest (Some ''o'') ''owner'' [Leaf ''id'', Nest None ''org'' [Leaf ''n'']]]"

theorem parseSelectFields_correct_witness:
  "list_all sel_ok demoSel \<and>
   parseSelectFields (js_join '','' (map sdkText demoSel)) = js_join (nl @ ''    '') (map gqlText demoSel)"
proof -
  have "list_all sel_ok demoSel"
    by (simp add: demoSel_def gname_ok_def word_char_def js_is_alnum_def js_is_alpha_def js_is_lower_def)
  from this parseSelectFields_correct [OF this] show ?thesis by blast
qed

end
