(* ===== verification/Graphql_Response.thy ===== *)
theory Graphql_Response
  imports Prelude
begin

text \<open>
  How the SDK reads the JSON answer of the GraphQL endpoint
  (packages/sdk/src/lib/graphql-response.ts): the payload is either usable data or an error with
  a code and a message. A payload of \<open>JNull\<close> stands for a body that is not JSON.
\<close>

record druviaError =
  errorCode :: string
  errorMessage :: string

definition isRecord :: "jsval \<Rightarrow> bool" where
  "isRecord v = (case v of JObj ps \<Rightarrow> True | JDate d \<Rightarrow> True | _ \<Rightarrow> False)"

definition nonEmptyString :: "jsval \<Rightarrow> string option" where
  "nonEmptyString v = (if js_is_string v \<and> js_trim (js_string_of v) \<noteq> [] then Some (js_string_of v) else None)"

definition getTopLevelMessage :: "jsval \<Rightarrow> string option" where
  "getTopLevelMessage payload = nonEmptyString (js_get payload ''message'')"

text \<open>\<open>a ?? b\<close> for a string or null.\<close>

definition orElse :: "'a option \<Rightarrow> 'a \<Rightarrow> 'a" where
  "orElse x d = (case x of Some v \<Rightarrow> v | None \<Rightarrow> d)"

definition buildBadResponseError :: "jsval option \<Rightarrow> string \<Rightarrow> druviaError" where
  "buildBadResponseError payload fallbackMessage =
     \<lparr>errorCode = ''BAD_RESPONSE'',
      errorMessage = orElse (Option.bind payload getTopLevelMessage) fallbackMessage\<rparr>"

definition parseGraphqlErrorsArray :: "jsval \<Rightarrow> druviaError option" where
  "parseGraphqlErrorsArray payload =
     (case js_get payload ''errors'' of
        JArr (e # es) \<Rightarrow>
          Some \<lparr>errorCode = ''GRAPHQL_ERROR'',
                errorMessage = orElse (if isRecord e then nonEmptyString (js_get e ''message'') else None)
                  ''GraphQL request failed''\<rparr>
      | _ \<Rightarrow> None)"

definition parseTopLevelError :: "jsval \<Rightarrow> druviaError option" where
  "parseTopLevelError payload =
     (let e = js_get payload ''error'' in
      if e = JUndef \<or> e = JNull then None
      else if isRecord e
      then Some \<lparr>errorCode = orElse (nonEmptyString (js_get e ''code'')) ''GRAPHQL_ERROR'',
                 errorMessage = (case nonEmptyString (js_get e ''message'') of
                     Some m \<Rightarrow> m
                   | None \<Rightarrow> orElse (getTopLevelMessage payload) ''GraphQL request failed'')\<rparr>
      else (case nonEmptyString e of
              Some m \<Rightarrow> Some \<lparr>errorCode = ''BAD_RESPONSE'', errorMessage = orElse (getTopLevelMessage payload) m\<rparr>
            | None \<Rightarrow> Some (buildBadResponseError (Some payload)
                             ''GraphQL response contained an invalid error payload'')))"

definition hasKey :: "jsval \<Rightarrow> string \<Rightarrow> bool" where
  "hasKey v k = (case v of JObj ps \<Rightarrow> k \<in> set (map fst ps) | _ \<Rightarrow> False)"

definition objectEntries :: "jsval \<Rightarrow> (string \<times> jsval) list" where
  "objectEntries v = (case v of JObj ps \<Rightarrow> ps | _ \<Rightarrow> [])"

definition parseGraphqlResponsePayload :: "jsval \<Rightarrow> druviaError + (string \<times> jsval) list" where
  "parseGraphqlResponsePayload payload =
     (if \<not> isRecord payload
      then Inl (buildBadResponseError None ''GraphQL response was empty or malformed'')
      else (case parseGraphqlErrorsArray payload of
        Some e \<Rightarrow> Inl e
      | None \<Rightarrow> (case parseTopLevelError payload of
          Some e \<Rightarrow> Inl e
        | None \<Rightarrow>
            if \<not> hasKey payload ''data''
            then Inl (buildBadResponseError (Some payload) ''GraphQL response did not contain a data field'')
            else if \<not> isRecord (js_get payload ''data'')
            then Inl (buildBadResponseError (Some payload) ''GraphQL response did not contain usable data'')
            else if objectEntries (js_get payload ''data'') = []
            then Inl (buildBadResponseError (Some payload) ''GraphQL response data was empty'')
            else Inr (objectEntries (js_get payload ''data'')))))"

text \<open>\<open>readGraphqlResponsePayload\<close>: the parsed body, or null when the body is not JSON.\<close>

definition readGraphqlResponsePayload :: "jsval option \<Rightarrow> jsval" where
  "readGraphqlResponsePayload body = orElse body JNull"

subsection \<open>Properties\<close>

text \<open>No error of the SDK has an empty message or code.\<close>

definition nonblank :: "string \<Rightarrow> bool" where
  "nonblank s \<longleftrightarrow> js_trim s \<noteq> []"

lemma nonEmptyString_Some: "nonEmptyString v = Some m \<Longrightarrow> v = JStr m \<and> nonblank m"
  by (auto simp: nonEmptyString_def nonblank_def js_is_string_iff split: if_splits)

definition errorReported :: "jsval \<Rightarrow> bool" where
  "errorReported payload \<longleftrightarrow>
     (\<exists>e es. js_get payload ''errors'' = JArr (e # es)) \<or> js_get payload ''error'' \<notin> {JUndef, JNull}"

definition noData :: "jsval \<Rightarrow> bool" where
  "noData payload \<longleftrightarrow> (\<nexists>d. d \<noteq> [] \<and> js_get payload ''data'' = JObj d)"

lemma parseGraphqlErrorsArray_None:
  "parseGraphqlErrorsArray p = None \<longleftrightarrow> \<not> (\<exists>e es. js_get p ''errors'' = JArr (e # es))"
  by (auto simp: parseGraphqlErrorsArray_def split: jsval.splits list.splits)

lemma parseTopLevelError_None: "parseTopLevelError p = None \<longleftrightarrow> js_get p ''error'' \<in> {JUndef, JNull}"
  by (auto simp: parseTopLevelError_def Let_def split: option.splits)

definition goodError :: "druviaError \<Rightarrow> bool" where
  "goodError e \<longleftrightarrow> nonblank (errorCode e) \<and> nonblank (errorMessage e)"

lemma nonblankI: "s \<noteq> [] \<Longrightarrow> \<not> js_is_space (hd s) \<Longrightarrow> \<not> js_is_space (last s) \<Longrightarrow> nonblank s"
  using js_trim_id [of s] by (auto simp: nonblank_def)

lemma nonblank_texts [simp]:
  "nonblank ''BAD_RESPONSE''" "nonblank ''GRAPHQL_ERROR''" "nonblank ''GraphQL request failed''"
  "nonblank ''GraphQL response contained an invalid error payload''"
  "nonblank ''GraphQL response was empty or malformed''"
  "nonblank ''GraphQL response did not contain a data field''"
  "nonblank ''GraphQL response did not contain usable data''"
  "nonblank ''GraphQL response data was empty''"
  by (rule nonblankI; simp add: js_is_space_def)+

lemma orElse_nonblank: "nonblank d \<Longrightarrow> (\<And>m. x = Some m \<Longrightarrow> nonblank m) \<Longrightarrow> nonblank (orElse x d)"
  by (cases x) (auto simp: orElse_def)

lemma nonEmptyString_nonblank: "nonEmptyString v = Some m \<Longrightarrow> nonblank m"
  using nonEmptyString_Some by blast

lemma topLevel_nonblank: "getTopLevelMessage p = Some m \<Longrightarrow> nonblank m"
  by (auto simp: getTopLevelMessage_def dest: nonEmptyString_Some)

lemma badResponse_good: "nonblank m \<Longrightarrow> goodError (buildBadResponseError p m)"
  by (auto simp: goodError_def buildBadResponseError_def bind_eq_Some_conv
      intro!: orElse_nonblank dest: topLevel_nonblank)

lemma parseGraphqlErrorsArray_good: "parseGraphqlErrorsArray p = Some e \<Longrightarrow> goodError e"
  by (auto simp: parseGraphqlErrorsArray_def goodError_def
      intro!: orElse_nonblank dest: nonEmptyString_nonblank split: jsval.splits list.splits if_splits)

lemma parseTopLevelError_good: "parseTopLevelError p = Some e \<Longrightarrow> goodError e"
proof -
  assume "parseTopLevelError p = Some e"
  then have "goodError e \<or> e = buildBadResponseError (Some p) ''GraphQL response contained an invalid error payload''"
    by (auto simp: parseTopLevelError_def Let_def goodError_def intro!: orElse_nonblank
        dest: nonEmptyString_nonblank topLevel_nonblank split: option.splits if_splits)
  then show ?thesis using badResponse_good by auto
qed

lemma record_data:
  "isRecord v \<and> objectEntries v \<noteq> [] \<longleftrightarrow> (\<exists>d. d \<noteq> [] \<and> v = JObj d)"
  by (cases v) (auto simp: isRecord_def objectEntries_def)

text \<open>
  A GraphQL payload counts as data exactly when it is an object that reports no error, neither
  a non-empty \<open>errors\<close> array nor a top-level \<open>error\<close>, and whose \<open>data\<close> is a non-empty object;
  the data returned is then that object. Every other payload is an error with a code and a
  message that are not blank.
\<close>

theorem parseGraphqlResponsePayload_spec:
  "case parseGraphqlResponsePayload payload of
      Inr d \<Rightarrow> d \<noteq> [] \<and> js_get payload ''data'' = JObj d \<and> \<not> errorReported payload
    | Inl e \<Rightarrow> nonblank (errorCode e) \<and> nonblank (errorMessage e)
        \<and> (errorReported payload \<or> noData payload)"
proof (cases "\<exists>e. parseGraphqlErrorsArray payload = Some e \<or> parseTopLevelError payload = Some e")
  case True
  then have rep: "errorReported payload"
    using parseGraphqlErrorsArray_None [of payload] parseTopLevelError_None [of payload]
    by (auto simp: errorReported_def)
  have "isRecord payload"
    using rep by (cases payload) (auto simp: errorReported_def isRecord_def)
  then obtain e where "parseGraphqlResponsePayload payload = Inl e" "goodError e"
    using True parseGraphqlErrorsArray_good parseTopLevelError_good
    by (cases "parseGraphqlErrorsArray payload") (auto simp: parseGraphqlResponsePayload_def)
  with rep show ?thesis by (simp add: goodError_def)
next
  case False
  then have no: "\<not> errorReported payload" "parseGraphqlErrorsArray payload = None"
      "parseTopLevelError payload = None"
    using parseGraphqlErrorsArray_None [of payload] parseTopLevelError_None [of payload]
    by (auto simp: errorReported_def simp del: not_None_eq)
  let ?d = "js_get payload ''data''"
  show ?thesis
  proof (cases "isRecord payload \<and> isRecord ?d \<and> objectEntries ?d \<noteq> []")
    case True
    then obtain d where d: "d \<noteq> []" "?d = JObj d" using record_data [of ?d] by auto
    then obtain ps where "payload = JObj ps" "(''data'', JObj d) \<in> set ps"
      by (cases payload) (auto split: option.splits dest: map_of_SomeD)
    then have "hasKey payload ''data''" by (force simp: hasKey_def)
    with True d no show ?thesis by (simp add: parseGraphqlResponsePayload_def objectEntries_def)
  next
    case bad: False
    then have "\<nexists>d. d \<noteq> [] \<and> ?d = JObj d"
      using record_data [of ?d] by (cases payload) (auto simp: isRecord_def)
    moreover have "\<exists>e. parseGraphqlResponsePayload payload = Inl e \<and> goodError e"
      using bad no by (auto simp: parseGraphqlResponsePayload_def intro!: badResponse_good)
    ultimately show ?thesis by (auto simp: goodError_def noData_def)
  qed
qed

end
