(* ===== verification/Query_Builder.thy ===== *)
theory Query_Builder
  imports Graphql_Syntax Graphql_Response "HOL-Library.AList"
begin

text \<open>
  The query builder of the SDK (packages/sdk/src/modules/query-builder.ts): filters, ordering,
  pending operation, resolution of wildcards by introspection with a cache shared by all
  builders, and the execution of the operation. The object a chain of calls returns is the
  builder itself; awaiting it runs \<open>execute\<close>. Column names are no array indices, so that the
  properties of an object keep their insertion order.
\<close>

subsection \<open>State\<close>

datatype rowData = OneRow "(string \<times> jsval) list" | ManyRows "(string \<times> jsval) list list"

datatype pendingOp =
    SelectOp
  | InsertOp rowData
  | UpdateOp "(string \<times> jsval) list"
  | UpsertOp rowData "string option"
  | DeleteOp

record queryBuilder =
  qbTable :: string
  qbSchema :: "string option"
  selectStr :: string
  qbFilters :: "whereItem list"
  orderByItems :: "orderByItem list"
  offsetVal :: "rat option"
  limitVal :: "rat option"
  singleFlag :: bool
  qbOp :: pendingOp
  hasExplicitSelect :: bool

definition newQueryBuilder :: "string \<Rightarrow> string option \<Rightarrow> queryBuilder" where
  "newQueryBuilder tbl schema =
     \<lparr>qbTable = tbl, qbSchema = schema, selectStr = ''*'', qbFilters = [], orderByItems = [],
      offsetVal = None, limitVal = None, singleFlag = False, qbOp = SelectOp, hasExplicitSelect = False\<rparr>"

text \<open>The cache of field names by type, and the queries sent so far, the last one first.\<close>

record sdk =
  fieldCache :: "(string \<times> string list) list"
  sentQueries :: "string list"

text \<open>
  What the builder relies on: the printing and reading of numbers by \<open>String\<close> and \<open>Number\<close>, the
  answer to the n-th request (\<open>Inl\<close> a rejected fetch with its message, \<open>Inr\<close> the parsed body if
  it is JSON), and the text of an engine's \<open>TypeError\<close>.
\<close>

record sdkEnv =
  printNumber :: "rat \<Rightarrow> string"
  readNumber :: "string \<Rightarrow> rat"
  fetchFn :: "nat \<Rightarrow> string \<Rightarrow> string + jsval option"
  typeErrorText :: string

subsection \<open>Building\<close>

definition selectCols :: "string \<Rightarrow> queryBuilder \<Rightarrow> queryBuilder" where
  "selectCols cols b = b\<lparr>selectStr := cols, hasExplicitSelect := True\<rparr>"

definition insertRows :: "rowData \<Rightarrow> queryBuilder \<Rightarrow> queryBuilder" where
  "insertRows d b = b\<lparr>qbOp := InsertOp d\<rparr>"

definition updateRows :: "(string \<times> jsval) list \<Rightarrow> queryBuilder \<Rightarrow> queryBuilder" where
  "updateRows d b = b\<lparr>qbOp := UpdateOp d\<rparr>"

definition upsertRows :: "rowData \<Rightarrow> string option \<Rightarrow> queryBuilder \<Rightarrow> queryBuilder" where
  "upsertRows d onConflict b = b\<lparr>qbOp := UpsertOp d onConflict\<rparr>"

definition deleteRows :: "queryBuilder \<Rightarrow> queryBuilder" where
  "deleteRows b = b\<lparr>qbOp := DeleteOp\<rparr>"

definition pushFilter :: "string \<Rightarrow> string \<Rightarrow> jsval \<Rightarrow> queryBuilder \<Rightarrow> queryBuilder" where
  "pushFilter col oper v b =
     b\<lparr>qbFilters := qbFilters b @ [Cond \<lparr>column = col, op = oper, filterValue = v\<rparr>]\<rparr>"

definition eqFilter :: "string \<Rightarrow> jsval \<Rightarrow> queryBuilder \<Rightarrow> queryBuilder" where
  "eqFilter col v = pushFilter col ''_eq'' v"

definition neqFilter :: "string \<Rightarrow> jsval \<Rightarrow> queryBuilder \<Rightarrow> queryBuilder" where
  "neqFilter col v = pushFilter col ''_neq'' v"

definition inFilter :: "string \<Rightarrow> jsval list \<Rightarrow> queryBuilder \<Rightarrow> queryBuilder" where
  "inFilter col vs = pushFilter col ''_in'' (JArr vs)"

definition gtFilter :: "string \<Rightarrow> jsval \<Rightarrow> queryBuilder \<Rightarrow> queryBuilder" where
  "gtFilter col v = pushFilter col ''_gt'' v"

definition gteFilter :: "string \<Rightarrow> jsval \<Rightarrow> queryBuilder \<Rightarrow> queryBuilder" where
  "gteFilter col v = pushFilter col ''_gte'' v"

definition ltFilter :: "string \<Rightarrow> jsval \<Rightarrow> queryBuilder \<Rightarrow> queryBuilder" where
  "ltFilter col v = pushFilter col ''_lt'' v"

definition lteFilter :: "string \<Rightarrow> jsval \<Rightarrow> queryBuilder \<Rightarrow> queryBuilder" where
  "lteFilter col v = pushFilter col ''_lte'' v"

definition likeFilter :: "string \<Rightarrow> string \<Rightarrow> queryBuilder \<Rightarrow> queryBuilder" where
  "likeFilter col v = pushFilter col ''_like'' (JStr v)"

definition ilikeFilter :: "string \<Rightarrow> string \<Rightarrow> queryBuilder \<Rightarrow> queryBuilder" where
  "ilikeFilter col v = pushFilter col ''_ilike'' (JStr v)"

definition isFilter :: "string \<Rightarrow> jsval \<Rightarrow> queryBuilder \<Rightarrow> queryBuilder" where
  "isFilter col v = pushFilter col ''_is_null'' (JBool (v = JNull))"

definition orderRows :: "string \<Rightarrow> bool option \<Rightarrow> queryBuilder \<Rightarrow> queryBuilder" where
  "orderRows col asc b =
     b\<lparr>orderByItems := orderByItems b
        @ [\<lparr>orderColumn = col, ascending = (case asc of Some a \<Rightarrow> a | None \<Rightarrow> True)\<rparr>]\<rparr>"

definition rangeRows :: "rat \<Rightarrow> rat \<Rightarrow> queryBuilder \<Rightarrow> queryBuilder" where
  "rangeRows lo hi b = b\<lparr>offsetVal := Some lo, limitVal := Some (hi - lo + 1)\<rparr>"

definition limitRows :: "rat \<Rightarrow> queryBuilder \<Rightarrow> queryBuilder" where
  "limitRows n b = b\<lparr>limitVal := Some n\<rparr>"

definition singleRow :: "queryBuilder \<Rightarrow> queryBuilder" where
  "singleRow b = b\<lparr>singleFlag := True\<rparr>"

text \<open>\<open>/^\d+(\.\d+)?$/\<close>.\<close>

definition decimalText :: "string \<Rightarrow> bool" where
  "decimalText s =
     (let r = dropWhile js_is_digit s in
      takeWhile js_is_digit s \<noteq> []
      \<and> (r = [] \<or> (hd r = CHR ''.'' \<and> tl r \<noteq> [] \<and> list_all js_is_digit (tl r))))"

definition orCondition :: "sdkEnv \<Rightarrow> string \<Rightarrow> filterItem" where
  "orCondition env part =
     (let ps = js_split (CHR ''.'') (js_trim part);
          oper = (case tl ps of [] \<Rightarrow> None | o1 # os \<Rightarrow> Some o1);
          v = js_join ''.'' (tl (tl ps)) in
      if oper = Some ''is'' \<and> v = ''null''
      then \<lparr>column = hd ps, op = ''_is_null'', filterValue = JBool True\<rparr>
      else \<lparr>column = hd ps, op = ''_'' @ (case oper of Some o1 \<Rightarrow> o1 | None \<Rightarrow> ''undefined''),
            filterValue = (if v = ''true'' then JBool True else if v = ''false'' then JBool False
              else if decimalText v then JNum (readNumber env v) else JStr v)\<rparr>)"

definition orFilter :: "sdkEnv \<Rightarrow> string \<Rightarrow> queryBuilder \<Rightarrow> queryBuilder" where
  "orFilter env filterString b =
     b\<lparr>qbFilters := qbFilters b @ [OrCond (map (orCondition env) (js_split (CHR '','') filterString))]\<rparr>"

text \<open>The operators \<open>not\<close> knows. (The members every object inherits, such as \<open>toString\<close>, are not
  meant by the table and are left out.)\<close>

definition negationMap :: "(string \<times> string) list" where
  "negationMap =
     [(''eq'', ''_neq''), (''neq'', ''_eq''), (''gt'', ''_lte''), (''gte'', ''_lt''), (''lt'', ''_gte''),
      (''lte'', ''_gt''), (''like'', ''_nlike''), (''ilike'', ''_nilike''), (''is'', ''_is_null'')]"

definition notFilter :: "string \<Rightarrow> string \<Rightarrow> jsval \<Rightarrow> queryBuilder \<Rightarrow> string + queryBuilder" where
  "notFilter col operator v b =
     (case map_of negationMap operator of
        None \<Rightarrow> Inl (''@druvia/sdk: Unsupported not() operator: '' @ quoted operator)
      | Some hasuraOp \<Rightarrow>
          Inr (if operator = ''is'' \<and> v = JNull then pushFilter col ''_is_null'' (JBool False) b
               else pushFilter col hasuraOp v b))"

definition hasuraType :: "string option \<Rightarrow> string \<Rightarrow> string" where
  "hasuraType schema t = (case schema of Some (c # s) \<Rightarrow> (c # s) @ ''_'' @ t | _ \<Rightarrow> t)"

definition hasuraTable :: "queryBuilder \<Rightarrow> string" where
  "hasuraTable b = hasuraType (qbSchema b) (qbTable b)"

definition conditionObject :: "filterItem \<Rightarrow> jsval" where
  "conditionObject c = JObj [(column c, JObj [(op c, filterValue c)])]"

definition putWhere :: "whereItem \<Rightarrow> (string \<times> jsval) list \<Rightarrow> (string \<times> jsval) list" where
  "putWhere f conds =
     (case f of
        OrCond cs \<Rightarrow> AList.update ''_or'' (JArr (map conditionObject cs)) conds
      | Cond c \<Rightarrow> AList.update (column c) (JObj [(op c, filterValue c)]) conds)"

definition buildWhereObject :: "whereItem list \<Rightarrow> (string \<times> jsval) list" where
  "buildWhereObject fs = foldl (\<lambda>conds f. putWhere f conds) [] fs"

subsection \<open>Requests and introspection\<close>

definition sendQuery :: "sdkEnv \<Rightarrow> string \<Rightarrow> sdk \<Rightarrow> sdk \<times> (string + jsval)" where
  "sendQuery env q w =
     (w\<lparr>sentQueries := q # sentQueries w\<rparr>,
      map_sum id readGraphqlResponsePayload (fetchFn env (length (sentQueries w)) q))"

definition spaces :: "nat \<Rightarrow> string" where
  "spaces n = replicate n (CHR '' '')"

definition introspectionQuery :: "string \<Rightarrow> string" where
  "introspectionQuery typeName =
     js_join nl ([''query {'',
        spaces 12 @ ''__type(name: '' @ quoted typeName @ '') {''] @
      map (\<lambda>(n, s). spaces n @ s)
       [(14, ''fields {''), (16, ''name''), (16, ''type {''), (18, ''kind''), (18, ''name''),
        (18, ''ofType {''), (20, ''kind''), (20, ''name''), (20, ''ofType {''), (22, ''kind''),
        (22, ''name''), (22, ''ofType {''), (24, ''kind''), (24, ''name''), (24, ''ofType {''),
        (26, ''kind''), (26, ''name''), (26, ''ofType {''), (28, ''kind''), (28, ''name''),
        (26, ''}''), (24, ''}''), (22, ''}''), (20, ''}''), (18, ''}''), (16, ''}''),
        (14, ''}''), (12, ''}''), (10, ''}'')])"

lemma js_get_size: "v = JObj ps \<Longrightarrow> size (js_get v k) < size v"
proof -
  assume v: "v = JObj ps"
  have "size x \<le> size_list (size_prod (\<lambda>_. 0) size) ps" if "map_of ps k = Some x" for x
    using map_of_SomeD [OF that] size_list_estimation' [of "(k, x)" ps "size x" "size_prod (\<lambda>_. 0) size"]
    by simp
  then show ?thesis by (auto simp: v split: option.split)
qed

text \<open>Scalars and enumerations, under any number of \<open>NON_NULL\<close> and \<open>LIST\<close> wrappers.\<close>

function isSelectableLeaf :: "jsval \<Rightarrow> bool" where
  "isSelectableLeaf ty =
     (let kind = js_get ty ''kind'' in
      if \<not> js_truthy ty then False
      else if kind = JStr ''NON_NULL'' \<or> kind = JStr ''LIST'' then isSelectableLeaf (js_get ty ''ofType'')
      else kind = JStr ''SCALAR'' \<or> kind = JStr ''ENUM'')"
  by auto
termination
proof (relation "measure size")
  fix ty :: jsval and kind
  assume "kind = js_get ty ''kind''" "kind = JStr ''NON_NULL'' \<or> kind = JStr ''LIST''"
  then obtain ps where "ty = JObj ps" by (cases ty) auto
  then show "(js_get ty ''ofType'', ty) \<in> measure size" using js_get_size by simp
qed simp

declare isSelectableLeaf.simps [simp del]

text \<open>The scalar fields; \<open>None\<close> when a field's name is no string, on which \<open>startsWith\<close> throws.\<close>

definition scalarFields :: "jsval list \<Rightarrow> string list option" where
  "scalarFields raw =
     (if list_all (\<lambda>f. js_is_string (js_get f ''name'')) raw
      then Some (map (\<lambda>f. js_string_of (js_get f ''name''))
             (filter (\<lambda>f. \<not> js_startsWith (js_string_of (js_get f ''name'')) ''__''
                        \<and> isSelectableLeaf (js_get f ''type'')) raw))
      else None)"

definition introspectionFailed :: "string \<Rightarrow> string \<Rightarrow> string \<Rightarrow> druviaError" where
  "introspectionFailed typeName code cause =
     \<lparr>errorCode = code,
      errorMessage = ''@druvia/sdk: Introspection failed for type '' @ quoted typeName @ '': '' @ cause
        @ ''. Specify fields explicitly.''\<rparr>"

text \<open>The answer of an introspection: the leaf fields, or code and cause of the failure.\<close>

definition introspectionResult :: "sdkEnv \<Rightarrow> string + jsval \<Rightarrow> string \<times> string + string list" where
  "introspectionResult env answer =
     (case answer of
        Inl cause \<Rightarrow> Inl (''BAD_RESPONSE'', cause)
      | Inr payload \<Rightarrow> (case parseGraphqlResponsePayload payload of
          Inl e \<Rightarrow> Inl (errorCode e, errorMessage e)
        | Inr parsed \<Rightarrow> (case js_get (js_get (JObj parsed) ''__type'') ''fields'' of
            JArr (f # fs) \<Rightarrow> (case scalarFields (f # fs) of
                Some scalars \<Rightarrow> Inr scalars
              | None \<Rightarrow> Inl (''BAD_RESPONSE'', typeErrorText env))
          | JStr (c # cs) \<Rightarrow> Inl (''BAD_RESPONSE'', typeErrorText env)
          | _ \<Rightarrow> Inl (''BAD_RESPONSE'', ''No fields found''))))"

definition introspectFields :: "sdkEnv \<Rightarrow> string \<Rightarrow> sdk \<Rightarrow> sdk \<times> (druviaError + string list)" where
  "introspectFields env typeName w =
     (case map_of (fieldCache w) typeName of
        Some cached \<Rightarrow> (w, Inr cached)
      | None \<Rightarrow>
          (case sendQuery env (introspectionQuery typeName) w of (w1, answer) \<Rightarrow>
            (case introspectionResult env answer of
               Inl (code, cause) \<Rightarrow> (w1, Inl (introspectionFailed typeName code cause))
             | Inr scalars \<Rightarrow> (w1\<lparr>fieldCache := AList.update typeName scalars (fieldCache w1)\<rparr>, Inr scalars))))"

definition clearFieldCache :: "string \<Rightarrow> sdk \<Rightarrow> sdk" where
  "clearFieldCache tableName w =
     w\<lparr>fieldCache := (if tableName \<noteq> [] then AList.delete tableName (fieldCache w) else [])\<rparr>"

text \<open>\<open>splitSelectSegments\<close> repeats the loop of \<open>splitByComma\<close>.\<close>

definition splitSelectSegments :: "string \<Rightarrow> string list" where
  "splitSelectSegments str = splitLoop 0 [] str"

function (sequential) resolveSelectStr ::
    "sdkEnv \<Rightarrow> string option \<Rightarrow> sdk \<Rightarrow> string \<Rightarrow> string \<Rightarrow> sdk \<times> (druviaError + string)"
  and resolveSegments ::
    "sdkEnv \<Rightarrow> string option \<Rightarrow> sdk \<Rightarrow> string list \<Rightarrow> string \<Rightarrow> sdk \<times> (druviaError + string list)"
  and resolveSegment ::
    "sdkEnv \<Rightarrow> string option \<Rightarrow> sdk \<Rightarrow> string \<Rightarrow> string \<Rightarrow> sdk \<times> (druviaError + string)" where
  "resolveSelectStr env schema w s typeName =
     (case resolveSegments env schema w (splitSelectSegments s) typeName of
        (w1, r) \<Rightarrow> (w1, map_sum id (js_join (nl @ ''    '')) r))"
| "resolveSegments env schema w [] typeName = (w, Inr [])"
| "resolveSegments env schema w (seg # segs) typeName =
     (case resolveSegment env schema w seg typeName of
        (w1, r1) \<Rightarrow> (case r1 of
          Inl e \<Rightarrow> (w1, Inl e)
        | Inr p \<Rightarrow> (case resolveSegments env schema w1 segs typeName of
            (w2, r2) \<Rightarrow> (w2, map_sum id (\<lambda>ps. p # ps) r2))))"
| "resolveSegment env schema w seg typeName =
     (case nestedMatch False (js_trim seg) of
        Some (alias, rel, subFields) \<Rightarrow>
          if js_includes subFields ''*''
          then (case resolveSelectStr env schema w subFields (hasuraType schema rel) of
                  (w1, r) \<Rightarrow> (w1, map_sum id (\<lambda>sub. relationName alias rel @ '' { '' @ sub @ '' }'') r))
          else (w, Inr (relationName alias rel @ '' { '' @ subFields @ '' }''))
      | None \<Rightarrow>
          if js_trim seg = ''*''
          then (case introspectFields env typeName w of (w1, r) \<Rightarrow> (w1, map_sum id (js_join '', '') r))
          else (w, Inr (js_trim seg)))"
  by pat_completeness auto

primrec maxLength :: "string list \<Rightarrow> nat" where
  "maxLength [] = 0"
| "maxLength (s # ss) = max (length s) (maxLength ss)"

lemma maxLength_le: "(\<And>s. s \<in> set ss \<Longrightarrow> length s \<le> n) \<Longrightarrow> maxLength ss \<le> n"
  by (induction ss) auto

text \<open>What a call works on: the length of the text, and how far it is from the next shorter one.\<close>

fun resolveSize ::
  "(sdkEnv \<times> string option \<times> sdk \<times> string \<times> string)
   + (sdkEnv \<times> string option \<times> sdk \<times> string list \<times> string)
   + (sdkEnv \<times> string option \<times> sdk \<times> string \<times> string) \<Rightarrow> nat \<times> nat" where
  "resolveSize (Inl (env, schema, w, s, t)) = (length s, Suc (length (splitSelectSegments s)))"
| "resolveSize (Inr (Inl (env, schema, w, ss, t))) = (maxLength ss, length ss)"
| "resolveSize (Inr (Inr (env, schema, w, s, t))) = (length s, 0)"

termination resolveSelectStr
proof (relation "inv_image (less_than <*lex*> less_than) resolveSize", goal_cases)
  case 1
  show ?case by (simp add: wf_inv_image wf_lex_prod)
next
  case (2 env schema w s typeName)
  have "maxLength (splitSelectSegments s) \<le> length s"
    using splitLoop_length [of _ 0 "[]" s] by (intro maxLength_le) (simp add: splitSelectSegments_def)
  then show ?case by auto
next
  case (3 env schema w seg segs typeName)
  show ?case by auto
next
  case (4 env schema w seg segs typeName)
  show ?case by auto
next
  case (5 env schema w seg typeName x al y rel subFields)
  then have "length subFields < length (js_trim seg)"
    using nestedMatch_length [of False "js_trim seg" al rel subFields] by simp
  then have "length subFields < length seg" using js_trim_length [of seg] by simp
  then show ?case by simp
qed

declare resolveSelectStr.simps [simp del] resolveSegments.simps [simp del]
  resolveSegment.simps [simp del]

subsection \<open>Execution\<close>

datatype response = RData jsval | RError druviaError

definition rowsOf :: "rowData \<Rightarrow> (string \<times> jsval) list list" where
  "rowsOf d = (case d of OneRow r \<Rightarrow> [r] | ManyRows rs \<Rightarrow> rs)"

text \<open>The clause of an upsert; \<open>Object.keys(undefined)\<close> throws when there is no row.\<close>

definition onConflictClause :: "queryBuilder \<Rightarrow> string option \<Rightarrow> (string \<times> jsval) list list \<Rightarrow> string option" where
  "onConflictClause b cons rows =
     (case rows of
        [] \<Rightarrow> None
      | r # rs \<Rightarrow> Some ('', on_conflict: {constraint: ''
          @ (case cons of Some c \<Rightarrow> c | None \<Rightarrow> qbTable b @ ''_pkey'')
          @ '', update_columns: ['' @ js_join '', '' (filter (\<lambda>k. k \<noteq> ''id'') (map fst r)) @ '']}''))"

definition stateOf :: "queryBuilder \<Rightarrow> queryState" where
  "stateOf b =
     \<lparr>table = hasuraTable b, selectFields = selectStr b, filters = qbFilters b, orderBy = orderByItems b,
      offset = offsetVal b, limit = limitVal b, isSingle = singleFlag b\<rparr>"

definition operationText :: "sdkEnv \<Rightarrow> queryBuilder \<Rightarrow> string option" where
  "operationText env b =
     (let nts = printNumber env; t = hasuraTable b;
          returning = (if hasExplicitSelect b then Some (selectStr b) else None) in
      case qbOp b of
        SelectOp \<Rightarrow> Some (buildQuery nts (stateOf b))
      | InsertOp d \<Rightarrow> Some (buildMutation nts t (InsertMutation (rowsOf d) []) returning)
      | UpsertOp d cons \<Rightarrow>
          map_option (\<lambda>c. buildMutation nts t (InsertMutation (rowsOf d) c) returning)
            (onConflictClause b cons (rowsOf d))
      | UpdateOp d \<Rightarrow> Some (buildMutation nts t (UpdateMutation d (buildWhereObject (qbFilters b))) returning)
      | DeleteOp \<Rightarrow> Some (buildMutation nts t (DeleteMutation (buildWhereObject (qbFilters b))) returning))"

definition needsWildcards :: "queryBuilder \<Rightarrow> bool" where
  "needsWildcards b \<longleftrightarrow>
     (selectStr b = ''*'' \<or> js_includes (selectStr b) ''*'') \<and> (qbOp b = SelectOp \<or> hasExplicitSelect b)"

definition resolveWildcardFields :: "sdkEnv \<Rightarrow> queryBuilder \<Rightarrow> sdk \<Rightarrow> sdk \<times> (druviaError + queryBuilder)" where
  "resolveWildcardFields env b w =
     (case resolveSelectStr env (qbSchema b) w (selectStr b) (hasuraTable b) of
        (w1, r) \<Rightarrow> (w1, map_sum id (\<lambda>s. b\<lparr>selectStr := s\<rparr>) r))"

definition networkError :: "string \<Rightarrow> response" where
  "networkError m = RError \<lparr>errorCode = ''NETWORK_ERROR'', errorMessage = m\<rparr>"

text \<open>The rows of a successful answer: the first field, its \<open>returning\<close>, the first row of a single.\<close>

definition unwrapReturning :: "jsval \<Rightarrow> jsval" where
  "unwrapReturning d = (if hasKey d ''returning'' then js_get d ''returning'' else d)"

definition pickSingle :: "bool \<Rightarrow> jsval \<Rightarrow> response" where
  "pickSingle single d =
     (if single
      then (case d of
              JArr [] \<Rightarrow> RError \<lparr>errorCode = ''PGRST116'', errorMessage = ''No rows found''\<rparr>
            | JArr (x # xs) \<Rightarrow> RData x
            | _ \<Rightarrow> RData d)
      else RData d)"

definition readAnswer :: "bool \<Rightarrow> string + jsval \<Rightarrow> response" where
  "readAnswer single answer =
     (case answer of
        Inl m \<Rightarrow> networkError m
      | Inr payload \<Rightarrow> (case parseGraphqlResponsePayload payload of
          Inl e \<Rightarrow> RError e
        | Inr parsed \<Rightarrow> pickSingle single (unwrapReturning (snd (hd parsed)))))"

definition runOperation :: "sdkEnv \<Rightarrow> queryBuilder \<Rightarrow> sdk \<Rightarrow> sdk \<times> response" where
  "runOperation env b w =
     (case operationText env b of
        None \<Rightarrow> (w, networkError (typeErrorText env))
      | Some q \<Rightarrow> (case sendQuery env q w of (w1, answer) \<Rightarrow> (w1, readAnswer (singleFlag b) answer)))"

definition execute :: "sdkEnv \<Rightarrow> queryBuilder \<Rightarrow> sdk \<Rightarrow> queryBuilder \<times> sdk \<times> response" where
  "execute env b w =
     (if needsWildcards b
      then (case resolveWildcardFields env b w of
              (w1, Inl e) \<Rightarrow> (b, w1, RError e)
            | (w1, Inr b1) \<Rightarrow> (b1, runOperation env b1 w1))
      else (b, runOperation env b w))"

definition maybeSingle :: "sdkEnv \<Rightarrow> queryBuilder \<Rightarrow> sdk \<Rightarrow> queryBuilder \<times> sdk \<times> response" where
  "maybeSingle env b w =
     (case execute env (b\<lparr>singleFlag := True\<rparr>) w of
        (b1, w1, r) \<Rightarrow>
          (b1, w1, case r of
                     RError e \<Rightarrow> if errorCode e = ''PGRST116'' then RData JNull else r
                   | RData d \<Rightarrow> r))"

end
