(* ===== verification/Query_Properties.thy ===== *)
theory Query_Properties
  imports Query_Builder
begin

text \<open>
  Properties of the query builder: which requests an execution sends and when, what the
  conditions of an update or a delete mean to the server, and where the builder loses what the
  caller asked for.
\<close>

subsection \<open>Requests of a wildcard resolution\<close>

text \<open>From \<open>w\<close> to \<open>w1\<close> exactly the types \<open>tys\<close> were introspected: none of them was cached, none
  twice, all of them are cached now if the step was successful, and the cache kept its entries.\<close>

definition introspected :: "sdk \<Rightarrow> string list \<Rightarrow> sdk \<Rightarrow> bool \<Rightarrow> bool" where
  "introspected w tys w1 succ \<longleftrightarrow>
     sentQueries w1 = map introspectionQuery tys @ sentQueries w \<and> distinct tys
     \<and> (\<forall>t \<in> set tys. map_of (fieldCache w) t = None)
     \<and> (succ \<longrightarrow> (\<forall>t \<in> set tys. map_of (fieldCache w1) t \<noteq> None))
     \<and> (\<forall>t cols. map_of (fieldCache w) t = Some cols \<longrightarrow> map_of (fieldCache w1) t = Some cols)"

lemma introspected_refl [simp]: "introspected w [] w b"
  by (simp add: introspected_def)

lemma introspected_none: "\<exists>tys. introspected w tys w b"
  using introspected_refl by blast

lemma introspected_trans:
  assumes "introspected w tys w1 True" "introspected w1 tys' w2 b"
  shows "introspected w (tys' @ tys) w2 b"
  using assms unfolding introspected_def by (auto; metis not_Some_eq)

lemma introspectFields_step:
  "introspectFields env t w = (w1, r) \<Longrightarrow> \<exists>tys. introspected w tys w1 (\<exists>x. r = Inr x)"
proof (cases "map_of (fieldCache w) t")
  case None
  assume "introspectFields env t w = (w1, r)"
  with None have "introspected w [t] w1 (\<exists>x. r = Inr x)"
    by (auto simp: introspectFields_def introspected_def sendQuery_def update_conv'
        split: sum.splits prod.splits)
  then show ?thesis by blast
next
  case (Some cols)
  assume "introspectFields env t w = (w1, r)"
  with Some have "w1 = w" by (simp add: introspectFields_def)
  then show ?thesis using introspected_refl by metis
qed

lemma map_sum_Inr_iff: "(\<exists>x. map_sum id f r = Inr x) \<longleftrightarrow> (\<exists>x. r = Inr x)"
  by (cases r) auto

lemma resolve_step:
  "resolveSelectStr env sch w s t = (w1, r) \<Longrightarrow> \<exists>tys. introspected w tys w1 (\<exists>x. r = Inr x)"
  "resolveSegments env sch w ss t = (w2, rs) \<Longrightarrow> \<exists>tys. introspected w tys w2 (\<exists>x. rs = Inr x)"
  "resolveSegment env sch w seg t = (w3, r3) \<Longrightarrow> \<exists>tys. introspected w tys w3 (\<exists>x. r3 = Inr x)"
proof (induction env sch w s t and env sch w ss t and env sch w seg t
    arbitrary: w1 r and w2 rs and w3 r3
    rule: resolveSelectStr_resolveSegments_resolveSegment.induct)
  case (1 env schema w s typeName)
  obtain v q where v: "resolveSegments env schema w (splitSelectSegments s) typeName = (v, q)"
    by fastforce
  with 1 show ?case by (auto simp: resolveSelectStr.simps map_sum_Inr_iff)
next
  case (2 env schema w typeName)
  then show ?case by (auto simp: resolveSegments.simps intro!: exI [of _ "[]"])
next
  case (3 env schema w seg segs typeName)
  obtain v q where v: "resolveSegment env schema w seg typeName = (v, q)" by fastforce
  obtain tys where tys: "introspected w tys v (\<exists>x. q = Inr x)" using 3(1) [OF v] by blast
  show ?case
  proof (cases q)
    case (Inl e)
    with 3(3) v tys show ?thesis by (auto simp: resolveSegments.simps)
  next
    case (Inr p)
    obtain u qs where u: "resolveSegments env schema v segs typeName = (u, qs)" by fastforce
    then obtain tys' where "introspected v tys' u (\<exists>x. qs = Inr x)" using 3(2) [OF v [symmetric] Inr u] by blast
    moreover have "introspected w tys v True" using tys Inr by simp
    ultimately have "introspected w (tys' @ tys) u (\<exists>x. qs = Inr x)" using introspected_trans by blast
    moreover have "w2 = u" "(\<exists>x. rs = Inr x) = (\<exists>x. qs = Inr x)"
      using 3(3) v Inr u by (cases qs; auto simp: resolveSegments.simps)+
    ultimately show ?thesis by auto
  qed
next
  case (4 env schema w seg typeName)
  show ?case
  proof (cases "nestedMatch False (js_trim seg)")
    case None
    with 4(2) show ?thesis
      using introspected_none introspectFields_step [of env typeName w]
      by (auto simp: resolveSegment.simps map_sum_Inr_iff split: if_splits prod.splits)
  next
    case (Some m)
    obtain al rel sub where m: "m = (al, rel, sub)" by (cases m) auto
    obtain v q where v: "resolveSelectStr env schema w sub (hasuraType schema rel) = (v, q)" by fastforce
    from 4(2) Some m v 4(1) [OF Some] introspected_none show ?thesis
      by (auto simp: resolveSegment.simps map_sum_Inr_iff split: if_splits)
  qed
qed

lemma runOperation_sends:
  "runOperation env b w = (w1, r) \<Longrightarrow>
     (case operationText env b of
        Some q \<Rightarrow> sentQueries w1 = q # sentQueries w
      | None \<Rightarrow> w1 = w \<and> (\<exists>e. r = RError e))"
  by (auto simp: runOperation_def sendQuery_def networkError_def split: option.splits)

text \<open>
  An execution introspects only types that are not in the cache, each at most once, and sends
  its operation at most once, as the last request: exactly when every wildcard was resolved. When
  no operation is sent the answer is an error.
\<close>

theorem execute_requests:
  assumes "execute env b w = (b1, w1, r)"
  shows "\<exists>tys ops. sentQueries w1 = ops @ map introspectionQuery tys @ sentQueries w
           \<and> distinct tys \<and> set tys \<inter> set (map fst (fieldCache w)) = {}
           \<and> ((ops = [] \<and> (\<exists>e. r = RError e)) \<or> (\<exists>q. ops = [q] \<and> operationText env b1 = Some q))"
proof -
  have op: "\<exists>ops. sentQueries w1 = ops @ sentQueries v
      \<and> ((ops = [] \<and> (\<exists>e. r = RError e)) \<or> (\<exists>q. ops = [q] \<and> operationText env b1 = Some q))"
    if "runOperation env b1 v = (w1, r)" for v
    using runOperation_sends [OF that] by (auto split: option.splits)
  show ?thesis
  proof (cases "needsWildcards b")
    case False
    with assms op [of w] show ?thesis by (fastforce simp: execute_def)
  next
    case True
    obtain v q where v: "resolveSelectStr env (qbSchema b) w (selectStr b) (hasuraTable b) = (v, q)"
      by fastforce
    obtain tys where tys: "introspected w tys v (\<exists>x. q = Inr x)" using resolve_step(1) [OF v] by blast
    then have 1: "sentQueries v = map introspectionQuery tys @ sentQueries w" "distinct tys"
        "set tys \<inter> set (map fst (fieldCache w)) = {}"
      by (auto simp: introspected_def map_of_eq_None_iff)
    have "\<exists>ops. sentQueries w1 = ops @ sentQueries v
      \<and> ((ops = [] \<and> (\<exists>e. r = RError e)) \<or> (\<exists>q. ops = [q] \<and> operationText env b1 = Some q))"
      using assms True v op [of v] by (cases q) (auto simp: execute_def resolveWildcardFields_def)
    with 1 show ?thesis by auto
  qed
qed

definition demoEnv :: sdkEnv where
  "demoEnv = \<lparr>printNumber = (\<lambda>x. []), readNumber = (\<lambda>s. 0), fetchFn = (\<lambda>n q. Inl ''offline''),
              typeErrorText = []\<rparr>"

theorem execute_requests_witness:
  "\<exists>b1 w1 r tys ops. execute demoEnv (newQueryBuilder ''users'' None) \<lparr>fieldCache = [], sentQueries = []\<rparr> = (b1, w1, r)
     \<and> sentQueries w1 = ops @ map introspectionQuery tys \<and> distinct tys
     \<and> ((ops = [] \<and> (\<exists>e. r = RError e)) \<or> (\<exists>q. ops = [q] \<and> operationText demoEnv b1 = Some q))"
proof -
  obtain b1 w1 r where
    "execute demoEnv (newQueryBuilder ''users'' None) \<lparr>fieldCache = [], sentQueries = []\<rparr> = (b1, w1, r)"
    by (metis prod_cases3)
  from this execute_requests [OF this] show ?thesis by auto
qed

subsection \<open>Conditions of updates and deletes\<close>

text \<open>The conditions of \<open>_is_null\<close> carry booleans, as \<open>is\<close> and \<open>or\<close> build them.\<close>

fun nullTests_bool :: "whereItem \<Rightarrow> bool" where
  "nullTests_bool (Cond c) = (op c = ''_is_null'' \<longrightarrow> js_is_bool (filterValue c))"
| "nullTests_bool (OrCond cs) = list_all (\<lambda>c. op c = ''_is_null'' \<longrightarrow> js_is_bool (filterValue c)) cs"

lemma conditionObject_value:
  "(op c = ''_is_null'' \<longrightarrow> js_is_bool (filterValue c)) \<Longrightarrow>
     conditionObject c = JObj [condValue c] \<and> JObj [(op c, filterValue c)] = snd (condValue c)"
  by (auto simp: conditionObject_def condValue_def js_is_bool_iff)

lemma putWhere_new:
  "nullTests_bool f \<Longrightarrow> fst (whereField f) \<notin> set (map fst conds) \<Longrightarrow> putWhere f conds = conds @ [whereField f]"
proof -
  have upd: "AList.update k v ps = ps @ [(k, v)]" if "k \<notin> set (map fst ps)" for k :: string and v :: jsval and ps
    using that by (induction ps) auto
  show "nullTests_bool f \<Longrightarrow> fst (whereField f) \<notin> set (map fst conds) \<Longrightarrow> ?thesis"
  proof (cases f)
    case (Cond c)
    then show "nullTests_bool f \<Longrightarrow> fst (whereField f) \<notin> set (map fst conds) \<Longrightarrow> ?thesis"
      using conditionObject_value [of c] by (simp add: putWhere_def upd condValue_def)
  next
    case (OrCond cs)
    assume "nullTests_bool f"
    with OrCond have "map conditionObject cs = map (\<lambda>c. JObj [condValue c]) cs"
      using conditionObject_value by (simp add: list_all_iff)
    with OrCond show "fst (whereField f) \<notin> set (map fst conds) \<Longrightarrow> ?thesis"
      by (simp add: putWhere_def upd)
  qed
qed

lemma buildWhereObject_distinct:
  "list_all nullTests_bool fs \<Longrightarrow> distinct (map (fst \<circ> whereField) fs) \<Longrightarrow>
     buildWhereObject fs = map whereField fs"
proof (induction fs rule: rev_induct)
  case (snoc f fs)
  then show ?case using putWhere_new [of f "map whereField fs"] by (simp add: buildWhereObject_def comp_def)
qed (simp add: buildWhereObject_def)

text \<open>
  When no column is filtered twice, the conditions an update or a delete sends are read by the
  server as exactly the filters of the builder: the same object a query with these filters
  carries.
\<close>

theorem mutation_conditions:
  assumes "list_all where_ok fs" "list_all nullTests_bool fs" "distinct (map (fst \<circ> whereField) fs)"
  shows "\<exists>k. \<forall>n\<ge>k. gvalue n (serializeObject nts (buildWhereObject fs)) = Some (JObj (map whereField fs), [])"
proof -
  have "serializeObject nts (buildWhereObject fs) = serializeValue nts (JObj (map whereField fs))"
    by (simp add: serializeObject_def buildWhereObject_distinct [OF assms(2,3)])
  moreover obtain k where "\<And>n r. k \<le> n \<Longrightarrow> stops r \<Longrightarrow>
      gvalue n (serializeValue nts (JObj (map whereField fs)) @ r) = Some (JObj (map whereField fs), r)"
    using reads_ok [OF where_ok_gql [OF assms(1)], of nts] unfolding reads_def by blast
  from this [of _ "[]"] have "gvalue n (serializeValue nts (JObj (map whereField fs)))
      = Some (JObj (map whereField fs), [])" if "k \<le> n" for n
    using that by (simp add: stops_def)
  ultimately show ?thesis by metis
qed

definition demoConditions :: "whereItem list" where
  "demoConditions =
     [Cond \<lparr>column = ''id'', op = ''_eq'', filterValue = JStr [CHR 0x22]\<rparr>,
      OrCond [\<lparr>column = ''a'', op = ''_is_null'', filterValue = JBool True\<rparr>]]"

theorem mutation_conditions_witness:
  "list_all where_ok demoConditions \<and> list_all nullTests_bool demoConditions
   \<and> distinct (map (fst \<circ> whereField) demoConditions)
   \<and> (\<exists>k. gvalue k (serializeObject (\<lambda>x. []) (buildWhereObject demoConditions))
            = Some (JObj (map whereField demoConditions), []))"
proof -
  have ok: "list_all where_ok demoConditions" "list_all nullTests_bool demoConditions"
      "distinct (map (fst \<circ> whereField) demoConditions)"
    by (simp_all add: demoConditions_def cond_ok_def gname_ok_def word_char_def js_is_alnum_def
        js_is_alpha_def js_is_lower_def condValue_def)
  with mutation_conditions [OF ok, of "\<lambda>x. []"] show ?thesis by blast
qed

text \<open>
  Of two filters on the same column, an update or a delete sends only the last one: deleting
  the rows with \<open>lo \<le> c\<close> and \<open>c < hi\<close> sends the request that deletes every row with \<open>c < hi\<close>,
  while a query with the same filters carries both.
\<close>

theorem delete_forgets_filter:
  "operationText env (ltFilter c hi (gteFilter c lo (deleteRows (newQueryBuilder t sch))))
     = operationText env (ltFilter c hi (deleteRows (newQueryBuilder t sch)))
   \<and> map whereField (qbFilters (ltFilter c hi (gteFilter c lo (deleteRows (newQueryBuilder t sch)))))
     = [(c, JObj [(''_gte'', lo)]), (c, JObj [(''_lt'', hi)])]"
  by (simp add: operationText_def ltFilter_def gteFilter_def pushFilter_def deleteRows_def
      newQueryBuilder_def hasuraTable_def buildWhereObject_def putWhere_def condValue_def)

lemma resolved_demo:
  "resolveSelectStr env None \<lparr>fieldCache = [(''t'', [''id''])], sentQueries = []\<rparr> ''*,o(r(n))'' ''t''
     = (\<lparr>fieldCache = [(''t'', [''id''])], sentQueries = []\<rparr>, Inr (''id'' @ nl @ ''    o { r(n) }''))"
  by code_simp

lemma parsed_demo: "parseSelectFields (''id'' @ nl @ ''    o { r(n) }'') = ''id'' @ nl @ ''    o { r(n) }''"
  by code_simp

lemma parsed_direct: "parseSelectFields ''id,o(r(n))'' = ''id'' @ nl @ ''    o { r { n } }''"
  by code_simp

text \<open>
  Resolving the wildcard of a select list leaves a nested relation without a wildcard half
  translated: the inner relation keeps its parentheses, also in the query that is sent, while
  without the wildcard the same list is translated completely.
\<close>

theorem wildcard_leaves_nested_relation:
  "resolveSelectStr env None \<lparr>fieldCache = [(''t'', [''id''])], sentQueries = []\<rparr> ''*,o(r(n))'' ''t''
     = (\<lparr>fieldCache = [(''t'', [''id''])], sentQueries = []\<rparr>, Inr (''id'' @ nl @ ''    o { r(n) }''))
   \<and> parseSelectFields (''id'' @ nl @ ''    o { r(n) }'') = ''id'' @ nl @ ''    o { r(n) }''
   \<and> parseSelectFields ''id,o(r(n))'' = ''id'' @ nl @ ''    o { r { n } }''"
  using resolved_demo parsed_demo parsed_direct by blast

end
