(* ===== verification/Platform_Db.thy ===== *)
theory Platform_Db
  imports Prelude
begin

text \<open>
  The tables of the platform database that authorization reads and membership management writes
  (migrations/001_init_druvia.up.sql, 002_user_roles.up.sql, 012_create_project_environments.up.sql,
  022_project_members.up.sql), the rows as the queries see them, and the joins the queries use.
  Times are numbers. \<open>db_ok\<close> are the constraints the migrations declare.
\<close>

record userRow =
  userUid :: int
  userId :: string
  email :: "string option"
  username :: "string option"
  userStatus :: "string option"
  userRole :: "string option"

record tenantRow =
  tenantId :: string
  ownerUid :: int

record projectRow =
  projectId :: string
  projectTenant :: string
  schemaName :: "string option"
  projectCreated :: int

record memberRow =
  memberProject :: string
  memberUid :: int
  memberRole :: string
  memberBy :: "int option"
  memberCreated :: int

record environmentRow =
  envProject :: string
  envSchema :: string

record activityRow =
  activityUser :: string
  activityAction :: string
  activityTarget :: string
  activityTargetUser :: string
  previousRole :: "string option"
  newRole :: "string option"

record platformDb =
  users :: "userRow list"
  tenants :: "tenantRow list"
  projects :: "projectRow list"
  members :: "memberRow list"
  environments :: "environmentRow list"
  activities :: "activityRow list"

definition leftJoin :: "'a list \<Rightarrow> 'a option list" where
  "leftJoin rows = (if rows = [] then [None] else map Some rows)"

definition firstRow :: "'a list \<Rightarrow> 'a option" where
  "firstRow rows = (case rows of [] \<Rightarrow> None | r # rs \<Rightarrow> Some r)"

text \<open>The queries reach users by uid and user id, tenants by id, and members of a project by uid.\<close>

definition usersWith :: "platformDb \<Rightarrow> int \<Rightarrow> string \<Rightarrow> userRow list" where
  "usersWith db uid0 id0 = filter (\<lambda>u. userUid u = uid0 \<and> userId u = id0) (users db)"

definition projectsWith :: "platformDb \<Rightarrow> string \<Rightarrow> projectRow list" where
  "projectsWith db pid = filter (\<lambda>p. projectId p = pid) (projects db)"

definition tenantsOf :: "platformDb \<Rightarrow> projectRow \<Rightarrow> tenantRow list" where
  "tenantsOf db p = filter (\<lambda>t. tenantId t = projectTenant p) (tenants db)"

definition membersWith :: "platformDb \<Rightarrow> string \<Rightarrow> int \<Rightarrow> memberRow list" where
  "membersWith db pid uid0 = filter (\<lambda>m. memberProject m = pid \<and> memberUid m = uid0) (members db)"

definition memberRoleNames :: "string list" where
  "memberRoleNames = [''project_admin'', ''database_admin'', ''viewer'']"

definition db_ok :: "platformDb \<Rightarrow> bool" where
  "db_ok db \<longleftrightarrow>
     distinct (map userUid (users db)) \<and> distinct (map userId (users db))
     \<and> distinct (map tenantId (tenants db)) \<and> distinct (map projectId (projects db))
     \<and> distinct (map (\<lambda>m. (memberProject m, memberUid m)) (members db))
     \<and> list_all (\<lambda>m. memberRole m \<in> set memberRoleNames) (members db)
     \<and> list_all (\<lambda>t. ownerUid t \<in> userUid ` set (users db)) (tenants db)
     \<and> list_all (\<lambda>p. projectTenant p \<in> tenantId ` set (tenants db)) (projects db)
     \<and> list_all (\<lambda>m. memberProject m \<in> projectId ` set (projects db)
                     \<and> memberUid m \<in> userUid ` set (users db)) (members db)"

subsection \<open>Keys select at most one row\<close>

lemma filter_key:
  "distinct (map f xs) \<Longrightarrow> x \<in> set xs \<Longrightarrow> filter (\<lambda>y. f y = f x) xs = [x]"
proof (induction xs)
  case (Cons y ys)
  then show ?case by (auto simp: filter_empty_conv image_iff)
qed simp

lemma filter_key_cases:
  assumes "distinct (map f xs)"
  shows "(\<exists>x \<in> set xs. f x = k \<and> filter (\<lambda>y. f y = k) xs = [x])
       \<or> (k \<notin> f ` set xs \<and> filter (\<lambda>y. f y = k) xs = [])"
  using filter_key [OF assms] by (auto simp: filter_empty_conv)

lemma usersWith_cases:
  assumes "db_ok db"
  shows "(\<exists>u \<in> set (users db). userUid u = a \<and> userId u = b \<and> usersWith db a b = [u])
       \<or> ((\<forall>u \<in> set (users db). userUid u \<noteq> a \<or> userId u \<noteq> b) \<and> usersWith db a b = [])"
proof -
  have "distinct (map userUid (users db))" using assms by (simp add: db_ok_def)
  from filter_key_cases [OF this, of a]
  have "(\<exists>u \<in> set (users db). userUid u = a \<and> filter (\<lambda>y. userUid y = a) (users db) = [u])
      \<or> (a \<notin> userUid ` set (users db) \<and> filter (\<lambda>y. userUid y = a) (users db) = [])" .
  moreover have split: "usersWith db a b = filter (\<lambda>u. userId u = b) (filter (\<lambda>u. userUid u = a) (users db))"
    by (simp add: usersWith_def)
  ultimately show ?thesis
  proof (elim disjE bexE conjE)
    fix u
    assume u: "u \<in> set (users db)" "userUid u = a" and f: "filter (\<lambda>y. userUid y = a) (users db) = [u]"
    have only: "v = u" if "v \<in> set (users db)" "userUid v = a" for v
    proof -
      have "v \<in> set (filter (\<lambda>y. userUid y = a) (users db))" using that by simp
      then show ?thesis unfolding f by simp
    qed
    show ?thesis
    proof (cases "userId u = b")
      case True
      then have "usersWith db a b = [u]" unfolding split f by simp
      with u True show ?thesis by blast
    next
      case False
      then have "usersWith db a b = []" unfolding split f by simp
      with only False show ?thesis by blast
    qed
  next
    assume "a \<notin> userUid ` set (users db)" "filter (\<lambda>y. userUid y = a) (users db) = []"
    then show ?thesis unfolding split by force
  qed
qed

lemma projectsWith_cases:
  "db_ok db \<Longrightarrow> (\<exists>p \<in> set (projects db). projectId p = pid \<and> projectsWith db pid = [p])
     \<or> (pid \<notin> projectId ` set (projects db) \<and> projectsWith db pid = [])"
  using filter_key_cases [of projectId "projects db" pid] by (simp add: projectsWith_def db_ok_def)

lemma tenantsOf_single:
  "db_ok db \<Longrightarrow> p \<in> set (projects db) \<Longrightarrow>
     \<exists>t \<in> set (tenants db). tenantId t = projectTenant p \<and> tenantsOf db p = [t]"
  using filter_key_cases [of tenantId "tenants db" "projectTenant p"]
  by (auto simp: tenantsOf_def db_ok_def list_all_iff)

lemma membersWith_cases:
  assumes "db_ok db"
  shows "(\<exists>m \<in> set (members db). memberProject m = pid \<and> memberUid m = a \<and> membersWith db pid a = [m])
       \<or> ((\<forall>m \<in> set (members db). memberProject m \<noteq> pid \<or> memberUid m \<noteq> a) \<and> membersWith db pid a = [])"
proof -
  have "distinct (map (\<lambda>m. (memberProject m, memberUid m)) (members db))"
    using assms by (simp add: db_ok_def)
  from filter_key_cases [OF this, of "(pid, a)"] show ?thesis
    by (auto simp: membersWith_def filter_empty_conv)
qed

lemma user_by_uid:
  "db_ok db \<Longrightarrow> u \<in> set (users db) \<Longrightarrow> v \<in> set (users db) \<Longrightarrow> userUid u = userUid v \<Longrightarrow> u = v"
  by (auto simp: db_ok_def distinct_map dest: inj_onD)

lemma user_by_id:
  "db_ok db \<Longrightarrow> u \<in> set (users db) \<Longrightarrow> v \<in> set (users db) \<Longrightarrow> userId u = userId v \<Longrightarrow> u = v"
  by (auto simp: db_ok_def distinct_map dest: inj_onD)

lemma leftJoin_simps [simp]: "leftJoin [] = [None]" "leftJoin [x] = [Some x]"
  by (simp_all add: leftJoin_def)

end
