(* ===== verification/Project_Authorization.thy ===== *)
theory Project_Authorization
  imports Platform_Db
begin

text \<open>
  Authorization of platform users (apps/api/src/lib/project-authorization.ts, lib/access.ts,
  lib/validation.ts, packages/shared/src/types/project-members.ts): roles and their
  capabilities, the access a user has to a project or a workspace, and the guards of the routes.
  A failing database query rejects the guard, which Fastify answers with status 500 before any
  handler; the model has no such branch.
\<close>

subsection \<open>Roles and capabilities\<close>

datatype projectCapability =
    ProjectRead | ProjectUpdate | RuntimeContextManage | ProjectDelete | MembersRead | MembersManage
  | DatabaseRead | DatabaseWrite | DatabaseCredentials | DataAccessManage | AuthManage | ApiKeysManage
  | TrustedKeysManage | StorageManage | FunctionsManage | RealtimeManage | EnvironmentsManage
  | BackupsRead | BackupsCreate | BackupsRestore

datatype effectiveRole = Viewer | DatabaseAdmin | ProjectAdmin | Owner

definition roleName :: "effectiveRole \<Rightarrow> string" where
  "roleName r =
     (case r of Viewer \<Rightarrow> ''viewer'' | DatabaseAdmin \<Rightarrow> ''database_admin''
      | ProjectAdmin \<Rightarrow> ''project_admin'' | Owner \<Rightarrow> ''owner'')"

definition roleCapabilities :: "(effectiveRole \<times> projectCapability list) list" where
  "roleCapabilities =
     [(Owner,
       [ProjectRead, ProjectUpdate, RuntimeContextManage, ProjectDelete, MembersRead, MembersManage,
        DatabaseRead, DatabaseWrite, DatabaseCredentials, DataAccessManage, AuthManage, ApiKeysManage,
        TrustedKeysManage, StorageManage, FunctionsManage, RealtimeManage, EnvironmentsManage,
        BackupsRead, BackupsCreate, BackupsRestore]),
      (ProjectAdmin,
       [ProjectRead, ProjectUpdate, MembersRead, DatabaseRead, DatabaseWrite, DataAccessManage,
        AuthManage, ApiKeysManage, StorageManage, FunctionsManage, RealtimeManage,
        EnvironmentsManage, BackupsRead, BackupsCreate, BackupsRestore]),
      (DatabaseAdmin,
       [ProjectRead, MembersRead, DatabaseRead, DatabaseWrite, DataAccessManage, RealtimeManage,
        BackupsRead, BackupsCreate]),
      (Viewer, [ProjectRead, MembersRead, DatabaseRead])]"

definition capabilitiesOf :: "effectiveRole \<Rightarrow> projectCapability list" where
  "capabilitiesOf r = (case map_of roleCapabilities r of Some cs \<Rightarrow> cs | None \<Rightarrow> [])"

text \<open>\<open>role in ROLE_CAPABILITIES\<close>: the role a stored name stands for.\<close>

definition roleNamed :: "string \<Rightarrow> effectiveRole option" where
  "roleNamed n = firstRow (filter (\<lambda>r. roleName r = n) (map fst roleCapabilities))"

text \<open>Roles are ordered by what they may do.\<close>

definition roleRank :: "effectiveRole \<Rightarrow> nat" where
  "roleRank r = (case r of Viewer \<Rightarrow> 0 | DatabaseAdmin \<Rightarrow> 1 | ProjectAdmin \<Rightarrow> 2 | Owner \<Rightarrow> 3)"

instantiation effectiveRole :: linorder
begin

definition less_eq_effectiveRole :: "effectiveRole \<Rightarrow> effectiveRole \<Rightarrow> bool" where
  "less_eq_effectiveRole r s \<longleftrightarrow> roleRank r \<le> roleRank s"

definition less_effectiveRole :: "effectiveRole \<Rightarrow> effectiveRole \<Rightarrow> bool" where
  "less_effectiveRole r s \<longleftrightarrow> roleRank r < roleRank s"

instance
  by standard (auto simp: less_eq_effectiveRole_def less_effectiveRole_def roleRank_def
      split: effectiveRole.splits)

end

subsection \<open>Users of a request\<close>

datatype requestUser =
    PlatformUser (puId: string) (puUid: int) (puTenant: "string option") (puRole: "string option")
  | ProjectUser (pjSub: string) (pjProject: string) (pjProvider: string)
  | ApiKeyUser (akProject: string) (akId: int) (akPrefix: string)

fun isPlatformUser :: "requestUser \<Rightarrow> bool" where
  "isPlatformUser (PlatformUser _ _ _ _) = True"
| "isPlatformUser _ = False"

fun isProjectUser :: "requestUser \<Rightarrow> bool" where
  "isProjectUser (ProjectUser _ _ _) = True"
| "isProjectUser _ = False"

fun isApiKeyUser :: "requestUser \<Rightarrow> bool" where
  "isApiKeyUser (ApiKeyUser _ _ _) = True"
| "isApiKeyUser _ = False"

record authorizationError =
  statusCode :: nat
  authCode :: string
  authMessage :: string

record projectAccess =
  accessProject :: string
  accessRole :: effectiveRole
  accessCapabilities :: "projectCapability list"
  isWorkspaceOwner :: bool
  isSuperAdmin :: bool

subsection \<open>Access to a project\<close>

record projectAuthorizationRow =
  rowProject :: string
  rowUid :: "int option"
  rowStatus :: "string option"
  rowPlatformRole :: "string option"
  rowOwner :: int
  rowMemberRole :: "string option"

definition accessForRole :: "string \<Rightarrow> effectiveRole \<Rightarrow> bool \<Rightarrow> bool \<Rightarrow> projectAccess" where
  "accessForRole pid role owner super =
     \<lparr>accessProject = pid, accessRole = role, accessCapabilities = capabilitiesOf role,
      isWorkspaceOwner = owner, isSuperAdmin = super\<rparr>"

definition authorizationRows :: "platformDb \<Rightarrow> string \<Rightarrow> int \<Rightarrow> string \<Rightarrow> projectAuthorizationRow list" where
  "authorizationRows db pid uid0 id0 =
     [\<lparr>rowProject = projectId p, rowUid = map_option userUid u, rowStatus = Option.bind u userStatus,
       rowPlatformRole = Option.bind u userRole, rowOwner = ownerUid t,
       rowMemberRole = map_option memberRole m\<rparr>.
       p \<leftarrow> projectsWith db pid, t \<leftarrow> tenantsOf db p, u \<leftarrow> leftJoin (usersWith db uid0 id0),
       m \<leftarrow> leftJoin (case u of Some v \<Rightarrow> membersWith db (projectId p) (userUid v) | None \<Rightarrow> [])]"

fun loadProjectAuthorization :: "platformDb \<Rightarrow> requestUser \<Rightarrow> string \<Rightarrow> projectAuthorizationRow option" where
  "loadProjectAuthorization db (PlatformUser id0 uid0 tn r) pid = firstRow (authorizationRows db pid uid0 id0)"
| "loadProjectAuthorization db _ pid = None"

definition resolveAccessFromRow :: "projectAuthorizationRow option \<Rightarrow> projectAccess option" where
  "resolveAccessFromRow row0 =
     (case row0 of
        None \<Rightarrow> None
      | Some row \<Rightarrow> (case rowUid row of
          None \<Rightarrow> None
        | Some uid0 \<Rightarrow>
            if rowStatus row \<noteq> Some ''active'' then None
            else if rowPlatformRole row = Some ''super_admin''
            then Some (accessForRole (rowProject row) Owner (rowOwner row = uid0) True)
            else if rowOwner row = uid0 then Some (accessForRole (rowProject row) Owner True False)
            else (case rowMemberRole row of
                    None \<Rightarrow> None
                  | Some n \<Rightarrow>
                      if n = [] then None
                      else map_option (\<lambda>r. accessForRole (rowProject row) r False False) (roleNamed n))))"

definition resolveProjectAccess :: "platformDb \<Rightarrow> requestUser option \<Rightarrow> string \<Rightarrow> projectAccess option" where
  "resolveProjectAccess db user pid =
     (case user of
        None \<Rightarrow> None
      | Some u \<Rightarrow> if \<not> isPlatformUser u then None else resolveAccessFromRow (loadProjectAuthorization db u pid))"

definition authError :: "nat \<Rightarrow> string \<Rightarrow> string \<Rightarrow> authorizationError" where
  "authError st code msg = \<lparr>statusCode = st, authCode = code, authMessage = msg\<rparr>"

definition unauthorized :: authorizationError where
  "unauthorized = authError 401 ''UNAUTHORIZED'' ''Platform authentication required''"

definition assertProjectCapability ::
  "platformDb \<Rightarrow> requestUser option \<Rightarrow> string \<Rightarrow> projectCapability \<Rightarrow> authorizationError + projectAccess" where
  "assertProjectCapability db user pid cap =
     (case user of
        None \<Rightarrow> Inl unauthorized
      | Some u \<Rightarrow>
          if \<not> isPlatformUser u then Inl unauthorized
          else (case loadProjectAuthorization db u pid of
            None \<Rightarrow> Inl (authError 404 ''PROJECT_NOT_FOUND'' ''Project not found'')
          | Some row \<Rightarrow> (case resolveAccessFromRow (Some row) of
              None \<Rightarrow> Inl (authError 403 ''FORBIDDEN'' ''Project capability required'')
            | Some access \<Rightarrow>
                if cap \<in> set (accessCapabilities access) then Inr access
                else Inl (authError 403 ''FORBIDDEN'' ''Project capability required''))))"

fun currentUserRow :: "platformDb \<Rightarrow> requestUser option \<Rightarrow> userRow option" where
  "currentUserRow db (Some (PlatformUser id0 uid0 tn r)) = firstRow (usersWith db uid0 id0)"
| "currentUserRow db _ = None"

definition requireCurrentSuperAdmin :: "platformDb \<Rightarrow> requestUser option \<Rightarrow> authorizationError + unit" where
  "requireCurrentSuperAdmin db user =
     (if user = None \<or> \<not> isPlatformUser (the user) then Inl unauthorized
      else (case currentUserRow db user of
              None \<Rightarrow> Inl (authError 403 ''FORBIDDEN'' ''Current super_admin role required'')
            | Some cur \<Rightarrow>
                if userStatus cur \<noteq> Some ''active'' \<or> userRole cur \<noteq> Some ''super_admin''
                then Inl (authError 403 ''FORBIDDEN'' ''Current super_admin role required'')
                else Inr ()))"

subsection \<open>Access to a workspace\<close>

record tenantAccess =
  accessTenant :: string
  tenantOwner :: bool
  tenantSuperAdmin :: bool

definition hasProjectMembership :: "platformDb \<Rightarrow> string \<Rightarrow> int \<Rightarrow> bool" where
  "hasProjectMembership db tid uid0 \<longleftrightarrow>
     list_ex (\<lambda>p. projectTenant p = tid \<and> membersWith db (projectId p) uid0 \<noteq> []) (projects db)"

fun assertTenantAccess :: "platformDb \<Rightarrow> requestUser option \<Rightarrow> string \<Rightarrow> bool \<Rightarrow> authorizationError + tenantAccess" where
  "assertTenantAccess db (Some (PlatformUser id0 uid0 tn r)) tid ownerOnly =
     (case firstRow [(t, u). t \<leftarrow> filter (\<lambda>t. tenantId t = tid) (tenants db), u \<leftarrow> leftJoin (usersWith db uid0 id0)] of
        None \<Rightarrow> Inl (authError 404 ''TENANT_NOT_FOUND'' ''Workspace not found'')
      | Some (t, None) \<Rightarrow> Inl (authError 403 ''FORBIDDEN'' ''Workspace access required'')
      | Some (t, Some u) \<Rightarrow>
          let super = (userRole u = Some ''super_admin''); owner = (ownerUid t = userUid u) in
          if userStatus u \<noteq> Some ''active'' then Inl (authError 403 ''FORBIDDEN'' ''Workspace access required'')
          else if (\<not> super \<and> \<not> owner \<and> \<not> hasProjectMembership db tid (userUid u))
                  \<or> (ownerOnly \<and> \<not> super \<and> \<not> owner)
          then Inl (authError 403 ''FORBIDDEN'' ''Workspace access required'')
          else Inr \<lparr>accessTenant = tid, tenantOwner = owner, tenantSuperAdmin = super\<rparr>)"
| "assertTenantAccess db _ tid ownerOnly = Inl unauthorized"

text \<open>The member roles with a capability, and the projects of a workspace a user may see, the newest
  first.\<close>

definition memberRolesWith :: "projectCapability \<Rightarrow> string list" where
  "memberRolesWith cap =
     map (roleName \<circ> fst) (filter (\<lambda>(r, cs). r \<noteq> Owner \<and> cap \<in> set cs) roleCapabilities)"

definition accessibleRows :: "platformDb \<Rightarrow> string \<Rightarrow> int \<Rightarrow> string \<Rightarrow> string list \<Rightarrow> projectRow list" where
  "accessibleRows db tid uid0 id0 roles =
     [p. p \<leftarrow> filter (\<lambda>p. projectTenant p = tid) (projects db), t \<leftarrow> tenantsOf db p,
         u \<leftarrow> filter (\<lambda>u. userStatus u = Some ''active'') (usersWith db uid0 id0),
         m \<leftarrow> leftJoin (membersWith db (projectId p) (userUid u)),
         userRole u = Some ''super_admin'' \<or> ownerUid t = userUid u
           \<or> (case m of Some n \<Rightarrow> memberRole n \<in> set roles | None \<Rightarrow> False)]"

fun listAccessibleProjectIds ::
  "platformDb \<Rightarrow> requestUser option \<Rightarrow> string \<Rightarrow> projectCapability \<Rightarrow> authorizationError + string list" where
  "listAccessibleProjectIds db (Some (PlatformUser id0 uid0 tn r)) tid cap =
     Inr (map projectId
            (sort_key (\<lambda>p. - projectCreated p) (accessibleRows db tid uid0 id0 (memberRolesWith cap))))"
| "listAccessibleProjectIds db _ tid cap = Inl unauthorized"

subsection \<open>Schemas\<close>

text \<open>The projects and environments that name a schema, without duplicates and in order; only a
  schema of a single project has an owner.\<close>

definition schemaProjects :: "platformDb \<Rightarrow> string \<Rightarrow> string list" where
  "schemaProjects db sn =
     sort (remdups (map projectId (filter (\<lambda>p. schemaName p = Some sn) (projects db))
                    @ map envProject (filter (\<lambda>e. envSchema e = sn) (environments db))))"

definition resolveSchemaProject :: "platformDb \<Rightarrow> string \<Rightarrow> string option" where
  "resolveSchemaProject db sn = (case take 2 (schemaProjects db sn) of [pid] \<Rightarrow> Some pid | _ \<Rightarrow> None)"

text \<open>lib/access.ts: the same question asked by user id alone.\<close>

definition activeUsersById :: "platformDb \<Rightarrow> string \<Rightarrow> userRow list" where
  "activeUsersById db id0 = filter (\<lambda>u. userId u = id0 \<and> userStatus u = Some ''active'') (users db)"

definition mayAccess :: "platformDb \<Rightarrow> userRow \<Rightarrow> projectRow \<Rightarrow> tenantRow \<Rightarrow> bool" where
  "mayAccess db u p t \<longleftrightarrow>
     userRole u = Some ''super_admin'' \<or> ownerUid t = userUid u
     \<or> membersWith db (projectId p) (userUid u) \<noteq> []"

definition checkTenantAccess :: "platformDb \<Rightarrow> string \<Rightarrow> string \<Rightarrow> bool" where
  "checkTenantAccess db id0 tid \<longleftrightarrow>
     list_ex (\<lambda>t. tenantId t = tid
       \<and> list_ex (\<lambda>u. userRole u = Some ''super_admin'' \<or> ownerUid t = userUid u
                       \<or> hasProjectMembership db tid (userUid u)) (activeUsersById db id0)) (tenants db)"

definition checkProjectAccess :: "platformDb \<Rightarrow> string \<Rightarrow> string \<Rightarrow> bool" where
  "checkProjectAccess db id0 pid \<longleftrightarrow>
     list_ex (\<lambda>p. list_ex (\<lambda>t. list_ex (\<lambda>u. mayAccess db u p t) (activeUsersById db id0)) (tenantsOf db p))
       (projectsWith db pid)"

definition checkSchemaAccess :: "platformDb \<Rightarrow> string \<Rightarrow> string \<Rightarrow> bool" where
  "checkSchemaAccess db id0 sn \<longleftrightarrow>
     list_ex (\<lambda>p. (schemaName p = Some sn
                     \<or> list_ex (\<lambda>e. envProject e = projectId p \<and> envSchema e = sn) (environments db))
       \<and> list_ex (\<lambda>t. list_ex (\<lambda>u. mayAccess db u p t) (activeUsersById db id0)) (tenantsOf db p))
       (projects db)"

text \<open>lib/validation.ts: aliases and the schema name of a project.\<close>

definition validateAlias :: "string \<Rightarrow> bool" where
  "validateAlias s \<longleftrightarrow> list_all (\<lambda>c. js_is_lower c \<or> js_is_digit c) s \<and> 3 \<le> length s \<and> length s \<le> 16"

definition generateSchemaName :: "string \<Rightarrow> string \<Rightarrow> string" where
  "generateSchemaName tenantAlias projectAlias = ''dru_'' @ tenantAlias @ ''_'' @ projectAlias"

subsection \<open>Guards\<close>

text \<open>The part of a request the guards read and write. A guard either sends a reply, and no handler
  runs, or hands on the request.\<close>

record guardRequest =
  reqUser :: "requestUser option"
  paramProject :: "string option"
  paramTenant :: "string option"
  paramSchema :: "string option"
  paramSchemaName :: "string option"
  reqProjectAccess :: "projectAccess option"
  reqTenantAccess :: "tenantAccess option"

definition badRequest :: "string \<Rightarrow> authorizationError" where
  "badRequest msg = authError 400 ''BAD_REQUEST'' msg"

text \<open>A parameter that is missing or empty.\<close>

definition given :: "string option \<Rightarrow> string option" where
  "given p = (case p of Some s \<Rightarrow> (if s = [] then None else Some s) | None \<Rightarrow> None)"

definition requireProjectCapability ::
  "platformDb \<Rightarrow> projectCapability \<Rightarrow> guardRequest \<Rightarrow> authorizationError + guardRequest" where
  "requireProjectCapability db cap rq =
     (case given (paramProject rq) of
        None \<Rightarrow> Inl (badRequest ''Project ID is required'')
      | Some pid \<Rightarrow>
          map_sum id (\<lambda>a. rq\<lparr>reqProjectAccess := Some a\<rparr>) (assertProjectCapability db (reqUser rq) pid cap))"

definition requireSchemaCapability ::
  "platformDb \<Rightarrow> projectCapability \<Rightarrow> guardRequest \<Rightarrow> authorizationError + guardRequest" where
  "requireSchemaCapability db cap rq =
     (case given (case paramSchema rq of Some s \<Rightarrow> Some s | None \<Rightarrow> paramSchemaName rq) of
        None \<Rightarrow> Inl (badRequest ''Schema name is required'')
      | Some sn \<Rightarrow> (case given (resolveSchemaProject db sn) of
          None \<Rightarrow> Inl (authError 404 ''PROJECT_NOT_FOUND'' ''Project not found for schema'')
        | Some pid \<Rightarrow>
            map_sum id (\<lambda>a. rq\<lparr>reqProjectAccess := Some a\<rparr>) (assertProjectCapability db (reqUser rq) pid cap)))"

fun withPlatformRole :: "string \<Rightarrow> requestUser \<Rightarrow> requestUser" where
  "withPlatformRole r (PlatformUser i n t r0) = PlatformUser i n t (Some r)"
| "withPlatformRole r u = u"

definition requireSuperAdmin :: "platformDb \<Rightarrow> guardRequest \<Rightarrow> authorizationError + guardRequest" where
  "requireSuperAdmin db rq =
     map_sum id (\<lambda>_. rq\<lparr>reqUser := map_option (withPlatformRole ''super_admin'') (reqUser rq)\<rparr>)
       (requireCurrentSuperAdmin db (reqUser rq))"

definition requireTenantAccess :: "platformDb \<Rightarrow> bool \<Rightarrow> guardRequest \<Rightarrow> authorizationError + guardRequest" where
  "requireTenantAccess db ownerOnly rq =
     (case given (paramTenant rq) of
        None \<Rightarrow> Inl (badRequest ''Workspace ID is required'')
      | Some tid \<Rightarrow>
          map_sum id (\<lambda>a. rq\<lparr>reqTenantAccess := Some a\<rparr>) (assertTenantAccess db (reqUser rq) tid ownerOnly))"

subsection \<open>Facts about roles\<close>

lemma capabilitiesOf_simps [simp]:
  "set (capabilitiesOf Viewer) = {ProjectRead, MembersRead, DatabaseRead}"
  "set (capabilitiesOf DatabaseAdmin) = {ProjectRead, MembersRead, DatabaseRead, DatabaseWrite,
     DataAccessManage, RealtimeManage, BackupsRead, BackupsCreate}"
  "set (capabilitiesOf ProjectAdmin) = {ProjectRead, ProjectUpdate, MembersRead, DatabaseRead,
     DatabaseWrite, DataAccessManage, AuthManage, ApiKeysManage, StorageManage, FunctionsManage,
     RealtimeManage, EnvironmentsManage, BackupsRead, BackupsCreate, BackupsRestore}"
  by (auto simp: capabilitiesOf_def roleCapabilities_def)

lemma capabilitiesOf_Owner [simp]: "c \<in> set (capabilitiesOf Owner)"
  by (cases c) (simp_all add: capabilitiesOf_def roleCapabilities_def)

lemma capabilitiesOf_mono: "r \<le> s \<Longrightarrow> set (capabilitiesOf r) \<subseteq> set (capabilitiesOf s)"
  by (cases r; cases s) (auto simp: less_eq_effectiveRole_def roleRank_def)

lemma roleNamed_simps [simp]:
  "roleNamed ''viewer'' = Some Viewer" "roleNamed ''database_admin'' = Some DatabaseAdmin"
  "roleNamed ''project_admin'' = Some ProjectAdmin" "roleNamed ''owner'' = Some Owner"
  by (simp_all add: roleNamed_def roleCapabilities_def roleName_def firstRow_def)

lemma roleNamed_member: "n \<in> set memberRoleNames \<Longrightarrow> \<exists>r. roleNamed n = Some r \<and> r \<noteq> Owner \<and> roleName r = n"
  by (auto simp: memberRoleNames_def roleName_def)

lemma roleName_inj: "roleName r = roleName s \<longleftrightarrow> r = s"
  by (cases r; cases s) (simp_all add: roleName_def)

lemma roleCapabilities_iff: "(r, cs) \<in> set roleCapabilities \<longleftrightarrow> cs = capabilitiesOf r"
  by (cases r) (auto simp: capabilitiesOf_def roleCapabilities_def)

lemma memberRolesWith_iff:
  assumes "n \<in> set memberRoleNames" "roleNamed n = Some r"
  shows "n \<in> set (memberRolesWith cap) \<longleftrightarrow> cap \<in> set (capabilitiesOf r)"
proof -
  have "r \<noteq> Owner" "roleName r = n" using roleNamed_member [OF assms(1)] assms(2) by auto
  moreover have "n \<in> set (memberRolesWith cap) \<longleftrightarrow>
      (\<exists>s cs. (s, cs) \<in> set roleCapabilities \<and> s \<noteq> Owner \<and> cap \<in> set cs \<and> roleName s = n)"
    unfolding memberRolesWith_def by force
  ultimately show ?thesis unfolding roleCapabilities_iff using roleName_inj by metis
qed

end
