(* ===== verification/Sql_Like.thy ===== *)
theory Sql_Like
  imports Prelude
begin

text \<open>
  Pattern matching of the database: \<open>LIKE\<close> with a backslash as escape, and the literal
  form of a text in a pattern. Membership search and storage listing escape their input this way.
\<close>

text \<open>\<open>LIKE pattern ESCAPE '\'\<close>.\<close>

fun likeMatch :: "string \<Rightarrow> string \<Rightarrow> bool" where
  "likeMatch [] s = (s = [])"
| "likeMatch (c # p) s =
     (if c = CHR ''%'' then (likeMatch p s \<or> (case s of [] \<Rightarrow> False | d # t \<Rightarrow> likeMatch (c # p) t))
      else if c = CHR 0x5C
      then (case p of
              [] \<Rightarrow> False
            | e # q \<Rightarrow> (case s of [] \<Rightarrow> False | d # t \<Rightarrow> d = e \<and> likeMatch q t))
      else (case s of [] \<Rightarrow> False | d # t \<Rightarrow> (c = CHR ''_'' \<or> d = c) \<and> likeMatch p t))"

definition likeLiteral :: "char \<Rightarrow> string" where
  "likeLiteral c = (if c \<in> {CHR 0x5C, CHR ''%'', CHR ''_''} then [CHR 0x5C, c] else [c])"

lemma likeMatch_literal:
  "likeMatch (concat (map likeLiteral q) @ p) s \<longleftrightarrow> (\<exists>r. s = q @ r \<and> likeMatch p r)"
proof (induction q arbitrary: s)
  case (Cons c q)
  show ?case
  proof (cases "c \<in> {CHR 0x5C, CHR ''%'', CHR ''_''}")
    case True
    then show ?thesis using Cons.IH by (cases s) (auto simp: likeLiteral_def)
  next
    case False
    then show ?thesis using Cons.IH by (cases s) (auto simp: likeLiteral_def)
  qed
qed (simp add: likeLiteral_def)

lemma likeMatch_percent: "likeMatch (CHR ''%'' # p) s \<longleftrightarrow> (\<exists>u r. s = u @ r \<and> likeMatch p r)"
proof (induction s)
  case (Cons d t)
  have "(\<exists>u r. d # t = u @ r \<and> likeMatch p r) \<longleftrightarrow> likeMatch p (d # t) \<or> (\<exists>u r. t = u @ r \<and> likeMatch p r)"
    by (metis append_Cons append_Nil list.inject neq_Nil_conv)
  with Cons show ?case by simp
qed auto

lemma likeMatch_any: "likeMatch ''%'' r"
  by (induction r) simp_all

end
