(* ===== verification/Project_Members.thy ===== *)
theory Project_Members
  imports Project_Authorization Sql_Like "HOL-Library.Option_ord"
begin

text \<open>
  Membership management (apps/api/src/modules/project-members): listing, candidate search, adding,
  changing and removing members, each change in one transaction that checks the actor again, and
  the handlers of the routes. \<open>now\<close> is the time of the database. The text order of the database
  is the one of code units. A query that fails for another reason than the unique constraint
  ends in status 500 and is not modelled.
\<close>

subsection \<open>Views\<close>

record memberView =
  viewUser :: string
  viewEmail :: "string option"
  viewName :: "string option"
  viewStatus :: "string option"
  viewRole :: string
  viewOwner :: bool
  viewCreated :: "int option"

type_synonym memberError = authorizationError

definition isProjectMemberRole :: "jsval \<Rightarrow> bool" where
  "isProjectMemberRole v \<longleftrightarrow> js_is_string v \<and> js_string_of v \<in> set memberRoleNames"

definition toMemberView :: "userRow \<Rightarrow> string option \<Rightarrow> bool \<Rightarrow> int option \<Rightarrow> memberView" where
  "toMemberView u role owner created =
     \<lparr>viewUser = userId u, viewEmail = email u, viewName = username u, viewStatus = userStatus u,
      viewRole = (case role of Some r \<Rightarrow> r | None \<Rightarrow> ''viewer''), viewOwner = owner, viewCreated = created\<rparr>"

text \<open>\<open>ORDER BY is_workspace_owner DESC, created_at ASC NULLS FIRST, user_id ASC\<close>, as stable sorts from
  the last key to the first.\<close>

definition memberOrder :: "memberView list \<Rightarrow> memberView list" where
  "memberOrder vs =
     sort_key (\<lambda>v. if viewOwner v then 0 else 1 :: nat)
       (sort_key viewCreated (sort_key viewUser vs))"

definition listProjectMembers :: "platformDb \<Rightarrow> string \<Rightarrow> memberView list" where
  "listProjectMembers db pid =
     memberOrder
       ([toMemberView u (Some ''owner'') True None.
           p \<leftarrow> projectsWith db pid, t \<leftarrow> tenantsOf db p, u \<leftarrow> filter (\<lambda>u. userUid u = ownerUid t) (users db)]
        @ [toMemberView u (Some (memberRole m)) False (Some (memberCreated m)).
             p \<leftarrow> projectsWith db pid, t \<leftarrow> tenantsOf db p,
             m \<leftarrow> filter (\<lambda>m. memberProject m = projectId p) (members db),
             u \<leftarrow> filter (\<lambda>u. userUid u = memberUid m) (users db)])"

subsection \<open>Candidate search\<close>

definition escapeLike :: "string \<Rightarrow> string" where
  "escapeLike s = concat (map likeLiteral s)"

definition ilike :: "string option \<Rightarrow> string \<Rightarrow> bool" where
  "ilike v pattern = (case v of Some s \<Rightarrow> likeMatch (js_toLowerCase pattern) (js_toLowerCase s) | None \<Rightarrow> False)"

definition searchPattern :: "string \<Rightarrow> string" where
  "searchPattern search = CHR ''%'' # escapeLike search @ ''%''"

text \<open>\<open>trim(both '%' from pattern)\<close>, and the rank of a candidate: exact matches of the address first.\<close>

definition trimPercent :: "string \<Rightarrow> string" where
  "trimPercent p = rev (dropWhile (\<lambda>c. c = CHR ''%'') (rev (dropWhile (\<lambda>c. c = CHR ''%'') p)))"

definition candidateRank :: "string \<Rightarrow> userRow \<Rightarrow> nat" where
  "candidateRank pattern u =
     (if map_option js_toLowerCase (email u) = Some (js_toLowerCase (trimPercent pattern)) then 0 else 1)"

definition candidateRows :: "platformDb \<Rightarrow> string \<Rightarrow> string \<Rightarrow> userRow list" where
  "candidateRows db pid pattern =
     [u. p \<leftarrow> projectsWith db pid, t \<leftarrow> tenantsOf db p,
         u \<leftarrow> filter (\<lambda>u. userStatus u = Some ''active'') (users db),
         membersWith db (projectId p) (userUid u) = [] \<and> userUid u \<noteq> ownerUid t
           \<and> (ilike (email u) pattern \<or> ilike (username u) pattern)]"

text \<open>A null address sorts last.\<close>

definition searchProjectMemberCandidates :: "platformDb \<Rightarrow> string \<Rightarrow> string \<Rightarrow> memberError + memberView list" where
  "searchProjectMemberCandidates db pid rawQuery =
     (let search = js_trim rawQuery; pattern = searchPattern search in
      if length search < 2
      then Inl (authError 400 ''INVALID_QUERY'' ''Search query must contain at least 2 characters'')
      else Inr (map (\<lambda>u. toMemberView u None False None)
             (take 10 (sort_key (candidateRank pattern)
               (sort_key (\<lambda>u. email u = None) (sort_key (\<lambda>u. case email u of Some e \<Rightarrow> e | None \<Rightarrow> [])
                 (candidateRows db pid pattern)))))))"

subsection \<open>Transactions\<close>

record managerRow =
  managerOwner :: int
  managerUser :: "userRow option"

text \<open>The platform user of a token: uid and user id.\<close>

record actor =
  actorUid :: int
  actorId :: string

definition assertMembershipManager :: "platformDb \<Rightarrow> actor \<Rightarrow> string \<Rightarrow> memberError + unit" where
  "assertMembershipManager db a pid =
     (case firstRow [\<lparr>managerOwner = ownerUid t, managerUser = u\<rparr>.
                       p \<leftarrow> projectsWith db pid, t \<leftarrow> tenantsOf db p,
                       u \<leftarrow> leftJoin (usersWith db (actorUid a) (actorId a))] of
        None \<Rightarrow> Inl (authError 404 ''PROJECT_NOT_FOUND'' ''Project not found'')
      | Some row \<Rightarrow> (case managerUser row of
          None \<Rightarrow> Inl (authError 403 ''FORBIDDEN'' ''Only the workspace owner can manage project members'')
        | Some u \<Rightarrow>
            if userStatus u \<noteq> Some ''active''
               \<or> (userRole u \<noteq> Some ''super_admin'' \<and> managerOwner row \<noteq> userUid u)
            then Inl (authError 403 ''FORBIDDEN'' ''Only the workspace owner can manage project members'')
            else Inr ()))"

definition loadTargetUser :: "platformDb \<Rightarrow> string \<Rightarrow> string \<Rightarrow> bool \<Rightarrow> memberError + userRow" where
  "loadTargetUser db pid uid0 requireActive =
     (case firstRow [(u, userUid u = ownerUid t).
                       p \<leftarrow> projectsWith db pid, t \<leftarrow> tenantsOf db p, u \<leftarrow> filter (\<lambda>u. userId u = uid0) (users db)] of
        None \<Rightarrow> Inl (authError 404 ''USER_NOT_FOUND'' ''Platform user not found'')
      | Some (u, isOwner) \<Rightarrow>
          if isOwner
          then Inl (authError 400 ''OWNER_MEMBERSHIP_NOT_ALLOWED''
                      ''Workspace owner is already an implicit project owner'')
          else if requireActive \<and> userStatus u \<noteq> Some ''active''
          then Inl (authError 409 ''USER_INACTIVE'' ''Only active platform users can be project members'')
          else Inr u)"

text \<open>An operation works on the state of its transaction; an error rolls it back.\<close>

definition withMembershipTransaction ::
  "actor \<Rightarrow> string \<Rightarrow> (platformDb \<Rightarrow> platformDb \<times> (memberError + 'a)) \<Rightarrow> platformDb \<Rightarrow>
     platformDb \<times> (memberError + 'a)" where
  "withMembershipTransaction a pid operation db =
     (case assertMembershipManager db a pid of
        Inl e \<Rightarrow> (db, Inl e)
      | Inr _ \<Rightarrow> (case operation db of
          (db1, Inl e) \<Rightarrow> (db, Inl e)
        | (db1, Inr x) \<Rightarrow> (db1, Inr x)))"

definition logMembership ::
  "actor \<Rightarrow> string \<Rightarrow> string \<Rightarrow> string \<Rightarrow> string option \<Rightarrow> string option \<Rightarrow> platformDb \<Rightarrow> platformDb" where
  "logMembership a action pid target old new db =
     db\<lparr>activities := activities db
       @ [\<lparr>activityUser = actorId a, activityAction = action, activityTarget = pid,
           activityTargetUser = target, previousRole = old, newRole = new\<rparr>]\<rparr>"

text \<open>The table of members: the role of a user in a project, and the three statements.\<close>

definition roleOf :: "platformDb \<Rightarrow> string \<Rightarrow> int \<Rightarrow> string option" where
  "roleOf db pid uid0 = map_option memberRole (firstRow (membersWith db pid uid0))"

definition insertMember :: "string \<Rightarrow> int \<Rightarrow> string \<Rightarrow> int \<Rightarrow> int \<Rightarrow> platformDb \<Rightarrow> platformDb option" where
  "insertMember pid uid0 role creator now db =
     (if membersWith db pid uid0 \<noteq> [] then None
      else Some (db\<lparr>members := members db
        @ [\<lparr>memberProject = pid, memberUid = uid0, memberRole = role, memberBy = Some creator,
            memberCreated = now\<rparr>]\<rparr>))"

definition setMemberRole :: "string \<Rightarrow> int \<Rightarrow> string \<Rightarrow> platformDb \<Rightarrow> platformDb" where
  "setMemberRole pid uid0 role db =
     db\<lparr>members := map (\<lambda>m. if memberProject m = pid \<and> memberUid m = uid0 then m\<lparr>memberRole := role\<rparr> else m)
       (members db)\<rparr>"

definition deleteMember :: "string \<Rightarrow> int \<Rightarrow> platformDb \<Rightarrow> platformDb" where
  "deleteMember pid uid0 db =
     db\<lparr>members := filter (\<lambda>m. \<not> (memberProject m = pid \<and> memberUid m = uid0)) (members db)\<rparr>"

definition addProjectMember ::
  "int \<Rightarrow> actor \<Rightarrow> string \<Rightarrow> string \<Rightarrow> string \<Rightarrow> platformDb \<Rightarrow> platformDb \<times> (memberError + memberView)" where
  "addProjectMember now a pid target role =
     withMembershipTransaction a pid (\<lambda>db.
       case loadTargetUser db pid target True of
         Inl e \<Rightarrow> (db, Inl e)
       | Inr u \<Rightarrow> (case insertMember pid (userUid u) role (actorUid a) now db of
           None \<Rightarrow> (db, Inl (authError 409 ''MEMBER_EXISTS'' ''Project member already exists''))
         | Some db1 \<Rightarrow>
             (logMembership a ''project_member.created'' pid target None (Some role) db1,
              Inr (toMemberView u (Some role) False (Some now)))))"

definition updateProjectMemberRole ::
  "actor \<Rightarrow> string \<Rightarrow> string \<Rightarrow> string \<Rightarrow> platformDb \<Rightarrow> platformDb \<times> (memberError + memberView)" where
  "updateProjectMemberRole a pid target role =
     withMembershipTransaction a pid (\<lambda>db.
       case loadTargetUser db pid target True of
         Inl e \<Rightarrow> (db, Inl e)
       | Inr u \<Rightarrow> (case firstRow (membersWith db pid (userUid u)) of
           None \<Rightarrow> (db, Inl (authError 404 ''MEMBER_NOT_FOUND'' ''Project member not found''))
         | Some m \<Rightarrow>
             (logMembership a ''project_member.role_updated'' pid target (Some (memberRole m)) (Some role)
                (setMemberRole pid (userUid u) role db),
              Inr (toMemberView u (Some role) False (Some (memberCreated m))))))"

definition removeProjectMember ::
  "actor \<Rightarrow> string \<Rightarrow> string \<Rightarrow> platformDb \<Rightarrow> platformDb \<times> (memberError + unit)" where
  "removeProjectMember a pid target =
     withMembershipTransaction a pid (\<lambda>db.
       case loadTargetUser db pid target False of
         Inl e \<Rightarrow> (db, Inl e)
       | Inr u \<Rightarrow> (case firstRow (membersWith db pid (userUid u)) of
           None \<Rightarrow> (deleteMember pid (userUid u) db, Inl (authError 404 ''MEMBER_NOT_FOUND'' ''Project member not found''))
         | Some m \<Rightarrow>
             (logMembership a ''project_member.removed'' pid target (Some (memberRole m)) None
                (deleteMember pid (userUid u) db),
              Inr ())))"

subsection \<open>Handlers\<close>

text \<open>The reply of a handler: status and body.\<close>

datatype memberBody =
    MemberAccess projectAccess
  | MemberList "memberView list"
  | MemberOne memberView
  | NoBody
  | ErrorBody string string

type_synonym memberReply = "nat \<times> memberBody"

definition sendMemberError :: "memberError \<Rightarrow> memberReply" where
  "sendMemberError e = (statusCode e, ErrorBody (authCode e) (authMessage e))"

text \<open>\<open>authorize\<close>: the access the guard left on the request, when it has the capability.\<close>

definition authorizeMember ::
  "platformDb \<Rightarrow> guardRequest \<Rightarrow> string \<Rightarrow> projectCapability \<Rightarrow> authorizationError + projectAccess" where
  "authorizeMember db rq pid cap =
     (case reqProjectAccess rq of
        Some a \<Rightarrow> if cap \<in> set (accessCapabilities a) then Inr a
                  else assertProjectCapability db (reqUser rq) pid cap
      | None \<Rightarrow> assertProjectCapability db (reqUser rq) pid cap)"

definition getProjectAccess :: "platformDb \<Rightarrow> guardRequest \<Rightarrow> string \<Rightarrow> memberReply" where
  "getProjectAccess db rq pid =
     (case reqProjectAccess rq of
        Some a \<Rightarrow> (200, MemberAccess a)
      | None \<Rightarrow> (case resolveProjectAccess db (reqUser rq) pid of
          Some a \<Rightarrow> (200, MemberAccess a)
        | None \<Rightarrow> (case assertProjectCapability db (reqUser rq) pid ProjectRead of
            Inr a \<Rightarrow> (200, MemberAccess a)
          | Inl e \<Rightarrow> sendMemberError e)))"

definition listProjectMembersHandler :: "platformDb \<Rightarrow> guardRequest \<Rightarrow> string \<Rightarrow> memberReply" where
  "listProjectMembersHandler db rq pid =
     (case authorizeMember db rq pid MembersRead of
        Inl e \<Rightarrow> sendMemberError e
      | Inr _ \<Rightarrow> (200, MemberList (listProjectMembers db pid)))"

definition searchCandidatesHandler :: "platformDb \<Rightarrow> guardRequest \<Rightarrow> string \<Rightarrow> string option \<Rightarrow> memberReply" where
  "searchCandidatesHandler db rq pid q =
     (case authorizeMember db rq pid MembersManage of
        Inl e \<Rightarrow> sendMemberError e
      | Inr _ \<Rightarrow> (case searchProjectMemberCandidates db pid (case q of Some s \<Rightarrow> s | None \<Rightarrow> []) of
          Inl e \<Rightarrow> sendMemberError e
        | Inr vs \<Rightarrow> (200, MemberList vs)))"

fun actorOf :: "requestUser option \<Rightarrow> actor option" where
  "actorOf (Some (PlatformUser i n t r)) = Some \<lparr>actorUid = n, actorId = i\<rparr>"
| "actorOf _ = None"

definition invalidRole :: memberReply where
  "invalidRole = (400, ErrorBody ''INVALID_ROLE'' ''Invalid project member role'')"

definition validateMemberInput :: "jsval \<Rightarrow> jsval \<Rightarrow> memberReply option" where
  "validateMemberInput uid0 role =
     (if \<not> isProjectMemberRole role then Some invalidRole
      else if \<not> js_is_string uid0 \<or> js_trim (js_string_of uid0) = []
      then Some (400, ErrorBody ''INVALID_INPUT'' ''Platform user ID is required'')
      else None)"

text \<open>Authorization by capability, then the change with the actor of the request.\<close>

definition withManager ::
  "guardRequest \<Rightarrow> string \<Rightarrow> (actor \<Rightarrow> platformDb \<Rightarrow> platformDb \<times> (memberError + 'a)) \<Rightarrow>
     ('a \<Rightarrow> memberReply) \<Rightarrow> platformDb \<Rightarrow> platformDb \<times> memberReply" where
  "withManager rq pid change ok db =
     (case authorizeMember db rq pid MembersManage of
        Inl e \<Rightarrow> (db, sendMemberError e)
      | Inr _ \<Rightarrow> (case actorOf (reqUser rq) of
          None \<Rightarrow> (db, sendMemberError unauthorized)
        | Some a \<Rightarrow> (case change a db of (db1, r) \<Rightarrow>
            (db1, case r of Inl e \<Rightarrow> sendMemberError e | Inr x \<Rightarrow> ok x))))"

definition createProjectMember ::
  "int \<Rightarrow> guardRequest \<Rightarrow> string \<Rightarrow> jsval \<Rightarrow> jsval \<Rightarrow> platformDb \<Rightarrow> platformDb \<times> memberReply" where
  "createProjectMember now rq pid uid0 role db =
     (case validateMemberInput uid0 role of
        Some reply \<Rightarrow> (db, reply)
      | None \<Rightarrow> withManager rq pid (\<lambda>a. addProjectMember now a pid (js_string_of uid0) (js_string_of role))
                  (\<lambda>v. (201, MemberOne v)) db)"

definition updateProjectMember ::
  "guardRequest \<Rightarrow> string \<Rightarrow> string \<Rightarrow> jsval \<Rightarrow> platformDb \<Rightarrow> platformDb \<times> memberReply" where
  "updateProjectMember rq pid target role db =
     (if \<not> isProjectMemberRole role then (db, invalidRole)
      else withManager rq pid (\<lambda>a. updateProjectMemberRole a pid target (js_string_of role))
             (\<lambda>v. (200, MemberOne v)) db)"

definition deleteProjectMember ::
  "guardRequest \<Rightarrow> string \<Rightarrow> string \<Rightarrow> platformDb \<Rightarrow> platformDb \<times> memberReply" where
  "deleteProjectMember rq pid target db =
     withManager rq pid (\<lambda>a. removeProjectMember a pid target) (\<lambda>u. (204, NoBody)) db"

end
