(* ===== verification/Authorization_Properties.thy ===== *)
theory Authorization_Properties
  imports Project_Authorization
begin

text \<open>
  What the authorization of platform users guarantees: the decision follows the current rows of
  the database and not the claims of the token, the owner's capabilities stay with owners, and
  the different ways the API asks the same question agree.
\<close>

subsection \<open>The row of a decision\<close>

definition rowOf :: "platformDb \<Rightarrow> projectRow \<Rightarrow> tenantRow \<Rightarrow> userRow option \<Rightarrow> projectAuthorizationRow" where
  "rowOf db p t u =
     \<lparr>rowProject = projectId p, rowUid = map_option userUid u, rowStatus = Option.bind u userStatus,
      rowPlatformRole = Option.bind u userRole, rowOwner = ownerUid t,
      rowMemberRole = (case u of None \<Rightarrow> None
        | Some v \<Rightarrow> map_option memberRole (firstRow (membersWith db (projectId p) (userUid v))))\<rparr>"

lemma firstRow_simps [simp]: "firstRow [] = None" "firstRow (x # xs) = Some x"
  by (simp_all add: firstRow_def)

lemma membersWith_single:
  "db_ok db \<Longrightarrow> leftJoin (membersWith db pid a) = [firstRow (membersWith db pid a)]"
  using membersWith_cases [of db pid a] by auto

lemma usersWith_single: "db_ok db \<Longrightarrow> leftJoin (usersWith db a b) = [firstRow (usersWith db a b)]"
  using usersWith_cases [of db a b] by auto

lemma authorizationRows_single:
  assumes "db_ok db"
  shows "(\<exists>p \<in> set (projects db). \<exists>t \<in> set (tenants db). projectId p = pid \<and> tenantId t = projectTenant p
            \<and> authorizationRows db pid a b = [rowOf db p t (firstRow (usersWith db a b))])
       \<or> (pid \<notin> projectId ` set (projects db) \<and> authorizationRows db pid a b = [])"
  using projectsWith_cases [OF assms, of pid]
proof (elim disjE bexE conjE)
  fix p
  assume p: "p \<in> set (projects db)" "projectId p = pid" "projectsWith db pid = [p]"
  obtain t where t: "t \<in> set (tenants db)" "tenantId t = projectTenant p" "tenantsOf db p = [t]"
    using tenantsOf_single [OF assms p(1)] by blast
  have "authorizationRows db pid a b = [rowOf db p t (firstRow (usersWith db a b))]"
    using p(3) t(3) usersWith_single [OF assms, of a b] membersWith_single [OF assms]
    by (cases "firstRow (usersWith db a b)") (simp_all add: authorizationRows_def rowOf_def)
  then show ?thesis using p t by blast
qed (simp add: authorizationRows_def)

text \<open>The access the current rows grant a user on a project.\<close>

definition grantedRole :: "platformDb \<Rightarrow> string \<Rightarrow> int \<Rightarrow> string \<Rightarrow> effectiveRole option" where
  "grantedRole db id0 uid0 pid =
     (case (firstRow (usersWith db uid0 id0), firstRow (projectsWith db pid)) of
        (Some u, Some p) \<Rightarrow>
          if userStatus u \<noteq> Some ''active'' then None
          else if userRole u = Some ''super_admin'' \<or> list_ex (\<lambda>t. ownerUid t = uid0) (tenantsOf db p)
          then Some Owner
          else Option.bind (firstRow (membersWith db pid uid0)) (\<lambda>m. roleNamed (memberRole m))
      | _ \<Rightarrow> None)"

lemma resolveAccess_grantedRole:
  assumes "db_ok db"
  shows "map_option accessRole (resolveAccessFromRow (loadProjectAuthorization db (PlatformUser id0 uid0 tn r) pid))
           = grantedRole db id0 uid0 pid"
  using authorizationRows_single [OF assms, of pid uid0 id0]
proof (elim disjE bexE conjE)
  fix p t
  assume p: "p \<in> set (projects db)" "t \<in> set (tenants db)" "projectId p = pid" "tenantId t = projectTenant p"
    and rows: "authorizationRows db pid uid0 id0 = [rowOf db p t (firstRow (usersWith db uid0 id0))]"
  have pw: "projectsWith db pid = [p]" "tenantsOf db p = [t]"
  proof -
    show "projectsWith db pid = [p]"
      using filter_key [of projectId "projects db" p] p assms by (simp add: projectsWith_def db_ok_def)
    show "tenantsOf db p = [t]"
      using filter_key [of tenantId "tenants db" t] p assms by (simp add: tenantsOf_def db_ok_def)
  qed
  show ?thesis
  proof (cases "firstRow (usersWith db uid0 id0)")
    case None
    with rows pw show ?thesis
      by (simp add: resolveAccessFromRow_def rowOf_def grantedRole_def)
  next
    case (Some u)
    have u: "userUid u = uid0"
      using usersWith_cases [OF assms, of uid0 id0] Some by auto
    have mem: "n \<noteq> []" if "firstRow (membersWith db pid uid0) = Some m" "memberRole m = n" for m n
    proof -
      have "m \<in> set (members db)" using membersWith_cases [OF assms, of pid uid0] that(1) by auto
      then have "memberRole m \<in> set memberRoleNames" using assms by (simp add: db_ok_def list_all_iff)
      then show ?thesis using that(2) by (auto simp: memberRoleNames_def)
    qed
    with rows pw Some u p show ?thesis
      by (cases "firstRow (membersWith db pid uid0)")
        (auto simp: resolveAccessFromRow_def rowOf_def grantedRole_def accessForRole_def
          option.map_comp comp_def option.map_ident)
  qed
next
  assume "pid \<notin> projectId ` set (projects db)" "authorizationRows db pid uid0 id0 = []"
  moreover from this have "projectsWith db pid = []" using projectsWith_cases [OF assms, of pid] by auto
  ultimately show ?thesis
    by (simp add: resolveAccessFromRow_def grantedRole_def split: option.split)
qed

lemma resolveAccess_caps:
  "resolveAccessFromRow row0 = Some a \<Longrightarrow> accessCapabilities a = capabilitiesOf (accessRole a)"
  by (auto simp: resolveAccessFromRow_def accessForRole_def split: option.splits if_splits)

lemma assert_granted:
  assumes "db_ok db"
  shows "case assertProjectCapability db (Some (PlatformUser id0 uid0 tn r)) pid cap of
      Inr a \<Rightarrow> grantedRole db id0 uid0 pid = Some (accessRole a) \<and> cap \<in> set (capabilitiesOf (accessRole a))
        \<and> accessCapabilities a = capabilitiesOf (accessRole a)
    | Inl e \<Rightarrow> \<not> (\<exists>rl. grantedRole db id0 uid0 pid = Some rl \<and> cap \<in> set (capabilitiesOf rl))"
proof -
  let ?row = "loadProjectAuthorization db (PlatformUser id0 uid0 tn r) pid"
  have g: "map_option accessRole (resolveAccessFromRow ?row) = grantedRole db id0 uid0 pid"
    by (rule resolveAccess_grantedRole [OF assms])
  show ?thesis
  proof (cases "resolveAccessFromRow ?row")
    case None
    then show ?thesis using g
      by (cases ?row) (simp_all add: assertProjectCapability_def split: option.split)
  next
    case (Some a)
    then obtain row where row: "?row = Some row" by (cases ?row) (auto simp: resolveAccessFromRow_def)
    from Some g resolveAccess_caps [OF Some] row show ?thesis
      by (auto simp: assertProjectCapability_def)
  qed
qed

text \<open>Who may use a capability, said of the tables alone.\<close>

definition mayUse :: "platformDb \<Rightarrow> string \<Rightarrow> int \<Rightarrow> string \<Rightarrow> projectCapability \<Rightarrow> bool" where
  "mayUse db id0 uid0 pid cap \<longleftrightarrow>
     (\<exists>u \<in> set (users db). \<exists>p \<in> set (projects db). \<exists>t \<in> set (tenants db).
        userUid u = uid0 \<and> userId u = id0 \<and> userStatus u = Some ''active''
        \<and> projectId p = pid \<and> tenantId t = projectTenant p
        \<and> (userRole u = Some ''super_admin'' \<or> ownerUid t = uid0
           \<or> (\<exists>m \<in> set (members db). \<exists>r. memberProject m = pid \<and> memberUid m = uid0
                \<and> roleName r = memberRole m \<and> cap \<in> set (capabilitiesOf r))))"

lemma roleNamed_iff: "roleNamed n = Some r \<longleftrightarrow> roleName r = n"
  using roleName_inj [of r]
  by (cases r) (auto simp: roleNamed_def roleCapabilities_def firstRow_def roleName_def split: if_splits)

lemma firstRow_users: "db_ok db \<Longrightarrow> firstRow (usersWith db a b) = Some u \<longleftrightarrow>
    u \<in> set (users db) \<and> userUid u = a \<and> userId u = b"
  using usersWith_cases [of db a b] user_by_uid [of db] by auto

lemma firstRow_projects:
  "db_ok db \<Longrightarrow> firstRow (projectsWith db pid) = Some p \<longleftrightarrow> p \<in> set (projects db) \<and> projectId p = pid"
proof -
  assume ok: "db_ok db"
  then have "p = q" if "p \<in> set (projects db)" "q \<in> set (projects db)" "projectId p = projectId q" for p q
    using that by (auto simp: db_ok_def distinct_map dest: inj_onD)
  then show ?thesis using projectsWith_cases [OF ok, of pid] by auto
qed

lemma firstRow_members:
  "db_ok db \<Longrightarrow> firstRow (membersWith db pid a) = Some m \<longleftrightarrow>
     m \<in> set (members db) \<and> memberProject m = pid \<and> memberUid m = a"
proof -
  assume ok: "db_ok db"
  then have "m = n" if "m \<in> set (members db)" "n \<in> set (members db)" "memberProject m = memberProject n"
      "memberUid m = memberUid n" for m n
    using that by (auto simp: db_ok_def distinct_map dest: inj_onD)
  then show ?thesis using membersWith_cases [OF ok, of pid a] by auto
qed

lemma owner_iff: "list_ex (\<lambda>t. ownerUid t = a) (tenantsOf db p) \<longleftrightarrow>
    (\<exists>t \<in> set (tenants db). tenantId t = projectTenant p \<and> ownerUid t = a)"
  by (auto simp: list_ex_iff tenantsOf_def)

lemma grantedRole_iff:
  assumes ok: "db_ok db"
  shows "grantedRole db id0 uid0 pid = Some r \<longleftrightarrow>
    (\<exists>u \<in> set (users db). \<exists>p \<in> set (projects db).
        userUid u = uid0 \<and> userId u = id0 \<and> userStatus u = Some ''active'' \<and> projectId p = pid
        \<and> (let full = (userRole u = Some ''super_admin''
                        \<or> (\<exists>t \<in> set (tenants db). tenantId t = projectTenant p \<and> ownerUid t = uid0)) in
           if full then r = Owner
           else \<exists>m \<in> set (members db). memberProject m = pid \<and> memberUid m = uid0 \<and> roleName r = memberRole m))"
    (is "?l \<longleftrightarrow> ?r")
proof
  assume ?l
  then obtain u p where up: "firstRow (usersWith db uid0 id0) = Some u" "firstRow (projectsWith db pid) = Some p"
    by (auto simp: grantedRole_def split: option.splits)
  with \<open>?l\<close> show ?r
    by (intro bexI [where x = u] bexI [where x = p])
      (auto simp: grantedRole_def firstRow_users [OF ok] firstRow_projects [OF ok] owner_iff Let_def
        bind_eq_Some_conv firstRow_members [OF ok] roleNamed_iff split: if_splits)
next
  assume ?r
  then obtain u p where up: "u \<in> set (users db)" "p \<in> set (projects db)" "userUid u = uid0" "userId u = id0"
      "userStatus u = Some ''active''" "projectId p = pid" and
    r: "let full = (userRole u = Some ''super_admin''
              \<or> (\<exists>t \<in> set (tenants db). tenantId t = projectTenant p \<and> ownerUid t = uid0)) in
        if full then r = Owner
        else \<exists>m \<in> set (members db). memberProject m = pid \<and> memberUid m = uid0 \<and> roleName r = memberRole m"
    by blast
  have "firstRow (usersWith db uid0 id0) = Some u" "firstRow (projectsWith db pid) = Some p"
    using up firstRow_users [OF ok] firstRow_projects [OF ok] by auto
  with r up show ?l
    by (auto simp: grantedRole_def owner_iff Let_def bind_eq_Some_conv firstRow_members [OF ok] roleNamed_iff
        split: if_splits)
qed

lemma mayUse_granted:
  assumes ok: "db_ok db"
  shows "mayUse db id0 uid0 pid cap \<longleftrightarrow>
    (\<exists>r. grantedRole db id0 uid0 pid = Some r \<and> cap \<in> set (capabilitiesOf r))"
    (is "?l \<longleftrightarrow> ?r")
proof
  assume ?l
  then obtain u p t where up: "u \<in> set (users db)" "p \<in> set (projects db)" "t \<in> set (tenants db)"
      "userUid u = uid0" "userId u = id0" "userStatus u = Some ''active''" "projectId p = pid"
      "tenantId t = projectTenant p" and
    how: "userRole u = Some ''super_admin'' \<or> ownerUid t = uid0
       \<or> (\<exists>m \<in> set (members db). \<exists>r. memberProject m = pid \<and> memberUid m = uid0
             \<and> roleName r = memberRole m \<and> cap \<in> set (capabilitiesOf r))"
    unfolding mayUse_def by blast
  show ?r
  proof (cases "userRole u = Some ''super_admin'' \<or>
      (\<exists>t \<in> set (tenants db). tenantId t = projectTenant p \<and> ownerUid t = uid0)")
    case True
    then have "grantedRole db id0 uid0 pid = Some Owner"
      unfolding grantedRole_iff [OF ok] Let_def using up by auto
    then show ?thesis by simp
  next
    case False
    then obtain m r where "m \<in> set (members db)" "memberProject m = pid" "memberUid m = uid0"
        "roleName r = memberRole m" "cap \<in> set (capabilitiesOf r)"
      using how up by blast
    moreover from this False have "grantedRole db id0 uid0 pid = Some r"
      unfolding grantedRole_iff [OF ok] Let_def using up by auto
    ultimately show ?thesis by blast
  qed
next
  assume ?r
  then obtain r where r: "grantedRole db id0 uid0 pid = Some r" "cap \<in> set (capabilitiesOf r)" by blast
  then obtain u p where up: "u \<in> set (users db)" "p \<in> set (projects db)" "userUid u = uid0" "userId u = id0"
      "userStatus u = Some ''active''" "projectId p = pid"
      "userRole u = Some ''super_admin'' \<or> (\<exists>t \<in> set (tenants db). tenantId t = projectTenant p \<and> ownerUid t = uid0)
        \<or> (\<exists>m \<in> set (members db). memberProject m = pid \<and> memberUid m = uid0 \<and> roleName r = memberRole m)"
    unfolding grantedRole_iff [OF ok] Let_def by (auto split: if_splits)
  obtain t where "t \<in> set (tenants db)" "tenantId t = projectTenant p"
    using tenantsOf_single [OF ok up(2)] by blast
  with up r(2) show ?l unfolding mayUse_def by blast
qed

text \<open>
  C32. A request gets access to a project for a capability exactly when its token is one of a
  platform user and the current rows entitle that user: an active account with that uid and user
  id that is super admin, owns the project's workspace, or is a member in a role with the
  capability. Neither the role nor the workspace claimed by the token matters.
\<close>

theorem assertProjectCapability_spec:
  assumes "db_ok db"
  shows "(\<exists>a. assertProjectCapability db user pid cap = Inr a) \<longleftrightarrow>
    (\<exists>id0 uid0 tn r. user = Some (PlatformUser id0 uid0 tn r) \<and> mayUse db id0 uid0 pid cap)"
proof (cases "\<exists>id0 uid0 tn r. user = Some (PlatformUser id0 uid0 tn r)")
  case True
  then obtain id0 uid0 tn r where u: "user = Some (PlatformUser id0 uid0 tn r)" by blast
  show ?thesis
    using assert_granted [OF assms, of id0 uid0 pid cap tn r] mayUse_granted [OF assms, of id0 uid0 pid cap]
    unfolding u by (auto split: sum.splits)
next
  case False
  then show ?thesis
    by (cases "the user") (auto simp: assertProjectCapability_def split: option.splits)
qed

definition demoUser :: userRow where
  "demoUser = \<lparr>userUid = 7, userId = ''user_a'', email = None, username = None,
               userStatus = Some ''active'', userRole = None\<rparr>"

definition demoDb :: platformDb where
  "demoDb =
     \<lparr>users = [demoUser,
        \<lparr>userUid = 8, userId = ''user_b'', email = Some ''b@x.io'', username = None,
         userStatus = Some ''active'', userRole = None\<rparr>],
      tenants = [\<lparr>tenantId = ''tenant_a'', ownerUid = 7\<rparr>],
      projects = [\<lparr>projectId = ''proj_a'', projectTenant = ''tenant_a'', schemaName = Some ''dru_a_b'',
        projectCreated = 0\<rparr>],
      members = [], environments = [], activities = []\<rparr>"

definition demoOwner :: requestUser where
  "demoOwner = PlatformUser ''user_a'' 7 None None"

lemma demoDb_ok: "db_ok demoDb"
  by (simp add: db_ok_def demoDb_def demoUser_def)

lemma demo_may: "mayUse demoDb ''user_a'' 7 ''proj_a'' cap"
  by (simp add: mayUse_def demoDb_def demoUser_def)

theorem assertProjectCapability_spec_witness:
  "db_ok demoDb \<and> (\<exists>a. assertProjectCapability demoDb (Some demoOwner) ''proj_a'' ProjectDelete = Inr a)"
  using assertProjectCapability_spec [OF demoDb_ok, of "Some demoOwner" "''proj_a''" ProjectDelete]
    demoDb_ok demo_may by (simp add: demoOwner_def)

text \<open>
  Deleting a project, managing its members, its runtime context, its database credentials and
  its trusted keys are reserved to the workspace owner and to super admins, whatever role a
  membership row names; and a higher role never has fewer capabilities than a lower one.
\<close>

theorem owner_capabilities:
  assumes "db_ok db" "assertProjectCapability db user pid cap = Inr a"
    "cap \<in> {ProjectDelete, MembersManage, RuntimeContextManage, DatabaseCredentials, TrustedKeysManage}"
  shows "(\<exists>u \<in> set (users db). \<exists>p \<in> set (projects db).
             userStatus u = Some ''active'' \<and> projectId p = pid
             \<and> (userRole u = Some ''super_admin''
                \<or> (\<exists>t \<in> set (tenants db). tenantId t = projectTenant p \<and> ownerUid t = userUid u)))
         \<and> accessRole a = Owner"
proof -
  obtain id0 uid0 tn r where user: "user = Some (PlatformUser id0 uid0 tn r)"
    using assms(2) by (cases "the user") (auto simp: assertProjectCapability_def split: option.splits)
  have g: "grantedRole db id0 uid0 pid = Some (accessRole a)" "cap \<in> set (capabilitiesOf (accessRole a))"
    using assert_granted [OF assms(1), of id0 uid0 pid cap tn r] assms(2) user by simp_all
  have owner: "accessRole a = Owner"
    using g(2) assms(3) by (cases "accessRole a") auto
  have "\<not> (\<exists>m \<in> set (members db). roleName Owner = memberRole m)"
    using assms(1) by (auto simp: db_ok_def list_all_iff memberRoleNames_def roleName_def)
  then show ?thesis
    using g(1) owner unfolding grantedRole_iff [OF assms(1)] Let_def by (metis (full_types))
qed

theorem owner_capabilities_witness:
  "\<exists>a. assertProjectCapability demoDb (Some demoOwner) ''proj_a'' MembersManage = Inr a \<and> accessRole a = Owner"
proof -
  obtain a where a: "assertProjectCapability demoDb (Some demoOwner) ''proj_a'' MembersManage = Inr a"
    using assert_granted [OF demoDb_ok, of "''user_a''" 7 "''proj_a''" MembersManage None None]
      mayUse_granted [OF demoDb_ok, of "''user_a''" 7 "''proj_a''" MembersManage] demo_may
    by (auto simp: demoOwner_def split: sum.splits)
  from owner_capabilities [OF demoDb_ok a] a show ?thesis by auto
qed

text \<open>The roles of the members that a listing looks for.\<close>

lemma member_in_roles:
  assumes "db_ok db" "m \<in> set (members db)"
  shows "memberRole m \<in> set (memberRolesWith cap) \<longleftrightarrow> (\<exists>r. roleName r = memberRole m \<and> cap \<in> set (capabilitiesOf r))"
proof -
  have n: "memberRole m \<in> set memberRoleNames" using assms by (simp add: db_ok_def list_all_iff)
  then obtain r where "roleNamed (memberRole m) = Some r" using roleNamed_member by blast
  then show ?thesis using memberRolesWith_iff [OF n] roleNamed_iff roleName_inj by metis
qed

lemma accessibleRows_iff:
  assumes ok: "db_ok db"
  shows "p \<in> set (accessibleRows db tid a b (memberRolesWith cap)) \<longleftrightarrow>
    p \<in> set (projects db) \<and> projectTenant p = tid \<and> mayUse db b a (projectId p) cap"
proof -
  have mem: "(\<exists>m \<in> set (leftJoin (membersWith db q u)). case m of Some n \<Rightarrow> memberRole n \<in> set (memberRolesWith cap) | None \<Rightarrow> False)
      \<longleftrightarrow> (\<exists>m \<in> set (members db). memberProject m = q \<and> memberUid m = u
             \<and> (\<exists>r. roleName r = memberRole m \<and> cap \<in> set (capabilitiesOf r)))" for q u
    using member_in_roles [OF ok] by (auto simp: leftJoin_def membersWith_def filter_empty_conv)
  have ne: "set (leftJoin xs) \<noteq> {}" for xs :: "'z list" by (simp add: leftJoin_def)
  have p_unique: "p = q" if "p \<in> set (projects db)" "q \<in> set (projects db)" "projectId p = projectId q" for q
    using that ok by (auto simp: db_ok_def distinct_map dest: inj_onD)
  have "p \<in> set (accessibleRows db tid a b (memberRolesWith cap)) \<longleftrightarrow>
      p \<in> set (projects db) \<and> projectTenant p = tid \<and>
      (\<exists>t \<in> set (tenantsOf db p). \<exists>u \<in> set (usersWith db a b). userStatus u = Some ''active'' \<and>
        (userRole u = Some ''super_admin'' \<or> ownerUid t = userUid u \<or>
         (\<exists>m \<in> set (leftJoin (membersWith db (projectId p) (userUid u))).
            case m of Some n \<Rightarrow> memberRole n \<in> set (memberRolesWith cap) | None \<Rightarrow> False)))"
    using ne unfolding accessibleRows_def by (fastforce split: if_splits)
  also have "\<dots> \<longleftrightarrow> p \<in> set (projects db) \<and> projectTenant p = tid \<and> mayUse db b a (projectId p) cap"
    unfolding mem mayUse_def using p_unique by (auto simp: tenantsOf_def usersWith_def; metis)
  finally show ?thesis .
qed

text \<open>
  The list of accessible projects and the check of a single project agree: a project of the
  workspace is listed for a capability exactly when the check grants it.
\<close>

theorem listAccessibleProjectIds_agrees:
  assumes "db_ok db" "listAccessibleProjectIds db user tid cap = Inr ids"
  shows "pid \<in> set ids \<longleftrightarrow>
    (\<exists>p \<in> set (projects db). projectId p = pid \<and> projectTenant p = tid)
    \<and> (\<exists>a. assertProjectCapability db user pid cap = Inr a)"
proof -
  obtain id0 uid0 tn r where user: "user = Some (PlatformUser id0 uid0 tn r)"
    using assms(2) by (cases "(db, user, tid, cap)" rule: listAccessibleProjectIds.cases) auto
  then have "ids = map projectId (sort_key (\<lambda>p. - projectCreated p)
      (accessibleRows db tid uid0 id0 (memberRolesWith cap)))" using assms(2) by simp
  then have "pid \<in> set ids \<longleftrightarrow> (\<exists>p \<in> set (projects db). projectId p = pid \<and> projectTenant p = tid
      \<and> mayUse db id0 uid0 pid cap)"
    using accessibleRows_iff [OF assms(1)] by (auto simp: image_iff)
  moreover have "(\<exists>a. assertProjectCapability db user pid cap = Inr a) \<longleftrightarrow> mayUse db id0 uid0 pid cap"
    unfolding user using assert_granted [OF assms(1), of id0 uid0 pid cap tn r]
      mayUse_granted [OF assms(1), of id0 uid0 pid cap] by (auto split: sum.splits)
  ultimately show ?thesis by auto
qed

theorem listAccessibleProjectIds_agrees_witness:
  "\<exists>ids. listAccessibleProjectIds demoDb (Some demoOwner) ''tenant_a'' ProjectRead = Inr ids \<and> ''proj_a'' \<in> set ids"
proof -
  obtain ids where ids: "listAccessibleProjectIds demoDb (Some demoOwner) ''tenant_a'' ProjectRead = Inr ids"
    by (simp add: demoOwner_def)
  have "\<exists>a. assertProjectCapability demoDb (Some demoOwner) ''proj_a'' ProjectRead = Inr a"
    using assert_granted [OF demoDb_ok, of "''user_a''" 7 "''proj_a''" ProjectRead None None]
      mayUse_granted [OF demoDb_ok, of "''user_a''" 7 "''proj_a''" ProjectRead] demo_may
    by (auto simp: demoOwner_def split: sum.splits)
  moreover have "\<exists>p \<in> set (projects demoDb). projectId p = ''proj_a'' \<and> projectTenant p = ''tenant_a''"
    by (simp add: demoDb_def)
  ultimately show ?thesis
    using listAccessibleProjectIds_agrees [OF demoDb_ok ids, of "''proj_a''"] ids by blast
qed

subsection \<open>The checks by user id\<close>

lemma activeUsersById_single:
  assumes "db_ok db" "u \<in> set (users db)"
  shows "activeUsersById db (userId u) = (if userStatus u = Some ''active'' then [u] else [])"
proof -
  have "distinct (map userId (users db))" using assms(1) by (simp add: db_ok_def)
  from filter_key [OF this assms(2)]
  have "filter (\<lambda>v. userStatus v = Some ''active'') (filter (\<lambda>v. userId v = userId u) (users db))
      = filter (\<lambda>v. userStatus v = Some ''active'') [u]" by simp
  then show ?thesis by (simp add: activeUsersById_def)
qed

lemma usersWith_self: "db_ok db \<Longrightarrow> u \<in> set (users db) \<Longrightarrow> usersWith db (userUid u) (userId u) = [u]"
  using usersWith_cases [of db "userUid u" "userId u"] user_by_uid [of db] by auto

lemma tenant_filter_single:
  "db_ok db \<Longrightarrow> (\<exists>t \<in> set (tenants db). tenantId t = tid \<and> filter (\<lambda>t. tenantId t = tid) (tenants db) = [t])
     \<or> (tid \<notin> tenantId ` set (tenants db) \<and> filter (\<lambda>t. tenantId t = tid) (tenants db) = [])"
  by (rule filter_key_cases) (simp add: db_ok_def)

lemma checkProjectAccess_granted:
  assumes ok: "db_ok db" and u: "u \<in> set (users db)"
  shows "checkProjectAccess db (userId u) pid \<longleftrightarrow> grantedRole db (userId u) (userUid u) pid \<noteq> None"
  using projectsWith_cases [OF ok, of pid]
proof (elim disjE bexE conjE)
  fix p
  assume p: "p \<in> set (projects db)" "projectId p = pid" "projectsWith db pid = [p]"
  obtain t where t: "tenantsOf db p = [t]" using tenantsOf_single [OF ok p(1)] by blast
  have "\<exists>r. roleNamed (memberRole m) = Some r" if "firstRow (membersWith db pid (userUid u)) = Some m" for m
  proof -
    have "memberRole m \<in> set memberRoleNames"
      using that firstRow_members [OF ok] ok by (auto simp: db_ok_def list_all_iff)
    then show ?thesis using roleNamed_member by blast
  qed
  then show ?thesis
    using p t membersWith_cases [OF ok, of pid "userUid u"]
    by (auto simp: checkProjectAccess_def activeUsersById_single [OF ok u] mayAccess_def grantedRole_def
        usersWith_self [OF ok u])
qed (simp add: checkProjectAccess_def grantedRole_def split: option.split)

text \<open>
  The access checks by user id alone agree with the checks of a request: a user passes
  \<open>checkProjectAccess\<close> exactly when the request of that user resolves to some access, and
  \<open>checkTenantAccess\<close> exactly when the workspace guard lets the request through.
\<close>

theorem access_checks_agree:
  assumes "db_ok db" "u \<in> set (users db)"
  shows "(checkProjectAccess db (userId u) pid \<longleftrightarrow>
            (\<exists>a. resolveProjectAccess db (Some (PlatformUser (userId u) (userUid u) tn r)) pid = Some a))
       \<and> (checkTenantAccess db (userId u) tid \<longleftrightarrow>
            (\<exists>a. assertTenantAccess db (Some (PlatformUser (userId u) (userUid u) tn r)) tid False = Inr a))"
proof
  show "checkProjectAccess db (userId u) pid \<longleftrightarrow>
      (\<exists>a. resolveProjectAccess db (Some (PlatformUser (userId u) (userUid u) tn r)) pid = Some a)"
    using resolveAccess_grantedRole [OF assms(1), of "userId u" "userUid u" tn r pid]
      checkProjectAccess_granted [OF assms, of pid]
    by (auto simp: resolveProjectAccess_def)
  show "checkTenantAccess db (userId u) tid \<longleftrightarrow>
      (\<exists>a. assertTenantAccess db (Some (PlatformUser (userId u) (userUid u) tn r)) tid False = Inr a)"
    using tenant_filter_single [OF assms(1), of tid]
  proof (elim disjE bexE conjE)
    fix t
    assume t: "t \<in> set (tenants db)" "tenantId t = tid" "filter (\<lambda>t. tenantId t = tid) (tenants db) = [t]"
    then have "checkTenantAccess db (userId u) tid \<longleftrightarrow>
        list_ex (\<lambda>u. userRole u = Some ''super_admin'' \<or> ownerUid t = userUid u
          \<or> hasProjectMembership db tid (userUid u)) (activeUsersById db (userId u))"
      using filter_key [of tenantId "tenants db"] assms(1)
      by (auto simp: checkTenantAccess_def list_ex_iff db_ok_def distinct_map dest: inj_onD)
    with t show ?thesis
      by (simp add: activeUsersById_single [OF assms] usersWith_self [OF assms] Let_def)
  next
    assume t: "tid \<notin> tenantId ` set (tenants db)" "filter (\<lambda>t. tenantId t = tid) (tenants db) = []"
    then show ?thesis by (auto simp: checkTenantAccess_def list_ex_iff)
  qed
qed

theorem access_checks_agree_witness:
  "checkProjectAccess demoDb ''user_a'' ''proj_a'' \<and> checkTenantAccess demoDb ''user_a'' ''tenant_a'' \<and>
   (\<exists>a. assertTenantAccess demoDb (Some demoOwner) ''tenant_a'' False = Inr a)"
proof -
  have "demoUser \<in> set (users demoDb)" by (simp add: demoDb_def)
  note agree = access_checks_agree [OF demoDb_ok this, of "''proj_a''" None None "''tenant_a''"]
  have "checkProjectAccess demoDb (userId demoUser) ''proj_a''" "checkTenantAccess demoDb (userId demoUser) ''tenant_a''"
    by (simp_all add: checkProjectAccess_def checkTenantAccess_def demoDb_def demoUser_def
        activeUsersById_def projectsWith_def tenantsOf_def mayAccess_def)
  with agree show ?thesis by (simp add: demoOwner_def demoUser_def)
qed

subsection \<open>Schemas\<close>

lemma take_two_single: "(case take 2 xs of [x] \<Rightarrow> Some x | _ \<Rightarrow> None) = Some y \<longleftrightarrow> xs = [y]"
proof (cases xs)
  case (Cons a as)
  then show ?thesis by (cases as) (auto simp: numeral_2_eq_2)
qed simp

text \<open>
  The guard of the schema routes lets a request through only for a schema that belongs to a
  single project, counting projects and environments, and only when the requester may use the
  capability on that very project, which is the one the handler gets; a schema two projects name
  is refused to everyone.
\<close>

theorem requireSchemaCapability_safe:
  assumes "db_ok db" "requireSchemaCapability db cap rq = Inr rq2"
  shows "\<exists>sn pid a id0 uid0 tn r. (paramSchema rq = Some sn \<or> paramSchemaName rq = Some sn)
      \<and> (set (map projectId (filter (\<lambda>p. schemaName p = Some sn) (projects db)))
           \<union> set (map envProject (filter (\<lambda>e. envSchema e = sn) (environments db)))) = {pid}
      \<and> reqUser rq = Some (PlatformUser id0 uid0 tn r) \<and> mayUse db id0 uid0 pid cap
      \<and> reqProjectAccess rq2 = Some a \<and> accessRole a = the (grantedRole db id0 uid0 pid)"
proof -
  obtain sn pid a where sn: "given (case paramSchema rq of Some s \<Rightarrow> Some s | None \<Rightarrow> paramSchemaName rq) = Some sn"
    and pid: "resolveSchemaProject db sn = Some pid" and a: "assertProjectCapability db (reqUser rq) pid cap = Inr a"
      "reqProjectAccess rq2 = Some a"
    using assms(2)
    by (auto simp: requireSchemaCapability_def given_def map_sum_eq_Inr split: option.splits if_splits)
  have "schemaProjects db sn = [pid]" using pid take_two_single [of "schemaProjects db sn" pid]
    by (simp add: resolveSchemaProject_def)
  then have "set (schemaProjects db sn) = {pid}" by simp
  then have one: "set (map projectId (filter (\<lambda>p. schemaName p = Some sn) (projects db)))
      \<union> set (map envProject (filter (\<lambda>e. envSchema e = sn) (environments db))) = {pid}"
    by (simp add: schemaProjects_def)
  obtain id0 uid0 tn r where user: "reqUser rq = Some (PlatformUser id0 uid0 tn r)"
    using a(1) by (cases "the (reqUser rq)") (auto simp: assertProjectCapability_def split: option.splits)
  have "grantedRole db id0 uid0 pid = Some (accessRole a)" "mayUse db id0 uid0 pid cap"
    using assert_granted [OF assms(1), of id0 uid0 pid cap tn r] a(1) user
      mayUse_granted [OF assms(1), of id0 uid0 pid cap] by auto
  moreover have "paramSchema rq = Some sn \<or> paramSchemaName rq = Some sn"
    using sn by (auto simp: given_def split: option.splits if_splits)
  ultimately show ?thesis using one user a(2) by auto
qed

definition demoRequest :: guardRequest where
  "demoRequest = \<lparr>reqUser = Some demoOwner, paramProject = None, paramTenant = None,
                  paramSchema = Some ''dru_a_b'', paramSchemaName = None, reqProjectAccess = None,
                  reqTenantAccess = None\<rparr>"

theorem requireSchemaCapability_safe_witness:
  "\<exists>rq2 a. requireSchemaCapability demoDb DatabaseRead demoRequest = Inr rq2 \<and> reqProjectAccess rq2 = Some a"
proof -
  obtain a where a: "assertProjectCapability demoDb (Some demoOwner) ''proj_a'' DatabaseRead = Inr a"
    using assert_granted [OF demoDb_ok, of "''user_a''" 7 "''proj_a''" DatabaseRead None None]
      mayUse_granted [OF demoDb_ok, of "''user_a''" 7 "''proj_a''" DatabaseRead] demo_may
    by (auto simp: demoOwner_def split: sum.splits)
  have "resolveSchemaProject demoDb ''dru_a_b'' = Some ''proj_a''"
    by (simp add: resolveSchemaProject_def schemaProjects_def demoDb_def)
  then have "requireSchemaCapability demoDb DatabaseRead demoRequest
      = Inr (demoRequest\<lparr>reqProjectAccess := Some a\<rparr>)"
    using a by (simp add: requireSchemaCapability_def demoRequest_def given_def)
  from requireSchemaCapability_safe [OF demoDb_ok this] this show ?thesis by auto
qed

text \<open>
  The schema name of a project determines the workspace alias and the project alias, for the
  aliases the API accepts; so two projects never share the schema their aliases name.
\<close>

theorem generateSchemaName_inj:
  assumes "validateAlias a" "validateAlias b" "validateAlias c" "validateAlias d"
    "generateSchemaName a b = generateSchemaName c d"
  shows "a = c \<and> b = d"
proof -
  have no: "CHR ''_'' \<notin> set x" if "validateAlias x" for x
    using that by (auto simp: validateAlias_def list_all_iff js_is_lower_def js_is_digit_def)
  have "a @ CHR ''_'' # b = c @ CHR ''_'' # d" using assms(5) by (simp add: generateSchemaName_def)
  then have "js_split (CHR ''_'') (a @ CHR ''_'' # b) = js_split (CHR ''_'') (c @ CHR ''_'' # d)" by simp
  then show ?thesis using no assms by (simp add: js_split_append js_split_no_sep)
qed

theorem generateSchemaName_inj_witness:
  "validateAlias ''acme'' \<and> validateAlias ''app1''
   \<and> generateSchemaName ''acme'' ''app1'' = generateSchemaName ''acme'' ''app1'' \<and> ''acme'' = ''acme''"
proof -
  have v: "validateAlias ''acme''" "validateAlias ''app1''"
    by (simp_all add: validateAlias_def js_is_lower_def js_is_digit_def)
  from generateSchemaName_inj [OF v v refl] v show ?thesis by blast
qed

end
