(* ===== verification/Members_Properties.thy ===== *)
theory Members_Properties
  imports Project_Members Authorization_Properties
begin

text \<open>
  What membership management guarantees: the laws of the table of members as an interface, the
  constraints of the database as an invariant of every operation, who can change what, the
  effect of a change on the access of the member, and the literal meaning of the search.
\<close>

subsection \<open>The table of members as an interface\<close>

locale membership_store =
  fixes role_of :: "'t \<Rightarrow> string \<Rightarrow> int \<Rightarrow> string option"
    and put_new :: "string \<Rightarrow> int \<Rightarrow> string \<Rightarrow> int \<Rightarrow> int \<Rightarrow> 't \<Rightarrow> 't option"
    and put_role :: "string \<Rightarrow> int \<Rightarrow> string \<Rightarrow> 't \<Rightarrow> 't"
    and drop_member :: "string \<Rightarrow> int \<Rightarrow> 't \<Rightarrow> 't"
  assumes put_new_None: "put_new p u r c now t = None \<longleftrightarrow> role_of t p u \<noteq> None"
    and put_new_role: "put_new p u r c now t = Some t1 \<Longrightarrow>
      role_of t1 q v = (if q = p \<and> v = u then Some r else role_of t q v)"
    and put_role_role: "role_of (put_role p u r t) q v =
      (if q = p \<and> v = u then map_option (\<lambda>_. r) (role_of t p u) else role_of t q v)"
    and drop_role: "role_of (drop_member p u t) q v = (if q = p \<and> v = u then None else role_of t q v)"
begin

lemma put_then_drop: "put_new p u r c now t = Some t1 \<Longrightarrow> role_of (drop_member p u t1) = role_of t"
proof (intro ext)
  fix q v
  assume t1: "put_new p u r c now t = Some t1"
  then have "role_of t p u = None" using put_new_None [of p u r c now t] by auto
  then show "role_of (drop_member p u t1) q v = role_of t q v"
    by (simp add: drop_role put_new_role [OF t1])
qed

lemma put_role_twice: "role_of (put_role p u r (put_role p u s t)) = role_of (put_role p u r t)"
  by (intro ext) (simp add: put_role_role option.map_comp comp_def)

lemma drop_permits_put: "\<exists>t1. put_new p u r c now (drop_member p u t) = Some t1"
  using put_new_None [of p u r c now "drop_member p u t"] by (simp add: drop_role)

end

lemma roleOf_update:
  "roleOf (db\<lparr>members := map (\<lambda>m. if memberProject m = p \<and> memberUid m = u then m\<lparr>memberRole := r\<rparr> else m)
       (members db)\<rparr>) q v
     = (if q = p \<and> v = u then map_option (\<lambda>_. r) (roleOf db p u) else roleOf db q v)"
proof -
  let ?f = "\<lambda>m. if memberProject m = p \<and> memberUid m = u then m\<lparr>memberRole := r\<rparr> else m"
  have "filter (\<lambda>m. memberProject m = q \<and> memberUid m = v) (map ?f ms)
      = map ?f (filter (\<lambda>m. memberProject m = q \<and> memberUid m = v) ms)" for ms
    by (induction ms) auto
  then have eq: "membersWith (db\<lparr>members := map ?f (members db)\<rparr>) q v = map ?f (membersWith db q v)"
    by (simp add: membersWith_def)
  have "m \<in> set (membersWith db q v) \<Longrightarrow> memberProject m = q \<and> memberUid m = v" for m
    by (simp add: membersWith_def)
  then show ?thesis unfolding roleOf_def eq
    by (cases "membersWith db q v") (auto simp: firstRow_def)
qed

interpretation mtab: membership_store roleOf insertMember setMemberRole deleteMember
proof
  fix p u r c now and t t1 :: platformDb and q v
  show "insertMember p u r c now t = None \<longleftrightarrow> roleOf t p u \<noteq> None"
    by (auto simp: insertMember_def roleOf_def firstRow_def split: list.splits)
  show "insertMember p u r c now t = Some t1 \<Longrightarrow>
      roleOf t1 q v = (if q = p \<and> v = u then Some r else roleOf t q v)"
    by (auto simp: insertMember_def roleOf_def membersWith_def filter_empty_conv split: if_splits)
  show "roleOf (setMemberRole p u r t) q v =
      (if q = p \<and> v = u then map_option (\<lambda>_. r) (roleOf t p u) else roleOf t q v)"
    unfolding setMemberRole_def by (rule roleOf_update)
  have "filter (\<lambda>m. memberProject m = q \<and> memberUid m = v)
        (filter (\<lambda>m. \<not> (memberProject m = p \<and> memberUid m = u)) ms)
      = (if q = p \<and> v = u then [] else filter (\<lambda>m. memberProject m = q \<and> memberUid m = v) ms)" for ms :: "memberRow list"
    by (induction ms) auto
  then show "roleOf (deleteMember p u t) q v = (if q = p \<and> v = u then None else roleOf t q v)"
    by (simp add: roleOf_def deleteMember_def membersWith_def del: filter_filter)
qed

subsection \<open>Successful changes\<close>

text \<open>Who may change the members of a project.\<close>

definition isManager :: "platformDb \<Rightarrow> actor \<Rightarrow> string \<Rightarrow> bool" where
  "isManager db a pid \<longleftrightarrow>
     (\<exists>u \<in> set (users db). \<exists>p \<in> set (projects db). \<exists>t \<in> set (tenants db).
        userUid u = actorUid a \<and> userId u = actorId a \<and> userStatus u = Some ''active''
        \<and> projectId p = pid \<and> tenantId t = projectTenant p
        \<and> (userRole u = Some ''super_admin'' \<or> ownerUid t = userUid u))"

text \<open>A target: a user other than the owner of the project's workspace.\<close>

definition isTarget :: "platformDb \<Rightarrow> string \<Rightarrow> string \<Rightarrow> userRow \<Rightarrow> bool" where
  "isTarget db pid target u \<longleftrightarrow>
     u \<in> set (users db) \<and> userId u = target
     \<and> (\<exists>p \<in> set (projects db). \<exists>t \<in> set (tenants db).
          projectId p = pid \<and> tenantId t = projectTenant p \<and> ownerUid t \<noteq> userUid u)"

lemma firstRow_set: "firstRow xs = Some x \<Longrightarrow> x \<in> set xs"
  by (cases xs) auto

lemma manager_checked:
  assumes "assertMembershipManager db a pid = Inr x"
  shows "isManager db a pid"
proof -
  obtain row u where row: "firstRow [\<lparr>managerOwner = ownerUid t, managerUser = u\<rparr>.
        p \<leftarrow> projectsWith db pid, t \<leftarrow> tenantsOf db p,
        u \<leftarrow> leftJoin (usersWith db (actorUid a) (actorId a))] = Some row"
    and u: "managerUser row = Some u" "userStatus u = Some ''active''"
      "userRole u = Some ''super_admin'' \<or> managerOwner row = userUid u"
    using assms by (auto simp: assertMembershipManager_def split: option.splits if_splits)
  obtain p t where pt: "p \<in> set (projectsWith db pid)" "t \<in> set (tenantsOf db p)"
      "managerOwner row = ownerUid t" "u \<in> set (usersWith db (actorUid a) (actorId a))"
    using firstRow_set [OF row] u(1) by (auto simp: leftJoin_def split: if_splits)
  then have "u \<in> set (users db)" "p \<in> set (projects db)" "t \<in> set (tenants db)" "userUid u = actorUid a"
      "userId u = actorId a" "projectId p = pid" "tenantId t = projectTenant p"
    by (auto simp: projectsWith_def tenantsOf_def usersWith_def)
  with u pt(3) show ?thesis unfolding isManager_def by metis
qed

lemma target_loaded:
  assumes "loadTargetUser db pid target act = Inr u"
  shows "isTarget db pid target u \<and> (act \<longrightarrow> userStatus u = Some ''active'')"
proof -
  have row: "firstRow [(u, userUid u = ownerUid t).
        p \<leftarrow> projectsWith db pid, t \<leftarrow> tenantsOf db p, u \<leftarrow> filter (\<lambda>u. userId u = target) (users db)]
      = Some (u, False)" and act: "act \<longrightarrow> userStatus u = Some ''active''"
    using assms by (auto simp: loadTargetUser_def split: option.splits if_splits)
  obtain p t where "p \<in> set (projectsWith db pid)" "t \<in> set (tenantsOf db p)"
      "u \<in> set (users db)" "userId u = target" "ownerUid t \<noteq> userUid u"
    using firstRow_set [OF row] by auto
  then have "u \<in> set (users db)" "p \<in> set (projects db)" "t \<in> set (tenants db)" "userId u = target"
      "ownerUid t \<noteq> userUid u" "projectId p = pid" "tenantId t = projectTenant p"
    by (auto simp: projectsWith_def tenantsOf_def)
  with act show ?thesis unfolding isTarget_def by metis
qed

lemma transaction_cases:
  assumes "withMembershipTransaction a pid f db = (db1, r)"
  shows "(db1 = db \<and> (\<exists>e. r = Inl e)) \<or> (isManager db a pid \<and> f db = (db1, r) \<and> (\<exists>x. r = Inr x))"
  using assms by (auto simp: withMembershipTransaction_def dest!: manager_checked split: sum.splits prod.splits)

text \<open>What a successful change does to the tables: an optional new role for one user, and a log entry.\<close>

definition memberChange :: "platformDb \<Rightarrow> string \<Rightarrow> int \<Rightarrow> string option \<Rightarrow> platformDb \<Rightarrow> bool" where
  "memberChange db pid u new db1 \<longleftrightarrow>
     users db1 = users db \<and> tenants db1 = tenants db \<and> projects db1 = projects db
     \<and> environments db1 = environments db
     \<and> (\<exists>entry. activities db1 = activities db @ [entry] \<and> activityTarget entry = pid
           \<and> previousRole entry = roleOf db pid u \<and> newRole entry = new)
     \<and> roleOf db1 pid u = new
     \<and> (\<forall>q v. (q, v) \<noteq> (pid, u) \<longrightarrow> roleOf db1 q v = roleOf db q v)"

lemma roleOf_log [simp]: "roleOf (logMembership a act pid t old new db) = roleOf db"
  by (intro ext) (simp add: roleOf_def logMembership_def membersWith_def)

lemma log_change:
  assumes "users db1 = users db" "tenants db1 = tenants db" "projects db1 = projects db"
    "environments db1 = environments db" "activities db1 = activities db"
    "\<And>q v. roleOf db1 q v = (if q = pid \<and> v = u then new else roleOf db q v)"
  shows "memberChange db pid u new (logMembership a act pid t (roleOf db pid u) new db1)"
  using assms unfolding memberChange_def roleOf_log by (auto simp: logMembership_def)

lemma add_success:
  assumes "addProjectMember now a pid target role db = (db1, Inr v)"
  shows "\<exists>u. isTarget db pid target u \<and> userStatus u = Some ''active'' \<and> isManager db a pid
           \<and> roleOf db pid (userUid u) = None \<and> memberChange db pid (userUid u) (Some role) db1"
proof -
  obtain u db2 where u: "loadTargetUser db pid target True = Inr u" "isManager db a pid"
      "insertMember pid (userUid u) role (actorUid a) now db = Some db2"
    and db1: "db1 = logMembership a ''project_member.created'' pid target None (Some role) db2"
    using assms by (auto simp: addProjectMember_def split: sum.splits option.splits
        dest!: transaction_cases)
  have none: "roleOf db pid (userUid u) = None"
    using mtab.put_new_None [of pid "userUid u" role "actorUid a" now db] u(3) by auto
  have "memberChange db pid (userUid u) (Some role)
      (logMembership a ''project_member.created'' pid target (roleOf db pid (userUid u)) (Some role) db2)"
    using u(3) by (intro log_change)
      (auto simp: mtab.put_new_role [OF u(3)], auto simp: insertMember_def split: if_splits)
  with u db1 none target_loaded [OF u(1)] show ?thesis by auto
qed

lemma update_success:
  assumes "updateProjectMemberRole a pid target role db = (db1, Inr v)"
  shows "\<exists>u. isTarget db pid target u \<and> userStatus u = Some ''active'' \<and> isManager db a pid
           \<and> roleOf db pid (userUid u) \<noteq> None \<and> memberChange db pid (userUid u) (Some role) db1"
proof -
  obtain u m where u: "loadTargetUser db pid target True = Inr u" "isManager db a pid"
      "firstRow (membersWith db pid (userUid u)) = Some m"
    and db1: "db1 = logMembership a ''project_member.role_updated'' pid target (Some (memberRole m)) (Some role)
                (setMemberRole pid (userUid u) role db)"
    using assms by (auto simp: updateProjectMemberRole_def split: sum.splits option.splits
        dest!: transaction_cases)
  have some: "roleOf db pid (userUid u) = Some (memberRole m)" using u(3) by (simp add: roleOf_def)
  have "memberChange db pid (userUid u) (Some role)
      (logMembership a ''project_member.role_updated'' pid target (roleOf db pid (userUid u)) (Some role)
        (setMemberRole pid (userUid u) role db))"
    by (intro log_change) (simp_all add: mtab.put_role_role some, simp_all add: setMemberRole_def)
  with u db1 some target_loaded [OF u(1)] show ?thesis by auto
qed

lemma remove_success:
  assumes "removeProjectMember a pid target db = (db1, Inr v)"
  shows "\<exists>u. isTarget db pid target u \<and> isManager db a pid
           \<and> roleOf db pid (userUid u) \<noteq> None \<and> memberChange db pid (userUid u) None db1"
proof -
  obtain u m where u: "loadTargetUser db pid target False = Inr u" "isManager db a pid"
      "firstRow (membersWith db pid (userUid u)) = Some m"
    and db1: "db1 = logMembership a ''project_member.removed'' pid target (Some (memberRole m)) None
                (deleteMember pid (userUid u) db)"
    using assms by (auto simp: removeProjectMember_def split: sum.splits option.splits
        dest!: transaction_cases)
  have some: "roleOf db pid (userUid u) = Some (memberRole m)" using u(3) by (simp add: roleOf_def)
  have "memberChange db pid (userUid u) None
      (logMembership a ''project_member.removed'' pid target (roleOf db pid (userUid u)) None
        (deleteMember pid (userUid u) db))"
    by (intro log_change) (simp_all add: mtab.drop_role, simp_all add: deleteMember_def)
  with u db1 some target_loaded [OF u(1)] show ?thesis by auto
qed

subsection \<open>The constraints of the database\<close>

lemma db_ok_log [simp]: "db_ok (logMembership a act pid t old new db) = db_ok db"
  by (simp add: db_ok_def logMembership_def)

lemma db_ok_insert:
  assumes "db_ok db" "insertMember pid u role c now db = Some db1" "role \<in> set memberRoleNames"
    "pid \<in> projectId ` set (projects db)" "u \<in> userUid ` set (users db)"
  shows "db_ok db1"
proof -
  have "(pid, u) \<notin> (\<lambda>m. (memberProject m, memberUid m)) ` set (members db)"
    using assms(2) by (auto simp: insertMember_def membersWith_def filter_empty_conv split: if_splits)
  with assms show ?thesis by (auto simp: insertMember_def db_ok_def split: if_splits)
qed

lemma db_ok_setRole:
  assumes "db_ok db" "role \<in> set memberRoleNames"
  shows "db_ok (setMemberRole pid u role db)"
proof -
  let ?f = "\<lambda>m. if memberProject m = pid \<and> memberUid m = u then m\<lparr>memberRole := role\<rparr> else m"
  have eq: "map (\<lambda>m. (memberProject m, memberUid m)) (map ?f ms) = map (\<lambda>m. (memberProject m, memberUid m)) ms" for ms
    by (induction ms) auto
  have d: "distinct (map (\<lambda>m. (memberProject m, memberUid m)) (members db))"
    using assms by (simp add: db_ok_def)
  have "distinct (map (\<lambda>m. (memberProject m, memberUid m)) (map ?f (members db)))"
    unfolding eq by (rule d)
  with assms show ?thesis by (auto simp: db_ok_def setMemberRole_def list_all_iff simp del: map_map)
qed

lemma db_ok_delete: "db_ok db \<Longrightarrow> db_ok (deleteMember pid u db)"
  by (auto simp: db_ok_def deleteMember_def list_all_iff distinct_map_filter)

lemma target_keys: "isTarget db pid target u \<Longrightarrow> pid \<in> projectId ` set (projects db) \<and> userUid u \<in> userUid ` set (users db)"
  by (auto simp: isTarget_def)

lemma transaction_db_ok:
  assumes "db_ok db" "\<And>db1 x. f db = (db1, Inr x) \<Longrightarrow> db_ok db1"
  shows "db_ok (fst (withMembershipTransaction a pid f db))"
  using assms by (auto simp: withMembershipTransaction_def split: sum.splits prod.splits)

lemma add_db_ok:
  "db_ok db \<Longrightarrow> role \<in> set memberRoleNames \<Longrightarrow> db_ok (fst (addProjectMember now a pid target role db))"
  unfolding addProjectMember_def
proof (rule transaction_db_ok)
  fix db1 v
  assume ok: "db_ok db" "role \<in> set memberRoleNames" and
    "(case loadTargetUser db pid target True of
         Inl e \<Rightarrow> (db, Inl e)
       | Inr u \<Rightarrow> (case insertMember pid (userUid u) role (actorUid a) now db of
           None \<Rightarrow> (db, Inl (authError 409 ''MEMBER_EXISTS'' ''Project member already exists''))
         | Some db1 \<Rightarrow>
             (logMembership a ''project_member.created'' pid target None (Some role) db1,
              Inr (toMemberView u (Some role) False (Some now))))) = (db1, Inr v)"
  then obtain u db2 where u: "loadTargetUser db pid target True = Inr u"
      "insertMember pid (userUid u) role (actorUid a) now db = Some db2"
      "db1 = logMembership a ''project_member.created'' pid target None (Some role) db2"
    by (auto split: sum.splits option.splits)
  then have "isTarget db pid target u" using target_loaded by blast
  then have "pid \<in> projectId ` set (projects db)" "userUid u \<in> userUid ` set (users db)"
    using target_keys by blast+
  from db_ok_insert [OF ok(1) u(2) ok(2) this] u(3) show "db_ok db1" by simp
qed

lemma update_db_ok:
  "db_ok db \<Longrightarrow> role \<in> set memberRoleNames \<Longrightarrow> db_ok (fst (updateProjectMemberRole a pid target role db))"
  unfolding updateProjectMemberRole_def
  by (rule transaction_db_ok) (auto split: sum.splits option.splits intro: db_ok_setRole)

lemma remove_db_ok: "db_ok db \<Longrightarrow> db_ok (fst (removeProjectMember a pid target db))"
  unfolding removeProjectMember_def
  by (rule transaction_db_ok) (auto split: sum.splits option.splits intro: db_ok_delete)

lemma withManager_fst:
  "db_ok db \<Longrightarrow> (\<And>a. db_ok (fst (change a db))) \<Longrightarrow> db_ok (fst (withManager rq pid change ok db))"
  by (auto simp: withManager_def split: sum.splits option.splits prod.splits) (metis fst_conv)

lemma valid_role: "isProjectMemberRole role \<Longrightarrow> js_string_of role \<in> set memberRoleNames"
  by (simp add: isProjectMemberRole_def)

text \<open>
  C35. Every membership request leaves the constraints of the database intact, whatever its body
  says: keys stay unique, every membership names one of the three member roles, an existing
  project and an existing user.
\<close>

theorem membership_requests_keep_db_ok:
  assumes "db_ok db"
  shows "db_ok (fst (createProjectMember now rq pid uid0 role db))
       \<and> db_ok (fst (updateProjectMember rq pid target role db))
       \<and> db_ok (fst (deleteProjectMember rq pid target db))"
proof (intro conjI)
  show "db_ok (fst (createProjectMember now rq pid uid0 role db))"
    using assms by (auto simp: createProjectMember_def validateMemberInput_def
        intro!: withManager_fst add_db_ok valid_role split: option.splits if_splits)
  show "db_ok (fst (updateProjectMember rq pid target role db))"
    using assms by (auto simp: updateProjectMember_def intro!: withManager_fst update_db_ok valid_role)
  show "db_ok (fst (deleteProjectMember rq pid target db))"
    using assms by (auto simp: deleteProjectMember_def intro!: withManager_fst remove_db_ok)
qed

theorem membership_requests_keep_db_ok_witness:
  "db_ok demoDb \<and> db_ok (fst (createProjectMember 5 demoRequest ''proj_a'' (JStr ''user_b'') (JStr ''viewer'') demoDb))"
  using membership_requests_keep_db_ok [OF demoDb_ok] demoDb_ok by blast

subsection \<open>Who changes what\<close>

definition legalChange :: "platformDb \<Rightarrow> guardRequest \<Rightarrow> string \<Rightarrow> string \<Rightarrow> string option \<Rightarrow> platformDb \<Rightarrow> bool" where
  "legalChange db rq pid target new db1 \<longleftrightarrow>
     (\<exists>a u. actorOf (reqUser rq) = Some a \<and> isManager db a pid \<and> isTarget db pid target u
        \<and> memberChange db pid (userUid u) new db1)"

lemma withManager_cases:
  assumes "withManager rq pid change ok db = (db1, reply)"
    "\<And>a db2 e. change a db = (db2, Inl e) \<Longrightarrow> db2 = db"
    "\<And>a db2 x. actorOf (reqUser rq) = Some a \<Longrightarrow> change a db = (db2, Inr x) \<Longrightarrow> G db2"
  shows "db1 = db \<or> G db1"
  using assms(1) unfolding withManager_def
  by (auto split: sum.splits option.splits prod.splits dest: assms(2,3))

lemma change_Inl:
  "addProjectMember now a pid target role db = (db1, Inl e) \<Longrightarrow> db1 = db"
  "updateProjectMemberRole a pid target role db = (db1, Inl e) \<Longrightarrow> db1 = db"
  "removeProjectMember a pid target db = (db1, Inl e) \<Longrightarrow> db1 = db"
  by (auto simp: addProjectMember_def updateProjectMemberRole_def removeProjectMember_def
      dest: transaction_cases)

text \<open>
  C31. A membership request changes the database only when the user of the token is, at that
  moment and by the current rows, an active super admin or the owner of the project's workspace,
  even when the guard left an outdated access on the request; and then it changes the role of the
  named user on that project alone, never the one of the workspace owner, and logs old and new
  role. In every other case the database stays as it is.
\<close>

theorem membership_changes_are_legal:
  "(createProjectMember now rq pid (JStr target) role db = (db1, reply) \<longrightarrow>
      db1 = db \<or> legalChange db rq pid target (Some (js_string_of role)) db1)
   \<and> (updateProjectMember rq pid target role db = (db1, reply) \<longrightarrow>
      db1 = db \<or> legalChange db rq pid target (Some (js_string_of role)) db1)
   \<and> (deleteProjectMember rq pid target db = (db1, reply) \<longrightarrow>
      db1 = db \<or> legalChange db rq pid target None db1)"
proof (intro conjI impI)
  assume "createProjectMember now rq pid (JStr target) role db = (db1, reply)"
  then have "db1 = db \<or> withManager rq pid (\<lambda>a. addProjectMember now a pid target (js_string_of role))
      (\<lambda>v. (201, MemberOne v)) db = (db1, reply)"
    by (auto simp: createProjectMember_def split: option.splits)
  then show "db1 = db \<or> legalChange db rq pid target (Some (js_string_of role)) db1"
  proof
    assume "withManager rq pid (\<lambda>a. addProjectMember now a pid target (js_string_of role))
      (\<lambda>v. (201, MemberOne v)) db = (db1, reply)"
    then show ?thesis
      by (rule withManager_cases) (fact change_Inl, auto simp: legalChange_def dest: add_success)
  qed simp
next
  assume "updateProjectMember rq pid target role db = (db1, reply)"
  then have "db1 = db \<or> withManager rq pid (\<lambda>a. updateProjectMemberRole a pid target (js_string_of role))
      (\<lambda>v. (200, MemberOne v)) db = (db1, reply)"
    by (auto simp: updateProjectMember_def split: if_splits)
  then show "db1 = db \<or> legalChange db rq pid target (Some (js_string_of role)) db1"
  proof
    assume "withManager rq pid (\<lambda>a. updateProjectMemberRole a pid target (js_string_of role))
      (\<lambda>v. (200, MemberOne v)) db = (db1, reply)"
    then show ?thesis
      by (rule withManager_cases) (fact change_Inl, auto simp: legalChange_def dest: update_success)
  qed simp
next
  assume "deleteProjectMember rq pid target db = (db1, reply)"
  then show "db1 = db \<or> legalChange db rq pid target None db1"
    unfolding deleteProjectMember_def
    by (rule withManager_cases) (fact change_Inl, auto simp: legalChange_def dest: remove_success)
qed

definition demoActor :: actor where
  "demoActor = \<lparr>actorUid = 7, actorId = ''user_a''\<rparr>"

lemma demo_add: "\<exists>db1 v. addProjectMember 5 demoActor ''proj_a'' ''user_b'' ''viewer'' demoDb = (db1, Inr v)
    \<and> members db1 \<noteq> []"
  by (simp add: addProjectMember_def withMembershipTransaction_def assertMembershipManager_def
      demoDb_def demoActor_def demoUser_def projectsWith_def tenantsOf_def usersWith_def loadTargetUser_def
      insertMember_def membersWith_def logMembership_def)

lemma demo_create: "\<exists>db1 reply. createProjectMember 5 demoRequest ''proj_a'' (JStr ''user_b'') (JStr ''viewer'') demoDb
    = (db1, reply) \<and> db1 \<noteq> demoDb"
proof -
  obtain a where a: "assertProjectCapability demoDb (Some demoOwner) ''proj_a'' MembersManage = Inr a"
    using assert_granted [OF demoDb_ok, of "''user_a''" 7 "''proj_a''" MembersManage None None]
      mayUse_granted [OF demoDb_ok, of "''user_a''" 7 "''proj_a''" MembersManage] demo_may
    by (auto simp: demoOwner_def split: sum.splits)
  obtain db1 v where add: "addProjectMember 5 demoActor ''proj_a'' ''user_b'' ''viewer'' demoDb = (db1, Inr v)"
      "members db1 \<noteq> []" using demo_add by blast
  have "validateMemberInput (JStr ''user_b'') (JStr ''viewer'') = None"
    using js_trim_id [of "''user_b''"]
    by (simp add: validateMemberInput_def isProjectMemberRole_def memberRoleNames_def js_is_space_def)
  then have "createProjectMember 5 demoRequest ''proj_a'' (JStr ''user_b'') (JStr ''viewer'') demoDb
      = (db1, 201, MemberOne v)"
    using a add by (simp add: createProjectMember_def withManager_def authorizeMember_def demoRequest_def
        demoOwner_def demoActor_def)
  moreover have "members demoDb = []" by (simp add: demoDb_def)
  ultimately show ?thesis using add(2) by (metis)
qed

theorem membership_changes_are_legal_witness:
  "\<exists>db1 reply. createProjectMember 5 demoRequest ''proj_a'' (JStr ''user_b'') (JStr ''viewer'') demoDb = (db1, reply)
     \<and> legalChange demoDb demoRequest ''proj_a'' ''user_b'' (Some ''viewer'') db1"
proof -
  obtain db1 reply where "createProjectMember 5 demoRequest ''proj_a'' (JStr ''user_b'') (JStr ''viewer'') demoDb
      = (db1, reply)" "db1 \<noteq> demoDb" using demo_create by blast
  then show ?thesis
    using membership_changes_are_legal [of 5 demoRequest "''proj_a''" "''user_b''" "JStr ''viewer''" demoDb db1 reply]
    by auto
qed

subsection \<open>The effect on access\<close>

lemma grantedRole_target:
  assumes ok: "db_ok db" and u: "isTarget db pid target u"
  shows "grantedRole db target (userUid u) pid =
    (if userStatus u \<noteq> Some ''active'' then None
     else if userRole u = Some ''super_admin'' then Some Owner
     else Option.bind (roleOf db pid (userUid u)) roleNamed)"
proof -
  obtain p t where pt: "p \<in> set (projects db)" "t \<in> set (tenants db)" "projectId p = pid"
      "tenantId t = projectTenant p" "ownerUid t \<noteq> userUid u"
    using u by (auto simp: isTarget_def)
  have "tenantsOf db p = [t]"
    using filter_key [of tenantId "tenants db" t] pt ok by (simp add: tenantsOf_def db_ok_def)
  moreover have "firstRow (projectsWith db pid) = Some p" using firstRow_projects [OF ok] pt by simp
  moreover have "firstRow (usersWith db (userUid u) target) = Some u"
    using firstRow_users [OF ok] u by (auto simp: isTarget_def)
  moreover have "Option.bind (map_option memberRole x) roleNamed = Option.bind x (\<lambda>m. roleNamed (memberRole m))"
    for x :: "memberRow option"
    by (cases x) auto
  ultimately show ?thesis using pt(5) by (auto simp: grantedRole_def roleOf_def)
qed

lemma isTarget_change: "memberChange db pid u new db1 \<Longrightarrow> isTarget db1 = isTarget db"
  by (intro ext) (simp add: isTarget_def memberChange_def)

lemma access_after_change:
  assumes "db_ok db1" "memberChange db pid (userUid u) new db1" "isTarget db pid target u"
    "userStatus u = Some ''active''"
  shows "(\<exists>a. assertProjectCapability db1 (Some (PlatformUser target (userUid u) tn r)) pid cap = Inr a)
     \<longleftrightarrow> userRole u = Some ''super_admin''
       \<or> (\<exists>rl. new = Some (roleName rl) \<and> cap \<in> set (capabilitiesOf rl))"
proof -
  have "grantedRole db1 target (userUid u) pid =
    (if userRole u = Some ''super_admin'' then Some Owner else Option.bind new roleNamed)"
    using grantedRole_target [OF assms(1), of pid target u] isTarget_change [OF assms(2)] assms(2-4)
    by (simp add: memberChange_def)
  moreover have "(\<exists>a. assertProjectCapability db1 (Some (PlatformUser target (userUid u) tn r)) pid cap = Inr a)
      \<longleftrightarrow> (\<exists>rl. grantedRole db1 target (userUid u) pid = Some rl \<and> cap \<in> set (capabilitiesOf rl))"
    using assert_granted [OF assms(1), of target "userUid u" pid cap tn r] by (auto split: sum.splits)
  ultimately show ?thesis by (cases new) (auto simp: roleNamed_iff)
qed

text \<open>
  A membership change takes effect at once and fully: after a user was added or given a role,
  the user's requests have exactly the capabilities of that role on the project, and after the
  removal of an active user they have none (super admins apart, who keep theirs).
\<close>

theorem membership_takes_effect:
  assumes "db_ok db"
  shows "(addProjectMember now a pid target role db = (db1, Inr v) \<and> role \<in> set memberRoleNames \<longrightarrow>
      (\<exists>u \<in> set (users db). userId u = target \<and>
        (\<forall>tn r cap. (\<exists>acc. assertProjectCapability db1 (Some (PlatformUser target (userUid u) tn r)) pid cap = Inr acc)
          \<longleftrightarrow> userRole u = Some ''super_admin''
            \<or> (\<exists>rl. role = roleName rl \<and> cap \<in> set (capabilitiesOf rl)))))
   \<and> (removeProjectMember a pid target db = (db1, Inr ()) \<longrightarrow>
      (\<exists>u \<in> set (users db). userId u = target \<and>
        (\<forall>tn r cap. (\<exists>acc. assertProjectCapability db1 (Some (PlatformUser target (userUid u) tn r)) pid cap = Inr acc)
          \<longrightarrow> userRole u = Some ''super_admin'')))"
proof (intro conjI impI; (elim conjE)?)
  assume add: "addProjectMember now a pid target role db = (db1, Inr v)" "role \<in> set memberRoleNames"
  have ok: "db_ok db1" using add_db_ok [OF assms add(2), of now a pid target] add(1) by simp
  obtain u where u: "isTarget db pid target u" "userStatus u = Some ''active''"
      "memberChange db pid (userUid u) (Some role) db1" using add_success [OF add(1)] by blast
  with access_after_change [OF ok u(3,1,2)]
  show "\<exists>u \<in> set (users db). userId u = target \<and>
        (\<forall>tn r cap. (\<exists>acc. assertProjectCapability db1 (Some (PlatformUser target (userUid u) tn r)) pid cap = Inr acc)
          \<longleftrightarrow> userRole u = Some ''super_admin''
            \<or> (\<exists>rl. role = roleName rl \<and> cap \<in> set (capabilitiesOf rl)))"
    by (intro bexI [where x = u]) (auto simp: isTarget_def)
next
  assume rem: "removeProjectMember a pid target db = (db1, Inr ())"
  have ok: "db_ok db1" using remove_db_ok [OF assms, of a pid target] rem by simp
  obtain u where u: "isTarget db pid target u" "memberChange db pid (userUid u) None db1"
    using remove_success [OF rem] by blast
  have "userRole u = Some ''super_admin''"
    if "assertProjectCapability db1 (Some (PlatformUser target (userUid u) tn r)) pid cap = Inr acc" for tn r cap acc
  proof (cases "userStatus u = Some ''active''")
    case True
    then show ?thesis using access_after_change [OF ok u(2,1), of tn r cap] that by auto
  next
    case False
    then have "grantedRole db1 target (userUid u) pid = None"
      using grantedRole_target [OF ok, of pid target u] isTarget_change [OF u(2)] u(1) by simp
    then show ?thesis using assert_granted [OF ok, of target "userUid u" pid cap tn r] that by simp
  qed
  then show "\<exists>u \<in> set (users db). userId u = target \<and>
        (\<forall>tn r cap. (\<exists>acc. assertProjectCapability db1 (Some (PlatformUser target (userUid u) tn r)) pid cap = Inr acc)
          \<longrightarrow> userRole u = Some ''super_admin'')"
    using u(1) by (auto simp: isTarget_def)
qed

theorem membership_takes_effect_witness:
  "\<exists>db1 v u acc. addProjectMember 5 demoActor ''proj_a'' ''user_b'' ''viewer'' demoDb = (db1, Inr v)
     \<and> u \<in> set (users demoDb) \<and> userId u = ''user_b''
     \<and> assertProjectCapability db1 (Some (PlatformUser ''user_b'' (userUid u) None None)) ''proj_a'' DatabaseRead = Inr acc"
proof -
  obtain db1 v where add: "addProjectMember 5 demoActor ''proj_a'' ''user_b'' ''viewer'' demoDb = (db1, Inr v)"
    using demo_add by blast
  have r: "''viewer'' \<in> set memberRoleNames" "roleName Viewer = ''viewer''" "DatabaseRead \<in> set (capabilitiesOf Viewer)"
    by (simp_all add: memberRoleNames_def roleName_def)
  from membership_takes_effect [OF demoDb_ok, of 5 demoActor "''proj_a''" "''user_b''" "''viewer''" db1 v] add r
  show ?thesis by metis
qed

subsection \<open>Search\<close>

text \<open>
  The search takes every character of the query literally, wildcards and escapes included: a
  text matches the pattern exactly when it contains the query.
\<close>

theorem searchPattern_literal: "likeMatch (searchPattern q) s \<longleftrightarrow> js_includes s q"
proof -
  have "likeMatch ''%'' r" for r by (induction r) simp_all
  then show ?thesis
    by (auto simp: searchPattern_def escapeLike_def likeMatch_percent likeMatch_literal js_includes_iff
        simp del: likeMatch.simps)
qed

text \<open>
  The exact address does not come first when it contains an underscore: the rank compares the
  address with the escaped query, so the user whose address was typed in full ranks like any
  other match and, with ten more matches, is cut off.
\<close>

theorem exact_match_with_underscore_ranks_last:
  "candidateRank (searchPattern ''a_b@x.io'') (demoUser\<lparr>email := Some ''a_b@x.io''\<rparr>) = 1
   \<and> candidateRank (searchPattern ''ab@x.io'') (demoUser\<lparr>email := Some ''ab@x.io''\<rparr>) = 0"
  by (simp add: candidateRank_def searchPattern_def escapeLike_def likeLiteral_def trimPercent_def js_toLowerCase_def
      js_lower_char_def js_is_upper_def demoUser_def)

end
