(* ===== verification/Project_Actor.thy ===== *)
theory Project_Actor
  imports Project_Authorization
begin

text \<open>
  The actor contract of a project (apps/api/src/lib/project-actor.ts): who acts on a project, how
  the actor is read from untrusted JSON, resolved from the user of a request, and printed as
  claims, headers and Hasura session variables; the token of internal function calls
  (modules/functions/internal-token.ts); the Hasura roles and session variables of data access and
  realtime (modules/data-access/data-scope-role.ts, project-data-actor.ts,
  modules/realtime/realtime-actor.ts). The SHA-256 digest in hex and the JWT library are parameters.
\<close>

subsection \<open>Actors\<close>

datatype projectActor =
    PlatformActor (actorProject: string) (actorSubject: string) (platformRole: string)
      (platformUserId: string) (platformUid: int) (platformTenant: "string option")
  | SessionActor (actorProject: string) (actorSubject: string) (projectUserId: string) (provider: string)
  | KeyActor (actorProject: string) (actorSubject: string) (apiKeyId: int) (apiKeyPrefix: string)

datatype actorError = ActorRequired | ActorScope

fun actorTypeName :: "projectActor \<Rightarrow> string" where
  "actorTypeName (PlatformActor _ _ _ _ _ _) = ''platform_user''"
| "actorTypeName (SessionActor _ _ _ _) = ''project_user''"
| "actorTypeName (KeyActor _ _ _ _) = ''apikey''"

fun actorSource :: "projectActor \<Rightarrow> string" where
  "actorSource (PlatformActor _ _ _ _ _ _) = ''platform_session''"
| "actorSource (SessionActor _ _ _ _) = ''project_session''"
| "actorSource (KeyActor _ _ _ _) = ''project_api_key''"

fun actorRoleName :: "projectActor \<Rightarrow> string" where
  "actorRoleName (PlatformActor _ _ r _ _ _) = r"
| "actorRoleName (SessionActor _ _ _ _) = ''authenticated''"
| "actorRoleName (KeyActor _ _ _ _) = ''anon''"

definition validText :: "string \<Rightarrow> bool" where
  "validText s \<longleftrightarrow> js_trim s \<noteq> []"

definition isValidString :: "jsval \<Rightarrow> bool" where
  "isValidString v \<longleftrightarrow> js_is_string v \<and> validText (js_string_of v)"

definition isObject :: "jsval \<Rightarrow> bool" where
  "isObject v = (case v of JObj ps \<Rightarrow> True | JDate d \<Rightarrow> True | _ \<Rightarrow> False)"

definition hasOnlyKeys :: "jsval \<Rightarrow> string list \<Rightarrow> bool" where
  "hasOnlyKeys v allowed = (case v of JObj ps \<Rightarrow> list_all (\<lambda>p. fst p \<in> set allowed) ps | _ \<Rightarrow> True)"

definition isSafeInteger :: "jsval \<Rightarrow> bool" where
  "isSafeInteger v \<longleftrightarrow>
     js_is_number v \<and> js_number_of v = of_int \<lfloor>js_number_of v\<rfloor> \<and> \<bar>js_number_of v\<bar> \<le> 9007199254740991"

definition positiveSafe :: "jsval \<Rightarrow> bool" where
  "positiveSafe v \<longleftrightarrow> isSafeInteger v \<and> js_number_of v > 0"

definition intOf :: "jsval \<Rightarrow> int" where
  "intOf v = \<lfloor>js_number_of v\<rfloor>"

definition strOf :: "jsval \<Rightarrow> string \<Rightarrow> string" where
  "strOf v k = js_string_of (js_get v k)"

definition parsePlatformActor :: "jsval \<Rightarrow> actorError + projectActor" where
  "parsePlatformActor v =
     (if \<not> hasOnlyKeys v [''version'', ''actorType'', ''source'', ''projectId'', ''subject'', ''role'',
                          ''platformUserId'', ''platformUid'', ''tenantId'']
         \<or> js_get v ''source'' \<noteq> JStr ''platform_session''
         \<or> \<not> isValidString (js_get v ''platformUserId'')
         \<or> \<not> positiveSafe (js_get v ''platformUid'')
         \<or> js_get v ''subject'' \<noteq> JStr (''platform_user:'' @ strOf v ''platformUserId'')
         \<or> (js_get v ''tenantId'' \<noteq> JUndef \<and> \<not> isValidString (js_get v ''tenantId''))
      then Inl ActorRequired
      else Inr (PlatformActor (strOf v ''projectId'') (strOf v ''subject'') (strOf v ''role'')
             (strOf v ''platformUserId'') (intOf (js_get v ''platformUid''))
             (if js_truthy (js_get v ''tenantId'') then Some (strOf v ''tenantId'') else None)))"

definition parseSessionActor :: "jsval \<Rightarrow> actorError + projectActor" where
  "parseSessionActor v =
     (if \<not> hasOnlyKeys v [''version'', ''actorType'', ''source'', ''projectId'', ''subject'', ''role'',
                          ''projectUserId'', ''provider'']
         \<or> js_get v ''source'' \<noteq> JStr ''project_session''
         \<or> js_get v ''role'' \<noteq> JStr ''authenticated''
         \<or> \<not> isValidString (js_get v ''projectUserId'') \<or> \<not> isValidString (js_get v ''provider'')
         \<or> js_get v ''subject'' \<noteq> JStr (''project_user:'' @ strOf v ''projectUserId'')
      then Inl ActorRequired
      else Inr (SessionActor (strOf v ''projectId'') (strOf v ''subject'') (strOf v ''projectUserId'')
             (strOf v ''provider'')))"

definition parseKeyActor :: "jsval \<Rightarrow> actorError + projectActor" where
  "parseKeyActor v =
     (if \<not> hasOnlyKeys v [''version'', ''actorType'', ''source'', ''projectId'', ''subject'', ''role'',
                          ''apiKeyId'', ''apiKeyPrefix'']
         \<or> js_get v ''source'' \<noteq> JStr ''project_api_key''
         \<or> js_get v ''role'' \<noteq> JStr ''anon''
         \<or> \<not> positiveSafe (js_get v ''apiKeyId'') \<or> \<not> isValidString (js_get v ''apiKeyPrefix'')
         \<or> length (strOf v ''apiKeyPrefix'') > 12
         \<or> js_get v ''subject'' \<noteq> JStr (''apikey:'' @ int_to_string (intOf (js_get v ''apiKeyId'')))
      then Inl ActorRequired
      else Inr (KeyActor (strOf v ''projectId'') (strOf v ''subject'') (intOf (js_get v ''apiKeyId''))
             (strOf v ''apiKeyPrefix'')))"

definition parseProjectActorContext :: "jsval \<Rightarrow> actorError + projectActor" where
  "parseProjectActorContext v =
     (if \<not> isObject v \<or> js_get v ''version'' \<noteq> JNum 1 then Inl ActorRequired
      else if \<not> isValidString (js_get v ''projectId'') \<or> \<not> isValidString (js_get v ''subject'')
              \<or> \<not> isValidString (js_get v ''role'') then Inl ActorRequired
      else if js_get v ''actorType'' = JStr ''platform_user'' then parsePlatformActor v
      else if js_get v ''actorType'' = JStr ''project_user'' then parseSessionActor v
      else if js_get v ''actorType'' = JStr ''apikey'' then parseKeyActor v
      else Inl ActorRequired)"

text \<open>The object a context is.\<close>

definition actorJson :: "projectActor \<Rightarrow> jsval" where
  "actorJson a =
     JObj ([(''version'', JNum 1), (''actorType'', JStr (actorTypeName a)), (''source'', JStr (actorSource a)),
            (''projectId'', JStr (actorProject a)), (''subject'', JStr (actorSubject a)),
            (''role'', JStr (actorRoleName a))]
       @ (case a of
            PlatformActor _ _ _ u n t \<Rightarrow>
              [(''platformUserId'', JStr u), (''platformUid'', JNum (of_int n))]
              @ (case t of Some x \<Rightarrow> [(''tenantId'', JStr x)] | None \<Rightarrow> [])
          | SessionActor _ _ u p \<Rightarrow> [(''projectUserId'', JStr u), (''provider'', JStr p)]
          | KeyActor _ _ n p \<Rightarrow> [(''apiKeyId'', JNum (of_int n)), (''apiKeyPrefix'', JStr p)]))"

subsection \<open>Actors of a request\<close>

definition safeId :: "int \<Rightarrow> bool" where
  "safeId n \<longleftrightarrow> 0 < n \<and> n \<le> 9007199254740991"

definition isValidApiKeyIdentity :: "int \<Rightarrow> string \<Rightarrow> bool" where
  "isValidApiKeyIdentity n p \<longleftrightarrow> safeId n \<and> validText p \<and> length p \<le> 12"

fun resolveScopedProjectActor :: "requestUser \<Rightarrow> string \<Rightarrow> actorError + projectActor" where
  "resolveScopedProjectActor (PlatformUser _ _ _ _) pid = Inl ActorRequired"
| "resolveScopedProjectActor (ProjectUser s p prov) pid =
     (if p \<noteq> pid then Inl ActorScope
      else if \<not> validText s \<or> \<not> validText prov then Inl ActorRequired
      else Inr (SessionActor pid (''project_user:'' @ s) s prov))"
| "resolveScopedProjectActor (ApiKeyUser p n pre) pid =
     (if p \<noteq> pid then Inl ActorScope
      else if \<not> isValidApiKeyIdentity n pre then Inl ActorRequired
      else Inr (KeyActor pid (''apikey:'' @ int_to_string n) n pre))"

text \<open>A missing role is \<open>authenticated\<close>, an empty workspace is left out.\<close>

fun resolvePlatformProjectActor :: "requestUser \<Rightarrow> string \<Rightarrow> actorError + projectActor" where
  "resolvePlatformProjectActor (PlatformUser i n t r) pid =
     (if \<not> validText i \<or> \<not> safeId n then Inl ActorRequired
      else Inr (PlatformActor pid (''platform_user:'' @ i) (case r of Some x \<Rightarrow> x | None \<Rightarrow> ''authenticated'')
             i n (given t)))"
| "resolvePlatformProjectActor _ pid = Inl ActorRequired"

subsection \<open>Audit context, claims, headers, session variables\<close>

definition toProjectActorAuditContext :: "projectActor \<Rightarrow> (string \<times> jsval) list" where
  "toProjectActorAuditContext a =
     [(''actorType'', JStr (actorTypeName a)), (''actorSource'', JStr (actorSource a)),
      (''actorSubject'', JStr (actorSubject a)), (''projectId'', JStr (actorProject a))]
     @ (case a of
          PlatformActor _ _ _ u n t \<Rightarrow> [(''platformUserId'', JStr u)]
        | SessionActor _ _ u p \<Rightarrow> [(''projectUserId'', JStr u)]
        | KeyActor _ _ n p \<Rightarrow> [(''apiKeyId'', JNum (of_int n)), (''apiKeyPrefix'', JStr p)])"

definition toProjectActorClaims :: "projectActor \<Rightarrow> (string \<times> jsval) list" where
  "toProjectActorClaims a =
     [(''sub'', JStr (actorSubject a)), (''role'', JStr (actorRoleName a)),
      (''project_id'', JStr (actorProject a)), (''actor_type'', JStr (actorTypeName a)),
      (''actor_source'', JStr (actorSource a))]
     @ (case a of
          PlatformActor _ _ _ u n t \<Rightarrow>
            [(''platform_user_id'', JStr u), (''platform_uid'', JNum (of_int n))]
            @ (case given t of Some x \<Rightarrow> [(''tenant_id'', JStr x)] | None \<Rightarrow> [])
        | SessionActor _ _ u p \<Rightarrow> [(''project_user_id'', JStr u), (''provider'', JStr p)]
        | KeyActor _ _ n p \<Rightarrow> [(''api_key_id'', JNum (of_int n)), (''api_key_prefix'', JStr p)])"

definition toProjectActorHeaders :: "projectActor \<Rightarrow> (string \<times> string) list" where
  "toProjectActorHeaders a =
     [(''x-druvia-actor-type'', actorTypeName a), (''x-druvia-actor-source'', actorSource a),
      (''x-druvia-actor-subject'', actorSubject a), (''x-druvia-project-id'', actorProject a)]
     @ (case a of
          PlatformActor _ _ _ u n t \<Rightarrow> [(''x-druvia-platform-user-id'', u)]
        | SessionActor _ _ u p \<Rightarrow> [(''x-druvia-project-user-id'', u)]
        | KeyActor _ _ n p \<Rightarrow> [(''x-druvia-api-key-id'', int_to_string n), (''x-druvia-api-key-prefix'', p)])"

definition toProjectActorHasuraSessionVariables :: "projectActor \<Rightarrow> (string \<times> string) list" where
  "toProjectActorHasuraSessionVariables a =
     [(''x-hasura-druvia-actor-contract-version'', ''1''), (''x-hasura-druvia-actor-type'', actorTypeName a),
      (''x-hasura-druvia-actor-source'', actorSource a), (''x-hasura-druvia-project-id'', actorProject a)]
     @ (case a of
          SessionActor _ _ u p \<Rightarrow> [(''x-hasura-druvia-project-user-id'', u)]
        | _ \<Rightarrow> [])"

subsection \<open>Tokens of internal function calls\<close>

record functionToken =
  tokenProject :: string
  tokenFunction :: string
  tokenActor :: projectActor
  tokenIat :: "rat option"
  tokenExp :: "rat option"

text \<open>
  The JWT library: \<open>sign\<close> makes a token of a payload, a secret and a lifetime, \<open>verify\<close> gives the
  payload of a valid one. An invalid argument or token is an exception, here \<open>None\<close>.
\<close>

definition signInternalFunctionToken ::
  "(jsval \<Rightarrow> string \<Rightarrow> rat \<Rightarrow> string) \<Rightarrow> string \<Rightarrow> rat \<Rightarrow> string \<Rightarrow> string \<Rightarrow> projectActor \<Rightarrow> rat option \<Rightarrow> string option" where
  "signInternalFunctionToken sign secret ttl pid fname a expiresIn =
     (if secret = [] then None
      else (case parseProjectActorContext (actorJson a) of
        Inl e \<Rightarrow> None
      | Inr b \<Rightarrow>
          if \<not> validText pid \<or> \<not> validText fname \<or> actorProject b \<noteq> pid then None
          else Some (sign (JObj [(''tokenType'', JStr ''function_internal''), (''actorContractVersion'', JNum 1),
                   (''projectId'', JStr pid), (''functionName'', JStr fname), (''actor'', actorJson b)])
                 secret (case expiresIn of Some e \<Rightarrow> e | None \<Rightarrow> ttl))))"

definition optionalNumber :: "jsval \<Rightarrow> rat option" where
  "optionalNumber v = (if js_is_number v then Some (js_number_of v) else None)"

definition verifyInternalFunctionToken ::
  "(string \<Rightarrow> string \<Rightarrow> jsval option) \<Rightarrow> string \<Rightarrow> string \<Rightarrow> functionToken option" where
  "verifyInternalFunctionToken verify secret token =
     (if secret = [] then None
      else (case verify token secret of
        None \<Rightarrow> None
      | Some d \<Rightarrow>
          if \<not> isObject d \<or> js_get d ''tokenType'' \<noteq> JStr ''function_internal''
             \<or> js_get d ''actorContractVersion'' \<noteq> JNum 1
             \<or> \<not> isValidString (js_get d ''projectId'') \<or> \<not> isValidString (js_get d ''functionName'')
             \<or> (js_get d ''iat'' \<noteq> JUndef \<and> \<not> js_is_number (js_get d ''iat''))
             \<or> (js_get d ''exp'' \<noteq> JUndef \<and> \<not> js_is_number (js_get d ''exp''))
          then None
          else (case parseProjectActorContext (js_get d ''actor'') of
            Inl e \<Rightarrow> None
          | Inr a \<Rightarrow>
              if strOf d ''projectId'' \<noteq> actorProject a then None
              else Some \<lparr>tokenProject = strOf d ''projectId'', tokenFunction = strOf d ''functionName'',
                         tokenActor = a, tokenIat = optionalNumber (js_get d ''iat''),
                         tokenExp = optionalNumber (js_get d ''exp'')\<rparr>)))"

subsection \<open>Hasura roles of a project\<close>

datatype dataScopeActor = Authenticated | Anonymous

definition scopeIdentity :: "string \<Rightarrow> int option \<Rightarrow> string" where
  "scopeIdentity pid env =
     (case env of
        None \<Rightarrow> ''project:'' @ pid @ '':prod''
      | Some n \<Rightarrow> ''project:'' @ pid @ '':environment:'' @ int_to_string n)"

definition roleSuffix :: "dataScopeActor \<Rightarrow> string" where
  "roleSuffix a = (case a of Authenticated \<Rightarrow> ''user'' | Anonymous \<Rightarrow> ''anon'')"

definition resolveDataScopeRole :: "(string \<Rightarrow> string) \<Rightarrow> string \<Rightarrow> int option \<Rightarrow> dataScopeActor \<Rightarrow> string option" where
  "resolveDataScopeRole sha pid env a =
     (if \<not> validText pid then None
      else if (case env of Some n \<Rightarrow> n \<le> 0 | None \<Rightarrow> False) then None
      else Some (''druvia_v1_s_'' @ take 20 (sha (scopeIdentity pid env)) @ ''_'' @ roleSuffix a))"

record executionContext =
  execRole :: string
  sessionVariables :: "(string \<times> string) list"

definition sessionVars :: "string option \<Rightarrow> string \<Rightarrow> (string \<times> string) list" where
  "sessionVars sub pid =
     (case sub of
        Some s \<Rightarrow> [(''x-hasura-user-id'', s), (''x-hasura-project-id'', pid),
                   (''x-hasura-actor-type'', ''project_user'')]
      | None \<Rightarrow> [(''x-hasura-project-id'', pid), (''x-hasura-actor-type'', ''apikey'')])"

text \<open>\<open>Inl ActorScope\<close> for the actor of another project; \<open>Inl ActorRequired\<close> for other failures.\<close>

fun projectOfUser :: "requestUser \<Rightarrow> string" where
  "projectOfUser (PlatformUser _ _ _ _) = []"
| "projectOfUser (ProjectUser _ p _) = p"
| "projectOfUser (ApiKeyUser p _ _) = p"

definition orRequired :: "'a option \<Rightarrow> actorError + 'a" where
  "orRequired x = (case x of Some y \<Rightarrow> Inr y | None \<Rightarrow> Inl ActorRequired)"

fun resolveProjectDataExecutionContext ::
  "(string \<Rightarrow> string) \<Rightarrow> string \<Rightarrow> string option \<Rightarrow> requestUser \<Rightarrow> actorError + executionContext" where
  "resolveProjectDataExecutionContext sha pid mode (PlatformUser _ _ _ _) = Inl ActorRequired"
| "resolveProjectDataExecutionContext sha pid mode (ProjectUser s p prov) =
     (if p \<noteq> pid then Inl ActorScope
      else if mode \<noteq> Some ''explicit'' then Inr \<lparr>execRole = ''user'', sessionVariables = []\<rparr>
      else bindE (orRequired (resolveDataScopeRole sha pid None Authenticated))
             (\<lambda>r. Inr \<lparr>execRole = r, sessionVariables = sessionVars (Some s) pid\<rparr>))"
| "resolveProjectDataExecutionContext sha pid mode (ApiKeyUser p n pre) =
     (if p \<noteq> pid then Inl ActorScope
      else if mode \<noteq> Some ''explicit'' then Inr \<lparr>execRole = ''user'', sessionVariables = []\<rparr>
      else bindE (orRequired (resolveDataScopeRole sha pid None Anonymous))
             (\<lambda>r. Inr \<lparr>execRole = r, sessionVariables = sessionVars None pid\<rparr>))"

record realtimeContext = executionContext +
  realtimeActor :: string
  realtimeSubject :: string

fun resolveRealtimeExecutionContext ::
  "(string \<Rightarrow> string) \<Rightarrow> string \<Rightarrow> string option \<Rightarrow> requestUser \<Rightarrow> actorError + realtimeContext" where
  "resolveRealtimeExecutionContext sha pid mode (PlatformUser _ _ _ _) = Inl ActorRequired"
| "resolveRealtimeExecutionContext sha pid mode (ProjectUser s p prov) =
     (if p \<noteq> pid then Inl ActorScope
      else bindE (if mode = Some ''explicit''
                  then orRequired (resolveDataScopeRole sha pid None Authenticated) else Inr ''user'')
             (\<lambda>r. Inr \<lparr>execRole = r, sessionVariables = sessionVars (Some s) pid,
                       realtimeActor = ''project_user'', realtimeSubject = s\<rparr>))"
| "resolveRealtimeExecutionContext sha pid mode (ApiKeyUser p n pre) =
     (if p \<noteq> pid then Inl ActorScope
      else bindE (if mode = Some ''explicit''
                  then orRequired (resolveDataScopeRole sha pid None Anonymous) else Inr ''anonymous'')
             (\<lambda>r. Inr \<lparr>execRole = r, sessionVariables = sessionVars None pid,
                       realtimeActor = ''apikey'', realtimeSubject = ''apikey:'' @ int_to_string n\<rparr>))"

end
