(* ===== verification/Actor_Properties.thy ===== *)
theory Actor_Properties
  imports Project_Actor
begin

text \<open>
  What the actor contract guarantees: reading accepts exactly the printed form of well-formed
  actors, an actor of a request never leaves its project, subjects identify actors, a function
  token carries only an actor of its own project, and Hasura roles keep projects, environments
  and kinds of actors apart.
\<close>

lemma validText_iff: "validText s \<longleftrightarrow> (\<exists>c \<in> set s. \<not> js_is_space c)"
proof -
  have "js_trimEnd t = [] \<longleftrightarrow> (\<forall>c \<in> set t. js_is_space c)" for t
    by (simp add: js_trimEnd_def)
  moreover have "(\<forall>c \<in> set (dropWhile js_is_space s). js_is_space c) \<longleftrightarrow> (\<forall>c \<in> set s. js_is_space c)"
    by (induction s) auto
  ultimately show ?thesis by (simp add: validText_def js_trim_def js_trimStart_def)
qed

subsection \<open>Well-formed actors\<close>

definition actor_ok :: "projectActor \<Rightarrow> bool" where
  "actor_ok a \<longleftrightarrow>
     validText (actorProject a)
     \<and> (case a of
          PlatformActor p s r u n t \<Rightarrow>
            validText r \<and> validText u \<and> safeId n \<and> s = ''platform_user:'' @ u
            \<and> (case t of Some x \<Rightarrow> validText x | None \<Rightarrow> True)
        | SessionActor p s u pr \<Rightarrow> validText u \<and> validText pr \<and> s = ''project_user:'' @ u
        | KeyActor p s n pre \<Rightarrow> isValidApiKeyIdentity n pre \<and> s = ''apikey:'' @ int_to_string n)"

lemma positiveSafe_int: "positiveSafe (JNum (of_int n)) \<longleftrightarrow> safeId n"
  by (auto simp: positiveSafe_def isSafeInteger_def safeId_def)

lemma positiveSafe_iff: "positiveSafe v \<longleftrightarrow> (\<exists>n. v = JNum (of_int n) \<and> safeId n)"
proof
  assume v: "positiveSafe v"
  then obtain x where x: "v = JNum x" "x = of_int \<lfloor>x\<rfloor>"
    by (auto simp: positiveSafe_def isSafeInteger_def js_is_number_iff)
  then have "v = JNum (of_int \<lfloor>x\<rfloor>)" by simp
  with v positiveSafe_int [of "\<lfloor>x\<rfloor>"] show "\<exists>n. v = JNum (of_int n) \<and> safeId n" by auto
qed (auto simp: positiveSafe_int)

lemma isValidString_iff: "isValidString v \<longleftrightarrow> (\<exists>s. v = JStr s \<and> validText s)"
  by (auto simp: isValidString_def js_is_string_iff)

lemma prefix_valid: "validText (''platform_user:'' @ u)" "validText (''project_user:'' @ u)"
  "validText (''apikey:'' @ u)" "validText ''authenticated''" "validText ''anon''"
  by (simp_all add: validText_iff js_is_space_def)

lemma validText_not_Nil: "validText s \<Longrightarrow> s \<noteq> []"
  by (auto simp: validText_iff)

lemma parse_actorJson: "actor_ok a \<Longrightarrow> parseProjectActorContext (actorJson a) = Inr a"
  using prefix_valid
  by (cases a; cases "platformTenant a")
    (auto simp: parseProjectActorContext_def actorJson_def actor_ok_def parsePlatformActor_def
      parseSessionActor_def parseKeyActor_def isObject_def isValidString_iff hasOnlyKeys_def strOf_def
      intOf_def positiveSafe_int isValidApiKeyIdentity_def validText_not_Nil)

lemma parse_ok: "parseProjectActorContext v = Inr a \<Longrightarrow> actor_ok a"
proof -
  assume "parseProjectActorContext v = Inr a"
  then have p: "isValidString (js_get v ''projectId'')" "isValidString (js_get v ''role'')"
    and "parsePlatformActor v = Inr a \<or> parseSessionActor v = Inr a \<or> parseKeyActor v = Inr a"
    by (auto simp: parseProjectActorContext_def split: if_splits)
  then show ?thesis
  proof (elim disjE)
    assume "parsePlatformActor v = Inr a"
    with p show ?thesis
      by (auto simp: parsePlatformActor_def actor_ok_def isValidString_iff strOf_def intOf_def positiveSafe_iff
          split: if_splits)
  next
    assume "parseSessionActor v = Inr a"
    with p show ?thesis
      by (auto simp: parseSessionActor_def actor_ok_def isValidString_iff strOf_def split: if_splits)
  next
    assume "parseKeyActor v = Inr a"
    with p show ?thesis
      by (auto simp: parseKeyActor_def actor_ok_def isValidString_iff strOf_def intOf_def positiveSafe_iff
          isValidApiKeyIdentity_def split: if_splits)
  qed
qed

text \<open>
  Reading an actor context from JSON accepts the printed form of every well-formed actor and
  returns that actor, and whatever else it accepts is a well-formed actor: its subject names the
  very user or key, ids are positive safe integers, no text is blank.
\<close>

theorem parseProjectActorContext_roundtrip:
  "(actor_ok a \<longleftrightarrow> parseProjectActorContext (actorJson a) = Inr a)
   \<and> (case parseProjectActorContext v of Inr b \<Rightarrow> actor_ok b | Inl e \<Rightarrow> e = ActorRequired)"
proof
  show "actor_ok a \<longleftrightarrow> parseProjectActorContext (actorJson a) = Inr a"
    using parse_actorJson parse_ok by blast
  show "case parseProjectActorContext v of Inr b \<Rightarrow> actor_ok b | Inl e \<Rightarrow> e = ActorRequired"
    using parse_ok [of v]
    by (auto simp: parseProjectActorContext_def parsePlatformActor_def parseSessionActor_def parseKeyActor_def
        split: sum.split)
qed

subsection \<open>Subjects and scopes\<close>

lemma nat_to_string_inj: "nat_to_string m = nat_to_string n \<Longrightarrow> m = n"
  using digits_value_nat_to_string by metis

lemma int_to_string_inj: "0 < m \<Longrightarrow> 0 < n \<Longrightarrow> int_to_string m = int_to_string n \<Longrightarrow> m = n"
  using nat_to_string_inj [of "nat m" "nat n"] by (simp add: int_to_string_def)

text \<open>
  The subject of an actor identifies it: two well-formed actors with the same subject are of
  the same kind and are the same user or the same key. In particular no project user can take a
  user id that makes it pass for a platform user or a key.
\<close>

theorem actor_subject_identifies:
  assumes "actor_ok a" "actor_ok b" "actorSubject a = actorSubject b"
  shows "actorTypeName a = actorTypeName b \<and>
    (case (a, b) of
       (PlatformActor _ _ _ u _ _, PlatformActor _ _ _ w _ _) \<Rightarrow> u = w
     | (SessionActor _ _ u _, SessionActor _ _ w _) \<Rightarrow> u = w
     | (KeyActor _ _ m _, KeyActor _ _ n _) \<Rightarrow> m = n
     | _ \<Rightarrow> False)"
  using assms int_to_string_inj
  by (cases a; cases b) (auto simp: actor_ok_def isValidApiKeyIdentity_def safeId_def)

definition demoKey :: projectActor where
  "demoKey = KeyActor ''proj_a'' (''apikey:'' @ int_to_string 3) 3 ''dru_abcdefgh''"

lemma demoKey_ok: "actor_ok demoKey"
  by (simp add: demoKey_def actor_ok_def isValidApiKeyIdentity_def safeId_def validText_iff js_is_space_def)

theorem actor_subject_identifies_witness:
  "actor_ok demoKey \<and> actorTypeName demoKey = actorTypeName demoKey"
  using actor_subject_identifies [OF demoKey_ok demoKey_ok refl] demoKey_ok by blast

text \<open>
  C34. An actor resolved for a project belongs to that project: a project user or an API key only
  acts on the project of its own token, under its own id, and every context the resolution
  gives is well formed. Hasura gets the id of a project user for such a user only, and in the
  data interface the role of that very project.
\<close>

theorem scoped_actor_stays_in_project:
  assumes "resolveScopedProjectActor user pid = Inr a" "validText pid"
  shows "projectOfUser user = pid \<and> actorProject a = pid \<and> actor_ok a \<and> \<not> isPlatformUser user
    \<and> map_of (toProjectActorHasuraSessionVariables a) ''x-hasura-druvia-project-id'' = Some pid
    \<and> map_of (toProjectActorHasuraSessionVariables a) ''x-hasura-druvia-project-user-id''
        = (case user of ProjectUser s _ _ \<Rightarrow> Some s | _ \<Rightarrow> None)
    \<and> (case resolveProjectDataExecutionContext sha q mode user of
         Inr c \<Rightarrow> q = pid \<and> (case map_of (sessionVariables c) ''x-hasura-user-id'' of
                     Some s \<Rightarrow> mode = Some ''explicit'' \<and> isProjectUser user \<and> s = pjSub user
                   | None \<Rightarrow> True)
       | Inl e \<Rightarrow> True)"
  using assms
  by (cases user)
    (auto simp: actor_ok_def toProjectActorHasuraSessionVariables_def sessionVars_def orRequired_def
      split: if_splits option.splits sum.splits)

theorem scoped_actor_stays_in_project_witness:
  "\<exists>a. resolveScopedProjectActor (ApiKeyUser ''proj_a'' 3 ''dru_abc'') ''proj_a'' = Inr a \<and> validText ''proj_a''
     \<and> actorProject a = ''proj_a''"
proof -
  have v: "validText ''proj_a''" by (simp add: validText_iff js_is_space_def)
  have "validText ''dru_abc''" by (simp add: validText_iff js_is_space_def)
  then obtain a where a: "resolveScopedProjectActor (ApiKeyUser ''proj_a'' 3 ''dru_abc'') ''proj_a'' = Inr a"
    by (simp add: isValidApiKeyIdentity_def safeId_def)
  from scoped_actor_stays_in_project [OF a v] a v show ?thesis by blast
qed

subsection \<open>Function tokens\<close>

text \<open>
  C39. A token of an internal function call that verifies carries a well-formed actor of the very
  project the token names, whatever the payload says; and a token made for an actor of a project
  verifies to that project, function and actor, given a JWT library that returns the payload it
  signed with the times it adds.
\<close>

theorem function_token_roundtrip:
  assumes "\<And>ps. sign (JObj ps) secret ttl = tok \<Longrightarrow>
      verify tok secret = Some (JObj (ps @ [(''iat'', JNum i), (''exp'', JNum x)]))"
    "signInternalFunctionToken sign secret ttl pid fname a None = Some tok"
  shows "verifyInternalFunctionToken verify secret tok
      = Some \<lparr>tokenProject = pid, tokenFunction = fname, tokenActor = a, tokenIat = Some i, tokenExp = Some x\<rparr>
    \<and> actorProject a = pid \<and> actor_ok a
    \<and> (case verifyInternalFunctionToken verify secret other of
         Some t \<Rightarrow> actor_ok (tokenActor t) \<and> actorProject (tokenActor t) = tokenProject t
       | None \<Rightarrow> True)"
proof -
  obtain b where b: "parseProjectActorContext (actorJson a) = Inr b" "actorProject b = pid" "secret \<noteq> []"
      "validText pid" "validText fname" and
    tok: "tok = sign (JObj [(''tokenType'', JStr ''function_internal''), (''actorContractVersion'', JNum 1),
            (''projectId'', JStr pid), (''functionName'', JStr fname), (''actor'', actorJson b)]) secret ttl"
    using assms(2) by (auto simp: signInternalFunctionToken_def split: if_splits sum.splits)
  have "b = a"
  proof -
    from b(1) have "actorTypeName b = actorTypeName a \<and> b = a"
      by (cases a; cases "platformTenant a")
        (auto simp: parseProjectActorContext_def actorJson_def parsePlatformActor_def
          parseSessionActor_def parseKeyActor_def strOf_def intOf_def isValidString_iff
          dest: validText_not_Nil split: if_splits)
    then show ?thesis by simp
  qed
  with b have ok: "actor_ok a" using parse_ok by blast
  have "verifyInternalFunctionToken verify secret tok
      = Some \<lparr>tokenProject = pid, tokenFunction = fname, tokenActor = a, tokenIat = Some i, tokenExp = Some x\<rparr>"
    unfolding verifyInternalFunctionToken_def assms(1) [OF tok [symmetric]]
    using b ok parse_actorJson [OF ok] \<open>b = a\<close>
    by (simp add: isObject_def isValidString_iff strOf_def optionalNumber_def)
  moreover have "case verifyInternalFunctionToken verify secret other of
         Some t \<Rightarrow> actor_ok (tokenActor t) \<and> actorProject (tokenActor t) = tokenProject t
       | None \<Rightarrow> True"
    using parse_ok by (auto simp: verifyInternalFunctionToken_def split: option.split sum.split)
  ultimately show ?thesis using ok b(2) \<open>b = a\<close> by simp
qed

definition demoFields :: "(string \<times> jsval) list" where
  "demoFields =
     [(''tokenType'', JStr ''function_internal''), (''actorContractVersion'', JNum 1),
      (''projectId'', JStr ''proj_a''), (''functionName'', JStr ''f''), (''actor'', actorJson demoKey)]"

definition demoSign :: "jsval \<Rightarrow> string \<Rightarrow> rat \<Rightarrow> string" where
  "demoSign v secret ttl = (if v = JObj demoFields then ''token'' else [])"

definition demoVerify :: "string \<Rightarrow> string \<Rightarrow> jsval option" where
  "demoVerify tok secret =
     (if tok = ''token'' then Some (JObj (demoFields @ [(''iat'', JNum 1), (''exp'', JNum 61)])) else None)"

theorem function_token_roundtrip_witness:
  "signInternalFunctionToken demoSign ''s'' 60 ''proj_a'' ''f'' demoKey None = Some ''token'' \<and>
   verifyInternalFunctionToken demoVerify ''s'' ''token''
     = Some \<lparr>tokenProject = ''proj_a'', tokenFunction = ''f'', tokenActor = demoKey, tokenIat = Some 1,
             tokenExp = Some 61\<rparr>"
proof -
  have v: "validText ''proj_a''" "validText ''f''" by (simp_all add: validText_iff js_is_space_def)
  have s: "signInternalFunctionToken demoSign ''s'' 60 ''proj_a'' ''f'' demoKey None = Some ''token''"
    using parse_actorJson [OF demoKey_ok] v
    by (simp add: signInternalFunctionToken_def demoSign_def demoFields_def) (simp add: demoKey_def)
  have "\<And>ps. demoSign (JObj ps) ''s'' 60 = ''token'' \<Longrightarrow>
      demoVerify ''token'' ''s'' = Some (JObj (ps @ [(''iat'', JNum 1), (''exp'', JNum 61)]))"
    by (auto simp: demoSign_def demoVerify_def split: if_splits)
  from function_token_roundtrip [of demoSign "''s''" 60 "''token''" demoVerify 1 61, OF this s] s
  show ?thesis by blast
qed

subsection \<open>Hasura roles\<close>

lemma last_colon:
  assumes "CHR '':'' \<notin> set a" "CHR '':'' \<notin> set b" "x @ CHR '':'' # a = y @ CHR '':'' # b"
  shows "x = y \<and> a = b"
proof -
  have "rev a @ CHR '':'' # rev x = rev b @ CHR '':'' # rev y"
    using arg_cong [OF assms(3), of rev] by simp
  then have "js_split (CHR '':'') (rev a @ CHR '':'' # rev x) = js_split (CHR '':'') (rev b @ CHR '':'' # rev y)"
    by simp
  then have "rev a = rev b" using assms(1,2) by (simp add: js_split_append)
  with assms(3) show ?thesis by simp
qed

lemma digits_no_colon: "0 < n \<Longrightarrow> CHR '':'' \<notin> set (int_to_string n)"
  using nat_to_string_digits [of "nat n"] by (auto simp: int_to_string_def js_is_digit_def)

lemma scopeIdentity_inj:
  assumes "case e of Some n \<Rightarrow> 0 < n | None \<Rightarrow> True" "case f of Some n \<Rightarrow> 0 < n | None \<Rightarrow> True"
    "scopeIdentity p e = scopeIdentity q f"
  shows "p = q \<and> e = f"
proof -
  define tag :: "int option \<Rightarrow> string" where "tag e = (case e of None \<Rightarrow> ''prod'' | Some n \<Rightarrow> int_to_string n)" for e
  define pre :: "string \<Rightarrow> int option \<Rightarrow> string" where
    "pre p e = (case e of None \<Rightarrow> ''project:'' @ p | Some n \<Rightarrow> ''project:'' @ p @ '':environment'')" for p e
  have id: "scopeIdentity p e = pre p e @ CHR '':'' # tag e" for p e
    by (cases e) (simp_all add: scopeIdentity_def pre_def tag_def)
  have nc: "CHR '':'' \<notin> set (tag e)" if "case e of Some n \<Rightarrow> 0 < n | None \<Rightarrow> True" for e
    using that digits_no_colon by (cases e) (auto simp: tag_def)
  have eq: "pre p e = pre q f" "tag e = tag f"
    using last_colon [OF nc [OF assms(1)] nc [OF assms(2)]] assms(3) by (simp_all add: id)
  have "int_to_string n \<noteq> ''prod''" if "0 < n" for n
    using nat_to_string_digits [of "nat n"] that
    by (cases "nat_to_string (nat n)") (auto simp: int_to_string_def js_is_digit_def)
  then have "e = f" using eq(2) assms(1,2) int_to_string_inj
    by (cases e; cases f) (auto simp: tag_def)
  with eq(1) show ?thesis by (cases f) (auto simp: pre_def)
qed

text \<open>
  The Hasura role of a data scope keeps everything apart: two scopes get the same role only
  when the kind of actor is the same, and the project and environment too, unless the truncated
  SHA-256 digests of two different scope identities collide.
\<close>

theorem resolveDataScopeRole_separates:
  assumes "resolveDataScopeRole sha p e a = Some r" "resolveDataScopeRole sha q f b = Some r"
  shows "a = b \<and> ((p = q \<and> e = f)
      \<or> (scopeIdentity p e \<noteq> scopeIdentity q f
         \<and> take 20 (sha (scopeIdentity p e)) = take 20 (sha (scopeIdentity q f))))"
proof -
  let ?h = "take 20 (sha (scopeIdentity p e))" and ?k = "take 20 (sha (scopeIdentity q f))"
  have pos: "case e of Some n \<Rightarrow> 0 < n | None \<Rightarrow> True" "case f of Some n \<Rightarrow> 0 < n | None \<Rightarrow> True"
    using assms by (auto simp: resolveDataScopeRole_def split: if_splits option.splits)
  have eq: "?h @ CHR ''_'' # roleSuffix a = ?k @ CHR ''_'' # roleSuffix b"
    using assms by (auto simp: resolveDataScopeRole_def split: if_splits)
  have "length (roleSuffix x) = 4" for x by (cases x) (simp_all add: roleSuffix_def)
  then have suf: "roleSuffix a = roleSuffix b" "?h = ?k"
    using eq append_eq_append_conv [of "CHR ''_'' # roleSuffix a" "CHR ''_'' # roleSuffix b" ?h ?k] by auto
  have "a = b" using suf(1) by (cases a; cases b) (simp_all add: roleSuffix_def)
  then show ?thesis using suf(2) scopeIdentity_inj [OF pos] by blast
qed

theorem resolveDataScopeRole_separates_witness:
  "\<exists>r. resolveDataScopeRole (\<lambda>s. s) ''p'' None Anonymous = Some r \<and> Anonymous = Anonymous"
proof -
  have "validText ''p''" by (simp add: validText_iff js_is_space_def)
  then obtain r where r: "resolveDataScopeRole (\<lambda>s. s) ''p'' None Anonymous = Some r"
    by (simp add: resolveDataScopeRole_def)
  from resolveDataScopeRole_separates [OF r r] r show ?thesis by blast
qed

end
