(* ===== verification/Auth_Middleware.thy ===== *)
theory Auth_Middleware
  imports Project_Authorization
begin

text \<open>
  Authentication of API requests (apps/api/src/middleware/auth.ts) with API keys
  (modules/api-keys/api-keys.service.ts) and the state checks of project sessions
  (modules/project-auth/project-session-state.ts). The JWT library is a parameter: \<open>decode\<close> reads
  a payload without checking it, \<open>verify\<close> checks it against a secret. The server signs integer
  uids only. \<open>stateFails\<close> says that the queries of a state check fail. Log context is left out.
\<close>

subsection \<open>State\<close>

record apiKeyRow =
  keyRowId :: int
  keyProject :: string
  keyHash :: string
  keyPrefix :: string
  keyName :: "string option"
  keyCreated :: int
  keyLastUsed :: "int option"

record deletionRow =
  delProject :: string
  delUser :: string
  delStatus :: string
  delAccepted :: "int option"

record identityRow =
  idProject :: string
  idUser :: string
  idProvider :: string
  idStatus :: string
  idUpdated :: "int option"

record authState =
  platform :: platformDb
  apiKeys :: "apiKeyRow list"
  runtimeGates :: "string list"
  accountDeletions :: "deletionRow list"
  identities :: "identityRow list"

record authConfig =
  jwtSecret :: string
  projectSecret :: string
  jwtDecode :: "string \<Rightarrow> jsval"
  jwtVerify :: "string \<Rightarrow> string \<Rightarrow> jsval option"
  sha256Hex :: "string \<Rightarrow> string"

subsection \<open>API keys\<close>

definition keyView :: "apiKeyRow \<Rightarrow> int \<times> string \<times> string \<times> string option \<times> int \<times> int option" where
  "keyView k = (keyRowId k, keyProject k, keyPrefix k, keyName k, keyCreated k, keyLastUsed k)"

text \<open>\<open>createApiKey\<close> with the random part and the id and time the database gives; an empty name is null.\<close>

definition createApiKey ::
  "authConfig \<Rightarrow> string \<Rightarrow> int \<Rightarrow> int \<Rightarrow> string \<Rightarrow> string option \<Rightarrow> authState \<Rightarrow> authState \<times> string" where
  "createApiKey cfg random newId now pid name st =
     (let key = ''dru_'' @ random in
      (st\<lparr>apiKeys := apiKeys st
         @ [\<lparr>keyRowId = newId, keyProject = pid, keyHash = sha256Hex cfg key, keyPrefix = take 12 key,
             keyName = given name, keyCreated = now, keyLastUsed = None\<rparr>]\<rparr>, key))"

definition listApiKeys :: "string \<Rightarrow> authState \<Rightarrow> apiKeyRow list" where
  "listApiKeys pid st = sort_key (\<lambda>k. - keyCreated k) (filter (\<lambda>k. keyProject k = pid) (apiKeys st))"

definition deleteApiKey :: "int \<Rightarrow> string \<Rightarrow> authState \<Rightarrow> authState \<times> bool" where
  "deleteApiKey kid pid st =
     (st\<lparr>apiKeys := filter (\<lambda>k. \<not> (keyRowId k = kid \<and> keyProject k = pid)) (apiKeys st)\<rparr>,
      list_ex (\<lambda>k. keyRowId k = kid \<and> keyProject k = pid) (apiKeys st))"

definition keyMatches :: "authState \<Rightarrow> string \<Rightarrow> apiKeyRow \<Rightarrow> bool" where
  "keyMatches st h k \<longleftrightarrow> keyHash k = h \<and> projectsWith (platform st) (keyProject k) \<noteq> []"

definition validateApiKey :: "authConfig \<Rightarrow> int \<Rightarrow> string \<Rightarrow> authState \<Rightarrow> authState \<times> apiKeyRow option" where
  "validateApiKey cfg now key st =
     (let h = sha256Hex cfg key in
      (st\<lparr>apiKeys := map (\<lambda>k. if keyMatches st h k then k\<lparr>keyLastUsed := Some now\<rparr> else k) (apiKeys st)\<rparr>,
       firstRow (filter (keyMatches st h) (apiKeys st))))"

subsection \<open>State of a project and of a session\<close>

datatype runtimeCheck =
    Usable
  | Blocked (blockedCode: string) (blockedStatus: nat)
  | CheckFailed

definition assertProjectRuntimeAvailable :: "bool \<Rightarrow> authState \<Rightarrow> string \<Rightarrow> runtimeCheck" where
  "assertProjectRuntimeAvailable stateFails st pid =
     (if stateFails then CheckFailed
      else if pid \<in> set (runtimeGates st) then Blocked ''PROJECT_RESTORE_IN_PROGRESS'' 503
      else Usable)"

text \<open>\<open>ORDER BY priority, accepted_at DESC NULLS LAST\<close>: the deletions first, the latest first.\<close>

definition newestFirst :: "(string \<times> int option) list \<Rightarrow> (string \<times> int option) list" where
  "newestFirst rows =
     sort_key (\<lambda>r. snd r = None) (sort_key (\<lambda>r. case snd r of Some t \<Rightarrow> - t | None \<Rightarrow> 0) rows)"

definition deletionStates :: "authState \<Rightarrow> string \<Rightarrow> string \<Rightarrow> string list" where
  "deletionStates st pid sub =
     map fst (newestFirst
       (map (\<lambda>d. (delStatus d, delAccepted d))
          (filter (\<lambda>d. delProject d = pid \<and> delUser d = sub
                     \<and> delStatus d \<in> {''accepted'', ''processing'', ''attention_required'', ''completed''})
             (accountDeletions st))))
     @ map (\<lambda>i. ''attention_required'')
         (filter (\<lambda>i. idProject i = pid \<and> idUser i = sub \<and> idProvider i = ''apple''
                   \<and> idStatus i = ''deletion_pending'') (identities st))"

definition assertProjectSessionUsable :: "bool \<Rightarrow> authState \<Rightarrow> string \<Rightarrow> string \<Rightarrow> runtimeCheck" where
  "assertProjectSessionUsable stateFails st pid sub =
     (case assertProjectRuntimeAvailable stateFails st pid of
        Usable \<Rightarrow> (case firstRow (deletionStates st pid sub) of
            None \<Rightarrow> Usable
          | Some status \<Rightarrow>
              if status = ''attention_required'' \<or> status = ''completed''
              then Blocked ''ACCOUNT_DELETION_ATTENTION_REQUIRED'' 503
              else Blocked ''ACCOUNT_DELETION_IN_PROGRESS'' 409)
      | other \<Rightarrow> other)"

fun assertRequestUserUsable :: "bool \<Rightarrow> authState \<Rightarrow> requestUser \<Rightarrow> runtimeCheck" where
  "assertRequestUserUsable stateFails st (ProjectUser s p prov) = assertProjectSessionUsable stateFails st p s"
| "assertRequestUserUsable stateFails st (ApiKeyUser p n pre) = assertProjectRuntimeAvailable stateFails st p"
| "assertRequestUserUsable stateFails st (PlatformUser _ _ _ _) = Usable"

subsection \<open>Tokens\<close>

definition optionalText :: "jsval \<Rightarrow> string option" where
  "optionalText v = (if js_is_string v then Some (js_string_of v) else None)"

text \<open>An exception is \<open>None\<close>.\<close>

definition verifyProjectUserToken :: "authConfig \<Rightarrow> string \<Rightarrow> requestUser option" where
  "verifyProjectUserToken cfg token =
     (if projectSecret cfg = [] then None
      else (case jwtVerify cfg token (projectSecret cfg) of
        None \<Rightarrow> None
      | Some p \<Rightarrow>
          if js_get p ''authType'' \<noteq> JStr ''project_user'' \<or> \<not> js_is_string (js_get p ''sub'')
             \<or> \<not> js_is_string (js_get p ''projectId'') \<or> \<not> js_is_string (js_get p ''provider'')
          then None
          else Some (ProjectUser (js_string_of (js_get p ''sub'')) (js_string_of (js_get p ''projectId''))
                 (js_string_of (js_get p ''provider'')))))"

definition verifyToken :: "authConfig \<Rightarrow> string \<Rightarrow> requestUser option" where
  "verifyToken cfg token =
     (let decoded = jwtDecode cfg token in
      if js_get decoded ''tokenType'' = JStr ''storage_trusted_ticket'' then None
      else if js_get decoded ''authType'' = JStr ''project_user'' then verifyProjectUserToken cfg token
      else (case jwtVerify cfg token (jwtSecret cfg) of
        None \<Rightarrow> None
      | Some p \<Rightarrow>
          if \<not> js_is_string (js_get p ''userId'') \<or> \<not> js_is_number (js_get p ''uid'') then None
          else Some (PlatformUser (js_string_of (js_get p ''userId'')) \<lfloor>js_number_of (js_get p ''uid'')\<rfloor>
                 (optionalText (js_get p ''tenantId'')) (optionalText (js_get p ''role'')))))"

subsection \<open>The middleware\<close>

record authHeaders =
  authorization :: "string option"
  apikeyHeader :: "string option"

type_synonym authReply = "nat \<times> string \<times> string"

text \<open>A middleware sends a reply or hands the request on, with its user if it has one.\<close>

datatype authOutcome = Replied authReply | Continue "requestUser option"

definition bearerToken :: "authHeaders \<Rightarrow> string option" where
  "bearerToken h =
     (case authorization h of
        Some a \<Rightarrow> if js_startsWith a ''Bearer '' then Some (drop 7 a) else None
      | None \<Rightarrow> None)"

definition keyUser :: "apiKeyRow \<Rightarrow> requestUser" where
  "keyUser k = ApiKeyUser (keyProject k) (keyRowId k) (keyPrefix k)"

definition sendProjectRuntimeError :: "string \<Rightarrow> nat \<Rightarrow> authOutcome" where
  "sendProjectRuntimeError code status = Replied (status, code, ''Project access is temporarily unavailable'')"

definition unauthorizedReply :: "string \<Rightarrow> authOutcome" where
  "unauthorizedReply msg = Replied (401, ''UNAUTHORIZED'', msg)"

text \<open>\<open>authenticate\<close>. A failing state check of a token is the answer 401, one of an API key is rethrown
  and answered with 500.\<close>

definition authenticate ::
  "authConfig \<Rightarrow> bool \<Rightarrow> int \<Rightarrow> authHeaders \<Rightarrow> authState \<Rightarrow> authState \<times> authOutcome" where
  "authenticate cfg stateFails now h st =
     (case bearerToken h of
        Some token \<Rightarrow>
          (st, case verifyToken cfg token of
                 None \<Rightarrow> unauthorizedReply ''Invalid or expired token''
               | Some user \<Rightarrow> (case assertRequestUserUsable stateFails st user of
                   Usable \<Rightarrow> Continue (Some user)
                 | Blocked code status \<Rightarrow> sendProjectRuntimeError code status
                 | CheckFailed \<Rightarrow> unauthorizedReply ''Invalid or expired token''))
      | None \<Rightarrow> (case given (apikeyHeader h) of
          Some key \<Rightarrow> (case validateApiKey cfg now key st of
              (st1, None) \<Rightarrow> (st1, unauthorizedReply ''Invalid API key'')
            | (st1, Some k) \<Rightarrow>
                (st1, case assertRequestUserUsable stateFails st1 (keyUser k) of
                        Usable \<Rightarrow> Continue (Some (keyUser k))
                      | Blocked code status \<Rightarrow> sendProjectRuntimeError code status
                      | CheckFailed \<Rightarrow> Replied (500, ''INTERNAL'', [])))
        | None \<Rightarrow> (st, unauthorizedReply ''Missing authorization'')))"

text \<open>\<open>optionalAuth\<close>. The user is set on the request before the state is checked; only a blocked
  project or session sends a reply.\<close>

definition optionalAuth ::
  "authConfig \<Rightarrow> bool \<Rightarrow> int \<Rightarrow> authHeaders \<Rightarrow> authState \<Rightarrow> authState \<times> authOutcome" where
  "optionalAuth cfg stateFails now h st =
     (case bearerToken h of
        Some token \<Rightarrow>
          (st, case verifyToken cfg token of
                 None \<Rightarrow> Continue None
               | Some user \<Rightarrow> (case assertRequestUserUsable stateFails st user of
                   Blocked code status \<Rightarrow> sendProjectRuntimeError code status
                 | _ \<Rightarrow> Continue (Some user)))
      | None \<Rightarrow> (case given (apikeyHeader h) of
          Some key \<Rightarrow> (case validateApiKey cfg now key st of
              (st1, None) \<Rightarrow> (st1, Continue None)
            | (st1, Some k) \<Rightarrow>
                (st1, case assertRequestUserUsable stateFails st1 (keyUser k) of
                        Usable \<Rightarrow> Continue (Some (keyUser k))
                      | Blocked code status \<Rightarrow> sendProjectRuntimeError code status
                      | CheckFailed \<Rightarrow> Replied (500, ''INTERNAL'', [])))
        | None \<Rightarrow> (st, Continue None)))"

definition authenticateAccountDeletion :: "authConfig \<Rightarrow> authHeaders \<Rightarrow> authOutcome" where
  "authenticateAccountDeletion cfg h =
     (case bearerToken h of
        None \<Rightarrow> Continue None
      | Some token \<Rightarrow> Continue (verifyToken cfg token))"

text \<open>\<open>verifySchemaAccess\<close>: an empty user id counts as missing, and the first of the two parameters
  that is not empty names the schema.\<close>

definition verifySchemaAccess ::
  "authState \<Rightarrow> requestUser option \<Rightarrow> string option \<Rightarrow> string option \<Rightarrow> authOutcome" where
  "verifySchemaAccess st user schema schemaName0 =
     (case (case user of Some (PlatformUser i n t r) \<Rightarrow> given (Some i) | _ \<Rightarrow> None) of
        None \<Rightarrow> unauthorizedReply ''Authentication required''
      | Some i \<Rightarrow> (case (case given schema of Some s \<Rightarrow> Some s | None \<Rightarrow> given schemaName0) of
          None \<Rightarrow> Replied (400, ''BAD_REQUEST'', ''Schema name is required'')
        | Some sn \<Rightarrow>
            if \<not> checkSchemaAccess (platform st) i sn
            then Replied (403, ''FORBIDDEN'', ''Access denied to this schema'')
            else Continue user))"

subsection \<open>Facts\<close>

lemma usable_iff:
  "assertRequestUserUsable f st u = Usable \<longleftrightarrow>
     (case u of
        PlatformUser i n t r \<Rightarrow> True
      | ProjectUser s p prov \<Rightarrow> \<not> f \<and> p \<notin> set (runtimeGates st) \<and> deletionStates st p s = []
      | ApiKeyUser p n pre \<Rightarrow> \<not> f \<and> p \<notin> set (runtimeGates st))"
  by (cases u) (auto simp: assertProjectSessionUsable_def assertProjectRuntimeAvailable_def firstRow_def
      split: list.splits if_splits)

lemma deletionStates_Nil:
  "deletionStates st p s = [] \<longleftrightarrow>
     (\<forall>d \<in> set (accountDeletions st). \<not> (delProject d = p \<and> delUser d = s
        \<and> delStatus d \<in> {''accepted'', ''processing'', ''attention_required'', ''completed''}))
     \<and> (\<forall>i \<in> set (identities st). \<not> (idProject i = p \<and> idUser i = s \<and> idProvider i = ''apple''
          \<and> idStatus i = ''deletion_pending''))"
proof -
  have "newestFirst rows = [] \<longleftrightarrow> rows = []" for rows
  proof -
    have "length (newestFirst rows) = length rows" by (simp add: newestFirst_def)
    then show ?thesis by auto
  qed
  then show ?thesis by (auto simp: deletionStates_def filter_empty_conv)
qed

lemma validateApiKey_state:
  "validateApiKey cfg now key st = (st1, r) \<Longrightarrow>
     platform st1 = platform st \<and> runtimeGates st1 = runtimeGates st
     \<and> accountDeletions st1 = accountDeletions st \<and> identities st1 = identities st
     \<and> map keyRowId (apiKeys st1) = map keyRowId (apiKeys st)"
  by (auto simp: validateApiKey_def Let_def)

lemma validateApiKey_row:
  "validateApiKey cfg now key st = (st1, Some k) \<Longrightarrow>
     k \<in> set (apiKeys st) \<and> keyHash k = sha256Hex cfg key \<and> projectsWith (platform st) (keyProject k) \<noteq> []"
proof -
  assume "validateApiKey cfg now key st = (st1, Some k)"
  then have "k \<in> set (filter (keyMatches st (sha256Hex cfg key)) (apiKeys st))"
    by (cases "filter (keyMatches st (sha256Hex cfg key)) (apiKeys st)")
      (auto simp: validateApiKey_def Let_def firstRow_def)
  then show ?thesis by (auto simp: keyMatches_def)
qed

text \<open>The user comes from a token that verifies, or from a stored key of an existing project.\<close>

definition credentialOf :: "authConfig \<Rightarrow> authHeaders \<Rightarrow> authState \<Rightarrow> requestUser \<Rightarrow> bool" where
  "credentialOf cfg h st user \<longleftrightarrow>
     (\<exists>token. bearerToken h = Some token \<and> verifyToken cfg token = Some user)
     \<or> (\<exists>key. bearerToken h = None \<and> apikeyHeader h = Some key
          \<and> (\<exists>k \<in> set (apiKeys st). user = keyUser k \<and> keyHash k = sha256Hex cfg key
               \<and> projectsWith (platform st) (keyProject k) \<noteq> []))"

text \<open>No restore and no deletion stands in the way of the user.\<close>

definition unblocked :: "authState \<Rightarrow> requestUser \<Rightarrow> bool" where
  "unblocked st user \<longleftrightarrow>
     (case user of
        PlatformUser i n t r \<Rightarrow> True
      | ApiKeyUser p n pre \<Rightarrow> p \<notin> set (runtimeGates st)
      | ProjectUser s p prov \<Rightarrow>
          p \<notin> set (runtimeGates st)
          \<and> (\<forall>d \<in> set (accountDeletions st). \<not> (delProject d = p \<and> delUser d = s
               \<and> delStatus d \<in> {''accepted'', ''processing'', ''attention_required'', ''completed''}))
          \<and> (\<forall>i \<in> set (identities st). \<not> (idProject i = p \<and> idUser i = s \<and> idProvider i = ''apple''
               \<and> idStatus i = ''deletion_pending'')))"

lemma usable_unblocked: "assertRequestUserUsable f st u = Usable \<Longrightarrow> unblocked st u"
  unfolding usable_iff by (cases u) (auto simp: unblocked_def deletionStates_Nil)


text \<open>
  The kinds of tokens do not mix: with a JWT library whose \<open>decode\<close> reads what \<open>verify\<close>
  checks, a platform user comes from a payload signed with the platform secret that is neither a
  project token nor a storage ticket, and a project user from a payload signed with the project
  secret that says so itself and names that user, project and provider.
\<close>

theorem verifyToken_kinds:
  assumes "\<And>s p. jwtVerify cfg token s = Some p \<Longrightarrow> jwtDecode cfg token = p"
    "verifyToken cfg token = Some user"
  shows "\<exists>p. jwtDecode cfg token = p \<and> js_get p ''tokenType'' \<noteq> JStr ''storage_trusted_ticket'' \<and>
    (case user of
       PlatformUser i n t r \<Rightarrow>
         jwtVerify cfg token (jwtSecret cfg) = Some p \<and> js_get p ''authType'' \<noteq> JStr ''project_user''
         \<and> js_get p ''userId'' = JStr i
     | ProjectUser s q prov \<Rightarrow>
         jwtVerify cfg token (projectSecret cfg) = Some p \<and> js_get p ''authType'' = JStr ''project_user''
         \<and> js_get p ''sub'' = JStr s \<and> js_get p ''projectId'' = JStr q \<and> js_get p ''provider'' = JStr prov
     | ApiKeyUser q n pre \<Rightarrow> False)"
  using assms by (fastforce simp: verifyToken_def verifyProjectUserToken_def js_is_string_iff Let_def
      split: if_splits option.splits)

definition demoToken :: jsval where
  "demoToken = JObj [(''userId'', JStr ''user_a''), (''uid'', JNum 7)]"

definition demoAuth :: authConfig where
  "demoAuth = \<lparr>jwtSecret = ''k'', projectSecret = ''p'', jwtDecode = (\<lambda>t. demoToken),
               jwtVerify = (\<lambda>t s. if s = ''k'' then Some demoToken else None), sha256Hex = (\<lambda>s. s)\<rparr>"

theorem verifyToken_kinds_witness:
  "\<exists>user. verifyToken demoAuth ''t'' = Some user \<and> isPlatformUser user
     \<and> jwtVerify demoAuth ''t'' ''k'' = Some demoToken"
proof -
  have d: "\<And>s p. jwtVerify demoAuth ''t'' s = Some p \<Longrightarrow> jwtDecode demoAuth ''t'' = p"
    by (auto simp: demoAuth_def split: if_splits)
  obtain user where user: "verifyToken demoAuth ''t'' = Some user" "isPlatformUser user"
    by (simp add: verifyToken_def demoAuth_def demoToken_def)
  from verifyToken_kinds [OF d user(1)] user show ?thesis by (auto simp: demoAuth_def)
qed

text \<open>
  Optional authentication skips the state check when its query fails: a project user whose
  token verifies is handed on as that user, although the comment says that credentials that
  cannot be accepted remain anonymous, and although the account may be under deletion; the
  mandatory authentication refuses the same request.
\<close>

theorem optionalAuth_skips_failed_check:
  assumes "bearerToken h = Some token" "verifyToken cfg token = Some (ProjectUser s p prov)"
  shows "optionalAuth cfg True now h st = (st, Continue (Some (ProjectUser s p prov)))
    \<and> authenticate cfg True now h st = (st, unauthorizedReply ''Invalid or expired token'')"
  using assms by (simp add: optionalAuth_def authenticate_def assertProjectSessionUsable_def
      assertProjectRuntimeAvailable_def)

definition demoSession :: jsval where
  "demoSession = JObj [(''authType'', JStr ''project_user''), (''sub'', JStr ''u''), (''projectId'', JStr ''p''),
                       (''provider'', JStr ''apple'')]"

definition demoSessionAuth :: authConfig where
  "demoSessionAuth = \<lparr>jwtSecret = ''k'', projectSecret = ''p'', jwtDecode = (\<lambda>t. demoSession),
               jwtVerify = (\<lambda>t s. Some demoSession), sha256Hex = (\<lambda>s. s)\<rparr>"

theorem optionalAuth_skips_failed_check_witness:
  "optionalAuth demoSessionAuth True 0 \<lparr>authorization = Some ''Bearer t'', apikeyHeader = None\<rparr>
     \<lparr>platform = \<lparr>users = [], tenants = [], projects = [], members = [], environments = [], activities = []\<rparr>,
      apiKeys = [], runtimeGates = [],
      accountDeletions = [\<lparr>delProject = ''p'', delUser = ''u'', delStatus = ''processing'', delAccepted = None\<rparr>],
      identities = []\<rparr>
   = (\<lparr>platform = \<lparr>users = [], tenants = [], projects = [], members = [], environments = [], activities = []\<rparr>,
      apiKeys = [], runtimeGates = [],
      accountDeletions = [\<lparr>delProject = ''p'', delUser = ''u'', delStatus = ''processing'', delAccepted = None\<rparr>],
      identities = []\<rparr>, Continue (Some (ProjectUser ''u'' ''p'' ''apple'')))"
proof -
  have "bearerToken \<lparr>authorization = Some ''Bearer t'', apikeyHeader = None\<rparr> = Some ''t''"
    by (simp add: bearerToken_def)
  moreover have "verifyToken demoSessionAuth ''t'' = Some (ProjectUser ''u'' ''p'' ''apple'')"
    by (simp add: verifyToken_def verifyProjectUserToken_def demoSessionAuth_def demoSession_def)
  ultimately show ?thesis using optionalAuth_skips_failed_check by blast
qed

end
