(* ===== verification/Storage_Path.thy ===== *)
theory Storage_Path
  imports Sql_Like
begin

text \<open>
  Paths and media types of the storage API (apps/api/src/modules/storage/storage-path.ts,
  storage-validation.ts). Among the code units 0 to 255 the normalization NFC is the identity. An
  error is given by its message.
\<close>

subsection \<open>Paths\<close>

definition normalizeSeparators :: "string \<Rightarrow> string" where
  "normalizeSeparators v = dropWhile (\<lambda>c. c = CHR ''/'') (map (\<lambda>c. if c = CHR 0x5C then CHR ''/'' else c) v)"

definition isControl :: "char \<Rightarrow> bool" where
  "isControl c \<longleftrightarrow> of_char c < (32 :: nat) \<or> ((127 :: nat) \<le> of_char c \<and> of_char c < (160 :: nat))"

definition checkedSegments :: "bool \<Rightarrow> string \<Rightarrow> string list" where
  "checkedSegments allowTrailingSlash v =
     (let segments = js_split (CHR ''/'') v in
      if allowTrailingSlash \<and> last segments = [] then butlast segments else segments)"

definition assertSegments :: "string \<Rightarrow> bool \<Rightarrow> string + unit" where
  "assertSegments v allowTrailingSlash =
     (if list_ex isControl v then Inl ''Storage path must not contain control characters''
      else if js_includes v ''//'' then Inl ''Storage path must not contain empty segments''
      else if \<not> allowTrailingSlash \<and> js_endsWith v ''/'' then Inl ''Storage object path must not end with a slash''
      else if list_ex (\<lambda>s. s = ''.'' \<or> s = ''..'') (checkedSegments allowTrailingSlash v)
      then Inl ''Storage path must not contain dot segments''
      else Inr ())"

definition assertLength :: "string \<Rightarrow> string + unit" where
  "assertLength v = guardE (length v \<le> 1024) ''Storage path must not exceed 1024 characters''"

definition normalizeStorageObjectPath :: "jsval \<Rightarrow> string + string" where
  "normalizeStorageObjectPath v =
     (if \<not> js_is_string v then Inl ''Storage object path is required''
      else let n = normalizeSeparators (js_string_of v) in
        bindE (assertLength n) (\<lambda>_.
          if n = [] then Inl ''Storage object path is required''
          else bindE (assertSegments n False) (\<lambda>_. Inr n)))"

definition normalizeStoragePathPrefix :: "jsval \<Rightarrow> string + string" where
  "normalizeStoragePathPrefix v =
     (if \<not> js_is_string v then Inl ''Storage path prefix must be a string''
      else let n = normalizeSeparators (js_string_of v) in
        bindE (assertLength n) (\<lambda>_.
          if n = [] then Inr [] else bindE (assertSegments n True) (\<lambda>_. Inr n)))"

definition normalizeTrustedStoragePathPrefix :: "jsval \<Rightarrow> string + string" where
  "normalizeTrustedStoragePathPrefix v =
     bindE (normalizeStoragePathPrefix v) (\<lambda>n.
       if n = [] then Inl ''Trusted storage path prefix is required''
       else Inr (if js_endsWith n ''/'' then n else n @ ''/''))"

definition storageLikePrefix :: "string \<Rightarrow> string" where
  "storageLikePrefix prefix = concat (map likeLiteral prefix) @ ''%''"

text \<open>\<open>encodeURIComponent\<close> on the code units 0 to 255: their UTF-8 bytes, percent-encoded.\<close>

definition uriSafe :: "char \<Rightarrow> bool" where
  "uriSafe c \<longleftrightarrow> js_is_alnum c \<or> c \<in> set ''-_.!~*()'' \<or> c = CHR 0x27"

definition hexDigit :: "nat \<Rightarrow> char" where
  "hexDigit n = char_of (if n < 10 then 48 + n else 55 + n)"

definition percentByte :: "nat \<Rightarrow> string" where
  "percentByte b = [CHR ''%'', hexDigit (b div 16), hexDigit (b mod 16)]"

definition encodeChar :: "char \<Rightarrow> string" where
  "encodeChar c =
     (if uriSafe c then [c]
      else let n = of_char c in
        if n < 128 then percentByte n else percentByte (192 + n div 64) @ percentByte (128 + n mod 64))"

definition encodeURIComponent :: "string \<Rightarrow> string" where
  "encodeURIComponent s = concat (map encodeChar s)"

definition encodeStorageObjectPath :: "jsval \<Rightarrow> string + string" where
  "encodeStorageObjectPath v =
     bindE (normalizeStorageObjectPath v)
       (\<lambda>n. Inr (js_join ''/'' (map encodeURIComponent (js_split (CHR ''/'') n))))"

subsection \<open>Media types and sizes\<close>

definition mimeStart :: "char \<Rightarrow> bool" where
  "mimeStart c \<longleftrightarrow> js_is_lower c \<or> js_is_digit c"

definition mimeChar :: "char \<Rightarrow> bool" where
  "mimeChar c \<longleftrightarrow> mimeStart c \<or> c \<in> set ''!#$&^_.+-''"

text \<open>\<open>/^[a-z0-9][a-z0-9!#$&^_.+-]*\/[a-z0-9][a-z0-9!#$&^_.+-]*$/\<close>.\<close>

definition mimePart :: "string \<Rightarrow> bool" where
  "mimePart s \<longleftrightarrow> s \<noteq> [] \<and> mimeStart (hd s) \<and> list_all mimeChar s"

definition mimePattern :: "string \<Rightarrow> bool" where
  "mimePattern s = (case js_split (CHR ''/'') s of [a, b] \<Rightarrow> mimePart a \<and> mimePart b | _ \<Rightarrow> False)"

definition normalizeStorageMimeType :: "jsval \<Rightarrow> string + string" where
  "normalizeStorageMimeType v =
     (if \<not> js_is_string v then Inl ''MIME type must be a string''
      else let n = js_toLowerCase (js_trim (js_string_of v)) in
        if n = [] \<or> length n > 255 \<or> \<not> mimePattern n then Inl ''Invalid MIME type'' else Inr n)"

definition safeStorageResponseMimeType :: "jsval \<Rightarrow> string" where
  "safeStorageResponseMimeType v =
     (case normalizeStorageMimeType v of Inr m \<Rightarrow> m | Inl e \<Rightarrow> ''application/octet-stream'')"

text \<open>Every value is normalized, or the first error is thrown; \<open>new Set\<close> keeps first occurrences.\<close>

fun mapE :: "('a \<Rightarrow> 'e + 'b) \<Rightarrow> 'a list \<Rightarrow> 'e + 'b list" where
  "mapE f [] = Inr []"
| "mapE f (x # xs) = bindE (f x) (\<lambda>y. bindE (mapE f xs) (\<lambda>ys. Inr (y # ys)))"

definition firstOccurrences :: "'a list \<Rightarrow> 'a list" where
  "firstOccurrences xs = rev (remdups (rev xs))"

definition normalizeAllowedStorageMimeTypes :: "jsval \<Rightarrow> string + string list option" where
  "normalizeAllowedStorageMimeTypes v =
     (case v of
        JNull \<Rightarrow> Inr None
      | JArr vs \<Rightarrow>
          if length vs > 100 then Inl ''allowedMimeTypes must contain at most 100 values''
          else bindE (mapE normalizeStorageMimeType vs)
                 (\<lambda>ms. Inr (if ms = [] then None else Some (firstOccurrences ms)))
      | _ \<Rightarrow> Inl ''allowedMimeTypes must contain at most 100 values'')"

definition maxStorageObjectBytes :: nat where
  "maxStorageObjectBytes = 50 * 1024 * 1024"

definition normalizeStorageFileSizeLimit :: "jsval \<Rightarrow> string + nat option" where
  "normalizeStorageFileSizeLimit v =
     (case v of
        JNull \<Rightarrow> Inr None
      | JNum x \<Rightarrow>
          if x = of_int \<lfloor>x\<rfloor> \<and> 0 < x \<and> x \<le> of_nat maxStorageObjectBytes then Inr (Some (nat \<lfloor>x\<rfloor>))
          else Inl ''fileSizeLimit must be a positive integer up to 52428800''
      | _ \<Rightarrow> Inl ''fileSizeLimit must be a positive integer up to 52428800'')"

subsection \<open>Facts\<close>

lemma split_prefix:
  "js_split (CHR ''/'') (q @ CHR ''/'' # r) = js_split (CHR ''/'') q @ js_split (CHR ''/'') r"
proof (induction q)
  case (Cons x q)
  obtain a as where "js_split (CHR ''/'') q = a # as" by (cases "js_split (CHR ''/'') q") auto
  with Cons show ?case by simp
qed simp

lemma join_append:
  "xs \<noteq> [] \<Longrightarrow> ys \<noteq> [] \<Longrightarrow> js_join sep (xs @ ys) = js_join sep xs @ sep @ js_join sep ys"
  by (induction sep xs rule: js_join.induct) (auto simp: js_join_Cons)

lemma double_slash_empty: "js_includes s ''//'' \<Longrightarrow> [] \<in> set (js_split (CHR ''/'') s)"
  by (auto simp: js_includes_iff split_prefix [of _ "CHR ''/'' # _", simplified])

lemma trailing_slash_empty: "js_endsWith s ''/'' \<Longrightarrow> [] \<in> set (js_split (CHR ''/'') s)"
  by (auto simp: js_endsWith_iff split_prefix [of _ "[]", simplified])

text \<open>Empty segments only come from slashes at an end or next to each other.\<close>

lemma no_empty_segment:
  assumes "\<not> js_includes s ''//''" "s \<noteq> []" "hd s \<noteq> CHR ''/''" "last s \<noteq> CHR ''/''"
  shows "[] \<notin> set (js_split (CHR ''/'') s)"
  using assms
proof (induction s rule: length_induct)
  case (1 s)
  obtain p r where s: "s = p @ r" and p: "CHR ''/'' \<notin> set p" and r: "r = [] \<or> hd r = CHR ''/''"
  proof
    show "s = takeWhile (\<lambda>c. c \<noteq> CHR ''/'') s @ dropWhile (\<lambda>c. c \<noteq> CHR ''/'') s" by simp
    show "CHR ''/'' \<notin> set (takeWhile (\<lambda>c. c \<noteq> CHR ''/'') s)" by (auto dest: set_takeWhileD)
    show "dropWhile (\<lambda>c. c \<noteq> CHR ''/'') s = [] \<or> hd (dropWhile (\<lambda>c. c \<noteq> CHR ''/'') s) = CHR ''/''"
      using hd_dropWhile [of "\<lambda>c. c \<noteq> CHR ''/''" s] by blast
  qed
  show ?case
  proof (cases r)
    case Nil
    then have "CHR ''/'' \<notin> set s" using s p by simp
    then have "js_split (CHR ''/'') s = [s]" by (rule js_split_no_sep)
    then show ?thesis using 1(3) by simp
  next
    case (Cons c t)
    then have eq: "s = p @ CHR ''/'' # t" using s r by simp
    have pne: "p \<noteq> []" using 1(4) eq by auto
    have t: "t \<noteq> []" using 1(5) eq by auto
    have "hd t \<noteq> CHR ''/''"
    proof
      assume "hd t = CHR ''/''"
      with t have "s = p @ ''//'' @ tl t" using eq by (cases t) auto
      then have "js_includes s ''//''" unfolding js_includes_iff by blast
      with 1(2) show False by blast
    qed
    moreover have "last t \<noteq> CHR ''/''" using 1(5) t eq by simp
    moreover have "\<not> js_includes t ''//''"
    proof
      assume "js_includes t ''//''"
      then obtain u v where "t = u @ ''//'' @ v" by (auto simp: js_includes_iff)
      then have "s = (p @ CHR ''/'' # u) @ ''//'' @ v" using eq by simp
      then have "js_includes s ''//''" unfolding js_includes_iff by blast
      with 1(2) show False by blast
    qed
    ultimately have "[] \<notin> set (js_split (CHR ''/'') t)" using 1(1) t eq by simp
    then show ?thesis using js_split_append [OF p, of t] eq pne by simp
  qed
qed

definition safePath :: "string \<Rightarrow> bool" where
  "safePath p \<longleftrightarrow>
     p \<noteq> [] \<and> length p \<le> 1024 \<and> list_all (\<lambda>c. \<not> isControl c \<and> c \<noteq> CHR 0x5C) p
     \<and> (\<forall>seg \<in> set (js_split (CHR ''/'') p). seg \<notin> {[], ''.'', ''..''})"

lemma normalizeSeparators_ends:
  "CHR 0x5C \<notin> set (normalizeSeparators v) \<and> (normalizeSeparators v \<noteq> [] \<longrightarrow> hd (normalizeSeparators v) \<noteq> CHR ''/'')"
proof -
  let ?m = "map (\<lambda>c. if c = CHR 0x5C then CHR ''/'' else c) v"
  have "CHR 0x5C \<notin> set ?m" by auto
  then have "CHR 0x5C \<notin> set (dropWhile (\<lambda>c. c = CHR ''/'') ?m)" using set_dropWhileD by metis
  moreover have "dropWhile (\<lambda>c. c = CHR ''/'') ?m \<noteq> [] \<longrightarrow> hd (dropWhile (\<lambda>c. c = CHR ''/'') ?m) \<noteq> CHR ''/''"
    using hd_dropWhile [of "\<lambda>c. c = CHR ''/''" ?m] by blast
  ultimately show ?thesis unfolding normalizeSeparators_def by blast
qed

lemma normalizeSeparators_id:
  assumes "CHR 0x5C \<notin> set p" "p \<noteq> []" "hd p \<noteq> CHR ''/''"
  shows "normalizeSeparators p = p"
proof -
  have "map (\<lambda>c. if c = CHR 0x5C then CHR ''/'' else c) p = p"
    using assms(1) by (intro map_idI) auto
  with assms(2,3) show ?thesis by (cases p) (auto simp: normalizeSeparators_def)
qed

lemma endsWith_slash: "js_endsWith s ''/'' \<longleftrightarrow> s \<noteq> [] \<and> last s = CHR ''/''"
  by (cases s rule: rev_cases) (auto simp: js_endsWith_iff)

lemma assertSegments_object:
  "assertSegments p False = Inr () \<longleftrightarrow>
     list_all (\<lambda>c. \<not> isControl c) p \<and> \<not> js_includes p ''//'' \<and> \<not> js_endsWith p ''/''
     \<and> list_all (\<lambda>s. s \<noteq> ''.'' \<and> s \<noteq> ''..'') (js_split (CHR ''/'') p)"
  by (auto simp: assertSegments_def checkedSegments_def list_all_iff list_ex_iff)

lemma normalizeStorageObjectPath_Inr:
  "normalizeStorageObjectPath v = Inr p \<longleftrightarrow>
     (\<exists>s. v = JStr s \<and> p = normalizeSeparators s \<and> length p \<le> 1024 \<and> p \<noteq> [] \<and> assertSegments p False = Inr ())"
  by (auto simp: normalizeStorageObjectPath_def js_is_string_iff Let_def assertLength_def)

lemma safePath_iff:
  "safePath p \<longleftrightarrow> normalizeStorageObjectPath (JStr p) = Inr p"
proof
  assume p: "safePath p"
  have ne: "js_split (CHR ''/'') p \<noteq> []" by simp
  have "hd p \<noteq> CHR ''/''"
  proof
    assume "hd p = CHR ''/''"
    with p have "[] \<in> set (js_split (CHR ''/'') p)" by (cases p) (auto simp: safePath_def)
    with p show False by (auto simp: safePath_def)
  qed
  moreover have "\<not> js_includes p ''//''" "\<not> js_endsWith p ''/''"
    using p double_slash_empty [of p] trailing_slash_empty [of p] by (auto simp: safePath_def)
  moreover have "CHR 0x5C \<notin> set p" "p \<noteq> []" using p by (auto simp: safePath_def list_all_iff)
  ultimately show "normalizeStorageObjectPath (JStr p) = Inr p"
    using p unfolding normalizeStorageObjectPath_Inr assertSegments_object
    by (auto simp: safePath_def list_all_iff normalizeSeparators_id)
next
  assume "normalizeStorageObjectPath (JStr p) = Inr p"
  then have p: "p = normalizeSeparators p" "length p \<le> 1024" "p \<noteq> []" "assertSegments p False = Inr ()"
    unfolding normalizeStorageObjectPath_Inr by auto
  have "[] \<notin> set (js_split (CHR ''/'') p)"
    using p normalizeSeparators_ends [of p]
    by (intro no_empty_segment) (auto simp: assertSegments_object endsWith_slash)
  with p show "safePath p"
    using normalizeSeparators_ends [of p] by (auto simp: safePath_def assertSegments_object list_all_iff)
qed


text \<open>
  The pattern of a listing matches exactly the paths that start with the prefix, whatever
  characters the prefix has.
\<close>

theorem storageLikePrefix_literal: "likeMatch (storageLikePrefix prefix) s \<longleftrightarrow> js_startsWith s prefix"
  by (simp add: storageLikePrefix_def likeMatch_literal likeMatch_any js_startsWith_iff
      del: likeMatch.simps)

text \<open>
  A trusted prefix grants whole directories only: it ends with a slash, and an object path
  starts with it exactly when the segments of the prefix are the first segments of the path and
  something follows; \<open>a/b\<close> never covers \<open>a/bc\<close>.
\<close>

theorem trusted_prefix_is_directory:
  assumes "normalizeTrustedStoragePathPrefix v = Inr pre"
  shows "\<exists>q. pre = q @ ''/''
    \<and> (js_startsWith path pre \<longleftrightarrow>
         (\<exists>rest. rest \<noteq> [] \<and> js_split (CHR ''/'') path = js_split (CHR ''/'') q @ rest))"
proof -
  obtain q where q: "pre = q @ ''/''"
    using assms by (auto simp: normalizeTrustedStoragePathPrefix_def js_endsWith_iff split: if_splits)
  have "js_startsWith path pre \<longleftrightarrow>
      (\<exists>rest. rest \<noteq> [] \<and> js_split (CHR ''/'') path = js_split (CHR ''/'') q @ rest)"
  proof
    assume "js_startsWith path pre"
    then obtain r where "path = q @ CHR ''/'' # r" using q by (auto simp: js_startsWith_iff)
    then show "\<exists>rest. rest \<noteq> [] \<and> js_split (CHR ''/'') path = js_split (CHR ''/'') q @ rest"
      using split_prefix by (metis js_split_not_Nil)
  next
    assume "\<exists>rest. rest \<noteq> [] \<and> js_split (CHR ''/'') path = js_split (CHR ''/'') q @ rest"
    then obtain rest where rest: "rest \<noteq> []" "js_split (CHR ''/'') path = js_split (CHR ''/'') q @ rest" by blast
    then have "path = q @ CHR ''/'' # js_join ''/'' rest"
      using join_append [of "js_split (CHR ''/'') q" rest "''/''"] js_join_split [of "CHR ''/''" path] js_join_split [of "CHR ''/''" q] by simp
    then show "js_startsWith path pre" using q by (auto simp: js_startsWith_iff)
  qed
  with q show ?thesis by blast
qed

theorem trusted_prefix_is_directory_witness:
  "normalizeTrustedStoragePathPrefix (JStr ''a/b'') = Inr ''a/b/'' \<and>
   (\<exists>q. ''a/b/'' = q @ ''/'' \<and> (js_startsWith ''a/bc'' ''a/b/'' \<longleftrightarrow>
      (\<exists>rest. rest \<noteq> [] \<and> js_split (CHR ''/'') ''a/bc'' = js_split (CHR ''/'') q @ rest)))"
proof -
  have n: "normalizeTrustedStoragePathPrefix (JStr ''a/b'') = Inr ''a/b/''"
    by (simp add: normalizeTrustedStoragePathPrefix_def normalizeStoragePathPrefix_def normalizeSeparators_def
        assertLength_def guardE_def assertSegments_def isControl_def checkedSegments_def js_endsWith_def)
  from trusted_prefix_is_directory [OF n, of "''a/bc''"] n show ?thesis by blast
qed

subsection \<open>Encoded paths\<close>

text \<open>What a server makes of an encoded segment: bytes, read as UTF-8 of one or two bytes.\<close>

definition hexValue :: "char \<Rightarrow> nat" where
  "hexValue c = (if js_is_digit c then of_char c - 48 else of_char c - 55)"

fun uriDecode :: "string \<Rightarrow> string" where
  "uriDecode (c # h # k # s) =
     (if c = CHR ''%''
      then let b = 16 * hexValue h + hexValue k in
        if b < 128 then char_of b # uriDecode s
        else (case s of
                p # h2 # k2 # t \<Rightarrow> char_of (64 * (b - 192) + (16 * hexValue h2 + hexValue k2 - 128)) # uriDecode t
              | _ \<Rightarrow> [])
      else c # uriDecode (h # k # s))"
| "uriDecode s = s"

lemma of_char_hexDigit: "n < 16 \<Longrightarrow> of_char (hexDigit n) = (if n < 10 then 48 + n else 55 + n)"
  unfolding hexDigit_def of_char_of by simp

lemma hexValue_digit: "n < 16 \<Longrightarrow> hexValue (hexDigit n) = n"
  by (simp add: hexValue_def js_is_digit_def of_char_hexDigit)

lemma hexDigit_not_slash: "n < 16 \<Longrightarrow> hexDigit n \<noteq> CHR ''/''"
proof
  assume "n < 16" "hexDigit n = CHR ''/''"
  then have "(if n < 10 then 48 + n else 55 + n) = 47" using of_char_hexDigit [of n] by simp
  then show False by (simp split: if_splits)
qed

lemma uriSafe_not_percent: "uriSafe c \<Longrightarrow> c \<noteq> CHR ''%'' \<and> c \<noteq> CHR ''/''"
  by (auto simp: uriSafe_def js_is_alnum_def js_is_alpha_def js_is_lower_def js_is_upper_def js_is_digit_def)

lemma uriDecode_safe: "c \<noteq> CHR ''%'' \<Longrightarrow> uriDecode (c # s) = c # uriDecode s"
  by (cases "c # s" rule: uriDecode.cases) auto

lemma of_char_less: "of_char c < (256 :: nat)"
  by (metis of_char_mod_256 mod_less_divisor zero_less_numeral)

lemma uriDecode_encodeChar: "uriDecode (encodeChar c @ s) = c # uriDecode s"
proof (cases "uriSafe c")
  case True
  then show ?thesis using uriSafe_not_percent by (simp add: encodeChar_def uriDecode_safe)
next
  case False
  let ?n = "of_char c :: nat"
  have byte: "16 * hexValue (hexDigit (b div 16)) + hexValue (hexDigit (b mod 16)) = b" if "b < 256" for b
    using that by (simp add: hexValue_digit)
  show ?thesis
  proof (cases "?n < 128")
    case True
    then have "encodeChar c = percentByte ?n" using False by (simp add: encodeChar_def)
    then show ?thesis using True byte [of ?n] by (simp add: percentByte_def Let_def)
  next
    case n: False
    have lt: "?n < 256" by (rule of_char_less)
    then have d: "?n div 64 < 4" "?n mod 64 < 64" by (simp_all add: less_mult_imp_div_less)
    have enc: "encodeChar c = percentByte (192 + ?n div 64) @ percentByte (128 + ?n mod 64)"
      using False n by (simp add: encodeChar_def Let_def)
    have "64 * (?n div 64) + ?n mod 64 = ?n" by simp
    then show ?thesis
      using byte [of "192 + ?n div 64"] byte [of "128 + ?n mod 64"] d
      unfolding enc percentByte_def by (simp add: Let_def)
  qed
qed

text \<open>
  An encoded path reads back as the path: percent-decoding each segment of the encoded form
  gives the segments of the normalized path, and encoding never makes or removes a slash.
\<close>

theorem encodeStorageObjectPath_roundtrip:
  assumes "encodeStorageObjectPath v = Inr e"
  shows "\<exists>p. normalizeStorageObjectPath v = Inr p
           \<and> map uriDecode (js_split (CHR ''/'') e) = js_split (CHR ''/'') p"
proof -
  obtain p where p: "normalizeStorageObjectPath v = Inr p"
      "e = js_join ''/'' (map encodeURIComponent (js_split (CHR ''/'') p))"
    using assms by (auto simp: encodeStorageObjectPath_def)
  have dec: "uriDecode (encodeURIComponent s) = s" for s
    by (induction s) (auto simp: encodeURIComponent_def uriDecode_encodeChar)
  have "CHR ''/'' \<notin> set (percentByte b)" if "b < 256" for b
  proof -
    have "b div 16 < 16" "b mod 16 < 16"
      using that by (simp_all add: less_mult_imp_div_less)
    then show ?thesis
      using hexDigit_not_slash [of "b div 16"] hexDigit_not_slash [of "b mod 16"] by (auto simp: percentByte_def)
  qed
  then have pb: "CHR ''/'' \<notin> set (percentByte b)" if "b < 256" for b
    using that by blast
  have "CHR ''/'' \<notin> set (encodeChar c)" for c
  proof -
    have "(of_char c :: nat) < 256" "192 + of_char c div 64 < (256::nat)" "128 + of_char c mod 64 < (256::nat)"
      using of_char_less [of c] by linarith+
    then show ?thesis
      using pb uriSafe_not_percent [of c] by (auto simp: encodeChar_def Let_def)
  qed
  then have "\<forall>q \<in> set (map encodeURIComponent (js_split (CHR ''/'') p)). CHR ''/'' \<notin> set q"
    by (auto simp: encodeURIComponent_def)
  then have "js_split (CHR ''/'') e = map encodeURIComponent (js_split (CHR ''/'') p)"
    unfolding p(2) by (intro js_split_join) simp_all
  with p dec show ?thesis by (simp add: comp_def)
qed

theorem encodeStorageObjectPath_roundtrip_witness:
  "\<exists>e. encodeStorageObjectPath (JStr ''a b/c'') = Inr e \<and> map uriDecode (js_split (CHR ''/'') e) = [''a b'', ''c'']"
proof -
  have n: "normalizeStorageObjectPath (JStr ''a b/c'') = Inr ''a b/c''"
    by (simp add: normalizeStorageObjectPath_def normalizeSeparators_def assertLength_def guardE_def
        assertSegments_def isControl_def checkedSegments_def js_endsWith_def)
  then obtain e where e: "encodeStorageObjectPath (JStr ''a b/c'') = Inr e"
    by (simp add: encodeStorageObjectPath_def)
  from encodeStorageObjectPath_roundtrip [OF e] e n show ?thesis by auto
qed

subsection \<open>Media types\<close>

lemma mimeChar_facts: "mimeChar c \<Longrightarrow> \<not> js_is_space c \<and> js_lower_char c = c \<and> \<not> isControl c"
  by (auto simp: mimeChar_def mimeStart_def js_is_space_def js_lower_char_def isControl_def js_is_lower_def
      js_is_digit_def js_is_upper_def)

lemma mimePattern_chars: "mimePattern m \<Longrightarrow> \<forall>c \<in> set m. mimeChar c \<or> c = CHR ''/''"
proof -
  assume m: "mimePattern m"
  then obtain a b where ab: "js_split (CHR ''/'') m = [a, b]" "mimePart a" "mimePart b"
    by (auto simp: mimePattern_def split: list.splits)
  then have "m = a @ ''/'' @ b" using js_join_split [of "CHR ''/''" m] by simp
  with ab show ?thesis by (auto simp: mimePart_def list_all_iff)
qed

text \<open>
  A normalized media type is a fixed point of the normalization and has only the characters of
  the pattern: no white space, control character or line break can reach a response header.
\<close>

theorem normalizeStorageMimeType_fixpoint:
  assumes "normalizeStorageMimeType v = Inr m"
  shows "normalizeStorageMimeType (JStr m) = Inr m \<and> safeStorageResponseMimeType v = m
    \<and> (\<forall>c \<in> set m. \<not> js_is_space c \<and> \<not> isControl c)"
proof -
  have m: "mimePattern m" "m \<noteq> []" "length m \<le> 255"
    using assms by (auto simp: normalizeStorageMimeType_def Let_def split: if_splits)
  have slash: "\<not> js_is_space (CHR ''/'')" "js_lower_char (CHR ''/'') = CHR ''/''" "\<not> isControl (CHR ''/'')"
    by (simp_all add: js_is_space_def js_lower_char_def js_is_upper_def isControl_def)
  have facts: "\<forall>c \<in> set m. \<not> js_is_space c \<and> js_lower_char c = c \<and> \<not> isControl c"
    using mimePattern_chars [OF m(1)] mimeChar_facts slash by metis
  then have "js_trim m = m" using m(2) by (intro js_trim_id) auto
  moreover have "js_toLowerCase m = m" using facts by (simp add: js_toLowerCase_def map_idI)
  ultimately show ?thesis
    using m facts assms by (simp add: normalizeStorageMimeType_def safeStorageResponseMimeType_def)
qed

theorem normalizeStorageMimeType_fixpoint_witness:
  "normalizeStorageMimeType (JStr ''A/b'') = Inr ''a/b'' \<and> normalizeStorageMimeType (JStr ''a/b'') = Inr ''a/b''"
proof -
  have n: "normalizeStorageMimeType (JStr ''A/b'') = Inr ''a/b''"
    by code_simp
  from normalizeStorageMimeType_fixpoint [OF n] n show ?thesis by blast
qed

end
