(* ===== verification/Data_Access_Policy.thy ===== *)
theory Data_Access_Policy
  imports Prelude
begin

text \<open>
  Data access policies of a table, from \<open>data-access.types.ts\<close>, \<open>data-access-policy.ts\<close> and
  \<open>data-access-column-capabilities.ts\<close>: what a policy says, when it is valid, and the
  permissions of the GraphQL engine it is turned into. An evaluator of the engine's permission
  rules is the specification side: a permission admits exactly the rows the policy means.

  Strings that the interfaces declare are strings here; a runtime value outside the declared
  type is a separate constructor or \<open>None\<close> where the code looks at it.
\<close>

subsection \<open>Policies\<close>

datatype daOperation = OpSelect | OpInsert | OpUpdate | OpDelete

definition operationList :: "daOperation list" where
  "operationList = [OpSelect, OpInsert, OpUpdate, OpDelete]"

fun operationName :: "daOperation \<Rightarrow> string" where
  "operationName OpSelect = ''select''"
| "operationName OpInsert = ''insert''"
| "operationName OpUpdate = ''update''"
| "operationName OpDelete = ''delete''"

text \<open>\<open>ModeOther\<close> is any value that is not one of the three modes.\<close>

datatype accessMode = ModeNone | ModeAll | ModeOwner | ModeOther

text \<open>\<open>otherKeys\<close> are the property names besides the declared ones; \<open>relationshipPath\<close> is \<open>None\<close>
  when it is not an array; a missing required text is the empty one.\<close>

record projectionConstraint =
  constraintType :: string
  otherKeys :: "string list"
  relationshipPath :: "string list option"
  actorColumn :: string
  allowColumn :: string
  environmentColumn :: "string option"

text \<open>\<open>policyVersion\<close> is \<open>None\<close> when missing; \<open>anonymousSelect\<close> is \<open>None\<close> when it is not a boolean.\<close>

record tableAccess =
  policyVersion :: "int option"
  selectMode :: accessMode
  insertMode :: accessMode
  updateMode :: accessMode
  deleteMode :: accessMode
  ownerColumn :: "string option"
  selectConstraint :: "projectionConstraint option"
  anonymousSelect :: "bool option"

fun modeOf :: "tableAccess \<Rightarrow> daOperation \<Rightarrow> accessMode" where
  "modeOf p OpSelect = selectMode p"
| "modeOf p OpInsert = insertMode p"
| "modeOf p OpUpdate = updateMode p"
| "modeOf p OpDelete = deleteMode p"

record columnCapabilities =
  readableColumns :: "string list"
  insertableColumns :: "string list"
  updateableColumns :: "string list"

record columnGrants =
  grantSelect :: "string list"
  grantInsert :: "string list"
  grantUpdate :: "string list"
  grantAnonymous :: "string list"

record roleNames =
  authenticatedRole :: string
  anonymousRole :: string

record materializedPermission =
  permRole :: string
  permOperation :: daOperation
  permission :: "(string \<times> jsval) list"

definition createClosedTableDataAccessPolicy :: tableAccess where
  "createClosedTableDataAccessPolicy =
     \<lparr>policyVersion = Some 1, selectMode = ModeNone, insertMode = ModeNone, updateMode = ModeNone,
      deleteMode = ModeNone, ownerColumn = None, selectConstraint = None, anonymousSelect = Some False\<rparr>"

subsection \<open>Validation\<close>

definition constraint_ok :: "projectionConstraint \<Rightarrow> bool" where
  "constraint_ok c \<longleftrightarrow>
     constraintType c = ''authorization_projection'' \<and> otherKeys c = []
     \<and> (case relationshipPath c of Some [r] \<Rightarrow> r \<noteq> [] | _ \<Rightarrow> False)
     \<and> actorColumn c \<noteq> [] \<and> allowColumn c \<noteq> []
     \<and> (case environmentColumn c of None \<Rightarrow> True
         | Some e \<Rightarrow> e \<noteq> [] \<and> e \<noteq> actorColumn c \<and> e \<noteq> allowColumn c)"

definition validateProjectionConstraint :: "projectionConstraint \<Rightarrow> string + unit" where
  "validateProjectionConstraint c = guardE (constraint_ok c) ''Invalid authorization projection constraint''"

definition usesOwnerMode :: "tableAccess \<Rightarrow> bool" where
  "usesOwnerMode p \<longleftrightarrow> list_ex (\<lambda>op. modeOf p op = ModeOwner) operationList"

fun checkModes :: "tableAccess \<Rightarrow> daOperation list \<Rightarrow> string + unit" where
  "checkModes p [] = Inr ()"
| "checkModes p (op # ops) =
     (if modeOf p op = ModeOther then Inl (''Unsupported access mode for '' @ operationName op)
      else checkModes p ops)"

definition validateConstraint :: "tableAccess \<Rightarrow> string + unit" where
  "validateConstraint p =
     (let version = (case policyVersion p of Some v \<Rightarrow> v | None \<Rightarrow> 1) in
      bindE (guardE (version = 1 \<or> version = 2) ''Unsupported data access policy version'') (\<lambda>_.
      (case selectConstraint p of
         Some c \<Rightarrow>
           bindE (guardE (version = 2) ''Select constraints require policy version 2'') (\<lambda>_.
           bindE (validateProjectionConstraint c) (\<lambda>_.
           guardE (selectMode p = ModeOwner) ''Authorization projection requires owner select access''))
       | None \<Rightarrow> guardE (version \<noteq> 2) ''Policy version 2 requires a select constraint'')))"

definition validateOwner :: "tableAccess \<Rightarrow> columnCapabilities \<Rightarrow> string + unit" where
  "validateOwner p caps =
     (if \<not> usesOwnerMode p then Inr ()
      else (case ownerColumn p of
          None \<Rightarrow> Inl ''Owner column is required for owner access''
        | Some c \<Rightarrow>
            if c = [] then Inl ''Owner column is required for owner access''
            else if c \<notin> set (readableColumns caps) then Inl ''Owner column does not exist in the table''
            else guardE (insertMode p \<noteq> ModeOwner \<or> c \<in> set (insertableColumns caps))
                   ''Owner column is not insertable''))"

definition validateTableDataAccessInput :: "tableAccess \<Rightarrow> columnCapabilities \<Rightarrow> string + unit" where
  "validateTableDataAccessInput p caps =
     bindE (checkModes p operationList) (\<lambda>_.
     bindE (guardE (anonymousSelect p \<noteq> None) ''Anonymous select must be a boolean'') (\<lambda>_.
     bindE (validateConstraint p) (\<lambda>_. validateOwner p caps)))"

subsection \<open>Materialization\<close>

definition userIdVariable :: string where
  "userIdVariable = ''X-Hasura-User-Id''"

definition environmentVariable :: string where
  "environmentVariable = ''X-Hasura-Druvia-Service-Environment''"

text \<open>Writing a property of an object under construction: a name that is there keeps its place.\<close>

fun js_put :: "string \<Rightarrow> jsval \<Rightarrow> (string \<times> jsval) list \<Rightarrow> (string \<times> jsval) list" where
  "js_put k v [] = [(k, v)]"
| "js_put k v ((j, w) # ps) = (if j = k then (k, v) # ps else (j, w) # js_put k v ps)"

text \<open>The names in the messages of \<open>validateGrantColumns\<close>: an operation, or anonymous select.\<close>

definition validateGrantColumns :: "string list \<Rightarrow> string list \<Rightarrow> string \<Rightarrow> string + string list" where
  "validateGrantColumns columns allowed operation =
     (if \<not> distinct columns \<or> \<not> set columns \<subseteq> set allowed
      then Inl (''Invalid column grant for '' @ operation)
      else Inr (sort columns))"

definition eqVariable :: "string \<Rightarrow> jsval" where
  "eqVariable x = JObj [(''_eq'', JStr x)]"

definition ownerRule :: "string \<Rightarrow> jsval" where
  "ownerRule owner = JObj [(owner, eqVariable userIdVariable)]"

definition projectionRule :: "projectionConstraint \<Rightarrow> jsval" where
  "projectionRule c =
     JObj ((case environmentColumn c of
              Some e \<Rightarrow> if e = [] then id else js_put e (JObj [(''_has_key'', JStr environmentVariable)])
            | None \<Rightarrow> id)
       (js_put (allowColumn c) (JObj [(''_eq'', JBool True)])
         (js_put (actorColumn c) (eqVariable userIdVariable) [])))"

definition rowRule :: "accessMode \<Rightarrow> string \<Rightarrow> projectionConstraint option \<Rightarrow> jsval" where
  "rowRule mode owner constraint =
     (if mode = ModeAll then JObj []
      else (case constraint of
          None \<Rightarrow> ownerRule owner
        | Some c \<Rightarrow> JObj [(''_and'', JArr [ownerRule owner,
                       JObj [(hd (the (relationshipPath c)), projectionRule c)]])]))"

definition operationColumns ::
  "daOperation \<Rightarrow> accessMode \<Rightarrow> string \<Rightarrow> string list option \<Rightarrow> string list \<Rightarrow> string + string list" where
  "operationColumns op mode owner granted allowed =
     bindE (case granted of None \<Rightarrow> Inr allowed
            | Some g \<Rightarrow> validateGrantColumns g allowed (operationName op)) (\<lambda>selected.
     Inr (if (op = OpInsert \<or> op = OpUpdate) \<and> mode = ModeOwner
          then filter (\<lambda>c. c \<noteq> owner) selected else selected))"

definition js_strings :: "string list \<Rightarrow> jsval" where
  "js_strings xs = JArr (map JStr xs)"

text \<open>In mode \<open>all\<close> the owner column is not used, so a missing one does not matter.\<close>

definition createAuthenticatedPermission ::
  "daOperation \<Rightarrow> accessMode \<Rightarrow> columnCapabilities \<Rightarrow> string \<Rightarrow> string list option
   \<Rightarrow> projectionConstraint option \<Rightarrow> string + (string \<times> jsval) list" where
  "createAuthenticatedPermission op mode caps owner granted constraint =
     (let rule = rowRule mode owner constraint;
          columns = operationColumns op mode owner granted in
      (case op of
         OpSelect \<Rightarrow> bindE (columns (readableColumns caps)) (\<lambda>cs.
           Inr [(''columns'', js_strings cs), (''filter'', rule), (''allow_aggregations'', JBool False)])
       | OpInsert \<Rightarrow> bindE (columns (insertableColumns caps)) (\<lambda>cs.
           Inr ([(''columns'', js_strings cs), (''check'', rule)]
             @ (if mode = ModeOwner then [(''set'', JObj [(owner, JStr userIdVariable)])] else [])))
       | OpUpdate \<Rightarrow> bindE (columns (updateableColumns caps)) (\<lambda>cs.
           Inr [(''columns'', js_strings cs), (''filter'', rule), (''check'', rule)])
       | OpDelete \<Rightarrow> Inr [(''filter'', rule)]))"

text \<open>The grants an operation is given: those of select for delete, whose columns are not used.\<close>

fun grantFor :: "columnGrants \<Rightarrow> daOperation \<Rightarrow> string list" where
  "grantFor g OpSelect = grantSelect g"
| "grantFor g OpInsert = grantInsert g"
| "grantFor g OpUpdate = grantUpdate g"
| "grantFor g OpDelete = grantSelect g"

definition authenticatedPermission ::
  "tableAccess \<Rightarrow> columnCapabilities \<Rightarrow> columnGrants option \<Rightarrow> daOperation
   \<Rightarrow> string + (string \<times> jsval) list" where
  "authenticatedPermission p caps grants op =
     createAuthenticatedPermission op (modeOf p op) caps
       (case ownerColumn p of Some c \<Rightarrow> c | None \<Rightarrow> ''null'')
       (map_option (\<lambda>g. grantFor g op) grants)
       (if op = OpSelect then selectConstraint p else None)"

fun authenticatedPermissions ::
  "tableAccess \<Rightarrow> roleNames \<Rightarrow> columnCapabilities \<Rightarrow> columnGrants option \<Rightarrow> daOperation list
   \<Rightarrow> string + materializedPermission list" where
  "authenticatedPermissions p roles caps grants [] = Inr []"
| "authenticatedPermissions p roles caps grants (op # ops) =
     (if modeOf p op = ModeNone then authenticatedPermissions p roles caps grants ops
      else bindE (authenticatedPermission p caps grants op) (\<lambda>perm.
           bindE (authenticatedPermissions p roles caps grants ops) (\<lambda>rest.
           Inr (\<lparr>permRole = authenticatedRole roles, permOperation = op, permission = perm\<rparr> # rest))))"

definition anonymousPermission ::
  "columnCapabilities \<Rightarrow> columnGrants option \<Rightarrow> string + (string \<times> jsval) list" where
  "anonymousPermission caps grants =
     bindE (case grants of None \<Rightarrow> Inr (readableColumns caps)
            | Some g \<Rightarrow> validateGrantColumns (grantAnonymous g) (readableColumns caps) ''anonymous select'')
       (\<lambda>cs. Inr [(''columns'', js_strings cs), (''filter'', JObj []), (''allow_aggregations'', JBool False)])"

definition materializeTableDataAccessPolicy ::
  "tableAccess \<Rightarrow> roleNames \<Rightarrow> columnCapabilities \<Rightarrow> columnGrants option
   \<Rightarrow> string + materializedPermission list" where
  "materializeTableDataAccessPolicy p roles caps grants =
     bindE (validateTableDataAccessInput p caps) (\<lambda>_.
     bindE (authenticatedPermissions p roles caps grants operationList) (\<lambda>perms.
     if anonymousSelect p = Some True
     then bindE (anonymousPermission caps grants) (\<lambda>a.
            Inr (perms @ [\<lparr>permRole = anonymousRole roles, permOperation = OpSelect, permission = a\<rparr>]))
     else Inr perms))"

subsection \<open>Column capabilities\<close>

record tableColumn =
  columnName :: string
  isGenerated :: bool
  identityGeneration :: "string option"

definition buildTableColumnCapabilities :: "tableColumn list \<Rightarrow> columnCapabilities" where
  "buildTableColumnCapabilities columns =
     (let writable = map columnName
            (filter (\<lambda>c. \<not> isGenerated c \<and> identityGeneration c \<noteq> Some ''ALWAYS'') columns) in
      \<lparr>readableColumns = map columnName columns, insertableColumns = writable,
       updateableColumns = writable\<rparr>)"

definition getStoredColumnCapabilities ::
  "string list \<Rightarrow> string list option \<Rightarrow> string list option \<Rightarrow> columnCapabilities" where
  "getStoredColumnCapabilities columns insertable updateable =
     \<lparr>readableColumns = columns,
      insertableColumns = (case insertable of Some cs \<Rightarrow> cs | None \<Rightarrow> columns),
      updateableColumns = (case updateable of Some cs \<Rightarrow> cs | None \<Rightarrow> columns)\<rparr>"

end
