(* ===== verification/Data_Access_Inspection.thy ===== *)
theory Data_Access_Inspection
  imports Data_Access_Policy
begin

text \<open>
  Reading a policy back from the permissions of the GraphQL engine, from
  \<open>data-access-inspection.ts\<close>. A permission the code did not write itself is \<open>custom\<close>. The
  metadata is what \<open>JSON.parse\<close> returned, so \<open>deepEqual\<close>, the comparison of two
  \<open>JSON.stringify\<close> texts, is equality of values.
\<close>

subsection \<open>Metadata\<close>

record permissionEntry =
  entryRole :: string
  entryPermission :: "(string \<times> jsval) list"

text \<open>A missing permission list is empty.\<close>

record tableMetadata =
  metaSchema :: string
  metaTable :: string
  selectPermissions :: "permissionEntry list"
  insertPermissions :: "permissionEntry list"
  updatePermissions :: "permissionEntry list"
  deletePermissions :: "permissionEntry list"

fun getPermissionEntries :: "tableMetadata \<Rightarrow> daOperation \<Rightarrow> permissionEntry list" where
  "getPermissionEntries t OpSelect = selectPermissions t"
| "getPermissionEntries t OpInsert = insertPermissions t"
| "getPermissionEntries t OpUpdate = updatePermissions t"
| "getPermissionEntries t OpDelete = deletePermissions t"

definition permGet :: "(string \<times> jsval) list \<Rightarrow> string \<Rightarrow> jsval" where
  "permGet p k = js_get (JObj p) k"

definition onlyKeys :: "(string \<times> jsval) list \<Rightarrow> string list \<Rightarrow> bool" where
  "onlyKeys p allowed \<longleftrightarrow> set (map fst p) \<subseteq> set allowed"

definition isEmptyObject :: "jsval \<Rightarrow> bool" where
  "isEmptyObject v \<longleftrightarrow> v = JObj []"

definition isEmptyOrMissingObject :: "jsval \<Rightarrow> bool" where
  "isEmptyOrMissingObject v \<longleftrightarrow> v = JUndef \<or> v = JNull \<or> isEmptyObject v"

definition isAggregationsDisabled :: "jsval \<Rightarrow> bool" where
  "isAggregationsDisabled v \<longleftrightarrow> v = JUndef \<or> v = JBool False"

definition parseExplicitColumns :: "jsval \<Rightarrow> string list \<Rightarrow> string list option" where
  "parseExplicitColumns v allowed =
     (case v of
        JArr items \<Rightarrow>
          (if \<not> list_all js_is_string items then None
           else let cs = map js_string_of items in
             if distinct cs \<and> set cs \<subseteq> set allowed then Some (sort cs) else None)
      | _ \<Rightarrow> None)"

fun parseOwnerRule :: "jsval \<Rightarrow> string option" where
  "parseOwnerRule (JObj [(column, condition)]) =
     (if condition = eqVariable userIdVariable then Some column else None)"
| "parseOwnerRule _ = None"

definition entryWith :: "jsval \<Rightarrow> (string \<times> jsval) list \<Rightarrow> string option" where
  "entryWith condition entries = map_option fst (find (\<lambda>e. snd e = condition) entries)"

definition parseProjectionParts :: "string \<Rightarrow> string \<Rightarrow> (string \<times> jsval) list \<Rightarrow> (string \<times> projectionConstraint) option" where
  "parseProjectionParts owner relationship entries =
     (if length entries \<noteq> 2 \<and> length entries \<noteq> 3 then None
      else (case (entryWith (eqVariable userIdVariable) entries,
                  entryWith (JObj [(''_eq'', JBool True)]) entries) of
          (Some act, Some allow) \<Rightarrow>
            (let env = entryWith (JObj [(''_has_key'', JStr environmentVariable)]) entries in
             if act = allow \<or> (length entries = 3 \<and> (env = None \<or> env = Some act \<or> env = Some allow))
             then None
             else Some (owner, \<lparr>constraintType = ''authorization_projection'', otherKeys = [],
                     relationshipPath = Some [relationship], actorColumn = act, allowColumn = allow,
                     environmentColumn = env\<rparr>))
        | _ \<Rightarrow> None))"

text \<open>The two parts of a conjunction of two, and the relationship of a rule on one.\<close>

fun andParts :: "jsval \<Rightarrow> (jsval \<times> jsval) option" where
  "andParts (JObj [(key, JArr [first, second])]) = (if key = ''_and'' then Some (first, second) else None)"
| "andParts _ = None"

fun relationshipEntries :: "jsval \<Rightarrow> (string \<times> (string \<times> jsval) list) option" where
  "relationshipEntries (JObj [(relationship, JObj entries)]) =
     (if relationship = [] then None else Some (relationship, entries))"
| "relationshipEntries _ = None"

definition parseProjectionRule :: "jsval \<Rightarrow> (string \<times> projectionConstraint) option" where
  "parseProjectionRule v =
     Option.bind (andParts v) (\<lambda>(first, second).
     Option.bind (parseOwnerRule first) (\<lambda>owner.
     if owner = [] then None
     else Option.bind (relationshipEntries second) (\<lambda>(relationship, entries).
       parseProjectionParts owner relationship entries)))"

subsection \<open>One permission\<close>

record parsedPermission =
  parsedMode :: accessMode
  parsedOwner :: "string option"
  parsedColumns :: "string list"
  parsedConstraint :: "projectionConstraint option"

text \<open>The columns of a permission of an operation, when the permission has the form the code
  writes; \<open>owner\<close> is the owner column in mode \<open>owner\<close>.\<close>

definition permissionColumns ::
  "daOperation \<Rightarrow> (string \<times> jsval) list \<Rightarrow> columnCapabilities \<Rightarrow> jsval \<Rightarrow> string option \<Rightarrow> string list option" where
  "permissionColumns op perm caps rule owner =
     (case op of
        OpSelect \<Rightarrow>
          if \<not> onlyKeys perm [''columns'', ''filter'', ''allow_aggregations''] then None
          else (case parseExplicitColumns (permGet perm ''columns'') (readableColumns caps) of
              None \<Rightarrow> None
            | Some cs \<Rightarrow> if \<not> isAggregationsDisabled (permGet perm ''allow_aggregations'') then None else Some cs)
      | OpInsert \<Rightarrow>
          if \<not> onlyKeys perm [''columns'', ''check'', ''set''] then None
          else (case parseExplicitColumns (permGet perm ''columns'') (insertableColumns caps) of
              None \<Rightarrow> None
            | Some cs \<Rightarrow> (case owner of
                Some k \<Rightarrow>
                  if k \<notin> set (insertableColumns caps) \<or> k \<in> set cs
                     \<or> permGet perm ''set'' \<noteq> JObj [(k, JStr userIdVariable)]
                  then None else Some cs
              | None \<Rightarrow> if \<not> isEmptyOrMissingObject (permGet perm ''set'') then None else Some cs))
      | OpUpdate \<Rightarrow>
          if \<not> onlyKeys perm [''columns'', ''filter'', ''check'', ''set''] then None
          else (case parseExplicitColumns (permGet perm ''columns'') (updateableColumns caps) of
              None \<Rightarrow> None
            | Some cs \<Rightarrow>
                if (case owner of Some k \<Rightarrow> k \<in> set cs | None \<Rightarrow> False)
                   \<or> (\<not> isEmptyOrMissingObject (permGet perm ''check'') \<and> permGet perm ''check'' \<noteq> rule)
                   \<or> \<not> isEmptyOrMissingObject (permGet perm ''set'')
                then None else Some cs)
      | OpDelete \<Rightarrow> if onlyKeys perm [''filter''] then Some [] else None)"

definition ruleOf :: "daOperation \<Rightarrow> (string \<times> jsval) list \<Rightarrow> jsval" where
  "ruleOf op perm = permGet perm (if op = OpInsert then ''check'' else ''filter'')"

definition parseAuthenticatedPermission ::
  "daOperation \<Rightarrow> (string \<times> jsval) list \<Rightarrow> columnCapabilities \<Rightarrow> parsedPermission option" where
  "parseAuthenticatedPermission op perm caps =
     (let rule = ruleOf op perm;
          projection = (if op = OpSelect then parseProjectionRule rule else None);
          owner = (case projection of Some (k, c) \<Rightarrow> Some k | None \<Rightarrow> parseOwnerRule rule);
          allRows = isEmptyObject rule in
      if \<not> allRows \<and> (case owner of None \<Rightarrow> True | Some k \<Rightarrow> k = [] \<or> k \<notin> set (readableColumns caps))
      then None
      else let modeOwner = (if allRows then None else owner) in
        map_option (\<lambda>cs. \<lparr>parsedMode = (if allRows then ModeAll else ModeOwner), parsedOwner = modeOwner,
            parsedColumns = cs, parsedConstraint = map_option snd projection\<rparr>)
          (permissionColumns op perm caps rule modeOwner))"

definition isSupportedAnonymousSelect :: "(string \<times> jsval) list \<Rightarrow> string list \<Rightarrow> bool" where
  "isSupportedAnonymousSelect perm columns \<longleftrightarrow>
     onlyKeys perm [''columns'', ''filter'', ''allow_aggregations'']
     \<and> parseExplicitColumns (permGet perm ''columns'') columns \<noteq> None
     \<and> isEmptyObject (permGet perm ''filter'') \<and> isAggregationsDisabled (permGet perm ''allow_aggregations'')"

subsection \<open>A table\<close>

record inspection =
  authenticatedCustom :: bool
  anonymousCustom :: bool
  inspectedPolicy :: tableAccess
  legacyRoles :: "string list"
  existingManaged :: "(daOperation \<times> string) list"
  inspectedPermissions :: "materializedPermission list"
  inspectedGrants :: columnGrants
  containsWildcard :: bool

definition emptyColumnGrants :: columnGrants where
  "emptyColumnGrants = \<lparr>grantSelect = [], grantInsert = [], grantUpdate = [], grantAnonymous = []\<rparr>"

definition closedInspection :: inspection where
  "closedInspection =
     \<lparr>authenticatedCustom = False, anonymousCustom = False,
      inspectedPolicy = createClosedTableDataAccessPolicy, legacyRoles = [], existingManaged = [],
      inspectedPermissions = [], inspectedGrants = emptyColumnGrants, containsWildcard = False\<rparr>"

fun setMode :: "daOperation \<Rightarrow> accessMode \<Rightarrow> tableAccess \<Rightarrow> tableAccess" where
  "setMode OpSelect m p = p\<lparr>selectMode := m\<rparr>"
| "setMode OpInsert m p = p\<lparr>insertMode := m\<rparr>"
| "setMode OpUpdate m p = p\<lparr>updateMode := m\<rparr>"
| "setMode OpDelete m p = p\<lparr>deleteMode := m\<rparr>"

fun setGrant :: "daOperation \<Rightarrow> string list \<Rightarrow> columnGrants \<Rightarrow> columnGrants" where
  "setGrant OpSelect cs g = g\<lparr>grantSelect := cs\<rparr>"
| "setGrant OpInsert cs g = g\<lparr>grantInsert := cs\<rparr>"
| "setGrant OpUpdate cs g = g\<lparr>grantUpdate := cs\<rparr>"
| "setGrant OpDelete cs g = g"

definition entriesOf :: "tableMetadata \<Rightarrow> daOperation \<Rightarrow> string \<Rightarrow> permissionEntry list" where
  "entriesOf t op role = filter (\<lambda>e. entryRole e = role) (getPermissionEntries t op)"

text \<open>The roles and permissions an operation adds, whatever they are.\<close>

definition noteEntries :: "tableMetadata \<Rightarrow> roleNames \<Rightarrow> daOperation \<Rightarrow> inspection \<Rightarrow> inspection" where
  "noteEntries t roles op i =
     (let entries = getPermissionEntries t op;
          scoped = entriesOf t op (authenticatedRole roles) @ entriesOf t op (anonymousRole roles) in
      i\<lparr>legacyRoles := legacyRoles i
          @ filter (\<lambda>r. r = ''user'' \<or> r = ''anonymous'') (map entryRole entries),
        existingManaged := existingManaged i @ map (\<lambda>e. (op, entryRole e)) scoped,
        inspectedPermissions := inspectedPermissions i
          @ map (\<lambda>e. \<lparr>permRole = entryRole e, permOperation = op, permission = entryPermission e\<rparr>) scoped,
        containsWildcard := containsWildcard i
          \<or> list_ex (\<lambda>e. permGet (entryPermission e) ''columns'' = JStr ''*'') scoped\<rparr>)"

definition applyParsed :: "daOperation \<Rightarrow> parsedPermission \<Rightarrow> inspection \<Rightarrow> inspection" where
  "applyParsed op m i =
     (let p = setMode op (parsedMode m) (inspectedPolicy i);
          p = (case parsedConstraint m of
                 Some c \<Rightarrow> p\<lparr>policyVersion := Some 2, selectConstraint := Some c\<rparr> | None \<Rightarrow> p) in
      i\<lparr>authenticatedCustom := authenticatedCustom i
          \<or> (case (parsedOwner m, ownerColumn p) of (Some k, Some k0) \<Rightarrow> k0 \<noteq> k | _ \<Rightarrow> False),
        inspectedPolicy := (case parsedOwner m of Some k \<Rightarrow> p\<lparr>ownerColumn := Some k\<rparr> | None \<Rightarrow> p),
        inspectedGrants := setGrant op (parsedColumns m) (inspectedGrants i)\<rparr>)"

definition inspectAuthenticated ::
  "tableMetadata \<Rightarrow> roleNames \<Rightarrow> columnCapabilities \<Rightarrow> daOperation \<Rightarrow> inspection \<Rightarrow> inspection" where
  "inspectAuthenticated t roles caps op i =
     (case entriesOf t op (authenticatedRole roles) of
        [] \<Rightarrow> i
      | [e] \<Rightarrow> (case parseAuthenticatedPermission op (entryPermission e) caps of
            None \<Rightarrow> i\<lparr>authenticatedCustom := True\<rparr>
          | Some m \<Rightarrow> applyParsed op m i)
      | _ \<Rightarrow> i\<lparr>authenticatedCustom := True\<rparr>)"

definition inspectAnonymous ::
  "tableMetadata \<Rightarrow> roleNames \<Rightarrow> columnCapabilities \<Rightarrow> daOperation \<Rightarrow> inspection \<Rightarrow> inspection" where
  "inspectAnonymous t roles caps op i =
     (case entriesOf t op (anonymousRole roles) of
        [] \<Rightarrow> i
      | [e] \<Rightarrow>
          if op \<noteq> OpSelect \<or> \<not> isSupportedAnonymousSelect (entryPermission e) (readableColumns caps)
          then i\<lparr>anonymousCustom := True\<rparr>
          else i\<lparr>inspectedPolicy := (inspectedPolicy i)\<lparr>anonymousSelect := Some True\<rparr>,
                 inspectedGrants := (inspectedGrants i)\<lparr>grantAnonymous :=
                   (case permGet (entryPermission e) ''columns'' of
                      JArr items \<Rightarrow> map js_string_of items | _ \<Rightarrow> [])\<rparr>\<rparr>
      | _ \<Rightarrow> i\<lparr>anonymousCustom := True\<rparr>)"

definition inspectOperation ::
  "tableMetadata \<Rightarrow> roleNames \<Rightarrow> columnCapabilities \<Rightarrow> daOperation \<Rightarrow> inspection \<Rightarrow> inspection" where
  "inspectOperation t roles caps op i =
     inspectAnonymous t roles caps op (inspectAuthenticated t roles caps op (noteEntries t roles op i))"

definition inspectTableDataAccessMetadata ::
  "tableMetadata option \<Rightarrow> roleNames \<Rightarrow> columnCapabilities \<Rightarrow> inspection" where
  "inspectTableDataAccessMetadata meta roles caps =
     (case meta of
        None \<Rightarrow> closedInspection
      | Some t \<Rightarrow>
          (let i = fold (inspectOperation t roles caps) operationList closedInspection in
           i\<lparr>legacyRoles := sort (remdups (legacyRoles i))\<rparr>))"

definition materializeInspectedTableDataAccess ::
  "inspection \<Rightarrow> roleNames \<Rightarrow> columnCapabilities \<Rightarrow> string + materializedPermission list" where
  "materializeInspectedTableDataAccess i roles caps =
     (if authenticatedCustom i \<or> anonymousCustom i \<or> containsWildcard i
      then Inl ''Custom data access metadata cannot be materialized as managed''
      else materializeTableDataAccessPolicy (inspectedPolicy i) roles caps (Some (inspectedGrants i)))"

end
