(* ===== verification/Managed_Policy.thy ===== *)
theory Managed_Policy
  imports Data_Access_Inspection
begin

text \<open>
  Baselines of managed policies, from \<open>data-access-managed-policy.ts\<close>: canonical snapshots of
  permissions and their digests, which interrupted operations can be recovered, the state a
  table is in, and the column grants of the changes of a policy.

  \<open>localeCompare\<close> is the parameter \<open>collate\<close>, and the digest, SHA-256 of the \<open>JSON.stringify\<close> text,
  the parameter \<open>hash\<close>; digests are only ever compared.
\<close>

subsection \<open>Sorting\<close>

text \<open>\<open>Array.prototype.sort\<close> with a comparison function is stable.\<close>

fun sortInsert :: "('a \<Rightarrow> 'a \<Rightarrow> int) \<Rightarrow> 'a \<Rightarrow> 'a list \<Rightarrow> 'a list" where
  "sortInsert cmp x [] = [x]"
| "sortInsert cmp x (y # ys) = (if cmp x y \<le> 0 then x # y # ys else y # sortInsert cmp x ys)"

definition js_sort :: "('a \<Rightarrow> 'a \<Rightarrow> int) \<Rightarrow> 'a list \<Rightarrow> 'a list" where
  "js_sort cmp xs = foldr (sortInsert cmp) xs []"

lemma set_sortInsert [simp]: "set (sortInsert cmp x ys) = insert x (set ys)"
  by (induction ys) auto

lemma set_js_sort [simp]: "set (js_sort cmp xs) = set xs"
  by (induction xs) (simp_all add: js_sort_def)

lemma size_property: "(k, v) \<in> set ps \<Longrightarrow> size v < size (JObj ps)"
  by (induction ps) auto

lemma size_element: "v \<in> set items \<Longrightarrow> size v < size (JArr items)"
  by (induction items) auto

text \<open>The own enumerable properties of a \<open>Date\<close> are none.\<close>

function sortJson :: "(string \<Rightarrow> string \<Rightarrow> int) \<Rightarrow> jsval \<Rightarrow> jsval" where
  "sortJson collate (JArr items) =
     (if list_all js_is_string items then JArr (map JStr (sort (map js_string_of items)))
      else JArr (map (sortJson collate) items))"
| "sortJson collate (JObj ps) =
     JObj (map (\<lambda>(k, v). (k, sortJson collate v)) (js_sort (\<lambda>l r. collate (fst l) (fst r)) ps))"
| "sortJson collate (JDate d) = JObj []"
| "sortJson collate JUndef = JUndef"
| "sortJson collate JNull = JNull"
| "sortJson collate (JBool b) = JBool b"
| "sortJson collate (JNum n) = JNum n"
| "sortJson collate (JStr s) = JStr s"
| "sortJson collate (JOther s) = JOther s"
  by pat_completeness auto

termination sortJson
proof (relation "measure (\<lambda>(c, v). size v)", goal_cases)
  case (2 collate items v)
  then show ?case using size_element [of v items] by simp
next
  case (3 collate ps x k v)
  then have "(k, v) \<in> set ps" using set_js_sort by metis
  then show ?case using size_property [of k v ps] unfolding in_measure by simp
qed simp

subsection \<open>Snapshots and digests\<close>

definition normalizePermission :: "(string \<Rightarrow> string \<Rightarrow> int) \<Rightarrow> (string \<times> jsval) list \<Rightarrow> string + (string \<times> jsval) list" where
  "normalizePermission collate perm =
     (if permGet perm ''columns'' = JStr ''*'' then Inl ''Hasura wildcard columns cannot be managed''
      else Inr (case sortJson collate (JObj perm) of JObj ps \<Rightarrow> ps | _ \<Rightarrow> []))"

fun normalizePermissions ::
  "(string \<Rightarrow> string \<Rightarrow> int) \<Rightarrow> materializedPermission list \<Rightarrow> string + materializedPermission list" where
  "normalizePermissions collate [] = Inr []"
| "normalizePermissions collate (m # ms) =
     bindE (normalizePermission collate (permission m)) (\<lambda>p.
     bindE (normalizePermissions collate ms) (\<lambda>ps. Inr (m\<lparr>permission := p\<rparr> # ps)))"

definition comparePermissions ::
  "(string \<Rightarrow> string \<Rightarrow> int) \<Rightarrow> materializedPermission \<Rightarrow> materializedPermission \<Rightarrow> int" where
  "comparePermissions collate l r =
     (if collate (permRole l) (permRole r) \<noteq> 0 then collate (permRole l) (permRole r)
      else collate (operationName (permOperation l)) (operationName (permOperation r)))"

definition createPermissionSnapshot ::
  "(string \<Rightarrow> string \<Rightarrow> int) \<Rightarrow> materializedPermission list \<Rightarrow> string + materializedPermission list" where
  "createPermissionSnapshot collate perms =
     map_sum id (js_sort (comparePermissions collate)) (normalizePermissions collate perms)"

definition permissionJson :: "materializedPermission \<Rightarrow> jsval" where
  "permissionJson m =
     JObj [(''role'', JStr (permRole m)), (''operation'', JStr (operationName (permOperation m))),
           (''permission'', JObj (permission m))]"

definition stableDigest :: "(string \<Rightarrow> string \<Rightarrow> int) \<Rightarrow> (jsval \<Rightarrow> 'd) \<Rightarrow> jsval \<Rightarrow> 'd" where
  "stableDigest collate hash v = hash (sortJson collate v)"

definition permissionSnapshotDigest ::
  "(string \<Rightarrow> string \<Rightarrow> int) \<Rightarrow> (jsval \<Rightarrow> 'd) \<Rightarrow> materializedPermission list \<Rightarrow> string + 'd" where
  "permissionSnapshotDigest collate hash perms =
     map_sum id (\<lambda>s. stableDigest collate hash (JArr (map permissionJson s)))
       (createPermissionSnapshot collate perms)"

subsection \<open>Recoverable states\<close>

text \<open>The \<open>Map\<close> of the interrupted commands, in insertion order, by role and operation.\<close>

definition permissionKey :: "materializedPermission \<Rightarrow> string \<times> daOperation" where
  "permissionKey m = (permRole m, permOperation m)"

fun mapSet :: "materializedPermission \<Rightarrow> materializedPermission list \<Rightarrow> materializedPermission list" where
  "mapSet m [] = [m]"
| "mapSet m (n # ns) = (if permissionKey n = permissionKey m then m # ns else n # mapSet m ns)"

definition mapDelete :: "materializedPermission \<Rightarrow> materializedPermission list \<Rightarrow> materializedPermission list" where
  "mapDelete m ns = filter (\<lambda>n. permissionKey n \<noteq> permissionKey m) ns"

definition mapOf :: "materializedPermission list \<Rightarrow> materializedPermission list" where
  "mapOf ms = fold mapSet ms []"

text \<open>The states after each command, given the state and the commands still to come.\<close>

fun statesAfter :: "('a \<Rightarrow> 's \<Rightarrow> 's) \<Rightarrow> 'a list \<Rightarrow> 's \<Rightarrow> 's list" where
  "statesAfter step [] s = []"
| "statesAfter step (x # xs) s = step x s # statesAfter step xs (step x s)"

fun digestsOf :: "(string \<Rightarrow> string \<Rightarrow> int) \<Rightarrow> (jsval \<Rightarrow> 'd) \<Rightarrow> materializedPermission list list \<Rightarrow> string + 'd list" where
  "digestsOf collate hash [] = Inr []"
| "digestsOf collate hash (s # ss) =
     bindE (permissionSnapshotDigest collate hash s) (\<lambda>d.
     bindE (digestsOf collate hash ss) (\<lambda>ds. Inr (d # ds)))"

definition commandStates :: "materializedPermission list \<Rightarrow> materializedPermission list \<Rightarrow> materializedPermission list list" where
  "commandStates source target =
     (let start = mapOf source; dropped = fold mapDelete source start in
      start # statesAfter mapDelete source start @ statesAfter mapSet target dropped)"

definition isRecoverablePermissionSnapshot ::
  "(string \<Rightarrow> string \<Rightarrow> int) \<Rightarrow> (jsval \<Rightarrow> 'd) \<Rightarrow> materializedPermission list \<Rightarrow> materializedPermission list
   \<Rightarrow> materializedPermission list \<Rightarrow> string + bool" where
  "isRecoverablePermissionSnapshot collate hash current source target =
     bindE (permissionSnapshotDigest collate hash current) (\<lambda>currentDigest.
     bindE (createPermissionSnapshot collate source) (\<lambda>sourceSnapshot.
     bindE (createPermissionSnapshot collate target) (\<lambda>targetSnapshot.
     bindE (digestsOf collate hash (commandStates sourceSnapshot targetSnapshot)) (\<lambda>allowed.
     Inr (currentDigest \<in> set allowed)))))"

subsection \<open>The state of a table\<close>

datatype managedState =
    Managed | RefreshRequired | AdoptionRequired | Custom | RecoveryRequired | DependencyInvalid

record policyBaseline =
  permissionsSnapshot :: "materializedPermission list"
  capabilitiesSnapshot :: columnCapabilities

definition capabilitiesJson :: "columnCapabilities \<Rightarrow> jsval" where
  "capabilitiesJson c =
     JObj [(''readableColumns'', js_strings (readableColumns c)),
           (''insertableColumns'', js_strings (insertableColumns c)),
           (''updateableColumns'', js_strings (updateableColumns c))]"

definition capabilitiesEqual ::
  "(string \<Rightarrow> string \<Rightarrow> int) \<Rightarrow> (jsval \<Rightarrow> 'd) \<Rightarrow> columnCapabilities \<Rightarrow> columnCapabilities \<Rightarrow> bool" where
  "capabilitiesEqual collate hash l r \<longleftrightarrow>
     stableDigest collate hash (capabilitiesJson l) = stableDigest collate hash (capabilitiesJson r)"

definition classifyManagedPolicyState ::
  "(string \<Rightarrow> string \<Rightarrow> int) \<Rightarrow> (jsval \<Rightarrow> 'd) \<Rightarrow> bool \<Rightarrow> bool \<Rightarrow> bool \<Rightarrow> materializedPermission list
   \<Rightarrow> columnCapabilities \<Rightarrow> 'x policyBaseline_scheme option \<Rightarrow> bool \<Rightarrow> string + managedState" where
  "classifyManagedPolicyState collate hash inspectedCustom hasScoped wildcard current caps baseline recoveryRequired =
     (if recoveryRequired then Inr RecoveryRequired
      else if inspectedCustom \<or> wildcard then Inr Custom
      else (case baseline of
          None \<Rightarrow> Inr (if hasScoped then AdoptionRequired else Managed)
        | Some b \<Rightarrow>
            bindE (permissionSnapshotDigest collate hash current) (\<lambda>d1.
            bindE (permissionSnapshotDigest collate hash (permissionsSnapshot b)) (\<lambda>d2.
            Inr (if d1 \<noteq> d2 then Custom
                 else if capabilitiesEqual collate hash caps (capabilitiesSnapshot b) then Managed
                 else RefreshRequired)))))"

text \<open>Times are milliseconds since the epoch.\<close>

datatype operationStatus =
    PreviewReady | OpApplying | OpRecovering | OpCompleted | OpFailed | OpRecoveryRequired | OpSuperseded

record policyOperation =
  operationStatus :: operationStatus
  writeDeadlineAt :: "int option"
  operationStartedAt :: "int option"
  operationUpdatedAt :: "int option"

definition POLICY_OPERATION_DRAIN_MS :: int where
  "POLICY_OPERATION_DRAIN_MS = 5000"

definition POLICY_OPERATION_ORPHAN_MS :: int where
  "POLICY_OPERATION_ORPHAN_MS = 35000"

definition policyOperationRecoverySafeAt :: "'x policyOperation_scheme \<Rightarrow> int option" where
  "policyOperationRecoverySafeAt o1 =
     (case writeDeadlineAt o1 of
        Some t \<Rightarrow> Some (t + POLICY_OPERATION_DRAIN_MS)
      | None \<Rightarrow>
          map_option (\<lambda>t. t + POLICY_OPERATION_ORPHAN_MS)
            (case operationStartedAt o1 of Some t \<Rightarrow> Some t | None \<Rightarrow> operationUpdatedAt o1))"

definition isPolicyOperationRecoveryRequired :: "'x policyOperation_scheme option \<Rightarrow> int \<Rightarrow> bool" where
  "isPolicyOperationRecoveryRequired o0 now =
     (case o0 of
        None \<Rightarrow> False
      | Some o1 \<Rightarrow>
          if operationStatus o1 = OpRecoveryRequired then True
          else if operationStatus o1 \<noteq> OpApplying \<and> operationStatus o1 \<noteq> OpRecovering then False
          else (case policyOperationRecoverySafeAt o1 of Some t \<Rightarrow> t \<le> now | None \<Rightarrow> False))"

subsection \<open>Column grants\<close>

definition normalizeWrite :: "tableAccess \<Rightarrow> columnGrants \<Rightarrow> daOperation \<Rightarrow> string list" where
  "normalizeWrite p g op =
     (if modeOf p op = ModeNone then []
      else if modeOf p op = ModeOwner then filter (\<lambda>c. Some c \<noteq> ownerColumn p) (grantFor g op)
      else grantFor g op)"

definition normalizeColumnGrantsForPolicy :: "tableAccess \<Rightarrow> columnGrants \<Rightarrow> columnGrants" where
  "normalizeColumnGrantsForPolicy p g =
     \<lparr>grantSelect = (if selectMode p = ModeNone then [] else grantSelect g),
      grantInsert = normalizeWrite p g OpInsert, grantUpdate = normalizeWrite p g OpUpdate,
      grantAnonymous = (if anonymousSelect p = Some True then grantAnonymous g else [])\<rparr>"

fun checkNotBroader :: "tableAccess \<Rightarrow> tableAccess \<Rightarrow> daOperation list \<Rightarrow> string + unit" where
  "checkNotBroader baseline target [] = Inr ()"
| "checkNotBroader baseline target (op # ops) =
     (if modeOf target op \<noteq> ModeNone \<and> modeOf target op \<noteq> modeOf baseline op
      then Inl (''Reconciliation cannot broaden '' @ operationName op @ '' access'')
      else checkNotBroader baseline target ops)"

definition validateReconcilePolicyTransition :: "tableAccess \<Rightarrow> tableAccess \<Rightarrow> string + unit" where
  "validateReconcilePolicyTransition baseline target =
     bindE (checkNotBroader baseline target operationList) (\<lambda>_.
     bindE (guardE (\<not> (anonymousSelect target = Some True \<and> anonymousSelect baseline \<noteq> Some True))
       ''Reconciliation cannot broaden anonymous access'') (\<lambda>_.
     bindE (guardE (\<not> (usesOwnerMode target \<and> ownerColumn target \<noteq> ownerColumn baseline))
       ''Reconciliation cannot replace the owner column'') (\<lambda>_.
     guardE (usesOwnerMode target \<or> ownerColumn target = None)
       ''Reconciliation must clear an unused owner column'')))"

definition uniqueSorted :: "string list \<Rightarrow> string list" where
  "uniqueSorted values = sort (remdups values)"

definition difference :: "string list \<Rightarrow> string list \<Rightarrow> string list" where
  "difference l r = uniqueSorted (filter (\<lambda>c. c \<notin> set r) l)"

definition intersection :: "string list \<Rightarrow> string list \<Rightarrow> string list" where
  "intersection l r = uniqueSorted (filter (\<lambda>c. c \<in> set r) l)"

record columnDrift =
  addedReadable :: "string list"
  addedInsertable :: "string list"
  addedUpdateable :: "string list"
  removedOrRestricted :: "string list"

definition buildColumnCapabilityDrift :: "columnCapabilities \<Rightarrow> columnCapabilities \<Rightarrow> columnDrift" where
  "buildColumnCapabilityDrift baseline current =
     \<lparr>addedReadable = difference (readableColumns current) (readableColumns baseline),
      addedInsertable = difference (insertableColumns current) (insertableColumns baseline),
      addedUpdateable = difference (updateableColumns current) (updateableColumns baseline),
      removedOrRestricted = uniqueSorted
        (difference (readableColumns baseline) (readableColumns current)
         @ difference (insertableColumns baseline) (insertableColumns current)
         @ difference (updateableColumns baseline) (updateableColumns current))\<rparr>"

definition materializeReconcileGrants :: "columnGrants \<Rightarrow> columnCapabilities \<Rightarrow> columnGrants" where
  "materializeReconcileGrants baseline current =
     \<lparr>grantSelect = intersection (grantSelect baseline) (readableColumns current),
      grantInsert = intersection (grantInsert baseline) (insertableColumns current),
      grantUpdate = intersection (grantUpdate baseline) (updateableColumns current),
      grantAnonymous = intersection (grantAnonymous baseline) (readableColumns current)\<rparr>"

text \<open>The requested columns are the properties of a JSON object.\<close>

definition requestedColumns :: "(string \<times> jsval) list \<Rightarrow> string \<Rightarrow> string + string list" where
  "requestedColumns additions op =
     (case permGet additions op of
        JUndef \<Rightarrow> Inr []
      | JArr items \<Rightarrow>
          if list_all js_is_string items then Inr (map js_string_of items)
          else Inl (''Invalid '' @ op @ '' column grants'')
      | _ \<Rightarrow> Inl (''Invalid '' @ op @ '' column grants''))"

definition checkAddition ::
  "string \<Rightarrow> string list \<Rightarrow> accessMode \<Rightarrow> string list \<Rightarrow> string list \<Rightarrow> string \<Rightarrow> string + unit" where
  "checkAddition op columns mode granted available capability =
     (if columns = [] then Inr ()
      else bindE (guardE (mode \<noteq> ModeNone) (op @ '' access is closed'')) (\<lambda>_.
           bindE (guardE (distinct columns) (''duplicate '' @ op @ '' column grant'')) (\<lambda>_.
           bindE (guardE (\<not> list_ex (\<lambda>c. c \<in> set granted) columns) (op @ '' column is already granted'')) (\<lambda>_.
           guardE (list_all (\<lambda>c. c \<in> set available) columns) (op @ '' column is not '' @ capability)))))"

definition extendProjectionColumnGrants ::
  "columnGrants \<Rightarrow> columnCapabilities \<Rightarrow> tableAccess \<Rightarrow> (string \<times> jsval) list \<Rightarrow> string + columnGrants" where
  "extendProjectionColumnGrants g caps p additions =
     bindE (guardE (onlyKeys additions [''select'', ''insert''])
       ''Only authenticated select and insert grants can be extended'') (\<lambda>_.
     bindE (requestedColumns additions ''select'') (\<lambda>select.
     bindE (requestedColumns additions ''insert'') (\<lambda>insert.
     bindE (guardE (select \<noteq> [] \<or> insert \<noteq> []) ''Specify at least one column grant'') (\<lambda>_.
     bindE (checkAddition ''select'' select (selectMode p) (grantSelect g) (readableColumns caps) ''readable'') (\<lambda>_.
     bindE (checkAddition ''insert'' insert (insertMode p) (grantInsert g) (insertableColumns caps) ''insertable'') (\<lambda>_.
     bindE (guardE (\<not> (insertMode p = ModeOwner
              \<and> (case ownerColumn p of Some k \<Rightarrow> k | None \<Rightarrow> []) \<in> set insert))
       ''Cannot grant the owner preset column for insert'') (\<lambda>_.
     Inr (g\<lparr>grantSelect := grantSelect g @ select, grantInsert := grantInsert g @ insert\<rparr>))))))))"

end
