(* ===== verification/Inspection_Properties.thy ===== *)
theory Inspection_Properties
  imports Data_Access_Inspection
begin

text \<open>
  What the inspection of a table finds. Its result is characterised field by field; then reading
  back what the code wrote gives the policy it was written from, and a table that is reported as
  managed grants exactly what the reported policy means.
\<close>

subsection \<open>The inspection, field by field\<close>

text \<open>An operation is custom (\<open>None\<close>), closed (\<open>Some None\<close>) or has a parsed permission.\<close>

definition parsedEntry ::
  "tableMetadata \<Rightarrow> roleNames \<Rightarrow> columnCapabilities \<Rightarrow> daOperation \<Rightarrow> parsedPermission option option" where
  "parsedEntry t roles caps op =
     (case entriesOf t op (authenticatedRole roles) of
        [] \<Rightarrow> Some None
      | [e] \<Rightarrow> map_option Some (parseAuthenticatedPermission op (entryPermission e) caps)
      | _ \<Rightarrow> None)"

lemma inspectAuthenticated_parsed:
  "inspectAuthenticated t roles caps op i =
     (case parsedEntry t roles caps op of
        None \<Rightarrow> i\<lparr>authenticatedCustom := True\<rparr>
      | Some None \<Rightarrow> i
      | Some (Some m) \<Rightarrow> applyParsed op m i)"
  by (auto simp: inspectAuthenticated_def parsedEntry_def split: list.splits option.splits)

definition entryMode :: "parsedPermission option option \<Rightarrow> accessMode" where
  "entryMode e = (case e of Some (Some m) \<Rightarrow> parsedMode m | _ \<Rightarrow> ModeNone)"

definition entryColumns :: "parsedPermission option option \<Rightarrow> string list" where
  "entryColumns e = (case e of Some (Some m) \<Rightarrow> parsedColumns m | _ \<Rightarrow> [])"

definition entryOwner :: "parsedPermission option option \<Rightarrow> string option" where
  "entryOwner e = (case e of Some (Some m) \<Rightarrow> parsedOwner m | _ \<Rightarrow> None)"

definition entryConstraint :: "parsedPermission option option \<Rightarrow> projectionConstraint option" where
  "entryConstraint e = (case e of Some (Some m) \<Rightarrow> parsedConstraint m | _ \<Rightarrow> None)"

lemma setMode_sel [simp]:
  "ownerColumn (setMode op m p) = ownerColumn p" "selectConstraint (setMode op m p) = selectConstraint p"
  "policyVersion (setMode op m p) = policyVersion p" "anonymousSelect (setMode op m p) = anonymousSelect p"
  "modeOf (setMode op m p) op' = (if op' = op then m else modeOf p op')"
  by (cases op; simp; cases op'; simp)+

lemma modeOf_update [simp]:
  "modeOf (p\<lparr>ownerColumn := k\<rparr>) op = modeOf p op" "modeOf (p\<lparr>policyVersion := v\<rparr>) op = modeOf p op"
  "modeOf (p\<lparr>selectConstraint := c\<rparr>) op = modeOf p op" "modeOf (p\<lparr>anonymousSelect := a\<rparr>) op = modeOf p op"
  by (cases op; simp)+

lemma grantFor_set [simp]:
  "grantFor (setGrant op cs g) op' = (if op' = op \<and> op \<noteq> OpDelete \<or> op = OpSelect \<and> op' = OpDelete
                                      then cs else grantFor g op')"
  "grantAnonymous (setGrant op cs g) = grantAnonymous g"
  "grantFor (g\<lparr>grantAnonymous := cs\<rparr>) op' = grantFor g op'"
  by (cases op; cases op'; simp)+

text \<open>The anonymous role and the notes leave the authenticated part alone.\<close>

lemma inspectAnonymous_fields [simp]:
  "authenticatedCustom (inspectAnonymous t roles caps op i) = authenticatedCustom i"
  "ownerColumn (inspectedPolicy (inspectAnonymous t roles caps op i)) = ownerColumn (inspectedPolicy i)"
  "selectConstraint (inspectedPolicy (inspectAnonymous t roles caps op i)) = selectConstraint (inspectedPolicy i)"
  "policyVersion (inspectedPolicy (inspectAnonymous t roles caps op i)) = policyVersion (inspectedPolicy i)"
  "modeOf (inspectedPolicy (inspectAnonymous t roles caps op i)) op' = modeOf (inspectedPolicy i) op'"
  "grantFor (inspectedGrants (inspectAnonymous t roles caps op i)) op' = grantFor (inspectedGrants i) op'"
  by (auto simp: inspectAnonymous_def split: list.splits)

lemma noteEntries_fields [simp]:
  "authenticatedCustom (noteEntries t roles op i) = authenticatedCustom i"
  "anonymousCustom (noteEntries t roles op i) = anonymousCustom i"
  "inspectedPolicy (noteEntries t roles op i) = inspectedPolicy i"
  "inspectedGrants (noteEntries t roles op i) = inspectedGrants i"
  by (simp_all add: noteEntries_def Let_def)

definition ownerClash :: "string option \<Rightarrow> string option \<Rightarrow> bool" where
  "ownerClash new old \<longleftrightarrow> (\<exists>k k0. new = Some k \<and> old = Some k0 \<and> k0 \<noteq> k)"

lemma applyParsed_fields [simp]:
  "authenticatedCustom (applyParsed op m i) =
     (authenticatedCustom i \<or> ownerClash (parsedOwner m) (ownerColumn (inspectedPolicy i)))"
  "ownerColumn (inspectedPolicy (applyParsed op m i)) =
     (if parsedOwner m = None then ownerColumn (inspectedPolicy i) else parsedOwner m)"
  "selectConstraint (inspectedPolicy (applyParsed op m i)) =
     (if parsedConstraint m = None then selectConstraint (inspectedPolicy i) else parsedConstraint m)"
  "policyVersion (inspectedPolicy (applyParsed op m i)) =
     (if parsedConstraint m = None then policyVersion (inspectedPolicy i) else Some 2)"
  "modeOf (inspectedPolicy (applyParsed op m i)) op' =
     (if op' = op then parsedMode m else modeOf (inspectedPolicy i) op')"
  "inspectedGrants (applyParsed op m i) = setGrant op (parsedColumns m) (inspectedGrants i)"
  by (auto simp: applyParsed_def Let_def ownerClash_def split: option.splits simp del: setMode.simps)

lemma applyParsed_anonymous [simp]:
  "anonymousCustom (applyParsed op m i) = anonymousCustom i"
  "anonymousSelect (inspectedPolicy (applyParsed op m i)) = anonymousSelect (inspectedPolicy i)"
  by (auto simp: applyParsed_def Let_def split: option.splits simp del: setMode.simps)

lemma inspectAuthenticated_anonymous [simp]:
  "anonymousCustom (inspectAuthenticated t roles caps op i) = anonymousCustom i"
  "anonymousSelect (inspectedPolicy (inspectAuthenticated t roles caps op i)) = anonymousSelect (inspectedPolicy i)"
  "grantAnonymous (inspectedGrants (inspectAuthenticated t roles caps op i)) = grantAnonymous (inspectedGrants i)"
  by (auto simp: inspectAuthenticated_parsed split: option.splits)

lemma inspectOperation_fields:
  "authenticatedCustom (inspectOperation t roles caps op i) =
     (authenticatedCustom i \<or> parsedEntry t roles caps op = None
      \<or> ownerClash (entryOwner (parsedEntry t roles caps op)) (ownerColumn (inspectedPolicy i)))"
  "ownerColumn (inspectedPolicy (inspectOperation t roles caps op i)) =
     (if entryOwner (parsedEntry t roles caps op) = None then ownerColumn (inspectedPolicy i)
      else entryOwner (parsedEntry t roles caps op))"
  "selectConstraint (inspectedPolicy (inspectOperation t roles caps op i)) =
     (if entryConstraint (parsedEntry t roles caps op) = None then selectConstraint (inspectedPolicy i)
      else entryConstraint (parsedEntry t roles caps op))"
  "policyVersion (inspectedPolicy (inspectOperation t roles caps op i)) =
     (if entryConstraint (parsedEntry t roles caps op) = None then policyVersion (inspectedPolicy i) else Some 2)"
  by (auto simp: inspectOperation_def inspectAuthenticated_parsed entryOwner_def entryConstraint_def
      ownerClash_def split: option.splits)

lemma inspectOperation_mode:
  assumes "modeOf (inspectedPolicy i) op = ModeNone"
  shows "modeOf (inspectedPolicy (inspectOperation t roles caps op i)) op' =
     (if op' = op then entryMode (parsedEntry t roles caps op) else modeOf (inspectedPolicy i) op')"
  using assms by (auto simp: inspectOperation_def inspectAuthenticated_parsed entryMode_def split: option.splits)

lemma inspectOperation_grant:
  assumes "op = OpDelete \<or> grantFor (inspectedGrants i) op = []"
  shows "op' \<noteq> OpDelete \<Longrightarrow> grantFor (inspectedGrants (inspectOperation t roles caps op i)) op' =
     (if op' = op then entryColumns (parsedEntry t roles caps op) else grantFor (inspectedGrants i) op')"
  using assms by (auto simp: inspectOperation_def inspectAuthenticated_parsed entryColumns_def
      split: option.splits simp del: setGrant.simps grantFor.simps)

text \<open>The result of the inspection of a table with metadata.\<close>

lemma all_operations: "(\<forall>op. P op) \<longleftrightarrow> P OpSelect \<and> P OpInsert \<and> P OpUpdate \<and> P OpDelete"
  by (metis daOperation.exhaust)

lemma ex_operation: "(\<exists>op. P op) \<longleftrightarrow> P OpSelect \<or> P OpInsert \<or> P OpUpdate \<or> P OpDelete"
  by (metis daOperation.exhaust)

lemma parsed_constraint_select: "op \<noteq> OpSelect \<Longrightarrow> entryConstraint (parsedEntry t roles caps op) = None"
  by (auto simp: parsedEntry_def entryConstraint_def parseAuthenticatedPermission_def Let_def
      split: list.splits option.splits if_splits)

definition ownersAgree :: "(daOperation \<Rightarrow> string option) \<Rightarrow> bool" where
  "ownersAgree f \<longleftrightarrow> (\<forall>op op' k k'. f op = Some k \<longrightarrow> f op' = Some k' \<longrightarrow> k = k')"

lemma closedInspection_fields [simp]:
  "authenticatedCustom closedInspection = False" "anonymousCustom closedInspection = False"
  "modeOf (inspectedPolicy closedInspection) op = ModeNone"
  "ownerColumn (inspectedPolicy closedInspection) = None"
  "selectConstraint (inspectedPolicy closedInspection) = None"
  "policyVersion (inspectedPolicy closedInspection) = Some 1"
  "anonymousSelect (inspectedPolicy closedInspection) = Some False"
  "grantFor (inspectedGrants closedInspection) op = []" "grantAnonymous (inspectedGrants closedInspection) = []"
  "containsWildcard closedInspection = False"
  by (cases op; simp add: closedInspection_def createClosedTableDataAccessPolicy_def emptyColumnGrants_def)+

lemma inspected_modes:
  "modeOf (inspectedPolicy (inspectTableDataAccessMetadata (Some t) roles caps)) op
     = entryMode (parsedEntry t roles caps op)"
  by (cases op) (simp_all add: inspectTableDataAccessMetadata_def operationList_def Let_def inspectOperation_mode del: modeOf.simps)

lemma inspected_grants:
  "op \<noteq> OpDelete \<Longrightarrow> grantFor (inspectedGrants (inspectTableDataAccessMetadata (Some t) roles caps)) op
     = entryColumns (parsedEntry t roles caps op)"
  by (cases op) (simp_all add: inspectTableDataAccessMetadata_def operationList_def Let_def inspectOperation_grant del: grantFor.simps)

lemma inspected_constraint:
  "selectConstraint (inspectedPolicy (inspectTableDataAccessMetadata (Some t) roles caps))
     = entryConstraint (parsedEntry t roles caps OpSelect)"
  "policyVersion (inspectedPolicy (inspectTableDataAccessMetadata (Some t) roles caps))
     = Some (if entryConstraint (parsedEntry t roles caps OpSelect) = None then 1 else 2)"
  by (simp_all add: inspectTableDataAccessMetadata_def operationList_def Let_def inspectOperation_fields
      parsed_constraint_select)

definition latestOwner :: "string option \<Rightarrow> string option \<Rightarrow> string option" where
  "latestOwner new old = (if new = None then old else new)"

lemma ownersAgree_steps:
  "ownersAgree f \<longleftrightarrow>
     \<not> ownerClash (f OpInsert) (f OpSelect)
     \<and> \<not> ownerClash (f OpUpdate) (latestOwner (f OpInsert) (f OpSelect))
     \<and> \<not> ownerClash (f OpDelete) (latestOwner (f OpUpdate) (latestOwner (f OpInsert) (f OpSelect)))"
  by (cases "f OpSelect"; cases "f OpInsert"; cases "f OpUpdate"; cases "f OpDelete")
     (auto simp: ownersAgree_def all_operations ownerClash_def latestOwner_def)

lemma latestOwner_agree:
  assumes "ownersAgree f"
  shows "latestOwner (f OpDelete) (latestOwner (f OpUpdate) (latestOwner (f OpInsert) (f OpSelect))) = Some k
           \<longleftrightarrow> (\<exists>op. f op = Some k)" (is "?x = Some k \<longleftrightarrow> _")
proof -
  have some: "\<exists>op. f op = Some j" if "?x = Some j" for j
    using that unfolding ex_operation latestOwner_def by (auto split: if_splits)
  have none: "f op = None" if "?x = None" for op
    using that by (cases op) (auto simp: latestOwner_def split: if_splits)
  show ?thesis
  proof
    assume "\<exists>op. f op = Some k"
    then obtain op where op: "f op = Some k" by blast
    then obtain j where "?x = Some j" using none [of op] by fastforce
    with op some assms show "?x = Some k" unfolding ownersAgree_def by metis
  qed (rule some)
qed

lemma inspected_custom:
  "\<not> authenticatedCustom (inspectTableDataAccessMetadata (Some t) roles caps) \<longleftrightarrow>
     (\<forall>op. parsedEntry t roles caps op \<noteq> None) \<and> ownersAgree (\<lambda>op. entryOwner (parsedEntry t roles caps op))"
proof -
  have "\<not> ownerClash x None" for x by (simp add: ownerClash_def)
  moreover have "latestOwner x None = x" for x by (simp add: latestOwner_def)
  ultimately show ?thesis
    unfolding ownersAgree_steps all_operations [where P = "\<lambda>op. parsedEntry t roles caps op \<noteq> None"]
    by (simp add: inspectTableDataAccessMetadata_def operationList_def Let_def inspectOperation_fields
        latestOwner_def [symmetric] del: not_None_eq) blast
qed

lemma inspected_owner:
  assumes "\<not> authenticatedCustom (inspectTableDataAccessMetadata (Some t) roles caps)"
  shows "ownerColumn (inspectedPolicy (inspectTableDataAccessMetadata (Some t) roles caps)) = Some k
           \<longleftrightarrow> (\<exists>op. entryOwner (parsedEntry t roles caps op) = Some k)"
proof -
  let ?f = "\<lambda>op. entryOwner (parsedEntry t roles caps op)"
  have "ownerColumn (inspectedPolicy (inspectTableDataAccessMetadata (Some t) roles caps)) =
      latestOwner (?f OpDelete) (latestOwner (?f OpUpdate) (latestOwner (?f OpInsert) (?f OpSelect)))"
    by (simp add: inspectTableDataAccessMetadata_def operationList_def Let_def inspectOperation_fields latestOwner_def)
  then show ?thesis
    using assms latestOwner_agree [of ?f k] unfolding inspected_custom by simp
qed

text \<open>The anonymous role.\<close>

definition anonymousEntry :: "tableMetadata \<Rightarrow> roleNames \<Rightarrow> columnCapabilities \<Rightarrow> daOperation \<Rightarrow> string list option option" where
  "anonymousEntry t roles caps op =
     (case entriesOf t op (anonymousRole roles) of
        [] \<Rightarrow> Some None
      | [e] \<Rightarrow>
          if op \<noteq> OpSelect \<or> \<not> isSupportedAnonymousSelect (entryPermission e) (readableColumns caps) then None
          else Some (Some (case permGet (entryPermission e) ''columns'' of
                      JArr items \<Rightarrow> map js_string_of items | _ \<Rightarrow> []))
      | _ \<Rightarrow> None)"

lemma inspectOperation_anonymous:
  "anonymousCustom (inspectOperation t roles caps op i) =
     (anonymousCustom i \<or> anonymousEntry t roles caps op = None)"
  "anonymousSelect (inspectedPolicy (inspectOperation t roles caps op i)) =
     (case anonymousEntry t roles caps op of Some (Some cs) \<Rightarrow> Some True
      | _ \<Rightarrow> anonymousSelect (inspectedPolicy i))"
  "grantAnonymous (inspectedGrants (inspectOperation t roles caps op i)) =
     (case anonymousEntry t roles caps op of Some (Some cs) \<Rightarrow> cs | _ \<Rightarrow> grantAnonymous (inspectedGrants i))"
  by (auto simp: inspectOperation_def inspectAnonymous_def anonymousEntry_def split: list.splits)

lemma anonymousEntry_other:
  "op \<noteq> OpSelect \<Longrightarrow>
     (case anonymousEntry t roles caps op of None \<Rightarrow> b | Some None \<Rightarrow> b | Some (Some cs) \<Rightarrow> f cs) = b"
  by (auto simp: anonymousEntry_def split: list.splits)

lemma inspected_anonymous:
  "\<not> anonymousCustom (inspectTableDataAccessMetadata (Some t) roles caps)
     \<longleftrightarrow> (\<forall>op. anonymousEntry t roles caps op \<noteq> None)"
  "anonymousSelect (inspectedPolicy (inspectTableDataAccessMetadata (Some t) roles caps))
     = Some (\<exists>cs. anonymousEntry t roles caps OpSelect = Some (Some cs))"
  "grantAnonymous (inspectedGrants (inspectTableDataAccessMetadata (Some t) roles caps))
     = (case anonymousEntry t roles caps OpSelect of Some (Some cs) \<Rightarrow> cs | _ \<Rightarrow> [])"
proof -
  show "\<not> anonymousCustom (inspectTableDataAccessMetadata (Some t) roles caps)
     \<longleftrightarrow> (\<forall>op. anonymousEntry t roles caps op \<noteq> None)"
    by (simp add: inspectTableDataAccessMetadata_def operationList_def Let_def inspectOperation_anonymous(1)
        all_operations del: not_None_eq)
  show "anonymousSelect (inspectedPolicy (inspectTableDataAccessMetadata (Some t) roles caps))
     = Some (\<exists>cs. anonymousEntry t roles caps OpSelect = Some (Some cs))"
    by (simp add: inspectTableDataAccessMetadata_def operationList_def Let_def inspectOperation_anonymous(2)
        anonymousEntry_other split: option.split)
  show "grantAnonymous (inspectedGrants (inspectTableDataAccessMetadata (Some t) roles caps))
     = (case anonymousEntry t roles caps OpSelect of Some (Some cs) \<Rightarrow> cs | _ \<Rightarrow> [])"
    by (simp add: inspectTableDataAccessMetadata_def operationList_def Let_def inspectOperation_anonymous(3)
        anonymousEntry_other split: option.split)
qed

subsection \<open>Permissions as they are written\<close>

fun capabilityFor :: "columnCapabilities \<Rightarrow> daOperation \<Rightarrow> string list" where
  "capabilityFor caps OpSelect = readableColumns caps"
| "capabilityFor caps OpInsert = insertableColumns caps"
| "capabilityFor caps OpUpdate = updateableColumns caps"
| "capabilityFor caps OpDelete = []"

text \<open>The permission with given columns.\<close>

definition permShape ::
  "daOperation \<Rightarrow> accessMode \<Rightarrow> string \<Rightarrow> projectionConstraint option \<Rightarrow> string list \<Rightarrow> (string \<times> jsval) list" where
  "permShape op mode owner con cs =
     (let rule = rowRule mode owner con in
      (case op of
         OpSelect \<Rightarrow> [(''columns'', js_strings cs), (''filter'', rule), (''allow_aggregations'', JBool False)]
       | OpInsert \<Rightarrow> [(''columns'', js_strings cs), (''check'', rule)]
             @ (if mode = ModeOwner then [(''set'', JObj [(owner, JStr userIdVariable)])] else [])
       | OpUpdate \<Rightarrow> [(''columns'', js_strings cs), (''filter'', rule), (''check'', rule)]
       | OpDelete \<Rightarrow> [(''filter'', rule)]))"

definition shapeColumns ::
  "daOperation \<Rightarrow> accessMode \<Rightarrow> string \<Rightarrow> string list option \<Rightarrow> columnCapabilities \<Rightarrow> string + string list" where
  "shapeColumns op mode owner granted caps =
     (if op = OpDelete then Inr [] else operationColumns op mode owner granted (capabilityFor caps op))"

lemma create_shape:
  "createAuthenticatedPermission op mode caps owner granted con
     = map_sum id (permShape op mode owner con) (shapeColumns op mode owner granted caps)"
  by (cases op; cases "shapeColumns op mode owner granted caps")
     (auto simp: createAuthenticatedPermission_def shapeColumns_def permShape_def Let_def bindE_def)

text \<open>The columns the inspection accepts for an operation, in the order it returns them.\<close>

definition columns_ok :: "columnCapabilities \<Rightarrow> daOperation \<Rightarrow> accessMode \<Rightarrow> string \<Rightarrow> string list \<Rightarrow> bool" where
  "columns_ok caps op mode owner cs \<longleftrightarrow>
     distinct cs \<and> sorted cs \<and> set cs \<subseteq> set (capabilityFor caps op)
     \<and> ((op = OpInsert \<or> op = OpUpdate) \<and> mode = ModeOwner \<longrightarrow> owner \<notin> set cs)"

lemma shapeColumns_granted:
  "shapeColumns op mode owner (Some g) caps = Inr cs \<Longrightarrow> columns_ok caps op mode owner cs"
  by (auto simp: shapeColumns_def operationColumns_def columns_ok_def validateGrantColumns_def
      sorted_filter [where f = id, simplified] split: if_splits)

lemma shapeColumns_again:
  "columns_ok caps op mode owner cs \<Longrightarrow> shapeColumns op mode owner (Some cs) caps = Inr (if op = OpDelete then [] else cs)"
  by (auto simp: shapeColumns_def operationColumns_def columns_ok_def validateGrantColumns_def
      sorted_sort_id filter_id_conv)

lemma parse_js_strings:
  "distinct cs \<Longrightarrow> set cs \<subseteq> set allowed \<Longrightarrow> parseExplicitColumns (js_strings cs) allowed = Some (sort cs)"
  by (simp add: parseExplicitColumns_def js_strings_def list_all_iff comp_def)

lemma parse_ownerRule [simp]: "parseOwnerRule (ownerRule k) = Some k"
  by (simp add: ownerRule_def)

lemma parseProjection_ownerRule [simp]: "parseProjectionRule (ownerRule k) = None"
  by (simp add: ownerRule_def parseProjectionRule_def eqVariable_def)

lemma conditions_distinct [simp]:
  "eqVariable userIdVariable \<noteq> JObj [(''_eq'', JBool True)]"
  "eqVariable userIdVariable \<noteq> JObj [(''_has_key'', JStr environmentVariable)]"
  by (simp_all add: eqVariable_def)

lemma parse_projection_rule:
  assumes "constraint_ok c" "actorColumn c \<noteq> allowColumn c" "owner \<noteq> []"
  shows "parseProjectionRule (rowRule ModeOwner owner (Some c)) = Some (owner, c)"
proof -
  obtain r where r: "relationshipPath c = Some [r]" "r \<noteq> []" "constraintType c = ''authorization_projection''" "otherKeys c = []"
    using assms(1) by (auto simp: constraint_ok_def split: option.splits list.splits)
  have c: "c = \<lparr>constraintType = ''authorization_projection'', otherKeys = [], relationshipPath = Some [r],
      actorColumn = actorColumn c, allowColumn = allowColumn c, environmentColumn = environmentColumn c\<rparr>"
    using r by simp
  have "parseProjectionRule (rowRule ModeOwner owner (Some c)) =
      parseProjectionParts owner r (case projectionRule c of JObj es \<Rightarrow> es | _ \<Rightarrow> [])"
    using r assms(3) by (simp add: rowRule_def parseProjectionRule_def projectionRule_def)
  also have "\<dots> = Some (owner, c)"
  proof (cases "environmentColumn c")
    case None
    then show ?thesis using assms(2) c
      by (simp add: projectionRule_def parseProjectionParts_def entryWith_def)
  next
    case (Some e)
    then have "e \<noteq> []" "e \<noteq> actorColumn c" "e \<noteq> allowColumn c"
      using assms(1) by (auto simp: constraint_ok_def)
    then show ?thesis using assms(2) c Some
      by (simp add: projectionRule_def parseProjectionParts_def entryWith_def)
  qed
  finally show ?thesis .
qed

lemma permGet_simps [simp]:
  "permGet [] k = JUndef" "permGet ((j, v) # ps) k = (if j = k then v else permGet ps k)"
  by (simp_all add: permGet_def)

lemma permShape_all: "permShape op ModeAll owner con cs = permShape op ModeAll owner' con' cs"
  by (simp add: permShape_def rowRule_def)

definition con_ok :: "daOperation \<Rightarrow> accessMode \<Rightarrow> projectionConstraint option \<Rightarrow> bool" where
  "con_ok op mode con \<longleftrightarrow>
     con = None \<or> (op = OpSelect \<and> mode = ModeOwner \<and> constraint_ok (the con)
       \<and> actorColumn (the con) \<noteq> allowColumn (the con))"

definition owner_ok :: "columnCapabilities \<Rightarrow> daOperation \<Rightarrow> accessMode \<Rightarrow> string \<Rightarrow> bool" where
  "owner_ok caps op mode owner \<longleftrightarrow>
     (mode = ModeOwner \<longrightarrow> owner \<noteq> [] \<and> owner \<in> set (readableColumns caps)
       \<and> (op = OpInsert \<longrightarrow> owner \<in> set (insertableColumns caps)))"

lemma ruleOf_shape: "ruleOf op (permShape op mode owner con cs) = rowRule mode owner con"
  by (cases op) (simp_all add: ruleOf_def permShape_def Let_def)

lemma columns_shape:
  assumes mode: "mode = ModeAll \<or> mode = ModeOwner"
    and cs: "columns_ok caps op mode owner cs" and own: "owner_ok caps op mode owner"
  shows "permissionColumns op (permShape op mode owner con cs) caps (rowRule mode owner con)
           (if mode = ModeAll then None else Some owner) = Some (if op = OpDelete then [] else cs)"
proof -
  have cols: "op \<noteq> OpDelete \<Longrightarrow> parseExplicitColumns (js_strings cs) (capabilityFor caps op) = Some cs"
    using cs by (simp add: parse_js_strings columns_ok_def sorted_sort_id)
  show ?thesis
    using mode cs own cols
    by (cases op) (auto simp: permissionColumns_def permShape_def Let_def onlyKeys_def isAggregationsDisabled_def
        isEmptyOrMissingObject_def isEmptyObject_def columns_ok_def owner_ok_def)
qed

lemma parse_shape:
  assumes mode: "mode = ModeAll \<or> mode = ModeOwner"
    and cs: "columns_ok caps op mode owner cs" and own: "owner_ok caps op mode owner"
    and con: "con_ok op mode con"
  shows "parseAuthenticatedPermission op (permShape op mode owner con cs) caps =
     Some \<lparr>parsedMode = mode, parsedOwner = (if mode = ModeAll then None else Some owner),
           parsedColumns = (if op = OpDelete then [] else cs), parsedConstraint = con\<rparr>"
proof (cases "mode = ModeAll")
  case True
  moreover from this have "con = None" "rowRule mode owner con = JObj []" "parseProjectionRule (JObj []) = None"
    using con by (auto simp: con_ok_def rowRule_def parseProjectionRule_def)
  ultimately show ?thesis
    using columns_shape [OF mode cs own, of con]
    by (simp add: parseAuthenticatedPermission_def ruleOf_shape isEmptyObject_def Let_def)
next
  case False
  then have own': "mode = ModeOwner" "owner \<noteq> []" "owner \<in> set (readableColumns caps)"
    using mode own by (auto simp: owner_ok_def)
  have ne: "\<not> isEmptyObject (rowRule mode owner con)"
    by (simp add: rowRule_def own' isEmptyObject_def ownerRule_def split: option.split)
  have proj: "(if op = OpSelect then parseProjectionRule (rowRule mode owner con) else None) = map_option (Pair owner) con"
  proof (cases con)
    case None
    then show ?thesis by (simp add: rowRule_def own')
  next
    case (Some c)
    then show ?thesis using con own' by (auto simp: con_ok_def parse_projection_rule)
  qed
  have own_eq: "(case map_option (Pair owner) con of Some (k, c) \<Rightarrow> Some k
      | None \<Rightarrow> parseOwnerRule (rowRule mode owner con)) = Some owner"
    by (cases con) (simp_all add: rowRule_def own')
  have "map_option snd (map_option (Pair owner) con) = con" by (cases con) simp_all
  then show ?thesis
    using columns_shape [OF mode cs own, of con] ne own' False
    unfolding parseAuthenticatedPermission_def ruleOf_shape Let_def proj own_eq by simp
qed

text \<open>What a materialization is made of.\<close>

definition permsFor :: "materializedPermission list \<Rightarrow> daOperation \<Rightarrow> string \<Rightarrow> (string \<times> jsval) list list" where
  "permsFor perms op role = map permission (filter (\<lambda>m. permOperation m = op \<and> permRole m = role) perms)"

text \<open>The metadata of a table holds, for the two roles, exactly the given permissions.\<close>

definition holdsPermissions :: "tableMetadata \<Rightarrow> roleNames \<Rightarrow> materializedPermission list \<Rightarrow> bool" where
  "holdsPermissions t roles perms \<longleftrightarrow>
     (\<forall>op. map entryPermission (entriesOf t op (authenticatedRole roles)) = permsFor perms op (authenticatedRole roles)
         \<and> map entryPermission (entriesOf t op (anonymousRole roles)) = permsFor perms op (anonymousRole roles))"

lemma parsedEntry_perms:
  "parsedEntry t roles caps op =
     (case map entryPermission (entriesOf t op (authenticatedRole roles)) of
        [] \<Rightarrow> Some None | [e] \<Rightarrow> map_option Some (parseAuthenticatedPermission op e caps) | _ \<Rightarrow> None)"
  by (auto simp: parsedEntry_def split: list.splits)

lemma anonymousEntry_perms:
  "anonymousEntry t roles caps op =
     (case map entryPermission (entriesOf t op (anonymousRole roles)) of
        [] \<Rightarrow> Some None
      | [e] \<Rightarrow>
          if op \<noteq> OpSelect \<or> \<not> isSupportedAnonymousSelect e (readableColumns caps) then None
          else Some (Some (case permGet e ''columns'' of JArr items \<Rightarrow> map js_string_of items | _ \<Rightarrow> []))
      | _ \<Rightarrow> None)"
  by (auto simp: anonymousEntry_def split: list.splits)

definition ownerName :: "tableAccess \<Rightarrow> string" where
  "ownerName p = (case ownerColumn p of Some c \<Rightarrow> c | None \<Rightarrow> ''null'')"

definition constraintFor :: "tableAccess \<Rightarrow> daOperation \<Rightarrow> projectionConstraint option" where
  "constraintFor p op = (if op = OpSelect then selectConstraint p else None)"

lemma authenticatedPermission_shape:
  "authenticatedPermission p caps grants op =
     map_sum id (permShape op (modeOf p op) (ownerName p) (constraintFor p op))
       (shapeColumns op (modeOf p op) (ownerName p) (map_option (\<lambda>g. grantFor g op) grants) caps)"
  by (simp add: authenticatedPermission_def create_shape ownerName_def constraintFor_def)

lemma authenticatedPermissions_for:
  assumes "authenticatedPermissions p roles caps grants ops = Inr perms" "distinct ops"
  shows "permsFor perms op (authenticatedRole roles) =
           (if op \<in> set ops \<and> modeOf p op \<noteq> ModeNone
            then [case authenticatedPermission p caps grants op of Inr x \<Rightarrow> x] else [])
       \<and> (op \<in> set ops \<longrightarrow> modeOf p op \<noteq> ModeNone \<longrightarrow> (\<exists>x. authenticatedPermission p caps grants op = Inr x))
       \<and> (\<forall>m \<in> set perms. permRole m = authenticatedRole roles)"
  using assms
proof (induction ops arbitrary: perms)
  case (Cons o1 ops)
  show ?case
  proof (cases "modeOf p o1 = ModeNone")
    case True
    then show ?thesis using Cons by auto
  next
    case False
    then obtain x rest where "authenticatedPermission p caps grants o1 = Inr x"
        "authenticatedPermissions p roles caps grants ops = Inr rest"
        "perms = \<lparr>permRole = authenticatedRole roles, permOperation = o1, permission = x\<rparr> # rest"
      using Cons.prems(1) by auto
    then show ?thesis using Cons.IH [of rest] Cons.prems(2) False by (auto simp: permsFor_def)
  qed
qed (simp add: permsFor_def)

lemma authenticatedPermissions_cong:
  assumes "\<And>op. op \<in> set ops \<Longrightarrow> modeOf q op = modeOf p op"
    and "\<And>op. op \<in> set ops \<Longrightarrow> modeOf p op \<noteq> ModeNone \<Longrightarrow>
           authenticatedPermission q caps h op = authenticatedPermission p caps g op"
  shows "authenticatedPermissions q roles caps h ops = authenticatedPermissions p roles caps g ops"
  using assms by (induction ops) simp_all

subsection \<open>Reading back what was written\<close>

definition constraintColumnsDiffer :: "tableAccess \<Rightarrow> bool" where
  "constraintColumnsDiffer p \<longleftrightarrow>
     (case selectConstraint p of None \<Rightarrow> True | Some c \<Rightarrow> actorColumn c \<noteq> allowColumn c)"

text \<open>The policy with its defaults filled in and no owner column that nothing uses.\<close>

definition canonicalPolicy :: "tableAccess \<Rightarrow> tableAccess" where
  "canonicalPolicy p =
     p\<lparr>policyVersion := Some (if selectConstraint p = None then 1 else 2),
       ownerColumn := (if usesOwnerMode p then ownerColumn p else None)\<rparr>"

lemma usesOwnerMode_ex: "usesOwnerMode p \<longleftrightarrow> (\<exists>op. modeOf p op = ModeOwner)"
  by (simp add: usesOwnerMode_def operationList_def ex_operation)

lemma checkModes_Inr: "checkModes p ops = Inr () \<longleftrightarrow> (\<forall>op \<in> set ops. modeOf p op \<noteq> ModeOther)"
  by (induction ops) auto

lemma validated:
  assumes "validateTableDataAccessInput p caps = Inr ()"
  shows "modeOf p op \<noteq> ModeOther" "anonymousSelect p \<noteq> None" "owner_ok caps op (modeOf p op) (ownerName p)"
    "usesOwnerMode p \<Longrightarrow> ownerColumn p = Some (ownerName p) \<and> ownerName p \<noteq> []"
    "constraintColumnsDiffer p \<Longrightarrow> con_ok op (modeOf p op) (constraintFor p op)"
    "selectConstraint p = Some c \<Longrightarrow> selectMode p = ModeOwner \<and> constraint_ok c"
proof -
  have v: "checkModes p operationList = Inr ()" "anonymousSelect p \<noteq> None"
      "validateConstraint p = Inr ()" "validateOwner p caps = Inr ()"
    using assms by (auto simp: validateTableDataAccessInput_def)
  show "modeOf p op \<noteq> ModeOther"
    using v(1) [unfolded checkModes_Inr] by (cases op) (simp_all add: operationList_def)
  show "anonymousSelect p \<noteq> None" by (rule v)
  show "owner_ok caps op (modeOf p op) (ownerName p)"
    using v(4) by (auto simp: owner_ok_def validateOwner_def usesOwnerMode_ex ownerName_def split: option.splits if_splits)
  show "usesOwnerMode p \<Longrightarrow> ownerColumn p = Some (ownerName p) \<and> ownerName p \<noteq> []"
    using v(4) by (auto simp: validateOwner_def ownerName_def split: option.splits if_splits)
  show con: "selectConstraint p = Some c \<Longrightarrow> selectMode p = ModeOwner \<and> constraint_ok c" for c
    using v(3) by (auto simp: validateConstraint_def Let_def validateProjectionConstraint_def)
  show "constraintColumnsDiffer p \<Longrightarrow> con_ok op (modeOf p op) (constraintFor p op)"
    using con by (cases "selectConstraint p") (auto simp: con_ok_def constraintFor_def constraintColumnsDiffer_def)
qed

definition anonymousPermissions :: "tableAccess \<Rightarrow> roleNames \<Rightarrow> columnCapabilities \<Rightarrow> columnGrants option \<Rightarrow> string + materializedPermission list" where
  "anonymousPermissions p roles caps grants =
     (if anonymousSelect p = Some True
      then map_sum id (\<lambda>a. [\<lparr>permRole = anonymousRole roles, permOperation = OpSelect, permission = a\<rparr>])
             (anonymousPermission caps grants)
      else Inr [])"

lemma materialize_split:
  "materializeTableDataAccessPolicy p roles caps grants = Inr perms \<longleftrightarrow>
     validateTableDataAccessInput p caps = Inr ()
     \<and> (\<exists>a b. authenticatedPermissions p roles caps grants operationList = Inr a
           \<and> anonymousPermissions p roles caps grants = Inr b \<and> perms = a @ b)"
  by (auto simp: materializeTableDataAccessPolicy_def anonymousPermissions_def map_sum_eq_Inr)

lemma permsFor_append: "permsFor (a @ b) op role = permsFor a op role @ permsFor b op role"
  by (simp add: permsFor_def)

lemma permsFor_other: "\<forall>m \<in> set a. permRole m = r \<Longrightarrow> r \<noteq> role \<Longrightarrow> permsFor a op role = []"
  by (auto simp: permsFor_def filter_empty_conv)

lemma anonymousPermissions_role:
  "anonymousPermissions p roles caps grants = Inr b \<Longrightarrow> \<forall>m \<in> set b. permRole m = anonymousRole roles"
  by (auto simp: anonymousPermissions_def map_sum_eq_Inr split: if_splits)

text \<open>The entry the inspection parses for an operation of a written policy.\<close>

lemma materialized_entry:
  assumes m: "materializeTableDataAccessPolicy p roles caps (Some g) = Inr perms"
    and t: "holdsPermissions t roles perms" "authenticatedRole roles \<noteq> anonymousRole roles"
    and d: "constraintColumnsDiffer p"
  shows "\<exists>cs. (modeOf p op \<noteq> ModeNone \<longrightarrow> columns_ok caps op (modeOf p op) (ownerName p) cs
           \<and> shapeColumns op (modeOf p op) (ownerName p) (Some (grantFor g op)) caps = Inr cs)
       \<and> parsedEntry t roles caps op =
           Some (if modeOf p op = ModeNone then None
                 else Some \<lparr>parsedMode = modeOf p op,
                   parsedOwner = (if modeOf p op = ModeAll then None else Some (ownerName p)),
                   parsedColumns = (if op = OpDelete then [] else cs), parsedConstraint = constraintFor p op\<rparr>)"
proof -
  obtain a b where ab: "validateTableDataAccessInput p caps = Inr ()"
      "authenticatedPermissions p roles caps (Some g) operationList = Inr a"
      "anonymousPermissions p roles caps (Some g) = Inr b" "perms = a @ b"
    using m unfolding materialize_split by blast
  have ops: "distinct operationList" "op \<in> set operationList"
    by (cases op; simp add: operationList_def)+
  have "map entryPermission (entriesOf t op (authenticatedRole roles)) = permsFor a op (authenticatedRole roles)"
    using t permsFor_other [OF anonymousPermissions_role [OF ab(3)], of "authenticatedRole roles" op]
    by (simp add: holdsPermissions_def ab(4) permsFor_append)
  then have entry: "parsedEntry t roles caps op =
      (case permsFor a op (authenticatedRole roles) of
        [] \<Rightarrow> Some None | [e] \<Rightarrow> map_option Some (parseAuthenticatedPermission op e caps) | _ \<Rightarrow> None)"
    by (simp add: parsedEntry_perms)
  show ?thesis
  proof (cases "modeOf p op = ModeNone")
    case True
    then show ?thesis using authenticatedPermissions_for [OF ab(2) ops(1), of op] entry by simp
  next
    case False
    then obtain x where x: "authenticatedPermission p caps (Some g) op = Inr x"
        "permsFor a op (authenticatedRole roles) = [x]"
      using authenticatedPermissions_for [OF ab(2) ops(1), of op] ops(2) by auto
    then obtain cs where cs: "shapeColumns op (modeOf p op) (ownerName p) (Some (grantFor g op)) caps = Inr cs"
        "x = permShape op (modeOf p op) (ownerName p) (constraintFor p op) cs"
      by (auto simp: authenticatedPermission_shape map_sum_eq_Inr)
    have mode: "modeOf p op = ModeAll \<or> modeOf p op = ModeOwner"
      using False validated(1) [OF ab(1), of op] by (cases "modeOf p op") auto
    have ok: "columns_ok caps op (modeOf p op) (ownerName p) cs" by (rule shapeColumns_granted [OF cs(1)])
    show ?thesis
      using parse_shape [OF mode ok validated(3) [OF ab(1)] validated(5) [OF ab(1) d]] ok False cs entry x(2)
      by (intro exI [of _ cs]) simp
  qed
qed

lemma materialized_anonymous:
  assumes m: "materializeTableDataAccessPolicy p roles caps (Some g) = Inr perms"
    and t: "holdsPermissions t roles perms" "authenticatedRole roles \<noteq> anonymousRole roles"
  shows "\<exists>cs. (anonymousSelect p = Some True \<longrightarrow> distinct cs \<and> sorted cs \<and> set cs \<subseteq> set (readableColumns caps)
             \<and> anonymousPermission caps (Some g) =
                 Inr [(''columns'', js_strings cs), (''filter'', JObj []), (''allow_aggregations'', JBool False)])
       \<and> anonymousEntry t roles caps op =
           Some (if op = OpSelect \<and> anonymousSelect p = Some True then Some cs else None)"
proof -
  obtain a b where ab: "authenticatedPermissions p roles caps (Some g) operationList = Inr a"
      "anonymousPermissions p roles caps (Some g) = Inr b" "perms = a @ b"
    using m unfolding materialize_split by blast
  have "\<forall>m \<in> set a. permRole m = authenticatedRole roles"
    using authenticatedPermissions_for [OF ab(1), of OpSelect] by (simp add: operationList_def)
  then have "map entryPermission (entriesOf t op (anonymousRole roles)) = permsFor b op (anonymousRole roles)"
    using t permsFor_other [of a "authenticatedRole roles" "anonymousRole roles" op]
    by (simp add: holdsPermissions_def ab(3) permsFor_append)
  then have entry: "anonymousEntry t roles caps op =
      (case permsFor b op (anonymousRole roles) of
        [] \<Rightarrow> Some None
      | [e] \<Rightarrow> if op \<noteq> OpSelect \<or> \<not> isSupportedAnonymousSelect e (readableColumns caps) then None
          else Some (Some (case permGet e ''columns'' of JArr items \<Rightarrow> map js_string_of items | _ \<Rightarrow> []))
      | _ \<Rightarrow> None)"
    by (simp add: anonymousEntry_perms)
  show ?thesis
  proof (cases "anonymousSelect p = Some True")
    case False
    then have "b = []" using ab(2) by (simp add: anonymousPermissions_def)
    with entry False show ?thesis by (simp add: permsFor_def)
  next
    case True
    then obtain x where x: "anonymousPermission caps (Some g) = Inr x"
        "b = [\<lparr>permRole = anonymousRole roles, permOperation = OpSelect, permission = x\<rparr>]"
      using ab(2) by (auto simp: anonymousPermissions_def map_sum_eq_Inr)
    obtain cs where cs: "distinct cs" "sorted cs" "set cs \<subseteq> set (readableColumns caps)"
        "x = [(''columns'', js_strings cs), (''filter'', JObj []), (''allow_aggregations'', JBool False)]"
      using x(1) by (intro that [of "sort (grantAnonymous g)"])
         (auto simp: anonymousPermission_def validateGrantColumns_def split: if_splits)
    have "isSupportedAnonymousSelect x (readableColumns caps)"
      using cs parse_js_strings [OF cs(1) cs(3)]
      by (simp add: isSupportedAnonymousSelect_def onlyKeys_def isEmptyObject_def isAggregationsDisabled_def)
    moreover have "js_strings cs = JArr (map JStr cs)" by (simp add: js_strings_def)
    ultimately show ?thesis
      using entry cs x True by (intro exI [of _ cs]) (auto simp: permsFor_def comp_def)
  qed
qed

definition wildcardIn :: "tableMetadata \<Rightarrow> roleNames \<Rightarrow> daOperation \<Rightarrow> bool" where
  "wildcardIn t roles op \<longleftrightarrow>
     (\<exists>x \<in> set (map entryPermission (entriesOf t op (authenticatedRole roles))
              @ map entryPermission (entriesOf t op (anonymousRole roles))).
        permGet x ''columns'' = JStr ''*'')"

lemma inspectOperation_wildcard:
  "containsWildcard (inspectOperation t roles caps op i) \<longleftrightarrow> containsWildcard i \<or> wildcardIn t roles op"
  by (auto simp: inspectOperation_def inspectAnonymous_def inspectAuthenticated_parsed noteEntries_def
      applyParsed_def Let_def list_ex_iff wildcardIn_def split: list.splits option.splits)

lemma inspected_wildcard:
  "containsWildcard (inspectTableDataAccessMetadata (Some t) roles caps) \<longleftrightarrow> (\<exists>op. wildcardIn t roles op)"
  by (simp add: inspectTableDataAccessMetadata_def operationList_def Let_def inspectOperation_wildcard ex_operation disj_assoc)

lemma written_no_wildcard:
  assumes m: "materializeTableDataAccessPolicy p roles caps (Some g) = Inr perms"
    and t: "holdsPermissions t roles perms"
  shows "\<not> wildcardIn t roles op"
proof -
  obtain a b where ab: "authenticatedPermissions p roles caps (Some g) operationList = Inr a"
      "anonymousPermissions p roles caps (Some g) = Inr b" "perms = a @ b"
    using m unfolding materialize_split by blast
  have shape: "permGet (permShape op md ow con cs) ''columns'' \<noteq> JStr ''*''" for op md ow con cs
    by (cases op) (simp_all add: permShape_def js_strings_def Let_def)
  have "permGet x ''columns'' \<noteq> JStr ''*''" if "x \<in> set (permsFor a op r)" for x r
  proof (cases "r = authenticatedRole roles")
    case True
    then show ?thesis
      using that authenticatedPermissions_for [OF ab(1), of op] shape
      by (auto simp: operationList_def authenticatedPermission_shape map_sum_eq_Inr split: if_splits)
  next
    case False
    then show ?thesis
      using that authenticatedPermissions_for [OF ab(1), of op] permsFor_other [of a "authenticatedRole roles" r op]
      by (auto simp: operationList_def)
  qed
  moreover have "permGet x ''columns'' \<noteq> JStr ''*''" if "x \<in> set (permsFor b op r)" for x r
    using that ab(2)
    by (auto simp: permsFor_def anonymousPermissions_def map_sum_eq_Inr anonymousPermission_def js_strings_def
        split: if_splits)
  ultimately show ?thesis
    using t unfolding wildcardIn_def holdsPermissions_def ab(3) permsFor_append by (auto simp del: set_map)
qed

lemma tableAccess_eqI:
  fixes p q :: tableAccess
  assumes "\<And>op. modeOf p op = modeOf q op" "policyVersion p = policyVersion q" "ownerColumn p = ownerColumn q"
    "selectConstraint p = selectConstraint q" "anonymousSelect p = anonymousSelect q"
  shows "p = q"
  using assms(1) [of OpSelect] assms(1) [of OpInsert] assms(1) [of OpUpdate] assms(1) [of OpDelete] assms(2-)
  by (cases p; cases q) simp

lemma canonical_valid:
  assumes "validateTableDataAccessInput p caps = Inr ()"
  shows "validateTableDataAccessInput (canonicalPolicy p) caps = Inr ()"
proof -
  have modes: "modeOf (canonicalPolicy p) op = modeOf p op" for op
    by (simp add: canonicalPolicy_def)
  then have "checkModes (canonicalPolicy p) ops = checkModes p ops" for ops
    by (induction ops) simp_all
  moreover have "usesOwnerMode (canonicalPolicy p) = usesOwnerMode p"
    by (simp add: usesOwnerMode_def modes)
  ultimately show ?thesis
    using assms by (auto simp: validateTableDataAccessInput_def validateConstraint_def validateOwner_def
        canonicalPolicy_def Let_def split: option.splits if_splits)
qed

text \<open>
  C22. The permissions a policy is turned into are read back as that policy. For a valid policy with
  column grants, written to a table whose two roles hold nothing else, the inspection reports a
  managed table with the same modes, owner column, projection constraint and anonymous access,
  and materializing what was inspected gives exactly the permissions that are there. The two
  columns of a projection constraint have to differ: the rule is an object with both as keys.
\<close>

theorem inspect_materialized:
  assumes "materializeTableDataAccessPolicy p roles caps (Some g) = Inr perms"
    and "holdsPermissions t roles perms" and "authenticatedRole roles \<noteq> anonymousRole roles"
    and "constraintColumnsDiffer p"
  shows "let i = inspectTableDataAccessMetadata (Some t) roles caps in
           \<not> authenticatedCustom i \<and> \<not> anonymousCustom i \<and> \<not> containsWildcard i
           \<and> inspectedPolicy i = canonicalPolicy p
           \<and> materializeInspectedTableDataAccess i roles caps = Inr perms"
proof -
  let ?i = "inspectTableDataAccessMetadata (Some t) roles caps"
  let ?e = "parsedEntry t roles caps"
  obtain f where f: "\<And>op. (modeOf p op \<noteq> ModeNone \<longrightarrow> columns_ok caps op (modeOf p op) (ownerName p) (f op)
           \<and> shapeColumns op (modeOf p op) (ownerName p) (Some (grantFor g op)) caps = Inr (f op))
       \<and> ?e op = Some (if modeOf p op = ModeNone then None
                 else Some \<lparr>parsedMode = modeOf p op,
                   parsedOwner = (if modeOf p op = ModeAll then None else Some (ownerName p)),
                   parsedColumns = (if op = OpDelete then [] else f op), parsedConstraint = constraintFor p op\<rparr>)"
    using materialized_entry [OF assms] by metis
  obtain ac where ac: "anonymousSelect p = Some True \<longrightarrow>
             distinct ac \<and> sorted ac \<and> set ac \<subseteq> set (readableColumns caps) \<and> anonymousPermission caps (Some g) =
                 Inr [(''columns'', js_strings ac), (''filter'', JObj []), (''allow_aggregations'', JBool False)]"
      "anonymousEntry t roles caps OpSelect = Some (if anonymousSelect p = Some True then Some ac else None)"
    using materialized_anonymous [OF assms(1-3), of OpSelect] by auto
  have other: "anonymousEntry t roles caps op \<noteq> None" for op
    using materialized_anonymous [OF assms(1-3), of op] by auto
  obtain a b where ab: "validateTableDataAccessInput p caps = Inr ()"
      "authenticatedPermissions p roles caps (Some g) operationList = Inr a"
      "anonymousPermissions p roles caps (Some g) = Inr b" "perms = a @ b"
    using assms(1) unfolding materialize_split by blast
  note val = validated [OF ab(1)]
  have owner: "entryOwner (?e op) = Some k \<longleftrightarrow> modeOf p op = ModeOwner \<and> k = ownerName p" for op k
    using f [of op] val(1) [of op] by (cases "modeOf p op") (auto simp: entryOwner_def)
  have auth: "\<not> authenticatedCustom ?i"
    unfolding inspected_custom ownersAgree_def owner using f by simp
  have anon: "\<not> anonymousCustom ?i"
    unfolding inspected_anonymous using other by simp
  have wild: "\<not> containsWildcard ?i"
    unfolding inspected_wildcard using written_no_wildcard [OF assms(1,2)] by blast
  have con: "entryConstraint (?e OpSelect) = selectConstraint p"
    using f [of OpSelect] val(6) by (cases "selectConstraint p") (auto simp: entryConstraint_def constraintFor_def)
  have own: "ownerColumn (inspectedPolicy ?i) = ownerColumn (canonicalPolicy p)"
    using inspected_owner [OF auth] val(4) unfolding owner
    by (cases "ownerColumn (inspectedPolicy ?i)") (auto simp: canonicalPolicy_def usesOwnerMode_ex)
  have pol: "inspectedPolicy ?i = canonicalPolicy p"
  proof (rule tableAccess_eqI)
    show "modeOf (inspectedPolicy ?i) op = modeOf (canonicalPolicy p) op" for op
      using f [of op] by (simp add: inspected_modes entryMode_def canonicalPolicy_def)
    show "anonymousSelect (inspectedPolicy ?i) = anonymousSelect (canonicalPolicy p)"
      using ac(2) val(2) by (auto simp: inspected_anonymous canonicalPolicy_def)
  qed (simp_all add: own inspected_constraint con, simp_all add: canonicalPolicy_def)
  have "authenticatedPermissions (canonicalPolicy p) roles caps (Some (inspectedGrants ?i)) operationList = Inr a"
    unfolding ab(2) [symmetric]
  proof (rule authenticatedPermissions_cong)
    fix op assume n: "modeOf p op \<noteq> ModeNone"
    have g: "op \<noteq> OpDelete \<Longrightarrow> grantFor (inspectedGrants ?i) op = f op"
      using f [of op] n by (simp add: inspected_grants entryColumns_def)
    have again: "shapeColumns op (modeOf p op) (ownerName p) (Some (grantFor (inspectedGrants ?i) op)) caps
        = shapeColumns op (modeOf p op) (ownerName p) (Some (grantFor g op)) caps"
      using f [of op] n g shapeColumns_again [of caps op "modeOf p op" "ownerName p" "f op"]
      by (cases "op = OpDelete") (simp_all add: shapeColumns_def)
    have same: "modeOf (canonicalPolicy p) op = modeOf p op" "constraintFor (canonicalPolicy p) op = constraintFor p op"
      by (simp_all add: canonicalPolicy_def constraintFor_def)
    show "authenticatedPermission (canonicalPolicy p) caps (Some (inspectedGrants ?i)) op
        = authenticatedPermission p caps (Some g) op"
    proof (cases "modeOf p op = ModeOwner")
      case True
      then have "ownerName (canonicalPolicy p) = ownerName p"
        by (auto simp: ownerName_def canonicalPolicy_def usesOwnerMode_ex)
      then show ?thesis
        using again unfolding authenticatedPermission_shape same by simp
    next
      case False
      then have all: "modeOf p op = ModeAll"
        using n val(1) [of op] by (cases "modeOf p op") auto
      have "shapeColumns op ModeAll o1 x caps = shapeColumns op ModeAll o2 x caps" for o1 o2 x
        by (simp add: shapeColumns_def operationColumns_def)
      moreover have "permShape op ModeAll (ownerName (canonicalPolicy p)) = permShape op ModeAll (ownerName p)"
        by (intro ext) (rule permShape_all)
      ultimately show ?thesis
        using again unfolding authenticatedPermission_shape same all by (metis option.map(2))
    qed
  qed (simp add: canonicalPolicy_def)
  moreover have "anonymousPermissions (canonicalPolicy p) roles caps (Some (inspectedGrants ?i)) = Inr b"
  proof (cases "anonymousSelect p = Some True")
    case True
    then have "grantAnonymous (inspectedGrants ?i) = ac"
      using ac(2) by (simp add: inspected_anonymous)
    then have "anonymousPermission caps (Some (inspectedGrants ?i)) = anonymousPermission caps (Some g)"
      using ac(1) True
      by (simp add: anonymousPermission_def [of caps "Some (inspectedGrants ?i)"] validateGrantColumns_def sorted_sort_id)
    with ab(3) True show ?thesis by (simp add: anonymousPermissions_def canonicalPolicy_def)
  qed (use ab(3) in \<open>simp add: anonymousPermissions_def canonicalPolicy_def\<close>)
  ultimately have "materializeInspectedTableDataAccess ?i roles caps = Inr perms"
    using auth anon wild canonical_valid [OF ab(1)]
    by (simp add: materializeInspectedTableDataAccess_def pol materialize_split ab(4))
  with auth anon wild pol show ?thesis by (simp add: Let_def)
qed

end
