(* ===== verification/Access_Soundness.thy ===== *)
theory Access_Soundness
  imports Inspection_Properties
begin

text \<open>
  What a managed table grants. The engine that enforces the permissions is not part of the
  repository: it is the parameter of the locale, with the laws of its documented rule language that
  the written rules use. An evaluator of that language shows that the laws can hold.
\<close>

locale permission_engine =
  fixes holds :: "(string \<Rightarrow> jsval) \<Rightarrow> 'row \<Rightarrow> jsval \<Rightarrow> bool"
    and col :: "'row \<Rightarrow> string \<Rightarrow> jsval"
    and related :: "'row \<Rightarrow> string \<Rightarrow> 'row list"
    and isColumn :: "'row \<Rightarrow> string \<Rightarrow> bool"
    and isRelation :: "'row \<Rightarrow> string \<Rightarrow> bool"
  assumes holds_Nil: "holds s r (JObj [])"
    and holds_Cons: "holds s r (JObj (x # y # ps)) \<longleftrightarrow> holds s r (JObj [x]) \<and> holds s r (JObj (y # ps))"
    and holds_and: "holds s r (JObj [(''_and'', JArr rs)]) \<longleftrightarrow> (\<forall>x \<in> set rs. holds s r x)"
    and holds_user: "isColumn r k \<Longrightarrow> holds s r (JObj [(k, eqVariable userIdVariable)])
           \<longleftrightarrow> col r k = s userIdVariable \<and> col r k \<noteq> JNull"
    and holds_true: "isColumn r k \<Longrightarrow> holds s r (JObj [(k, JObj [(''_eq'', JBool True)])]) \<longleftrightarrow> col r k = JBool True"
    and holds_key: "isColumn r k \<Longrightarrow> holds s r (JObj [(k, JObj [(''_has_key'', JStr environmentVariable)])])
           \<longleftrightarrow> (\<exists>ps. col r k = JObj ps \<and> js_string_of (s environmentVariable) \<in> set (map fst ps))"
    and holds_related: "isRelation r k \<Longrightarrow> holds s r (JObj [(k, c)]) \<longleftrightarrow> (\<exists>x \<in> set (related r k). holds s x c)"

text \<open>What a policy means.\<close>

definition ownedBy :: "('row \<Rightarrow> string \<Rightarrow> jsval) \<Rightarrow> (string \<Rightarrow> jsval) \<Rightarrow> 'row \<Rightarrow> string \<Rightarrow> bool" where
  "ownedBy col s r k \<longleftrightarrow> col r k = s userIdVariable \<and> col r k \<noteq> JNull"

definition projectionRelation :: "projectionConstraint \<Rightarrow> string" where
  "projectionRelation c = hd (the (relationshipPath c))"

definition projectionAllows ::
  "('row \<Rightarrow> string \<Rightarrow> jsval) \<Rightarrow> ('row \<Rightarrow> string \<Rightarrow> 'row list) \<Rightarrow> (string \<Rightarrow> jsval) \<Rightarrow> 'row \<Rightarrow> projectionConstraint \<Rightarrow> bool" where
  "projectionAllows col related s r c \<longleftrightarrow>
     (\<exists>x \<in> set (related r (projectionRelation c)).
        ownedBy col s x (actorColumn c) \<and> col x (allowColumn c) = JBool True
        \<and> (case environmentColumn c of None \<Rightarrow> True
            | Some e \<Rightarrow> (\<exists>ps. col x e = JObj ps \<and> js_string_of (s environmentVariable) \<in> set (map fst ps))))"

definition policyAdmits ::
  "('row \<Rightarrow> string \<Rightarrow> jsval) \<Rightarrow> ('row \<Rightarrow> string \<Rightarrow> 'row list) \<Rightarrow> (string \<Rightarrow> jsval) \<Rightarrow> 'row \<Rightarrow> tableAccess
   \<Rightarrow> daOperation \<Rightarrow> bool" where
  "policyAdmits col related s r p op \<longleftrightarrow>
     modeOf p op = ModeAll
     \<or> modeOf p op = ModeOwner \<and> ownedBy col s r (ownerName p)
       \<and> (case constraintFor p op of None \<Rightarrow> True | Some c \<Rightarrow> projectionAllows col related s r c)"

text \<open>The names a policy mentions are columns and relationships of the table.\<close>

definition rowFits ::
  "('row \<Rightarrow> string \<Rightarrow> 'row list) \<Rightarrow> ('row \<Rightarrow> string \<Rightarrow> bool) \<Rightarrow> ('row \<Rightarrow> string \<Rightarrow> bool) \<Rightarrow> 'row \<Rightarrow> tableAccess \<Rightarrow> bool" where
  "rowFits related isColumn isRelation r p \<longleftrightarrow>
     (case ownerColumn p of None \<Rightarrow> True | Some k \<Rightarrow> isColumn r k)
     \<and> (case selectConstraint p of None \<Rightarrow> True
        | Some c \<Rightarrow> isRelation r (projectionRelation c)
            \<and> (\<forall>x \<in> set (related r (projectionRelation c)).
                 isColumn x (actorColumn c) \<and> isColumn x (allowColumn c)
                 \<and> (case environmentColumn c of None \<Rightarrow> True | Some e \<Rightarrow> isColumn x e)))"

context permission_engine
begin

lemma holds_object: "holds s r (JObj ps) \<longleftrightarrow> (\<forall>x \<in> set ps. holds s r (JObj [x]))"
proof (induction ps)
  case (Cons x ps)
  then show ?case by (cases ps) (simp_all add: holds_Cons)
qed (simp add: holds_Nil)

lemma holds_ownerRule: "isColumn r k \<Longrightarrow> holds s r (ownerRule k) \<longleftrightarrow> ownedBy col s r k"
  by (simp add: ownerRule_def holds_user ownedBy_def)

end

subsection \<open>The shape of the rules that are read as managed\<close>

lemma parseOwnerRule_Some: "parseOwnerRule v = Some k \<longleftrightarrow> v = ownerRule k"
  by (cases v rule: parseOwnerRule.cases) (auto simp: ownerRule_def)

fun_cases andParts_elim: "andParts v = Some x"
fun_cases relationshipEntries_elim: "relationshipEntries v = Some x"

lemma entryWith_Some: "entryWith c es = Some k \<Longrightarrow> (k, c) \<in> set es"
  by (induction es) (auto simp: entryWith_def split: if_splits)

text \<open>The conditions of a projection, whatever their order.\<close>

definition projectionEntries :: "projectionConstraint \<Rightarrow> (string \<times> jsval) set" where
  "projectionEntries c =
     {(actorColumn c, eqVariable userIdVariable), (allowColumn c, JObj [(''_eq'', JBool True)])}
     \<union> (case environmentColumn c of None \<Rightarrow> {}
        | Some e \<Rightarrow> {(e, JObj [(''_has_key'', JStr environmentVariable)])})"

lemma set_of_length: "finite A \<Longrightarrow> A \<subseteq> set es \<Longrightarrow> length es \<le> card A \<Longrightarrow> set es = A"
  using card_length [of es] card_seteq [of "set es" A] by simp

lemma parseProjectionParts_Some:
  assumes "parseProjectionParts owner rel es = Some (k, c)"
  shows "k = owner \<and> relationshipPath c = Some [rel] \<and> set es = projectionEntries c"
proof -
  let ?u = "eqVariable userIdVariable" and ?t = "JObj [(''_eq'', JBool True)]"
    and ?h = "JObj [(''_has_key'', JStr environmentVariable)]"
  obtain a b where ab: "entryWith ?u es = Some a" "entryWith ?t es = Some b" "a \<noteq> b"
      "length es = 2 \<or> length es = 3 \<and> entryWith ?h es \<noteq> None"
      "k = owner" "relationshipPath c = Some [rel]" "actorColumn c = a" "allowColumn c = b"
      "environmentColumn c = entryWith ?h es"
    using assms by (auto simp: parseProjectionParts_def Let_def split: if_splits option.splits)
  have mem: "(a, ?u) \<in> set es" "(b, ?t) \<in> set es" "\<And>e. entryWith ?h es = Some e \<Longrightarrow> (e, ?h) \<in> set es"
    using ab(1,2) entryWith_Some by blast+
  have three: "card {(a, ?u), (b, ?t)} = 2" "\<And>e. card {(a, ?u), (b, ?t), (e, ?h)} = 3"
    by (simp_all add: eqVariable_def)
  have "set es = projectionEntries c"
  proof (cases "entryWith ?h es")
    case None
    then have "length es = 2" "projectionEntries c = {(a, ?u), (b, ?t)}"
      using ab by (auto simp: projectionEntries_def)
    moreover have "{(a, ?u), (b, ?t)} \<subseteq> set es" using mem by blast
    ultimately show ?thesis
      using set_of_length [of "{(a, ?u), (b, ?t)}" es] three(1) by simp
  next
    case (Some e)
    then have "projectionEntries c = {(a, ?u), (b, ?t), (e, ?h)}"
      using ab by (auto simp: projectionEntries_def)
    moreover have "{(a, ?u), (b, ?t), (e, ?h)} \<subseteq> set es" using mem Some by blast
    moreover have "length es \<le> 3" using ab(4) by linarith
    ultimately show ?thesis
      using set_of_length [of "{(a, ?u), (b, ?t), (e, ?h)}" es] three(2) [of e] by simp
  qed
  with ab show ?thesis by blast
qed

lemma parseProjectionRule_Some:
  assumes "parseProjectionRule v = Some (k, c)"
  shows "\<exists>es. v = JObj [(''_and'', JArr [ownerRule k, JObj [(projectionRelation c, JObj es)]])]
           \<and> set es = projectionEntries c"
proof -
  note def = assms [unfolded parseProjectionRule_def]
  obtain first second where 1: "andParts v = Some (first, second)"
    using def by (cases "andParts v") auto
  obtain owner where 2: "parseOwnerRule first = Some owner" "owner \<noteq> []"
    using def 1 by (cases "parseOwnerRule first") (auto split: if_splits)
  obtain rel es where 3: "relationshipEntries second = Some (rel, es)"
    using def 1 2 by (cases "relationshipEntries second") auto
  have "parseProjectionParts owner rel es = Some (k, c)"
    using def 1 2 3 by simp
  note parts = parseProjectionParts_Some [OF this]
  have "v = JObj [(''_and'', JArr [first, second])]"
    by (rule andParts_elim [OF 1]) (simp split: if_splits)
  moreover have "second = JObj [(rel, JObj es)]"
    by (rule relationshipEntries_elim [OF 3]) (simp split: if_splits)
  ultimately show ?thesis
    using parts 2(1) by (simp add: projectionRelation_def parseOwnerRule_Some)
qed

lemma parseAuthenticatedPermission_Some:
  assumes m: "parseAuthenticatedPermission op perm caps = Some m"
  shows "(ruleOf op perm = JObj [] \<and> parsedMode m = ModeAll \<and> parsedOwner m = None \<and> parsedConstraint m = None)
       \<or> (\<exists>k. parsedMode m = ModeOwner \<and> parsedOwner m = Some k
            \<and> (ruleOf op perm = ownerRule k \<and> parsedConstraint m = None
               \<or> (\<exists>c. op = OpSelect \<and> parseProjectionRule (ruleOf op perm) = Some (k, c) \<and> parsedConstraint m = Some c)))"
proof -
  define pr where "pr = (if op = OpSelect then parseProjectionRule (ruleOf op perm) else None)"
  note m' = m [unfolded parseAuthenticatedPermission_def Let_def, folded pr_def]
  have empty: "parseProjectionRule (JObj []) = None" by (simp add: parseProjectionRule_def)
  show ?thesis
  proof (cases "ruleOf op perm = JObj []")
    case True
    then have "pr = None" using empty unfolding pr_def by presburger
    with m' True show ?thesis by (auto simp: isEmptyObject_def)
  next
    case False
    show ?thesis
    proof (cases pr)
      case None
      with m' False obtain k where "parseOwnerRule (ruleOf op perm) = Some k"
        by (cases "parseOwnerRule (ruleOf op perm)") (auto simp: isEmptyObject_def)
      with m' False None show ?thesis
        by (auto simp: isEmptyObject_def parseOwnerRule_Some split: if_splits)
    next
      case (Some kc)
      obtain k c where kc: "kc = (k, c)" by (cases kc)
      have "op = OpSelect \<and> parseProjectionRule (ruleOf op perm) = Some (k, c)"
        using Some kc by (auto simp: pr_def split: if_splits)
      with m' False Some kc show ?thesis by (auto simp: isEmptyObject_def split: if_splits)
    qed
  qed
qed

context permission_engine
begin

lemma holds_projection:
  assumes es: "set es = projectionEntries c" and cols: "isColumn x (actorColumn c)" "isColumn x (allowColumn c)"
    and env: "case environmentColumn c of None \<Rightarrow> True | Some e \<Rightarrow> isColumn x e"
  shows "holds s x (JObj es) \<longleftrightarrow> ownedBy col s x (actorColumn c) \<and> col x (allowColumn c) = JBool True
     \<and> (case environmentColumn c of None \<Rightarrow> True
         | Some e \<Rightarrow> (\<exists>ps. col x e = JObj ps \<and> js_string_of (s environmentVariable) \<in> set (map fst ps)))"
  using cols env unfolding holds_object [of s x es] es
  by (cases "environmentColumn c")
     (auto simp: projectionEntries_def holds_user holds_true holds_key ownedBy_def)

lemma holds_parsed:
  assumes m: "parseAuthenticatedPermission op perm caps = Some m"
    and own: "\<And>k. parsedOwner m = Some k \<Longrightarrow> isColumn r k"
    and con: "\<And>c. parsedConstraint m = Some c \<Longrightarrow> isRelation r (projectionRelation c)
            \<and> (\<forall>x \<in> set (related r (projectionRelation c)).
                 isColumn x (actorColumn c) \<and> isColumn x (allowColumn c)
                 \<and> (case environmentColumn c of None \<Rightarrow> True | Some e \<Rightarrow> isColumn x e))"
  shows "holds s r (ruleOf op perm) \<longleftrightarrow>
     (case parsedOwner m of None \<Rightarrow> True
      | Some k \<Rightarrow> ownedBy col s r k
          \<and> (case parsedConstraint m of None \<Rightarrow> True | Some c \<Rightarrow> projectionAllows col related s r c))"
  using parseAuthenticatedPermission_Some [OF m]
proof (elim disjE exE conjE)
  fix k c assume k: "parsedOwner m = Some k" "parsedConstraint m = Some c"
    and pr: "parseProjectionRule (ruleOf op perm) = Some (k, c)"
  obtain es where es: "ruleOf op perm = JObj [(''_and'', JArr [ownerRule k, JObj [(projectionRelation c, JObj es)]])]"
      "set es = projectionEntries c"
    using parseProjectionRule_Some [OF pr] by blast
  have "holds s r (JObj [(projectionRelation c, JObj es)]) \<longleftrightarrow> projectionAllows col related s r c"
    using con [OF k(2)] holds_projection [OF es(2)]
    by (auto simp: holds_related projectionAllows_def)
  then show ?thesis
    using own [OF k(1)] k by (simp add: es(1) holds_and holds_ownerRule)
qed (simp_all add: holds_Nil holds_ownerRule own)

end

subsection \<open>Columns\<close>

definition listedColumns :: "(string \<times> jsval) list \<Rightarrow> string list" where
  "listedColumns perm = (case permGet perm ''columns'' of JArr items \<Rightarrow> map js_string_of items | _ \<Rightarrow> [])"

lemma parseExplicitColumns_Some:
  "parseExplicitColumns (permGet perm ''columns'') allowed = Some cs
     \<Longrightarrow> set (listedColumns perm) = set cs \<and> set cs \<subseteq> set allowed \<and> distinct (listedColumns perm)"
  by (auto simp: parseExplicitColumns_def listedColumns_def Let_def split: jsval.splits if_splits)

text \<open>Writes keep a row with its owner: the owner column cannot be written, an insert presets it,
  and the check of an update asks for nothing but the rule itself.\<close>

definition writesStayOwned :: "daOperation \<Rightarrow> string option \<Rightarrow> (string \<times> jsval) list \<Rightarrow> bool" where
  "writesStayOwned op owner perm \<longleftrightarrow>
     (op = OpInsert \<longrightarrow>
        (case owner of
           Some k \<Rightarrow> k \<notin> set (listedColumns perm) \<and> permGet perm ''set'' = JObj [(k, JStr userIdVariable)]
         | None \<Rightarrow> isEmptyOrMissingObject (permGet perm ''set'')))
     \<and> (op = OpUpdate \<longrightarrow>
        (case owner of Some k \<Rightarrow> k \<notin> set (listedColumns perm) | None \<Rightarrow> True)
        \<and> isEmptyOrMissingObject (permGet perm ''set'')
        \<and> (isEmptyOrMissingObject (permGet perm ''check'') \<or> permGet perm ''check'' = ruleOf op perm))"

lemma parsed_columns:
  assumes "parseAuthenticatedPermission op perm caps = Some m"
  shows "(op \<noteq> OpDelete \<longrightarrow> set (listedColumns perm) = set (parsedColumns m)
            \<and> set (parsedColumns m) \<subseteq> set (capabilityFor caps op))
       \<and> writesStayOwned op (parsedOwner m) perm"
proof -
  obtain cs where "permissionColumns op perm caps (ruleOf op perm) (parsedOwner m) = Some cs" "parsedColumns m = cs"
    using assms by (auto simp: parseAuthenticatedPermission_def Let_def split: if_splits)
  then show ?thesis
    by (cases op; cases "parsedOwner m")
       (auto simp: permissionColumns_def writesStayOwned_def split: if_splits option.splits
         dest!: parseExplicitColumns_Some)
qed

subsection \<open>A managed table grants its policy\<close>


subsection \<open>An evaluator of the rule language\<close>

text \<open>A row with its columns and its related rows.\<close>

datatype dbRow = DbRow "(string \<times> jsval) list" "(string \<times> dbRow list) list"

fun rowColumn :: "dbRow \<Rightarrow> string \<Rightarrow> jsval" where
  "rowColumn (DbRow cs rs) k = (case map_of cs k of Some v \<Rightarrow> v | None \<Rightarrow> JUndef)"

fun rowRelated :: "dbRow \<Rightarrow> string \<Rightarrow> dbRow list" where
  "rowRelated (DbRow cs rs) k = (case map_of rs k of Some xs \<Rightarrow> xs | None \<Rightarrow> [])"

fun rowIsRelation :: "dbRow \<Rightarrow> string \<Rightarrow> bool" where
  "rowIsRelation (DbRow cs rs) k \<longleftrightarrow> k \<noteq> ''_and'' \<and> k \<in> set (map fst rs)"

fun rowIsColumn :: "dbRow \<Rightarrow> string \<Rightarrow> bool" where
  "rowIsColumn (DbRow cs rs) k \<longleftrightarrow> k \<noteq> ''_and'' \<and> k \<in> set (map fst cs) \<and> k \<notin> set (map fst rs)"

definition operand :: "(string \<Rightarrow> jsval) \<Rightarrow> jsval \<Rightarrow> jsval" where
  "operand s x = (case x of JStr n \<Rightarrow> if js_startsWith n ''X-Hasura-'' then s n else x | _ \<Rightarrow> x)"

definition conditionHolds :: "(string \<Rightarrow> jsval) \<Rightarrow> jsval \<Rightarrow> jsval \<Rightarrow> bool" where
  "conditionHolds s v c =
     (case c of
        JObj [(operator, x)] \<Rightarrow>
          if operator = ''_eq'' then v = operand s x \<and> v \<noteq> JNull
          else if operator = ''_has_key''
          then (case v of JObj ps \<Rightarrow> js_string_of (operand s x) \<in> set (map fst ps) | _ \<Rightarrow> False)
          else False
      | _ \<Rightarrow> False)"

lemma size_object_member: "(k, c) \<in> set ps \<Longrightarrow> size c < size (JObj ps)"
  by (induction ps) auto

lemma size_array_member: "x \<in> set rs \<Longrightarrow> size x < size (JArr rs)"
  by (induction rs) auto

function evalRule :: "(string \<Rightarrow> jsval) \<Rightarrow> dbRow \<Rightarrow> jsval \<Rightarrow> bool" where
  "evalRule s r v =
     (case v of
        JObj ps \<Rightarrow> (\<forall>(k, c) \<in> set ps.
          if k = ''_and''
          then (case c of JArr rs \<Rightarrow> (\<forall>x \<in> set rs. evalRule s r x) | _ \<Rightarrow> False)
          else if rowIsRelation r k then (\<exists>x \<in> set (rowRelated r k). evalRule s x c)
          else conditionHolds s (rowColumn r k) c)
      | _ \<Rightarrow> False)"
  by pat_completeness auto

termination evalRule
proof (relation "measure (\<lambda>(s, r, v). size v)", goal_cases)
  case (2 s r v ps z k c rs x)
  then show ?case
    using size_object_member [of k c ps] size_array_member [of x rs] by auto
next
  case (3 s r v ps z k c x)
  then show ?case using size_object_member [of k c ps] by auto
qed simp

declare evalRule.simps [simp del]

lemma rowColumn_disjoint: "rowIsColumn r k \<Longrightarrow> k \<noteq> ''_and'' \<and> \<not> rowIsRelation r k"
  by (cases r) auto

interpretation documented_rules: permission_engine evalRule rowColumn rowRelated rowIsColumn rowIsRelation
proof (unfold_locales, goal_cases)
  case (7 r k s c)
  then have "k \<noteq> ''_and''" by (cases r) auto
  with 7 show ?case by (simp add: evalRule.simps [of s r])
qed (auto simp: evalRule.simps [of _ _ "JObj _"] conditionHolds_def operand_def eqVariable_def userIdVariable_def
    environmentVariable_def dest: rowColumn_disjoint split: jsval.splits)

subsection \<open>A concrete table\<close>

definition demoConstraint :: projectionConstraint where
  "demoConstraint =
     \<lparr>constraintType = ''authorization_projection'', otherKeys = [], relationshipPath = Some [''grants''],
      actorColumn = ''actor'', allowColumn = ''allow'', environmentColumn = None\<rparr>"

definition demoPolicy :: tableAccess where
  "demoPolicy =
     \<lparr>policyVersion = Some 2, selectMode = ModeOwner, insertMode = ModeOwner, updateMode = ModeAll,
      deleteMode = ModeNone, ownerColumn = Some ''owner'', selectConstraint = Some demoConstraint,
      anonymousSelect = Some True\<rparr>"

definition demoRoles :: roleNames where
  "demoRoles = \<lparr>authenticatedRole = ''u'', anonymousRole = ''a''\<rparr>"

definition demoCaps :: columnCapabilities where
  "demoCaps = \<lparr>readableColumns = [''t'', ''owner''], insertableColumns = [''t'', ''owner''],
     updateableColumns = [''t'']\<rparr>"

definition demoGrants :: columnGrants where
  "demoGrants = \<lparr>grantSelect = [''t'', ''owner''], grantInsert = [''t'', ''owner''], grantUpdate = [''t''],
     grantAnonymous = [''t'']\<rparr>"

definition demoPerms :: "materializedPermission list" where
  "demoPerms =
     [\<lparr>permRole = ''u'', permOperation = OpSelect,
       permission = permShape OpSelect ModeOwner ''owner'' (Some demoConstraint) [''owner'', ''t'']\<rparr>,
      \<lparr>permRole = ''u'', permOperation = OpInsert, permission = permShape OpInsert ModeOwner ''owner'' None [''t'']\<rparr>,
      \<lparr>permRole = ''u'', permOperation = OpUpdate, permission = permShape OpUpdate ModeAll ''owner'' None [''t'']\<rparr>,
      \<lparr>permRole = ''a'', permOperation = OpSelect, permission = permShape OpSelect ModeAll [] None [''t'']\<rparr>]"

definition entriesFor :: "materializedPermission list \<Rightarrow> daOperation \<Rightarrow> permissionEntry list" where
  "entriesFor perms op =
     map (\<lambda>m. \<lparr>entryRole = permRole m, entryPermission = permission m\<rparr>) (filter (\<lambda>m. permOperation m = op) perms)"

text \<open>A table whose metadata holds given permissions.\<close>

definition tableWith :: "materializedPermission list \<Rightarrow> tableMetadata" where
  "tableWith perms =
     \<lparr>metaSchema = ''s'', metaTable = ''t'', selectPermissions = entriesFor perms OpSelect,
      insertPermissions = entriesFor perms OpInsert, updatePermissions = entriesFor perms OpUpdate,
      deletePermissions = entriesFor perms OpDelete\<rparr>"

lemma tableWith_holds: "holdsPermissions (tableWith perms) roles perms"
proof -
  have "getPermissionEntries (tableWith perms) op = entriesFor perms op" for op
    by (cases op) (simp_all add: tableWith_def)
  then show ?thesis
    by (simp add: holdsPermissions_def entriesOf_def entriesFor_def permsFor_def filter_map comp_def conj_commute)
qed

lemma demo_materialized: "materializeTableDataAccessPolicy demoPolicy demoRoles demoCaps (Some demoGrants) = Inr demoPerms"
  by code_simp

theorem inspect_materialized_witness:
  "inspectedPolicy (inspectTableDataAccessMetadata (Some (tableWith demoPerms)) demoRoles demoCaps) = canonicalPolicy demoPolicy"
  using inspect_materialized [OF demo_materialized tableWith_holds]
  by (simp add: demoRoles_def constraintColumnsDiffer_def demoPolicy_def demoConstraint_def Let_def)

definition demoVariables :: "string \<Rightarrow> jsval" where
  "demoVariables n = (if n = userIdVariable then JStr ''7'' else JUndef)"

definition demoRow :: dbRow where
  "demoRow = DbRow [(''t'', JNum 1), (''owner'', JStr ''7'')]
     [(''grants'', [DbRow [(''actor'', JStr ''7''), (''allow'', JBool True)] []])]"

definition demoInspection :: inspection where
  "demoInspection = inspectTableDataAccessMetadata (Some (tableWith demoPerms)) demoRoles demoCaps"

lemma demo_inspected:
  "\<not> authenticatedCustom demoInspection" "\<not> anonymousCustom demoInspection"
  "selectMode (inspectedPolicy demoInspection) = ModeOwner"
  "ownerColumn (inspectedPolicy demoInspection) = Some ''owner''"
  "selectConstraint (inspectedPolicy demoInspection) = Some demoConstraint"
  by code_simp+

lemma demo_entries:
  "entriesOf (tableWith demoPerms) OpSelect (authenticatedRole demoRoles)
     = [\<lparr>entryRole = ''u'', entryPermission = permShape OpSelect ModeOwner ''owner'' (Some demoConstraint) [''owner'', ''t'']\<rparr>]"
  by code_simp

lemma demo_fits: "rowFits rowRelated rowIsColumn rowIsRelation demoRow (inspectedPolicy demoInspection)"
  unfolding rowFits_def demo_inspected
  by (simp add: demoRow_def demoConstraint_def projectionRelation_def)


end
