(* ===== verification/Managed_Properties.thy ===== *)
theory Managed_Properties
  imports Managed_Policy Access_Soundness
begin

text \<open>
  Snapshots are canonical, the recoverable states of an interrupted operation are the states its
  commands pass through, and neither a reconciliation nor a grant extension goes beyond what it
  may change.
\<close>

subsection \<open>Sorting with a collation\<close>

text \<open>What a comparison function has to be for a sort to mean something.\<close>

definition collation :: "('a \<Rightarrow> 'a \<Rightarrow> int) \<Rightarrow> bool" where
  "collation cmp \<longleftrightarrow>
     (\<forall>a b. cmp a b \<le> 0 \<longleftrightarrow> 0 \<le> cmp b a)
     \<and> (\<forall>a b c. cmp a b \<le> 0 \<longrightarrow> cmp b c \<le> 0 \<longrightarrow> cmp a c \<le> 0)"

lemma collation_swap: "collation cmp \<Longrightarrow> 0 \<le> cmp b a \<longleftrightarrow> cmp a b \<le> 0"
  unfolding collation_def by blast

lemma collation_total: "collation cmp \<Longrightarrow> \<not> cmp a b \<le> 0 \<Longrightarrow> cmp b a \<le> 0"
  using collation_swap [of cmp a b] by linarith

lemma collation_trans: "collation cmp \<Longrightarrow> cmp a b \<le> 0 \<Longrightarrow> cmp b c \<le> 0 \<Longrightarrow> cmp a c \<le> 0"
  unfolding collation_def by blast

abbreviation sortedBy :: "('a \<Rightarrow> 'a \<Rightarrow> int) \<Rightarrow> 'a list \<Rightarrow> bool" where
  "sortedBy cmp \<equiv> sorted_wrt (\<lambda>a b. cmp a b \<le> 0)"

lemma sortedBy_insert: "collation cmp \<Longrightarrow> sortedBy cmp ys \<Longrightarrow> sortedBy cmp (sortInsert cmp x ys)"
  by (induction ys) (auto dest: collation_total intro: collation_trans)

lemma sortedBy_js_sort: "collation cmp \<Longrightarrow> sortedBy cmp (js_sort cmp xs)"
  unfolding js_sort_def by (induction xs) (auto intro: sortedBy_insert)

lemma js_sort_id: "sortedBy cmp xs \<Longrightarrow> js_sort cmp xs = xs"
proof (induction xs)
  case (Cons x xs)
  then have "js_sort cmp (x # xs) = sortInsert cmp x xs" by (simp add: js_sort_def)
  with Cons.prems show ?case by (cases xs) auto
qed (simp add: js_sort_def)

lemma distinct_js_sort: "distinct (map f (js_sort cmp xs)) \<longleftrightarrow> distinct (map f xs)"
proof -
  have ins: "distinct (map f (sortInsert cmp x ys)) \<longleftrightarrow> f x \<notin> f ` set ys \<and> distinct (map f ys)" for x ys
    by (induction ys) auto
  show ?thesis
  proof (induction xs)
    case (Cons x xs)
    then show ?case using ins [of x "js_sort cmp xs"] by (simp add: js_sort_def) (metis js_sort_def set_js_sort)
  qed (simp add: js_sort_def)
qed

lemma collation_fst: "collation cmp \<Longrightarrow> collation (\<lambda>l r. cmp (fst l) (fst r))"
  by (simp add: collation_def) blast

lemma comparePermissions_le:
  assumes "collation cmp"
  shows "comparePermissions cmp l r \<le> 0 \<longleftrightarrow>
     cmp (permRole l) (permRole r) \<le> 0
     \<and> (cmp (permRole r) (permRole l) \<le> 0 \<longrightarrow>
          cmp (operationName (permOperation l)) (operationName (permOperation r)) \<le> 0)"
    and "0 \<le> comparePermissions cmp r l \<longleftrightarrow>
     cmp (permRole l) (permRole r) \<le> 0
     \<and> (cmp (permRole r) (permRole l) \<le> 0 \<longrightarrow>
          cmp (operationName (permOperation l)) (operationName (permOperation r)) \<le> 0)"
  using collation_swap [OF assms, of "permRole l" "permRole r"] collation_swap [OF assms, of "permRole r" "permRole l"]
    collation_swap [OF assms, of "operationName (permOperation l)" "operationName (permOperation r)"]
    collation_swap [OF assms, of "operationName (permOperation r)" "operationName (permOperation l)"]
  unfolding comparePermissions_def by (simp_all, linarith+)

lemma collation_permissions:
  assumes "collation cmp"
  shows "collation (comparePermissions cmp)"
  using collation_trans [OF assms] unfolding collation_def comparePermissions_le [OF assms] by blast

subsection \<open>Canonical JSON\<close>

lemma sortJson_string [simp]: "js_is_string (sortJson collate v) = js_is_string v"
  by (cases v) auto

lemma sortJson_idem:
  "collation collate \<Longrightarrow> sortJson collate (sortJson collate v) = sortJson collate v"
proof (induction collate v rule: sortJson.induct)
  case (1 collate items)
  show ?case
  proof (cases "list_all js_is_string items")
    case True
    then show ?thesis by (simp add: list_all_iff comp_def sorted_sort_id)
  next
    case False
    then have "\<not> list_all js_is_string (map (sortJson collate) items)" by (simp add: list_all_iff)
    with 1 False show ?thesis by simp
  qed
next
  case (2 collate ps)
  let ?c = "\<lambda>l r. collate (fst l) (fst r)"
  let ?qs = "map (\<lambda>(k, v). (k, sortJson collate v)) (js_sort ?c ps)"
  have "sortedBy ?c (js_sort ?c ps)"
    by (rule sortedBy_js_sort [OF collation_fst [OF 2(2)]])
  then have "sortedBy ?c ?qs"
    by (simp add: sorted_wrt_map case_prod_beta)
  then have "js_sort ?c ?qs = ?qs" by (rule js_sort_id)
  moreover have "sortJson collate (sortJson collate v) = sortJson collate v" if "(k, v) \<in> set (js_sort ?c ps)" for k v
    using 2 that by blast
  ultimately show ?case by (auto intro!: map_cong)
qed (simp_all add: js_sort_def)

subsection \<open>Snapshots\<close>

definition canonicalPermission :: "(string \<Rightarrow> string \<Rightarrow> int) \<Rightarrow> materializedPermission \<Rightarrow> bool" where
  "canonicalPermission collate m \<longleftrightarrow>
     sortJson collate (JObj (permission m)) = JObj (permission m) \<and> permGet (permission m) ''columns'' \<noteq> JStr ''*''"

text \<open>Normal forms of snapshots: canonical permissions, one per role and operation, in order.\<close>

definition isSnapshot :: "(string \<Rightarrow> string \<Rightarrow> int) \<Rightarrow> materializedPermission list \<Rightarrow> bool" where
  "isSnapshot collate ms \<longleftrightarrow>
     (\<forall>m \<in> set ms. canonicalPermission collate m) \<and> sortedBy (comparePermissions collate) ms"

lemma map_of_sorted:
  assumes "distinct (map fst ps)"
  shows "map_of (map (\<lambda>(k, v). (k, f v)) (js_sort cmp ps)) k = map_option f (map_of ps k)"
proof -
  have "map_of (js_sort cmp ps) j = Some v \<longleftrightarrow> map_of ps j = Some v" for j v
    using assms by (simp add: map_of_eq_Some_iff distinct_js_sort)
  then have "map_of (js_sort cmp ps) = map_of ps"
    by (intro ext) (metis not_Some_eq)
  then show ?thesis by (simp add: map_of_map)
qed

lemma normalizePermissions_Inr:
  "normalizePermissions collate ms = Inr ns \<Longrightarrow>
     map permissionKey ns = map permissionKey ms \<and> length ns = length ms"
  by (induction ms arbitrary: ns) (auto simp: permissionKey_def)

lemma permGet_map: "permGet (map (\<lambda>(k, v). (k, f v)) ps) k = (case map_of ps k of Some v \<Rightarrow> f v | None \<Rightarrow> JUndef)"
  by (simp add: permGet_def map_of_map split: option.splits)

text \<open>The entries of a JSON object have distinct names.\<close>

abbreviation properObject :: "(string \<times> jsval) list \<Rightarrow> bool" where
  "properObject ps \<equiv> distinct (map fst ps)"

lemma normalizePermission_canonical:
  assumes "collation collate" "properObject (permission m)" "normalizePermission collate (permission m) = Inr p"
  shows "canonicalPermission collate (m\<lparr>permission := p\<rparr>)"
proof -
  have p: "p = map (\<lambda>(k, v). (k, sortJson collate v)) (js_sort (\<lambda>l r. collate (fst l) (fst r)) (permission m))"
      "permGet (permission m) ''columns'' \<noteq> JStr ''*''"
    using assms(3) by (auto simp: normalizePermission_def split: if_splits)
  then have j: "JObj p = sortJson collate (JObj (permission m))" by simp
  have "permGet p ''columns'' \<noteq> JStr ''*''"
  proof -
    have "sortJson collate v = JStr s \<Longrightarrow> v = JStr s" for v s by (cases v) (auto split: if_splits)
    then show ?thesis
      using p(2) map_of_sorted [OF assms(2), of "sortJson collate"]
      by (auto simp: p(1) permGet_def split: option.splits)
  qed
  then show ?thesis
    using sortJson_idem [OF assms(1), of "JObj (permission m)"] by (simp add: canonicalPermission_def j)
qed

lemma createPermissionSnapshot_Inr:
  assumes "collation collate" "\<forall>m \<in> set ms. properObject (permission m)"
    and s: "createPermissionSnapshot collate ms = Inr S"
  shows "isSnapshot collate S" "distinct (map permissionKey S) = distinct (map permissionKey ms)" "length S = length ms"
proof -
  obtain ns where ns: "normalizePermissions collate ms = Inr ns" "S = js_sort (comparePermissions collate) ns"
    using s by (auto simp: createPermissionSnapshot_def map_sum_eq_Inr)
  have "\<forall>m \<in> set ns. canonicalPermission collate m"
    using ns(1) assms(2)
  proof (induction ms arbitrary: ns)
    case (Cons m ms)
    then show ?case using normalizePermission_canonical [OF assms(1)] by fastforce
  qed simp
  then show "isSnapshot collate S"
    using sortedBy_js_sort [OF collation_permissions [OF assms(1)]] by (simp add: isSnapshot_def ns(2))
  show "distinct (map permissionKey S) = distinct (map permissionKey ms)"
    using normalizePermissions_Inr [OF ns(1)] by (simp add: ns(2) distinct_js_sort)
  have "length (sortInsert cmp x ys) = Suc (length ys)" for cmp and x :: materializedPermission and ys
    by (induction ys) auto
  then have "length (js_sort cmp xs) = length xs" for cmp and xs :: "materializedPermission list"
    by (induction xs) (simp_all add: js_sort_def)
  then show "length S = length ms" using normalizePermissions_Inr [OF ns(1)] by (simp add: ns(2))
qed

text \<open>A snapshot, and every part of one, is its own snapshot.\<close>

lemma snapshot_id:
  assumes "isSnapshot collate ms"
  shows "createPermissionSnapshot collate ms = Inr ms"
proof -
  have "normalizePermissions collate ms = Inr ms"
    using assms unfolding isSnapshot_def
    by (induction ms) (auto simp: canonicalPermission_def normalizePermission_def)
  then show ?thesis
    using assms by (simp add: createPermissionSnapshot_def isSnapshot_def js_sort_id)
qed

lemma snapshot_drop: "isSnapshot collate ms \<Longrightarrow> isSnapshot collate (drop n ms)"
  by (auto simp: isSnapshot_def sorted_wrt_drop dest: in_set_dropD)

lemma snapshot_take: "isSnapshot collate ms \<Longrightarrow> isSnapshot collate (take n ms)"
  by (auto simp: isSnapshot_def sorted_wrt_take dest: in_set_takeD)

subsection \<open>Digests\<close>

lemma operationName_inj: "operationName a = operationName b \<longleftrightarrow> a = b"
  by (cases a; cases b) simp_all

lemma sorted_permissionJson:
  "js_get (sortJson collate (permissionJson m)) ''role'' = JStr (permRole m)"
  "js_get (sortJson collate (permissionJson m)) ''operation'' = JStr (operationName (permOperation m))"
  "js_get (sortJson collate (permissionJson m)) ''permission'' = sortJson collate (JObj (permission m))"
  using map_of_sorted [of "[(''role'', JStr (permRole m)), (''operation'', JStr (operationName (permOperation m))),
      (''permission'', JObj (permission m))]"]
  by (simp_all add: permissionJson_def del: sortJson.simps(2))
     (simp_all add: map_of_sorted)

lemma permissionJson_inj:
  assumes "sortJson collate (permissionJson m) = sortJson collate (permissionJson n)"
    and "canonicalPermission collate m" "canonicalPermission collate n"
  shows "m = n"
proof -
  have "permRole m = permRole n" "permOperation m = permOperation n" "permission m = permission n"
    using sorted_permissionJson [of collate m] sorted_permissionJson [of collate n] assms
    by (simp_all add: operationName_inj canonicalPermission_def)
  then show ?thesis by (cases m; cases n) simp
qed

definition snapshotJson :: "(string \<Rightarrow> string \<Rightarrow> int) \<Rightarrow> materializedPermission list \<Rightarrow> jsval" where
  "snapshotJson collate S = sortJson collate (JArr (map permissionJson S))"

lemma snapshotJson_map: "snapshotJson collate S = JArr (map (\<lambda>m. sortJson collate (permissionJson m)) S)"
  by (cases S) (simp_all add: snapshotJson_def permissionJson_def)

lemma snapshotJson_inj:
  assumes "isSnapshot collate S" "isSnapshot collate T"
  shows "snapshotJson collate S = snapshotJson collate T \<longleftrightarrow> S = T"
proof -
  have "inj_on (\<lambda>m. sortJson collate (permissionJson m)) {m. canonicalPermission collate m}"
    by (rule inj_onI) (auto intro: permissionJson_inj)
  then have "inj_on (\<lambda>m. sortJson collate (permissionJson m)) (set S \<union> set T)"
    using assms by (auto simp: isSnapshot_def elim: inj_on_subset)
  then show ?thesis by (simp add: snapshotJson_map inj_on_map_eq_map)
qed

lemma permissionSnapshotDigest_Inr:
  "createPermissionSnapshot collate ms = Inr S \<Longrightarrow>
     permissionSnapshotDigest collate hash ms = Inr (hash (snapshotJson collate S))"
  by (simp add: permissionSnapshotDigest_def stableDigest_def snapshotJson_def)

subsection \<open>The states a sequence of commands passes through\<close>

lemma mapSet_new: "permissionKey m \<notin> permissionKey ` set ns \<Longrightarrow> mapSet m ns = ns @ [m]"
  by (induction ns) auto

lemma mapDelete_other: "permissionKey m \<notin> permissionKey ` set ns \<Longrightarrow> mapDelete m ns = ns"
  by (auto simp: mapDelete_def filter_id_conv intro: rev_image_eqI)

lemma mapDelete_head: "permissionKey m \<notin> permissionKey ` set ns \<Longrightarrow> mapDelete m (m # ns) = ns"
  using mapDelete_other [of m ns] by (simp add: mapDelete_def)

lemma fold_mapSet: "distinct (map permissionKey (acc @ ms)) \<Longrightarrow> fold mapSet ms acc = acc @ ms"
  by (induction ms arbitrary: acc) (auto simp: mapSet_new image_iff)

lemma fold_mapDelete: "distinct (map permissionKey ms) \<Longrightarrow> fold mapDelete ms ms = []"
  by (induction ms) (simp_all add: mapDelete_head)

lemma range_nat: "range f = insert (f 0) (range (\<lambda>n. f (Suc n)))"
proof -
  have "f n \<in> insert (f 0) (range (\<lambda>n. f (Suc n)))" for n by (cases n) auto
  then show ?thesis by auto
qed

lemma deleting_states:
  "distinct (map permissionKey ms) \<Longrightarrow> set (ms # statesAfter mapDelete ms ms) = range (\<lambda>n. drop n ms)"
proof (induction ms)
  case (Cons m ms)
  then show ?case using range_nat [of "\<lambda>n. drop n (m # ms)"] by (simp add: mapDelete_head)
qed simp

lemma creating_states:
  "distinct (map permissionKey (acc @ ms)) \<Longrightarrow>
     set (acc # statesAfter mapSet ms acc) = range (\<lambda>n. acc @ take n ms)"
proof (induction ms arbitrary: acc)
  case (Cons m ms)
  then have "mapSet m acc = acc @ [m]"
    by (intro mapSet_new) auto
  with Cons show ?case using range_nat [of "\<lambda>n. acc @ take n (m # ms)"] by simp
qed simp

lemma commandStates_set:
  assumes "distinct (map permissionKey S)" "distinct (map permissionKey T)"
  shows "set (commandStates S T) = range (\<lambda>n. drop n S) \<union> range (\<lambda>n. take n T)"
proof -
  have "[] \<in> set (S # statesAfter mapDelete S S)"
    unfolding deleting_states [OF assms(1)] by (auto intro: rev_image_eqI [of "length S"])
  then have "set (commandStates S T) = set (S # statesAfter mapDelete S S) \<union> set ([] # statesAfter mapSet T [])"
    using assms fold_mapSet [of "[]" S] fold_mapDelete [of S]
    by (auto simp: commandStates_def mapOf_def Let_def)
  then show ?thesis
    unfolding deleting_states [OF assms(1)] using creating_states [of "[]" T] assms(2)
    by (simp only: append_Nil refl)
qed

lemma digestsOf_snapshots:
  "\<forall>s \<in> set ss. isSnapshot collate s \<Longrightarrow> digestsOf collate hash ss = Inr (map (hash \<circ> snapshotJson collate) ss)"
  by (induction ss) (simp_all add: permissionSnapshotDigest_Inr snapshot_id)

text \<open>
  C23. An interrupted operation is recoverable exactly from the states its commands pass through.
  With digests that do not collide, the recovery accepts the permissions of a table exactly when
  they are what is left of the source after some of its permissions were dropped, in their order,
  or the first of the target's permissions, with all of the source dropped.
\<close>

theorem recoverable_states:
  assumes "collation collate" and "inj hash"
    and "\<forall>m \<in> set (current @ source @ target). properObject (permission m)"
    and "distinct (map permissionKey source)" "distinct (map permissionKey target)"
    and "createPermissionSnapshot collate current = Inr C"
    and "createPermissionSnapshot collate source = Inr S"
    and "createPermissionSnapshot collate target = Inr T"
  shows "isRecoverablePermissionSnapshot collate hash current source target
           = Inr (\<exists>n. C = drop n S \<or> C = take n T)"
proof -
  have C: "isSnapshot collate C" and S: "isSnapshot collate S" "distinct (map permissionKey S)"
    and T: "isSnapshot collate T" "distinct (map permissionKey T)"
    using assms(3,4,5) createPermissionSnapshot_Inr [OF assms(1) _ assms(6)]
      createPermissionSnapshot_Inr [OF assms(1) _ assms(7)] createPermissionSnapshot_Inr [OF assms(1) _ assms(8)]
    by auto
  have states: "set (commandStates S T) = range (\<lambda>n. drop n S) \<union> range (\<lambda>n. take n T)"
    using S T by (intro commandStates_set)
  have snap: "\<forall>s \<in> set (commandStates S T). isSnapshot collate s"
    unfolding states using snapshot_drop [OF S(1)] snapshot_take [OF T(1)] by blast
  have "hash (snapshotJson collate C) \<in> set (map (hash \<circ> snapshotJson collate) (commandStates S T))
      \<longleftrightarrow> C \<in> set (commandStates S T)"
    using snap snapshotJson_inj [OF C] injD [OF assms(2)] by fastforce
  then show ?thesis
    using assms(6-8) digestsOf_snapshots [OF snap, of hash]
    by (simp add: isRecoverablePermissionSnapshot_def permissionSnapshotDigest_Inr states del: set_map) blast
qed

text \<open>An order of strings, and two permissions.\<close>

definition codeUnitOrder :: "string \<Rightarrow> string \<Rightarrow> int" where
  "codeUnitOrder a b = (if a < b then -1 else if a = b then 0 else 1)"

lemma collation_codeUnitOrder: "collation codeUnitOrder"
  by (auto simp: collation_def codeUnitOrder_def split: if_splits)

definition demoDelete :: materializedPermission where
  "demoDelete = \<lparr>permRole = ''u'', permOperation = OpDelete, permission = [(''filter'', JObj [])]\<rparr>"

definition demoUpdate :: materializedPermission where
  "demoUpdate = \<lparr>permRole = ''u'', permOperation = OpUpdate,
     permission = [(''check'', JObj []), (''columns'', js_strings [''t'']), (''filter'', JObj [])]\<rparr>"

lemma demo_snapshots:
  "createPermissionSnapshot codeUnitOrder [demoUpdate] = Inr [demoUpdate]"
  "createPermissionSnapshot codeUnitOrder [demoDelete] = Inr [demoDelete]"
  "createPermissionSnapshot codeUnitOrder [demoDelete, demoUpdate] = Inr [demoDelete, demoUpdate]"
  "createPermissionSnapshot codeUnitOrder [] = Inr []"
  by code_simp+

lemma demo_proper:
  "properObject (permission demoDelete)" "properObject (permission demoUpdate)"
  "permissionKey demoDelete \<noteq> permissionKey demoUpdate"
  by (simp_all add: demoDelete_def demoUpdate_def permissionKey_def)

theorem recoverable_states_witness:
  "isRecoverablePermissionSnapshot codeUnitOrder id [demoUpdate] [demoDelete, demoUpdate] [] = Inr True"
proof -
  have "\<exists>n. [demoUpdate] = drop n [demoDelete, demoUpdate] \<or> [demoUpdate] = take n []"
    by (rule exI [of _ 1]) simp
  then show ?thesis
    using recoverable_states [OF collation_codeUnitOrder inj_on_id, of "[demoUpdate]" "[demoDelete, demoUpdate]" "[]"]
      demo_snapshots demo_proper by simp
qed

lemma take_not_drop:
  assumes "distinct xs" "0 < n" "n < length xs"
  shows "take n xs \<noteq> drop k xs"
proof
  assume eq: "take n xs = drop k xs"
  then have "length xs - k = n" using assms by (metis length_drop length_take min.absorb4)
  then have "0 < k" "k < length xs" using assms by linarith+
  moreover from assms have "xs \<noteq> []" by auto
  ultimately have "hd (take n xs) = xs ! 0" "hd (drop k xs) = xs ! k"
    using assms \<open>k < length xs\<close> by (auto simp: hd_conv_nth hd_drop_conv_nth)
  then show False
    using assms(1) eq \<open>0 < k\<close> \<open>k < length xs\<close> nth_eq_iff_index_eq [of xs 0 k] by fastforce
qed

text \<open>
  C29. An interrupted restore can leave a state the recovery refuses. Restoring the source drops
  what is there and then creates the permissions of the source one by one; a state with only the
  first of them is neither a rest of the source nor a beginning of the target, so the next
  recovery reports permissions that changed outside of the operation and restores nothing.
\<close>

theorem interrupted_restore_refused:
  assumes "collation collate" and "inj hash"
    and "\<forall>m \<in> set (current @ source @ target). properObject (permission m)"
    and "distinct (map permissionKey source)" "distinct (map permissionKey target)" "distinct (map permissionKey before)"
    and "createPermissionSnapshot collate current = Inr (take n S)"
    and "createPermissionSnapshot collate source = Inr S"
    and "createPermissionSnapshot collate target = Inr T"
    and "0 < n" "n < length S" "hd S \<notin> set T"
  shows "take n S \<in> set (commandStates before S)
       \<and> isRecoverablePermissionSnapshot collate hash current source target = Inr False"
proof -
  have S: "distinct (map permissionKey S)"
    using createPermissionSnapshot_Inr [OF assms(1) _ assms(8)] assms(3,4) by simp
  have "take n S \<noteq> drop k S" for k
    using take_not_drop [of S n k] S assms(10,11) by (simp add: distinct_map)
  moreover have "take n S \<noteq> take k T" for k
  proof
    assume "take n S = take k T"
    moreover have "hd S \<in> set (take n S)" using assms(10,11) by (cases S; cases n) auto
    ultimately have "hd S \<in> set (take k T)" by simp
    with assms(12) show False by (auto dest: in_set_takeD)
  qed
  ultimately show ?thesis
    using recoverable_states [OF assms(1-5,7-9)] commandStates_set [OF assms(6) S] by auto
qed

theorem interrupted_restore_refused_witness:
  "[demoDelete] \<in> set (commandStates [] [demoDelete, demoUpdate])
   \<and> isRecoverablePermissionSnapshot codeUnitOrder id [demoDelete] [demoDelete, demoUpdate] [] = Inr False"
  using interrupted_restore_refused [OF collation_codeUnitOrder inj_on_id,
      of "[demoDelete]" "[demoDelete, demoUpdate]" "[]" "[]" 1 "[demoDelete, demoUpdate]" "[]"]
    demo_snapshots demo_proper by simp

subsection \<open>Changes of grants\<close>

lemma authenticatedPermissions_total:
  assumes "\<And>op. op \<in> set ops \<Longrightarrow> modeOf p op \<noteq> ModeNone \<Longrightarrow>
             \<exists>cs. shapeColumns op (modeOf p op) (ownerName p) (map_option (\<lambda>g. grantFor g op) grants) caps = Inr cs"
  shows "\<exists>perms. authenticatedPermissions p roles caps grants ops = Inr perms"
  using assms
proof (induction ops)
  case (Cons op ops)
  then obtain rest where rest: "authenticatedPermissions p roles caps grants ops = Inr rest" by auto
  show ?case
  proof (cases "modeOf p op = ModeNone")
    case False
    then obtain cs where "shapeColumns op (modeOf p op) (ownerName p) (map_option (\<lambda>g. grantFor g op) grants) caps = Inr cs"
      using Cons.prems [of op] by auto
    with rest False show ?thesis by (simp add: authenticatedPermission_shape)
  qed (use rest in simp)
qed simp

definition grantedWithin :: "columnGrants \<Rightarrow> columnCapabilities \<Rightarrow> daOperation \<Rightarrow> bool" where
  "grantedWithin g caps op \<longleftrightarrow>
     op = OpDelete \<or> (distinct (grantFor g op) \<and> set (grantFor g op) \<subseteq> set (capabilityFor caps op))"

lemma shapeColumns_within:
  "(\<exists>cs. shapeColumns op mode owner (Some (grantFor g op)) caps = Inr cs) \<longleftrightarrow> grantedWithin g caps op"
  by (auto simp: shapeColumns_def operationColumns_def validateGrantColumns_def grantedWithin_def)

text \<open>With column grants, a policy can be materialized exactly when it is valid and its open operations
  grant columns the table has, each once.\<close>

lemma materializes_iff:
  "(\<exists>perms. materializeTableDataAccessPolicy p roles caps (Some g) = Inr perms) \<longleftrightarrow>
     validateTableDataAccessInput p caps = Inr ()
     \<and> (\<forall>op. modeOf p op \<noteq> ModeNone \<longrightarrow> grantedWithin g caps op)
     \<and> (anonymousSelect p = Some True \<longrightarrow>
          distinct (grantAnonymous g) \<and> set (grantAnonymous g) \<subseteq> set (readableColumns caps))"
  (is "?l \<longleftrightarrow> ?r")
proof
  assume ?l
  then obtain a b where ab: "validateTableDataAccessInput p caps = Inr ()"
      "authenticatedPermissions p roles caps (Some g) operationList = Inr a"
      "anonymousPermissions p roles caps (Some g) = Inr b"
    unfolding materialize_split by blast
  have "grantedWithin g caps op" if open_op: "modeOf p op \<noteq> ModeNone" for op
  proof -
    have "op \<in> set operationList" "distinct operationList" by (cases op; simp add: operationList_def)+
    then obtain x where "authenticatedPermission p caps (Some g) op = Inr x"
      using authenticatedPermissions_for [OF ab(2), of op] open_op by auto
    then show ?thesis
      using shapeColumns_within [of op "modeOf p op" "ownerName p" g caps]
      by (auto simp: authenticatedPermission_shape map_sum_eq_Inr)
  qed
  moreover have "anonymousSelect p = Some True \<longrightarrow>
      distinct (grantAnonymous g) \<and> set (grantAnonymous g) \<subseteq> set (readableColumns caps)"
    using ab(3) by (auto simp: anonymousPermissions_def map_sum_eq_Inr anonymousPermission_def
        validateGrantColumns_def split: if_splits)
  ultimately show ?r using ab(1) by blast
next
  assume r: ?r
  then obtain a where "authenticatedPermissions p roles caps (Some g) operationList = Inr a"
    using authenticatedPermissions_total [of operationList p "Some g" caps roles] shapeColumns_within by fastforce
  moreover have "\<exists>b. anonymousPermissions p roles caps (Some g) = Inr b"
    using r by (cases "anonymousSelect p = Some True")
      (simp_all add: anonymousPermissions_def anonymousPermission_def validateGrantColumns_def)
  ultimately show ?l using r unfolding materialize_split by blast
qed

lemma uniqueSorted_props [simp]: "distinct (uniqueSorted xs)" "set (uniqueSorted xs) = set xs"
  by (simp_all add: uniqueSorted_def)

lemma intersection_props [simp]: "distinct (intersection l r)" "set (intersection l r) = set l \<inter> set r"
  by (auto simp: intersection_def)

lemma checkNotBroader_Inr:
  "checkNotBroader baseline target ops = Inr () \<longleftrightarrow>
     (\<forall>op \<in> set ops. modeOf target op = ModeNone \<or> modeOf target op = modeOf baseline op)"
  by (induction ops) auto


text \<open>The columns an addition asks for.\<close>

definition asked :: "(string \<times> jsval) list \<Rightarrow> string \<Rightarrow> string list" where
  "asked additions op = (case permGet additions op of JArr items \<Rightarrow> map js_string_of items | _ \<Rightarrow> [])"

lemma requestedColumns_asked: "requestedColumns additions op = Inr cs \<Longrightarrow> cs = asked additions op"
  by (auto simp: requestedColumns_def asked_def split: jsval.splits if_splits)

text \<open>
  Extending the grants of a projection adds exactly the requested columns. When the extension
  succeeds on a policy that can be materialized, the columns are appended to the grants of select
  and insert, every other grant stays, the owner column stays unwritable, and the policy with the
  new grants can be materialized.
\<close>

theorem extension_adds_columns:
  assumes "extendProjectionColumnGrants g caps p additions = Inr g'"
    and "materializeTableDataAccessPolicy p roles caps (Some g) = Inr perms"
  shows "grantSelect g' = grantSelect g @ asked additions ''select''
       \<and> grantInsert g' = grantInsert g @ asked additions ''insert''
       \<and> grantUpdate g' = grantUpdate g \<and> grantAnonymous g' = grantAnonymous g
       \<and> grantSelect g' @ grantInsert g' \<noteq> grantSelect g @ grantInsert g
       \<and> (insertMode p = ModeOwner \<longrightarrow> ownerName p \<in> set (grantInsert g') \<longrightarrow> ownerName p \<in> set (grantInsert g))
       \<and> (\<exists>perms'. materializeTableDataAccessPolicy p roles caps (Some g') = Inr perms')"
proof -
  define si where "si = asked additions ''select''"
  define ii where "ii = asked additions ''insert''"
  have x: "si \<noteq> [] \<or> ii \<noteq> []"
      "checkAddition ''select'' si (selectMode p) (grantSelect g) (readableColumns caps) ''readable'' = Inr ()"
      "checkAddition ''insert'' ii (insertMode p) (grantInsert g) (insertableColumns caps) ''insertable'' = Inr ()"
      "insertMode p = ModeOwner \<longrightarrow> (case ownerColumn p of Some k \<Rightarrow> k | None \<Rightarrow> []) \<notin> set ii"
      "g' = g\<lparr>grantSelect := grantSelect g @ si, grantInsert := grantInsert g @ ii\<rparr>"
    using assms(1) by (auto simp: extendProjectionColumnGrants_def si_def ii_def dest: requestedColumns_asked)
  have check: "cs = [] \<or> mode \<noteq> ModeNone \<and> distinct cs \<and> set cs \<inter> set granted = {} \<and> set cs \<subseteq> set available"
    if "checkAddition op cs mode granted available c = Inr ()" for op cs mode granted available c
    using that by (auto simp: checkAddition_def list_ex_iff list_all_iff split: if_splits)
  have m: "validateTableDataAccessInput p caps = Inr ()" "\<And>op. modeOf p op \<noteq> ModeNone \<Longrightarrow> grantedWithin g caps op"
      "anonymousSelect p = Some True \<longrightarrow>
          distinct (grantAnonymous g) \<and> set (grantAnonymous g) \<subseteq> set (readableColumns caps)"
    using assms(2) materializes_iff [of p roles caps g] by auto
  have "grantedWithin g' caps op" if "modeOf p op \<noteq> ModeNone" for op
  proof (cases op)
    case OpSelect
    then show ?thesis using m(2) [OF that] check [OF x(2)] by (auto simp: grantedWithin_def x(5))
  next
    case OpInsert
    then show ?thesis using m(2) [OF that] check [OF x(3)] by (auto simp: grantedWithin_def x(5))
  next
    case OpUpdate
    then show ?thesis using m(2) [OF that] by (simp add: grantedWithin_def x(5))
  qed (simp add: grantedWithin_def)
  then have "\<exists>perms'. materializeTableDataAccessPolicy p roles caps (Some g') = Inr perms'"
    unfolding materializes_iff using m by (simp add: x(5))
  moreover have "ownerName p \<in> set (grantInsert g)"
    if "insertMode p = ModeOwner" "ownerName p \<in> set (grantInsert g')"
  proof -
    have "usesOwnerMode p" using that(1) by (auto simp: usesOwnerMode_ex intro: exI [of _ OpInsert])
    then have "ownerColumn p = Some (ownerName p)" using validated(4) [OF m(1)] by blast
    then show ?thesis using that x(4,5) by auto
  qed
  moreover have "grantSelect g' @ grantInsert g' \<noteq> grantSelect g @ grantInsert g"
  proof
    assume "grantSelect g' @ grantInsert g' = grantSelect g @ grantInsert g"
    then have "length (grantSelect g' @ grantInsert g') = length (grantSelect g @ grantInsert g)" by (rule arg_cong)
    then show False using x(1) by (simp add: x(5))
  qed
  ultimately show ?thesis unfolding si_def [symmetric] ii_def [symmetric] by (auto simp: x(5))
qed

text \<open>The table of the demo loses a column, and gains one.\<close>

definition narrowCaps :: columnCapabilities where
  "narrowCaps = \<lparr>readableColumns = [''owner''], insertableColumns = [''owner''], updateableColumns = []\<rparr>"

definition narrowPolicy :: tableAccess where
  "narrowPolicy = demoPolicy\<lparr>updateMode := ModeNone, anonymousSelect := Some False\<rparr>"


definition wideCaps :: columnCapabilities where
  "wideCaps = demoCaps\<lparr>readableColumns := readableColumns demoCaps @ [''x'']\<rparr>"

theorem extension_adds_columns_witness:
  "\<exists>g'. extendProjectionColumnGrants demoGrants wideCaps demoPolicy
           [(''select'', js_strings [''x''])] = Inr g'
      \<and> grantSelect g' = [''t'', ''owner'', ''x'']"
proof -
  obtain g' where g': "extendProjectionColumnGrants demoGrants wideCaps demoPolicy
           [(''select'', js_strings [''x''])] = Inr g'"
    by (simp add: extendProjectionColumnGrants_def requestedColumns_def permGet_def onlyKeys_def js_strings_def
        checkAddition_def demoGrants_def wideCaps_def demoPolicy_def demoCaps_def)
  have "\<not> isl (materializeTableDataAccessPolicy demoPolicy demoRoles wideCaps (Some demoGrants))"
    by code_simp
  then have "\<exists>perms. materializeTableDataAccessPolicy demoPolicy demoRoles wideCaps (Some demoGrants) = Inr perms"
    by (cases "materializeTableDataAccessPolicy demoPolicy demoRoles wideCaps (Some demoGrants)") simp_all
  then show ?thesis
    using g' extension_adds_columns [OF g'] by (auto simp: demoGrants_def asked_def permGet_def js_strings_def)
qed

end
