(* ===== verification/Api_Monad.thy ===== *)
theory Api_Monad
  imports Prelude
begin

text \<open>
  Asynchronous functions of the API server as state transformers: a call maps a world to a reply
  and a new world. The world is a parameter, so every service has its own. A triple has one
  postcondition for an answer, one for an exception and one for the death of the process.
\<close>

subsection \<open>Calls\<close>

datatype ('e, 'a) reply = Answer 'a | Thrown 'e | Crashed

type_synonym ('w, 'e, 'a) call = "'w \<Rightarrow> ('e, 'a) reply \<times> 'w"

definition give :: "'a \<Rightarrow> ('w, 'e, 'a) call" where
  "give x w = (Answer x, w)"

definition throw :: "'e \<Rightarrow> ('w, 'e, 'a) call" where
  "throw e w = (Thrown e, w)"

definition chain :: "('w, 'e, 'a) call \<Rightarrow> ('a \<Rightarrow> ('w, 'e, 'b) call) \<Rightarrow> ('w, 'e, 'b) call" where
  "chain m f w = (case m w of (r, w') \<Rightarrow>
     (case r of Answer x \<Rightarrow> f x w' | Thrown e \<Rightarrow> (Thrown e, w') | Crashed \<Rightarrow> (Crashed, w')))"

definition before :: "('w, 'e, unit) call \<Rightarrow> ('w, 'e, 'b) call \<Rightarrow> ('w, 'e, 'b) call" where
  "before m n = chain m (\<lambda>_. n)"

definition ignoring :: "('w, 'e, 'a) call \<Rightarrow> ('w, 'e, unit) call" where
  "ignoring m = chain m (\<lambda>_. give ())"

text \<open>\<open>try { m } catch (e) { h(e) }\<close> and \<open>try { m } finally { f }\<close>.\<close>

definition catching :: "('w, 'e, 'a) call \<Rightarrow> ('e \<Rightarrow> ('w, 'e, 'a) call) \<Rightarrow> ('w, 'e, 'a) call" where
  "catching m h w = (case m w of (r, w') \<Rightarrow> (case r of Thrown e \<Rightarrow> h e w' | _ \<Rightarrow> (r, w')))"

definition finally_do :: "('w, 'e, 'a) call \<Rightarrow> ('w, 'e, unit) call \<Rightarrow> ('w, 'e, 'a) call" where
  "finally_do m f w = (case m w of (r, w') \<Rightarrow>
     (case r of
        Answer x \<Rightarrow> before f (give x) w'
      | Thrown e \<Rightarrow> before f (throw e) w'
      | Crashed \<Rightarrow> (Crashed, w')))"

definition look :: "('w \<Rightarrow> 'a) \<Rightarrow> ('w, 'e, 'a) call" where
  "look f w = (Answer (f w), w)"

definition change :: "('w \<Rightarrow> 'w) \<Rightarrow> ('w, 'e, unit) call" where
  "change f w = (Answer (), f w)"

definition lift :: "('x \<Rightarrow> 'e) \<Rightarrow> 'x + 'a \<Rightarrow> ('w, 'e, 'a) call" where
  "lift k r = (case r of Inl x \<Rightarrow> throw (k x) | Inr a \<Rightarrow> give a)"

definition require :: "bool \<Rightarrow> 'e \<Rightarrow> ('w, 'e, unit) call" where
  "require b e = (if b then give () else throw e)"

subsection \<open>Triples\<close>

definition triple ::
  "('w \<Rightarrow> bool) \<Rightarrow> ('w, 'e, 'a) call \<Rightarrow> ('a \<Rightarrow> 'w \<Rightarrow> bool) \<Rightarrow> ('e \<Rightarrow> 'w \<Rightarrow> bool) \<Rightarrow> ('w \<Rightarrow> bool) \<Rightarrow> bool"
  where
  "triple P m Q R K \<longleftrightarrow> (\<forall>w. P w \<longrightarrow>
     (case m w of (r, w') \<Rightarrow> (case r of Answer x \<Rightarrow> Q x w' | Thrown e \<Rightarrow> R e w' | Crashed \<Rightarrow> K w')))"

lemma tripleD:
  assumes "triple P m Q R K" "P w" "m w = (r, w')"
  shows "case r of Answer x \<Rightarrow> Q x w' | Thrown e \<Rightarrow> R e w' | Crashed \<Rightarrow> K w'"
  using assms by (auto simp: triple_def)

lemma tripleI:
  assumes "\<And>w r w'. P w \<Longrightarrow> m w = (r, w') \<Longrightarrow>
    (case r of Answer x \<Rightarrow> Q x w' | Thrown e \<Rightarrow> R e w' | Crashed \<Rightarrow> K w')"
  shows "triple P m Q R K"
  unfolding triple_def using assms by (auto split: prod.splits)

lemma triple_conseq:
  assumes "triple P' m Q' R' K'" "\<And>w. P w \<Longrightarrow> P' w" "\<And>x w. Q' x w \<Longrightarrow> Q x w"
    "\<And>e w. R' e w \<Longrightarrow> R e w" "\<And>w. K' w \<Longrightarrow> K w"
  shows "triple P m Q R K"
proof (rule tripleI)
  fix w r w'
  assume "P w" and m: "m w = (r, w')"
  then have "P' w" using assms(2) by blast
  from tripleD [OF assms(1) this m] assms(3-5)
  show "case r of Answer x \<Rightarrow> Q x w' | Thrown e \<Rightarrow> R e w' | Crashed \<Rightarrow> K w'"
    by (cases r) auto
qed

lemma triple_pre: "triple P' m Q R K \<Longrightarrow> (\<And>w. P w \<Longrightarrow> P' w) \<Longrightarrow> triple P m Q R K"
  by (rule triple_conseq)

lemma triple_post: "triple P m Q' R K \<Longrightarrow> (\<And>x w. Q' x w \<Longrightarrow> Q x w) \<Longrightarrow> triple P m Q R K"
  by (rule triple_conseq)

lemma triple_give: "(\<And>w. P w \<Longrightarrow> Q x w) \<Longrightarrow> triple P (give x) Q R K"
  by (simp add: triple_def give_def)

lemma triple_throw: "(\<And>w. P w \<Longrightarrow> R e w) \<Longrightarrow> triple P (throw e) Q R K"
  by (simp add: triple_def throw_def)

lemma triple_look: "(\<And>w. P w \<Longrightarrow> Q (f w) w) \<Longrightarrow> triple P (look f) Q R K"
  by (simp add: triple_def look_def)

lemma triple_change: "(\<And>w. P w \<Longrightarrow> Q () (f w)) \<Longrightarrow> triple P (change f) Q R K"
  by (simp add: triple_def change_def)

lemma triple_lift:
  "(\<And>a w. r = Inr a \<Longrightarrow> P w \<Longrightarrow> Q a w) \<Longrightarrow> (\<And>x w. r = Inl x \<Longrightarrow> P w \<Longrightarrow> R (k x) w)
   \<Longrightarrow> triple P (lift k r) Q R K"
  by (cases r) (simp_all add: lift_def triple_give triple_throw)

lemma triple_require:
  "(\<And>w. b \<Longrightarrow> P w \<Longrightarrow> Q () w) \<Longrightarrow> (\<And>w. \<not> b \<Longrightarrow> P w \<Longrightarrow> R e w) \<Longrightarrow> triple P (require b e) Q R K"
  by (simp add: require_def triple_give triple_throw)

lemma triple_chain:
  assumes "triple P m Q R K" "\<And>x. triple (Q x) (f x) Q' R K"
  shows "triple P (chain m f) Q' R K"
proof (rule tripleI)
  fix w r w'
  assume "P w" and b: "chain m f w = (r, w')"
  obtain r1 w1 where m: "m w = (r1, w1)" by (cases "m w")
  have "case r1 of Answer x \<Rightarrow> Q x w1 | Thrown e \<Rightarrow> R e w1 | Crashed \<Rightarrow> K w1"
    by (rule tripleD [OF assms(1) \<open>P w\<close> m])
  with b m show "case r of Answer x \<Rightarrow> Q' x w' | Thrown e \<Rightarrow> R e w' | Crashed \<Rightarrow> K w'"
    by (cases r1) (auto simp: chain_def dest: tripleD [OF assms(2)])
qed

lemma triple_before:
  "triple P m (\<lambda>_. Q) R K \<Longrightarrow> triple Q n Q' R K \<Longrightarrow> triple P (before m n) Q' R K"
  unfolding before_def by (rule triple_chain)

lemma triple_ignoring: "triple P m (\<lambda>_. Q ()) R K \<Longrightarrow> triple P (ignoring m) Q R K"
  unfolding ignoring_def by (erule triple_chain) (auto intro: triple_give)

lemma triple_catching:
  assumes "triple P m Q R' K" "\<And>e. triple (R' e) (h e) Q R K"
  shows "triple P (catching m h) Q R K"
proof (rule tripleI)
  fix w r w'
  assume "P w" and b: "catching m h w = (r, w')"
  obtain r1 w1 where m: "m w = (r1, w1)" by (cases "m w")
  have "case r1 of Answer x \<Rightarrow> Q x w1 | Thrown e \<Rightarrow> R' e w1 | Crashed \<Rightarrow> K w1"
    by (rule tripleD [OF assms(1) \<open>P w\<close> m])
  with b m show "case r of Answer x \<Rightarrow> Q x w' | Thrown e \<Rightarrow> R e w' | Crashed \<Rightarrow> K w'"
    by (cases r1) (auto simp: catching_def dest: tripleD [OF assms(2)])
qed

lemma triple_finally:
  assumes "triple P m Q' R' K" "\<And>x. triple (Q' x) f (\<lambda>_. Q x) R K" "\<And>e. triple (R' e) f (\<lambda>_. R e) R K"
  shows "triple P (finally_do m f) Q R K"
proof (rule tripleI)
  fix w r w'
  assume "P w" and b: "finally_do m f w = (r, w')"
  obtain r1 w1 where m: "m w = (r1, w1)" by (cases "m w")
  have d: "case r1 of Answer x \<Rightarrow> Q' x w1 | Thrown e \<Rightarrow> R' e w1 | Crashed \<Rightarrow> K w1"
    by (rule tripleD [OF assms(1) \<open>P w\<close> m])
  have fin: "triple (Q' x) (before f (give x)) Q R K" for x
    by (rule triple_before [OF assms(2)]) (auto intro: triple_give)
  have exc: "triple (R' e) (before f (throw e)) Q R K" for e
    by (rule triple_before [OF assms(3)]) (auto intro: triple_throw)
  from d b m show "case r of Answer x \<Rightarrow> Q x w' | Thrown e \<Rightarrow> R e w' | Crashed \<Rightarrow> K w'"
    by (cases r1) (auto simp: finally_do_def dest: tripleD [OF fin] tripleD [OF exc])
qed

lemma triple_if:
  "(b \<Longrightarrow> triple P m Q R K) \<Longrightarrow> (\<not> b \<Longrightarrow> triple P n Q R K) \<Longrightarrow> triple P (if b then m else n) Q R K"
  by simp

lemma triple_option:
  "(x = None \<Longrightarrow> triple P m Q R K) \<Longrightarrow> (\<And>y. x = Some y \<Longrightarrow> triple P (f y) Q R K)
   \<Longrightarrow> triple P (case x of None \<Rightarrow> m | Some y \<Rightarrow> f y) Q R K"
  by (cases x) simp_all

lemma triple_pure: "(b \<Longrightarrow> triple P m Q R K) \<Longrightarrow> triple (\<lambda>w. P w \<and> b) m Q R K"
  by (auto simp: triple_def)

lemma triple_conj:
  "triple P m Q R K \<Longrightarrow> triple P' m Q' R' K'
   \<Longrightarrow> triple (\<lambda>w. P w \<and> P' w) m (\<lambda>x w. Q x w \<and> Q' x w) (\<lambda>e w. R e w \<and> R' e w) (\<lambda>w. K w \<and> K' w)"
  unfolding triple_def by (fastforce split: prod.splits reply.splits)

text \<open>A call that keeps a predicate in every outcome.\<close>

abbreviation keeps :: "('w \<Rightarrow> bool) \<Rightarrow> ('w, 'e, 'a) call \<Rightarrow> bool" where
  "keeps P m \<equiv> triple P m (\<lambda>_. P) (\<lambda>_. P) P"

named_theorems keeping "calls and the predicates they keep"

lemma keeps_basic [keeping]:
  "keeps P (give x)" "keeps P (throw e)" "keeps P (look f)" "keeps P (lift k r)" "keeps P (require b e)"
  by (auto intro: triple_give triple_throw triple_look triple_lift triple_require)

lemma keeps_chain [keeping]: "keeps P m \<Longrightarrow> (\<And>x. keeps P (f x)) \<Longrightarrow> keeps P (chain m f)"
  by (rule triple_chain)

lemma keeps_before [keeping]: "keeps P m \<Longrightarrow> keeps P n \<Longrightarrow> keeps P (before m n)"
  by (rule triple_before)

lemma keeps_ignoring [keeping]: "keeps P m \<Longrightarrow> keeps P (ignoring m)"
  by (rule triple_ignoring)

lemma keeps_catching [keeping]: "keeps P m \<Longrightarrow> (\<And>e. keeps P (h e)) \<Longrightarrow> keeps P (catching m h)"
  by (rule triple_catching)

lemma keeps_finally [keeping]: "keeps P m \<Longrightarrow> keeps P f \<Longrightarrow> keeps P (finally_do m f)"
  by (rule triple_finally)

lemma keeps_if [keeping]: "(b \<Longrightarrow> keeps P m) \<Longrightarrow> (\<not> b \<Longrightarrow> keeps P n) \<Longrightarrow> keeps P (if b then m else n)"
  by simp

lemma keeps_option [keeping]:
  "(x = None \<Longrightarrow> keeps P m) \<Longrightarrow> (\<And>y. x = Some y \<Longrightarrow> keeps P (f y))
   \<Longrightarrow> keeps P (case x of None \<Rightarrow> m | Some y \<Rightarrow> f y)"
  by (cases x) simp_all

end
