(* ===== verification/Access_World.thy ===== *)
theory Access_World
  imports Api_Monad Managed_Policy "HOL-Library.AList"
begin

text \<open>
  The world of the data access services: the rows of the platform database they read and write,
  the advisory locks of PostgreSQL, the metadata of the GraphQL engine and a clock. The engine is a
  parameter. So is everything else outside of the code: faults of the connection, the death of
  the process, time, random identifiers, SHA-256 and \<open>localeCompare\<close>.
\<close>

subsection \<open>Errors\<close>

text \<open>\<open>AccessError\<close> is \<open>DataAccessPolicyOperationError\<close>; \<open>MetadataError\<close> a \<open>HasuraMetadataRequestError\<close>
  with its status, code and body; \<open>PlainError\<close> any other \<open>Error\<close>.\<close>

datatype accessError =
    AccessError string string
  | LockedError string
  | LeaseError
  | TransitionError
  | RevisionConflict
  | MetadataError int "string option" string
  | UncertainError string
  | PlainError string

fun accessMessage :: "accessError \<Rightarrow> string" where
  "accessMessage (AccessError code m) = m"
| "accessMessage (LockedError m) = m"
| "accessMessage LeaseError = ''Policy operation writer lease expired''"
| "accessMessage TransitionError = ''Policy operation changed before transition''"
| "accessMessage RevisionConflict = ''Managed policy revision changed''"
| "accessMessage (MetadataError st code body) =
     ''Hasura metadata request failed with HTTP '' @ int_to_string st @ '': '' @ body"
| "accessMessage (UncertainError m) = ''Hasura metadata mutation outcome is unknown: '' @ m"
| "accessMessage (PlainError m) = m"

definition conflict :: "string \<Rightarrow> string \<Rightarrow> accessError" where
  "conflict code message = AccessError code message"

definition stale :: "string \<Rightarrow> accessError" where
  "stale message = conflict ''DATA_ACCESS_RECONCILE_STALE'' message"

definition stalePreview :: accessError where
  "stalePreview = stale ''Data access preview is stale''"

definition writerLeaseExpired :: accessError where
  "writerLeaseExpired = conflict ''DATA_ACCESS_POLICY_OPERATION_IN_PROGRESS''
     ''Metadata writer lease expired before the update was sent''"

definition isDefinitiveRejection :: "accessError \<Rightarrow> bool" where
  "isDefinitiveRejection e =
     (case e of
        MetadataError st code body \<Rightarrow> 400 \<le> st \<and> st < 500 \<and> st \<notin> {408, 425, 429} \<and> code \<noteq> None
      | _ \<Rightarrow> False)"

subsection \<open>Rows\<close>

record 'd managedPolicy = policyBaseline +
  baselineVersion :: int
  baselinePolicy :: tableAccess
  baselineGrants :: columnGrants
  metadataDigest :: 'd
  dependencySnapshot :: "jsval option"
  dependencyDigest :: "'d option"
  revision :: int
  policyCreatedBy :: string
  policyUpdatedBy :: string

datatype operationKind = KindAdoption | KindPolicyUpdate | KindReconcile | KindGrantExtension

record 'd operationRow = policyOperation +
  operationId :: string
  operationProject :: string
  operationSchema :: string
  operationTable :: string
  operationKind :: operationKind
  operationPhase :: string
  baselineRevision :: "int option"
  sourceCapabilities :: columnCapabilities
  sourcePermissions :: "materializedPermission list"
  sourceDigest :: 'd
  sourceVersion :: int
  targetPolicy :: "tableAccess option"
  targetColumnGrants :: "columnGrants option"
  targetCapabilities :: "columnCapabilities option"
  targetPermissions :: "materializedPermission list option"
  targetDigest :: "'d option"
  targetVersion :: "int option"
  requestDigest :: 'd
  writerEpoch :: "string option"
  operationCreatedBy :: string
  operationError :: "(string \<times> string) option"
  operationCompletedAt :: "int option"

text \<open>Rows of other tables that block an operation.\<close>

record projectionOperation =
  projectionId :: string
  projectionProject :: string
  projectionStatus :: operationStatus

datatype migrationStatus =
    MigrationPreview | MigrationApplying | MigrationRollingBack | MigrationCompleted | MigrationFailed
  | MigrationOther

record migrationRow =
  migrationRowId :: string
  migrationProject :: string
  migrationStatus :: migrationStatus
  migrationError :: "string option"

record dataProject =
  projectAlias :: string
  projectSchema :: "string option"

text \<open>\<open>projectRows\<close> are the projects by their id, \<open>environmentRows\<close> the project and the schema of
  each environment, \<open>managedPolicies\<close> the baselines by project, schema and
  table, \<open>tableDeletions\<close> lists the lock scopes of pending table deletions, \<open>columnsOf\<close> the columns of the
  tables of the database; a table that is not there has none.\<close>

record 'd accessDb =
  projectRows :: "(string \<times> dataProject) list"
  environmentRows :: "(string \<times> string) list"
  managedPolicies :: "((string \<times> string \<times> string) \<times> 'd managedPolicy) list"
  policyOperations :: "'d operationRow list"
  projectionOperations :: "projectionOperation list"
  migrationRows :: "migrationRow list"
  rollbackGate :: bool
  tableDeletions :: "string list"
  columnsOf :: "(string \<times> string) \<rightharpoonup> tableColumn list"

subsection \<open>The metadata of the engine\<close>

text \<open>\<open>defaultTables\<close> are the tables of the source \<open>default\<close>, if there is one.\<close>

record metadataState =
  defaultTables :: "tableMetadata list option"
  resourceVersion :: int

datatype metaCommand =
    DropPermission daOperation string string string
  | CreatePermission daOperation string string string "(string \<times> jsval) list"

text \<open>The requests, with the resource version they expect where they carry one.\<close>

datatype metaRequest =
    ExportMetadata
  | BulkAtomic "metaCommand list" "int option"
  | Bulk "metaCommand list" "int option"
  | ReplaceMetadata bool "tableMetadata list" int
  | TrackTable string string
  | SetCustomization string string int

datatype metaReply = MetaDone | MetaExported metadataState | MetaHttp int "string option" string | MetaNetwork string

subsection \<open>World and environment\<close>

datatype accessEvent = EvDb string | EvMeta metaRequest

text \<open>A fault strikes before the effect or after it: an error of the connection with a message, or the
  death of the process (\<open>None\<close>).\<close>

datatype fault = NoFault | FaultBefore "string option" | FaultAfter "string option"

text \<open>A lock is held by a session, by its name, shared or exclusive.\<close>

record advisoryLock =
  lockSession :: nat
  lockName :: string
  lockShared :: bool

record 'd accessWorld =
  db :: "'d accessDb"
  metadata :: metadataState
  advisoryLocks :: "advisoryLock list"
  clock :: int
  trace :: "accessEvent list"

text \<open>\<open>dependencyCheck\<close> is what \<open>loadAuthorizationProjectionDependencies\<close> computes from the tables and
  the metadata: the digest of the dependencies of a projection, or an error.\<close>

record 'd accessEnv =
  collate :: "string \<Rightarrow> string \<Rightarrow> int"
  hash :: "jsval \<Rightarrow> 'd"
  digestText :: "'d \<Rightarrow> string"
  roleHash :: "string \<Rightarrow> string"
  engine :: "accessEvent list \<Rightarrow> metaRequest \<Rightarrow> metadataState \<Rightarrow> metaReply \<times> metadataState"
  faults :: "accessEvent list \<Rightarrow> accessEvent \<Rightarrow> fault"
  elapsed :: "accessEvent list \<Rightarrow> nat"
  randomUUID :: "accessEvent list \<Rightarrow> string"
  dependencyCheck :: "'d accessDb \<Rightarrow> string \<Rightarrow> string \<Rightarrow> jsval \<Rightarrow> metadataState \<Rightarrow> accessError + 'd"

type_synonym ('d, 'a) access_call = "('d accessWorld, accessError, 'a) call"

definition tick :: "'d accessEnv \<Rightarrow> accessEvent \<Rightarrow> 'd accessWorld \<Rightarrow> 'd accessWorld" where
  "tick env ev w = w\<lparr>trace := ev # trace w, clock := clock w + int (elapsed env (trace w))\<rparr>"

definition effect ::
  "'d accessEnv \<Rightarrow> accessEvent \<Rightarrow> ('d, 'a) access_call \<Rightarrow> ('d, 'a) access_call" where
  "effect env ev act w =
     (case faults env (trace w) ev of
        NoFault \<Rightarrow> act (tick env ev w)
      | FaultBefore None \<Rightarrow> (Crashed, w)
      | FaultBefore (Some m) \<Rightarrow> (Thrown (PlainError m), tick env ev w)
      | FaultAfter None \<Rightarrow> (Crashed, snd (act (tick env ev w)))
      | FaultAfter (Some m) \<Rightarrow> (Thrown (PlainError m), snd (act (tick env ev w))))"

text \<open>A statement reads the database, and changes it or raises an error of its own.\<close>

definition statement ::
  "'d accessEnv \<Rightarrow> string \<Rightarrow> ('d accessWorld \<Rightarrow> accessError + 'a \<times> 'd accessDb) \<Rightarrow> ('d, 'a) access_call" where
  "statement env name f = effect env (EvDb name) (\<lambda>w.
     (case f w of Inl e \<Rightarrow> (Thrown e, w) | Inr (a, d) \<Rightarrow> (Answer a, w\<lparr>db := d\<rparr>)))"

definition queryDb :: "'d accessEnv \<Rightarrow> string \<Rightarrow> ('d accessDb \<Rightarrow> 'a) \<Rightarrow> ('d, 'a) access_call" where
  "queryDb env name f = statement env name (\<lambda>w. Inr (f (db w), db w))"

text \<open>A request to the engine: \<open>hasuraMetadataRequest\<close> and \<open>hasuraMetadataRequestWithOptions\<close>.\<close>

definition replyOf :: "metaReply \<Rightarrow> accessError + metadataState option" where
  "replyOf r =
     (case r of
        MetaDone \<Rightarrow> Inr None
      | MetaExported s \<Rightarrow> Inr (Some s)
      | MetaHttp st code body \<Rightarrow> Inl (MetadataError st code body)
      | MetaNetwork m \<Rightarrow> Inl (PlainError m))"

definition metadataRequest :: "'d accessEnv \<Rightarrow> metaRequest \<Rightarrow> ('d, metadataState option) access_call" where
  "metadataRequest env req = chain (look trace) (\<lambda>tr.
     effect env (EvMeta req) (\<lambda>w.
       (case engine env tr req (metadata w) of (r, s) \<Rightarrow>
          lift id (replyOf r) (w\<lparr>metadata := s\<rparr>))))"

text \<open>\<open>BEGIN\<close>, the statements, \<open>COMMIT\<close>. An exception before the commit rolls back; after it was sent,
  \<open>onCommitError\<close> decides. The database keeps the changes exactly when the commit took effect.\<close>

definition rollback :: "'d accessDb \<Rightarrow> 'd accessWorld \<Rightarrow> 'd accessWorld" where
  "rollback d w = w\<lparr>db := d\<rparr>"

definition transaction ::
  "'d accessEnv \<Rightarrow> ('d, unit) access_call \<Rightarrow> (accessError \<Rightarrow> ('d, unit) access_call) \<Rightarrow> ('d, unit) access_call" where
  "transaction env body onCommitError =
     before (statement env ''BEGIN'' (\<lambda>w. Inr ((), db w)))
       (chain (look db) (\<lambda>d0 w.
          (case body w of
             (Crashed, w') \<Rightarrow> (Crashed, rollback d0 w')
           | (Thrown e, w') \<Rightarrow>
               before (statement env ''ROLLBACK'' (\<lambda>u. Inr ((), db u))) (throw e) (rollback d0 w')
           | (Answer u, w') \<Rightarrow>
               (case faults env (trace w') (EvDb ''COMMIT'') of
                  NoFault \<Rightarrow> (Answer (), tick env (EvDb ''COMMIT'') w')
                | FaultBefore None \<Rightarrow> (Crashed, rollback d0 w')
                | FaultBefore (Some m) \<Rightarrow> onCommitError (PlainError m) (rollback d0 (tick env (EvDb ''COMMIT'') w'))
                | FaultAfter None \<Rightarrow> (Crashed, tick env (EvDb ''COMMIT'') w')
                | FaultAfter (Some m) \<Rightarrow> onCommitError (PlainError m) (tick env (EvDb ''COMMIT'') w')))))"

definition uuid :: "'d accessEnv \<Rightarrow> ('d, string) access_call" where
  "uuid env = look (\<lambda>w. randomUUID env (trace w))"

definition now :: "('d, int) access_call" where
  "now = look clock"

end
