(* ===== verification/Mutation_Lock.thy ===== *)
theory Mutation_Lock
  imports Access_World
begin

text \<open>
  The lock around every change of data access, from \<open>data-access-mutation-lock.ts\<close>: two advisory
  locks of PostgreSQL, one for the deployment and one for the project, then a look at the rows of
  unfinished operations. A lock is identified by its text here, by the 64 bits of a hash of it in
  the code; a collision can only refuse more.
\<close>

subsection \<open>Advisory locks\<close>

text \<open>What PostgreSQL documents: a session never blocks itself, shared locks go together.\<close>

definition lockFree :: "nat \<Rightarrow> string \<Rightarrow> bool \<Rightarrow> advisoryLock list \<Rightarrow> bool" where
  "lockFree session name shared locks \<longleftrightarrow>
     list_all (\<lambda>l. lockSession l = session \<or> lockName l \<noteq> name \<or> (shared \<and> lockShared l)) locks"

definition tryAdvisory :: "nat \<Rightarrow> string \<Rightarrow> bool \<Rightarrow> advisoryLock list \<Rightarrow> bool \<times> advisoryLock list" where
  "tryAdvisory session name shared locks =
     (if lockFree session name shared locks
      then (True, \<lparr>lockSession = session, lockName = name, lockShared = shared\<rparr> # locks)
      else (False, locks))"

definition unlockAdvisory :: "nat \<Rightarrow> string \<Rightarrow> bool \<Rightarrow> advisoryLock list \<Rightarrow> advisoryLock list" where
  "unlockAdvisory session name shared locks =
     remove1 \<lparr>lockSession = session, lockName = name, lockShared = shared\<rparr> locks"

definition endSession :: "nat \<Rightarrow> 'd accessWorld \<Rightarrow> 'd accessWorld" where
  "endSession session w =
     w\<lparr>advisoryLocks := filter (\<lambda>l. lockSession l \<noteq> session) (advisoryLocks w)\<rparr>"

text \<open>A client of the pool that nobody else uses.\<close>

definition freshSession :: "advisoryLock list \<Rightarrow> nat" where
  "freshSession locks = Suc (foldr (\<lambda>l n. max (lockSession l) n) locks 0)"

text \<open>An error of a lock statement is the loss of the connection, which ends the session.\<close>

definition lockStatement ::
  "'d accessEnv \<Rightarrow> nat \<Rightarrow> string \<Rightarrow> (advisoryLock list \<Rightarrow> 'a \<times> advisoryLock list) \<Rightarrow> ('d, 'a) access_call" where
  "lockStatement env session name f w =
     (let w' = tick env (EvDb name) w;
          failed = (\<lambda>e. case e of
             None \<Rightarrow> (Crashed, endSession session w) | Some m \<Rightarrow> (Thrown (PlainError m), endSession session w')) in
      case faults env (trace w) (EvDb name) of
        NoFault \<Rightarrow> (case f (advisoryLocks w') of (a, ls) \<Rightarrow> (Answer a, w'\<lparr>advisoryLocks := ls\<rparr>))
      | FaultBefore e \<Rightarrow> failed e
      | FaultAfter e \<Rightarrow> failed e)"

definition tryLock :: "'d accessEnv \<Rightarrow> nat \<Rightarrow> string \<Rightarrow> bool \<Rightarrow> ('d, bool) access_call" where
  "tryLock env session name shared =
     lockStatement env session ''pg_try_advisory_lock'' (tryAdvisory session name shared)"

definition unlock :: "'d accessEnv \<Rightarrow> nat \<Rightarrow> string \<Rightarrow> bool \<Rightarrow> ('d, unit) access_call" where
  "unlock env session name shared =
     lockStatement env session ''pg_advisory_unlock'' (\<lambda>ls. ((), unlockAdvisory session name shared ls))"

definition DATA_ACCESS_GLOBAL_LOCK_ID :: string where
  "DATA_ACCESS_GLOBAL_LOCK_ID = ''data-access-mutation:global''"

definition projectDataAccessLockId :: "string \<Rightarrow> accessError + string" where
  "projectDataAccessLockId projectId =
     (if js_trim projectId = [] then Inl (PlainError ''Project ID is required'')
      else Inr (''data-access-migration:'' @ projectId))"

subsection \<open>Rows that block\<close>

datatype lockPurpose =
    Ordinary | Migration | PolicyOperation | ProjectionOperation | TableDelete | TableDeleteRecovery

record lockOptions =
  exclusiveMode :: bool
  lockPurpose :: lockPurpose
  migrationIdOption :: "string option"
  operationIdOption :: "string option"

definition RECOVERY_ERRORS :: "string list" where
  "RECOVERY_ERRORS = [''DATA_ACCESS_MIGRATION_RECOVERY_REQUIRED'', ''DATA_ACCESS_ROLLBACK_RECOVERY_REQUIRED'']"

definition migrationBlocks :: "migrationRow \<Rightarrow> bool" where
  "migrationBlocks m \<longleftrightarrow>
     migrationStatus m \<in> {MigrationApplying, MigrationRollingBack}
     \<or> (migrationStatus m = MigrationFailed
        \<and> (case migrationError m of Some e \<Rightarrow> e \<in> set RECOVERY_ERRORS | None \<Rightarrow> False))"

definition blockingStatuses :: "lockPurpose \<Rightarrow> operationStatus list" where
  "blockingStatuses purpose =
     (if purpose = Migration then [PreviewReady, OpApplying, OpRecovering, OpRecoveryRequired]
      else [OpApplying, OpRecovering, OpRecoveryRequired])"

definition blockScope :: "string \<Rightarrow> lockOptions \<Rightarrow> string \<Rightarrow> bool" where
  "blockScope projectId opts p \<longleftrightarrow>
     (exclusiveMode opts \<and> lockPurpose opts \<noteq> TableDelete \<and> lockPurpose opts \<noteq> TableDeleteRecovery)
     \<or> p = projectId"

definition orEmpty :: "string option \<Rightarrow> string" where
  "orEmpty o1 = (case o1 of Some s \<Rightarrow> s | None \<Rightarrow> [])"

definition persistedBlock :: "'d accessDb \<Rightarrow> string \<Rightarrow> lockOptions \<Rightarrow> bool" where
  "persistedBlock d projectId opts \<longleftrightarrow>
     rollbackGate d
     \<or> list_ex (\<lambda>m. blockScope projectId opts (migrationProject m)
          \<and> (lockPurpose opts = Migration \<longrightarrow> migrationRowId m \<noteq> orEmpty (migrationIdOption opts))
          \<and> migrationBlocks m) (migrationRows d)
     \<or> list_ex (\<lambda>r. blockScope projectId opts (operationProject r)
          \<and> (lockPurpose opts = PolicyOperation \<longrightarrow> operationId r \<noteq> orEmpty (operationIdOption opts))
          \<and> operationStatus r \<in> set (blockingStatuses (lockPurpose opts))) (policyOperations d)
     \<or> list_ex (\<lambda>r. blockScope projectId opts (projectionProject r)
          \<and> (lockPurpose opts = ProjectionOperation \<longrightarrow> projectionId r \<noteq> orEmpty (operationIdOption opts))
          \<and> projectionStatus r \<in> set (blockingStatuses (lockPurpose opts))) (projectionOperations d)
     \<or> (lockPurpose opts \<noteq> TableDeleteRecovery \<and> projectId \<in> set (tableDeletions d))"

definition hasPersistedDataAccessBlock :: "'d accessEnv \<Rightarrow> string \<Rightarrow> lockOptions \<Rightarrow> ('d, bool) access_call" where
  "hasPersistedDataAccessBlock env projectId opts =
     queryDb env ''SELECT blocked'' (\<lambda>d. persistedBlock d projectId opts)"

text \<open>The trigger of the table sets \<open>updated_at\<close>.\<close>

definition supersedeOperation :: "int \<Rightarrow> 'd operationRow \<Rightarrow> 'd operationRow" where
  "supersedeOperation t r =
     r\<lparr>operationStatus := OpSuperseded, operationPhase := ''completed'', operationCompletedAt := Some t,
       operationUpdatedAt := Some t\<rparr>"

definition supersedePolicyRows :: "(string \<Rightarrow> bool) \<Rightarrow> int \<Rightarrow> 'd accessDb \<Rightarrow> 'd accessDb" where
  "supersedePolicyRows inScope t d =
     d\<lparr>policyOperations := map (\<lambda>r. if inScope (operationProject r) \<and> operationStatus r = PreviewReady
        then supersedeOperation t r else r) (policyOperations d)\<rparr>"

definition supersedeProjectionRows :: "(string \<Rightarrow> bool) \<Rightarrow> 'd accessDb \<Rightarrow> 'd accessDb" where
  "supersedeProjectionRows inScope d =
     d\<lparr>projectionOperations := map (\<lambda>r. if inScope (projectionProject r) \<and> projectionStatus r = PreviewReady
        then r\<lparr>projectionStatus := OpSuperseded\<rparr> else r) (projectionOperations d)\<rparr>"

definition supersedePolicyOperationPreviews :: "'d accessEnv \<Rightarrow> string \<Rightarrow> bool \<Rightarrow> ('d, unit) access_call" where
  "supersedePolicyOperationPreviews env projectId exclusive =
     (let inScope = (\<lambda>p. exclusive \<or> p = projectId) in
      before (statement env ''UPDATE policy_operations'' (\<lambda>w. Inr ((), supersedePolicyRows inScope (clock w) (db w))))
        (statement env ''UPDATE projection_operations'' (\<lambda>w. Inr ((), supersedeProjectionRows inScope (db w)))))"

subsection \<open>The lock\<close>

definition missing :: "string option \<Rightarrow> bool" where
  "missing o1 \<longleftrightarrow> o1 = None \<or> o1 = Some []"

definition checkLockOptions :: "lockOptions \<Rightarrow> accessError + unit" where
  "checkLockOptions opts =
     (if lockPurpose opts = Migration \<and> (missing (migrationIdOption opts) \<or> missing (operationIdOption opts))
      then Inl (PlainError ''Migration ID and operation ID are required for migration lock context'')
      else if lockPurpose opts \<in> {PolicyOperation, ProjectionOperation} \<and> missing (operationIdOption opts)
      then Inl (PlainError ''Operation ID is required for policy operation lock context'')
      else if lockPurpose opts \<in> {TableDelete, TableDeleteRecovery} \<and> missing (operationIdOption opts)
      then Inl (PlainError ''Operation ID is required for table deletion lock context'')
      else Inr ())"

text \<open>\<open>finally\<close> sees whether a lock was acquired: the body inside of a lock is wrapped in its release.
  PostgreSQL ends the session of a process that died.\<close>

definition sessionScope :: "nat \<Rightarrow> ('d, 'a) access_call \<Rightarrow> ('d, 'a) access_call" where
  "sessionScope session m w =
     (case m w of (Crashed, w') \<Rightarrow> (Crashed, endSession session w') | (r, w') \<Rightarrow> (r, w'))"

definition guardedCallback ::
  "'d accessEnv \<Rightarrow> string \<Rightarrow> (nat \<Rightarrow> ('d, 'a) access_call) \<Rightarrow> lockOptions \<Rightarrow> nat \<Rightarrow> ('d, 'a) access_call" where
  "guardedCallback env projectId callback opts session =
     chain (hasPersistedDataAccessBlock env projectId opts) (\<lambda>blocked.
     before (require (\<not> blocked) (LockedError ''Project data access migration requires completion or recovery''))
       (before
          (if lockPurpose opts \<noteq> PolicyOperation \<and> lockPurpose opts \<noteq> ProjectionOperation
           then supersedePolicyOperationPreviews env projectId (exclusiveMode opts) else give ())
          (callback session)))"

definition withProjectLock ::
  "'d accessEnv \<Rightarrow> string \<Rightarrow> (nat \<Rightarrow> ('d, 'a) access_call) \<Rightarrow> lockOptions \<Rightarrow> nat \<Rightarrow> ('d, 'a) access_call" where
  "withProjectLock env projectId callback opts session =
     chain (lift id (projectDataAccessLockId projectId)) (\<lambda>name.
     chain (tryLock env session name False) (\<lambda>acquired.
     if acquired
     then finally_do (guardedCallback env projectId callback opts session) (unlock env session name False)
     else throw (LockedError ''A project data change is in progress'')))"

definition withProjectDataAccessMutationLock ::
  "'d accessEnv \<Rightarrow> string \<Rightarrow> (nat \<Rightarrow> ('d, 'a) access_call) \<Rightarrow> lockOptions \<Rightarrow> ('d, 'a) access_call" where
  "withProjectDataAccessMutationLock env projectId callback opts =
     before (lift id (checkLockOptions opts))
     (before (effect env (EvDb ''connect'') (give ()))
     (chain (look (freshSession \<circ> advisoryLocks)) (\<lambda>session.
      sessionScope session
       (chain (tryLock env session DATA_ACCESS_GLOBAL_LOCK_ID (\<not> exclusiveMode opts)) (\<lambda>acquired.
        if acquired
        then finally_do (withProjectLock env projectId callback opts session)
               (unlock env session DATA_ACCESS_GLOBAL_LOCK_ID (\<not> exclusiveMode opts))
        else throw (LockedError ''A deployment-wide data change is in progress''))))))"

definition resolveProjectIdForDataSchema :: "'d accessEnv \<Rightarrow> string \<Rightarrow> ('d, string option) access_call" where
  "resolveProjectIdForDataSchema env schemaName =
     queryDb env ''SELECT project_id'' (\<lambda>d.
       case map fst (filter (\<lambda>(p, r). projectSchema r = Some schemaName) (projectRows d))
            @ map fst (filter (\<lambda>(p, s). s = schemaName) (environmentRows d)) of
         [] \<Rightarrow> None | p # ps \<Rightarrow> Some p)"

definition withSchemaDataAccessMutationLock ::
  "'d accessEnv \<Rightarrow> string \<Rightarrow> (string option \<Rightarrow> nat \<Rightarrow> ('d, 'a) access_call) \<Rightarrow> lockOptions \<Rightarrow> ('d, 'a) access_call" where
  "withSchemaDataAccessMutationLock env schemaName callback opts =
     chain (resolveProjectIdForDataSchema env schemaName) (\<lambda>projectId.
     withProjectDataAccessMutationLock env
       (case projectId of Some p \<Rightarrow> p | None \<Rightarrow> ''unresolved-schema:'' @ schemaName) (callback projectId) opts)"

text \<open>The error codes of the triggers that keep unfinished operations.\<close>

definition isDataAccessMigrationDeleteGuardError :: "string option \<Rightarrow> string option \<Rightarrow> bool" where
  "isDataAccessMigrationDeleteGuardError code constraint \<longleftrightarrow>
     code = Some ''55006''
     \<and> orEmpty constraint \<in> {''druvia_data_access_migrations_inflight_delete_guard'',
          ''druvia_data_access_policy_operations_inflight_delete_guard'',
          ''druvia_data_access_projection_operations_inflight_delete_guard''}"

end
