(* ===== verification/Policy_Repository.thy ===== *)
theory Policy_Repository
  imports Mutation_Lock
begin

text \<open>
  The rows of managed policies and of policy operations, from
  \<open>data-access-managed-policy.repository.ts\<close>, with the constraints the migrations give the tables:
  one row per key, one active operation per project, a payload that no update changes.
\<close>

subsection \<open>Managed policies\<close>

type_synonym policyKey = "string \<times> string \<times> string"

definition getManagedPolicy :: "'d accessEnv \<Rightarrow> policyKey \<Rightarrow> ('d, 'd managedPolicy option) access_call" where
  "getManagedPolicy env key = queryDb env ''SELECT managed_policies'' (\<lambda>d. map_of (managedPolicies d) key)"

definition listManagedPolicies :: "'d accessEnv \<Rightarrow> string \<Rightarrow> string \<Rightarrow> ('d, (policyKey \<times> 'd managedPolicy) list) access_call" where
  "listManagedPolicies env projectId schemaName =
     queryDb env ''SELECT managed_policies'' (\<lambda>d.
       filter (\<lambda>((p, s, t), r). p = projectId \<and> s = schemaName) (managedPolicies d))"

record 'd savePolicyInput =
  savePolicy :: tableAccess
  saveGrants :: columnGrants
  saveCapabilities :: columnCapabilities
  savePermissions :: "materializedPermission list"
  saveDigest :: 'd
  saveDependency :: "jsval option"
  saveDependencyDigest :: "'d option"
  saveActor :: string
  expectedRevision :: "int option"

text \<open>\<open>INSERT ... ON CONFLICT DO NOTHING\<close> when no revision is expected, else an update of the row at
  that revision; no row returned is a conflict.\<close>

definition savedRow :: "'d savePolicyInput \<Rightarrow> string \<Rightarrow> int \<Rightarrow> 'd managedPolicy" where
  "savedRow input creator v =
     \<lparr>permissionsSnapshot = savePermissions input, capabilitiesSnapshot = saveCapabilities input,
      baselineVersion = (case policyVersion (savePolicy input) of Some v \<Rightarrow> v | None \<Rightarrow> 1),
      baselinePolicy = savePolicy input, baselineGrants = saveGrants input,
      metadataDigest = saveDigest input, dependencySnapshot = saveDependency input,
      dependencyDigest = saveDependencyDigest input, revision = v,
      policyCreatedBy = creator, policyUpdatedBy = saveActor input\<rparr>"

definition savePolicyRow :: "policyKey \<Rightarrow> 'd savePolicyInput \<Rightarrow> 'd accessDb \<Rightarrow> 'd accessDb option" where
  "savePolicyRow key input d =
     (case (expectedRevision input, map_of (managedPolicies d) key) of
        (None, None) \<Rightarrow>
          Some (d\<lparr>managedPolicies := AList.update key (savedRow input (saveActor input) 1) (managedPolicies d)\<rparr>)
      | (Some v, Some row) \<Rightarrow>
          if revision row = v
          then Some (d\<lparr>managedPolicies :=
                 AList.update key (savedRow input (policyCreatedBy row) (v + 1)) (managedPolicies d)\<rparr>)
          else None
      | _ \<Rightarrow> None)"

definition saveManagedPolicy :: "'d accessEnv \<Rightarrow> policyKey \<Rightarrow> 'd savePolicyInput \<Rightarrow> ('d, unit) access_call" where
  "saveManagedPolicy env key input =
     statement env ''UPSERT managed_policies'' (\<lambda>w.
       case savePolicyRow key input (db w) of
         None \<Rightarrow> Inl RevisionConflict | Some d \<Rightarrow> Inr ((), d))"

definition deleteManagedPolicy :: "'d accessEnv \<Rightarrow> policyKey \<Rightarrow> ('d, unit) access_call" where
  "deleteManagedPolicy env key =
     statement env ''DELETE managed_policies'' (\<lambda>w.
       Inr ((), (db w)\<lparr>managedPolicies := filter (\<lambda>(k, r). k \<noteq> key) (managedPolicies (db w))\<rparr>))"

subsection \<open>Policy operations\<close>

definition activeStatus :: "operationStatus \<Rightarrow> bool" where
  "activeStatus st \<longleftrightarrow> st \<in> {PreviewReady, OpApplying, OpRecovering, OpRecoveryRequired}"

definition duplicateKey :: "string \<Rightarrow> accessError" where
  "duplicateKey name = PlainError (''duplicate key value violates unique constraint '' @ name)"

text \<open>The unique index of the active operations of a project.\<close>

definition activeConflict :: "'d operationRow list \<Rightarrow> 'd operationRow \<Rightarrow> bool" where
  "activeConflict rows r \<longleftrightarrow>
     activeStatus (operationStatus r)
     \<and> list_ex (\<lambda>q. operationId q \<noteq> operationId r \<and> operationProject q = operationProject r
          \<and> activeStatus (operationStatus q)) rows"

definition insertOperation :: "'d operationRow \<Rightarrow> 'd accessDb \<Rightarrow> accessError + 'd accessDb" where
  "insertOperation r d =
     (if list_ex (\<lambda>q. operationId q = operationId r) (policyOperations d)
      then Inl (duplicateKey ''druvia_data_access_policy_operations_pkey'')
      else if activeConflict (policyOperations d) r
      then Inl (duplicateKey ''idx_data_access_policy_operations_active_project'')
      else if (targetDigest r = None) \<noteq> (targetPermissions r = None)
      then Inl (PlainError ''violates check constraint'')
      else Inr (d\<lparr>policyOperations := policyOperations d @ [r]\<rparr>))"

text \<open>The row inserted: \<open>r\<close> holds the payload, the statement sets the rest.\<close>

definition freshOperation :: "int \<Rightarrow> 'd operationRow \<Rightarrow> 'd operationRow" where
  "freshOperation t r =
     r\<lparr>operationStatus := PreviewReady, operationPhase := ''preview'', writeDeadlineAt := None,
       operationStartedAt := None, operationUpdatedAt := Some t, targetVersion := None,
       writerEpoch := None, operationError := None, operationCompletedAt := None\<rparr>"

definition createPolicyOperation :: "'d accessEnv \<Rightarrow> 'd operationRow \<Rightarrow> ('d, 'd operationRow) access_call" where
  "createPolicyOperation env r =
     statement env ''INSERT policy_operations'' (\<lambda>w.
       let r' = freshOperation (clock w) r in
       (case insertOperation r' (db w) of Inl e \<Rightarrow> Inl e | Inr d \<Rightarrow> Inr (r', d)))"

definition operationsWith :: "string \<Rightarrow> string \<Rightarrow> 'd accessDb \<Rightarrow> 'd operationRow list" where
  "operationsWith projectId opId d =
     filter (\<lambda>r. operationProject r = projectId \<and> operationId r = opId) (policyOperations d)"

definition firstOf :: "'a list \<Rightarrow> 'a option" where
  "firstOf xs = (case xs of [] \<Rightarrow> None | x # _ \<Rightarrow> Some x)"

definition getPolicyOperation :: "'d accessEnv \<Rightarrow> string \<Rightarrow> string \<Rightarrow> ('d, 'd operationRow option) access_call" where
  "getPolicyOperation env projectId opId =
     queryDb env ''SELECT policy_operations'' (\<lambda>d. firstOf (operationsWith projectId opId d))"

text \<open>Rows are in the order of their insertion.\<close>

definition getProjectPolicyOperation :: "'d accessEnv \<Rightarrow> string \<Rightarrow> ('d, 'd operationRow option) access_call" where
  "getProjectPolicyOperation env projectId =
     queryDb env ''SELECT policy_operations'' (\<lambda>d.
       firstOf (rev (filter (\<lambda>r. operationProject r = projectId \<and> activeStatus (operationStatus r))
         (policyOperations d))))"

definition supersedePolicyPreviews :: "'d accessEnv \<Rightarrow> string \<Rightarrow> ('d, unit) access_call" where
  "supersedePolicyPreviews env projectId =
     statement env ''UPDATE policy_operations'' (\<lambda>w.
       Inr ((), supersedePolicyRows (\<lambda>p. p = projectId) (clock w) (db w)))"

definition supersedeProjectionPreviews :: "'d accessEnv \<Rightarrow> string \<Rightarrow> ('d, unit) access_call" where
  "supersedeProjectionPreviews env projectId =
     statement env ''UPDATE projection_operations'' (\<lambda>w.
       Inr ((), supersedeProjectionRows (\<lambda>p. p = projectId) (db w)))"

text \<open>A patch: a missing field stays, \<open>Some None\<close> writes \<open>NULL\<close>.\<close>

record operationPatch =
  patchStatus :: "operationStatus option"
  patchPhase :: "string option"
  patchTargetVersion :: "int option option"
  patchEpoch :: "string option option"
  patchDeadline :: "int option option"
  patchError :: "(string \<times> string) option option"
  patchStarted :: "int option option"
  patchCompleted :: "int option option"

definition noPatch :: operationPatch where
  "noPatch = \<lparr>patchStatus = None, patchPhase = None, patchTargetVersion = None, patchEpoch = None,
     patchDeadline = None, patchError = None, patchStarted = None, patchCompleted = None\<rparr>"

definition orKeep :: "'a option \<Rightarrow> 'a \<Rightarrow> 'a" where
  "orKeep p x = (case p of Some y \<Rightarrow> y | None \<Rightarrow> x)"

definition applyPatch :: "int \<Rightarrow> operationPatch \<Rightarrow> 'd operationRow \<Rightarrow> 'd operationRow" where
  "applyPatch t p r =
     r\<lparr>operationStatus := orKeep (patchStatus p) (operationStatus r),
       operationPhase := orKeep (patchPhase p) (operationPhase r),
       targetVersion := orKeep (patchTargetVersion p) (targetVersion r),
       writerEpoch := orKeep (patchEpoch p) (writerEpoch r),
       writeDeadlineAt := orKeep (patchDeadline p) (writeDeadlineAt r),
       operationError := orKeep (patchError p) (operationError r),
       operationStartedAt := orKeep (patchStarted p) (operationStartedAt r),
       operationCompletedAt := orKeep (patchCompleted p) (operationCompletedAt r),
       operationUpdatedAt := Some t\<rparr>"

definition patchRows ::
  "string \<Rightarrow> ('d operationRow \<Rightarrow> bool) \<Rightarrow> ('d operationRow \<Rightarrow> 'd operationRow) \<Rightarrow> 'd accessDb
   \<Rightarrow> accessError + ('d operationRow \<times> 'd accessDb) option" where
  "patchRows opId cond f d =
     (case filter (\<lambda>r. operationId r = opId \<and> cond r) (policyOperations d) of
        [] \<Rightarrow> Inr None
      | r # _ \<Rightarrow>
          if activeConflict (policyOperations d) (f r)
          then Inl (duplicateKey ''idx_data_access_policy_operations_active_project'')
          else Inr (Some (f r, d\<lparr>policyOperations :=
                 map (\<lambda>q. if operationId q = opId \<and> cond q then f q else q) (policyOperations d)\<rparr>)))"

definition transitionPolicyOperation ::
  "'d accessEnv \<Rightarrow> string \<Rightarrow> operationStatus list \<Rightarrow> operationPatch \<Rightarrow> ('d, 'd operationRow) access_call" where
  "transitionPolicyOperation env opId expected patch =
     (if expected = [] then throw (PlainError ''Expected operation status is required'')
      else if patch = noPatch then throw (PlainError ''Operation transition patch is empty'')
      else statement env ''UPDATE policy_operations'' (\<lambda>w.
        case patchRows opId (\<lambda>r. operationStatus r \<in> set expected) (applyPatch (clock w) patch) (db w) of
          Inl e \<Rightarrow> Inl e | Inr None \<Rightarrow> Inl TransitionError | Inr (Some r) \<Rightarrow> Inr r))"

definition renewPolicyOperationWriterLease ::
  "'d accessEnv \<Rightarrow> string \<Rightarrow> operationStatus \<Rightarrow> string \<Rightarrow> int \<Rightarrow> ('d, unit) access_call" where
  "renewPolicyOperationWriterLease env opId st epoch deadline =
     statement env ''UPDATE policy_operations lease'' (\<lambda>w.
       case patchRows opId
              (\<lambda>r. operationStatus r = st \<and> writerEpoch r = Some epoch
                 \<and> (case writeDeadlineAt r of Some t \<Rightarrow> clock w < t | None \<Rightarrow> False))
              (\<lambda>r. r\<lparr>writeDeadlineAt := Some deadline, operationUpdatedAt := Some (clock w)\<rparr>) (db w) of
         Inl e \<Rightarrow> Inl e | Inr None \<Rightarrow> Inl LeaseError | Inr (Some (r, d)) \<Rightarrow> Inr ((), d))"

end
