(* ===== verification/Metadata_Bulk.thy ===== *)
theory Metadata_Bulk
  imports Access_World
begin

text \<open>
  Writing permissions to the metadata of the engine, from \<open>hasura-metadata-bulk.ts\<close>: commands in one
  atomic request, with a request that is not atomic where the engine has no atomic one, or a
  replacement of the whole metadata.
\<close>

definition isUnsupportedAtomicCommand :: "accessError \<Rightarrow> bool" where
  "isUnsupportedAtomicCommand e \<longleftrightarrow> js_includes (accessMessage e) ''Bulk atomic does not support this command''"

definition applyHasuraMetadataCommands ::
  "'d accessEnv \<Rightarrow> metaCommand list \<Rightarrow> int option \<Rightarrow> ('d, unit) access_call \<Rightarrow> ('d, unit) access_call" where
  "applyHasuraMetadataCommands env commands version beforeFallback =
     (if commands = [] then give ()
      else catching (ignoring (metadataRequest env (BulkAtomic commands version))) (\<lambda>e.
        if \<not> isUnsupportedAtomicCommand e then throw e
        else before beforeFallback
          (catching (ignoring (metadataRequest env (Bulk commands version))) (\<lambda>f.
             throw (UncertainError (accessMessage f))))))"

text \<open>\<open>find\<close> returns the first match, which the document then holds in its changed form.\<close>

definition tableNamed :: "string \<Rightarrow> string \<Rightarrow> tableMetadata \<Rightarrow> bool" where
  "tableNamed s n t \<longleftrightarrow> metaSchema t = s \<and> metaTable t = n"

fun updateFirst :: "('a \<Rightarrow> bool) \<Rightarrow> ('a \<Rightarrow> 'a) \<Rightarrow> 'a list \<Rightarrow> 'a list option" where
  "updateFirst p f [] = None"
| "updateFirst p f (x # xs) =
     (if p x then Some (f x # xs) else map_option (\<lambda>ys. x # ys) (updateFirst p f xs))"

fun setPermissionEntries :: "daOperation \<Rightarrow> permissionEntry list \<Rightarrow> tableMetadata \<Rightarrow> tableMetadata" where
  "setPermissionEntries OpSelect es t = t\<lparr>selectPermissions := es\<rparr>"
| "setPermissionEntries OpInsert es t = t\<lparr>insertPermissions := es\<rparr>"
| "setPermissionEntries OpUpdate es t = t\<lparr>updatePermissions := es\<rparr>"
| "setPermissionEntries OpDelete es t = t\<lparr>deletePermissions := es\<rparr>"

definition replacedEntries ::
  "(string \<Rightarrow> string \<Rightarrow> int) \<Rightarrow> string list \<Rightarrow> materializedPermission list \<Rightarrow> daOperation
   \<Rightarrow> permissionEntry list \<Rightarrow> permissionEntry list" where
  "replacedEntries coll scopedRoles perms op entries =
     filter (\<lambda>e. entryRole e \<notin> set scopedRoles) entries
     @ js_sort (\<lambda>l r. coll (entryRole l) (entryRole r))
         (map (\<lambda>m. \<lparr>entryRole = permRole m, entryPermission = permission m\<rparr>)
           (filter (\<lambda>m. permOperation m = op) perms))"

definition replaceTable ::
  "(string \<Rightarrow> string \<Rightarrow> int) \<Rightarrow> string list \<Rightarrow> materializedPermission list \<Rightarrow> tableMetadata \<Rightarrow> tableMetadata" where
  "replaceTable coll scopedRoles perms t =
     fold (\<lambda>op t'. setPermissionEntries op (replacedEntries coll scopedRoles perms op (getPermissionEntries t' op)) t')
       operationList t"

definition buildMetadataWithTablePermissions ::
  "(string \<Rightarrow> string \<Rightarrow> int) \<Rightarrow> metadataState \<Rightarrow> string \<Rightarrow> string \<Rightarrow> string list \<Rightarrow> materializedPermission list
   \<Rightarrow> accessError + tableMetadata list" where
  "buildMetadataWithTablePermissions coll m schemaName tableName scopedRoles perms =
     (case defaultTables m of
        None \<Rightarrow> Inl (PlainError ''Hasura table metadata is unavailable'')
      | Some tables \<Rightarrow>
          (case updateFirst (tableNamed schemaName tableName) (replaceTable coll scopedRoles perms) tables of
             None \<Rightarrow> Inl (PlainError ''Hasura table metadata is unavailable'')
           | Some ts \<Rightarrow> Inr ts))"

definition replaceHasuraTablePermissions ::
  "'d accessEnv \<Rightarrow> metadataState \<Rightarrow> string \<Rightarrow> string \<Rightarrow> string list \<Rightarrow> materializedPermission list
   \<Rightarrow> int \<Rightarrow> bool \<Rightarrow> ('d, unit) access_call" where
  "replaceHasuraTablePermissions env m schemaName tableName scopedRoles perms version allowInconsistent =
     chain (lift id (buildMetadataWithTablePermissions (collate env) m schemaName tableName scopedRoles perms)) (\<lambda>ts.
     ignoring (metadataRequest env (ReplaceMetadata allowInconsistent ts version)))"

end
