(* ===== verification/Policy_Operation.thy ===== *)
theory Policy_Operation
  imports Policy_Repository Metadata_Bulk Project_Actor
begin

text \<open>
  Operations on the managed policy of a table, from \<open>data-access-policy-operation.service.ts\<close>:
  updates, adoption of rules found in the engine, reconciliation with changed columns, extension of
  grants, and the recovery of an operation whose writer died. Every operation is a row that
  records its source and its target before the engine is touched. Messages of the log are left out.

  \<open>roleHash\<close> of the environment is SHA-256 in hex. A \<open>null\<close> constraint counts as a missing one.
\<close>

subsection \<open>JSON of what is hashed\<close>

fun modeJson :: "accessMode \<Rightarrow> jsval" where
  "modeJson ModeNone = JStr ''none''"
| "modeJson ModeAll = JStr ''all''"
| "modeJson ModeOwner = JStr ''owner''"
| "modeJson ModeOther = JOther ''''"

definition optionJson :: "('a \<Rightarrow> jsval) \<Rightarrow> 'a option \<Rightarrow> jsval" where
  "optionJson f x = (case x of Some y \<Rightarrow> f y | None \<Rightarrow> JNull)"

definition present :: "string \<Rightarrow> ('a \<Rightarrow> jsval) \<Rightarrow> 'a option \<Rightarrow> (string \<times> jsval) list" where
  "present k f x = (case x of Some y \<Rightarrow> [(k, f y)] | None \<Rightarrow> [])"

definition constraintJson :: "projectionConstraint \<Rightarrow> jsval" where
  "constraintJson c =
     JObj ([(''type'', JStr (constraintType c)),
            (''relationshipPath'', optionJson js_strings (relationshipPath c)),
            (''actorColumn'', JStr (actorColumn c)), (''allowColumn'', JStr (allowColumn c))]
           @ present ''environmentColumn'' JStr (environmentColumn c))"

definition policyJson :: "tableAccess \<Rightarrow> jsval" where
  "policyJson p =
     JObj (present ''policyVersion'' (JNum \<circ> of_int) (policyVersion p)
       @ [(''authenticated'', JObj ([(''select'', modeJson (selectMode p)), (''insert'', modeJson (insertMode p)),
             (''update'', modeJson (updateMode p)), (''delete'', modeJson (deleteMode p)),
             (''ownerColumn'', optionJson JStr (ownerColumn p))]
            @ present ''selectConstraint'' constraintJson (selectConstraint p))),
          (''anonymous'', JObj [(''select'', optionJson JBool (anonymousSelect p))])])"

definition grantsJson :: "columnGrants \<Rightarrow> jsval" where
  "grantsJson g =
     JObj [(''authenticated'', JObj [(''select'', js_strings (grantSelect g)), (''insert'', js_strings (grantInsert g)),
             (''update'', js_strings (grantUpdate g))]),
           (''anonymous'', JObj [(''select'', js_strings (grantAnonymous g))])]"

definition permissionsJson :: "materializedPermission list \<Rightarrow> jsval" where
  "permissionsJson ms = JArr (map permissionJson ms)"

definition digestOf :: "'d accessEnv \<Rightarrow> jsval \<Rightarrow> 'd" where
  "digestOf env v = stableDigest (collate env) (hash env) v"

subsection \<open>The context of an operation\<close>

definition POLICY_WRITER_LEASE_MS :: int where
  "POLICY_WRITER_LEASE_MS = 30000"

record operationContext =
  ctxProject :: string
  ctxAlias :: string
  ctxSchema :: string
  ctxTable :: string
  ctxCapabilities :: columnCapabilities
  ctxRoles :: roleNames
  ctxTableMetadata :: "tableMetadata option"
  ctxMetadata :: metadataState
  ctxInspected :: inspection
  ctxVersion :: int

definition requireProject :: "'d accessEnv \<Rightarrow> string \<Rightarrow> ('d, dataProject) access_call" where
  "requireProject env pid =
     chain (queryDb env ''SELECT projects'' (\<lambda>d. map_of (projectRows d) pid)) (\<lambda>row.
     case row of
       None \<Rightarrow> throw (AccessError ''DATA_ACCESS_NOT_FOUND'' ''Project schema not found'')
     | Some r \<Rightarrow>
         if missing (projectSchema r)
         then throw (AccessError ''DATA_ACCESS_NOT_FOUND'' ''Project schema not found'') else give r)"

definition contextRoles :: "'d accessEnv \<Rightarrow> string \<Rightarrow> accessError + roleNames" where
  "contextRoles env pid =
     (case (resolveDataScopeRole (roleHash env) pid None Authenticated,
            resolveDataScopeRole (roleHash env) pid None Anonymous) of
        (Some a, Some n) \<Rightarrow> Inr \<lparr>authenticatedRole = a, anonymousRole = n\<rparr>
      | _ \<Rightarrow> Inl (PlainError ''Project ID is required''))"

definition isSafeInteger :: "int \<Rightarrow> bool" where
  "isSafeInteger n \<longleftrightarrow> \<bar>n\<bar> \<le> 2 ^ 53 - 1"

definition findTable :: "tableMetadata list \<Rightarrow> string \<Rightarrow> string \<Rightarrow> tableMetadata option" where
  "findTable tables schema tableName = firstOf (filter (tableNamed schema tableName) tables)"

definition contextOf ::
  "string \<Rightarrow> string \<Rightarrow> dataProject \<Rightarrow> tableColumn list \<Rightarrow> metadataState \<Rightarrow> tableMetadata list \<Rightarrow> roleNames
   \<Rightarrow> operationContext" where
  "contextOf pid tableName project columns exported tables roles =
     (let schema = orEmpty (projectSchema project);
          meta = findTable tables schema tableName;
          caps = buildTableColumnCapabilities columns in
      \<lparr>ctxProject = pid, ctxAlias = projectAlias project, ctxSchema = schema, ctxTable = tableName,
       ctxCapabilities = caps, ctxRoles = roles, ctxTableMetadata = meta, ctxMetadata = exported,
       ctxInspected = inspectTableDataAccessMetadata meta roles caps, ctxVersion = resourceVersion exported\<rparr>)"

definition loadOperationContext :: "'d accessEnv \<Rightarrow> string \<Rightarrow> string \<Rightarrow> ('d, operationContext) access_call" where
  "loadOperationContext env pid tableName =
     chain (requireProject env pid) (\<lambda>project.
     chain (queryDb env ''SELECT columns'' (\<lambda>d. columnsOf d (orEmpty (projectSchema project), tableName))) (\<lambda>columns.
     case columns of
       None \<Rightarrow> throw (AccessError ''DATA_ACCESS_NOT_FOUND'' ''Table not found'')
     | Some cs \<Rightarrow>
         chain (metadataRequest env ExportMetadata) (\<lambda>exported.
         case exported of
           Some m \<Rightarrow>
             (case defaultTables m of
                Some tables \<Rightarrow>
                  if isSafeInteger (resourceVersion m)
                  then chain (lift id (contextRoles env pid)) (\<lambda>roles.
                       give (contextOf pid tableName project cs m tables roles))
                  else throw (AccessError ''DATA_ACCESS_UPSTREAM_ERROR'' ''Data interface metadata is unavailable'')
              | None \<Rightarrow> throw (AccessError ''DATA_ACCESS_UPSTREAM_ERROR'' ''Data interface metadata is unavailable''))
         | None \<Rightarrow> throw (AccessError ''DATA_ACCESS_UPSTREAM_ERROR'' ''Data interface metadata is unavailable''))))"

subsection \<open>Snapshots and digests\<close>

definition snapshotWithCapabilities ::
  "'d accessEnv \<Rightarrow> operationContext \<Rightarrow> columnCapabilities \<Rightarrow> string + materializedPermission list" where
  "snapshotWithCapabilities env ctx caps =
     bindE (materializeInspectedTableDataAccess
              (inspectTableDataAccessMetadata (ctxTableMetadata ctx) (ctxRoles ctx) caps) (ctxRoles ctx) caps)
       (createPermissionSnapshot (collate env))"

definition snapshotInspected :: "'d accessEnv \<Rightarrow> operationContext \<Rightarrow> string + materializedPermission list" where
  "snapshotInspected env ctx = snapshotWithCapabilities env ctx (ctxCapabilities ctx)"

definition baselineCapabilities :: "operationContext \<Rightarrow> 'd managedPolicy option \<Rightarrow> columnCapabilities" where
  "baselineCapabilities ctx baseline =
     (case baseline of Some b \<Rightarrow> capabilitiesSnapshot b | None \<Rightarrow> ctxCapabilities ctx)"

definition inspectManagedSource :: "operationContext \<Rightarrow> 'd managedPolicy option \<Rightarrow> inspection" where
  "inspectManagedSource ctx baseline =
     (case baseline of
        None \<Rightarrow> ctxInspected ctx
      | Some b \<Rightarrow> inspectTableDataAccessMetadata (ctxTableMetadata ctx) (ctxRoles ctx) (capabilitiesSnapshot b))"

definition snapshotManagedSource ::
  "'d accessEnv \<Rightarrow> operationContext \<Rightarrow> 'd managedPolicy option \<Rightarrow> string + materializedPermission list" where
  "snapshotManagedSource env ctx baseline =
     snapshotWithCapabilities env ctx (baselineCapabilities ctx baseline)"

definition snapshotRawPermissions :: "'d accessEnv \<Rightarrow> operationContext \<Rightarrow> string + materializedPermission list" where
  "snapshotRawPermissions env ctx = createPermissionSnapshot (collate env) (inspectedPermissions (ctxInspected ctx))"

definition recoveryRequired :: "string \<Rightarrow> accessError" where
  "recoveryRequired message = AccessError ''DATA_ACCESS_RECONCILE_RECOVERY_REQUIRED'' message"

definition snapshotRecoveryPermissions ::
  "'d accessEnv \<Rightarrow> operationContext \<Rightarrow> accessError + materializedPermission list" where
  "snapshotRecoveryPermissions env ctx =
     (case snapshotRawPermissions env ctx of
        Inr s \<Rightarrow> Inr s
      | Inl m \<Rightarrow> Inl (recoveryRequired ''Scoped permissions cannot be attributed to the recorded operation''))"

definition classify :: "'d accessEnv \<Rightarrow> operationContext \<Rightarrow> 'd managedPolicy option \<Rightarrow> string + managedState" where
  "classify env ctx baseline =
     (let source = inspectManagedSource ctx baseline;
          custom = authenticatedCustom source \<or> anonymousCustom source in
      bindE (if containsWildcard source \<or> custom then Inr []
             else snapshotWithCapabilities env ctx (baselineCapabilities ctx baseline)) (\<lambda>current.
      classifyManagedPolicyState (collate env) (hash env) custom (inspectedPermissions source \<noteq> [])
        (containsWildcard source) current (ctxCapabilities ctx) baseline False))"

definition createSourceDigest ::
  "'d accessEnv \<Rightarrow> operationContext \<Rightarrow> 'd managedPolicy option \<Rightarrow> materializedPermission list \<Rightarrow> 'd" where
  "createSourceDigest env ctx baseline perms =
     digestOf env (JObj
       [(''projectId'', JStr (ctxProject ctx)), (''schemaName'', JStr (ctxSchema ctx)),
        (''tableName'', JStr (ctxTable ctx)),
        (''baselineRevision'', optionJson (JStr \<circ> int_to_string) (map_option revision baseline)),
        (''sourceCapabilities'', capabilitiesJson (ctxCapabilities ctx)),
        (''sourcePermissions'', permissionsJson perms)])"

definition createTargetDigest ::
  "'d accessEnv \<Rightarrow> tableAccess \<Rightarrow> columnGrants \<Rightarrow> columnCapabilities \<Rightarrow> materializedPermission list \<Rightarrow> 'd" where
  "createTargetDigest env p g caps perms =
     digestOf env (JObj
       [(''targetPolicy'', policyJson p), (''targetColumnGrants'', grantsJson g),
        (''targetCapabilities'', capabilitiesJson caps), (''targetPermissions'', permissionsJson perms)])"

definition permissionsDigest :: "'d accessEnv \<Rightarrow> materializedPermission list \<Rightarrow> string + 'd" where
  "permissionsDigest env perms = permissionSnapshotDigest (collate env) (hash env) perms"

text \<open>Whether two snapshots have one digest; the digest of either can fail.\<close>

definition samePermissions ::
  "'d accessEnv \<Rightarrow> materializedPermission list \<Rightarrow> materializedPermission list \<Rightarrow> string + bool" where
  "samePermissions env l r =
     bindE (permissionsDigest env l) (\<lambda>a. bindE (permissionsDigest env r) (\<lambda>b. Inr (a = b)))"

subsection \<open>Grants\<close>

definition invalidPolicy :: "string \<Rightarrow> accessError" where
  "invalidPolicy message = AccessError ''INVALID_DATA_ACCESS_POLICY'' message"

record updateInput =
  inputOperation :: string
  inputPolicy :: tableAccess
  inputRevision :: "int option"
  inputGrants :: "columnGrants option"

definition writeDefault :: "tableAccess \<Rightarrow> daOperation \<Rightarrow> string list \<Rightarrow> string list" where
  "writeDefault p op columns =
     (if modeOf p op = ModeNone then []
      else filter (\<lambda>c. modeOf p op \<noteq> ModeOwner \<or> Some c \<noteq> ownerColumn p) columns)"

definition defaultColumnGrants :: "tableAccess \<Rightarrow> columnCapabilities \<Rightarrow> columnGrants" where
  "defaultColumnGrants p caps =
     \<lparr>grantSelect = (if selectMode p = ModeNone then [] else readableColumns caps),
      grantInsert = writeDefault p OpInsert (insertableColumns caps),
      grantUpdate = writeDefault p OpUpdate (updateableColumns caps),
      grantAnonymous = (if anonymousSelect p = Some True then readableColumns caps else [])\<rparr>"

fun carryGrants :: "tableAccess \<Rightarrow> tableAccess \<Rightarrow> daOperation list \<Rightarrow> columnGrants \<Rightarrow> accessError + columnGrants" where
  "carryGrants previous wanted [] g = Inr g"
| "carryGrants previous wanted (op # ops) g =
     (if modeOf wanted op = ModeNone then carryGrants previous wanted ops (setGrant op [] g)
      else if modeOf previous op = ModeNone
      then Inl (invalidPolicy (''Column grants are required when enabling '' @ operationName op))
      else carryGrants previous wanted ops g)"

definition withoutOwner :: "tableAccess \<Rightarrow> daOperation \<Rightarrow> columnGrants \<Rightarrow> columnGrants" where
  "withoutOwner p op g =
     (if modeOf p op = ModeOwner then setGrant op (filter (\<lambda>c. Some c \<noteq> ownerColumn p) (grantFor g op)) g else g)"

definition resolvePolicyUpdateGrants ::
  "updateInput \<Rightarrow> 'd managedPolicy option \<Rightarrow> columnCapabilities \<Rightarrow> accessError + columnGrants" where
  "resolvePolicyUpdateGrants input baseline caps =
     (let p = inputPolicy input in
      case baseline of
        None \<Rightarrow> Inr (case inputGrants input of Some g \<Rightarrow> g | None \<Rightarrow> defaultColumnGrants p caps)
      | Some b \<Rightarrow>
          (case inputGrants input of
             Some g \<Rightarrow> Inr g
           | None \<Rightarrow>
               bindE (carryGrants (baselinePolicy b) p [OpSelect, OpInsert, OpUpdate]
                        (materializeReconcileGrants (baselineGrants b) caps)) (\<lambda>g.
               bindE (if anonymousSelect p \<noteq> Some True then Inr (g\<lparr>grantAnonymous := []\<rparr>)
                      else if anonymousSelect (baselinePolicy b) \<noteq> Some True
                      then Inl (invalidPolicy ''Column grants are required when enabling anonymous select'')
                      else Inr g) (\<lambda>g.
               bindE (guardE (\<not> (ownerColumn (baselinePolicy b) \<noteq> ownerColumn p
                        \<and> (insertMode p = ModeOwner \<or> updateMode p = ModeOwner)))
                 (invalidPolicy ''Column grants are required when changing the owner column'')) (\<lambda>_.
               Inr (withoutOwner p OpUpdate (withoutOwner p OpInsert g)))))))"

definition closeOwnerModes :: "tableAccess \<Rightarrow> tableAccess" where
  "closeOwnerModes p =
     fold (\<lambda>op q. if modeOf q op = ModeOwner then setMode op ModeNone q else q) operationList p"

definition materializeSafeReconcilePolicy :: "tableAccess \<Rightarrow> columnCapabilities \<Rightarrow> tableAccess" where
  "materializeSafeReconcilePolicy baseline caps =
     (let p = baseline\<lparr>policyVersion := Some (case policyVersion baseline of Some v \<Rightarrow> v | None \<Rightarrow> 1)\<rparr> in
      case ownerColumn p of
        None \<Rightarrow> p
      | Some k \<Rightarrow>
          if k = [] then p
          else
            (let q = (if k \<notin> set (readableColumns caps) then closeOwnerModes p
                      else if insertMode p = ModeOwner \<and> k \<notin> set (insertableColumns caps)
                      then p\<lparr>insertMode := ModeNone\<rparr> else p) in
             if usesOwnerMode q then q else q\<lparr>ownerColumn := None\<rparr>))"

fun validateColumnGrantModes :: "daOperation list \<Rightarrow> tableAccess \<Rightarrow> columnGrants \<Rightarrow> accessError + unit" where
  "validateColumnGrantModes [] p g =
     guardE (\<not> (anonymousSelect p \<noteq> Some True \<and> grantAnonymous g \<noteq> []))
       (invalidPolicy ''Closed anonymous select cannot retain column grants'')"
| "validateColumnGrantModes (op # ops) p g =
     (if modeOf p op = ModeNone \<and> grantFor g op \<noteq> []
      then Inl (invalidPolicy (''Closed '' @ operationName op @ '' cannot retain column grants''))
      else validateColumnGrantModes ops p g)"

definition validateExpectedRevision :: "updateInput \<Rightarrow> 'd managedPolicy option \<Rightarrow> accessError + unit" where
  "validateExpectedRevision input baseline =
     guardE (inputRevision input = map_option revision baseline) stalePreview"

subsection \<open>Writing permissions\<close>

definition buildPermissionCommands ::
  "operationContext \<Rightarrow> materializedPermission list \<Rightarrow> materializedPermission list \<Rightarrow> metaCommand list" where
  "buildPermissionCommands ctx source target =
     map (\<lambda>m. DropPermission (permOperation m) (ctxSchema ctx) (ctxTable ctx) (permRole m)) source
     @ map (\<lambda>m. CreatePermission (permOperation m) (ctxSchema ctx) (ctxTable ctx) (permRole m) (permission m)) target"

definition unavailableColumns :: "columnCapabilities \<Rightarrow> materializedPermission \<Rightarrow> bool" where
  "unavailableColumns caps m \<longleftrightarrow>
     permOperation m \<noteq> OpDelete
     \<and> (case permGet (permission m) ''columns'' of
          JArr items \<Rightarrow>
            list_ex (\<lambda>c. \<not> js_is_string c
              \<or> js_string_of c \<notin> set (case permOperation m of
                   OpSelect \<Rightarrow> readableColumns caps | OpInsert \<Rightarrow> insertableColumns caps
                 | _ \<Rightarrow> updateableColumns caps)) items
        | _ \<Rightarrow> True)"

definition hasUnavailablePermissionColumns :: "materializedPermission list \<Rightarrow> columnCapabilities \<Rightarrow> bool" where
  "hasUnavailablePermissionColumns perms caps \<longleftrightarrow> list_ex (unavailableColumns caps) perms"

definition applyPermissionMutation ::
  "'d accessEnv \<Rightarrow> operationContext \<Rightarrow> materializedPermission list \<Rightarrow> materializedPermission list \<Rightarrow> int
   \<Rightarrow> ('d, unit) access_call \<Rightarrow> ('d, unit) access_call" where
  "applyPermissionMutation env ctx source target version beforeFallback =
     (if hasUnavailablePermissionColumns source (ctxCapabilities ctx)
         \<or> hasUnavailablePermissionColumns target (ctxCapabilities ctx)
      then replaceHasuraTablePermissions env (ctxMetadata ctx) (ctxSchema ctx) (ctxTable ctx)
             [authenticatedRole (ctxRoles ctx), anonymousRole (ctxRoles ctx)] target version True
      else applyHasuraMetadataCommands env (buildPermissionCommands ctx source target) (Some version) beforeFallback)"

subsection \<open>Checks\<close>

definition assertOperationContext :: "'d operationRow \<Rightarrow> operationContext \<Rightarrow> accessError + unit" where
  "assertOperationContext o1 ctx =
     guardE (operationSchema o1 = ctxSchema ctx) (stale ''Policy operation schema changed'')"

definition assertOperationSchemaCurrent :: "'d accessEnv \<Rightarrow> 'd operationRow \<Rightarrow> ('d, unit) access_call" where
  "assertOperationSchemaCurrent env o1 =
     chain (requireProject env (operationProject o1)) (\<lambda>p.
     require (orEmpty (projectSchema p) = operationSchema o1) (stale ''Policy operation schema changed''))"

definition projectionDependencyInvalid :: accessError where
  "projectionDependencyInvalid = conflict ''DATA_ACCESS_PROJECTION_DEPENDENCY_INVALID''
     ''Authorization projection dependency changed; reconciliation failed closed''"

definition isAccessError :: "accessError \<Rightarrow> bool" where
  "isAccessError e = (case e of AccessError c m \<Rightarrow> True | _ \<Rightarrow> False)"

definition assertProjectionDependencyCurrent ::
  "'d accessEnv \<Rightarrow> operationContext \<Rightarrow> 'd managedPolicy option \<Rightarrow> ('d, unit) access_call" where
  "assertProjectionDependencyCurrent env ctx baseline =
     (case baseline of
        None \<Rightarrow> give ()
      | Some b \<Rightarrow>
          if baselineVersion b \<noteq> 2 then give ()
          else (case (dependencySnapshot b, dependencyDigest b) of
              (Some recorded, Some expected) \<Rightarrow>
                catching
                  (chain (queryDb env ''SELECT dependencies''
                     (\<lambda>d. dependencyCheck env d (ctxProject ctx) (ctxSchema ctx) recorded (ctxMetadata ctx))) (\<lambda>r.
                   chain (lift id r) (\<lambda>digest. require (digest = expected) projectionDependencyInvalid)))
                  (\<lambda>e. throw (if isAccessError e then e else projectionDependencyInvalid))
            | _ \<Rightarrow> throw projectionDependencyInvalid))"

definition assertNotProjectionManaged :: "'d managedPolicy option \<Rightarrow> accessError + unit" where
  "assertNotProjectionManaged baseline =
     guardE (case baseline of Some b \<Rightarrow> baselineVersion b \<noteq> 2 | None \<Rightarrow> True)
       (conflict ''DATA_ACCESS_PROJECTION_MANAGED''
          ''Authorization projection policies must be changed through the project projection operation'')"

definition assertTablePolicyVersionOne :: "tableAccess \<Rightarrow> accessError + unit" where
  "assertTablePolicyVersionOne p =
     guardE (policyVersion p \<noteq> Some 2 \<and> selectConstraint p = None)
       (conflict ''DATA_ACCESS_PROJECTION_MANAGED''
          ''Authorization projection policies must be changed through the project projection operation'')"

definition assertIdempotentRequest :: "'d operationRow \<Rightarrow> 'd \<Rightarrow> accessError + unit" where
  "assertIdempotentRequest o1 digest =
     guardE (requestDigest o1 = digest)
       (conflict ''DATA_ACCESS_POLICY_STALE'' ''Operation ID was already used for another request'')"

definition assertOperationConfirmation :: "'d operationRow \<Rightarrow> 'd \<Rightarrow> 'd option \<Rightarrow> accessError + unit" where
  "assertOperationConfirmation o1 source target =
     guardE (sourceDigest o1 = source \<and> (target = None \<or> targetDigest o1 = target)) stalePreview"

definition assertProjectAlias :: "operationContext \<Rightarrow> string \<Rightarrow> accessError + unit" where
  "assertProjectAlias ctx alias1 =
     guardE (alias1 \<noteq> [] \<and> alias1 = ctxAlias ctx)
       (AccessError ''INVALID_DATA_ACCESS_CONFIRMATION'' ''Project alias does not match'')"

definition assertOperationId :: "string \<Rightarrow> accessError + unit" where
  "assertOperationId s =
     guardE (8 \<le> length s \<and> length s \<le> 64 \<and> list_all (\<lambda>c. word_char c \<or> c = CHR ''-'') s)
       (invalidPolicy ''Invalid operation ID'')"

definition createOperationId :: "'d accessEnv \<Rightarrow> ('d, string) access_call" where
  "createOperationId env = chain (uuid env) (\<lambda>u. give (''dap_'' @ u))"

definition expectedCompletedRevision :: "'d operationRow \<Rightarrow> int" where
  "expectedCompletedRevision o1 =
     (case (targetVersion o1, baselineRevision o1) of
        (None, Some r) \<Rightarrow> r
      | (_, r) \<Rightarrow> (case r of Some n \<Rightarrow> n | None \<Rightarrow> 0) + 1)"

definition completedCurrent :: "'d accessEnv \<Rightarrow> 'd operationRow \<Rightarrow> 'd managedPolicy option \<Rightarrow> string + bool" where
  "completedCurrent env o1 baseline =
     (case (baseline, targetPolicy o1, targetColumnGrants o1, targetCapabilities o1, targetPermissions o1) of
        (Some b, Some p, Some g, Some c, Some perms) \<Rightarrow>
          if revision b \<noteq> expectedCompletedRevision o1
             \<or> digestOf env (policyJson (baselinePolicy b)) \<noteq> digestOf env (policyJson p)
             \<or> digestOf env (grantsJson (baselineGrants b)) \<noteq> digestOf env (grantsJson g)
             \<or> digestOf env (capabilitiesJson (capabilitiesSnapshot b)) \<noteq> digestOf env (capabilitiesJson c)
          then Inr False
          else samePermissions env (permissionsSnapshot b) perms
      | _ \<Rightarrow> Inr False)"

definition assertCompletedOperationCurrent ::
  "'d accessEnv \<Rightarrow> 'd operationRow \<Rightarrow> 'd managedPolicy option \<Rightarrow> accessError + unit" where
  "assertCompletedOperationCurrent env o1 baseline =
     (case completedCurrent env o1 baseline of
        Inl m \<Rightarrow> Inl (PlainError m)
      | Inr ok \<Rightarrow> guardE ok (conflict ''DATA_ACCESS_POLICY_STALE'' ''Completed operation has been superseded''))"

definition priorOperationState :: "'d operationRow \<Rightarrow> accessError" where
  "priorOperationState o1 =
     (if operationStatus o1 = OpRecoveryRequired
      then conflict ''DATA_ACCESS_RECONCILE_RECOVERY_REQUIRED'' ''Data access recovery is required''
      else if operationStatus o1 = OpFailed \<or> operationStatus o1 = OpSuperseded
      then conflict (case operationError o1 of Some (code, m) \<Rightarrow> code | None \<Rightarrow> ''DATA_ACCESS_POLICY_STALE'')
             ''Data access operation cannot be retried''
      else conflict ''DATA_ACCESS_POLICY_OPERATION_IN_PROGRESS'' ''Data access operation is not complete'')"

definition requireOperation ::
  "'d accessEnv \<Rightarrow> string \<Rightarrow> string \<Rightarrow> operationKind option \<Rightarrow> ('d, 'd operationRow) access_call" where
  "requireOperation env pid opId kind =
     chain (getPolicyOperation env pid opId) (\<lambda>o0.
     case o0 of
       Some o1 \<Rightarrow>
         if kind = None \<or> kind = Some (operationKind o1) then give o1
         else throw (AccessError ''DATA_ACCESS_NOT_FOUND'' ''Policy operation not found'')
     | None \<Rightarrow> throw (AccessError ''DATA_ACCESS_NOT_FOUND'' ''Policy operation not found''))"

definition assertRecoverablePermissionState ::
  "'d accessEnv \<Rightarrow> materializedPermission list \<Rightarrow> 'd operationRow \<Rightarrow> accessError + unit" where
  "assertRecoverablePermissionState env current o1 =
     (case isRecoverablePermissionSnapshot (collate env) (hash env) current (sourcePermissions o1)
             (case targetPermissions o1 of Some t \<Rightarrow> t | None \<Rightarrow> []) of
        Inl m \<Rightarrow> Inl (PlainError m)
      | Inr ok \<Rightarrow> guardE ok (recoveryRequired ''Scoped permissions changed outside the recorded operation''))"

end
