(* ===== verification/Policy_Service.thy ===== *)
theory Policy_Service
  imports Policy_Operation
begin

text \<open>
  The operations of \<open>data-access-policy-operation.service.ts\<close> themselves. \<open>getState\<close> is the callback of
  the caller that reads the state it answers with. The two queries of \<open>confirmUnknownPolicyCommit\<close>
  run one after the other.
\<close>

subsection \<open>Applying and restoring\<close>

definition renewLease :: "'d accessEnv \<Rightarrow> string \<Rightarrow> operationStatus \<Rightarrow> string \<Rightarrow> ('d, unit) access_call" where
  "renewLease env opId st epoch =
     chain now (\<lambda>t. renewPolicyOperationWriterLease env opId st epoch (t + POLICY_WRITER_LEASE_MS))"

definition liftText :: "string + 'a \<Rightarrow> ('d, 'a) access_call" where
  "liftText r = lift PlainError r"

definition finishPatch :: "operationStatus \<Rightarrow> int \<Rightarrow> (string \<times> string) option \<Rightarrow> operationPatch" where
  "finishPatch st t err =
     noPatch\<lparr>patchStatus := Some st, patchPhase := Some ''completed'', patchCompleted := Some (Some t),
       patchError := map_option Some err\<rparr>"

definition uncertainPatch :: "string \<Rightarrow> operationPatch" where
  "uncertainPatch message =
     noPatch\<lparr>patchStatus := Some OpRecoveryRequired, patchPhase := Some ''verify_source'',
       patchError := Some (Some (''DATA_ACCESS_RECONCILE_RECOVERY_REQUIRED'', message))\<rparr>"

definition leasePatch :: "operationStatus \<Rightarrow> string \<Rightarrow> string \<Rightarrow> int \<Rightarrow> operationPatch" where
  "leasePatch st phase epoch t =
     noPatch\<lparr>patchStatus := Some st, patchPhase := Some phase, patchEpoch := Some (Some epoch),
       patchDeadline := Some (Some (t + POLICY_WRITER_LEASE_MS))\<rparr>"

definition finishOperation ::
  "'d accessEnv \<Rightarrow> string \<Rightarrow> operationStatus list \<Rightarrow> operationStatus \<Rightarrow> (string \<times> string) option
   \<Rightarrow> ('d, 'd operationRow) access_call" where
  "finishOperation env opId expected st err =
     chain now (\<lambda>t. transitionPolicyOperation env opId expected (finishPatch st t err))"

definition startWriter ::
  "'d accessEnv \<Rightarrow> string \<Rightarrow> operationStatus list \<Rightarrow> operationStatus \<Rightarrow> string \<Rightarrow> ('d, string) access_call" where
  "startWriter env opId expected st phase =
     chain (uuid env) (\<lambda>epoch. chain now (\<lambda>t.
     chain (transitionPolicyOperation env opId expected (leasePatch st phase epoch t)) (\<lambda>_. give epoch)))"

definition policyKeyOf :: "operationContext \<Rightarrow> policyKey" where
  "policyKeyOf ctx = (ctxProject ctx, ctxSchema ctx, ctxTable ctx)"

definition restoreCapabilities :: "'d operationRow \<Rightarrow> 'd managedPolicy option \<Rightarrow> columnCapabilities" where
  "restoreCapabilities o1 baseline =
     (case baseline of
        Some b \<Rightarrow> if baselineRevision o1 = Some (revision b) then capabilitiesSnapshot b else sourceCapabilities o1
      | None \<Rightarrow> sourceCapabilities o1)"

text \<open>The permissions read back are those of the source.\<close>

definition verifySource ::
  "'d accessEnv \<Rightarrow> 'd operationRow \<Rightarrow> 'd managedPolicy option \<Rightarrow> operationContext \<Rightarrow> string \<Rightarrow> ('d, unit) access_call" where
  "verifySource env o1 baseline restored message =
     chain (liftText (bindE (snapshotWithCapabilities env restored (restoreCapabilities o1 baseline))
        (\<lambda>s. samePermissions env s (sourcePermissions o1)))) (\<lambda>same.
     require same (PlainError message))"

definition restoreBody ::
  "'d accessEnv \<Rightarrow> operationContext \<Rightarrow> 'd operationRow \<Rightarrow> 'd managedPolicy option \<Rightarrow> ('d, unit) access_call" where
  "restoreBody env ctx o1 baseline =
     chain (loadOperationContext env (ctxProject ctx) (ctxTable ctx)) (\<lambda>current.
     before (lift id (assertOperationContext o1 current))
     (chain (lift id (snapshotRecoveryPermissions env current)) (\<lambda>perms.
      before (lift id (assertRecoverablePermissionState env perms o1))
      (chain (startWriter env (operationId o1) [OpApplying] OpRecovering ''restore_source'') (\<lambda>epoch.
       let renew = renewLease env (operationId o1) OpRecovering epoch in
       before renew
       (before (applyPermissionMutation env current perms (sourcePermissions o1) (ctxVersion current) renew)
       (chain (loadOperationContext env (ctxProject ctx) (ctxTable ctx)) (\<lambda>restored.
        before (verifySource env o1 baseline restored ''Restore mismatch'')
          (ignoring (finishOperation env (operationId o1) [OpRecovering] OpFailed
             (Some (''DATA_ACCESS_OPERATION_FAILED'', ''Source permissions restored''))))))))))))"

definition restoreSource ::
  "'d accessEnv \<Rightarrow> operationContext \<Rightarrow> 'd operationRow \<Rightarrow> 'd managedPolicy option \<Rightarrow> ('d, unit) access_call" where
  "restoreSource env ctx o1 baseline =
     catching (restoreBody env ctx o1 baseline) (\<lambda>e.
       if e = LeaseError then throw writerLeaseExpired
       else before
         (catching (ignoring (transitionPolicyOperation env (operationId o1) [OpApplying, OpRecovering]
            (uncertainPatch ''Permission recovery requires attention''))) (\<lambda>_. give ()))
         (throw (recoveryRequired ''Permission recovery requires attention'')))"

datatype commitOutcome = Committed | NotCommitted | CommitUncertain

definition sourceRevisionMatches ::
  "'d accessEnv \<Rightarrow> 'd operationRow \<Rightarrow> 'd managedPolicy option \<Rightarrow> string + bool" where
  "sourceRevisionMatches env o1 baseline =
     (case (baselineRevision o1, baseline) of
        (None, None) \<Rightarrow> Inr True
      | (Some r, Some b) \<Rightarrow>
          if revision b = r then samePermissions env (permissionsSnapshot b) (sourcePermissions o1) else Inr False
      | _ \<Rightarrow> Inr False)"

definition commitOutcomeOf ::
  "'d accessEnv \<Rightarrow> 'd operationRow \<Rightarrow> 'd operationRow option \<Rightarrow> 'd managedPolicy option \<Rightarrow> string + commitOutcome" where
  "commitOutcomeOf env o1 persisted baseline =
     (let done1 = (case persisted of Some r \<Rightarrow> operationStatus r = OpCompleted | None \<Rightarrow> False);
          applying = (case persisted of Some r \<Rightarrow> operationStatus r = OpApplying | None \<Rightarrow> False);
          expected = (case baselineRevision o1 of Some n \<Rightarrow> n | None \<Rightarrow> 0) + 1 in
      bindE (case baseline of
               Some b \<Rightarrow>
                 if done1 \<and> revision b = expected
                 then bindE (permissionsDigest env (case targetPermissions o1 of Some t \<Rightarrow> t | None \<Rightarrow> []))
                        (\<lambda>d. Inr (metadataDigest b = d))
                 else Inr False
             | None \<Rightarrow> Inr False) (\<lambda>committed.
      if committed then Inr Committed
      else bindE (sourceRevisionMatches env o1 baseline) (\<lambda>matches.
        Inr (if applying \<and> matches then NotCommitted else CommitUncertain))))"

definition confirmUnknownPolicyCommit :: "'d accessEnv \<Rightarrow> 'd operationRow \<Rightarrow> ('d, commitOutcome) access_call" where
  "confirmUnknownPolicyCommit env o1 =
     catching
       (chain (getPolicyOperation env (operationProject o1) (operationId o1)) (\<lambda>persisted.
        chain (getManagedPolicy env (operationProject o1, operationSchema o1, operationTable o1)) (\<lambda>baseline.
        liftText (commitOutcomeOf env o1 persisted baseline))))
       (\<lambda>_. give CommitUncertain)"

definition onUnknownCommit :: "'d accessEnv \<Rightarrow> 'd operationRow \<Rightarrow> accessError \<Rightarrow> ('d, unit) access_call" where
  "onUnknownCommit env o1 e =
     chain (confirmUnknownPolicyCommit env o1) (\<lambda>r.
     case r of
       Committed \<Rightarrow> give ()
     | NotCommitted \<Rightarrow> throw e
     | CommitUncertain \<Rightarrow> throw (recoveryRequired ''Data access commit result requires recovery verification''))"

text \<open>Every operation has a target; without one the block fails.\<close>

definition targetOf ::
  "'d operationRow \<Rightarrow> string + tableAccess \<times> columnGrants \<times> columnCapabilities \<times> materializedPermission list" where
  "targetOf o1 =
     (case (targetPolicy o1, targetColumnGrants o1, targetCapabilities o1, targetPermissions o1) of
        (Some p, Some g, Some c, Some perms) \<Rightarrow> Inr (p, g, c, perms)
      | _ \<Rightarrow> Inl ''Cannot read properties of null'')"

definition commitTarget ::
  "'d accessEnv \<Rightarrow> operationContext \<Rightarrow> 'd operationRow \<Rightarrow> string \<Rightarrow> 'd managedPolicy option \<Rightarrow> int \<Rightarrow> ('d, unit) access_call" where
  "commitTarget env ctx o1 actorId baseline version =
     transaction env
       (chain (liftText (targetOf o1)) (\<lambda>(p, g, c, perms).
        chain (liftText (permissionsDigest env perms)) (\<lambda>d.
        before (saveManagedPolicy env (policyKeyOf ctx)
          \<lparr>savePolicy = p, saveGrants = g, saveCapabilities = c, savePermissions = perms, saveDigest = d,
           saveDependency = (case baseline of Some b \<Rightarrow> dependencySnapshot b | None \<Rightarrow> None),
           saveDependencyDigest = (case baseline of Some b \<Rightarrow> dependencyDigest b | None \<Rightarrow> None),
           saveActor = actorId, expectedRevision = baselineRevision o1\<rparr>)
        (chain now (\<lambda>t.
         ignoring (transitionPolicyOperation env (operationId o1) [OpApplying]
           ((finishPatch OpCompleted t None)\<lparr>patchTargetVersion := Some (Some version)\<rparr>)))))))
       (onUnknownCommit env o1)"

text \<open>The part of the \<open>try\<close> block after the permissions were written.\<close>

definition verifyAndCommit ::
  "'d accessEnv \<Rightarrow> operationContext \<Rightarrow> 'd operationRow \<Rightarrow> string \<Rightarrow> 'd managedPolicy option \<Rightarrow> string \<Rightarrow> ('d, unit) access_call" where
  "verifyAndCommit env ctx o1 actorId baseline epoch =
     chain (loadOperationContext env (ctxProject ctx) (ctxTable ctx)) (\<lambda>target.
     chain (liftText (snapshotInspected env target)) (\<lambda>verified.
     chain (liftText (targetOf o1)) (\<lambda>(p, g, c, perms).
     before (require (Some (createTargetDigest env p g c verified) = targetDigest o1)
       (PlainError ''Target permission verification failed''))
     (before (assertProjectionDependencyCurrent env target baseline)
     (chain (getPolicyOperation env (ctxProject ctx) (operationId o1)) (\<lambda>owned.
      before (require (case owned of
            Some r \<Rightarrow> operationStatus r = OpApplying \<and> writerEpoch r = Some epoch | None \<Rightarrow> False)
          (PlainError ''Policy operation writer ownership changed''))
        (commitTarget env ctx o1 actorId baseline (ctxVersion target))))))))"

definition isRecoveryRequired :: "accessError \<Rightarrow> bool" where
  "isRecoveryRequired e =
     (case e of AccessError c m \<Rightarrow> c = ''DATA_ACCESS_RECONCILE_RECOVERY_REQUIRED'' | _ \<Rightarrow> False)"

definition failedApply ::
  "'d accessEnv \<Rightarrow> operationContext \<Rightarrow> 'd operationRow \<Rightarrow> 'd managedPolicy option \<Rightarrow> bool \<Rightarrow> accessError
   \<Rightarrow> ('d, unit) access_call" where
  "failedApply env ctx o1 baseline metadataApplied e =
     (if e = LeaseError then throw writerLeaseExpired
      else if isRecoveryRequired e
      then throw e
      else if \<not> metadataApplied \<and> \<not> isDefinitiveRejection e
      then before (ignoring (transitionPolicyOperation env (operationId o1) [OpApplying]
             (uncertainPatch ''Metadata write outcome requires recovery verification'')))
           (throw (recoveryRequired ''Data access update requires recovery verification''))
      else before
        (if metadataApplied then restoreSource env ctx o1 baseline
         else ignoring (finishOperation env (operationId o1) [OpApplying] OpFailed
                (Some (''DATA_ACCESS_OPERATION_FAILED'', ''Data access update failed''))))
        (throw (if isAccessError e then e
                else AccessError ''DATA_ACCESS_UPSTREAM_ERROR'' ''Unable to apply data access metadata'')))"

text \<open>\<open>metadataApplied\<close> is false until the permissions are written and true afterwards; the handler
  always throws, so the two parts of the \<open>try\<close> block have a handler each.\<close>

definition writeAndCommit ::
  "'d accessEnv \<Rightarrow> operationContext \<Rightarrow> operationContext \<Rightarrow> 'd operationRow \<Rightarrow> string \<Rightarrow> 'd managedPolicy option
   \<Rightarrow> string \<Rightarrow> ('d, unit) access_call" where
  "writeAndCommit env ctx second o1 actorId baseline epoch =
     (let renew = renewLease env (operationId o1) OpApplying epoch in
      before
        (catching
          (before renew
            (applyPermissionMutation env second (sourcePermissions o1)
               (case targetPermissions o1 of Some t \<Rightarrow> t | None \<Rightarrow> []) (ctxVersion second) renew))
          (failedApply env ctx o1 baseline False))
        (catching (verifyAndCommit env ctx o1 actorId baseline epoch) (failedApply env ctx o1 baseline True)))"

definition applyPolicyOperation ::
  "'d accessEnv \<Rightarrow> operationContext \<Rightarrow> 'd operationRow \<Rightarrow> string \<Rightarrow> ('d, unit) access_call" where
  "applyPolicyOperation env ctx o1 actorId =
     chain (loadOperationContext env (ctxProject ctx) (ctxTable ctx)) (\<lambda>second.
     before (lift id (assertOperationContext o1 second))
     (chain (getManagedPolicy env (policyKeyOf ctx)) (\<lambda>baseline.
      chain (if ctxVersion second \<noteq> sourceVersion o1 then give False
             else chain (liftText (snapshotManagedSource env second baseline)) (\<lambda>s.
               give (createSourceDigest env second baseline s = sourceDigest o1))) (\<lambda>fresh.
      if \<not> fresh
      then before (ignoring (finishOperation env (operationId o1) [operationStatus o1] OpFailed
             (Some (''DATA_ACCESS_RECONCILE_STALE'', ''Data access source changed''))))
           (throw stalePreview)
      else
        before (assertProjectionDependencyCurrent env second baseline)
        (chain (uuid env) (\<lambda>epoch. chain now (\<lambda>t.
         before (ignoring (transitionPolicyOperation env (operationId o1) [operationStatus o1]
           ((leasePatch OpApplying ''apply_permissions'' epoch t)
              \<lparr>patchStarted := Some (Some (case operationStartedAt o1 of Some s \<Rightarrow> s | None \<Rightarrow> t))\<rparr>)))
           (writeAndCommit env ctx second o1 actorId baseline epoch))))))))"

end
