(* ===== verification/Policy_Requests.thy ===== *)
theory Policy_Requests
  imports Policy_Service
begin

text \<open>
  The exported functions of \<open>data-access-policy-operation.service.ts\<close>: each takes the lock of the
  project, checks the recorded operation against the world, and previews, applies or recovers.
\<close>

subsection \<open>Previews and states\<close>

record 'd operationState =
  stateOperation :: string
  stateTable :: string
  stateKind :: operationKind
  stateStatus :: operationStatus
  statePhase :: string
  stateSource :: 'd
  stateTarget :: "'d option"
  stateDeadline :: "int option"
  stateStarted :: "int option"
  stateError :: "(string \<times> string) option"

text \<open>Times stay numbers; the code prints them.\<close>

definition toOperationState :: "'d operationRow \<Rightarrow> 'd operationState" where
  "toOperationState o1 =
     \<lparr>stateOperation = operationId o1, stateTable = operationTable o1, stateKind = operationKind o1,
      stateStatus = operationStatus o1, statePhase = operationPhase o1, stateSource = sourceDigest o1,
      stateTarget = targetDigest o1, stateDeadline = writeDeadlineAt o1, stateStarted = operationStartedAt o1,
      stateError = operationError o1\<rparr>"

record 'd policyPreview =
  previewOperation :: "'d operationState"
  previewProject :: string
  previewSchema :: string
  previewTable :: string
  previewRevision :: "int option"
  previewPolicy :: "tableAccess option"
  previewGrants :: "columnGrants option"
  previewCapabilities :: columnCapabilities
  previewDrift :: "columnDrift option"

definition toPreview :: "operationContext \<Rightarrow> 'd operationRow \<Rightarrow> columnDrift option \<Rightarrow> 'd policyPreview" where
  "toPreview ctx o1 drift =
     \<lparr>previewOperation = toOperationState o1, previewProject = ctxProject ctx, previewSchema = ctxSchema ctx,
      previewTable = ctxTable ctx, previewRevision = baselineRevision o1, previewPolicy = targetPolicy o1,
      previewGrants = targetColumnGrants o1, previewCapabilities = ctxCapabilities ctx, previewDrift = drift\<rparr>"

definition operationLock :: "string \<Rightarrow> lockOptions" where
  "operationLock opId =
     \<lparr>exclusiveMode = False, lockPurpose = PolicyOperation, migrationIdOption = None, operationIdOption = Some opId\<rparr>"

definition supersedeDataAccessPreviews :: "'d accessEnv \<Rightarrow> string \<Rightarrow> ('d, unit) access_call" where
  "supersedeDataAccessPreviews env pid =
     before (supersedePolicyPreviews env pid) (supersedeProjectionPreviews env pid)"

text \<open>The payload of a new operation; the insert sets its state.\<close>

definition newOperation ::
  "operationContext \<Rightarrow> string \<Rightarrow> operationKind \<Rightarrow> int option \<Rightarrow> materializedPermission list \<Rightarrow> 'd
   \<Rightarrow> tableAccess \<Rightarrow> columnGrants \<Rightarrow> materializedPermission list \<Rightarrow> 'd \<Rightarrow> 'd \<Rightarrow> string \<Rightarrow> 'd operationRow" where
  "newOperation ctx opId kind atRevision source srcDigest p g target tgtDigest request actorId =
     \<lparr>operationStatus = PreviewReady, writeDeadlineAt = None, operationStartedAt = None, operationUpdatedAt = None,
      operationId = opId, operationProject = ctxProject ctx, operationSchema = ctxSchema ctx,
      operationTable = ctxTable ctx, operationKind = kind, operationPhase = ''preview'', baselineRevision = atRevision,
      sourceCapabilities = ctxCapabilities ctx, sourcePermissions = source, sourceDigest = srcDigest,
      sourceVersion = ctxVersion ctx, targetPolicy = Some p, targetColumnGrants = Some g,
      targetCapabilities = Some (ctxCapabilities ctx), targetPermissions = Some target,
      targetDigest = Some tgtDigest, targetVersion = None, requestDigest = request, writerEpoch = None,
      operationCreatedBy = actorId, operationError = None, operationCompletedAt = None\<rparr>"

definition materializeTarget ::
  "'d accessEnv \<Rightarrow> operationContext \<Rightarrow> tableAccess \<Rightarrow> columnGrants \<Rightarrow> string + materializedPermission list" where
  "materializeTarget env ctx p g =
     bindE (materializeTableDataAccessPolicy p (ctxRoles ctx) (ctxCapabilities ctx) (Some g))
       (createPermissionSnapshot (collate env))"

subsection \<open>Policy updates\<close>

definition stripUpdateEnvelope :: "tableAccess \<Rightarrow> tableAccess" where
  "stripUpdateEnvelope p = p\<lparr>policyVersion := Some (case policyVersion p of Some v \<Rightarrow> v | None \<Rightarrow> 1)\<rparr>"

definition updateRequestJson :: "string \<Rightarrow> string \<Rightarrow> updateInput \<Rightarrow> jsval" where
  "updateRequestJson pid tableName input =
     JObj [(''projectId'', JStr pid), (''tableName'', JStr tableName),
       (''input'', JObj ((case policyJson (inputPolicy input) of JObj ps \<Rightarrow> ps | _ \<Rightarrow> [])
          @ [(''operationId'', JStr (inputOperation input))]
          @ present ''expectedBaselineRevision'' (JNum \<circ> of_int) (inputRevision input)
          @ present ''columnGrants'' grantsJson (inputGrants input)))]"

definition isVerifiedNoop ::
  "'d accessEnv \<Rightarrow> 'd managedPolicy \<Rightarrow> tableAccess \<Rightarrow> columnGrants \<Rightarrow> columnCapabilities
   \<Rightarrow> materializedPermission list \<Rightarrow> string + bool" where
  "isVerifiedNoop env b p g caps perms =
     (if digestOf env (policyJson (baselinePolicy b)) = digestOf env (policyJson (stripUpdateEnvelope p))
         \<and> digestOf env (grantsJson (baselineGrants b)) = digestOf env (grantsJson g)
         \<and> capabilitiesEqual (collate env) (hash env) (capabilitiesSnapshot b) caps
      then samePermissions env (permissionsSnapshot b) perms else Inr False)"

definition trackTableInHasura :: "'d accessEnv \<Rightarrow> string \<Rightarrow> string \<Rightarrow> ('d, bool) access_call" where
  "trackTableInHasura env schema tableName =
     catching (chain (metadataRequest env (TrackTable schema tableName)) (\<lambda>_. give True)) (\<lambda>e.
       give (js_includes (accessMessage e) ''already tracked'' \<or> js_includes (accessMessage e) ''already exists''))"

definition refuseState :: "managedState \<Rightarrow> accessError + unit" where
  "refuseState st =
     (case st of
        AdoptionRequired \<Rightarrow> Inl (conflict ''DATA_ACCESS_ADOPTION_REQUIRED'' ''Existing data access rules require adoption'')
      | RefreshRequired \<Rightarrow> Inl (conflict ''DATA_ACCESS_REFRESH_REQUIRED'' ''Table structure changes require reconciliation'')
      | Custom \<Rightarrow> Inl (conflict ''DATA_ACCESS_CUSTOM_POLICY'' ''Custom data access rules cannot be overwritten'')
      | RecoveryRequired \<Rightarrow> Inl (conflict ''DATA_ACCESS_RECONCILE_RECOVERY_REQUIRED'' ''Data access recovery is required'')
      | _ \<Rightarrow> Inr ())"

definition resolveExistingPolicyUpdate ::
  "'d accessEnv \<Rightarrow> 'd operationRow \<Rightarrow> string \<Rightarrow> ('d, 's) access_call \<Rightarrow> ('d, 's) access_call" where
  "resolveExistingPolicyUpdate env o1 actorId getState =
     before (assertOperationSchemaCurrent env o1)
     (if operationStatus o1 = OpCompleted
      then chain (getManagedPolicy env (operationProject o1, operationSchema o1, operationTable o1)) (\<lambda>b.
           before (lift id (assertCompletedOperationCurrent env o1 b)) getState)
      else if operationStatus o1 = PreviewReady \<and> operationKind o1 = KindPolicyUpdate
      then chain (loadOperationContext env (operationProject o1) (operationTable o1)) (\<lambda>ctx.
           before (applyPolicyOperation env ctx o1 actorId) getState)
      else throw (priorOperationState o1))"

definition createPolicyUpdate ::
  "'d accessEnv \<Rightarrow> operationContext \<Rightarrow> 'd managedPolicy option \<Rightarrow> updateInput \<Rightarrow> 'd \<Rightarrow> string
   \<Rightarrow> ('d, 'd operationRow \<times> bool) access_call" where
  "createPolicyUpdate env ctx baseline input request actorId =
     before (liftText (validateTableDataAccessInput (inputPolicy input) (ctxCapabilities ctx)))
     (before (lift id (validateExpectedRevision input baseline))
     (chain (lift id (resolvePolicyUpdateGrants input baseline (ctxCapabilities ctx))) (\<lambda>resolved.
      let g = normalizeColumnGrantsForPolicy (inputPolicy input) resolved;
          p = stripUpdateEnvelope (inputPolicy input) in
      before (lift id (validateColumnGrantModes [OpSelect, OpInsert, OpUpdate] (inputPolicy input) g))
      (chain (liftText (materializeTarget env ctx (inputPolicy input) g)) (\<lambda>target.
       chain (liftText (snapshotManagedSource env ctx baseline)) (\<lambda>source.
       chain (createPolicyOperation env
         (newOperation ctx (inputOperation input) KindPolicyUpdate (map_option revision baseline) source
            (createSourceDigest env ctx baseline source) p g target
            (createTargetDigest env p g (ctxCapabilities ctx) target) request actorId)) (\<lambda>o1.
       chain (case baseline of
                None \<Rightarrow> give False
              | Some b \<Rightarrow> liftText (isVerifiedNoop env b (inputPolicy input) g (ctxCapabilities ctx) target)) (\<lambda>noop.
       give (o1, noop)))))))))"

definition newPolicyUpdate ::
  "'d accessEnv \<Rightarrow> string \<Rightarrow> string \<Rightarrow> updateInput \<Rightarrow> 'd \<Rightarrow> string \<Rightarrow> ('d, 's) access_call \<Rightarrow> ('d, 's) access_call" where
  "newPolicyUpdate env pid tableName input request actorId getState =
     before (supersedeDataAccessPreviews env pid)
     (chain (requireProject env pid) (\<lambda>project.
      chain (trackTableInHasura env (orEmpty (projectSchema project)) tableName) (\<lambda>tracked.
      before (require tracked (AccessError ''DATA_ACCESS_UPSTREAM_ERROR'' ''Unable to connect table to data interface''))
      (chain (loadOperationContext env pid tableName) (\<lambda>ctx.
       chain (getManagedPolicy env (policyKeyOf ctx)) (\<lambda>baseline.
       before (lift id (assertNotProjectionManaged baseline))
       (chain (liftText (classify env ctx baseline)) (\<lambda>st.
        before (lift id (refuseState st))
        (chain (createPolicyUpdate env ctx baseline input request actorId) (\<lambda>(o1, noop).
         before
           (if noop then ignoring (finishOperation env (operationId o1) [PreviewReady] OpCompleted None)
            else applyPolicyOperation env ctx o1 actorId)
           getState))))))))))"

definition updateManagedTablePolicy ::
  "'d accessEnv \<Rightarrow> string \<Rightarrow> string \<Rightarrow> updateInput \<Rightarrow> string \<Rightarrow> ('d, 's) access_call \<Rightarrow> ('d, 's) access_call" where
  "updateManagedTablePolicy env pid tableName input actorId getState =
     before (lift id (assertOperationId (inputOperation input)))
     (before (lift id (assertTablePolicyVersionOne (inputPolicy input)))
     (let request = digestOf env (updateRequestJson pid tableName input);
          reread = (\<lambda>absent session. chain (getPolicyOperation env pid (inputOperation input)) (\<lambda>o0.
            case o0 of
              None \<Rightarrow> absent
            | Some o1 \<Rightarrow>
                before (lift id (assertIdempotentRequest o1 request))
                  (resolveExistingPolicyUpdate env o1 actorId getState))) in
      chain (getPolicyOperation env pid (inputOperation input)) (\<lambda>prior.
      case prior of
        Some o1 \<Rightarrow>
          before (lift id (assertIdempotentRequest o1 request))
            (withProjectDataAccessMutationLock env pid
               (reread (throw (stale ''Policy operation no longer exists''))) (operationLock (inputOperation input)))
      | None \<Rightarrow>
          withProjectDataAccessMutationLock env pid
            (reread (newPolicyUpdate env pid tableName input request actorId getState))
            (operationLock (inputOperation input)))))"

subsection \<open>Adoption\<close>

definition previewPolicyAdoption :: "'d accessEnv \<Rightarrow> string \<Rightarrow> string \<Rightarrow> string \<Rightarrow> ('d, 'd policyPreview) access_call" where
  "previewPolicyAdoption env pid tableName actorId =
     chain (createOperationId env) (\<lambda>opId.
     withProjectDataAccessMutationLock env pid (\<lambda>session.
       before (supersedeDataAccessPreviews env pid)
       (chain (loadOperationContext env pid tableName) (\<lambda>ctx.
        chain (getManagedPolicy env (policyKeyOf ctx)) (\<lambda>baseline.
        before (lift id (assertNotProjectionManaged baseline))
        (before (require (policyVersion (inspectedPolicy (ctxInspected ctx)) \<noteq> Some 2)
           (conflict ''DATA_ACCESS_PROJECTION_ADOPTION_REQUIRED''
              ''Authorization projection rules require a project projection contract''))
        (chain (liftText (classify env ctx baseline)) (\<lambda>st.
         before (require (st = AdoptionRequired)
           (conflict ''DATA_ACCESS_ADOPTION_REQUIRED'' ''Table does not have adoptable data access rules''))
         (chain (liftText (snapshotInspected env ctx)) (\<lambda>perms.
          let p = inspectedPolicy (ctxInspected ctx);
              g = inspectedGrants (ctxInspected ctx);
              src = createSourceDigest env ctx None perms in
          chain (createPolicyOperation env
            (newOperation ctx opId KindAdoption None perms src p g perms
               (createTargetDigest env p g (ctxCapabilities ctx) perms)
               (digestOf env (JObj [(''projectId'', JStr pid), (''tableName'', JStr tableName),
                  (''sourceDigest'', JStr (digestText env src)), (''kind'', JStr ''adoption'')]))
               actorId)) (\<lambda>o1.
          give (toPreview ctx o1 None))))))))))) (operationLock opId))"

definition saveAdopted ::
  "'d accessEnv \<Rightarrow> operationContext \<Rightarrow> 'd operationRow \<Rightarrow> materializedPermission list \<Rightarrow> string \<Rightarrow> ('d, unit) access_call" where
  "saveAdopted env ctx o1 current actorId =
     transaction env
       (chain (liftText (targetOf o1)) (\<lambda>(p, g, c, perms).
        chain (liftText (permissionsDigest env current)) (\<lambda>d.
        before (saveManagedPolicy env (policyKeyOf ctx)
          \<lparr>savePolicy = p, saveGrants = g, saveCapabilities = ctxCapabilities ctx, savePermissions = current,
           saveDigest = d, saveDependency = None, saveDependencyDigest = None, saveActor = actorId,
           expectedRevision = None\<rparr>)
          (ignoring (finishOperation env (operationId o1) [PreviewReady] OpCompleted None)))))
       (\<lambda>e. before (statement env ''ROLLBACK'' (\<lambda>u. Inr ((), db u))) (throw e))"

definition applyPolicyAdoption ::
  "'d accessEnv \<Rightarrow> string \<Rightarrow> string \<Rightarrow> string \<Rightarrow> 'd \<Rightarrow> string \<Rightarrow> string \<Rightarrow> ('d, 's) access_call \<Rightarrow> ('d, 's) access_call" where
  "applyPolicyAdoption env pid tableName opId source alias1 actorId getState =
     withProjectDataAccessMutationLock env pid (\<lambda>session.
       chain (requireOperation env pid opId (Some KindAdoption)) (\<lambda>o1.
       before (lift id (assertOperationConfirmation o1 source None))
       (before (assertOperationSchemaCurrent env o1)
       (chain (loadOperationContext env pid tableName) (\<lambda>ctx.
        before (lift id (assertProjectAlias ctx alias1))
        (before (require (operationTable o1 = tableName) (stale ''Adoption target changed''))
        (before (lift id (assertOperationContext o1 ctx))
        (chain (getManagedPolicy env (policyKeyOf ctx)) (\<lambda>baseline.
         if operationStatus o1 = OpCompleted
         then before (lift id (assertCompletedOperationCurrent env o1 baseline)) getState
         else before (require (baseline = None) (stale ''Adoption target changed''))
         (chain (liftText (snapshotInspected env ctx)) (\<lambda>current.
          before (require (createSourceDigest env ctx None current = sourceDigest o1) stalePreview)
          (before (saveAdopted env ctx o1 current actorId) getState))))))))))))
       (operationLock opId)"

subsection \<open>Reconciliation\<close>

text \<open>The policy a reconciliation writes, and its grants, for a policy with a projection and for one without.\<close>

definition reconcilePolicy ::
  "'d accessEnv \<Rightarrow> operationContext \<Rightarrow> 'd managedPolicy \<Rightarrow> tableAccess option \<Rightarrow> accessError + tableAccess" where
  "reconcilePolicy env ctx b asked =
     (if baselineVersion b = 2
      then bindE (guardE (dependencySnapshot b \<noteq> None \<and> dependencyDigest b \<noteq> None)
               (conflict ''DATA_ACCESS_PROJECTION_MANAGED''
                  ''Authorization projection dependency provenance is unavailable'')) (\<lambda>_.
           bindE (guardE (case asked of
                    Some p \<Rightarrow> digestOf env (policyJson p) = digestOf env (policyJson (baselinePolicy b))
                  | None \<Rightarrow> True)
               (conflict ''DATA_ACCESS_PROJECTION_MANAGED''
                  ''Authorization projection policy cannot change during column reconciliation'')) (\<lambda>_.
           Inr (baselinePolicy b)))
      else Inr (case asked of
             Some p \<Rightarrow> p | None \<Rightarrow> materializeSafeReconcilePolicy (baselinePolicy b) (ctxCapabilities ctx)))"

definition reconcileGrants ::
  "'d accessEnv \<Rightarrow> operationContext \<Rightarrow> 'd managedPolicy \<Rightarrow> tableAccess \<Rightarrow> columnGrants option
   \<Rightarrow> accessError + columnGrants" where
  "reconcileGrants env ctx b p asked =
     (let safe = materializeReconcileGrants (baselineGrants b) (ctxCapabilities ctx) in
      bindE (guardE (\<not> (baselineVersion b = 2 \<and> (case asked of
                 Some g \<Rightarrow> digestOf env (grantsJson g) \<noteq> digestOf env (grantsJson safe) | None \<Rightarrow> False)))
        (conflict ''DATA_ACCESS_PROJECTION_MANAGED''
           ''Authorization projection column grants can only shrink during reconciliation'')) (\<lambda>_.
      let g = normalizeColumnGrantsForPolicy p
                (if baselineVersion b = 2 then safe else case asked of Some g \<Rightarrow> g | None \<Rightarrow> safe) in
      bindE (validateColumnGrantModes [OpSelect, OpInsert, OpUpdate] p g) (\<lambda>_. Inr g)))"

definition previewPolicyReconcile ::
  "'d accessEnv \<Rightarrow> string \<Rightarrow> string \<Rightarrow> string \<Rightarrow> columnGrants option \<Rightarrow> tableAccess option
   \<Rightarrow> ('d, 'd policyPreview) access_call" where
  "previewPolicyReconcile env pid tableName actorId askedGrants askedPolicy =
     chain (createOperationId env) (\<lambda>opId.
     withProjectDataAccessMutationLock env pid (\<lambda>session.
       before (supersedeDataAccessPreviews env pid)
       (chain (loadOperationContext env pid tableName) (\<lambda>ctx.
        chain (getManagedPolicy env (policyKeyOf ctx)) (\<lambda>baseline.
        case baseline of
          None \<Rightarrow> throw (conflict ''DATA_ACCESS_REFRESH_REQUIRED'' ''Table does not require reconciliation'')
        | Some b \<Rightarrow>
        chain (liftText (classify env ctx baseline)) (\<lambda>st.
        before (require (st = RefreshRequired)
          (conflict ''DATA_ACCESS_REFRESH_REQUIRED'' ''Table does not require reconciliation''))
        (chain (lift id (reconcilePolicy env ctx b askedPolicy)) (\<lambda>p.
         before (lift invalidPolicy (validateReconcilePolicyTransition (baselinePolicy b) p))
         (before (liftText (validateTableDataAccessInput p (ctxCapabilities ctx)))
         (chain (lift id (reconcileGrants env ctx b p askedGrants)) (\<lambda>g.
          before (if baselineVersion b = 2 then assertProjectionDependencyCurrent env ctx baseline else give ())
          (chain (liftText (materializeTarget env ctx p g)) (\<lambda>target.
           chain (liftText (snapshotManagedSource env ctx baseline)) (\<lambda>source.
           let src = createSourceDigest env ctx baseline source;
               tgt = createTargetDigest env p g (ctxCapabilities ctx) target in
           chain (createPolicyOperation env
             (newOperation ctx opId KindReconcile (Some (revision b)) source src p g target tgt
                (digestOf env (JObj [(''projectId'', JStr pid), (''tableName'', JStr tableName),
                   (''sourceDigest'', JStr (digestText env src)), (''targetDigest'', JStr (digestText env tgt))]))
                actorId)) (\<lambda>o1.
           give (toPreview ctx o1
             (Some (buildColumnCapabilityDrift (capabilitiesSnapshot b) (ctxCapabilities ctx))))))))))))))))))
       (operationLock opId))"

record 'd confirmation =
  confirmOperation :: string
  confirmSource :: 'd
  confirmTarget :: 'd
  confirmRevision :: int
  confirmAlias :: string

definition applyPolicyReconcile ::
  "'d accessEnv \<Rightarrow> string \<Rightarrow> string \<Rightarrow> 'd confirmation \<Rightarrow> columnGrants \<Rightarrow> tableAccess \<Rightarrow> string
   \<Rightarrow> ('d, 's) access_call \<Rightarrow> ('d, 's) access_call" where
  "applyPolicyReconcile env pid tableName input g p actorId getState =
     withProjectDataAccessMutationLock env pid (\<lambda>session.
       chain (requireOperation env pid (confirmOperation input) (Some KindReconcile)) (\<lambda>o1.
       before (lift id (assertOperationConfirmation o1 (confirmSource input) (Some (confirmTarget input))))
       (before (assertOperationSchemaCurrent env o1)
       (before (require (baselineRevision o1 = Some (confirmRevision input)) stalePreview)
       (before (require (digestOf env (optionJson grantsJson (targetColumnGrants o1)) = digestOf env (grantsJson g))
          stalePreview)
       (before (require (digestOf env (optionJson policyJson (targetPolicy o1)) = digestOf env (policyJson p))
          stalePreview)
       (chain (loadOperationContext env pid tableName) (\<lambda>ctx.
        before (lift id (assertOperationContext o1 ctx))
        (before (lift id (assertProjectAlias ctx (confirmAlias input)))
        (before (require (operationTable o1 = tableName) (stale ''Reconciliation target changed''))
        (chain (getManagedPolicy env (policyKeyOf ctx)) (\<lambda>baseline.
         if operationStatus o1 = OpCompleted
         then before (lift id (assertCompletedOperationCurrent env o1 baseline)) getState
         else before (require (baseline \<noteq> None \<and> map_option revision baseline = baselineRevision o1) stalePreview)
         (chain (liftText (snapshotManagedSource env ctx baseline)) (\<lambda>s.
          before (require (createSourceDigest env ctx baseline s = sourceDigest o1) stalePreview)
          (before (assertProjectionDependencyCurrent env ctx baseline)
          (before (applyPolicyOperation env ctx o1 actorId) getState))))))))))))))))
       (operationLock (confirmOperation input))"

subsection \<open>Extension of grants\<close>

definition previewPolicyGrantExtension ::
  "'d accessEnv \<Rightarrow> string \<Rightarrow> string \<Rightarrow> string \<Rightarrow> (string \<times> jsval) list \<Rightarrow> ('d, 'd policyPreview) access_call" where
  "previewPolicyGrantExtension env pid tableName actorId additions =
     chain (createOperationId env) (\<lambda>opId.
     withProjectDataAccessMutationLock env pid (\<lambda>session.
       before (supersedeDataAccessPreviews env pid)
       (chain (loadOperationContext env pid tableName) (\<lambda>ctx.
        chain (getManagedPolicy env (policyKeyOf ctx)) (\<lambda>baseline.
        case (case baseline of Some b \<Rightarrow> if baselineVersion b = 2 then Some b else None | None \<Rightarrow> None) of
          None \<Rightarrow> throw (conflict ''DATA_ACCESS_PROJECTION_MANAGED'' ''A managed authorization projection is required'')
        | Some b \<Rightarrow>
        chain (liftText (classify env ctx baseline)) (\<lambda>st.
        before (require (st = Managed)
          (conflict (if st = RefreshRequired then ''DATA_ACCESS_REFRESH_REQUIRED'' else ''DATA_ACCESS_PROJECTION_MANAGED'')
             ''Projection grants require a current managed baseline''))
        (before (assertProjectionDependencyCurrent env ctx baseline)
        (chain (lift invalidPolicy
            (extendProjectionColumnGrants (baselineGrants b) (ctxCapabilities ctx) (baselinePolicy b) additions)) (\<lambda>g.
         chain (liftText (materializeTarget env ctx (baselinePolicy b) g)) (\<lambda>target.
         chain (liftText (snapshotManagedSource env ctx baseline)) (\<lambda>source.
         let src = createSourceDigest env ctx baseline source;
             tgt = createTargetDigest env (baselinePolicy b) g (ctxCapabilities ctx) target in
         chain (createPolicyOperation env
           (newOperation ctx opId KindGrantExtension (Some (revision b)) source src (baselinePolicy b) g target tgt
              (digestOf env (JObj [(''projectId'', JStr pid), (''tableName'', JStr tableName),
                 (''additions'', JObj additions), (''sourceDigest'', JStr (digestText env src)),
                 (''targetDigest'', JStr (digestText env tgt))]))
              actorId)) (\<lambda>o1.
         give (toPreview ctx o1 None)))))))))))) (operationLock opId))"

definition applyPolicyGrantExtension ::
  "'d accessEnv \<Rightarrow> string \<Rightarrow> string \<Rightarrow> 'd confirmation \<Rightarrow> string \<Rightarrow> ('d, 's) access_call \<Rightarrow> ('d, 's) access_call" where
  "applyPolicyGrantExtension env pid tableName input actorId getState =
     withProjectDataAccessMutationLock env pid (\<lambda>session.
       chain (requireOperation env pid (confirmOperation input) (Some KindGrantExtension)) (\<lambda>o1.
       before (lift id (assertOperationConfirmation o1 (confirmSource input) (Some (confirmTarget input))))
       (before (assertOperationSchemaCurrent env o1)
       (before (require (baselineRevision o1 = Some (confirmRevision input)) stalePreview)
       (chain (loadOperationContext env pid tableName) (\<lambda>ctx.
        before (lift id (assertOperationContext o1 ctx))
        (before (lift id (assertProjectAlias ctx (confirmAlias input)))
        (before (require (operationTable o1 = tableName) (stale ''Grant extension target changed''))
        (chain (getManagedPolicy env (policyKeyOf ctx)) (\<lambda>baseline.
         if operationStatus o1 = OpCompleted
         then before (lift id (assertCompletedOperationCurrent env o1 baseline)) getState
         else before (require (operationStatus o1 = PreviewReady \<and> baseline \<noteq> None
                \<and> map_option baselineVersion baseline = Some 2
                \<and> map_option revision baseline = baselineRevision o1) stalePreview)
         (chain (liftText (classify env ctx baseline)) (\<lambda>st.
          before (require (st = Managed) stalePreview)
          (chain (liftText (snapshotManagedSource env ctx baseline)) (\<lambda>s.
           before (require (createSourceDigest env ctx baseline s = sourceDigest o1) stalePreview)
           (before (assertProjectionDependencyCurrent env ctx baseline)
           (before (applyPolicyOperation env ctx o1 actorId) getState))))))))))))))))
       (operationLock (confirmOperation input))"

definition getActivePolicyOperation :: "'d accessEnv \<Rightarrow> string \<Rightarrow> ('d, 'd operationState option) access_call" where
  "getActivePolicyOperation env pid =
     chain (getProjectPolicyOperation env pid) (\<lambda>o0. give (map_option toOperationState o0))"

subsection \<open>Recovery\<close>

definition restoreRecorded ::
  "'d accessEnv \<Rightarrow> operationContext \<Rightarrow> 'd operationRow \<Rightarrow> 'd managedPolicy option \<Rightarrow> materializedPermission list
   \<Rightarrow> string \<Rightarrow> ('d, 'd operationRow) access_call" where
  "restoreRecorded env ctx o1 baseline current epoch =
     (let renew = renewLease env (operationId o1) OpRecovering epoch in
      before renew
      (before
        (if buildPermissionCommands ctx current (sourcePermissions o1) \<noteq> []
         then applyPermissionMutation env ctx current (sourcePermissions o1) (ctxVersion ctx) renew
         else ignoring (metadataRequest env (SetCustomization (ctxSchema ctx) (ctxTable ctx) (ctxVersion ctx))))
      (chain (loadOperationContext env (ctxProject ctx) (operationTable o1)) (\<lambda>restored.
       before (verifySource env o1 baseline restored ''Source verification failed'')
       (before (require (ctxVersion ctx < ctxVersion restored) (PlainError ''Recovery resource version did not advance''))
         (finishOperation env (operationId o1) [OpRecovering] OpFailed
           (Some (''DATA_ACCESS_OPERATION_RESTORED'', ''Source permissions restored''))))))))"

definition recoverBody ::
  "'d accessEnv \<Rightarrow> string \<Rightarrow> string \<Rightarrow> 'd \<Rightarrow> string \<Rightarrow> ('d, 'd operationState) access_call" where
  "recoverBody env pid opId source alias1 =
     chain (requireOperation env pid opId None) (\<lambda>o1.
     if operationStatus o1 \<notin> {OpApplying, OpRecovering, OpRecoveryRequired} then give (toOperationState o1)
     else
       before (require (sourceDigest o1 = source) (stale ''Recovery source changed''))
       (before (assertOperationSchemaCurrent env o1)
       (chain (loadOperationContext env pid (operationTable o1)) (\<lambda>ctx.
        before (lift id (assertOperationContext o1 ctx))
        (chain (getManagedPolicy env (policyKeyOf ctx)) (\<lambda>baseline.
         before (lift id (assertProjectAlias ctx alias1))
         (chain now (\<lambda>t.
          before (require (case policyOperationRecoverySafeAt o1 of Some s \<Rightarrow> s \<le> t | None \<Rightarrow> False)
            (conflict ''DATA_ACCESS_POLICY_OPERATION_IN_PROGRESS'' ''Metadata writer may still be active''))
          (chain (lift id (snapshotRecoveryPermissions env ctx)) (\<lambda>current.
           before (lift id (assertRecoverablePermissionState env current o1))
           (chain (startWriter env opId [operationStatus o1] OpRecovering ''restore_source'') (\<lambda>epoch.
            catching
              (chain (restoreRecorded env ctx o1 baseline current epoch) (\<lambda>o2. give (toOperationState o2)))
              (\<lambda>e.
                 if e = LeaseError then throw writerLeaseExpired
                 else before (ignoring (transitionPolicyOperation env opId [OpRecovering]
                        (uncertainPatch ''Unable to verify restored permissions'')))
                      (throw (recoveryRequired ''Unable to verify restored permissions'')))))))))))))))"

definition recoverPolicyOperation ::
  "'d accessEnv \<Rightarrow> string \<Rightarrow> string \<Rightarrow> 'd \<Rightarrow> string \<Rightarrow> ('d, 'd operationState) access_call" where
  "recoverPolicyOperation env pid opId source alias1 =
     withProjectDataAccessMutationLock env pid (\<lambda>session. recoverBody env pid opId source alias1)
       (operationLock opId)"

end
