(* ===== verification/Metadata_Laws.thy ===== *)
theory Metadata_Laws
  imports Policy_Requests Managed_Properties
begin

text \<open>
  What the proofs assume of the engine, and what it means for the permissions of one table: the
  commands, a replacement of the metadata and the optimistic check of the resource version do what
  the documentation of the engine says.
\<close>

subsection \<open>Commands\<close>

fun onTable :: "string \<Rightarrow> string \<Rightarrow> (tableMetadata \<Rightarrow> tableMetadata) \<Rightarrow> tableMetadata list \<Rightarrow> tableMetadata list" where
  "onTable s n f tables = map (\<lambda>t. if tableNamed s n t then f t else t) tables"

fun runCommand :: "metaCommand \<Rightarrow> tableMetadata list \<Rightarrow> tableMetadata list" where
  "runCommand (DropPermission op s n role) tables =
     onTable s n (\<lambda>t. setPermissionEntries op
       (filter (\<lambda>e. entryRole e \<noteq> role) (getPermissionEntries t op)) t) tables"
| "runCommand (CreatePermission op s n role p) tables =
     onTable s n (\<lambda>t. setPermissionEntries op
       (getPermissionEntries t op @ [\<lparr>entryRole = role, entryPermission = p\<rparr>]) t) tables"

definition runCommands :: "metaCommand list \<Rightarrow> metadataState \<Rightarrow> tableMetadata list option" where
  "runCommands cmds m = map_option (fold runCommand cmds) (defaultTables m)"

definition definitiveReply :: "metaReply \<Rightarrow> bool" where
  "definitiveReply r = (case replyOf r of Inl e \<Rightarrow> isDefinitiveRejection e | _ \<Rightarrow> False)"

definition unsupportedReply :: "metaReply \<Rightarrow> bool" where
  "unsupportedReply r = (case replyOf r of Inl e \<Rightarrow> isUnsupportedAtomicCommand e | _ \<Rightarrow> False)"

text \<open>The documented behaviour of the engine. A request that expects a resource version is refused at
  any other; an atomic request takes effect as a whole or not at all, and not at all when it is
  refused; a request that is not atomic may stop between its commands.\<close>

fun reaction_ok :: "metaRequest \<Rightarrow> metadataState \<Rightarrow> metaReply \<Rightarrow> metadataState \<Rightarrow> bool" where
  "reaction_ok ExportMetadata m r m' = (m' = m \<and> r \<in> {MetaExported m} \<union> {x. \<exists>e. replyOf x = Inl e})"
| "reaction_ok (BulkAtomic cmds (Some v)) m r m' =
     (m' = m \<and> (\<exists>e. replyOf r = Inl e)
      \<or> v = resourceVersion m \<and> defaultTables m' = runCommands cmds m \<and> resourceVersion m < resourceVersion m'
         \<and> \<not> definitiveReply r \<and> \<not> unsupportedReply r)"
| "reaction_ok (Bulk cmds (Some v)) m r m' =
     (m' = m \<and> (\<exists>e. replyOf r = Inl e)
      \<or> v = resourceVersion m \<and> resourceVersion m < resourceVersion m'
         \<and> (\<exists>k. defaultTables m' = runCommands (take k cmds) m \<and> (r = MetaDone \<longrightarrow> k = length cmds))
         \<and> (r = MetaDone \<or> (\<exists>e. replyOf r = Inl e)))"
| "reaction_ok (ReplaceMetadata a ts v) m r m' =
     (m' = m \<and> (\<exists>e. replyOf r = Inl e)
      \<or> v = resourceVersion m \<and> defaultTables m' = Some ts \<and> resourceVersion m < resourceVersion m'
         \<and> \<not> definitiveReply r)"
| "reaction_ok (SetCustomization s n v) m r m' =
     (defaultTables m' = defaultTables m \<and> resourceVersion m \<le> resourceVersion m'
      \<and> (resourceVersion m < resourceVersion m' \<or> (\<exists>e. replyOf r = Inl e)))"
| "reaction_ok _ m r m' = True"

definition engine_ok :: "'d accessEnv \<Rightarrow> bool" where
  "engine_ok env \<longleftrightarrow> (\<forall>tr req m. case engine env tr req m of (r, m') \<Rightarrow> reaction_ok req m r m')"

lemma engine_okD: "engine_ok env \<Longrightarrow> engine env tr req m = (r, m') \<Longrightarrow> reaction_ok req m r m'"
  unfolding engine_ok_def by (metis old.prod.case)

text \<open>A lost connection is not mistaken for a missing feature.\<close>

definition faults_ok :: "'d accessEnv \<Rightarrow> bool" where
  "faults_ok env \<longleftrightarrow>
     (\<forall>tr ev m. faults env tr ev \<in> {FaultBefore (Some m), FaultAfter (Some m)} \<longrightarrow>
        \<not> isUnsupportedAtomicCommand (PlainError m))"

subsection \<open>The scoped permissions of a table\<close>

abbreviation scopedRoles :: "roleNames \<Rightarrow> string list" where
  "scopedRoles roles \<equiv> [authenticatedRole roles, anonymousRole roles]"

text \<open>The permissions of the two roles as a map from role and operation.\<close>

definition fits :: "tableMetadata \<Rightarrow> roleNames \<Rightarrow> (string \<times> daOperation \<rightharpoonup> (string \<times> jsval) list) \<Rightarrow> bool" where
  "fits t roles F \<longleftrightarrow>
     (\<forall>role \<in> set (scopedRoles roles). \<forall>op.
        map entryPermission (entriesOf t op role) = (case F (role, op) of None \<Rightarrow> [] | Some p \<Rightarrow> [p]))"

definition permsOf :: "roleNames \<Rightarrow> (string \<times> daOperation \<rightharpoonup> (string \<times> jsval) list) \<Rightarrow> materializedPermission list" where
  "permsOf roles F =
     concat (map (\<lambda>op. concat (map (\<lambda>role.
       (case F (role, op) of None \<Rightarrow> [] | Some p \<Rightarrow> [\<lparr>permRole = role, permOperation = op, permission = p\<rparr>]))
       (scopedRoles roles))) operationList)"

lemma other_inspections_keep [simp]:
  "inspectedPermissions (inspectAuthenticated t roles caps op i) = inspectedPermissions i"
  "inspectedPermissions (inspectAnonymous t roles caps op i) = inspectedPermissions i"
  by (simp_all add: inspectAuthenticated_def inspectAnonymous_def applyParsed_def Let_def
      split: list.split option.split)

lemma inspectedPermissions_fold:
  "inspectedPermissions (fold (inspectOperation t roles caps) ops i) =
     inspectedPermissions i @ concat (map (\<lambda>op. map
       (\<lambda>e. \<lparr>permRole = entryRole e, permOperation = op, permission = entryPermission e\<rparr>)
       (entriesOf t op (authenticatedRole roles) @ entriesOf t op (anonymousRole roles))) ops)"
  by (induction ops arbitrary: i) (simp_all add: inspectOperation_def noteEntries_def Let_def)

lemma entries_of_role:
  assumes "map entryPermission (entriesOf t op role) = (case x of None \<Rightarrow> [] | Some p \<Rightarrow> [p])"
  shows "map (\<lambda>e. \<lparr>permRole = entryRole e, permOperation = op, permission = entryPermission e\<rparr>) (entriesOf t op role)
       = (case x of None \<Rightarrow> [] | Some p \<Rightarrow> [\<lparr>permRole = role, permOperation = op, permission = p\<rparr>])"
proof -
  have "\<forall>e \<in> set (entriesOf t op role). entryRole e = role" by (simp add: entriesOf_def)
  with assms show ?thesis by (cases x) (auto simp: map_eq_Cons_conv)
qed

lemma inspected_permsOf:
  assumes "fits t roles F"
  shows "inspectedPermissions (inspectTableDataAccessMetadata (Some t) roles caps) = permsOf roles F"
proof -
  have "map (\<lambda>e. \<lparr>permRole = entryRole e, permOperation = op, permission = entryPermission e\<rparr>)
       (entriesOf t op (authenticatedRole roles) @ entriesOf t op (anonymousRole roles))
     = concat (map (\<lambda>role. case F (role, op) of None \<Rightarrow> []
         | Some p \<Rightarrow> [\<lparr>permRole = role, permOperation = op, permission = p\<rparr>]) (scopedRoles roles))" for op
    using assms entries_of_role [of t op "authenticatedRole roles" "F (authenticatedRole roles, op)"]
      entries_of_role [of t op "anonymousRole roles" "F (anonymousRole roles, op)"]
    by (simp add: fits_def)
  then show ?thesis
    unfolding inspectTableDataAccessMetadata_def Let_def
    by (simp add: inspectedPermissions_fold permsOf_def closedInspection_def del: map_append)
qed

subsection \<open>Commands on the scoped permissions\<close>

lemma entriesOf_set:
  "entriesOf (setPermissionEntries op es t) op' role =
     (if op' = op then filter (\<lambda>e. entryRole e = role) es else entriesOf t op' role)"
  by (cases op; cases op') (simp_all add: entriesOf_def)

lemma entriesOf_drop:
  "entriesOf (setPermissionEntries op (filter (\<lambda>e. entryRole e \<noteq> r) (getPermissionEntries t op)) t) op' role =
     (if op' = op \<and> role = r then [] else entriesOf t op' role)"
  unfolding entriesOf_set by (auto simp: entriesOf_def filter_empty_conv intro!: filter_cong)

lemma entriesOf_create:
  "entriesOf (setPermissionEntries op (getPermissionEntries t op @ [\<lparr>entryRole = r, entryPermission = p\<rparr>]) t) op' role =
     entriesOf t op' role @ (if op' = op \<and> role = r then [\<lparr>entryRole = r, entryPermission = p\<rparr>] else [])"
  unfolding entriesOf_set by (simp add: entriesOf_def)

lemma fits_drop:
  "fits t roles F \<Longrightarrow>
     fits (setPermissionEntries op (filter (\<lambda>e. entryRole e \<noteq> r) (getPermissionEntries t op)) t) roles (F((r, op) := None))"
  unfolding fits_def entriesOf_drop by simp

lemma fits_create:
  assumes "fits t roles F" "F (r, op) = None"
  shows "fits (setPermissionEntries op (getPermissionEntries t op @ [\<lparr>entryRole = r, entryPermission = p\<rparr>]) t) roles
           (F((r, op) \<mapsto> p))"
  using assms unfolding fits_def entriesOf_create by auto

lemma findTable_onTable:
  "(\<And>t. tableNamed s n (f t) = tableNamed s n t) \<Longrightarrow>
   findTable (onTable s n f tables) s n = map_option f (findTable tables s n)"
  by (induction tables) (simp_all add: findTable_def firstOf_def split: list.split)

lemma named_set [simp]: "tableNamed s n (setPermissionEntries op es t) = tableNamed s n t"
  by (cases op) (simp_all add: tableNamed_def)

lemma updateFirst_find:
  assumes "updateFirst (tableNamed s n) f tables = Some ts" "\<And>t. tableNamed s n (f t) = tableNamed s n t"
  shows "\<exists>t. findTable tables s n = Some t \<and> findTable ts s n = Some (f t)"
  using assms
proof (induction tables arbitrary: ts)
  case (Cons x xs)
  then show ?case by (cases "tableNamed s n x") (fastforce simp: findTable_def firstOf_def)+
qed simp

subsection \<open>Snapshots of a table\<close>

text \<open>\<open>localeCompare\<close> orders texts and tells the two roles and the four operations apart.\<close>

definition tellsApart :: "(string \<Rightarrow> string \<Rightarrow> int) \<Rightarrow> roleNames \<Rightarrow> bool" where
  "tellsApart coll roles \<longleftrightarrow>
     collation coll \<and> authenticatedRole roles \<noteq> anonymousRole roles
     \<and> (\<forall>a \<in> set (scopedRoles roles). \<forall>b \<in> set (scopedRoles roles). coll a b = 0 \<longrightarrow> a = b)
     \<and> (\<forall>x y. coll (operationName x) (operationName y) = 0 \<longrightarrow> x = y)"

definition scopedSnapshot :: "(string \<Rightarrow> string \<Rightarrow> int) \<Rightarrow> roleNames \<Rightarrow> materializedPermission list \<Rightarrow> bool" where
  "scopedSnapshot coll roles X \<longleftrightarrow>
     isSnapshot coll X \<and> distinct (map permissionKey X)
     \<and> (\<forall>m \<in> set X. permRole m \<in> set (scopedRoles roles) \<and> properObject (permission m))"

lemma scopedSnapshot_parts:
  "scopedSnapshot coll roles X \<Longrightarrow> scopedSnapshot coll roles (drop k X)"
  "scopedSnapshot coll roles X \<Longrightarrow> scopedSnapshot coll roles (take k X)"
  by (auto simp: scopedSnapshot_def snapshot_drop snapshot_take drop_map [symmetric] take_map [symmetric]
      dest: in_set_dropD in_set_takeD)

lemma sortedBy_unique:
  assumes "collation cmp" "sortedBy cmp xs" "sortedBy cmp ys" "distinct xs" "distinct ys" "set xs = set ys"
    and "\<And>a b. a \<in> set xs \<Longrightarrow> b \<in> set xs \<Longrightarrow> cmp a b = 0 \<Longrightarrow> a = b"
  shows "xs = ys"
  using assms(2-)
proof (induction xs arbitrary: ys)
  case (Cons x xs)
  then obtain y ys' where y: "ys = y # ys'" by (cases ys) auto
  have "x = y"
  proof (rule ccontr)
    assume ne: "x \<noteq> y"
    then have "y \<in> set xs" "x \<in> set ys'" using Cons.prems(5) y by auto
    then have "cmp x y \<le> 0" "cmp y x \<le> 0" using Cons.prems(1,2) y by auto
    then have "cmp x y = 0" using collation_swap [OF assms(1), of x y] collation_swap [OF assms(1), of y x] by auto
    then show False using Cons.prems(5,6) y ne by auto
  qed
  moreover have "set xs = set ys'"
    using Cons.prems(3-5) \<open>x = y\<close> y by (auto simp: insert_ident)
  then have "xs = ys'"
    using Cons.prems(1-4) Cons.prems(6) y by (intro Cons.IH) simp_all
  ultimately show ?case using y by simp
qed simp

lemma scopedSnapshot_unique:
  assumes "tellsApart coll roles" "scopedSnapshot coll roles X" "scopedSnapshot coll roles Y" "set X = set Y"
  shows "X = Y"
proof (rule sortedBy_unique)
  have c: "collation coll" using assms(1) by (simp add: tellsApart_def)
  then show "collation (comparePermissions coll)" by (rule collation_permissions)
  show "sortedBy (comparePermissions coll) X" "sortedBy (comparePermissions coll) Y" "distinct X" "distinct Y"
    using assms(2,3) by (simp_all add: scopedSnapshot_def isSnapshot_def distinct_map)
  fix a b assume ab: "a \<in> set X" "b \<in> set X" "comparePermissions coll a b = 0"
  then have "coll (permRole a) (permRole b) = 0"
      "coll (operationName (permOperation a)) (operationName (permOperation b)) = 0"
    by (simp_all add: comparePermissions_def split: if_splits)
  moreover have "permRole a \<in> set (scopedRoles roles)" "permRole b \<in> set (scopedRoles roles)"
    using ab assms(2) by (auto simp: scopedSnapshot_def)
  ultimately have "permissionKey a = permissionKey b"
    using assms(1) unfolding tellsApart_def permissionKey_def by blast
  then show "a = b" using ab assms(2) by (auto simp: scopedSnapshot_def distinct_map dest: inj_onD)
qed (fact assms(4))

text \<open>A table holds a snapshot: its scoped permissions are, normalized, those of the snapshot.\<close>

definition normalTo ::
  "(string \<Rightarrow> string \<Rightarrow> int) \<Rightarrow> materializedPermission list \<Rightarrow> (string \<times> daOperation \<rightharpoonup> (string \<times> jsval) list) \<Rightarrow> bool" where
  "normalTo coll X F \<longleftrightarrow>
     dom F = permissionKey ` set X
     \<and> (\<forall>m \<in> set X. \<exists>p. F (permissionKey m) = Some p \<and> normalizePermission coll p = Inr (permission m))"

definition tableHolds ::
  "(string \<Rightarrow> string \<Rightarrow> int) \<Rightarrow> roleNames \<Rightarrow> string \<Rightarrow> string \<Rightarrow> materializedPermission list \<Rightarrow> tableMetadata list \<Rightarrow> bool" where
  "tableHolds coll roles s n X tables \<longleftrightarrow>
     (\<exists>t F. findTable tables s n = Some t \<and> fits t roles F \<and> normalTo coll X F)"

definition cells :: "(string \<times> daOperation \<rightharpoonup> (string \<times> jsval) list) \<Rightarrow> (string \<times> daOperation) list \<Rightarrow> materializedPermission list" where
  "cells F ks = concat (map (\<lambda>(r, op). case F (r, op) of None \<Rightarrow> []
     | Some p \<Rightarrow> [\<lparr>permRole = r, permOperation = op, permission = p\<rparr>]) ks)"

definition scopedKeys :: "roleNames \<Rightarrow> (string \<times> daOperation) list" where
  "scopedKeys roles = concat (map (\<lambda>op. map (\<lambda>r. (r, op)) (scopedRoles roles)) operationList)"

lemma permsOf_cells: "permsOf roles F = cells F (scopedKeys roles)"
  by (simp add: permsOf_def cells_def scopedKeys_def operationList_def)

lemma scopedKeys_props:
  "set (scopedKeys roles) = set (scopedRoles roles) \<times> UNIV"
  "authenticatedRole roles \<noteq> anonymousRole roles \<Longrightarrow> distinct (scopedKeys roles)"
proof -
  have "op \<in> {OpSelect, OpInsert, OpUpdate, OpDelete}" for op by (cases op) simp_all
  then show "set (scopedKeys roles) = set (scopedRoles roles) \<times> UNIV"
    by (fastforce simp: scopedKeys_def operationList_def)
qed (simp add: scopedKeys_def operationList_def)

lemma cells_Cons:
  "cells F (k # ks) = (case F k of None \<Rightarrow> [] | Some p \<Rightarrow> [\<lparr>permRole = fst k, permOperation = snd k, permission = p\<rparr>]) @ cells F ks"
  by (cases k; cases "F k") (auto simp: cells_def)

lemma cells_keys: "map permissionKey (cells F ks) = filter (\<lambda>k. k \<in> dom F) ks"
  by (induction ks) (simp add: cells_def, auto simp: cells_Cons permissionKey_def split: option.split)

lemma cells_normalize:
  assumes "normalTo coll X F" "distinct (map permissionKey X)"
  shows "\<exists>ns. normalizePermissions coll (cells F ks) = Inr ns \<and> set ns = {m \<in> set X. permissionKey m \<in> set ks}"
proof (induction ks)
  case (Cons k ks)
  then obtain ns where ns: "normalizePermissions coll (cells F ks) = Inr ns" "set ns = {m \<in> set X. permissionKey m \<in> set ks}"
    by blast
  show ?case
  proof (cases "F k")
    case None
    then have "k \<notin> permissionKey ` set X" using assms(1) by (auto simp: normalTo_def)
    then have "{m \<in> set X. permissionKey m \<in> set (k # ks)} = {m \<in> set X. permissionKey m \<in> set ks}" by auto
    with ns None show ?thesis by (simp add: cells_Cons)
  next
    case (Some p)
    then have "k \<in> permissionKey ` set X" using assms(1) by (auto simp: normalTo_def)
    then obtain m where m: "m \<in> set X" "permissionKey m = k" by blast
    then have p: "normalizePermission coll p = Inr (permission m)" using assms(1) Some by (auto simp: normalTo_def)
    have "{x \<in> set X. permissionKey x \<in> set (k # ks)} = insert m {x \<in> set X. permissionKey x \<in> set ks}"
      using m assms(2) by (auto simp: distinct_map dest: inj_onD)
    moreover have "\<lparr>permRole = fst k, permOperation = snd k, permission = permission m\<rparr> = m"
      using m(2) by (cases m) (auto simp: permissionKey_def)
    ultimately show ?thesis using ns Some p by (simp add: cells_Cons)
  qed
qed (simp add: cells_def)

lemma tableHolds_snapshot:
  assumes "tellsApart coll roles" "scopedSnapshot coll roles X" "tableHolds coll roles s n X tables"
  shows "createPermissionSnapshot coll
           (inspectedPermissions (inspectTableDataAccessMetadata (findTable tables s n) roles caps)) = Inr X"
proof -
  obtain t F where t: "findTable tables s n = Some t" "fits t roles F" "normalTo coll X F"
    using assms(3) by (auto simp: tableHolds_def)
  have X: "isSnapshot coll X" "distinct (map permissionKey X)" "\<forall>m \<in> set X. permRole m \<in> set (scopedRoles roles) \<and> properObject (permission m)"
    using assms(2) by (simp_all add: scopedSnapshot_def)
  obtain ns where ns: "normalizePermissions coll (cells F (scopedKeys roles)) = Inr ns"
      "set ns = {m \<in> set X. permissionKey m \<in> set (scopedKeys roles)}"
    using cells_normalize [OF t(3) X(2)] by blast
  have set: "set ns = set X"
    unfolding ns(2) scopedKeys_props(1) using X(3) by (auto simp: permissionKey_def)
  have ap: "collation coll" "authenticatedRole roles \<noteq> anonymousRole roles"
    using assms(1) by (simp_all add: tellsApart_def)
  have "scopedSnapshot coll roles (js_sort (comparePermissions coll) ns)"
    unfolding scopedSnapshot_def isSnapshot_def set_js_sort set distinct_js_sort
    using X sortedBy_js_sort [OF collation_permissions [OF ap(1)]] normalizePermissions_Inr [OF ns(1)]
      scopedKeys_props(2) [OF ap(2)]
    by (simp add: isSnapshot_def cells_keys)
  then have "js_sort (comparePermissions coll) ns = X"
    using scopedSnapshot_unique [OF assms(1) _ assms(2)] set by simp
  then show ?thesis
    by (simp add: t(1) inspected_permsOf [OF t(2)] permsOf_cells createPermissionSnapshot_def ns(1))
qed

subsection \<open>The states of a table\<close>

definition dropAll :: "string \<Rightarrow> string \<Rightarrow> materializedPermission list \<Rightarrow> metaCommand list" where
  "dropAll s n X = map (\<lambda>m. DropPermission (permOperation m) s n (permRole m)) X"

definition createAll :: "string \<Rightarrow> string \<Rightarrow> materializedPermission list \<Rightarrow> metaCommand list" where
  "createAll s n Y = map (\<lambda>m. CreatePermission (permOperation m) s n (permRole m) (permission m)) Y"

lemma normalTo_drop:
  assumes "normalTo coll (m # X) F" "distinct (map permissionKey (m # X))"
  shows "normalTo coll X (F(permissionKey m := None))"
  using assms by (auto simp: normalTo_def) (metis imageI)

lemma normalTo_create:
  assumes "normalTo coll X F" "permissionKey m \<notin> permissionKey ` set X" "canonicalPermission coll m"
  shows "normalTo coll (X @ [m]) (F(permissionKey m \<mapsto> permission m))" "F (permissionKey m) = None"
proof -
  have "normalizePermission coll (permission m) = Inr (permission m)"
    using assms(3) by (simp add: canonicalPermission_def normalizePermission_def)
  then show "normalTo coll (X @ [m]) (F(permissionKey m \<mapsto> permission m))"
    using assms(1,2) by (auto simp: normalTo_def) (metis imageI)
  show "F (permissionKey m) = None"
    using assms(1,2) by (auto simp: normalTo_def domIff)
qed

lemma tableHolds_drop:
  assumes "tableHolds coll roles s n (m # X) tables" "distinct (map permissionKey (m # X))"
  shows "tableHolds coll roles s n X (runCommand (DropPermission (permOperation m) s n (permRole m)) tables)"
proof -
  obtain t F where t: "findTable tables s n = Some t" "fits t roles F" "normalTo coll (m # X) F"
    using assms(1) by (auto simp: tableHolds_def)
  then show ?thesis
    using fits_drop [OF t(2), of "permOperation m" "permRole m"] normalTo_drop [OF t(3) assms(2)]
    by (auto simp: tableHolds_def findTable_onTable permissionKey_def simp del: onTable.simps)
qed

lemma tableHolds_create:
  assumes "tableHolds coll roles s n X tables" "permissionKey m \<notin> permissionKey ` set X" "canonicalPermission coll m"
  shows "tableHolds coll roles s n (X @ [m])
           (runCommand (CreatePermission (permOperation m) s n (permRole m) (permission m)) tables)"
proof -
  obtain t F where t: "findTable tables s n = Some t" "fits t roles F" "normalTo coll X F"
    using assms(1) by (auto simp: tableHolds_def)
  then show ?thesis
    using fits_create [OF t(2), of "permRole m" "permOperation m" "permission m"] normalTo_create [OF t(3) assms(2,3)]
    by (auto simp: tableHolds_def findTable_onTable permissionKey_def simp del: onTable.simps)
qed

lemma dropAll_states:
  assumes "tableHolds coll roles s n X tables" "distinct (map permissionKey X)"
  shows "tableHolds coll roles s n (drop k X) (fold runCommand (take k (dropAll s n X)) tables)"
  using assms
proof (induction X arbitrary: k tables)
  case (Cons m X)
  then show ?case
    using tableHolds_drop [of coll roles s n m X tables] by (cases k) (simp_all add: dropAll_def)
qed (simp add: dropAll_def)

lemma createAll_states:
  assumes "tableHolds coll roles s n X tables" "distinct (map permissionKey (X @ Y))"
    and "\<forall>m \<in> set Y. canonicalPermission coll m"
  shows "tableHolds coll roles s n (X @ take k Y) (fold runCommand (take k (createAll s n Y)) tables)"
  using assms
proof (induction Y arbitrary: X k tables)
  case (Cons m Y)
  show ?case
  proof (cases k)
    case (Suc j)
    have "permissionKey m \<notin> permissionKey ` set X" using Cons.prems(2) by auto
    then have "tableHolds coll roles s n (X @ [m])
        (runCommand (CreatePermission (permOperation m) s n (permRole m) (permission m)) tables)"
      using Cons.prems tableHolds_create by auto
    then show ?thesis
      using Cons.IH [of "X @ [m]" _ j] Cons.prems(2,3) Suc by (simp add: createAll_def)
  qed (use Cons.prems in \<open>simp add: createAll_def\<close>)
qed (simp add: createAll_def)

text \<open>Where the commands that replace \<open>X\<close> by \<open>Y\<close> can stop.\<close>

definition between :: "materializedPermission list \<Rightarrow> materializedPermission list \<Rightarrow> materializedPermission list \<Rightarrow> bool" where
  "between X Y Z \<longleftrightarrow> (\<exists>k. Z = drop k X \<or> Z = take k Y)"

lemma between_ends [simp]: "between X Y X" "between X Y Y"
proof -
  show "between X Y X" unfolding between_def by (rule exI [of _ 0]) simp
  show "between X Y Y" unfolding between_def by (rule exI [of _ "length Y"]) simp
qed

lemma replacing_states:
  assumes "tableHolds coll roles s n X tables" "distinct (map permissionKey X)" "distinct (map permissionKey Y)"
    and "\<forall>m \<in> set Y. canonicalPermission coll m"
  shows "\<exists>Z. between X Y Z \<and> tableHolds coll roles s n Z (fold runCommand (take k (dropAll s n X @ createAll s n Y)) tables)"
    and "tableHolds coll roles s n Y (fold runCommand (dropAll s n X @ createAll s n Y) tables)"
proof -
  have len: "length (dropAll s n X) = length X" "length (createAll s n Y) = length Y"
    by (simp_all add: dropAll_def createAll_def)
  have all: "tableHolds coll roles s n [] (fold runCommand (dropAll s n X) tables)"
    using dropAll_states [OF assms(1,2), of "length X"] len by simp
  have created: "tableHolds coll roles s n (take j Y)
      (fold runCommand (take j (createAll s n Y)) (fold runCommand (dropAll s n X) tables))" for j
    using createAll_states [OF all, of Y j] assms(3,4) by simp
  show "\<exists>Z. between X Y Z \<and> tableHolds coll roles s n Z (fold runCommand (take k (dropAll s n X @ createAll s n Y)) tables)"
  proof (cases "k \<le> length X")
    case True
    then show ?thesis using dropAll_states [OF assms(1,2), of k] len by (auto simp: between_def)
  next
    case False
    then show ?thesis using created [of "k - length X"] len by (auto simp: between_def)
  qed
  show "tableHolds coll roles s n Y (fold runCommand (dropAll s n X @ createAll s n Y) tables)"
    using created [of "length Y"] len by simp
qed

subsection \<open>Replacing the metadata\<close>

lemma get_set [simp]:
  "getPermissionEntries (setPermissionEntries op es t) op' = (if op' = op then es else getPermissionEntries t op')"
  by (cases op; cases op') simp_all

lemma get_replaceTable:
  "getPermissionEntries (replaceTable coll rs perms t) op = replacedEntries coll rs perms op (getPermissionEntries t op)"
  by (cases op) (simp_all add: replaceTable_def operationList_def)

lemma named_replaceTable [simp]: "tableNamed s n (replaceTable coll rs perms t) = tableNamed s n t"
  by (simp add: replaceTable_def operationList_def tableNamed_def)

lemma filter_single:
  assumes "distinct (map f xs)"
  shows "map g (filter (\<lambda>x. f x = r) xs) = (case map_of (map (\<lambda>x. (f x, g x)) xs) r of None \<Rightarrow> [] | Some p \<Rightarrow> [p])"
  using assms by (induction xs) (auto simp: filter_empty_conv split: option.splits, metis imageI)

lemma map_of_sort:
  assumes "distinct (map f xs)"
  shows "map_of (map (\<lambda>x. (f x, g x)) (js_sort cmp xs)) = map_of (map (\<lambda>x. (f x, g x)) xs)"
proof -
  have "distinct (map fst (map (\<lambda>x. (f x, g x)) (js_sort cmp xs)))" "distinct (map fst (map (\<lambda>x. (f x, g x)) xs))"
    using assms by (simp_all add: comp_def distinct_js_sort)
  then have "map_of (map (\<lambda>x. (f x, g x)) (js_sort cmp xs)) k = Some v
      \<longleftrightarrow> map_of (map (\<lambda>x. (f x, g x)) xs) k = Some v" for k v
    by (simp only: map_of_eq_Some_iff) simp
  then show ?thesis by (intro ext) (metis not_Some_eq)
qed

lemma map_of_operation:
  "map_of (map (\<lambda>m. (permRole m, permission m)) (filter (\<lambda>m. permOperation m = op) Y)) r
     = map_of (map (\<lambda>m. (permissionKey m, permission m)) Y) (r, op)"
  by (induction Y) (auto simp: permissionKey_def)

lemma fits_replace:
  assumes "distinct (map permissionKey Y)"
  shows "fits (replaceTable coll (scopedRoles roles) Y t) roles (map_of (map (\<lambda>m. (permissionKey m, permission m)) Y))"
proof -
  have "map entryPermission (entriesOf (replaceTable coll (scopedRoles roles) Y t) op role)
      = (case map_of (map (\<lambda>m. (permissionKey m, permission m)) Y) (role, op) of None \<Rightarrow> [] | Some p \<Rightarrow> [p])"
    if role: "role \<in> set (scopedRoles roles)" for role op
  proof -
    let ?es = "map (\<lambda>m. \<lparr>entryRole = permRole m, entryPermission = permission m\<rparr>) (filter (\<lambda>m. permOperation m = op) Y)"
    have d: "distinct (map entryRole ?es)"
      using assms by (auto simp: comp_def distinct_map permissionKey_def inj_on_def)
    have "map entryPermission (entriesOf (replaceTable coll (scopedRoles roles) Y t) op role)
        = map entryPermission (filter (\<lambda>e. entryRole e = role) (js_sort (\<lambda>l r. coll (entryRole l) (entryRole r)) ?es))"
      using role by (auto simp: entriesOf_def get_replaceTable replacedEntries_def filter_empty_conv)
    also have "\<dots> = (case map_of (map (\<lambda>x. (entryRole x, entryPermission x)) ?es) role of None \<Rightarrow> [] | Some p \<Rightarrow> [p])"
      using filter_single [of entryRole "js_sort (\<lambda>l r. coll (entryRole l) (entryRole r)) ?es" entryPermission role]
        map_of_sort [OF d, of entryPermission] d
      by (simp add: distinct_js_sort)
    finally show ?thesis by (simp add: comp_def map_of_operation)
  qed
  then show ?thesis by (simp add: fits_def)
qed

lemma normalTo_list:
  assumes "distinct (map permissionKey Y)" "\<forall>m \<in> set Y. canonicalPermission coll m"
  shows "normalTo coll Y (map_of (map (\<lambda>m. (permissionKey m, permission m)) Y))"
proof -
  have "map_of (map (\<lambda>m. (permissionKey m, permission m)) Y) (permissionKey m) = Some (permission m)" if "m \<in> set Y" for m
    using assms(1) that by (intro map_of_is_SomeI) (auto simp: comp_def)
  moreover have "normalizePermission coll (permission m) = Inr (permission m)" if "m \<in> set Y" for m
    using assms(2) that by (simp add: canonicalPermission_def normalizePermission_def)
  ultimately show ?thesis by (auto simp: normalTo_def dom_map_of_conv_image_fst image_iff)
qed

lemma tableHolds_replace:
  assumes "buildMetadataWithTablePermissions coll m s n (scopedRoles roles) Y = Inr ts"
    and "distinct (map permissionKey Y)" "\<forall>m \<in> set Y. canonicalPermission coll m"
  shows "tableHolds coll roles s n Y ts"
proof -
  obtain tables where "updateFirst (tableNamed s n) (replaceTable coll (scopedRoles roles) Y) tables = Some ts"
    using assms(1) by (auto simp: buildMetadataWithTablePermissions_def split: option.splits)
  then obtain t where "findTable ts s n = Some (replaceTable coll (scopedRoles roles) Y t)"
    using updateFirst_find by fastforce
  then show ?thesis
    using fits_replace [OF assms(2)] normalTo_list [OF assms(2,3)] by (auto simp: tableHolds_def)
qed

end
