(* ===== verification/Policy_Logic.thy ===== *)
theory Policy_Logic
  imports Metadata_Laws
begin

text \<open>
  Rules for the effects of a policy operation: what a statement, a request to the engine, a change
  of the recorded operation and a write of permissions do to the row of one operation, to the
  baseline of its table and to the permissions the table holds.
\<close>

subsection \<open>Effects\<close>

definition untimed :: "('d accessWorld \<Rightarrow> bool) \<Rightarrow> bool" where
  "untimed P \<longleftrightarrow> (\<forall>w t c. P (w\<lparr>trace := t, clock := c\<rparr>) = P w)"

lemma untimed_tick [simp]: "untimed P \<Longrightarrow> P (tick env ev w) = P w"
  by (auto simp: untimed_def tick_def)

lemma untimed_intros [simp]:
  "untimed (\<lambda>w. D (db w) (metadata w))" "untimed (\<lambda>w. b)"
  by (simp_all add: untimed_def)

lemma triple_effect:
  assumes "untimed P" "triple P act Q R K" "\<And>w. P w \<Longrightarrow> K w"
    and "\<And>w m ev tr. P w \<Longrightarrow> faults env tr ev = FaultBefore (Some m) \<Longrightarrow> R (PlainError m) w"
    and "\<And>w w' r m tr. P w \<Longrightarrow> act w = (r, w') \<Longrightarrow> K w'
           \<and> (faults env tr ev = FaultAfter (Some m) \<longrightarrow> R (PlainError m) w')"
  shows "triple P (effect env ev act) Q R K"
proof (rule tripleI)
  fix w r w'
  assume P: "P w" and e: "effect env ev act w = (r, w')"
  let ?u = "tick env ev w"
  have u: "P ?u" using P assms(1) by simp
  show "case r of Answer x \<Rightarrow> Q x w' | Thrown e \<Rightarrow> R e w' | Crashed \<Rightarrow> K w'"
  proof (cases "faults env (trace w) ev")
    case NoFault
    then show ?thesis using e tripleD [OF assms(2) u] by (simp add: effect_def)
  next
    case (FaultBefore x)
    then show ?thesis using e assms(3) [OF P] assms(4) [OF u] by (cases x) (auto simp: effect_def)
  next
    case (FaultAfter x)
    obtain r1 w1 where "act ?u = (r1, w1)" by (cases "act ?u")
    then show ?thesis using FaultAfter e assms(5) [OF u] by (cases x) (auto simp: effect_def)
  qed
qed

lemma triple_statement:
  assumes "untimed P" "\<And>w a d. P w \<Longrightarrow> f w = Inr (a, d) \<Longrightarrow> Q a (w\<lparr>db := d\<rparr>) \<and> N (w\<lparr>db := d\<rparr>)"
  shows "triple P (statement env name f) Q (\<lambda>e w. P w \<or> N w) (\<lambda>w. P w \<or> N w)"
  unfolding statement_def
proof (rule triple_effect)
  let ?act = "\<lambda>w. case f w of Inl e \<Rightarrow> (Thrown e, w) | Inr (a, d) \<Rightarrow> (Answer a, w\<lparr>db := d\<rparr>)"
  show "triple P ?act Q (\<lambda>e w. P w \<or> N w) (\<lambda>w. P w \<or> N w)"
    unfolding triple_def using assms(2) by (auto split: sum.split prod.split)
  show "(P w' \<or> N w') \<and> (faults env tr (EvDb name) = FaultAfter (Some m) \<longrightarrow> P w' \<or> N w')"
    if "P w" "?act w = (r, w')" for w w' r m tr
    using that assms(2) by (auto split: sum.splits prod.splits)
qed (use assms(1) in auto)

lemma triple_query:
  assumes "untimed P"
  shows "triple P (queryDb env name f) (\<lambda>x w. P w \<and> x = f (db w)) (\<lambda>_. P) P"
  unfolding queryDb_def
  by (rule triple_conseq [OF triple_statement [OF assms, where N = P and Q = "\<lambda>x w. P w \<and> x = f (db w)"]]) auto

lemma triple_request:
  assumes "untimed P" "faults_ok env" "\<And>w. P w \<Longrightarrow> K w"
    and lost: "\<And>w m. P w \<Longrightarrow> \<not> isUnsupportedAtomicCommand (PlainError m) \<Longrightarrow> R (PlainError m) w"
    and answered: "\<And>w tr r m x. P w \<Longrightarrow> engine env tr req (metadata w) = (r, m) \<Longrightarrow> replyOf r = Inr x \<Longrightarrow> Q x (w\<lparr>metadata := m\<rparr>)"
    and refused: "\<And>w tr r m e. P w \<Longrightarrow> engine env tr req (metadata w) = (r, m) \<Longrightarrow> replyOf r = Inl e \<Longrightarrow> R e (w\<lparr>metadata := m\<rparr>)"
    and after: "\<And>w tr r m x. P w \<Longrightarrow> engine env tr req (metadata w) = (r, m) \<Longrightarrow> K (w\<lparr>metadata := m\<rparr>)
      \<and> (\<not> isUnsupportedAtomicCommand (PlainError x) \<longrightarrow> R (PlainError x) (w\<lparr>metadata := m\<rparr>))"
  shows "triple P (metadataRequest env req) Q R K"
  unfolding metadataRequest_def
proof (rule triple_chain [where Q = "\<lambda>_. P"])
  show "triple P (look trace) (\<lambda>_. P) R K" by (rule triple_look)
  fix tr
  let ?act = "\<lambda>w. case engine env tr req (metadata w) of (r, s) \<Rightarrow> lift id (replyOf r) (w\<lparr>metadata := s\<rparr>)"
  show "triple P (effect env (EvMeta req) ?act) Q R K"
  proof (rule triple_effect)
    show "triple P ?act Q R K"
      unfolding triple_def
    proof (intro allI impI)
      fix w assume P: "P w"
      obtain r m where e: "engine env tr req (metadata w) = (r, m)" by (cases "engine env tr req (metadata w)")
      show "case ?act w of (r, w') \<Rightarrow> (case r of Answer x \<Rightarrow> Q x w' | Thrown e \<Rightarrow> R e w' | Crashed \<Rightarrow> K w')"
        using answered [OF P e] refused [OF P e] e
        by (cases "replyOf r") (simp_all add: lift_def give_def throw_def)
    qed
    show "K w' \<and> (faults env t (EvMeta req) = FaultAfter (Some x) \<longrightarrow> R (PlainError x) w')"
      if "P w" "?act w = (r', w')" for w w' r' x t
    proof -
      obtain r m where e: "engine env tr req (metadata w) = (r, m)" by (cases "engine env tr req (metadata w)")
      then have "w' = w\<lparr>metadata := m\<rparr>"
        using that(2) by (cases "replyOf r") (auto simp: lift_def give_def throw_def)
      then show ?thesis using after [OF that(1) e, of x] assms(2) by (auto simp: faults_ok_def)
    qed
  qed (use assms(1-3) lost in \<open>auto simp: faults_ok_def\<close>)
qed

lemma untimed_pure: "untimed P \<Longrightarrow> untimed (\<lambda>w. P w \<and> b)"
  by (simp add: untimed_def)

subsection \<open>Contexts\<close>

text \<open>What a loaded context says of the metadata.\<close>

definition loaded :: "'d accessEnv \<Rightarrow> string \<Rightarrow> string \<Rightarrow> operationContext \<Rightarrow> bool" where
  "loaded env pid tn ctx \<longleftrightarrow>
     ctxProject ctx = pid \<and> ctxTable ctx = tn \<and> ctxVersion ctx = resourceVersion (ctxMetadata ctx)
     \<and> contextRoles env pid = Inr (ctxRoles ctx)
     \<and> (\<exists>tables. defaultTables (ctxMetadata ctx) = Some tables
          \<and> ctxTableMetadata ctx = findTable tables (ctxSchema ctx) tn)
     \<and> ctxInspected ctx = inspectTableDataAccessMetadata (ctxTableMetadata ctx) (ctxRoles ctx) (ctxCapabilities ctx)"

lemma keeps_requireProject:
  assumes "untimed P"
  shows "keeps P (requireProject env pid)"
  unfolding requireProject_def
  by (rule triple_chain [where Q = "\<lambda>_. P"])
     (auto intro!: triple_conseq [OF triple_query [OF assms]] keeping split: option.split)

lemma triple_export:
  assumes "untimed P" "engine_ok env" "faults_ok env"
  shows "triple P (metadataRequest env ExportMetadata)
           (\<lambda>x w. P w \<and> (\<forall>m. x = Some m \<longrightarrow> m = metadata w)) (\<lambda>_. P) P"
proof (rule triple_request [OF assms(1,3)])
  fix w tr r m assume P: "P w" and e: "engine env tr ExportMetadata (metadata w) = (r, m)"
  have m: "m = metadata w" "\<And>x. r = MetaExported x \<Longrightarrow> x = metadata w"
    using engine_okD [OF assms(2) e] by (auto simp: replyOf_def)
  then have [simp]: "w\<lparr>metadata := m\<rparr> = w" by simp
  show "P (w\<lparr>metadata := m\<rparr>) \<and> (\<forall>ma. x = Some ma \<longrightarrow> ma = metadata (w\<lparr>metadata := m\<rparr>))" if "replyOf r = Inr x" for x
    using P m(2) that by (auto simp: replyOf_def split: metaReply.splits)
  show "P (w\<lparr>metadata := m\<rparr>)" using P by simp
  show "P (w\<lparr>metadata := m\<rparr>) \<and> (\<not> isUnsupportedAtomicCommand (PlainError x) \<longrightarrow> P (w\<lparr>metadata := m\<rparr>))" for x
    using P by simp
qed auto

lemma triple_load:
  assumes P: "untimed P" and env: "engine_ok env" "faults_ok env"
  shows "triple P (loadOperationContext env pid tn)
           (\<lambda>ctx w. P w \<and> loaded env pid tn ctx \<and> ctxMetadata ctx = metadata w) (\<lambda>_. P) P"
  unfolding loadOperationContext_def
  apply (rule triple_chain [OF keeps_requireProject [OF P]])
  apply (rule triple_chain [OF triple_query [OF P]])
  apply (rule triple_option)
   apply (rule triple_throw, simp)
  apply (rule triple_chain [OF triple_pre [OF triple_export [OF P env]]])
   apply simp
  apply (rule triple_option)
   apply (rule triple_throw, simp)
  apply (rule triple_option)
   apply (rule triple_throw, simp)
  apply (rule triple_if)
   apply (rule triple_chain)
    apply (rule triple_lift [where Q = "\<lambda>roles w. P w \<and> contextRoles env pid = Inr roles \<and> m = metadata w" for m])
     apply simp
    apply simp
   apply (rule triple_give)
   apply (auto simp: loaded_def contextOf_def Let_def intro: triple_throw)
  done

subsection \<open>The state of one operation\<close>

text \<open>What a trigger of the database keeps: everything but the state of the operation.\<close>

definition samePayload :: "'d operationRow \<Rightarrow> 'd operationRow \<Rightarrow> bool" where
  "samePayload o1 r \<longleftrightarrow>
     r = o1\<lparr>operationStatus := operationStatus r, operationPhase := operationPhase r, targetVersion := targetVersion r,
           writerEpoch := writerEpoch r, writeDeadlineAt := writeDeadlineAt r, operationError := operationError r,
           operationStartedAt := operationStartedAt r, operationCompletedAt := operationCompletedAt r,
           operationUpdatedAt := operationUpdatedAt r\<rparr>"

lemma samePayload_refl [simp]: "samePayload o1 o1"
  by (simp add: samePayload_def)

lemma samePayload_fields:
  assumes "samePayload o1 r"
  shows "operationId r = operationId o1" "operationProject r = operationProject o1"
    "operationSchema r = operationSchema o1" "operationTable r = operationTable o1"
    "sourcePermissions r = sourcePermissions o1" "targetPermissions r = targetPermissions o1"
    "baselineRevision r = baselineRevision o1" "sourceDigest r = sourceDigest o1"
    "sourceCapabilities r = sourceCapabilities o1"
  using assms by (cases o1; cases r; simp add: samePayload_def)+

lemma samePayload_patch: "samePayload o1 r \<Longrightarrow> samePayload o1 (applyPatch t p r)"
  by (cases o1; cases r) (simp add: samePayload_def applyPatch_def)

lemma samePayload_lease: "samePayload o1 r \<Longrightarrow> samePayload o1 (r\<lparr>writeDeadlineAt := d, operationUpdatedAt := u\<rparr>)"
  by (cases o1; cases r) (simp add: samePayload_def)

definition rowOf :: "'d operationRow \<Rightarrow> 'd accessDb \<Rightarrow> 'd operationRow \<Rightarrow> bool" where
  "rowOf o1 d r \<longleftrightarrow>
     filter (\<lambda>q. operationId q = operationId o1) (policyOperations d) = [r] \<and> samePayload o1 r"

abbreviation keyOf :: "'d operationRow \<Rightarrow> policyKey" where
  "keyOf o1 \<equiv> (operationProject o1, operationSchema o1, operationTable o1)"

text \<open>The recorded row, the baseline and the permissions of the table are related by \<open>R\<close>.\<close>

definition opState ::
  "'d accessEnv \<Rightarrow> roleNames \<Rightarrow> 'd operationRow
   \<Rightarrow> ('d operationRow \<Rightarrow> 'd managedPolicy option \<Rightarrow> materializedPermission list \<Rightarrow> metadataState \<Rightarrow> bool)
   \<Rightarrow> 'd accessWorld \<Rightarrow> bool" where
  "opState env roles o1 R w \<longleftrightarrow>
     (\<exists>r X tables. rowOf o1 (db w) r \<and> defaultTables (metadata w) = Some tables
        \<and> tableHolds (collate env) roles (operationSchema o1) (operationTable o1) X tables
        \<and> R r (map_of (managedPolicies (db w)) (keyOf o1)) X (metadata w))"

lemma opState_untimed [simp]: "untimed (opState env roles o1 R)"
  by (simp add: untimed_def opState_def)

lemma opState_mono:
  "opState env roles o1 R w \<Longrightarrow> (\<And>r b X M. R r b X M \<Longrightarrow> R' r b X M) \<Longrightarrow> opState env roles o1 R' w"
  unfolding opState_def by blast

lemma patchRows_some:
  assumes "patchRows opId cond f d = Inr (Some (q, d'))" "\<And>r. operationId (f r) = operationId r"
    and "filter (\<lambda>q. operationId q = opId) (policyOperations d) = [r]"
  shows "cond r" "q = f r" "filter (\<lambda>q. operationId q = opId) (policyOperations d') = [f r]"
    and "managedPolicies d' = managedPolicies d"
proof -
  have d': "d' = d\<lparr>policyOperations := map (\<lambda>q. if operationId q = opId \<and> cond q then f q else q) (policyOperations d)\<rparr>"
    using assms(1) by (auto simp: patchRows_def split: list.splits if_splits)
  have two: "filter (\<lambda>q. operationId q = opId \<and> cond q) (policyOperations d) = filter cond [r]"
    unfolding assms(3) [symmetric] by (simp add: conj_commute)
  then show "cond r" "q = f r"
    using assms(1) by (auto simp: patchRows_def split: if_splits)
  have "filter (\<lambda>q. operationId q = opId) (map (\<lambda>q. if operationId q = opId \<and> cond q then f q else q) xs)
      = map (\<lambda>q. if cond q then f q else q) (filter (\<lambda>q. operationId q = opId) xs)" for xs
    using assms(2) by (induction xs) auto
  then show "filter (\<lambda>q. operationId q = opId) (policyOperations d') = [f r]"
    using assms(3) \<open>cond r\<close> by (simp add: d')
  show "managedPolicies d' = managedPolicies d" by (simp add: d')
qed

lemma opState_patched:
  assumes "opState env roles o1 R w" "patchRows (operationId o1) cond f (db w) = Inr (Some (q, d'))"
    and "\<And>r. operationId (f r) = operationId r" "\<And>r. samePayload o1 r \<Longrightarrow> samePayload o1 (f r)"
    and "\<And>r b X M. R r b X M \<Longrightarrow> cond r \<Longrightarrow> R' (f r) b X M"
  shows "opState env roles o1 R' (w\<lparr>db := d'\<rparr>)"
proof -
  obtain r X tables where r: "rowOf o1 (db w) r" "defaultTables (metadata w) = Some tables"
      "tableHolds (collate env) roles (operationSchema o1) (operationTable o1) X tables"
      "R r (map_of (managedPolicies (db w)) (keyOf o1)) X (metadata w)"
    using assms(1) by (auto simp: opState_def)
  note p = patchRows_some [OF assms(2,3), of r]
  have "rowOf o1 d' (f r)" using r(1) p assms(4) by (simp add: rowOf_def)
  then show ?thesis
    using r p assms(5) [OF r(4)] by (auto simp: opState_def rowOf_def)
qed

text \<open>One status, one baseline, some permissions.\<close>

abbreviation phase ::
  "'d accessEnv \<Rightarrow> roleNames \<Rightarrow> 'd operationRow \<Rightarrow> operationStatus \<Rightarrow> 'd managedPolicy option
   \<Rightarrow> (materializedPermission list \<Rightarrow> bool) \<Rightarrow> (metadataState \<Rightarrow> bool) \<Rightarrow> 'd accessWorld \<Rightarrow> bool" where
  "phase env roles o1 st b XP MP \<equiv>
     opState env roles o1 (\<lambda>r b' X M. operationStatus r = st \<and> b' = b \<and> XP X \<and> MP M)"

lemma triple_transition:
  assumes "patchStatus p = Some st'"
    and "\<And>r b X M t. R r b X M \<Longrightarrow> operationStatus r \<in> set expected \<Longrightarrow> R' (applyPatch t p r) b X M"
  shows "triple (opState env roles o1 R) (transitionPolicyOperation env (operationId o1) expected p)
           (\<lambda>_. opState env roles o1 R') (\<lambda>e w. opState env roles o1 R w \<or> opState env roles o1 R' w)
           (\<lambda>w. opState env roles o1 R w \<or> opState env roles o1 R' w)"
proof -
  have "p \<noteq> noPatch" using assms(1) by (auto simp: noPatch_def)
  show ?thesis
    unfolding transitionPolicyOperation_def
  proof (rule triple_if)
    assume "expected \<noteq> []"
    show "triple (opState env roles o1 R) (if p = noPatch then throw (PlainError ''Operation transition patch is empty'')
      else statement env ''UPDATE policy_operations'' (\<lambda>w.
        case patchRows (operationId o1) (\<lambda>r. operationStatus r \<in> set expected) (applyPatch (clock w) p) (db w) of
          Inl e \<Rightarrow> Inl e | Inr None \<Rightarrow> Inl TransitionError | Inr (Some r) \<Rightarrow> Inr r))
           (\<lambda>_. opState env roles o1 R') (\<lambda>e w. opState env roles o1 R w \<or> opState env roles o1 R' w)
           (\<lambda>w. opState env roles o1 R w \<or> opState env roles o1 R' w)"
      using \<open>p \<noteq> noPatch\<close>
      by (auto intro!: triple_statement opState_patched samePayload_patch assms(2)
          split: sum.splits option.splits)
         (simp_all add: applyPatch_def)
  qed (auto intro: triple_throw)
qed

lemma keeps_renewLease:
  assumes "\<And>r b X M d u. R r b X M \<Longrightarrow> R (r\<lparr>writeDeadlineAt := d, operationUpdatedAt := u\<rparr>) b X M"
  shows "keeps (opState env roles o1 R) (renewLease env (operationId o1) st epoch)"
  unfolding renewLease_def now_def
proof (rule triple_chain [OF triple_look [where Q = "\<lambda>_. opState env roles o1 R"]])
  fix t
  show "keeps (opState env roles o1 R)
     (renewPolicyOperationWriterLease env (operationId o1) st epoch (t + POLICY_WRITER_LEASE_MS))"
    unfolding renewPolicyOperationWriterLease_def
    by (rule triple_conseq [OF triple_statement [where N = "opState env roles o1 R" and Q = "\<lambda>_. opState env roles o1 R"
            and P = "opState env roles o1 R"]])
       (auto split: sum.splits option.splits intro!: opState_patched samePayload_lease assms)
qed

lemma opState_metadata:
  assumes "opState env roles o1 R w" "defaultTables m = Some tables"
    and "\<And>r X ts. R r b X (metadata w) \<Longrightarrow> b = map_of (managedPolicies (db w)) (keyOf o1) \<Longrightarrow> defaultTables (metadata w) = Some ts
       \<Longrightarrow> tableHolds (collate env) roles (operationSchema o1) (operationTable o1) X ts
       \<Longrightarrow> \<exists>Y. tableHolds (collate env) roles (operationSchema o1) (operationTable o1) Y tables \<and> R' r b Y m"
    and "b = map_of (managedPolicies (db w)) (keyOf o1)"
  shows "opState env roles o1 R' (w\<lparr>metadata := m\<rparr>)"
  using assms unfolding opState_def by simp blast

text \<open>Replacing the permissions \<open>X\<close> of a table by \<open>Y\<close>.\<close>

definition fromTo ::
  "operationContext \<Rightarrow> ('d operationRow \<Rightarrow> 'd managedPolicy option \<Rightarrow> bool) \<Rightarrow> materializedPermission list
   \<Rightarrow> 'd operationRow \<Rightarrow> 'd managedPolicy option \<Rightarrow> materializedPermission list \<Rightarrow> metadataState \<Rightarrow> bool" where
  "fromTo ctx C X r b Z M \<longleftrightarrow> C r b \<and> Z = X \<and> M = ctxMetadata ctx"

lemma commands_all:
  "ctxSchema ctx = s \<Longrightarrow> ctxTable ctx = n \<Longrightarrow> buildPermissionCommands ctx X Y = dropAll s n X @ createAll s n Y"
  by (simp add: buildPermissionCommands_def dropAll_def createAll_def)

lemma triple_commands:
  assumes env: "engine_ok env" "faults_ok env"
    and snap: "scopedSnapshot (collate env) roles X" "scopedSnapshot (collate env) roles Y"
    and ctx: "ctxVersion ctx = resourceVersion (ctxMetadata ctx)" "ctxSchema ctx = operationSchema o1" "ctxTable ctx = operationTable o1"
    and renew: "keeps (opState env roles o1 (fromTo ctx C X)) renew"
  shows "triple (opState env roles o1 (fromTo ctx C X))
      (applyHasuraMetadataCommands env (buildPermissionCommands ctx X Y) (Some (ctxVersion ctx)) renew)
      (\<lambda>_. opState env roles o1 (\<lambda>r b Z M. C r b \<and> Z = Y))
      (\<lambda>e w. opState env roles o1 (\<lambda>r b Z M. C r b \<and> between X Y Z) w
         \<and> (isDefinitiveRejection e \<longrightarrow> opState env roles o1 (\<lambda>r b Z M. C r b \<and> Z = X) w))
      (opState env roles o1 (\<lambda>r b Z M. C r b \<and> between X Y Z))"
    (is "triple ?P _ ?Q ?R ?K")
proof -
  let ?s = "operationSchema o1" and ?n = "operationTable o1"
  let ?cmds = "buildPermissionCommands ctx X Y"
  have cmds: "?cmds = dropAll ?s ?n X @ createAll ?s ?n Y" using commands_all ctx by simp
  have dist: "distinct (map permissionKey X)" "distinct (map permissionKey Y)" "\<forall>m \<in> set Y. canonicalPermission (collate env) m"
    using snap by (simp_all add: scopedSnapshot_def isSnapshot_def)
  have start: "?K w" "?R (PlainError m) w" if "?P w" for w m
    using that opState_mono [OF that, of "\<lambda>r b Z M. C r b \<and> between X Y Z"] opState_mono [OF that, of "\<lambda>r b Z M. C r b \<and> Z = X"]
    by (simp_all add: fromTo_def isDefinitiveRejection_def)
  have here: "opState env roles o1 (\<lambda>r b Z M. C r b \<and> Z = X) w" if "?P w" for w
    using opState_mono [OF that] by (simp add: fromTo_def)
  have part: "?K (w\<lparr>metadata := m\<rparr>)" if "?P w" "defaultTables m = runCommands (take k ?cmds) (metadata w)" for w m k
  proof -
    obtain ts where ts: "defaultTables (metadata w) = Some ts" using \<open>?P w\<close> by (auto simp: opState_def)
    then have "defaultTables m = Some (fold runCommand (take k ?cmds) ts)" using that(2) by (simp add: runCommands_def)
    then show ?thesis
      by (rule opState_metadata [OF that(1)])
         (use replacing_states(1) [OF _ dist] ts in \<open>fastforce simp: fromTo_def cmds\<close>)+
  qed
  have whole: "opState env roles o1 (\<lambda>r b Z M. C r b \<and> Z = Y) (w\<lparr>metadata := m\<rparr>)"
    if "?P w" "defaultTables m = runCommands ?cmds (metadata w)" for w m
  proof -
    obtain ts where ts: "defaultTables (metadata w) = Some ts" using \<open>?P w\<close> by (auto simp: opState_def)
    then have "defaultTables m = Some (fold runCommand ?cmds ts)" using that(2) by (simp add: runCommands_def)
    then show ?thesis
      by (rule opState_metadata [OF that(1)])
         (use replacing_states(2) [OF _ dist] ts in \<open>fastforce simp: fromTo_def cmds\<close>)+
  qed
  have same: "w\<lparr>metadata := metadata w\<rparr> = w" for w :: "'d accessWorld" by simp
  have bulk: "triple ?P (catching (ignoring (metadataRequest env (Bulk ?cmds (Some (ctxVersion ctx)))))
      (\<lambda>f. throw (UncertainError (accessMessage f)))) ?Q ?R ?K"
  proof (rule triple_catching [OF triple_ignoring [OF triple_request [where K = ?K and R = "\<lambda>e. ?K"]]])
    fix w tr r m assume P: "?P w" and e: "engine env tr (Bulk ?cmds (Some (ctxVersion ctx))) (metadata w) = (r, m)"
    have law: "m = metadata w \<and> (\<exists>e. replyOf r = Inl e)
        \<or> (\<exists>k. defaultTables m = runCommands (take k ?cmds) (metadata w) \<and> (r = MetaDone \<longrightarrow> k = length ?cmds))
          \<and> (r = MetaDone \<or> (\<exists>e. replyOf r = Inl e))"
      using engine_okD [OF env(1) e] by auto
    have law1: "m = metadata w \<or> (\<exists>k. defaultTables m = runCommands (take k ?cmds) (metadata w))"
      using law by blast
    show K: "?K (w\<lparr>metadata := m\<rparr>)"
      using law1
    proof
      assume "m = metadata w"
      then show ?thesis using start(1) [OF P] same by simp
    next
      assume "\<exists>k. defaultTables m = runCommands (take k ?cmds) (metadata w)"
      then show ?thesis using part [OF P] by blast
    qed
    then show "?K (w\<lparr>metadata := m\<rparr>) \<and> (\<not> isUnsupportedAtomicCommand (PlainError x) \<longrightarrow> ?K (w\<lparr>metadata := m\<rparr>))" for x
      by simp
    show "opState env roles o1 (\<lambda>r b Z M. C r b \<and> Z = Y) (w\<lparr>metadata := m\<rparr>)" if "replyOf r = Inr x" for x
      using law whole [OF P] that by (auto simp: replyOf_def)
  qed (use start env(2) in \<open>auto intro!: triple_throw simp: isDefinitiveRejection_def\<close>)
  have atomic: "triple ?P (ignoring (metadataRequest env (BulkAtomic ?cmds (Some (ctxVersion ctx))))) ?Q
      (\<lambda>e w. if isUnsupportedAtomicCommand e then ?P w else ?R e w) ?K"
  proof (rule triple_ignoring [OF triple_request])
    fix w tr r m assume P: "?P w" and e: "engine env tr (BulkAtomic ?cmds (Some (ctxVersion ctx))) (metadata w) = (r, m)"
    have law: "m = metadata w \<and> (\<exists>e. replyOf r = Inl e)
        \<or> defaultTables m = runCommands ?cmds (metadata w) \<and> \<not> definitiveReply r \<and> \<not> unsupportedReply r"
      using engine_okD [OF env(1) e] by auto
    have done1: "?K (w\<lparr>metadata := m\<rparr>)" if "defaultTables m = runCommands ?cmds (metadata w)"
      using opState_mono [OF whole [OF P that]] by simp
    then show K: "?K (w\<lparr>metadata := m\<rparr>) \<and> (\<not> isUnsupportedAtomicCommand (PlainError x) \<longrightarrow>
        (if isUnsupportedAtomicCommand (PlainError x) then ?P (w\<lparr>metadata := m\<rparr>) else ?R (PlainError x) (w\<lparr>metadata := m\<rparr>)))" for x
      using law start(1) [OF P] same by (auto simp: isDefinitiveRejection_def)
    show "opState env roles o1 (\<lambda>r b Z M. C r b \<and> Z = Y) (w\<lparr>metadata := m\<rparr>)" if "replyOf r = Inr x" for x
      using law whole [OF P] that by auto
    show "if isUnsupportedAtomicCommand e then ?P (w\<lparr>metadata := m\<rparr>) else ?R e (w\<lparr>metadata := m\<rparr>)"
      if "replyOf r = Inl e" for e
      using law P start [OF P] here [OF P] same done1 that
      by (auto simp: definitiveReply_def unsupportedReply_def)
  qed (use start env(2) in auto)
  show ?thesis
    unfolding applyHasuraMetadataCommands_def
  proof (rule triple_if)
    assume "?cmds = []"
    then have "X = []" "Y = []" by (auto simp: buildPermissionCommands_def)
    then show "triple ?P (give ()) ?Q ?R ?K" using here by (auto intro!: triple_give)
  next
    have fall: "triple (\<lambda>w. if isUnsupportedAtomicCommand e then ?P w else ?R e w)
      (if \<not> isUnsupportedAtomicCommand e then throw e
       else before renew (catching (ignoring (metadataRequest env (Bulk ?cmds (Some (ctxVersion ctx)))))
          (\<lambda>f. throw (UncertainError (accessMessage f))))) ?Q ?R ?K" for e
    proof (cases "isUnsupportedAtomicCommand e")
      case True
      have "triple ?P renew (\<lambda>_. ?P) ?R ?K"
        by (rule triple_conseq [OF renew]) (use here start(1) in \<open>auto dest: opState_mono\<close>)
      then show ?thesis using True triple_before [OF _ bulk] by simp
    qed (auto intro: triple_throw)
    then show "triple ?P (catching (ignoring (metadataRequest env (BulkAtomic ?cmds (Some (ctxVersion ctx))))) (\<lambda>e.
        if \<not> isUnsupportedAtomicCommand e then throw e
        else before renew (catching (ignoring (metadataRequest env (Bulk ?cmds (Some (ctxVersion ctx)))))
          (\<lambda>f. throw (UncertainError (accessMessage f)))))) ?Q ?R ?K"
      by (rule triple_catching [OF atomic])
  qed
qed


lemma triple_replace:
  assumes env: "engine_ok env" "faults_ok env"
    and snap: "scopedSnapshot (collate env) roles Y"
    and ctx: "ctxSchema ctx = operationSchema o1" "ctxTable ctx = operationTable o1" "ctxRoles ctx = roles"
  shows "triple (opState env roles o1 (fromTo ctx C X))
      (replaceHasuraTablePermissions env (ctxMetadata ctx) (ctxSchema ctx) (ctxTable ctx)
         [authenticatedRole (ctxRoles ctx), anonymousRole (ctxRoles ctx)] Y (ctxVersion ctx) a)
      (\<lambda>_. opState env roles o1 (\<lambda>r b Z M. C r b \<and> Z = Y))
      (\<lambda>e w. opState env roles o1 (\<lambda>r b Z M. C r b \<and> between X Y Z) w
         \<and> (isDefinitiveRejection e \<longrightarrow> opState env roles o1 (\<lambda>r b Z M. C r b \<and> Z = X) w))
      (opState env roles o1 (\<lambda>r b Z M. C r b \<and> between X Y Z))"
    (is "triple ?P _ ?Q ?R ?K")
proof -
  have start: "?K w" "?R e w" if "?P w" for w e
    using that opState_mono [OF that, of "\<lambda>r b Z M. C r b \<and> between X Y Z"] opState_mono [OF that, of "\<lambda>r b Z M. C r b \<and> Z = X"]
    by (simp_all add: fromTo_def)
  have same: "w\<lparr>metadata := metadata w\<rparr> = w" for w :: "'d accessWorld" by simp
  let ?build = "buildMetadataWithTablePermissions (collate env) (ctxMetadata ctx) (ctxSchema ctx) (ctxTable ctx)
         [authenticatedRole (ctxRoles ctx), anonymousRole (ctxRoles ctx)] Y"
  have request: "triple ?P (ignoring (metadataRequest env (ReplaceMetadata a ts (ctxVersion ctx)))) ?Q ?R ?K"
    if ts: "?build = Inr ts" for ts
  proof (rule triple_ignoring [OF triple_request])
    have held: "tableHolds (collate env) roles (operationSchema o1) (operationTable o1) Y ts"
      using tableHolds_replace [of "collate env" "ctxMetadata ctx" "ctxSchema ctx" "ctxTable ctx" roles Y ts] ts snap ctx
      by (simp add: scopedSnapshot_def isSnapshot_def)
    fix w tr r m assume P: "?P w" and e: "engine env tr (ReplaceMetadata a ts (ctxVersion ctx)) (metadata w) = (r, m)"
    have whole: "opState env roles o1 (\<lambda>r b Z M. C r b \<and> Z = Y) (w\<lparr>metadata := m\<rparr>)" if "defaultTables m = Some ts"
      by (rule opState_metadata [OF P that _ refl]) (use held in \<open>auto simp: fromTo_def\<close>)
    have law: "m = metadata w \<and> (\<exists>e. replyOf r = Inl e) \<or> defaultTables m = Some ts \<and> \<not> definitiveReply r"
      using engine_okD [OF env(1) e] by auto
    have K: "?K (w\<lparr>metadata := m\<rparr>)"
      using law opState_mono [OF whole, of "\<lambda>r b Z M. C r b \<and> between X Y Z"] start(1) [OF P] same by auto
    show "?K (w\<lparr>metadata := m\<rparr>) \<and> (\<not> isUnsupportedAtomicCommand (PlainError x) \<longrightarrow> ?R (PlainError x) (w\<lparr>metadata := m\<rparr>))" for x
      using K by (simp add: isDefinitiveRejection_def)
    show "opState env roles o1 (\<lambda>r b Z M. C r b \<and> Z = Y) (w\<lparr>metadata := m\<rparr>)" if "replyOf r = Inr x" for x
      using law whole that by auto
    show "?R e (w\<lparr>metadata := m\<rparr>)" if "replyOf r = Inl e" for e
      using law K start(2) [OF P] same that by (auto simp: definitiveReply_def)
  qed (use start env(2) in auto)
  show ?thesis
    unfolding replaceHasuraTablePermissions_def
    by (rule triple_chain [OF triple_lift [where Q = "\<lambda>ts w. ?P w \<and> ?build = Inr ts"]])
       (use start request in \<open>auto intro!: triple_pure\<close>)
qed

lemma triple_mutation:
  assumes env: "engine_ok env" "faults_ok env"
    and snap: "scopedSnapshot (collate env) roles X" "scopedSnapshot (collate env) roles Y"
    and ctx: "ctxVersion ctx = resourceVersion (ctxMetadata ctx)" "ctxSchema ctx = operationSchema o1"
      "ctxTable ctx = operationTable o1" "ctxRoles ctx = roles"
    and renew: "keeps (opState env roles o1 (fromTo ctx C X)) renew"
  shows "triple (opState env roles o1 (fromTo ctx C X))
      (applyPermissionMutation env ctx X Y (ctxVersion ctx) renew)
      (\<lambda>_. opState env roles o1 (\<lambda>r b Z M. C r b \<and> Z = Y))
      (\<lambda>e w. opState env roles o1 (\<lambda>r b Z M. C r b \<and> between X Y Z) w
         \<and> (isDefinitiveRejection e \<longrightarrow> opState env roles o1 (\<lambda>r b Z M. C r b \<and> Z = X) w))
      (opState env roles o1 (\<lambda>r b Z M. C r b \<and> between X Y Z))"
  unfolding applyPermissionMutation_def
  by (rule triple_if) (use triple_replace triple_commands assms in blast)+


subsection \<open>Transactions and loads\<close>

lemma untimed_parts [simp]:
  "untimed P \<Longrightarrow> untimed (\<lambda>w. P w \<and> metadata w = m)" "untimed P \<Longrightarrow> untimed (\<lambda>w. P w \<and> m = metadata w)"
  "untimed P \<Longrightarrow> untimed (\<lambda>w. P w \<and> x = f (db w))" "untimed P \<Longrightarrow> untimed Q \<Longrightarrow> untimed (\<lambda>w. P w \<or> Q w)"
  "untimed P \<Longrightarrow> untimed Q \<Longrightarrow> untimed (\<lambda>w. P w \<and> Q w)"
  by (simp_all add: untimed_def)

lemma untimed_world:
  assumes "untimed P" "P w" "db w' = db w" "metadata w' = metadata w" "advisoryLocks w' = advisoryLocks w"
  shows "P w'"
proof -
  have "w' = w\<lparr>trace := trace w', clock := clock w'\<rparr>" using assms(3-5) by (cases w; cases w') simp
  then show ?thesis using assms(1,2) unfolding untimed_def by metis
qed

lemma triple_transaction:
  assumes P: "untimed P" and N: "untimed N"
    and body: "\<And>m l. triple (\<lambda>w. P w \<and> metadata w = m \<and> advisoryLocks w = l) body
        (\<lambda>_ w. N w \<and> metadata w = m \<and> advisoryLocks w = l) (\<lambda>_ w. metadata w = m \<and> advisoryLocks w = l)
        (\<lambda>w. metadata w = m \<and> advisoryLocks w = l)"
    and handler: "\<And>e. triple (\<lambda>w. P w \<or> N w) (handler e) Q R K"
    and ends: "\<And>w. N w \<Longrightarrow> Q () w" "\<And>w. P w \<or> N w \<Longrightarrow> K w" "\<And>w e. P w \<Longrightarrow> R e w"
  shows "triple P (transaction env body handler) Q R K"
  unfolding transaction_def
proof (rule triple_before)
  show "triple P (statement env ''BEGIN'' (\<lambda>w. Inr ((), db w))) (\<lambda>_. P) R K"
    by (rule triple_conseq [OF triple_statement [OF P, where N = P and Q = "\<lambda>_. P"]]) (use ends in auto)
  let ?tail = "\<lambda>d0 w. case body w of
      (Crashed, w') \<Rightarrow> (Crashed, rollback d0 w')
    | (Thrown e, w') \<Rightarrow> before (statement env ''ROLLBACK'' (\<lambda>u. Inr ((), db u))) (throw e) (rollback d0 w')
    | (Answer u, w') \<Rightarrow> (case faults env (trace w') (EvDb ''COMMIT'') of
          NoFault \<Rightarrow> (Answer (), tick env (EvDb ''COMMIT'') w')
        | FaultBefore None \<Rightarrow> (Crashed, rollback d0 w')
        | FaultBefore (Some m) \<Rightarrow> handler (PlainError m) (rollback d0 (tick env (EvDb ''COMMIT'') w'))
        | FaultAfter None \<Rightarrow> (Crashed, tick env (EvDb ''COMMIT'') w')
        | FaultAfter (Some m) \<Rightarrow> handler (PlainError m) (tick env (EvDb ''COMMIT'') w'))"
  have "triple P (\<lambda>w. ?tail (db w) w) Q R K"
  proof (rule tripleI)
    fix w r w' assume Pw: "P w" and t: "?tail (db w) w = (r, w')"
    obtain r1 w1 where b: "body w = (r1, w1)" by (cases "body w")
    have d: "case r1 of Answer x \<Rightarrow> N w1 \<and> metadata w1 = metadata w \<and> advisoryLocks w1 = advisoryLocks w
        | _ \<Rightarrow> metadata w1 = metadata w \<and> advisoryLocks w1 = advisoryLocks w"
      using tripleD [OF body _ b, of "metadata w" "advisoryLocks w"] Pw by (cases r1) auto
    then have undone: "P (rollback (db w) w1)" "P (rollback (db w) (tick env ev w1))" for ev
      using untimed_world [OF P Pw] by (cases r1; simp add: rollback_def tick_def)+
    have backed: "triple P (before (statement env ''ROLLBACK'' (\<lambda>u. Inr ((), db u))) (throw e)) Q R K" for e
      by (rule triple_before [where Q = P])
         (rule triple_conseq [OF triple_statement [OF P, where N = P and Q = "\<lambda>_. P"]], use ends in \<open>auto intro: triple_throw\<close>)
    have kept: "N (tick env ev w1)" if "r1 = Answer x" for ev x
      using d that N by simp
    show "case r of Answer x \<Rightarrow> Q x w' | Thrown e \<Rightarrow> R e w' | Crashed \<Rightarrow> K w'"
    proof (cases r1)
      case (Answer x)
      then show ?thesis
        using t b undone kept [OF Answer] ends tripleD [OF handler]
        by (fastforce split: fault.splits option.splits)
    next
      case (Thrown e)
      then show ?thesis using t b tripleD [OF backed undone(1)] by simp
    next
      case Crashed
      then show ?thesis using t b undone ends by auto
    qed
  qed
  then show "triple P (chain (look db) ?tail) Q R K"
    by (simp add: triple_def chain_def look_def)
qed

lemma keeps_query: "untimed P \<Longrightarrow> keeps P (queryDb env name f)"
  by (rule triple_conseq [OF triple_query]) auto

lemma keeps_load:
  assumes "untimed P" "engine_ok env" "faults_ok env"
  shows "keeps P (loadOperationContext env pid tn)"
  by (rule triple_conseq [OF triple_load [OF assms]]) auto

lemma keeps_dependency: "untimed P \<Longrightarrow> keeps P (assertProjectionDependencyCurrent env ctx b)"
  unfolding assertProjectionDependencyCurrent_def
  by (cases b) (auto intro!: keeping keeps_query split: option.split)


lemma triple_next:
  assumes "triple P m Q' R' K'" "\<And>e w. R' e w \<Longrightarrow> R e w" "\<And>w. K' w \<Longrightarrow> K w" "\<And>x. triple (Q' x) (f x) Q R K"
  shows "triple P (chain m f) Q R K"
  by (rule triple_chain [OF triple_conseq [OF assms(1) _ _ assms(2,3)] assms(4)])


lemma triple_some: "(\<And>w. P w \<Longrightarrow> triple P m Q R K) \<Longrightarrow> triple P m Q R K"
  by (rule tripleI) (rule tripleD)

lemma triple_lift_ok: "r = Inr a \<Longrightarrow> triple P (f a) Q R K \<Longrightarrow> triple P (chain (lift k r) f) Q R K"
  by (simp add: triple_def chain_def lift_def give_def)

lemma triple_lift_unit:
  "(\<And>w e. r = Inl e \<Longrightarrow> P w \<Longrightarrow> R (k e) w) \<Longrightarrow> (\<And>u. r = Inr u \<Longrightarrow> triple P (f u) Q R K) \<Longrightarrow> triple P (chain (lift k r) f) Q R K"
  by (cases r) (simp_all add: triple_def chain_def lift_def give_def throw_def)

end
