(* ===== verification/Policy_Safety.thy ===== *)
theory Policy_Safety
  imports Policy_Logic
begin

text \<open>
  What an operation can leave behind. Wherever \<open>applyPolicyOperation\<close> stops, by an answer, an error or
  the death of the process, the recorded row, the baseline and the permissions of the table agree.
\<close>

subsection \<open>Runs\<close>

text \<open>An operation with a target, on an engine that does what is documented.\<close>

definition runs :: "'d accessEnv \<Rightarrow> roleNames \<Rightarrow> 'd operationRow \<Rightarrow> materializedPermission list \<Rightarrow> bool" where
  "runs env roles o1 T \<longleftrightarrow>
     engine_ok env \<and> faults_ok env \<and> tellsApart (collate env) roles
     \<and> contextRoles env (operationProject o1) = Inr roles \<and> targetPermissions o1 = Some T
     \<and> scopedSnapshot (collate env) roles (sourcePermissions o1) \<and> scopedSnapshot (collate env) roles T"

lemma runsD:
  assumes "runs env roles o1 T"
  shows "engine_ok env" "faults_ok env" "tellsApart (collate env) roles" "targetPermissions o1 = Some T"
    "contextRoles env (operationProject o1) = Inr roles"
    "scopedSnapshot (collate env) roles (sourcePermissions o1)" "scopedSnapshot (collate env) roles T"
  using assms by (simp_all add: runs_def)

text \<open>One status, the first baseline, one snapshot.\<close>

definition inPhase ::
  "'d managedPolicy option \<Rightarrow> operationStatus \<Rightarrow> materializedPermission list
   \<Rightarrow> 'd operationRow \<Rightarrow> 'd managedPolicy option \<Rightarrow> materializedPermission list \<Rightarrow> metadataState \<Rightarrow> bool" where
  "inPhase b0 st X r b Z M \<longleftrightarrow> operationStatus r = st \<and> b = b0 \<and> Z = X"

abbreviation inStatus :: "'d managedPolicy option \<Rightarrow> operationStatus \<Rightarrow> 'd operationRow \<Rightarrow> 'd managedPolicy option \<Rightarrow> bool" where
  "inStatus b0 st r b \<equiv> operationStatus r = st \<and> b = b0"

lemma inPhase_fromTo: "fromTo ctx (inStatus b0 st) X = (\<lambda>r b Z M. inPhase b0 st X r b Z M \<and> M = ctxMetadata ctx)"
  by (simp add: fromTo_def inPhase_def fun_eq_iff)

lemma loaded_context:
  assumes "loaded env pid tn ctx" "contextRoles env pid = Inr roles"
  shows "ctxRoles ctx = roles" "ctxVersion ctx = resourceVersion (ctxMetadata ctx)" "ctxTable ctx = tn" "ctxProject ctx = pid"
  using assms by (simp_all add: loaded_def)

lemma loaded_snapshot:
  assumes "tellsApart (collate env) roles" "contextRoles env pid = Inr roles" "scopedSnapshot (collate env) roles X"
    and "loaded env pid (operationTable o1) ctx" "ctxSchema ctx = operationSchema o1" "ctxMetadata ctx = metadata w"
    and "opState env roles o1 R w" "\<And>r b Z M. R r b Z M \<Longrightarrow> Z = X"
  shows "snapshotRecoveryPermissions env ctx = Inr X"
proof -
  obtain ts where ts: "defaultTables (metadata w) = Some ts"
      "tableHolds (collate env) roles (operationSchema o1) (operationTable o1) X ts"
    using assms(7,8) by (auto simp: opState_def)
  then have "ctxInspected ctx = inspectTableDataAccessMetadata
      (findTable ts (operationSchema o1) (operationTable o1)) roles (ctxCapabilities ctx)"
    using assms(4) assms(2,5,6) by (auto simp: loaded_def)
  then show ?thesis
    using tableHolds_snapshot [OF assms(1,3) ts(2)]
    by (simp add: snapshotRecoveryPermissions_def snapshotRawPermissions_def)
qed

lemma triple_startWriter:
  assumes "\<And>r b X M t epoch t'. R r b X M \<Longrightarrow> operationStatus r \<in> set expected \<Longrightarrow>
      R' (applyPatch t (leasePatch st ph epoch t') r) b X M"
  shows "triple (opState env roles o1 R) (startWriter env (operationId o1) expected st ph)
           (\<lambda>_. opState env roles o1 R') (\<lambda>e w. opState env roles o1 R w \<or> opState env roles o1 R' w)
           (\<lambda>w. opState env roles o1 R w \<or> opState env roles o1 R' w)"
  unfolding startWriter_def uuid_def now_def
  apply (rule triple_chain [OF triple_look [where Q = "\<lambda>_. opState env roles o1 R"]], assumption)
  apply (rule triple_chain [OF triple_look [where Q = "\<lambda>_. opState env roles o1 R"]], assumption)
  apply (rule triple_chain [OF triple_transition])
    apply (simp add: leasePatch_def)
   apply (rule assms, assumption+)
  apply (rule triple_give, assumption)
  done

lemma triple_finish:
  assumes "\<And>r b X M t t'. R r b X M \<Longrightarrow> operationStatus r \<in> set expected \<Longrightarrow> R' (applyPatch t (finishPatch st t' err) r) b X M"
  shows "triple (opState env roles o1 R) (finishOperation env (operationId o1) expected st err)
           (\<lambda>_. opState env roles o1 R') (\<lambda>e w. opState env roles o1 R w \<or> opState env roles o1 R' w)
           (\<lambda>w. opState env roles o1 R w \<or> opState env roles o1 R' w)"
  unfolding finishOperation_def now_def
  apply (rule triple_chain [OF triple_look [where Q = "\<lambda>_. opState env roles o1 R"]], assumption)
  apply (rule triple_transition)
   apply (simp add: finishPatch_def noPatch_def)
  apply (rule assms, assumption+)
  done

lemma patched_status [simp]:
  "operationStatus (applyPatch t (leasePatch st ph epoch t') r) = st"
  "operationStatus (applyPatch t (finishPatch st t' err) r) = st"
  "operationStatus (applyPatch t (uncertainPatch m) r) = OpRecoveryRequired"
  by (simp_all add: applyPatch_def leasePatch_def finishPatch_def uncertainPatch_def noPatch_def orKeep_def)

lemma triple_finish_phase:
  "triple (opState env roles o1 (inPhase b0 st X)) (ignoring (finishOperation env (operationId o1) expected st' err))
     (\<lambda>_. opState env roles o1 (inPhase b0 st' X))
     (\<lambda>e w. opState env roles o1 (inPhase b0 st X) w \<or> opState env roles o1 (inPhase b0 st' X) w)
     (\<lambda>w. opState env roles o1 (inPhase b0 st X) w \<or> opState env roles o1 (inPhase b0 st' X) w)"
  by (rule triple_ignoring [OF triple_finish]) (simp add: inPhase_def)

lemma triple_writer_phase:
  "triple (opState env roles o1 (fromTo ctx (inStatus b0 st) X)) (startWriter env (operationId o1) expected st' ph)
     (\<lambda>_. opState env roles o1 (fromTo ctx (inStatus b0 st') X))
     (\<lambda>e w. opState env roles o1 (fromTo ctx (inStatus b0 st) X) w \<or> opState env roles o1 (fromTo ctx (inStatus b0 st') X) w)
     (\<lambda>w. opState env roles o1 (fromTo ctx (inStatus b0 st) X) w \<or> opState env roles o1 (fromTo ctx (inStatus b0 st') X) w)"
  by (rule triple_startWriter) (simp add: fromTo_def)

lemma keeps_renew_phase: "keeps (opState env roles o1 (fromTo ctx (inStatus b0 st) X)) (renewLease env (operationId o1) st' epoch)"
  by (rule keeps_renewLease) (simp add: fromTo_def)

lemma inPhase_loaded:
  assumes "opState env roles o1 (inPhase b0 st X) w" "ctxMetadata ctx = metadata w"
  shows "opState env roles o1 (fromTo ctx (inStatus b0 st) X) w"
  using assms unfolding opState_def fromTo_def inPhase_def by simp

subsection \<open>Restoring the source\<close>

definition restoring ::
  "'d managedPolicy option \<Rightarrow> materializedPermission list \<Rightarrow> materializedPermission list
   \<Rightarrow> 'd operationRow \<Rightarrow> 'd managedPolicy option \<Rightarrow> materializedPermission list \<Rightarrow> metadataState \<Rightarrow> bool" where
  "restoring b0 T S r b Z M \<longleftrightarrow>
     b = b0 \<and> (operationStatus r \<in> {OpApplying, OpRecovering} \<and> between T S Z \<or> operationStatus r = OpFailed \<and> Z = S)"

lemma triple_restoreBody:
  assumes run: "runs env roles o1 T"
    and ctx: "ctxProject ctx = operationProject o1" "ctxTable ctx = operationTable o1"
  shows "triple (opState env roles o1 (inPhase b0 OpApplying T)) (restoreBody env ctx o1 baseline)
      (\<lambda>_. opState env roles o1 (inPhase b0 OpFailed (sourcePermissions o1)))
      (\<lambda>_. opState env roles o1 (restoring b0 T (sourcePermissions o1)))
      (opState env roles o1 (restoring b0 T (sourcePermissions o1)))"
    (is "triple (?O (inPhase b0 OpApplying T)) _ _ ?R ?K")
proof -
  let ?S = "sourcePermissions o1"
  let ?at = "\<lambda>st X ctx w. opState env roles o1 (fromTo ctx (inStatus b0 st) X) w \<and> ctxMetadata ctx = metadata w"
  have here: "?K w" if "?O (inPhase b0 st X) w" "st \<in> {OpApplying, OpRecovering}" "between T ?S X" for w st X
    using opState_mono [OF that(1), of "restoring b0 T ?S"] that(2,3) by (auto simp: restoring_def inPhase_def)
  have ended: "?K w" if "?O (inPhase b0 OpFailed ?S) w" for w
    using opState_mono [OF that, of "restoring b0 T ?S"] by (auto simp: restoring_def inPhase_def)
  note r = runsD [OF run]
  have verified: "triple (?O (inPhase b0 OpRecovering ?S))
      (chain (loadOperationContext env (operationProject o1) (operationTable o1)) (\<lambda>restored.
       chain (verifySource env o1 baseline restored ''Restore mismatch'') (\<lambda>_.
       ignoring (finishOperation env (operationId o1) [OpRecovering] OpFailed err))))
      (\<lambda>_. ?O (inPhase b0 OpFailed ?S)) ?R ?K" for err
    apply (rule triple_next [OF keeps_load [OF opState_untimed r(1,2)]])
      apply (erule here; simp)
     apply (erule here; simp)
    apply (rule triple_next [where Q' = "\<lambda>_. ?O (inPhase b0 OpRecovering ?S)" and R' = "\<lambda>_. ?O (inPhase b0 OpRecovering ?S)"
          and K' = "?O (inPhase b0 OpRecovering ?S)"])
       apply (simp add: verifySource_def liftText_def keeping)
      apply (erule here; simp)
     apply (erule here; simp)
    apply (rule triple_conseq [OF triple_finish_phase])
        apply assumption+
     apply (auto intro: ended dest: here)
    done
  have written: "triple (?O (fromTo c (inStatus b0 OpRecovering) T))
      (chain (renewLease env (operationId o1) OpRecovering epoch) (\<lambda>_.
       chain (applyPermissionMutation env c T ?S (ctxVersion c) (renewLease env (operationId o1) OpRecovering epoch)) f))
      (\<lambda>_. ?O (inPhase b0 OpFailed ?S)) ?R ?K"
    if "ctxVersion c = resourceVersion (ctxMetadata c)" "ctxSchema c = operationSchema o1" "ctxTable c = operationTable o1"
      "ctxRoles c = roles" "\<And>u. triple (?O (inPhase b0 OpRecovering ?S)) (f u) (\<lambda>_. ?O (inPhase b0 OpFailed ?S)) ?R ?K" for c f epoch
    apply (rule triple_next [OF keeps_renew_phase])
      apply (erule opState_mono; auto simp: restoring_def fromTo_def)
     apply (erule opState_mono; auto simp: restoring_def fromTo_def)
    apply (rule triple_next [OF triple_mutation [OF r(1,2,7,6) that(1-4) keeps_renew_phase]])
      apply (erule conjE, erule opState_mono; auto simp: restoring_def)
     apply (erule opState_mono; auto simp: restoring_def)
    apply (rule triple_pre [OF that(5)])
    apply (erule opState_mono; simp add: inPhase_def)
    done
  show ?thesis
    unfolding restoreBody_def Let_def ctx before_def
    apply (rule triple_next [OF triple_load [of "?O (inPhase b0 OpApplying T)", OF _ r(1,2)]])
       apply simp
      apply (erule here; simp)
     apply (erule here; simp)
    subgoal for c
      apply (rule triple_some, elim conjE)
      apply (rule triple_lift_unit, elim conjE, erule here; simp)
      apply (rule triple_lift_ok [OF loaded_snapshot [OF r(3,5,7)]])
           apply assumption
          apply (simp add: assertOperationContext_def guardE_def split: if_splits)
         apply assumption+
       apply (simp add: inPhase_def)
      apply (rule triple_lift_unit, elim conjE, erule here; simp)
      apply (rule triple_pre [of "?O (fromTo c (inStatus b0 OpApplying) T)"])
       apply (rule triple_next [OF triple_writer_phase])
         apply (erule disjE; erule opState_mono; auto simp: restoring_def fromTo_def)
        apply (erule disjE; erule opState_mono; auto simp: restoring_def fromTo_def)
       apply (rule written)
           apply (auto simp: loaded_context [OF _ r(5)] assertOperationContext_def guardE_def split: if_splits
          intro: verified inPhase_loaded)
      done
    done
qed


subsection \<open>Outcomes\<close>

definition committedBaseline ::
  "'d accessEnv \<Rightarrow> 'd operationRow \<Rightarrow> materializedPermission list \<Rightarrow> 'd managedPolicy option \<Rightarrow> 'd managedPolicy option \<Rightarrow> bool" where
  "committedBaseline env o1 T b0 b \<longleftrightarrow>
     map_option revision b0 = baselineRevision o1
     \<and> (\<exists>row. b = Some row \<and> permissionsSnapshot row = T
          \<and> targetOf o1 = Inr (baselinePolicy row, baselineGrants row, capabilitiesSnapshot row, T)
          \<and> permissionsDigest env T = Inr (metadataDigest row)
          \<and> revision row = (case baselineRevision o1 of Some n \<Rightarrow> n | None \<Rightarrow> 0) + 1)"

text \<open>A completed operation has its baseline, one revision later, and its permissions; any other has
  the baseline it started from. A failed one has the permissions of the source, one that is under way those of
  a point between source and target.\<close>

definition outcome ::
  "'d accessEnv \<Rightarrow> 'd operationRow \<Rightarrow> materializedPermission list \<Rightarrow> 'd managedPolicy option
   \<Rightarrow> 'd operationRow \<Rightarrow> 'd managedPolicy option \<Rightarrow> materializedPermission list \<Rightarrow> metadataState \<Rightarrow> bool" where
  "outcome env o1 T b0 r b Z M \<longleftrightarrow>
     (if operationStatus r = OpCompleted then committedBaseline env o1 T b0 b \<and> Z = T
      else b = b0 \<and>
        (if operationStatus r \<in> {OpApplying, OpRecovering, OpRecoveryRequired}
         then between (sourcePermissions o1) T Z \<or> between T (sourcePermissions o1) Z
         else Z = sourcePermissions o1))"

text \<open>An error that reports neither a required recovery nor an expired lease.\<close>

definition cleanError :: "accessError \<Rightarrow> bool" where
  "cleanError e =
     (case e of
        AccessError c m \<Rightarrow> c \<notin> {''DATA_ACCESS_RECONCILE_RECOVERY_REQUIRED'', ''DATA_ACCESS_POLICY_OPERATION_IN_PROGRESS''}
      | _ \<Rightarrow> False)"

definition failedWith ::
  "'d accessEnv \<Rightarrow> 'd operationRow \<Rightarrow> materializedPermission list \<Rightarrow> 'd managedPolicy option \<Rightarrow> accessError
   \<Rightarrow> 'd operationRow \<Rightarrow> 'd managedPolicy option \<Rightarrow> materializedPermission list \<Rightarrow> metadataState \<Rightarrow> bool" where
  "failedWith env o1 T b0 e r b Z M \<longleftrightarrow>
     outcome env o1 T b0 r b Z M \<and> (cleanError e \<longrightarrow> b = b0 \<and> Z = sourcePermissions o1)"

lemma unclean [simp]:
  "\<not> cleanError (recoveryRequired m)" "\<not> cleanError writerLeaseExpired"
  by (simp_all add: cleanError_def recoveryRequired_def writerLeaseExpired_def conflict_def)

lemma triple_restoreSource:
  assumes run: "runs env roles o1 T"
    and ctx: "ctxProject ctx = operationProject o1" "ctxTable ctx = operationTable o1"
  shows "triple (opState env roles o1 (inPhase b0 OpApplying T)) (restoreSource env ctx o1 baseline)
      (\<lambda>_. opState env roles o1 (inPhase b0 OpFailed (sourcePermissions o1)))
      (\<lambda>e w. opState env roles o1 (outcome env o1 T b0) w \<and> \<not> cleanError e)
      (opState env roles o1 (outcome env o1 T b0))"
    (is "triple ?P _ ?Q ?R ?K")
proof -
  have weak: "?K w" if "opState env roles o1 (restoring b0 T (sourcePermissions o1)) w" for w
    using that by (rule opState_mono) (auto simp: restoring_def outcome_def)
  let ?over = "\<lambda>r b Z M. operationStatus r = OpRecoveryRequired \<and> b = b0 \<and> between T (sourcePermissions o1) Z"
  have over: "?K w" if "opState env roles o1 ?over w" for w
    using that by (rule opState_mono) (auto simp: outcome_def)
  have stuck: "triple (opState env roles o1 (restoring b0 T (sourcePermissions o1)))
      (ignoring (transitionPolicyOperation env (operationId o1) [OpApplying, OpRecovering] (uncertainPatch m)))
      (\<lambda>_. ?K) (\<lambda>_. ?K) ?K" for m
    apply (rule triple_ignoring)
    apply (rule triple_conseq [OF triple_transition [where R = "restoring b0 T (sourcePermissions o1)" and R' = ?over and roles = roles]])
         apply (simp add: uncertainPatch_def)
        apply (auto simp: restoring_def uncertainPatch_def applyPatch_def noPatch_def orKeep_def) [1]
       apply assumption
      apply (erule over)
     apply (auto intro: over weak)
    done
  show ?thesis
    unfolding restoreSource_def
  proof (rule triple_catching [where R' = "\<lambda>_. opState env roles o1 (restoring b0 T (sourcePermissions o1))"])
    show "triple ?P (restoreBody env ctx o1 baseline) ?Q
        (\<lambda>_. opState env roles o1 (restoring b0 T (sourcePermissions o1))) ?K"
      by (rule triple_conseq [OF triple_restoreBody [OF run ctx]]) (auto intro: weak)
    fix e
    show "triple (opState env roles o1 (restoring b0 T (sourcePermissions o1)))
      (if e = LeaseError then throw writerLeaseExpired
       else before (catching (ignoring (transitionPolicyOperation env (operationId o1) [OpApplying, OpRecovering]
              (uncertainPatch ''Permission recovery requires attention''))) (\<lambda>_. give ()))
         (throw (recoveryRequired ''Permission recovery requires attention''))) ?Q ?R ?K"
      using weak by (intro triple_if) (auto intro!: triple_throw triple_before [OF triple_catching [OF stuck]] triple_give)
  qed
qed

subsection \<open>The commit\<close>

lemma keeps_engine [keeping]: "keeps (\<lambda>w. metadata w = m \<and> advisoryLocks w = l) (statement env name f)"
  unfolding statement_def
  by (rule triple_effect) (auto simp: untimed_def triple_def split: sum.splits prod.splits)

lemma persisted_row:
  assumes "rowOf o1 d r"
  shows "firstOf (operationsWith (operationProject o1) (operationId o1) d) = Some r"
proof -
  have "operationsWith (operationProject o1) (operationId o1) d
      = filter (\<lambda>q. operationProject q = operationProject o1) (filter (\<lambda>q. operationId q = operationId o1) (policyOperations d))"
    by (simp add: operationsWith_def conj_commute)
  also have "\<dots> = [r]"
    using assms samePayload_fields(2) [of o1 r] by (simp add: rowOf_def del: filter_filter)
  finally show ?thesis by (simp add: firstOf_def)
qed

definition committing ::
  "'d accessEnv \<Rightarrow> 'd operationRow \<Rightarrow> materializedPermission list \<Rightarrow> 'd managedPolicy option \<Rightarrow> operationStatus
   \<Rightarrow> 'd operationRow \<Rightarrow> 'd managedPolicy option \<Rightarrow> materializedPermission list \<Rightarrow> metadataState \<Rightarrow> bool" where
  "committing env o1 T b0 st r b Z M \<longleftrightarrow> operationStatus r = st \<and> committedBaseline env o1 T b0 b \<and> Z = T"

lemma triple_save:
  assumes "targetOf o1 = Inr (p, g, c, T)" "permissionsDigest env T = Inr dg" "key = keyOf o1"
    and "savePolicy input = p" "saveGrants input = g" "saveCapabilities input = c" "savePermissions input = T"
    and "saveDigest input = dg" "expectedRevision input = baselineRevision o1"
  shows "triple (opState env roles o1 (inPhase b0 OpApplying T)) (saveManagedPolicy env key input)
     (\<lambda>_. opState env roles o1 (committing env o1 T b0 OpApplying)) (\<lambda>_ _. True) (\<lambda>_. True)"
  unfolding saveManagedPolicy_def
proof (rule triple_conseq [OF triple_statement])
  fix w a d
  assume P: "opState env roles o1 (inPhase b0 OpApplying T) w"
    and f: "(case savePolicyRow key input (db w) of None \<Rightarrow> Inl RevisionConflict | Some d \<Rightarrow> Inr ((), d)) = Inr (a, d)"
  obtain row where d: "d = (db w)\<lparr>managedPolicies := AList.update key row (managedPolicies (db w))\<rparr>"
      and row: "permissionsSnapshot row = T" "baselinePolicy row = p" "baselineGrants row = g"
        "capabilitiesSnapshot row = c" "metadataDigest row = dg"
      and rv: "map_option revision (map_of (managedPolicies (db w)) key) = baselineRevision o1"
        "revision row = (case baselineRevision o1 of Some n \<Rightarrow> n | None \<Rightarrow> 0) + 1"
    using f assms(4-9)
    by (cases "map_of (managedPolicies (db w)) key"; cases "baselineRevision o1")
       (auto simp: savePolicyRow_def savedRow_def split: option.splits if_splits)
  show "opState env roles o1 (committing env o1 T b0 OpApplying) (w\<lparr>db := d\<rparr>) \<and> True"
    using P row rv assms(1-3)
    unfolding opState_def inPhase_def committing_def committedBaseline_def d rowOf_def
    by (auto simp: update_conv')
qed simp_all


lemma triple_confirm:
  "triple (\<lambda>w. opState env roles o1 (inPhase b0 OpApplying T) w \<or> opState env roles o1 (committing env o1 T b0 OpCompleted) w)
     (confirmUnknownPolicyCommit env o1)
     (\<lambda>x w. (x = NotCommitted \<longrightarrow> opState env roles o1 (inPhase b0 OpApplying T) w)
        \<and> (x = Committed \<longrightarrow> opState env roles o1 (committing env o1 T b0 OpCompleted) w)
        \<and> (opState env roles o1 (inPhase b0 OpApplying T) w \<or> opState env roles o1 (committing env o1 T b0 OpCompleted) w))
     R (\<lambda>w. opState env roles o1 (inPhase b0 OpApplying T) w \<or> opState env roles o1 (committing env o1 T b0 OpCompleted) w)"
    (is "triple ?PN _ ?Q _ ?K")
proof -
  let ?U = "\<lambda>x w. ?PN w \<and> x = firstOf (operationsWith (operationProject o1) (operationId o1) (db w))"
  have unt: "untimed ?PN" "untimed (?U x)" for x by (intro untimed_parts opState_untimed)+
  have told: "?Q r w" if "?U x w" "commitOutcomeOf env o1 x b = Inr r" for x b r w
  proof -
    have "operationStatus q = OpApplying" if P: "opState env roles o1 (inPhase b0 OpApplying T) w" and q: "x = Some q" for q
      using P q \<open>?U x w\<close> persisted_row [of o1 "db w"] unfolding opState_def inPhase_def by fastforce
    moreover have "operationStatus q = OpCompleted" "x \<noteq> None"
      if N: "opState env roles o1 (committing env o1 T b0 OpCompleted) w" and q: "x = Some q \<or> x = None" for q
      using N q \<open>?U x w\<close> persisted_row [of o1 "db w"] unfolding opState_def committing_def by fastforce+
    ultimately show ?thesis
      using that by (cases x) (auto simp: commitOutcomeOf_def Let_def bindE_def split: if_splits option.splits sum.splits)
  qed
  show ?thesis
    unfolding confirmUnknownPolicyCommit_def getPolicyOperation_def getManagedPolicy_def liftText_def
    apply (rule triple_catching [where R' = "\<lambda>_. ?PN"])
     apply (rule triple_next [OF triple_query [OF unt(1)]])
       apply assumption+
     apply (rule triple_next [OF keeps_query [OF unt(2)]])
       apply simp
      apply simp
     apply (rule triple_lift)
      apply (rule told, assumption+)
     apply simp
    apply (rule triple_give)
    apply simp
    done
qed


text \<open>What an error of the commit leaves: the target applied, or an outcome that asks for a recovery.\<close>

definition refused ::
  "'d accessEnv \<Rightarrow> roleNames \<Rightarrow> 'd operationRow \<Rightarrow> materializedPermission list \<Rightarrow> 'd managedPolicy option \<Rightarrow> accessError
   \<Rightarrow> 'd accessWorld \<Rightarrow> bool" where
  "refused env roles o1 T b0 e w \<longleftrightarrow>
     (if isRecoveryRequired e then opState env roles o1 (outcome env o1 T b0) w
      else opState env roles o1 (inPhase b0 OpApplying T) w)"

lemma applying_outcome: "opState env roles o1 (inPhase b0 OpApplying T) w \<Longrightarrow> opState env roles o1 (outcome env o1 T b0) w"
  by (erule opState_mono) (auto simp: inPhase_def outcome_def)

lemma committing_outcome: "opState env roles o1 (committing env o1 T b0 OpCompleted) w \<Longrightarrow> opState env roles o1 (outcome env o1 T b0) w"
  by (erule opState_mono) (auto simp: committing_def outcome_def)

lemma applying_refused: "opState env roles o1 (inPhase b0 OpApplying T) w \<Longrightarrow> refused env roles o1 T b0 e w"
  by (simp add: refused_def applying_outcome)

lemma recovery_code [simp]: "isRecoveryRequired (recoveryRequired m)"
  by (simp add: isRecoveryRequired_def recoveryRequired_def)

lemma recovery_refused: "opState env roles o1 (outcome env o1 T b0) w \<Longrightarrow> refused env roles o1 T b0 (recoveryRequired m) w"
  by (simp add: refused_def)

lemma applying_next:
  assumes "keeps (opState env roles o1 (inPhase b0 OpApplying T)) m"
    and "\<And>x. triple (opState env roles o1 (inPhase b0 OpApplying T)) (f x) Q (refused env roles o1 T b0) (opState env roles o1 (outcome env o1 T b0))"
  shows "triple (opState env roles o1 (inPhase b0 OpApplying T)) (chain m f) Q (refused env roles o1 T b0) (opState env roles o1 (outcome env o1 T b0))"
  by (rule triple_next [OF assms(1) _ _ assms(2)]) (auto intro: applying_outcome applying_refused)

lemma triple_commitTarget:
  assumes "targetPermissions o1 = Some T" "policyKeyOf ctx = keyOf o1"
  shows "triple (opState env roles o1 (inPhase b0 OpApplying T)) (commitTarget env ctx o1 actorId baseline v)
     (\<lambda>_. opState env roles o1 (committing env o1 T b0 OpCompleted)) (refused env roles o1 T b0)
     (opState env roles o1 (outcome env o1 T b0))"
    (is "triple ?P _ ?Q ?R ?K")
  unfolding commitTarget_def
proof (rule triple_transaction [where N = "opState env roles o1 (committing env o1 T b0 OpCompleted)"])
  fix e
  show "triple (\<lambda>w. ?P w \<or> opState env roles o1 (committing env o1 T b0 OpCompleted) w) (onUnknownCommit env o1 e) ?Q ?R ?K"
    unfolding onUnknownCommit_def
  proof (rule triple_next [OF triple_confirm [where R = "\<lambda>_ _. False"]])
    fix x
    show "triple (\<lambda>w. (x = NotCommitted \<longrightarrow> ?P w) \<and> (x = Committed \<longrightarrow> opState env roles o1 (committing env o1 T b0 OpCompleted) w)
          \<and> (?P w \<or> opState env roles o1 (committing env o1 T b0 OpCompleted) w))
       (case x of Committed \<Rightarrow> give () | NotCommitted \<Rightarrow> throw e
        | CommitUncertain \<Rightarrow> throw (recoveryRequired ''Data access commit result requires recovery verification'')) ?Q ?R ?K"
      by (cases x) (auto intro!: triple_give triple_throw recovery_refused intro: applying_refused applying_outcome committing_outcome)
  qed (auto intro: applying_outcome committing_outcome)
next
  fix m l
  let ?E = "\<lambda>w. metadata w = m \<and> advisoryLocks w = l"
  show "triple (\<lambda>w. ?P w \<and> metadata w = m \<and> advisoryLocks w = l)
     (chain (liftText (targetOf o1)) (\<lambda>(p, g, c, perms).
        chain (liftText (permissionsDigest env perms)) (\<lambda>d.
        before (saveManagedPolicy env (policyKeyOf ctx)
          \<lparr>savePolicy = p, saveGrants = g, saveCapabilities = c, savePermissions = perms, saveDigest = d,
           saveDependency = (case baseline of Some b \<Rightarrow> dependencySnapshot b | None \<Rightarrow> None),
           saveDependencyDigest = (case baseline of Some b \<Rightarrow> dependencyDigest b | None \<Rightarrow> None),
           saveActor = actorId, expectedRevision = baselineRevision o1\<rparr>)
        (chain now (\<lambda>t.
         ignoring (transitionPolicyOperation env (operationId o1) [OpApplying]
           ((finishPatch OpCompleted t None)\<lparr>patchTargetVersion := Some (Some v)\<rparr>)))))))
     (\<lambda>_ w. opState env roles o1 (committing env o1 T b0 OpCompleted) w \<and> metadata w = m \<and> advisoryLocks w = l)
     (\<lambda>_. ?E) ?E"
  proof (cases "targetOf o1")
    case (Inr t)
    then obtain p g c where t: "t = (p, g, c, T)"
      using assms(1) by (auto simp: targetOf_def split: option.splits)
    show ?thesis
    proof (cases "permissionsDigest env T")
      case (Inr dg)
      have done1: "triple (opState env roles o1 (committing env o1 T b0 OpApplying))
          (transitionPolicyOperation env (operationId o1) [OpApplying]
             ((finishPatch OpCompleted t None)\<lparr>patchTargetVersion := Some (Some v)\<rparr>))
          (\<lambda>_. opState env roles o1 (committing env o1 T b0 OpCompleted)) (\<lambda>_ _. True) (\<lambda>_. True)" for t
        by (rule triple_conseq [OF triple_transition])
           (simp_all add: finishPatch_def noPatch_def committing_def applyPatch_def orKeep_def)
      have still: "keeps ?E (transitionPolicyOperation env i ex pt)" "keeps ?E (saveManagedPolicy env k s)" for i ex pt k s
        by (simp_all add: transitionPolicyOperation_def saveManagedPolicy_def keeping)
      show ?thesis
        unfolding \<open>targetOf o1 = Inr t\<close> t liftText_def now_def
        apply (rule triple_lift_ok [OF refl])
        apply (simp only: prod.case)
        apply (rule triple_lift_ok [OF Inr])
        apply (rule triple_before [where Q = "\<lambda>w. opState env roles o1 (committing env o1 T b0 OpApplying) w \<and> ?E w"])
         apply (rule triple_conseq [OF triple_conj [OF triple_save [OF _ Inr assms(2)] still(2)]])
                  apply (use \<open>targetOf o1 = Inr t\<close> t in auto) [12]
        apply (rule triple_chain [OF triple_look [where Q = "\<lambda>_ w. opState env roles o1 (committing env o1 T b0 OpApplying) w \<and> ?E w"]])
         apply assumption
        apply (rule triple_ignoring)
        apply (rule triple_conseq [OF triple_conj [OF done1 still(1)]])
            apply auto
        done
    qed (simp add: Inr t liftText_def lift_def, auto simp: triple_def chain_def throw_def give_def)
  qed (simp add: liftText_def lift_def, auto simp: triple_def chain_def throw_def)
qed (auto intro: applying_outcome committing_outcome applying_refused)

lemma triple_verifyAndCommit:
  assumes run: "runs env roles o1 T" and ctx: "policyKeyOf ctx = keyOf o1"
  shows "triple (opState env roles o1 (inPhase b0 OpApplying T)) (verifyAndCommit env ctx o1 actorId baseline epoch)
     (\<lambda>_. opState env roles o1 (committing env o1 T b0 OpCompleted)) (refused env roles o1 T b0)
     (opState env roles o1 (outcome env o1 T b0))"
    (is "triple ?P _ ?Q ?R ?K")
  unfolding verifyAndCommit_def before_def liftText_def getPolicyOperation_def
  apply (rule applying_next [OF keeps_load [OF opState_untimed runsD(1,2) [OF run]]])
  apply (rule applying_next, rule keeping)
  apply (rule applying_next, rule keeping)
  apply (clarsimp split: prod.split)
  apply (rule applying_next, rule keeping)
  apply (rule applying_next, rule keeps_dependency [OF opState_untimed])
  apply (rule applying_next, rule keeps_query [OF opState_untimed])
  apply (rule applying_next, rule keeping)
  apply (rule triple_commitTarget [OF runsD(4) [OF run] ctx])
  done


subsection \<open>The application\<close>

lemma failedApply_written:
  assumes run: "runs env roles o1 T"
    and ctx: "ctxProject ctx = operationProject o1" "ctxTable ctx = operationTable o1"
  shows "triple (refused env roles o1 T b0 e) (failedApply env ctx o1 baseline True e) Q
     (\<lambda>e. opState env roles o1 (failedWith env o1 T b0 e)) (opState env roles o1 (outcome env o1 T b0))"
    (is "triple ?P _ _ ?R ?K")
proof -
  have dirty: "?R e w" if "?K w" "\<not> cleanError e" for e w
    using that(1) by (rule opState_mono) (simp add: failedWith_def that(2))
  have restored: "?R e w" if "opState env roles o1 (inPhase b0 OpFailed (sourcePermissions o1)) w" for e w
    using that by (rule opState_mono) (auto simp: failedWith_def outcome_def inPhase_def)
  show ?thesis
  proof (cases "isRecoveryRequired e")
    case True
    then have "\<not> cleanError e" "e \<noteq> LeaseError" by (auto simp: isRecoveryRequired_def cleanError_def split: accessError.splits)
    then show ?thesis using True dirty by (auto simp: failedApply_def refused_def intro!: triple_throw)
  next
    case False
    have "triple (opState env roles o1 (inPhase b0 OpApplying T)) (restoreSource env ctx o1 baseline)
        (\<lambda>_. opState env roles o1 (inPhase b0 OpFailed (sourcePermissions o1))) ?R ?K"
      by (rule triple_conseq [OF triple_restoreSource [OF run ctx]]) (auto intro: dirty)
    then have "triple (opState env roles o1 (inPhase b0 OpApplying T)) (before (restoreSource env ctx o1 baseline) (throw x)) Q ?R ?K" for x
      by (rule triple_before) (rule triple_throw, erule restored)
    moreover have "?R writerLeaseExpired w" if "opState env roles o1 (inPhase b0 OpApplying T) w" for w
      by (rule dirty) (simp_all add: that applying_outcome)
    ultimately show ?thesis
      unfolding failedApply_def refused_def using False by (simp add: triple_throw)
  qed
qed

lemma transition_unclean:
  "triple (\<lambda>_. True) (transitionPolicyOperation env opId expected p) (\<lambda>_ _. True) (\<lambda>e _. \<not> cleanError e) (\<lambda>_. True)"
  unfolding transitionPolicyOperation_def statement_def
  by (intro triple_if triple_throw triple_effect)
     (auto simp: cleanError_def untimed_def triple_def patchRows_def duplicateKey_def split: sum.splits option.splits list.splits if_splits)

lemma failedApply_writing:
  assumes "runs env roles o1 T"
  shows "triple (\<lambda>w. opState env roles o1 (\<lambda>r b Z M. inStatus b0 OpApplying r b \<and> between (sourcePermissions o1) T Z) w
        \<and> (isDefinitiveRejection e \<longrightarrow> opState env roles o1 (\<lambda>r b Z M. inStatus b0 OpApplying r b \<and> Z = sourcePermissions o1) w))
     (failedApply env ctx o1 baseline False e) Q
     (\<lambda>e. opState env roles o1 (failedWith env o1 T b0 e)) (opState env roles o1 (outcome env o1 T b0))"
    (is "triple (\<lambda>w. ?B w \<and> (_ \<longrightarrow> ?A w)) _ _ ?R ?K")
proof -
  have part: "?K w" if "?B w" for w
    using that by (rule opState_mono) (auto simp: outcome_def)
  have dirty: "?R e w" if "?K w" "\<not> cleanError e" for e w
    using that(1) by (rule opState_mono) (simp add: failedWith_def that(2))
  have plain: "\<not> cleanError e" if "isRecoveryRequired e \<or> \<not> isAccessError e" for e
    using that by (auto simp: isRecoveryRequired_def isAccessError_def cleanError_def split: accessError.splits)
  have untouched: "?R e w" "?K w" if "opState env roles o1 (inPhase b0 st (sourcePermissions o1)) w" "st \<in> {OpApplying, OpFailed}" for e w st
    using that(1) by (rule opState_mono, use that(2) in \<open>auto simp: failedWith_def outcome_def inPhase_def\<close>)+
  let ?over = "\<lambda>r b Z M. operationStatus r = OpRecoveryRequired \<and> b = b0 \<and> between (sourcePermissions o1) T Z"
  have over: "?K w" if "opState env roles o1 ?over w" for w
    using that by (rule opState_mono) (auto simp: outcome_def)
  have mark: "triple ?B (ignoring (transitionPolicyOperation env (operationId o1) [OpApplying] (uncertainPatch m))) (\<lambda>_. ?K)
      (\<lambda>e. ?K) ?K" for m
    apply (rule triple_ignoring)
    apply (rule triple_conseq [OF triple_transition [where roles = roles and R' = ?over
          and R = "\<lambda>r b Z M. inStatus b0 OpApplying r b \<and> between (sourcePermissions o1) T Z"]])
         apply (simp add: uncertainPatch_def)
        apply simp
       apply assumption
      apply (erule over)
     apply (auto intro: over part)
    done
  have finish: "triple ?A (ignoring (finishOperation env (operationId o1) [OpApplying] OpFailed err))
      (\<lambda>_ w. opState env roles o1 (inPhase b0 OpFailed (sourcePermissions o1)) w) (\<lambda>e. ?R e) ?K" for err
    by (rule triple_conseq [OF triple_finish_phase [where X = "sourcePermissions o1"]])
       (auto simp: inPhase_def [abs_def] intro: untouched [unfolded inPhase_def [abs_def]])
  show ?thesis
    unfolding failedApply_def
  proof (intro triple_if triple_throw)
    show "triple (\<lambda>w. ?B w \<and> (isDefinitiveRejection e \<longrightarrow> ?A w))
       (before (ignoring (transitionPolicyOperation env (operationId o1) [OpApplying]
             (uncertainPatch ''Metadata write outcome requires recovery verification'')))
           (throw (recoveryRequired ''Data access update requires recovery verification''))) Q ?R ?K"
      by (rule triple_before [where Q = ?K, OF triple_conseq [OF triple_conj [OF mark triple_ignoring [OF transition_unclean]]]])
         (auto intro!: triple_throw dirty)
    show "triple (\<lambda>w. ?B w \<and> (isDefinitiveRejection e \<longrightarrow> ?A w))
      (before
        (if False then restoreSource env ctx o1 baseline
         else ignoring (finishOperation env (operationId o1) [OpApplying] OpFailed
                (Some (''DATA_ACCESS_OPERATION_FAILED'', ''Data access update failed''))))
        (throw (if isAccessError e then e
                else AccessError ''DATA_ACCESS_UPSTREAM_ERROR'' ''Unable to apply data access metadata''))) Q ?R ?K"
      if "\<not> (\<not> False \<and> \<not> isDefinitiveRejection e)"
      using that by (auto intro!: triple_before [OF triple_pre [OF finish]] triple_throw untouched(1))
  qed (use part in \<open>auto intro!: dirty simp: plain\<close>)
qed


text \<open>The loaded context of a running operation.\<close>

lemma triple_writeAndCommit:
  assumes run: "runs env roles o1 T" and ctx: "policyKeyOf ctx = keyOf o1"
    and second: "loaded env (operationProject o1) (operationTable o1) second" "ctxSchema second = operationSchema o1"
  shows "triple (opState env roles o1 (fromTo second (inStatus b0 OpApplying) (sourcePermissions o1)))
     (writeAndCommit env ctx second o1 actorId baseline epoch)
     (\<lambda>_. opState env roles o1 (committing env o1 T b0 OpCompleted))
     (\<lambda>e. opState env roles o1 (failedWith env o1 T b0 e)) (opState env roles o1 (outcome env o1 T b0))"
    (is "triple ?P _ ?Q ?R ?K")
proof -
  note r = runsD [OF run]
  have c: "ctxProject ctx = operationProject o1" "ctxTable ctx = operationTable o1"
    using ctx by (simp_all add: policyKeyOf_def)
  let ?W = "\<lambda>e w. opState env roles o1 (\<lambda>r b Z M. inStatus b0 OpApplying r b \<and> between (sourcePermissions o1) T Z) w
      \<and> (isDefinitiveRejection e \<longrightarrow> opState env roles o1 (\<lambda>r b Z M. inStatus b0 OpApplying r b \<and> Z = sourcePermissions o1) w)"
  have start: "?W e w" if "?P w" for e w
    using opState_mono [OF that] by (simp add: fromTo_def)
  have part: "?K w" if "?W e w" for e w
    using that by (elim conjE, elim opState_mono) (auto simp: outcome_def)
  note loaded = loaded_context [OF second(1) r(5)]
  have mutated: "triple ?P (applyPermissionMutation env second (sourcePermissions o1)
          (case targetPermissions o1 of Some t \<Rightarrow> t | None \<Rightarrow> []) (ctxVersion second) (renewLease env (operationId o1) OpApplying epoch))
      (\<lambda>_. opState env roles o1 (inPhase b0 OpApplying T)) ?W ?K"
    unfolding r(4) option.case
    by (rule triple_conseq [OF triple_mutation [OF r(1,2,6,7) loaded(2) second(2) loaded(3,1) keeps_renew_phase]])
       (use part in \<open>auto simp: inPhase_def [abs_def] outcome_def elim: opState_mono\<close>)
  show ?thesis
    unfolding writeAndCommit_def Let_def
  proof (rule triple_before [where Q = "opState env roles o1 (inPhase b0 OpApplying T)"])
    show "triple ?P (catching (before (renewLease env (operationId o1) OpApplying epoch)
        (applyPermissionMutation env second (sourcePermissions o1)
          (case targetPermissions o1 of Some t \<Rightarrow> t | None \<Rightarrow> []) (ctxVersion second) (renewLease env (operationId o1) OpApplying epoch)))
        (failedApply env ctx o1 baseline False)) (\<lambda>_. opState env roles o1 (inPhase b0 OpApplying T)) ?R ?K"
      by (rule triple_catching [OF triple_before [OF triple_conseq [OF keeps_renew_phase] mutated] failedApply_writing [OF run]])
         (use start part in blast)+
    show "triple (opState env roles o1 (inPhase b0 OpApplying T))
        (catching (verifyAndCommit env ctx o1 actorId baseline epoch) (failedApply env ctx o1 baseline True)) ?Q ?R ?K"
      by (rule triple_catching [OF triple_verifyAndCommit [OF run ctx] failedApply_written [OF run c]])
  qed
qed


lemma triple_apply:
  assumes run: "runs env roles o1 T" and ctx: "policyKeyOf ctx = keyOf o1" and st: "operationStatus o1 \<noteq> OpCompleted"
  shows "triple (opState env roles o1 (inPhase b0 (operationStatus o1) (sourcePermissions o1)))
     (applyPolicyOperation env ctx o1 actorId)
     (\<lambda>_. opState env roles o1 (committing env o1 T b0 OpCompleted))
     (\<lambda>e. opState env roles o1 (failedWith env o1 T b0 e)) (opState env roles o1 (outcome env o1 T b0))"
    (is "triple ?P _ ?Q ?R ?K")
proof -
  note r = runsD [OF run]
  have c: "ctxProject ctx = operationProject o1" "ctxTable ctx = operationTable o1"
    using ctx by (simp_all add: policyKeyOf_def)
  let ?S = "sourcePermissions o1"
  have untouched: "?R e w" "?K w" if "opState env roles o1 (inPhase b0 st ?S) w" "st \<noteq> OpCompleted" for e w st
    using that(1) by (rule opState_mono, use that(2) in \<open>auto simp: failedWith_def outcome_def inPhase_def\<close>)+
  let ?A = "\<lambda>second. opState env roles o1 (fromTo second (inStatus b0 (operationStatus o1)) ?S)"
  have at: "?P w" if "?A second w" for second w
    using that by (rule opState_mono) (simp add: fromTo_def inPhase_def)
  have started: "?R e w" "?K w" if "opState env roles o1 (fromTo second (inStatus b0 OpApplying) ?S) w" for second e w
    using untouched [of OpApplying w] opState_mono [OF that, of "inPhase b0 OpApplying ?S"]
    by (simp_all add: fromTo_def inPhase_def)
  note out = untouched [OF _ st]
  have stale: "triple (?A second) (before (ignoring (finishOperation env (operationId o1) [operationStatus o1] OpFailed err)) (throw e))
      ?Q ?R ?K" for second err e
    by (rule triple_before [OF triple_conseq [OF triple_finish_phase [of env roles o1 b0 "operationStatus o1" ?S]]])
       (assumption | rule triple_throw | erule at | auto intro: out untouched)+
  have begun: "triple (?A second) (transitionPolicyOperation env (operationId o1) [operationStatus o1]
        ((leasePatch OpApplying ''apply_permissions'' epoch t)\<lparr>patchStarted := x\<rparr>))
      (\<lambda>_. opState env roles o1 (fromTo second (inStatus b0 OpApplying) ?S)) ?R ?K" for second epoch t x
    by (rule triple_conseq [OF triple_transition [where roles = roles and R = "fromTo second (inStatus b0 (operationStatus o1)) ?S"
            and R' = "fromTo second (inStatus b0 OpApplying) ?S"]])
       (auto simp: leasePatch_def fromTo_def applyPatch_def noPatch_def orKeep_def [abs_def] intro: at out started)
  have rest: "triple (?A second) (chain (lift id (assertOperationContext o1 second)) (\<lambda>_.
      chain (getManagedPolicy env (policyKeyOf ctx)) (\<lambda>baseline.
      chain (if ctxVersion second \<noteq> sourceVersion o1 then give False
             else chain (lift PlainError (snapshotManagedSource env second baseline)) (\<lambda>s.
               give (createSourceDigest env second baseline s = sourceDigest o1))) (\<lambda>fresh.
      if \<not> fresh
      then before (ignoring (finishOperation env (operationId o1) [operationStatus o1] OpFailed
             (Some (''DATA_ACCESS_RECONCILE_STALE'', ''Data access source changed''))))
           (throw stalePreview)
      else chain (assertProjectionDependencyCurrent env second baseline) (\<lambda>_.
        chain (uuid env) (\<lambda>epoch. chain now (\<lambda>t.
         chain (ignoring (transitionPolicyOperation env (operationId o1) [operationStatus o1]
           ((leasePatch OpApplying ''apply_permissions'' epoch t)\<lparr>patchStarted := x t\<rparr>))) (\<lambda>_.
           writeAndCommit env ctx second o1 actorId baseline epoch)))))))) ?Q ?R ?K"
    if "loaded env (operationProject o1) (operationTable o1) second" for second x
    apply (rule triple_lift_unit)
     apply (erule out [OF at])
    apply (rule triple_next [of "?A second"])
       apply (simp add: getManagedPolicy_def, rule keeps_query [OF opState_untimed])
      apply (erule out [OF at])
     apply (erule out [OF at])
    apply (rule triple_next [where Q' = "\<lambda>_. ?A second" and R' = "\<lambda>_. ?A second" and K' = "?A second"])
       apply (intro keeping)
      apply (erule out [OF at])
     apply (erule out [OF at])
    apply (rule triple_if)
     apply (rule stale)
    apply (rule triple_next [OF keeps_dependency [OF opState_untimed]])
      apply (erule out [OF at])
     apply (erule out [OF at])
    apply (unfold uuid_def now_def)
    apply (rule triple_chain [OF triple_look [where Q = "\<lambda>_. ?A second"]], assumption)
    apply (rule triple_chain [OF triple_look [where Q = "\<lambda>_. ?A second"]], assumption)
    apply (rule triple_chain [OF triple_ignoring [OF begun]])
    apply (rule triple_writeAndCommit [OF run ctx that])
    apply (simp add: assertOperationContext_def guardE_def split: if_splits)
    done
  show ?thesis
    unfolding applyPolicyOperation_def c liftText_def before_def
    apply (rule triple_next [OF triple_load [OF opState_untimed r(1,2)]])
      apply (erule out)
     apply (erule out)
    apply (rule triple_some, elim conjE)
    apply (rule triple_pre)
     apply (rule rest [unfolded before_def])
     apply assumption
    apply (blast intro: inPhase_loaded)
    done
qed


subsection \<open>Recovery\<close>

definition stuck :: "operationStatus \<Rightarrow> bool" where
  "stuck st \<longleftrightarrow> st \<in> {OpApplying, OpRecovering, OpRecoveryRequired}"

text \<open>A recovery that stops early leaves an operation that still needs one, or a finished restore.\<close>

definition recovering ::
  "'d managedPolicy option \<Rightarrow> materializedPermission list \<Rightarrow> materializedPermission list
   \<Rightarrow> 'd operationRow \<Rightarrow> 'd managedPolicy option \<Rightarrow> materializedPermission list \<Rightarrow> metadataState \<Rightarrow> bool" where
  "recovering b0 X S r b Z M \<longleftrightarrow>
     b = b0 \<and> (stuck (operationStatus r) \<and> between X S Z \<or> operationStatus r = OpFailed \<and> Z = S)"

lemma opState_phase_mono:
  assumes "opState env roles o1 (inPhase b0 st Y) w" "stuck st" "between X S Y"
  shows "opState env roles o1 (recovering b0 X S) w"
  using assms(1) by (rule opState_mono) (use assms(2,3) in \<open>auto simp: recovering_def inPhase_def\<close>)

lemma triple_transition_row:
  fixes env :: "'d accessEnv"
  assumes "patchStatus p = Some st'"
    and "\<And>r b X M t. R r b X M \<Longrightarrow> operationStatus r \<in> set expected \<Longrightarrow> R' (applyPatch t p r) b X M"
    and "\<And>t (r :: 'd operationRow). operationStatus (applyPatch t p r) = st'"
  shows "triple (opState env roles o1 R) (transitionPolicyOperation env (operationId o1) expected p)
           (\<lambda>r w. opState env roles o1 R' w \<and> operationStatus r = st')
           (\<lambda>e w. opState env roles o1 R w \<or> opState env roles o1 R' w)
           (\<lambda>w. opState env roles o1 R w \<or> opState env roles o1 R' w)"
proof -
  have "triple (\<lambda>_. True) (transitionPolicyOperation env (operationId o1) expected p) (\<lambda>r _. operationStatus r = st') (\<lambda>_ _. True) (\<lambda>_. True)"
    unfolding transitionPolicyOperation_def statement_def
    by (intro triple_if triple_throw triple_effect)
       (auto simp: untimed_def triple_def patchRows_def assms(3) split: sum.splits option.splits list.splits if_splits)
  from triple_conj [OF triple_transition [where R = R and R' = R', OF assms(1,2)] this]
  show ?thesis by (rule triple_conseq) auto
qed

lemma triple_finish_row:
  "triple (opState env roles o1 (inPhase b0 st X)) (finishOperation env (operationId o1) expected st' err)
     (\<lambda>r w. opState env roles o1 (inPhase b0 st' X) w \<and> operationStatus r = st')
     (\<lambda>e w. opState env roles o1 (inPhase b0 st X) w \<or> opState env roles o1 (inPhase b0 st' X) w)
     (\<lambda>w. opState env roles o1 (inPhase b0 st X) w \<or> opState env roles o1 (inPhase b0 st' X) w)"
  unfolding finishOperation_def now_def
  apply (rule triple_chain [OF triple_look [where Q = "\<lambda>_. opState env roles o1 (inPhase b0 st X)"]], assumption)
  apply (rule triple_transition_row)
    apply (simp add: finishPatch_def noPatch_def)
   apply (simp_all add: inPhase_def)
  done

lemma triple_customize:
  assumes "engine_ok env" "faults_ok env"
  shows "triple (opState env roles o1 (inPhase b0 st X)) (ignoring (metadataRequest env (SetCustomization s n v)))
     (\<lambda>_. opState env roles o1 (inPhase b0 st X)) (\<lambda>_. opState env roles o1 (inPhase b0 st X)) (opState env roles o1 (inPhase b0 st X))"
proof (rule triple_ignoring [OF triple_request [OF opState_untimed assms(2)]])
  fix w tr r m
  assume P: "opState env roles o1 (inPhase b0 st X) w" and e: "engine env tr (SetCustomization s n v) (metadata w) = (r, m)"
  have "defaultTables m = defaultTables (metadata w)" using engine_okD [OF assms(1) e] by simp
  then show K: "opState env roles o1 (inPhase b0 st X) (w\<lparr>metadata := m\<rparr>)"
    using P unfolding opState_def inPhase_def by simp
  then show "opState env roles o1 (inPhase b0 st X) (w\<lparr>metadata := m\<rparr>)
      \<and> (\<not> isUnsupportedAtomicCommand (PlainError x) \<longrightarrow> opState env roles o1 (inPhase b0 st X) (w\<lparr>metadata := m\<rparr>))" for x
    by simp
  show "opState env roles o1 (inPhase b0 st X) (w\<lparr>metadata := m\<rparr>)" by (fact K)
qed auto


text \<open>The part of the recovery that writes: from any recoverable permissions \<open>X\<close> back to the source.\<close>

lemma triple_restoreRecorded:
  assumes run: "runs env roles o1 T" and X: "scopedSnapshot (collate env) roles X"
    and ctx: "loaded env (operationProject o1) (operationTable o1) ctx" "ctxSchema ctx = operationSchema o1"
  shows "triple (opState env roles o1 (fromTo ctx (inStatus b0 OpRecovering) X))
     (restoreRecorded env ctx o1 baseline X epoch)
     (\<lambda>r w. opState env roles o1 (inPhase b0 OpFailed (sourcePermissions o1)) w \<and> operationStatus r = OpFailed)
     (\<lambda>_. opState env roles o1 (recovering b0 X (sourcePermissions o1)))
     (opState env roles o1 (recovering b0 X (sourcePermissions o1)))"
    (is "triple ?P _ ?Q ?R ?K")
proof -
  note r = runsD [OF run]
  note l = loaded_context [OF ctx(1) r(5)]
  let ?S = "sourcePermissions o1"
  let ?renew = "renewLease env (operationId o1) OpRecovering epoch"
  have kept: "?K w" if "opState env roles o1 (inPhase b0 OpRecovering Z) w" "between X ?S Z" for Z w
    using opState_phase_mono [OF that(1) _ that(2)] by (simp add: stuck_def)
  have ended: "?K w" if "opState env roles o1 (inPhase b0 OpFailed ?S) w" for w
    using that by (rule opState_mono) (simp add: recovering_def inPhase_def)
  have at: "?K w" if "?P w" for w
    using that by (rule opState_mono) (auto simp: fromTo_def recovering_def stuck_def)
  have written: "triple ?P (if buildPermissionCommands ctx X ?S \<noteq> [] then applyPermissionMutation env ctx X ?S (ctxVersion ctx) ?renew
        else ignoring (metadataRequest env (SetCustomization (ctxSchema ctx) (ctxTable ctx) (ctxVersion ctx))))
      (\<lambda>_. opState env roles o1 (inPhase b0 OpRecovering ?S)) ?R ?K"
  proof (rule triple_if)
    show "triple ?P (applyPermissionMutation env ctx X ?S (ctxVersion ctx) ?renew) (\<lambda>_. opState env roles o1 (inPhase b0 OpRecovering ?S)) ?R ?K"
      by (rule triple_conseq [OF triple_mutation [OF r(1,2) X r(6) l(2) ctx(2) l(3,1) keeps_renew_phase]])
         (auto simp: inPhase_def [abs_def] recovering_def stuck_def elim: opState_mono)
    assume "\<not> buildPermissionCommands ctx X ?S \<noteq> []"
    then have "X = ?S" by (simp add: buildPermissionCommands_def)
    then show "triple ?P (ignoring (metadataRequest env (SetCustomization (ctxSchema ctx) (ctxTable ctx) (ctxVersion ctx))))
        (\<lambda>_. opState env roles o1 (inPhase b0 OpRecovering ?S)) ?R ?K"
      by (intro triple_conseq [OF triple_customize [OF r(1,2), of roles o1 b0 OpRecovering ?S]])
         (auto simp: fromTo_def inPhase_def recovering_def stuck_def elim: opState_mono)
  qed
  show ?thesis
    unfolding restoreRecorded_def Let_def l(3,4) before_def verifySource_def liftText_def
    apply (rule triple_next [OF keeps_renew_phase])
      apply (erule at)
     apply (erule at)
    apply (rule triple_chain [OF written [unfolded l(3)]])
    apply (rule triple_next [OF keeps_load [OF opState_untimed r(1,2)]])
      apply (erule kept; simp)
     apply (erule kept; simp)
    apply (rule triple_next [where Q' = "\<lambda>_. opState env roles o1 (inPhase b0 OpRecovering ?S)" and R' = "\<lambda>_. opState env roles o1 (inPhase b0 OpRecovering ?S)"
          and K' = "opState env roles o1 (inPhase b0 OpRecovering ?S)"])
       apply (intro keeping)
      apply (erule kept; simp)
     apply (erule kept; simp)
    apply (rule triple_next [where Q' = "\<lambda>_. opState env roles o1 (inPhase b0 OpRecovering ?S)" and R' = "\<lambda>_. opState env roles o1 (inPhase b0 OpRecovering ?S)"
          and K' = "opState env roles o1 (inPhase b0 OpRecovering ?S)"])
       apply (intro keeping)
      apply (erule kept; simp)
     apply (erule kept; simp)
    apply (rule triple_conseq [OF triple_finish_row])
        apply assumption
       apply assumption
      apply (auto intro: kept ended)
    done
qed


lemma triple_requireOperation:
  assumes "\<And>r b Z M. R r b Z M \<Longrightarrow> r = o1"
  shows "triple (opState env roles o1 R) (requireOperation env (operationProject o1) (operationId o1) None)
     (\<lambda>r w. opState env roles o1 R w \<and> r = o1) (\<lambda>_. opState env roles o1 R) (opState env roles o1 R)"
  unfolding requireOperation_def getPolicyOperation_def
proof (rule triple_next [OF triple_query [OF opState_untimed]])
  fix x
  have found: "x = Some o1"
    if "opState env roles o1 R w" "x = firstOf (operationsWith (operationProject o1) (operationId o1) (db w))" for w
    using that persisted_row [of o1 "db w" o1] assms unfolding opState_def by metis
  show "triple (\<lambda>w. opState env roles o1 R w \<and> x = firstOf (operationsWith (operationProject o1) (operationId o1) (db w)))
     (case x of None \<Rightarrow> throw (AccessError ''DATA_ACCESS_NOT_FOUND'' ''Policy operation not found'')
      | Some o1 \<Rightarrow> if (None :: operationKind option) = None \<or> None = Some (operationKind o1) then give o1
          else throw (AccessError ''DATA_ACCESS_NOT_FOUND'' ''Policy operation not found''))
     (\<lambda>r w. opState env roles o1 R w \<and> r = o1) (\<lambda>_. opState env roles o1 R) (opState env roles o1 R)"
  proof (rule triple_some)
    fix w assume "opState env roles o1 R w \<and> x = firstOf (operationsWith (operationProject o1) (operationId o1) (db w))"
    then have "x = Some o1" using found by blast
    then show ?thesis by (auto intro: triple_give)
  qed
qed auto

definition atRow ::
  "'d operationRow \<Rightarrow> 'd managedPolicy option \<Rightarrow> materializedPermission list
   \<Rightarrow> 'd operationRow \<Rightarrow> 'd managedPolicy option \<Rightarrow> materializedPermission list \<Rightarrow> metadataState \<Rightarrow> bool" where
  "atRow o1 b0 X r b Z M \<longleftrightarrow> r = o1 \<and> b = b0 \<and> Z = X"

lemma triple_recover:
  assumes run: "runs env roles o1 T" and X: "scopedSnapshot (collate env) roles X" and st: "stuck (operationStatus o1)"
  shows "triple (opState env roles o1 (atRow o1 b0 X)) (recoverBody env (operationProject o1) (operationId o1) source alias1)
     (\<lambda>s w. opState env roles o1 (inPhase b0 OpFailed (sourcePermissions o1)) w \<and> stateStatus s = OpFailed)
     (\<lambda>_. opState env roles o1 (recovering b0 X (sourcePermissions o1)))
     (opState env roles o1 (recovering b0 X (sourcePermissions o1)))"
    (is "triple ?P _ ?Q ?R ?K")
proof -
  note r = runsD [OF run]
  let ?S = "sourcePermissions o1"
  have at: "?K w" if "?P w" for w
    using that by (rule opState_mono) (use st in \<open>auto simp: atRow_def recovering_def\<close>)
  have phase: "opState env roles o1 (inPhase b0 (operationStatus o1) X) w" if "?P w" for w
    using that by (rule opState_mono) (simp add: atRow_def inPhase_def)
  have sts: "stuck (operationStatus o1)" "stuck OpRecovering" using st by (simp_all add: stuck_def)
  have lease: "?K w" if "opState env roles o1 (fromTo c (inStatus b0 s) X) w" "stuck s" for c s w
    using that(1) by (rule opState_mono) (use that(2) in \<open>auto simp: fromTo_def recovering_def\<close>)
  let ?over = "\<lambda>r b Z M. operationStatus r = OpRecoveryRequired \<and> b = b0 \<and> between X ?S Z"
  have over: "?K w" if "opState env roles o1 ?over w" for w
    using that by (rule opState_mono) (auto simp: recovering_def stuck_def)
  have mark: "triple ?K (ignoring (transitionPolicyOperation env (operationId o1) [OpRecovering] (uncertainPatch m))) (\<lambda>_. ?K)
      (\<lambda>e. ?K) ?K" for m
    apply (rule triple_ignoring)
    apply (rule triple_conseq [OF triple_transition [where roles = roles and R' = ?over and R = "recovering b0 X ?S"]])
         apply (simp add: uncertainPatch_def)
        apply (auto simp: recovering_def) [1]
       apply assumption
      apply (erule over)
     apply (auto intro: over)
    done
  have written: "triple (opState env roles o1 (fromTo ctx (inStatus b0 OpRecovering) X))
      (catching (chain (restoreRecorded env ctx o1 baseline X epoch) (\<lambda>o2. give (toOperationState o2)))
         (\<lambda>e. if e = LeaseError then throw writerLeaseExpired
            else chain (ignoring (transitionPolicyOperation env (operationId o1) [OpRecovering]
                   (uncertainPatch ''Unable to verify restored permissions'')))
                 (\<lambda>_. throw (recoveryRequired ''Unable to verify restored permissions'')))) ?Q ?R ?K"
    if "loaded env (operationProject o1) (operationTable o1) ctx" "ctxSchema ctx = operationSchema o1" for ctx baseline epoch
    apply (rule triple_catching)
     apply (rule triple_chain [OF triple_restoreRecorded [OF run X that]])
     apply (rule triple_give, simp add: toOperationState_def)
    apply (rule triple_if)
     apply (rule triple_throw, assumption)
    apply (rule triple_chain [OF mark])
    apply (rule triple_throw, assumption)
    done
  have rest: "triple (\<lambda>w. ?P w \<and> ctxMetadata ctx = metadata w)
     (chain (lift id (assertOperationContext o1 ctx)) (\<lambda>_. chain (getManagedPolicy env key) (\<lambda>baseline.
         chain (lift id (assertProjectAlias ctx alias1)) (\<lambda>_. chain now (\<lambda>t.
          chain (require (case policyOperationRecoverySafeAt o1 of Some s \<Rightarrow> s \<le> t | None \<Rightarrow> False) e) (\<lambda>_.
          chain (lift id (snapshotRecoveryPermissions env ctx)) (\<lambda>current.
          chain (lift id (assertRecoverablePermissionState env current o1)) (\<lambda>_.
          chain (startWriter env (operationId o1) [operationStatus o1] OpRecovering ''restore_source'') (\<lambda>epoch.
            catching (chain (restoreRecorded env ctx o1 baseline current epoch) (\<lambda>o2. give (toOperationState o2)))
         (\<lambda>e. if e = LeaseError then throw writerLeaseExpired
            else chain (ignoring (transitionPolicyOperation env (operationId o1) [OpRecovering]
                   (uncertainPatch ''Unable to verify restored permissions'')))
                 (\<lambda>_. throw (recoveryRequired ''Unable to verify restored permissions'')))))))))))) ?Q ?R ?K"
    if l: "loaded env (operationProject o1) (operationTable o1) ctx" for ctx key e
  proof -
    let ?L = "\<lambda>w. ?P w \<and> ctxMetadata ctx = metadata w"
    have L: "untimed ?L" by (simp add: untimed_def opState_def)
    have snap: "snapshotRecoveryPermissions env ctx = Inr X" if "?L w" "ctxSchema ctx = operationSchema o1" for w
      by (rule loaded_snapshot [OF r(3,5) X l that(2) _ conjunct1 [OF that(1)]]) (use that in \<open>auto simp: atRow_def\<close>)
    show ?thesis
      apply (rule triple_some, elim conjE)
      apply (rule triple_lift_unit, elim conjE, erule at)
      apply (rule triple_next [where Q' = "\<lambda>_. ?L" and R' = "\<lambda>_. ?L" and K' = ?L])
         apply (unfold getManagedPolicy_def, rule keeps_query [OF L])
        apply (elim conjE, erule at)
       apply (elim conjE, erule at)
      apply (rule triple_lift_unit, elim conjE, erule at)
      apply (unfold now_def)
      apply (rule triple_chain [OF triple_look [where Q = "\<lambda>_. ?L"]], assumption)
      apply (rule triple_next [where Q' = "\<lambda>_. ?L" and R' = "\<lambda>_. ?L" and K' = ?L])
         apply (intro keeping)
        apply (elim conjE, erule at)
       apply (elim conjE, erule at)
      apply (rule triple_lift_ok)
       apply (rule snap, rule conjI, assumption+)
       apply (simp add: assertOperationContext_def guardE_def split: if_splits)
      apply (rule triple_lift_unit, elim conjE, erule at)
      apply (rule triple_pre [of "opState env roles o1 (fromTo ctx (inStatus b0 (operationStatus o1)) X)"])
       apply (rule triple_next [OF triple_writer_phase])
         apply (erule disjE; erule lease, rule sts)
        apply (erule disjE; erule lease, rule sts)
       apply (rule written [OF l])
       apply (simp add: assertOperationContext_def guardE_def split: if_splits)
      apply (blast intro: inPhase_loaded phase)
      done
  qed
  show ?thesis
    unfolding recoverBody_def before_def
    apply (rule triple_next [OF triple_requireOperation])
       apply (simp add: atRow_def)
      apply (erule at)
     apply (erule at)
    apply (rule triple_pure, hypsubst)
    apply (rule triple_if)
     apply (use st in \<open>simp add: stuck_def\<close>)
    apply (rule triple_next [where Q' = "\<lambda>_. ?P" and R' = "\<lambda>_. ?P" and K' = ?P])
       apply (intro keeping)
      apply (erule at)
     apply (erule at)
    apply (rule triple_next [where Q' = "\<lambda>_. ?P" and R' = "\<lambda>_. ?P" and K' = ?P])
       apply (unfold assertOperationSchemaCurrent_def, intro keeping keeps_requireProject opState_untimed)
      apply (erule at)
     apply (erule at)
    apply (rule triple_next [OF triple_load [OF opState_untimed r(1,2)]])
      apply (erule at)
     apply (erule at)
    apply (rule triple_some, elim conjE)
    apply (rule triple_pre, rule rest, assumption)
    apply blast
    done
qed

end
