(* ===== verification/Policy_Recovery.thy ===== *)
theory Policy_Recovery
  imports Policy_Safety
begin

text \<open>
  What callers of a policy operation can rely on: an application ends in an outcome, and a
  recovery after it makes the operation all or nothing.
\<close>

subsection \<open>Rows that stand for one operation\<close>

lemma samePayload_trans: "samePayload o1 o2 \<Longrightarrow> samePayload o2 r \<Longrightarrow> samePayload o1 r"
  by (cases o1; cases o2; cases r) (simp add: samePayload_def)

lemma samePayload_targets:
  "samePayload o1 r \<Longrightarrow> targetPolicy r = targetPolicy o1" "samePayload o1 r \<Longrightarrow> targetColumnGrants r = targetColumnGrants o1"
  "samePayload o1 r \<Longrightarrow> targetCapabilities r = targetCapabilities o1"
  by (cases o1; cases r; simp add: samePayload_def)+

lemma opState_row:
  assumes "opState env roles o2 R w" "samePayload o1 o2"
  shows "opState env roles o1 R w"
proof -
  note [simp] = samePayload_fields [OF assms(2)]
  show ?thesis
    using assms(1) samePayload_trans [OF assms(2)] unfolding opState_def rowOf_def by auto
qed

lemma opState_at:
  assumes "opState env roles o1 R w"
  obtains r b X M where "samePayload o1 r" "R r b X M" "opState env roles r (atRow r b X) w"
proof -
  obtain r X tables where r: "rowOf o1 (db w) r" "defaultTables (metadata w) = Some tables"
      "tableHolds (collate env) roles (operationSchema o1) (operationTable o1) X tables"
      "R r (map_of (managedPolicies (db w)) (keyOf o1)) X (metadata w)"
    using assms by (auto simp: opState_def)
  then have p: "samePayload o1 r" by (simp add: rowOf_def)
  then have "opState env roles r (atRow r (map_of (managedPolicies (db w)) (keyOf o1)) X) w"
    using r samePayload_fields [OF p] by (auto simp: opState_def atRow_def rowOf_def)
  with p r(4) show ?thesis by (rule that)
qed

lemma runs_row: "runs env roles o1 T \<Longrightarrow> samePayload o1 r \<Longrightarrow> runs env roles r T"
  by (simp add: runs_def samePayload_fields)

lemma opState_clock [simp]: "opState env roles o1 R (w\<lparr>clock := t\<rparr>) = opState env roles o1 R w"
  by (simp add: opState_def)

lemma scoped_between:
  assumes "runs env roles o1 T" "between (sourcePermissions o1) T Z \<or> between T (sourcePermissions o1) Z"
  shows "scopedSnapshot (collate env) roles Z"
  using assms scopedSnapshot_parts by (auto simp: runs_def between_def)

subsection \<open>Applications\<close>

text \<open>
  C4. Wherever an application stops, the recorded operation, the baseline and the permissions of the table
  agree: an answer means a completed operation with its baseline and its permissions; an error or the death of the
  process leaves one of the states of \<open>outcome\<close>; an error that asks neither for a recovery nor for patience
  leaves the permissions and the baseline as they were.
\<close>

theorem apply_outcome:
  assumes "runs env roles o1 T" "policyKeyOf ctx = keyOf o1" "operationStatus o1 \<noteq> OpCompleted"
    and "opState env roles o1 (inPhase b0 (operationStatus o1) (sourcePermissions o1)) w"
    and "applyPolicyOperation env ctx o1 actorId w = (r, w')"
  shows "case r of
      Answer _ \<Rightarrow> opState env roles o1 (committing env o1 T b0 OpCompleted) w'
    | Thrown e \<Rightarrow> opState env roles o1 (failedWith env o1 T b0 e) w'
    | Crashed \<Rightarrow> opState env roles o1 (outcome env o1 T b0) w'"
  by (rule tripleD [OF triple_apply [OF assms(1-3)] assms(4,5)])

lemma apply_outcome_state:
  assumes "runs env roles o1 T" "policyKeyOf ctx = keyOf o1" "operationStatus o1 \<noteq> OpCompleted"
    and "opState env roles o1 (inPhase b0 (operationStatus o1) (sourcePermissions o1)) w"
    and "applyPolicyOperation env ctx o1 actorId w = (r, w')"
  shows "opState env roles o1 (outcome env o1 T b0) w'"
  using tripleD [OF triple_apply [OF assms(1-3)] assms(4,5)]
  by (cases r) (auto simp: committing_outcome failedWith_def elim: opState_mono)

subsection \<open>Recoveries\<close>

lemma triple_recover_finished:
  assumes "\<not> stuck (operationStatus o1)"
  shows "triple (opState env roles o1 (atRow o1 b0 X)) (recoverBody env (operationProject o1) (operationId o1) source alias1)
     (\<lambda>s w. opState env roles o1 (atRow o1 b0 X) w \<and> stateStatus s = operationStatus o1)
     (\<lambda>_. opState env roles o1 (atRow o1 b0 X)) (opState env roles o1 (atRow o1 b0 X))"
  unfolding recoverBody_def
  apply (rule triple_next [OF triple_requireOperation])
     apply (simp add: atRow_def)
    apply assumption
   apply assumption
  apply (rule triple_pure, hypsubst)
  using assms by (auto simp: stuck_def toOperationState_def intro: triple_give)

definition finished ::
  "'d accessEnv \<Rightarrow> 'd operationRow \<Rightarrow> materializedPermission list \<Rightarrow> 'd managedPolicy option \<Rightarrow> operationStatus
   \<Rightarrow> 'd operationRow \<Rightarrow> 'd managedPolicy option \<Rightarrow> materializedPermission list \<Rightarrow> metadataState \<Rightarrow> bool" where
  "finished env o1 T b0 st r b Z M \<longleftrightarrow>
     operationStatus r = st
     \<and> (if st = OpCompleted then committedBaseline env o1 T b0 b \<and> Z = T else b = b0 \<and> Z = sourcePermissions o1)"

text \<open>
  C5. An application and a recovery at any later time, in the same process or in another, are all or nothing: when the recovery answers, either
  the operation is completed, with its baseline and its permissions, or the table has the
  permissions of the source and the baseline is untouched.
\<close>

theorem apply_recover_all_or_nothing:
  assumes run: "runs env roles o1 T" "policyKeyOf ctx = keyOf o1" "operationStatus o1 \<noteq> OpCompleted"
    and start: "opState env roles o1 (inPhase b0 (operationStatus o1) (sourcePermissions o1)) w"
    and apply1: "applyPolicyOperation env ctx o1 actorId w = (r, w1)"
    and recover: "runs env' roles o1 T" "collate env' = collate env"
      "recoverBody env' (operationProject o1) (operationId o1) source alias1 (w1\<lparr>clock := t\<rparr>) = (Answer s, w2)"
  shows "opState env roles o1 (finished env o1 T b0 (stateStatus s)) w2"
proof -
  obtain q b X M where q: "samePayload o1 q" "outcome env o1 T b0 q b X M" "opState env roles q (atRow q b X) w1"
    using opState_at [OF apply_outcome_state [OF run start apply1]] by blast
  note same = samePayload_fields [OF q(1)]
  have at: "opState env roles q (atRow q b X) (w1\<lparr>clock := t\<rparr>)" using q(3) by simp
  have coll: "opState env' roles o' R = opState env roles o' R" for o' R
    unfolding opState_def recover(2) ..
  have rec: "recoverBody env' (operationProject q) (operationId q) source alias1 (w1\<lparr>clock := t\<rparr>) = (Answer s, w2)"
    using recover(3) same by simp
  show ?thesis
  proof (cases "stuck (operationStatus q)")
    case True
    then have X: "scopedSnapshot (collate env) roles X" and b: "b = b0"
      using q(2) scoped_between [OF run(1)] by (auto simp: outcome_def stuck_def)
    have rec2: "opState env roles q (inPhase b OpFailed (sourcePermissions q)) w2" "stateStatus s = OpFailed"
      using tripleD [OF triple_recover [OF runs_row [OF recover(1) q(1)] X [folded recover(2)] True] at [folded coll] rec] by (simp_all add: coll)
    show ?thesis
      by (rule opState_mono [OF opState_row [OF rec2(1) q(1)]]) (use rec2(2) same b in \<open>simp add: finished_def inPhase_def\<close>)
  next
    case False
    have "opState env roles q (atRow q b X) w2 \<and> stateStatus s = operationStatus q"
      using tripleD [OF triple_recover_finished [OF False] at [folded coll] rec] by (simp add: coll)
    then have "opState env roles o1 (atRow q b X) w2" "stateStatus s = operationStatus q"
      using opState_row [OF _ q(1)] by blast+
    then show ?thesis
      using q(2) False by (elim opState_mono) (auto simp: finished_def atRow_def outcome_def stuck_def split: if_splits)
  qed
qed


subsection \<open>An operation\<close>

text \<open>An engine that does what is documented, and a closed table that an update opens for reading.\<close>

fun demoEngine :: "accessEvent list \<Rightarrow> metaRequest \<Rightarrow> metadataState \<Rightarrow> metaReply \<times> metadataState" where
  "demoEngine tr ExportMetadata m = (MetaExported m, m)"
| "demoEngine tr (BulkAtomic cmds v) m =
     (if v \<noteq> Some (resourceVersion m) then (MetaHttp 409 (Some ''conflict'') ''resource version'', m)
      else (MetaDone, \<lparr>defaultTables = runCommands cmds m, resourceVersion = resourceVersion m + 1\<rparr>))"
| "demoEngine tr (Bulk cmds v) m =
     (if v \<noteq> Some (resourceVersion m) then (MetaHttp 409 (Some ''conflict'') ''resource version'', m)
      else (MetaDone, \<lparr>defaultTables = runCommands cmds m, resourceVersion = resourceVersion m + 1\<rparr>))"
| "demoEngine tr (ReplaceMetadata a ts v) m =
     (if v \<noteq> resourceVersion m then (MetaHttp 409 (Some ''conflict'') ''resource version'', m)
      else (MetaDone, \<lparr>defaultTables = Some ts, resourceVersion = resourceVersion m + 1\<rparr>))"
| "demoEngine tr (TrackTable s n) m = (MetaDone, m)"
| "demoEngine tr (SetCustomization s n v) m =
     (if v \<noteq> resourceVersion m then (MetaHttp 409 (Some ''conflict'') ''resource version'', m)
      else (MetaDone, m\<lparr>resourceVersion := resourceVersion m + 1\<rparr>))"

definition demoEnv :: "jsval accessEnv" where
  "demoEnv =
     \<lparr>collate = codeUnitOrder, hash = id, digestText = (\<lambda>_. []), roleHash = id, engine = demoEngine,
      faults = (\<lambda>_ _. NoFault), elapsed = (\<lambda>_. 1), randomUUID = (\<lambda>_. ''epoch''),
      dependencyCheck = (\<lambda>d p s v m. Inr v)\<rparr>"

lemma demo_engine: "engine_ok demoEnv"
proof -
  have "reaction_ok req m r m'" if "demoEngine tr req m = (r, m')" for tr req m r m'
    using that
    by (cases "(req, m, r, m')" rule: reaction_ok.cases)
       (auto simp: replyOf_def definitiveReply_def unsupportedReply_def runCommands_def split: if_splits
         intro!: exI [of _ "length xs" for xs])
  then show ?thesis by (auto simp: engine_ok_def demoEnv_def)
qed

definition demoTable :: tableMetadata where
  "demoTable = \<lparr>metaSchema = ''app'', metaTable = ''notes'', selectPermissions = [], insertPermissions = [],
     updatePermissions = [], deletePermissions = []\<rparr>"

definition demoRoles :: roleNames where
  "demoRoles =
     \<lparr>authenticatedRole = ''druvia_v1_s_project:p1:prod_user'', anonymousRole = ''druvia_v1_s_project:p1:prod_anon''\<rparr>"

definition demoColumns :: "tableColumn list" where
  "demoColumns = [\<lparr>columnName = ''id'', isGenerated = False, identityGeneration = None\<rparr>]"

definition demoProject :: dataProject where
  "demoProject = \<lparr>projectAlias = ''demo'', projectSchema = Some ''app''\<rparr>"

definition demoMetadata :: metadataState where
  "demoMetadata = \<lparr>defaultTables = Some [demoTable], resourceVersion = 7\<rparr>"

definition demoContext :: operationContext where
  "demoContext = contextOf ''p1'' ''notes'' demoProject demoColumns demoMetadata [demoTable] demoRoles"

definition demoPolicy :: tableAccess where
  "demoPolicy = createClosedTableDataAccessPolicy\<lparr>selectMode := ModeAll\<rparr>"

definition demoGrants :: columnGrants where
  "demoGrants = \<lparr>grantSelect = [''id''], grantInsert = [], grantUpdate = [], grantAnonymous = []\<rparr>"

definition demoTarget :: "materializedPermission list" where
  "demoTarget =
     [\<lparr>permRole = ''druvia_v1_s_project:p1:prod_user'', permOperation = OpSelect,
       permission = [(''allow_aggregations'', JBool False), (''columns'', JArr [JStr ''id'']), (''filter'', JObj [])]\<rparr>]"

definition demoOperation :: "jsval operationRow" where
  "demoOperation =
     newOperation demoContext ''operation-1'' KindPolicyUpdate None [] (createSourceDigest demoEnv demoContext None [])
       demoPolicy demoGrants demoTarget
       (createTargetDigest demoEnv demoPolicy demoGrants (ctxCapabilities demoContext) demoTarget) JNull ''owner''"

definition demoDb :: "jsval accessDb" where
  "demoDb =
     \<lparr>projectRows = [(''p1'', demoProject)], environmentRows = [], managedPolicies = [],
      policyOperations = [demoOperation], projectionOperations = [], migrationRows = [], rollbackGate = False,
      tableDeletions = [], columnsOf = [(''app'', ''notes'') \<mapsto> demoColumns]\<rparr>"

definition demoWorld :: "jsval accessWorld" where
  "demoWorld = \<lparr>db = demoDb, metadata = demoMetadata, advisoryLocks = [], clock = 0, trace = []\<rparr>"

text \<open>The same, with a process that dies after the first write reached the engine.\<close>

fun isWrite :: "accessEvent \<Rightarrow> bool" where
  "isWrite (EvMeta (BulkAtomic cmds v)) = True"
| "isWrite _ = False"

definition demoCrash :: "jsval accessEnv" where
  "demoCrash = demoEnv\<lparr>faults := (\<lambda>tr ev. if isWrite ev \<and> \<not> list_ex isWrite tr then FaultAfter None else NoFault)\<rparr>"

lemma demo_runs:
  "runs demoEnv demoRoles demoOperation demoTarget" "runs demoCrash demoRoles demoOperation demoTarget"
proof -
  have "tellsApart codeUnitOrder demoRoles"
    using collation_codeUnitOrder
    by (auto simp: tellsApart_def demoRoles_def codeUnitOrder_def split: if_splits; case_tac x; case_tac y; simp)
  moreover have "contextRoles demoEnv ''p1'' = Inr demoRoles" by code_simp
  moreover have "contextRoles demoCrash ''p1'' = Inr demoRoles" by code_simp
  moreover have "operationProject demoOperation = ''p1''" "targetPermissions demoOperation = Some demoTarget"
      "sourcePermissions demoOperation = []"
    by (simp_all add: demoOperation_def newOperation_def demoContext_def contextOf_def Let_def)
  moreover have "scopedSnapshot codeUnitOrder demoRoles []"
    by (simp add: scopedSnapshot_def isSnapshot_def)
  moreover have "scopedSnapshot codeUnitOrder demoRoles demoTarget"
    unfolding scopedSnapshot_def isSnapshot_def canonicalPermission_def by code_simp
  moreover have "engine_ok demoCrash"
    using demo_engine by (simp add: engine_ok_def demoCrash_def demoEnv_def)
  moreover have "faults_ok demoEnv" "faults_ok demoCrash"
    by (auto simp: faults_ok_def demoEnv_def demoCrash_def)
  ultimately show "runs demoEnv demoRoles demoOperation demoTarget" "runs demoCrash demoRoles demoOperation demoTarget"
    using demo_engine by (simp_all add: runs_def demoEnv_def demoCrash_def)
qed

lemma demo_crashed: "fst (applyPolicyOperation demoCrash demoContext demoOperation ''owner'' demoWorld) = Crashed"
  by code_simp


lemma demo_row:
  "operationStatus demoOperation = PreviewReady" "sourcePermissions demoOperation = []"
  "operationProject demoOperation = ''p1''" "operationId demoOperation = ''operation-1''" "policyKeyOf demoContext = keyOf demoOperation"
      apply code_simp+
  done

lemma demo_start:
  "opState demoEnv demoRoles demoOperation (inPhase None PreviewReady []) demoWorld"
  "opState demoCrash demoRoles demoOperation (inPhase None PreviewReady []) demoWorld"
proof -
  have "fits demoTable demoRoles Map.empty"
    by (auto simp: fits_def entriesOf_def demoTable_def) (case_tac op; simp)+
  then have "tableHolds codeUnitOrder demoRoles ''app'' ''notes'' [] [demoTable]"
    by (auto simp: tableHolds_def findTable_def firstOf_def tableNamed_def demoTable_def normalTo_def)
  moreover have "operationSchema demoOperation = ''app''" "operationTable demoOperation = ''notes''"
    by code_simp+
  ultimately show "opState demoEnv demoRoles demoOperation (inPhase None PreviewReady []) demoWorld"
    "opState demoCrash demoRoles demoOperation (inPhase None PreviewReady []) demoWorld"
    using demo_row
    by (auto simp: opState_def rowOf_def inPhase_def demoWorld_def demoDb_def demoMetadata_def demoEnv_def demoCrash_def)
qed

theorem apply_outcome_witness:
  "opState demoCrash demoRoles demoOperation (outcome demoCrash demoOperation demoTarget None)
     (snd (applyPolicyOperation demoCrash demoContext demoOperation ''owner'' demoWorld))"
proof -
  obtain w' where a: "applyPolicyOperation demoCrash demoContext demoOperation ''owner'' demoWorld = (Crashed, w')"
    using demo_crashed by (metis prod.collapse)
  show ?thesis
    using apply_outcome [OF demo_runs(2) demo_row(5) _ _ a, of None] demo_start(2) by (simp add: demo_row a)
qed

end
