(* ===== verification/Policy_Liveness.thy ===== *)
theory Policy_Liveness
  imports Policy_Recovery
begin

text \<open>
  Recoveries end: when the engine serves and nothing fails, a recovery past the safe time answers, and
  the operation is failed with the permissions of its source.
\<close>

subsection \<open>Total triples\<close>

abbreviation total :: "('w \<Rightarrow> bool) \<Rightarrow> ('w, 'e, 'a) call \<Rightarrow> ('a \<Rightarrow> 'w \<Rightarrow> bool) \<Rightarrow> bool" where
  "total P m Q \<equiv> triple P m Q (\<lambda>_ _. False) (\<lambda>_. False)"

lemma total_catching: "total P m Q \<Longrightarrow> total P (catching m h) Q"
  by (rule triple_catching [where R' = "\<lambda>_ _. False"]) (simp_all add: triple_def)

text \<open>No fault, at most a second per effect, and an engine that carries out what it is asked.\<close>

fun served :: "metaRequest \<Rightarrow> metadataState \<Rightarrow> metaReply \<Rightarrow> metadataState \<Rightarrow> bool" where
  "served ExportMetadata m r m' = (r = MetaExported m \<and> m' = m)"
| "served (BulkAtomic cmds (Some v)) m r m' =
     (v = resourceVersion m \<longrightarrow> r = MetaDone \<and> defaultTables m' = runCommands cmds m \<and> resourceVersion m' = resourceVersion m + 1)"
| "served (ReplaceMetadata a ts v) m r m' =
     (v = resourceVersion m \<longrightarrow> r = MetaDone \<and> defaultTables m' = Some ts \<and> resourceVersion m' = resourceVersion m + 1)"
| "served (SetCustomization s n v) m r m' =
     (v = resourceVersion m \<longrightarrow> r = MetaDone \<and> defaultTables m' = defaultTables m \<and> resourceVersion m' = resourceVersion m + 1)"
| "served _ m r m' = True"

definition calm :: "'d accessEnv \<Rightarrow> bool" where
  "calm env \<longleftrightarrow>
     (\<forall>tr ev. faults env tr ev = NoFault) \<and> (\<forall>tr. elapsed env tr \<le> 1000)
     \<and> (\<forall>tr req m. case engine env tr req m of (r, m') \<Rightarrow> served req m r m')"

lemma calmD: "calm env \<Longrightarrow> engine env tr req m = (r, m') \<Longrightarrow> served req m r m'"
  unfolding calm_def by (metis old.prod.case)

lemma total_statement:
  assumes "calm env" "\<And>w. P w \<Longrightarrow> \<exists>a d. f (tick env (EvDb name) w) = Inr (a, d) \<and> Q a ((tick env (EvDb name) w)\<lparr>db := d\<rparr>)"
  shows "total P (statement env name f) Q"
  using assms unfolding triple_def statement_def effect_def calm_def by fastforce

lemma total_request:
  assumes "calm env"
    and "\<And>w r m. P w \<Longrightarrow> served req (metadata w) r m \<Longrightarrow> \<exists>x. replyOf r = Inr x \<and> Q x ((tick env (EvMeta req) w)\<lparr>metadata := m\<rparr>)"
  shows "total P (metadataRequest env req) Q"
  unfolding metadataRequest_def
proof (rule triple_chain [OF triple_look [where Q = "\<lambda>_. P"]], assumption)
  fix tr
  have "\<exists>x. replyOf (fst (engine env tr req (metadata w))) = Inr x \<and> Q x ((tick env (EvMeta req) w)\<lparr>metadata := snd (engine env tr req (metadata w))\<rparr>)"
    if "P w" for w
    using assms(2) [OF that] calmD [OF assms(1)] by (metis prod.collapse)
  then show "total P (effect env (EvMeta req) (\<lambda>w. case engine env tr req (metadata w) of (r, s) \<Rightarrow> lift id (replyOf r) (w\<lparr>metadata := s\<rparr>))) Q"
    using assms(1)
    by (auto simp: triple_def effect_def calm_def lift_def give_def throw_def case_prod_beta tick_def split: sum.splits) fastforce+
qed

subsection \<open>The state of a recovery\<close>

text \<open>The project and the columns that a context needs, and no other active operation.\<close>

definition alone :: "'d operationRow \<Rightarrow> 'd accessDb \<Rightarrow> bool" where
  "alone o1 d \<longleftrightarrow>
     (\<forall>q \<in> set (policyOperations d).
        operationId q \<noteq> operationId o1 \<and> operationProject q = operationProject o1 \<longrightarrow> \<not> activeStatus (operationStatus q))"

definition attended ::
  "'d accessEnv \<Rightarrow> roleNames \<Rightarrow> 'd operationRow \<Rightarrow> dataProject \<Rightarrow> 'd managedPolicy option
   \<Rightarrow> ('d operationRow \<Rightarrow> materializedPermission list \<Rightarrow> metadataState \<Rightarrow> int \<Rightarrow> bool) \<Rightarrow> 'd accessWorld \<Rightarrow> bool" where
  "attended env roles o1 prj b0 R w \<longleftrightarrow>
     opState env roles o1 (\<lambda>r b Z M. b = b0 \<and> R r Z M (clock w)) w
     \<and> map_of (projectRows (db w)) (operationProject o1) = Some prj
     \<and> columnsOf (db w) (operationSchema o1, operationTable o1) \<noteq> None \<and> alone o1 (db w)"

lemma attended_tick:
  assumes "attended env roles o1 prj b0 R w" "calm env"
    and "\<And>r Z M t t'. R r Z M t \<Longrightarrow> t \<le> t' \<Longrightarrow> t' \<le> t + 1000 \<Longrightarrow> R' r Z M t'"
  shows "attended env roles o1 prj b0 R' (tick env ev w)"
proof -
  have t: "clock w \<le> clock (tick env ev w)" "clock (tick env ev w) \<le> clock w + 1000"
    using assms(2) by (auto simp: tick_def calm_def)
  have "opState env roles o1 (\<lambda>r b Z M. b = b0 \<and> R' r Z M (clock (tick env ev w))) w"
    by (rule opState_mono [of _ _ _ "\<lambda>r b Z M. b = b0 \<and> R r Z M (clock w)"])
       (use assms(1,3) t in \<open>auto simp: attended_def\<close>)
  then show ?thesis
    using assms(1) untimed_tick [OF opState_untimed] by (simp add: attended_def) (simp add: tick_def)
qed

lemma attended_patch:
  assumes "attended env roles o1 prj b0 R w"
    and "\<And>r Z M. R r Z M (clock w) \<Longrightarrow> cond r \<and> R' (f r) Z M (clock w)"
    and "\<And>r. operationId (f r) = operationId r" "\<And>r. samePayload o1 r \<Longrightarrow> samePayload o1 (f r)"
  shows "\<exists>r d. (\<exists>Z M. R r Z M (clock w)) \<and> patchRows (operationId o1) cond f (db w) = Inr (Some (f r, d))
      \<and> attended env roles o1 prj b0 R' (w\<lparr>db := d\<rparr>)"
proof -
  obtain r X where r: "rowOf o1 (db w) r" "R r X (metadata w) (clock w)"
    using assms(1) by (auto simp: attended_def opState_def)
  have "filter (\<lambda>q. operationId q = operationId o1 \<and> cond q) (policyOperations (db w))
      = filter cond (filter (\<lambda>q. operationId q = operationId o1) (policyOperations (db w)))"
    by (simp add: conj_commute)
  also have "\<dots> = filter cond [r]" using r(1) by (simp add: rowOf_def)
  finally have "filter (\<lambda>q. operationId q = operationId o1 \<and> cond q) (policyOperations (db w)) = filter cond [r]" .
  then have one: "filter (\<lambda>q. operationId q = operationId o1 \<and> cond q) (policyOperations (db w)) = [r]"
    using assms(2) [OF r(2)] by simp
  have id: "operationId (f r) = operationId o1" "operationProject (f r) = operationProject o1"
    using assms(3,4) r(1) samePayload_fields(1,2) unfolding rowOf_def by metis+
  have "\<not> activeConflict (policyOperations (db w)) (f r)"
    using assms(1) id by (auto simp: activeConflict_def attended_def alone_def list_ex_iff)
  then obtain d where d: "patchRows (operationId o1) cond f (db w) = Inr (Some (f r, d))"
      "d = (db w)\<lparr>policyOperations := map (\<lambda>q. if operationId q = operationId o1 \<and> cond q then f q else q) (policyOperations (db w))\<rparr>"
    using one by (simp add: patchRows_def)
  have "opState env roles o1 (\<lambda>r b Z M. b = b0 \<and> R' r Z M (clock w)) (w\<lparr>db := d\<rparr>)"
    by (rule opState_patched [where R = "\<lambda>r b Z M. b = b0 \<and> R r Z M (clock w)", OF _ d(1) assms(3,4)]) (use assms(1,2) in \<open>auto simp: attended_def\<close>)
  then have "attended env roles o1 prj b0 R' (w\<lparr>db := d\<rparr>)"
    using assms(1,3) by (auto simp: attended_def alone_def d(2) split: if_splits)
  with d(1) r(2) show ?thesis by blast
qed


definition patient :: "('d operationRow \<Rightarrow> materializedPermission list \<Rightarrow> metadataState \<Rightarrow> int \<Rightarrow> bool) \<Rightarrow> bool" where
  "patient R \<longleftrightarrow> (\<forall>r Z M t t'. R r Z M t \<longrightarrow> t \<le> t' \<longrightarrow> R r Z M t')"

lemma attended_patient: "attended env roles o1 prj b0 R w \<Longrightarrow> calm env \<Longrightarrow> patient R \<Longrightarrow> attended env roles o1 prj b0 R (tick env ev w)"
  by (erule attended_tick) (auto simp: patient_def)

lemma total_query:
  assumes "calm env" "patient R"
  shows "total (\<lambda>w. attended env roles o1 prj b0 R w \<and> D (metadata w)) (queryDb env name f)
    (\<lambda>x w. (attended env roles o1 prj b0 R w \<and> D (metadata w)) \<and> x = f (db w))"
  unfolding queryDb_def
  by (rule total_statement [OF assms(1)]) (use attended_patient [OF _ assms] in \<open>auto simp: tick_def\<close>)

lemma total_load:
  assumes "calm env" "patient R" "contextRoles env (operationProject o1) = Inr roles"
    and "projectSchema prj = Some (operationSchema o1)" "operationSchema o1 \<noteq> []"
    and "\<And>r Z M t. R r Z M t \<Longrightarrow> isSafeInteger (resourceVersion M)"
  shows "total (attended env roles o1 prj b0 R) (loadOperationContext env (operationProject o1) (operationTable o1))
     (\<lambda>ctx w. attended env roles o1 prj b0 R w \<and> ctxMetadata ctx = metadata w
        \<and> loaded env (operationProject o1) (operationTable o1) ctx
        \<and> ctxSchema ctx = operationSchema o1 \<and> ctxAlias ctx = projectAlias prj)"
    (is "total ?P _ ?Q")
proof -
  note query = total_query [OF assms(1,2), where D = "\<lambda>_. True", simplified]
  have project: "total ?P (requireProject env (operationProject o1)) (\<lambda>p w. ?P w \<and> p = prj)"
    unfolding requireProject_def
    by (rule triple_chain [OF query])
       (use assms(4,5) in \<open>auto simp: attended_def missing_def triple_def give_def throw_def split: option.split\<close>)
  have safe: "isSafeInteger (resourceVersion (metadata w)) \<and> defaultTables (metadata w) \<noteq> None" if "?P w" for w
    using that assms(6) by (auto simp: attended_def opState_def)
  have exported: "total ?P (metadataRequest env ExportMetadata) (\<lambda>x w. ?P w \<and> x = Some (metadata w))"
    by (rule total_request [OF assms(1)])
       (use attended_patient [OF _ assms(1,2)] in \<open>auto simp: replyOf_def tick_def\<close>)
  show ?thesis
    unfolding loadOperationContext_def
  proof (rule triple_chain [OF project])
    fix p
    show "total (\<lambda>w. ?P w \<and> p = prj) (chain (queryDb env ''SELECT columns'' (\<lambda>d. columnsOf d (orEmpty (projectSchema p), operationTable o1))) (\<lambda>columns.
     case columns of
       None \<Rightarrow> throw (AccessError ''DATA_ACCESS_NOT_FOUND'' ''Table not found'')
     | Some cs \<Rightarrow>
         chain (metadataRequest env ExportMetadata) (\<lambda>exported.
         case exported of
           Some m \<Rightarrow>
             (case defaultTables m of
                Some tables \<Rightarrow>
                  if isSafeInteger (resourceVersion m)
                  then chain (lift id (contextRoles env (operationProject o1))) (\<lambda>roles.
                       give (contextOf (operationProject o1) (operationTable o1) p cs m tables roles))
                  else throw (AccessError ''DATA_ACCESS_UPSTREAM_ERROR'' ''Data interface metadata is unavailable'')
              | None \<Rightarrow> throw (AccessError ''DATA_ACCESS_UPSTREAM_ERROR'' ''Data interface metadata is unavailable''))
         | None \<Rightarrow> throw (AccessError ''DATA_ACCESS_UPSTREAM_ERROR'' ''Data interface metadata is unavailable'')))) ?Q"
      apply (rule triple_pure, hypsubst)
      apply (rule triple_chain [OF query])
      apply (rule triple_option)
       apply (use assms(4) in \<open>auto simp: triple_def attended_def orEmpty_def\<close>) [1]
      apply (rule triple_chain [OF triple_pre [OF exported]], erule conjunct1)
      apply (rule triple_option)
       apply (simp add: triple_def)
      apply (rule triple_some, elim conjE, frule safe)
      apply (auto simp: assms(3,4) lift_def chain_def give_def triple_def loaded_def contextOf_def Let_def orEmpty_def)
      done
  qed
qed


subsection \<open>Writes that succeed\<close>

definition holding ::
  "operationStatus \<Rightarrow> int \<Rightarrow> materializedPermission list
   \<Rightarrow> 'd operationRow \<Rightarrow> materializedPermission list \<Rightarrow> metadataState \<Rightarrow> int \<Rightarrow> bool" where
  "holding st v X r Z M t \<longleftrightarrow> operationStatus r = st \<and> Z = X \<and> resourceVersion M = v"

lemma patient_holding [simp]: "patient (holding st v X)"
  by (simp add: patient_def holding_def)

lemma updateFirst_some: "findTable tables s n = Some t \<Longrightarrow> \<exists>ts. updateFirst (tableNamed s n) f tables = Some ts"
  by (induction tables) (auto simp: findTable_def firstOf_def split: list.splits)

lemma attended_metadata:
  assumes "attended env roles o1 prj b0 (holding st v X) w" "defaultTables m = Some ts" "resourceVersion m = v'"
    and "\<And>us. defaultTables (metadata w) = Some us \<Longrightarrow>
      tableHolds (collate env) roles (operationSchema o1) (operationTable o1) X us \<Longrightarrow>
      tableHolds (collate env) roles (operationSchema o1) (operationTable o1) Y ts"
  shows "attended env roles o1 prj b0 (holding st v' Y) (w\<lparr>metadata := m\<rparr>)"
  using assms unfolding attended_def opState_def holding_def by auto

lemma total_mutation:
  assumes calm: "calm env"
    and snap: "scopedSnapshot (collate env) roles X" "scopedSnapshot (collate env) roles Y"
    and ctx: "loaded env (operationProject o1) (operationTable o1) ctx" "contextRoles env (operationProject o1) = Inr roles"
      "ctxSchema ctx = operationSchema o1"
    and cmds: "buildPermissionCommands ctx X Y \<noteq> []"
  shows "total (\<lambda>w. attended env roles o1 prj b0 (holding st v X) w \<and> ctxMetadata ctx = metadata w)
      (applyPermissionMutation env ctx X Y (ctxVersion ctx) renew)
      (\<lambda>_. attended env roles o1 prj b0 (holding st (v + 1) Y))"
    (is "total ?P _ ?Q")
proof -
  note l = loaded_context [OF ctx(1,2)]
  let ?s = "operationSchema o1" and ?n = "operationTable o1"
  let ?cmds = "buildPermissionCommands ctx X Y"
  have all: "?cmds = dropAll ?s ?n X @ createAll ?s ?n Y" using commands_all l ctx(3) by simp
  have dist: "distinct (map permissionKey X)" "distinct (map permissionKey Y)" "\<forall>m \<in> set Y. canonicalPermission (collate env) m"
    using snap by (simp_all add: scopedSnapshot_def isSnapshot_def)
  have ready: "attended env roles o1 prj b0 (holding st v X) (tick env ev w) \<and> metadata (tick env ev w) = metadata w
      \<and> ctxVersion ctx = resourceVersion (metadata w) \<and> resourceVersion (metadata w) = v" if "?P w" for w ev
    using that l(2) attended_patient [OF _ calm patient_holding] by (auto simp: tick_def attended_def opState_def holding_def)
  have atomic: "total ?P (ignoring (metadataRequest env (BulkAtomic ?cmds (Some (ctxVersion ctx))))) ?Q"
  proof (rule triple_ignoring [OF total_request [OF calm]])
    fix w r m
    assume P: "?P w" and serve: "served (BulkAtomic ?cmds (Some (ctxVersion ctx))) (metadata w) r m"
    obtain us where us: "defaultTables (metadata w) = Some us" using P by (auto simp: attended_def opState_def)
    have "defaultTables m = Some (fold runCommand ?cmds us)" "resourceVersion m = v + 1" "r = MetaDone"
      using ready [OF P] serve us by (simp_all add: runCommands_def)
    then have "attended env roles o1 prj b0 (holding st (v + 1) Y) ((tick env ev w)\<lparr>metadata := m\<rparr>)" for ev
      by (intro attended_metadata [of env roles o1 prj b0 st v X]) (use ready [OF P] replacing_states(2) [OF _ dist] us in \<open>auto simp: all\<close>)
    then show "\<exists>x. replyOf r = Inr x \<and> attended env roles o1 prj b0 (holding st (v + 1) Y)
        ((tick env (EvMeta (BulkAtomic ?cmds (Some (ctxVersion ctx)))) w)\<lparr>metadata := m\<rparr>)"
      using \<open>r = MetaDone\<close> by (simp add: replyOf_def)
  qed
  let ?build = "buildMetadataWithTablePermissions (collate env) (ctxMetadata ctx) ?s ?n (scopedRoles roles) Y"
  have replaced: "total ?P (chain (lift id ?build) (\<lambda>ts. ignoring (metadataRequest env (ReplaceMetadata True ts (ctxVersion ctx))))) ?Q"
  proof (rule triple_some)
    fix w assume P: "?P w"
    obtain us t where us: "defaultTables (metadata w) = Some us" "findTable us ?s ?n = Some t"
      using P by (auto simp: attended_def opState_def tableHolds_def)
    then obtain ts where ts: "?build = Inr ts"
      using P updateFirst_some [OF us(2), of "replaceTable (collate env) (scopedRoles roles) Y"]
      by (auto simp: buildMetadataWithTablePermissions_def)
    have held: "tableHolds (collate env) roles ?s ?n Y ts" by (rule tableHolds_replace [OF ts dist(2,3)])
    show "total ?P (chain (lift id ?build) (\<lambda>ts. ignoring (metadataRequest env (ReplaceMetadata True ts (ctxVersion ctx))))) ?Q"
    proof (rule triple_lift_ok [OF ts], rule triple_ignoring [OF total_request [OF calm]])
      fix w r m
      assume P: "?P w" and serve: "served (ReplaceMetadata True ts (ctxVersion ctx)) (metadata w) r m"
      have "defaultTables m = Some ts" "resourceVersion m = v + 1" "r = MetaDone"
        using ready [OF P] serve by simp_all
      then have "attended env roles o1 prj b0 (holding st (v + 1) Y) ((tick env ev w)\<lparr>metadata := m\<rparr>)" for ev
        by (intro attended_metadata [of env roles o1 prj b0 st v X]) (use ready [OF P] held in simp_all)
      then show "\<exists>x. replyOf r = Inr x \<and> attended env roles o1 prj b0 (holding st (v + 1) Y)
          ((tick env (EvMeta (ReplaceMetadata True ts (ctxVersion ctx))) w)\<lparr>metadata := m\<rparr>)"
        using \<open>r = MetaDone\<close> by (simp add: replyOf_def)
    qed
  qed
  show ?thesis
    unfolding applyPermissionMutation_def replaceHasuraTablePermissions_def applyHasuraMetadataCommands_def l(1,3) ctx(3)
    using cmds replaced by (auto intro!: total_catching atomic)
qed

lemma total_customize:
  assumes "calm env" "loaded env (operationProject o1) (operationTable o1) ctx"
  shows "total (\<lambda>w. attended env roles o1 prj b0 (holding st v X) w \<and> ctxMetadata ctx = metadata w)
      (ignoring (metadataRequest env (SetCustomization s n (ctxVersion ctx))))
      (\<lambda>_. attended env roles o1 prj b0 (holding st (v + 1) X))"
proof (rule triple_ignoring [OF total_request [OF assms(1)]])
  fix w r m
  assume P: "attended env roles o1 prj b0 (holding st v X) w \<and> ctxMetadata ctx = metadata w"
    and serve: "served (SetCustomization s n (ctxVersion ctx)) (metadata w) r m"
  have v: "ctxVersion ctx = resourceVersion (metadata w)" "resourceVersion (metadata w) = v"
    using P assms(2) by (auto simp: loaded_def attended_def opState_def holding_def)
  obtain us where "defaultTables (metadata w) = Some us" using P by (auto simp: attended_def opState_def)
  with v serve have m: "defaultTables m = Some us" "resourceVersion m = v + 1" "r = MetaDone" by simp_all
  have "attended env roles o1 prj b0 (holding st (v + 1) X) ((tick env ev w)\<lparr>metadata := m\<rparr>)" for ev
    by (rule attended_metadata [OF attended_patient [OF conjunct1 [OF P] assms(1) patient_holding] m(1,2)])
       (use \<open>defaultTables (metadata w) = Some us\<close> in \<open>simp add: tick_def\<close>)
  then show "\<exists>x. replyOf r = Inr x \<and> attended env roles o1 prj b0 (holding st (v + 1) X)
      ((tick env (EvMeta (SetCustomization s n (ctxVersion ctx))) w)\<lparr>metadata := m\<rparr>)"
    using m(3) by (simp add: replyOf_def)
qed


subsection \<open>Recoveries that succeed\<close>

definition leased ::
  "string \<Rightarrow> int \<Rightarrow> materializedPermission list
   \<Rightarrow> 'd operationRow \<Rightarrow> materializedPermission list \<Rightarrow> metadataState \<Rightarrow> int \<Rightarrow> bool" where
  "leased epoch v X r Z M t \<longleftrightarrow>
     holding OpRecovering v X r Z M t \<and> writerEpoch r = Some epoch \<and> (\<exists>d. writeDeadlineAt r = Some d \<and> t + 1000 < d)"

definition atStart ::
  "'d operationRow \<Rightarrow> int \<Rightarrow> int \<Rightarrow> materializedPermission list
   \<Rightarrow> 'd operationRow \<Rightarrow> materializedPermission list \<Rightarrow> metadataState \<Rightarrow> int \<Rightarrow> bool" where
  "atStart o1 s v X r Z M t \<longleftrightarrow> r = o1 \<and> Z = X \<and> resourceVersion M = v \<and> s \<le> t"

lemma patient_atStart [simp]: "patient (atStart o1 s v X)"
  by (auto simp: patient_def atStart_def)

lemma attended_metadata_of:
  "attended env roles o1 prj b0 R w \<Longrightarrow> attended env roles o1 prj b0 (\<lambda>r Z M t. R r Z M t \<and> M = metadata w) w"
  unfolding attended_def opState_def by blast

lemma total_transition:
  assumes calm: "calm env" and "\<And>r Z M t t'. R r Z M t \<Longrightarrow> t \<le> t' \<Longrightarrow> t' \<le> t + 1000 \<Longrightarrow> Rt r Z M t'"
    and "expected \<noteq> []" "patchStatus p = Some st'"
    and "\<And>r Z M t t'. Rt r Z M t \<Longrightarrow> operationStatus r \<in> set expected \<and> R' (applyPatch t' p r) Z M t"
  shows "total (\<lambda>w. attended env roles o1 prj b0 R w \<and> c = metadata w) (transitionPolicyOperation env (operationId o1) expected p)
     (\<lambda>r w. (attended env roles o1 prj b0 R' w \<and> c = metadata w) \<and> operationStatus r = st')"
proof -
  have "p \<noteq> noPatch" using assms(4) by (auto simp: noPatch_def)
  have status: "operationStatus (applyPatch t p r) = st'" for t and r :: "'a operationRow"
    using assms(4) by (simp add: applyPatch_def orKeep_def)
  have "total (\<lambda>w. attended env roles o1 prj b0 R w \<and> c = metadata w)
      (statement env ''UPDATE policy_operations'' (\<lambda>w.
        case patchRows (operationId o1) (\<lambda>r. operationStatus r \<in> set expected) (applyPatch (clock w) p) (db w) of
          Inl e \<Rightarrow> Inl e | Inr None \<Rightarrow> Inl TransitionError | Inr (Some r) \<Rightarrow> Inr r))
      (\<lambda>r w. (attended env roles o1 prj b0 R' w \<and> c = metadata w) \<and> operationStatus r = st')"
  proof (rule total_statement [OF calm])
    fix w assume P: "attended env roles o1 prj b0 R w \<and> c = metadata w"
    let ?w = "tick env (EvDb ''UPDATE policy_operations'') w"
    have "\<exists>r d. (\<exists>Z M. Rt r Z M (clock ?w)) \<and> patchRows (operationId o1) (\<lambda>r. operationStatus r \<in> set expected) (applyPatch (clock ?w) p) (db ?w)
        = Inr (Some (applyPatch (clock ?w) p r, d)) \<and> attended env roles o1 prj b0 R' (?w\<lparr>db := d\<rparr>)"
      by (rule attended_patch [OF attended_tick [OF conjunct1 [OF P] calm assms(2)]])
         (use assms(5) in \<open>auto simp: samePayload_patch\<close>, simp add: applyPatch_def)
    then show "\<exists>a d. (case patchRows (operationId o1) (\<lambda>r. operationStatus r \<in> set expected) (applyPatch (clock ?w) p) (db ?w) of
          Inl e \<Rightarrow> Inl e | Inr None \<Rightarrow> Inl TransitionError | Inr (Some r) \<Rightarrow> Inr r) = Inr (a, d)
        \<and> (attended env roles o1 prj b0 R' (?w\<lparr>db := d\<rparr>) \<and> c = metadata (?w\<lparr>db := d\<rparr>)) \<and> operationStatus a = st'"
      using P status by (auto simp: tick_def)
  qed
  then show ?thesis using \<open>p \<noteq> noPatch\<close> assms(3) by (simp add: transitionPolicyOperation_def)
qed

lemma total_lease:
  assumes "calm env"
  shows "total (\<lambda>w. attended env roles o1 prj b0 (leased epoch v X) w \<and> c = metadata w)
     (renewLease env (operationId o1) OpRecovering epoch)
     (\<lambda>_ w. attended env roles o1 prj b0 (holding OpRecovering v X) w \<and> c = metadata w)"
  unfolding renewLease_def now_def renewPolicyOperationWriterLease_def
proof (rule triple_chain [OF triple_look [where Q = "\<lambda>_ w. attended env roles o1 prj b0 (leased epoch v X) w \<and> c = metadata w"]], assumption,
    rule total_statement [OF assms])
  fix u w assume P: "attended env roles o1 prj b0 (leased epoch v X) w \<and> c = metadata w"
  let ?w = "tick env (EvDb ''UPDATE policy_operations lease'') w"
  let ?cond = "\<lambda>r. operationStatus r = OpRecovering \<and> writerEpoch r = Some epoch
      \<and> (case writeDeadlineAt r of Some t \<Rightarrow> clock ?w < t | None \<Rightarrow> False)"
  let ?f = "\<lambda>r. r\<lparr>writeDeadlineAt := Some (u + POLICY_WRITER_LEASE_MS), operationUpdatedAt := Some (clock ?w)\<rparr>"
  have "attended env roles o1 prj b0 (\<lambda>r Z M t. ?cond r \<and> holding OpRecovering v X r Z M t) ?w"
  proof -
    have "clock ?w \<le> clock w + 1000" using assms by (auto simp: calm_def tick_def)
    then have "opState env roles o1 (\<lambda>r b Z M. b = b0 \<and> ?cond r \<and> holding OpRecovering v X r Z M (clock ?w)) w"
      using P unfolding attended_def by (elim conjE, elim opState_mono) (auto simp: leased_def holding_def)
    then show ?thesis
      using P untimed_tick [OF opState_untimed] by (simp add: attended_def) (simp add: tick_def)
  qed
  then have "\<exists>r d. (\<exists>Z M. ?cond r \<and> holding OpRecovering v X r Z M (clock ?w)) \<and> patchRows (operationId o1) ?cond ?f (db ?w) = Inr (Some (?f r, d))
      \<and> attended env roles o1 prj b0 (holding OpRecovering v X) (?w\<lparr>db := d\<rparr>)"
    by (rule attended_patch) (auto simp: samePayload_lease holding_def)
  then show "\<exists>a d. (case patchRows (operationId o1) ?cond ?f (db ?w) of
         Inl e \<Rightarrow> Inl e | Inr None \<Rightarrow> Inl LeaseError | Inr (Some (r, d)) \<Rightarrow> Inr ((), d)) = Inr (a, d)
      \<and> attended env roles o1 prj b0 (holding OpRecovering v X) (?w\<lparr>db := d\<rparr>) \<and> c = metadata (?w\<lparr>db := d\<rparr>)"
    using P by (auto simp: tick_def)
qed


lemma total_startWriter:
  assumes "calm env" "stuck (operationStatus o1)"
  shows "total (\<lambda>w. attended env roles o1 prj b0 (atStart o1 s v X) w \<and> c = metadata w)
     (startWriter env (operationId o1) [operationStatus o1] OpRecovering ph)
     (\<lambda>epoch w. attended env roles o1 prj b0 (leased epoch v X) w \<and> c = metadata w)"
  unfolding startWriter_def uuid_def now_def
proof (rule triple_chain [OF triple_look [where Q = "\<lambda>_ w. attended env roles o1 prj b0 (atStart o1 s v X) w \<and> c = metadata w"]], assumption)
  fix epoch
  let ?at = "\<lambda>t r Z M t'. atStart o1 s v X r Z M t' \<and> t' = t"
  have "total (\<lambda>w. attended env roles o1 prj b0 (?at t) w \<and> c = metadata w)
      (chain (transitionPolicyOperation env (operationId o1) [operationStatus o1] (leasePatch OpRecovering ph epoch t)) (\<lambda>_. give epoch))
      (\<lambda>epoch w. attended env roles o1 prj b0 (leased epoch v X) w \<and> c = metadata w)" for t
    by (rule triple_chain [OF total_transition [OF assms(1), where st' = OpRecovering and R' = "leased epoch v X"
            and Rt = "\<lambda>r Z M t'. atStart o1 s v X r Z M t' \<and> t' \<le> t + 1000"]])
       (auto simp: leasePatch_def noPatch_def leased_def holding_def atStart_def applyPatch_def orKeep_def POLICY_WRITER_LEASE_MS_def
         intro: triple_give)
  moreover have "attended env roles o1 prj b0 (?at (clock w)) w" if "attended env roles o1 prj b0 (atStart o1 s v X) w" for w
    using that by (simp add: attended_def)
  ultimately show "total (\<lambda>w. attended env roles o1 prj b0 (atStart o1 s v X) w \<and> c = metadata w)
      (chain (look clock) (\<lambda>t. chain (transitionPolicyOperation env (operationId o1) [operationStatus o1]
         (leasePatch OpRecovering ph epoch t)) (\<lambda>_. give epoch)))
      (\<lambda>epoch w. attended env roles o1 prj b0 (leased epoch v X) w \<and> c = metadata w)"
    by (intro triple_chain [OF triple_look [where Q = "\<lambda>t w. attended env roles o1 prj b0 (?at t) w \<and> c = metadata w"]]) auto
qed

text \<open>The permissions written back can be read as a policy, and are those of the source.\<close>

definition readable :: "'d accessEnv \<Rightarrow> roleNames \<Rightarrow> 'd operationRow \<Rightarrow> 'd managedPolicy option \<Rightarrow> bool" where
  "readable env roles o1 b0 \<longleftrightarrow>
     (\<forall>ctx tables. loaded env (operationProject o1) (operationTable o1) ctx \<and> ctxSchema ctx = operationSchema o1
        \<and> defaultTables (ctxMetadata ctx) = Some tables
        \<and> tableHolds (collate env) roles (operationSchema o1) (operationTable o1) (sourcePermissions o1) tables \<longrightarrow>
        bindE (snapshotWithCapabilities env ctx (restoreCapabilities o1 b0)) (\<lambda>s. samePermissions env s (sourcePermissions o1)) = Inr True)"


lemma chain_give: "chain (give x) f = f x"
  by (simp add: chain_def give_def fun_eq_iff)

lemma triple_ghost: "(\<And>c. triple (\<lambda>w. P w \<and> c = f w) m Q R K) \<Longrightarrow> triple P m Q R K"
  by (auto simp: triple_def)

lemma total_restoreRecorded:
  assumes run: "runs env roles o1 T" and calm: "calm env" and X: "scopedSnapshot (collate env) roles X"
    and prj: "projectSchema prj = Some (operationSchema o1)" "operationSchema o1 \<noteq> []"
    and v: "0 \<le> v" "v < 2 ^ 53 - 1" and read: "readable env roles o1 b0"
    and ctx: "loaded env (operationProject o1) (operationTable o1) ctx" "ctxSchema ctx = operationSchema o1" "ctxVersion ctx = v"
  shows "total (\<lambda>w. attended env roles o1 prj b0 (leased epoch v X) w \<and> ctxMetadata ctx = metadata w)
     (restoreRecorded env ctx o1 b0 X epoch) (\<lambda>r w. operationStatus r = OpFailed)"
proof -
  note r = runsD [OF run]
  note l = loaded_context [OF ctx(1) r(5)]
  let ?S = "sourcePermissions o1"
  let ?renew = "renewLease env (operationId o1) OpRecovering epoch"
  let ?H = "\<lambda>v X. attended env roles o1 prj b0 (holding OpRecovering v X)"
  have safe: "isSafeInteger (resourceVersion M)" if "holding st (v + 1) Z r Y M t" for st Z r Y M t
    using that v by (auto simp: holding_def isSafeInteger_def)
  have written: "total (\<lambda>w. ?H v X w \<and> ctxMetadata ctx = metadata w) (if buildPermissionCommands ctx X ?S \<noteq> []
        then applyPermissionMutation env ctx X ?S (ctxVersion ctx) ?renew
        else ignoring (metadataRequest env (SetCustomization (ctxSchema ctx) (operationTable o1) (ctxVersion ctx))))
      (\<lambda>_. \<lambda>w. ?H (v + 1) ?S w)"
  proof (rule triple_if)
    assume "buildPermissionCommands ctx X ?S \<noteq> []"
    then show "total (\<lambda>w. ?H v X w \<and> ctxMetadata ctx = metadata w) (applyPermissionMutation env ctx X ?S (ctxVersion ctx) ?renew) (\<lambda>_. \<lambda>w. ?H (v + 1) ?S w)"
      by (rule total_mutation [OF calm X r(6) ctx(1) r(5) ctx(2)])
  next
    assume "\<not> buildPermissionCommands ctx X ?S \<noteq> []"
    then have "X = ?S" by (simp add: buildPermissionCommands_def)
    then show "total (\<lambda>w. ?H v X w \<and> ctxMetadata ctx = metadata w)
        (ignoring (metadataRequest env (SetCustomization (ctxSchema ctx) (operationTable o1) (ctxVersion ctx)))) (\<lambda>_. \<lambda>w. ?H (v + 1) ?S w)"
      using total_customize [OF calm ctx(1)] by simp
  qed
  have finish: "total (?H (v + 1) ?S) (finishOperation env (operationId o1) [OpRecovering] OpFailed err) (\<lambda>r w. operationStatus r = OpFailed)" for err
    unfolding finishOperation_def now_def
    apply (rule triple_chain [OF triple_look [where Q = "\<lambda>_. ?H (v + 1) ?S"]], assumption)
    apply (rule triple_ghost [where f = metadata])
    apply (rule triple_post [OF total_transition [OF calm, where Rt = "holding OpRecovering (v + 1) ?S"
             and R' = "holding OpFailed (v + 1) ?S" and st' = OpFailed]])
        apply (simp add: holding_def)
       apply simp
      apply (simp add: finishPatch_def noPatch_def)
     apply (simp add: holding_def)
    apply simp
    done
  show ?thesis
    unfolding restoreRecorded_def Let_def l(3,4) before_def verifySource_def liftText_def
    apply (rule triple_chain [OF triple_pre [OF total_lease [OF calm, where c = "ctxMetadata ctx"]]], assumption)
    apply (rule triple_chain [OF written])
    apply (rule triple_chain [OF total_load [OF calm patient_holding r(5) prj]])
     apply (rule safe, assumption)
    subgoal for u e c
      apply (rule triple_some, elim conjE)
      subgoal for w
      proof -
        assume w: "?H (v + 1) ?S w" "ctxMetadata c = metadata w" "loaded env (operationProject o1) (operationTable o1) c" "ctxSchema c = operationSchema o1"
        have B: "bindE (snapshotWithCapabilities env c (restoreCapabilities o1 b0)) (\<lambda>s. samePermissions env s ?S) = Inr True"
          using w read by (auto simp: readable_def attended_def opState_def holding_def)
        have "ctxVersion ctx < ctxVersion c"
          using w ctx(3) by (auto simp: loaded_def attended_def opState_def holding_def)
        then show ?thesis
          unfolding B lift_def require_def sum.case chain_give if_True by (simp add: chain_give) (rule triple_pre [OF finish], simp)
      qed
      done
    done
qed


lemma attended_row:
  assumes "attended env roles o1 prj b0 (atStart o1 s v X) w"
  shows "firstOf (operationsWith (operationProject o1) (operationId o1) (db w)) = Some o1"
    and "map_of (managedPolicies (db w)) (keyOf o1) = b0"
  using assms persisted_row [of o1 "db w" o1] by (auto simp: attended_def opState_def atStart_def)

text \<open>The whole recovery, as a total triple.\<close>

lemma total_recover:
  assumes run: "runs env roles o1 T" and calm: "calm env" and st: "stuck (operationStatus o1)"
    and X: "scopedSnapshot (collate env) roles X"
    and accepted: "assertRecoverablePermissionState env X o1 = Inr ()"
    and prj: "projectSchema prj = Some (operationSchema o1)" "operationSchema o1 \<noteq> []" "projectAlias prj \<noteq> []"
    and v: "0 \<le> v" "v < 2 ^ 53 - 1" and read: "readable env roles o1 b0"
    and safe: "policyOperationRecoverySafeAt o1 = Some s"
  shows "total (attended env roles o1 prj b0 (atStart o1 s v X))
     (recoverBody env (operationProject o1) (operationId o1) (sourceDigest o1) (projectAlias prj))
     (\<lambda>r w. stateStatus r = OpFailed)"
proof -
  note r = runsD [OF run]
  let ?P = "attended env roles o1 prj b0 (atStart o1 s v X)"
  have query: "total (\<lambda>w. ?P w \<and> c = metadata w) (queryDb env name f) (\<lambda>x w. (?P w \<and> c = metadata w) \<and> x = f (db w))" for c name f
    using total_query [OF calm patient_atStart, where D = "\<lambda>m. c = m"] by simp
  note query0 = total_query [OF calm patient_atStart, where D = "\<lambda>_. True", simplified]
  have version: "isSafeInteger (resourceVersion M)" if "atStart o1 s v X q Z M t" for q Z M t
    using that v by (auto simp: atStart_def isSafeInteger_def)
  have context1: "total (\<lambda>w. ?P w \<and> ctxMetadata ctx = metadata w)
     (chain (lift id (assertOperationContext o1 ctx)) (\<lambda>_. chain (getManagedPolicy env (policyKeyOf ctx)) (\<lambda>baseline.
         chain (lift id (assertProjectAlias ctx (projectAlias prj))) (\<lambda>_. chain now (\<lambda>t.
          chain (require (case policyOperationRecoverySafeAt o1 of Some s \<Rightarrow> s \<le> t | None \<Rightarrow> False) e) (\<lambda>_.
          chain (lift id (snapshotRecoveryPermissions env ctx)) (\<lambda>current.
          chain (lift id (assertRecoverablePermissionState env current o1)) (\<lambda>_.
          chain (startWriter env (operationId o1) [operationStatus o1] OpRecovering ''restore_source'') (\<lambda>epoch.
            catching (chain (restoreRecorded env ctx o1 baseline current epoch) (\<lambda>o2. give (toOperationState o2))) h)))))))))
     (\<lambda>r w. stateStatus r = OpFailed)"
    if l: "loaded env (operationProject o1) (operationTable o1) ctx" "ctxSchema ctx = operationSchema o1" "ctxAlias ctx = projectAlias prj"
    for ctx e h
  proof (rule triple_some)
    fix w0 assume w0: "?P w0 \<and> ctxMetadata ctx = metadata w0"
    then have v0: "ctxVersion ctx = v" using l(1) by (auto simp: loaded_def attended_def opState_def atStart_def)
    have snap: "snapshotRecoveryPermissions env ctx = Inr X"
      by (rule loaded_snapshot [OF r(3,5) X l(1,2), of w0 "\<lambda>r b Z M. b = b0 \<and> atStart o1 s v X r Z M (clock w0)"])
         (use w0 in \<open>auto simp: atStart_def attended_def\<close>)
    have key: "policyKeyOf ctx = keyOf o1" using l(1,2) by (simp add: policyKeyOf_def loaded_def)
    have ok: "assertOperationContext o1 ctx = Inr ()" "assertProjectAlias ctx (projectAlias prj) = Inr ()"
      using l(2,3) prj(3) by (simp_all add: assertOperationContext_def assertProjectAlias_def guardE_def)
    show "total (\<lambda>w. ?P w \<and> ctxMetadata ctx = metadata w)
     (chain (lift id (assertOperationContext o1 ctx)) (\<lambda>_. chain (getManagedPolicy env (policyKeyOf ctx)) (\<lambda>baseline.
         chain (lift id (assertProjectAlias ctx (projectAlias prj))) (\<lambda>_. chain now (\<lambda>t.
          chain (require (case policyOperationRecoverySafeAt o1 of Some s \<Rightarrow> s \<le> t | None \<Rightarrow> False) e) (\<lambda>_.
          chain (lift id (snapshotRecoveryPermissions env ctx)) (\<lambda>current.
          chain (lift id (assertRecoverablePermissionState env current o1)) (\<lambda>_.
          chain (startWriter env (operationId o1) [operationStatus o1] OpRecovering ''restore_source'') (\<lambda>epoch.
            catching (chain (restoreRecorded env ctx o1 baseline current epoch) (\<lambda>o2. give (toOperationState o2))) h)))))))))
       (\<lambda>r w. stateStatus r = OpFailed)"
      unfolding getManagedPolicy_def now_def
      apply (rule triple_lift_ok [OF ok(1)])
      apply (rule triple_chain [OF query])
      subgoal for b
        apply (rule triple_some, elim conjE, frule attended_row(2), thin_tac "ctxMetadata ctx = _")
        apply (unfold key)
        apply (rule triple_pre [of "\<lambda>w. ?P w \<and> ctxMetadata ctx = metadata w"])
         apply (rule triple_lift_ok [OF ok(2)])
         apply (rule triple_chain [OF triple_look [where Q = "\<lambda>t w. (?P w \<and> ctxMetadata ctx = metadata w) \<and> s \<le> t"]])
          apply (auto simp: attended_def opState_def atStart_def) [1]
         apply (rule triple_pure)
         apply (unfold safe option.case require_def)
         apply (simp (no_asm_simp) only: if_True chain_give)
         apply (rule triple_lift_ok [OF snap])
         apply (rule triple_lift_ok [OF accepted])
         apply (rule triple_chain [OF total_startWriter [OF calm st]])
         apply (rule total_catching)
         apply (rule triple_chain [OF total_restoreRecorded [OF run calm X prj(1,2) v read l(1,2) v0]])
         apply (rule triple_some)
         apply (rule triple_give, simp add: toOperationState_def)
        apply blast
        done
      done
  qed
  have found: "total ?P (requireOperation env (operationProject o1) (operationId o1) None) (\<lambda>r w. ?P w \<and> r = o1)"
    unfolding requireOperation_def getPolicyOperation_def
    by (rule triple_chain [OF query0]) (auto simp: triple_def attended_row(1) give_def throw_def split: option.splits)
  have current: "total ?P (assertOperationSchemaCurrent env o1) (\<lambda>_. ?P)"
    unfolding assertOperationSchemaCurrent_def requireProject_def
    apply (rule triple_chain [where Q = "\<lambda>p w. ?P w \<and> p = prj"])
     apply (rule triple_chain [OF query0])
     apply (use prj in \<open>auto simp: attended_def missing_def triple_def give_def throw_def split: option.split\<close>) [1]
    apply (use prj in \<open>auto simp: triple_def require_def orEmpty_def give_def\<close>)
    done
  show ?thesis
    unfolding recoverBody_def before_def
    apply (rule triple_chain [OF found])
    apply (rule triple_pure, hypsubst)
    apply (rule triple_if)
     apply (use st in \<open>simp add: stuck_def\<close>)
    apply (simp only: require_def refl if_True chain_give)
    apply (rule triple_chain [OF current])
    apply (rule triple_chain [OF total_load [OF calm patient_atStart r(5) prj(1,2)]])
     apply (erule version)
    apply (rule triple_some, elim conjE)
    apply (rule triple_pre, rule context1 [unfolded require_def], assumption+)
    apply blast
    done
qed



text \<open>The update of the example, after its process died between the write and its verification.\<close>

definition demoStuck :: "jsval operationRow" where
  "demoStuck = demoOperation\<lparr>operationStatus := OpApplying, operationPhase := ''apply_permissions'',
     writerEpoch := Some ''epoch'', writeDeadlineAt := Some 30005, operationStartedAt := Some 4, operationUpdatedAt := Some 6\<rparr>"

definition demoOpened :: tableMetadata where
  "demoOpened = demoTable\<lparr>selectPermissions :=
     [\<lparr>entryRole = ''druvia_v1_s_project:p1:prod_user'', entryPermission = permission (hd demoTarget)\<rparr>]\<rparr>"

definition demoStuckWorld :: "jsval accessWorld" where
  "demoStuckWorld = (snd (applyPolicyOperation demoCrash demoContext demoOperation ''owner'' demoWorld))\<lparr>clock := 100000\<rparr>"

lemma demo_stuck_world:
  "policyOperations (db demoStuckWorld) = [demoStuck] \<and> managedPolicies (db demoStuckWorld) = []
   \<and> projectRows (db demoStuckWorld) = [(''p1'', demoProject)] \<and> columnsOf (db demoStuckWorld) (''app'', ''notes'') = Some demoColumns
   \<and> metadata demoStuckWorld = \<lparr>defaultTables = Some [demoOpened], resourceVersion = 8\<rparr> \<and> clock demoStuckWorld = 100000"
  by code_simp

lemma inspect_nothing:
  assumes "fits t roles Map.empty"
  shows "materializeInspectedTableDataAccess (inspectTableDataAccessMetadata (Some t) roles caps) roles caps = Inr []"
proof -
  have none: "entriesOf t op (authenticatedRole roles) = []" "entriesOf t op (anonymousRole roles) = []" for op
    using assms by (simp_all add: fits_def)
  have "inspectOperation t roles caps op i = i\<lparr>legacyRoles := legacyRoles (inspectOperation t roles caps op i)\<rparr>" for op i
    by (simp add: inspectOperation_def noteEntries_def inspectAuthenticated_def inspectAnonymous_def none Let_def)
  then have "\<exists>l. fold (inspectOperation t roles caps) ops i = i\<lparr>legacyRoles := l\<rparr>" for ops i
  proof (induction ops arbitrary: i)
    case (Cons op ops)
    then obtain l where "fold (inspectOperation t roles caps) ops (inspectOperation t roles caps op i)
        = (inspectOperation t roles caps op i)\<lparr>legacyRoles := l\<rparr>" by blast
    then show ?case using Cons.prems [of op i] by (metis fold_simps(2) inspection.update_convs(4) inspection.surjective)
  qed (metis fold_simps(1) inspection.surjective inspection.update_convs(4))
  then obtain l where "fold (inspectOperation t roles caps) operationList closedInspection = closedInspection\<lparr>legacyRoles := l\<rparr>" by blast
  then show ?thesis
    by (simp add: inspectTableDataAccessMetadata_def materializeInspectedTableDataAccess_def Let_def closedInspection_def)
       (simp add: materializeTableDataAccessPolicy_def createClosedTableDataAccessPolicy_def validateTableDataAccessInput_def
         validateConstraint_def validateOwner_def usesOwnerMode_def operationList_def guardE_def bindE_def)
qed


lemma demo_stuck_row:
  "operationStatus demoStuck = OpApplying" "sourcePermissions demoStuck = []" "samePayload demoOperation demoStuck"
  "operationProject demoStuck = ''p1''" "operationId demoStuck = ''operation-1''" "operationSchema demoStuck = ''app''"
  "operationTable demoStuck = ''notes''" "policyOperationRecoverySafeAt demoStuck = Some 35005"
  apply code_simp
       apply code_simp
      apply (cases demoOperation, simp add: samePayload_def demoStuck_def)
     apply code_simp+
  done

lemma demo_attended:
  "attended demoEnv demoRoles demoStuck demoProject None (atStart demoStuck 35005 8 demoTarget) demoStuckWorld"
proof -
  let ?F = "[(''druvia_v1_s_project:p1:prod_user'', OpSelect) \<mapsto> permission (hd demoTarget)]"
  have "fits demoOpened demoRoles ?F"
  proof -
    have "map entryPermission (entriesOf demoOpened op role) = (case ?F (role, op) of None \<Rightarrow> [] | Some p \<Rightarrow> [p])"
      if "role \<in> set (scopedRoles demoRoles)" for role op
      using that by (cases op) (auto simp: entriesOf_def demoOpened_def demoTable_def demoRoles_def)
    then show ?thesis by (simp add: fits_def)
  qed
  moreover have "normalTo codeUnitOrder demoTarget ?F"
  proof -
    have "normalizePermission codeUnitOrder (permission (hd demoTarget)) = Inr (permission (hd demoTarget))" by code_simp
    then show ?thesis by (simp add: normalTo_def demoTarget_def permissionKey_def)
  qed
  moreover have "findTable [demoOpened] ''app'' ''notes'' = Some demoOpened"
    by (simp add: findTable_def firstOf_def tableNamed_def demoOpened_def demoTable_def)
  ultimately have "tableHolds codeUnitOrder demoRoles ''app'' ''notes'' demoTarget [demoOpened]"
    unfolding tableHolds_def by blast
  then show ?thesis
    unfolding attended_def opState_def alone_def rowOf_def
    by (simp add: demo_stuck_row demo_stuck_world demoEnv_def atStart_def)
qed

lemma demo_calm: "calm demoEnv"
proof -
  have "served req m (fst (demoEngine tr req m)) (snd (demoEngine tr req m))" for tr req m
    by (cases "(req, m, fst (demoEngine tr req m), snd (demoEngine tr req m))" rule: served.cases) auto
  then show ?thesis by (simp add: calm_def demoEnv_def case_prod_beta)
qed

lemma demo_readable: "readable demoEnv demoRoles demoStuck None"
proof -
  have "snapshotWithCapabilities demoEnv ctx caps = Inr []"
    if l: "loaded demoEnv ''p1'' ''notes'' ctx" "ctxSchema ctx = ''app''" "defaultTables (ctxMetadata ctx) = Some tables"
      and h: "tableHolds codeUnitOrder demoRoles ''app'' ''notes'' [] tables" for ctx tables caps
  proof -
    obtain t F where t: "findTable tables ''app'' ''notes'' = Some t" "fits t demoRoles F" "normalTo codeUnitOrder [] F"
      using h by (auto simp: tableHolds_def)
    have "F = Map.empty" using t(3) by (simp add: normalTo_def)
    moreover have "ctxRoles ctx = demoRoles"
      using l(1) runsD(5) [OF demo_runs(1)] demo_row by (simp add: loaded_def)
    ultimately show ?thesis
      using l t inspect_nothing [of t demoRoles caps]
      by (simp add: loaded_def snapshotWithCapabilities_def bindE_def createPermissionSnapshot_def js_sort_def)
  qed
  moreover have "samePermissions demoEnv [] [] = Inr True" by code_simp
  ultimately show ?thesis
    by (auto simp: readable_def demo_stuck_row demoEnv_def [THEN arg_cong [of _ _ collate]] bindE_def)
qed



theorem apply_recover_all_or_nothing_witness:
  "\<exists>s w2. recoverBody demoEnv ''p1'' ''operation-1'' (sourceDigest demoStuck) ''demo''
       ((snd (applyPolicyOperation demoCrash demoContext demoOperation ''owner'' demoWorld))\<lparr>clock := 100000\<rparr>) = (Answer s, w2)
     \<and> opState demoCrash demoRoles demoOperation (finished demoCrash demoOperation demoTarget None (stateStatus s)) w2"
proof -
  have accepted: "assertRecoverablePermissionState demoEnv demoTarget demoStuck = Inr ()" by code_simp
  have prj: "projectSchema demoProject = Some (operationSchema demoStuck)" "projectAlias demoProject = ''demo''"
    by (simp_all add: demo_stuck_row demoProject_def)
  note total = total_recover [OF runs_row [OF demo_runs(1) demo_stuck_row(3)] demo_calm _ runsD(7) [OF demo_runs(1)] accepted prj(1) _ _ _ _
      demo_readable demo_stuck_row(8)]
  obtain a w2 where rec: "recoverBody demoEnv ''p1'' ''operation-1'' (sourceDigest demoStuck) ''demo'' demoStuckWorld = (a, w2)"
    by (cases "recoverBody demoEnv ''p1'' ''operation-1'' (sourceDigest demoStuck) ''demo'' demoStuckWorld")
  then obtain s where a: "a = Answer s"
    using tripleD [OF total demo_attended, of a w2] by (cases a) (simp_all add: demo_stuck_row prj(2) stuck_def)
  obtain r1 w1 where p: "applyPolicyOperation demoCrash demoContext demoOperation ''owner'' demoWorld = (r1, w1)"
    by (cases "applyPolicyOperation demoCrash demoContext demoOperation ''owner'' demoWorld")
  have "collate demoEnv = collate demoCrash" by (simp add: demoCrash_def)
  then have "opState demoCrash demoRoles demoOperation (finished demoCrash demoOperation demoTarget None (stateStatus s)) w2"
    using apply_recover_all_or_nothing [OF demo_runs(2) demo_row(5) _ _ p demo_runs(1), of None "sourceDigest demoStuck" "''demo''" 100000 s w2]
      demo_start(2) rec by (simp add: demo_row a p demoStuckWorld_def)
  with rec show ?thesis by (simp add: a demoStuckWorld_def)
qed

end
