(* ===== verification/Lock_Properties.thy ===== *)
theory Lock_Properties
  imports Policy_Liveness
begin

text \<open>
  The lock around data changes: its locks are released in every outcome, an unfinished operation shuts
  out everybody else, and no interleaving of sessions lets two of them change one project at a time.
\<close>

subsection \<open>Statements of the lock\<close>

lemma lockStatement_cases:
  assumes "lockStatement env session name f w = (r, w')"
  obtains (answered) a ls where "r = Answer a" "f (advisoryLocks w) = (a, ls)"
      "w' = (tick env (EvDb name) w)\<lparr>advisoryLocks := ls\<rparr>"
    | (lost) "\<forall>a. r \<noteq> Answer a" "advisoryLocks w' = filter (\<lambda>l. lockSession l \<noteq> session) (advisoryLocks w)"
        "db w' = db w" "metadata w' = metadata w"
  using assms
  by (auto simp: lockStatement_def Let_def endSession_def tick_def split: fault.splits option.splits prod.splits)

definition others :: "nat \<Rightarrow> advisoryLock list \<Rightarrow> advisoryLock list" where
  "others session locks = filter (\<lambda>l. lockSession l \<noteq> session) locks"

definition lockOf :: "nat \<Rightarrow> string \<Rightarrow> bool \<Rightarrow> advisoryLock" where
  "lockOf session name shared = \<lparr>lockSession = session, lockName = name, lockShared = shared\<rparr>"

lemma fresh_session: "others (freshSession locks) locks = locks"
proof -
  have "lockSession l \<le> foldr (\<lambda>l n. max (lockSession l) n) locks 0" if "l \<in> set locks" for l
    using that by (induction locks) auto
  then have "lockSession l \<noteq> freshSession locks" if "l \<in> set locks" for l
    using that unfolding freshSession_def by fastforce
  then show ?thesis by (simp add: others_def filter_id_conv)
qed

text \<open>A call that keeps the locks.\<close>

abbreviation locksAre :: "advisoryLock list \<Rightarrow> 'd accessWorld \<Rightarrow> bool" where
  "locksAre ls w \<equiv> advisoryLocks w = ls"

abbreviation lockBalanced :: "('d, 'a) access_call \<Rightarrow> bool" where
  "lockBalanced m \<equiv> \<forall>ls. keeps (locksAre ls) m"

lemma balanced_effect:
  assumes "lockBalanced act"
  shows "keeps (locksAre ls) (effect env ev act)"
proof -
  have "advisoryLocks (snd (act w)) = advisoryLocks w" for w
    using tripleD [OF assms [rule_format, of "advisoryLocks w"] refl, of "fst (act w)" "snd (act w)"]
    by (simp split: reply.splits)
  then have kept: "advisoryLocks w2 = advisoryLocks w1" if "act w1 = (r, w2)" for w1 r w2
    using that by (metis snd_conv)
  show ?thesis
  proof (rule tripleI)
    fix w r w' assume "locksAre ls w" and e: "effect env ev act w = (r, w')"
    then have "advisoryLocks w' = ls"
      using kept [of "tick env ev w"] kept [OF prod.collapse [symmetric], of "tick env ev w"]
      by (auto simp: effect_def tick_def split: fault.splits option.splits)
    then show "case r of Answer x \<Rightarrow> locksAre ls w' | Thrown e \<Rightarrow> locksAre ls w' | Crashed \<Rightarrow> locksAre ls w'"
      by (cases r) simp_all
  qed
qed

lemma balanced_statement [keeping]: "keeps (locksAre ls) (statement env name f)"
  unfolding statement_def
  by (rule balanced_effect) (auto simp: triple_def split: sum.splits prod.splits)

lemma balanced_query [keeping]: "keeps (locksAre ls) (queryDb env name f)"
  unfolding queryDb_def by (rule balanced_statement)

lemma balanced_guarded:
  assumes "\<And>session. lockBalanced (callback session)"
  shows "keeps (locksAre ls) (guardedCallback env pid callback opts session)"
  unfolding guardedCallback_def hasPersistedDataAccessBlock_def supersedePolicyOperationPreviews_def Let_def
  using assms by (intro keeping) blast

subsection \<open>Release\<close>

lemma triple_tryLock:
  assumes "others s X = L"
  shows "triple (locksAre X) (tryLock env s n sh) (\<lambda>a. locksAre (if a then lockOf s n sh # X else X)) (\<lambda>_. locksAre L) (locksAre L)"
proof (rule tripleI)
  fix w r w' assume "locksAre X w" "tryLock env s n sh w = (r, w')"
  then show "case r of Answer a \<Rightarrow> locksAre (if a then lockOf s n sh # X else X) w' | Thrown e \<Rightarrow> locksAre L w' | Crashed \<Rightarrow> locksAre L w'"
    unfolding tryLock_def using assms
    by (elim lockStatement_cases) (cases r; auto simp: tryAdvisory_def lockOf_def others_def split: if_splits)+
qed

lemma others_idem [simp]: "others s (others s X) = others s X"
  by (simp add: others_def)

lemma unlock_absent: "others s X = X \<Longrightarrow> unlockAdvisory s n sh X = X"
  by (auto simp: others_def unlockAdvisory_def filter_id_conv intro!: remove1_idem)

lemma unlock_held: "unlockAdvisory s n sh (lockOf s n sh # X) = X"
  by (simp add: unlockAdvisory_def lockOf_def)

lemma triple_unlock:
  assumes "others s X = L"
  shows "triple (locksAre (lockOf s n sh # X)) (unlock env s n sh) (\<lambda>_. locksAre X) (\<lambda>_. locksAre L) (locksAre L)"
    and "others s L = L \<Longrightarrow> triple (\<lambda>w. locksAre (lockOf s n sh # L) w \<or> locksAre L w) (unlock env s n sh) (\<lambda>_. locksAre L) (\<lambda>_. locksAre L) (locksAre L)"
  unfolding unlock_def
  using assms
  by (auto intro!: tripleI elim!: lockStatement_cases simp: unlock_held unlock_absent split: reply.split)
     (auto simp: others_def lockOf_def)

lemma triple_scope:
  assumes "triple P m Q R K'" "\<And>w. K' w \<Longrightarrow> K (endSession s w)"
  shows "triple P (sessionScope s m) Q R K"
proof (rule tripleI)
  fix w r w' assume "P w" and e: "sessionScope s m w = (r, w')"
  obtain r1 w1 where m: "m w = (r1, w1)" by (cases "m w")
  show "case r of Answer x \<Rightarrow> Q x w' | Thrown e \<Rightarrow> R e w' | Crashed \<Rightarrow> K w'"
    using tripleD [OF assms(1) \<open>P w\<close> m] e m assms(2) by (cases r1) (auto simp: sessionScope_def)
qed

lemma triple_projectLock:
  assumes L: "others s L = L" and "\<And>session. lockBalanced (callback session)"
    and G: "G = lockOf s DATA_ACCESS_GLOBAL_LOCK_ID sh"
  shows "triple (locksAre (G # L)) (withProjectLock env pid callback opts s) (\<lambda>_. locksAre (G # L))
      (\<lambda>_ w. locksAre (G # L) w \<or> locksAre L w) (\<lambda>w. others s (advisoryLocks w) = L)"
    (is "triple _ _ ?Q ?R ?K")
proof -
  have X: "others s (G # L) = L" using L by (simp add: G others_def lockOf_def)
  have "triple (locksAre (lockOf s name False # G # L))
      (finally_do (guardedCallback env pid callback opts s) (unlock env s name False)) ?Q ?R ?K" for name
  proof (rule triple_finally [where Q' = "\<lambda>_. locksAre (lockOf s name False # G # L)" and R' = "\<lambda>_. locksAre (lockOf s name False # G # L)"])
    show "triple (locksAre (lockOf s name False # G # L)) (guardedCallback env pid callback opts s)
        (\<lambda>_. locksAre (lockOf s name False # G # L)) (\<lambda>_. locksAre (lockOf s name False # G # L)) ?K"
      by (rule triple_conseq [OF balanced_guarded [OF assms(2)]]) (use X in \<open>auto simp: others_def lockOf_def\<close>)
  qed (rule triple_conseq [OF triple_unlock(1) [OF X]]; use L in auto)+
  note inside = this
  show ?thesis
    unfolding withProjectLock_def
    apply (rule triple_lift_unit)
     apply simp
    apply (rule triple_next [OF triple_tryLock [OF X]])
      apply simp
     apply (use L in simp)
    subgoal for name a by (cases a) (auto simp: inside intro: triple_throw)
    done
qed

text \<open>
  C12. The lock gives back what it took. Whatever the outcome, an answer, an error, a lost connection or the death of
  the process, the advisory locks afterwards are those from before, if the callback leaves them alone.
\<close>

theorem mutation_lock_released:
  assumes "\<And>session. lockBalanced (callback session)"
    and "withProjectDataAccessMutationLock env pid callback opts w = (r, w')"
  shows "advisoryLocks w' = advisoryLocks w"
proof -
  let ?L = "advisoryLocks w"
  have "triple (locksAre ?L) (withProjectDataAccessMutationLock env pid callback opts) (\<lambda>_. locksAre ?L) (\<lambda>_. locksAre ?L) (locksAre ?L)"
    unfolding withProjectDataAccessMutationLock_def
  proof (rule keeps_before [OF keeps_basic(4) keeps_before [OF balanced_effect]], simp add: keeps_basic, rule triple_chain [OF triple_look [where Q = "\<lambda>s w. locksAre ?L w \<and> s = freshSession ?L"]])
    fix s
    let ?G = "lockOf s DATA_ACCESS_GLOBAL_LOCK_ID (\<not> exclusiveMode opts)"
    show "triple (\<lambda>w. locksAre ?L w \<and> s = freshSession ?L)
       (sessionScope s (chain (tryLock env s DATA_ACCESS_GLOBAL_LOCK_ID (\<not> exclusiveMode opts)) (\<lambda>acquired.
          if acquired
          then finally_do (withProjectLock env pid callback opts s) (unlock env s DATA_ACCESS_GLOBAL_LOCK_ID (\<not> exclusiveMode opts))
          else throw (LockedError ''A deployment-wide data change is in progress''))))
       (\<lambda>_. locksAre ?L) (\<lambda>_. locksAre ?L) (locksAre ?L)"
    proof (rule triple_pure, rule triple_scope [where K' = "\<lambda>w. others s (advisoryLocks w) = ?L"])
      assume s: "s = freshSession ?L"
      then have L: "others s ?L = ?L" by (simp add: fresh_session)
      have inside: "triple (locksAre (?G # ?L))
          (finally_do (withProjectLock env pid callback opts s) (unlock env s DATA_ACCESS_GLOBAL_LOCK_ID (\<not> exclusiveMode opts)))
          (\<lambda>_. locksAre ?L) (\<lambda>_. locksAre ?L) (\<lambda>w. others s (advisoryLocks w) = ?L)"
        apply (rule triple_finally [OF triple_projectLock [OF L assms(1) refl]])
         apply (rule triple_conseq [OF triple_unlock(1) [OF L]]; use L in auto)
        apply (rule triple_conseq [OF triple_unlock(2) [OF L L]]; use L in auto)
        done
      show "triple (locksAre ?L) (chain (tryLock env s DATA_ACCESS_GLOBAL_LOCK_ID (\<not> exclusiveMode opts)) (\<lambda>acquired.
          if acquired
          then finally_do (withProjectLock env pid callback opts s) (unlock env s DATA_ACCESS_GLOBAL_LOCK_ID (\<not> exclusiveMode opts))
          else throw (LockedError ''A deployment-wide data change is in progress'')))
          (\<lambda>_. locksAre ?L) (\<lambda>_. locksAre ?L) (\<lambda>w. others s (advisoryLocks w) = ?L)"
        apply (rule triple_next [OF triple_tryLock [OF L]])
          apply simp
         apply (use L in simp)
        subgoal for a by (cases a) (auto simp: inside intro: triple_throw)
        done
      show "locksAre ?L (endSession s w)" if "others s (advisoryLocks w) = ?L" for w
        using that by (simp add: endSession_def others_def)
    qed
  qed auto
  from tripleD [OF this refl assms(2)] show ?thesis by (cases r) simp_all
qed

text \<open>Options of an ordinary change, and of an exclusive one; a process that dies after its second event.\<close>

definition demoOptions :: "bool \<Rightarrow> lockOptions" where
  "demoOptions exclusive =
     \<lparr>exclusiveMode = exclusive, lockPurpose = Ordinary, migrationIdOption = None, operationIdOption = None\<rparr>"

definition demoDeath :: "jsval accessEnv" where
  "demoDeath = demoEnv\<lparr>faults := (\<lambda>tr ev. if length tr < 2 then NoFault else FaultAfter None)\<rparr>"

theorem mutation_lock_released_witness:
  "advisoryLocks (snd (withProjectDataAccessMutationLock demoDeath ''p1'' (\<lambda>_. give ()) (demoOptions True) demoWorld)) = []"
proof -
  have "lockBalanced ((\<lambda>_. give ()) session :: (jsval, unit) access_call)" for session
    by (simp add: triple_def give_def)
  from mutation_lock_released [of "\<lambda>_. give ()", OF this prod.collapse [symmetric], of demoDeath "''p1''" "demoOptions True" demoWorld]
  show ?thesis by (simp add: demoWorld_def)
qed

subsection \<open>What an unfinished operation blocks\<close>

lemma dataKept:
  "keeps (\<lambda>u. db u = d \<and> metadata u = m) (tryLock env s n sh)" "keeps (\<lambda>u. db u = d \<and> metadata u = m) (unlock env s n sh)"
  unfolding tryLock_def unlock_def
  by (auto intro!: tripleI elim!: lockStatement_cases simp: tick_def split: reply.split)

lemma refusedRelease:
  assumes "triple (\<lambda>u. db u = d \<and> metadata u = m) act (\<lambda>_ _. False) (\<lambda>_ u. db u = d \<and> metadata u = m) (\<lambda>u. db u = d \<and> metadata u = m)"
  shows "triple (\<lambda>u. db u = d \<and> metadata u = m) (finally_do act (unlock env s n sh))
     (\<lambda>_ _. False) (\<lambda>_ u. db u = d \<and> metadata u = m) (\<lambda>u. db u = d \<and> metadata u = m)"
  by (rule triple_finally [OF assms _ dataKept(2)]) (simp add: triple_def)

text \<open>
  An unfinished operation shuts out every other change of its project. While a policy operation of
  the project is applying, recovering or waiting for a recovery, the lock never runs the callback of anybody but that
  operation: there is no answer, and nothing was written.
\<close>

theorem stuck_operation_blocks:
  assumes "r \<in> set (policyOperations (db w))" "operationProject r = pid"
    and "operationStatus r \<in> {OpApplying, OpRecovering, OpRecoveryRequired}"
    and "lockPurpose opts \<noteq> PolicyOperation \<or> orEmpty (operationIdOption opts) \<noteq> operationId r"
    and "withProjectDataAccessMutationLock env pid callback opts w = (x, w')"
  shows "(\<forall>a. x \<noteq> Answer a) \<and> db w' = db w \<and> metadata w' = metadata w"
proof -
  let ?P = "\<lambda>u. db u = db w \<and> metadata u = metadata w"
  have blocked: "persistedBlock (db w) pid opts"
  proof -
    have "blockScope pid opts (operationProject r)" using assms(2) by (simp add: blockScope_def)
    moreover have "operationStatus r \<in> set (blockingStatuses (lockPurpose opts))"
      using assms(3) by (auto simp: blockingStatuses_def)
    moreover have "lockPurpose opts = PolicyOperation \<longrightarrow> operationId r \<noteq> orEmpty (operationIdOption opts)"
      using assms(4) by auto
    ultimately have "list_ex (\<lambda>r. blockScope pid opts (operationProject r)
          \<and> (lockPurpose opts = PolicyOperation \<longrightarrow> operationId r \<noteq> orEmpty (operationIdOption opts))
          \<and> operationStatus r \<in> set (blockingStatuses (lockPurpose opts))) (policyOperations (db w))"
      using assms(1) by (auto simp: list_ex_iff)
    then show ?thesis unfolding persistedBlock_def by blast
  qed
  have guarded: "triple ?P (guardedCallback env pid callback opts s) (\<lambda>_ _. False) (\<lambda>_. ?P) ?P" for s
    unfolding guardedCallback_def hasPersistedDataAccessBlock_def
    by (rule triple_next [OF triple_query]) (use blocked in \<open>auto simp: untimed_def require_def before_def chain_def throw_def triple_def\<close>)
  have project: "triple ?P (withProjectLock env pid callback opts s) (\<lambda>_ _. False) (\<lambda>_. ?P) ?P" for s
    unfolding withProjectLock_def
    by (intro triple_chain [OF triple_lift [where Q = "\<lambda>_. ?P"]] triple_chain [OF dataKept(1)] triple_if
          refusedRelease guarded triple_throw)
  have "triple ?P (withProjectDataAccessMutationLock env pid callback opts) (\<lambda>_ _. False) (\<lambda>_. ?P) ?P"
    unfolding withProjectDataAccessMutationLock_def
    apply (rule triple_before [OF triple_lift [where Q = "\<lambda>_. ?P"]], assumption, assumption)
    apply (rule triple_before [where Q = ?P])
     apply (rule triple_effect [OF _ triple_give])
         apply (auto simp: untimed_def give_def) [5]
    apply (rule triple_chain [OF triple_look [where Q = "\<lambda>_. ?P"]], assumption)
    apply (rule triple_scope)
     apply (rule triple_chain [OF dataKept(1)])
     apply (rule triple_if)
      apply (rule refusedRelease [OF project])
     apply (rule triple_throw, assumption)
    apply (simp add: endSession_def)
    done
  from tripleD [OF this _ assms(5)] show ?thesis by (cases x) simp_all
qed

theorem stuck_operation_blocks_witness:
  "managedPolicies (db (snd (withProjectDataAccessMutationLock demoEnv ''p1''
      (\<lambda>_. throw LeaseError :: (jsval, unit) access_call) (demoOptions False) demoStuckWorld))) = []
   \<and> (\<forall>a. fst (withProjectDataAccessMutationLock demoEnv ''p1''
      (\<lambda>_. throw LeaseError :: (jsval, unit) access_call) (demoOptions False) demoStuckWorld) \<noteq> Answer a)"
proof -
  have "demoStuck \<in> set (policyOperations (db demoStuckWorld))" using demo_stuck_world by simp
  from stuck_operation_blocks [OF this demo_stuck_row(4), of "demoOptions False" demoEnv
      "\<lambda>_. throw LeaseError :: (jsval, unit) access_call", OF _ _ prod.collapse [symmetric]]
  show ?thesis using demo_stuck_world demo_stuck_row(1) by (simp add: demoOptions_def)
qed

subsection \<open>Interleavings\<close>

text \<open>Where a session is: outside, behind the deployment lock (exclusive or not), or inside of a project.\<close>

datatype lockPhase = Outside | AtGlobal bool | Inside bool string

text \<open>The statements of \<open>withProjectDataAccessMutationLock\<close>, one at a time, by any session.\<close>

inductive lockStep ::
  "(nat \<Rightarrow> lockPhase) \<times> advisoryLock list \<Rightarrow> (nat \<Rightarrow> lockPhase) \<times> advisoryLock list \<Rightarrow> bool" where
  takeGlobal: "ph s = Outside \<Longrightarrow> tryAdvisory s DATA_ACCESS_GLOBAL_LOCK_ID (\<not> e) ls = (True, ls')
    \<Longrightarrow> lockStep (ph, ls) (ph(s := AtGlobal e), ls')"
| refusedGlobal: "ph s = Outside \<Longrightarrow> tryAdvisory s DATA_ACCESS_GLOBAL_LOCK_ID (\<not> e) ls = (False, ls')
    \<Longrightarrow> lockStep (ph, ls) (ph, ls')"
| takeProject: "ph s = AtGlobal e \<Longrightarrow> projectDataAccessLockId pid = Inr n \<Longrightarrow> tryAdvisory s n False ls = (True, ls')
    \<Longrightarrow> lockStep (ph, ls) (ph(s := Inside e pid), ls')"
| refusedProject: "ph s = AtGlobal e \<Longrightarrow> projectDataAccessLockId pid = Inr n \<Longrightarrow> tryAdvisory s n False ls = (False, ls')
    \<Longrightarrow> lockStep (ph, ls) (ph, ls')"
| leaveProject: "ph s = Inside e pid \<Longrightarrow> projectDataAccessLockId pid = Inr n
    \<Longrightarrow> lockStep (ph, ls) (ph(s := AtGlobal e), unlockAdvisory s n False ls)"
| leaveGlobal: "ph s = AtGlobal e
    \<Longrightarrow> lockStep (ph, ls) (ph(s := Outside), unlockAdvisory s DATA_ACCESS_GLOBAL_LOCK_ID (\<not> e) ls)"
| die: "lockStep (ph, ls) (ph(s := Outside), others s ls)"

inductive lockReach :: "(nat \<Rightarrow> lockPhase) \<times> advisoryLock list \<Rightarrow> bool" where
  idle: "lockReach (\<lambda>_. Outside, [])"
| step: "lockReach x \<Longrightarrow> lockStep x y \<Longrightarrow> lockReach y"

fun heldLocks :: "nat \<Rightarrow> lockPhase \<Rightarrow> advisoryLock set" where
  "heldLocks s Outside = {}"
| "heldLocks s (AtGlobal e) = {lockOf s DATA_ACCESS_GLOBAL_LOCK_ID (\<not> e)}"
| "heldLocks s (Inside e pid) =
     {lockOf s DATA_ACCESS_GLOBAL_LOCK_ID (\<not> e), lockOf s (''data-access-migration:'' @ pid) False}"

text \<open>Two sessions share a lock only if both hold it shared.\<close>

definition compatible :: "advisoryLock list \<Rightarrow> bool" where
  "compatible ls \<longleftrightarrow> (\<forall>l \<in> set ls. \<forall>l' \<in> set ls.
     lockSession l \<noteq> lockSession l' \<and> lockName l = lockName l' \<longrightarrow> lockShared l \<and> lockShared l')"

fun lockInv :: "(nat \<Rightarrow> lockPhase) \<times> advisoryLock list \<Rightarrow> bool" where
  "lockInv (ph, ls) \<longleftrightarrow>
     distinct ls \<and> (\<forall>s. {l \<in> set ls. lockSession l = s} = heldLocks s (ph s)) \<and> compatible ls"

lemma compatible_subset: "compatible ls \<Longrightarrow> set ls' \<subseteq> set ls \<Longrightarrow> compatible ls'"
  unfolding compatible_def by blast

lemma compatible_take:
  assumes "compatible ls" "lockFree s n sh ls"
  shows "compatible (lockOf s n sh # ls)"
  using assms by (auto simp: compatible_def lockOf_def lockFree_def list_all_iff)

lemma projectLock_name: "projectDataAccessLockId pid = Inr n \<Longrightarrow> n = ''data-access-migration:'' @ pid"
  by (simp add: projectDataAccessLockId_def split: if_splits)

lemma globalLock_other: "DATA_ACCESS_GLOBAL_LOCK_ID \<noteq> ''data-access-migration:'' @ pid"
  by (simp add: DATA_ACCESS_GLOBAL_LOCK_ID_def)

lemma taken:
  assumes "lockInv (ph, ls)" "tryAdvisory s n sh ls = (True, ls')" "lockOf s n sh \<notin> set ls"
    and "heldLocks s p = insert (lockOf s n sh) (heldLocks s (ph s))"
  shows "lockInv (ph(s := p), ls')"
proof -
  have ls': "ls' = lockOf s n sh # ls" "lockFree s n sh ls"
    using assms(2) by (auto simp: tryAdvisory_def lockOf_def split: if_splits)
  have "{l \<in> set ls'. lockSession l = t} = heldLocks t ((ph(s := p)) t)" for t
  proof -
    have "{l \<in> set ls'. lockSession l = t} = (if t = s then {lockOf s n sh} else {}) \<union> {l \<in> set ls. lockSession l = t}"
      by (auto simp: ls' lockOf_def)
    then show ?thesis using assms(1,4) by auto
  qed
  moreover have "distinct ls'" "compatible ls'"
    using assms(1,3) ls' compatible_take by auto
  ultimately show ?thesis by simp
qed

lemma given:
  assumes "lockInv (ph, ls)" "heldLocks s (ph s) - {lockOf s n sh} = heldLocks s p"
  shows "lockInv (ph(s := p), unlockAdvisory s n sh ls)"
proof -
  have set: "set (unlockAdvisory s n sh ls) = set ls - {lockOf s n sh}"
    using assms(1) by (simp add: unlockAdvisory_def lockOf_def set_remove1_eq)
  have "{l \<in> set ls - {lockOf s n sh}. lockSession l = t} = heldLocks t ((ph(s := p)) t)" for t
  proof -
    have "{l \<in> set ls - {lockOf s n sh}. lockSession l = t} = {l \<in> set ls. lockSession l = t} - {lockOf s n sh}" by blast
    also have "\<dots> = heldLocks t (ph t) - {lockOf s n sh}" using assms(1) by simp
    also have "\<dots> = heldLocks t ((ph(s := p)) t)"
      using assms(2) by (cases "t = s"; cases "ph t") (auto simp: lockOf_def)
    finally show ?thesis .
  qed
  moreover have "compatible (unlockAdvisory s n sh ls)" "distinct (unlockAdvisory s n sh ls)"
    using assms(1) compatible_subset [of ls] by (auto simp: set) (simp add: unlockAdvisory_def distinct_remove1)
  ultimately show ?thesis by (simp add: set)
qed

declare lockInv.simps [simp del]

lemma lockInv_held: "lockInv (ph, ls) \<Longrightarrow> l \<in> set ls \<Longrightarrow> l \<in> heldLocks (lockSession l) (ph (lockSession l))"
  unfolding lockInv.simps by blast

lemma lockSession_lockOf [simp]: "lockSession (lockOf s n sh) = s"
  by (simp add: lockOf_def)

lemma lockOf_eq [simp]: "lockOf s n sh = lockOf s n' sh' \<longleftrightarrow> n = n' \<and> sh = sh'"
  by (auto simp: lockOf_def)

lemma lockInv_step:
  assumes "lockStep x y" "lockInv x"
  shows "lockInv y"
  using assms
proof cases
  case (takeGlobal ph s e ls ls')
  then have "lockOf s DATA_ACCESS_GLOBAL_LOCK_ID (\<not> e) \<notin> set ls"
    using lockInv_held [of ph ls "lockOf s DATA_ACCESS_GLOBAL_LOCK_ID (\<not> e)"] assms(2) by auto
  with takeGlobal show ?thesis using taken [of ph ls s _ _ ls' "AtGlobal e"] assms(2) by simp
next
  case (takeProject ph s e pid n ls ls')
  note n = projectLock_name [OF takeProject(4)]
  have "lockOf s n False \<notin> set ls"
    using lockInv_held [of ph ls "lockOf s n False"] takeProject assms(2) globalLock_other [of pid] by (auto simp: n)
  with takeProject n show ?thesis using taken [of ph ls s _ _ ls' "Inside e pid"] assms(2) by (simp add: insert_commute)
next
  case (leaveProject ph s e pid n ls)
  note n = projectLock_name [OF leaveProject(4)]
  show ?thesis
    unfolding leaveProject(2) by (rule given) (use leaveProject assms(2) globalLock_other [of pid] in \<open>auto simp: n\<close>)
next
  case (leaveGlobal ph s e ls)
  then show ?thesis using given [of ph ls s _ _ Outside] assms(2) by simp
next
  case (die ph ls s)
  have "{l \<in> set (others s ls). lockSession l = t} = (if t = s then {} else {l \<in> set ls. lockSession l = t})" for t
    by (auto simp: others_def)
  moreover have "compatible (others s ls)" "distinct (others s ls)"
    using die assms(2) compatible_subset [of ls "others s ls"] by (auto simp: others_def lockInv.simps)
  ultimately show ?thesis using die assms(2) by (simp add: lockInv.simps)
qed (auto simp: tryAdvisory_def split: if_splits)

lemma lockInv_reach: "lockReach x \<Longrightarrow> lockInv x"
proof (induction rule: lockReach.induct)
  case idle
  show ?case by (simp add: compatible_def lockInv.simps)
qed (rule lockInv_step)

text \<open>
  C11. No two sessions change one project at a time. In every interleaving of lock statements, unlocks and dying
  processes, two sessions that are inside are in different projects, and neither of them holds the deployment
  lock exclusively.
\<close>

theorem mutual_exclusion:
  assumes "lockReach (ph, ls)" "ph s = Inside e p" "ph t = Inside e' q" "s \<noteq> t"
  shows "p \<noteq> q \<and> \<not> e \<and> \<not> e'"
proof -
  have inv: "lockInv (ph, ls)" by (rule lockInv_reach [OF assms(1)])
  have held: "l \<in> set ls" if "l \<in> heldLocks u (ph u)" for l u
    using inv that unfolding lockInv.simps by blast
  have compat: "lockShared l \<and> lockShared l'" if "l \<in> set ls" "l' \<in> set ls" "lockSession l \<noteq> lockSession l'" "lockName l = lockName l'" for l l'
    using inv that unfolding lockInv.simps compatible_def by blast
  have "\<not> e \<and> \<not> e'"
    using compat [OF held [of "lockOf s DATA_ACCESS_GLOBAL_LOCK_ID (\<not> e)" s] held [of "lockOf t DATA_ACCESS_GLOBAL_LOCK_ID (\<not> e')" t]] assms
    by (simp add: lockOf_def)
  moreover have "p \<noteq> q"
    using compat [OF held [of "lockOf s (''data-access-migration:'' @ p) False" s] held [of "lockOf t (''data-access-migration:'' @ q) False" t]] assms
    by (auto simp: lockOf_def)
  ultimately show ?thesis by blast
qed

text \<open>Two members change two projects of one deployment at the same time.\<close>

definition demoPhases :: "nat \<Rightarrow> lockPhase" where
  "demoPhases = (\<lambda>_. Outside)(1 := AtGlobal False, 2 := AtGlobal False, 1 := Inside False ''p1'', 2 := Inside False ''p2'')"

definition demoLocks :: "advisoryLock list" where
  "demoLocks = [lockOf 2 ''data-access-migration:p2'' False, lockOf 1 ''data-access-migration:p1'' False,
     lockOf 2 DATA_ACCESS_GLOBAL_LOCK_ID True, lockOf 1 DATA_ACCESS_GLOBAL_LOCK_ID True]"

lemma demo_interleaving: "lockReach (demoPhases, demoLocks)"
proof -
  let ?g = "\<lambda>s. lockOf s DATA_ACCESS_GLOBAL_LOCK_ID True"
  let ?ph = "(\<lambda>_. Outside)(1 := AtGlobal False, 2 := AtGlobal False)"
  note defs = tryAdvisory_def lockFree_def lockOf_def DATA_ACCESS_GLOBAL_LOCK_ID_def list_all_iff
  have ids: "projectDataAccessLockId ''p1'' = Inr ''data-access-migration:p1''" "projectDataAccessLockId ''p2'' = Inr ''data-access-migration:p2''"
    by code_simp+
  have "lockReach ((\<lambda>_. Outside)(1 := AtGlobal False), [?g 1])"
    by (rule lockReach.step [OF lockReach.idle takeGlobal]) (simp_all add: defs)
  then have "lockReach (?ph, [?g 2, ?g 1])"
    by (rule lockReach.step [OF _ takeGlobal]) (simp_all add: defs)
  then have "lockReach (?ph(1 := Inside False ''p1''), [lockOf 1 ''data-access-migration:p1'' False, ?g 2, ?g 1])"
    by (rule lockReach.step [OF _ takeProject [OF _ ids(1)]]) (simp_all add: defs)
  then have "lockReach (?ph(1 := Inside False ''p1'', 2 := Inside False ''p2''), demoLocks)"
    unfolding demoLocks_def by (rule lockReach.step [OF _ takeProject [OF _ ids(2)]]) (simp_all add: defs)
  then show ?thesis by (simp add: demoPhases_def)
qed

theorem mutual_exclusion_witness:
  "lockReach (demoPhases, demoLocks) \<and> demoPhases 1 = Inside False ''p1'' \<and> demoPhases 2 = Inside False ''p2''
   \<and> ''p1'' \<noteq> ''p2''"
  using mutual_exclusion [OF demo_interleaving, of 1 False "''p1''" 2 False "''p2''"] demo_interleaving
  by (simp add: demoPhases_def)

end
