(* ===== verification/Rate_Limit.thy ===== *)
theory Rate_Limit
  imports Project_Authorization Api_Monad
begin

text \<open>
  Rate limits of the API (apps/api/src/middleware/ratelimit.ts): counters with an expiry in Redis, one
  per identifier. Redis is a map from keys to counters with the documented meaning of INCR, EXPIRE
  and TTL; its faults, the death of the process and the time between two commands are parameters.
  Times are milliseconds. The reply is the part of the world that a limiter writes.
\<close>

subsection \<open>Redis\<close>

record redisEntry =
  counterValue :: int
  expiresAt :: "int option"

datatype redisCommand = Incr string | Expire string int | Ttl string | EvalScript string int

text \<open>A command is served, or the connection fails, or the process dies, before or after its effect.\<close>

datatype redisFault = Serves | Fails bool | Dies bool

record rateWorld =
  counters :: "string \<rightharpoonup> redisEntry"
  rateClock :: int
  commands :: "redisCommand list"
  replyHeaders :: "string \<rightharpoonup> int"
  sentReply :: "(nat \<times> string \<times> string) option"

record rateEnv =
  redisFaults :: "redisCommand list \<Rightarrow> redisCommand \<Rightarrow> redisFault"
  latency :: "redisCommand list \<Rightarrow> nat"
  sha256Hex :: "string \<Rightarrow> string"

type_synonym 'a rate_call = "(rateWorld, unit, 'a) call"

definition liveEntry :: "int \<Rightarrow> (string \<rightharpoonup> redisEntry) \<Rightarrow> string \<Rightarrow> redisEntry option" where
  "liveEntry t m key =
     (case m key of
        None \<Rightarrow> None
      | Some e \<Rightarrow> (case expiresAt e of Some d \<Rightarrow> if d \<le> t then None else Some e | None \<Rightarrow> Some e))"

definition incrCounter :: "string \<Rightarrow> int \<Rightarrow> (string \<rightharpoonup> redisEntry) \<Rightarrow> int \<times> (string \<rightharpoonup> redisEntry)" where
  "incrCounter key t m =
     (case liveEntry t m key of
        None \<Rightarrow> (1, m(key \<mapsto> \<lparr>counterValue = 1, expiresAt = None\<rparr>))
      | Some e \<Rightarrow> (counterValue e + 1, m(key \<mapsto> e\<lparr>counterValue := counterValue e + 1\<rparr>)))"

definition expireCounter :: "string \<Rightarrow> int \<Rightarrow> int \<Rightarrow> (string \<rightharpoonup> redisEntry) \<Rightarrow> unit \<times> (string \<rightharpoonup> redisEntry)" where
  "expireCounter key s t m =
     ((), case liveEntry t m key of None \<Rightarrow> m | Some e \<Rightarrow> m(key \<mapsto> e\<lparr>expiresAt := Some (t + 1000 * s)\<rparr>))"

definition ttlCounter :: "string \<Rightarrow> int \<Rightarrow> (string \<rightharpoonup> redisEntry) \<Rightarrow> int" where
  "ttlCounter key t m =
     (case liveEntry t m key of
        None \<Rightarrow> - 2
      | Some e \<Rightarrow> (case expiresAt e of None \<Rightarrow> - 1 | Some d \<Rightarrow> (d - t + 500) div 1000))"

text \<open>The script runs as one command.\<close>

definition rateScript :: "string \<Rightarrow> int \<Rightarrow> int \<Rightarrow> (string \<rightharpoonup> redisEntry) \<Rightarrow> (int \<times> int) \<times> (string \<rightharpoonup> redisEntry)" where
  "rateScript key s t m =
     (case incrCounter key t m of (current, m') \<Rightarrow>
        if current = 1 \<or> ttlCounter key t m' < 0
        then ((current, s), snd (expireCounter key s t m'))
        else ((current, ttlCounter key t m'), m'))"

definition redisCall ::
  "rateEnv \<Rightarrow> redisCommand \<Rightarrow> (int \<Rightarrow> (string \<rightharpoonup> redisEntry) \<Rightarrow> 'a \<times> (string \<rightharpoonup> redisEntry)) \<Rightarrow> 'a rate_call" where
  "redisCall env cmd f w =
     (let w' = w\<lparr>rateClock := rateClock w + int (latency env (commands w)), commands := commands w @ [cmd]\<rparr>;
          done_w = w'\<lparr>counters := snd (f (rateClock w') (counters w'))\<rparr> in
      case redisFaults env (commands w) cmd of
        Serves \<Rightarrow> (Answer (fst (f (rateClock w') (counters w'))), done_w)
      | Fails effective \<Rightarrow> (Thrown (), if effective then done_w else w')
      | Dies effective \<Rightarrow> (Crashed, if effective then done_w else w'))"

definition redisIncr :: "rateEnv \<Rightarrow> string \<Rightarrow> int rate_call" where
  "redisIncr env key = redisCall env (Incr key) (incrCounter key)"

definition redisExpire :: "rateEnv \<Rightarrow> string \<Rightarrow> int \<Rightarrow> unit rate_call" where
  "redisExpire env key s = redisCall env (Expire key s) (expireCounter key s)"

definition redisTtl :: "rateEnv \<Rightarrow> string \<Rightarrow> int rate_call" where
  "redisTtl env key = redisCall env (Ttl key) (\<lambda>t m. (ttlCounter key t m, m))"

text \<open>The script answers two numbers, so the check of its answer always passes.\<close>

definition consumeAtomicRateLimit :: "rateEnv \<Rightarrow> string \<Rightarrow> int \<Rightarrow> (int \<times> int) rate_call" where
  "consumeAtomicRateLimit env key s = redisCall env (EvalScript key s) (rateScript key s)"

subsection \<open>Configurations and identifiers\<close>

record rateLimitConfig =
  windowMs :: int
  maxRequests :: int
  keyPrefix :: string

record partialRateLimitConfig =
  givenWindowMs :: "int option"
  givenMaxRequests :: "int option"
  givenKeyPrefix :: "string option"

definition defaultConfig :: rateLimitConfig where
  "defaultConfig = \<lparr>windowMs = 60 * 1000, maxRequests = 100, keyPrefix = ''ratelimit''\<rparr>"

definition given :: "'a option \<Rightarrow> 'a \<Rightarrow> 'a" where
  "given x d = (case x of Some y \<Rightarrow> y | None \<Rightarrow> d)"

definition withDefaults :: "rateLimitConfig \<Rightarrow> partialRateLimitConfig \<Rightarrow> rateLimitConfig" where
  "withDefaults d c =
     \<lparr>windowMs = given (givenWindowMs c) (windowMs d), maxRequests = given (givenMaxRequests c) (maxRequests d),
      keyPrefix = given (givenKeyPrefix c) (keyPrefix d)\<rparr>"

definition ceilSeconds :: "int \<Rightarrow> int" where
  "ceilSeconds ms = - ((- ms) div 1000)"

definition getRateLimitKey :: "string \<Rightarrow> string \<Rightarrow> string" where
  "getRateLimitKey prefix identifier = prefix @ '':'' @ identifier"

record rateRequest =
  rateUser :: "requestUser option"
  rateIp :: string
  projectIdParam :: "string option"
  tenantIdParam :: "string option"
  bindingHandleParam :: "string option"

fun resolveRateLimitIdentifier :: "requestUser option \<Rightarrow> string \<Rightarrow> string" where
  "resolveRateLimitIdentifier (Some (PlatformUser uid _ _ _)) ip = ''platform:'' @ uid"
| "resolveRateLimitIdentifier (Some (ProjectUser sub _ _)) ip = ''project:'' @ sub"
| "resolveRateLimitIdentifier _ ip = ''anon-ip:'' @ ip"

fun resolveRealtimeTokenRateLimitIdentifier :: "requestUser option \<Rightarrow> string \<Rightarrow> string" where
  "resolveRealtimeTokenRateLimitIdentifier (Some (ProjectUser sub _ _)) ip = ''project:'' @ sub"
| "resolveRealtimeTokenRateLimitIdentifier _ ip = ''anon-ip:'' @ ip"

fun platformIdentifier :: "requestUser option \<Rightarrow> string \<Rightarrow> string" where
  "platformIdentifier (Some (PlatformUser uid _ _ _)) ip = uid"
| "platformIdentifier _ ip = ip"

fun appleActor :: "requestUser option \<Rightarrow> string \<Rightarrow> string" where
  "appleActor (Some (ProjectUser sub _ _)) ip = ''user:'' @ sub"
| "appleActor _ ip = ''ip:'' @ ip"

fun userTenant :: "requestUser option \<Rightarrow> string option" where
  "userTenant (Some (PlatformUser _ _ tenant _)) = tenant"
| "userTenant _ = None"

subsection \<open>Replies\<close>

definition setHeader :: "string \<Rightarrow> int \<Rightarrow> unit rate_call" where
  "setHeader name n = change (\<lambda>w. w\<lparr>replyHeaders := (replyHeaders w)(name \<mapsto> n)\<rparr>)"

definition sendError :: "nat \<Rightarrow> string \<Rightarrow> string \<Rightarrow> unit rate_call" where
  "sendError status code message = change (\<lambda>w. w\<lparr>sentReply := Some (status, code, message)\<rparr>)"

definition limitHeaders :: "int \<Rightarrow> int \<Rightarrow> int \<Rightarrow> unit rate_call" where
  "limitHeaders limit current ttl =
     chain (look rateClock) (\<lambda>t.
     before (setHeader ''X-RateLimit-Limit'' limit)
     (before (setHeader ''X-RateLimit-Remaining'' (max 0 (limit - current)))
       (setHeader ''X-RateLimit-Reset'' (ceilSeconds t + ttl))))"

definition setRateLimitHeaders :: "int \<Rightarrow> int \<Rightarrow> int \<Rightarrow> bool \<Rightarrow> unit rate_call" where
  "setRateLimitHeaders limit current ttl rejected =
     (let safeTtl = max 0 ttl in
      before (limitHeaders limit current safeTtl)
        (if rejected then setHeader ''Retry-After'' safeTtl else give ()))"

subsection \<open>Limiters\<close>

text \<open>The first request of a window sets its expiry, with a command of its own.\<close>

definition countRequest :: "rateEnv \<Rightarrow> string \<Rightarrow> int \<Rightarrow> int rate_call" where
  "countRequest env key s =
     chain (redisIncr env key) (\<lambda>current.
     before (if current = 1 then redisExpire env key s else give ()) (give current))"

text \<open>When Redis fails, the request is allowed.\<close>

definition failOpen :: "unit rate_call \<Rightarrow> unit rate_call" where
  "failOpen m = catching m (\<lambda>_. give ())"

definition failClosed :: "unit rate_call \<Rightarrow> unit rate_call" where
  "failClosed m = catching m (\<lambda>_. sendError 503 ''DEVICE_WIPE_RATE_LIMIT_UNAVAILABLE''
     ''Device wipe request is temporarily unavailable'')"

definition countedLimiter :: "rateEnv \<Rightarrow> rateLimitConfig \<Rightarrow> string \<Rightarrow> string \<Rightarrow> string \<Rightarrow> unit rate_call" where
  "countedLimiter env cfg key code message =
     failOpen
      (chain (countRequest env key (ceilSeconds (windowMs cfg))) (\<lambda>current.
       chain (redisTtl env key) (\<lambda>ttl.
       before (limitHeaders (maxRequests cfg) current ttl)
         (if current > maxRequests cfg then sendError 429 code message else give ()))))"

definition rateLimiterKey :: "rateLimitConfig \<Rightarrow> rateRequest \<Rightarrow> string" where
  "rateLimiterKey cfg req = getRateLimitKey (keyPrefix cfg) (platformIdentifier (rateUser req) (rateIp req))"

definition createRateLimiter :: "rateEnv \<Rightarrow> partialRateLimitConfig \<Rightarrow> rateRequest \<Rightarrow> unit rate_call" where
  "createRateLimiter env config req =
     (let cfg = withDefaults defaultConfig config in
      countedLimiter env cfg (rateLimiterKey cfg req)
        ''RATE_LIMIT_EXCEEDED'' ''Too many requests, please try again later'')"

definition tenantOf :: "rateRequest \<Rightarrow> string option" where
  "tenantOf req =
     (case tenantIdParam req of
        Some p \<Rightarrow> if p = [] then userTenant (rateUser req) else Some p
      | None \<Rightarrow> userTenant (rateUser req))"

definition createTenantRateLimiter :: "rateEnv \<Rightarrow> partialRateLimitConfig \<Rightarrow> rateRequest \<Rightarrow> unit rate_call" where
  "createTenantRateLimiter env config req =
     (let cfg = withDefaults (defaultConfig\<lparr>keyPrefix := ''ratelimit:tenant''\<rparr>) config in
      case tenantOf req of
        None \<Rightarrow> give ()
      | Some tenant \<Rightarrow>
          if tenant = [] then give ()
          else countedLimiter env cfg (getRateLimitKey (keyPrefix cfg) tenant)
                 ''TENANT_RATE_LIMIT_EXCEEDED'' ''Tenant rate limit exceeded'')"

definition appleKey :: "string \<Rightarrow> rateRequest \<Rightarrow> string" where
  "appleKey prefix req =
     prefix @ '':'' @ given (projectIdParam req) ''unknown'' @ '':'' @ appleActor (rateUser req) (rateIp req)"

definition createAppleProjectRateLimiter ::
  "rateEnv \<Rightarrow> string \<Rightarrow> int \<Rightarrow> int \<Rightarrow> rateRequest \<Rightarrow> unit rate_call" where
  "createAppleProjectRateLimiter env prefix limit s req =
     (let key = appleKey prefix req in
      failOpen
       (chain (countRequest env key s) (\<lambda>current.
        chain (redisTtl env key) (\<lambda>ttl.
        before (setRateLimitHeaders limit current ttl (current > limit))
          (if current > limit then sendError 429 ''PROVIDER_RATE_LIMITED'' ''Apple authentication rate limit exceeded''
           else give ())))))"

definition literalConfig :: "int \<Rightarrow> int \<Rightarrow> string \<Rightarrow> partialRateLimitConfig" where
  "literalConfig w n prefix =
     \<lparr>givenWindowMs = Some w, givenMaxRequests = Some n, givenKeyPrefix = Some prefix\<rparr>"

definition apiRateLimiter :: "rateEnv \<Rightarrow> rateRequest \<Rightarrow> unit rate_call" where
  "apiRateLimiter env = createRateLimiter env (literalConfig (60 * 1000) 100 ''ratelimit:api'')"

definition authRateLimiter :: "rateEnv \<Rightarrow> rateRequest \<Rightarrow> unit rate_call" where
  "authRateLimiter env = createRateLimiter env (literalConfig (15 * 60 * 1000) 10 ''ratelimit:auth'')"

definition uploadRateLimiter :: "rateEnv \<Rightarrow> rateRequest \<Rightarrow> unit rate_call" where
  "uploadRateLimiter env = createRateLimiter env (literalConfig (60 * 1000) 20 ''ratelimit:upload'')"

definition appleLoginRateLimiter :: "rateEnv \<Rightarrow> rateRequest \<Rightarrow> unit rate_call" where
  "appleLoginRateLimiter env = createAppleProjectRateLimiter env ''ratelimit:apple-login'' 20 (15 * 60)"

definition appleRevokeRateLimiter :: "rateEnv \<Rightarrow> rateRequest \<Rightarrow> unit rate_call" where
  "appleRevokeRateLimiter env = createAppleProjectRateLimiter env ''ratelimit:apple-revoke'' 10 (15 * 60)"

definition appleNotificationRateLimiter :: "rateEnv \<Rightarrow> rateRequest \<Rightarrow> unit rate_call" where
  "appleNotificationRateLimiter env = createAppleProjectRateLimiter env ''ratelimit:apple-notification'' 120 60"

definition bindingKey :: "rateRequest \<Rightarrow> string" where
  "bindingKey req = ''ratelimit:device-wipe-binding:'' @ rateIp req"

definition deviceWipeBindingRateLimiter :: "rateEnv \<Rightarrow> rateRequest \<Rightarrow> unit rate_call" where
  "deviceWipeBindingRateLimiter env req =
     failClosed
      (chain (consumeAtomicRateLimit env (bindingKey req) (15 * 60)) (\<lambda>(current, ttl).
       before (setRateLimitHeaders 30 current ttl (current > 30))
         (if current > 30 then sendError 429 ''RATE_LIMIT_EXCEEDED'' ''Too many requests, please try again later''
          else give ())))"

text \<open>The patterns of the path parameters.\<close>

definition id_char :: "char \<Rightarrow> bool" where
  "id_char c \<longleftrightarrow> js_is_alnum c \<or> c = CHR ''_'' \<or> c = CHR ''-''"

definition wipeProjectId :: "rateRequest \<Rightarrow> string" where
  "wipeProjectId req =
     (let p = given (projectIdParam req) [] in
      if list_all id_char p \<and> 1 \<le> length p \<and> length p \<le> 128 then p else ''invalid'')"

definition wipeBindingHandle :: "rateRequest \<Rightarrow> string" where
  "wipeBindingHandle req =
     (let p = given (bindingHandleParam req) []; suffix = drop 4 p in
      if take 4 p = ''dwb_'' \<and> list_all id_char suffix \<and> 1 \<le> length suffix \<and> length suffix \<le> 43
      then p else ''invalid'')"

definition lookupTiers :: "rateEnv \<Rightarrow> rateRequest \<Rightarrow> (string \<times> int) list" where
  "lookupTiers env req =
     (let digest = take 32 (sha256Hex env (wipeBindingHandle req)) in
      [(''ratelimit:device-wipe-lookup:ip:'' @ rateIp req, 600),
       (''ratelimit:device-wipe-lookup:project:'' @ wipeProjectId req @ '':'' @ rateIp req, 240),
       (''ratelimit:device-wipe-lookup:binding:'' @ digest @ '':'' @ rateIp req, 120)])"

fun consumeTiers :: "rateEnv \<Rightarrow> (string \<times> int) list \<Rightarrow> unit rate_call" where
  "consumeTiers env [] = give ()"
| "consumeTiers env ((key, limit) # tiers) =
     chain (consumeAtomicRateLimit env key 60) (\<lambda>(current, ttl).
     before (setRateLimitHeaders limit current ttl (current > limit))
       (if current > limit then sendError 429 ''DEVICE_WIPE_RATE_LIMITED'' ''Device wipe request rate exceeded''
        else consumeTiers env tiers))"

definition deviceWipeLookupRateLimiter :: "rateEnv \<Rightarrow> rateRequest \<Rightarrow> unit rate_call" where
  "deviceWipeLookupRateLimiter env req = failClosed (consumeTiers env (lookupTiers env req))"

definition realtimeError :: "unit rate_call" where
  "realtimeError = sendError 429 ''REALTIME_TOKEN_RATE_LIMIT_EXCEEDED'' ''Realtime token rate limit exceeded''"

definition checkRealtimeTokenRateLimit :: "rateEnv \<Rightarrow> rateRequest \<Rightarrow> string \<Rightarrow> unit rate_call" where
  "checkRealtimeTokenRateLimit env req pid =
     (let actorKey = getRateLimitKey ''ratelimit:realtime-token''
            (pid @ '':'' @ resolveRealtimeTokenRateLimitIdentifier (rateUser req) (rateIp req));
          projectKey = getRateLimitKey ''ratelimit:realtime-token:project'' pid in
      failOpen
       (chain (countRequest env actorKey 60) (\<lambda>actorCurrent.
        chain (redisTtl env actorKey) (\<lambda>actorTtl.
        before (setRateLimitHeaders 30 actorCurrent actorTtl (actorCurrent > 30))
         (if actorCurrent > 30 then realtimeError
          else
            chain (countRequest env projectKey 60) (\<lambda>projectCurrent.
            chain (redisTtl env projectKey) (\<lambda>projectTtl.
            if projectCurrent > 300
            then before (setRateLimitHeaders 300 projectCurrent projectTtl True) realtimeError
            else give ())))))))"

record graphqlRateLimitConfig =
  perUser :: int
  perProject :: int

definition GRAPHQL_RATE_LIMIT_DEFAULTS :: graphqlRateLimitConfig where
  "GRAPHQL_RATE_LIMIT_DEFAULTS = \<lparr>perUser = 60, perProject = 0\<rparr>"

text \<open>A number of the configuration may be missing or not be an integer.\<close>

definition integerAtLeast :: "int \<Rightarrow> rat option \<Rightarrow> int \<Rightarrow> int" where
  "integerAtLeast least x d =
     (case x of Some r \<Rightarrow> if r = of_int \<lfloor>r\<rfloor> \<and> of_int least \<le> r then \<lfloor>r\<rfloor> else d | None \<Rightarrow> d)"

definition normalizeGraphqlRateLimitConfig :: "rat option \<Rightarrow> rat option \<Rightarrow> graphqlRateLimitConfig" where
  "normalizeGraphqlRateLimitConfig givenUser givenProject =
     \<lparr>perUser = integerAtLeast 1 givenUser (perUser GRAPHQL_RATE_LIMIT_DEFAULTS),
      perProject = integerAtLeast 0 givenProject (perProject GRAPHQL_RATE_LIMIT_DEFAULTS)\<rparr>"

definition checkProjectGraphqlRateLimit ::
  "rateEnv \<Rightarrow> rateRequest \<Rightarrow> string \<Rightarrow> rat option \<Rightarrow> rat option \<Rightarrow> unit rate_call" where
  "checkProjectGraphqlRateLimit env req pid givenUser givenProject =
     (let cfg = normalizeGraphqlRateLimitConfig givenUser givenProject;
          userKey = getRateLimitKey ''ratelimit:graphql''
            (pid @ '':'' @ resolveRateLimitIdentifier (rateUser req) (rateIp req));
          projectKey = getRateLimitKey ''ratelimit:graphql:project'' pid in
      failOpen
       (chain (countRequest env userKey 60) (\<lambda>userCurrent.
        chain (redisTtl env userKey) (\<lambda>userTtl.
        before (limitHeaders (perUser cfg) userCurrent (max 0 userTtl))
         (if userCurrent > perUser cfg
          then sendError 429 ''GRAPHQL_USER_RATE_LIMIT_EXCEEDED'' ''User rate limit exceeded for GraphQL API''
          else if perProject cfg > 0
          then chain (countRequest env projectKey 60) (\<lambda>projectCurrent.
            if projectCurrent > perProject cfg
            then sendError 429 ''GRAPHQL_PROJECT_RATE_LIMIT_EXCEEDED'' ''Project rate limit exceeded for GraphQL API''
            else give ())
          else give ())))))"

end
