(* ===== verification/Rate_Limit_Properties.thy ===== *)
theory Rate_Limit_Properties
  imports Rate_Limit
begin

text \<open>
  What a rate limit bounds, as an interface of the limiters that count with one key: how many requests
  pass in a window, what happens to a counter that lost its expiry, and what a failing Redis lets through.
\<close>

subsection \<open>The contract of a limiter\<close>

text \<open>One request counted at a moment \<open>t\<close>: a new counter expires a window later, an old one keeps
  its expiry or gets a new one.\<close>

definition countedAt :: "int \<Rightarrow> string \<Rightarrow> int \<Rightarrow> int \<Rightarrow> rateWorld \<Rightarrow> rateWorld \<Rightarrow> bool" where
  "countedAt t key s current w w' \<longleftrightarrow>
     rateClock w \<le> t \<and> t \<le> rateClock w' \<and> current = fst (incrCounter key t (counters w))
     \<and> (\<forall>k. k \<noteq> key \<longrightarrow> counters w' k = counters w k)
     \<and> (\<exists>e. counters w' key = Some e \<and> counterValue e = current
        \<and> ((\<exists>d. expiresAt e = Some d \<and> t + 1000 * s \<le> d)
           \<or> (\<exists>e0. liveEntry t (counters w) key = Some e0 \<and> expiresAt e = expiresAt e0)))"

definition countedStep :: "string \<Rightarrow> int \<Rightarrow> int \<Rightarrow> rateWorld \<Rightarrow> rateWorld \<Rightarrow> bool" where
  "countedStep key limit s w w' \<longleftrightarrow>
     (\<exists>t current. countedAt t key s current w w' \<and> (sentReply w' = None \<longleftrightarrow> current \<le> limit))"

definition fresh :: "int \<Rightarrow> rateWorld \<Rightarrow> rateWorld" where
  "fresh t w = w\<lparr>rateClock := max t (rateClock w), replyHeaders := Map.empty, sentReply := None\<rparr>"

text \<open>Requests one after another, with the times they arrive; whether each of them passes.\<close>

fun serveAll :: "('r \<Rightarrow> unit rate_call) \<Rightarrow> (int \<times> 'r) list \<Rightarrow> rateWorld \<Rightarrow> bool list \<times> rateWorld" where
  "serveAll serve [] w = ([], w)"
| "serveAll serve ((t, r) # rs) w =
     (case serve r (fresh t w) of (x, w1) \<Rightarrow>
        (case serveAll serve rs w1 of (outs, w2) \<Rightarrow> ((sentReply w1 = None) # outs, w2)))"

definition passed :: "('r \<Rightarrow> string) \<Rightarrow> string \<Rightarrow> (int \<times> 'r) list \<Rightarrow> bool list \<Rightarrow> nat" where
  "passed keyFor key rs outs = length (filter (\<lambda>((t, r), out). keyFor r = key \<and> out) (zip rs outs))"

lemma passed_simps [simp]:
  "passed keyFor key [] outs = 0"
  "passed keyFor key ((t, r) # rs) (out # outs) = (if keyFor r = key \<and> out then 1 else 0) + passed keyFor key rs outs"
  by (simp_all add: passed_def)

lemma fresh_simps [simp]:
  "rateClock (fresh t w) = max t (rateClock w)" "sentReply (fresh t w) = None" "counters (fresh t w) = counters w"
  by (simp_all add: fresh_def)

text \<open>What may still pass before the moment \<open>l\<close>.\<close>

definition allowance :: "int \<Rightarrow> int \<Rightarrow> redisEntry option \<Rightarrow> nat" where
  "allowance limit l x =
     (case x of
        None \<Rightarrow> nat limit
      | Some e \<Rightarrow> nat (limit - counterValue e)
          + (case expiresAt e of Some d \<Rightarrow> if d < l then nat limit else 0 | None \<Rightarrow> 0))"

lemma allowance_later:
  assumes "t \<le> t'" "t' < l"
  shows "allowance limit l (liveEntry t' m key) \<le> allowance limit l (liveEntry t m key)"
  using assms by (auto simp: allowance_def liveEntry_def split: option.splits)

lemma liveEntry_Some: "liveEntry t m key = Some e \<Longrightarrow> m key = Some e"
  by (auto simp: liveEntry_def split: option.splits if_splits)

lemma allowance_counted:
  assumes "countedAt t key s current w w'" "rateClock w' < l" "l \<le> rateClock w + 1000 * s"
  shows "allowance limit l (liveEntry (rateClock w') (counters w') key) + (if current \<le> limit then 1 else 0)
     \<le> allowance limit l (liveEntry (rateClock w) (counters w) key)"
proof -
  have t: "rateClock w \<le> t" "t \<le> rateClock w'" using assms(1) by (simp_all add: countedAt_def)
  obtain e where e: "counters w' key = Some e" "counterValue e = current"
      "(\<exists>d. expiresAt e = Some d \<and> t + 1000 * s \<le> d) \<or> (\<exists>e0. liveEntry t (counters w) key = Some e0 \<and> expiresAt e = expiresAt e0)"
    and c: "current = fst (incrCounter key t (counters w))"
    using assms(1) by (auto simp: countedAt_def)
  have "allowance limit l (Some e) + (if current \<le> limit then 1 else 0) \<le> allowance limit l (liveEntry t (counters w) key)"
    using e(2,3) c t assms(2,3)
    by (cases "liveEntry t (counters w) key") (auto simp: allowance_def incrCounter_def split: option.splits)
  moreover have "allowance limit l (liveEntry (rateClock w') (counters w') key) \<le> allowance limit l (Some e)"
    using e(1) assms(2) by (auto simp: liveEntry_def allowance_def split: option.splits)
  moreover have "allowance limit l (liveEntry t (counters w) key) \<le> allowance limit l (liveEntry (rateClock w) (counters w) key)"
    using allowance_later t assms(2) by simp
  ultimately show ?thesis by linarith
qed

locale windowLimit =
  fixes serve :: "'r \<Rightarrow> unit rate_call" and keyFor :: "'r \<Rightarrow> string" and limit window :: int
  assumes counts: "sentReply w = None \<Longrightarrow> serve r w = (x, w') \<Longrightarrow> countedStep (keyFor r) limit window w w'"
begin

lemma clock_serve: "sentReply w = None \<Longrightarrow> serve r w = (x, w') \<Longrightarrow> rateClock w \<le> rateClock w'"
  using counts [of w r x w'] by (auto simp: countedStep_def countedAt_def)

lemma clock_all: "serveAll serve rs w = (outs, w') \<Longrightarrow> rateClock w \<le> rateClock w'"
proof (induction rs arbitrary: w outs)
  case (Cons a rs)
  obtain t r where a: "a = (t, r)" by (cases a)
  obtain x w1 where s: "serve r (fresh t w) = (x, w1)" by (cases "serve r (fresh t w)")
  with Cons clock_serve [OF _ s] show ?case by (fastforce simp: a split: prod.splits)
qed simp

lemma step_allowance:
  assumes "serve r (fresh t w) = (x, w1)" "rateClock w1 < l" "l \<le> rateClock w + 1000 * window"
  shows "allowance limit l (liveEntry (rateClock w1) (counters w1) key) + (if keyFor r = key \<and> sentReply w1 = None then 1 else 0)
     \<le> allowance limit l (liveEntry (rateClock w) (counters w) key)"
proof -
  have step: "countedStep (keyFor r) limit window (fresh t w) w1" using counts [OF _ assms(1)] by simp
  have clock: "max t (rateClock w) \<le> rateClock w1" using clock_serve [OF _ assms(1)] by simp
  have later: "allowance limit l (liveEntry (max t (rateClock w)) (counters w) k) \<le> allowance limit l (liveEntry (rateClock w) (counters w) k)" for k
    using allowance_later clock assms(2) by simp
  show ?thesis
  proof (cases "keyFor r = key")
    case True
    then show ?thesis
      using step allowance_counted [of _ key window _ "fresh t w" w1 l limit] later [of key] assms(2,3)
      by (fastforce simp: countedStep_def)
  next
    case False
    then have "counters w1 key = counters w key" using step by (simp add: countedStep_def countedAt_def) metis
    then have "liveEntry (rateClock w1) (counters w1) key = liveEntry (rateClock w1) (counters w) key" by (simp add: liveEntry_def)
    with False show ?thesis using allowance_later [of "rateClock w" "rateClock w1" l limit "counters w" key] clock assms(2) by simp
  qed
qed

lemma passed_allowance:
  assumes "serveAll serve rs w = (outs, w')" "rateClock w' < l" "l \<le> rateClock w + 1000 * window"
  shows "passed keyFor key rs outs \<le> allowance limit l (liveEntry (rateClock w) (counters w) key)"
  using assms
proof (induction rs arbitrary: w outs)
  case (Cons a rs)
  obtain t r where a: "a = (t, r)" by (cases a)
  obtain x w1 where s: "serve r (fresh t w) = (x, w1)" by (cases "serve r (fresh t w)")
  obtain outs' where all: "serveAll serve rs w1 = (outs', w')" "outs = (sentReply w1 = None) # outs'"
    using Cons.prems(1) s by (auto simp: a split: prod.splits)
  have "rateClock w \<le> rateClock w1" "rateClock w1 < l"
    using clock_serve [OF _ s] clock_all [OF all(1)] Cons.prems(2) by simp_all
  then show ?case
    using Cons.IH [OF all(1)] step_allowance [OF s, of l key] Cons.prems(2,3) by (simp add: a all(2))
qed simp

text \<open>Less than a window long, whatever happened before: two windows' worth at most, less the request
  that opened the first.\<close>

lemma window_bound:
  assumes "serveAll serve rs w = (outs, w')" "rateClock w' < rateClock w + 1000 * window"
    and "\<And>e. counters w key = Some e \<Longrightarrow> 1 \<le> counterValue e"
  shows "passed keyFor key rs outs \<le> 2 * nat limit - 1"
proof -
  have "allowance limit l (liveEntry t (counters w) key) \<le> 2 * nat limit - 1" for l t
    using assms(3) [OF liveEntry_Some [of t "counters w" key]] by (cases "liveEntry t (counters w) key") (fastforce simp: allowance_def split: option.splits)+
  with passed_allowance [OF assms(1,2) order.refl] show ?thesis by (meson order.trans)
qed

end

text \<open>A limiter that leaves the expiry of an old counter alone, and one that repairs it.\<close>

locale plainLimit = windowLimit +
  assumes keeps_expiry:
    "sentReply w = None \<Longrightarrow> serve r w = (x, w') \<Longrightarrow> counters w (keyFor r) = Some \<lparr>counterValue = n, expiresAt = None\<rparr>
     \<Longrightarrow> 1 \<le> n \<Longrightarrow> counters w' (keyFor r) = Some \<lparr>counterValue = n + 1, expiresAt = None\<rparr>"
begin

lemma never_again:
  assumes "serveAll serve rs w = (outs, w')" "counters w key = Some \<lparr>counterValue = n, expiresAt = None\<rparr>" "1 \<le> n"
  shows "passed keyFor key rs outs \<le> nat (limit - n)"
  using assms
proof (induction rs arbitrary: w outs n)
  case (Cons a rs)
  obtain t r where a: "a = (t, r)" by (cases a)
  obtain x w1 where s: "serve r (fresh t w) = (x, w1)" by (cases "serve r (fresh t w)")
  obtain outs' where all: "serveAll serve rs w1 = (outs', w')" "outs = (sentReply w1 = None) # outs'"
    using Cons.prems(1) s by (auto simp: a split: prod.splits)
  have step: "countedStep (keyFor r) limit window (fresh t w) w1" using counts [OF _ s] by simp
  show ?case
  proof (cases "keyFor r = key")
    case True
    then have "counters w1 key = Some \<lparr>counterValue = n + 1, expiresAt = None\<rparr>"
      using keeps_expiry [OF _ s] Cons.prems(2,3) by simp
    moreover have "sentReply w1 = None \<longleftrightarrow> n + 1 \<le> limit"
      using step True Cons.prems(2) by (auto simp: countedStep_def countedAt_def incrCounter_def liveEntry_def)
    ultimately show ?thesis using Cons.IH [OF all(1), of "n + 1"] Cons.prems(3) True by (auto simp: a all(2))
  next
    case False
    then have "counters w1 key = counters w key" using step by (simp add: countedStep_def countedAt_def) metis
    with False Cons.IH [OF all(1), of n] Cons.prems(2,3) show ?thesis by (simp add: a all(2))
  qed
qed simp

end

locale repairingLimit = windowLimit +
  assumes repairs: "sentReply w = None \<Longrightarrow> serve r w = (x, w') \<Longrightarrow>
     \<exists>e d. counters w' (keyFor r) = Some e \<and> expiresAt e = Some d"
begin

lemma passes_again:
  assumes "1 \<le> limit" "sentReply w = None" "serve r w = (x, w1)" "keyFor r' = keyFor r"
    and "\<And>e d. counters w1 (keyFor r) = Some e \<Longrightarrow> expiresAt e = Some d \<Longrightarrow> d \<le> t"
    and "serve r' (fresh t w1) = (y, w2)"
  shows "sentReply w2 = None"
proof -
  obtain e d where e: "counters w1 (keyFor r) = Some e" "expiresAt e = Some d" using repairs [OF assms(2,3)] by blast
  then have "d \<le> t" using assms(5) by blast
  then show ?thesis
    using counts [OF _ assms(6)] assms(1,4) e by (auto simp: countedStep_def countedAt_def incrCounter_def liveEntry_def)
qed

end

subsection \<open>The limiters of the API\<close>

definition calmRedis :: "(redisCommand list \<Rightarrow> nat) \<Rightarrow> (string \<Rightarrow> string) \<Rightarrow> rateEnv" where
  "calmRedis lat sha = \<lparr>redisFaults = (\<lambda>_ _. Serves), latency = lat, sha256Hex = sha\<rparr>"

lemma calm_call:
  "redisCall (calmRedis lat sha) cmd f w =
     (let t = rateClock w + int (lat (commands w)) in
      (Answer (fst (f t (counters w))),
       w\<lparr>rateClock := t, commands := commands w @ [cmd], counters := snd (f t (counters w))\<rparr>))"
  by (simp add: redisCall_def calmRedis_def Let_def)

text \<open>Headers and errors of the reply touch nothing else.\<close>

definition sameRedis :: "rateWorld \<Rightarrow> rateWorld \<Rightarrow> bool" where
  "sameRedis w u \<longleftrightarrow> counters u = counters w \<and> rateClock u = rateClock w"

lemma limitHeaders_run:
  "\<exists>u. limitHeaders limit c ttl w = (Answer (), u) \<and> sameRedis w u \<and> sentReply u = sentReply w"
  by (simp add: limitHeaders_def setHeader_def before_def chain_def look_def change_def sameRedis_def)

lemma setRateLimitHeaders_run:
  "\<exists>u. setRateLimitHeaders limit c ttl b w = (Answer (), u) \<and> sameRedis w u \<and> sentReply u = sentReply w"
  by (simp add: setRateLimitHeaders_def limitHeaders_def setHeader_def before_def chain_def look_def change_def give_def sameRedis_def Let_def)

lemma countRequest_calm:
  "\<exists>c u. countRequest (calmRedis lat sha) key s w = (Answer c, u) \<and> sentReply u = sentReply w
     \<and> countedAt (rateClock w + int (lat (commands w))) key s c w u
     \<and> (\<forall>n. counters w key = Some \<lparr>counterValue = n, expiresAt = None\<rparr> \<longrightarrow> 1 \<le> n
         \<longrightarrow> counters u key = Some \<lparr>counterValue = n + 1, expiresAt = None\<rparr>)"
proof (cases "liveEntry (rateClock w + int (lat (commands w))) (counters w) key")
  case None
  then show ?thesis
    by (auto simp: countRequest_def redisIncr_def redisExpire_def chain_def before_def calm_call give_def Let_def
        incrCounter_def expireCounter_def countedAt_def liveEntry_def)
next
  case (Some e)
  then show ?thesis
    using liveEntry_Some [OF Some]
    by (cases "expiresAt e"; cases "counterValue e = 0")
      (auto simp: countRequest_def redisIncr_def redisExpire_def chain_def before_def calm_call give_def Let_def
        incrCounter_def expireCounter_def countedAt_def liveEntry_def)
qed

lemma countedAt_later:
  "countedAt t key s c w u \<Longrightarrow> counters v = counters u \<Longrightarrow> rateClock u \<le> rateClock v \<Longrightarrow> countedAt t key s c w v"
  by (auto simp: countedAt_def)

lemma countedStepI:
  "countedAt t key s c w w' \<Longrightarrow> sentReply w' = None \<longleftrightarrow> c \<le> limit \<Longrightarrow> countedStep key limit s w w'"
  by (auto simp: countedStep_def)

lemma judged_calm:
  assumes "\<And>c ttl w. \<exists>u. H c ttl w = (Answer (), u) \<and> sameRedis w u \<and> sentReply u = sentReply w"
    and "failOpen (chain (countRequest (calmRedis lat sha) key s) (\<lambda>c. chain (redisTtl (calmRedis lat sha) key) (\<lambda>ttl.
      before (H c ttl) (if c > limit then sendError status code message else give ())))) w = (x, w')"
    and "sentReply w = None"
  shows "countedStep key limit s w w'"
    and "counters w key = Some \<lparr>counterValue = n, expiresAt = None\<rparr> \<Longrightarrow> 1 \<le> n
      \<Longrightarrow> counters w' key = Some \<lparr>counterValue = n + 1, expiresAt = None\<rparr>"
proof -
  obtain c u where u: "countRequest (calmRedis lat sha) key s w = (Answer c, u)" "sentReply u = None"
      "countedAt (rateClock w + int (lat (commands w))) key s c w u"
      "counters w key = Some \<lparr>counterValue = n, expiresAt = None\<rparr> \<Longrightarrow> 1 \<le> n
         \<Longrightarrow> counters u key = Some \<lparr>counterValue = n + 1, expiresAt = None\<rparr>"
    using countRequest_calm [of lat sha key s w] assms(3) by auto
  obtain ttl v where v: "redisTtl (calmRedis lat sha) key u = (Answer ttl, v)" "counters v = counters u" "rateClock u \<le> rateClock v"
      "sentReply v = None"
    using u(2) by (simp add: redisTtl_def calm_call Let_def)
  obtain y where y: "H c ttl v = (Answer (), y)" "sameRedis v y" "sentReply y = sentReply v" using assms(1) by blast
  have w': "counters w' = counters u" "rateClock u \<le> rateClock w'" "sentReply w' = None \<longleftrightarrow> c \<le> limit"
    using assms(2) u(1,2) v y
    by (auto simp: failOpen_def catching_def chain_def before_def sendError_def change_def give_def sameRedis_def split: if_splits)
  show "countedStep key limit s w w'"
    by (rule countedStepI [OF countedAt_later [OF u(3) w'(1,2)] w'(3)])
  show "counters w' key = Some \<lparr>counterValue = n + 1, expiresAt = None\<rparr>"
    if "counters w key = Some \<lparr>counterValue = n, expiresAt = None\<rparr>" "1 \<le> n"
    using u(4) [OF that] w' by simp
qed

lemmas counted_calm = judged_calm [where H = "limitHeaders m" for m, OF limitHeaders_run]
lemmas apple_calm = judged_calm [where H = "\<lambda>c ttl. setRateLimitHeaders m c ttl (c > m)" for m, OF setRateLimitHeaders_run]

interpretation requests: plainLimit
  "createRateLimiter (calmRedis lat sha) config" "rateLimiterKey (withDefaults defaultConfig config)"
  "maxRequests (withDefaults defaultConfig config)" "ceilSeconds (windowMs (withDefaults defaultConfig config))"
  by unfold_locales (auto simp: createRateLimiter_def countedLimiter_def Let_def intro: counted_calm)

interpretation apple: plainLimit
  "createAppleProjectRateLimiter (calmRedis lat sha) prefix limit s" "appleKey prefix" limit s
  by unfold_locales (auto simp: createAppleProjectRateLimiter_def Let_def intro: apple_calm)

lemma rateScript_counted:
  assumes "rateScript key s t m = ((c, ttl), m')"
  shows "c = fst (incrCounter key t m)" "\<forall>k. k \<noteq> key \<longrightarrow> m' k = m k"
    and "\<exists>e d. m' key = Some e \<and> counterValue e = c \<and> expiresAt e = Some d
      \<and> (t + 1000 * s \<le> d \<or> (\<exists>e0. liveEntry t m key = Some e0 \<and> expiresAt e0 = Some d))"
proof -
  show "c = fst (incrCounter key t m)" "\<forall>k. k \<noteq> key \<longrightarrow> m' k = m k"
    using assms by (auto simp: rateScript_def expireCounter_def incrCounter_def split: prod.splits if_splits option.splits)
  show "\<exists>e d. m' key = Some e \<and> counterValue e = c \<and> expiresAt e = Some d
      \<and> (t + 1000 * s \<le> d \<or> (\<exists>e0. liveEntry t m key = Some e0 \<and> expiresAt e0 = Some d))"
  proof (cases "liveEntry t m key")
    case None
    then show ?thesis using assms
      by (auto simp: rateScript_def expireCounter_def incrCounter_def liveEntry_def)
  next
    case (Some e)
    then show ?thesis using assms liveEntry_Some [OF Some]
      by (cases "expiresAt e") (auto simp: rateScript_def expireCounter_def incrCounter_def liveEntry_def ttlCounter_def split: if_splits)
  qed
qed

interpretation binding: repairingLimit "deviceWipeBindingRateLimiter (calmRedis lat sha)" bindingKey 30 "15 * 60"
proof -
  have run: "countedStep (bindingKey r) 30 (15 * 60) w w' \<and> (\<exists>e d. counters w' (bindingKey r) = Some e \<and> expiresAt e = Some d)"
    if "sentReply w = None" "deviceWipeBindingRateLimiter (calmRedis lat sha) r w = (x, w')" for r w x w'
  proof -
    let ?t = "rateClock w + int (lat (commands w))"
    obtain c ttl m where script: "rateScript (bindingKey r) (15 * 60) ?t (counters w) = ((c, ttl), m)" by (metis prod.exhaust)
    let ?v = "w\<lparr>rateClock := ?t, commands := commands w @ [EvalScript (bindingKey r) (15 * 60)], counters := m\<rparr>"
    obtain y where y: "setRateLimitHeaders 30 c ttl (c > 30) ?v = (Answer (), y)" "sameRedis ?v y" "sentReply y = sentReply ?v"
      using setRateLimitHeaders_run by blast
    have w': "counters w' = m" "rateClock w' = ?t" "sentReply w' = None \<longleftrightarrow> c \<le> 30"
      using that script y
      by (auto simp: deviceWipeBindingRateLimiter_def consumeAtomicRateLimit_def calm_call Let_def failClosed_def catching_def
          chain_def before_def sendError_def change_def give_def sameRedis_def split: if_splits)
    obtain e d where e: "m (bindingKey r) = Some e" "counterValue e = c" "expiresAt e = Some d"
        "?t + 1000 * (15 * 60) \<le> d \<or> (\<exists>e0. liveEntry ?t (counters w) (bindingKey r) = Some e0 \<and> expiresAt e0 = Some d)"
      using rateScript_counted(3) [OF script] by blast
    have "countedAt ?t (bindingKey r) (15 * 60) c w w'"
      using rateScript_counted(1,2) [OF script] e by (auto simp: countedAt_def w'(1,2))
    with countedStepI [OF this w'(3)] e show ?thesis by (simp add: w'(1))
  qed
  show "repairingLimit (deviceWipeBindingRateLimiter (calmRedis lat sha)) bindingKey 30 (15 * 60)"
    by unfold_locales (use conjunct1 [OF run] conjunct2 [OF run] in \<open>simp_all\<close>)
qed

subsection \<open>Guarantees\<close>


text \<open>A lost expiry: the first request of a window dies, or its connection fails, before the counter gets one.\<close>

definition lostExpire :: "redisFault \<Rightarrow> rateEnv \<Rightarrow> rateEnv" where
  "lostExpire f env = env\<lparr>redisFaults := (\<lambda>_ c. case c of Expire _ _ \<Rightarrow> f | _ \<Rightarrow> Serves)\<rparr>"

lemma lost_expiry_counter:
  assumes "counters w (rateLimiterKey (withDefaults defaultConfig config) req) = None" "f \<in> {Fails False, Dies False}"
    and "createRateLimiter (lostExpire f env) config req w = (x, w1)"
  shows "counters w1 (rateLimiterKey (withDefaults defaultConfig config) req) = Some \<lparr>counterValue = 1, expiresAt = None\<rparr>"
  using assms
  by (auto simp: createRateLimiter_def countedLimiter_def Let_def failOpen_def catching_def chain_def before_def countRequest_def
      redisIncr_def redisExpire_def redisCall_def lostExpire_def incrCounter_def liveEntry_def give_def)

text \<open>
  C37. A counter that lost its expiry locks its identifier out for ever: of all the requests that follow, over any time, fewer
  pass than the limit of a single window.
\<close>

theorem lost_expiry_locks_out:
  assumes "counters w (rateLimiterKey (withDefaults defaultConfig config) req) = None" "f \<in> {Fails False, Dies False}"
    and "createRateLimiter (lostExpire f env) config req w = (x, w1)"
    and "serveAll (createRateLimiter (calmRedis lat sha) config) rs w1 = (outs, w2)"
  shows "passed (rateLimiterKey (withDefaults defaultConfig config)) (rateLimiterKey (withDefaults defaultConfig config) req) rs outs
    \<le> nat (maxRequests (withDefaults defaultConfig config) - 1)"
  using requests.never_again [OF assms(4) lost_expiry_counter [OF assms(1-3)]] by simp

text \<open>
  C38. The limiter of device wipes recovers: after one request, whatever the counter was before, any request that arrives when
  the expiry has passed goes through.
\<close>

theorem wipe_limiter_recovers:
  assumes "deviceWipeBindingRateLimiter (calmRedis lat sha) r (fresh t w) = (x, w1)" "bindingKey r' = bindingKey r"
    and "\<forall>e d. counters w1 (bindingKey r) = Some e \<and> expiresAt e = Some d \<longrightarrow> d \<le> t'"
    and "deviceWipeBindingRateLimiter (calmRedis lat sha) r' (fresh t' w1) = (y, w2)"
  shows "sentReply w2 = None"
  using binding.passes_again [OF _ _ assms(1,2) _ assms(4)] assms(3) by simp

lemma setRateLimitHeaders_sent:
  "setRateLimitHeaders limit c ttl b w = (x, u) \<Longrightarrow> x = Answer () \<and> counters u = counters w \<and> sentReply u = sentReply w"
  using setRateLimitHeaders_run [of limit c ttl b w] by (auto simp: sameRedis_def)

lemma consumeAtomic_cases:
  assumes "consumeAtomicRateLimit env key s w = (x, w')"
  shows "sentReply w' = sentReply w \<and> (\<forall>k. k \<noteq> key \<longrightarrow> counters w' k = counters w k)
     \<and> (\<forall>c ttl. x = Answer (c, ttl) \<longrightarrow> (\<exists>e d. counters w' key = Some e \<and> counterValue e = c \<and> expiresAt e = Some d))"
proof -
  let ?t = "rateClock w + int (latency env (commands w))"
  obtain c ttl m where script: "rateScript key s ?t (counters w) = ((c, ttl), m)" by (metis prod.exhaust)
  show ?thesis
    using assms script rateScript_counted(2,3) [OF script]
    by (auto simp: consumeAtomicRateLimit_def redisCall_def Let_def split: redisFault.splits if_splits)
qed

lemma consumeTiers_closed:
  assumes "consumeTiers env tiers w = (Answer (), w')" "sentReply w' = None" "distinct (map fst tiers)"
  shows "sentReply w = None \<and> (\<forall>k. k \<notin> fst ` set tiers \<longrightarrow> counters w' k = counters w k)
     \<and> (\<forall>(key, limit) \<in> set tiers. \<exists>e d. counters w' key = Some e \<and> counterValue e \<le> limit \<and> expiresAt e = Some d)"
  using assms
proof (induction tiers arbitrary: w)
  case (Cons a tiers)
  obtain key limit where a: "a = (key, limit)" by (cases a)
  obtain x w1 where c: "consumeAtomicRateLimit env key 60 w = (x, w1)" by (cases "consumeAtomicRateLimit env key 60 w")
  then obtain n ttl where x: "x = Answer (n, ttl)" using Cons.prems(1) by (cases x) (auto simp: a chain_def)
  obtain y u where h: "setRateLimitHeaders limit n ttl (n > limit) w1 = (y, u)" by (cases "setRateLimitHeaders limit n ttl (n > limit) w1")
  note u = setRateLimitHeaders_sent [OF h]
  have run: "(if n > limit then sendError 429 ''DEVICE_WIPE_RATE_LIMITED'' ''Device wipe request rate exceeded''
      else consumeTiers env tiers) u = (Answer (), w')"
    using Cons.prems(1) c x h u by (simp add: a chain_def before_def)
  then have n: "n \<le> limit" using Cons.prems(2) by (auto simp: sendError_def change_def split: if_splits)
  with run have rest: "consumeTiers env tiers u = (Answer (), w')" by simp
  obtain e d where e: "counters w1 key = Some e" "counterValue e = n" "expiresAt e = Some d"
    using consumeAtomic_cases [OF c] x by blast
  note later = Cons.IH [OF rest Cons.prems(2)]
  have "counters w' key = Some e" using later Cons.prems(3) e(1) u by (simp add: a)
  with later Cons.prems(3) e n u consumeAtomic_cases [OF c] show ?case by (simp add: a)
qed (simp add: give_def)

text \<open>
  The limiters of device wipes fail closed. Whatever Redis does, a request passes the look-up only when each
  of its three counters counted it, is within its limit and will expire.
\<close>

theorem wipe_lookup_fails_closed:
  assumes "deviceWipeLookupRateLimiter env req w = (Answer (), w')" "sentReply w' = None"
    and "(key, limit) \<in> set (lookupTiers env req)"
  shows "\<exists>e d. counters w' key = Some e \<and> counterValue e \<le> limit \<and> expiresAt e = Some d"
proof -
  have "consumeTiers env (lookupTiers env req) w = (Answer (), w')"
    using assms(1,2)
    by (auto simp: deviceWipeLookupRateLimiter_def failClosed_def catching_def sendError_def change_def split: prod.splits reply.splits)
  moreover have "distinct (map fst (lookupTiers env req))" by (simp add: lookupTiers_def Let_def)
  ultimately show ?thesis using consumeTiers_closed assms(2,3) by blast
qed

subsection \<open>Examples\<close>

definition demoRequest :: rateRequest where
  "demoRequest = \<lparr>rateUser = None, rateIp = ''10.0.0.1'', projectIdParam = Some ''p1'', tenantIdParam = None,
     bindingHandleParam = Some ''dwb_x''\<rparr>"

definition demoCounters :: "(string \<rightharpoonup> redisEntry) \<Rightarrow> int \<Rightarrow> rateWorld" where
  "demoCounters m t = \<lparr>counters = m, rateClock = t, commands = [], replyHeaders = Map.empty, sentReply = None\<rparr>"

definition instant :: rateEnv where
  "instant = calmRedis (\<lambda>_. 0) id"

text \<open>Two requests a second, three of them within a second.\<close>

definition demoLimit :: partialRateLimitConfig where
  "demoLimit = literalConfig 1000 2 ''r''"

definition demoBusy :: rateWorld where
  "demoBusy = demoCounters [''r:10.0.0.1'' \<mapsto> \<lparr>counterValue = 1, expiresAt = Some 1000\<rparr>] 900"

definition demoArrivals :: "(int \<times> rateRequest) list" where
  "demoArrivals = [(900, demoRequest), (900, demoRequest), (1000, demoRequest), (1100, demoRequest), (1100, demoRequest)]"


theorem lost_expiry_locks_out_witness:
  "passed (rateLimiterKey (withDefaults defaultConfig demoLimit)) (rateLimiterKey (withDefaults defaultConfig demoLimit) demoRequest)
     [(5000, demoRequest), (1000000, demoRequest), (2000000, demoRequest)]
     (fst (serveAll (createRateLimiter instant demoLimit) [(5000, demoRequest), (1000000, demoRequest), (2000000, demoRequest)]
       (snd (createRateLimiter (lostExpire (Dies False) instant) demoLimit demoRequest (demoCounters Map.empty 0))))) \<le> 1"
  using lost_expiry_locks_out [where f = "Dies False" and env = instant and lat = "\<lambda>_. 0" and sha = id and w = "demoCounters Map.empty 0"
        and config = demoLimit and req = demoRequest and rs = "[(5000, demoRequest), (1000000, demoRequest), (2000000, demoRequest)]",
      OF _ _ prod.collapse [symmetric] prod.collapse [symmetric]]
  by (simp add: demoCounters_def demoLimit_def literalConfig_def withDefaults_def given_def instant_def)

theorem wipe_limiter_recovers_witness:
  "sentReply (snd (deviceWipeBindingRateLimiter instant demoRequest (fresh 901000 (snd (deviceWipeBindingRateLimiter instant demoRequest
     (fresh 0 (demoCounters [''ratelimit:device-wipe-binding:10.0.0.1'' \<mapsto> \<lparr>counterValue = 99, expiresAt = None\<rparr>] 0))))))) = None"
proof -
  let ?w = "demoCounters [''ratelimit:device-wipe-binding:10.0.0.1'' \<mapsto> \<lparr>counterValue = 99, expiresAt = None\<rparr>] 0"
  have e: "counters (snd (deviceWipeBindingRateLimiter instant demoRequest (fresh 0 ?w))) (bindingKey demoRequest)
      = Some \<lparr>counterValue = 100, expiresAt = Some 900000\<rparr>" by code_simp
  show ?thesis
    using wipe_limiter_recovers [of "\<lambda>_. 0" id demoRequest 0 ?w, OF prod.collapse [symmetric] refl _ prod.collapse [symmetric]] e
    by (simp add: instant_def)
qed

theorem wipe_lookup_fails_closed_witness:
  "\<exists>e d. counters (snd (deviceWipeLookupRateLimiter instant demoRequest (demoCounters Map.empty 0))) ''ratelimit:device-wipe-lookup:ip:10.0.0.1''
     = Some e \<and> counterValue e \<le> 600 \<and> expiresAt e = Some d"
proof -
  have a: "fst (deviceWipeLookupRateLimiter instant demoRequest (demoCounters Map.empty 0)) = Answer ()" by code_simp
  have s: "sentReply (snd (deviceWipeLookupRateLimiter instant demoRequest (demoCounters Map.empty 0))) = None" by code_simp
  have "(''ratelimit:device-wipe-lookup:ip:10.0.0.1'', 600) \<in> set (lookupTiers instant demoRequest)" by code_simp
  from wipe_lookup_fails_closed [OF _ s this] a show ?thesis by (metis prod.collapse)
qed

end
