(* ===== verification/Projection_Contract.thy ===== *)
theory Projection_Contract
  imports Managed_Policy
begin

text \<open>
  Contracts of authorization projections, from \<open>parseAuthorizationProjectionContract\<close> of
  \<open>data-access-authorization-projection.ts\<close>: a view of the project that tells which rows a user may see, and the
  relationships of the tables that ask it. Every check in the order of the code; an error is its
  message. \<open>localeCompare\<close> and SHA-256 are the parameters \<open>collate\<close> and \<open>hash\<close>.
\<close>

subsection \<open>Contracts\<close>

record projectionView =
  viewName :: string
  viewKey :: "string list"
  viewColumns :: "(string \<times> string) list"
  environmentColumn :: "string option"

record projectionRelationship =
  relTable :: string
  relName :: string
  relMapping :: "(string \<times> string) list"
  ownerColumn :: string
  actorColumn :: string
  allowColumn :: string

text \<open>The policy version, the projection mode and the closed client permissions are constants.\<close>

record projectionContract =
  contractVersion :: nat
  contractView :: projectionView
  relationships :: "projectionRelationship list"

definition COLUMN_TYPES :: "string list" where
  "COLUMN_TYPES = [''uuid'', ''boolean'', ''text'', ''jsonb'']"

definition isIdentifier :: "string \<Rightarrow> bool" where
  "isIdentifier s \<longleftrightarrow>
     (case s of
        [] \<Rightarrow> False
      | c # cs \<Rightarrow> (js_is_lower c \<or> c = CHR ''_'')
          \<and> list_all (\<lambda>d. js_is_lower d \<or> js_is_digit d \<or> d = CHR ''_'') cs)"

subsection \<open>Checks\<close>

text \<open>A \<open>Date\<close> is an object without properties.\<close>

definition assertRecord :: "jsval \<Rightarrow> string \<Rightarrow> string + (string \<times> jsval) list" where
  "assertRecord v message = (case v of JObj ps \<Rightarrow> Inr ps | JDate _ \<Rightarrow> Inr [] | _ \<Rightarrow> Inl message)"

definition assertIdentifier :: "jsval \<Rightarrow> string \<Rightarrow> string + string" where
  "assertIdentifier v label =
     (case v of JStr s \<Rightarrow> if isIdentifier s then Inr s else Inl (label @ '' is invalid'') | _ \<Rightarrow> Inl (label @ '' is invalid''))"

definition assertExactKeys :: "(string \<times> jsval) list \<Rightarrow> string list \<Rightarrow> string + unit" where
  "assertExactKeys ps keys =
     guardE (sort (map fst ps) = sort keys) ''Projection contract contains unknown or missing fields''"

fun parseIdentifiers :: "jsval list \<Rightarrow> string \<Rightarrow> string + string list" where
  "parseIdentifiers [] label = Inr []"
| "parseIdentifiers (v # vs) label =
     bindE (assertIdentifier v label) (\<lambda>s. bindE (parseIdentifiers vs label) (\<lambda>ss. Inr (s # ss)))"

definition parseIdentifierArray :: "jsval \<Rightarrow> string \<Rightarrow> string + string list" where
  "parseIdentifierArray v label =
     (case v of
        JArr items \<Rightarrow>
          if list_all js_is_string items
          then bindE (parseIdentifiers items label) (\<lambda>names.
               bindE (guardE (distinct names) (label @ '' contains duplicates'')) (\<lambda>_. Inr names))
          else Inl (label @ '' must be an array'')
      | _ \<Rightarrow> Inl (label @ '' must be an array''))"

definition get :: "(string \<times> jsval) list \<Rightarrow> string \<Rightarrow> jsval" where
  "get ps k = js_get (JObj ps) k"

text \<open>\<open>name in object\<close> is also true of what every object inherits.\<close>

definition INHERITED :: "string list" where
  "INHERITED =
     [''constructor'', ''hasOwnProperty'', ''isPrototypeOf'', ''propertyIsEnumerable'', ''toLocaleString'', ''toString'',
      ''valueOf'', ''__proto__'', ''__defineGetter__'', ''__defineSetter__'', ''__lookupGetter__'', ''__lookupSetter__'']"

definition isIn :: "string \<Rightarrow> (string \<times> 'a) list \<Rightarrow> bool" where
  "isIn name ps \<longleftrightarrow> name \<in> set (map fst ps) \<or> name \<in> set INHERITED"

definition byKey :: "(string \<Rightarrow> string \<Rightarrow> int) \<Rightarrow> string \<times> 'a \<Rightarrow> string \<times> 'a \<Rightarrow> int" where
  "byKey collate l r = collate (fst l) (fst r)"

subsection \<open>Columns\<close>

fun parseColumns :: "nat \<Rightarrow> (string \<times> jsval) list \<Rightarrow> string + (string \<times> string) list" where
  "parseColumns version [] = Inr []"
| "parseColumns version ((name, ty) # rest) =
     bindE (assertIdentifier (JStr name) ''Projection column'') (\<lambda>_.
     bindE (guardE (js_is_string ty \<and> js_string_of ty \<in> set COLUMN_TYPES \<and> \<not> (version = 1 \<and> js_string_of ty = ''jsonb''))
        ''Unsupported projection column type'') (\<lambda>_.
     bindE (parseColumns version rest) (\<lambda>cs. Inr ((name, js_string_of ty) # cs))))"

definition parseClientPermissions :: "jsval \<Rightarrow> string + unit" where
  "parseClientPermissions v =
     bindE (assertRecord v ''Projection client permissions must be an object'') (\<lambda>ps.
     bindE (assertExactKeys ps [''select'', ''insert'', ''update'', ''delete'']) (\<lambda>_.
     guardE (list_all (\<lambda>(k, allowed). allowed = JBool False) ps) ''Projection view client access must stay closed''))"

definition parseEnvironmentColumn ::
  "nat \<Rightarrow> (string \<times> jsval) list \<Rightarrow> string list \<Rightarrow> (string \<times> string) list \<Rightarrow> string + string option" where
  "parseEnvironmentColumn version ps key columns =
     (if version = 2
      then bindE (assertIdentifier (get ps ''environmentColumn'') ''Projection environment column'') (\<lambda>c.
           bindE (guardE (map_of columns c = Some ''jsonb'' \<and> c \<notin> set key)
             ''Projection environment column must be non-key JSONB'') (\<lambda>_. Inr (Some c)))
      else Inr None)"

definition viewFields :: "nat \<Rightarrow> string list" where
  "viewFields version =
     (if version = 2 then [''name'', ''projectionMode'', ''key'', ''columns'', ''environmentColumn'', ''clientPermissions'']
      else [''name'', ''projectionMode'', ''key'', ''columns'', ''clientPermissions''])"

definition parseView :: "(string \<Rightarrow> string \<Rightarrow> int) \<Rightarrow> nat \<Rightarrow> jsval \<Rightarrow> string + projectionView" where
  "parseView collate version v =
     bindE (assertRecord v ''Projection view must be an object'') (\<lambda>ps.
     bindE (assertExactKeys ps (viewFields version)) (\<lambda>_.
     bindE (assertIdentifier (get ps ''name'') ''Projection view name'') (\<lambda>name.
     bindE (guardE (get ps ''projectionMode'' = JStr ''sparse_allow_list'') ''Unsupported projection mode'') (\<lambda>_.
     bindE (parseIdentifierArray (get ps ''key'') ''Projection key'') (\<lambda>key.
     bindE (guardE (key \<noteq> []) ''Projection key is required'') (\<lambda>_.
     bindE (assertRecord (get ps ''columns'') ''Projection columns must be an object'') (\<lambda>cs.
     bindE (guardE (cs \<noteq> []) ''Projection columns are required'') (\<lambda>_.
     bindE (parseColumns version (js_sort (byKey collate) cs)) (\<lambda>columns.
     bindE (guardE (list_all (\<lambda>n. isIn n columns) key) ''Projection key references an unknown column'') (\<lambda>_.
     bindE (parseEnvironmentColumn version ps key columns) (\<lambda>environment.
     bindE (parseClientPermissions (get ps ''clientPermissions'')) (\<lambda>_.
     Inr \<lparr>viewName = name, viewKey = key, viewColumns = columns, environmentColumn = environment\<rparr>))))))))))))"

subsection \<open>Relationships\<close>

fun parseMapping :: "(string \<times> jsval) list \<Rightarrow> string + (string \<times> string) list" where
  "parseMapping [] = Inr []"
| "parseMapping ((source, target) # rest) =
     bindE (assertIdentifier (JStr source) ''Projection source column'') (\<lambda>_.
     bindE (assertIdentifier target ''Projection target column'') (\<lambda>t.
     bindE (parseMapping rest) (\<lambda>m. Inr ((source, t) # m))))"

definition sortedNames :: "string list \<Rightarrow> jsval" where
  "sortedNames names = JArr (map JStr (sort names))"

definition relationshipIdentity :: "projectionRelationship \<Rightarrow> string" where
  "relationshipIdentity r = relTable r @ [CHR 0x00] @ relName r"

definition parseRelationship ::
  "(string \<Rightarrow> string \<Rightarrow> int) \<Rightarrow> (jsval \<Rightarrow> 'd) \<Rightarrow> projectionView \<Rightarrow> jsval \<Rightarrow> string + projectionRelationship" where
  "parseRelationship collate hash view item =
     bindE (assertRecord item ''Projection relationship must be an object'') (\<lambda>ps.
     bindE (assertExactKeys ps
        [''table'', ''name'', ''type'', ''mapping'', ''ownerColumn'', ''actorColumn'', ''allowColumn'']) (\<lambda>_.
     bindE (assertIdentifier (get ps ''table'') ''Projection relationship table'') (\<lambda>table.
     bindE (assertIdentifier (get ps ''name'') ''Projection relationship name'') (\<lambda>name.
     bindE (assertIdentifier (get ps ''ownerColumn'') ''Projection relationship ownerColumn'') (\<lambda>owner.
     bindE (assertIdentifier (get ps ''actorColumn'') ''Projection relationship actorColumn'') (\<lambda>actor.
     bindE (assertIdentifier (get ps ''allowColumn'') ''Projection relationship allowColumn'') (\<lambda>allow.
     bindE (guardE (get ps ''type'' = JStr ''object'') ''Only object relationships are supported'') (\<lambda>_.
     bindE (assertRecord (get ps ''mapping'') ''Projection relationship mapping must be an object'') (\<lambda>entries.
     bindE (guardE (entries \<noteq> []) ''Projection relationship mapping is required'') (\<lambda>_.
     bindE (parseMapping (js_sort (byKey collate) entries)) (\<lambda>mapping.
     bindE (guardE (distinct (map snd mapping)
          \<and> stableDigest collate hash (sortedNames (map snd mapping)) = stableDigest collate hash (sortedNames (viewKey view)))
        ''Projection relationship mapping must cover the complete view key exactly once'') (\<lambda>_.
     bindE (guardE (isIn actor (viewColumns view) \<and> isIn allow (viewColumns view))
        ''Projection relationship references an unknown view column'') (\<lambda>_.
     bindE (guardE (actor \<in> set (viewKey view)) ''Projection key must include the actor column'') (\<lambda>_.
     bindE (guardE (map_of mapping owner = Some actor) ''Projection owner column must map to the actor column'') (\<lambda>_.
     Inr \<lparr>relTable = table, relName = name, relMapping = mapping, ownerColumn = owner, actorColumn = actor,
          allowColumn = allow\<rparr>)))))))))))))))"

fun parseRelationships ::
  "(string \<Rightarrow> string \<Rightarrow> int) \<Rightarrow> (jsval \<Rightarrow> 'd) \<Rightarrow> projectionView \<Rightarrow> string list \<Rightarrow> jsval list
   \<Rightarrow> string + projectionRelationship list" where
  "parseRelationships collate hash view seen [] = Inr []"
| "parseRelationships collate hash view seen (item # items) =
     bindE (parseRelationship collate hash view item) (\<lambda>r.
     bindE (guardE (relationshipIdentity r \<notin> set seen) ''Duplicate projection relationship'') (\<lambda>_.
     bindE (parseRelationships collate hash view (relationshipIdentity r # seen) items) (\<lambda>rs. Inr (r # rs))))"

definition compareRelationships ::
  "(string \<Rightarrow> string \<Rightarrow> int) \<Rightarrow> projectionRelationship \<Rightarrow> projectionRelationship \<Rightarrow> int" where
  "compareRelationships collate l r =
     (if collate (relTable l) (relTable r) \<noteq> 0 then collate (relTable l) (relTable r)
      else collate (relName l) (relName r))"

definition parseVersion :: "(string \<times> jsval) list \<Rightarrow> string + nat" where
  "parseVersion ps =
     (if (get ps ''contractVersion'' = JNum 1 \<or> get ps ''contractVersion'' = JNum 2) \<and> get ps ''policyVersion'' = JNum 2
      then Inr (if get ps ''contractVersion'' = JNum 2 then 2 else 1)
      else Inl ''Unsupported projection contract version'')"

definition parseAuthorizationProjectionContract ::
  "(string \<Rightarrow> string \<Rightarrow> int) \<Rightarrow> (jsval \<Rightarrow> 'd) \<Rightarrow> jsval \<Rightarrow> string + projectionContract" where
  "parseAuthorizationProjectionContract collate hash v =
     bindE (assertRecord v ''Projection contract must be an object'') (\<lambda>ps.
     bindE (assertExactKeys ps [''contractVersion'', ''policyVersion'', ''view'', ''relationships'']) (\<lambda>_.
     bindE (parseVersion ps) (\<lambda>version.
     bindE (parseView collate version (get ps ''view'')) (\<lambda>view.
     (case get ps ''relationships'' of
        JArr items \<Rightarrow>
          bindE (guardE (items \<noteq> []) ''Projection relationships are required'') (\<lambda>_.
          bindE (parseRelationships collate hash view [] items) (\<lambda>rs.
          Inr \<lparr>contractVersion = version, contractView = view, relationships = js_sort (compareRelationships collate) rs\<rparr>))
      | _ \<Rightarrow> Inl ''Projection relationships are required'')))))"

subsection \<open>The JSON of a contract\<close>

definition mappingJson :: "(string \<times> string) list \<Rightarrow> jsval" where
  "mappingJson m = JObj (map (\<lambda>(k, v). (k, JStr v)) m)"

definition viewJson :: "projectionView \<Rightarrow> jsval" where
  "viewJson v =
     JObj ([(''name'', JStr (viewName v)), (''projectionMode'', JStr ''sparse_allow_list''),
            (''key'', JArr (map JStr (viewKey v))), (''columns'', mappingJson (viewColumns v))]
       @ (case environmentColumn v of Some c \<Rightarrow> [(''environmentColumn'', JStr c)] | None \<Rightarrow> [])
       @ [(''clientPermissions'', JObj [(''select'', JBool False), (''insert'', JBool False), (''update'', JBool False),
            (''delete'', JBool False)])])"

definition relationshipJson :: "projectionRelationship \<Rightarrow> jsval" where
  "relationshipJson r =
     JObj [(''table'', JStr (relTable r)), (''name'', JStr (relName r)), (''type'', JStr ''object''),
       (''mapping'', mappingJson (relMapping r)), (''ownerColumn'', JStr (ownerColumn r)),
       (''actorColumn'', JStr (actorColumn r)), (''allowColumn'', JStr (allowColumn r))]"

definition contractJson :: "projectionContract \<Rightarrow> jsval" where
  "contractJson c =
     JObj [(''contractVersion'', JNum (of_nat (contractVersion c))), (''policyVersion'', JNum 2),
       (''view'', viewJson (contractView c)), (''relationships'', JArr (map relationshipJson (relationships c)))]"

end
