(* ===== verification/Projection_Metadata.thy ===== *)
theory Projection_Metadata
  imports Projection_Contract "HOL-Library.AList"
begin

text \<open>
  The metadata of the engine around a projection, from \<open>data-access-authorization-projection.ts\<close>: what an
  applied contract writes into it, how it is read back, and its digest. The metadata is the JSON the engine exports.
  A property of \<open>undefined\<close> or \<open>null\<close> and a list method of something else are a \<open>TypeError\<close>.
\<close>

subsection \<open>Reading untyped values\<close>

definition typeError :: string where
  "typeError = ''TypeError''"

definition nullish :: "jsval \<Rightarrow> bool" where
  "nullish v \<longleftrightarrow> v = JUndef \<or> v = JNull"

definition propOf :: "jsval \<Rightarrow> string \<Rightarrow> string + jsval" where
  "propOf v k = (if nullish v then Inl typeError else Inr (js_get v k))"

definition elements :: "jsval \<Rightarrow> string + jsval list" where
  "elements v = (case v of JArr xs \<Rightarrow> Inr xs | _ \<Rightarrow> Inl typeError)"

text \<open>\<open>(v ?? [])\<close>\<close>

definition elementsOrNone :: "jsval \<Rightarrow> string + jsval list" where
  "elementsOrNone v = (if nullish v then Inr [] else elements v)"

definition arrayOrNone :: "jsval \<Rightarrow> jsval list" where
  "arrayOrNone v = (case v of JArr xs \<Rightarrow> xs | _ \<Rightarrow> [])"

definition isObject :: "jsval \<Rightarrow> bool" where
  "isObject v = (case v of JObj _ \<Rightarrow> True | JDate _ \<Rightarrow> True | _ \<Rightarrow> False)"

text \<open>\<open>find\<close> with what comes before and after, and \<open>filter\<close>, with a test that can throw.\<close>

fun locate :: "('a \<Rightarrow> string + bool) \<Rightarrow> 'a list \<Rightarrow> string + ('a list \<times> 'a \<times> 'a list) option" where
  "locate P [] = Inr None"
| "locate P (x # xs) =
     bindE (P x) (\<lambda>b.
     if b then Inr (Some ([], x, xs))
     else bindE (locate P xs) (\<lambda>r. Inr (map_option (\<lambda>(pre, y, post). (x # pre, y, post)) r)))"

fun keepOnly :: "('a \<Rightarrow> string + bool) \<Rightarrow> 'a list \<Rightarrow> string + 'a list" where
  "keepOnly P [] = Inr []"
| "keepOnly P (x # xs) =
     bindE (P x) (\<lambda>b. bindE (keepOnly P xs) (\<lambda>ys. Inr (if b then x # ys else ys)))"

definition setProp :: "jsval \<Rightarrow> string \<Rightarrow> jsval \<Rightarrow> jsval" where
  "setProp v k x = (case v of JObj ps \<Rightarrow> JObj (AList.update k x ps) | _ \<Rightarrow> v)"

definition propIs :: "string \<Rightarrow> string \<Rightarrow> jsval \<Rightarrow> string + bool" where
  "propIs k s v = bindE (propOf v k) (\<lambda>x. Inr (x = JStr s))"

subsection \<open>Relationships in the metadata\<close>

definition projectionRelationshipUsing :: "string \<Rightarrow> string \<Rightarrow> (string \<times> string) list \<Rightarrow> jsval" where
  "projectionRelationshipUsing schemaName view mapping =
     JObj [(''manual_configuration'', JObj
       [(''remote_table'', JObj [(''schema'', JStr schemaName), (''name'', JStr view)]),
        (''column_mapping'', mappingJson mapping), (''insertion_order'', JNull)])]"

definition matchesProjectionRelationship ::
  "(string \<Rightarrow> string \<Rightarrow> int) \<Rightarrow> (jsval \<Rightarrow> 'd) \<Rightarrow> jsval \<Rightarrow> string \<Rightarrow> string \<Rightarrow> (string \<times> string) list \<Rightarrow> string + bool" where
  "matchesProjectionRelationship collate hash relationship schemaName view mapping =
     bindE (propOf relationship ''using'') (\<lambda>use.
     bindE (propOf use ''manual_configuration'') (\<lambda>manual.
     Inr (isObject manual \<and> isObject (js_get manual ''remote_table'') \<and> isObject (js_get manual ''column_mapping'')
       \<and> stableDigest collate hash use = stableDigest collate hash (projectionRelationshipUsing schemaName view mapping))))"

definition isTable :: "string \<Rightarrow> string \<Rightarrow> jsval \<Rightarrow> string + bool" where
  "isTable schemaName name item =
     bindE (propOf item ''table'') (\<lambda>t.
     bindE (propOf t ''schema'') (\<lambda>s.
     Inr (s = JStr schemaName \<and> js_get t ''name'' = JStr name)))"

subsection \<open>Applying a contract\<close>

definition withRelationship ::
  "(string \<Rightarrow> string \<Rightarrow> int) \<Rightarrow> (jsval \<Rightarrow> 'd) \<Rightarrow> string \<Rightarrow> string \<Rightarrow> string \<Rightarrow> projectionRelationship \<Rightarrow> jsval \<Rightarrow> jsval
   \<Rightarrow> string + jsval" where
  "withRelationship collate hash schemaName view role r perm table =
     bindE (elementsOrNone (js_get table ''object_relationships'')) (\<lambda>rels.
     bindE (locate (propIs ''name'' (relName r)) rels) (\<lambda>existing.
     bindE (guardE (\<not> list_ex (\<lambda>v. isObject v \<and> js_get v ''name'' = JStr (relName r)) (arrayOrNone (js_get table ''array_relationships'')))
        ''Existing projection relationship must be an object relationship'') (\<lambda>_.
     bindE (case existing of
          None \<Rightarrow> Inr True
        | Some (pre, e, post) \<Rightarrow> matchesProjectionRelationship collate hash e schemaName view (relMapping r)) (\<lambda>same.
     bindE (guardE same ''Existing projection relationship does not match the contract'') (\<lambda>_.
     bindE (elementsOrNone (js_get table ''select_permissions'')) (\<lambda>perms.
     bindE (keepOnly (\<lambda>p. bindE (propIs ''role'' role p) (\<lambda>b. Inr (\<not> b))) perms) (\<lambda>otherPerms.
     bindE (keepOnly (\<lambda>p. bindE (propIs ''name'' (relName r) p) (\<lambda>b. Inr (\<not> b))) rels) (\<lambda>otherRels.
     Inr (setProp
       (setProp table ''select_permissions'' (JArr (otherPerms @ [JObj [(''role'', JStr role), (''permission'', perm)]])))
       ''object_relationships''
       (JArr (otherRels @ [JObj [(''name'', JStr (relName r)),
          (''using'', projectionRelationshipUsing schemaName view (relMapping r))]])))))))))))"

text \<open>\<open>array_relationships\<close> of something that is not an array has no entries, and an entry without a
  name is not the one: \<open>'name' in item\<close> and the comparison of an absent name agree.\<close>

fun withRelationships ::
  "(string \<Rightarrow> string \<Rightarrow> int) \<Rightarrow> (jsval \<Rightarrow> 'd) \<Rightarrow> string \<Rightarrow> string \<Rightarrow> string \<Rightarrow> (string \<rightharpoonup> jsval) \<Rightarrow> projectionRelationship list
   \<Rightarrow> jsval list \<Rightarrow> string + jsval list" where
  "withRelationships collate hash schemaName view role targets [] tables = Inr tables"
| "withRelationships collate hash schemaName view role targets (r # rs) tables =
     bindE (locate (isTable schemaName (relTable r)) tables) (\<lambda>found.
     case (found, targets (relTable r)) of
       (Some (pre, table, post), Some perm) \<Rightarrow>
         bindE (withRelationship collate hash schemaName view role r perm table) (\<lambda>table'.
         withRelationships collate hash schemaName view role targets rs (pre @ table' # post))
     | _ \<Rightarrow> Inl ''Projection source table metadata is unavailable'')"

definition sourceUnavailable :: string where
  "sourceUnavailable = ''Default Hasura metadata source is unavailable''"

definition withView :: "string \<Rightarrow> string \<Rightarrow> jsval list \<Rightarrow> string + jsval list" where
  "withView schemaName view tables =
     bindE (locate (isTable schemaName view) tables) (\<lambda>found.
     Inr (if found = None
          then tables @ [JObj [(''table'', JObj [(''schema'', JStr schemaName), (''name'', JStr view)])]] else tables))"

definition buildAuthorizationProjectionMetadata ::
  "(string \<Rightarrow> string \<Rightarrow> int) \<Rightarrow> (jsval \<Rightarrow> 'd) \<Rightarrow> jsval \<Rightarrow> string \<Rightarrow> string \<Rightarrow> projectionContract \<Rightarrow> string
   \<Rightarrow> (string \<times> jsval) list \<Rightarrow> string + jsval" where
  "buildAuthorizationProjectionMetadata collate hash metadata sourceName schemaName contract role permissions =
     bindE (elementsOrNone (js_get metadata ''sources'')) (\<lambda>sources.
     bindE (locate (propIs ''name'' sourceName) sources) (\<lambda>found.
     case found of
       None \<Rightarrow> Inl sourceUnavailable
     | Some (pre, source, post) \<Rightarrow>
         if \<not> js_truthy (js_get source ''tables'') then Inl sourceUnavailable
         else
           bindE (elements (js_get source ''tables'')) (\<lambda>tables.
           bindE (withView schemaName (viewName (contractView contract)) tables) (\<lambda>tables1.
           bindE (guardE (card (set (map fst permissions)) = length (relationships contract))
             ''Projection select permissions do not match the relationship contract'') (\<lambda>_.
           bindE (withRelationships collate hash schemaName (viewName (contractView contract)) role
             (map_of (rev permissions)) (relationships contract) tables1) (\<lambda>tables2.
           Inr (setProp metadata ''sources'' (JArr (pre @ setProp source ''tables'' (JArr tables2) # post)))))))))"

subsection \<open>Reading it back\<close>

definition isMetadataTable :: "jsval \<Rightarrow> bool" where
  "isMetadataTable v \<longleftrightarrow> isObject v \<and> isObject (js_get v ''table'')
     \<and> js_is_string (js_get (js_get v ''table'') ''schema'') \<and> js_is_string (js_get (js_get v ''table'') ''name'')"

definition tableSchema :: "jsval \<Rightarrow> string" where
  "tableSchema v = js_string_of (js_get (js_get v ''table'') ''schema'')"

definition tableName :: "jsval \<Rightarrow> string" where
  "tableName v = js_string_of (js_get (js_get v ''table'') ''name'')"

text \<open>\<open>String(v)\<close>; \<open>nts\<close> prints a number.\<close>

fun js_text :: "(rat \<Rightarrow> string) \<Rightarrow> jsval \<Rightarrow> string" where
  "js_text nts JUndef = ''undefined''"
| "js_text nts JNull = ''null''"
| "js_text nts (JBool b) = (if b then ''true'' else ''false'')"
| "js_text nts (JNum n) = nts n"
| "js_text nts (JStr s) = s"
| "js_text nts (JArr xs) = js_join '','' (map (\<lambda>x. if nullish x then [] else js_text nts x) xs)"
| "js_text nts (JObj ps) = ''[object Object]''"
| "js_text nts (JDate s) = s"
| "js_text nts (JOther s) = s"

record metadataRelationship =
  onTable :: string
  relationshipName :: string
  isObjectRelationship :: bool
  usingJson :: jsval
  targetSchema :: string
  targetTable :: string
  metadataMapping :: "(string \<times> string) list"

text \<open>The permissions of the view, by operation, with the value of the role; the code only counts them.\<close>

record projectionMetadata =
  viewTracked :: bool
  viewScopedPermissions :: "(string \<times> jsval) list"
  trackedTables :: "string list"
  metadataRelationships :: "metadataRelationship list"

definition textOrEmpty :: "(rat \<Rightarrow> string) \<Rightarrow> jsval \<Rightarrow> string" where
  "textOrEmpty nts v = (if nullish v then [] else js_text nts v)"

definition stringEntries :: "jsval \<Rightarrow> (string \<times> string) list" where
  "stringEntries v =
     (case v of JObj ps \<Rightarrow> map (\<lambda>(k, x). (k, js_string_of x)) (filter (\<lambda>(k, x). js_is_string x) ps) | _ \<Rightarrow> [])"

definition readRelationship :: "(rat \<Rightarrow> string) \<Rightarrow> string \<Rightarrow> bool \<Rightarrow> jsval \<Rightarrow> metadataRelationship list" where
  "readRelationship nts table object v =
     (let manual = js_get (js_get v ''using'') ''manual_configuration'' in
      if isObject v \<and> js_is_string (js_get v ''name'') \<and> isObject (js_get v ''using'') \<and> isObject manual
         \<and> isObject (js_get manual ''remote_table'') \<and> isObject (js_get manual ''column_mapping'')
      then [\<lparr>onTable = table, relationshipName = js_string_of (js_get v ''name''), isObjectRelationship = object,
             usingJson = js_get v ''using'',
             targetSchema = textOrEmpty nts (js_get (js_get manual ''remote_table'') ''schema''),
             targetTable = textOrEmpty nts (js_get (js_get manual ''remote_table'') ''name''),
             metadataMapping = stringEntries (js_get manual ''column_mapping'')\<rparr>]
      else [])"

definition readTable :: "(rat \<Rightarrow> string) \<Rightarrow> jsval \<Rightarrow> metadataRelationship list" where
  "readTable nts t =
     concat (map (readRelationship nts (tableName t) True) (arrayOrNone (js_get t ''object_relationships'')))
     @ concat (map (readRelationship nts (tableName t) False) (arrayOrNone (js_get t ''array_relationships'')))"

definition viewScopes :: "jsval \<Rightarrow> (string \<times> jsval) list" where
  "viewScopes view =
     concat (map (\<lambda>operation.
       map (\<lambda>entry. (operation, if isObject entry then js_get entry ''role'' else JStr ''unknown''))
         (arrayOrNone (js_get view (operation @ ''_permissions''))))
       [''select'', ''insert'', ''update'', ''delete''])"

definition firstWith :: "('a \<Rightarrow> bool) \<Rightarrow> 'a list \<Rightarrow> 'a option" where
  "firstWith P xs = (case filter P xs of [] \<Rightarrow> None | x # _ \<Rightarrow> Some x)"

definition sourceTables :: "jsval \<Rightarrow> string \<Rightarrow> string + jsval list" where
  "sourceTables metadata sourceName =
     (case firstWith (\<lambda>item. isObject item \<and> js_get item ''name'' = JStr sourceName) (arrayOrNone (js_get metadata ''sources'')) of
        None \<Rightarrow> Inl sourceUnavailable
      | Some source \<Rightarrow> (case js_get source ''tables'' of JArr tables \<Rightarrow> Inr tables | _ \<Rightarrow> Inl sourceUnavailable))"

definition inspectProjectionMetadata ::
  "(rat \<Rightarrow> string) \<Rightarrow> jsval \<Rightarrow> string \<Rightarrow> string \<Rightarrow> projectionContract \<Rightarrow> string + projectionMetadata" where
  "inspectProjectionMetadata nts metadata sourceName schemaName contract =
     bindE (sourceTables metadata sourceName) (\<lambda>all.
     let tables = filter (\<lambda>t. tableSchema t = schemaName) (filter isMetadataTable all);
         view = firstWith (\<lambda>t. tableName t = viewName (contractView contract)) tables in
     Inr \<lparr>viewTracked = (view \<noteq> None),
          viewScopedPermissions = (case view of None \<Rightarrow> [] | Some v \<Rightarrow> viewScopes v),
          trackedTables = map tableName tables,
          metadataRelationships = concat (map (readTable nts) tables)\<rparr>)"

subsection \<open>The digest of the metadata\<close>

definition stringProperty :: "jsval \<Rightarrow> string \<Rightarrow> string" where
  "stringProperty v k = (if isObject v \<and> js_is_string (js_get v k) then js_string_of (js_get v k) else [])"

definition normalizeSelectMetadataPermission :: "jsval \<Rightarrow> jsval" where
  "normalizeSelectMetadataPermission v =
     (case (v, js_get v ''permission'') of
        (JObj ps, JObj perm) \<Rightarrow>
          JObj (AList.update ''permission''
            (JObj (if map_of perm ''allow_aggregations'' = Some (JBool False) then AList.delete ''allow_aggregations'' perm else perm)) ps)
      | (JObj ps, JDate d) \<Rightarrow> JObj (AList.update ''permission'' (JObj []) ps)
      | _ \<Rightarrow> v)"

definition sortEntries :: "(string \<Rightarrow> string \<Rightarrow> int) \<Rightarrow> string \<Rightarrow> (jsval \<Rightarrow> jsval) \<Rightarrow> string \<Rightarrow> jsval \<Rightarrow> jsval" where
  "sortEntries collate by f key t =
     (case js_get t key of
        JArr xs \<Rightarrow> setProp t key (JArr (js_sort (\<lambda>l r. collate (stringProperty l by) (stringProperty r by)) (map f xs)))
      | _ \<Rightarrow> t)"

definition canonicalizeMetadataTable :: "(string \<Rightarrow> string \<Rightarrow> int) \<Rightarrow> jsval \<Rightarrow> jsval" where
  "canonicalizeMetadataTable collate t =
     sortEntries collate ''name'' id ''array_relationships''
      (sortEntries collate ''name'' id ''object_relationships''
       (sortEntries collate ''role'' id ''delete_permissions''
        (sortEntries collate ''role'' id ''update_permissions''
         (sortEntries collate ''role'' id ''insert_permissions''
          (sortEntries collate ''role'' normalizeSelectMetadataPermission ''select_permissions'' t)))))"

definition authorizationProjectionMetadataDigest ::
  "(string \<Rightarrow> string \<Rightarrow> int) \<Rightarrow> (jsval \<Rightarrow> 'd) \<Rightarrow> jsval \<Rightarrow> string \<Rightarrow> string \<Rightarrow> projectionContract \<Rightarrow> string + 'd" where
  "authorizationProjectionMetadataDigest collate hash metadata sourceName schemaName contract =
     bindE (sourceTables metadata sourceName) (\<lambda>all.
     let names = viewName (contractView contract) # map relTable (relationships contract);
         tables = filter (\<lambda>t. tableSchema t = schemaName \<and> tableName t \<in> set names) (filter isMetadataTable all) in
     Inr (stableDigest collate hash (JObj
       [(''sourceName'', JStr sourceName), (''schemaName'', JStr schemaName),
        (''tables'', JArr (js_sort (\<lambda>l r. collate (tableName l) (tableName r)) (map (canonicalizeMetadataTable collate) tables)))])))"

end
