(* ===== verification/Projection_Snapshot.thy ===== *)
theory Projection_Snapshot
  imports Projection_Metadata
begin

text \<open>
  The dependencies of a projection, from \<open>data-access-authorization-projection.ts\<close>: what the catalog of
  PostgreSQL and the metadata of the engine say of the view and of the tables of a contract, the checks of both
  and the snapshot with its digest. The rows of the catalog queries are a parameter.
\<close>

subsection \<open>The catalog\<close>

record catalogColumn =
  catalogName :: string
  catalogType :: string
  nullable :: bool

record 'd helperView =
  helperOwner :: string
  helperOptions :: "string list"
  helperPrivileges :: "string list"
  helperColumnPrivileges :: "string list"
  helperDefinition :: 'd
  helperColumns :: "catalogColumn list"

record 'd relationDependency =
  dependencySchema :: string
  dependencyName :: string
  dependencyKind :: string
  dependencyView :: "'d helperView option"

record 'd projectionCatalog =
  relationKind :: string
  viewOwner :: string
  securityBarrier :: bool
  securityInvoker :: bool
  relationOptions :: "string list"
  publicPrivileges :: "string list"
  publicColumnPrivileges :: "string list"
  viewDefinition :: string
  viewCatalogColumns :: "catalogColumn list"
  projectionKeyUnique :: bool
  functionDependencies :: "(string \<times> string) list"
  relationDependencies :: "'d relationDependency list"
  catalogTables :: "(string \<times> catalogColumn list) list"

definition normalizeType :: "string \<Rightarrow> string" where
  "normalizeType ty = (if ty = ''bool'' then ''boolean'' else ty)"

definition normalizeCatalogType :: "string \<Rightarrow> string \<Rightarrow> string" where
  "normalizeCatalogType dataType udtName =
     (if dataType = ''USER-DEFINED'' then udtName
      else if dataType = ''character varying'' then ''text''
      else dataType)"

definition columnNamed :: "string \<Rightarrow> catalogColumn list \<Rightarrow> catalogColumn option" where
  "columnNamed name cs = firstWith (\<lambda>c. catalogName c = name) cs"

definition columnHasType :: "string \<Rightarrow> catalogColumn option \<Rightarrow> bool" where
  "columnHasType ty c = (case c of Some col \<Rightarrow> normalizeType (catalogType col) = ty | None \<Rightarrow> False)"

subsection \<open>Checks of the view\<close>

definition checkDependency :: "string \<Rightarrow> string \<Rightarrow> 'd relationDependency \<Rightarrow> string + unit" where
  "checkDependency schemaName dbUser d =
     bindE (guardE (dependencySchema d = schemaName) ''Projection view relation dependencies must remain in the project schema'') (\<lambda>_.
     if dependencyKind d \<in> {''v'', ''m''}
     then (case dependencyView d of
         None \<Rightarrow> Inl ''Projection helper view snapshot is unavailable''
       | Some h \<Rightarrow>
           bindE (guardE (helperOwner h = dbUser) ''Projection helper view owner does not match the project database user'') (\<lambda>_.
           bindE (guardE (helperPrivileges h = []) ''Projection helper view grants privileges to PUBLIC'') (\<lambda>_.
           bindE (guardE (helperColumnPrivileges h = []) ''Projection helper view grants column privileges to PUBLIC'') (\<lambda>_.
           guardE (''security_invoker=true'' \<notin> set (helperOptions h)) ''Projection helper view must not enable security invoker''))))
     else Inr ())"

fun checkEach :: "('a \<Rightarrow> string + unit) \<Rightarrow> 'a list \<Rightarrow> string + unit" where
  "checkEach f [] = Inr ()"
| "checkEach f (x # xs) = bindE (f x) (\<lambda>_. checkEach f xs)"

definition checkView :: "string \<Rightarrow> string \<Rightarrow> 'd projectionCatalog \<Rightarrow> string + unit" where
  "checkView schemaName dbUser cat =
     bindE (guardE (relationKind cat = ''v'') ''Projection relation must be a regular view'') (\<lambda>_.
     bindE (guardE (viewOwner cat = dbUser) ''Projection view owner does not match the project database user'') (\<lambda>_.
     bindE (guardE (securityBarrier cat) ''Projection view must enable security barrier'') (\<lambda>_.
     bindE (guardE (\<not> securityInvoker cat) ''Projection view must not enable security invoker'') (\<lambda>_.
     bindE (guardE (publicPrivileges cat = []) ''Projection view grants privileges to PUBLIC'') (\<lambda>_.
     bindE (guardE (publicColumnPrivileges cat = []) ''Projection view grants column privileges to PUBLIC'') (\<lambda>_.
     bindE (guardE (projectionKeyUnique cat) ''Projection view key contains duplicate rows'') (\<lambda>_.
     bindE (guardE (functionDependencies cat = []) ''Projection view function dependencies must remain system-only'') (\<lambda>_.
     checkEach (checkDependency schemaName dbUser) (relationDependencies cat)))))))))"

definition sortedColumns :: "(string \<Rightarrow> string \<Rightarrow> int) \<Rightarrow> catalogColumn list \<Rightarrow> catalogColumn list" where
  "sortedColumns collate cs = js_sort (\<lambda>l r. collate (catalogName l) (catalogName r)) cs"

definition columnsMatch :: "(string \<times> string) list \<Rightarrow> catalogColumn list \<Rightarrow> bool" where
  "columnsMatch expected actual \<longleftrightarrow>
     list_all2 (\<lambda>(name, ty) c. catalogName c = name \<and> normalizeType (catalogType c) = ty) expected actual"

subsection \<open>Checks of a relationship\<close>

definition relationshipsNamed :: "projectionMetadata \<Rightarrow> projectionRelationship \<Rightarrow> metadataRelationship list" where
  "relationshipsNamed meta r =
     filter (\<lambda>m. onTable m = relTable r \<and> relationshipName m = relName r) (metadataRelationships meta)"

definition checkMapping :: "catalogColumn list \<Rightarrow> catalogColumn list \<Rightarrow> string \<times> string \<Rightarrow> string + unit" where
  "checkMapping source actual entry =
     guardE (case (columnNamed (fst entry) source, columnNamed (snd entry) actual) of
         (Some s, Some t) \<Rightarrow> normalizeType (catalogType s) = normalizeType (catalogType t)
       | _ \<Rightarrow> False) ''Projection relationship column mapping is invalid''"

definition checkRelationship ::
  "(string \<Rightarrow> string \<Rightarrow> int) \<Rightarrow> (jsval \<Rightarrow> 'd) \<Rightarrow> string \<Rightarrow> projectionContract \<Rightarrow> 'd projectionCatalog \<Rightarrow> projectionMetadata
   \<Rightarrow> catalogColumn list \<Rightarrow> projectionRelationship \<Rightarrow> string + unit" where
  "checkRelationship collate hash schemaName contract cat meta actual r =
     bindE (guardE (relTable r \<in> set (trackedTables meta)) ''Projection source table is not tracked'') (\<lambda>_.
     bindE (guardE (columnHasType ''uuid'' (columnNamed (actorColumn r) actual)) ''Projection actor column must be UUID'') (\<lambda>_.
     bindE (guardE (columnHasType ''boolean'' (columnNamed (allowColumn r) actual)) ''Projection allow column must be boolean'') (\<lambda>_.
     bindE (guardE (case environmentColumn (contractView contract) of
            None \<Rightarrow> True | Some e \<Rightarrow> columnHasType ''jsonb'' (columnNamed e actual))
        ''Projection environment column must be JSONB'') (\<lambda>_.
     case map_of (catalogTables cat) (relTable r) of
       None \<Rightarrow> Inl ''Projection source table is unavailable''
     | Some source \<Rightarrow>
         bindE (guardE (columnHasType ''uuid'' (columnNamed (ownerColumn r) source)) ''Projection owner column must be UUID'') (\<lambda>_.
         bindE (checkEach (checkMapping source actual) (relMapping r)) (\<lambda>_.
         case relationshipsNamed meta r of
           [m] \<Rightarrow>
             bindE (guardE (isObjectRelationship m) ''Projection relationship must be an object relationship'') (\<lambda>_.
             guardE (targetSchema m = schemaName \<and> targetTable m = viewName (contractView contract)
                 \<and> stableDigest collate hash (mappingJson (metadataMapping m)) = stableDigest collate hash (mappingJson (relMapping r))
                 \<and> stableDigest collate hash (usingJson m)
                   = stableDigest collate hash (projectionRelationshipUsing schemaName (viewName (contractView contract)) (relMapping r)))
               ''Existing projection relationship does not match the contract'')
         | _ \<Rightarrow> Inl ''Projection relationship must exist exactly once''))))))"

subsection \<open>The snapshot\<close>

definition stringsJson :: "string list \<Rightarrow> jsval" where
  "stringsJson xs = JArr (map JStr xs)"

definition columnJson :: "catalogColumn \<Rightarrow> jsval" where
  "columnJson c =
     JObj [(''name'', JStr (catalogName c)), (''type'', JStr (catalogType c)), (''nullable'', JBool (nullable c))]"

definition helperJson :: "('d \<Rightarrow> string) \<Rightarrow> 'd helperView \<Rightarrow> jsval" where
  "helperJson hex h =
     JObj [(''owner'', JStr (helperOwner h)), (''relationOptions'', stringsJson (helperOptions h)),
       (''publicPrivileges'', stringsJson (helperPrivileges h)), (''publicColumnPrivileges'', stringsJson (helperColumnPrivileges h)),
       (''definitionDigest'', JStr (hex (helperDefinition h))), (''columns'', JArr (map columnJson (helperColumns h)))]"

definition dependencyJson :: "('d \<Rightarrow> string) \<Rightarrow> 'd relationDependency \<Rightarrow> jsval" where
  "dependencyJson hex d =
     JObj [(''schemaName'', JStr (dependencySchema d)), (''relationName'', JStr (dependencyName d)),
       (''relationKind'', JStr (dependencyKind d)),
       (''view'', case dependencyView d of None \<Rightarrow> JNull | Some h \<Rightarrow> helperJson hex h)]"

definition compareDependencies ::
  "(string \<Rightarrow> string \<Rightarrow> int) \<Rightarrow> 'd relationDependency \<Rightarrow> 'd relationDependency \<Rightarrow> int" where
  "compareDependencies collate l r =
     (if collate (dependencySchema l) (dependencySchema r) \<noteq> 0 then collate (dependencySchema l) (dependencySchema r)
      else if collate (dependencyName l) (dependencyName r) \<noteq> 0 then collate (dependencyName l) (dependencyName r)
      else collate (dependencyKind l) (dependencyKind r))"

definition normalizeViewDefinition :: "string \<Rightarrow> string" where
  "normalizeViewDefinition definition_text = js_trim definition_text"

definition viewSnapshotJson ::
  "(string \<Rightarrow> string \<Rightarrow> int) \<Rightarrow> (jsval \<Rightarrow> 'd) \<Rightarrow> ('d \<Rightarrow> string) \<Rightarrow> projectionContract \<Rightarrow> 'd projectionCatalog \<Rightarrow> projectionMetadata
   \<Rightarrow> jsval" where
  "viewSnapshotJson collate hash hex contract cat meta =
     JObj [(''name'', JStr (viewName (contractView contract))), (''owner'', JStr (viewOwner cat)),
       (''securityBarrier'', JBool True), (''securityInvoker'', JBool False),
       (''relationOptions'', stringsJson (sort (relationOptions cat))),
       (''publicPrivileges'', stringsJson (sort (publicPrivileges cat))),
       (''publicColumnPrivileges'', stringsJson (sort (publicColumnPrivileges cat))),
       (''definitionDigest'', JStr (hex (stableDigest collate hash (JStr (normalizeViewDefinition (viewDefinition cat)))))),
       (''columns'', JArr (map columnJson (sortedColumns collate (viewCatalogColumns cat)))),
       (''key'', stringsJson (viewKey (contractView contract))), (''tracked'', JBool (viewTracked meta)),
       (''relationDependencies'', JArr (map (dependencyJson hex) (js_sort (compareDependencies collate) (relationDependencies cat))))]"

definition relationshipSnapshotJson :: "projectionMetadata \<Rightarrow> projectionRelationship \<Rightarrow> jsval" where
  "relationshipSnapshotJson meta r =
     (let m = hd (relationshipsNamed meta r) in
      JObj [(''table'', JStr (relTable r)), (''name'', JStr (relName r)), (''type'', JStr ''object''), (''using'', usingJson m),
        (''mapping'', mappingJson (metadataMapping m)), (''ownerColumn'', JStr (ownerColumn r)),
        (''actorColumn'', JStr (actorColumn r)), (''allowColumn'', JStr (allowColumn r))])"

definition snapshotBody ::
  "(string \<Rightarrow> string \<Rightarrow> int) \<Rightarrow> (jsval \<Rightarrow> 'd) \<Rightarrow> ('d \<Rightarrow> string) \<Rightarrow> string \<Rightarrow> projectionContract \<Rightarrow> 'd projectionCatalog
   \<Rightarrow> projectionMetadata \<Rightarrow> (string \<times> jsval) list" where
  "snapshotBody collate hash hex schemaName contract cat meta =
     [(''schemaName'', JStr schemaName), (''contract'', contractJson contract),
      (''view'', viewSnapshotJson collate hash hex contract cat meta),
      (''relationships'', JArr (map (relationshipSnapshotJson meta) (relationships contract)))]"

text \<open>The snapshot is its body and the digest of it.\<close>

definition buildAuthorizationProjectionDependencySnapshot ::
  "(string \<Rightarrow> string \<Rightarrow> int) \<Rightarrow> (jsval \<Rightarrow> 'd) \<Rightarrow> ('d \<Rightarrow> string) \<Rightarrow> string \<Rightarrow> string \<Rightarrow> projectionContract
   \<Rightarrow> 'd projectionCatalog \<Rightarrow> projectionMetadata \<Rightarrow> string + ((string \<times> jsval) list \<times> 'd)" where
  "buildAuthorizationProjectionDependencySnapshot collate hash hex schemaName dbUser contract cat meta =
     bindE (checkView schemaName dbUser cat) (\<lambda>_.
     bindE (guardE (viewScopedPermissions meta = []) ''Projection view must not have client permissions'') (\<lambda>_.
     let actual = sortedColumns collate (viewCatalogColumns cat) in
     bindE (guardE (columnsMatch (js_sort (byKey collate) (viewColumns (contractView contract))) actual)
        ''Projection view columns do not match the contract'') (\<lambda>_.
     bindE (checkEach (checkRelationship collate hash schemaName contract cat meta actual) (relationships contract)) (\<lambda>_.
     let body = snapshotBody collate hash hex schemaName contract cat meta in
     Inr (body, stableDigest collate hash (JObj body))))))"

subsection \<open>Loading\<close>

record relationRow =
  rowKind :: string
  rowOwner :: string
  rowBarrier :: bool
  rowInvoker :: bool
  rowOptions :: "string list"
  rowDefinition :: string
  rowPrivileges :: "string list"
  rowColumnPrivileges :: "string list"

record dependencyRow =
  depRowSchema :: string
  depRowName :: string
  depRowKind :: string
  depRowOwner :: string
  depRowOptions :: "string list"
  depRowPrivileges :: "string list"
  depRowColumnPrivileges :: "string list"
  depRowDefinition :: "string option"
  depRowColumns :: "catalogColumn list option"

record columnRow =
  columnTable :: string
  columnRowName :: string
  columnDataType :: string
  columnUdt :: string
  columnNullable :: bool

text \<open>What the queries answer. The query for duplicates may answer no row.\<close>

record catalogRows =
  dbUserRow :: "string option"
  relationRows :: "relationRow list"
  dependencyRows :: "dependencyRow list"
  functionRows :: "(string \<times> string) list"
  columnRows :: "columnRow list"
  duplicatedRow :: "bool option"

definition columnsFor :: "catalogRows \<Rightarrow> string \<Rightarrow> catalogColumn list" where
  "columnsFor rows table =
     map (\<lambda>c. \<lparr>catalogName = columnRowName c, catalogType = normalizeCatalogType (columnDataType c) (columnUdt c),
            nullable = columnNullable c\<rparr>)
       (filter (\<lambda>c. columnTable c = table) (columnRows rows))"

definition dependencyOf ::
  "(string \<Rightarrow> string \<Rightarrow> int) \<Rightarrow> (jsval \<Rightarrow> 'd) \<Rightarrow> dependencyRow \<Rightarrow> 'd relationDependency" where
  "dependencyOf collate hash d =
     \<lparr>dependencySchema = depRowSchema d, dependencyName = depRowName d, dependencyKind = depRowKind d,
      dependencyView =
        (if depRowKind d \<in> {''v'', ''m''}
         then Some \<lparr>helperOwner = depRowOwner d, helperOptions = sort (depRowOptions d), helperPrivileges = depRowPrivileges d,
                helperColumnPrivileges = depRowColumnPrivileges d,
                helperDefinition = stableDigest collate hash
                  (JStr (normalizeViewDefinition (case depRowDefinition d of Some t \<Rightarrow> t | None \<Rightarrow> []))),
                helperColumns = (case depRowColumns d of Some cs \<Rightarrow> cs | None \<Rightarrow> [])\<rparr>
         else None)\<rparr>"

definition catalogOf ::
  "(string \<Rightarrow> string \<Rightarrow> int) \<Rightarrow> (jsval \<Rightarrow> 'd) \<Rightarrow> catalogRows \<Rightarrow> projectionContract \<Rightarrow> relationRow \<Rightarrow> 'd projectionCatalog" where
  "catalogOf collate hash rows contract relation =
     \<lparr>relationKind = rowKind relation, viewOwner = rowOwner relation, securityBarrier = rowBarrier relation,
      securityInvoker = rowInvoker relation, relationOptions = sort (rowOptions relation),
      publicPrivileges = rowPrivileges relation, publicColumnPrivileges = rowColumnPrivileges relation,
      viewDefinition = rowDefinition relation, viewCatalogColumns = columnsFor rows (viewName (contractView contract)),
      projectionKeyUnique = (duplicatedRow rows = Some False), functionDependencies = functionRows rows,
      relationDependencies = map (dependencyOf collate hash) (dependencyRows rows),
      catalogTables = map (\<lambda>r. (relTable r, columnsFor rows (relTable r))) (relationships contract)\<rparr>"

definition loadAuthorizationProjectionDependencies ::
  "(string \<Rightarrow> string \<Rightarrow> int) \<Rightarrow> (jsval \<Rightarrow> 'd) \<Rightarrow> ('d \<Rightarrow> string) \<Rightarrow> (rat \<Rightarrow> string) \<Rightarrow> catalogRows \<Rightarrow> string \<Rightarrow> projectionContract
   \<Rightarrow> jsval \<Rightarrow> string \<Rightarrow> string + ((string \<times> jsval) list \<times> 'd) \<times> string" where
  "loadAuthorizationProjectionDependencies collate hash hex nts rows schemaName contract metadata sourceName =
     bindE (assertIdentifier (JStr schemaName) ''Project schema name'') (\<lambda>_.
     (case dbUserRow rows of
        None \<Rightarrow> Inl ''Project database user is not configured''
      | Some dbUser \<Rightarrow>
          bindE (guardE (dbUser \<noteq> []) ''Project database user is not configured'') (\<lambda>_.
          case relationRows rows of
            [] \<Rightarrow> Inl ''Projection view does not exist''
          | relation # _ \<Rightarrow>
              bindE (checkEach (\<lambda>n. map_sum id (\<lambda>_. ()) (assertIdentifier (JStr n) ''SQL identifier''))
                (viewName (contractView contract) # viewKey (contractView contract))) (\<lambda>_.
              bindE (inspectProjectionMetadata nts metadata sourceName schemaName contract) (\<lambda>meta.
              bindE (buildAuthorizationProjectionDependencySnapshot collate hash hex schemaName dbUser contract
                  (catalogOf collate hash rows contract relation) meta) (\<lambda>snapshot.
              Inr (snapshot, dbUser)))))))"

end
