(* ===== verification/Projection_Properties.thy ===== *)
theory Projection_Properties
  imports Projection_Snapshot Managed_Properties
begin

text \<open>
  What a projection contract is once it is accepted, what an applied contract looks like when it is read back,
  and what the digest of its dependencies pins.
\<close>

subsection \<open>Well-formed contracts\<close>

definition goodColumn :: "bool \<Rightarrow> string \<times> string \<Rightarrow> bool" where
  "goodColumn json col \<longleftrightarrow> isIdentifier (fst col) \<and> snd col \<in> set COLUMN_TYPES \<and> (snd col = ''jsonb'' \<longrightarrow> json)"

definition wellFormedView :: "(string \<Rightarrow> string \<Rightarrow> int) \<Rightarrow> nat \<Rightarrow> projectionView \<Rightarrow> bool" where
  "wellFormedView collate version v \<longleftrightarrow>
     isIdentifier (viewName v)
     \<and> viewKey v \<noteq> [] \<and> distinct (viewKey v) \<and> list_all isIdentifier (viewKey v)
     \<and> list_all (\<lambda>n. isIn n (viewColumns v)) (viewKey v)
     \<and> viewColumns v \<noteq> [] \<and> list_all (goodColumn (version = 2)) (viewColumns v) \<and> sortedBy (byKey collate) (viewColumns v)
     \<and> (case environmentColumn v of
          None \<Rightarrow> version = 1
        | Some e \<Rightarrow> version = 2 \<and> isIdentifier e \<and> map_of (viewColumns v) e = Some ''jsonb'' \<and> e \<notin> set (viewKey v))"

definition wellFormedRelationship :: "(string \<Rightarrow> string \<Rightarrow> int) \<Rightarrow> projectionView \<Rightarrow> projectionRelationship \<Rightarrow> bool" where
  "wellFormedRelationship collate v r \<longleftrightarrow>
     list_all isIdentifier [relTable r, relName r, ownerColumn r, actorColumn r, allowColumn r]
     \<and> relMapping r \<noteq> [] \<and> list_all (\<lambda>(s, t). isIdentifier s \<and> isIdentifier t) (relMapping r)
     \<and> sortedBy (byKey collate) (relMapping r)
     \<and> distinct (map snd (relMapping r)) \<and> set (map snd (relMapping r)) = set (viewKey v)
     \<and> isIn (allowColumn r) (viewColumns v)
     \<and> actorColumn r \<in> set (viewKey v) \<and> map_of (relMapping r) (ownerColumn r) = Some (actorColumn r)"

definition wellFormedContract :: "(string \<Rightarrow> string \<Rightarrow> int) \<Rightarrow> projectionContract \<Rightarrow> bool" where
  "wellFormedContract collate c \<longleftrightarrow>
     wellFormedView collate (contractVersion c) (contractView c)
     \<and> relationships c \<noteq> [] \<and> list_all (wellFormedRelationship collate (contractView c)) (relationships c)
     \<and> distinct (map relationshipIdentity (relationships c))
     \<and> sortedBy (compareRelationships collate) (relationships c)"

subsection \<open>Accepted contracts are well-formed\<close>

lemma assertIdentifier_Inr: "assertIdentifier v label = Inr s \<longleftrightarrow> v = JStr s \<and> isIdentifier s"
  by (auto simp: assertIdentifier_def split: jsval.splits)

lemma parseIdentifiers_Inr: "parseIdentifiers vs label = Inr ss \<longleftrightarrow> vs = map JStr ss \<and> list_all isIdentifier ss"
proof (induction vs arbitrary: ss)
  case (Cons v vs)
  then show ?case by (cases ss) (auto simp: assertIdentifier_Inr)
qed auto

lemma parseIdentifierArray_Inr:
  "parseIdentifierArray v label = Inr ss \<longleftrightarrow> v = JArr (map JStr ss) \<and> list_all isIdentifier ss \<and> distinct ss"
  by (auto simp: parseIdentifierArray_def parseIdentifiers_Inr list_all_iff split: jsval.splits)

lemma parseColumns_Inr:
  "version \<in> {1, 2} \<Longrightarrow> parseColumns version ps = Inr cs
     \<longleftrightarrow> ps = map (\<lambda>(k, v). (k, JStr v)) cs \<and> list_all (goodColumn (version = 2)) cs"
proof (induction version ps arbitrary: cs rule: parseColumns.induct)
  case (2 version name ty rest)
  then show ?case by (cases cs; cases ty) (auto simp: assertIdentifier_Inr goodColumn_def)
qed auto

lemma parseMapping_Inr:
  "parseMapping ps = Inr m \<longleftrightarrow> ps = map (\<lambda>(k, v). (k, JStr v)) m \<and> list_all (\<lambda>(s, t). isIdentifier s \<and> isIdentifier t) m"
proof (induction ps arbitrary: m rule: parseMapping.induct)
  case (2 source target rest)
  then show ?case by (cases m) (auto simp: assertIdentifier_Inr)
qed auto

lemma collation_byKey: "collation collate \<Longrightarrow> collation (byKey collate)"
  unfolding byKey_def by (rule collation_fst)

lemma sortedBy_strings: "sortedBy (byKey collate) (map (\<lambda>(k, v). (k, f v)) cs) \<longleftrightarrow> sortedBy (byKey collate) cs"
  by (simp add: sorted_wrt_map byKey_def case_prod_beta)

lemma js_sort_Nil [simp]: "js_sort cmp [] = []"
  by (simp add: js_sort_def)

lemma sortedBy_parsed:
  assumes "js_sort (byKey collate) ps = map (\<lambda>(k, v). (k, JStr v)) cs" "collation collate"
  shows "sortedBy (byKey collate) cs"
  using sortedBy_js_sort [OF collation_byKey [OF assms(2)], of ps] assms(1) sortedBy_strings by metis

lemma sortedNames_digest:
  assumes "inj hash" "stableDigest collate hash (sortedNames xs) = stableDigest collate hash (sortedNames ys)"
  shows "set xs = set ys"
proof -
  have "map JStr (sort xs) = map JStr (sort ys)"
    using injD [OF assms(1), of "sortJson collate (sortedNames xs)" "sortJson collate (sortedNames ys)"] assms(2)
    by (simp add: stableDigest_def sortedNames_def comp_def list_all_iff sorted_sort_id)
  then have "sort xs = sort ys" by (simp add: inj_map_eq_map inj_def)
  then show ?thesis by (metis set_sort)
qed

lemma parseView_wellFormed:
  assumes "parseView collate version v = Inr view" "version \<in> {1, 2}" "collation collate"
  shows "wellFormedView collate version view"
proof -
  obtain name key cs columns environment where view: "view = \<lparr>viewName = name, viewKey = key, viewColumns = columns, environmentColumn = environment\<rparr>"
    and ok: "isIdentifier name" "list_all isIdentifier key" "distinct key" "key \<noteq> []" "cs \<noteq> []"
      "parseColumns version (js_sort (byKey collate) cs) = Inr columns" "list_all (\<lambda>n. isIn n columns) key"
      "\<exists>ps. parseEnvironmentColumn version ps key columns = Inr environment"
    using assms(1) unfolding parseView_def bindE_Inr_iff assertIdentifier_Inr parseIdentifierArray_Inr guardE_Inr_iff by blast
  have cols: "js_sort (byKey collate) cs = map (\<lambda>(k, v). (k, JStr v)) columns" "list_all (goodColumn (version = 2)) columns"
    using ok(6) parseColumns_Inr [OF assms(2)] by simp_all
  have "columns \<noteq> []"
    using cols(1) ok(5) set_js_sort [of "byKey collate" cs] by auto
  moreover have "sortedBy (byKey collate) columns" by (rule sortedBy_parsed [OF cols(1) assms(3)])
  moreover have "case environment of None \<Rightarrow> version = 1
      | Some e \<Rightarrow> version = 2 \<and> isIdentifier e \<and> map_of columns e = Some ''jsonb'' \<and> e \<notin> set key"
    using ok(8) assms(2) by (auto simp: parseEnvironmentColumn_def assertIdentifier_Inr split: if_splits)
  ultimately show ?thesis using ok(1-4,7) cols(2) by (cases environment) (simp_all add: wellFormedView_def view)
qed

lemma parseRelationship_wellFormed:
  assumes "parseRelationship collate hash view item = Inr r" "collation collate" "inj hash"
  shows "wellFormedRelationship collate view r"
proof -
  obtain table name owner actor allow entries mapping where
    r: "r = \<lparr>relTable = table, relName = name, relMapping = mapping, ownerColumn = owner, actorColumn = actor, allowColumn = allow\<rparr>"
    and ids: "isIdentifier table" "isIdentifier name" "isIdentifier owner" "isIdentifier actor" "isIdentifier allow"
    and m: "entries \<noteq> []" "parseMapping (js_sort (byKey collate) entries) = Inr mapping" "distinct (map snd mapping)"
      "stableDigest collate hash (sortedNames (map snd mapping)) = stableDigest collate hash (sortedNames (viewKey view))"
    and cols: "isIn allow (viewColumns view)" "actor \<in> set (viewKey view)" "map_of mapping owner = Some actor"
    using assms(1) unfolding parseRelationship_def bindE_Inr_iff assertIdentifier_Inr guardE_Inr_iff by blast
  have sorted: "js_sort (byKey collate) entries = map (\<lambda>(k, v). (k, JStr v)) mapping"
      "list_all (\<lambda>(s, t). isIdentifier s \<and> isIdentifier t) mapping"
    using m(2) parseMapping_Inr by simp_all
  have "mapping \<noteq> []" using m(1) sorted(1) set_js_sort [of "byKey collate" entries] by auto
  moreover have "set (map snd mapping) = set (viewKey view)" by (rule sortedNames_digest [OF assms(3) m(4)])
  ultimately show ?thesis
    using ids m(3) cols sorted(2) sortedBy_parsed [OF sorted(1) assms(2)] by (simp add: wellFormedRelationship_def r)
qed

lemma parseRelationships_Inr:
  assumes "parseRelationships collate hash view seen items = Inr rs" "collation collate" "inj hash"
  shows "list_all (wellFormedRelationship collate view) rs \<and> distinct (map relationshipIdentity rs)
     \<and> set (map relationshipIdentity rs) \<inter> set seen = {} \<and> (items \<noteq> [] \<longrightarrow> rs \<noteq> [])"
  using assms
  by (induction items arbitrary: seen rs) (fastforce dest: parseRelationship_wellFormed)+

text \<open>Comparing by one thing and then by another.\<close>

lemma then_by_le:
  fixes a b c d :: int
  assumes "0 \<le> b \<longleftrightarrow> a \<le> 0" "0 \<le> a \<longleftrightarrow> b \<le> 0"
  shows "(if a \<noteq> 0 then a else c) \<le> 0 \<longleftrightarrow> a \<le> 0 \<and> (b \<le> 0 \<longrightarrow> c \<le> 0)"
    and "0 \<le> d \<longleftrightarrow> c \<le> 0 \<Longrightarrow> 0 \<le> (if b \<noteq> 0 then b else d) \<longleftrightarrow> a \<le> 0 \<and> (b \<le> 0 \<longrightarrow> c \<le> 0)"
  using assms by auto

lemma compareRelationships_le:
  assumes "collation cmp"
  shows "compareRelationships cmp l r \<le> 0 \<longleftrightarrow>
     cmp (relTable l) (relTable r) \<le> 0 \<and> (cmp (relTable r) (relTable l) \<le> 0 \<longrightarrow> cmp (relName l) (relName r) \<le> 0)"
    and "0 \<le> compareRelationships cmp r l \<longleftrightarrow>
     cmp (relTable l) (relTable r) \<le> 0 \<and> (cmp (relTable r) (relTable l) \<le> 0 \<longrightarrow> cmp (relName l) (relName r) \<le> 0)"
  unfolding compareRelationships_def
  by (rule then_by_le; rule collation_swap [OF assms])+

lemma collation_relationships: "collation cmp \<Longrightarrow> collation (compareRelationships cmp)"
  using collation_trans [of cmp] unfolding collation_def [of "compareRelationships cmp"]
  by (simp add: compareRelationships_le) blast

text \<open>
  C24. An accepted contract is well-formed: identifiers everywhere, a key without repetitions, typed columns, and relationships
  that are distinct, map their columns onto the key one to one and tie the owner of a row to the actor.
\<close>

theorem contract_accepted_well_formed:
  assumes "collation collate" "inj hash"
    and "parseAuthorizationProjectionContract collate hash v = Inr c"
  shows "wellFormedContract collate c"
proof -
  obtain ps version view items rs where
    v: "parseVersion ps = Inr version" "parseView collate version (get ps ''view'') = Inr view" "items \<noteq> []"
      "parseRelationships collate hash view [] items = Inr rs"
    and c: "c = \<lparr>contractVersion = version, contractView = view, relationships = js_sort (compareRelationships collate) rs\<rparr>"
  proof -
    obtain ps version view where ps: "parseVersion ps = Inr version" "parseView collate version (get ps ''view'') = Inr view"
      and rest: "(case get ps ''relationships'' of
        JArr items \<Rightarrow>
          bindE (guardE (items \<noteq> []) ''Projection relationships are required'') (\<lambda>_.
          bindE (parseRelationships collate hash view [] items) (\<lambda>rs.
          Inr \<lparr>contractVersion = version, contractView = view, relationships = js_sort (compareRelationships collate) rs\<rparr>))
      | _ \<Rightarrow> Inl ''Projection relationships are required'') = Inr c"
      using assms(3) unfolding parseAuthorizationProjectionContract_def bindE_Inr_iff by blast
    from rest obtain items rs where "items \<noteq> []" "parseRelationships collate hash view [] items = Inr rs"
        "c = \<lparr>contractVersion = version, contractView = view, relationships = js_sort (compareRelationships collate) rs\<rparr>"
      by (cases "get ps ''relationships''") auto
    with ps show thesis by (rule that)
  qed
  have version: "version \<in> {1, 2}" using v(1) by (auto simp: parseVersion_def split: if_splits)
  note rels = parseRelationships_Inr [OF v(4) assms(1,2)]
  have "js_sort (compareRelationships collate) rs \<noteq> []"
    using rels v(3) set_js_sort [of "compareRelationships collate" rs] by (metis set_empty)
  then show ?thesis
    using rels parseView_wellFormed [OF v(2) version assms(1)] sortedBy_js_sort [OF collation_relationships [OF assms(1)]]
    by (simp add: wellFormedContract_def c list_all_iff distinct_js_sort)
qed

subsection \<open>Well-formed contracts are accepted\<close>

lemma sort_mapping:
  "sortedBy (byKey collate) cs \<Longrightarrow> js_sort (byKey collate) (map (\<lambda>(k, v). (k, JStr v)) cs) = map (\<lambda>(k, v). (k, JStr v)) cs"
  by (rule js_sort_id) (simp add: sortedBy_strings)

lemma parse_viewJson:
  assumes "wellFormedView collate version view"
  shows "parseView collate version (viewJson view) = Inr view"
proof -
  have version: "version \<in> {1, 2}" using assms by (auto simp: wellFormedView_def split: option.splits)
  have "parseColumns version (js_sort (byKey collate) (map (\<lambda>(k, v). (k, JStr v)) (viewColumns view))) = Inr (viewColumns view)"
    using assms parseColumns_Inr [OF version] sort_mapping by (auto simp: wellFormedView_def)
  then show ?thesis
    using assms version
    by (cases "environmentColumn view")
       (auto simp: wellFormedView_def parseView_def viewJson_def assertRecord_def assertExactKeys_def viewFields_def get_def mappingJson_def
          assertIdentifier_Inr parseIdentifierArray_Inr parseEnvironmentColumn_def parseClientPermissions_def)
qed

lemma parse_relationshipJson:
  assumes "wellFormedRelationship collate view r" "distinct (viewKey view)" "list_all (\<lambda>n. isIn n (viewColumns view)) (viewKey view)"
  shows "parseRelationship collate hash view (relationshipJson r) = Inr r"
proof -
  have "sort (map snd (relMapping r)) = sort (viewKey view)"
    using assms(1,2) by (intro sorted_distinct_set_unique) (auto simp: wellFormedRelationship_def)
  then have digest: "sortedNames (map snd (relMapping r)) = sortedNames (viewKey view)" by (simp add: sortedNames_def)
  have "parseMapping (js_sort (byKey collate) (map (\<lambda>(k, v). (k, JStr v)) (relMapping r))) = Inr (relMapping r)"
    using assms(1) sort_mapping parseMapping_Inr by (auto simp: wellFormedRelationship_def)
  moreover have "isIn (actorColumn r) (viewColumns view)" using assms(1,3) by (auto simp: wellFormedRelationship_def list_all_iff)
  ultimately show ?thesis
    using assms(1)
    by (auto simp: wellFormedRelationship_def parseRelationship_def relationshipJson_def assertRecord_def assertExactKeys_def get_def
        mappingJson_def assertIdentifier_Inr digest)
qed

lemma parse_relationshipsJson:
  assumes "list_all (wellFormedRelationship collate view) rs" "distinct (viewKey view)" "list_all (\<lambda>n. isIn n (viewColumns view)) (viewKey view)"
    and "distinct (map relationshipIdentity rs)" "set (map relationshipIdentity rs) \<inter> set seen = {}"
  shows "parseRelationships collate hash view seen (map relationshipJson rs) = Inr rs"
  using assms(1,4,5)
  by (induction rs arbitrary: seen) (auto simp: parse_relationshipJson [OF _ assms(2,3)])

text \<open>
  A well-formed contract is accepted, and its JSON reads back as the contract: what an operation stores of an accepted
  contract is accepted again, unchanged.
\<close>

theorem contract_roundtrip:
  assumes "wellFormedContract collate c"
  shows "parseAuthorizationProjectionContract collate hash (contractJson c) = Inr c"
proof -
  note ok = assms [unfolded wellFormedContract_def]
  have version: "contractVersion c \<in> {1, 2}" using ok by (auto simp: wellFormedView_def split: option.splits)
  have rels: "parseRelationships collate hash (contractView c) [] (map relationshipJson (relationships c)) = Inr (relationships c)"
    by (rule parse_relationshipsJson) (use ok in \<open>auto simp: wellFormedView_def\<close>)
  have sorted: "js_sort (compareRelationships collate) (relationships c) = relationships c"
    by (rule js_sort_id) (use ok in simp)
  show ?thesis
    using ok version rels sorted parse_viewJson [of collate "contractVersion c" "contractView c"]
    by (auto simp: parseAuthorizationProjectionContract_def contractJson_def assertRecord_def assertExactKeys_def parseVersion_def get_def)
qed

end
