(* ===== verification/Projection_Apply.thy ===== *)
theory Projection_Apply
  imports Projection_Properties
begin

text \<open>
  An applied contract reads back: the metadata \<open>buildAuthorizationProjectionMetadata\<close> writes is metadata
  in which \<open>inspectProjectionMetadata\<close> finds the view and exactly the relationships of the contract.
\<close>

subsection \<open>Lists and properties\<close>

lemma locate_Some:
  "locate P xs = Inr (Some (pre, x, post)) \<Longrightarrow>
     xs = pre @ x # post \<and> P x = Inr True \<and> (\<forall>y \<in> set pre. P y = Inr False)"
proof (induction xs arbitrary: pre)
  case (Cons y ys)
  obtain b where b: "P y = Inr b" using Cons.prems by auto
  show ?case
  proof (cases b)
    case False
    then obtain pre' where "locate P ys = Inr (Some (pre', x, post))" "pre = y # pre'" using Cons.prems b by auto
    with Cons.IH b False show ?thesis by simp
  qed (use Cons.prems b in simp)
qed simp

lemma locate_None: "locate P xs = Inr None \<Longrightarrow> \<forall>y \<in> set xs. P y = Inr False"
proof (induction xs)
  case (Cons y ys)
  obtain b where b: "P y = Inr b" using Cons.prems by auto
  with Cons show ?case by (cases b) auto
qed simp

lemma keepOnly_filter:
  "keepOnly P xs = Inr ys \<Longrightarrow> ys = filter (\<lambda>x. P x = Inr True) xs \<and> (\<forall>x \<in> set xs. \<exists>b. P x = Inr b)"
  by (induction xs arbitrary: ys) auto

lemma propOf_Inr: "propOf v k = Inr x \<Longrightarrow> x = js_get v k"
  by (simp add: propOf_def split: if_splits)

lemma propIs_Inr: "propIs k s v = Inr b \<Longrightarrow> b \<longleftrightarrow> js_get v k = JStr s"
  by (auto simp: propIs_def dest: propOf_Inr)

lemma js_get_object: "js_get v k = JStr s \<Longrightarrow> \<exists>ps. v = JObj ps"
  by (cases v) auto

lemma js_get_setProp: "js_get (setProp v k x) k' = (if k = k' \<and> (\<exists>ps. v = JObj ps) then x else js_get v k')"
  by (cases v) (auto simp: setProp_def update_conv')

lemma isObject_setProp [simp]: "isObject (setProp v k x) = isObject v"
  by (cases v) (auto simp: setProp_def isObject_def)

lemma firstWith_append:
  "(\<forall>y \<in> set pre. \<not> P y) \<Longrightarrow> P x \<Longrightarrow> firstWith P (pre @ x # post) = Some x"
  by (simp add: firstWith_def filter_empty_conv)

lemma isTable_Inr:
  "isTable schemaName name t = Inr b \<Longrightarrow>
     b \<longleftrightarrow> js_get (js_get t ''table'') ''schema'' = JStr schemaName \<and> js_get (js_get t ''table'') ''name'' = JStr name"
  by (auto simp: isTable_def dest!: propOf_Inr)

lemma keepOnly_others:
  assumes "keepOnly (\<lambda>p. bindE (propIs k s p) (\<lambda>b. Inr (\<not> b))) xs = Inr ys"
  shows "ys = filter (\<lambda>v. js_get v k \<noteq> JStr s) xs"
proof -
  have "bindE (propIs k s x) (\<lambda>b. Inr (\<not> b)) = Inr True \<longleftrightarrow> js_get x k \<noteq> JStr s" if "x \<in> set xs" for x
  proof -
    have "\<exists>b. propIs k s x = Inr b" using conjunct2 [OF keepOnly_filter [OF assms]] that by auto
    then obtain b where "propIs k s x = Inr b" by blast
    with propIs_Inr [OF this] show ?thesis by simp
  qed
  then show ?thesis unfolding conjunct1 [OF keepOnly_filter [OF assms]] by (rule filter_cong [OF refl])
qed

text \<open>A table of the schema with a name.\<close>

definition tableIs :: "string \<Rightarrow> string \<Rightarrow> jsval \<Rightarrow> bool" where
  "tableIs schemaName name t \<longleftrightarrow>
     js_get (js_get t ''table'') ''schema'' = JStr schemaName \<and> js_get (js_get t ''table'') ''name'' = JStr name"

lemma tableIs_object: "tableIs schemaName name t \<Longrightarrow> \<exists>ps. t = JObj ps"
  by (cases t) (auto simp: tableIs_def)

lemma tableIs_meta: "tableIs schemaName name t \<longleftrightarrow> isMetadataTable t \<and> tableSchema t = schemaName \<and> tableName t = name"
proof
  assume t: "tableIs schemaName name t"
  then obtain ps qs where "t = JObj ps" "js_get t ''table'' = JObj qs"
    using tableIs_object js_get_object unfolding tableIs_def by metis
  with t show "isMetadataTable t \<and> tableSchema t = schemaName \<and> tableName t = name"
    by (auto simp: isMetadataTable_def tableIs_def tableSchema_def tableName_def isObject_def)
qed (auto simp: isMetadataTable_def tableIs_def tableSchema_def tableName_def js_is_string_iff)

lemma tableIs_setProp: "k \<noteq> ''table'' \<Longrightarrow> tableIs schemaName name (setProp t k x) = tableIs schemaName name t"
  by (simp add: tableIs_def js_get_setProp)

lemma isTable_tableIs: "isTable schemaName name t = Inr b \<Longrightarrow> b \<longleftrightarrow> tableIs schemaName name t"
  unfolding tableIs_def by (rule isTable_Inr)

subsection \<open>One table\<close>

text \<open>What a relationship of a contract is in the metadata.\<close>

definition asRead :: "string \<Rightarrow> string \<Rightarrow> projectionRelationship \<Rightarrow> metadataRelationship" where
  "asRead schemaName view r =
     \<lparr>onTable = relTable r, relationshipName = relName r, isObjectRelationship = True,
      usingJson = projectionRelationshipUsing schemaName view (relMapping r),
      targetSchema = schemaName, targetTable = view, metadataMapping = relMapping r\<rparr>"

definition namedIn :: "(rat \<Rightarrow> string) \<Rightarrow> string \<Rightarrow> jsval \<Rightarrow> metadataRelationship list" where
  "namedIn nts name t = filter (\<lambda>m. relationshipName m = name) (readTable nts t)"

lemma read_other_name:
  "js_get v ''name'' \<noteq> JStr name \<Longrightarrow> filter (\<lambda>m. relationshipName m = name) (readRelationship nts table object v) = []"
  by (auto simp: readRelationship_def Let_def js_is_string_iff)

lemma read_not_object: "\<not> isObject v \<Longrightarrow> readRelationship nts table object v = []"
  by (simp add: readRelationship_def Let_def)

lemma stringEntries_mappingJson [simp]: "stringEntries (mappingJson m) = m"
  by (induction m) (auto simp: stringEntries_def mappingJson_def)

lemma read_new:
  "readRelationship nts (relTable r) True
     (JObj [(''name'', JStr (relName r)), (''using'', projectionRelationshipUsing schemaName view (relMapping r))])
   = [asRead schemaName view r]"
  by (simp add: readRelationship_def Let_def asRead_def projectionRelationshipUsing_def isObject_def textOrEmpty_def nullish_def
      stringEntries_mappingJson [unfolded mappingJson_def] mappingJson_def)

lemma filter_concat_map: "filter P (concat (map f xs)) = concat (map (filter P \<circ> f) xs)"
  by (induction xs) auto

lemma concat_map_drop:
  "(\<And>x. x \<in> set xs \<Longrightarrow> \<not> Q x \<Longrightarrow> g x = []) \<Longrightarrow> concat (map g (filter Q xs)) = concat (map g xs)"
  by (induction xs) auto

lemma concat_map_Nil: "(\<And>x. x \<in> set xs \<Longrightarrow> g x = []) \<Longrightarrow> concat (map g xs) = []"
  by (induction xs) auto

lemma withRelationship_shape:
  assumes "withRelationship collate hash schemaName view role r perm t = Inr t'" "tableIs schemaName (relTable r) t"
  obtains rels perms where
    "js_get t ''object_relationships'' = JArr rels \<or> rels = [] \<and> nullish (js_get t ''object_relationships'')"
    "\<not> list_ex (\<lambda>v. isObject v \<and> js_get v ''name'' = JStr (relName r)) (arrayOrNone (js_get t ''array_relationships''))"
    "t' = setProp (setProp t ''select_permissions'' (JArr perms)) ''object_relationships''
       (JArr (filter (\<lambda>v. js_get v ''name'' \<noteq> JStr (relName r)) rels @ [JObj [(''name'', JStr (relName r)),
          (''using'', projectionRelationshipUsing schemaName view (relMapping r))]]))"
proof -
  obtain rels otherRels perms where
    rels: "elementsOrNone (js_get t ''object_relationships'') = Inr rels"
    and arr: "\<not> list_ex (\<lambda>v. isObject v \<and> js_get v ''name'' = JStr (relName r)) (arrayOrNone (js_get t ''array_relationships''))"
    and other: "keepOnly (\<lambda>p. bindE (propIs ''name'' (relName r) p) (\<lambda>b. Inr (\<not> b))) rels = Inr otherRels"
    and t': "t' = setProp (setProp t ''select_permissions'' (JArr perms)) ''object_relationships''
       (JArr (otherRels @ [JObj [(''name'', JStr (relName r)),
          (''using'', projectionRelationshipUsing schemaName view (relMapping r))]]))"
    using assms(1) unfolding withRelationship_def bindE_Inr_iff guardE_Inr_iff by blast
  have "otherRels = filter (\<lambda>v. js_get v ''name'' \<noteq> JStr (relName r)) rels"
    by (rule keepOnly_others [OF other])
  moreover have "js_get t ''object_relationships'' = JArr rels \<or> rels = [] \<and> nullish (js_get t ''object_relationships'')"
    using rels by (auto simp: elementsOrNone_def elements_def split: if_splits jsval.splits)
  ultimately show thesis using that arr t' by blast
qed

lemma namedIn_split:
  "namedIn nts name t =
     concat (map (filter (\<lambda>m. relationshipName m = name) \<circ> readRelationship nts (tableName t) True) (arrayOrNone (js_get t ''object_relationships'')))
     @ concat (map (filter (\<lambda>m. relationshipName m = name) \<circ> readRelationship nts (tableName t) False) (arrayOrNone (js_get t ''array_relationships'')))"
  by (simp add: namedIn_def readTable_def filter_concat_map)

lemma withRelationship_keeps_table:
  assumes "withRelationship collate hash schemaName view role r perm t = Inr t'" "tableIs schemaName (relTable r) t"
  shows "tableIs s n t' = tableIs s n t"
  by (rule withRelationship_shape [OF assms]) (simp add: tableIs_setProp)

lemma withRelationship_named:
  assumes "withRelationship collate hash schemaName view role r perm t = Inr t'" "tableIs schemaName (relTable r) t"
  shows "namedIn nts (relName r) t' = [asRead schemaName view r]"
    and "name \<noteq> relName r \<Longrightarrow> namedIn nts name t' = namedIn nts name t"
proof -
  obtain rels perms where rels: "js_get t ''object_relationships'' = JArr rels \<or> rels = [] \<and> nullish (js_get t ''object_relationships'')"
    and arr: "\<not> list_ex (\<lambda>v. isObject v \<and> js_get v ''name'' = JStr (relName r)) (arrayOrNone (js_get t ''array_relationships''))"
    and t': "t' = setProp (setProp t ''select_permissions'' (JArr perms)) ''object_relationships''
       (JArr (filter (\<lambda>v. js_get v ''name'' \<noteq> JStr (relName r)) rels @ [JObj [(''name'', JStr (relName r)),
          (''using'', projectionRelationshipUsing schemaName view (relMapping r))]]))"
    by (rule withRelationship_shape [OF assms])
  obtain ps where t: "t = JObj ps" using tableIs_object [OF assms(2)] by blast
  have name: "tableName t = relTable r" "tableName t' = relTable r"
    using assms(2) by (simp_all add: tableIs_meta t' tableName_def js_get_setProp)
  have objects: "arrayOrNone (js_get t' ''object_relationships'') =
      filter (\<lambda>v. js_get v ''name'' \<noteq> JStr (relName r)) rels @ [JObj [(''name'', JStr (relName r)),
          (''using'', projectionRelationshipUsing schemaName view (relMapping r))]]"
    by (simp add: t' t js_get_setProp setProp_def arrayOrNone_def update_conv')
  have arrays: "arrayOrNone (js_get t' ''array_relationships'') = arrayOrNone (js_get t ''array_relationships'')"
    by (simp add: t' js_get_setProp)
  have old: "arrayOrNone (js_get t ''object_relationships'') = rels"
    using rels by (auto simp: arrayOrNone_def nullish_def)
  have noArray: "concat (map (filter (\<lambda>m. relationshipName m = relName r) \<circ> readRelationship nts (relTable r) False)
      (arrayOrNone (js_get t ''array_relationships''))) = []"
  proof (rule concat_map_Nil)
    fix v assume v: "v \<in> set (arrayOrNone (js_get t ''array_relationships''))"
    show "(filter (\<lambda>m. relationshipName m = relName r) \<circ> readRelationship nts (relTable r) False) v = []"
    proof (cases "isObject v")
      case True
      then have "js_get v ''name'' \<noteq> JStr (relName r)" using arr v by (simp add: list_ex_iff)
      then show ?thesis by (simp add: read_other_name)
    qed (simp add: read_not_object)
  qed
  have others: "concat (map (filter (\<lambda>m. relationshipName m = relName r) \<circ> readRelationship nts (relTable r) True)
      (filter (\<lambda>v. js_get v ''name'' \<noteq> JStr (relName r)) rels)) = []"
    by (rule concat_map_Nil) (simp add: read_other_name)
  show "namedIn nts (relName r) t' = [asRead schemaName view r]"
    unfolding namedIn_split objects arrays name
    using noArray others by (simp add: read_new asRead_def del: concat_eq_Nil_conv)
  show "namedIn nts name t' = namedIn nts name t" if "name \<noteq> relName r"
  proof -
    have "concat (map (filter (\<lambda>m. relationshipName m = name) \<circ> readRelationship nts (relTable r) True)
        (filter (\<lambda>v. js_get v ''name'' \<noteq> JStr (relName r)) rels))
      = concat (map (filter (\<lambda>m. relationshipName m = name) \<circ> readRelationship nts (relTable r) True) rels)"
      using that by (intro concat_map_drop) (simp add: read_other_name)
    then show ?thesis using that unfolding namedIn_split objects arrays name old by (simp add: read_new asRead_def)
  qed
qed

subsection \<open>All tables\<close>

lemma withRelationships_Cons:
  assumes "withRelationships collate hash schemaName view role targets (r # rs) tables = Inr tables'"
  obtains pre t post perm t' where "locate (isTable schemaName (relTable r)) tables = Inr (Some (pre, t, post))"
    "withRelationship collate hash schemaName view role r perm t = Inr t'"
    "withRelationships collate hash schemaName view role targets rs (pre @ t' # post) = Inr tables'"
proof -
  obtain found where f: "locate (isTable schemaName (relTable r)) tables = Inr found" using assms by auto
  obtain pre t post perm where e: "found = Some (pre, t, post)" "targets (relTable r) = Some perm"
    using assms f by (cases found; cases "targets (relTable r)") auto
  then show thesis using assms f that by auto
qed

lemma withRelationships_tables:
  assumes "withRelationships collate hash schemaName view role targets rs tables = Inr tables'"
  shows "map (\<lambda>t. (tableIs s n t)) tables' = map (\<lambda>t. tableIs s n t) tables"
  using assms
proof (induction rs arbitrary: tables)
  case (Cons r rs)
  obtain pre t post perm t' where l: "locate (isTable schemaName (relTable r)) tables = Inr (Some (pre, t, post))"
    and w: "withRelationship collate hash schemaName view role r perm t = Inr t'"
    and rest: "withRelationships collate hash schemaName view role targets rs (pre @ t' # post) = Inr tables'"
    by (rule withRelationships_Cons [OF Cons.prems])
  have "tableIs schemaName (relTable r) t" using locate_Some [OF l] isTable_tableIs by blast
  then have "tableIs s n t' = tableIs s n t" by (rule withRelationship_keeps_table [OF w])
  with Cons.IH [OF rest] locate_Some [OF l] show ?case by simp
qed simp

text \<open>Each table of the contract is there, and reads as the contract says.\<close>

definition linked :: "(rat \<Rightarrow> string) \<Rightarrow> string \<Rightarrow> string \<Rightarrow> projectionRelationship \<Rightarrow> jsval \<Rightarrow> bool" where
  "linked nts schemaName view r t \<longleftrightarrow>
     tableIs schemaName (relTable r) t \<and> namedIn nts (relName r) t = [asRead schemaName view r]"

lemma linked_stays:
  assumes "linked nts schemaName view r t" "t \<in> set tables" "r \<notin> set rs"
    and "\<forall>r' \<in> set rs. (relTable r', relName r') \<noteq> (relTable r, relName r)"
    and "withRelationships collate hash schemaName view role targets rs tables = Inr tables'"
  shows "\<exists>t' \<in> set tables'. linked nts schemaName view r t'"
  using assms
proof (induction rs arbitrary: tables t)
  case (Cons r1 rs)
  obtain pre u post perm u' where l: "locate (isTable schemaName (relTable r1)) tables = Inr (Some (pre, u, post))"
    and w: "withRelationship collate hash schemaName view role r1 perm u = Inr u'"
    and rest: "withRelationships collate hash schemaName view role targets rs (pre @ u' # post) = Inr tables'"
    by (rule withRelationships_Cons [OF Cons.prems(5)])
  have u: "tableIs schemaName (relTable r1) u" using locate_Some [OF l] isTable_tableIs by blast
  show ?case
  proof (cases "t = u")
    case True
    then have "relTable r1 = relTable r" using u Cons.prems(1) by (simp add: linked_def tableIs_def)
    then have "relName r \<noteq> relName r1" using Cons.prems(4) by auto
    then have "linked nts schemaName view r u'"
      using Cons.prems(1) True withRelationship_named(2) [OF w u] withRelationship_keeps_table [OF w u] by (simp add: linked_def)
    with Cons.IH [OF this _ _ _ rest] Cons.prems show ?thesis by simp
  next
    case False
    then have "t \<in> set (pre @ u' # post)" using Cons.prems(2) locate_Some [OF l] by auto
    with Cons.IH [OF Cons.prems(1) this _ _ rest] Cons.prems show ?thesis by simp
  qed
qed auto

lemma withRelationships_linked:
  assumes "withRelationships collate hash schemaName view role targets rs tables = Inr tables'"
    and "distinct (map (\<lambda>r. (relTable r, relName r)) rs)" "r \<in> set rs"
  shows "\<exists>t \<in> set tables'. linked nts schemaName view r t"
  using assms
proof (induction rs arbitrary: tables)
  case (Cons r1 rs)
  obtain pre u post perm u' where l: "locate (isTable schemaName (relTable r1)) tables = Inr (Some (pre, u, post))"
    and w: "withRelationship collate hash schemaName view role r1 perm u = Inr u'"
    and rest: "withRelationships collate hash schemaName view role targets rs (pre @ u' # post) = Inr tables'"
    by (rule withRelationships_Cons [OF Cons.prems(1)])
  have u: "tableIs schemaName (relTable r1) u" using locate_Some [OF l] isTable_tableIs by blast
  show ?case
  proof (cases "r = r1")
    case True
    have "linked nts schemaName view r u'"
      using withRelationship_named(1) [OF w u] withRelationship_keeps_table [OF w u] u True by (simp add: linked_def)
    then show ?thesis
      by (rule linked_stays [OF _ _ _ _ rest]) (use Cons.prems(2) True in \<open>auto simp: image_iff\<close>)
  next
    case False
    with Cons.IH [OF rest] Cons.prems(2,3) show ?thesis by simp
  qed
qed simp

subsection \<open>The source\<close>

lemma source_tables_kept:
  assumes "locate (propIs ''name'' sourceName) sources = Inr (Some (pre, source, post))"
    and "js_get metadata ''sources'' = JArr sources"
  shows "sourceTables (setProp metadata ''sources'' (JArr (pre @ setProp source ''tables'' (JArr tables) # post))) sourceName = Inr tables"
proof -
  let ?P = "\<lambda>item. isObject item \<and> js_get item ''name'' = JStr sourceName"
  have src: "js_get source ''name'' = JStr sourceName" and others: "\<forall>y \<in> set pre. \<not> ?P y"
    using locate_Some [OF assms(1)] propIs_Inr by blast+
  then obtain ps where ps: "source = JObj ps" using js_get_object by blast
  obtain ms where ms: "metadata = JObj ms" using assms(2) by (cases metadata) auto
  have P: "?P (setProp source ''tables'' (JArr tables))" using src ps by (simp add: js_get_setProp) (simp add: isObject_def)
  have "js_get (setProp metadata ''sources'' x) ''sources'' = x" for x by (simp add: ms js_get_setProp)
  then show ?thesis
    using firstWith_append [where P = ?P, OF others P, of post]
    by (simp add: sourceTables_def arrayOrNone_def js_get_setProp ps)
qed

lemma source_tables_same:
  assumes "locate (propIs ''name'' sourceName) sources = Inr (Some (pre, source, post))"
    and "js_get metadata ''sources'' = JArr sources" "elements (js_get source ''tables'') = Inr tables"
  shows "sourceTables metadata sourceName = Inr tables"
proof -
  let ?P = "\<lambda>item. isObject item \<and> js_get item ''name'' = JStr sourceName"
  have src: "js_get source ''name'' = JStr sourceName" and others: "\<forall>y \<in> set pre. \<not> ?P y"
    and sources: "sources = pre @ source # post"
    using locate_Some [OF assms(1)] propIs_Inr by blast+
  then have P: "?P source" using js_get_object [OF src] by (auto simp: isObject_def)
  have "js_get source ''tables'' = JArr tables" using assms(3) by (auto simp: elements_def split: jsval.splits)
  then show ?thesis
    using firstWith_append [where P = ?P, OF others P, of post] by (simp add: sourceTables_def arrayOrNone_def assms(2) sources)
qed

lemma built:
  assumes "buildAuthorizationProjectionMetadata collate hash metadata sourceName schemaName c role perms = Inr metadata'"
  obtains sources pre source post tables0 tables1 tables2 where
    "elementsOrNone (js_get metadata ''sources'') = Inr sources"
    "locate (propIs ''name'' sourceName) sources = Inr (Some (pre, source, post))"
    "elements (js_get source ''tables'') = Inr tables0"
    "withView schemaName (viewName (contractView c)) tables0 = Inr tables1"
    "withRelationships collate hash schemaName (viewName (contractView c)) role (map_of (rev perms)) (relationships c) tables1 = Inr tables2"
    "metadata' = setProp metadata ''sources'' (JArr (pre @ setProp source ''tables'' (JArr tables2) # post))"
proof -
  obtain sources found where s: "elementsOrNone (js_get metadata ''sources'') = Inr sources"
      "locate (propIs ''name'' sourceName) sources = Inr found"
    using assms by (auto simp: buildAuthorizationProjectionMetadata_def)
  obtain pre source post where f: "found = Some (pre, source, post)"
    using assms s by (cases found) (auto simp: buildAuthorizationProjectionMetadata_def)
  show thesis
    using assms s f that by (auto simp: buildAuthorizationProjectionMetadata_def split: if_splits)
qed

text \<open>A source tracks a table once.\<close>

definition uniqueTables :: "string \<Rightarrow> jsval list \<Rightarrow> bool" where
  "uniqueTables schemaName ts \<longleftrightarrow> (\<forall>n. length (filter (tableIs schemaName n) ts) \<le> 1)"

lemma uniqueTables_same:
  assumes "\<And>n. map (tableIs schemaName n) ts = map (tableIs schemaName n) us"
  shows "uniqueTables schemaName ts = uniqueTables schemaName us"
proof -
  have "length (filter P xs) = length (filter id (map P xs))" for P :: "jsval \<Rightarrow> bool" and xs by (simp add: filter_map comp_def)
  then show ?thesis unfolding uniqueTables_def using assms by metis
qed

lemma uniqueTables_withView:
  assumes "withView schemaName view ts = Inr us" "uniqueTables schemaName ts"
  shows "uniqueTables schemaName us \<and> (\<exists>t \<in> set us. tableIs schemaName view t)"
proof -
  let ?new = "JObj [(''table'', JObj [(''schema'', JStr schemaName), (''name'', JStr view)])]"
  have new: "tableIs schemaName n ?new \<longleftrightarrow> n = view" for n by (auto simp: tableIs_def)
  obtain found where f: "locate (isTable schemaName view) ts = Inr found" "us = (if found = None then ts @ [?new] else ts)"
    using assms(1) by (auto simp: withView_def)
  show ?thesis
  proof (cases found)
    case None
    then have "\<forall>t \<in> set ts. \<not> tableIs schemaName view t" using locate_None f(1) isTable_tableIs by blast
    then have "filter (tableIs schemaName view) ts = []" by (simp add: filter_empty_conv)
    with assms(2) None f(2) new show ?thesis by (auto simp: uniqueTables_def)
  next
    case (Some x)
    obtain pre t post where x: "x = (pre, t, post)" by (cases x)
    have "t \<in> set ts" "tableIs schemaName view t" using locate_Some [OF f(1) [unfolded Some x]] isTable_tableIs by auto
    with assms(2) f(2) Some show ?thesis by auto
  qed
qed

lemma onTable_readTable: "m \<in> set (readTable nts t) \<Longrightarrow> onTable m = tableName t"
  by (auto simp: readTable_def readRelationship_def Let_def split: if_splits)

lemma relationshipsNamed_read:
  assumes "uniqueTables schemaName ts" "t \<in> set ts" "linked nts schemaName view r t"
    and "meta = \<lparr>viewTracked = a, viewScopedPermissions = b, trackedTables = c,
      metadataRelationships = concat (map (readTable nts) (filter (\<lambda>t. tableSchema t = schemaName) (filter isMetadataTable ts)))\<rparr>"
  shows "relationshipsNamed meta r = [asRead schemaName view r]"
proof -
  let ?P = "\<lambda>m. onTable m = relTable r \<and> relationshipName m = relName r"
  let ?us = "filter (\<lambda>t. tableSchema t = schemaName) (filter isMetadataTable ts)"
  have table: "filter ?P (readTable nts u) = (if tableName u = relTable r then namedIn nts (relName r) u else [])" for u
    using onTable_readTable [of _ nts u] by (auto simp: namedIn_def filter_empty_conv intro: filter_cong)
  have "concat (map (\<lambda>u. if tableName u = relTable r then namedIn nts (relName r) u else []) us)
      = concat (map (namedIn nts (relName r)) (filter (\<lambda>u. tableName u = relTable r) us))" for us
    by (induction us) auto
  then have "relationshipsNamed meta r = concat (map (namedIn nts (relName r)) (filter (\<lambda>u. tableName u = relTable r) ?us))"
    by (simp add: relationshipsNamed_def assms(4) filter_concat_map comp_def table)
  also have "filter (\<lambda>u. tableName u = relTable r) ?us = filter (tableIs schemaName (relTable r)) ts"
    by (simp add: tableIs_meta) (rule filter_cong, auto simp: tableIs_meta)
  also have "\<dots> = [t]"
  proof -
    have "t \<in> set (filter (tableIs schemaName (relTable r)) ts)" using assms(2,3) by (simp add: linked_def)
    moreover have "length (filter (tableIs schemaName (relTable r)) ts) \<le> 1" using assms(1) by (simp add: uniqueTables_def)
    ultimately show ?thesis by (cases "filter (tableIs schemaName (relTable r)) ts") auto
  qed
  finally show ?thesis using assms(3) by (simp add: linked_def)
qed

text \<open>
  C25. An applied contract reads back as itself: in the metadata that is written, the view is tracked, and each
  relationship of the contract is there exactly once, an object relationship to the view with the mapping of the contract.
\<close>

theorem applied_contract_reads_back:
  assumes "buildAuthorizationProjectionMetadata collate hash metadata sourceName schemaName c role perms = Inr metadata'"
    and "wellFormedContract collate c"
    and "sourceTables metadata sourceName = Inr tables" "uniqueTables schemaName tables"
  shows "\<exists>meta. inspectProjectionMetadata nts metadata' sourceName schemaName c = Inr meta
     \<and> viewTracked meta
     \<and> (\<forall>r \<in> set (relationships c). relTable r \<in> set (trackedTables meta)
          \<and> relationshipsNamed meta r = [asRead schemaName (viewName (contractView c)) r])"
proof -
  let ?view = "viewName (contractView c)"
  obtain sources pre source post tables0 tables1 tables2 where
    sources: "elementsOrNone (js_get metadata ''sources'') = Inr sources"
      "locate (propIs ''name'' sourceName) sources = Inr (Some (pre, source, post))"
    and steps: "elements (js_get source ''tables'') = Inr tables0" "withView schemaName ?view tables0 = Inr tables1"
      "withRelationships collate hash schemaName ?view role (map_of (rev perms)) (relationships c) tables1 = Inr tables2"
    and m': "metadata' = setProp metadata ''sources'' (JArr (pre @ setProp source ''tables'' (JArr tables2) # post))"
    by (rule built [OF assms(1)])
  have js: "js_get metadata ''sources'' = JArr sources"
    using sources by (auto simp: elementsOrNone_def elements_def split: if_splits jsval.splits)
  have "sourceTables metadata sourceName = Inr tables0"
    using source_tables_same [OF sources(2) js steps(1)] .
  then have unique: "uniqueTables schemaName tables0" using assms(3,4) by simp
  note view = uniqueTables_withView [OF steps(2) unique]
  have same: "map (tableIs s n) tables2 = map (tableIs s n) tables1" for s n
    using withRelationships_tables [OF steps(3)] .
  then have unique2: "uniqueTables schemaName tables2" using view uniqueTables_same by blast
  have "\<exists>t \<in> set tables2. tableIs schemaName ?view t"
    using view same [of schemaName ?view] by (metis (mono_tags, lifting) imageE image_eqI list.set_map)
  then obtain v where v: "v \<in> set tables2" "tableIs schemaName ?view v" by blast
  let ?us = "filter (\<lambda>t. tableSchema t = schemaName) (filter isMetadataTable tables2)"
  define meta where "meta = \<lparr>viewTracked = firstWith (\<lambda>t. tableName t = ?view) ?us \<noteq> None,
      viewScopedPermissions = (case firstWith (\<lambda>t. tableName t = ?view) ?us of None \<Rightarrow> [] | Some v \<Rightarrow> viewScopes v),
      trackedTables = map tableName ?us, metadataRelationships = concat (map (readTable nts) ?us)\<rparr>"
  have "inspectProjectionMetadata nts metadata' sourceName schemaName c = Inr meta"
    unfolding inspectProjectionMetadata_def m' source_tables_kept [OF sources(2) js] by (simp add: Let_def meta_def)
  moreover have "viewTracked meta"
    using v by (auto simp: meta_def firstWith_def tableIs_meta filter_empty_conv split: list.splits)
  moreover have "relTable r \<in> set (trackedTables meta) \<and> relationshipsNamed meta r = [asRead schemaName ?view r]"
    if r: "r \<in> set (relationships c)" for r
  proof -
    have "distinct (map (\<lambda>r. (relTable r, relName r)) (relationships c))"
      using assms(2) by (auto simp: wellFormedContract_def distinct_map inj_on_def relationshipIdentity_def)
    then obtain t where t: "t \<in> set tables2" "linked nts schemaName ?view r t"
      using withRelationships_linked [OF steps(3) _ r] by blast
    have "relTable r \<in> set (trackedTables meta)" using t by (auto simp: meta_def linked_def tableIs_meta image_iff intro!: bexI [of _ t])
    with relationshipsNamed_read [OF unique2 t meta_def] show ?thesis by simp
  qed
  ultimately show ?thesis by blast
qed

subsection \<open>Example\<close>

definition demoView :: projectionView where
  "demoView = \<lparr>viewName = ''note_access'', viewKey = [''actor_id'', ''note_id''],
     viewColumns = [(''actor_id'', ''uuid''), (''allowed'', ''boolean''), (''note_id'', ''uuid'')], environmentColumn = None\<rparr>"

definition demoRelationship :: projectionRelationship where
  "demoRelationship = \<lparr>relTable = ''notes'', relName = ''access'',
     relMapping = [(''id'', ''note_id''), (''owner_id'', ''actor_id'')],
     ownerColumn = ''owner_id'', actorColumn = ''actor_id'', allowColumn = ''allowed''\<rparr>"

definition demoContract :: projectionContract where
  "demoContract = \<lparr>contractVersion = 1, contractView = demoView, relationships = [demoRelationship]\<rparr>"

lemma demo_contract: "wellFormedContract codeUnitOrder demoContract"
  by code_simp

theorem contract_roundtrip_witness:
  "parseAuthorizationProjectionContract codeUnitOrder id (contractJson demoContract) = Inr demoContract"
  by (rule contract_roundtrip [OF demo_contract])

theorem contract_accepted_well_formed_witness: "wellFormedContract codeUnitOrder demoContract"
proof -
  have "parseAuthorizationProjectionContract codeUnitOrder id (contractJson demoContract) = Inr demoContract" by code_simp
  then show ?thesis by (intro contract_accepted_well_formed [where hash = id, OF collation_codeUnitOrder]) simp_all
qed

definition demoNotes :: jsval where
  "demoNotes = JObj [(''table'', JObj [(''schema'', JStr ''app''), (''name'', JStr ''notes'')])]"

definition demoExport :: "jsval list \<Rightarrow> jsval" where
  "demoExport tables = JObj [(''version'', JNum 3),
     (''sources'', JArr [JObj [(''name'', JStr ''default''), (''tables'', JArr tables)]])]"

theorem applied_contract_reads_back_witness:
  "\<exists>metadata' meta. buildAuthorizationProjectionMetadata codeUnitOrder id (demoExport [demoNotes]) ''default'' ''app'' demoContract ''user''
       [(''notes'', JObj [])] = Inr metadata'
     \<and> inspectProjectionMetadata (\<lambda>_. []) metadata' ''default'' ''app'' demoContract = Inr meta
     \<and> viewTracked meta \<and> relationshipsNamed meta demoRelationship = [asRead ''app'' ''note_access'' demoRelationship]"
proof -
  have "\<not> isl (buildAuthorizationProjectionMetadata codeUnitOrder id (demoExport [demoNotes]) ''default'' ''app'' demoContract ''user''
       [(''notes'', JObj [])])" by code_simp
  then obtain metadata' where b: "buildAuthorizationProjectionMetadata codeUnitOrder id (demoExport [demoNotes]) ''default'' ''app''
       demoContract ''user'' [(''notes'', JObj [])] = Inr metadata'"
    by (metis isl_def sum.exhaust_sel)
  have "sourceTables (demoExport [demoNotes]) ''default'' = Inr [demoNotes]" by code_simp
  moreover have "uniqueTables ''app'' [demoNotes]" by (simp add: uniqueTables_def)
  ultimately show ?thesis
    using applied_contract_reads_back [OF b demo_contract] b by (auto simp: demoContract_def demoView_def)
qed

text \<open>A key column may be one that every object inherits and no view has.\<close>

lemma inherited_key_column_accepted:
  "\<not> isl (parseAuthorizationProjectionContract codeUnitOrder id (contractJson (demoContract
     \<lparr>contractView := demoView\<lparr>viewKey := [''actor_id'', ''constructor'']\<rparr>,
      relationships := [demoRelationship\<lparr>relMapping := [(''id'', ''constructor''), (''owner_id'', ''actor_id'')]\<rparr>]\<rparr>)))"
  by code_simp

end
