(* ===== verification/Projection_Digest.thy ===== *)
theory Projection_Digest
  imports Projection_Apply "HOL-Library.Countable"
begin

text \<open>
  What the digest of the dependencies of a projection pins: two snapshots with one digest agree on
  the owner, the definition and the columns of the view and on every relation it reads.
\<close>

subsection \<open>Canonical objects\<close>

lemma sortJson_member:
  assumes "sortJson collate (JObj ps) = sortJson collate (JObj qs)" "distinct (map fst ps)" "distinct (map fst qs)"
  shows "map_option (sortJson collate) (map_of ps k) = map_option (sortJson collate) (map_of qs k)"
  using assms map_of_sorted [OF assms(2), of "sortJson collate" _ k] map_of_sorted [OF assms(3), of "sortJson collate" _ k]
  by (metis sortJson.simps(2) jsval.inject(5))

text \<open>Strings are compared as they are, lists of objects element by element.\<close>

lemma sortJson_objects:
  assumes "sortJson collate (JArr (map f xs)) = sortJson collate (JArr (map g ys))"
    and "\<And>x. \<not> js_is_string (f x)" "\<And>y. \<not> js_is_string (g y)"
  shows "map (\<lambda>x. sortJson collate (f x)) xs = map (\<lambda>y. sortJson collate (g y)) ys"
proof -
  have "sortJson collate (JArr (map f xs)) = JArr (map (\<lambda>x. sortJson collate (f x)) xs)"
       "sortJson collate (JArr (map g ys)) = JArr (map (\<lambda>y. sortJson collate (g y)) ys)"
    using assms(2,3) by (cases xs, simp_all) (cases ys, simp_all)
  with assms(1) show ?thesis by simp
qed

lemma sortJson_column: "sortJson collate (columnJson c) = sortJson collate (columnJson d) \<longleftrightarrow> c = d"
proof
  assume eq: "sortJson collate (columnJson c) = sortJson collate (columnJson d)"
  note f = sortJson_member [OF eq [unfolded columnJson_def]]
  show "c = d" using f [of "''name''"] f [of "''type''"] f [of "''nullable''"] by (cases c; cases d) simp
qed simp

lemma sortJson_columns:
  assumes "sortJson collate (JArr (map columnJson cs)) = sortJson collate (JArr (map columnJson ds))"
  shows "cs = ds"
proof -
  have "map (\<lambda>c. sortJson collate (columnJson c)) cs = map (\<lambda>c. sortJson collate (columnJson c)) ds"
    by (rule sortJson_objects [OF assms]) (simp_all add: columnJson_def)
  moreover have "inj (\<lambda>c. sortJson collate (columnJson c))" by (rule injI) (simp add: sortJson_column)
  ultimately show ?thesis by (simp add: inj_map_eq_map)
qed

lemma map_same: "map f xs = map g ys \<Longrightarrow> (\<And>x y. f x = g y \<Longrightarrow> p x = p y) \<Longrightarrow> map p xs = map p ys"
proof (induction xs arbitrary: ys)
  case (Cons x xs)
  then show ?case by (cases ys) auto
qed simp

subsection \<open>Relations\<close>

definition pinned :: "'d relationDependency \<Rightarrow> string \<times> string \<times> string \<times> (string \<times> 'd \<times> catalogColumn list) option" where
  "pinned d = (dependencySchema d, dependencyName d, dependencyKind d,
     map_option (\<lambda>h. (helperOwner h, helperDefinition h, helperColumns h)) (dependencyView d))"

lemma sortJson_helper:
  assumes "sortJson collate (helperJson hex h) = sortJson collate (helperJson hex k)" "inj hex"
  shows "helperOwner h = helperOwner k \<and> helperDefinition h = helperDefinition k \<and> helperColumns h = helperColumns k"
proof -
  note f = sortJson_member [OF assms(1) [unfolded helperJson_def]]
  have "sortJson collate (JArr (map columnJson (helperColumns h))) = sortJson collate (JArr (map columnJson (helperColumns k)))"
    using f [of "''columns''"] by simp
  then show ?thesis
    using f [of "''owner''"] f [of "''definitionDigest''"] sortJson_columns injD [OF assms(2)] by simp
qed

lemma sortJson_dependency:
  assumes "sortJson collate (dependencyJson hex d) = sortJson collate (dependencyJson hex e)" "inj hex"
  shows "pinned d = pinned e"
proof -
  note f = sortJson_member [OF assms(1) [unfolded dependencyJson_def]]
  have eq: "sortJson collate (case dependencyView d of None \<Rightarrow> JNull | Some h \<Rightarrow> helperJson hex h)
      = sortJson collate (case dependencyView e of None \<Rightarrow> JNull | Some h \<Rightarrow> helperJson hex h)"
    using f [of "''view''"] by simp
  have no_null: "sortJson collate (helperJson hex h) \<noteq> JNull" for h by (simp add: helperJson_def)
  have "map_option (\<lambda>h. (helperOwner h, helperDefinition h, helperColumns h)) (dependencyView d)
      = map_option (\<lambda>h. (helperOwner h, helperDefinition h, helperColumns h)) (dependencyView e)"
  proof (cases "dependencyView d"; cases "dependencyView e")
    fix h k assume "dependencyView d = Some h" "dependencyView e = Some k"
    with eq sortJson_helper [OF _ assms(2), of collate h k] show ?thesis by simp
  next
    fix h assume "dependencyView d = Some h" "dependencyView e = None"
    with eq no_null [of h] show ?thesis by simp
  next
    fix k assume "dependencyView d = None" "dependencyView e = Some k"
    with eq no_null [of k] show ?thesis by (metis option.simps(4,5) sortJson.simps(5))
  qed simp
  then show ?thesis using f [of "''schemaName''"] f [of "''relationName''"] f [of "''relationKind''"] by (simp add: pinned_def)
qed

subsection \<open>Snapshots\<close>

text \<open>
  C26. A dependency digest pins what it was computed from: two snapshots with the same digest are of the same schema and have
  the same view owner, the same definition up to surrounding space, the same columns and the same relations behind it.
\<close>

theorem equal_digests_same_dependencies:
  assumes "inj hash" "inj hex"
    and "buildAuthorizationProjectionDependencySnapshot collate hash hex schemaName dbUser c cat meta = Inr (body, d)"
    and "buildAuthorizationProjectionDependencySnapshot collate hash hex schemaName' dbUser' c' cat' meta' = Inr (body', d)"
  shows "schemaName = schemaName' \<and> dbUser = dbUser'
     \<and> js_trim (viewDefinition cat) = js_trim (viewDefinition cat')
     \<and> sortedColumns collate (viewCatalogColumns cat) = sortedColumns collate (viewCatalogColumns cat')
     \<and> map pinned (js_sort (compareDependencies collate) (relationDependencies cat))
       = map pinned (js_sort (compareDependencies collate) (relationDependencies cat'))"
proof -
  have owner: "viewOwner cat = dbUser" "viewOwner cat' = dbUser'"
    and digests: "d = hash (sortJson collate (JObj (snapshotBody collate hash hex schemaName c cat meta)))"
      "d = hash (sortJson collate (JObj (snapshotBody collate hash hex schemaName' c' cat' meta')))"
    using assms(3,4) by (auto simp: buildAuthorizationProjectionDependencySnapshot_def checkView_def Let_def stableDigest_def)
  then have body: "sortJson collate (JObj (snapshotBody collate hash hex schemaName c cat meta))
      = sortJson collate (JObj (snapshotBody collate hash hex schemaName' c' cat' meta'))"
    using injD [OF assms(1)] by blast
  note f = sortJson_member [OF body [unfolded snapshotBody_def]]
  have schema: "schemaName = schemaName'" using f [of "''schemaName''"] by simp
  have view: "sortJson collate (viewSnapshotJson collate hash hex c cat meta) = sortJson collate (viewSnapshotJson collate hash hex c' cat' meta')"
    using f [of "''view''"] by simp
  note g = sortJson_member [OF view [unfolded viewSnapshotJson_def]]
  have "dbUser = dbUser'" using g [of "''owner''"] owner by simp
  moreover have "js_trim (viewDefinition cat) = js_trim (viewDefinition cat')"
    using g [of "''definitionDigest''"] injD [OF assms(1)] injD [OF assms(2)] by (auto simp: stableDigest_def normalizeViewDefinition_def)
  moreover have "sortedColumns collate (viewCatalogColumns cat) = sortedColumns collate (viewCatalogColumns cat')"
    by (rule sortJson_columns) (use g [of "''columns''"] in simp)
  moreover have "map pinned (js_sort (compareDependencies collate) (relationDependencies cat))
      = map pinned (js_sort (compareDependencies collate) (relationDependencies cat'))"
  proof -
    have "map (\<lambda>x. sortJson collate (dependencyJson hex x)) (js_sort (compareDependencies collate) (relationDependencies cat))
      = map (\<lambda>x. sortJson collate (dependencyJson hex x)) (js_sort (compareDependencies collate) (relationDependencies cat'))"
    proof (rule sortJson_objects)
      show "sortJson collate (JArr (map (dependencyJson hex) (js_sort (compareDependencies collate) (relationDependencies cat))))
          = sortJson collate (JArr (map (dependencyJson hex) (js_sort (compareDependencies collate) (relationDependencies cat'))))"
        using g [of "''relationDependencies''"] by simp
    qed (simp_all add: dependencyJson_def)
    then show ?thesis by (rule map_same) (rule sortJson_dependency [OF _ assms(2)])
  qed
  ultimately show ?thesis using schema by blast
qed

subsection \<open>Example\<close>

text \<open>Digests without collisions: a number for every value, in decimal.\<close>

instance jsval :: countable
  by countable_datatype

definition demoHash :: "jsval \<Rightarrow> nat" where
  "demoHash = to_nat"

lemma inj_demoHash: "inj demoHash"
  by (simp add: demoHash_def)

lemma inj_decimal: "inj nat_to_string"
  by (rule inj_on_inverseI [where g = digits_value]) (rule digits_value_nat_to_string)

definition demoCatalog :: "string \<Rightarrow> nat projectionCatalog" where
  "demoCatalog definition_text =
     \<lparr>relationKind = ''v'', viewOwner = ''app_user'', securityBarrier = True, securityInvoker = False,
      relationOptions = [''security_barrier=true''], publicPrivileges = [], publicColumnPrivileges = [],
      viewDefinition = definition_text,
      viewCatalogColumns = [\<lparr>catalogName = ''actor_id'', catalogType = ''uuid'', nullable = True\<rparr>,
        \<lparr>catalogName = ''allowed'', catalogType = ''bool'', nullable = True\<rparr>,
        \<lparr>catalogName = ''note_id'', catalogType = ''uuid'', nullable = True\<rparr>],
      projectionKeyUnique = True, functionDependencies = [], relationDependencies = [],
      catalogTables = [(''notes'', [\<lparr>catalogName = ''id'', catalogType = ''uuid'', nullable = False\<rparr>,
        \<lparr>catalogName = ''owner_id'', catalogType = ''uuid'', nullable = False\<rparr>])]\<rparr>"

definition demoProjectionMetadata :: projectionMetadata where
  "demoProjectionMetadata = \<lparr>viewTracked = True, viewScopedPermissions = [], trackedTables = [''notes'', ''note_access''],
     metadataRelationships = [asRead ''app'' ''note_access'' demoRelationship]\<rparr>"

lemma demo_snapshot:
  "\<exists>body d. buildAuthorizationProjectionDependencySnapshot codeUnitOrder demoHash nat_to_string ''app'' ''app_user'' demoContract
     (demoCatalog text1) demoProjectionMetadata = Inr (body, d)"
proof -
  have cols: "sortedColumns codeUnitOrder (viewCatalogColumns (demoCatalog text1)) = viewCatalogColumns (demoCatalog [])"
    unfolding demoCatalog_def by simp code_simp
  have "js_sort (byKey codeUnitOrder) (viewColumns demoView) = viewColumns demoView" by code_simp
  then show ?thesis
    unfolding buildAuthorizationProjectionDependencySnapshot_def Let_def cols
    by (simp add: demoCatalog_def demoContract_def demoView_def checkView_def demoProjectionMetadata_def columnsMatch_def
        normalizeType_def checkRelationship_def demoRelationship_def columnHasType_def columnNamed_def firstWith_def checkMapping_def
        relationshipsNamed_def asRead_def)
qed

theorem equal_digests_same_dependencies_witness:
  "\<exists>body body' d. buildAuthorizationProjectionDependencySnapshot codeUnitOrder demoHash nat_to_string ''app'' ''app_user'' demoContract
       (demoCatalog ''SELECT 1'') demoProjectionMetadata = Inr (body, d)
     \<and> buildAuthorizationProjectionDependencySnapshot codeUnitOrder demoHash nat_to_string ''app'' ''app_user'' demoContract
       (demoCatalog '' SELECT 1 '') demoProjectionMetadata = Inr (body', d)
     \<and> js_trim '' SELECT 1 '' = js_trim ''SELECT 1''"
proof -
  have trim: "js_trim '' SELECT 1 '' = js_trim ''SELECT 1''" by code_simp
  let ?body = "\<lambda>t. snapshotBody codeUnitOrder demoHash nat_to_string ''app'' demoContract (demoCatalog t) demoProjectionMetadata"
  have body: "?body '' SELECT 1 '' = ?body ''SELECT 1''"
    by (simp add: snapshotBody_def viewSnapshotJson_def demoCatalog_def normalizeViewDefinition_def trim)
  have built: "buildAuthorizationProjectionDependencySnapshot codeUnitOrder demoHash nat_to_string ''app'' ''app_user'' demoContract
       (demoCatalog t) demoProjectionMetadata = Inr (?body t, stableDigest codeUnitOrder demoHash (JObj (?body t)))" for t
    using demo_snapshot [of t] by (auto simp: buildAuthorizationProjectionDependencySnapshot_def Let_def)
  show ?thesis
    using equal_digests_same_dependencies [OF inj_demoHash inj_decimal built [of "'' SELECT 1 ''", unfolded body] built [of "''SELECT 1''"]]
      built [of "'' SELECT 1 ''"] built [of "''SELECT 1''"] body
    by (auto simp: demoCatalog_def)
qed

end
