(* ===== verification/Migration_Inspection.thy ===== *)
theory Migration_Inspection
  imports Managed_Policy "HOL-Library.AList"
begin

text \<open>
  What a migration to scoped permissions makes of one table, from \<open>data-access-migration-inspection.ts\<close>:
  the policy its permissions of the historical roles \<open>user\<close> and \<open>anonymous\<close> and of the scoped roles amount to, what
  stands in the way and what is lost. \<open>JSON.stringify\<close> is a printer of the values; \<open>nts\<close> prints numbers.
\<close>

subsection \<open>JSON texts\<close>

definition hexDigit :: "nat \<Rightarrow> char" where
  "hexDigit n = (if n < 10 then digit_char n else char_of (87 + n))"

definition escapeJsonChar :: "char \<Rightarrow> string" where
  "escapeJsonChar c =
     (let n = of_char c :: nat in
      if n = 34 then [CHR 0x5C, CHR 0x22]
      else if n = 92 then [CHR 0x5C, CHR 0x5C]
      else if n = 8 then [CHR 0x5C, CHR ''b'']
      else if n = 9 then [CHR 0x5C, CHR ''t'']
      else if n = 10 then [CHR 0x5C, CHR ''n'']
      else if n = 12 then [CHR 0x5C, CHR ''f'']
      else if n = 13 then [CHR 0x5C, CHR ''r'']
      else if n < 32 then [CHR 0x5C, CHR ''u'', CHR ''0'', CHR ''0'', hexDigit (n div 16), hexDigit (n mod 16)]
      else [c])"

definition quoteJson :: "string \<Rightarrow> string" where
  "quoteJson s = [CHR 0x22] @ concat (map escapeJsonChar s) @ [CHR 0x22]"

text \<open>In an array \<open>undefined\<close> is \<open>null\<close>, in an object it is left out.\<close>

fun js_stringify :: "(rat \<Rightarrow> string) \<Rightarrow> jsval \<Rightarrow> string" where
  "js_stringify nts JUndef = ''null''"
| "js_stringify nts JNull = ''null''"
| "js_stringify nts (JBool b) = (if b then ''true'' else ''false'')"
| "js_stringify nts (JNum n) = nts n"
| "js_stringify nts (JStr s) = quoteJson s"
| "js_stringify nts (JArr xs) = ''['' @ js_join '','' (map (js_stringify nts) xs) @ '']''"
| "js_stringify nts (JObj ps) =
     ''{'' @ js_join '','' (map (\<lambda>(k, t). quoteJson k @ '':'' @ t)
       (filter (\<lambda>(k, t). t \<noteq> []) (map (\<lambda>(k, v). (k, if v = JUndef then [] else js_stringify nts v)) ps))) @ ''}''"
| "js_stringify nts (JDate d) = quoteJson d"
| "js_stringify nts (JOther s) = ''null''"

text \<open>\<open>[...new Map(values.map((v) => [key(v), v])).values()]\<close>\<close>

definition uniqueBy :: "('a \<Rightarrow> string) \<Rightarrow> 'a list \<Rightarrow> 'a list" where
  "uniqueBy key xs = map snd (fold (\<lambda>x m. AList.update (key x) x m) xs [])"

subsection \<open>Snapshots and findings\<close>

record graphqlNaming =
  customName :: "string option"
  customRootFields :: "(string \<times> string) list"

record migrationTable =
  migTable :: string
  migColumns :: "string list"
  migInsertable :: "string list option"
  migUpdateable :: "string list option"
  migRealtime :: bool
  migNaming :: graphqlNaming
  migManaged :: bool
  migPermissions :: "materializedPermission list"

datatype migrationActor = ActorAuthenticated | ActorAnonymous | ActorSystem

fun actorName :: "migrationActor \<Rightarrow> string" where
  "actorName ActorAuthenticated = ''authenticated''"
| "actorName ActorAnonymous = ''anonymous''"
| "actorName ActorSystem = ''system''"

datatype blockerReason =
    CustomLegacyRule | CustomScopedRule | DuplicateRule | UnsupportedTrackedObject
  | UnsupportedSourceCustomization | CrossProjectRoleBinding

fun reasonName :: "blockerReason \<Rightarrow> string" where
  "reasonName CustomLegacyRule = ''custom_legacy_rule''"
| "reasonName CustomScopedRule = ''custom_scoped_rule''"
| "reasonName DuplicateRule = ''duplicate_rule''"
| "reasonName UnsupportedTrackedObject = ''unsupported_tracked_object''"
| "reasonName UnsupportedSourceCustomization = ''unsupported_source_customization''"
| "reasonName CrossProjectRoleBinding = ''cross_project_role_binding''"

record migrationBlocker =
  blockerTable :: "string option"
  blockerActor :: migrationActor
  blockerOperation :: "string option"
  blockerReason :: blockerReason

datatype changeReason = AnonymousWriteRemoved | AuthenticatedAggregationsRemoved

fun changeName :: "changeReason \<Rightarrow> string" where
  "changeName AnonymousWriteRemoved = ''anonymous_write_removed''"
| "changeName AuthenticatedAggregationsRemoved = ''authenticated_aggregations_removed''"

record destructiveChange =
  changeTable :: string
  changeActor :: migrationActor
  changeOperation :: daOperation
  changeReason :: changeReason

record legacyDrop =
  dropTable :: string
  dropRole :: string
  dropOperation :: daOperation

datatype targetSource = ExistingScoped | LegacyDefault | Mixed | Closed

record inspectedMigration =
  inspectedTable :: string
  targetSource :: targetSource
  inferredOperations :: "(migrationActor \<times> daOperation) list"
  migrationPolicy :: tableAccess
  migrationBlockers :: "migrationBlocker list"
  migrationChanges :: "destructiveChange list"
  migrationDrops :: "legacyDrop list"

definition orNull :: "string option \<Rightarrow> string" where
  "orNull x = (case x of Some s \<Rightarrow> s | None \<Rightarrow> ''null'')"

definition blockerText :: "migrationBlocker \<Rightarrow> string" where
  "blockerText b = orNull (blockerTable b) @ '':'' @ actorName (blockerActor b) @ '':'' @ orNull (blockerOperation b)
     @ '':'' @ reasonName (blockerReason b)"

definition changeText :: "destructiveChange \<Rightarrow> string" where
  "changeText c = changeTable c @ '':'' @ actorName (changeActor c) @ '':'' @ operationName (changeOperation c)
     @ '':'' @ changeName (changeReason c)"

definition dropText :: "legacyDrop \<Rightarrow> string" where
  "dropText d = dropTable d @ '':'' @ dropRole d @ '':'' @ operationName (dropOperation d)"

definition optionJson :: "string option \<Rightarrow> jsval" where
  "optionJson x = (case x of Some s \<Rightarrow> JStr s | None \<Rightarrow> JNull)"

definition blockerJson :: "migrationBlocker \<Rightarrow> jsval" where
  "blockerJson b =
     JObj [(''tableName'', optionJson (blockerTable b)), (''actor'', JStr (actorName (blockerActor b))),
       (''operation'', optionJson (blockerOperation b)), (''reason'', JStr (reasonName (blockerReason b)))]"

definition sortByText :: "(string \<Rightarrow> string \<Rightarrow> int) \<Rightarrow> ('a \<Rightarrow> string) \<Rightarrow> 'a list \<Rightarrow> 'a list" where
  "sortByText collate f xs = js_sort (\<lambda>l r. collate (f l) (f r)) xs"

definition dedupeBlockers :: "(rat \<Rightarrow> string) \<Rightarrow> migrationBlocker list \<Rightarrow> migrationBlocker list" where
  "dedupeBlockers nts bs = uniqueBy (\<lambda>b. js_stringify nts (blockerJson b)) bs"

subsection \<open>Historical permissions\<close>

definition hasAllColumns :: "jsval \<Rightarrow> string list \<Rightarrow> bool" where
  "hasAllColumns v columns \<longleftrightarrow>
     v = JStr ''*''
     \<or> (case v of
          JArr items \<Rightarrow> list_all js_is_string items
            \<and> card (set (map js_string_of items)) = card (set columns)
            \<and> list_all (\<lambda>c. JStr c \<in> set items) columns
        | _ \<Rightarrow> False)"

definition emptyObject :: "jsval \<Rightarrow> bool" where
  "emptyObject v \<longleftrightarrow> v = JObj [] \<or> (\<exists>d. v = JDate d)"

lemma emptyObject_code [code]: "emptyObject v = (case v of JObj ps \<Rightarrow> ps = [] | JDate d \<Rightarrow> True | _ \<Rightarrow> False)"
  by (cases v) (auto simp: emptyObject_def)

definition emptyOrMissing :: "jsval \<Rightarrow> bool" where
  "emptyOrMissing v \<longleftrightarrow> v = JUndef \<or> v = JNull \<or> emptyObject v"

fun historicalKeys :: "daOperation \<Rightarrow> string list" where
  "historicalKeys OpSelect = [''columns'', ''filter'', ''allow_aggregations'', ''backend_only'']"
| "historicalKeys OpInsert = [''columns'', ''check'', ''set'', ''backend_only'']"
| "historicalKeys OpUpdate = [''columns'', ''filter'', ''check'', ''set'', ''backend_only'']"
| "historicalKeys OpDelete = [''filter'', ''backend_only'']"

fun operationCapabilities :: "columnCapabilities \<Rightarrow> daOperation \<Rightarrow> string list" where
  "operationCapabilities caps OpSelect = readableColumns caps"
| "operationCapabilities caps OpInsert = insertableColumns caps"
| "operationCapabilities caps _ = updateableColumns caps"

text \<open>\<open>recognized\<close> and \<open>removesAggregations\<close>.\<close>

definition classifyHistoricalPermission ::
  "string \<Rightarrow> daOperation \<Rightarrow> (string \<times> jsval) list \<Rightarrow> columnCapabilities \<Rightarrow> bool \<times> bool" where
  "classifyHistoricalPermission role op perm caps =
     (if \<not> onlyKeys perm (historicalKeys op) then (False, False)
      else if permGet perm ''backend_only'' \<noteq> JUndef \<and> permGet perm ''backend_only'' \<noteq> JBool False then (False, False)
      else if op \<noteq> OpDelete \<and> \<not> hasAllColumns (permGet perm ''columns'') (operationCapabilities caps op) then (False, False)
      else if op \<noteq> OpInsert \<and> \<not> emptyObject (permGet perm ''filter'') then (False, False)
      else if op = OpInsert \<and> \<not> emptyObject (permGet perm ''check'') then (False, False)
      else if op = OpUpdate \<and> \<not> emptyOrMissing (permGet perm ''check'') then (False, False)
      else if (op = OpInsert \<or> op = OpUpdate) \<and> \<not> emptyOrMissing (permGet perm ''set'') then (False, False)
      else if op = OpSelect
      then (let aggregation = permGet perm ''allow_aggregations'' in
            if aggregation \<notin> {JUndef, JBool False, JBool True} then (False, False)
            else if aggregation = JBool True \<and> role \<noteq> ''user'' then (False, False)
            else (True, role = ''user'' \<and> aggregation = JBool True))
      else (True, False))"

subsection \<open>Tables\<close>

definition permissionsFor :: "materializedPermission list \<Rightarrow> daOperation \<Rightarrow> permissionEntry list" where
  "permissionsFor perms op =
     map (\<lambda>m. \<lparr>entryRole = permRole m, entryPermission = permission m\<rparr>) (filter (\<lambda>m. permOperation m = op) perms)"

definition toHasuraTableMetadata :: "string \<Rightarrow> materializedPermission list \<Rightarrow> tableMetadata" where
  "toHasuraTableMetadata name perms =
     \<lparr>metaSchema = [], metaTable = name, selectPermissions = permissionsFor perms OpSelect,
      insertPermissions = permissionsFor perms OpInsert, updatePermissions = permissionsFor perms OpUpdate,
      deletePermissions = permissionsFor perms OpDelete\<rparr>"

definition scopedOf :: "roleNames \<Rightarrow> materializedPermission list \<Rightarrow> materializedPermission list" where
  "scopedOf roles perms = filter (\<lambda>m. permRole m = authenticatedRole roles \<or> permRole m = anonymousRole roles) perms"

definition legacyOf :: "materializedPermission list \<Rightarrow> materializedPermission list" where
  "legacyOf perms = filter (\<lambda>m. permRole m = ''user'' \<or> permRole m = ''anonymous'') perms"

definition roleKey :: "materializedPermission \<Rightarrow> string" where
  "roleKey m = permRole m @ '':'' @ operationName (permOperation m)"

definition duplicateKeys :: "materializedPermission list \<Rightarrow> string list" where
  "duplicateKeys perms =
     remdups (filter (\<lambda>k. 1 < length (filter (\<lambda>m. roleKey m = k) perms)) (map roleKey perms))"

text \<open>\<open>key.split(':')\<close>\<close>

definition duplicateBlocker :: "string \<Rightarrow> roleNames \<Rightarrow> string \<Rightarrow> migrationBlocker" where
  "duplicateBlocker table roles key =
     (let parts = js_split (CHR '':'') key in
      \<lparr>blockerTable = Some table,
       blockerActor = (if hd parts = ''user'' \<or> hd parts = authenticatedRole roles then ActorAuthenticated else ActorAnonymous),
       blockerOperation = (case parts of _ # op # _ \<Rightarrow> Some op | _ \<Rightarrow> None), blockerReason = DuplicateRule\<rparr>)"

definition scopedBlockers :: "string \<Rightarrow> string \<Rightarrow> materializedPermission list \<Rightarrow> migrationBlocker list" where
  "scopedBlockers table role perms =
     map (\<lambda>op. \<lparr>blockerTable = Some table,
          blockerActor = (if js_endsWith role ''_anon'' then ActorAnonymous else ActorAuthenticated),
          blockerOperation = Some op, blockerReason = CustomScopedRule\<rparr>)
       (sort (remdups (map (\<lambda>m. operationName (permOperation m)) (filter (\<lambda>m. permRole m = role) perms))))"

text \<open>\<open>{ ...scoped.policy.authenticated }\<close>: the modes, the owner and the constraint, not the version.\<close>

definition copyAuthenticated :: "tableAccess \<Rightarrow> tableAccess \<Rightarrow> tableAccess" where
  "copyAuthenticated source p =
     p\<lparr>selectMode := selectMode source, insertMode := insertMode source, updateMode := updateMode source,
       deleteMode := deleteMode source, ownerColumn := ownerColumn source, selectConstraint := selectConstraint source\<rparr>"

definition migTablePolicy :: "inspection \<Rightarrow> tableAccess" where
  "migTablePolicy scoped =
     (let p = (if \<not> authenticatedCustom scoped
               then copyAuthenticated (inspectedPolicy scoped) createClosedTableDataAccessPolicy
               else createClosedTableDataAccessPolicy) in
      if \<not> anonymousCustom scoped then p\<lparr>anonymousSelect := anonymousSelect (inspectedPolicy scoped)\<rparr> else p)"

text \<open>One permission of a historical role; a classification that is not recognized blocks.\<close>

definition inferLegacy ::
  "bool \<Rightarrow> string list \<Rightarrow> columnCapabilities \<Rightarrow> materializedPermission \<Rightarrow> inspectedMigration \<Rightarrow> inspectedMigration" where
  "inferLegacy skip duplicates caps m i =
     (let op = permOperation m;
          actor = (if permRole m = ''user'' then ActorAuthenticated else ActorAnonymous);
          i = i\<lparr>migrationDrops := migrationDrops i
            @ [\<lparr>dropTable = inspectedTable i, dropRole = permRole m, dropOperation = op\<rparr>]\<rparr> in
      if roleKey m \<in> set duplicates then i
      else case classifyHistoricalPermission (permRole m) op (permission m) caps of (recognized, removesAggregations) \<Rightarrow>
        if \<not> recognized
        then i\<lparr>migrationBlockers := migrationBlockers i
            @ [\<lparr>blockerTable = Some (inspectedTable i), blockerActor = actor, blockerOperation = Some (operationName op),
               blockerReason = CustomLegacyRule\<rparr>]\<rparr>
        else if actor = ActorAnonymous \<and> op \<noteq> OpSelect
        then i\<lparr>migrationChanges := migrationChanges i
            @ [\<lparr>changeTable = inspectedTable i, changeActor = actor, changeOperation = op,
               changeReason = AnonymousWriteRemoved\<rparr>]\<rparr>
        else
          (let i = (if removesAggregations
                then i\<lparr>migrationChanges := migrationChanges i
                  @ [\<lparr>changeTable = inspectedTable i, changeActor = ActorAuthenticated, changeOperation = OpSelect,
                     changeReason = AuthenticatedAggregationsRemoved\<rparr>]\<rparr>
                else i) in
           if skip then i
           else if actor = ActorAuthenticated \<and> modeOf (migrationPolicy i) op = ModeNone
           then i\<lparr>migrationPolicy := setMode op ModeAll (migrationPolicy i),
                  inferredOperations := inferredOperations i @ [(actor, op)]\<rparr>
           else if actor = ActorAnonymous \<and> op = OpSelect \<and> anonymousSelect (migrationPolicy i) \<noteq> Some True
           then i\<lparr>migrationPolicy := (migrationPolicy i)\<lparr>anonymousSelect := Some True\<rparr>,
                  inferredOperations := inferredOperations i @ [(actor, OpSelect)]\<rparr>
           else i))"

definition migCapabilities :: "migrationTable \<Rightarrow> columnCapabilities" where
  "migCapabilities t = getStoredColumnCapabilities (migColumns t) (migInsertable t) (migUpdateable t)"

definition scopedInspection :: "migrationTable \<Rightarrow> roleNames \<Rightarrow> inspection" where
  "scopedInspection t roles =
     inspectTableDataAccessMetadata
       (Some (toHasuraTableMetadata (migTable t) (scopedOf roles (migPermissions t)))) roles (migCapabilities t)"

definition ruleBlockers :: "migrationTable \<Rightarrow> roleNames \<Rightarrow> migrationBlocker list" where
  "ruleBlockers t roles =
     (let scopedPerms = scopedOf roles (migPermissions t); scoped = scopedInspection t roles in
      map (duplicateBlocker (migTable t) roles) (sort (duplicateKeys (scopedPerms @ legacyOf (migPermissions t))))
      @ (if list_ex (\<lambda>m. permRole m = authenticatedRole roles) scopedPerms \<and> authenticatedCustom scoped
         then scopedBlockers (migTable t) (authenticatedRole roles) scopedPerms else [])
      @ (if list_ex (\<lambda>m. permRole m = anonymousRole roles) scopedPerms \<and> anonymousCustom scoped
         then scopedBlockers (migTable t) (anonymousRole roles) scopedPerms else []))"

definition inferredMigration :: "migrationTable \<Rightarrow> roleNames \<Rightarrow> bool \<Rightarrow> inspectedMigration" where
  "inferredMigration t roles skip =
     fold (inferLegacy skip (duplicateKeys (scopedOf roles (migPermissions t) @ legacyOf (migPermissions t))) (migCapabilities t))
       (legacyOf (migPermissions t))
       \<lparr>inspectedTable = migTable t, targetSource = Closed, inferredOperations = [],
        migrationPolicy = migTablePolicy (scopedInspection t roles), migrationBlockers = ruleBlockers t roles,
        migrationChanges = [], migrationDrops = []\<rparr>"

definition trackedOnlyBlockers :: "migrationTable \<Rightarrow> roleNames \<Rightarrow> migrationBlocker list" where
  "trackedOnlyBlockers t roles =
     (if \<not> migManaged t \<and> (scopedOf roles (migPermissions t) \<noteq> [] \<or> legacyOf (migPermissions t) \<noteq> [])
      then [\<lparr>blockerTable = Some (migTable t), blockerActor = ActorSystem, blockerOperation = None,
             blockerReason = UnsupportedTrackedObject\<rparr>]
      else [])"

definition inspectMigrationTable ::
  "(string \<Rightarrow> string \<Rightarrow> int) \<Rightarrow> (rat \<Rightarrow> string) \<Rightarrow> migrationTable \<Rightarrow> roleNames \<Rightarrow> bool \<Rightarrow> inspectedMigration" where
  "inspectMigrationTable collate nts t roles skip =
     (let i = inferredMigration t roles skip;
          hasScoped = scopedOf roles (migPermissions t) \<noteq> [];
          hasInferred = inferredOperations i \<noteq> [] in
      i\<lparr>targetSource :=
          (if hasScoped \<and> hasInferred then Mixed else if hasScoped then ExistingScoped
           else if hasInferred then LegacyDefault else Closed),
        migrationBlockers := sortByText collate blockerText
          (dedupeBlockers nts (migrationBlockers i @ trackedOnlyBlockers t roles)),
        migrationChanges := sortByText collate changeText (migrationChanges i),
        migrationDrops := sortByText collate dropText (migrationDrops i)\<rparr>)"

end
