(* ===== verification/Migration_Plan.thy ===== *)
theory Migration_Plan
  imports Migration_Inspection
begin

text \<open>
  Snapshots of the permissions of a project, the plan of its migration to scoped permissions and the
  public report, from \<open>data-access-migration-plan.ts\<close>. The metadata of the engine and its default source
  are JSON values. \<open>localeCompare\<close> is \<open>collate\<close>, SHA-256 of the \<open>JSON.stringify\<close> text is \<open>hash\<close>.
\<close>

subsection \<open>Canonical values\<close>

function canonicalizeMigrationValue :: "(string \<Rightarrow> string \<Rightarrow> int) \<Rightarrow> jsval \<Rightarrow> jsval" where
  "canonicalizeMigrationValue collate (JArr items) = JArr (map (canonicalizeMigrationValue collate) items)"
| "canonicalizeMigrationValue collate (JObj ps) =
     JObj (map (\<lambda>(k, v). (k, canonicalizeMigrationValue collate v)) (js_sort (\<lambda>l r. collate (fst l) (fst r)) ps))"
| "canonicalizeMigrationValue collate (JDate d) = JObj []"
| "canonicalizeMigrationValue collate JUndef = JUndef"
| "canonicalizeMigrationValue collate JNull = JNull"
| "canonicalizeMigrationValue collate (JBool b) = JBool b"
| "canonicalizeMigrationValue collate (JNum n) = JNum n"
| "canonicalizeMigrationValue collate (JStr s) = JStr s"
| "canonicalizeMigrationValue collate (JOther s) = JOther s"
  by pat_completeness auto

termination canonicalizeMigrationValue
proof (relation "measure (\<lambda>(c, v). size v)", goal_cases)
  case (2 collate items v)
  then show ?case using size_element [of v items] by simp
next
  case (3 collate ps x k v)
  then have "(k, v) \<in> set ps" using set_js_sort by metis
  then show ?case using size_property [of k v ps] unfolding in_measure by simp
qed simp

definition digestMigrationValue :: "(string \<Rightarrow> string \<Rightarrow> int) \<Rightarrow> (jsval \<Rightarrow> string) \<Rightarrow> jsval \<Rightarrow> string" where
  "digestMigrationValue collate hash v = hash (canonicalizeMigrationValue collate v)"

text \<open>\<open>arrayOfRecords\<close>, \<open>recordOf\<close>: the own properties of objects that are not arrays.\<close>

definition asRecord :: "jsval \<Rightarrow> (string \<times> jsval) list option" where
  "asRecord v = (case v of JObj ps \<Rightarrow> Some ps | JDate d \<Rightarrow> Some [] | _ \<Rightarrow> None)"

definition recordOf :: "jsval \<Rightarrow> (string \<times> jsval) list" where
  "recordOf v = (case asRecord v of Some ps \<Rightarrow> ps | None \<Rightarrow> [])"

definition arrayOfRecords :: "jsval \<Rightarrow> (string \<times> jsval) list list" where
  "arrayOfRecords v = (case v of JArr items \<Rightarrow> List.map_filter asRecord items | _ \<Rightarrow> [])"

definition stringItems :: "jsval \<Rightarrow> string list" where
  "stringItems v = (case v of JArr items \<Rightarrow> map js_string_of (filter js_is_string items) | _ \<Rightarrow> [])"

definition stringRecord :: "jsval \<Rightarrow> (string \<times> string) list" where
  "stringRecord v = map (\<lambda>(k, x). (k, js_string_of x)) (filter (\<lambda>(k, x). js_is_string x) (recordOf v))"

definition stringOr :: "string \<Rightarrow> jsval \<Rightarrow> string" where
  "stringOr d v = (case v of JStr s \<Rightarrow> s | _ \<Rightarrow> d)"

definition compareJson :: "(string \<Rightarrow> string \<Rightarrow> int) \<Rightarrow> (rat \<Rightarrow> string) \<Rightarrow> ('a \<Rightarrow> jsval) \<Rightarrow> 'a \<Rightarrow> 'a \<Rightarrow> int" where
  "compareJson collate nts json l r = collate (js_stringify nts (json l)) (js_stringify nts (json r))"

subsection \<open>Snapshots\<close>

datatype runtimeMode = Compatibility | Explicit

fun modeName :: "runtimeMode \<Rightarrow> string" where
  "modeName Compatibility = ''compatibility''"
| "modeName Explicit = ''explicit''"

record unsupportedBinding =
  bindingKind :: string
  bindingObject :: string
  bindingRole :: string

record externalBinding =
  externalSchema :: string
  externalTable :: string
  externalRole :: string
  externalOperation :: daOperation

record migrationSnapshot =
  snapProject :: string
  snapSchema :: string
  snapMode :: runtimeMode
  snapNaming :: "(string \<times> jsval) list option"
  snapTables :: "migrationTable list"
  snapBindings :: "unsupportedBinding list"
  snapExternal :: "externalBinding list"

record inventoryItem =
  invTable :: string
  invColumns :: "string list"
  invInsertable :: "string list"
  invUpdateable :: "string list"
  invRealtime :: bool

definition bindingJson :: "unsupportedBinding \<Rightarrow> jsval" where
  "bindingJson b =
     JObj [(''kind'', JStr (bindingKind b)), (''objectName'', JStr (bindingObject b)), (''role'', JStr (bindingRole b))]"

definition externalJson :: "externalBinding \<Rightarrow> jsval" where
  "externalJson b =
     JObj [(''schemaName'', JStr (externalSchema b)), (''tableName'', JStr (externalTable b)),
       (''role'', JStr (externalRole b)), (''operation'', JStr (operationName (externalOperation b)))]"

definition snapPermissionJson :: "materializedPermission \<Rightarrow> jsval" where
  "snapPermissionJson m =
     JObj [(''role'', JStr (permRole m)), (''operation'', JStr (operationName (permOperation m))),
       (''permission'', JObj (permission m))]"

definition namingJson :: "graphqlNaming \<Rightarrow> jsval" where
  "namingJson n =
     JObj [(''customName'', optionJson (customName n)),
       (''customRootFields'', JObj (map (\<lambda>(k, s). (k, JStr s)) (customRootFields n)))]"

definition columnsJson :: "string \<Rightarrow> string list option \<Rightarrow> (string \<times> jsval) list" where
  "columnsJson key cs = (case cs of Some xs \<Rightarrow> [(key, js_strings xs)] | None \<Rightarrow> [])"

definition tableJson :: "nat \<Rightarrow> migrationTable \<Rightarrow> jsval" where
  "tableJson version t =
     JObj ([(''tableName'', JStr (migTable t)), (''columns'', js_strings (migColumns t))]
       @ (if version = 2
          then columnsJson ''insertableColumns'' (migInsertable t) @ columnsJson ''updateableColumns'' (migUpdateable t)
          else [])
       @ [(''realtimeEnabled'', JBool (migRealtime t)), (''graphqlNaming'', namingJson (migNaming t)),
          (''inventoryStatus'', JStr (if migManaged t then ''managed_table'' else ''tracked_only'')),
          (''permissions'', JArr (map snapPermissionJson (migPermissions t)))])"

definition snapshotJson :: "nat \<Rightarrow> migrationSnapshot \<Rightarrow> jsval" where
  "snapshotJson version s =
     JObj [(''projectId'', JStr (snapProject s)), (''schemaName'', JStr (snapSchema s)),
       (''runtimeMode'', JStr (modeName (snapMode s))),
       (''sourceGraphqlNaming'', (case snapNaming s of Some ps \<Rightarrow> JObj ps | None \<Rightarrow> JNull)),
       (''tables'', JArr (map (tableJson version) (snapTables s))),
       (''unsupportedApiBindings'', JArr (map bindingJson (snapBindings s))),
       (''externalScopedRoleBindings'', JArr (map externalJson (snapExternal s)))]"

definition digestProjectMigrationSnapshot ::
  "(string \<Rightarrow> string \<Rightarrow> int) \<Rightarrow> (jsval \<Rightarrow> string) \<Rightarrow> migrationSnapshot \<Rightarrow> nat \<Rightarrow> string" where
  "digestProjectMigrationSnapshot collate hash s version = digestMigrationValue collate hash (snapshotJson version s)"

definition normalizeSnapshotPermission ::
  "(string \<Rightarrow> string \<Rightarrow> int) \<Rightarrow> (string \<times> jsval) list \<Rightarrow> (string \<times> jsval) list" where
  "normalizeSnapshotPermission collate p =
     recordOf (canonicalizeMigrationValue collate (JObj
       (case permGet p ''columns'' of
          JArr items \<Rightarrow> js_put ''columns'' (js_strings (uniqueSorted (stringItems (JArr items)))) p
        | _ \<Rightarrow> p)))"

definition permissionsKey :: "daOperation \<Rightarrow> string" where
  "permissionsKey op = operationName op @ ''_permissions''"

definition extractOperation ::
  "(string \<Rightarrow> string \<Rightarrow> int) \<Rightarrow> (string \<times> jsval) list \<Rightarrow> daOperation \<Rightarrow> materializedPermission list" where
  "extractOperation collate t op =
     List.map_filter (\<lambda>entry. case permGet entry ''role'' of
         JStr role \<Rightarrow> Some \<lparr>permRole = role, permOperation = op,
           permission = normalizeSnapshotPermission collate (recordOf (permGet entry ''permission''))\<rparr>
       | _ \<Rightarrow> None) (arrayOfRecords (permGet t (permissionsKey op)))"

definition extractPermissions ::
  "(string \<Rightarrow> string \<Rightarrow> int) \<Rightarrow> (string \<times> jsval) list \<Rightarrow> materializedPermission list" where
  "extractPermissions collate t = sortByText collate roleKey (concat (map (extractOperation collate t) operationList))"

definition tableIdentity :: "(string \<times> jsval) list \<Rightarrow> string \<times> string" where
  "tableIdentity t =
     (let table = recordOf (permGet t ''table'') in
      (stringOr [] (permGet table ''schema''), stringOr [] (permGet table ''name'')))"

definition inferPermissionColumns :: "(string \<Rightarrow> string \<Rightarrow> int) \<Rightarrow> (string \<times> jsval) list \<Rightarrow> string list" where
  "inferPermissionColumns collate t =
     uniqueSorted (concat (map (\<lambda>m. stringItems (permGet (permission m) ''columns'')) (extractPermissions collate t)))"

definition normalizeTableSnapshot ::
  "(string \<Rightarrow> string \<Rightarrow> int) \<Rightarrow> (string \<times> jsval) list \<Rightarrow> string \<Rightarrow> inventoryItem option \<Rightarrow> migrationTable" where
  "normalizeTableSnapshot collate t name inventory =
     (let configuration = recordOf (permGet t ''configuration'');
          columns = uniqueSorted (case inventory of Some i \<Rightarrow> invColumns i | None \<Rightarrow> inferPermissionColumns collate t) in
      \<lparr>migTable = name, migColumns = columns,
       migInsertable = Some (uniqueSorted (case inventory of Some i \<Rightarrow> invInsertable i | None \<Rightarrow> columns)),
       migUpdateable = Some (uniqueSorted (case inventory of Some i \<Rightarrow> invUpdateable i | None \<Rightarrow> columns)),
       migRealtime = (case inventory of Some i \<Rightarrow> invRealtime i | None \<Rightarrow> False),
       migNaming = \<lparr>customName = (case permGet configuration ''custom_name'' of JStr s \<Rightarrow> Some s | _ \<Rightarrow> None),
         customRootFields = stringRecord (permGet configuration ''custom_root_fields'')\<rparr>,
       migManaged = (inventory \<noteq> None), migPermissions = extractPermissions collate t\<rparr>)"

text \<open>\<open>new Map(inventory.map(...))\<close>: the last entry of a name.\<close>

definition inventoryOf :: "inventoryItem list \<Rightarrow> string \<Rightarrow> inventoryItem option" where
  "inventoryOf inventory name = map_of (rev (map (\<lambda>i. (invTable i, i)) inventory)) name"

definition untrackedTable :: "inventoryItem \<Rightarrow> migrationTable" where
  "untrackedTable i =
     \<lparr>migTable = invTable i, migColumns = uniqueSorted (invColumns i), migInsertable = Some (uniqueSorted (invInsertable i)),
      migUpdateable = Some (uniqueSorted (invUpdateable i)), migRealtime = invRealtime i,
      migNaming = \<lparr>customName = None, customRootFields = []\<rparr>, migManaged = True, migPermissions = []\<rparr>"

definition normalizeSourceCustomization :: "(string \<Rightarrow> string \<Rightarrow> int) \<Rightarrow> jsval \<Rightarrow> (string \<times> jsval) list option" where
  "normalizeSourceCustomization collate v =
     (let normalized = recordOf (canonicalizeMigrationValue collate (JObj (recordOf v))) in
      if normalized = [] then None else Some normalized)"

definition objectIdentity :: "(string \<times> jsval) list \<Rightarrow> string \<Rightarrow> string" where
  "objectIdentity item kind =
     (let identity = (if kind = ''function'' \<or> kind = ''stored_procedure'' then recordOf (permGet item kind) else item);
          schema = stringOr [] (permGet identity ''schema'');
          name = stringOr ''unknown'' (permGet identity ''name'') in
      if schema \<noteq> [] then schema @ ''.'' @ name else name)"

definition rolesIn :: "string list \<Rightarrow> (string \<times> jsval) list list \<Rightarrow> string list" where
  "rolesIn relevant entries =
     List.map_filter (\<lambda>e. case permGet e ''role'' of JStr r \<Rightarrow> if r \<in> set relevant then Some r else None | _ \<Rightarrow> None) entries"

definition sourceBindings ::
  "(string \<times> jsval) list \<Rightarrow> string list \<Rightarrow> string \<times> string \<Rightarrow> unsupportedBinding list" where
  "sourceBindings source relevant = (\<lambda>(kind, key).
     concat (map (\<lambda>item. map (\<lambda>r. \<lparr>bindingKind = kind, bindingObject = objectIdentity item kind, bindingRole = r\<rparr>)
       (rolesIn relevant (arrayOfRecords (permGet item ''permissions'') @ arrayOfRecords (permGet item ''select_permissions''))))
       (arrayOfRecords (permGet source key))))"

definition metadataBindings ::
  "(string \<times> jsval) list \<Rightarrow> string list \<Rightarrow> string \<times> string \<Rightarrow> unsupportedBinding list" where
  "metadataBindings meta relevant = (\<lambda>(kind, key).
     concat (map (\<lambda>item. map (\<lambda>r. \<lparr>bindingKind = kind, bindingObject = stringOr ''unknown'' (permGet item ''name''), bindingRole = r\<rparr>)
       (rolesIn relevant (arrayOfRecords (permGet item ''permissions''))))
       (arrayOfRecords (permGet meta key))))"

text \<open>The values of a \<open>Set\<close>, in the order of their first insertion.\<close>

definition uniqueValues :: "'a list \<Rightarrow> 'a list" where
  "uniqueValues xs = rev (remdups (rev xs))"

definition inheritedBindings :: "(string \<times> jsval) list \<Rightarrow> string list \<Rightarrow> unsupportedBinding list" where
  "inheritedBindings meta relevant =
     concat (map (\<lambda>item. map (\<lambda>r. \<lparr>bindingKind = ''inherited_role'',
          bindingObject = stringOr ''unknown'' (permGet item ''role_name''), bindingRole = r\<rparr>)
       (uniqueValues (filter (\<lambda>r. r \<in> set relevant)
         (stringItems (JArr (permGet item ''role_name'' # (case permGet item ''role_set'' of JArr rs \<Rightarrow> rs | _ \<Rightarrow> [])))))))
       (arrayOfRecords (permGet meta ''inherited_roles'')))"

definition extractUnsupportedBindings ::
  "(string \<Rightarrow> string \<Rightarrow> int) \<Rightarrow> (rat \<Rightarrow> string) \<Rightarrow> (string \<times> jsval) list \<Rightarrow> (string \<times> jsval) list \<Rightarrow> string list
   \<Rightarrow> unsupportedBinding list" where
  "extractUnsupportedBindings collate nts source meta relevant =
     js_sort (compareJson collate nts bindingJson)
       (concat (map (sourceBindings source relevant)
          [(''function'', ''functions''), (''native_query'', ''native_queries''), (''logical_model'', ''logical_models''),
           (''stored_procedure'', ''stored_procedures'')])
        @ concat (map (metadataBindings meta relevant) [(''action'', ''actions''), (''remote_schema'', ''remote_schemas'')])
        @ inheritedBindings meta relevant)"

definition relevantRoles :: "roleNames \<Rightarrow> string list" where
  "relevantRoles roles = uniqueValues [''user'', ''anonymous'', authenticatedRole roles, anonymousRole roles]"

definition externalBindings ::
  "(string \<Rightarrow> string \<Rightarrow> int) \<Rightarrow> (rat \<Rightarrow> string) \<Rightarrow> (string \<times> jsval) list list \<Rightarrow> string \<Rightarrow> roleNames \<Rightarrow> externalBinding list" where
  "externalBindings collate nts tables schema roles =
     js_sort (compareJson collate nts externalJson)
       (concat (map (\<lambda>t. map (\<lambda>m. \<lparr>externalSchema = fst (tableIdentity t), externalTable = snd (tableIdentity t),
            externalRole = permRole m, externalOperation = permOperation m\<rparr>)
          (scopedOf roles (extractPermissions collate t)))
          (filter (\<lambda>t. fst (tableIdentity t) \<noteq> schema) tables)))"

definition trackedTables ::
  "(string \<Rightarrow> string \<Rightarrow> int) \<Rightarrow> (string \<times> jsval) list list \<Rightarrow> string \<Rightarrow> inventoryItem list \<Rightarrow> migrationTable list" where
  "trackedTables collate tables schema inventory =
     map (\<lambda>t. normalizeTableSnapshot collate t (snd (tableIdentity t)) (inventoryOf inventory (snd (tableIdentity t))))
       (filter (\<lambda>t. fst (tableIdentity t) = schema) tables)"

definition buildProjectMigrationSnapshot ::
  "(string \<Rightarrow> string \<Rightarrow> int) \<Rightarrow> (rat \<Rightarrow> string) \<Rightarrow> string \<Rightarrow> string \<Rightarrow> runtimeMode \<Rightarrow> roleNames \<Rightarrow> inventoryItem list
   \<Rightarrow> (string \<times> jsval) list \<Rightarrow> (string \<times> jsval) list \<Rightarrow> migrationSnapshot" where
  "buildProjectMigrationSnapshot collate nts projectId schema mode roles inventory source meta =
     (let sourceTables = arrayOfRecords (permGet source ''tables'');
          tracked = trackedTables collate sourceTables schema inventory;
          untracked = map untrackedTable (filter (\<lambda>i. invTable i \<notin> migTable ` set tracked) inventory) in
      \<lparr>snapProject = projectId, snapSchema = schema, snapMode = mode,
       snapNaming = normalizeSourceCustomization collate (permGet source ''customization''),
       snapTables = sortByText collate migTable (tracked @ untracked),
       snapBindings = extractUnsupportedBindings collate nts source meta (relevantRoles roles),
       snapExternal = externalBindings collate nts sourceTables schema roles\<rparr>)"

subsection \<open>Plans\<close>

record planTarget =
  planTable :: string
  planSource :: targetSource
  planInferred :: "(migrationActor \<times> daOperation) list"
  planPolicy :: tableAccess

record migrationPlan =
  planVersion :: nat
  planProject :: string
  planSchema :: string
  targetPolicies :: "planTarget list"
  legacyDrops :: "legacyDrop list"
  planBlockers :: "migrationBlocker list"
  planChanges :: "destructiveChange list"

definition dropJson :: "legacyDrop \<Rightarrow> jsval" where
  "dropJson d =
     JObj [(''tableName'', JStr (dropTable d)), (''role'', JStr (dropRole d)),
       (''operation'', JStr (operationName (dropOperation d)))]"

definition changeJson :: "destructiveChange \<Rightarrow> jsval" where
  "changeJson c =
     JObj [(''tableName'', JStr (changeTable c)), (''actor'', JStr (actorName (changeActor c))),
       (''operation'', JStr (operationName (changeOperation c))), (''reason'', JStr (changeName (changeReason c)))]"

definition actorForRole :: "string \<Rightarrow> roleNames \<Rightarrow> migrationActor" where
  "actorForRole role roles =
     (if role = ''user'' \<or> role = authenticatedRole roles then ActorAuthenticated
      else if role = ''anonymous'' \<or> role = anonymousRole roles then ActorAnonymous
      else ActorSystem)"

definition planTargetOf :: "inspectedMigration \<Rightarrow> planTarget" where
  "planTargetOf i =
     \<lparr>planTable = inspectedTable i, planSource = targetSource i, planInferred = inferredOperations i,
      planPolicy = migrationPolicy i\<rparr>"

definition inspectTables ::
  "(string \<Rightarrow> string \<Rightarrow> int) \<Rightarrow> (rat \<Rightarrow> string) \<Rightarrow> migrationSnapshot \<Rightarrow> roleNames \<Rightarrow> string list
   \<Rightarrow> (migrationTable \<times> inspectedMigration) list" where
  "inspectTables collate nts s roles skipped =
     map (\<lambda>t. (t, inspectMigrationTable collate nts t roles (migTable t \<in> set skipped))) (snapTables s)"

definition snapshotBlockers :: "migrationSnapshot \<Rightarrow> roleNames \<Rightarrow> inspectedMigration list \<Rightarrow> migrationBlocker list" where
  "snapshotBlockers s roles inspected =
     (if snapNaming s \<noteq> None
      then [\<lparr>blockerTable = None, blockerActor = ActorSystem, blockerOperation = None,
             blockerReason = UnsupportedSourceCustomization\<rparr>]
      else [])
     @ concat (map migrationBlockers inspected)
     @ map (\<lambda>b. \<lparr>blockerTable = None, blockerActor = actorForRole (bindingRole b) roles, blockerOperation = None,
          blockerReason = UnsupportedTrackedObject\<rparr>) (snapBindings s)
     @ map (\<lambda>b. \<lparr>blockerTable = Some (externalTable b), blockerActor = actorForRole (externalRole b) roles,
          blockerOperation = Some (operationName (externalOperation b)), blockerReason = CrossProjectRoleBinding\<rparr>)
         (snapExternal s)"

definition buildProjectMigrationPlan ::
  "(string \<Rightarrow> string \<Rightarrow> int) \<Rightarrow> (rat \<Rightarrow> string) \<Rightarrow> migrationSnapshot \<Rightarrow> roleNames \<Rightarrow> string list \<Rightarrow> migrationPlan" where
  "buildProjectMigrationPlan collate nts s roles skipped =
     (let inspected = inspectTables collate nts s roles skipped in
      \<lparr>planVersion = 2, planProject = snapProject s, planSchema = snapSchema s,
       targetPolicies = sortByText collate planTable (map (planTargetOf \<circ> snd) (filter (migManaged \<circ> fst) inspected)),
       legacyDrops = js_sort (compareJson collate nts dropJson) (concat (map (migrationDrops \<circ> snd) inspected)),
       planBlockers = sortByText collate blockerText (dedupeBlockers nts (snapshotBlockers s roles (map snd inspected))),
       planChanges = js_sort (compareJson collate nts changeJson) (concat (map (migrationChanges \<circ> snd) inspected))\<rparr>)"

subsection \<open>Reports\<close>

datatype migrationStatus =
    PreviewReady | Applying | Applied | RollingBack | RolledBack | Recovered | Failed | Superseded

datatype migrationPhase =
    Preview | SnapshotCheck | PrepareScopedPermissions | VerifyScopedMetadata | VerifyScopedHttp | VerifyScopedRealtime
  | RemoveLegacyPermissions | ActivateExplicitMode | VerifyActiveRuntime | RollbackSnapshotCheck | RestorePermissions
  | RestoreRuntimeMode | VerifyRecoveryTarget | Completed

datatype recoveryTarget = ToSource | ToApplied

text \<open>\<open>recordAppliedAt\<close> is the text of \<open>appliedAt\<close> in the report.\<close>

record migrationRecord =
  recordId :: string
  recordProject :: string
  recordStatus :: migrationStatus
  recordPhase :: migrationPhase
  sourceSnapshot :: migrationSnapshot
  recordPlan :: migrationPlan
  sourceDigest :: string
  appliedSnapshot :: "migrationSnapshot option"
  appliedDigest :: "string option"
  rollbackPreviewDigest :: "string option"
  recoveryTarget :: "recoveryTarget option"
  hasDestructiveChanges :: bool
  recordCreatedBy :: string
  recordError :: "(string \<times> string) option"
  recordStartedAt :: "int option"
  recordAppliedAt :: "int option"
  recordCompletedAt :: "int option"

datatype accessSummary = SummaryClosed | SummaryReadOnly | SummaryWriteOnly | SummaryReadWrite

definition summarizeAuthenticated :: "tableAccess \<Rightarrow> accessSummary" where
  "summarizeAuthenticated p =
     (let canRead = selectMode p \<noteq> ModeNone;
          canWrite = insertMode p \<noteq> ModeNone \<or> updateMode p \<noteq> ModeNone \<or> deleteMode p \<noteq> ModeNone in
      if canRead \<and> canWrite then SummaryReadWrite else if canRead then SummaryReadOnly
      else if canWrite then SummaryWriteOnly else SummaryClosed)"

record tableReport =
  reportTable :: string
  reportSource :: targetSource
  reportInferred :: "(migrationActor \<times> daOperation) list"
  reportAuthenticated :: accessSummary
  reportAnonymousRead :: "bool option"
  removesAnonymousWrite :: bool
  removesAuthenticatedAggregations :: bool
  reportBlocked :: bool

datatype publicTarget = PreMigration | CurrentExplicit

record migrationReport =
  reportId :: string
  reportProject :: string
  reportStatus :: migrationStatus
  reportPhase :: migrationPhase
  reportSourceDigest :: string
  reportRollbackDigest :: "string option"
  requiredRecoveryDigest :: "string option"
  reportTarget :: "publicTarget option"
  reportAppliedAt :: "int option"
  canApply :: bool
  canRollback :: bool
  totalTables :: nat
  migratedTables :: nat
  preservedScopedTables :: nat
  inferredOperationCount :: nat
  blockerCount :: nat
  destructiveChangeCount :: nat
  reportBlockers :: "migrationBlocker list"
  reportChanges :: "destructiveChange list"
  reportTables :: "tableReport list"
  reportError :: "(string \<times> string) option"

definition tableReportOf :: "migrationPlan \<Rightarrow> planTarget \<Rightarrow> tableReport" where
  "tableReportOf plan item =
     \<lparr>reportTable = planTable item, reportSource = planSource item, reportInferred = planInferred item,
      reportAuthenticated = summarizeAuthenticated (planPolicy item),
      reportAnonymousRead = anonymousSelect (planPolicy item),
      removesAnonymousWrite = list_ex (\<lambda>c. changeTable c = planTable item \<and> changeReason c = AnonymousWriteRemoved)
        (planChanges plan),
      removesAuthenticatedAggregations = list_ex (\<lambda>c. changeTable c = planTable item
          \<and> changeReason c = AuthenticatedAggregationsRemoved) (planChanges plan),
      reportBlocked = list_ex (\<lambda>b. blockerTable b = Some (planTable item)) (planBlockers plan)\<rparr>"

definition toPublicMigrationReport :: "migrationRecord \<Rightarrow> migrationReport" where
  "toPublicMigrationReport r =
     (let plan = recordPlan r; managed = targetPolicies plan in
      \<lparr>reportId = recordId r, reportProject = recordProject r, reportStatus = recordStatus r, reportPhase = recordPhase r,
       reportSourceDigest = sourceDigest r, reportRollbackDigest = rollbackPreviewDigest r,
       requiredRecoveryDigest = (case recoveryTarget r of Some ToSource \<Rightarrow> Some (sourceDigest r)
         | Some ToApplied \<Rightarrow> appliedDigest r | None \<Rightarrow> None),
       reportTarget = (case recoveryTarget r of Some ToSource \<Rightarrow> Some PreMigration
         | Some ToApplied \<Rightarrow> Some CurrentExplicit | None \<Rightarrow> None),
       reportAppliedAt = recordAppliedAt r,
       canApply = (planVersion plan = 2 \<and> recordStatus r = PreviewReady \<and> planBlockers plan = []),
       canRollback = (recordStatus r = Applied),
       totalTables = length managed,
       migratedTables = length (filter (\<lambda>i. planInferred i \<noteq> []) managed),
       preservedScopedTables = length (filter (\<lambda>i. planSource i = ExistingScoped \<or> planSource i = Mixed) managed),
       inferredOperationCount = sum_list (map (length \<circ> planInferred) managed),
       blockerCount = length (planBlockers plan), destructiveChangeCount = length (planChanges plan),
       reportBlockers = planBlockers plan, reportChanges = planChanges plan,
       reportTables = map (tableReportOf plan) managed, reportError = recordError r\<rparr>)"

end
