(* ===== verification/Migration_Verifier.thy ===== *)
theory Migration_Verifier
  imports Migration_Plan Project_Actor
begin

text \<open>
  The checks of a migration against the metadata and the schema of the engine, from
  \<open>data-access-migration-verifier.ts\<close>. The answer of the engine to a schema probe is a parameter of the
  callers. An exception is \<open>Inl\<close> of its message.
\<close>

subsection \<open>Equal permissions\<close>

fun allE :: "('a \<Rightarrow> 'e + unit) \<Rightarrow> 'a list \<Rightarrow> 'e + unit" where
  "allE check [] = Inr ()"
| "allE check (x # xs) = bindE (check x) (\<lambda>_. allE check xs)"

fun collectE :: "('a \<Rightarrow> 'e + 'b list) \<Rightarrow> 'a list \<Rightarrow> 'e + 'b list" where
  "collectE f [] = Inr []"
| "collectE f (x # xs) = bindE (f x) (\<lambda>ys. bindE (collectE f xs) (\<lambda>zs. Inr (ys @ zs)))"

definition equalMigrationValue :: "(string \<Rightarrow> string \<Rightarrow> int) \<Rightarrow> (rat \<Rightarrow> string) \<Rightarrow> jsval \<Rightarrow> jsval \<Rightarrow> bool" where
  "equalMigrationValue collate nts l r \<longleftrightarrow>
     js_stringify nts (canonicalizeMigrationValue collate l) = js_stringify nts (canonicalizeMigrationValue collate r)"

definition deleteKey :: "string \<Rightarrow> bool \<Rightarrow> (string \<times> jsval) list \<Rightarrow> (string \<times> jsval) list" where
  "deleteKey k b p = (if b then filter (\<lambda>(j, v). j \<noteq> k) p else p)"

definition normalizePermissionForVerification :: "(string \<times> jsval) list \<Rightarrow> (string \<times> jsval) list" where
  "normalizePermissionForVerification p =
     (let empty = (\<lambda>k. permGet p k = JNull \<or> emptyObject (permGet p k)) in
      deleteKey ''set'' (empty ''set'') (deleteKey ''check'' (empty ''check'')
        (deleteKey ''allow_aggregations'' (permGet p ''allow_aggregations'' = JBool False) p)))"

definition equalPermissionValue ::
  "(string \<Rightarrow> string \<Rightarrow> int) \<Rightarrow> (rat \<Rightarrow> string) \<Rightarrow> (string \<times> jsval) list \<Rightarrow> (string \<times> jsval) list \<Rightarrow> bool" where
  "equalPermissionValue collate nts l r \<longleftrightarrow>
     equalMigrationValue collate nts (JObj (normalizePermissionForVerification l)) (JObj (normalizePermissionForVerification r))"

subsection \<open>Metadata\<close>

datatype verificationStage = Prepared | LegacyRemoved

definition findSnapTable :: "migrationSnapshot \<Rightarrow> string \<Rightarrow> migrationTable option" where
  "findSnapTable s name = find (\<lambda>t. migTable t = name) (snapTables s)"

definition findTarget :: "migrationPlan \<Rightarrow> string \<Rightarrow> planTarget option" where
  "findTarget plan name = find (\<lambda>i. planTable i = name) (targetPolicies plan)"

definition materializeTarget :: "planTarget \<Rightarrow> roleNames \<Rightarrow> migrationTable \<Rightarrow> string + materializedPermission list" where
  "materializeTarget target roles t = materializeTableDataAccessPolicy (planPolicy target) roles (migCapabilities t) None"

text \<open>A permission with the name of its table, and its key.\<close>

definition verificationText :: "string \<times> materializedPermission \<Rightarrow> string" where
  "verificationText = (\<lambda>(table, m). table @ '':'' @ roleKey m)"

definition verificationPermissionKey ::
  "(string \<Rightarrow> string \<Rightarrow> int) \<Rightarrow> (jsval \<Rightarrow> string) \<Rightarrow> string \<times> materializedPermission \<Rightarrow> string" where
  "verificationPermissionKey collate hash = (\<lambda>(table, m).
     verificationText (table, m) @ '':''
       @ digestMigrationValue collate hash (JObj (normalizePermissionForVerification (permission m))))"

definition expectedOf ::
  "migrationSnapshot \<Rightarrow> migrationPlan \<Rightarrow> roleNames \<Rightarrow> verificationStage \<Rightarrow> migrationTable
   \<Rightarrow> string + (string \<times> materializedPermission) list" where
  "expectedOf source plan roles stage t =
     (case (findSnapTable source (migTable t), findTarget plan (migTable t)) of
        (Some st, Some target) \<Rightarrow>
          bindE (materializeTarget target roles t) (\<lambda>ms.
          Inr (map (Pair (migTable t)) ((if stage = Prepared then legacyOf (migPermissions st) else []) @ ms)))
      | _ \<Rightarrow> Inl (''Unexpected tracked table: '' @ migTable t))"

definition expectedPermissions ::
  "(string \<Rightarrow> string \<Rightarrow> int) \<Rightarrow> migrationSnapshot \<Rightarrow> migrationSnapshot \<Rightarrow> migrationPlan \<Rightarrow> roleNames \<Rightarrow> verificationStage
   \<Rightarrow> string + (string \<times> materializedPermission) list" where
  "expectedPermissions collate current source plan roles stage =
     map_sum id (sortByText collate verificationText) (collectE (expectedOf source plan roles stage) (snapTables current))"

definition currentPermissions ::
  "(string \<Rightarrow> string \<Rightarrow> int) \<Rightarrow> migrationSnapshot \<Rightarrow> roleNames \<Rightarrow> (string \<times> materializedPermission) list" where
  "currentPermissions collate current roles =
     sortByText collate verificationText (concat (map (\<lambda>t. map (Pair (migTable t))
       (filter (\<lambda>m. permRole m \<in> set (relevantRoles roles)) (migPermissions t))) (snapTables current)))"

definition checkKeys ::
  "(string \<Rightarrow> string \<Rightarrow> int) \<Rightarrow> (rat \<Rightarrow> string) \<Rightarrow> string list \<Rightarrow> string list \<Rightarrow> string + unit" where
  "checkKeys collate nts currentKeys expectedKeys =
     (let listed = (\<lambda>ks. if ks = [] then ''none'' else js_join '','' ks) in
      guardE (equalMigrationValue collate nts (js_strings currentKeys) (js_strings expectedKeys))
        (''Project permission metadata does not match the migration plan (missing=''
         @ listed (filter (\<lambda>k. k \<notin> set currentKeys) expectedKeys) @ ''; unexpected=''
         @ listed (filter (\<lambda>k. k \<notin> set expectedKeys) currentKeys) @ '')''))"

definition checkTarget ::
  "(string \<Rightarrow> string \<Rightarrow> int) \<Rightarrow> (rat \<Rightarrow> string) \<Rightarrow> migrationSnapshot \<Rightarrow> roleNames \<Rightarrow> planTarget \<Rightarrow> string + unit" where
  "checkTarget collate nts current roles target =
     (case findSnapTable current (planTable target) of
        None \<Rightarrow> Inl (''Tracked table is missing: '' @ planTable target)
      | Some t \<Rightarrow>
          bindE (materializeTarget target roles t) (\<lambda>expected.
          allE (\<lambda>m. guardE (length (filter (\<lambda>c. permRole c = permRole m \<and> permOperation c = permOperation m
               \<and> equalPermissionValue collate nts (permission c) (permission m)) (migPermissions t)) = 1)
             (''Expected scoped permission is missing or duplicated: '' @ planTable target @ ''.''
              @ operationName (permOperation m))) expected))"

definition checkDrop ::
  "(string \<Rightarrow> string \<Rightarrow> int) \<Rightarrow> (rat \<Rightarrow> string) \<Rightarrow> migrationSnapshot \<Rightarrow> migrationSnapshot \<Rightarrow> verificationStage \<Rightarrow> legacyDrop
   \<Rightarrow> string + unit" where
  "checkDrop collate nts current source stage d =
     (let same = filter (\<lambda>m. permRole m = dropRole d \<and> permOperation m = dropOperation d);
          matches = (case findSnapTable current (dropTable d) of Some t \<Rightarrow> same (migPermissions t) | None \<Rightarrow> []);
          name = dropTable d @ ''.'' @ operationName (dropOperation d) in
      if stage = LegacyRemoved then guardE (matches = []) (''Legacy permission remains: '' @ name)
      else guardE
        (case (case findSnapTable source (dropTable d) of Some t \<Rightarrow> same (migPermissions t) | None \<Rightarrow> [], matches) of
           (s # _, [m]) \<Rightarrow> equalPermissionValue collate nts (permission m) (permission s)
         | _ \<Rightarrow> False)
        (''Legacy permission drifted: '' @ name))"

definition verifyMigrationMetadata ::
  "(string \<Rightarrow> string \<Rightarrow> int) \<Rightarrow> (jsval \<Rightarrow> string) \<Rightarrow> (rat \<Rightarrow> string) \<Rightarrow> migrationSnapshot \<Rightarrow> migrationSnapshot
   \<Rightarrow> migrationPlan \<Rightarrow> roleNames \<Rightarrow> verificationStage \<Rightarrow> string + unit" where
  "verifyMigrationMetadata collate hash nts current source plan roles stage =
     bindE (guardE (snapExternal current = []) ''Scoped role exists outside the project schema'') (\<lambda>_.
     bindE (guardE (snapBindings current = []) ''Unsupported API actor binding exists'') (\<lambda>_.
     bindE (expectedPermissions collate current source plan roles stage) (\<lambda>expected.
     bindE (checkKeys collate nts (map (verificationPermissionKey collate hash) (currentPermissions collate current roles))
        (map (verificationPermissionKey collate hash) expected)) (\<lambda>_.
     bindE (allE (checkTarget collate nts current roles) (targetPolicies plan)) (\<lambda>_.
     allE (checkDrop collate nts current source stage) (legacyDrops plan))))))"

subsection \<open>Visible roots\<close>

record visibleRoots =
  queryRoots :: "string list"
  mutationRoots :: "string list"
  subscriptionRoots :: "string list"

record tableRoots =
  rootSelect :: string
  rootAggregate :: string
  rootInsert :: string
  rootUpdate :: string
  rootDelete :: string

definition tableRootFields :: "string \<Rightarrow> migrationTable \<Rightarrow> tableRoots" where
  "tableRootFields schema t =
     (let custom = (\<lambda>k d. case map_of (customRootFields (migNaming t)) k of Some s \<Rightarrow> s | None \<Rightarrow> d);
          base = (case customName (migNaming t) of Some n \<Rightarrow> n | None \<Rightarrow> schema @ ''_'' @ migTable t) in
      \<lparr>rootSelect = custom ''select'' base, rootAggregate = custom ''select_aggregate'' (base @ ''_aggregate''),
       rootInsert = custom ''insert'' (''insert_'' @ base), rootUpdate = custom ''update'' (''update_'' @ base),
       rootDelete = custom ''delete'' (''delete_'' @ base)\<rparr>)"

definition assertRoot :: "string list \<Rightarrow> string \<Rightarrow> bool \<Rightarrow> string + unit" where
  "assertRoot visible name expected =
     (if expected \<and> name \<notin> set visible then Inl (''Expected GraphQL root is missing: '' @ name)
      else if \<not> expected \<and> name \<in> set visible then Inl (''Unexpected GraphQL root is visible: '' @ name)
      else Inr ())"

definition assertTableRoots ::
  "migrationSnapshot \<Rightarrow> string \<Rightarrow> visibleRoots \<Rightarrow> planTarget \<Rightarrow> string + unit" where
  "assertTableRoots s role visible target =
     (case findSnapTable s (planTable target) of
        None \<Rightarrow> Inl (''Snapshot table is missing: '' @ planTable target)
      | Some t \<Rightarrow>
          (let roots = tableRootFields (snapSchema s) t;
               perms = filter (\<lambda>m. permRole m = role) (migPermissions t);
               has = (\<lambda>op. list_ex (\<lambda>m. permOperation m = op) perms);
               aggregates = (case find (\<lambda>m. permOperation m = OpSelect) perms of
                   Some m \<Rightarrow> permGet (permission m) ''allow_aggregations'' = JBool True | None \<Rightarrow> False) in
           bindE (assertRoot (queryRoots visible) (rootSelect roots) (has OpSelect)) (\<lambda>_.
           bindE (assertRoot (queryRoots visible) (rootAggregate roots) aggregates) (\<lambda>_.
           bindE (assertRoot (mutationRoots visible) (rootInsert roots) (has OpInsert)) (\<lambda>_.
           bindE (assertRoot (mutationRoots visible) (rootUpdate roots) (has OpUpdate)) (\<lambda>_.
           bindE (assertRoot (mutationRoots visible) (rootDelete roots) (has OpDelete)) (\<lambda>_.
           assertRoot (subscriptionRoots visible) (rootSelect roots) (has OpSelect))))))))"

definition assertVisibleRoots ::
  "migrationSnapshot \<Rightarrow> migrationPlan \<Rightarrow> string \<Rightarrow> string list \<Rightarrow> visibleRoots \<Rightarrow> string + unit" where
  "assertVisibleRoots s plan role forbidden visible =
     bindE (allE (assertTableRoots s role visible) (targetPolicies plan)) (\<lambda>_.
     allE (\<lambda>name. guardE (name \<notin> set (queryRoots visible @ mutationRoots visible @ subscriptionRoots visible))
        (''Unexpected cross-project GraphQL root: '' @ name)) forbidden)"

text \<open>The reply to a probe. Only \<open>__schema\<close> without errors is a valid one; a type that is null has no fields.\<close>

datatype probeReply = ProbeHttp int | ProbeInvalid | ProbeTimeout | ProbeFailed | ProbeSchema visibleRoots

definition verifyMigrationHttpVisibility ::
  "migrationSnapshot \<Rightarrow> migrationPlan \<Rightarrow> string \<Rightarrow> string list \<Rightarrow> probeReply \<Rightarrow> string + unit" where
  "verifyMigrationHttpVisibility s plan role forbidden reply =
     (case reply of
        ProbeHttp st \<Rightarrow> Inl (''Hasura schema probe failed with HTTP '' @ int_to_string st)
      | ProbeInvalid \<Rightarrow> Inl ''Hasura schema probe returned an invalid response''
      | ProbeTimeout \<Rightarrow> Inl ''Hasura schema probe timed out''
      | ProbeFailed \<Rightarrow> Inl ''Hasura schema probe is unavailable''
      | ProbeSchema visible \<Rightarrow> assertVisibleRoots s plan role forbidden visible)"

subsection \<open>Contexts\<close>

text \<open>\<open>{ ...a, ...b }\<close>: a name of \<open>a\<close> keeps its place.\<close>

definition spread :: "(string \<times> string) list \<Rightarrow> (string \<times> string) list \<Rightarrow> (string \<times> string) list" where
  "spread a b = fold (\<lambda>(k, v) m. AList.update k v m) b a"

definition probeSubject :: "string \<Rightarrow> string" where
  "probeSubject pid = ''migration_probe:authenticated:'' @ pid"

definition activeContext ::
  "(string \<Rightarrow> string) \<Rightarrow> string \<Rightarrow> runtimeMode \<Rightarrow> (string \<times> string) list \<Rightarrow> dataScopeActor \<Rightarrow> string option
   \<Rightarrow> string + executionContext" where
  "activeContext sha pid mode vars actor subject =
     (if mode = Explicit
      then (case resolveDataScopeRole sha pid None actor of
          None \<Rightarrow> Inl ''Project ID is required''
        | Some r \<Rightarrow> Inr \<lparr>execRole = r, sessionVariables = spread (sessionVars subject pid) vars\<rparr>)
      else Inr \<lparr>execRole = ''user'', sessionVariables = vars\<rparr>)"

definition buildActiveRuntimeHttpContexts ::
  "(string \<Rightarrow> string) \<Rightarrow> string \<Rightarrow> runtimeMode \<Rightarrow> (string \<times> string) list \<Rightarrow> string + executionContext list" where
  "buildActiveRuntimeHttpContexts sha pid mode vars =
     bindE (activeContext sha pid mode vars Authenticated (Some (probeSubject pid))) (\<lambda>a.
     bindE (activeContext sha pid mode vars Anonymous None) (\<lambda>b. Inr [a, b]))"

definition realtimeContextFor ::
  "(string \<Rightarrow> string) \<Rightarrow> string \<Rightarrow> runtimeMode \<Rightarrow> (string \<times> string) list \<Rightarrow> dataScopeActor \<Rightarrow> string + realtimeContext" where
  "realtimeContextFor sha pid mode vars actor =
     (let own = actor = Authenticated;
          vs = spread (sessionVars (if own then Some (probeSubject pid) else None) pid) vars;
          context = (\<lambda>r. \<lparr>execRole = r, sessionVariables = vs,
            realtimeActor = (if own then ''project_user'' else ''apikey''),
            realtimeSubject = (if own then probeSubject pid else ''migration_probe:anonymous:'' @ pid)\<rparr>) in
      if mode = Explicit
      then (case resolveDataScopeRole sha pid None actor of
          None \<Rightarrow> Inl ''Project ID is required'' | Some r \<Rightarrow> Inr (context r))
      else Inr (context (if own then ''user'' else ''anonymous'')))"

definition buildMigrationRealtimeContexts ::
  "(string \<Rightarrow> string) \<Rightarrow> string \<Rightarrow> runtimeMode \<Rightarrow> (string \<times> string) list \<Rightarrow> string + realtimeContext list" where
  "buildMigrationRealtimeContexts sha pid mode vars =
     bindE (realtimeContextFor sha pid mode vars Authenticated) (\<lambda>a.
     bindE (realtimeContextFor sha pid mode vars Anonymous) (\<lambda>b. Inr [a, b]))"

end
