(* ===== verification/Migration_Service.thy ===== *)
theory Migration_Service
  imports Migration_Verifier Api_Monad
begin

text \<open>
  The migration of a project to scoped permissions, from \<open>data-access-migration.service.ts\<close> and
  \<open>data-access-migration.repository.ts\<close>: preview, apply, recovery and rollback over the rows of the migrations,
  the mode of the projects and the metadata document of the engine. A fault may strike at every statement and
  every request, before its effect or after it, as an error or as the death of the process.
\<close>

subsection \<open>World\<close>

datatype migrationError =
    MigNotFound string
  | MigConflict string string
  | MigInput string
  | MigLocked string
  | MigTransition
  | MigOther string

fun migrationMessage :: "migrationError \<Rightarrow> string" where
  "migrationMessage (MigNotFound m) = m"
| "migrationMessage (MigConflict m code) = m"
| "migrationMessage (MigInput m) = m"
| "migrationMessage (MigLocked m) = m"
| "migrationMessage MigTransition = ''Migration state changed before the requested transition''"
| "migrationMessage (MigOther m) = m"

definition migrationConflict :: "string \<Rightarrow> migrationError" where
  "migrationConflict m = MigConflict m ''DATA_ACCESS_MIGRATION_CONFLICT''"

record migrationProject =
  migAlias :: string
  migSchema :: "string option"
  migMode :: runtimeMode

datatype permissionCommand =
    DropMigPermission daOperation string string string
  | CreateMigPermission daOperation string string string "(string \<times> jsval) list"

datatype engineRequest = ExportDocument | RunAtomic "permissionCommand list" | RunBulk "permissionCommand list"

datatype migrationEvent =
    EvRow string
  | EvEngine engineRequest
  | EvProbe executionContext
  | EvConnect realtimeContext
  | EvDispose
  | EvUnlock

record migrationWorld =
  migrations :: "migrationRecord list"
  migProjects :: "(string \<times> migrationProject) list"
  document :: "(string \<times> jsval) list"
  happened :: "migrationEvent list"

datatype migrationFault = Fine | BreaksBefore "string option" | BreaksAfter "string option"

text \<open>What is outside of the code: the engine with its answers to commands (an error text or none) and to probes, the
  columns of the tables of a schema, the lock, time and identifiers. \<open>lockRefusal\<close> stands for the advisory locks and
  for the rows of other tables.\<close>

record migrationEnv =
  mCollate :: "string \<Rightarrow> string \<Rightarrow> int"
  mHash :: "jsval \<Rightarrow> string"
  mNumber :: "rat \<Rightarrow> string"
  mRoleHash :: "string \<Rightarrow> string"
  inventoryRows :: "string \<Rightarrow> string + inventoryItem list"
  permissionEngine :: "migrationEvent list \<Rightarrow> engineRequest \<Rightarrow> (string \<times> jsval) list \<Rightarrow> string option \<times> (string \<times> jsval) list"
  hasAdminSecret :: bool
  probeSchema :: "migrationEvent list \<Rightarrow> string \<Rightarrow> executionContext \<Rightarrow> probeReply"
  connectRealtime :: "migrationEvent list \<Rightarrow> realtimeContext \<Rightarrow> string option"
  runtimeVariables :: "string \<Rightarrow> (string \<times> string) list"
  lockRefusal :: "migrationEvent list \<Rightarrow> string \<Rightarrow> string option"
  mFaults :: "migrationEvent list \<Rightarrow> migrationEvent \<Rightarrow> migrationFault"
  mNow :: "migrationEvent list \<Rightarrow> int"
  createId :: "migrationEvent list \<Rightarrow> string"

type_synonym 'a migration_call = "(migrationWorld, migrationError, 'a) call"

definition happen :: "migrationEvent \<Rightarrow> migrationWorld \<Rightarrow> migrationWorld" where
  "happen ev w = w\<lparr>happened := ev # happened w\<rparr>"

definition migEffect :: "migrationEnv \<Rightarrow> migrationEvent \<Rightarrow> 'a migration_call \<Rightarrow> 'a migration_call" where
  "migEffect env ev act w =
     (case mFaults env (happened w) ev of
        Fine \<Rightarrow> act (happen ev w)
      | BreaksBefore None \<Rightarrow> (Crashed, w)
      | BreaksBefore (Some m) \<Rightarrow> (Thrown (MigOther m), happen ev w)
      | BreaksAfter None \<Rightarrow> (Crashed, snd (act (happen ev w)))
      | BreaksAfter (Some m) \<Rightarrow> (Thrown (MigOther m), snd (act (happen ev w))))"

definition migNow :: "migrationEnv \<Rightarrow> int migration_call" where
  "migNow env = look (\<lambda>w. mNow env (happened w))"

subsection \<open>Rows\<close>

record migrationPatch =
  newStatus :: "migrationStatus option"
  newPhase :: "migrationPhase option"
  newTarget :: "recoveryTarget option option"
  newApplied :: "(migrationSnapshot \<times> string) option"
  newRollbackDigest :: "string option option"
  newError :: "(string \<times> string) option option"
  newStarted :: "int option"
  newAppliedAt :: "int option"
  newCompleted :: "int option"

definition emptyPatch :: migrationPatch where
  "emptyPatch = \<lparr>newStatus = None, newPhase = None, newTarget = None, newApplied = None, newRollbackDigest = None,
     newError = None, newStarted = None, newAppliedAt = None, newCompleted = None\<rparr>"

definition patched :: "'a option \<Rightarrow> 'a \<Rightarrow> 'a" where
  "patched p x = (case p of Some y \<Rightarrow> y | None \<Rightarrow> x)"

definition patchedOption :: "'a option \<Rightarrow> 'a option \<Rightarrow> 'a option" where
  "patchedOption p x = (case p of Some y \<Rightarrow> Some y | None \<Rightarrow> x)"

definition patchRecord :: "migrationPatch \<Rightarrow> migrationRecord \<Rightarrow> migrationRecord" where
  "patchRecord p r =
     r\<lparr>recordStatus := patched (newStatus p) (recordStatus r), recordPhase := patched (newPhase p) (recordPhase r),
       recoveryTarget := patched (newTarget p) (recoveryTarget r),
       appliedSnapshot := patchedOption (map_option fst (newApplied p)) (appliedSnapshot r),
       appliedDigest := patchedOption (map_option snd (newApplied p)) (appliedDigest r),
       rollbackPreviewDigest := patched (newRollbackDigest p) (rollbackPreviewDigest r),
       recordError := patched (newError p) (recordError r),
       recordStartedAt := patchedOption (newStarted p) (recordStartedAt r),
       recordAppliedAt := patchedOption (newAppliedAt p) (recordAppliedAt r),
       recordCompletedAt := patchedOption (newCompleted p) (recordCompletedAt r)\<rparr>"

definition MIGRATION_RECOVERY :: string where
  "MIGRATION_RECOVERY = ''DATA_ACCESS_MIGRATION_RECOVERY_REQUIRED''"

definition ROLLBACK_RECOVERY :: string where
  "ROLLBACK_RECOVERY = ''DATA_ACCESS_ROLLBACK_RECOVERY_REQUIRED''"

definition errorCode :: "migrationRecord \<Rightarrow> string option" where
  "errorCode r = map_option fst (recordError r)"

definition recoveryCode :: "migrationRecord \<Rightarrow> bool" where
  "recoveryCode r \<longleftrightarrow> errorCode r = Some MIGRATION_RECOVERY \<or> errorCode r = Some ROLLBACK_RECOVERY"

text \<open>The trigger of the table: the transitions it allows, and the recovery target each status demands.\<close>

definition transitionAllowed :: "migrationRecord \<Rightarrow> migrationStatus \<Rightarrow> bool" where
  "transitionAllowed r st \<longleftrightarrow>
     st = recordStatus r
     \<or> (case recordStatus r of
          PreviewReady \<Rightarrow> st \<in> {Superseded, Applying}
        | Applying \<Rightarrow> st \<in> {Applied, Failed, Recovered}
        | Applied \<Rightarrow> st = RollingBack
        | RollingBack \<Rightarrow> st \<in> {RolledBack, Applied, Failed}
        | Failed \<Rightarrow> (errorCode r = Some MIGRATION_RECOVERY \<and> st = Applying)
            \<or> (errorCode r = Some ROLLBACK_RECOVERY \<and> st = RollingBack)
        | _ \<Rightarrow> False)"

definition targetConsistent :: "migrationRecord \<Rightarrow> bool" where
  "targetConsistent r \<longleftrightarrow>
     (if recordStatus r = Applying \<or> (recordStatus r = Failed \<and> errorCode r = Some MIGRATION_RECOVERY)
      then recoveryTarget r = Some ToSource
      else if recordStatus r = RollingBack \<or> (recordStatus r = Failed \<and> errorCode r = Some ROLLBACK_RECOVERY)
      then recoveryTarget r = Some ToApplied
      else recoveryTarget r = None)"

definition appliedPayload :: "migrationRecord \<Rightarrow> bool" where
  "appliedPayload r \<longleftrightarrow>
     (appliedSnapshot r = None \<longleftrightarrow> appliedDigest r = None) \<and> (appliedSnapshot r = None \<longleftrightarrow> recordAppliedAt r = None)"

definition payloadKept :: "migrationRecord \<Rightarrow> migrationRecord \<Rightarrow> bool" where
  "payloadKept old new \<longleftrightarrow>
     appliedPayload new
     \<and> ((appliedSnapshot new, appliedDigest new, recordAppliedAt new) = (appliedSnapshot old, appliedDigest old, recordAppliedAt old)
        \<or> (appliedSnapshot old = None \<and> recordStatus old = Applying \<and> recordStatus new = Applied
           \<and> appliedSnapshot new \<noteq> None))"

definition migrationActive :: "migrationRecord \<Rightarrow> bool" where
  "migrationActive r \<longleftrightarrow>
     recordStatus r \<in> {PreviewReady, Applying, RollingBack} \<or> (recordStatus r = Failed \<and> recoveryCode r)"

definition indexConflict :: "migrationRecord list \<Rightarrow> migrationRecord \<Rightarrow> bool" where
  "indexConflict rows r \<longleftrightarrow>
     list_ex (\<lambda>q. recordId q \<noteq> recordId r \<and> recordProject q = recordProject r
        \<and> ((migrationActive q \<and> migrationActive r) \<or> (recordStatus q = Applied \<and> recordStatus r = Applied))) rows"

definition updateAllowed :: "migrationRecord list \<Rightarrow> migrationRecord \<Rightarrow> migrationRecord \<Rightarrow> bool" where
  "updateAllowed rows old new \<longleftrightarrow>
     transitionAllowed old (recordStatus new) \<and> targetConsistent new \<and> payloadKept old new \<and> \<not> indexConflict rows new"

definition migStatement ::
  "migrationEnv \<Rightarrow> string \<Rightarrow> (migrationWorld \<Rightarrow> migrationError + 'a \<times> migrationWorld) \<Rightarrow> 'a migration_call" where
  "migStatement env name f = migEffect env (EvRow name) (\<lambda>w.
     (case f w of Inl e \<Rightarrow> (Thrown e, w) | Inr (a, w') \<Rightarrow> (Answer a, w')))"

definition migQuery :: "migrationEnv \<Rightarrow> string \<Rightarrow> (migrationWorld \<Rightarrow> 'a) \<Rightarrow> 'a migration_call" where
  "migQuery env name f = migStatement env name (\<lambda>w. Inr (f w, w))"

definition findMigration :: "string \<Rightarrow> migrationRecord list \<Rightarrow> migrationRecord option" where
  "findMigration i rows = find (\<lambda>r. recordId r = i) rows"

definition replaceMigration :: "migrationRecord \<Rightarrow> migrationRecord list \<Rightarrow> migrationRecord list" where
  "replaceMigration r rows = map (\<lambda>q. if recordId q = recordId r then r else q) rows"

definition createMigrationPreview :: "migrationEnv \<Rightarrow> migrationRecord \<Rightarrow> migrationRecord migration_call" where
  "createMigrationPreview env r =
     migStatement env ''INSERT migrations'' (\<lambda>w.
       if findMigration (recordId r) (migrations w) \<noteq> None \<or> indexConflict (migrations w) r
       then Inl (MigOther ''duplicate key value violates unique constraint'')
       else Inr (r, w\<lparr>migrations := migrations w @ [r]\<rparr>))"

text \<open>Rows are in the order of their insertion.\<close>

definition latestMigration :: "string \<Rightarrow> migrationWorld \<Rightarrow> migrationRecord option" where
  "latestMigration pid w =
     (case rev (filter (\<lambda>r. recordProject r = pid) (migrations w)) of [] \<Rightarrow> None | r # _ \<Rightarrow> Some r)"

definition getLatestProjectMigration :: "migrationEnv \<Rightarrow> string \<Rightarrow> migrationRecord option migration_call" where
  "getLatestProjectMigration env pid = migQuery env ''SELECT latest migration'' (latestMigration pid)"

definition getProjectMigration :: "migrationEnv \<Rightarrow> string \<Rightarrow> string \<Rightarrow> migrationRecord option migration_call" where
  "getProjectMigration env pid mid =
     migQuery env ''SELECT migration'' (\<lambda>w. find (\<lambda>r. recordProject r = pid \<and> recordId r = mid) (migrations w))"

definition transitionRow ::
  "string \<Rightarrow> migrationStatus list \<Rightarrow> migrationPatch \<Rightarrow> migrationWorld \<Rightarrow> migrationError + migrationRecord \<times> migrationWorld"
  where
  "transitionRow mid expected patch w =
     (case findMigration mid (migrations w) of
        None \<Rightarrow> Inl MigTransition
      | Some r \<Rightarrow>
          if recordStatus r \<notin> set expected then Inl MigTransition
          else if \<not> updateAllowed (migrations w) r (patchRecord patch r)
          then Inl (MigOther ''invalid data access migration update'')
          else Inr (patchRecord patch r, w\<lparr>migrations := replaceMigration (patchRecord patch r) (migrations w)\<rparr>))"

definition transitionMigration ::
  "migrationEnv \<Rightarrow> string \<Rightarrow> migrationStatus list \<Rightarrow> migrationPatch \<Rightarrow> migrationRecord migration_call" where
  "transitionMigration env mid expected patch =
     (if expected = [] then throw (MigOther ''Expected migration status is required'')
      else if patch = emptyPatch then throw (MigOther ''Migration transition patch is empty'')
      else migStatement env ''UPDATE migrations'' (transitionRow mid expected patch))"

definition setMigMode :: "string \<Rightarrow> runtimeMode \<Rightarrow> runtimeMode \<Rightarrow> migrationWorld \<Rightarrow> bool \<times> migrationWorld" where
  "setMigMode pid expected mode w =
     (case map_of (migProjects w) pid of
        Some p \<Rightarrow>
          if migMode p = expected
          then (True, w\<lparr>migProjects := AList.update pid (p\<lparr>migMode := mode\<rparr>) (migProjects w)\<rparr>)
          else (False, w)
      | None \<Rightarrow> (False, w))"

definition setProjectDataAccessMode ::
  "migrationEnv \<Rightarrow> string \<Rightarrow> runtimeMode \<Rightarrow> runtimeMode \<Rightarrow> bool migration_call" where
  "setProjectDataAccessMode env pid expected mode =
     migStatement env ''UPDATE projects'' (\<lambda>w. Inr (setMigMode pid expected mode w))"

end
