(* ===== verification/Migration_Operations.thy ===== *)
theory Migration_Operations
  imports Migration_Service
begin

text \<open>
  The operations of the migration service, from \<open>data-access-migration.service.ts\<close>. Inside of a \<open>try\<close> an
  exception carries the value that the local variable \<open>record\<close> has when it is thrown.
\<close>

subsection \<open>Targets and commands\<close>

definition projectRoles :: "migrationEnv \<Rightarrow> string \<Rightarrow> string + roleNames" where
  "projectRoles env pid =
     (case (resolveDataScopeRole (mRoleHash env) pid None Authenticated, resolveDataScopeRole (mRoleHash env) pid None Anonymous) of
        (Some a, Some b) \<Rightarrow> Inr \<lparr>authenticatedRole = a, anonymousRole = b\<rparr>
      | _ \<Rightarrow> Inl ''Project ID is required'')"

definition keptPermissions :: "roleNames \<Rightarrow> bool \<Rightarrow> materializedPermission list \<Rightarrow> materializedPermission list" where
  "keptPermissions roles preserveLegacy perms =
     filter (\<lambda>m. permRole m \<noteq> authenticatedRole roles \<and> permRole m \<noteq> anonymousRole roles
        \<and> (preserveLegacy \<or> (permRole m \<noteq> ''user'' \<and> permRole m \<noteq> ''anonymous''))) perms"

definition migrateTable ::
  "(string \<Rightarrow> string \<Rightarrow> int) \<Rightarrow> migrationPlan \<Rightarrow> roleNames \<Rightarrow> bool \<Rightarrow> migrationTable \<Rightarrow> string + migrationTable list" where
  "migrateTable collate plan roles preserveLegacy t =
     (case findTarget plan (migTable t) of
        None \<Rightarrow> Inr [t]
      | Some target \<Rightarrow>
          bindE (materializeTarget target roles t) (\<lambda>managed.
          Inr [t\<lparr>migPermissions := sortByText collate roleKey
                   (keptPermissions roles preserveLegacy (migPermissions t) @ managed)\<rparr>]))"

definition buildTargetSnapshot ::
  "(string \<Rightarrow> string \<Rightarrow> int) \<Rightarrow> migrationSnapshot \<Rightarrow> migrationPlan \<Rightarrow> roleNames \<Rightarrow> bool \<Rightarrow> runtimeMode
   \<Rightarrow> string + migrationSnapshot" where
  "buildTargetSnapshot collate current plan roles preserveLegacy mode =
     bindE (collectE (migrateTable collate plan roles preserveLegacy) (snapTables current)) (\<lambda>tables.
     Inr (current\<lparr>snapMode := mode, snapTables := tables\<rparr>))"

definition samePermission ::
  "(string \<Rightarrow> string \<Rightarrow> int) \<Rightarrow> (jsval \<Rightarrow> string) \<Rightarrow> (string \<times> jsval) list \<Rightarrow> (string \<times> jsval) list \<Rightarrow> bool" where
  "samePermission collate hash l r \<longleftrightarrow>
     digestMigrationValue collate hash (JObj l) = digestMigrationValue collate hash (JObj r)"

definition permissionAt :: "migrationSnapshot \<Rightarrow> string \<Rightarrow> string \<Rightarrow> daOperation \<Rightarrow> (string \<times> jsval) list option" where
  "permissionAt s name role op =
     (case findSnapTable s name of
        None \<Rightarrow> None
      | Some t \<Rightarrow> map_option permission (find (\<lambda>m. permRole m = role \<and> permOperation m = op) (migPermissions t)))"

definition diffPlaces :: "migrationSnapshot \<Rightarrow> migrationSnapshot \<Rightarrow> roleNames \<Rightarrow> (string \<times> string \<times> daOperation) list" where
  "diffPlaces current target roles =
     List.product (sort (remdups (map migTable (snapTables current @ snapTables target))))
       (List.product (sort (relevantRoles roles)) operationList)"

definition changedAt ::
  "(string \<Rightarrow> string \<Rightarrow> int) \<Rightarrow> (jsval \<Rightarrow> string) \<Rightarrow> (string \<times> jsval) list option \<Rightarrow> (string \<times> jsval) list option \<Rightarrow> bool" where
  "changedAt collate hash x y \<longleftrightarrow>
     (case (x, y) of (Some p, Some q) \<Rightarrow> \<not> samePermission collate hash p q | _ \<Rightarrow> True)"

definition dropsFor ::
  "(string \<Rightarrow> string \<Rightarrow> int) \<Rightarrow> (jsval \<Rightarrow> string) \<Rightarrow> migrationSnapshot \<Rightarrow> migrationSnapshot
   \<Rightarrow> string \<times> string \<times> daOperation \<Rightarrow> permissionCommand list" where
  "dropsFor collate hash current target = (\<lambda>(name, role, op).
     (if permissionAt current name role op \<noteq> None
         \<and> changedAt collate hash (permissionAt current name role op) (permissionAt target name role op)
      then [DropMigPermission op (snapSchema current) name role] else []))"

definition createsFor ::
  "(string \<Rightarrow> string \<Rightarrow> int) \<Rightarrow> (jsval \<Rightarrow> string) \<Rightarrow> migrationSnapshot \<Rightarrow> migrationSnapshot
   \<Rightarrow> string \<times> string \<times> daOperation \<Rightarrow> permissionCommand list" where
  "createsFor collate hash current target = (\<lambda>(name, role, op).
     (case permissionAt target name role op of
        None \<Rightarrow> []
      | Some p \<Rightarrow>
          if changedAt collate hash (permissionAt current name role op) (Some p)
          then [CreateMigPermission op (snapSchema target) name role p] else []))"

definition buildPermissionDiffCommands ::
  "(string \<Rightarrow> string \<Rightarrow> int) \<Rightarrow> (jsval \<Rightarrow> string) \<Rightarrow> migrationSnapshot \<Rightarrow> migrationSnapshot \<Rightarrow> roleNames
   \<Rightarrow> permissionCommand list" where
  "buildPermissionDiffCommands collate hash current target roles =
     concat (map (dropsFor collate hash current target) (diffPlaces current target roles))
     @ concat (map (createsFor collate hash current target) (diffPlaces current target roles))"

subsection \<open>Dependencies\<close>

definition textError :: "string + 'a \<Rightarrow> 'a migration_call" where
  "textError r = lift MigOther r"

text \<open>A request to the engine changes the document and answers, or fails with a text.\<close>

definition engineCall :: "migrationEnv \<Rightarrow> engineRequest \<Rightarrow> (string \<times> jsval) list migration_call" where
  "engineCall env req = chain (look happened) (\<lambda>tr.
     migEffect env (EvEngine req) (\<lambda>w.
       (case permissionEngine env tr req (document w) of (e, d) \<Rightarrow>
          (case e of Some m \<Rightarrow> (Thrown (MigOther m), w\<lparr>document := d\<rparr>) | None \<Rightarrow> (Answer d, w\<lparr>document := d\<rparr>)))))"

definition applyPermissionCommands :: "migrationEnv \<Rightarrow> permissionCommand list \<Rightarrow> unit migration_call" where
  "applyPermissionCommands env commands =
     (if commands = [] then give ()
      else catching (ignoring (engineCall env (RunAtomic commands))) (\<lambda>e.
        if \<not> js_includes (migrationMessage e) ''Bulk atomic does not support this command'' then throw e
        else catching (ignoring (engineCall env (RunBulk commands))) (\<lambda>f.
          throw (MigOther (''Hasura metadata mutation outcome is unknown: '' @ migrationMessage f)))))"

text \<open>A project that has a schema.\<close>

record managedProject =
  projId :: string
  projAlias :: string
  projSchema :: string
  projMode :: runtimeMode

definition requireProject :: "migrationEnv \<Rightarrow> string \<Rightarrow> managedProject migration_call" where
  "requireProject env pid =
     chain (migQuery env ''SELECT project'' (\<lambda>w. map_of (migProjects w) pid)) (\<lambda>row.
     (case row of
        Some p \<Rightarrow>
          (case migSchema p of
             Some s \<Rightarrow>
               if s = [] then throw (MigNotFound ''Project or schema not found'')
               else give \<lparr>projId = pid, projAlias = migAlias p, projSchema = s, projMode = migMode p\<rparr>
           | None \<Rightarrow> throw (MigNotFound ''Project or schema not found''))
      | None \<Rightarrow> throw (MigNotFound ''Project or schema not found'')))"

definition requireMigration :: "migrationEnv \<Rightarrow> string \<Rightarrow> string \<Rightarrow> migrationRecord migration_call" where
  "requireMigration env pid mid =
     chain (getProjectMigration env pid mid) (\<lambda>row.
     (case row of None \<Rightarrow> throw (MigNotFound ''Migration not found'') | Some r \<Rightarrow> give r))"

definition defaultSource :: "(string \<times> jsval) list \<Rightarrow> (string \<times> jsval) list option" where
  "defaultSource doc = find (\<lambda>s. permGet s ''name'' = JStr ''default'') (arrayOfRecords (permGet doc ''sources''))"

definition snapshotOf ::
  "migrationEnv \<Rightarrow> managedProject \<Rightarrow> inventoryItem list \<Rightarrow> (string \<times> jsval) list \<Rightarrow> string + migrationSnapshot" where
  "snapshotOf env project inventory doc =
     (case defaultSource doc of
        None \<Rightarrow> Inl ''Default Hasura source is unavailable''
      | Some source \<Rightarrow>
          bindE (projectRoles env (projId project)) (\<lambda>roles.
          Inr (buildProjectMigrationSnapshot (mCollate env) (mNumber env) (projId project) (projSchema project)
                 (projMode project) roles inventory source doc)))"

definition snapshotProject :: "migrationEnv \<Rightarrow> managedProject \<Rightarrow> migrationSnapshot migration_call" where
  "snapshotProject env project =
     chain (migQuery env ''SELECT inventory'' (\<lambda>_. inventoryRows env (projSchema project))) (\<lambda>rows.
     chain (textError rows) (\<lambda>inventory.
     chain (engineCall env ExportDocument) (\<lambda>doc. textError (snapshotOf env project inventory doc))))"

definition probeOne ::
  "migrationEnv \<Rightarrow> migrationSnapshot \<Rightarrow> migrationPlan \<Rightarrow> executionContext \<Rightarrow> unit migration_call" where
  "probeOne env s plan context =
     (if \<not> hasAdminSecret env then throw (MigOther ''Hasura verifier is unavailable'')
      else chain (look happened) (\<lambda>tr.
        migEffect env (EvProbe context)
          (textError (verifyMigrationHttpVisibility s plan (execRole context) [] (probeSchema env tr (snapSchema s) context)))))"

fun probeAll ::
  "migrationEnv \<Rightarrow> migrationSnapshot \<Rightarrow> migrationPlan \<Rightarrow> executionContext list \<Rightarrow> unit migration_call" where
  "probeAll env s plan [] = give ()"
| "probeAll env s plan (c # cs) = before (probeOne env s plan c) (probeAll env s plan cs)"

definition connectOne :: "migrationEnv \<Rightarrow> realtimeContext \<Rightarrow> unit migration_call" where
  "connectOne env context = chain (look happened) (\<lambda>tr.
     migEffect env (EvConnect context)
       (case connectRealtime env tr context of
          Some m \<Rightarrow> throw (MigOther (''Realtime verification failed: '' @ m)) | None \<Rightarrow> give ()))"

fun connectAll :: "migrationEnv \<Rightarrow> realtimeContext list \<Rightarrow> unit migration_call" where
  "connectAll env [] = give ()"
| "connectAll env (c # cs) = before (connectOne env c) (connectAll env cs)"

text \<open>\<open>Promise.allSettled\<close>: an error of a disposal is dropped.\<close>

definition verifyMigrationRealtimeActors :: "migrationEnv \<Rightarrow> string + realtimeContext list \<Rightarrow> unit migration_call" where
  "verifyMigrationRealtimeActors env contexts =
     chain (textError contexts) (\<lambda>cs.
     finally_do (connectAll env cs) (catching (migEffect env EvDispose (give ())) (\<lambda>_. give ())))"

definition variablesOf :: "migrationEnv \<Rightarrow> string \<Rightarrow> (string \<times> string) list migration_call" where
  "variablesOf env pid = migQuery env ''SELECT runtime context'' (\<lambda>_. runtimeVariables env pid)"

definition verifyPreparedMetadata ::
  "migrationEnv \<Rightarrow> migrationSnapshot \<Rightarrow> migrationSnapshot \<Rightarrow> migrationPlan \<Rightarrow> unit migration_call" where
  "verifyPreparedMetadata env current source plan =
     chain (textError (projectRoles env (snapProject current))) (\<lambda>roles.
     textError (verifyMigrationMetadata (mCollate env) (mHash env) (mNumber env) current source plan roles Prepared))"

definition preparedContexts :: "roleNames \<Rightarrow> string \<Rightarrow> (string \<times> string) list \<Rightarrow> executionContext list" where
  "preparedContexts roles pid vars =
     [\<lparr>execRole = authenticatedRole roles,
       sessionVariables = spread (sessionVars (Some (''migration-probe:'' @ pid)) pid) vars\<rparr>,
      \<lparr>execRole = anonymousRole roles, sessionVariables = spread (sessionVars None pid) vars\<rparr>]"

definition verifyPreparedHttp :: "migrationEnv \<Rightarrow> migrationSnapshot \<Rightarrow> migrationPlan \<Rightarrow> unit migration_call" where
  "verifyPreparedHttp env current plan =
     chain (textError (projectRoles env (snapProject current))) (\<lambda>roles.
     chain (variablesOf env (snapProject current)) (\<lambda>vars.
     probeAll env current plan (preparedContexts roles (snapProject current) vars)))"

definition verifyPreparedRealtime :: "migrationEnv \<Rightarrow> migrationSnapshot \<Rightarrow> unit migration_call" where
  "verifyPreparedRealtime env current =
     chain (variablesOf env (snapProject current)) (\<lambda>vars.
     verifyMigrationRealtimeActors env
       (buildMigrationRealtimeContexts (mRoleHash env) (snapProject current) Explicit vars))"

definition compatibilityContexts :: "(string \<times> string) list \<Rightarrow> executionContext list" where
  "compatibilityContexts vars =
     [\<lparr>execRole = ''user'', sessionVariables = vars\<rparr>, \<lparr>execRole = ''anonymous'', sessionVariables = vars\<rparr>]"

definition verifyRuntime ::
  "migrationEnv \<Rightarrow> migrationSnapshot \<Rightarrow> migrationPlan \<Rightarrow> runtimeMode \<Rightarrow> unit migration_call" where
  "verifyRuntime env current plan mode =
     (let pid = snapProject current in
      chain (textError (projectRoles env pid)) (\<lambda>roles.
      chain (variablesOf env pid) (\<lambda>vars.
      (let runtimePlan = (if mode = Explicit then plan
             else buildProjectMigrationPlan (mCollate env) (mNumber env) current roles []) in
       before (if mode = Explicit
           then textError (verifyMigrationMetadata (mCollate env) (mHash env) (mNumber env) current current plan roles LegacyRemoved)
           else give ())
       (chain (if mode = Explicit then textError (buildActiveRuntimeHttpContexts (mRoleHash env) pid mode vars)
           else give (compatibilityContexts vars)) (\<lambda>contexts.
        before (probeAll env current runtimePlan contexts)
        (verifyMigrationRealtimeActors env (buildMigrationRealtimeContexts (mRoleHash env) pid mode vars))))))))"

subsection \<open>Checks\<close>

record applyInput =
  inputDigest :: string
  confirmInferred :: bool
  confirmDestructive :: bool
  inputAlias :: "string option"

definition validateApply :: "migrationRecord \<Rightarrow> managedProject \<Rightarrow> applyInput \<Rightarrow> migrationError + unit" where
  "validateApply r project input =
     (let plan = recordPlan r;
          inferred = list_ex (\<lambda>i. planInferred i \<noteq> []) (targetPolicies plan);
          destructive = planChanges plan \<noteq> [] in
      bindE (guardE (recordStatus r = PreviewReady \<and> projMode project = Compatibility)
        (migrationConflict ''Migration cannot be applied in its current state'')) (\<lambda>_.
      bindE (guardE (planVersion plan = 2) (migrationConflict ''Migration preview must be regenerated'')) (\<lambda>_.
      bindE (guardE (planBlockers plan = []) (migrationConflict ''Migration plan contains blockers'')) (\<lambda>_.
      bindE (guardE (inputDigest input = sourceDigest r) (migrationConflict ''Source digest does not match'')) (\<lambda>_.
      bindE (guardE (\<not> (inferred \<and> \<not> confirmInferred input)) (MigInput ''Inferred policies require confirmation'')) (\<lambda>_.
      bindE (guardE (\<not> (destructive \<and> \<not> confirmDestructive input)) (MigInput ''Destructive changes require confirmation'')) (\<lambda>_.
      guardE (\<not> ((inferred \<or> destructive) \<and> inputAlias input \<noteq> Some (projAlias project)))
        (MigInput ''Project alias confirmation does not match''))))))))"

definition validateSkippedTables ::
  "string list \<Rightarrow> migrationSnapshot \<Rightarrow> migrationPlan \<Rightarrow> migrationError + unit" where
  "validateSkippedTables skipped s plan =
     bindE (guardE (distinct skipped) (MigInput ''Skipped tables contain duplicates'')) (\<lambda>_.
     allE (\<lambda>name. guardE
        ((case findSnapTable s name of Some t \<Rightarrow> migManaged t | None \<Rightarrow> False)
         \<and> \<not> list_ex (\<lambda>b. blockerTable b = Some name) (planBlockers plan))
        (migrationConflict (''Table cannot be skipped: '' @ name))) skipped)"

definition requireAlias :: "managedProject \<Rightarrow> string \<Rightarrow> migrationError + unit" where
  "requireAlias project answer =
     guardE (answer \<noteq> [] \<and> answer = projAlias project) (MigInput ''Project alias confirmation does not match'')"

definition isRecoveryRequired :: "migrationRecord \<Rightarrow> bool" where
  "isRecoveryRequired r \<longleftrightarrow>
     recoveryTarget r \<noteq> None
     \<and> (recordStatus r = Applying \<or> recordStatus r = RollingBack \<or> (recordStatus r = Failed \<and> recoveryCode r))"

text \<open>The lock: refused, blocked by another unfinished migration of the project, or the callback and its release.\<close>

definition otherUnfinished :: "string \<Rightarrow> string \<Rightarrow> migrationWorld \<Rightarrow> bool" where
  "otherUnfinished pid mid w \<longleftrightarrow>
     list_ex (\<lambda>r. recordProject r = pid \<and> recordId r \<noteq> mid
        \<and> (recordStatus r \<in> {Applying, RollingBack} \<or> (recordStatus r = Failed \<and> recoveryCode r))) (migrations w)"

definition withMigrationLock :: "migrationEnv \<Rightarrow> string \<Rightarrow> string \<Rightarrow> 'a migration_call \<Rightarrow> 'a migration_call" where
  "withMigrationLock env pid mid body =
     chain (look (\<lambda>w. lockRefusal env (happened w) pid)) (\<lambda>refusal.
     (case refusal of
        Some m \<Rightarrow> throw (MigLocked m)
      | None \<Rightarrow>
          finally_do
            (chain (migQuery env ''SELECT blocked'' (otherUnfinished pid mid)) (\<lambda>blocked.
             if blocked then throw (MigLocked ''Project data access migration requires completion or recovery'')
             else body))
            (migEffect env EvUnlock (give ()))))"

end
