(* ===== verification/Migration_Safety.thy ===== *)
theory Migration_Safety
  imports Migration_Operations
begin

text \<open>
  What a plan of a migration means: it grants nothing that was not granted, it accounts for every permission it
  removes unless it is blocked, and where it loses or invents something all the same.
\<close>

subsection \<open>Folding the historical permissions\<close>

lemma fold_invariant_prefix:
  assumes "P [] s" "\<And>xs x t. P xs t \<Longrightarrow> P (xs @ [x]) (f x t)"
  shows "P ys (fold f ys s)"
  using assms(1)
proof (induction ys rule: rev_induct)
  case (snoc y ys)
  then show ?case by (simp add: assms(2))
qed simp

definition recognizedRule :: "columnCapabilities \<Rightarrow> materializedPermission \<Rightarrow> bool" where
  "recognizedRule caps m \<longleftrightarrow> fst (classifyHistoricalPermission (permRole m) (permOperation m) (permission m) caps)"

lemma modeOf_setMode: "modeOf (setMode op m p) op' = (if op' = op then m else modeOf p op')"
  by (cases op; cases op') simp_all

lemma setMode_keeps [simp]:
  "anonymousSelect (setMode op m p) = anonymousSelect p" "ownerColumn (setMode op m p) = ownerColumn p"
  "selectConstraint (setMode op m p) = selectConstraint p" "policyVersion (setMode op m p) = policyVersion p"
  by (cases op; simp)+

lemma modeOf_anonymous [simp]: "modeOf (p\<lparr>anonymousSelect := a\<rparr>) op = modeOf p op"
  by (cases op) simp_all

lemmas inferLegacy_cases = inferLegacy_def Let_def case_prod_beta recognizedRule_def

text \<open>One permission changes the policy at most where it is itself the reason.\<close>

lemma inferLegacy_mode:
  "modeOf (migrationPolicy (inferLegacy skip dups caps m i)) op = modeOf (migrationPolicy i) op
   \<or> (modeOf (migrationPolicy i) op = ModeNone \<and> modeOf (migrationPolicy (inferLegacy skip dups caps m i)) op = ModeAll
      \<and> \<not> skip \<and> permRole m = ''user'' \<and> permOperation m = op \<and> recognizedRule caps m
      \<and> (ActorAuthenticated, op) \<in> set (inferredOperations (inferLegacy skip dups caps m i)))"
  by (cases "permRole m = ''user''") (simp_all add: inferLegacy_cases modeOf_setMode)

lemma inferLegacy_anonymous:
  "anonymousSelect (migrationPolicy (inferLegacy skip dups caps m i)) = anonymousSelect (migrationPolicy i)
   \<or> (anonymousSelect (migrationPolicy (inferLegacy skip dups caps m i)) = Some True
      \<and> \<not> skip \<and> permRole m \<noteq> ''user'' \<and> permOperation m = OpSelect \<and> recognizedRule caps m
      \<and> (ActorAnonymous, OpSelect) \<in> set (inferredOperations (inferLegacy skip dups caps m i)))"
  by (cases "permRole m = ''user''"; simp add: inferLegacy_cases subset_insertI2 subsetI)+

lemma inferLegacy_grows:
  "set (inferredOperations i) \<subseteq> set (inferredOperations (inferLegacy skip dups caps m i))"
  "set (migrationBlockers i) \<subseteq> set (migrationBlockers (inferLegacy skip dups caps m i))"
  "set (migrationChanges i) \<subseteq> set (migrationChanges (inferLegacy skip dups caps m i))"
  "set (migrationDrops i) \<subseteq> set (migrationDrops (inferLegacy skip dups caps m i))"
  "inspectedTable (inferLegacy skip dups caps m i) = inspectedTable i"
  by (cases "permRole m = ''user''"; simp add: inferLegacy_cases subset_insertI2 subsetI)+

lemma inferLegacy_rest [simp]:
  "ownerColumn (migrationPolicy (inferLegacy skip dups caps m i)) = ownerColumn (migrationPolicy i)"
  "selectConstraint (migrationPolicy (inferLegacy skip dups caps m i)) = selectConstraint (migrationPolicy i)"
  "policyVersion (migrationPolicy (inferLegacy skip dups caps m i)) = policyVersion (migrationPolicy i)"
  by (cases "permRole m = ''user''"; simp add: inferLegacy_cases subset_insertI2 subsetI)+

subsection \<open>What a plan grants\<close>

text \<open>The policy starts from the scoped permissions; a mode or anonymous reading that is there is theirs, or one that a
  recognized historical permission had without a restriction.\<close>

definition grantedBefore :: "migrationTable \<Rightarrow> roleNames \<Rightarrow> bool \<Rightarrow> planTarget \<Rightarrow> daOperation \<Rightarrow> bool" where
  "grantedBefore t roles skip target op \<longleftrightarrow>
     (let scoped = scopedInspection t roles in
      (\<not> authenticatedCustom scoped \<and> modeOf (planPolicy target) op = modeOf (inspectedPolicy scoped) op)
      \<or> (modeOf (planPolicy target) op = ModeAll \<and> \<not> skip \<and> (ActorAuthenticated, op) \<in> set (planInferred target)
         \<and> (\<exists>m \<in> set (migPermissions t). permRole m = ''user'' \<and> permOperation m = op \<and> recognizedRule (migCapabilities t) m)))"

definition readBefore :: "migrationTable \<Rightarrow> roleNames \<Rightarrow> bool \<Rightarrow> planTarget \<Rightarrow> bool" where
  "readBefore t roles skip target \<longleftrightarrow>
     (let scoped = scopedInspection t roles in
      (\<not> anonymousCustom scoped \<and> anonymousSelect (inspectedPolicy scoped) = Some True)
      \<or> (\<not> skip \<and> (ActorAnonymous, OpSelect) \<in> set (planInferred target)
         \<and> (\<exists>m \<in> set (migPermissions t). permRole m = ''anonymous'' \<and> permOperation m = OpSelect
              \<and> recognizedRule (migCapabilities t) m)))"

lemma modeOf_copy [simp]: "modeOf (copyAuthenticated source p) op = modeOf source op"
  by (cases op) (simp_all add: copyAuthenticated_def)

lemma closed_mode [simp]: "modeOf createClosedTableDataAccessPolicy op = ModeNone"
  by (cases op) (simp_all add: createClosedTableDataAccessPolicy_def)

lemma migTablePolicy_mode:
  "modeOf (migTablePolicy scoped) op = (if authenticatedCustom scoped then ModeNone else modeOf (inspectedPolicy scoped) op)"
  by (simp add: migTablePolicy_def Let_def)

lemma migTablePolicy_anonymous:
  "anonymousSelect (migTablePolicy scoped) =
     (if anonymousCustom scoped then Some False else anonymousSelect (inspectedPolicy scoped))"
  by (simp add: migTablePolicy_def Let_def copyAuthenticated_def createClosedTableDataAccessPolicy_def)

lemma inferred_mode:
  "modeOf (migrationPolicy (inferredMigration t roles skip)) op = modeOf (migTablePolicy (scopedInspection t roles)) op
   \<or> (modeOf (migrationPolicy (inferredMigration t roles skip)) op = ModeAll \<and> \<not> skip
      \<and> (ActorAuthenticated, op) \<in> set (inferredOperations (inferredMigration t roles skip))
      \<and> (\<exists>m \<in> set (migPermissions t). permRole m = ''user'' \<and> permOperation m = op \<and> recognizedRule (migCapabilities t) m))"
proof -
  define p0 where "p0 = migTablePolicy (scopedInspection t roles)"
  define caps where "caps = migCapabilities t"
  let ?P = "\<lambda>ms i. modeOf (migrationPolicy i) op = modeOf p0 op
     \<or> (modeOf (migrationPolicy i) op = ModeAll \<and> \<not> skip \<and> (ActorAuthenticated, op) \<in> set (inferredOperations i)
        \<and> (\<exists>m \<in> set ms. permRole m = ''user'' \<and> permOperation m = op \<and> recognizedRule caps m))"
  have step: "?P (ms @ [m]) (inferLegacy skip dups caps m i)" if "?P ms i" for dups ms m i
    using that inferLegacy_mode [of skip dups caps m i op] inferLegacy_grows(1) [of i skip dups caps m]
    by (smt (verit) Un_iff insert_iff list.set(2) set_append subsetD)
  have "?P (legacyOf (migPermissions t)) (inferredMigration t roles skip)"
    unfolding inferredMigration_def caps_def [symmetric]
    by (rule fold_invariant_prefix [where P = ?P, OF _ step]) (simp_all add: p0_def)
  then show ?thesis by (auto simp: p0_def caps_def legacyOf_def)
qed

lemma inferred_anonymous:
  "anonymousSelect (migrationPolicy (inferredMigration t roles skip)) = anonymousSelect (migTablePolicy (scopedInspection t roles))
   \<or> (\<not> skip \<and> (ActorAnonymous, OpSelect) \<in> set (inferredOperations (inferredMigration t roles skip))
      \<and> (\<exists>m \<in> set (migPermissions t). permRole m = ''anonymous'' \<and> permOperation m = OpSelect
           \<and> recognizedRule (migCapabilities t) m))"
proof -
  define p0 where "p0 = migTablePolicy (scopedInspection t roles)"
  define caps where "caps = migCapabilities t"
  let ?P = "\<lambda>ms i. anonymousSelect (migrationPolicy i) = anonymousSelect p0
     \<or> (\<not> skip \<and> (ActorAnonymous, OpSelect) \<in> set (inferredOperations i)
        \<and> (\<exists>m \<in> set ms. permRole m \<noteq> ''user'' \<and> permOperation m = OpSelect \<and> recognizedRule caps m))"
  have step: "?P (ms @ [m]) (inferLegacy skip dups caps m i)" if "?P ms i" for dups ms m i
    using that inferLegacy_anonymous [of skip dups caps m i] inferLegacy_grows(1) [of i skip dups caps m]
    by (smt (verit) Un_iff insert_iff list.set(2) set_append subsetD)
  have "?P (legacyOf (migPermissions t)) (inferredMigration t roles skip)"
    unfolding inferredMigration_def caps_def [symmetric]
    by (rule fold_invariant_prefix [where P = ?P, OF _ step]) (simp_all add: p0_def)
  then show ?thesis by (auto simp: p0_def caps_def legacyOf_def)
qed

lemma inspectMigrationTable_keeps [simp]:
  "migrationPolicy (inspectMigrationTable collate nts t roles skip) = migrationPolicy (inferredMigration t roles skip)"
  "inferredOperations (inspectMigrationTable collate nts t roles skip) = inferredOperations (inferredMigration t roles skip)"
  "inspectedTable (inspectMigrationTable collate nts t roles skip) = inspectedTable (inferredMigration t roles skip)"
  by (simp_all add: inspectMigrationTable_def Let_def)

lemma inspectedTable_inferred [simp]: "inspectedTable (inferredMigration t roles skip) = migTable t"
  unfolding inferredMigration_def
  by (rule fold_invariant_prefix [where P = "\<lambda>_ i. inspectedTable i = migTable t"]) (simp_all add: inferLegacy_grows(5))

lemma set_sortByText [simp]: "set (sortByText collate f xs) = set xs"
  by (simp add: sortByText_def)

lemma plan_targetD:
  assumes "target \<in> set (targetPolicies (buildProjectMigrationPlan collate nts s roles skipped))"
  obtains t where "t \<in> set (snapTables s)" "migManaged t"
    "target = planTargetOf (inspectMigrationTable collate nts t roles (migTable t \<in> set skipped))"
  using assms by (auto simp: buildProjectMigrationPlan_def inspectTables_def)


subsection \<open>What a plan takes away\<close>

definition droppedAs :: "migrationTable \<Rightarrow> materializedPermission \<Rightarrow> legacyDrop" where
  "droppedAs t m = \<lparr>dropTable = migTable t, dropRole = permRole m, dropOperation = permOperation m\<rparr>"

definition lostWrite :: "migrationTable \<Rightarrow> daOperation \<Rightarrow> destructiveChange" where
  "lostWrite t op =
     \<lparr>changeTable = migTable t, changeActor = ActorAnonymous, changeOperation = op, changeReason = AnonymousWriteRemoved\<rparr>"

definition lostAggregations :: "migrationTable \<Rightarrow> destructiveChange" where
  "lostAggregations t =
     \<lparr>changeTable = migTable t, changeActor = ActorAuthenticated, changeOperation = OpSelect,
      changeReason = AuthenticatedAggregationsRemoved\<rparr>"

text \<open>A historical permission is carried over by the policy, or its loss is one of the changes.\<close>

definition accountedFor ::
  "migrationTable \<Rightarrow> bool \<Rightarrow> tableAccess \<Rightarrow> destructiveChange list \<Rightarrow> materializedPermission \<Rightarrow> bool" where
  "accountedFor t skip p changes m \<longleftrightarrow>
     (if permRole m = ''user'' then skip \<or> modeOf p (permOperation m) \<noteq> ModeNone
      else if permOperation m = OpSelect then skip \<or> anonymousSelect p = Some True
      else lostWrite t (permOperation m) \<in> set changes)
     \<and> (if snd (classifyHistoricalPermission (permRole m) (permOperation m) (permission m) (migCapabilities t))
        then lostAggregations t \<in> set changes else True)"

lemma accountedFor_mono:
  assumes "accountedFor t skip (migrationPolicy i) (migrationChanges i) m"
  shows "accountedFor t skip (migrationPolicy (inferLegacy skip dups caps n i)) (migrationChanges (inferLegacy skip dups caps n i)) m"
  using assms inferLegacy_mode [of skip dups caps n i "permOperation m"] inferLegacy_anonymous [of skip dups caps n i]
    inferLegacy_grows(3) [of i skip dups caps n]
  unfolding accountedFor_def by (auto split: if_splits)

lemma aggregations_of_user:
  "snd (classifyHistoricalPermission role op p caps) \<Longrightarrow> role = ''user'' \<and> op = OpSelect"
  by (auto simp: classifyHistoricalPermission_def Let_def split: if_splits)

lemma inferLegacy_accounts:
  assumes "roleKey m \<notin> set dups" "migrationBlockers (inferLegacy skip dups (migCapabilities t) m i) = []"
    and "inspectedTable i = migTable t"
  shows "accountedFor t skip (migrationPolicy (inferLegacy skip dups (migCapabilities t) m i))
           (migrationChanges (inferLegacy skip dups (migCapabilities t) m i)) m"
proof (cases "permRole m = ''user''")
  case True
  then show ?thesis using assms
    by (simp add: accountedFor_def inferLegacy_cases lostAggregations_def modeOf_setMode split: if_splits)
next
  case False
  then have "\<not> snd (classifyHistoricalPermission (permRole m) (permOperation m) (permission m) (migCapabilities t))"
    using aggregations_of_user by blast
  with False show ?thesis using assms
    by (simp add: accountedFor_def inferLegacy_cases lostWrite_def split: if_splits)
qed

lemma inferLegacy_drops: "inspectedTable i = migTable t \<Longrightarrow> droppedAs t m \<in> set (migrationDrops (inferLegacy skip dups caps m i))"
  by (cases "permRole m = ''user''") (simp_all add: inferLegacy_cases droppedAs_def)

lemma no_duplicates_when_unblocked: "ruleBlockers t roles = [] \<Longrightarrow>
    duplicateKeys (scopedOf roles (migPermissions t) @ legacyOf (migPermissions t)) = []"
  by (simp add: ruleBlockers_def Let_def) (metis set_empty set_sort)

lemma inferred_accounts:
  fixes t roles skip
  defines "i \<equiv> inferredMigration t roles skip"
  assumes "m \<in> set (migPermissions t)" "permRole m = ''user'' \<or> permRole m = ''anonymous''"
  shows "droppedAs t m \<in> set (migrationDrops i)"
    and "migrationBlockers i = [] \<Longrightarrow> accountedFor t skip (migrationPolicy i) (migrationChanges i) m"
proof -
  define dups where "dups = duplicateKeys (scopedOf roles (migPermissions t) @ legacyOf (migPermissions t))"
  let ?P = "\<lambda>ms i. inspectedTable i = migTable t \<and> set (ruleBlockers t roles) \<subseteq> set (migrationBlockers i)
     \<and> (\<forall>m \<in> set ms. droppedAs t m \<in> set (migrationDrops i))
     \<and> (migrationBlockers i = [] \<longrightarrow> (\<forall>m \<in> set ms. accountedFor t skip (migrationPolicy i) (migrationChanges i) m))"
  have step: "?P (ms @ [m]) (inferLegacy skip dups (migCapabilities t) m i)" if P: "?P ms i" for ms m i
  proof -
    let ?i = "inferLegacy skip dups (migCapabilities t) m i"
    note grows = inferLegacy_grows [where i = i and skip = skip and dups = dups and caps = "migCapabilities t" and m = m]
    have accounts: "\<forall>n \<in> set (ms @ [m]). accountedFor t skip (migrationPolicy ?i) (migrationChanges ?i) n"
      if none: "migrationBlockers ?i = []"
    proof -
      have "migrationBlockers i = []" "ruleBlockers t roles = []" using P grows(2) none by auto
      moreover from this(2) have "dups = []" unfolding dups_def by (rule no_duplicates_when_unblocked)
      ultimately show ?thesis
        using P none accountedFor_mono inferLegacy_accounts [of m dups skip t i] by auto
    qed
    have "set (ruleBlockers t roles) \<subseteq> set (migrationBlockers ?i)" using P grows(2) by blast
    moreover have "\<forall>n \<in> set (ms @ [m]). droppedAs t n \<in> set (migrationDrops ?i)"
      using P grows(4) inferLegacy_drops [of i t m skip dups "migCapabilities t"] by auto
    ultimately show ?thesis using P accounts by (simp add: inferLegacy_grows(5))
  qed
  have "?P (legacyOf (migPermissions t)) i"
    unfolding i_def inferredMigration_def dups_def [symmetric]
    by (rule fold_invariant_prefix [where P = ?P, OF _ step]) simp_all
  moreover have "m \<in> set (legacyOf (migPermissions t))" using assms by (auto simp: legacyOf_def)
  ultimately show "droppedAs t m \<in> set (migrationDrops i)"
    and "migrationBlockers i = [] \<Longrightarrow> accountedFor t skip (migrationPolicy i) (migrationChanges i) m" by blast+
qed

lemma fold_update_nonempty: "fold (\<lambda>x m. AList.update (key x) x m) xs ms = [] \<Longrightarrow> xs = [] \<and> ms = []"
proof (induction xs arbitrary: ms)
  case (Cons x xs)
  from Cons.IH [of "AList.update (key x) x ms"] Cons.prems have "AList.update (key x) x ms = []" by simp
  then show ?case by (cases ms) (auto split: if_splits)
qed simp

lemma uniqueBy_empty: "uniqueBy key xs = [] \<Longrightarrow> xs = []"
  unfolding uniqueBy_def using fold_update_nonempty [of key xs "[]"] by simp

lemma sortByText_empty [simp]: "sortByText collate f xs = [] \<longleftrightarrow> xs = []"
  by (metis set_empty set_sortByText)

lemma unblocked_plan:
  assumes "planBlockers (buildProjectMigrationPlan collate nts s roles skipped) = []" "t \<in> set (snapTables s)"
  shows "migrationBlockers (inferredMigration t roles (migTable t \<in> set skipped)) = []" "trackedOnlyBlockers t roles = []"
proof -
  let ?i = "inspectMigrationTable collate nts t roles (migTable t \<in> set skipped)"
  from assms(1) have "snapshotBlockers s roles (map snd (inspectTables collate nts s roles skipped)) = []"
    unfolding buildProjectMigrationPlan_def Let_def dedupeBlockers_def by (auto dest: uniqueBy_empty)
  then have "migrationBlockers ?i = []" using assms(2) by (auto simp: snapshotBlockers_def inspectTables_def)
  then have "migrationBlockers (inferredMigration t roles (migTable t \<in> set skipped)) @ trackedOnlyBlockers t roles = []"
    unfolding inspectMigrationTable_def Let_def dedupeBlockers_def by (auto dest: uniqueBy_empty)
  then show "migrationBlockers (inferredMigration t roles (migTable t \<in> set skipped)) = []" "trackedOnlyBlockers t roles = []"
    by simp_all
qed


subsection \<open>What a plan gives beyond its report\<close>

lemma find_map_same:
  "(\<And>x. x \<in> set xs \<Longrightarrow> p (f x) = p x) \<Longrightarrow> find p (map f xs) = map_option f (find p xs)"
  by (induction xs) auto

lemma collectE_map: "collectE f xs = Inr zs \<Longrightarrow> (\<And>x ys. f x = Inr ys \<Longrightarrow> \<exists>y. ys = [y]) \<Longrightarrow>
    zs = map (\<lambda>x. hd (projr (f x))) xs \<and> (\<forall>x \<in> set xs. \<exists>y. f x = Inr [y])"
proof (induction xs arbitrary: zs)
  case (Cons x xs)
  then obtain ys rest where "f x = Inr ys" "collectE f xs = Inr rest" "zs = ys @ rest" by (auto simp: bindE_Inr_iff)
  moreover from this(1) Cons.prems(2) obtain y where "ys = [y]" by blast
  moreover have "rest = map (\<lambda>x. hd (projr (f x))) xs \<and> (\<forall>x \<in> set xs. \<exists>y. f x = Inr [y])"
    by (rule Cons.IH [OF calculation(2)]) (rule Cons.prems(2))
  ultimately show ?case by simp
qed simp

lemma migrateTable_one: "migrateTable collate plan roles keep t = Inr ts \<Longrightarrow> \<exists>t'. ts = [t'] \<and> migTable t' = migTable t"
  by (auto simp: migrateTable_def bindE_Inr_iff split: option.splits)

lemma target_table:
  assumes "buildTargetSnapshot collate s plan roles keep mode = Inr s'" "findSnapTable s name = Some t"
  shows "\<exists>t'. migrateTable collate plan roles keep t = Inr [t'] \<and> findSnapTable s' name = Some t'"
proof -
  let ?f = "migrateTable collate plan roles keep"
  obtain ts where ts: "collectE ?f (snapTables s) = Inr ts" "s' = s\<lparr>snapMode := mode, snapTables := ts\<rparr>"
    using assms(1) by (auto simp: buildTargetSnapshot_def bindE_Inr_iff)
  from collectE_map [OF ts(1)] have m: "ts = map (\<lambda>t. hd (projr (?f t))) (snapTables s)"
    "\<forall>t \<in> set (snapTables s). \<exists>t'. ?f t = Inr [t']" using migrateTable_one by blast+
  have named: "migTable (hd (projr (?f u))) = migTable u" if "u \<in> set (snapTables s)" for u
    using that m(2) migrateTable_one [of collate plan roles keep u] by fastforce
  have "findSnapTable s' name = map_option (\<lambda>t. hd (projr (?f t))) (findSnapTable s name)"
    unfolding findSnapTable_def ts(2) by (simp add: m(1) find_map_same named)
  moreover have "t \<in> set (snapTables s)" using assms(2) by (auto simp: findSnapTable_def find_Some_iff)
  ultimately show ?thesis using m(2) assms(2) by fastforce
qed

lemma authenticatedPermissions_select:
  assumes "authenticatedPermissions p roles caps None ops = Inr ms"
  shows "m \<in> set ms \<Longrightarrow> permOperation m = OpSelect \<Longrightarrow> permGet (permission m) ''columns'' = js_strings (readableColumns caps)"
    and "OpSelect \<in> set ops \<Longrightarrow> selectMode p \<noteq> ModeNone \<Longrightarrow> \<exists>m \<in> set ms. permRole m = authenticatedRole roles \<and> permOperation m = OpSelect"
  using assms
  by (induction ops arbitrary: ms)
    (auto simp: bindE_Inr_iff authenticatedPermission_def createAuthenticatedPermission_def operationColumns_def permGet_def
      split: if_splits daOperation.splits)

lemma materialized_select:
  assumes "materializeTableDataAccessPolicy p roles caps None = Inr ms"
  shows "m \<in> set ms \<Longrightarrow> permOperation m = OpSelect \<Longrightarrow> permGet (permission m) ''columns'' = js_strings (readableColumns caps)"
    and "selectMode p \<noteq> ModeNone \<Longrightarrow> \<exists>m \<in> set ms. permRole m = authenticatedRole roles \<and> permOperation m = OpSelect"
  using assms authenticatedPermissions_select [of p roles caps operationList]
  by (fastforce simp: materializeTableDataAccessPolicy_def bindE_Inr_iff anonymousPermission_def permGet_def operationList_def
      split: if_splits)+

lemma find_exists: "(\<exists>x \<in> set xs. p x) \<Longrightarrow> \<exists>x \<in> set xs. find p xs = Some x \<and> p x"
  by (induction xs) auto

text \<open>
  C27. A migration does not know column grants. Whatever columns the scoped permission to read a table named
  before, the permission a migration writes for it names every column of the table.
\<close>

theorem migration_reads_every_column:
  assumes "buildTargetSnapshot collate s plan roles keep mode = Inr s'"
    and "findSnapTable s name = Some t" "findTarget plan name = Some target" "selectMode (planPolicy target) \<noteq> ModeNone"
  shows "\<exists>p. permissionAt s' name (authenticatedRole roles) OpSelect = Some p
    \<and> permGet p ''columns'' = js_strings (migColumns t)"
proof -
  obtain t' where t': "migrateTable collate plan roles keep t = Inr [t']" "findSnapTable s' name = Some t'"
    using target_table [OF assms(1,2)] by blast
  have "migTable t = name" using assms(2) by (auto simp: findSnapTable_def find_Some_iff)
  with t'(1) assms(3) obtain ms where ms: "materializeTarget target roles t = Inr ms"
    "migPermissions t' = sortByText collate roleKey (keptPermissions roles keep (migPermissions t) @ ms)"
    by (auto simp: migrateTable_def bindE_Inr_iff)
  note sel = materialized_select [OF ms(1) [unfolded materializeTarget_def]]
  let ?Q = "\<lambda>m. permRole m = authenticatedRole roles \<and> permOperation m = OpSelect"
  from sel(2) [OF assms(4)] have "\<exists>m \<in> set (migPermissions t'). ?Q m" unfolding ms(2) by auto
  from find_exists [OF this] obtain m where m: "m \<in> set (migPermissions t')" "find ?Q (migPermissions t') = Some m" "?Q m"
    by blast
  from m(1,3) have "m \<in> set ms" unfolding ms(2) by (auto simp: keptPermissions_def)
  with m sel(1) show ?thesis
    by (simp add: permissionAt_def t'(2) migCapabilities_def getStoredColumnCapabilities_def)
qed

end
