(* ===== verification/Migration_Diff.thy ===== *)
theory Migration_Diff
  imports Migration_Safety
begin

text \<open>
  What the commands between two snapshots do, and the plans that can never be applied.
\<close>

subsection \<open>Running the commands\<close>

type_synonym place = "string \<times> string \<times> daOperation"

text \<open>The engine refuses to drop a permission that is not there and to create one that is.\<close>

fun runPermission :: "permissionCommand \<Rightarrow> (place \<rightharpoonup> (string \<times> jsval) list) \<Rightarrow> (place \<rightharpoonup> (string \<times> jsval) list) option" where
  "runPermission (DropMigPermission op s n r) f =
     (if f (n, r, op) = None then None else Some (f((n, r, op) := None)))"
| "runPermission (CreateMigPermission op s n r p) f =
     (if f (n, r, op) = None then Some (f((n, r, op) \<mapsto> p)) else None)"

fun runPermissions :: "permissionCommand list \<Rightarrow> (place \<rightharpoonup> (string \<times> jsval) list) \<Rightarrow> (place \<rightharpoonup> (string \<times> jsval) list) option" where
  "runPermissions [] f = Some f"
| "runPermissions (c # cs) f = (case runPermission c f of None \<Rightarrow> None | Some g \<Rightarrow> runPermissions cs g)"

lemma runPermissions_append:
  "runPermissions (cs @ ds) f = (case runPermissions cs f of None \<Rightarrow> None | Some g \<Rightarrow> runPermissions ds g)"
  by (induction cs arbitrary: f) (simp_all split: option.splits)

definition placesOf :: "migrationSnapshot \<Rightarrow> place \<rightharpoonup> (string \<times> jsval) list" where
  "placesOf s = (\<lambda>(n, r, op). permissionAt s n r op)"

definition agreesAt ::
  "(string \<Rightarrow> string \<Rightarrow> int) \<Rightarrow> (jsval \<Rightarrow> string) \<Rightarrow> (string \<times> jsval) list option \<Rightarrow> (string \<times> jsval) list option \<Rightarrow> bool" where
  "agreesAt collate hash x y \<longleftrightarrow>
     (case (x, y) of (Some p, Some q) \<Rightarrow> samePermission collate hash p q | (None, None) \<Rightarrow> True | _ \<Rightarrow> False)"

lemma run_drops:
  assumes "distinct ps" "\<And>pl. pl \<in> set ps \<Longrightarrow> f pl = placesOf current pl"
  shows "runPermissions (concat (map (dropsFor collate hash current target) ps)) f = Some (\<lambda>pl.
    if pl \<in> set ps \<and> changedAt collate hash (placesOf current pl) (placesOf target pl) then None else f pl)"
  using assms
proof (induction ps arbitrary: f)
  case (Cons x xs)
  obtain n r op where x: "x = (n, r, op)" by (cases x)
  let ?c = "changedAt collate hash (placesOf current x) (placesOf target x)"
  define g where "g = (if ?c then f(x := None) else f)"
  have "runPermissions (dropsFor collate hash current target x) f = Some g"
    using Cons.prems(2) [of x] by (auto simp: x g_def dropsFor_def placesOf_def fun_eq_iff)
  moreover have "runPermissions (concat (map (dropsFor collate hash current target) xs)) g = Some (\<lambda>pl.
      if pl \<in> set xs \<and> changedAt collate hash (placesOf current pl) (placesOf target pl) then None else g pl)"
    using Cons.prems by (intro Cons.IH) (auto simp: g_def)
  ultimately show ?case by (auto simp: runPermissions_append g_def fun_eq_iff)
qed simp

lemma run_creates:
  assumes "distinct ps"
    and "\<And>pl. pl \<in> set ps \<Longrightarrow> changedAt collate hash (placesOf current pl) (placesOf target pl) \<Longrightarrow> f pl = None"
  shows "runPermissions (concat (map (createsFor collate hash current target) ps)) f = Some (\<lambda>pl.
    if pl \<in> set ps \<and> changedAt collate hash (placesOf current pl) (placesOf target pl) then placesOf target pl else f pl)"
  using assms
proof (induction ps arbitrary: f)
  case (Cons x xs)
  obtain n r op where x: "x = (n, r, op)" by (cases x)
  let ?c = "changedAt collate hash (placesOf current x) (placesOf target x)"
  define g where "g = (if ?c then f(x := placesOf target x) else f)"
  have "runPermissions (createsFor collate hash current target x) f = Some g"
    using Cons.prems(2) [of x] by (auto simp: x g_def createsFor_def placesOf_def fun_eq_iff split: option.splits)
  moreover have "runPermissions (concat (map (createsFor collate hash current target) xs)) g = Some (\<lambda>pl.
      if pl \<in> set xs \<and> changedAt collate hash (placesOf current pl) (placesOf target pl) then placesOf target pl else g pl)"
    using Cons.prems by (intro Cons.IH) (auto simp: g_def)
  ultimately show ?case by (auto simp: runPermissions_append g_def fun_eq_iff)
qed simp

lemma distinct_uniqueValues [simp]: "distinct (uniqueValues xs)" "set (uniqueValues xs) = set xs"
  by (simp_all add: uniqueValues_def)

lemma distinct_diffPlaces: "distinct (diffPlaces current target roles)"
  by (simp add: diffPlaces_def relevantRoles_def distinct_product operationList_def)

lemma unlisted_place:
  assumes "r \<in> set (relevantRoles roles)" "(n, r, op) \<notin> set (diffPlaces current target roles)"
  shows "permissionAt current n r op = None" "permissionAt target n r op = None"
proof -
  have "op \<in> set operationList" by (cases op) (simp_all add: operationList_def)
  then have "n \<notin> migTable ` set (snapTables current @ snapTables target)"
    using assms by (auto simp: diffPlaces_def)
  then show "permissionAt current n r op = None" "permissionAt target n r op = None"
    by (auto simp: permissionAt_def findSnapTable_def find_None_iff split: option.split) (force simp: find_Some_iff)+
qed

text \<open>
  C9. The commands between two snapshots can be run one by one, drops first, and lead from the one to the other: no
  command drops a permission that is not there or creates one that is, the permissions of the four roles are then
  those of the target up to their digests, and the permissions of other roles stay.
\<close>

theorem diff_commands_reach_target:
  "\<exists>f. runPermissions (buildPermissionDiffCommands collate hash current target roles) (placesOf current) = Some f
     \<and> (\<forall>n r op. if r \<in> set (relevantRoles roles) then agreesAt collate hash (f (n, r, op)) (permissionAt target n r op)
          else f (n, r, op) = permissionAt current n r op)"
proof -
  let ?ps = "diffPlaces current target roles"
  let ?c = "\<lambda>pl. changedAt collate hash (placesOf current pl) (placesOf target pl)"
  define g where "g = (\<lambda>pl. if pl \<in> set ?ps \<and> ?c pl then None else placesOf current pl)"
  define f where "f = (\<lambda>pl. if pl \<in> set ?ps \<and> ?c pl then placesOf target pl else g pl)"
  have "runPermissions (concat (map (dropsFor collate hash current target) ?ps)) (placesOf current) = Some g"
    unfolding g_def by (rule run_drops) (simp_all add: distinct_diffPlaces)
  moreover have "runPermissions (concat (map (createsFor collate hash current target) ?ps)) g = Some f"
    unfolding f_def by (rule run_creates) (simp_all add: distinct_diffPlaces g_def)
  ultimately have "runPermissions (buildPermissionDiffCommands collate hash current target roles) (placesOf current) = Some f"
    by (simp add: buildPermissionDiffCommands_def runPermissions_append)
  moreover have "agreesAt collate hash (f (n, r, op)) (permissionAt target n r op)"
    if r: "r \<in> set (relevantRoles roles)" for n r op
  proof (cases "(n, r, op) \<in> set ?ps")
    case True
    then show ?thesis
      by (auto simp: f_def g_def agreesAt_def changedAt_def placesOf_def samePermission_def split: option.splits)
  next
    case False
    then show ?thesis using unlisted_place [OF r False] by (simp add: f_def g_def agreesAt_def placesOf_def)
  qed
  moreover have "f (n, r, op) = permissionAt current n r op" if "r \<notin> set (relevantRoles roles)" for n r op
    using that by (simp add: f_def g_def placesOf_def diffPlaces_def)
  ultimately show ?thesis by auto
qed

subsection \<open>Plans that cannot be applied\<close>

lemma collectE_fails: "x \<in> set xs \<Longrightarrow> f x = Inl e \<Longrightarrow> \<exists>e'. collectE f xs = Inl e'"
proof (induction xs)
  case (Cons y ys)
  then show ?case by (cases "f y"; cases "collectE f ys") auto
qed simp

lemma no_target_for_unmanaged:
  assumes "t \<in> set (snapTables s)" "\<not> migManaged t" "distinct (map migTable (snapTables s))"
  shows "findTarget (buildProjectMigrationPlan collate nts s roles skipped) (migTable t) = None"
proof (rule ccontr)
  assume "findTarget (buildProjectMigrationPlan collate nts s roles skipped) (migTable t) \<noteq> None"
  then obtain target where target: "target \<in> set (targetPolicies (buildProjectMigrationPlan collate nts s roles skipped))"
    "planTable target = migTable t" by (auto simp: findTarget_def find_None_iff)
  from target(1) obtain u where u: "u \<in> set (snapTables s)" "migManaged u"
    "target = planTargetOf (inspectMigrationTable collate nts u roles (migTable u \<in> set skipped))" by (rule plan_targetD)
  then have "u = t" using assms(1,3) target(2) by (auto simp: planTargetOf_def distinct_map inj_on_def)
  with assms(2) u(2) show False by simp
qed


text \<open>
  Neither does a plan survive its application when a scoped permission has a projection constraint: the plan copies the
  constraint and keeps the policy version that does not allow one.
\<close>

lemma inferred_constraint:
  "selectConstraint (migrationPolicy (inferredMigration t roles skip)) = selectConstraint (migTablePolicy (scopedInspection t roles))"
  "policyVersion (migrationPolicy (inferredMigration t roles skip)) = Some 1"
proof -
  let ?p0 = "migTablePolicy (scopedInspection t roles)"
  have "policyVersion ?p0 = Some 1"
    by (simp add: migTablePolicy_def Let_def copyAuthenticated_def createClosedTableDataAccessPolicy_def)
  then have "selectConstraint (migrationPolicy (inferredMigration t roles skip)) = selectConstraint ?p0
    \<and> policyVersion (migrationPolicy (inferredMigration t roles skip)) = Some 1"
    unfolding inferredMigration_def
    by (intro fold_invariant_prefix [where P = "\<lambda>_ i. selectConstraint (migrationPolicy i) = selectConstraint ?p0
         \<and> policyVersion (migrationPolicy i) = Some 1"]) simp_all
  then show "selectConstraint (migrationPolicy (inferredMigration t roles skip)) = selectConstraint ?p0"
    "policyVersion (migrationPolicy (inferredMigration t roles skip)) = Some 1" by simp_all
qed

theorem projection_cannot_be_migrated:
  assumes "\<not> authenticatedCustom (scopedInspection t roles)" "selectConstraint (inspectedPolicy (scopedInspection t roles)) = Some c"
  shows "\<exists>m. materializeTarget (planTargetOf (inspectMigrationTable collate nts t roles skip)) roles u = Inl m"
proof -
  let ?p = "planPolicy (planTargetOf (inspectMigrationTable collate nts t roles skip))"
  have "selectConstraint ?p = Some c" "policyVersion ?p = Some 1"
    using assms by (simp_all add: planTargetOf_def inferred_constraint migTablePolicy_def Let_def copyAuthenticated_def)
  then have "\<exists>m. validateTableDataAccessInput ?p caps = Inl m" for caps
    unfolding validateTableDataAccessInput_def
    by (cases "checkModes ?p operationList") (auto simp: validateConstraint_def guardE_def)
  then show ?thesis unfolding materializeTarget_def materializeTableDataAccessPolicy_def by (metis bindE_simps(1))
qed

end
