(* ===== verification/Migration_Demo.thy ===== *)
theory Migration_Demo
  imports Migration_Diff
begin

text \<open>
  A small project: notes, of which signed-in users may read one of two columns, and posts, with permissions of
  the historical roles. Its plan, computed.
\<close>

definition demoOrder :: "string \<Rightarrow> string \<Rightarrow> int" where
  "demoOrder l r = (if l = r then 0 else if l < r then - 1 else 1)"

definition demoNumber :: "rat \<Rightarrow> string" where
  "demoNumber n = ''0''"

definition demoRoles :: roleNames where
  "demoRoles = \<lparr>authenticatedRole = ''scope_user'', anonymousRole = ''scope_anon''\<rparr>"

definition demoTable :: "string \<Rightarrow> bool \<Rightarrow> materializedPermission list \<Rightarrow> migrationTable" where
  "demoTable name managed perms =
     \<lparr>migTable = name, migColumns = [''id'', ''secret''], migInsertable = Some [''id'', ''secret''],
      migUpdateable = Some [''id'', ''secret''], migRealtime = False,
      migNaming = \<lparr>customName = None, customRootFields = []\<rparr>, migManaged = managed, migPermissions = perms\<rparr>"

definition readSome :: materializedPermission where
  "readSome = \<lparr>permRole = ''scope_user'', permOperation = OpSelect,
     permission = [(''allow_aggregations'', JBool False), (''columns'', js_strings [''id'']), (''filter'', JObj [])]\<rparr>"

definition readAll :: materializedPermission where
  "readAll = \<lparr>permRole = ''user'', permOperation = OpSelect,
     permission = [(''columns'', JStr ''*''), (''filter'', JObj [])]\<rparr>"

definition writeAnonymously :: materializedPermission where
  "writeAnonymously = \<lparr>permRole = ''anonymous'', permOperation = OpInsert,
     permission = [(''check'', JObj []), (''columns'', JStr ''*'')]\<rparr>"

definition notesTable :: migrationTable where
  "notesTable = demoTable ''notes'' True [readSome]"

definition postsTable :: migrationTable where
  "postsTable = demoTable ''posts'' True [writeAnonymously, readAll]"

definition overviewTable :: migrationTable where
  "overviewTable = demoTable ''overview'' False []"

definition demoSnapshot :: "migrationTable list \<Rightarrow> migrationSnapshot" where
  "demoSnapshot tables =
     \<lparr>snapProject = ''p'', snapSchema = ''app'', snapMode = Compatibility, snapNaming = None, snapTables = tables,
      snapBindings = [], snapExternal = []\<rparr>"

definition demoPlan :: "migrationTable list \<Rightarrow> migrationPlan" where
  "demoPlan tables = buildProjectMigrationPlan demoOrder demoNumber (demoSnapshot tables) demoRoles []"

lemmas demo_tables = notesTable_def postsTable_def overviewTable_def demoTable_def readSome_def readAll_def
  writeAnonymously_def demoRoles_def

lemmas demo_inspection = scopedInspection_def toHasuraTableMetadata_def permissionsFor_def
  inspectTableDataAccessMetadata_def inspectOperation_def noteEntries_def inspectAuthenticated_def inspectAnonymous_def
  entriesOf_def closedInspection_def parseAuthenticatedPermission_def ruleOf_def permGet_def parseProjectionRule_def
  permissionColumns_def onlyKeys_def parseExplicitColumns_def isAggregationsDisabled_def isEmptyObject_def
  applyParsed_def operationList_def js_strings_def scopedOf_def emptyColumnGrants_def isSupportedAnonymousSelect_def
  migCapabilities_def getStoredColumnCapabilities_def createClosedTableDataAccessPolicy_def

lemma demo_scoped [simp]:
  "authenticatedCustom (scopedInspection notesTable demoRoles) = False"
  "anonymousCustom (scopedInspection notesTable demoRoles) = False"
  "inspectedPolicy (scopedInspection notesTable demoRoles) = createClosedTableDataAccessPolicy\<lparr>selectMode := ModeAll\<rparr>"
  "scopedInspection postsTable demoRoles = closedInspection"
  "scopedInspection overviewTable demoRoles = closedInspection"
  by (simp_all add: demo_inspection demo_tables Let_def)

lemmas demo_migration = inspectMigrationTable_def inferredMigration_def ruleBlockers_def trackedOnlyBlockers_def
  migTablePolicy_def copyAuthenticated_def duplicateKeys_def scopedOf_def legacyOf_def sortByText_def js_sort_def
  dedupeBlockers_def uniqueBy_def

lemma demo_notes:
  "inspectMigrationTable demoOrder demoNumber notesTable demoRoles False =
     \<lparr>inspectedTable = ''notes'', targetSource = ExistingScoped, inferredOperations = [],
      migrationPolicy = createClosedTableDataAccessPolicy\<lparr>selectMode := ModeAll\<rparr>,
      migrationBlockers = [], migrationChanges = [], migrationDrops = []\<rparr>"
proof -
  have "migPermissions notesTable = [readSome]" "migTable notesTable = ''notes''" "migManaged notesTable"
    "permRole readSome = ''scope_user''" "permOperation readSome = OpSelect"
    "authenticatedRole demoRoles = ''scope_user''" "anonymousRole demoRoles = ''scope_anon''"
    by (simp_all add: notesTable_def demoTable_def readSome_def demoRoles_def)
  then show ?thesis
    by (simp add: demo_migration roleKey_def Let_def createClosedTableDataAccessPolicy_def)
qed

lemma demo_overview:
  "inspectMigrationTable demoOrder demoNumber overviewTable demoRoles False =
     \<lparr>inspectedTable = ''overview'', targetSource = Closed, inferredOperations = [],
      migrationPolicy = createClosedTableDataAccessPolicy,
      migrationBlockers = [], migrationChanges = [], migrationDrops = []\<rparr>"
proof -
  have "migPermissions overviewTable = []" "migTable overviewTable = ''overview''" "\<not> migManaged overviewTable"
    by (simp_all add: overviewTable_def demoTable_def)
  then show ?thesis
    by (simp add: demo_migration closedInspection_def Let_def createClosedTableDataAccessPolicy_def)
qed

lemma demo_classified [simp]:
  "classifyHistoricalPermission ''user'' OpSelect (permission readAll) (migCapabilities postsTable) = (True, False)"
  "classifyHistoricalPermission ''anonymous'' OpInsert (permission writeAnonymously) (migCapabilities postsTable) = (True, False)"
  by (simp_all add: classifyHistoricalPermission_def readAll_def writeAnonymously_def onlyKeys_def permGet_def
      hasAllColumns_def emptyObject_def emptyOrMissing_def)

lemma demo_posts:
  "inspectMigrationTable demoOrder demoNumber postsTable demoRoles False =
     \<lparr>inspectedTable = ''posts'', targetSource = LegacyDefault, inferredOperations = [(ActorAuthenticated, OpSelect)],
      migrationPolicy = createClosedTableDataAccessPolicy\<lparr>selectMode := ModeAll\<rparr>,
      migrationBlockers = [], migrationChanges = [lostWrite postsTable OpInsert],
      migrationDrops = [droppedAs postsTable writeAnonymously, droppedAs postsTable readAll]\<rparr>"
proof -
  have perms: "migPermissions postsTable = [writeAnonymously, readAll]" "migTable postsTable = ''posts''" "migManaged postsTable"
    by (simp_all add: postsTable_def demoTable_def)
  have roles: "permRole readAll = ''user''" "permOperation readAll = OpSelect"
    "permRole writeAnonymously = ''anonymous''" "permOperation writeAnonymously = OpInsert"
    "authenticatedRole demoRoles = ''scope_user''" "anonymousRole demoRoles = ''scope_anon''"
    by (simp_all add: readAll_def writeAnonymously_def demoRoles_def)
  show ?thesis
    by (simp add: demo_migration inferLegacy_def closedInspection_def perms roles roleKey_def Let_def
        createClosedTableDataAccessPolicy_def lostWrite_def droppedAs_def dropText_def demoOrder_def)
qed

lemma demo_drops [simp]:
  "compareJson demoOrder demoNumber dropJson (droppedAs postsTable writeAnonymously) (droppedAs postsTable readAll) \<le> 0"
  by code_simp

lemma demo_plan:
  "demoPlan [notesTable, postsTable] =
     \<lparr>planVersion = 2, planProject = ''p'', planSchema = ''app'',
      targetPolicies = [\<lparr>planTable = ''notes'', planSource = ExistingScoped, planInferred = [],
          planPolicy = createClosedTableDataAccessPolicy\<lparr>selectMode := ModeAll\<rparr>\<rparr>,
        \<lparr>planTable = ''posts'', planSource = LegacyDefault, planInferred = [(ActorAuthenticated, OpSelect)],
          planPolicy = createClosedTableDataAccessPolicy\<lparr>selectMode := ModeAll\<rparr>\<rparr>],
      legacyDrops = [droppedAs postsTable writeAnonymously, droppedAs postsTable readAll],
      planBlockers = [], planChanges = [lostWrite postsTable OpInsert]\<rparr>"
proof -
  have t: "migTable notesTable = ''notes''" "migManaged notesTable" "migTable postsTable = ''posts''" "migManaged postsTable"
    by (simp_all add: notesTable_def postsTable_def demoTable_def)
  show ?thesis
    by (simp add: demoPlan_def buildProjectMigrationPlan_def inspectTables_def demoSnapshot_def t demo_notes demo_posts
        planTargetOf_def snapshotBlockers_def sortByText_def js_sort_def dedupeBlockers_def uniqueBy_def
        demoOrder_def Let_def)
qed

lemma demo_plan_notes:
  "demoPlan [notesTable] =
     \<lparr>planVersion = 2, planProject = ''p'', planSchema = ''app'',
      targetPolicies = [\<lparr>planTable = ''notes'', planSource = ExistingScoped, planInferred = [],
          planPolicy = createClosedTableDataAccessPolicy\<lparr>selectMode := ModeAll\<rparr>\<rparr>],
      legacyDrops = [], planBlockers = [], planChanges = []\<rparr>"
  "planBlockers (demoPlan [notesTable, overviewTable]) = []"
proof -
  have t: "migTable notesTable = ''notes''" "migManaged notesTable" "migTable overviewTable = ''overview''" "\<not> migManaged overviewTable"
    by (simp_all add: notesTable_def overviewTable_def demoTable_def)
  show "demoPlan [notesTable] =
     \<lparr>planVersion = 2, planProject = ''p'', planSchema = ''app'',
      targetPolicies = [\<lparr>planTable = ''notes'', planSource = ExistingScoped, planInferred = [],
          planPolicy = createClosedTableDataAccessPolicy\<lparr>selectMode := ModeAll\<rparr>\<rparr>],
      legacyDrops = [], planBlockers = [], planChanges = []\<rparr>"
    "planBlockers (demoPlan [notesTable, overviewTable]) = []"
    by (simp_all add: demoPlan_def buildProjectMigrationPlan_def inspectTables_def demoSnapshot_def t demo_notes demo_overview
        planTargetOf_def snapshotBlockers_def sortByText_def js_sort_def dedupeBlockers_def uniqueBy_def Let_def)
qed

subsection \<open>The properties on the small project\<close>



text \<open>
  The scoped permission of the notes names one column. The plan reports no blocker, no change and no inference, and
  writes a permission that names both.
\<close>

lemma migration_reads_every_column_witness:
  "\<exists>s' p. planBlockers (demoPlan [notesTable]) = [] \<and> planChanges (demoPlan [notesTable]) = []
     \<and> map planInferred (targetPolicies (demoPlan [notesTable])) = [[]]
     \<and> permissionAt (demoSnapshot [notesTable]) ''notes'' ''scope_user'' OpSelect = Some (permission readSome)
     \<and> permGet (permission readSome) ''columns'' = js_strings [''id'']
     \<and> buildTargetSnapshot demoOrder (demoSnapshot [notesTable]) (demoPlan [notesTable]) demoRoles True Compatibility = Inr s'
     \<and> permissionAt s' ''notes'' ''scope_user'' OpSelect = Some p \<and> permGet p ''columns'' = js_strings [''id'', ''secret'']"
proof -
  let ?target = "hd (targetPolicies (demoPlan [notesTable]))"
  have t: "findSnapTable (demoSnapshot [notesTable]) ''notes'' = Some notesTable" "migColumns notesTable = [''id'', ''secret'']"
    "findTarget (demoPlan [notesTable]) ''notes'' = Some ?target" "selectMode (planPolicy ?target) \<noteq> ModeNone"
    unfolding demo_plan_notes(1) by (simp_all add: findSnapTable_def demoSnapshot_def notesTable_def demoTable_def findTarget_def)
  have "\<exists>s'. buildTargetSnapshot demoOrder (demoSnapshot [notesTable]) (demoPlan [notesTable]) demoRoles True Compatibility = Inr s'"
    using t(3) unfolding demo_plan_notes(1)
    by (simp add: buildTargetSnapshot_def demoSnapshot_def migrateTable_def notesTable_def demoTable_def materializeTarget_def materializeTableDataAccessPolicy_def validateTableDataAccessInput_def
        operationList_def createClosedTableDataAccessPolicy_def guardE_def validateConstraint_def validateOwner_def
        usesOwnerMode_def authenticatedPermission_def createAuthenticatedPermission_def operationColumns_def)
  then obtain s' where s': "buildTargetSnapshot demoOrder (demoSnapshot [notesTable]) (demoPlan [notesTable]) demoRoles True
      Compatibility = Inr s'" by blast
  from migration_reads_every_column [OF s' t(1) t(3) t(4)] s' t(2) show ?thesis
    unfolding demo_plan_notes(1) by (simp add: demoRoles_def permissionAt_def demoSnapshot_def findSnapTable_def notesTable_def demoTable_def
        readSome_def permGet_def js_strings_def)
qed


end
