(* ===== verification/Migration_Flow.thy ===== *)
theory Migration_Flow
  imports Migration_Operations
begin

text \<open>
  Preview, apply, recovery and rollback of a migration, from \<open>data-access-migration.service.ts\<close>.
\<close>

subsection \<open>The local record of a try\<close>

type_synonym 'a recorded_call = "(migrationWorld, migrationError \<times> migrationRecord, 'a) call"

definition during :: "migrationRecord \<Rightarrow> 'a migration_call \<Rightarrow> 'a recorded_call" where
  "during r m w = (case m w of (x, w') \<Rightarrow>
     (case x of Answer a \<Rightarrow> (Answer a, w') | Thrown e \<Rightarrow> (Thrown (e, r), w') | Crashed \<Rightarrow> (Crashed, w')))"

definition trying ::
  "'a recorded_call \<Rightarrow> (migrationError \<Rightarrow> migrationRecord \<Rightarrow> 'a migration_call) \<Rightarrow> 'a migration_call" where
  "trying m h w = (case m w of (x, w') \<Rightarrow>
     (case x of Answer a \<Rightarrow> (Answer a, w') | Thrown (e, r) \<Rightarrow> h e r w' | Crashed \<Rightarrow> (Crashed, w')))"

subsection \<open>Steps\<close>

definition snapshotDigest :: "migrationEnv \<Rightarrow> migrationRecord \<Rightarrow> migrationSnapshot \<Rightarrow> string" where
  "snapshotDigest env r s = digestProjectMigrationSnapshot (mCollate env) (mHash env) s (planVersion (recordPlan r))"

definition migPhase :: "migrationEnv \<Rightarrow> migrationRecord \<Rightarrow> migrationPhase \<Rightarrow> migrationRecord migration_call" where
  "migPhase env r next_phase =
     transitionMigration env (recordId r) [recordStatus r] (emptyPatch\<lparr>newPhase := Some next_phase\<rparr>)"

definition currentSnapshot :: "migrationEnv \<Rightarrow> string \<Rightarrow> migrationSnapshot migration_call" where
  "currentSnapshot env pid = chain (requireProject env pid) (snapshotProject env)"

definition commandsBetween ::
  "migrationEnv \<Rightarrow> string \<Rightarrow> migrationSnapshot \<Rightarrow> migrationSnapshot \<Rightarrow> permissionCommand list migration_call" where
  "commandsBetween env pid current target =
     chain (textError (projectRoles env pid)) (\<lambda>roles.
     give (buildPermissionDiffCommands (mCollate env) (mHash env) current target roles))"

definition moveTo :: "migrationEnv \<Rightarrow> string \<Rightarrow> migrationSnapshot \<Rightarrow> migrationSnapshot \<Rightarrow> unit migration_call" where
  "moveTo env pid current target =
     chain (commandsBetween env pid current target) (applyPermissionCommands env)"

definition ensureMode :: "migrationEnv \<Rightarrow> string \<Rightarrow> runtimeMode \<Rightarrow> unit migration_call" where
  "ensureMode env pid mode =
     chain (requireProject env pid) (\<lambda>project.
     if projMode project = mode then give ()
     else chain (setProjectDataAccessMode env pid (projMode project) mode) (\<lambda>ok.
       require ok (MigOther ''Project runtime mode changed during recovery'')))"

fun targetMode :: "recoveryTarget \<Rightarrow> runtimeMode" where
  "targetMode ToSource = Compatibility"
| "targetMode ToApplied = Explicit"

fun targetSnapshot :: "recoveryTarget \<Rightarrow> migrationRecord \<Rightarrow> migrationSnapshot option" where
  "targetSnapshot ToSource r = Some (sourceSnapshot r)"
| "targetSnapshot ToApplied r = appliedSnapshot r"

fun targetDigest :: "recoveryTarget \<Rightarrow> migrationRecord \<Rightarrow> string option" where
  "targetDigest ToSource r = Some (sourceDigest r)"
| "targetDigest ToApplied r = appliedDigest r"

text \<open>The checks of \<open>restoreTarget\<close>: neither the snapshot nor the digest may be missing, nor the digest empty.\<close>

definition restoreTarget :: "migrationEnv \<Rightarrow> migrationRecord \<Rightarrow> recoveryTarget \<Rightarrow> migrationRecord migration_call" where
  "restoreTarget env r target =
     (case (targetSnapshot target r, targetDigest target r) of
        (Some goal, Some digest) \<Rightarrow>
          before (require (digest \<noteq> []) (MigOther ''Recovery target is unavailable''))
          (chain (migPhase env r RestorePermissions) (\<lambda>r1.
           chain (currentSnapshot env (recordProject r1)) (\<lambda>current.
           before (moveTo env (recordProject r1) current goal)
           (chain (migPhase env r1 RestoreRuntimeMode) (\<lambda>r2.
            before (ensureMode env (recordProject r2) (targetMode target))
            (chain (migPhase env r2 VerifyRecoveryTarget) (\<lambda>r3.
             chain (currentSnapshot env (recordProject r3)) (\<lambda>restored.
             before (require (snapshotDigest env r3 restored = digest) (MigOther ''Recovery target digest mismatch''))
             (before (verifyRuntime env restored (recordPlan r3) (targetMode target))
              (give r3))))))))))
      | _ \<Rightarrow> throw (MigOther ''Recovery target is unavailable''))"

definition restoredPatch :: "bool \<Rightarrow> migrationPhase \<Rightarrow> int \<Rightarrow> migrationPatch" where
  "restoredPatch isRollback failedPhase t =
     emptyPatch\<lparr>newStatus := Some (if isRollback then Applied else Failed),
       newPhase := Some (if isRollback then Completed else failedPhase), newTarget := Some None,
       newRollbackDigest := Some None, newCompleted := Some t,
       newError := Some (Some (if isRollback
         then (''DATA_ACCESS_ROLLBACK_FAILED'', ''Rollback failed; the explicit state was restored'')
         else (''DATA_ACCESS_MIGRATION_APPLY_FAILED'', ''Migration failed; the previous state was restored'')))\<rparr>"

definition unrestoredPatch :: "bool \<Rightarrow> recoveryTarget \<Rightarrow> string \<Rightarrow> migrationPatch" where
  "unrestoredPatch isRollback target message =
     emptyPatch\<lparr>newStatus := Some Failed, newTarget := Some (Some target),
       newError := Some (Some (if isRollback then ROLLBACK_RECOVERY else MIGRATION_RECOVERY, message))\<rparr>"

text \<open>The promise of the last transition of the \<open>try\<close> is returned without \<open>await\<close>: its rejection is not caught.
  The handler sees the record of the restoration only when that has finished.\<close>

definition restoreAfterFailure ::
  "migrationEnv \<Rightarrow> migrationRecord \<Rightarrow> recoveryTarget \<Rightarrow> bool \<Rightarrow> migrationRecord migration_call" where
  "restoreAfterFailure env r target isRollback =
     chain (catching (chain (restoreTarget env r target) (\<lambda>r'. give (Some r'))) (\<lambda>_. give None)) (\<lambda>restored.
     (case restored of
        Some r' \<Rightarrow> chain (migNow env) (\<lambda>t.
          transitionMigration env (recordId r') [recordStatus r'] (restoredPatch isRollback (recordPhase r) t))
      | None \<Rightarrow> transitionMigration env (recordId r) [recordStatus r]
          (unrestoredPatch isRollback target ''Automatic recovery could not be verified'')))"

definition reportAnswer :: "migrationRecord \<Rightarrow> migrationReport migration_call" where
  "reportAnswer r = give (toPublicMigrationReport r)"

subsection \<open>Preview\<close>

definition getMigration :: "migrationEnv \<Rightarrow> string \<Rightarrow> migrationReport option migration_call" where
  "getMigration env pid = chain (getLatestProjectMigration env pid) (\<lambda>r. give (map_option toPublicMigrationReport r))"

definition previewRecord ::
  "string \<Rightarrow> string \<Rightarrow> migrationSnapshot \<Rightarrow> migrationPlan \<Rightarrow> string \<Rightarrow> string \<Rightarrow> migrationRecord" where
  "previewRecord mid pid s plan digest creator =
     \<lparr>recordId = mid, recordProject = pid, recordStatus = PreviewReady, recordPhase = Preview, sourceSnapshot = s,
      recordPlan = plan, sourceDigest = digest, appliedSnapshot = None, appliedDigest = None, rollbackPreviewDigest = None,
      recoveryTarget = None, hasDestructiveChanges = (planChanges plan \<noteq> []), recordCreatedBy = creator, recordError = None,
      recordStartedAt = None, recordAppliedAt = None, recordCompletedAt = None\<rparr>"

definition supersedeLatest :: "migrationEnv \<Rightarrow> migrationRecord option \<Rightarrow> unit migration_call" where
  "supersedeLatest env latest =
     (case latest of
        Some r \<Rightarrow>
          if recordStatus r = PreviewReady
          then chain (migNow env) (\<lambda>t. ignoring (transitionMigration env (recordId r) [PreviewReady]
            (emptyPatch\<lparr>newStatus := Some Superseded, newPhase := Some Completed, newCompleted := Some t\<rparr>)))
          else give ()
      | None \<Rightarrow> give ())"

definition previewBody ::
  "migrationEnv \<Rightarrow> string \<Rightarrow> string \<Rightarrow> string list \<Rightarrow> string \<Rightarrow> migrationReport migration_call" where
  "previewBody env pid creator skipped mid =
     chain (requireProject env pid) (\<lambda>project.
     before (require (projMode project = Compatibility)
       (MigConflict ''Project already uses explicit data access'' ''PROJECT_ALREADY_EXPLICIT''))
     (chain (getLatestProjectMigration env pid) (\<lambda>latest.
      before (require (case latest of Some r \<Rightarrow> \<not> isRecoveryRequired r | None \<Rightarrow> True)
        (migrationConflict ''Existing migration requires recovery''))
      (chain (snapshotProject env project) (\<lambda>s.
       chain (textError (projectRoles env pid)) (\<lambda>roles.
       before (lift id (validateSkippedTables skipped s (buildProjectMigrationPlan (mCollate env) (mNumber env) s roles [])))
       (let plan = buildProjectMigrationPlan (mCollate env) (mNumber env) s roles skipped in
        before (supersedeLatest env latest)
        (chain (createMigrationPreview env (previewRecord mid pid s plan
           (digestProjectMigrationSnapshot (mCollate env) (mHash env) s (planVersion plan)) creator)) reportAnswer))))))))"

definition previewMigration :: "migrationEnv \<Rightarrow> string \<Rightarrow> string \<Rightarrow> string list \<Rightarrow> migrationReport migration_call" where
  "previewMigration env pid creator skipped =
     chain (look (\<lambda>w. createId env (happened w))) (\<lambda>mid.
     withMigrationLock env pid mid (previewBody env pid creator skipped mid))"

subsection \<open>Apply\<close>

definition appliedPatch :: "migrationSnapshot \<Rightarrow> string \<Rightarrow> int \<Rightarrow> migrationPatch" where
  "appliedPatch s digest t =
     emptyPatch\<lparr>newStatus := Some Applied, newPhase := Some Completed, newTarget := Some None,
       newApplied := Some (s, digest), newAppliedAt := Some t, newCompleted := Some t, newError := Some None\<rparr>"

definition activateExplicit :: "migrationEnv \<Rightarrow> string \<Rightarrow> unit migration_call" where
  "activateExplicit env pid =
     chain (setProjectDataAccessMode env pid Compatibility Explicit) (\<lambda>ok.
     require ok (MigOther ''Project runtime mode changed''))"

definition migrationTarget ::
  "migrationEnv \<Rightarrow> string \<Rightarrow> migrationSnapshot \<Rightarrow> migrationPlan \<Rightarrow> bool \<Rightarrow> runtimeMode \<Rightarrow> migrationSnapshot migration_call" where
  "migrationTarget env pid current plan preserveLegacy mode =
     chain (textError (projectRoles env pid)) (\<lambda>roles.
     textError (buildTargetSnapshot (mCollate env) current plan roles preserveLegacy mode))"

text \<open>From the preparation of the scoped permissions to the end.\<close>

definition prepareScoped ::
  "migrationEnv \<Rightarrow> string \<Rightarrow> migrationSnapshot \<Rightarrow> migrationRecord
   \<Rightarrow> (migrationSnapshot \<times> migrationRecord) recorded_call" where
  "prepareScoped env pid current r =
     chain (during r (migrationTarget env pid current (recordPlan r) True Compatibility)) (\<lambda>scoped.
     chain (during r (migPhase env r PrepareScopedPermissions)) (\<lambda>r1.
     before (during r1 (moveTo env pid current scoped))
     (chain (during r1 (migPhase env r1 VerifyScopedMetadata)) (\<lambda>r2.
      chain (during r2 (currentSnapshot env pid)) (\<lambda>prepared.
      before (during r2 (verifyPreparedMetadata env prepared (sourceSnapshot r2) (recordPlan r2)))
      (chain (during r2 (migPhase env r2 VerifyScopedHttp)) (\<lambda>r3.
       before (during r3 (verifyPreparedHttp env prepared (recordPlan r3)))
       (chain (during r3 (migPhase env r3 VerifyScopedRealtime)) (\<lambda>r4.
        before (during r4 (verifyPreparedRealtime env prepared)) (give (prepared, r4)))))))))))"

definition removeLegacy ::
  "migrationEnv \<Rightarrow> string \<Rightarrow> migrationSnapshot \<Rightarrow> migrationRecord \<Rightarrow> migrationRecord recorded_call" where
  "removeLegacy env pid prepared r =
     chain (during r (migrationTarget env pid prepared (recordPlan r) False Explicit)) (\<lambda>explicit.
     chain (during r (migPhase env r RemoveLegacyPermissions)) (\<lambda>r1.
     before (during r1 (moveTo env pid prepared explicit))
     (chain (during r1 (migPhase env r1 ActivateExplicitMode)) (\<lambda>r2.
      before (during r2 (activateExplicit env pid))
      (chain (during r2 (migPhase env r2 VerifyActiveRuntime)) (\<lambda>r3.
       chain (during r3 (currentSnapshot env pid)) (\<lambda>applied.
       before (during r3 (verifyRuntime env applied (recordPlan r3) Explicit))
       (chain (during r3 (migNow env)) (\<lambda>t.
        during r3 (transitionMigration env (recordId r3) [Applying]
          (appliedPatch applied (snapshotDigest env r3 applied) t)))))))))))"

definition applyBody :: "migrationEnv \<Rightarrow> string \<Rightarrow> string \<Rightarrow> applyInput \<Rightarrow> migrationReport migration_call" where
  "applyBody env pid mid input =
     chain (requireMigration env pid mid) (\<lambda>r.
     chain (requireProject env pid) (\<lambda>project.
     before (lift id (validateApply r project input))
     (chain (snapshotProject env project) (\<lambda>current.
      before (require (snapshotDigest env r current = sourceDigest r)
        (MigConflict ''Migration preview is stale'' ''DATA_ACCESS_MIGRATION_DRIFT''))
      (chain (migNow env) (\<lambda>t.
       chain (transitionMigration env mid [PreviewReady]
         (emptyPatch\<lparr>newStatus := Some Applying, newPhase := Some SnapshotCheck, newTarget := Some (Some ToSource),
            newStarted := Some t, newError := Some None\<rparr>)) (\<lambda>r0.
       chain (trying (chain (prepareScoped env pid current r0) (\<lambda>(prepared, r1). removeLegacy env pid prepared r1))
         (\<lambda>e r'. restoreAfterFailure env r' ToSource False)) reportAnswer)))))))"

definition applyMigration :: "migrationEnv \<Rightarrow> string \<Rightarrow> string \<Rightarrow> applyInput \<Rightarrow> migrationReport migration_call" where
  "applyMigration env pid mid input = withMigrationLock env pid mid (applyBody env pid mid input)"

subsection \<open>Recovery\<close>

definition activeStatusOf :: "recoveryTarget \<Rightarrow> migrationStatus" where
  "activeStatusOf target = (if target = ToSource then Applying else RollingBack)"

definition recoveredPatch :: "recoveryTarget \<Rightarrow> int \<Rightarrow> migrationPatch" where
  "recoveredPatch target t =
     emptyPatch\<lparr>newStatus := Some (if target = ToSource then Recovered else Applied), newPhase := Some Completed,
       newTarget := Some None, newCompleted := Some t, newRollbackDigest := Some None, newError := Some None\<rparr>"

text \<open>An exception of the restoration is caught with the record from before it.\<close>

definition recoverBody :: "migrationEnv \<Rightarrow> string \<Rightarrow> string \<Rightarrow> string \<Rightarrow> string \<Rightarrow> migrationReport migration_call" where
  "recoverBody env pid mid digest answer =
     chain (requireMigration env pid mid) (\<lambda>r.
     chain (requireProject env pid) (\<lambda>project.
     (case (recoveryTarget r, isRecoveryRequired r) of
        (Some target, True) \<Rightarrow>
          before (lift id (requireAlias project answer))
          (before (require (targetDigest target r = Some digest \<and> digest \<noteq> [])
             (migrationConflict ''Recovery digest does not match''))
           (chain (transitionMigration env mid [recordStatus r]
              (emptyPatch\<lparr>newStatus := Some (activeStatusOf target), newPhase := Some RestorePermissions,
                 newTarget := Some (Some target), newError := Some None\<rparr>)) (\<lambda>r1.
            chain (catching (chain (restoreTarget env r1 target) (\<lambda>r2. give (Some r2))) (\<lambda>_. give None)) (\<lambda>restored.
            (case restored of
               None \<Rightarrow> chain (transitionMigration env mid [activeStatusOf target]
                 (unrestoredPatch (target = ToApplied) target ''Recovery could not be verified'')) reportAnswer
             | Some _ \<Rightarrow> chain (migNow env) (\<lambda>t.
                 chain (transitionMigration env mid [activeStatusOf target] (recoveredPatch target t)) reportAnswer))))))
      | _ \<Rightarrow> throw (migrationConflict ''Migration is not eligible for recovery''))))"

definition recoverMigration :: "migrationEnv \<Rightarrow> string \<Rightarrow> string \<Rightarrow> string \<Rightarrow> string \<Rightarrow> migrationReport migration_call" where
  "recoverMigration env pid mid digest answer = withMigrationLock env pid mid (recoverBody env pid mid digest answer)"

subsection \<open>Rollback\<close>

definition rollbackDigestJson :: "string \<Rightarrow> string \<Rightarrow> string \<Rightarrow> string \<Rightarrow> jsval" where
  "rollbackDigestJson mid applied source answer =
     JObj [(''migrationId'', JStr mid), (''appliedDigest'', JStr applied), (''sourceDigest'', JStr source),
       (''projectAlias'', JStr answer)]"

definition driftError :: migrationError where
  "driftError = MigConflict ''Applied data access metadata has changed'' ''DATA_ACCESS_MIGRATION_DRIFT''"

definition previewRollbackBody :: "migrationEnv \<Rightarrow> string \<Rightarrow> string \<Rightarrow> string \<Rightarrow> migrationReport migration_call" where
  "previewRollbackBody env pid mid answer =
     chain (requireMigration env pid mid) (\<lambda>r.
     chain (requireProject env pid) (\<lambda>project.
     before (lift id (requireAlias project answer))
     (chain (getLatestProjectMigration env pid) (\<lambda>latest.
      (case appliedDigest r of
         Some digest \<Rightarrow>
           before (require (recordStatus r = Applied \<and> map_option recordId latest = Some mid \<and> digest \<noteq> [])
             (migrationConflict ''Rollback is unavailable''))
           (chain (snapshotProject env project) (\<lambda>current.
            before (require (snapshotDigest env r current = digest) driftError)
            (chain (transitionMigration env mid [Applied]
               (emptyPatch\<lparr>newRollbackDigest := Some (Some (digestMigrationValue (mCollate env) (mHash env)
                  (rollbackDigestJson mid digest (sourceDigest r) answer)))\<rparr>)) reportAnswer)))
       | None \<Rightarrow> throw (migrationConflict ''Rollback is unavailable''))))))"

definition previewRollback :: "migrationEnv \<Rightarrow> string \<Rightarrow> string \<Rightarrow> string \<Rightarrow> migrationReport migration_call" where
  "previewRollback env pid mid answer = withMigrationLock env pid mid (previewRollbackBody env pid mid answer)"

definition rolledBackPatch :: "int \<Rightarrow> migrationPatch" where
  "rolledBackPatch t =
     emptyPatch\<lparr>newStatus := Some RolledBack, newPhase := Some Completed, newTarget := Some None, newCompleted := Some t,
       newError := Some None\<rparr>"

definition undoBody :: "migrationEnv \<Rightarrow> string \<Rightarrow> migrationSnapshot \<Rightarrow> migrationRecord \<Rightarrow> migrationRecord recorded_call" where
  "undoBody env pid current r =
     chain (during r (migPhase env r RestorePermissions)) (\<lambda>r1.
     before (during r1 (moveTo env pid current (sourceSnapshot r1)))
     (chain (during r1 (migPhase env r1 RestoreRuntimeMode)) (\<lambda>r2.
      before (during r2 (ensureMode env pid Compatibility))
      (chain (during r2 (migPhase env r2 VerifyRecoveryTarget)) (\<lambda>r3.
       chain (during r3 (currentSnapshot env pid)) (\<lambda>restored.
       before (during r3 (require (snapshotDigest env r3 restored = sourceDigest r3) (MigOther ''Rollback target digest mismatch'')))
       (before (during r3 (verifyRuntime env restored (recordPlan r3) Compatibility))
        (chain (during r3 (migNow env)) (\<lambda>t.
         during r3 (transitionMigration env (recordId r3) [RollingBack] (rolledBackPatch t)))))))))))"

definition rollbackBody :: "migrationEnv \<Rightarrow> string \<Rightarrow> string \<Rightarrow> string \<Rightarrow> string \<Rightarrow> migrationReport migration_call" where
  "rollbackBody env pid mid digest answer =
     chain (requireMigration env pid mid) (\<lambda>r.
     chain (requireProject env pid) (\<lambda>project.
     before (lift id (requireAlias project answer))
     (before (require (recordStatus r = Applied \<and> rollbackPreviewDigest r = Some digest \<and> digest \<noteq> []
          \<and> appliedSnapshot r \<noteq> None) (migrationConflict ''Rollback confirmation is stale''))
      (chain (snapshotProject env project) (\<lambda>current.
       before (require (Some (snapshotDigest env r current) = appliedDigest r) driftError)
       (chain (migNow env) (\<lambda>t.
        chain (transitionMigration env mid [Applied]
          (emptyPatch\<lparr>newStatus := Some RollingBack, newPhase := Some RollbackSnapshotCheck,
             newTarget := Some (Some ToApplied), newRollbackDigest := Some None, newStarted := Some t, newError := Some None\<rparr>))
          (\<lambda>r0.
        chain (trying (undoBody env pid current r0) (\<lambda>e r'. restoreAfterFailure env r' ToApplied True))
          reportAnswer))))))))"

definition rollbackMigration :: "migrationEnv \<Rightarrow> string \<Rightarrow> string \<Rightarrow> string \<Rightarrow> string \<Rightarrow> migrationReport migration_call" where
  "rollbackMigration env pid mid digest answer = withMigrationLock env pid mid (rollbackBody env pid mid digest answer)"

end
