(* ===== verification/Migration_Logic.thy ===== *)
theory Migration_Logic
  imports Migration_Flow
begin

text \<open>
  Rules for the effects of the migration service. What is kept when a call fails is kept when the process dies, so
  one predicate serves for both.
\<close>

subsection \<open>Calls\<close>

abbreviation tri ::
  "(migrationWorld \<Rightarrow> bool) \<Rightarrow> 'a migration_call \<Rightarrow> ('a \<Rightarrow> migrationWorld \<Rightarrow> bool) \<Rightarrow> (migrationWorld \<Rightarrow> bool) \<Rightarrow> bool" where
  "tri P m Q A \<equiv> triple P m Q (\<lambda>_. A) A"

abbreviation staysIn :: "(migrationWorld \<Rightarrow> bool) \<Rightarrow> 'a migration_call \<Rightarrow> bool" where
  "staysIn P m \<equiv> tri P m (\<lambda>_. P) P"

definition core :: "migrationWorld \<Rightarrow> migrationRecord list \<times> (string \<times> migrationProject) list \<times> (string \<times> jsval) list" where
  "core w = (migrations w, migProjects w, document w)"

text \<open>Predicates that do not look at the history of effects, and those that do not look at the rows either.\<close>

definition lasting :: "(migrationWorld \<Rightarrow> bool) \<Rightarrow> bool" where
  "lasting P \<longleftrightarrow> (\<forall>w w'. core w = core w' \<longrightarrow> P w = P w')"

definition outer :: "(migrationWorld \<Rightarrow> bool) \<Rightarrow> bool" where
  "outer P \<longleftrightarrow> (\<forall>w w'. migProjects w = migProjects w' \<and> document w = document w' \<longrightarrow> P w = P w')"

lemma core_happen [simp]: "core (happen ev w) = core w"
  by (simp add: core_def happen_def)

lemma happen_simps [simp]:
  "migrations (happen ev w) = migrations w" "migProjects (happen ev w) = migProjects w" "document (happen ev w) = document w"
  by (simp_all add: happen_def)

lemma lasting_happen: "lasting P \<Longrightarrow> P w \<Longrightarrow> P (happen ev w)"
  unfolding lasting_def by (metis core_happen)

lemma lasting_conj [intro]: "lasting P \<Longrightarrow> lasting Q \<Longrightarrow> lasting (\<lambda>w. P w \<and> Q w)"
  unfolding lasting_def by metis

lemma lasting_disj [intro]: "lasting P \<Longrightarrow> lasting Q \<Longrightarrow> lasting (\<lambda>w. P w \<or> Q w)"
  unfolding lasting_def by metis

lemma lasting_const [intro]: "lasting (\<lambda>w. b)"
  by (simp add: lasting_def)

lemma outer_lasting [intro]: "outer P \<Longrightarrow> lasting P"
  unfolding lasting_def outer_def core_def by (metis prod.inject)

lemma outer_conj [intro]: "outer P \<Longrightarrow> outer Q \<Longrightarrow> outer (\<lambda>w. P w \<and> Q w)"
  unfolding outer_def by metis

lemma outer_const [intro]: "outer (\<lambda>w. b)"
  by (simp add: outer_def)

lemma tri_effect:
  assumes "lasting P" "tri P act Q A" "\<And>w. P w \<Longrightarrow> A w" "\<And>x w. Q x w \<Longrightarrow> A w"
  shows "tri P (migEffect env ev act) Q A"
proof (rule tripleI)
  fix w r w'
  assume P: "P w" and run: "migEffect env ev act w = (r, w')"
  obtain x u where act: "act (happen ev w) = (x, u)" by (cases "act (happen ev w)")
  from tripleD [OF assms(2) lasting_happen [OF assms(1) P] act]
  have u: "case x of Answer a \<Rightarrow> Q a u | _ \<Rightarrow> A u" by (simp split: reply.splits)
  then have "A u" using assms(4) by (cases x) auto
  with u run act P assms(3) lasting_happen [OF assms(1) P, of ev]
  show "case r of Answer a \<Rightarrow> Q a w' | Thrown e \<Rightarrow> A w' | Crashed \<Rightarrow> A w'"
    by (auto simp: migEffect_def split: migrationFault.splits option.splits reply.splits)
qed

lemma tri_statement:
  assumes "lasting P" "\<And>w. P w \<Longrightarrow> A w" "\<And>x w. Q x w \<Longrightarrow> A w"
    and "\<And>w x w'. P w \<Longrightarrow> f w = Inr (x, w') \<Longrightarrow> Q x w'"
  shows "tri P (migStatement env name f) Q A"
  unfolding migStatement_def
  using assms(2,4) by (intro tri_effect [OF assms(1) _ assms(2,3)]) (auto simp: triple_def split: sum.splits)

lemma tri_query:
  assumes "lasting P"
  shows "tri P (migQuery env name f) (\<lambda>x w. P w \<and> f w = x) P"
  unfolding migQuery_def by (rule tri_statement [OF assms]) auto

lemma stays_query: "lasting P \<Longrightarrow> staysIn P (migQuery env name f)"
  by (rule triple_post [OF tri_query]) auto

lemma tri_text: "tri P (textError r) (\<lambda>a w. P w \<and> r = Inr a) P"
  unfolding textError_def by (rule triple_lift) auto

lemma stays_effect: "lasting P \<Longrightarrow> staysIn P act \<Longrightarrow> staysIn P (migEffect env ev act)"
  by (rule tri_effect) auto

lemma tri_weaken: "tri P m Q A \<Longrightarrow> (\<And>w. P' w \<Longrightarrow> P w) \<Longrightarrow> (\<And>x w. Q x w \<Longrightarrow> Q' x w) \<Longrightarrow> (\<And>w. A w \<Longrightarrow> A' w) \<Longrightarrow> tri P' m Q' A'"
  by (rule triple_conseq)

lemma tri_now: "tri P (migNow env) (\<lambda>_. P) P"
  unfolding migNow_def by (rule triple_look)

subsection \<open>Rows\<close>

lemma find_replace:
  assumes "findMigration i rows = Some q" "recordId r = i"
  shows "findMigration i (replaceMigration r rows) = Some r"
  using assms unfolding findMigration_def replaceMigration_def by (induction rows) (auto split: if_splits)

lemma find_id: "findMigration i rows = Some q \<Longrightarrow> recordId q = i"
  by (auto simp: findMigration_def find_Some_iff)

lemma patchRecord_ids [simp]:
  "recordId (patchRecord p r) = recordId r" "recordProject (patchRecord p r) = recordProject r"
  "sourceSnapshot (patchRecord p r) = sourceSnapshot r" "recordPlan (patchRecord p r) = recordPlan r"
  "sourceDigest (patchRecord p r) = sourceDigest r"
  "recordStatus (patchRecord p r) = patched (newStatus p) (recordStatus r)"
  "recoveryTarget (patchRecord p r) = patched (newTarget p) (recoveryTarget r)"
  "recordError (patchRecord p r) = patched (newError p) (recordError r)"
  "appliedSnapshot (patchRecord p r) = patchedOption (map_option fst (newApplied p)) (appliedSnapshot r)"
  "appliedDigest (patchRecord p r) = patchedOption (map_option snd (newApplied p)) (appliedDigest r)"
  by (simp_all add: patchRecord_def)

lemma patched_simps [simp]:
  "patched None x = x" "patched (Some y) x = y" "patchedOption None z = z" "patchedOption (Some y) z = Some y"
  by (simp_all add: patched_def patchedOption_def)

lemma emptyPatch_simps [simp]:
  "newStatus emptyPatch = None" "newPhase emptyPatch = None" "newTarget emptyPatch = None" "newApplied emptyPatch = None"
  "newError emptyPatch = None"
  by (simp_all add: emptyPatch_def)

lemma tri_transition:
  assumes "lasting P" "\<And>w. P w \<Longrightarrow> A w" "\<And>r w. Q r w \<Longrightarrow> A w"
    and "\<And>w q. P w \<Longrightarrow> findMigration mid (migrations w) = Some q \<Longrightarrow> recordStatus q \<in> set expected
      \<Longrightarrow> Q (patchRecord p q) (w\<lparr>migrations := replaceMigration (patchRecord p q) (migrations w)\<rparr>)"
  shows "tri P (transitionMigration env mid expected p) Q A"
  unfolding transitionMigration_def
  by (intro triple_if triple_throw tri_statement [OF assms(1-3)])
    (auto simp: transitionRow_def assms(2,4) split: option.splits if_splits)

text \<open>Everything the service keeps of a migration while it works on it.\<close>

definition alike :: "migrationRecord \<Rightarrow> migrationRecord \<Rightarrow> bool" where
  "alike q r \<longleftrightarrow>
     recordId q = recordId r \<and> recordProject q = recordProject r \<and> sourceSnapshot q = sourceSnapshot r
     \<and> recordPlan q = recordPlan r \<and> sourceDigest q = sourceDigest r \<and> appliedSnapshot q = appliedSnapshot r
     \<and> appliedDigest q = appliedDigest r \<and> recordStatus q = recordStatus r \<and> recoveryTarget q = recoveryTarget r"

definition held :: "migrationRecord \<Rightarrow> migrationWorld \<Rightarrow> bool" where
  "held r w \<longleftrightarrow> (\<exists>q. findMigration (recordId r) (migrations w) = Some q \<and> alike q r)"

lemma alike_refl [simp]: "alike r r"
  by (simp add: alike_def)

lemma lasting_held [intro]: "lasting (held r)"
  unfolding lasting_def held_def core_def by (metis prod.inject)

lemma tri_phase:
  assumes "alike r r0" "outer S"
  shows "tri (\<lambda>w. held r0 w \<and> S w) (migPhase env r phase) (\<lambda>r' w. alike r' r0 \<and> held r0 w \<and> S w) (\<lambda>w. held r0 w \<and> S w)"
  unfolding migPhase_def
proof (rule tri_transition)
  show "lasting (\<lambda>w. held r0 w \<and> S w)" using assms(2) by auto
  fix w q
  assume w: "held r0 w \<and> S w" and q: "findMigration (recordId r) (migrations w) = Some q"
  let ?q = "patchRecord (emptyPatch\<lparr>newPhase := Some phase\<rparr>) q"
  have id: "recordId r = recordId r0" using assms(1) by (simp add: alike_def)
  with w q have "alike q r0" by (simp add: held_def)
  then have "alike ?q r0" by (simp add: alike_def)
  moreover have "recordId ?q = recordId r0" using find_id [OF q] id by simp
  then have "findMigration (recordId r0) (replaceMigration ?q (migrations w)) = Some ?q"
    using find_replace [of "recordId r0" "migrations w" q ?q] q id by simp
  moreover have "S (w\<lparr>migrations := replaceMigration ?q (migrations w)\<rparr>)"
    using assms(2) w unfolding outer_def by (metis migrationWorld.select_convs(2,3) migrationWorld.surjective migrationWorld.update_convs(1))
  ultimately show "alike ?q r0 \<and> held r0 (w\<lparr>migrations := replaceMigration ?q (migrations w)\<rparr>)
      \<and> S (w\<lparr>migrations := replaceMigration ?q (migrations w)\<rparr>)"
    by (simp add: held_def)
qed auto

text \<open>No transition from a status that the row does not have.\<close>

lemma tri_transition_refused:
  assumes "lasting P" "\<And>w q. P w \<Longrightarrow> findMigration mid (migrations w) = Some q \<Longrightarrow> recordStatus q \<notin> set expected"
  shows "tri P (transitionMigration env mid expected p) (\<lambda>_ _. False) P"
  using assms by (intro tri_transition) auto

subsection \<open>The calls of a try\<close>

abbreviation tryTri ::
  "migrationRecord \<Rightarrow> (migrationWorld \<Rightarrow> bool) \<Rightarrow> 'a recorded_call \<Rightarrow> ('a \<Rightarrow> migrationWorld \<Rightarrow> bool)
   \<Rightarrow> (migrationWorld \<Rightarrow> bool) \<Rightarrow> bool" where
  "tryTri r0 P m Q A \<equiv> triple P m Q (\<lambda>e w. alike (snd e) r0 \<and> A w) A"

lemma tri_during: "alike r r0 \<Longrightarrow> tri P m Q A \<Longrightarrow> tryTri r0 P (during r m) Q A"
  by (rule tripleI) (auto simp: during_def split: prod.splits reply.splits dest: tripleD)

lemma tri_trying:
  assumes "tryTri r0 P m Q A'" "\<And>e r. alike r r0 \<Longrightarrow> tri A' (h e r) Q A" "\<And>w. A' w \<Longrightarrow> A w"
  shows "tri P (trying m h) Q A"
proof (rule tripleI)
  fix w x w'
  assume P: "P w" and run: "trying m h w = (x, w')"
  obtain y u where m: "m w = (y, u)" by (cases "m w")
  from tripleD [OF assms(1) P m]
  have "case y of Answer a \<Rightarrow> Q a u | Thrown e \<Rightarrow> alike (snd e) r0 \<and> A' u | Crashed \<Rightarrow> A' u" .
  with run m assms(3) show "case x of Answer a \<Rightarrow> Q a w' | Thrown e \<Rightarrow> A w' | Crashed \<Rightarrow> A w'"
    by (cases y) (auto simp: trying_def split: prod.splits dest: tripleD [OF assms(2)])
qed

end
