(* ===== verification/Migration_Outcome.thy ===== *)
theory Migration_Outcome
  imports Migration_Logic
begin

text \<open>
  What an operation on a migration leaves behind. Whatever fails, and wherever the process dies, nothing has changed,
  or the migration is marked as one that needs recovery, or it is settled: applied and verified, or
  undone with the metadata of its source.
\<close>

subsection \<open>What a snapshot would be\<close>

definition projectNow :: "string \<Rightarrow> migrationWorld \<Rightarrow> managedProject option" where
  "projectNow pid w =
     (case map_of (migProjects w) pid of
        Some p \<Rightarrow>
          (case migSchema p of
             Some s \<Rightarrow> if s = [] then None
               else Some \<lparr>projId = pid, projAlias = migAlias p, projSchema = s, projMode = migMode p\<rparr>
           | None \<Rightarrow> None)
      | None \<Rightarrow> None)"

definition snapshotFrom :: "migrationEnv \<Rightarrow> managedProject \<Rightarrow> (string \<times> jsval) list \<Rightarrow> migrationSnapshot option" where
  "snapshotFrom env project doc =
     (case inventoryRows env (projSchema project) of
        Inl e \<Rightarrow> None
      | Inr inventory \<Rightarrow> (case snapshotOf env project inventory doc of Inl e \<Rightarrow> None | Inr s \<Rightarrow> Some s))"

definition snapshotNow :: "migrationEnv \<Rightarrow> string \<Rightarrow> migrationWorld \<Rightarrow> migrationSnapshot option" where
  "snapshotNow env pid w = (case projectNow pid w of None \<Rightarrow> None | Some p \<Rightarrow> snapshotFrom env p (document w))"

definition modeNow :: "string \<Rightarrow> migrationWorld \<Rightarrow> runtimeMode option" where
  "modeNow pid w = map_option migMode (map_of (migProjects w) pid)"

text \<open>Exporting the metadata does not change it.\<close>

definition exportsRead :: "migrationEnv \<Rightarrow> bool" where
  "exportsRead env \<longleftrightarrow> (\<forall>tr d. snd (permissionEngine env tr ExportDocument d) = d)"

lemma outer_now [intro]:
  "outer (\<lambda>w. F (projectNow pid w))" "outer (\<lambda>w. G (snapshotNow env pid w))" "outer (\<lambda>w. H (modeNow pid w))"
  unfolding outer_def projectNow_def snapshotNow_def modeNow_def by (simp_all cong: option.case_cong)

lemma tri_requireProject:
  assumes "lasting P"
  shows "tri P (requireProject env pid) (\<lambda>p w. P w \<and> projectNow pid w = Some p) P"
  unfolding requireProject_def
  by (rule triple_chain [OF tri_query [OF assms]])
    (auto simp: projectNow_def intro!: triple_throw triple_give split: option.splits)

lemma stays_engineCall:
  assumes "lasting P" "\<And>w d. P w \<Longrightarrow> P (w\<lparr>document := d\<rparr>)"
  shows "staysIn P (engineCall env req)"
  unfolding engineCall_def
proof (rule triple_chain [where Q = "\<lambda>_. P"])
  show "staysIn P (look happened)" by (rule triple_look)
next
  fix tr
  show "staysIn P (migEffect env (EvEngine req) (\<lambda>w. case permissionEngine env tr req (document w) of (e, d) \<Rightarrow>
      (case e of Some m \<Rightarrow> (Thrown (MigOther m), w\<lparr>document := d\<rparr>) | None \<Rightarrow> (Answer d, w\<lparr>document := d\<rparr>))))"
    by (rule stays_effect [OF assms(1)]) (auto simp: triple_def assms(2) split: prod.splits option.splits)
qed

lemma tri_export:
  assumes "exportsRead env" "lasting P"
  shows "tri P (engineCall env ExportDocument) (\<lambda>d w. P w \<and> document w = d) P"
  unfolding engineCall_def
proof (rule triple_chain [where Q = "\<lambda>_. P"])
  show "staysIn P (look happened)" by (rule triple_look)
next
  fix tr
  have same: "permissionEngine env tr ExportDocument (document w) = (e, d) \<Longrightarrow> d = document w" for e d w
    using assms(1) unfolding exportsRead_def by (metis snd_conv)
  have "tri P (\<lambda>w. case permissionEngine env tr ExportDocument (document w) of (e, d) \<Rightarrow>
      (case e of Some m \<Rightarrow> (Thrown (MigOther m), w\<lparr>document := d\<rparr>) | None \<Rightarrow> (Answer d, w\<lparr>document := d\<rparr>)))
      (\<lambda>d w. P w \<and> document w = d) P"
    by (auto simp: triple_def dest!: same split: prod.splits option.splits)
  then show "tri P (migEffect env (EvEngine ExportDocument) (\<lambda>w. case permissionEngine env tr ExportDocument (document w) of (e, d) \<Rightarrow>
      (case e of Some m \<Rightarrow> (Thrown (MigOther m), w\<lparr>document := d\<rparr>) | None \<Rightarrow> (Answer d, w\<lparr>document := d\<rparr>))))
      (\<lambda>d w. P w \<and> document w = d) P"
    by (rule tri_effect [OF assms(2)]) auto
qed

lemma tri_snapshotProject:
  assumes "exportsRead env" "lasting P"
  shows "tri P (snapshotProject env project) (\<lambda>s w. P w \<and> snapshotFrom env project (document w) = Some s) P"
  unfolding snapshotProject_def
proof (rule triple_chain [where Q = "\<lambda>rows w. P w \<and> rows = inventoryRows env (projSchema project)"])
  show "tri P (migQuery env ''SELECT inventory'' (\<lambda>_. inventoryRows env (projSchema project)))
      (\<lambda>rows w. P w \<and> rows = inventoryRows env (projSchema project)) P"
    by (rule triple_post [OF tri_query [OF assms(2)]]) auto
next
  fix rows
  let ?P = "\<lambda>w. P w \<and> rows = inventoryRows env (projSchema project)"
  have P: "lasting ?P" using assms(2) by auto
  show "tri ?P (chain (textError rows) (\<lambda>inventory. chain (engineCall env ExportDocument)
      (\<lambda>doc. textError (snapshotOf env project inventory doc))))
      (\<lambda>s w. P w \<and> snapshotFrom env project (document w) = Some s) P"
  proof (rule triple_chain [where Q = "\<lambda>inventory w. P w \<and> inventoryRows env (projSchema project) = Inr inventory"])
    show "tri ?P (textError rows) (\<lambda>inventory w. P w \<and> inventoryRows env (projSchema project) = Inr inventory) P"
      by (rule tri_weaken [OF tri_text [where P = ?P]]) auto
  next
    fix inventory
    let ?Q = "\<lambda>w. P w \<and> inventoryRows env (projSchema project) = Inr inventory"
    have Q: "lasting ?Q" using assms(2) by auto
    show "tri ?Q (chain (engineCall env ExportDocument) (\<lambda>doc. textError (snapshotOf env project inventory doc)))
      (\<lambda>s w. P w \<and> snapshotFrom env project (document w) = Some s) P"
    proof (rule triple_chain)
      show "tri ?Q (engineCall env ExportDocument) (\<lambda>d w. ?Q w \<and> document w = d) P"
        by (rule tri_weaken [OF tri_export [OF assms(1) Q]]) auto
      show "tri (\<lambda>w. ?Q w \<and> document w = doc) (textError (snapshotOf env project inventory doc))
          (\<lambda>s w. P w \<and> snapshotFrom env project (document w) = Some s) P" for doc
        by (rule tri_weaken [OF tri_text [where P = "\<lambda>w. ?Q w \<and> document w = doc"]]) (auto simp: snapshotFrom_def)
    qed
  qed
qed

lemma tri_currentSnapshot:
  assumes "exportsRead env" "lasting P"
  shows "tri P (currentSnapshot env pid) (\<lambda>s w. P w \<and> snapshotNow env pid w = Some s) P"
  unfolding currentSnapshot_def
proof (rule triple_chain [OF tri_requireProject [OF assms(2)]])
  fix p
  have "outer (\<lambda>w. projectNow pid w = Some p)" by (rule outer_now)
  then have "lasting (\<lambda>w. P w \<and> projectNow pid w = Some p)" using assms(2) by auto
  from tri_snapshotProject [OF assms(1) this, of p]
  show "tri (\<lambda>w. P w \<and> projectNow pid w = Some p) (snapshotProject env p) (\<lambda>s w. P w \<and> snapshotNow env pid w = Some s) P"
    by (rule tri_weaken) (auto simp: snapshotNow_def)
qed

subsection \<open>Calls that keep the rows\<close>

text \<open>Writing permissions changes the document, activating a mode the projects; probes change nothing.\<close>

lemma stays_commands:
  assumes "lasting P" "\<And>w d. P w \<Longrightarrow> P (w\<lparr>document := d\<rparr>)"
  shows "staysIn P (applyPermissionCommands env commands)"
  unfolding applyPermissionCommands_def
  by (intro keeping stays_engineCall assms) auto

lemma stays_moveTo:
  assumes "lasting P" "\<And>w d. P w \<Longrightarrow> P (w\<lparr>document := d\<rparr>)"
  shows "staysIn P (moveTo env pid current target)"
  unfolding moveTo_def commandsBetween_def textError_def
  by (intro keeping stays_commands assms) auto

lemma stays_probeOne: "lasting P \<Longrightarrow> staysIn P (probeOne env s plan context)"
  unfolding probeOne_def textError_def by (intro keeping stays_effect) auto

lemma stays_probeAll: "lasting P \<Longrightarrow> staysIn P (probeAll env s plan contexts)"
  by (induction contexts) (auto intro!: keeping stays_probeOne)

lemma stays_connectOne: "lasting P \<Longrightarrow> staysIn P (connectOne env context)"
  unfolding connectOne_def by (intro keeping stays_effect) (auto intro!: triple_throw triple_give split: option.splits)

lemma stays_connectAll: "lasting P \<Longrightarrow> staysIn P (connectAll env contexts)"
  by (induction contexts) (auto intro!: keeping stays_connectOne)

lemma stays_realtime: "lasting P \<Longrightarrow> staysIn P (verifyMigrationRealtimeActors env contexts)"
  unfolding verifyMigrationRealtimeActors_def textError_def
  by (intro keeping stays_connectAll stays_effect)

lemma stays_prepared:
  assumes "lasting P"
  shows "staysIn P (verifyPreparedMetadata env current source plan)" "staysIn P (verifyPreparedHttp env current plan)"
    "staysIn P (verifyPreparedRealtime env current)"
  unfolding verifyPreparedMetadata_def verifyPreparedHttp_def verifyPreparedRealtime_def textError_def variablesOf_def
  by (intro keeping stays_probeAll stays_realtime stays_query assms)+

definition verifiedSnapshot :: "migrationEnv \<Rightarrow> migrationSnapshot \<Rightarrow> migrationPlan \<Rightarrow> bool" where
  "verifiedSnapshot env s plan \<longleftrightarrow>
     (\<exists>roles. projectRoles env (snapProject s) = Inr roles
        \<and> verifyMigrationMetadata (mCollate env) (mHash env) (mNumber env) s s plan roles LegacyRemoved = Inr ())"

lemma tri_verifyRuntime:
  assumes "lasting P"
  shows "tri P (verifyRuntime env s plan mode) (\<lambda>_ w. P w \<and> (mode \<noteq> Explicit \<or> verifiedSnapshot env s plan)) P"
  unfolding verifyRuntime_def Let_def
proof (rule triple_chain [OF tri_text])
  fix roles
  let ?R = "\<lambda>w. P w \<and> projectRoles env (snapProject s) = Inr roles"
  let ?V = "\<lambda>w. P w \<and> (mode \<noteq> Explicit \<or> verifiedSnapshot env s plan)"
  have R: "lasting ?R" and V: "lasting ?V" using assms by auto
  have checks: "tri ?R (if mode = Explicit
        then textError (verifyMigrationMetadata (mCollate env) (mHash env) (mNumber env) s s plan roles LegacyRemoved)
        else give ()) (\<lambda>_. ?V) P"
  proof (cases "mode = Explicit")
    case True
    then show ?thesis by simp (rule tri_weaken [OF tri_text [where P = ?R]], auto simp: verifiedSnapshot_def)
  qed (auto intro!: triple_give)
  have rest: "tri ?V (chain (if mode = Explicit then textError (buildActiveRuntimeHttpContexts (mRoleHash env) (snapProject s) mode vars)
         else give (compatibilityContexts vars)) (\<lambda>contexts. before (probeAll env s plan' contexts)
         (verifyMigrationRealtimeActors env (buildMigrationRealtimeContexts (mRoleHash env) (snapProject s) mode vars)))) (\<lambda>_. ?V) P"
    for vars plan'
    by (rule tri_weaken [where P = ?V and Q = "\<lambda>_. ?V" and A = ?V])
      (auto simp: textError_def intro!: keeping stays_probeAll stays_realtime assms lasting_conj lasting_const)
  show "tri ?R (chain (variablesOf env (snapProject s)) (\<lambda>vars.
      before (if mode = Explicit
          then textError (verifyMigrationMetadata (mCollate env) (mHash env) (mNumber env) s s plan roles LegacyRemoved)
          else give ())
       (chain (if mode = Explicit then textError (buildActiveRuntimeHttpContexts (mRoleHash env) (snapProject s) mode vars)
           else give (compatibilityContexts vars)) (\<lambda>contexts.
        before (probeAll env s (if mode = Explicit then plan
             else buildProjectMigrationPlan (mCollate env) (mNumber env) s roles []) contexts)
        (verifyMigrationRealtimeActors env (buildMigrationRealtimeContexts (mRoleHash env) (snapProject s) mode vars))))))
      (\<lambda>_. ?V) P"
  proof (rule triple_chain [where Q = "\<lambda>_. ?R"])
    show "tri ?R (variablesOf env (snapProject s)) (\<lambda>_. ?R) P"
      unfolding variablesOf_def by (rule tri_weaken [OF stays_query [OF R]]) auto
  qed (rule triple_before [OF checks rest])
qed

end
