(* ===== verification/Migration_Recovery.thy ===== *)
theory Migration_Recovery
  imports Migration_Outcome
begin

text \<open>
  Every operation of a migration ends settled, or owes a recovery, or has changed nothing.
\<close>

subsection \<open>Settled migrations\<close>

text \<open>The metadata and the mode are those of the target, and the explicit target is verified.\<close>

definition atTarget :: "migrationEnv \<Rightarrow> migrationRecord \<Rightarrow> recoveryTarget \<Rightarrow> migrationWorld \<Rightarrow> bool" where
  "atTarget env r target w \<longleftrightarrow>
     modeNow (recordProject r) w = Some (targetMode target)
     \<and> (\<exists>s. snapshotNow env (recordProject r) w = Some s \<and> targetDigest target r = Some (snapshotDigest env r s)
          \<and> (target = ToSource \<or> verifiedSnapshot env s (recordPlan r)))"

definition settled :: "migrationEnv \<Rightarrow> migrationRecord \<Rightarrow> migrationWorld \<Rightarrow> bool" where
  "settled env r w \<longleftrightarrow>
     (recordStatus r = Applied \<and> atTarget env r ToApplied w)
     \<or> (recordStatus r \<in> {Failed, Recovered, RolledBack} \<and> atTarget env r ToSource w)"

text \<open>The outcome of an operation that started in \<open>w0\<close>.\<close>

definition migrationOutcome :: "migrationEnv \<Rightarrow> string \<Rightarrow> migrationWorld \<Rightarrow> migrationWorld \<Rightarrow> bool" where
  "migrationOutcome env mid w0 w \<longleftrightarrow>
     core w = core w0
     \<or> (\<exists>q. findMigration mid (migrations w) = Some q \<and> (isRecoveryRequired q \<or> settled env q w))"

lemma lasting_core [intro]: "lasting (\<lambda>w. core w = c)"
  by (simp add: lasting_def)

lemma outer_atTarget [intro]: "outer (atTarget env r target)"
proof -
  have "outer (\<lambda>w. modeNow (recordProject r) w = Some (targetMode target))"
    "outer (\<lambda>w. \<exists>s. snapshotNow env (recordProject r) w = Some s \<and> targetDigest target r = Some (snapshotDigest env r s)
          \<and> (target = ToSource \<or> verifiedSnapshot env s (recordPlan r)))"
    by (rule outer_now)+
  then show ?thesis unfolding atTarget_def by (rule outer_conj)
qed

lemma atTarget_alike: "alike q r \<Longrightarrow> atTarget env q target w = atTarget env r target w"
  by (cases target) (simp_all add: atTarget_def alike_def snapshotDigest_def)

lemma outer_rows: "outer S \<Longrightarrow> S (w\<lparr>migrations := rows\<rparr>) = S w"
  unfolding outer_def by (metis migrationWorld.select_convs(2,3) migrationWorld.surjective migrationWorld.update_convs(1))

lemma atTarget_rows [simp]: "atTarget env r target (w\<lparr>migrations := rows\<rparr>) = atTarget env r target w"
  by (rule outer_rows) (rule outer_atTarget)

lemma settled_rows [simp]: "settled env r (w\<lparr>migrations := rows\<rparr>) = settled env r w"
  by (simp add: settled_def)

lemma lasting_row:
  assumes "\<And>q. outer (S q)"
  shows "lasting (\<lambda>w. \<exists>q. findMigration mid (migrations w) = Some q \<and> S q w)"
  using assms unfolding lasting_def outer_def core_def by (metis prod.inject)

lemma outer_settled [intro]: "outer (\<lambda>w. settled env q w)"
  using outer_atTarget unfolding settled_def outer_def by metis

lemma lasting_outcome [intro]: "lasting (migrationOutcome env mid w0)"
proof -
  have "outer (\<lambda>w. isRecoveryRequired q \<or> settled env q w)" for q
    using outer_settled unfolding outer_def by metis
  from lasting_row [OF this] show ?thesis unfolding migrationOutcome_def by auto
qed

subsection \<open>Busy migrations\<close>

text \<open>A migration that is being applied or undone owes a recovery if it stops.\<close>

lemma owed_when_held:
  assumes "held r w" "isRecoveryRequired r" "recordStatus r \<noteq> Failed" "recordId r = mid"
  shows "migrationOutcome env mid w0 w"
proof -
  obtain q where q: "findMigration mid (migrations w) = Some q" "alike q r" using assms(1,4) by (auto simp: held_def)
  then have "isRecoveryRequired q" using assms(2,3) by (auto simp: isRecoveryRequired_def alike_def)
  with q(1) show ?thesis by (auto simp: migrationOutcome_def)
qed

lemma held_document: "held r w \<Longrightarrow> held r (w\<lparr>document := d\<rparr>)"
  by (simp add: held_def)

lemma tri_pureI: "(b \<Longrightarrow> triple P m Q R K) \<Longrightarrow> triple (\<lambda>w. b \<and> P w) m Q R K"
  by (auto simp: triple_def)

lemma tri_false: "triple (\<lambda>w. False) m Q R K"
  by (simp add: triple_def)

lemma tri_disj: "tri P m Q A \<Longrightarrow> tri P' m Q A \<Longrightarrow> tri (\<lambda>w. P w \<or> P' w) m Q A"
  unfolding triple_def by auto

lemma tri_phase_then:
  assumes "alike r r0" "outer S" "\<And>w. held r0 w \<Longrightarrow> A w"
    and "\<And>r'. alike r' r0 \<Longrightarrow> tri (\<lambda>w. held r0 w \<and> S w) (f r') Q A"
  shows "tri (\<lambda>w. held r0 w \<and> S w) (chain (migPhase env r phase) f) Q A"
proof (rule triple_chain [where Q = "\<lambda>r' w. alike r' r0 \<and> held r0 w \<and> S w"])
  show "tri (\<lambda>w. held r0 w \<and> S w) (migPhase env r phase) (\<lambda>r' w. alike r' r0 \<and> held r0 w \<and> S w) A"
    by (rule tri_weaken [OF tri_phase [OF assms(1,2)]]) (auto intro: assms(3))
  show "tri (\<lambda>w. alike r' r0 \<and> held r0 w \<and> S w) (f r') Q A" for r'
    by (rule tri_pureI) (rule assms(4))
qed

lemma tri_require: "(\<And>w. P w \<Longrightarrow> A w) \<Longrightarrow> tri P (require b e) (\<lambda>_ w. b \<and> P w) A"
  by (rule triple_require) auto

lemma modeNow_set:
  assumes "setMigMode pid expected mode w = (True, w')"
  shows "modeNow pid w' = Some mode \<and> migrations w' = migrations w"
  using assms by (auto simp: setMigMode_def modeNow_def update_conv' split: option.splits if_splits)

lemma setMigMode_refused: "setMigMode pid expected mode w = (False, w') \<Longrightarrow> w' = w"
  by (auto simp: setMigMode_def split: option.splits if_splits)

lemma tri_setMode:
  "tri (held r0) (setProjectDataAccessMode env pid expected mode)
     (\<lambda>ok w. held r0 w \<and> (ok \<longrightarrow> modeNow pid w = Some mode)) (held r0)"
  unfolding setProjectDataAccessMode_def
proof (rule tri_statement)
  fix w x w'
  assume w: "held r0 w" and eq: "Inr (setMigMode pid expected mode w) = Inr (x, w')"
  show "held r0 w' \<and> (x \<longrightarrow> modeNow pid w' = Some mode)"
  proof (cases x)
    case True
    with eq modeNow_set [of pid expected mode w w'] w show ?thesis by (simp add: held_def)
  next
    case False
    with eq setMigMode_refused [of pid expected mode w w'] w show ?thesis by simp
  qed
qed auto

lemma tri_ensureMode:
  "tri (held r0) (ensureMode env pid mode) (\<lambda>_ w. held r0 w \<and> modeNow pid w = Some mode) (held r0)"
  unfolding ensureMode_def
proof (rule triple_chain [OF tri_requireProject [OF lasting_held]])
  fix p
  let ?P = "\<lambda>w. held r0 w \<and> projectNow pid w = Some p"
  have change: "tri ?P (chain (setProjectDataAccessMode env pid (projMode p) mode)
      (\<lambda>ok. require ok (MigOther ''Project runtime mode changed during recovery'')))
      (\<lambda>_ w. held r0 w \<and> modeNow pid w = Some mode) (held r0)"
  proof (rule triple_chain)
    show "tri ?P (setProjectDataAccessMode env pid (projMode p) mode)
        (\<lambda>ok w. held r0 w \<and> (ok \<longrightarrow> modeNow pid w = Some mode)) (held r0)"
      by (rule triple_pre [OF tri_setMode]) simp
    show "tri (\<lambda>w. held r0 w \<and> (ok \<longrightarrow> modeNow pid w = Some mode))
        (require ok (MigOther ''Project runtime mode changed during recovery''))
        (\<lambda>_ w. held r0 w \<and> modeNow pid w = Some mode) (held r0)" for ok
      by (rule triple_require) auto
  qed
  show "tri ?P (if projMode p = mode then give () else chain (setProjectDataAccessMode env pid (projMode p) mode)
      (\<lambda>ok. require ok (MigOther ''Project runtime mode changed during recovery'')))
      (\<lambda>_ w. held r0 w \<and> modeNow pid w = Some mode) (held r0)"
    using change
    by (intro triple_if triple_give) (auto simp: projectNow_def modeNow_def split: option.splits if_splits)
qed

subsection \<open>Restoring\<close>

lemma tri_restoreTarget:
  assumes "exportsRead env" "alike r r0"
  shows "tri (held r0) (restoreTarget env r target)
    (\<lambda>r' w. alike r' r0 \<and> held r0 w \<and> atTarget env r0 target w) (held r0)"
proof (cases "(targetSnapshot target r, targetDigest target r)")
  case (Pair goal digest)
  show ?thesis
  proof (cases "goal = None \<or> digest = None")
    case True
    with Pair show ?thesis unfolding restoreTarget_def by (auto intro!: triple_throw split: option.splits)
  next
    case False
    then obtain g d where gd: "goal = Some g" "digest = Some d" by auto
    have d: "targetDigest target r0 = Some d" using Pair gd assms(2) by (cases target) (auto simp: alike_def)
    let ?pid = "recordProject r0"
    let ?M = "\<lambda>w. modeNow ?pid w = Some (targetMode target)"
    have M: "outer ?M" by (rule outer_now)
    let ?T = "\<lambda>w. held r0 w \<and> atTarget env r0 target w"
    let ?Q = "\<lambda>r' w. alike r' r0 \<and> held r0 w \<and> atTarget env r0 target w"
    have check: "tri (\<lambda>w. (held r0 w \<and> ?M w) \<and> snapshotNow env ?pid w = Some s)
        (before (require (snapshotDigest env r3 s = d) (MigOther ''Recovery target digest mismatch''))
          (before (verifyRuntime env s (recordPlan r3) (targetMode target)) (give r3))) ?Q (held r0)"
      if r3: "alike r3 r0" for r3 s
    proof -
      let ?N = "\<lambda>w. (held r0 w \<and> ?M w) \<and> snapshotNow env ?pid w = Some s"
      let ?N' = "\<lambda>w. snapshotDigest env r3 s = d \<and> ?N w"
      have "outer (\<lambda>w. snapshotNow env ?pid w = Some s)" by (rule outer_now)
      then have N': "lasting ?N'" using M by (intro lasting_conj lasting_const lasting_held outer_lasting)
      have plan: "recordPlan r3 = recordPlan r0" "snapshotDigest env r3 s = snapshotDigest env r0 s"
        using r3 by (simp_all add: alike_def snapshotDigest_def)
      have "tri ?N' (verifyRuntime env s (recordPlan r3) (targetMode target)) (\<lambda>_. ?T) (held r0)"
      proof (rule tri_weaken [OF tri_verifyRuntime [OF N']])
        fix w
        assume "?N' w \<and> (targetMode target \<noteq> Explicit \<or> verifiedSnapshot env s (recordPlan r3))"
        then have "held r0 w" "?M w" "snapshotNow env ?pid w = Some s" "snapshotDigest env r0 s = d"
          and v: "targetMode target \<noteq> Explicit \<or> verifiedSnapshot env s (recordPlan r0)" unfolding plan by blast+
        moreover from v have "target = ToSource \<or> verifiedSnapshot env s (recordPlan r0)" by (cases target) simp_all
        ultimately show "?T w" unfolding atTarget_def using d by blast
      qed blast+
      then have "tri ?N' (before (verifyRuntime env s (recordPlan r3) (targetMode target)) (give r3)) ?Q (held r0)"
        by (rule triple_before) (rule triple_give, simp add: r3)
      then show ?thesis by (rule triple_before [OF tri_require, rotated]) simp
    qed
    have finish: "tri (\<lambda>w. held r0 w \<and> ?M w) (chain (currentSnapshot env (recordProject r3)) (\<lambda>restored.
        before (require (snapshotDigest env r3 restored = d) (MigOther ''Recovery target digest mismatch''))
          (before (verifyRuntime env restored (recordPlan r3) (targetMode target)) (give r3)))) ?Q (held r0)"
      if r3: "alike r3 r0" for r3
    proof (rule triple_chain [OF _ check [OF r3]])
      have "recordProject r3 = ?pid" using r3 by (simp add: alike_def)
      moreover have "lasting (\<lambda>w. held r0 w \<and> ?M w)" using M by auto
      ultimately show "tri (\<lambda>w. held r0 w \<and> ?M w) (currentSnapshot env (recordProject r3))
          (\<lambda>s w. (held r0 w \<and> ?M w) \<and> snapshotNow env ?pid w = Some s) (held r0)"
        using tri_currentSnapshot [OF assms(1), of "\<lambda>w. held r0 w \<and> ?M w" ?pid] by (auto elim!: tri_weaken)
    qed
    note phase = tri_phase_then [where S = "\<lambda>_. True", OF _ outer_const, simplified]
    have mode: "tri (held r0) (ensureMode env (recordProject r2) (targetMode target)) (\<lambda>_ w. held r0 w \<and> ?M w) (held r0)"
      if "alike r2 r0" for r2
      using tri_ensureMode [of r0 env "recordProject r2" "targetMode target"] that by (simp add: alike_def)
    have moved: "tri (held r0) (moveTo env (recordProject r1) current g) (\<lambda>_. held r0) (held r0)" for r1 current
      by (rule stays_moveTo) (auto intro: held_document)
    have seen: "tri (held r0) (currentSnapshot env (recordProject r1)) (\<lambda>_. held r0) (held r0)" for r1
      by (rule triple_post [OF tri_currentSnapshot [OF assms(1) lasting_held]]) simp
    have "restoreTarget env r target = before (require (d \<noteq> []) (MigOther ''Recovery target is unavailable''))
          (chain (migPhase env r RestorePermissions) (\<lambda>r1.
           chain (currentSnapshot env (recordProject r1)) (\<lambda>current.
           before (moveTo env (recordProject r1) current g)
           (chain (migPhase env r1 RestoreRuntimeMode) (\<lambda>r2.
            before (ensureMode env (recordProject r2) (targetMode target))
            (chain (migPhase env r2 VerifyRecoveryTarget) (\<lambda>r3.
             chain (currentSnapshot env (recordProject r3)) (\<lambda>restored.
             before (require (snapshotDigest env r3 restored = d) (MigOther ''Recovery target digest mismatch''))
             (before (verifyRuntime env restored (recordPlan r3) (targetMode target))
              (give r3))))))))))"
      using Pair gd by (simp add: restoreTarget_def)
    moreover have "tri (held r0) \<dots> ?Q (held r0)"
      apply (rule triple_before [where Q = "held r0"])
      apply (rule triple_require; simp)
      apply (rule phase [OF assms(2)])
      apply simp
      apply (rule triple_chain [OF seen])
      apply (rule triple_before [OF moved])
      apply (rule phase, assumption, simp)
      apply (rule triple_before [OF mode], assumption)
      apply (rule tri_phase_then [OF _ M], assumption, simp)
      apply (rule finish, assumption)
      done
    ultimately show ?thesis by simp
  qed
qed

subsection \<open>The bodies of the tries\<close>

text \<open>The row has left the status of the local record and is settled: the last transition took effect and was lost.\<close>

definition finished :: "migrationEnv \<Rightarrow> migrationRecord \<Rightarrow> migrationWorld \<Rightarrow> bool" where
  "finished env r0 w \<longleftrightarrow>
     (\<exists>q. findMigration (recordId r0) (migrations w) = Some q \<and> recordStatus q \<noteq> recordStatus r0 \<and> settled env q w)"

lemma lasting_finished [intro]: "lasting (finished env r0)"
proof -
  have "outer (\<lambda>w. recordStatus q \<noteq> recordStatus r0 \<and> settled env q w)" for q
    using outer_settled by (rule outer_conj [OF outer_const])
  from lasting_row [OF this] show ?thesis unfolding finished_def .
qed

lemma finished_outcome: "finished env r0 w \<Longrightarrow> recordId r0 = mid \<Longrightarrow> migrationOutcome env mid w0 w"
  by (auto simp: finished_def migrationOutcome_def)

lemma try_phase_then:
  assumes "alike r r0" "outer S" "\<And>w. held r0 w \<Longrightarrow> A w"
    and "\<And>r'. alike r' r0 \<Longrightarrow> tryTri r0 (\<lambda>w. held r0 w \<and> S w) (f r') Q A"
  shows "tryTri r0 (\<lambda>w. held r0 w \<and> S w) (chain (during r (migPhase env r phase)) f) Q A"
proof (rule triple_chain [where Q = "\<lambda>r' w. alike r' r0 \<and> held r0 w \<and> S w"])
  show "tryTri r0 (\<lambda>w. held r0 w \<and> S w) (during r (migPhase env r phase)) (\<lambda>r' w. alike r' r0 \<and> held r0 w \<and> S w) A"
    by (rule tri_during [OF assms(1) tri_weaken [OF tri_phase [OF assms(1,2)]]]) (auto intro: assms(3))
  show "tryTri r0 (\<lambda>w. alike r' r0 \<and> held r0 w \<and> S w) (f r') Q A" for r'
    by (rule tri_pureI) (rule assms(4))
qed

lemmas try_phase = try_phase_then [where S = "\<lambda>_. True", OF _ outer_const, simplified]

lemma stays_target: "staysIn P (migrationTarget env pid current plan keep mode)"
  unfolding migrationTarget_def textError_def by (intro keeping)

lemma held_moved: "staysIn (held r0) (moveTo env pid current target)"
  by (rule stays_moveTo) (auto intro: held_document)

lemma held_seen: "exportsRead env \<Longrightarrow> staysIn (held r0) (currentSnapshot env pid)"
  by (rule triple_post [OF tri_currentSnapshot]) auto

lemma held_prepared:
  "staysIn (held r0) (verifyPreparedMetadata env current source plan)" "staysIn (held r0) (verifyPreparedHttp env current plan)"
  "staysIn (held r0) (verifyPreparedRealtime env current)"
  by (rule stays_prepared; rule lasting_held)+

lemma try_prepareScoped:
  assumes "exportsRead env" "alike r r0"
  shows "tryTri r0 (held r0) (prepareScoped env pid current r) (\<lambda>x w. alike (snd x) r0 \<and> held r0 w) (held r0)"
  unfolding prepareScoped_def
  apply (rule triple_chain [OF tri_during [OF assms(2) stays_target]])
  apply (rule try_phase [OF assms(2)], simp)
  apply (rule triple_before [OF tri_during [OF _ held_moved]], assumption)
  apply (rule try_phase, assumption, simp)
  apply (rule triple_chain [OF tri_during [OF _ held_seen [OF assms(1)]]], assumption)
  apply (rule triple_before [OF tri_during [OF _ held_prepared(1)]], assumption)
  apply (rule try_phase, assumption, simp)
  apply (rule triple_before [OF tri_during [OF _ held_prepared(2)]], assumption)
  apply (rule try_phase, assumption, simp)
  apply (rule triple_before [OF tri_during [OF _ held_prepared(3)]], assumption)
  apply (rule triple_give, simp)
  done

text \<open>A final transition out of the status of the local record.\<close>

lemma tri_finish:
  assumes "alike r r0" "lasting P" "\<And>w. P w \<Longrightarrow> held r0 w"
    and "\<And>q w. P w \<Longrightarrow> alike q r0 \<Longrightarrow> recordStatus (patchRecord p q) \<noteq> recordStatus r0 \<and> settled env (patchRecord p q) w"
  shows "tri P (transitionMigration env (recordId r) expected p)
    (\<lambda>_. finished env r0) (\<lambda>w. held r0 w \<or> finished env r0 w)"
proof (rule tri_transition)
  fix w q
  assume w: "P w" and q: "findMigration (recordId r) (migrations w) = Some q"
  let ?q = "patchRecord p q"
  have id: "recordId r = recordId r0" using assms(1) by (simp add: alike_def)
  with assms(3) [OF w] q have "alike q r0" by (simp add: held_def)
  with assms(4) [OF w] have "recordStatus ?q \<noteq> recordStatus r0" "settled env ?q w" by blast+
  moreover have "findMigration (recordId r0) (replaceMigration ?q (migrations w)) = Some ?q"
    using find_replace [of "recordId r0" "migrations w" q ?q] q id find_id [OF q] by simp
  ultimately show "finished env r0 (w\<lparr>migrations := replaceMigration ?q (migrations w)\<rparr>)" by (auto simp: finished_def)
qed (auto intro: assms)

lemma tri_activate:
  "tri (held r0) (activateExplicit env pid) (\<lambda>_ w. held r0 w \<and> modeNow pid w = Some Explicit) (held r0)"
  unfolding activateExplicit_def
  by (rule triple_chain [OF tri_setMode], rule triple_require) auto

lemma try_removeLegacy:
  assumes "exportsRead env" "alike r r0" "recordStatus r0 = Applying" "recordProject r0 = pid"
  shows "tryTri r0 (held r0) (removeLegacy env pid prepared r) (\<lambda>_. finished env r0) (\<lambda>w. held r0 w \<or> finished env r0 w)"
proof -
  let ?A = "\<lambda>w. held r0 w \<or> finished env r0 w"
  let ?M = "\<lambda>w. modeNow pid w = Some Explicit"
  have M: "outer ?M" by (rule outer_now)
  have final: "tryTri r0 (\<lambda>w. (held r0 w \<and> ?M w) \<and> snapshotNow env pid w = Some s)
      (before (during r3 (verifyRuntime env s (recordPlan r3) Explicit))
       (chain (during r3 (migNow env)) (\<lambda>t.
        during r3 (transitionMigration env (recordId r3) [Applying] (appliedPatch s (snapshotDigest env r3 s) t)))))
      (\<lambda>_. finished env r0) ?A" if r3: "alike r3 r0" for r3 s
  proof -
    let ?N = "\<lambda>w. (held r0 w \<and> ?M w) \<and> snapshotNow env pid w = Some s"
    let ?V = "\<lambda>w. ?N w \<and> (Explicit \<noteq> Explicit \<or> verifiedSnapshot env s (recordPlan r3))"
    have "outer (\<lambda>w. snapshotNow env pid w = Some s)" by (rule outer_now)
    then have N: "lasting ?N" using M by (intro lasting_conj lasting_held outer_lasting)
    have V: "lasting ?V" by (rule lasting_conj [OF N lasting_const])
    have plan: "recordPlan r3 = recordPlan r0" using r3 by (simp add: alike_def)
    have "tri ?V (transitionMigration env (recordId r3) [Applying] (appliedPatch s (snapshotDigest env r3 s) t))
        (\<lambda>_. finished env r0) ?A" for t
    proof (rule tri_finish [OF r3 V])
      fix q w
      assume w: "?V w" and q: "alike q r0"
      let ?q = "patchRecord (appliedPatch s (snapshotDigest env r3 s) t) q"
      have "recordProject ?q = pid" "recordPlan ?q = recordPlan r3" "recordStatus ?q = Applied"
        "appliedDigest ?q = Some (snapshotDigest env r3 s)"
        using q assms(4) plan by (simp_all add: alike_def appliedPatch_def)
      then show "recordStatus ?q \<noteq> recordStatus r0 \<and> settled env ?q w"
        using w assms(3) by (auto simp: settled_def atTarget_def snapshotDigest_def)
    qed auto
    note transit = tri_during [OF r3 this]
    have "tryTri r0 ?V (chain (during r3 (migNow env)) (\<lambda>t.
        during r3 (transitionMigration env (recordId r3) [Applying] (appliedPatch s (snapshotDigest env r3 s) t))))
        (\<lambda>_. finished env r0) ?A"
      by (rule triple_chain [OF tri_during [OF r3 tri_weaken [OF tri_now [where P = ?V]]] transit]) auto
    moreover have "tri ?N (verifyRuntime env s (recordPlan r3) Explicit) (\<lambda>_. ?V) ?A"
      by (rule tri_weaken [OF tri_verifyRuntime [OF N]]) auto
    ultimately show ?thesis by (intro triple_before [OF tri_during [OF r3]])
  qed
  have last: "tryTri r0 (\<lambda>w. held r0 w \<and> ?M w) (chain (during r3 (currentSnapshot env pid)) (\<lambda>s.
       before (during r3 (verifyRuntime env s (recordPlan r3) Explicit))
       (chain (during r3 (migNow env)) (\<lambda>t.
        during r3 (transitionMigration env (recordId r3) [Applying] (appliedPatch s (snapshotDigest env r3 s) t))))))
      (\<lambda>_. finished env r0) ?A" if r3: "alike r3 r0" for r3
  proof (rule triple_chain [OF tri_during [OF r3] final [OF r3]])
    have "lasting (\<lambda>w. held r0 w \<and> ?M w)" using M by auto
    from tri_currentSnapshot [OF assms(1) this]
    show "tri (\<lambda>w. held r0 w \<and> ?M w) (currentSnapshot env pid)
        (\<lambda>s w. (held r0 w \<and> ?M w) \<and> snapshotNow env pid w = Some s) ?A"
      by (rule tri_weaken) auto
  qed
  have target: "tri (held r0) (migrationTarget env pid prepared plan keep mode) (\<lambda>_. held r0) ?A" for plan keep mode
    by (rule tri_weaken [OF stays_target [where P = "held r0"]]) auto
  have moved: "tri (held r0) (moveTo env pid prepared explicit) (\<lambda>_. held r0) ?A" for explicit
    by (rule tri_weaken [OF held_moved [of r0]]) auto
  have active: "tri (held r0) (activateExplicit env pid) (\<lambda>_ w. held r0 w \<and> ?M w) ?A"
    by (rule tri_weaken [OF tri_activate [of r0]]) auto
  show ?thesis
    unfolding removeLegacy_def
    apply (rule triple_chain [OF tri_during [OF assms(2) target]])
    apply (rule try_phase [OF assms(2)], simp)
    apply (rule triple_before [OF tri_during [OF _ moved]], assumption)
    apply (rule try_phase, assumption, simp)
    apply (rule triple_before [OF tri_during [OF _ active]], assumption)
    apply (rule try_phase_then [OF _ M], assumption, simp)
    apply (rule last, assumption)
    done
qed

lemma try_undoBody:
  assumes "exportsRead env" "alike r r0" "recordStatus r0 = RollingBack" "recordProject r0 = pid"
  shows "tryTri r0 (held r0) (undoBody env pid current r) (\<lambda>_. finished env r0) (\<lambda>w. held r0 w \<or> finished env r0 w)"
proof -
  let ?A = "\<lambda>w. held r0 w \<or> finished env r0 w"
  let ?M = "\<lambda>w. modeNow pid w = Some Compatibility"
  have M: "outer ?M" by (rule outer_now)
  have final: "tryTri r0 (\<lambda>w. (held r0 w \<and> ?M w) \<and> snapshotNow env pid w = Some s)
      (before (during r3 (require (snapshotDigest env r3 s = sourceDigest r3) (MigOther ''Rollback target digest mismatch'')))
       (before (during r3 (verifyRuntime env s (recordPlan r3) Compatibility))
        (chain (during r3 (migNow env)) (\<lambda>t.
         during r3 (transitionMigration env (recordId r3) [RollingBack] (rolledBackPatch t))))))
      (\<lambda>_. finished env r0) ?A" if r3: "alike r3 r0" for r3 s
  proof -
    let ?N = "\<lambda>w. (held r0 w \<and> ?M w) \<and> snapshotNow env pid w = Some s"
    let ?D = "\<lambda>w. snapshotDigest env r3 s = sourceDigest r3 \<and> ?N w"
    have "outer (\<lambda>w. snapshotNow env pid w = Some s)" by (rule outer_now)
    then have D: "lasting ?D" using M by (intro lasting_conj lasting_const lasting_held outer_lasting)
    have "tri ?D (transitionMigration env (recordId r3) [RollingBack] (rolledBackPatch t)) (\<lambda>_. finished env r0) ?A" for t
    proof (rule tri_finish [OF r3 D])
      fix q w
      assume w: "?D w" and q: "alike q r0"
      let ?q = "patchRecord (rolledBackPatch t) q"
      have "recordProject ?q = pid" "recordStatus ?q = RolledBack" "sourceDigest ?q = sourceDigest r3"
        "snapshotDigest env ?q s = snapshotDigest env r3 s"
        using q r3 assms(4) by (simp_all add: alike_def rolledBackPatch_def snapshotDigest_def)
      then show "recordStatus ?q \<noteq> recordStatus r0 \<and> settled env ?q w"
        using w assms(3) by (auto simp: settled_def atTarget_def)
    qed auto
    note transit = tri_during [OF r3 this]
    have ending: "tryTri r0 ?D (chain (during r3 (migNow env)) (\<lambda>t.
        during r3 (transitionMigration env (recordId r3) [RollingBack] (rolledBackPatch t)))) (\<lambda>_. finished env r0) ?A"
      by (rule triple_chain [OF tri_during [OF r3 tri_weaken [OF tri_now [where P = ?D]]] transit]) auto
    have runtime: "tri ?D (verifyRuntime env s (recordPlan r3) Compatibility) (\<lambda>_. ?D) ?A"
      by (rule tri_weaken [OF tri_verifyRuntime [OF D]]) auto
    have same: "tri ?N (require (snapshotDigest env r3 s = sourceDigest r3) (MigOther ''Rollback target digest mismatch''))
        (\<lambda>_. ?D) ?A" by (rule tri_require) simp
    show ?thesis
      by (rule triple_before [OF tri_during [OF r3 same] triple_before [OF tri_during [OF r3 runtime] ending]])
  qed
  have last: "tryTri r0 (\<lambda>w. held r0 w \<and> ?M w) (chain (during r3 (currentSnapshot env pid)) (\<lambda>s.
       before (during r3 (require (snapshotDigest env r3 s = sourceDigest r3) (MigOther ''Rollback target digest mismatch'')))
       (before (during r3 (verifyRuntime env s (recordPlan r3) Compatibility))
        (chain (during r3 (migNow env)) (\<lambda>t.
         during r3 (transitionMigration env (recordId r3) [RollingBack] (rolledBackPatch t)))))))
      (\<lambda>_. finished env r0) ?A" if r3: "alike r3 r0" for r3
  proof (rule triple_chain [OF tri_during [OF r3] final [OF r3]])
    have "lasting (\<lambda>w. held r0 w \<and> ?M w)" using M by auto
    from tri_currentSnapshot [OF assms(1) this]
    show "tri (\<lambda>w. held r0 w \<and> ?M w) (currentSnapshot env pid)
        (\<lambda>s w. (held r0 w \<and> ?M w) \<and> snapshotNow env pid w = Some s) ?A"
      by (rule tri_weaken) auto
  qed
  have moved: "tri (held r0) (moveTo env pid current goal) (\<lambda>_. held r0) ?A" for goal
    by (rule tri_weaken [OF held_moved [of r0]]) auto
  have mode: "tri (held r0) (ensureMode env pid Compatibility) (\<lambda>_ w. held r0 w \<and> ?M w) ?A"
    by (rule tri_weaken [OF tri_ensureMode [of r0]]) auto
  show ?thesis
    unfolding undoBody_def
    apply (rule try_phase [OF assms(2)], simp)
    apply (rule triple_before [OF tri_during [OF _ moved]], assumption)
    apply (rule try_phase, assumption, simp)
    apply (rule triple_before [OF tri_during [OF _ mode]], assumption)
    apply (rule try_phase_then [OF _ M], assumption, simp)
    apply (rule last, assumption)
    done
qed

subsection \<open>After a failure\<close>

text \<open>A migration that is held in a busy status: the target of its recovery fits the status.\<close>

definition busy :: "migrationRecord \<Rightarrow> recoveryTarget \<Rightarrow> bool" where
  "busy r target \<longleftrightarrow> recordStatus r = activeStatusOf target \<and> recoveryTarget r = Some target"

lemma busy_owed: "busy r target \<Longrightarrow> isRecoveryRequired r \<and> recordStatus r \<noteq> Failed"
  by (auto simp: busy_def isRecoveryRequired_def activeStatusOf_def split: if_splits)

lemma held_outcome: "busy r0 target \<Longrightarrow> recordId r0 = mid \<Longrightarrow> held r0 w \<Longrightarrow> migrationOutcome env mid w0 w"
  using owed_when_held busy_owed by blast

lemma settled_patch:
  assumes "alike q r0" "atTarget env r0 target w" "newApplied p = None" "newStatus p = Some st"
    and "st = (if target = ToApplied then Applied else st')" "st' \<in> {Failed, Recovered, RolledBack}"
  shows "settled env (patchRecord p q) w"
proof -
  have "atTarget env (patchRecord p q) target w = atTarget env q target w"
    by (cases target) (simp_all add: atTarget_def snapshotDigest_def assms(3))
  then have "atTarget env (patchRecord p q) target w" using assms(2) atTarget_alike [OF assms(1)] by simp
  then show ?thesis using assms(4-6) by (cases target) (auto simp: settled_def)
qed

lemma tri_to_outcome:
  assumes "alike r r0" "recordId r0 = mid" "lasting P" "\<And>w. P w \<Longrightarrow> held r0 w" "busy r0 target"
    and "\<And>q w. P w \<Longrightarrow> alike q r0 \<Longrightarrow> isRecoveryRequired (patchRecord p q) \<or> settled env (patchRecord p q) w"
  shows "tri P (transitionMigration env (recordId r) expected p) (\<lambda>_. migrationOutcome env mid w0) (migrationOutcome env mid w0)"
proof (rule tri_transition)
  show "P w \<Longrightarrow> migrationOutcome env mid w0 w" for w
    using held_outcome [OF assms(5,2)] assms(4) by blast
  fix w q
  assume w: "P w" and q: "findMigration (recordId r) (migrations w) = Some q"
  let ?q = "patchRecord p q"
  have id: "recordId r = mid" using assms(1,2) by (simp add: alike_def)
  with assms(4) [OF w] q have "alike q r0" using assms(2) by (simp add: held_def)
  with assms(6) [OF w] have "isRecoveryRequired ?q \<or> settled env ?q w" .
  moreover have "findMigration mid (replaceMigration ?q (migrations w)) = Some ?q"
    using find_replace [of mid "migrations w" q ?q] q id find_id [OF q] by simp
  ultimately show "migrationOutcome env mid w0 (w\<lparr>migrations := replaceMigration ?q (migrations w)\<rparr>)"
    by (auto simp: migrationOutcome_def)
qed (use assms(3) in auto)

lemma unrestored_owed:
  "isRecoveryRequired (patchRecord (unrestoredPatch isRollback target m) q)"
  by (simp add: isRecoveryRequired_def unrestoredPatch_def recoveryCode_def errorCode_def)

lemma tri_restored:
  assumes "exportsRead env" "alike r r0"
  shows "tri (held r0) (catching (chain (restoreTarget env r target) (\<lambda>r'. give (Some r'))) (\<lambda>_. give None))
    (\<lambda>x w. case x of None \<Rightarrow> held r0 w | Some r' \<Rightarrow> alike r' r0 \<and> held r0 w \<and> atTarget env r0 target w) (held r0)"
  by (rule triple_catching [where R' = "\<lambda>_. held r0"], rule triple_chain [OF tri_restoreTarget [OF assms]])
    (auto intro: triple_give)

lemma tri_restoreAfterFailure_held:
  assumes "exportsRead env" "alike r r0" "busy r0 target" "recordId r0 = mid" "isRollback \<longleftrightarrow> target = ToApplied"
  shows "tri (held r0) (restoreAfterFailure env r target isRollback) (\<lambda>_. migrationOutcome env mid w0) (migrationOutcome env mid w0)"
  unfolding restoreAfterFailure_def
proof (rule triple_chain)
  let ?Q = "\<lambda>x w. case x of None \<Rightarrow> held r0 w | Some r' \<Rightarrow> alike r' r0 \<and> held r0 w \<and> atTarget env r0 target w"
  show "tri (held r0) (catching (chain (restoreTarget env r target) (\<lambda>r'. give (Some r'))) (\<lambda>_. give None))
      ?Q (migrationOutcome env mid w0)"
    by (rule tri_weaken [OF tri_restored [OF assms(1,2)]]) (auto intro: held_outcome [OF assms(3,4)])
  fix x
  show "tri (?Q x) (case x of
        Some r' \<Rightarrow> chain (migNow env) (\<lambda>t.
          transitionMigration env (recordId r') [recordStatus r'] (restoredPatch isRollback (recordPhase r) t))
      | None \<Rightarrow> transitionMigration env (recordId r) [recordStatus r]
          (unrestoredPatch isRollback target ''Automatic recovery could not be verified''))
      (\<lambda>_. migrationOutcome env mid w0) (migrationOutcome env mid w0)"
  proof (cases x)
    case None
    then show ?thesis
      by (simp, intro tri_to_outcome [OF assms(2,4) _ _ assms(3)]) (auto intro: unrestored_owed)
  next
    case (Some r')
    let ?P = "\<lambda>w. held r0 w \<and> atTarget env r0 target w"
    have "tri ?P (chain (migNow env) (\<lambda>t.
          transitionMigration env (recordId r') [recordStatus r'] (restoredPatch isRollback (recordPhase r) t)))
        (\<lambda>_. migrationOutcome env mid w0) (migrationOutcome env mid w0)" if r': "alike r' r0"
    proof (rule triple_chain)
      show "tri ?P (migNow env) (\<lambda>_. ?P) (migrationOutcome env mid w0)"
        by (rule tri_weaken [OF tri_now [where P = ?P]]) (auto intro: held_outcome [OF assms(3,4)])
      fix t
      have P: "lasting ?P" by (intro lasting_conj lasting_held outer_lasting outer_atTarget)
      show "tri ?P (transitionMigration env (recordId r') [recordStatus r'] (restoredPatch isRollback (recordPhase r) t))
          (\<lambda>_. migrationOutcome env mid w0) (migrationOutcome env mid w0)"
      proof (rule tri_to_outcome [OF r' assms(4) P _ assms(3)])
        fix q w
        assume "?P w" "alike q r0"
        then show "isRecoveryRequired (patchRecord (restoredPatch isRollback (recordPhase r) t) q)
            \<or> settled env (patchRecord (restoredPatch isRollback (recordPhase r) t) q) w"
          using settled_patch [of q r0 env target w "restoredPatch isRollback (recordPhase r) t"
              "if isRollback then Applied else Failed" Failed] assms(5)
          by (cases target) (auto simp: restoredPatch_def emptyPatch_def)
      qed simp
    qed
    then show ?thesis using Some by (simp add: tri_pureI)
  qed
qed

text \<open>The row is finished already: every transition from the status of the local record is refused.\<close>

lemma finished_refused:
  assumes "alike r r0"
  shows "tri (finished env r0) (transitionMigration env (recordId r) [recordStatus r] p) (\<lambda>_ _. False) (finished env r0)"
  using assms by (intro tri_transition_refused [OF lasting_finished]) (auto simp: finished_def alike_def)

lemma finished_restore:
  assumes "alike r r0"
  shows "tri (finished env r0) (restoreTarget env r target) (\<lambda>_ _. False) (finished env r0)"
proof -
  have "tri (finished env r0) (chain (migPhase env r RestorePermissions) f) (\<lambda>_ _. False) (finished env r0)" for f
    unfolding migPhase_def by (rule triple_chain [OF finished_refused [OF assms] tri_false])
  then show ?thesis
    unfolding restoreTarget_def
    by (auto intro!: triple_throw triple_before [OF triple_require [where Q = "\<lambda>_. finished env r0"]] split: option.splits)
qed

lemma tri_restoreAfterFailure_finished:
  assumes "alike r r0"
  shows "tri (finished env r0) (restoreAfterFailure env r target isRollback) (\<lambda>_ _. False) (finished env r0)"
  unfolding restoreAfterFailure_def
proof (rule triple_chain [where Q = "\<lambda>x w. x = None \<and> finished env r0 w"])
  show "tri (finished env r0) (catching (chain (restoreTarget env r target) (\<lambda>r'. give (Some r'))) (\<lambda>_. give None))
      (\<lambda>x w. x = None \<and> finished env r0 w) (finished env r0)"
    by (rule triple_catching [where R' = "\<lambda>_. finished env r0"], rule triple_chain [OF finished_restore [OF assms] tri_false])
      (auto intro: triple_give)
  fix x
  show "tri (\<lambda>w. x = None \<and> finished env r0 w) (case x of
        Some r' \<Rightarrow> chain (migNow env) (\<lambda>t.
          transitionMigration env (recordId r') [recordStatus r'] (restoredPatch isRollback (recordPhase r) t))
      | None \<Rightarrow> transitionMigration env (recordId r) [recordStatus r]
          (unrestoredPatch isRollback target ''Automatic recovery could not be verified''))
      (\<lambda>_ _. False) (finished env r0)"
    by (rule tri_pureI) (simp add: finished_refused [OF assms])
qed

lemma tri_restoreAfterFailure:
  assumes "exportsRead env" "alike r r0" "busy r0 target" "recordId r0 = mid" "isRollback \<longleftrightarrow> target = ToApplied"
  shows "tri (\<lambda>w. held r0 w \<or> finished env r0 w) (restoreAfterFailure env r target isRollback)
    (\<lambda>_. migrationOutcome env mid w0) (migrationOutcome env mid w0)"
proof (rule tri_disj [OF tri_restoreAfterFailure_held [OF assms]])
  show "tri (finished env r0) (restoreAfterFailure env r target isRollback) (\<lambda>_. migrationOutcome env mid w0)
      (migrationOutcome env mid w0)"
    by (rule tri_weaken [OF tri_restoreAfterFailure_finished [OF assms(2)]]) (auto intro: finished_outcome assms(4))
qed

subsection \<open>The operations\<close>

lemma outcome_core: "core w = core w0 \<Longrightarrow> migrationOutcome env mid w0 w"
  by (simp add: migrationOutcome_def)

lemma tri_begin:
  assumes "newStatus p = Some (activeStatusOf target)" "newTarget p = Some (Some target)"
  shows "tri (\<lambda>w. core w = core w0) (transitionMigration env mid expected p)
    (\<lambda>r w. (busy r target \<and> recordId r = mid
        \<and> (\<exists>q. findMigration mid (migrations w0) = Some q \<and> recordProject r = recordProject q)) \<and> held r w)
    (migrationOutcome env mid w0)"
proof (rule tri_transition [OF lasting_core outcome_core])
  fix w q
  assume w: "core w = core w0" and q: "findMigration mid (migrations w) = Some q"
  let ?q = "patchRecord p q"
  have "busy ?q target" using assms by (simp add: busy_def)
  moreover have "recordId ?q = mid" using find_id [OF q] by simp
  moreover have "findMigration mid (migrations w0) = Some q" using w q by (simp add: core_def)
  moreover have "findMigration mid (replaceMigration ?q (migrations w)) = Some ?q"
    using find_replace [OF q] find_id [OF q] by simp
  ultimately show "(busy ?q target \<and> recordId ?q = mid
        \<and> (\<exists>q. findMigration mid (migrations w0) = Some q \<and> recordProject ?q = recordProject q))
      \<and> held ?q (w\<lparr>migrations := replaceMigration ?q (migrations w)\<rparr>)"
    by (auto simp: held_def)
qed (auto intro: held_outcome)

text \<open>The rows have one identifier each.\<close>

lemma found_project:
  assumes "distinct (map recordId rows)" "find (\<lambda>r. recordProject r = pid \<and> recordId r = i) rows = Some r"
    and "findMigration i rows = Some q"
  shows "recordProject q = pid"
proof -
  have r: "r \<in> set rows" "recordId r = i" "recordProject r = pid" using assms(2) by (auto simp: find_Some_iff)
  have q: "q \<in> set rows" "recordId q = i" using assms(3) by (auto simp: findMigration_def find_Some_iff)
  from assms(1) have "inj_on recordId (set rows)" by (simp add: distinct_map)
  from inj_onD [OF this, of q r] q r have "q = r" by simp
  with r(3) show ?thesis by simp
qed

definition ofProject :: "migrationWorld \<Rightarrow> string \<Rightarrow> string \<Rightarrow> bool" where
  "ofProject w0 mid pid \<longleftrightarrow> (\<forall>q. findMigration mid (migrations w0) = Some q \<longrightarrow> recordProject q = pid)"

lemma tri_requireMigration:
  assumes "distinct (map recordId (migrations w0))"
  shows "tri (\<lambda>w. core w = core w0) (requireMigration env pid mid)
    (\<lambda>_ w. ofProject w0 mid pid \<and> core w = core w0) (migrationOutcome env mid w0)"
  unfolding requireMigration_def getProjectMigration_def
proof (rule triple_chain)
  let ?find = "\<lambda>w. find (\<lambda>r. recordProject r = pid \<and> recordId r = mid) (migrations w)"
  show "tri (\<lambda>w. core w = core w0) (migQuery env ''SELECT migration'' ?find)
      (\<lambda>x w. core w = core w0 \<and> ?find w = x) (migrationOutcome env mid w0)"
    by (rule tri_weaken [OF tri_query [OF lasting_core]]) (auto intro: outcome_core)
  fix row
  let ?P = "\<lambda>w. core w = core w0 \<and> ?find w = row"
  show "tri ?P (case row of None \<Rightarrow> throw (MigNotFound ''Migration not found'') | Some r \<Rightarrow> give r)
      (\<lambda>_ w. ofProject w0 mid pid \<and> core w = core w0) (migrationOutcome env mid w0)"
  proof (cases row)
    case None
    then show ?thesis by (simp, intro triple_throw) (simp add: outcome_core)
  next
    case (Some r)
    have "ofProject w0 mid pid \<and> core w = core w0" if "?P w" for w
    proof -
      have row: "?find w = row" using that by (rule conjunct2)
      have same: "migrations w = migrations w0" using that by (simp add: core_def)
      from found_project [OF assms row [unfolded same Some]] that show ?thesis by (simp add: ofProject_def)
    qed
    then show ?thesis unfolding Some option.case by (intro triple_give) (simp add: Some)
  qed
qed

text \<open>What is done before the first transition.\<close>

lemma start_read:
  assumes "tri (\<lambda>w. core w = core w0) m (\<lambda>_ w. core w = core w0) (\<lambda>w. core w = core w0)"
    and "\<And>x. tri (\<lambda>w. core w = core w0) (f x) Q (migrationOutcome env mid w0)"
  shows "tri (\<lambda>w. core w = core w0) (chain m f) Q (migrationOutcome env mid w0)"
proof (rule triple_chain [OF _ assms(2)])
  show "tri (\<lambda>w. core w = core w0) m (\<lambda>_ w. core w = core w0) (migrationOutcome env mid w0)"
    by (rule tri_weaken [OF assms(1)]) (simp_all add: outcome_core)
qed

lemma start_check:
  "tri (\<lambda>w. core w = core w0) n Q (migrationOutcome env mid w0)
   \<Longrightarrow> tri (\<lambda>w. core w = core w0) (before (lift id r) n) Q (migrationOutcome env mid w0)"
  "(b \<Longrightarrow> tri (\<lambda>w. core w = core w0) n Q (migrationOutcome env mid w0))
   \<Longrightarrow> tri (\<lambda>w. core w = core w0) (before (require b e) n) Q (migrationOutcome env mid w0)"
  by (auto simp: before_def lift_def require_def chain_def give_def throw_def triple_def intro: outcome_core split: sum.splits)

lemma start_reads:
  "tri (\<lambda>w. core w = core w0) (requireProject env pid) (\<lambda>_ w. core w = core w0) (\<lambda>w. core w = core w0)"
  "exportsRead env \<Longrightarrow>
     tri (\<lambda>w. core w = core w0) (snapshotProject env project) (\<lambda>_ w. core w = core w0) (\<lambda>w. core w = core w0)"
  "tri (\<lambda>w. core w = core w0) (migNow env) (\<lambda>_ w. core w = core w0) (\<lambda>w. core w = core w0)"
  by (rule triple_post [OF tri_requireProject [OF lasting_core]], simp,
      rule triple_post [OF tri_snapshotProject [OF _ lasting_core]], simp, simp, rule tri_now)

lemmas start_steps =
  start_read [OF start_reads(1)] start_read [OF start_reads(2)] start_read [OF start_reads(3)] start_check

lemma tri_reported:
  "tri P m (\<lambda>_. A) A \<Longrightarrow> tri P (chain m reportAnswer) (\<lambda>_. A) A"
  by (erule triple_chain) (simp add: reportAnswer_def triple_give)

text \<open>The try of an application or of a rollback.\<close>

lemma tri_attempt:
  assumes "exportsRead env" "busy r0 target" "recordId r0 = mid" "isRollback \<longleftrightarrow> target = ToApplied"
    and "tryTri r0 (held r0) m (\<lambda>_. finished env r0) (\<lambda>w. held r0 w \<or> finished env r0 w)"
  shows "tri (held r0) (chain (trying m (\<lambda>e r'. restoreAfterFailure env r' target isRollback)) reportAnswer)
    (\<lambda>_. migrationOutcome env mid w0) (migrationOutcome env mid w0)"
proof (rule tri_reported, rule tri_trying)
  show "tryTri r0 (held r0) m (\<lambda>_. migrationOutcome env mid w0) (\<lambda>w. held r0 w \<or> finished env r0 w)"
    by (rule triple_post [OF assms(5)]) (rule finished_outcome [OF _ assms(3)])
  show "tri (\<lambda>w. held r0 w \<or> finished env r0 w) (restoreAfterFailure env r target isRollback)
      (\<lambda>_. migrationOutcome env mid w0) (migrationOutcome env mid w0)" if "alike r r0" for e r
    by (rule tri_restoreAfterFailure [OF assms(1) that assms(2-4)])
  show "held r0 w \<or> finished env r0 w \<Longrightarrow> migrationOutcome env mid w0 w" for w
    by (auto intro: held_outcome [OF assms(2,3)] finished_outcome [OF _ assms(3)])
qed

lemma tri_begun:
  assumes "newStatus p = Some (activeStatusOf target)" "newTarget p = Some (Some target)"
    and "\<And>r0. busy r0 target \<Longrightarrow> recordId r0 = mid \<Longrightarrow> \<exists>q. findMigration mid (migrations w0) = Some q \<and> recordProject r0 = recordProject q
      \<Longrightarrow> tri (held r0) (f r0) Q (migrationOutcome env mid w0)"
  shows "tri (\<lambda>w. core w = core w0) (chain (transitionMigration env mid expected p) f) Q (migrationOutcome env mid w0)"
  by (rule triple_chain [OF tri_begin [OF assms(1,2)] tri_pureI]) (rule assms(3); blast)

lemma tri_applyBody:
  assumes "exportsRead env" "distinct (map recordId (migrations w0))"
  shows "tri (\<lambda>w. core w = core w0) (applyBody env pid mid input) (\<lambda>_. migrationOutcome env mid w0) (migrationOutcome env mid w0)"
  unfolding applyBody_def
proof (rule triple_chain [OF tri_requireMigration [OF assms(2)] tri_pureI], intro start_steps assms(1) tri_begun [where target = ToSource])
  fix current r0
  assume "ofProject w0 mid pid" and r0: "busy r0 ToSource" "recordId r0 = mid"
    and "\<exists>q. findMigration mid (migrations w0) = Some q \<and> recordProject r0 = recordProject q"
  then have pid: "recordProject r0 = pid" by (auto simp: ofProject_def)
  have st: "recordStatus r0 = Applying" using r0(1) by (simp add: busy_def activeStatusOf_def)
  have "tryTri r0 (held r0) (chain (prepareScoped env pid current r0) (\<lambda>(prepared, r1). removeLegacy env pid prepared r1))
      (\<lambda>_. finished env r0) (\<lambda>w. held r0 w \<or> finished env r0 w)"
  proof (rule triple_chain)
    show "tryTri r0 (held r0) (prepareScoped env pid current r0) (\<lambda>x w. alike (snd x) r0 \<and> held r0 w)
        (\<lambda>w. held r0 w \<or> finished env r0 w)"
      by (rule triple_conseq [OF try_prepareScoped [OF assms(1) alike_refl]]) auto
    show "tryTri r0 (\<lambda>w. alike (snd x) r0 \<and> held r0 w) (case x of (prepared, r1) \<Rightarrow> removeLegacy env pid prepared r1)
        (\<lambda>_. finished env r0) (\<lambda>w. held r0 w \<or> finished env r0 w)" for x
      by (cases x, rule tri_pureI) (simp add: try_removeLegacy [OF assms(1) _ st pid])
  qed
  then show "tri (held r0) (chain (trying (chain (prepareScoped env pid current r0) (\<lambda>(prepared, r1). removeLegacy env pid prepared r1))
      (\<lambda>e r'. restoreAfterFailure env r' ToSource False)) reportAnswer)
      (\<lambda>_. migrationOutcome env mid w0) (migrationOutcome env mid w0)"
    by (rule tri_attempt [OF assms(1) r0, rotated]) simp
qed (simp_all add: activeStatusOf_def)

lemma tri_rollbackBody:
  assumes "exportsRead env" "distinct (map recordId (migrations w0))"
  shows "tri (\<lambda>w. core w = core w0) (rollbackBody env pid mid digest answer) (\<lambda>_. migrationOutcome env mid w0)
    (migrationOutcome env mid w0)"
  unfolding rollbackBody_def
proof (rule triple_chain [OF tri_requireMigration [OF assms(2)] tri_pureI], intro start_steps assms(1) tri_begun [where target = ToApplied])
  fix current r0
  assume "ofProject w0 mid pid" and r0: "busy r0 ToApplied" "recordId r0 = mid"
    and "\<exists>q. findMigration mid (migrations w0) = Some q \<and> recordProject r0 = recordProject q"
  then have pid: "recordProject r0 = pid" by (auto simp: ofProject_def)
  have st: "recordStatus r0 = RollingBack" using r0(1) by (simp add: busy_def activeStatusOf_def)
  from try_undoBody [OF assms(1) alike_refl st pid]
  show "tri (held r0) (chain (trying (undoBody env pid current r0) (\<lambda>e r'. restoreAfterFailure env r' ToApplied True)) reportAnswer)
      (\<lambda>_. migrationOutcome env mid w0) (migrationOutcome env mid w0)"
    by (rule tri_attempt [OF assms(1) r0, rotated]) simp
qed (simp_all add: activeStatusOf_def)

lemma tri_recoverBody:
  assumes "exportsRead env"
  shows "tri (\<lambda>w. core w = core w0) (recoverBody env pid mid digest answer) (\<lambda>_. migrationOutcome env mid w0)
    (migrationOutcome env mid w0)"
proof -
  have attempt: "tri (held r1) (chain (catching (chain (restoreTarget env r1 target) (\<lambda>r2. give (Some r2))) (\<lambda>_. give None))
      (\<lambda>restored. case restored of
         None \<Rightarrow> chain (transitionMigration env mid [activeStatusOf target]
           (unrestoredPatch (target = ToApplied) target ''Recovery could not be verified'')) reportAnswer
       | Some _ \<Rightarrow> chain (migNow env) (\<lambda>t.
           chain (transitionMigration env mid [activeStatusOf target] (recoveredPatch target t)) reportAnswer)))
      (\<lambda>_. migrationOutcome env mid w0) (migrationOutcome env mid w0)"
    if r1: "busy r1 target" "recordId r1 = mid" for r1 target
  proof (rule triple_chain)
    let ?Q = "\<lambda>x w. case x of None \<Rightarrow> held r1 w | Some r' \<Rightarrow> alike r' r1 \<and> held r1 w \<and> atTarget env r1 target w"
    show "tri (held r1) (catching (chain (restoreTarget env r1 target) (\<lambda>r2. give (Some r2))) (\<lambda>_. give None))
        ?Q (migrationOutcome env mid w0)"
      by (rule tri_weaken [OF tri_restored [OF assms alike_refl]]) (auto intro: held_outcome [OF r1])
    fix x
    note outcome = tri_to_outcome [OF alike_refl r1(2) _ _ r1(1), unfolded r1(2)]
    show "tri (?Q x) (case x of
         None \<Rightarrow> chain (transitionMigration env mid [activeStatusOf target]
           (unrestoredPatch (target = ToApplied) target ''Recovery could not be verified'')) reportAnswer
       | Some _ \<Rightarrow> chain (migNow env) (\<lambda>t.
           chain (transitionMigration env mid [activeStatusOf target] (recoveredPatch target t)) reportAnswer))
        (\<lambda>_. migrationOutcome env mid w0) (migrationOutcome env mid w0)"
    proof (cases x)
      case None
      then show ?thesis by (simp, intro tri_reported outcome) (auto intro: unrestored_owed)
    next
      case (Some r')
      let ?P = "\<lambda>w. held r1 w \<and> atTarget env r1 target w"
      have P: "lasting ?P" by (intro lasting_conj lasting_held outer_lasting outer_atTarget)
      have clock: "tri ?P (migNow env) (\<lambda>_. ?P) (migrationOutcome env mid w0)"
        by (rule tri_weaken [OF tri_now [where P = ?P]]) (auto intro: held_outcome [OF r1])
      have last: "tri ?P (transitionMigration env mid [activeStatusOf target] (recoveredPatch target t))
          (\<lambda>_. migrationOutcome env mid w0) (migrationOutcome env mid w0)" for t
      proof (rule outcome [OF P])
        fix q w
        assume "?P w" "alike q r1"
        then show "isRecoveryRequired (patchRecord (recoveredPatch target t) q)
            \<or> settled env (patchRecord (recoveredPatch target t) q) w"
          using settled_patch [of q r1 env target w "recoveredPatch target t"
              "if target = ToSource then Recovered else Applied" Recovered]
          by (cases target) (auto simp: recoveredPatch_def emptyPatch_def)
      qed simp
      have "tri ?P (chain (migNow env) (\<lambda>t.
           chain (transitionMigration env mid [activeStatusOf target] (recoveredPatch target t)) reportAnswer))
        (\<lambda>_. migrationOutcome env mid w0) (migrationOutcome env mid w0)"
        by (rule triple_chain [OF clock tri_reported [OF last]])
      then show ?thesis using Some by simp (rule triple_pre, assumption, simp)
    qed
  qed
  have start: "tri (\<lambda>w. core w = core w0) (requireMigration env pid mid) (\<lambda>_ w. core w = core w0) (\<lambda>w. core w = core w0)"
    unfolding requireMigration_def getProjectMigration_def
    by (rule triple_chain [OF stays_query [OF lasting_core]]) (auto intro!: triple_throw triple_give split: option.splits)
  show ?thesis
    unfolding recoverBody_def
  proof (intro start_read [OF start] start_steps)
    fix r project
    show "tri (\<lambda>w. core w = core w0) (case (recoveryTarget r, isRecoveryRequired r) of
        (Some target, True) \<Rightarrow>
          before (lift id (requireAlias project answer))
          (before (require (targetDigest target r = Some digest \<and> digest \<noteq> [])
             (migrationConflict ''Recovery digest does not match''))
           (chain (transitionMigration env mid [recordStatus r]
              (emptyPatch\<lparr>newStatus := Some (activeStatusOf target), newPhase := Some RestorePermissions,
                 newTarget := Some (Some target), newError := Some None\<rparr>)) (\<lambda>r1.
            chain (catching (chain (restoreTarget env r1 target) (\<lambda>r2. give (Some r2))) (\<lambda>_. give None)) (\<lambda>restored.
            (case restored of
               None \<Rightarrow> chain (transitionMigration env mid [activeStatusOf target]
                 (unrestoredPatch (target = ToApplied) target ''Recovery could not be verified'')) reportAnswer
             | Some _ \<Rightarrow> chain (migNow env) (\<lambda>t.
                 chain (transitionMigration env mid [activeStatusOf target] (recoveredPatch target t)) reportAnswer))))))
      | _ \<Rightarrow> throw (migrationConflict ''Migration is not eligible for recovery''))
      (\<lambda>_. migrationOutcome env mid w0) (migrationOutcome env mid w0)"
    proof (cases "(recoveryTarget r, isRecoveryRequired r)")
      case (Pair goal ok)
      have refused: "tri (\<lambda>w. core w = core w0) (throw e) (\<lambda>_. migrationOutcome env mid w0) (migrationOutcome env mid w0)" for e
        by (rule triple_throw) (rule outcome_core)
      show ?thesis
      proof (cases goal)
        case None
        with Pair refused show ?thesis by simp
      next
        case (Some target)
        show ?thesis
        proof (cases ok)
          case True
          show ?thesis
            unfolding Pair Some using True
            by (simp, intro start_steps tri_begun [where target = target] attempt) simp_all
        qed (use Pair Some refused in simp)
      qed
    qed
  qed
qed

text \<open>The lock keeps the outcome.\<close>

lemma tri_locked:
  assumes "tri (\<lambda>w. core w = core w0) body (\<lambda>_. migrationOutcome env mid w0) (migrationOutcome env mid w0)"
  shows "tri (\<lambda>w. core w = core w0) (withMigrationLock env pid mid body) (\<lambda>_. migrationOutcome env mid w0)
    (migrationOutcome env mid w0)"
  unfolding withMigrationLock_def
proof (rule triple_chain [where Q = "\<lambda>_ w. core w = core w0"])
  show "tri (\<lambda>w. core w = core w0) (look (\<lambda>w. lockRefusal env (happened w) pid)) (\<lambda>_ w. core w = core w0)
      (migrationOutcome env mid w0)"
    by (rule triple_look)
  fix refusal :: "string option"
  have unlock: "staysIn (migrationOutcome env mid w0) (migEffect env EvUnlock (give ()))"
    by (rule stays_effect [OF lasting_outcome]) (rule triple_give)
  have inside: "tri (\<lambda>w. core w = core w0) (chain (migQuery env ''SELECT blocked'' (otherUnfinished pid mid)) (\<lambda>blocked.
         if blocked then throw (MigLocked ''Project data access migration requires completion or recovery'') else body))
      (\<lambda>_. migrationOutcome env mid w0) (migrationOutcome env mid w0)"
    by (rule start_read [OF stays_query [OF lasting_core]]) (intro triple_if assms triple_throw outcome_core)
  show "tri (\<lambda>w. core w = core w0) (case refusal of
        Some m \<Rightarrow> throw (MigLocked m)
      | None \<Rightarrow> finally_do (chain (migQuery env ''SELECT blocked'' (otherUnfinished pid mid)) (\<lambda>blocked.
             if blocked then throw (MigLocked ''Project data access migration requires completion or recovery'') else body))
            (migEffect env EvUnlock (give ())))
      (\<lambda>_. migrationOutcome env mid w0) (migrationOutcome env mid w0)"
    by (intro triple_option triple_throw outcome_core triple_finally [OF inside unlock unlock])
qed

subsection \<open>The property\<close>

lemma apply_settles:
  assumes "exportsRead env" "distinct (map recordId (migrations w0))"
  shows "tri (\<lambda>w. core w = core w0) (applyMigration env pid mid input) (\<lambda>_. migrationOutcome env mid w0) (migrationOutcome env mid w0)"
  unfolding applyMigration_def using tri_locked tri_applyBody [OF assms] by fast

lemma recover_settles:
  assumes "exportsRead env"
  shows "tri (\<lambda>w. core w = core w0) (recoverMigration env pid mid digest answer) (\<lambda>_. migrationOutcome env mid w0)
      (migrationOutcome env mid w0)"
proof -
  note tri_recoverBody [OF assms, of w0 pid mid digest answer]
  from tri_locked [OF this] show ?thesis unfolding recoverMigration_def .
qed

lemma rollback_settles:
  assumes "exportsRead env" "distinct (map recordId (migrations w0))"
  shows "tri (\<lambda>w. core w = core w0) (rollbackMigration env pid mid digest answer) (\<lambda>_. migrationOutcome env mid w0)
      (migrationOutcome env mid w0)"
proof -
  note tri_rollbackBody [OF assms, of pid mid digest answer]
  from tri_locked [OF this] show ?thesis unfolding rollbackMigration_def .
qed

lemma tri_result: "tri (\<lambda>w. core w = core w0) m (\<lambda>_. A) A \<Longrightarrow> A (snd (m w0))"
  using tripleD [of "\<lambda>w. core w = core w0" m "\<lambda>_. A" "\<lambda>_. A" A w0 "fst (m w0)" "snd (m w0)"]
  by (auto split: reply.splits)

text \<open>
  C7. Applying, recovering or rolling back a migration, with any failure of the engine, of a probe or of the database,
  before or after its effect, and with the process dying anywhere, ends in one of three ways: nothing stored has changed;
  or the migration is one that recovery accepts; or it is settled: \<open>applied\<close> with the explicit mode, the metadata whose digest
  was recorded, and that metadata verified; or undone with the metadata of the source and the compatibility mode.
\<close>

theorem migration_settles:
  assumes "exportsRead env" and "distinct (map recordId (migrations w))"
  shows "migrationOutcome env mid w (snd (applyMigration env pid mid input w))
    \<and> migrationOutcome env mid w (snd (recoverMigration env pid mid digest answer w))
    \<and> migrationOutcome env mid w (snd (rollbackMigration env pid mid digest answer w))"
  by (intro conjI tri_result apply_settles recover_settles rollback_settles assms)

text \<open>The server dies right after it has marked a failed migration as being recovered: it can be recovered again.\<close>

definition stoppingEnv :: migrationEnv where
  "stoppingEnv = \<lparr>mCollate = (\<lambda>a b. 0), mHash = (\<lambda>j. ''h''), mNumber = (\<lambda>n. ''0''), mRoleHash = id,
     inventoryRows = (\<lambda>s. Inr []), permissionEngine = (\<lambda>tr req doc. (None, doc)), hasAdminSecret = True,
     probeSchema = (\<lambda>tr url c. undefined), connectRealtime = (\<lambda>tr c. None), runtimeVariables = (\<lambda>p. []),
     lockRefusal = (\<lambda>tr p. None),
     mFaults = (\<lambda>tr ev. if ev = EvRow ''UPDATE migrations'' then BreaksAfter None else Fine),
     mNow = (\<lambda>tr. 0), createId = (\<lambda>tr. ''m'')\<rparr>"

definition failedMigration :: migrationRecord where
  "failedMigration =
     (previewRecord ''m'' ''p'' \<lparr>snapProject = ''p'', snapSchema = ''app'', snapMode = Compatibility, snapNaming = None,
         snapTables = [], snapBindings = [], snapExternal = []\<rparr>
       \<lparr>planVersion = 2, planProject = ''p'', planSchema = ''app'', targetPolicies = [], legacyDrops = [], planBlockers = [],
         planChanges = []\<rparr> ''h'' ''u'')
     \<lparr>recordStatus := Failed, recoveryTarget := Some ToSource, recordError := Some (MIGRATION_RECOVERY, '''')\<rparr>"

definition stoppedWorld :: migrationWorld where
  "stoppedWorld = \<lparr>migrations = [failedMigration],
     migProjects = [(''p'', \<lparr>migAlias = ''notes'', migSchema = Some ''app'', migMode = Compatibility\<rparr>)], document = [], happened = []\<rparr>"

lemma migration_settles_witness:
  "exportsRead stoppingEnv \<and> map recordStatus (migrations stoppedWorld) = [Failed]
   \<and> (let w = snd (recoverMigration stoppingEnv ''p'' ''m'' ''h'' ''notes'' stoppedWorld) in
        migrationOutcome stoppingEnv ''m'' stoppedWorld w
        \<and> map recordStatus (migrations w) = [Applying] \<and> map isRecoveryRequired (migrations w) = [True])"
proof -
  have reads: "exportsRead stoppingEnv" by (simp add: exportsRead_def stoppingEnv_def)
  moreover have "distinct (map recordId (migrations stoppedWorld))" by (simp add: stoppedWorld_def)
  ultimately have "migrationOutcome stoppingEnv ''m'' stoppedWorld
      (snd (recoverMigration stoppingEnv ''p'' ''m'' ''h'' ''notes'' stoppedWorld))"
    using migration_settles [of stoppingEnv stoppedWorld] by blast
  moreover have "map recordStatus (migrations stoppedWorld) = [Failed]"
    by (simp add: stoppedWorld_def failedMigration_def)
  moreover have "map recordStatus (migrations (snd (recoverMigration stoppingEnv ''p'' ''m'' ''h'' ''notes'' stoppedWorld))) = [Applying]
    \<and> map isRecoveryRequired (migrations (snd (recoverMigration stoppingEnv ''p'' ''m'' ''h'' ''notes'' stoppedWorld))) = [True]"
    by (simp add: recoverMigration_def withMigrationLock_def recoverBody_def requireMigration_def getProjectMigration_def
        migQuery_def migStatement_def migEffect_def requireProject_def requireAlias_def transitionMigration_def transitionRow_def
        finally_do_def catching_def chain_def before_def lift_def give_def throw_def look_def require_def
        stoppingEnv_def stoppedWorld_def failedMigration_def previewRecord_def happen_def findMigration_def
        replaceMigration_def updateAllowed_def transitionAllowed_def targetConsistent_def payloadKept_def indexConflict_def
        patchRecord_def emptyPatch_def otherUnfinished_def isRecoveryRequired_def recoveryCode_def errorCode_def
        activeStatusOf_def patched_def patchedOption_def guardE_def appliedPayload_def MIGRATION_RECOVERY_def ROLLBACK_RECOVERY_def)
  ultimately show ?thesis using reads by (simp add: Let_def)
qed

end
