(* ===== verification/Spec2Isabelle.thy ===== *)
theory Spec2Isabelle
  imports Update_Properties Updater_Routes Finalizer Crash_Safety Compose Updater_Demo
    Graphql_Syntax Graphql_Response Query_Properties Members_Properties Authorization_Properties
    Actor_Properties Auth_Middleware Storage_Path Managed_Properties Policy_Liveness Lock_Properties
    Rate_Limit_Properties Projection_Digest Migration_Demo Migration_Recovery
begin

text \<open>
  Druvia: a verification library for its updater, its client library and its API server, all written in
  TypeScript under src/apps and src/packages. This theory imports every other one.

  What the program is. Druvia is a backend service: an API server over PostgreSQL, Redis and a GraphQL engine
  (Hasura), a client library for browsers, and an updater that replaces the containers of an installation. Three
  parts are modelled. (1) The updater reads a release manifest, stages it, backs up the release files, switches
  them, and after an interruption decides from its status file what to restore. (2) The client library prints
  queries as GraphQL text and reads the replies. (3) The API server decides who may do what (users, members,
  sessions, keys, actors, rate limits) and writes the permissions of the engine that enforce it (policies of
  tables, their operations under a lock, authorization projections, the migration of a project to
  scoped permissions).

  How code becomes definitions. A file of the source is one theory or two, a function of the source is a
  definition of the same name, in the order of the code. JavaScript values are the datatype \<open>jsval\<close> of Prelude,
  strings are lists of code units 0 to 255, numbers rationals, exceptions the left side of a sum. Asynchronous code
  is a function from a world to a reply and a world (Updater_World, Api_Monad): the reply is an answer, an
  exception, or the death of the process, and every effect may fail or die before it or after it, as an oracle of
  the environment decides from the trace. Sorting with \<open>localeCompare\<close>, SHA-256, JWT, random identifiers, the
  printing of numbers, time, PostgreSQL connections, Redis and the engine are parameters; where a theorem needs one of their
  documented laws, the law is a named hypothesis and the witness of the theorem instantiates it.

  The updater (src/apps/updater/src, src/packages/shared/src/update.ts).
    Release, Semver, Manifest: the manifest, version order and validation. \<open>compareSemver\<close> refines a total order of
    versions (locale \<open>version_order\<close>); an accepted manifest is newer, on channel and pinned, and reads back.
    Compose, Updater_Config, Env_File: command lines, configuration, the merge of the environment file.
    Updater_World, Update_Service, Update_Operations: the file system, the status, and the operations check,
    download, apply, rollback, restart and recovery. The polling of the health checks has a bound from its timeout.
    Updater_Logic is a program logic with a postcondition for death (locale \<open>observer\<close> for what an
    operation leaves alone); Update_Safety and Crash_Safety follow the release files and their backups through every
    point of an update; Update_Properties has exclusion, termination, integrity and the absence of downgrades;
    Updater_Demo is a concrete installation for the witnesses.
    Finalizer, Updater_Routes: the container that replaces the updater, and the HTTP surface with its secret.

  The client library (src/packages/sdk/src).
    Graphql_Builder prints, Graphql_Syntax reads the printed text back with a reader of GraphQL,
    Graphql_Response reads replies, Query_Builder is the chained builder with its cache, Query_Properties says
    which requests an execution sends.

  Authorization in the API server (src/apps/api/src/lib, src/apps/api/src/middleware, src/apps/api/src/modules).
    Platform_Db, Sql_Like: the tables of users, projects and members, and the matching of \<open>LIKE\<close>.
    Project_Authorization, Project_Members, Authorization_Properties, Members_Properties: capabilities, guards
    and membership transactions (locale \<open>membership_store\<close>); the guards decide as an abstract policy on the tables does.
    Project_Actor, Actor_Properties: actors, their tokens and claims, and the roles of the engine.
    Auth_Middleware: tokens, keys and session states. Storage_Path: object paths and media types.
    Rate_Limit, Rate_Limit_Properties: every limiter of the middleware; how many requests a window lets through, with
    the limiters as instances of the locales \<open>plainLimit\<close> and \<open>repairingLimit\<close>.

  Data access in the API server (src/apps/api/src/modules/data-access).
    Data_Access_Policy, Data_Access_Inspection, Inspection_Properties, Access_Soundness: a policy becomes
    permissions, permissions are read back, and a table reported as managed admits exactly what the
    reported policy means (locale \<open>permission_engine\<close> for the engine that enforces them, with an evaluator of its
    documented rules as its instance).
    Managed_Policy, Managed_Properties: baselines, digests, the states an interrupted operation can be recovered from,
    reconciliation and grant extensions.
    Access_World, Mutation_Lock, Policy_Repository, Metadata_Bulk, Policy_Operation, Policy_Service,
    Policy_Requests: the operations on a policy, with the rows they keep, the advisory locks and the requests to the
    engine. Metadata_Laws states what the engine documents; Policy_Logic, Policy_Safety, Policy_Recovery and
    Policy_Liveness show that an application and its recovery are all or nothing and that recoveries end;
    Lock_Properties shows mutual exclusion over every interleaving of lock statements (\<open>lockStep\<close>, \<open>lockReach\<close>).
    Projection_Contract, Projection_Metadata, Projection_Snapshot, Projection_Properties, Projection_Apply,
    Projection_Digest: contracts of authorization projections, their metadata, their dependencies and digests.
    Migration_Inspection, Migration_Plan, Migration_Verifier: what the permissions of the historical roles \<open>user\<close> and
    \<open>anonymous\<close> amount to as policies, the snapshot and the plan of a project, and the checks of the metadata, of the
    visible roots and of realtime connections. Migration_Service, Migration_Operations, Migration_Flow: the rows with
    the trigger and the indexes of their table, the commands between two snapshots, and preview, apply, recovery and
    rollback. Migration_Safety: a plan grants nothing new and accounts for what it removes. Migration_Diff: the
    commands reach their target; plans whose application cannot succeed. Migration_Logic, Migration_Outcome and
    Migration_Recovery: wherever an operation stops, nothing has changed, or a recovery is owed, or the migration is
    settled. Migration_Demo is a small project for the witnesses.

  Bounds. Two loops run on fuel: the polling of the health checks (\<open>pollLoop\<close>), with two more
  than the milliseconds of its timeout, and the wait of the finalizer (\<open>healthyLoop\<close>), with one more. Both clocks advance in every round, so the
  outcome \<open>Diverged\<close> that stands for lack of fuel never occurs: \<open>updater_terminates\<close> and
  \<open>finalizer_closes_status\<close> show it. Every other loop is structural recursion or a \<open>function\<close> with a measure.

  What is not modelled. The React administration interface, dashboards, backups of databases and the
  command line are presentation or glue without core logic. The SQL that tables, schemas and data services
  send runs in the database of a project. Functions run in a Deno worker and realtime sessions in external
  libraries. Sign-in flows, account deletion, device wipes and the object storage service are planned and not
  begun, except for the path, token, session and rate limit logic above. Of PostgreSQL only what a statement
  documents is modelled: its rows, unique indexes, checks and triggers where a proof needs them. The
  catalog queries behind projections are represented by their rows, and the schema of a project is constant
  during an operation. The lock around a migration is represented by its refusal and by the other unfinished
  migrations of the project; Mutation_Lock has it in full.
\<close>

end
